(* ===== verification/Prelude.thy ===== *)
theory Prelude
  imports Complex_Main "HOL-Library.Sublist"
begin

text \<open>
  Shared ground of the development.  JavaScript values as they travel over the sockets
  (\<open>json\<close>), property access on them, decimal rendering of whole numbers as template
  literals and \<open>String(..)\<close> do it, \<open>String.prototype.split\<close> and
  \<open>Array.prototype.join\<close>, and the lemma collections the component proofs use.

  Numbers of the program are finite here: a JavaScript number that is not \<open>NaN\<close> or
  infinite is modelled by the rational it denotes.  The one place where the code
  itself stores \<open>Infinity\<close> (the default of \<open>maxAttempts\<close>) has its own type.
\<close>

named_theorems js_simps \<open>evaluation of JavaScript runtime operations\<close>
named_theorems client_simps \<open>frame equations of the client's state updates\<close>
named_theorems store_simps \<open>evaluation of the printer store's operations\<close>

section \<open>JavaScript values\<close>

datatype json =
    JUndefined
  | JNull
  | JBool bool
  | JNum rat
  | JStr string
  | JArr "json list"
  | JObj "(string \<times> json) list"

text \<open>\<open>v.p\<close> on an object; a property that is not there reads as \<open>undefined\<close>.
  Primitive values and arrays have none of the properties the program asks for.
  The caller handles \<open>null\<close> and \<open>undefined\<close>, on which the access throws.\<close>

fun jget :: "json \<Rightarrow> string \<Rightarrow> json" where
  "jget (JObj ps) p = (case map_of ps p of None \<Rightarrow> JUndefined | Some v \<Rightarrow> v)"
| "jget _ p = JUndefined"

definition nullish :: "json \<Rightarrow> bool" where
  "nullish v = (v = JNull \<or> v = JUndefined)"

lemma nullish_simps [simp, js_simps]:
  "nullish JNull" "nullish JUndefined" "\<not> nullish (JBool b)" "\<not> nullish (JNum n)"
  "\<not> nullish (JStr s)" "\<not> nullish (JArr xs)" "\<not> nullish (JObj ps)"
  by (simp_all add: nullish_def)

text \<open>JavaScript's truth of a value, as in \<open>if (v)\<close>.\<close>

fun truthy :: "json \<Rightarrow> bool" where
  "truthy JUndefined = False"
| "truthy JNull = False"
| "truthy (JBool x) = x"
| "truthy (JNum n) = (n \<noteq> 0)"
| "truthy (JStr s) = (s \<noteq> [])"
| "truthy (JArr xs) = True"
| "truthy (JObj ps) = True"

text \<open>\<open>v ?? null\<close> for an optional argument.\<close>

definition orNull :: "('a \<Rightarrow> json) \<Rightarrow> 'a option \<Rightarrow> json" where
  "orNull f x = (case x of None \<Rightarrow> JNull | Some a \<Rightarrow> f a)"

lemma orNull_simps [simp]: "orNull f None = JNull" "orNull f (Some a) = f a"
  by (simp_all add: orNull_def)

section \<open>Decimal numerals\<close>

definition digit_char :: "nat \<Rightarrow> char" where
  "digit_char d = char_of (48 + d)"

definition char_digit :: "char \<Rightarrow> nat option" where
  "char_digit c = (let n = of_char c :: nat in if 48 \<le> n \<and> n \<le> 57 then Some (n - 48) else None)"

lemma char_digit_digit_char [simp]: "d < 10 \<Longrightarrow> char_digit (digit_char d) = Some d"
  by (simp add: char_digit_def digit_char_def of_char_of Let_def)

fun show_nat :: "nat \<Rightarrow> string" where
  "show_nat n = (if n < 10 then [digit_char n] else show_nat (n div 10) @ [digit_char (n mod 10)])"

declare show_nat.simps [simp del]

definition show_int :: "int \<Rightarrow> string" where
  "show_int i = (if i < 0 then CHR ''-'' # show_nat (nat (- i)) else show_nat (nat i))"

text \<open>Reading a numeral back: the longest run of digits, with the rest of the text.\<close>

fun read_digits :: "nat \<Rightarrow> string \<Rightarrow> nat \<times> string" where
  "read_digits acc [] = (acc, [])"
| "read_digits acc (c # cs) =
     (case char_digit c of None \<Rightarrow> (acc, c # cs) | Some d \<Rightarrow> read_digits (10 * acc + d) cs)"

definition all_digits :: "string \<Rightarrow> bool" where
  "all_digits s = list_all (\<lambda>c. char_digit c \<noteq> None) s"

lemma all_digits_show_nat [simp]: "all_digits (show_nat n)"
proof (induction n rule: show_nat.induct)
  case (1 n)
  then show ?case
    by (subst show_nat.simps) (auto simp: all_digits_def)
qed

lemma show_nat_nonempty [simp]: "show_nat n \<noteq> []"
  by (subst show_nat.simps) simp

lemma read_digits_append:
  "all_digits xs \<Longrightarrow> read_digits a (xs @ ys) = read_digits (fst (read_digits a xs)) ys"
  by (induction xs arbitrary: a) (auto simp: all_digits_def)

lemma read_digits_show_nat_exact: "read_digits 0 (show_nat n) = (n, [])"
proof (induction n rule: show_nat.induct)
  case (1 n)
  show ?case
  proof (cases "n < 10")
    case True
    then show ?thesis by (subst show_nat.simps) simp
  next
    case False
    with 1 have "read_digits 0 (show_nat (n div 10)) = (n div 10, [])" by simp
    with False show ?thesis by (subst show_nat.simps) (simp add: read_digits_append)
  qed
qed

lemma read_digits_show_nat:
  assumes "rest = [] \<or> char_digit (hd rest) = None"
  shows "read_digits 0 (show_nat n @ rest) = (n, rest)"
proof -
  have "read_digits 0 (show_nat n @ rest) = read_digits n rest"
    using read_digits_append [OF all_digits_show_nat, of 0 n rest]
    by (simp only: read_digits_show_nat_exact fst_conv)
  also have "\<dots> = (n, rest)"
  proof (cases rest)
    case (Cons c cs)
    with assms have "char_digit c = None" by simp
    with Cons show ?thesis by simp
  qed simp
  finally show ?thesis .
qed

lemma show_nat_inject [simp]: "show_nat m = show_nat n \<longleftrightarrow> m = n"
  by (metis fst_conv read_digits_show_nat_exact)

lemma inj_show_nat: "inj show_nat"
  by (rule injI) simp

section \<open>Strings\<close>

text \<open>\<open>xs.join(sep)\<close> and \<open>s.split(sep)\<close> for a separator that is not empty.  The
  scan keeps the characters of the current piece, newest first.\<close>

fun js_join :: "string \<Rightarrow> string list \<Rightarrow> string" where
  "js_join sep [] = []"
| "js_join sep [x] = x"
| "js_join sep (x # y # ys) = x @ sep @ js_join sep (y # ys)"

function js_split_from :: "string \<Rightarrow> string \<Rightarrow> string \<Rightarrow> string list" where
  "js_split_from sep cur [] = [rev cur]"
| "js_split_from sep cur (c # cs) =
     (if prefix sep (c # cs) then rev cur # js_split_from sep [] (drop (length sep - 1) cs)
      else js_split_from sep (c # cur) cs)"
  by pat_completeness auto
termination
  by (relation "measure (\<lambda>(sep, cur, s). length s)") auto

definition js_split :: "string \<Rightarrow> string \<Rightarrow> string list" where
  "js_split sep s = js_split_from sep [] s"

lemma js_split_from_piece:
  "d \<notin> set x \<Longrightarrow> js_split_from (d # ds) cur (x @ (d # ds) @ ys)
     = (rev cur @ x) # js_split_from (d # ds) [] ys"
  by (induction x arbitrary: cur) auto

lemma js_split_from_last:
  "d \<notin> set x \<Longrightarrow> js_split_from (d # ds) cur x = [rev cur @ x]"
  by (induction x arbitrary: cur) auto

text \<open>Splitting undoes joining when no piece holds the separator's first character.\<close>

lemma js_split_join:
  assumes "xs \<noteq> []" and "\<forall>x \<in> set xs. d \<notin> set x"
  shows "js_split (d # ds) (js_join (d # ds) xs) = xs"
  unfolding js_split_def using assms
proof (induction "d # ds" xs rule: js_join.induct)
  case (3 x y ys)
  then show ?case
    using js_split_from_piece [of d x ds "[]" "js_join (d # ds) (y # ys)"] by simp
qed (simp_all add: js_split_from_last)

lemma js_split_from_nonempty [simp]: "js_split_from sep cur s \<noteq> []"
  by (induction sep cur s rule: js_split_from.induct) auto

lemma js_split_nonempty [simp]: "js_split sep s \<noteq> []"
  by (simp add: js_split_def)

text \<open>\<open>s.split(sep).pop()\<close>, the last piece.\<close>

definition js_split_last :: "string \<Rightarrow> string \<Rightarrow> string" where
  "js_split_last sep s = last (js_split sep s)"

section \<open>Numbers\<close>

text \<open>\<open>Math.round\<close>: to the nearest integer, halves upwards.\<close>

definition js_round :: "rat \<Rightarrow> int" where
  "js_round x = \<lfloor>x + 1 / 2\<rfloor>"

text \<open>A decimal numeral with an optional sign and fraction; an empty text counts as zero.\<close>

definition read_unsigned :: "string \<Rightarrow> rat option" where
  "read_unsigned t =
     (let (i, r) = read_digits 0 t in
      case r of
        [] \<Rightarrow> Some (of_nat i)
      | c # cs \<Rightarrow> if c = CHR ''.'' \<and> all_digits cs \<and> length t \<noteq> 1
                 then Some (of_nat i + of_nat (fst (read_digits 0 cs)) / 10 ^ length cs) else None)"

definition read_decimal :: "string \<Rightarrow> rat option" where
  "read_decimal t =
     (case t of
        c # cs \<Rightarrow> if c = CHR ''-'' then (if cs = [] then None else map_option uminus (read_unsigned cs))
                 else read_unsigned t
      | [] \<Rightarrow> Some 0)"

text \<open>\<open>Number(v)\<close> and unary plus: \<open>None\<close> is \<open>NaN\<close>.  Texts are read as decimal numerals;
  the exponents, other bases and blanks JavaScript also reads do not occur.\<close>

fun to_number :: "json \<Rightarrow> rat option" where
  "to_number (JNum q) = Some q"
| "to_number (JBool b) = Some (of_bool b)"
| "to_number JNull = Some 0"
| "to_number (JStr t) = read_decimal t"
| "to_number _ = None"

text \<open>\<open>v == k\<close> for a number \<open>k\<close>: \<open>null\<close> equals no number.\<close>

fun eq_num :: "json \<Rightarrow> rat \<Rightarrow> bool" where
  "eq_num JNull k = False"
| "eq_num v k = (to_number v = Some k)"

text \<open>A number as \<open>JSON.stringify\<close> writes it.\<close>

definition json_number :: "rat option \<Rightarrow> json" where
  "json_number x = (case x of None \<Rightarrow> JNull | Some q \<Rightarrow> JNum q)"

section \<open>Sockets\<close>

text \<open>\<open>readyState\<close> of a WebSocket.\<close>

datatype ready = CONNECTING | OPEN | CLOSING | CLOSED

end
