(* ===== verification/JsMap.thy ===== *)
theory JsMap
  imports Prelude
begin

text \<open>
  ECMAScript's \<open>Map\<close> and \<open>Set\<close>, as the language defines them: a list of entries in
  insertion order, where \<open>delete\<close> and \<open>clear\<close> leave an empty entry behind and an
  iterator is an index into the list.  This is what makes a loop over a map see the
  entries added while it runs and skip the ones deleted.  The locale \<open>keyed_store\<close> is
  the interface the components rely on; the tombstone list is interpreted as one.
\<close>

type_synonym ('k, 'v) jsmap = "('k \<times> 'v) option list"

type_synonym 'a jsset = "('a, unit) jsmap"

fun jm_get :: "('k, 'v) jsmap \<Rightarrow> 'k \<Rightarrow> 'v option" where
  "jm_get [] k = None"
| "jm_get (None # m) k = jm_get m k"
| "jm_get (Some (k', v) # m) k = (if k' = k then Some v else jm_get m k)"

fun jm_set :: "'k \<Rightarrow> 'v \<Rightarrow> ('k, 'v) jsmap \<Rightarrow> ('k, 'v) jsmap" where
  "jm_set k v [] = [Some (k, v)]"
| "jm_set k v (None # m) = None # jm_set k v m"
| "jm_set k v (Some (k', v') # m) =
     (if k' = k then Some (k, v) # m else Some (k', v') # jm_set k v m)"

fun jm_delete :: "'k \<Rightarrow> ('k, 'v) jsmap \<Rightarrow> ('k, 'v) jsmap" where
  "jm_delete k [] = []"
| "jm_delete k (None # m) = None # jm_delete k m"
| "jm_delete k (Some (k', v) # m) =
     (if k' = k then None # m else Some (k', v) # jm_delete k m)"

definition jm_clear :: "('k, 'v) jsmap \<Rightarrow> ('k, 'v) jsmap" where
  "jm_clear m = map (\<lambda>_. None) m"

definition jm_has :: "('k, 'v) jsmap \<Rightarrow> 'k \<Rightarrow> bool" where
  "jm_has m k = (jm_get m k \<noteq> None)"

fun jm_entries :: "('k, 'v) jsmap \<Rightarrow> ('k \<times> 'v) list" where
  "jm_entries [] = []"
| "jm_entries (None # m) = jm_entries m"
| "jm_entries (Some e # m) = e # jm_entries m"

definition jm_keys :: "('k, 'v) jsmap \<Rightarrow> 'k list" where
  "jm_keys m = map fst (jm_entries m)"

definition jm_wf :: "('k, 'v) jsmap \<Rightarrow> bool" where
  "jm_wf m = distinct (jm_keys m)"

text \<open>One step of an iterator at index \<open>i\<close>: the first entry at or after \<open>i\<close> that
  is not empty, with its index.\<close>

fun jm_scan :: "nat \<Rightarrow> ('k, 'v) jsmap \<Rightarrow> (nat \<times> 'k \<times> 'v) option" where
  "jm_scan i [] = None"
| "jm_scan i (None # m) = jm_scan (Suc i) m"
| "jm_scan i (Some (k, v) # m) = Some (i, k, v)"

definition jm_next :: "('k, 'v) jsmap \<Rightarrow> nat \<Rightarrow> (nat \<times> 'k \<times> 'v) option" where
  "jm_next m i = jm_scan i (drop i m)"

section \<open>The interface\<close>

locale keyed_store =
  fixes get :: "'m \<Rightarrow> 'k \<Rightarrow> 'v option"
    and put :: "'k \<Rightarrow> 'v \<Rightarrow> 'm \<Rightarrow> 'm"
    and del :: "'k \<Rightarrow> 'm \<Rightarrow> 'm"
    and wiped :: "'m \<Rightarrow> 'm"
    and ok :: "'m \<Rightarrow> bool"
  assumes get_put: "ok m \<Longrightarrow> get (put k v m) k' = (if k = k' then Some v else get m k')"
    and get_del: "ok m \<Longrightarrow> get (del k m) k' = (if k = k' then None else get m k')"
    and get_wiped: "get (wiped m) k = None"
    and ok_put: "ok m \<Longrightarrow> ok (put k v m)"
    and ok_del: "ok m \<Longrightarrow> ok (del k m)"
    and ok_wiped: "ok m \<Longrightarrow> ok (wiped m)"
begin

lemma get_put_same: "ok m \<Longrightarrow> get (put k v m) k = Some v"
  by (simp add: get_put)

lemma get_del_put: "ok m \<Longrightarrow> get (del k (put k v m)) k' = get (del k m) k'"
  by (simp add: get_put get_del ok_put)

lemma get_del_fresh: "ok m \<Longrightarrow> get m k = None \<Longrightarrow> get (del k (put k v m)) k' = get m k'"
  by (auto simp add: get_put get_del ok_put)

text \<open>What is stored after a put or a delete was stored before, or is the new value.\<close>

lemma range_put: "ok m \<Longrightarrow> get (put k v m) k' = Some w \<Longrightarrow> w = v \<or> get m k' = Some w"
  by (simp add: get_put split: if_splits)

lemma range_del: "ok m \<Longrightarrow> get (del k m) k' = Some w \<Longrightarrow> k' \<noteq> k \<and> get m k' = Some w"
  by (simp add: get_del split: if_splits)

text \<open>A property of all stored values is kept by putting a value that has it.\<close>

lemma all_put:
  "ok m \<Longrightarrow> (\<And>k w. get m k = Some w \<Longrightarrow> P k w) \<Longrightarrow> P k v
     \<Longrightarrow> get (put k v m) k' = Some w \<Longrightarrow> P k' w"
  by (simp add: get_put split: if_splits)

end

section \<open>The tombstone list implements it\<close>

lemma jm_get_set [js_simps]: "jm_get (jm_set k v m) k' = (if k = k' then Some v else jm_get m k')"
  by (induction k v m rule: jm_set.induct) auto

lemma jm_keys_simps [simp]:
  "jm_keys [] = []" "jm_keys (None # m) = jm_keys m" "jm_keys (Some (k, v) # m) = k # jm_keys m"
  by (simp_all add: jm_keys_def)

lemma jm_keys_set: "jm_keys (jm_set k v m) = (if k \<in> set (jm_keys m) then jm_keys m else jm_keys m @ [k])"
  by (induction k v m rule: jm_set.induct) auto

lemma jm_keys_delete: "jm_keys (jm_delete k m) = remove1 k (jm_keys m)"
  by (induction k m rule: jm_delete.induct) auto

lemma jm_keys_clear [simp]: "jm_keys (jm_clear m) = []"
  by (induction m) (auto simp: jm_clear_def)

lemma jm_entries_clear [simp]: "jm_entries (jm_clear m) = []"
  by (induction m) (auto simp: jm_clear_def)

lemma jm_get_None_iff: "jm_get m k = None \<longleftrightarrow> k \<notin> set (jm_keys m)"
  by (induction m k rule: jm_get.induct) auto

lemma jm_get_Some_entry: "jm_get m k = Some v \<Longrightarrow> (k, v) \<in> set (jm_entries m)"
  by (induction m k rule: jm_get.induct) (auto split: if_splits)

lemma jm_entry_key: "(k, v) \<in> set (jm_entries m) \<Longrightarrow> k \<in> set (jm_keys m)"
  by (force simp: jm_keys_def)

lemma jm_wf_simps [simp]:
  "jm_wf []" "jm_wf (None # m) = jm_wf m"
  "jm_wf (Some (k, v) # m) = (k \<notin> set (jm_keys m) \<and> jm_wf m)"
  by (simp_all add: jm_wf_def)

lemma jm_entry_get: "jm_wf m \<Longrightarrow> (k, v) \<in> set (jm_entries m) \<Longrightarrow> jm_get m k = Some v"
  by (induction m k rule: jm_get.induct) (auto dest: jm_entry_key)

lemma jm_get_delete [js_simps]:
  "jm_wf m \<Longrightarrow> jm_get (jm_delete k m) k' = (if k = k' then None else jm_get m k')"
  by (induction k m rule: jm_delete.induct) (auto simp: jm_get_None_iff)

lemma jm_get_clear [simp, js_simps]: "jm_get (jm_clear m) k = None"
  by (simp add: jm_get_None_iff)

lemma jm_wf_set [simp]: "jm_wf m \<Longrightarrow> jm_wf (jm_set k v m)"
  by (auto simp: jm_wf_def jm_keys_set)

lemma jm_wf_delete [simp]: "jm_wf m \<Longrightarrow> jm_wf (jm_delete k m)"
  by (auto simp: jm_wf_def jm_keys_delete)

lemma jm_wf_clear [simp]: "jm_wf (jm_clear m)"
  by (simp add: jm_wf_def)

interpretation jm: keyed_store jm_get jm_set jm_delete jm_clear jm_wf
  by unfold_locales (auto simp: js_simps)

section \<open>Iteration\<close>

lemma jm_scan_ge: "jm_scan i m = Some (j, k, v) \<Longrightarrow> i \<le> j"
  by (induction i m rule: jm_scan.induct) auto

lemma jm_scan_nth: "jm_scan i m = Some (j, k, v) \<Longrightarrow> j < i + length m \<and> m ! (j - i) = Some (k, v)"
proof (induction i m rule: jm_scan.induct)
  case (2 i m)
  then have "Suc i \<le> j" by (auto dest: jm_scan_ge)
  with 2 show ?case by (auto simp: nth_Cons' Suc_diff_le)
qed auto

lemma jm_next_ge: "jm_next m i = Some (j, k, v) \<Longrightarrow> i \<le> j"
  unfolding jm_next_def by (rule jm_scan_ge)

lemma jm_next_nth: "jm_next m i = Some (j, k, v) \<Longrightarrow> j < length m \<and> m ! j = Some (k, v)"
  unfolding jm_next_def using jm_scan_ge jm_scan_nth [of i "drop i m" j k v]
  by (cases "i \<le> length m") fastforce+

lemma jm_nth_entry: "j < length m \<Longrightarrow> m ! j = Some (k, v) \<Longrightarrow> (k, v) \<in> set (jm_entries m)"
proof (induction m arbitrary: j)
  case (Cons e m)
  then show ?case by (cases e; cases j) auto
qed simp

lemma jm_next_get: "jm_wf m \<Longrightarrow> jm_next m i = Some (j, k, v) \<Longrightarrow> jm_get m k = Some v"
  using jm_next_nth jm_nth_entry jm_entry_get by metis

text \<open>Following the iterator from index \<open>i\<close> visits the live entries from there on.\<close>

lemma jm_scan_entries:
  "jm_entries m = (case jm_scan i m of None \<Rightarrow> []
     | Some (j, k, v) \<Rightarrow> (k, v) # jm_entries (drop (Suc j - i) m))"
proof (induction i m rule: jm_scan.induct)
  case (2 i m)
  show ?case
  proof (cases "jm_scan (Suc i) m")
    case (Some e)
    then obtain j k v where e: "jm_scan (Suc i) m = Some (j, k, v)" by (cases e) auto
    then have "Suc i \<le> j" by (rule jm_scan_ge)
    then have "Suc j - i = Suc (Suc j - Suc i)" by simp
    with 2 e show ?thesis by simp
  qed (use 2 in simp)
qed auto

lemma jm_next_entries:
  "jm_entries (drop i m) = (case jm_next m i of None \<Rightarrow> []
     | Some (j, k, v) \<Rightarrow> (k, v) # jm_entries (drop (Suc j) m))"
proof (cases "jm_next m i")
  case None
  then show ?thesis using jm_scan_entries [of "drop i m" i] by (simp add: jm_next_def)
next
  case (Some e)
  then obtain j k v where e: "jm_next m i = Some (j, k, v)" by (cases e) auto
  then have "Suc j - i + i = Suc j" using jm_next_ge [of m i j k v] by simp
  then show ?thesis
    using e jm_scan_entries [of "drop i m" i] by (simp add: jm_next_def)
qed

end
