(* ===== verification/MachineTypes.thy ===== *)
theory MachineTypes
  imports Prelude
begin

text \<open>
  The data of \<open>Connect3Dp.JS/src/types/state.ts\<close>, one record per interface, and the
  JSON objects that \<open>JSON.stringify\<close> makes of the ones a client sends.  A property
  declared \<open>p?: T | null\<close> has type \<open>T optnull\<close>: absent, \<open>null\<close> or a value;
  \<open>T | null\<close> without the question mark is an option.  The string unions that end in
  \<open>(string & {})\<close> admit every string and are strings.  An object indexed by a
  number or a name is an association list.
\<close>

type_synonym 'a optnull = "'a option option"

definition opt_prop :: "string \<Rightarrow> ('a \<Rightarrow> json) \<Rightarrow> 'a optnull \<Rightarrow> (string \<times> json) list" where
  "opt_prop p f v = (case v of None \<Rightarrow> [] | Some x \<Rightarrow> [(p, orNull f x)])"

lemma opt_prop_simps [simp]:
  "opt_prop p f None = []" "opt_prop p f (Some x) = [(p, orNull f x)]"
  by (simp_all add: opt_prop_def)

section \<open>Flags and capability strings\<close>

type_synonym MachineStatus = string

definition MachineStatusFlags :: "(string \<times> nat) list" where
  "MachineStatusFlags =
     [(''Disconnected'', 0), (''Connecting'', 1), (''Idle'', 2), (''Printing'', 4),
      (''Printed'', 8), (''Paused'', 16), (''Canceled'', 32)]"

type_synonym MachineCapabilities = string

definition MachineCapabilityFlags :: "string list" where
  "MachineCapabilityFlags =
     [''None'', ''StartLocalJob'', ''Control'', ''Camera'', ''Lighting'', ''PrintHistory'',
      ''LocalJobs'', ''Temps'', ''Fans'', ''Nozzles'', ''AirDuct'',
      ''Print_Options_BedLevel'', ''Print_Options_FlowCalibration'',
      ''Print_Options_VibrationCalibration'', ''Print_Options_InspectFirstLayer'',
      ''PrintSpeedControl'']"

definition hasCapability :: "MachineCapabilities \<Rightarrow> string \<Rightarrow> bool" where
  "hasCapability capabilities flag = List.member (js_split '', '' capabilities) flag"

type_synonym MachineAirDuctMode = string
type_synonym MachineMessageSeverity = string
type_synonym MachineMessageActions = string
type_synonym MUCapabilities = string

definition MUCapabilityFlags :: "string list" where
  "MUCapabilityFlags =
     [''None'', ''AutomaticFeeding'', ''Heating'', ''Heating_CanSpin'', ''Humidity'',
      ''Temperature'', ''ModifyTray'', ''ModifyTray_CannotMaxGrams'']"

section \<open>Materials, spools and heads\<close>

record HeatingConstraints =
  minTempC :: rat
  maxTempC :: rat

record HeatingElement =
  tempC :: rat
  targetTempC :: rat
  constraints :: HeatingConstraints

record MaterialColor =
  "name" :: "string optnull"
  red :: rat  \<comment> \<open>\<open>r\<close>\<close>
  green :: rat  \<comment> \<open>\<open>g\<close>\<close>
  blue :: rat  \<comment> \<open>\<open>b\<close>\<close>

record Material =
  "name" :: string
  color :: MaterialColor
  fProfileIDX :: "string optnull"

record SpoolLocation =
  muid :: string
  slot :: nat

record Spool =
  "number" :: nat
  "material" :: Material
  gramsMaximum :: "rat optnull"
  gramsRemaining :: "rat optnull"

record MachineExtruder =
  "number" :: nat
  heatingConstraint :: HeatingConstraints
  tempC :: rat
  targetTempC :: "rat optnull"
  nozzleNumber :: "nat optnull"
  loadedSpool :: "SpoolLocation optnull"

record MachineNozzle =
  "number" :: nat
  diameter :: rat

section \<open>Messages, heating and material units\<close>

record MachineMessageAutoResolve =
  whenConnected :: "bool optnull"
  whenStatus :: "MachineStatus optnull"
  whenPrinting :: "bool optnull"

record MachineMessage =
  messageKey :: string  \<comment> \<open>\<open>id\<close>\<close>
  title :: string
  body :: string
  severity :: MachineMessageSeverity
  manualResolve :: MachineMessageActions
  autoResolve :: MachineMessageAutoResolve

record Notification =
  "message" :: MachineMessage
  issuedAt :: string
  lastSeenAt :: string

record HeatingJob =
  tempC :: rat
  duration :: string

record HeatingSettings =
  tempC :: rat
  duration :: string
  doSpin :: "bool optnull"

record HeatingSchedule =
  timing :: string
  settings :: HeatingSettings

record MUnit =
  unitKey :: string  \<comment> \<open>\<open>id\<close>\<close>
  capacity :: nat
  model :: "string optnull"
  capabilities :: MUCapabilities
  heatingConstraints :: "HeatingConstraints optnull"
  trays :: "(nat \<times> Spool) list"
  humidityPercent :: "rat optnull"
  temperatureC :: "rat optnull"
  heatingJob :: "HeatingJob optnull"
  heatingSchedule :: "HeatingSchedule list"

section \<open>Files and print jobs\<close>

record MachineFileHandle =
  machineID :: string
  uri :: string
  mime :: string
  hashSha256 :: string

record MaterialToPrint =
  "material" :: Material
  totalGramsUsed :: rat
  nozzleDiameter :: rat

record PrintOptions =
  customID :: "string optnull"
  levelBed :: bool
  flowCalibration :: bool
  vibrationCalibration :: bool
  inspectFirstLayer :: bool
  materialMap :: "(nat \<times> SpoolLocation) list optnull"

record PrintJob =
  "name" :: string
  customID :: "string optnull"
  percentageComplete :: rat
  remainingTime :: string
  totalTime :: string
  issue :: "MachineMessage optnull"
  thumbnail :: "MachineFileHandle optnull"
  "file" :: "MachineFileHandle optnull"
  subStage :: "string optnull"
  totalMaterialUsage :: "rat optnull"
  localPath :: "string optnull"
  spoolMaterialUsages :: "(string \<times> rat) list optnull"
  printSpeedPercent :: "rat optnull"

record HistoricPrintJob =
  "name" :: string
  isSuccess :: bool
  endedAt :: string
  elapsed :: string
  thumbnail :: "MachineFileHandle optnull"
  "file" :: "MachineFileHandle optnull"

record LocalPrintJob =
  "name" :: string
  "file" :: MachineFileHandle
  totalGramsUsed :: rat
  time :: string
  materialsToPrint :: "(nat \<times> MaterialToPrint) list"

record ScheduledPrint =
  timing :: string
  localJob :: LocalPrintJob
  "options" :: PrintOptions
  initialMapping :: "(string \<times> Material) list option"

section \<open>Cameras and the machine state\<close>

record CameraSpec =
  width :: "rat option"
  height :: "rat option"
  fps :: "rat option"

record CameraStream =
  whepUrl :: string
  hlsUrl :: "string option"
  cameraSpec :: "CameraSpec option"  \<comment> \<open>\<open>spec\<close>\<close>

record MachineStreamingURLs =
  glance :: "CameraStream option"
  full :: CameraStream

record PrintSpeedRange =
  minSpeed :: rat  \<comment> \<open>\<open>min\<close>\<close>
  maxSpeed :: rat  \<comment> \<open>\<open>max\<close>\<close>

record IMachineState =
  brand :: "string optnull"
  model :: "string optnull"
  nickname :: "string optnull"
  capabilities :: MachineCapabilities
  status :: MachineStatus
  currentJob :: "PrintJob optnull"
  jobHistory :: "HistoricPrintJob list"
  localJobs :: "LocalPrintJob list"
  scheduledPrints :: "ScheduledPrint list"
  extruders :: "(nat \<times> MachineExtruder) list"
  nozzles :: "(nat \<times> MachineNozzle) list"
  materialUnits :: "(string \<times> MUnit) list"
  airDuctMode :: MachineAirDuctMode
  fans :: "(string \<times> rat) list"
  lights :: "(string \<times> bool) list"
  heatingElements :: "(string \<times> HeatingElement) list"
  isLocalStorageScanning :: bool
  streamingURLs :: "MachineStreamingURLs optnull"
  speedRange :: "PrintSpeedRange optnull"
  speedPresets :: "(string \<times> rat) list"
  notifications :: "(string \<times> Notification) list"

record AtAGlanceJob =
  "name" :: string
  customID :: "string optnull"
  percentageComplete :: rat
  remainingTime :: string
  totalTime :: string
  issue :: "MachineMessage optnull"
  "file" :: "MachineFileHandle optnull"
  thumbnail :: "MachineFileHandle optnull"
  subStage :: "string optnull"
  totalMaterialUsage :: "rat optnull"

record AtAGlanceMachineState =
  status :: MachineStatus
  capabilities :: MachineCapabilities
  nickname :: "string optnull"
  currentJob :: "AtAGlanceJob optnull"

section \<open>JSON of the data a client sends\<close>

definition json_of_file_handle :: "MachineFileHandle \<Rightarrow> json" where
  "json_of_file_handle h = JObj
     [(''machineID'', JStr (machineID h)), (''uri'', JStr (uri h)), (''mime'', JStr (mime h)),
      (''hashSha256'', JStr (hashSha256 h))]"

definition json_of_color :: "MaterialColor \<Rightarrow> json" where
  "json_of_color c = JObj
     (opt_prop ''name'' JStr (MaterialColor.name c)
      @ [(''r'', JNum (red c)), (''g'', JNum (green c)), (''b'', JNum (blue c))])"

definition json_of_material :: "Material \<Rightarrow> json" where
  "json_of_material m = JObj
     ([(''name'', JStr (Material.name m)), (''color'', json_of_color (color m))]
      @ opt_prop ''fProfileIDX'' JStr (fProfileIDX m))"

definition json_of_spool_location :: "SpoolLocation \<Rightarrow> json" where
  "json_of_spool_location l = JObj [(''muid'', JStr (muid l)), (''slot'', JNum (of_nat (slot l)))]"

definition json_of_material_to_print :: "MaterialToPrint \<Rightarrow> json" where
  "json_of_material_to_print m = JObj
     [(''material'', json_of_material (MaterialToPrint.material m)),
      (''totalGramsUsed'', JNum (MaterialToPrint.totalGramsUsed m)),
      (''nozzleDiameter'', JNum (nozzleDiameter m))]"

text \<open>An object indexed by a number: the property names are the numbers' decimals.\<close>

definition json_of_record :: "('a \<Rightarrow> json) \<Rightarrow> (nat \<times> 'a) list \<Rightarrow> json" where
  "json_of_record f xs = JObj (map (\<lambda>(i, x). (show_nat i, f x)) xs)"

lemma jget_json_of_record:
  "jget (json_of_record f xs) (show_nat i) = (case map_of xs i of None \<Rightarrow> JUndefined | Some x \<Rightarrow> f x)"
  by (induction xs) (auto simp: json_of_record_def)

section \<open>Properties\<close>

text \<open>Capability strings list flags separated by a comma and a blank; a flag is present
  exactly when it is one of the listed ones, however its name overlaps another's.\<close>

lemma hasCapability_join:
  "fs \<noteq> [] \<Longrightarrow> \<forall>f \<in> set fs. CHR '','' \<notin> set f
     \<Longrightarrow> hasCapability (js_join '', '' fs) flag \<longleftrightarrow> flag \<in> set fs"
  by (simp add: hasCapability_def js_split_join [of fs "CHR '',''" "'' ''"])

lemma flag_names_have_no_comma:
  "\<forall>f \<in> set MachineCapabilityFlags. CHR '','' \<notin> set f"
  "\<forall>f \<in> set MUCapabilityFlags. CHR '','' \<notin> set f"
  by (simp_all add: MachineCapabilityFlags_def MUCapabilityFlags_def)

end
