(* ===== verification/Wire.thy ===== *)
theory Wire
  imports MachineTypes
begin

text \<open>
  The WebSocket protocol of \<open>Connect3Dp.JS/src/types\<close>: the two envelopes and the topic
  table (\<open>common.ts\<close>), the action payloads and results (\<open>actions.ts\<close>), and the
  configuration, file store and logging payloads.  Every payload has the JSON object the
  client puts into an envelope's \<open>Data\<close>.
\<close>

section \<open>Envelopes\<close>

record MessageToClient =
  messageID :: "string option"
  time :: string
  topic :: string
  "data" :: json

record MessageToServer =
  Action :: string
  ResponseMessageID :: "string option"
  Data :: json

definition json_of_envelope :: "MessageToServer \<Rightarrow> json" where
  "json_of_envelope e = JObj
     [(''Action'', JStr (Action e)), (''ResponseMessageID'', orNull JStr (ResponseMessageID e)),
      (''Data'', Data e)]"

section \<open>Topics\<close>

datatype Topic =
    Machine_Subscribe | Machine_Unsubscribe | Machine_MarkAsIdle | Machine_Pause
  | Machine_Resume | Machine_Stop | Machine_ToggleLight | Machine_SetFanSpeed
  | Machine_StartPrint | Machine_FindMatchingSpools | Machine_ChangeMaterial
  | Machine_SetPrintSpeed | Machine_StateUpdated string | Machine_Configurations_All
  | Logging_Subscribe | Logging_Unsubscribe | Logging_History | Logging_Logs
  | MachineFileStore_TotalUsage | MachineFileStore_MachineUsage

fun Topics :: "Topic \<Rightarrow> string" where
  "Topics Machine_Subscribe = ''machine/subscribe''"
| "Topics Machine_Unsubscribe = ''machine/unsubscribe''"
| "Topics Machine_MarkAsIdle = ''machine/markAsIdle''"
| "Topics Machine_Pause = ''machine/pause''"
| "Topics Machine_Resume = ''machine/resume''"
| "Topics Machine_Stop = ''machine/stop''"
| "Topics Machine_ToggleLight = ''machine/toggleLight''"
| "Topics Machine_SetFanSpeed = ''machine/setFanSpeed''"
| "Topics Machine_StartPrint = ''machine/startPrint''"
| "Topics Machine_FindMatchingSpools = ''machine/findMatchingSpools''"
| "Topics Machine_ChangeMaterial = ''machine/changeMaterial''"
| "Topics Machine_SetPrintSpeed = ''machine/setPrintSpeed''"
| "Topics (Machine_StateUpdated machineId) = ''machine/'' @ machineId @ ''/state''"
| "Topics Machine_Configurations_All = ''machine/configuration/all''"
| "Topics Logging_Subscribe = ''log/subscribe''"
| "Topics Logging_Unsubscribe = ''log/unsubscribe''"
| "Topics Logging_History = ''log/history''"
| "Topics Logging_Logs = ''logs''"
| "Topics MachineFileStore_TotalUsage = ''machineFileStore/totalUsage''"
| "Topics MachineFileStore_MachineUsage = ''machineFileStore/machineUsage''"

fun fixed_topic :: "Topic \<Rightarrow> bool" where
  "fixed_topic (Machine_StateUpdated m) = False"
| "fixed_topic _ = True"

text \<open>A machine's state topic ends in \<open>/state\<close>; no other topic of the table does, so
  a broadcast for one machine never reaches another topic's listeners.\<close>

lemma state_topic_suffix: "suffix ''/state'' (Topics t) \<longleftrightarrow> (\<exists>m. t = Machine_StateUpdated m)"
proof (cases t)
  case (Machine_StateUpdated m)
  then show ?thesis by (simp add: suffix_def)
qed (simp_all add: suffix_to_prefix)

lemma Topics_fixed_inj: "fixed_topic s \<Longrightarrow> fixed_topic t \<Longrightarrow> Topics s = Topics t \<Longrightarrow> s = t"
  by (cases s; cases t; simp)

lemma Topics_injective: "Topics s = Topics t \<Longrightarrow> s = t"
proof -
  assume eq: "Topics s = Topics t"
  show "s = t"
  proof (cases "fixed_topic s \<and> fixed_topic t")
    case True
    with eq show ?thesis by (blast intro: Topics_fixed_inj)
  next
    case False
    then have "suffix ''/state'' (Topics s) \<or> suffix ''/state'' (Topics t)"
      by (metis fixed_topic.elims(3) state_topic_suffix)
    then obtain m n where "s = Machine_StateUpdated m" "t = Machine_StateUpdated n"
      using eq state_topic_suffix by metis
    with eq show ?thesis by simp
  qed
qed

section \<open>Subscriptions and results\<close>

datatype StateDetails = NoDetails | AtAGlance | Full

fun StateDetails_text :: "StateDetails \<Rightarrow> string" where
  "StateDetails_text NoDetails = ''None''"
| "StateDetails_text AtAGlance = ''AtAGlance''"
| "StateDetails_text Full = ''Full''"

record WebSocketClientActionResult =
  isSuccess :: bool
  failureReason :: "string option"

record ClientMessageMachineOperationResult =
  isSuccess :: bool
  failureReason :: "string option"
  failureMessage :: "MachineMessage option"

record SubscribeActionResult =
  isSuccess :: bool
  failureReason :: "string option"
  fullState :: "IMachineState option"
  atAGlanceState :: "AtAGlanceMachineState option"

section \<open>Payloads of the actions\<close>

definition SubscribeToMachinePayload :: "string \<Rightarrow> StateDetails \<Rightarrow> json" where
  "SubscribeToMachinePayload machineId detail = JObj
     [(''MachineID'', JStr machineId), (''DetailOfState'', JStr (StateDetails_text detail))]"

definition UnsubscribeFromMachinePayload :: "string \<Rightarrow> json" where
  "UnsubscribeFromMachinePayload machineId = JObj [(''MachineID'', JStr machineId)]"

text \<open>\<open>MarkAsIdlePayload\<close>, \<open>PauseMachinePayload\<close>, \<open>ResumeMachinePayload\<close> and
  \<open>StopMachinePayload\<close> have the one property \<open>MachineID\<close>.\<close>

definition MachineIdPayload :: "string \<Rightarrow> json" where
  "MachineIdPayload machineId = JObj [(''MachineID'', JStr machineId)]"

definition ToggleLightMachinePayload :: "string \<Rightarrow> string \<Rightarrow> bool \<Rightarrow> json" where
  "ToggleLightMachinePayload machineId fixtureName isOn = JObj
     [(''MachineID'', JStr machineId), (''FixtureName'', JStr fixtureName), (''IsOn'', JBool isOn)]"

definition SetFanSpeedMachinePayload :: "string \<Rightarrow> string \<Rightarrow> rat \<Rightarrow> json" where
  "SetFanSpeedMachinePayload machineId fanName speedPercent = JObj
     [(''MachineID'', JStr machineId), (''FanName'', JStr fanName),
      (''SpeedPercent'', JNum speedPercent)]"

text \<open>The \<open>PrintOptions\<close> of \<open>actions.ts\<close>: the options a print is started with, with
  the server's property names (\<open>state.ts\<close> has another interface of this name).\<close>

record StartOptions =
  CustomID :: "string optnull"
  LevelBed :: bool
  FlowCalibration :: bool
  VibrationCalibration :: bool
  InspectFirstLayer :: bool
  MaterialMap :: "(nat \<times> string \<times> nat) list optnull"

definition json_of_start_options :: "StartOptions \<Rightarrow> json" where
  "json_of_start_options p = JObj
     (opt_prop ''CustomID'' JStr (CustomID p)
      @ [(''LevelBed'', JBool (LevelBed p)), (''FlowCalibration'', JBool (FlowCalibration p)),
         (''VibrationCalibration'', JBool (VibrationCalibration p)),
         (''InspectFirstLayer'', JBool (InspectFirstLayer p))]
      @ opt_prop ''MaterialMap''
          (json_of_record (\<lambda>(m, s). JObj [(''MUID'', JStr m), (''Slot'', JNum (of_nat s))]))
          (MaterialMap p))"

definition StartPrintPayload :: "string \<Rightarrow> MachineFileHandle \<Rightarrow> StartOptions \<Rightarrow> json" where
  "StartPrintPayload machineId f p = JObj
     [(''MachineID'', JStr machineId), (''File'', json_of_file_handle f),
      (''Options'', json_of_start_options p)]"

record SpoolMatch =
  location :: SpoolLocation
  materialInMatchedSpool :: Material
  deltaE :: rat

record ('k, 'v) Matches =
  allMatches :: "('k \<times> 'v list) list"  \<comment> \<open>\<open>all\<close>\<close>
  bestMatch :: "('k \<times> 'v) list"  \<comment> \<open>\<open>match\<close>\<close>
  missing :: "'k list"
  hasMissing :: bool

definition FindMatchingSpoolsPayload :: "string \<Rightarrow> (nat \<times> MaterialToPrint) list \<Rightarrow> json" where
  "FindMatchingSpoolsPayload machineId ms = JObj
     [(''MachineID'', JStr machineId), (''MaterialsToPrint'', json_of_record json_of_material_to_print ms)]"

definition ChangeMaterialPayload :: "string \<Rightarrow> SpoolLocation \<Rightarrow> Material \<Rightarrow> json" where
  "ChangeMaterialPayload machineId l m = JObj
     [(''MachineID'', JStr machineId), (''Location'', json_of_spool_location l),
      (''Material'', json_of_material m)]"

definition SetPrintSpeedPayload :: "string \<Rightarrow> rat \<Rightarrow> json" where
  "SetPrintSpeedPayload machineId speedPercent = JObj
     [(''MachineID'', JStr machineId), (''SpeedPercent'', JNum speedPercent)]"

section \<open>Logging, configuration and the file store\<close>

definition LogLevels :: "string list" where
  "LogLevels = [''Trace'', ''Debug'', ''Information'', ''Warning'', ''Error'', ''Critical'', ''None'']"

record LogEntry =
  level :: string
  category :: string
  "message" :: string
  exception :: json
  logTime :: string  \<comment> \<open>\<open>time\<close>\<close>

record LogHistoryParams =
  Max :: rat
  Before :: "string optnull"
  After :: "string optnull"
  MinLevel :: string

record LogHistoryResult =
  isSuccess :: bool
  failureReason :: "string option"
  entries :: "LogEntry list option"

record AllMachineConfigurationsResult =
  isSuccess :: bool
  failureReason :: "string option"
  configurations :: "(string \<times> json) list"

record StorageInfo =
  totalBytes :: nat
  fileCount :: nat
  oldestFileDate :: "string option"
  newestFileDate :: "string option"

record MachineFileStoreTotalUsageResult =
  isSuccess :: bool
  failureReason :: "string option"
  "usage" :: "StorageInfo option"

record MachineFileStoreMachineUsageResult =
  isSuccess :: bool
  failureReason :: "string option"
  "machineID" :: "string option"
  "usage" :: "StorageInfo option"

text \<open>\<open>params.Before ?? null\<close>: absent and \<open>null\<close> become \<open>null\<close>.\<close>

definition coalesceNull :: "string optnull \<Rightarrow> json" where
  "coalesceNull v = (case v of Some (Some s) \<Rightarrow> JStr s | _ \<Rightarrow> JNull)"

definition LogHistoryPayload :: "LogHistoryParams \<Rightarrow> json" where
  "LogHistoryPayload p = JObj
     [(''Max'', JNum (Max p)), (''Before'', coalesceNull (Before p)),
      (''After'', coalesceNull (After p)), (''MinLevel'', JStr (MinLevel p))]"

end
