(* ===== verification/ClientState.thy ===== *)
theory ClientState
  imports JsMap Wire
begin

text \<open>
  The state of a \<open>Connect3DpClient\<close> (\<open>Connect3Dp.JS/src/client.ts\<close>) and what its
  methods are built from: promises and the continuations that wait for them, timers,
  sockets, event handlers, and \<open>_request\<close>, \<open>_rejectAllPending\<close>, \<open>_openSocket\<close> and
  \<open>_handleMessage\<close>.

  A promise is a number.  \<open>promises\<close> holds its state, \<open>awaiters\<close> what continues
  when it settles; settling a promise puts that continuation on \<open>jobs\<close>, the microtask
  queue.  A timer is a number with the job it runs and the milliseconds it was set to.
  Handlers, sockets, timers, promises and reconnect loops are numbered from one
  counter, \<open>fresh\<close>.  What the outside can see is appended to \<open>out\<close>.
  The environment of a step (\<open>env\<close>) fixes the values the platform returns during it:
  the identifier \<open>generateId\<close> makes, \<open>Math.random\<close>, and whether the \<open>WebSocket\<close>
  constructor or \<open>send\<close> throws.
\<close>

section \<open>Options\<close>

text \<open>The number \<open>maxAttempts\<close> may be \<open>Infinity\<close>.\<close>

datatype attempts = Infinity | AtMost rat

record ReconnectOptions =
  enabled :: "bool option"
  initialDelayMs :: "rat option"
  maxDelayMs :: "rat option"
  maxAttempts :: "attempts option"

record Connect3DpClientOptions =
  requestTimeoutMs :: "rat option"
  controlRequestTimeoutMs :: "rat option"
  reconnect :: "ReconnectOptions option"

text \<open>\<open>_opts\<close>, with every default filled in.\<close>

record ResolvedReconnect =
  rc_enabled :: bool
  rc_initialDelayMs :: rat
  rc_maxDelayMs :: rat
  rc_maxAttempts :: attempts

record ResolvedOptions =
  ro_requestTimeoutMs :: rat
  ro_controlRequestTimeoutMs :: rat
  ro_reconnect :: ResolvedReconnect

definition withDefault :: "'a \<Rightarrow> 'a option \<Rightarrow> 'a" where
  "withDefault d x = (case x of None \<Rightarrow> d | Some v \<Rightarrow> v)"

lemma withDefault_simps [simp]: "withDefault d None = d" "withDefault d (Some v) = v"
  by (simp_all add: withDefault_def)

definition resolve_options :: "Connect3DpClientOptions \<Rightarrow> ResolvedOptions" where
  "resolve_options o1 = \<lparr>
     ro_requestTimeoutMs = withDefault 10000 (requestTimeoutMs o1),
     ro_controlRequestTimeoutMs = withDefault 35000 (controlRequestTimeoutMs o1),
     ro_reconnect = \<lparr>
       rc_enabled = withDefault True (Option.bind (reconnect o1) enabled),
       rc_initialDelayMs = withDefault 1000 (Option.bind (reconnect o1) initialDelayMs),
       rc_maxDelayMs = withDefault 30000 (Option.bind (reconnect o1) maxDelayMs),
       rc_maxAttempts = withDefault Infinity (Option.bind (reconnect o1) maxAttempts) \<rparr> \<rparr>"

fun below_attempts :: "nat \<Rightarrow> attempts \<Rightarrow> bool" where
  "below_attempts a Infinity = True"
| "below_attempts a (AtMost m) = (of_nat a < m)"

section \<open>Errors, events and effects\<close>

text \<open>The \<open>Error\<close> objects the client makes, by the message it gives them.\<close>

datatype client_error =
    WebSocketNotOpen string       \<comment> \<open>Cannot send ".." : WebSocket is not open\<close>
  | RequestTimedOut string rat    \<comment> \<open>Request ".." timed out after ..ms\<close>
  | ClientDisconnected            \<comment> \<open>Client disconnected\<close>
  | WebSocketClosed string        \<comment> \<open>WebSocket closed: ..\<close>
  | WebSocketErrored              \<comment> \<open>WebSocket error\<close>
  | FailedToParse string          \<comment> \<open>Failed to parse message: ..\<close>
  | Thrown string                 \<comment> \<open>what the platform threw\<close>
  | TypeErrorOnNull               \<comment> \<open>property access on null or undefined\<close>

datatype client_event =
    Connected
  | Disconnected string
  | Reconnecting nat int
  | Reconnected
  | ErrorEvent client_error
  | MessageEvent json

datatype event_name = OnConnected | OnDisconnected | OnReconnecting | OnReconnected | OnError | OnMessage

fun name_of_event :: "client_event \<Rightarrow> event_name" where
  "name_of_event Connected = OnConnected"
| "name_of_event (Disconnected reason) = OnDisconnected"
| "name_of_event (Reconnecting attempt delayMs) = OnReconnecting"
| "name_of_event Reconnected = OnReconnected"
| "name_of_event (ErrorEvent e) = OnError"
| "name_of_event (MessageEvent msg) = OnMessage"

text \<open>The closures \<open>onMachineState\<close> and \<open>onLogs\<close> register: each call makes a new one,
  told apart by the first number, around the caller's handler.\<close>

datatype topic_handler =
    StateHandler nat nat string
  | LogsHandler nat nat

datatype "effect" =
    Sent nat json
  | EventCall nat client_event
  | StateCall nat string json
  | LogsCall nat json
  | SocketCloseCalled nat
  | HttpPost string json
  | UncaughtTypeError

fun topic_effect :: "json \<Rightarrow> topic_handler \<Rightarrow> effect" where
  "topic_effect msg (StateHandler c h machineId) = StateCall h machineId (jget msg ''data'')"
| "topic_effect msg (LogsHandler c h) = LogsCall h (jget msg ''data'')"

section \<open>Promises, timers, sockets and loops\<close>

datatype settled = Pending | Fulfilled json | Rejected client_error

text \<open>Who holds the promise's \<open>resolve\<close> and \<open>reject\<close>.  The code has no such field: it
  is the closure that made the promise, recorded to state properties of it.\<close>

datatype origin = ByRequest | ByOpen | ByAsync

text \<open>The continuation of an \<open>await\<close>: the rest of \<open>subscribe\<close> or \<open>unsubscribe\<close>, with
  the promise the caller holds, or of a reconnect loop.\<close>

datatype awaiter =
    AwaitSubscribe string StateDetails nat
  | AwaitUnsubscribe string nat
  | AwaitLoopOpen nat
  | AwaitLoopResub nat

datatype job = Continue awaiter settled | Wake nat

datatype timer_job =
    RequestTimeout string string rat nat  \<comment> \<open>identifier, action, timeout, promise\<close>
  | SleepOver nat                         \<comment> \<open>reconnect loop\<close>

record socket =
  readyState :: ready
  openPromise :: nat
  closeFired :: bool

datatype loop_pc = Sleeping | Opening | Resubscribing nat

record loop =
  attempt :: nat
  delay :: rat
  pc :: loop_pc

record pending_entry =
  p_promise :: nat
  p_timer :: nat

record env =
  uuid :: string
  random :: rat
  ctorThrows :: "string option"
  sendThrows :: "string option"

record client =
  url :: string
  opts :: ResolvedOptions
  ws :: "nat option"
  intentionalClose :: bool
  pending :: "(string, pending_entry) jsmap"
  topicHandlers :: "(string, topic_handler jsset) jsmap"
  eventHandlers :: "(event_name, nat jsset) jsmap"
  subscriptions :: "(string, StateDetails) jsmap"
  sockets :: "nat \<Rightarrow> socket option"
  promises :: "nat \<Rightarrow> settled"
  origins :: "nat \<Rightarrow> origin option"
  awaiters :: "nat \<Rightarrow> awaiter option"
  timers :: "nat \<Rightarrow> (timer_job \<times> rat) option"
  loops :: "nat \<Rightarrow> loop option"
  jobs :: "job list"
  fresh :: nat
  out :: "effect list"

definition new_client :: "string \<Rightarrow> Connect3DpClientOptions \<Rightarrow> client" where
  "new_client u o1 = \<lparr>
     url = u, opts = resolve_options o1, ws = None, intentionalClose = False,
     pending = [], topicHandlers = [], eventHandlers = [], subscriptions = [],
     sockets = (\<lambda>_. None), promises = (\<lambda>_. Pending), origins = (\<lambda>_. None),
     awaiters = (\<lambda>_. None), timers = (\<lambda>_. None), loops = (\<lambda>_. None),
     jobs = [], fresh = 0, out = [] \<rparr>"

section \<open>Primitives\<close>

definition new_promise :: "origin \<Rightarrow> client \<Rightarrow> nat \<times> client" where
  "new_promise og s =
     (fresh s, s\<lparr>fresh := Suc (fresh s), promises := (promises s)(fresh s := Pending),
                 origins := (origins s)(fresh s := Some og)\<rparr>)"

text \<open>\<open>resolve(..)\<close> and \<open>reject(..)\<close>: only the first call of either has an effect.\<close>

definition settle :: "nat \<Rightarrow> settled \<Rightarrow> client \<Rightarrow> client" where
  "settle p v s =
     (if promises s p = Pending
      then s\<lparr>promises := (promises s)(p := v),
             jobs := jobs s @ (case awaiters s p of None \<Rightarrow> [] | Some a \<Rightarrow> [Continue a v])\<rparr>
      else s)"

definition await_promise :: "nat \<Rightarrow> awaiter \<Rightarrow> client \<Rightarrow> client" where
  "await_promise p a s =
     (if promises s p = Pending then s\<lparr>awaiters := (awaiters s)(p := Some a)\<rparr>
      else s\<lparr>jobs := jobs s @ [Continue a (promises s p)]\<rparr>)"

definition set_timer :: "timer_job \<Rightarrow> rat \<Rightarrow> client \<Rightarrow> client" where
  "set_timer j ms s =
     s\<lparr>timers := (timers s)(fresh s := Some (j, ms)), fresh := Suc (fresh s)\<rparr>"

definition clear_timer :: "nat \<Rightarrow> client \<Rightarrow> client" where
  "clear_timer t s = s\<lparr>timers := (timers s)(t := None)\<rparr>"

definition emit_out :: "effect list \<Rightarrow> client \<Rightarrow> client" where
  "emit_out es s = s\<lparr>out := out s @ es\<rparr>"

text \<open>\<open>_emit\<close>: the handlers of the event, in the order they were added.\<close>

definition emit :: "client_event \<Rightarrow> client \<Rightarrow> client" where
  "emit ev s = emit_out
     (case jm_get (eventHandlers s) (name_of_event ev) of
        None \<Rightarrow> [] | Some hs \<Rightarrow> map (\<lambda>h. EventCall h ev) (jm_keys hs)) s"

definition ws_open :: "client \<Rightarrow> nat option" where
  "ws_open s = (case ws s of None \<Rightarrow> None
     | Some w \<Rightarrow> (case sockets s w of None \<Rightarrow> None
         | Some k \<Rightarrow> if readyState k = OPEN then Some w else None))"

section \<open>Requests\<close>

definition envelope :: "string \<Rightarrow> string \<Rightarrow> json \<Rightarrow> json" where
  "envelope action correlationId d = json_of_envelope
     \<lparr>Action = action, ResponseMessageID = Some correlationId, Data = d\<rparr>"

text \<open>\<open>_request\<close>: the promise the caller gets, and the state after the call.\<close>

definition request :: "env \<Rightarrow> string \<Rightarrow> json \<Rightarrow> rat \<Rightarrow> client \<Rightarrow> nat \<times> client" where
  "request e action d timeoutMs s0 =
     (let (p, s) = new_promise ByRequest s0 in
      case ws_open s of
        None \<Rightarrow> (p, settle p (Rejected (WebSocketNotOpen action)) s)
      | Some w \<Rightarrow>
          let correlationId = uuid e;
              t = fresh s;
              s1 = set_timer (RequestTimeout correlationId action timeoutMs p) timeoutMs s;
              s2 = s1\<lparr>pending := jm_set correlationId \<lparr>p_promise = p, p_timer = t\<rparr> (pending s1)\<rparr>
          in case sendThrows e of
               None \<Rightarrow> (p, emit_out [Sent w (envelope action correlationId d)] s2)
             | Some m \<Rightarrow>
                 let s3 = clear_timer t s2;
                     s4 = s3\<lparr>pending := jm_delete correlationId (pending s3)\<rparr>
                 in (p, settle p (Rejected (Thrown m)) s4))"

fun reject_entries :: "client_error \<Rightarrow> (string \<times> pending_entry) list \<Rightarrow> client \<Rightarrow> client" where
  "reject_entries err [] s = s"
| "reject_entries err ((i, e) # es) s =
     reject_entries err es (settle (p_promise e) (Rejected err) (clear_timer (p_timer e) s))"

definition rejectAllPending :: "client_error \<Rightarrow> client \<Rightarrow> client" where
  "rejectAllPending err s =
     (let s1 = reject_entries err (jm_entries (pending s)) s
      in s1\<lparr>pending := jm_clear (pending s1)\<rparr>)"

text \<open>What a request's timer does when it fires.\<close>

definition request_timeout :: "string \<Rightarrow> string \<Rightarrow> rat \<Rightarrow> nat \<Rightarrow> client \<Rightarrow> client" where
  "request_timeout correlationId action timeoutMs p s =
     settle p (Rejected (RequestTimedOut action timeoutMs))
       (s\<lparr>pending := jm_delete correlationId (pending s)\<rparr>)"

section \<open>Incoming messages\<close>

definition broadcast :: "json \<Rightarrow> client \<Rightarrow> client" where
  "broadcast msg s =
     (case jget msg ''topic'' of
        JStr t \<Rightarrow> (case jm_get (topicHandlers s) t of
            None \<Rightarrow> s | Some hs \<Rightarrow> emit_out (map (topic_effect msg) (jm_keys hs)) s)
      | _ \<Rightarrow> s)"

definition find_pending :: "json \<Rightarrow> client \<Rightarrow> (string \<times> pending_entry) option" where
  "find_pending mid s =
     (case mid of JStr i \<Rightarrow> map_option (Pair i) (jm_get (pending s) i) | _ \<Rightarrow> None)"

text \<open>\<open>_handleMessage\<close>, for a \<open>JSON.parse\<close> that returns \<open>None\<close> where it throws.\<close>

definition handleMessage :: "(string \<Rightarrow> json option) \<Rightarrow> string \<Rightarrow> client \<Rightarrow> client" where
  "handleMessage parse raw s0 =
     (case parse raw of
        None \<Rightarrow> emit (ErrorEvent (FailedToParse raw)) s0
      | Some msg \<Rightarrow>
          let s = emit (MessageEvent msg) s0 in
          if nullish msg then emit_out [UncaughtTypeError] s
          else (case find_pending (jget msg ''messageID'') s of
                  Some (i, e) \<Rightarrow>
                    let s1 = clear_timer (p_timer e) s;
                        s2 = s1\<lparr>pending := jm_delete i (pending s1)\<rparr>
                    in settle (p_promise e) (Fulfilled (jget msg ''data'')) s2
                | None \<Rightarrow> broadcast msg s))"

section \<open>The socket and the reconnect loop\<close>

definition openSocket :: "env \<Rightarrow> client \<Rightarrow> nat \<times> client" where
  "openSocket e s0 =
     (let (p, s) = new_promise ByOpen s0 in
      case ctorThrows e of
        Some m \<Rightarrow> (p, settle p (Rejected (Thrown m)) s)
      | None \<Rightarrow>
          (p, s\<lparr>ws := Some (fresh s), fresh := Suc (fresh s),
                sockets := (sockets s)(fresh s :=
                  Some \<lparr>readyState = CONNECTING, openPromise = p, closeFired = False\<rparr>)\<rparr>))"

definition actual_delay :: "env \<Rightarrow> rat \<Rightarrow> rat \<Rightarrow> rat" where
  "actual_delay e d maxDelay = min (d + d * (1 / 5) * random e) maxDelay"

definition set_loop :: "nat \<Rightarrow> nat \<Rightarrow> rat \<Rightarrow> loop_pc \<Rightarrow> client \<Rightarrow> client" where
  "set_loop l a d q s = s\<lparr>loops := (loops s)(l := Some \<lparr>attempt = a, delay = d, pc = q\<rparr>)\<rparr>"

text \<open>The loop's function returns: it is gone with its variables.\<close>

definition end_loop :: "nat \<Rightarrow> client \<Rightarrow> client" where
  "end_loop l s = s\<lparr>loops := (loops s)(l := None)\<rparr>"

text \<open>The head of the \<open>while\<close>, up to \<open>await sleep(actualDelay)\<close>.\<close>

definition loop_head :: "env \<Rightarrow> nat \<Rightarrow> nat \<Rightarrow> rat \<Rightarrow> client \<Rightarrow> client" where
  "loop_head e l a d s =
     (let rc = ro_reconnect (opts s) in
      if below_attempts a (rc_maxAttempts rc) \<and> \<not> intentionalClose s then
        let a' = Suc a;
            actualDelay = actual_delay e d (rc_maxDelayMs rc);
            s1 = emit (Reconnecting a' (js_round actualDelay)) s
        in set_loop l a' d Sleeping (set_timer (SleepOver l) actualDelay s1)
      else end_loop l s)"

definition start_loop :: "env \<Rightarrow> client \<Rightarrow> client" where
  "start_loop e s =
     loop_head e (fresh s) 0 (rc_initialDelayMs (ro_reconnect (opts s))) (s\<lparr>fresh := Suc (fresh s)\<rparr>)"

text \<open>After the sleep: give up if the client was closed, else open a socket.\<close>

definition loop_wake :: "env \<Rightarrow> nat \<Rightarrow> client \<Rightarrow> client" where
  "loop_wake e l s =
     (case loops s l of
        None \<Rightarrow> s
      | Some lp \<Rightarrow>
          if intentionalClose s then end_loop l s
          else let (p, s1) = openSocket e (set_loop l (attempt lp) (delay lp) Opening s)
               in await_promise p (AwaitLoopOpen l) s1)"

text \<open>The loop over \<open>_subscriptions\<close>, from iterator index \<open>i\<close>.\<close>

definition loop_resubscribe :: "env \<Rightarrow> nat \<Rightarrow> nat \<Rightarrow> client \<Rightarrow> client" where
  "loop_resubscribe e l i s =
     (case loops s l of
        None \<Rightarrow> s
      | Some lp \<Rightarrow>
          (case jm_next (subscriptions s) i of
             None \<Rightarrow> end_loop l (emit Reconnected s)
           | Some (j, machineId, detail) \<Rightarrow>
               let (p, s1) = request e (Topics Machine_Subscribe)
                     (SubscribeToMachinePayload machineId detail) (ro_requestTimeoutMs (opts s))
                     (set_loop l (attempt lp) (delay lp) (Resubscribing (Suc j)) s)
               in await_promise p (AwaitLoopResub l) s1))"

definition loop_open_failed :: "env \<Rightarrow> nat \<Rightarrow> client \<Rightarrow> client" where
  "loop_open_failed e l s =
     (case loops s l of
        None \<Rightarrow> s
      | Some lp \<Rightarrow>
          loop_head e l (attempt lp) (min (delay lp * 2) (rc_maxDelayMs (ro_reconnect (opts s)))) s)"

end
