(* ===== verification/Client.thy ===== *)
theory Client
  imports ClientState
begin

text \<open>
  The public methods of \<open>Connect3DpClient\<close>, the callbacks of its sockets, and the
  client as a transition system: a step is a call, an event of the platform (a socket
  event, a timer that fires) or one microtask.  The platform delivers its events only
  when the microtask queue is empty; a call may come at any time.
\<close>

section \<open>Lifecycle and event handlers\<close>

definition connect :: "env \<Rightarrow> client \<Rightarrow> nat \<times> client" where
  "connect e s = openSocket e (s\<lparr>intentionalClose := False\<rparr>)"

text \<open>\<open>ws.close(..)\<close>: a socket that is not closed yet starts closing.\<close>

definition close_socket :: "nat \<Rightarrow> client \<Rightarrow> client" where
  "close_socket w s =
     (case sockets s w of
        None \<Rightarrow> s
      | Some k \<Rightarrow>
          emit_out [SocketCloseCalled w]
            (s\<lparr>sockets := (sockets s)(w := Some
                 (if readyState k = CLOSED then k else k\<lparr>readyState := CLOSING\<rparr>))\<rparr>))"

definition disconnect :: "client \<Rightarrow> client" where
  "disconnect s0 =
     (let s = s0\<lparr>intentionalClose := True\<rparr>;
          s1 = (case ws s of None \<Rightarrow> s | Some w \<Rightarrow> close_socket w s);
          s2 = s1\<lparr>ws := None\<rparr>
      in rejectAllPending ClientDisconnected s2)"

definition on :: "event_name \<Rightarrow> nat \<Rightarrow> client \<Rightarrow> client" where
  "on ev h s =
     (let s1 = (if jm_has (eventHandlers s) ev then s
                else s\<lparr>eventHandlers := jm_set ev [] (eventHandlers s)\<rparr>)
      in case jm_get (eventHandlers s1) ev of
           None \<Rightarrow> s1
         | Some hs \<Rightarrow> s1\<lparr>eventHandlers := jm_set ev (jm_set h () hs) (eventHandlers s1)\<rparr>)"

text \<open>The function \<open>on\<close> returns.\<close>

definition off :: "event_name \<Rightarrow> nat \<Rightarrow> client \<Rightarrow> client" where
  "off ev h s =
     (case jm_get (eventHandlers s) ev of
        None \<Rightarrow> s
      | Some hs \<Rightarrow> s\<lparr>eventHandlers := jm_set ev (jm_delete h hs) (eventHandlers s)\<rparr>)"

definition onTopic :: "string \<Rightarrow> topic_handler \<Rightarrow> client \<Rightarrow> client" where
  "onTopic t h s =
     (let s1 = (if jm_has (topicHandlers s) t then s
                else s\<lparr>topicHandlers := jm_set t [] (topicHandlers s)\<rparr>)
      in case jm_get (topicHandlers s1) t of
           None \<Rightarrow> s1
         | Some hs \<Rightarrow> s1\<lparr>topicHandlers := jm_set t (jm_set h () hs) (topicHandlers s1)\<rparr>)"

text \<open>The function \<open>_onTopic\<close> returns.\<close>

definition offTopic :: "string \<Rightarrow> topic_handler \<Rightarrow> client \<Rightarrow> client" where
  "offTopic t h s =
     (case jm_get (topicHandlers s) t of
        None \<Rightarrow> s
      | Some hs \<Rightarrow> s\<lparr>topicHandlers := jm_set t (jm_delete h hs) (topicHandlers s)\<rparr>)"

definition onMachineState :: "string \<Rightarrow> nat \<Rightarrow> client \<Rightarrow> client" where
  "onMachineState machineId h s =
     onTopic (Topics (Machine_StateUpdated machineId)) (StateHandler (fresh s) h machineId)
       (s\<lparr>fresh := Suc (fresh s)\<rparr>)"

definition onLogs :: "nat \<Rightarrow> client \<Rightarrow> client" where
  "onLogs h s =
     onTopic (Topics Logging_Logs) (LogsHandler (fresh s) h) (s\<lparr>fresh := Suc (fresh s)\<rparr>)"

section \<open>Requests of the interface\<close>

definition subscribe :: "env \<Rightarrow> string \<Rightarrow> StateDetails \<Rightarrow> client \<Rightarrow> nat \<times> client" where
  "subscribe e machineId detail s =
     (let (q, s1) = new_promise ByAsync s;
          (p, s2) = request e (Topics Machine_Subscribe)
            (SubscribeToMachinePayload machineId detail) (ro_requestTimeoutMs (opts s)) s1
      in (q, await_promise p (AwaitSubscribe machineId detail q) s2))"

definition unsubscribe :: "env \<Rightarrow> string \<Rightarrow> client \<Rightarrow> nat \<times> client" where
  "unsubscribe e machineId s =
     (let (q, s1) = new_promise ByAsync s;
          (p, s2) = request e (Topics Machine_Unsubscribe)
            (UnsubscribeFromMachinePayload machineId) (ro_requestTimeoutMs (opts s)) s1
      in (q, await_promise p (AwaitUnsubscribe machineId q) s2))"

definition pause :: "env \<Rightarrow> string \<Rightarrow> client \<Rightarrow> nat \<times> client" where
  "pause e machineId s =
     request e (Topics Machine_Pause) (MachineIdPayload machineId) (ro_controlRequestTimeoutMs (opts s)) s"

definition resume :: "env \<Rightarrow> string \<Rightarrow> client \<Rightarrow> nat \<times> client" where
  "resume e machineId s =
     request e (Topics Machine_Resume) (MachineIdPayload machineId) (ro_controlRequestTimeoutMs (opts s)) s"

definition stop :: "env \<Rightarrow> string \<Rightarrow> client \<Rightarrow> nat \<times> client" where
  "stop e machineId s =
     request e (Topics Machine_Stop) (MachineIdPayload machineId) (ro_controlRequestTimeoutMs (opts s)) s"

definition markAsIdle :: "env \<Rightarrow> string \<Rightarrow> client \<Rightarrow> nat \<times> client" where
  "markAsIdle e machineId s =
     request e (Topics Machine_MarkAsIdle) (MachineIdPayload machineId) (ro_controlRequestTimeoutMs (opts s)) s"

definition toggleLight :: "env \<Rightarrow> string \<Rightarrow> string \<Rightarrow> bool \<Rightarrow> client \<Rightarrow> nat \<times> client" where
  "toggleLight e machineId fixtureName isOn s =
     request e (Topics Machine_ToggleLight) (ToggleLightMachinePayload machineId fixtureName isOn)
       (ro_controlRequestTimeoutMs (opts s)) s"

definition setFanSpeed :: "env \<Rightarrow> string \<Rightarrow> string \<Rightarrow> rat \<Rightarrow> client \<Rightarrow> nat \<times> client" where
  "setFanSpeed e machineId fanName speedPercent s =
     request e (Topics Machine_SetFanSpeed) (SetFanSpeedMachinePayload machineId fanName speedPercent)
       (ro_controlRequestTimeoutMs (opts s)) s"

definition startPrint :: "env \<Rightarrow> string \<Rightarrow> MachineFileHandle \<Rightarrow> StartOptions \<Rightarrow> client \<Rightarrow> nat \<times> client" where
  "startPrint e machineId f p s =
     request e (Topics Machine_StartPrint) (StartPrintPayload machineId f p)
       (ro_controlRequestTimeoutMs (opts s)) s"

definition startLocalPrint :: "env \<Rightarrow> string \<Rightarrow> MachineFileHandle \<Rightarrow> StartOptions \<Rightarrow> client \<Rightarrow> nat \<times> client" where
  "startLocalPrint e machineId f p s = startPrint e machineId f p s"

definition setPrintSpeed :: "env \<Rightarrow> string \<Rightarrow> rat \<Rightarrow> client \<Rightarrow> nat \<times> client" where
  "setPrintSpeed e machineId speedPercent s =
     request e (Topics Machine_SetPrintSpeed) (SetPrintSpeedPayload machineId speedPercent)
       (ro_controlRequestTimeoutMs (opts s)) s"

definition findMatchingSpools :: "env \<Rightarrow> string \<Rightarrow> (nat \<times> MaterialToPrint) list \<Rightarrow> client \<Rightarrow> nat \<times> client" where
  "findMatchingSpools e machineId ms s =
     request e (Topics Machine_FindMatchingSpools) (FindMatchingSpoolsPayload machineId ms)
       (ro_requestTimeoutMs (opts s)) s"

definition changeMaterial :: "env \<Rightarrow> string \<Rightarrow> SpoolLocation \<Rightarrow> Material \<Rightarrow> client \<Rightarrow> nat \<times> client" where
  "changeMaterial e machineId l m s =
     request e (Topics Machine_ChangeMaterial) (ChangeMaterialPayload machineId l m)
       (ro_controlRequestTimeoutMs (opts s)) s"

text \<open>\<open>msToDuration\<close>: an ISO 8601 duration in whole seconds.\<close>

definition duration_unit :: "int \<Rightarrow> string \<Rightarrow> string" where
  "duration_unit n u = (if n > 0 then show_int n @ u else [])"

definition msToDuration :: "rat \<Rightarrow> string" where
  "msToDuration ms =
     (if ms \<le> 0 then ''PT0S''
      else let totalSeconds = \<lfloor>ms / 1000\<rfloor>;
               hours = totalSeconds div 3600;
               minutes = (totalSeconds mod 3600) div 60;
               seconds = totalSeconds mod 60;
               r1 = ''PT'' @ duration_unit hours ''H'';
               r2 = r1 @ duration_unit minutes ''M''
           in if seconds > 0 \<or> r2 = ''PT'' then r2 @ show_int seconds @ ''S'' else r2)"

definition subscribeLogs :: "env \<Rightarrow> rat \<Rightarrow> client \<Rightarrow> nat \<times> client" where
  "subscribeLogs e minIntervalMs s =
     request e (Topics Logging_Subscribe) (JObj [(''MinInterval'', JStr (msToDuration minIntervalMs))])
       (ro_requestTimeoutMs (opts s)) s"

definition unsubscribeLogs :: "env \<Rightarrow> client \<Rightarrow> nat \<times> client" where
  "unsubscribeLogs e s = request e (Topics Logging_Unsubscribe) (JObj []) (ro_requestTimeoutMs (opts s)) s"

definition getLogHistory :: "env \<Rightarrow> LogHistoryParams \<Rightarrow> client \<Rightarrow> nat \<times> client" where
  "getLogHistory e p s =
     request e (Topics Logging_History) (LogHistoryPayload p) (ro_requestTimeoutMs (opts s)) s"

text \<open>\<open>downloadFile\<close>: the HTTP base is the URL with a leading \<open>ws\<close> or \<open>wss\<close> replaced.\<close>

definition httpBase :: "string \<Rightarrow> string" where
  "httpBase u =
     (if prefix ''wss'' u then ''https'' @ drop 3 u
      else if prefix ''ws'' u then ''http'' @ drop 2 u else u)"

definition downloadFile :: "MachineFileHandle \<Rightarrow> client \<Rightarrow> client" where
  "downloadFile h s =
     emit_out [HttpPost (httpBase (url s) @ ''/machineFileStore/download'') (json_of_file_handle h)] s"

definition getTotalFileStoreUsage :: "env \<Rightarrow> client \<Rightarrow> nat \<times> client" where
  "getTotalFileStoreUsage e s =
     request e (Topics MachineFileStore_TotalUsage) (JObj []) (ro_requestTimeoutMs (opts s)) s"

definition getMachineFileStoreUsage :: "env \<Rightarrow> string \<Rightarrow> client \<Rightarrow> nat \<times> client" where
  "getMachineFileStoreUsage e machineId s =
     request e (Topics MachineFileStore_MachineUsage) (MachineIdPayload machineId)
       (ro_requestTimeoutMs (opts s)) s"

definition getAllMachineConfigurations :: "env \<Rightarrow> client \<Rightarrow> nat \<times> client" where
  "getAllMachineConfigurations e s =
     request e (Topics Machine_Configurations_All) (JObj []) (ro_requestTimeoutMs (opts s)) s"

section \<open>Continuations\<close>

text \<open>The code after \<open>await this._request(..)\<close> in \<open>subscribe\<close> and \<open>unsubscribe\<close>.\<close>

definition after_subscribe :: "string \<Rightarrow> StateDetails \<Rightarrow> nat \<Rightarrow> settled \<Rightarrow> client \<Rightarrow> client" where
  "after_subscribe machineId detail q v s =
     (case v of
        Fulfilled r \<Rightarrow>
          if nullish r then settle q (Rejected TypeErrorOnNull) s
          else settle q (Fulfilled r)
            (if truthy (jget r ''isSuccess'')
             then s\<lparr>subscriptions := jm_set machineId detail (subscriptions s)\<rparr> else s)
      | _ \<Rightarrow> settle q v s)"

definition after_unsubscribe :: "string \<Rightarrow> nat \<Rightarrow> settled \<Rightarrow> client \<Rightarrow> client" where
  "after_unsubscribe machineId q v s =
     (case v of
        Fulfilled r \<Rightarrow>
          if nullish r then settle q (Rejected TypeErrorOnNull) s
          else settle q (Fulfilled r)
            (if truthy (jget r ''isSuccess'')
             then s\<lparr>subscriptions := jm_delete machineId (subscriptions s)\<rparr> else s)
      | _ \<Rightarrow> settle q v s)"

text \<open>A reconnect loop after \<open>await this._openSocket()\<close> and after a resubscription.\<close>

definition after_loop_open :: "env \<Rightarrow> nat \<Rightarrow> settled \<Rightarrow> client \<Rightarrow> client" where
  "after_loop_open e l v s =
     (case v of Rejected err \<Rightarrow> loop_open_failed e l s | _ \<Rightarrow> loop_resubscribe e l 0 s)"

definition after_loop_resub :: "env \<Rightarrow> nat \<Rightarrow> client \<Rightarrow> client" where
  "after_loop_resub e l s =
     (case loops s l of
        None \<Rightarrow> s
      | Some lp \<Rightarrow> (case pc lp of Resubscribing i \<Rightarrow> loop_resubscribe e l i s | _ \<Rightarrow> s))"

fun run_job :: "env \<Rightarrow> job \<Rightarrow> client \<Rightarrow> client" where
  "run_job e (Continue (AwaitSubscribe machineId detail q) v) s = after_subscribe machineId detail q v s"
| "run_job e (Continue (AwaitUnsubscribe machineId q) v) s = after_unsubscribe machineId q v s"
| "run_job e (Continue (AwaitLoopOpen l) v) s = after_loop_open e l v s"
| "run_job e (Continue (AwaitLoopResub l) v) s = after_loop_resub e l s"
| "run_job e (Wake l) s = loop_wake e l s"

definition microtask :: "env \<Rightarrow> client \<Rightarrow> client" where
  "microtask e s = (case jobs s of [] \<Rightarrow> s | j # js \<Rightarrow> run_job e j (s\<lparr>jobs := js\<rparr>))"

section \<open>Platform events\<close>

definition socket_open :: "nat \<Rightarrow> client \<Rightarrow> client" where
  "socket_open w s =
     (case sockets s w of
        None \<Rightarrow> s
      | Some k \<Rightarrow>
          settle (openPromise k) (Fulfilled JUndefined)
            (emit Connected (s\<lparr>sockets := (sockets s)(w := Some (k\<lparr>readyState := OPEN\<rparr>))\<rparr>)))"

definition socket_error :: "nat \<Rightarrow> client \<Rightarrow> client" where
  "socket_error w s =
     (case sockets s w of
        None \<Rightarrow> s
      | Some k \<Rightarrow>
          settle (openPromise k) (Rejected WebSocketErrored)
            (emit (ErrorEvent WebSocketErrored)
               (s\<lparr>sockets := (sockets s)(w := Some (k\<lparr>readyState := CLOSED\<rparr>))\<rparr>)))"

definition close_reason :: "nat \<Rightarrow> string \<Rightarrow> string" where
  "close_reason code reason = (if reason = [] then ''Code '' @ show_nat code else reason)"

definition socket_close :: "env \<Rightarrow> nat \<Rightarrow> nat \<Rightarrow> string \<Rightarrow> client \<Rightarrow> client" where
  "socket_close e w code reason0 s =
     (case sockets s w of
        None \<Rightarrow> s
      | Some k \<Rightarrow>
          let reason = close_reason code reason0;
              s1 = s\<lparr>sockets := (sockets s)(w := Some (k\<lparr>readyState := CLOSED, closeFired := True\<rparr>))\<rparr>;
              s2 = rejectAllPending (WebSocketClosed reason) (emit (Disconnected reason) s1)
          in if \<not> intentionalClose s2 \<and> rc_enabled (ro_reconnect (opts s2))
             then start_loop e s2 else s2)"

definition timer_fires :: "nat \<Rightarrow> client \<Rightarrow> client" where
  "timer_fires t s =
     (case timers s t of
        None \<Rightarrow> s
      | Some (RequestTimeout i action ms p, _) \<Rightarrow> request_timeout i action ms p (clear_timer t s)
      | Some (SleepOver l, _) \<Rightarrow>
          let s1 = clear_timer t s in s1\<lparr>jobs := jobs s1 @ [Wake l]\<rparr>)"

section \<open>The transition system\<close>

datatype api_call =
    Subscribe string StateDetails | Unsubscribe string
  | Pause string | Resume string | Stop string | MarkAsIdle string
  | ToggleLight string string bool | SetFanSpeed string string rat
  | StartPrint string MachineFileHandle StartOptions
  | StartLocalPrint string MachineFileHandle StartOptions
  | SetPrintSpeed string rat | FindMatchingSpools string "(nat \<times> MaterialToPrint) list"
  | ChangeMaterial string SpoolLocation Material
  | SubscribeLogs rat | UnsubscribeLogs | GetLogHistory LogHistoryParams
  | GetTotalFileStoreUsage | GetMachineFileStoreUsage string | GetAllMachineConfigurations

fun api :: "env \<Rightarrow> api_call \<Rightarrow> client \<Rightarrow> nat \<times> client" where
  "api e (Subscribe m d) s = subscribe e m d s"
| "api e (Unsubscribe m) s = unsubscribe e m s"
| "api e (Pause m) s = pause e m s"
| "api e (Resume m) s = resume e m s"
| "api e (Stop m) s = stop e m s"
| "api e (MarkAsIdle m) s = markAsIdle e m s"
| "api e (ToggleLight m f v) s = toggleLight e m f v s"
| "api e (SetFanSpeed m f v) s = setFanSpeed e m f v s"
| "api e (StartPrint m f p) s = startPrint e m f p s"
| "api e (StartLocalPrint m f p) s = startLocalPrint e m f p s"
| "api e (SetPrintSpeed m v) s = setPrintSpeed e m v s"
| "api e (FindMatchingSpools m ms) s = findMatchingSpools e m ms s"
| "api e (ChangeMaterial m l x) s = changeMaterial e m l x s"
| "api e (SubscribeLogs v) s = subscribeLogs e v s"
| "api e UnsubscribeLogs s = unsubscribeLogs e s"
| "api e (GetLogHistory p) s = getLogHistory e p s"
| "api e GetTotalFileStoreUsage s = getTotalFileStoreUsage e s"
| "api e (GetMachineFileStoreUsage m) s = getMachineFileStoreUsage e m s"
| "api e GetAllMachineConfigurations s = getAllMachineConfigurations e s"

datatype event =
    Connect | Disconnect | Api api_call | Download MachineFileHandle
  | On event_name nat | Off event_name nat
  | OnMachineState string nat | OnLogs nat | OffTopic string topic_handler
  | SocketOpen nat | SocketMessage nat string | SocketError nat | SocketClose nat nat string
  | TimerFires nat | Microtask

fun step :: "(string \<Rightarrow> json option) \<Rightarrow> env \<Rightarrow> event \<Rightarrow> client \<Rightarrow> client" where
  "step parse e Connect s = snd (connect e s)"
| "step parse e Disconnect s = disconnect s"
| "step parse e (Api c) s = snd (api e c s)"
| "step parse e (Download f) s = downloadFile f s"
| "step parse e (On ev h) s = on ev h s"
| "step parse e (Off ev h) s = off ev h s"
| "step parse e (OnMachineState m h) s = onMachineState m h s"
| "step parse e (OnLogs h) s = onLogs h s"
| "step parse e (OffTopic t h) s = offTopic t h s"
| "step parse e (SocketOpen w) s = socket_open w s"
| "step parse e (SocketMessage w raw) s = handleMessage parse raw s"
| "step parse e (SocketError w) s = socket_error w s"
| "step parse e (SocketClose w code reason) s = socket_close e w code reason s"
| "step parse e (TimerFires t) s = timer_fires t s"
| "step parse e Microtask s = microtask e s"

text \<open>When the platform may deliver an event, as the WebSocket interface defines it.\<close>

definition socket_in :: "(socket \<Rightarrow> bool) \<Rightarrow> nat \<Rightarrow> client \<Rightarrow> bool" where
  "socket_in P w s = (case sockets s w of None \<Rightarrow> False | Some k \<Rightarrow> P k)"

fun can_happen :: "event \<Rightarrow> client \<Rightarrow> bool" where
  "can_happen (SocketOpen w) s = (jobs s = [] \<and> socket_in (\<lambda>k. readyState k = CONNECTING) w s)"
| "can_happen (SocketMessage w raw) s = (jobs s = [] \<and> socket_in (\<lambda>k. readyState k = OPEN) w s)"
| "can_happen (SocketError w) s = (jobs s = [] \<and> socket_in (\<lambda>k. readyState k \<noteq> CLOSED) w s)"
| "can_happen (SocketClose w code reason) s = (jobs s = [] \<and> socket_in (\<lambda>k. \<not> closeFired k) w s)"
| "can_happen (TimerFires t) s = (jobs s = [] \<and> timers s t \<noteq> None)"
| "can_happen Microtask s = (jobs s \<noteq> [])"
| "can_happen _ s = True"

text \<open>A client's life from its construction.  \<open>generateId\<close> makes an identifier that no
  pending request has: this is what \<open>crypto.randomUUID\<close> is for.\<close>

inductive reachable :: "(string \<Rightarrow> json option) \<Rightarrow> client \<Rightarrow> client \<Rightarrow> bool"
  for parse :: "string \<Rightarrow> json option" and s0 :: client where
  start: "reachable parse s0 s0"
| next_step: "reachable parse s0 s \<Longrightarrow> can_happen ev s \<Longrightarrow> jm_get (pending s) (uuid e) = None
     \<Longrightarrow> reachable parse s0 (step parse e ev s)"

text \<open>A run as a list of steps, executable.\<close>

fun run :: "(string \<Rightarrow> json option) \<Rightarrow> (env \<times> event) list \<Rightarrow> client \<Rightarrow> client option" where
  "run parse [] s = Some s"
| "run parse ((e, ev) # xs) s =
     (if can_happen ev s \<and> jm_get (pending s) (uuid e) = None
      then run parse xs (step parse e ev s) else None)"

lemma run_reachable: "run parse xs s = Some s' \<Longrightarrow> reachable parse s0 s \<Longrightarrow> reachable parse s0 s'"
proof (induction xs arbitrary: s)
  case (Cons x xs)
  then show ?case
    by (cases x) (auto split: if_splits intro: Cons.IH next_step)
qed simp

end
