(* ===== verification/ClientInv.thy ===== *)
theory ClientInv
  imports Client
begin

text \<open>
  The invariant of the request table: a pending request has an unsettled promise and a
  running timer that is its own, and every unsettled request promise is in the table.
  It is kept by each primitive and by each step, so no request is ever lost.  Each part
  is a predicate of the fields it speaks of, so that an update of other fields keeps it
  by rewriting alone.
\<close>

section \<open>The invariant\<close>

fun outer_ok :: "(nat \<Rightarrow> origin option) \<Rightarrow> awaiter \<Rightarrow> bool" where
  "outer_ok og (AwaitSubscribe m d q) = (og q = Some ByAsync)"
| "outer_ok og (AwaitUnsubscribe m q) = (og q = Some ByAsync)"
| "outer_ok og (AwaitLoopOpen l) = True"
| "outer_ok og (AwaitLoopResub l) = True"

text \<open>Who settles which promise: a socket its open promise, a continuation the promise
  of the call it belongs to.\<close>

definition sockets_ok :: "(nat \<Rightarrow> socket option) \<Rightarrow> (nat \<Rightarrow> origin option) \<Rightarrow> bool" where
  "sockets_ok sk og \<longleftrightarrow> (\<forall>w k. sk w = Some k \<longrightarrow> og (openPromise k) = Some ByOpen)"

definition awaiters_ok :: "(nat \<Rightarrow> awaiter option) \<Rightarrow> (nat \<Rightarrow> origin option) \<Rightarrow> bool" where
  "awaiters_ok aw og \<longleftrightarrow> (\<forall>p a. aw p = Some a \<longrightarrow> outer_ok og a)"

definition jobs_ok :: "job list \<Rightarrow> (nat \<Rightarrow> origin option) \<Rightarrow> bool" where
  "jobs_ok js og \<longleftrightarrow> (\<forall>a v. Continue a v \<in> set js \<longrightarrow> outer_ok og a)"

definition fresh_ok :: "nat \<Rightarrow> (nat \<Rightarrow> origin option) \<Rightarrow> (nat \<Rightarrow> (timer_job \<times> rat) option) \<Rightarrow> bool" where
  "fresh_ok n og tm \<longleftrightarrow> (\<forall>k \<ge> n. og k = None \<and> tm k = None)"

text \<open>The table: entries, one timer per entry, one entry per promise, none missing.\<close>

definition entry_ok ::
    "(nat \<Rightarrow> settled) \<Rightarrow> (nat \<Rightarrow> origin option) \<Rightarrow> (nat \<Rightarrow> (timer_job \<times> rat) option)
     \<Rightarrow> string \<Rightarrow> pending_entry \<Rightarrow> bool" where
  "entry_ok pr og tm i e \<longleftrightarrow>
     pr (p_promise e) = Pending \<and> og (p_promise e) = Some ByRequest
     \<and> (\<exists>a ms. tm (p_timer e) = Some (RequestTimeout i a ms (p_promise e), ms))"

definition entries_ok :: "(string \<Rightarrow> pending_entry option) \<Rightarrow> (nat \<Rightarrow> settled)
     \<Rightarrow> (nat \<Rightarrow> origin option) \<Rightarrow> (nat \<Rightarrow> (timer_job \<times> rat) option) \<Rightarrow> bool" where
  "entries_ok pd pr og tm \<longleftrightarrow> (\<forall>i e. pd i = Some e \<longrightarrow> entry_ok pr og tm i e)"

definition promises_apart :: "(string \<Rightarrow> pending_entry option) \<Rightarrow> bool" where
  "promises_apart pd \<longleftrightarrow>
     (\<forall>i j e f. pd i = Some e \<longrightarrow> pd j = Some f \<longrightarrow> p_promise e = p_promise f \<longrightarrow> i = j)"

definition timers_ok :: "(string \<Rightarrow> pending_entry option) \<Rightarrow> (nat \<Rightarrow> (timer_job \<times> rat) option) \<Rightarrow> bool" where
  "timers_ok pd tm \<longleftrightarrow> (\<forall>t i a ms p ms'. tm t = Some (RequestTimeout i a ms p, ms')
     \<longrightarrow> pd i = Some \<lparr>p_promise = p, p_timer = t\<rparr>)"

definition none_lost :: "(string \<Rightarrow> pending_entry option) \<Rightarrow> (nat \<Rightarrow> settled)
     \<Rightarrow> (nat \<Rightarrow> origin option) \<Rightarrow> bool" where
  "none_lost pd pr og \<longleftrightarrow> (\<forall>p. og p = Some ByRequest \<longrightarrow> pr p = Pending
     \<longrightarrow> (\<exists>i e. pd i = Some e \<and> p_promise e = p))"

definition table_ok :: "(string \<Rightarrow> pending_entry option) \<Rightarrow> (nat \<Rightarrow> settled)
     \<Rightarrow> (nat \<Rightarrow> origin option) \<Rightarrow> (nat \<Rightarrow> (timer_job \<times> rat) option) \<Rightarrow> bool" where
  "table_ok pd pr og tm \<longleftrightarrow>
     entries_ok pd pr og tm \<and> promises_apart pd \<and> timers_ok pd tm \<and> none_lost pd pr og"

definition client_inv :: "client \<Rightarrow> bool" where
  "client_inv s \<longleftrightarrow>
     sockets_ok (sockets s) (origins s) \<and> awaiters_ok (awaiters s) (origins s)
     \<and> jobs_ok (jobs s) (origins s) \<and> fresh_ok (fresh s) (origins s) (timers s)
     \<and> jm_wf (pending s)
     \<and> table_ok (jm_get (pending s)) (promises s) (origins s) (timers s)"

lemmas inv_defs = sockets_ok_def awaiters_ok_def jobs_ok_def fresh_ok_def
lemmas table_defs = table_ok_def entries_ok_def entry_ok_def promises_apart_def timers_ok_def none_lost_def

lemma client_inv_new: "client_inv (new_client u o1)"
  by (simp add: client_inv_def inv_defs table_defs new_client_def)

section \<open>How the parts react to updates\<close>

lemma outer_ok_upd: "og n = None \<Longrightarrow> outer_ok og a \<Longrightarrow> outer_ok (og(n := Some x)) a"
  by (cases a) auto

lemma origins_upd:
  assumes "og n = None"
  shows "sockets_ok sk og \<Longrightarrow> sockets_ok sk (og(n := Some x))"
    and "awaiters_ok aw og \<Longrightarrow> awaiters_ok aw (og(n := Some x))"
    and "jobs_ok js og \<Longrightarrow> jobs_ok js (og(n := Some x))"
  using assms outer_ok_upd [where og = og and n = n and x = x]
  by (auto simp: inv_defs)

lemma jobs_ok_simps [simp]:
  "jobs_ok [] og" "jobs_ok (js @ ks) og = (jobs_ok js og \<and> jobs_ok ks og)"
  "jobs_ok (Continue a v # js) og = (outer_ok og a \<and> jobs_ok js og)"
  "jobs_ok (Wake l # js) og = jobs_ok js og"
  by (auto simp: jobs_ok_def)

lemma entries_okD:
  assumes "entries_ok pd pr og tm" and "pd i = Some e"
  obtains a ms where "pr (p_promise e) = Pending" "og (p_promise e) = Some ByRequest"
    "tm (p_timer e) = Some (RequestTimeout i a ms (p_promise e), ms)"
proof -
  from assms have "entry_ok pr og tm i e" by (simp add: entries_ok_def)
  with that show thesis unfolding entry_ok_def by blast
qed

lemma entries_okI:
  assumes "\<And>i e. pd i = Some e \<Longrightarrow> \<exists>a ms. pr (p_promise e) = Pending \<and> og (p_promise e) = Some ByRequest
     \<and> tm (p_timer e) = Some (RequestTimeout i a ms (p_promise e), ms)"
  shows "entries_ok pd pr og tm"
  using assms by (simp add: entries_ok_def entry_ok_def)

lemma none_lostD: "none_lost pd pr og \<Longrightarrow> og p = Some ByRequest \<Longrightarrow> pr p = Pending
     \<Longrightarrow> \<exists>i e. pd i = Some e \<and> p_promise e = p"
  unfolding none_lost_def by blast

lemma none_lostI: "(\<And>p. og p = Some ByRequest \<Longrightarrow> pr p = Pending
     \<Longrightarrow> \<exists>i e. pd i = Some e \<and> p_promise e = p) \<Longrightarrow> none_lost pd pr og"
  unfolding none_lost_def by blast

lemma timers_okD:
  "timers_ok pd tm \<Longrightarrow> tm t = Some (RequestTimeout i a ms p, ms') \<Longrightarrow> pd i = Some \<lparr>p_promise = p, p_timer = t\<rparr>"
  unfolding timers_ok_def by blast

lemma timers_okI:
  "(\<And>t i a ms p ms'. tm t = Some (RequestTimeout i a ms p, ms') \<Longrightarrow> pd i = Some \<lparr>p_promise = p, p_timer = t\<rparr>)
     \<Longrightarrow> timers_ok pd tm"
  unfolding timers_ok_def by blast

lemma table_okE:
  assumes "table_ok pd pr og tm"
  obtains "entries_ok pd pr og tm" "promises_apart pd" "timers_ok pd tm" "none_lost pd pr og"
  using assms by (simp add: table_ok_def)

lemma table_promise_other:
  assumes "table_ok pd pr og tm" and "og p \<noteq> Some ByRequest"
  shows "table_ok pd (pr(p := v)) og tm"
  using assms by (auto simp: table_ok_def entries_ok_def entry_ok_def none_lost_def)

lemma table_origin_other:
  assumes "table_ok pd pr og tm" and "og n = None" and "x \<noteq> ByRequest"
  shows "table_ok pd (pr(n := v)) (og(n := Some x)) tm"
  using assms by (auto simp: table_ok_def entries_ok_def entry_ok_def none_lost_def)

text \<open>The timers of requests are the same before and after a change of another timer.\<close>

lemma entries_ok_timers:
  assumes "entries_ok pd pr og tm"
    and "\<And>t i a ms p. tm t = Some (RequestTimeout i a ms p, ms) \<Longrightarrow> tm' t = tm t"
  shows "entries_ok pd pr og tm'"
proof (rule entries_okI)
  fix i e
  assume "pd i = Some e"
  with assms(1) obtain a ms where "pr (p_promise e) = Pending" "og (p_promise e) = Some ByRequest"
    and t: "tm (p_timer e) = Some (RequestTimeout i a ms (p_promise e), ms)"
    by (rule entries_okD)
  moreover have "tm' (p_timer e) = Some (RequestTimeout i a ms (p_promise e), ms)"
    using assms(2) [OF t] t by simp
  ultimately show "\<exists>a ms. pr (p_promise e) = Pending \<and> og (p_promise e) = Some ByRequest
      \<and> tm' (p_timer e) = Some (RequestTimeout i a ms (p_promise e), ms)" by blast
qed

lemma table_sleep:
  assumes "table_ok pd pr og tm" and "tm t = None"
  shows "table_ok pd pr og (tm(t := Some (SleepOver l, ms)))"
proof -
  have "entries_ok pd pr og (tm(t := Some (SleepOver l, ms)))"
    by (rule entries_ok_timers [of pd pr og tm]) (use assms in \<open>auto simp: table_ok_def\<close>)
  moreover have "timers_ok pd (tm(t := Some (SleepOver l, ms)))"
    using assms by (auto simp: table_ok_def split: if_splits intro!: timers_okI dest: timers_okD)
  ultimately show ?thesis using assms(1) by (simp add: table_ok_def)
qed

lemma table_sleep_gone:
  assumes "table_ok pd pr og tm" and "tm t = Some (SleepOver l, ms)"
  shows "table_ok pd pr og (tm(t := None))"
proof -
  have "entries_ok pd pr og (tm(t := None))"
    by (rule entries_ok_timers [of pd pr og tm]) (use assms in \<open>auto simp: table_ok_def\<close>)
  moreover have "timers_ok pd (tm(t := None))"
    using assms by (auto simp: table_ok_def split: if_splits intro!: timers_okI dest: timers_okD)
  ultimately show ?thesis using assms(1) by (simp add: table_ok_def)
qed

text \<open>A new request enters the table.\<close>

lemma table_enter:
  assumes ok: "table_ok pd pr og tm" and new: "pd i = None" "og p = None" "tm t = None"
  shows "table_ok (pd(i := Some \<lparr>p_promise = p, p_timer = t\<rparr>)) (pr(p := Pending))
           (og(p := Some ByRequest)) (tm(t := Some (RequestTimeout i a ms p, ms)))"
    (is "table_ok ?pd ?pr ?og ?tm")
proof -
  from ok have e: "entries_ok pd pr og tm" by (rule table_okE)
  have other: "p_promise x \<noteq> p \<and> p_timer x \<noteq> t" if "pd j = Some x" for j x
    by (rule entries_okD [OF e that]) (use new in auto)
  have "entries_ok ?pd ?pr ?og ?tm"
  proof (rule entries_okI)
    fix j x
    assume j: "?pd j = Some x"
    show "\<exists>a ms. ?pr (p_promise x) = Pending \<and> ?og (p_promise x) = Some ByRequest
        \<and> ?tm (p_timer x) = Some (RequestTimeout j a ms (p_promise x), ms)"
    proof (cases "j = i")
      case False
      with j have x: "pd j = Some x" by simp
      show ?thesis by (rule entries_okD [OF e x]) (use other [OF x] in auto)
    qed (use j in auto)
  qed
  moreover have "promises_apart ?pd"
    using ok other by (auto simp: table_ok_def promises_apart_def)
  moreover have "timers_ok ?pd ?tm"
  proof (rule timers_okI)
    fix t' j b ms1 q ms2
    assume "?tm t' = Some (RequestTimeout j b ms1 q, ms2)"
    then show "?pd j = Some \<lparr>p_promise = q, p_timer = t'\<rparr>"
      using ok new by (auto simp: table_ok_def split: if_splits dest: timers_okD)
  qed
  moreover have "none_lost ?pd ?pr ?og"
  proof (rule none_lostI)
    fix q
    assume q: "?og q = Some ByRequest" "?pr q = Pending"
    show "\<exists>j x. ?pd j = Some x \<and> p_promise x = q"
    proof (cases "q = p")
      case True
      then show ?thesis by (intro exI [of _ i]) simp
    next
      case False
      with q ok obtain j x where "pd j = Some x" "p_promise x = q"
        by (auto simp: table_ok_def dest: none_lostD)
      with new show ?thesis by (intro exI [of _ j]) auto
    qed
  qed
  ultimately show ?thesis by (simp add: table_ok_def)
qed

text \<open>A request leaves the table as its promise settles and its timer stops.\<close>

lemma table_leave:
  assumes ok: "table_ok pd pr og tm" and "pd i = Some e" and "v \<noteq> Pending"
  shows "table_ok (pd(i := None)) (pr(p_promise e := v)) og (tm(p_timer e := None))"
    (is "table_ok ?pd ?pr og ?tm")
proof -
  from ok have e: "entries_ok pd pr og tm" by (rule table_okE)
  have other: "p_promise x \<noteq> p_promise e \<and> p_timer x \<noteq> p_timer e" if "pd j = Some x" "j \<noteq> i" for j x
  proof
    show "p_promise x \<noteq> p_promise e"
      using ok that assms(2) by (auto simp: table_ok_def promises_apart_def)
    show "p_timer x \<noteq> p_timer e"
      by (rule entries_okD [OF e that(1)], rule entries_okD [OF e assms(2)]) (use that in auto)
  qed
  have "entries_ok ?pd ?pr og ?tm"
  proof (rule entries_okI)
    fix j x
    assume "?pd j = Some x"
    then have x: "pd j = Some x" "j \<noteq> i" by (auto split: if_splits)
    show "\<exists>a ms. ?pr (p_promise x) = Pending \<and> og (p_promise x) = Some ByRequest
        \<and> ?tm (p_timer x) = Some (RequestTimeout j a ms (p_promise x), ms)"
      by (rule entries_okD [OF e x(1)]) (use other [OF x] in auto)
  qed
  moreover have "promises_apart ?pd"
    using ok by (auto simp: table_ok_def promises_apart_def)
  moreover have "timers_ok ?pd ?tm"
  proof (rule timers_okI)
    fix t' j b ms1 q ms2
    assume a: "?tm t' = Some (RequestTimeout j b ms1 q, ms2)"
    then have "pd j = Some \<lparr>p_promise = q, p_timer = t'\<rparr>" and "t' \<noteq> p_timer e"
      using ok by (auto simp: table_ok_def split: if_splits dest: timers_okD)
    then show "?pd j = Some \<lparr>p_promise = q, p_timer = t'\<rparr>"
      using assms(2) by auto
  qed
  moreover have "none_lost ?pd ?pr og"
  proof (rule none_lostI)
    fix q
    assume q: "og q = Some ByRequest" "?pr q = Pending"
    then have ne: "q \<noteq> p_promise e" and "pr q = Pending" using assms(3) by (auto split: if_splits)
    with q ok obtain j x where x: "pd j = Some x" "p_promise x = q"
      by (auto simp: table_ok_def dest: none_lostD)
    with ne assms(2) have "j \<noteq> i" by auto
    with x show "\<exists>j x. ?pd j = Some x \<and> p_promise x = q" by (intro exI [of _ j]) auto
  qed
  ultimately show ?thesis by (simp add: table_ok_def)
qed

end
