(* ===== verification/ClientSteps.thy ===== *)
theory ClientSteps
  imports ClientInv
begin

text \<open>Every primitive, every method and every step of the client keeps \<open>client_inv\<close>.\<close>

section \<open>Primitives\<close>

lemma client_inv_emit_out [client_simps]: "client_inv (emit_out es s) = client_inv s"
  by (simp add: emit_out_def client_inv_def)

lemma client_inv_emit [client_simps]: "client_inv (emit ev s) = client_inv s"
  by (simp add: emit_def client_simps)

lemma client_inv_set_loop [client_simps]: "client_inv (set_loop l a d q s) = client_inv s"
  by (simp add: set_loop_def client_inv_def)

lemma client_inv_end_loop [client_simps]: "client_inv (end_loop l s) = client_inv s"
  by (simp add: end_loop_def client_inv_def)

lemma client_inv_plain [client_simps]:
  "client_inv (s\<lparr>intentionalClose := x\<rparr>) = client_inv s"
  "client_inv (s\<lparr>ws := y\<rparr>) = client_inv s"
  "client_inv (s\<lparr>subscriptions := z\<rparr>) = client_inv s"
  "client_inv (s\<lparr>eventHandlers := h\<rparr>) = client_inv s"
  "client_inv (s\<lparr>topicHandlers := k\<rparr>) = client_inv s"
  by (simp_all add: client_inv_def)

lemma client_inv_fresh: "client_inv s \<Longrightarrow> client_inv (s\<lparr>fresh := Suc (fresh s)\<rparr>)"
  by (auto simp: client_inv_def fresh_ok_def)

lemma emit_fields [simp]:
  "pending (emit ev s) = pending s" "timers (emit ev s) = timers s" "promises (emit ev s) = promises s"
  "origins (emit ev s) = origins s" "awaiters (emit ev s) = awaiters s" "jobs (emit ev s) = jobs s"
  "sockets (emit ev s) = sockets s" "fresh (emit ev s) = fresh s" "ws (emit ev s) = ws s"
  "opts (emit ev s) = opts s" "intentionalClose (emit ev s) = intentionalClose s"
  "subscriptions (emit ev s) = subscriptions s" "loops (emit ev s) = loops s"
  "topicHandlers (emit ev s) = topicHandlers s" "eventHandlers (emit ev s) = eventHandlers s"
  by (simp_all add: emit_def emit_out_def)

lemma set_loop_fields [simp]:
  "pending (set_loop l a d q s) = pending s" "timers (set_loop l a d q s) = timers s"
  "promises (set_loop l a d q s) = promises s" "origins (set_loop l a d q s) = origins s"
  "awaiters (set_loop l a d q s) = awaiters s" "jobs (set_loop l a d q s) = jobs s"
  "sockets (set_loop l a d q s) = sockets s" "fresh (set_loop l a d q s) = fresh s"
  "ws (set_loop l a d q s) = ws s" "opts (set_loop l a d q s) = opts s"
  "intentionalClose (set_loop l a d q s) = intentionalClose s"
  "subscriptions (set_loop l a d q s) = subscriptions s"
  "loops (set_loop l a d q s) = (loops s)(l := Some \<lparr>attempt = a, delay = d, pc = q\<rparr>)"
  by (simp_all add: set_loop_def)

lemma settle_fields [simp]:
  "pending (settle p v s) = pending s" "timers (settle p v s) = timers s"
  "origins (settle p v s) = origins s" "awaiters (settle p v s) = awaiters s"
  "sockets (settle p v s) = sockets s" "fresh (settle p v s) = fresh s" "ws (settle p v s) = ws s"
  "opts (settle p v s) = opts s" "intentionalClose (settle p v s) = intentionalClose s"
  "subscriptions (settle p v s) = subscriptions s" "loops (settle p v s) = loops s"
  "out (settle p v s) = out s" "topicHandlers (settle p v s) = topicHandlers s"
  by (simp_all add: settle_def)

lemma promises_settle:
  "promises (settle p v s) = (if promises s p = Pending then (promises s)(p := v) else promises s)"
  by (simp add: settle_def)

lemma jobs_settle: "jobs_ok (jobs s) og \<Longrightarrow> awaiters_ok (awaiters s) og \<Longrightarrow> jobs_ok (jobs (settle p v s)) og"
  by (auto simp: settle_def awaiters_ok_def split: option.splits)

lemma client_inv_settle_other:
  "client_inv s \<Longrightarrow> origins s p \<noteq> Some ByRequest \<Longrightarrow> client_inv (settle p v s)"
  by (auto simp: client_inv_def promises_settle jobs_settle table_promise_other)

lemma client_inv_await:
  "client_inv s \<Longrightarrow> outer_ok (origins s) a \<Longrightarrow> client_inv (await_promise p a s)"
  by (auto simp: client_inv_def await_promise_def awaiters_ok_def)

lemma client_inv_sleep_timer: "client_inv s \<Longrightarrow> client_inv (set_timer (SleepOver l) ms s)"
  by (auto simp: client_inv_def set_timer_def fresh_ok_def intro: table_sleep)

lemma client_inv_clear_sleep:
  "client_inv s \<Longrightarrow> timers s t = Some (SleepOver l, ms) \<Longrightarrow> client_inv (clear_timer t s)"
  by (auto simp: client_inv_def clear_timer_def fresh_ok_def intro: table_sleep_gone)

lemma new_promise_fields [simp]:
  "fst (new_promise og s) = fresh s" "fresh (snd (new_promise og s)) = Suc (fresh s)"
  "origins (snd (new_promise og s)) = (origins s)(fresh s := Some og)"
  "promises (snd (new_promise og s)) = (promises s)(fresh s := Pending)"
  "pending (snd (new_promise og s)) = pending s" "timers (snd (new_promise og s)) = timers s"
  "sockets (snd (new_promise og s)) = sockets s" "ws (snd (new_promise og s)) = ws s"
  "jobs (snd (new_promise og s)) = jobs s" "awaiters (snd (new_promise og s)) = awaiters s"
  "opts (snd (new_promise og s)) = opts s" "out (snd (new_promise og s)) = out s"
  "intentionalClose (snd (new_promise og s)) = intentionalClose s"
  "subscriptions (snd (new_promise og s)) = subscriptions s" "loops (snd (new_promise og s)) = loops s"
  by (simp_all add: new_promise_def)

lemma client_inv_new_promise:
  assumes inv: "client_inv s" and "og \<noteq> ByRequest"
  shows "client_inv (snd (new_promise og s))"
proof -
  from inv have "origins s (fresh s) = None"
    by (simp add: client_inv_def fresh_ok_def)
  with assms show ?thesis
    by (auto simp: client_inv_def fresh_ok_def intro: origins_upd table_origin_other)
qed

text \<open>The invariant, as the properties use it.\<close>

lemma client_inv_parts:
  assumes "client_inv s"
  shows "table_ok (jm_get (pending s)) (promises s) (origins s) (timers s)" and "jm_wf (pending s)"
  using assms by (simp_all add: client_inv_def)

lemma client_inv_none_lost:
  assumes "client_inv s" and "origins s p = Some ByRequest" and "promises s p = Pending"
  obtains i e where "jm_get (pending s) i = Some e" and "p_promise e = p"
  using none_lostD [of "jm_get (pending s)" "promises s" "origins s" p] client_inv_parts(1) [OF assms(1)] assms(2,3)
  unfolding table_ok_def by blast

lemma client_inv_entry:
  assumes "client_inv s" and "jm_get (pending s) i = Some e"
  obtains a ms where "promises s (p_promise e) = Pending" "origins s (p_promise e) = Some ByRequest"
    "timers s (p_timer e) = Some (RequestTimeout i a ms (p_promise e), ms)"
  using client_inv_parts(1) [OF assms(1)] assms(2) unfolding table_ok_def by (blast elim: entries_okD)

lemma client_inv_timer:
  assumes "client_inv s" and "timers s t = Some (RequestTimeout i a ms p, ms')"
  shows "jm_get (pending s) i = Some \<lparr>p_promise = p, p_timer = t\<rparr>"
  using client_inv_parts(1) [OF assms(1)] assms(2) unfolding table_ok_def by (blast intro: timers_okD)

section \<open>A request\<close>

text \<open>A request that is refused before it is sent: its promise is rejected at once.\<close>

lemma table_refused:
  assumes "table_ok pd pr og tm" and "og p = None" and "v \<noteq> Pending"
  shows "table_ok pd (pr(p := v)) (og(p := Some ByRequest)) tm"
proof -
  from assms(1) have e: "entries_ok pd pr og tm" by (rule table_okE)
  have "entries_ok pd (pr(p := v)) (og(p := Some ByRequest)) tm"
  proof (rule entries_okI)
    fix i x
    assume x: "pd i = Some x"
    show "\<exists>a ms. (pr(p := v)) (p_promise x) = Pending \<and> (og(p := Some ByRequest)) (p_promise x) = Some ByRequest
        \<and> tm (p_timer x) = Some (RequestTimeout i a ms (p_promise x), ms)"
      by (rule entries_okD [OF e x]) (use assms(2) in auto)
  qed
  moreover have "none_lost pd (pr(p := v)) (og(p := Some ByRequest))"
    using assms by (intro none_lostI) (auto simp: table_ok_def split: if_splits dest: none_lostD)
  ultimately show ?thesis using assms(1) by (simp add: table_ok_def)
qed

definition requested :: "env \<Rightarrow> string \<Rightarrow> rat \<Rightarrow> client \<Rightarrow> client" where
  "requested e action ms s =
     (let s1 = set_timer (RequestTimeout (uuid e) action ms (fresh s)) ms (snd (new_promise ByRequest s))
      in s1\<lparr>pending := jm_set (uuid e) \<lparr>p_promise = fresh s, p_timer = Suc (fresh s)\<rparr> (pending s1)\<rparr>)"

lemma request_cases:
  "request e action d ms s =
     (fresh s, case ws_open s of
        None \<Rightarrow> settle (fresh s) (Rejected (WebSocketNotOpen action)) (snd (new_promise ByRequest s))
      | Some w \<Rightarrow> (case sendThrows e of
          None \<Rightarrow> emit_out [Sent w (envelope action (uuid e) d)] (requested e action ms s)
        | Some m \<Rightarrow>
            let s4 = clear_timer (Suc (fresh s)) (requested e action ms s)
            in settle (fresh s) (Rejected (Thrown m)) (s4\<lparr>pending := jm_delete (uuid e) (pending s4)\<rparr>)))"
proof -
  have "ws_open (snd (new_promise ByRequest s)) = ws_open s"
    by (simp add: ws_open_def cong: option.case_cong)
  then show ?thesis
    by (auto simp: request_def requested_def Let_def case_prod_beta split: option.splits)
qed

lemma client_inv_requested:
  assumes inv: "client_inv s" and "jm_get (pending s) (uuid e) = None"
  shows "client_inv (requested e action ms s)"
proof -
  from inv have og: "origins s (fresh s) = None" and tm: "timers s (Suc (fresh s)) = None"
    by (simp_all add: client_inv_def fresh_ok_def)
  have get: "jm_get (jm_set k v m) = (jm_get m)(k := Some v)" for k and v :: pending_entry and m
    by (auto simp: js_simps)
  from assms og tm show ?thesis
    by (auto simp: client_inv_def requested_def set_timer_def Let_def get fresh_ok_def
        intro: origins_upd table_enter)
qed

lemma jobs_settle_unawaited:
  "awaiters s p = None \<Longrightarrow> jobs (settle p v s) = jobs s"
  by (simp add: settle_def)

lemma client_inv_leave:
  assumes inv: "client_inv s" and e: "jm_get (pending s) i = Some e" and v: "v \<noteq> Pending"
    and eq: "pending s' = jm_delete i (pending s)" "timers s' = (timers s)(p_timer e := None)"
      "promises s' = promises s" "origins s' = origins s" "awaiters s' = awaiters s"
      "jobs s' = jobs s" "sockets s' = sockets s" "fresh s' = fresh s"
  shows "client_inv (settle (p_promise e) v s')"
proof -
  have wf: "jm_wf (pending s)" and tab: "table_ok (jm_get (pending s)) (promises s) (origins s) (timers s)"
    using inv by (simp_all add: client_inv_def)
  have get: "jm_get (jm_delete i (pending s)) = (jm_get (pending s))(i := None)"
    using wf by (auto simp: js_simps)
  from tab have ent: "entries_ok (jm_get (pending s)) (promises s) (origins s) (timers s)"
    by (rule table_okE)
  have pend: "promises s (p_promise e) = Pending"
    by (rule entries_okD [OF ent e])
  have tab': "table_ok ((jm_get (pending s))(i := None)) ((promises s)(p_promise e := v)) (origins s)
      ((timers s)(p_timer e := None))"
    using tab e v by (rule table_leave)
  have jobs: "jobs_ok (jobs (settle (p_promise e) v s')) (origins s)"
    by (rule jobs_settle) (use inv eq in \<open>simp_all add: client_inv_def\<close>)
  show ?thesis
    using inv wf get pend tab' jobs
    by (auto simp: client_inv_def eq promises_settle fresh_ok_def)
qed

lemma client_inv_request:
  assumes inv: "client_inv s" and new: "jm_get (pending s) (uuid e) = None"
  shows "client_inv (snd (request e action d ms s))"
proof (cases "ws_open s")
  case None
  from inv have og: "origins s (fresh s) = None"
    by (simp add: client_inv_def fresh_ok_def)
  have aw: "awaiters_ok (awaiters s) ((origins s)(fresh s := Some ByRequest))"
    using inv og by (auto simp: client_inv_def intro: origins_upd)
  have jb: "jobs_ok (jobs s) ((origins s)(fresh s := Some ByRequest))"
    using inv og by (auto simp: client_inv_def intro: origins_upd)
  have "jobs_ok (jobs (settle (fresh s) (Rejected (WebSocketNotOpen action)) (snd (new_promise ByRequest s))))
      ((origins s)(fresh s := Some ByRequest))"
    by (rule jobs_settle) (use aw jb in simp_all)
  with inv None og aw show ?thesis
    by (auto simp: request_cases client_inv_def promises_settle fresh_ok_def
        intro: origins_upd table_refused)
next
  case (Some w)
  have req: "client_inv (requested e action ms s)"
    using inv new by (rule client_inv_requested)
  show ?thesis
  proof (cases "sendThrows e")
    case None
    with Some req show ?thesis by (simp add: request_cases client_simps)
  next
    case (Some m)
    let ?r = "requested e action ms s"
    let ?e = "\<lparr>p_promise = fresh s, p_timer = Suc (fresh s)\<rparr>"
    let ?s4 = "(clear_timer (Suc (fresh s)) ?r)\<lparr>pending := jm_delete (uuid e) (pending (clear_timer (Suc (fresh s)) ?r))\<rparr>"
    have "jm_get (pending ?r) (uuid e) = Some ?e"
      by (simp add: requested_def Let_def js_simps)
    from client_inv_leave [OF req this, of "Rejected (Thrown m)" ?s4]
    have "client_inv (settle (fresh s) (Rejected (Thrown m)) ?s4)"
      by (simp add: clear_timer_def)
    with Some \<open>ws_open s = Some w\<close> show ?thesis
      by (simp add: request_cases Let_def)
  qed
qed

lemma request_fields [simp]:
  "fst (request e action d ms s) = fresh s"
  "origins (snd (request e action d ms s)) = (origins s)(fresh s := Some ByRequest)"
  "sockets (snd (request e action d ms s)) = sockets s" "opts (snd (request e action d ms s)) = opts s"
  "subscriptions (snd (request e action d ms s)) = subscriptions s"
  "loops (snd (request e action d ms s)) = loops s"
  "intentionalClose (snd (request e action d ms s)) = intentionalClose s"
  "ws (snd (request e action d ms s)) = ws s"
  by (simp_all add: request_cases requested_def set_timer_def clear_timer_def emit_out_def Let_def
      split: option.split)

section \<open>Ways a request ends\<close>

lemma client_inv_timeout:
  assumes inv: "client_inv s" and t: "timers s t = Some (RequestTimeout i a ms p, ms')"
  shows "client_inv (request_timeout i a ms p (clear_timer t s))"
proof -
  have "jm_get (pending s) i = Some \<lparr>p_promise = p, p_timer = t\<rparr>"
    using inv t by (auto simp: client_inv_def table_ok_def dest: timers_okD)
  from client_inv_leave [OF inv this, of "Rejected (RequestTimedOut a ms)"
      "(clear_timer t s)\<lparr>pending := jm_delete i (pending (clear_timer t s))\<rparr>"]
  show ?thesis by (simp add: request_timeout_def clear_timer_def)
qed

lemma reject_entries_pending:
  "reject_entries err es (s\<lparr>pending := m\<rparr>) = (reject_entries err es s)\<lparr>pending := m\<rparr>"
proof (induction es arbitrary: s)
  case (Cons x es)
  have "settle p v (clear_timer t (s\<lparr>pending := m\<rparr>)) = (settle p v (clear_timer t s))\<lparr>pending := m\<rparr>" for p v t
    by (simp add: settle_def clear_timer_def)
  with Cons show ?case by (cases x) simp
qed simp

lemma client_inv_pending_cong:
  "client_inv s \<Longrightarrow> jm_wf m \<Longrightarrow> jm_get m = jm_get (pending s) \<Longrightarrow> client_inv (s\<lparr>pending := m\<rparr>)"
  by (simp add: client_inv_def)

lemma client_inv_reject_entries:
  assumes "client_inv s" and "distinct (map fst es)"
    and "\<forall>(i, e) \<in> set es. jm_get (pending s) i = Some e"
  shows "client_inv ((reject_entries err es s)\<lparr>pending := fold jm_delete (map fst es) (pending s)\<rparr>)"
  using assms
proof (induction es arbitrary: s)
  case (Cons x es)
  obtain i e where x: "x = (i, e)" by (cases x)
  let ?c = "clear_timer (p_timer e) s"
  let ?s = "settle (p_promise e) (Rejected err) (?c\<lparr>pending := jm_delete i (pending s)\<rparr>)"
  have e: "jm_get (pending s) i = Some e"
    using Cons.prems x by simp
  have inv: "client_inv ?s"
    by (rule client_inv_leave [OF Cons.prems(1) e]) (simp_all add: clear_timer_def)
  have wf: "jm_wf (pending s)"
    using Cons.prems(1) by (simp add: client_inv_def)
  have rest: "\<forall>(j, f) \<in> set es. jm_get (pending ?s) j = Some f"
    using Cons.prems(2,3) x wf by (force simp: clear_timer_def js_simps)
  have same: "?s = (settle (p_promise e) (Rejected err) ?c)\<lparr>pending := jm_delete i (pending s)\<rparr>"
    by (simp add: settle_def clear_timer_def)
  have "client_inv ((reject_entries err es ?s)\<lparr>pending := fold jm_delete (map fst es) (pending ?s)\<rparr>)"
    by (rule Cons.IH [OF inv _ rest]) (use Cons.prems(2) x in simp)
  then show ?case
    by (simp add: x same reject_entries_pending)
qed simp

lemma fold_delete_all: "jm_wf m \<Longrightarrow> set (jm_keys m) \<subseteq> set ks \<Longrightarrow> jm_get (fold jm_delete ks m) k = None"
proof (induction ks arbitrary: m)
  case Nil
  then show ?case by (simp add: jm_get_None_iff)
next
  case (Cons i ks)
  have "set (jm_keys (jm_delete i m)) \<subseteq> set ks"
    using Cons.prems by (auto simp: jm_keys_delete jm_wf_def set_remove1_eq)
  then show ?case
    using Cons by simp
qed

lemma client_inv_reject_all: "client_inv s \<Longrightarrow> client_inv (rejectAllPending err s)"
proof -
  assume inv: "client_inv s"
  then have wf: "jm_wf (pending s)" by (simp add: client_inv_def)
  let ?es = "jm_entries (pending s)"
  let ?m = "fold jm_delete (map fst ?es) (pending s)"
  have "client_inv ((reject_entries err ?es s)\<lparr>pending := ?m\<rparr>)"
    using inv wf by (intro client_inv_reject_entries)
      (auto simp: jm_entry_get, simp add: jm_wf_def jm_keys_def)
  moreover have "jm_get (jm_clear (pending (reject_entries err ?es s))) = jm_get ?m"
    using wf by (auto simp: fold_delete_all jm_keys_def)
  ultimately have "client_inv (((reject_entries err ?es s)\<lparr>pending := ?m\<rparr>)
      \<lparr>pending := jm_clear (pending (reject_entries err ?es s))\<rparr>)"
    by (intro client_inv_pending_cong [of "(reject_entries err ?es s)\<lparr>pending := ?m\<rparr>"]) simp_all
  then show ?thesis
    by (simp add: rejectAllPending_def Let_def)
qed

lemma client_inv_handle_message: "client_inv s \<Longrightarrow> client_inv (handleMessage parse raw s)"
proof (cases "parse raw")
  case (Some msg)
  assume inv: "client_inv s"
  let ?s = "emit (MessageEvent msg) s"
  show ?thesis
  proof (cases "find_pending (jget msg ''messageID'') ?s")
    case None
    have "client_inv (broadcast msg ?s)"
      using inv by (simp add: broadcast_def client_simps split: json.split option.split)
    with Some None inv show ?thesis by (simp add: handleMessage_def Let_def client_simps)
  next
    case (Some x)
    obtain i e where x: "x = (i, e)" by (cases x)
    have get: "jm_get (pending ?s) i = Some e"
      using Some x by (auto simp: find_pending_def split: json.splits)
    have inv': "client_inv ?s"
      using inv by (simp add: client_simps)
    let ?s2 = "(clear_timer (p_timer e) ?s)\<lparr>pending := jm_delete i (pending (clear_timer (p_timer e) ?s))\<rparr>"
    have "client_inv (settle (p_promise e) (Fulfilled (jget msg ''data'')) ?s2)"
      by (rule client_inv_leave [OF inv' get]) (simp_all add: clear_timer_def)
    with \<open>parse raw = Some msg\<close> Some x inv' show ?thesis
      by (simp add: handleMessage_def Let_def client_simps)
  qed
qed (simp add: handleMessage_def client_simps)

section \<open>Sockets and reconnect loops\<close>

lemma openSocket_fst [simp]: "fst (openSocket e s) = fresh s"
  by (simp add: openSocket_def new_promise_def split: option.split)

lemma client_inv_openSocket: "client_inv s \<Longrightarrow> client_inv (snd (openSocket e s))"
proof -
  assume inv: "client_inv s"
  have np: "client_inv (snd (new_promise ByOpen s))"
    by (rule client_inv_new_promise [OF inv]) simp
  show ?thesis
  proof (cases "ctorThrows e")
    case None
    with np show ?thesis
      by (auto simp: openSocket_def case_prod_beta Let_def client_inv_def sockets_ok_def fresh_ok_def)
  next
    case (Some m)
    with np show ?thesis
      by (simp add: openSocket_def case_prod_beta Let_def client_inv_settle_other)
  qed
qed

lemma client_inv_sockets:
  "client_inv s \<Longrightarrow> sockets s w = Some k \<Longrightarrow> openPromise k' = openPromise k
     \<Longrightarrow> client_inv (s\<lparr>sockets := (sockets s)(w := Some k')\<rparr>)"
  by (auto simp: client_inv_def sockets_ok_def)

lemma client_inv_loop_head: "client_inv s \<Longrightarrow> client_inv (loop_head e l a d s)"
  by (simp add: loop_head_def Let_def client_simps client_inv_sleep_timer)

lemma client_inv_start_loop: "client_inv s \<Longrightarrow> client_inv (start_loop e s)"
  by (simp add: start_loop_def client_inv_loop_head client_inv_fresh)

lemma client_inv_loop_wake: "client_inv s \<Longrightarrow> client_inv (loop_wake e l s)"
  by (auto simp: loop_wake_def case_prod_beta Let_def client_simps split: option.split
      intro!: client_inv_await client_inv_openSocket)

lemma client_inv_loop_resubscribe:
  "client_inv s \<Longrightarrow> jm_get (pending s) (uuid e) = None \<Longrightarrow> client_inv (loop_resubscribe e l i s)"
  by (auto simp: loop_resubscribe_def case_prod_beta Let_def client_simps split: option.split
      intro!: client_inv_await client_inv_request)

lemma client_inv_loop_open_failed: "client_inv s \<Longrightarrow> client_inv (loop_open_failed e l s)"
  by (simp add: loop_open_failed_def client_inv_loop_head split: option.split)

section \<open>Steps\<close>

lemma client_inv_subscribe:
  assumes "client_inv s" and "jm_get (pending s) (uuid e) = None"
  shows "client_inv (snd (subscribe e m d s))" and "client_inv (snd (unsubscribe e m s))"
  using assms
  by (auto simp: subscribe_def unsubscribe_def Let_def case_prod_beta
      intro!: client_inv_await client_inv_request client_inv_new_promise)

lemma client_inv_api:
  assumes "client_inv s" and "jm_get (pending s) (uuid e) = None"
  shows "client_inv (snd (api e c s))"
  using assms
  by (cases c) (simp_all add: client_inv_subscribe client_inv_request pause_def resume_def stop_def
      markAsIdle_def toggleLight_def setFanSpeed_def startPrint_def startLocalPrint_def
      setPrintSpeed_def findMatchingSpools_def changeMaterial_def subscribeLogs_def
      unsubscribeLogs_def getLogHistory_def getTotalFileStoreUsage_def
      getMachineFileStoreUsage_def getAllMachineConfigurations_def)

lemma client_inv_after:
  assumes inv: "client_inv s" and q: "origins s q = Some ByAsync"
  shows "client_inv (after_subscribe m d q v s)" and "client_inv (after_unsubscribe m q v s)"
  using assms
  by (simp_all add: after_subscribe_def after_unsubscribe_def client_inv_settle_other client_simps
      split: settled.split)

lemma client_inv_run_job:
  assumes inv: "client_inv s" and new: "jm_get (pending s) (uuid e) = None"
    and outer: "\<And>a v. j = Continue a v \<Longrightarrow> outer_ok (origins s) a"
  shows "client_inv (run_job e j s)"
proof (cases j)
  case (Wake l)
  with inv show ?thesis by (simp add: client_inv_loop_wake)
next
  case (Continue a v)
  with outer have "outer_ok (origins s) a" by simp
  with inv new Continue show ?thesis
    by (cases a) (simp_all add: client_inv_after after_loop_open_def after_loop_resub_def
        client_inv_loop_open_failed client_inv_loop_resubscribe split: settled.split option.split loop_pc.split)
qed

lemma client_inv_microtask:
  assumes inv: "client_inv s" and new: "jm_get (pending s) (uuid e) = None"
  shows "client_inv (microtask e s)"
proof (cases "jobs s")
  case Nil
  with inv show ?thesis by (simp add: microtask_def)
next
  case (Cons j js)
  have inv': "client_inv (s\<lparr>jobs := js\<rparr>)"
    using inv Cons by (cases j) (auto simp: client_inv_def jobs_ok_def)
  have "outer_ok (origins s) a" if "j = Continue a v" for a v
    using inv Cons that by (auto simp: client_inv_def jobs_ok_def)
  with inv' new Cons show ?thesis
    by (simp add: microtask_def client_inv_run_job)
qed

lemma client_inv_close_socket: "client_inv s \<Longrightarrow> client_inv (close_socket w s)"
  by (auto simp: close_socket_def client_simps client_inv_sockets split: option.split)

lemma client_inv_disconnect: "client_inv s \<Longrightarrow> client_inv (disconnect s)"
  by (auto simp: disconnect_def Let_def client_simps client_inv_close_socket split: option.split
      intro!: client_inv_reject_all)

lemma client_inv_handlers:
  assumes "client_inv s"
  shows "client_inv (on ev h s)" "client_inv (off ev h s)" "client_inv (onTopic t th s)"
    "client_inv (offTopic t th s)" "client_inv (onMachineState m h s)" "client_inv (onLogs h s)"
  using assms
  by (simp_all add: on_def off_def onTopic_def offTopic_def onMachineState_def onLogs_def Let_def
      client_simps client_inv_fresh split: option.split)

lemma open_promise_origin:
  "client_inv s \<Longrightarrow> sockets s w = Some k \<Longrightarrow> origins s (openPromise k) = Some ByOpen"
  by (auto simp: client_inv_def sockets_ok_def)

lemma client_inv_socket_events:
  assumes inv: "client_inv s"
  shows "client_inv (socket_open w s)" "client_inv (socket_error w s)"
    "client_inv (socket_close e w code reason s)"
  using inv
  by (auto simp: socket_open_def socket_error_def socket_close_def Let_def client_simps open_promise_origin
      split: option.split
      intro!: client_inv_settle_other client_inv_sockets client_inv_start_loop client_inv_reject_all)

lemma client_inv_timer_fires: "client_inv s \<Longrightarrow> client_inv (timer_fires t s)"
proof (cases "timers s t")
  case (Some x)
  assume inv: "client_inv s"
  obtain j ms where x: "x = (j, ms)" by (cases x)
  show ?thesis
  proof (cases j)
    case (RequestTimeout i a ms1 p)
    with Some x inv show ?thesis by (simp add: timer_fires_def client_inv_timeout)
  next
    case (SleepOver l)
    with inv Some x have "client_inv (clear_timer t s)" by (simp add: client_inv_clear_sleep)
    with SleepOver Some x show ?thesis
      by (simp add: timer_fires_def Let_def client_inv_def)
  qed
qed (simp add: timer_fires_def)

lemma client_inv_step:
  assumes "client_inv s" and "jm_get (pending s) (uuid e) = None"
  shows "client_inv (step parse e ev s)"
  using assms
  by (cases ev) (simp_all add: connect_def client_inv_openSocket client_simps client_inv_disconnect
      client_inv_api downloadFile_def client_inv_handlers client_inv_socket_events
      client_inv_handle_message client_inv_timer_fires client_inv_microtask)

theorem reachable_client_inv: "reachable parse (new_client u o1) s \<Longrightarrow> client_inv s"
  by (induction rule: reachable.induct) (auto intro: client_inv_new client_inv_step)

end
