(* ===== verification/ClientDemo.thy ===== *)
theory ClientDemo
  imports ClientSteps
begin

text \<open>
  A concrete life of a client, used to show that the properties' hypotheses hold
  together: it connects, the socket opens, and it asks to pause machine \<open>m1\<close>.
\<close>

definition demo_env :: "string \<Rightarrow> env" where
  "demo_env i = \<lparr>uuid = i, random = 1 / 2, ctorThrows = None, sendThrows = None\<rparr>"

definition demo_reply :: json where
  "demo_reply = JObj
     [(''messageID'', JStr ''id1''), (''topic'', JStr ''machine/pause''),
      (''data'', JObj [(''isSuccess'', JBool True)])]"

definition demo_parse :: "string \<Rightarrow> json option" where
  "demo_parse raw = (if raw = ''reply'' then Some demo_reply
     else if raw = ''log'' then Some (JObj [(''topic'', JStr ''logs''), (''data'', JArr [])])
     else if raw = ''state'' then Some (JObj [(''topic'', JStr ''machine/m1/state''), (''data'', JArr [])])
     else if raw = ''subscribed'' then Some (JObj [(''messageID'', JStr ''id2''), (''topic'', JStr ''machine/subscribe''),
       (''data'', JObj [(''isSuccess'', JBool True)])])
     else None)"

definition demo_options :: Connect3DpClientOptions where
  "demo_options = \<lparr>requestTimeoutMs = None, controlRequestTimeoutMs = None, reconnect = None\<rparr>"

definition demo_new :: client where
  "demo_new = new_client ''ws://host/ws'' demo_options"

definition demo_connecting :: client where
  "demo_connecting = step demo_parse (demo_env ''id0'') Connect demo_new"

definition demo_open :: client where
  "demo_open = step demo_parse (demo_env ''id0'') (SocketOpen 1) demo_connecting"

definition demo_paused :: client where
  "demo_paused = step demo_parse (demo_env ''id1'') (Api (Pause ''m1'')) demo_open"

text \<open>The fields of the three states.\<close>

lemmas demo_defs = demo_env_def demo_new_def demo_connecting_def demo_open_def demo_paused_def
  new_client_def connect_def openSocket_def new_promise_def socket_open_def settle_def emit_def
  emit_out_def pause_def request_def ws_open_def set_timer_def Let_def

lemma demo_connecting_fields:
  "sockets demo_connecting = (\<lambda>_. None)(1 := Some \<lparr>readyState = CONNECTING, openPromise = 0, closeFired = False\<rparr>)"
  "ws demo_connecting = Some 1" "jobs demo_connecting = []" "pending demo_connecting = []"
  "fresh demo_connecting = 2" "promises demo_connecting = (\<lambda>_. Pending)"
  "origins demo_connecting = (\<lambda>_. None)(0 := Some ByOpen)" "timers demo_connecting = (\<lambda>_. None)"
  "awaiters demo_connecting = (\<lambda>_. None)" "eventHandlers demo_connecting = []"
  "topicHandlers demo_connecting = []" "subscriptions demo_connecting = []"
  "loops demo_connecting = (\<lambda>_. None)" "intentionalClose demo_connecting = False"
  "opts demo_connecting = resolve_options demo_options" "out demo_connecting = []"
  by (simp_all add: demo_defs fun_eq_iff)

lemma demo_open_fields:
  "sockets demo_open = (\<lambda>_. None)(1 := Some \<lparr>readyState = OPEN, openPromise = 0, closeFired = False\<rparr>)"
  "ws demo_open = Some 1" "jobs demo_open = []" "pending demo_open = []" "fresh demo_open = 2"
  "promises demo_open = (\<lambda>_. Pending)(0 := Fulfilled JUndefined)"
  "origins demo_open = (\<lambda>_. None)(0 := Some ByOpen)" "timers demo_open = (\<lambda>_. None)"
  "awaiters demo_open = (\<lambda>_. None)" "eventHandlers demo_open = []" "topicHandlers demo_open = []"
  "subscriptions demo_open = []" "loops demo_open = (\<lambda>_. None)" "intentionalClose demo_open = False"
  "opts demo_open = resolve_options demo_options" "out demo_open = []"
  by (simp_all add: demo_open_def socket_open_def demo_connecting_fields settle_def emit_def emit_out_def)

lemma demo_paused_fields:
  "pending demo_paused = [Some (''id1'', \<lparr>p_promise = 2, p_timer = 3\<rparr>)]"
  "timers demo_paused = (\<lambda>_. None)(3 := Some (RequestTimeout ''id1'' ''machine/pause'' 35000 2, 35000))"
  "promises demo_paused = (\<lambda>_. Pending)(0 := Fulfilled JUndefined)"
  "origins demo_paused = (\<lambda>_. None)(0 := Some ByOpen, 2 := Some ByRequest)"
  "jobs demo_paused = []" "ws demo_paused = Some 1" "fresh demo_paused = 4"
  "sockets demo_paused = sockets demo_open" "intentionalClose demo_paused = False"
  "topicHandlers demo_paused = []" "subscriptions demo_paused = []"
  by (auto simp add: demo_paused_def pause_def request_def ws_open_def set_timer_def new_promise_def
      demo_open_fields emit_out_def Let_def demo_env_def resolve_options_def demo_options_def fun_eq_iff)

lemma demo_reachable:
  "reachable demo_parse demo_new demo_connecting"
  "reachable demo_parse demo_new demo_open"
  "reachable demo_parse demo_new demo_paused"
proof -
  show c: "reachable demo_parse demo_new demo_connecting"
    unfolding demo_connecting_def
    by (rule next_step [OF start]) (simp_all add: demo_new_def new_client_def)
  show o: "reachable demo_parse demo_new demo_open"
    unfolding demo_open_def
    by (rule next_step [OF c]) (simp_all add: socket_in_def demo_connecting_fields)
  show "reachable demo_parse demo_new demo_paused"
    unfolding demo_paused_def
    by (rule next_step [OF o]) (simp_all add: demo_open_fields)
qed

lemmas demo_paused_reachable = demo_reachable(3) [unfolded demo_new_def]
lemmas demo_open_reachable = demo_reachable(2) [unfolded demo_new_def]

end
