(* ===== verification/ClientProps.thy ===== *)
theory ClientProps
  imports ClientDemo
begin

text \<open>
  What the client promises its caller: requests are answered, timed out or rejected and
  never lost; broadcasts reach the topic's listeners in order; a
  duration means what it says; the HTTP base follows the socket's scheme.
\<close>

section \<open>No request is lost\<close>

text \<open>C2: Every unsettled promise of a request, in every state the client can reach, is in
  the table of pending requests under an identifier of its own, with a running timer that
  names that identifier and that promise.\<close>

theorem no_request_lost:
  assumes "reachable parse (new_client u o1) s"
    and "origins s p = Some ByRequest" and "promises s p = Pending"
  shows "\<exists>i t a ms. jm_get (pending s) i = Some \<lparr>p_promise = p, p_timer = t\<rparr>
           \<and> timers s t = Some (RequestTimeout i a ms p, ms)
           \<and> (\<forall>j e. jm_get (pending s) j = Some e \<and> p_promise e = p \<longrightarrow> j = i)"
proof -
  from assms(1) have "client_inv s" by (rule reachable_client_inv)
  then have tab: "table_ok (jm_get (pending s)) (promises s) (origins s) (timers s)"
    by (simp add: client_inv_def)
  then obtain i e where e: "jm_get (pending s) i = Some e" "p_promise e = p"
    using assms(2,3) by (auto simp: table_ok_def dest: none_lostD)
  from tab have "entries_ok (jm_get (pending s)) (promises s) (origins s) (timers s)"
    by (rule table_okE)
  then obtain a ms where t: "timers s (p_timer e) = Some (RequestTimeout i a ms (p_promise e), ms)"
    using e(1) by (rule entries_okD)
  have "\<forall>j f. jm_get (pending s) j = Some f \<and> p_promise f = p \<longrightarrow> j = i"
    using tab e by (auto simp: table_ok_def promises_apart_def)
  moreover have "e = \<lparr>p_promise = p, p_timer = p_timer e\<rparr>"
    using e(2) by simp
  ultimately show ?thesis using e t by metis
qed

theorem no_request_lost_witness:
  "\<exists>i t a ms. jm_get (pending demo_paused) i = Some \<lparr>p_promise = 2, p_timer = t\<rparr>
     \<and> timers demo_paused t = Some (RequestTimeout i a ms 2, ms)"
  using no_request_lost [OF demo_paused_reachable, of 2] by (auto simp: demo_paused_fields)

text \<open>C1: In every state the client can reach, a request's timer that fires rejects the
  promise of that request with the timeout and the action it was made with, removes that
  request from the table of pending requests and is spent; every other promise, every other
  pending request and every other timer stays as it is, and nothing is sent or reported.\<close>

theorem timer_rejects_its_request:
  assumes "reachable parse (new_client u o1) s"
    and t: "timers s t = Some (RequestTimeout i a ms p, ms')"
  shows "promises (timer_fires t s) = (promises s)(p := Rejected (RequestTimedOut a ms))
    \<and> (\<forall>j. jm_get (pending (timer_fires t s)) j = (if j = i then None else jm_get (pending s) j))
    \<and> timers (timer_fires t s) = (timers s)(t := None) \<and> out (timer_fires t s) = out s"
proof -
  from assms(1) have inv: "client_inv s" by (rule reachable_client_inv)
  then have tab: "table_ok (jm_get (pending s)) (promises s) (origins s) (timers s)"
    and wf: "jm_wf (pending s)"
    by (simp_all add: client_inv_def)
  have e: "jm_get (pending s) i = Some \<lparr>p_promise = p, p_timer = t\<rparr>"
    using tab t by (auto simp: table_ok_def dest: timers_okD)
  have "promises s p = Pending"
    using tab e by (auto simp: table_ok_def elim: entries_okD)
  with t wf show ?thesis
    by (auto simp: timer_fires_def request_timeout_def promises_settle clear_timer_def js_simps)
qed

theorem timer_rejects_its_request_witness:
  "promises (timer_fires 3 demo_paused) 2 = Rejected (RequestTimedOut ''machine/pause'' 35000)"
  using timer_rejects_its_request [OF demo_paused_reachable, of 3 "''id1''" "''machine/pause''" 35000 2 35000]
  by (simp add: demo_paused_fields)

text \<open>C3: A reply that carries the identifier of a pending request fulfils the promise of
  that request with the reply's data, removes the request and stops its timer; no topic
  listener sees it, and no other promise or pending request changes.\<close>

theorem reply_settles_its_request:
  assumes "reachable parse (new_client u o1) s"
    and "parse raw = Some msg" and "\<not> nullish msg"
    and "jget msg ''messageID'' = JStr i" and e: "jm_get (pending s) i = Some e"
  shows "promises (handleMessage parse raw s) =
           (promises s)(p_promise e := Fulfilled (jget msg ''data''))
         \<and> timers (handleMessage parse raw s) = (timers s)(p_timer e := None)
         \<and> (\<forall>j. jm_get (pending (handleMessage parse raw s)) j =
                  (if j = i then None else jm_get (pending s) j))
         \<and> out (handleMessage parse raw s) = out (emit (MessageEvent msg) s)"
proof -
  from assms(1) have inv: "client_inv s" by (rule reachable_client_inv)
  then have tab: "table_ok (jm_get (pending s)) (promises s) (origins s) (timers s)"
    and wf: "jm_wf (pending s)"
    by (simp_all add: client_inv_def)
  have pend: "promises s (p_promise e) = Pending"
    using tab e by (auto simp: table_ok_def elim: entries_okD)
  let ?s = "emit (MessageEvent msg) s"
  have "find_pending (jget msg ''messageID'') ?s = Some (i, e)"
    using assms(4) e by (simp add: find_pending_def)
  then have "handleMessage parse raw s = settle (p_promise e) (Fulfilled (jget msg ''data''))
      ((clear_timer (p_timer e) ?s)\<lparr>pending := jm_delete i (pending s)\<rparr>)"
    using assms(2,3) by (simp add: handleMessage_def Let_def clear_timer_def)
  then show ?thesis
    using pend wf by (auto simp: promises_settle clear_timer_def js_simps)
qed

theorem reply_settles_its_request_witness:
  "promises (handleMessage demo_parse ''reply'' demo_paused) 2 = Fulfilled (JObj [(''isSuccess'', JBool True)])"
  using reply_settles_its_request [OF demo_paused_reachable, of "''reply''" demo_reply "''id1''"
      "\<lparr>p_promise = 2, p_timer = 3\<rparr>"]
  by (simp add: demo_parse_def demo_reply_def demo_paused_fields)

section \<open>Closing rejects everything that is pending\<close>

lemma reject_entries_promises:
  "promises (reject_entries err es s) p =
     (if promises s p = Pending \<and> p \<in> p_promise ` snd ` set es then Rejected err else promises s p)"
  by (induction err es s rule: reject_entries.induct) (auto simp: promises_settle clear_timer_def)

lemma reject_entries_timers:
  "timers (reject_entries err es s) t = (if t \<in> p_timer ` snd ` set es then None else timers s t)"
  by (induction err es s rule: reject_entries.induct) (auto simp: clear_timer_def)

lemma reject_entries_origins: "origins (reject_entries err es s) = origins s"
  by (induction err es s rule: reject_entries.induct) (simp_all add: clear_timer_def)

lemma reject_all_fields [simp]:
  "promises (rejectAllPending err s) p =
     (if promises s p = Pending \<and> p \<in> p_promise ` snd ` set (jm_entries (pending s)) then Rejected err
      else promises s p)"
  "timers (rejectAllPending err s) t =
     (if t \<in> p_timer ` snd ` set (jm_entries (pending s)) then None else timers s t)"
  "origins (rejectAllPending err s) = origins s"
  "jm_entries (pending (rejectAllPending err s)) = []"
  by (simp_all add: rejectAllPending_def Let_def reject_entries_promises reject_entries_timers
      reject_entries_origins)

lemma reject_all_settles:
  assumes inv: "client_inv s"
  shows "origins s p = Some ByRequest \<Longrightarrow> promises s p = Pending
           \<Longrightarrow> promises (rejectAllPending err s) p = Rejected err"
    and "timers (rejectAllPending err s) t \<noteq> Some (RequestTimeout i a ms q, ms')"
proof -
  show "promises (rejectAllPending err s) p = Rejected err"
    if p: "origins s p = Some ByRequest" "promises s p = Pending"
  proof -
    obtain i e where "jm_get (pending s) i = Some e" "p_promise e = p"
      by (rule client_inv_none_lost [OF inv p])
    then have "p \<in> p_promise ` snd ` set (jm_entries (pending s))"
      by (force dest: jm_get_Some_entry)
    with p show ?thesis by simp
  qed
  show "timers (rejectAllPending err s) t \<noteq> Some (RequestTimeout i a ms q, ms')"
  proof
    assume "timers (rejectAllPending err s) t = Some (RequestTimeout i a ms q, ms')"
    then have t: "timers s t = Some (RequestTimeout i a ms q, ms')"
      and no: "t \<notin> p_timer ` snd ` set (jm_entries (pending s))"
      by (auto split: if_splits)
    from client_inv_timer [OF inv t] have "t \<in> p_timer ` snd ` set (jm_entries (pending s))"
      by (force dest: jm_get_Some_entry)
    with no show False by simp
  qed
qed

lemma reject_entries_frame:
  "intentionalClose (reject_entries err es s) = intentionalClose s"
  "ws (reject_entries err es s) = ws s" "opts (reject_entries err es s) = opts s"
  "subscriptions (reject_entries err es s) = subscriptions s"
  by (induction err es s rule: reject_entries.induct) (simp_all add: clear_timer_def)

lemma reject_all_frame [simp]:
  "intentionalClose (rejectAllPending err s) = intentionalClose s"
  "ws (rejectAllPending err s) = ws s" "opts (rejectAllPending err s) = opts s"
  "subscriptions (rejectAllPending err s) = subscriptions s"
  by (simp_all add: rejectAllPending_def Let_def reject_entries_frame)

text \<open>The state in which \<open>disconnect\<close> rejects the pending requests.\<close>

definition closing :: "client \<Rightarrow> client" where
  "closing s = (case ws s of None \<Rightarrow> s\<lparr>intentionalClose := True\<rparr>
     | Some w \<Rightarrow> close_socket w (s\<lparr>intentionalClose := True\<rparr>))\<lparr>ws := None\<rparr>"

lemma disconnect_closing: "disconnect s = rejectAllPending ClientDisconnected (closing s)"
  by (simp add: disconnect_def closing_def Let_def)

lemma closing_fields [simp]:
  "promises (closing s) = promises s" "origins (closing s) = origins s"
  "intentionalClose (closing s)" "ws (closing s) = None" "timers (closing s) = timers s"
  "subscriptions (closing s) = subscriptions s" "loops (closing s) = loops s"
  by (simp_all add: closing_def close_socket_def emit_out_def split: option.split)

lemma client_inv_closing: "client_inv s \<Longrightarrow> client_inv (closing s)"
  by (simp add: closing_def client_simps client_inv_close_socket split: option.split)

text \<open>C4: \<open>disconnect\<close> leaves nothing pending: every request that was not settled is
  rejected with the disconnect error, no request timer is left running, and the client
  marks the close as intended, so no reconnect follows from it.\<close>

theorem disconnect_rejects_all_pending:
  assumes "reachable parse (new_client u o1) s"
  shows "(\<forall>p. origins s p = Some ByRequest \<and> promises s p = Pending
            \<longrightarrow> promises (disconnect s) p = Rejected ClientDisconnected)
         \<and> jm_entries (pending (disconnect s)) = []
         \<and> (\<forall>t i a ms p ms'. timers (disconnect s) t \<noteq> Some (RequestTimeout i a ms p, ms'))
         \<and> intentionalClose (disconnect s) \<and> ws (disconnect s) = None"
proof -
  from assms have "client_inv (closing s)"
    by (intro client_inv_closing reachable_client_inv)
  from reject_all_settles [OF this] show ?thesis
    unfolding disconnect_closing by (simp del: reject_all_fields(1,2))
qed

theorem disconnect_rejects_all_pending_witness:
  "promises (disconnect demo_paused) 2 = Rejected ClientDisconnected"
  using disconnect_rejects_all_pending [OF demo_paused_reachable] by (simp add: demo_paused_fields)

end
