(* ===== verification/ClientTrace.thy ===== *)
theory ClientTrace
  imports ClientProps
begin

text \<open>
  An invariant that ties the client's memory to what it has done: awaiting code belongs
  to a promise already made, a recorded subscription (or the continuation that would
  record it) to an envelope the client has sent, and every topic listener to a closure
  already made.
\<close>

section \<open>What has been asked for\<close>

definition asked_for :: "effect list \<Rightarrow> string \<Rightarrow> StateDetails \<Rightarrow> bool" where
  "asked_for os m d \<longleftrightarrow> (\<exists>w i. Sent w (envelope (Topics Machine_Subscribe) i
     (SubscribeToMachinePayload m d)) \<in> set os)"

fun asked :: "effect list \<Rightarrow> awaiter \<Rightarrow> bool" where
  "asked os (AwaitSubscribe m d q) = asked_for os m d"
| "asked os _ = True"

fun closure_id :: "topic_handler \<Rightarrow> nat" where
  "closure_id (StateHandler c h m) = c"
| "closure_id (LogsHandler c h) = c"

lemma asked_for_mono [simp]: "asked_for os m d \<Longrightarrow> asked_for (os @ os') m d"
  by (auto simp: asked_for_def)

lemma asked_mono [simp]: "asked os a \<Longrightarrow> asked (os @ os') a"
  by (cases a) auto

definition awaits_ok :: "effect list \<Rightarrow> nat \<Rightarrow> (nat \<Rightarrow> awaiter option) \<Rightarrow> bool" where
  "awaits_ok os n aw \<longleftrightarrow> (\<forall>p a. aw p = Some a \<longrightarrow> p < n \<and> asked os a)"

definition queue_ok :: "effect list \<Rightarrow> job list \<Rightarrow> bool" where
  "queue_ok os js \<longleftrightarrow> (\<forall>a r. Continue a (Fulfilled r) \<in> set js \<longrightarrow> asked os a)"

definition subs_ok :: "effect list \<Rightarrow> (string, StateDetails) jsmap \<Rightarrow> bool" where
  "subs_ok os sb \<longleftrightarrow> jm_wf sb \<and> (\<forall>m d. jm_get sb m = Some d \<longrightarrow> asked_for os m d)"

definition listeners_ok :: "nat \<Rightarrow> (string, topic_handler jsset) jsmap \<Rightarrow> bool" where
  "listeners_ok n th \<longleftrightarrow> (\<forall>t hs. jm_get th t = Some hs \<longrightarrow> jm_wf hs \<and> (\<forall>x \<in> set (jm_keys hs). closure_id x < n))"

definition trace_inv :: "client \<Rightarrow> bool" where
  "trace_inv s \<longleftrightarrow> awaits_ok (out s) (fresh s) (awaiters s) \<and> queue_ok (out s) (jobs s)
     \<and> subs_ok (out s) (subscriptions s) \<and> listeners_ok (fresh s) (topicHandlers s)"

lemma trace_parts [simp, intro]:
  "awaits_ok os n aw \<Longrightarrow> awaits_ok (os @ os') n aw" "awaits_ok os n aw \<Longrightarrow> awaits_ok os (Suc n) aw"
  "queue_ok os js \<Longrightarrow> queue_ok (os @ os') js" "queue_ok os []"
  "queue_ok os js \<Longrightarrow> queue_ok os (js @ [Wake l])" "queue_ok os (j # js) \<Longrightarrow> queue_ok os js"
  "queue_ok os js \<Longrightarrow> asked os a \<Longrightarrow> queue_ok os (js @ [Continue a v])"
  "queue_ok os js \<Longrightarrow> queue_ok os (js @ [Continue a (Rejected err)])"
  "subs_ok os sb \<Longrightarrow> subs_ok (os @ os') sb" "subs_ok os sb \<Longrightarrow> subs_ok os (jm_delete m sb)"
  "subs_ok os sb \<Longrightarrow> asked_for os m d \<Longrightarrow> subs_ok os (jm_set m d sb)"
  "listeners_ok n th \<Longrightarrow> listeners_ok (Suc n) th"
  "awaits_ok os n aw \<Longrightarrow> p < n \<Longrightarrow> asked os a \<Longrightarrow> awaits_ok os n (aw(p := Some a))"
  by (auto simp: awaits_ok_def queue_ok_def subs_ok_def listeners_ok_def less_Suc_eq
      jm_get_delete jm_get_set split: if_splits)

lemma awaits_okD: "awaits_ok os n aw \<Longrightarrow> aw p = Some a \<Longrightarrow> p < n \<and> asked os a"
  by (simp add: awaits_ok_def)

lemma trace_inv_eq:
  assumes "awaiters s' = awaiters s" "jobs s' = jobs s" "subscriptions s' = subscriptions s"
    and "topicHandlers s' = topicHandlers s" "fresh s' = fresh s" "out s' = out s @ os"
  shows "trace_inv s \<Longrightarrow> trace_inv s'"
  using assms by (simp add: trace_inv_def trace_parts)

lemma trace_inv_frame [simp]:
  "trace_inv s \<Longrightarrow> trace_inv (emit ev s)" "trace_inv s \<Longrightarrow> trace_inv (emit_out es s)"
  "trace_inv s \<Longrightarrow> trace_inv (set_loop l a d q s)" "trace_inv s \<Longrightarrow> trace_inv (end_loop l s)"
  "trace_inv s \<Longrightarrow> trace_inv (clear_timer t s)"
  "trace_inv (s\<lparr>intentionalClose := x\<rparr>) = trace_inv s" "trace_inv (s\<lparr>ws := y\<rparr>) = trace_inv s"
  "trace_inv (s\<lparr>pending := m\<rparr>) = trace_inv s" "trace_inv (s\<lparr>eventHandlers := h\<rparr>) = trace_inv s"
  "trace_inv (s\<lparr>sockets := sk\<rparr>) = trace_inv s"
  by (simp_all add: trace_inv_def trace_parts emit_def emit_out_def set_loop_def end_loop_def clear_timer_def)

lemma trace_inv_fresh: "trace_inv s \<Longrightarrow> trace_inv (s\<lparr>fresh := Suc (fresh s)\<rparr>)"
  by (simp add: trace_inv_def trace_parts)

lemma trace_inv_wake: "trace_inv s \<Longrightarrow> trace_inv (s\<lparr>jobs := jobs s @ [Wake l]\<rparr>)"
  by (simp add: trace_inv_def trace_parts)

lemma trace_inv_new_promise: "trace_inv s \<Longrightarrow> trace_inv (snd (new_promise og s))"
  by (simp add: trace_inv_def trace_parts new_promise_def)

lemma trace_inv_set_timer: "trace_inv s \<Longrightarrow> trace_inv (set_timer j ms s)"
  by (simp add: trace_inv_def trace_parts set_timer_def)

lemma trace_inv_settle: "trace_inv s \<Longrightarrow> trace_inv (settle p v s)"
proof (cases "awaiters s p")
  case None
  assume "trace_inv s"
  with None show ?thesis by (simp add: trace_inv_def settle_def)
next
  case (Some a)
  assume inv: "trace_inv s"
  with Some have "asked (out s) a" by (simp add: trace_inv_def awaits_ok_def)
  with inv Some show ?thesis by (simp add: trace_inv_def settle_def trace_parts(7))
qed

lemmas trace_intros = trace_inv_fresh trace_inv_new_promise trace_inv_set_timer trace_inv_settle

lemma trace_inv_await:
  assumes "trace_inv s" and "p < fresh s" and "promises s p = Pending \<or> (\<exists>r. promises s p = Fulfilled r) \<Longrightarrow> asked (out s) a"
  shows "trace_inv (await_promise p a s)"
  using assms by (cases "promises s p") (auto simp: trace_inv_def await_promise_def)

lemma trace_inv_requested: "trace_inv s \<Longrightarrow> trace_inv (requested e action ms s)"
  by (simp add: requested_def Let_def trace_inv_set_timer trace_inv_new_promise)

lemma trace_inv_request: "trace_inv s \<Longrightarrow> trace_inv (snd (request e a d ms s))"
  by (auto simp: request_cases Let_def trace_inv_requested split: option.split intro!: trace_intros)

text \<open>A request that is not refused at once has put its envelope on the wire.\<close>

lemma request_unsettled:
  assumes "awaiters s (fresh s) = None" and "\<And>err. promises (snd (request e a d ms s)) (fresh s) \<noteq> Rejected err"
  shows "\<exists>w. Sent w (envelope a (uuid e) d) \<in> set (out (snd (request e a d ms s)))"
proof -
  have "promises (requested e a ms s) (fresh s) = Pending"
    by (simp add: requested_def Let_def set_timer_def)
  with assms(2) show ?thesis
    by (cases "ws_open s"; cases "sendThrows e")
      (auto simp: request_cases Let_def emit_out_def settle_def clear_timer_def)
qed

lemma fresh_request: "fresh s < fresh (snd (request e a d ms s))"
  by (simp add: request_cases Let_def requested_def set_timer_def clear_timer_def emit_out_def split: option.split)

lemma trace_inv_await_request:
  assumes "trace_inv s" and "\<And>os w i. Sent w (envelope action i d) \<in> set os \<Longrightarrow> asked os a"
  shows "trace_inv (await_promise (fresh s) a (snd (request e action d ms s)))"
proof (rule trace_inv_await)
  have none: "awaiters s (fresh s) = None"
    using assms(1) by (metis awaits_okD less_irrefl option.exhaust trace_inv_def)
  show "asked (out (snd (request e action d ms s))) a"
    if "promises (snd (request e action d ms s)) (fresh s) = Pending
      \<or> (\<exists>r. promises (snd (request e action d ms s)) (fresh s) = Fulfilled r)"
    using request_unsettled [OF none, of e action d ms] that assms(2) by fastforce
qed (simp_all add: assms(1) trace_inv_request fresh_request)

lemma trace_inv_openSocket: "trace_inv s \<Longrightarrow> trace_inv (snd (openSocket e s))"
proof (cases "ctorThrows e")
  case None
  assume "trace_inv s"
  then have "trace_inv ((snd (new_promise ByOpen s))\<lparr>fresh := Suc (fresh (snd (new_promise ByOpen s)))\<rparr>)"
    by (intro trace_intros)
  with None show ?thesis
    by (simp add: openSocket_def case_prod_beta Let_def trace_inv_def)
next
  case (Some m)
  assume "trace_inv s"
  with Some show ?thesis
    by (simp add: openSocket_def case_prod_beta Let_def trace_intros)
qed

lemma trace_inv_reject_all: "trace_inv s \<Longrightarrow> trace_inv (rejectAllPending err s)"
proof -
  assume "trace_inv s"
  then have "trace_inv (reject_entries err es s)" for es
    by (induction es arbitrary: s) (auto simp: trace_inv_settle)
  then show ?thesis by (simp add: rejectAllPending_def Let_def)
qed

section \<open>Every step keeps it\<close>

lemma trace_inv_loop_head: "trace_inv s \<Longrightarrow> trace_inv (loop_head e l a d s)"
  by (simp add: loop_head_def Let_def trace_inv_set_timer)

lemma trace_inv_loops:
  assumes "trace_inv s"
  shows "trace_inv (start_loop e s)" "trace_inv (loop_open_failed e l s)" "trace_inv (loop_resubscribe e l i s)"
  using assms
  by (auto simp: start_loop_def loop_open_failed_def loop_resubscribe_def case_prod_beta Let_def
      trace_inv_fresh trace_inv_loop_head split: option.split
      intro!: trace_inv_await trace_inv_request) (metis fresh_request set_loop_fields(8))+

lemma trace_inv_loop_wake: "trace_inv s \<Longrightarrow> trace_inv (loop_wake e l s)"
proof (cases "loops s l")
  case (Some lp)
  assume "trace_inv s"
  then have inv: "trace_inv (snd (openSocket e (set_loop l (attempt lp) (delay lp) Opening s)))"
    by (simp add: trace_inv_openSocket)
  moreover have "fresh s < fresh (snd (openSocket e (set_loop l (attempt lp) (delay lp) Opening s)))"
    by (simp add: openSocket_def case_prod_beta Let_def split: option.split)
  ultimately show ?thesis
    using Some \<open>trace_inv s\<close> by (simp add: loop_wake_def case_prod_beta Let_def) (auto intro: trace_inv_await)
qed (simp add: loop_wake_def)

lemma trace_inv_subscribe:
  assumes "trace_inv s"
  shows "trace_inv (snd (subscribe e m d s))" "trace_inv (snd (unsubscribe e m s))"
proof -
  let ?s1 = "snd (new_promise ByAsync s)"
  have s1: "trace_inv ?s1" using assms by (rule trace_inv_new_promise)
  have f: "fresh ?s1 = Suc (fresh s)" by simp
  show "trace_inv (snd (subscribe e m d s))"
    using trace_inv_await_request [OF s1, of "Topics Machine_Subscribe" "SubscribeToMachinePayload m d"
        "AwaitSubscribe m d (fresh s)"]
    by (auto simp only: subscribe_def case_prod_beta Let_def f asked.simps asked_for_def snd_conv
        new_promise_fields request_fields)
  show "trace_inv (snd (unsubscribe e m s))"
    using trace_inv_await_request [OF s1, where a = "AwaitUnsubscribe m (fresh s)"]
    by (simp only: unsubscribe_def case_prod_beta Let_def f asked.simps snd_conv
        new_promise_fields request_fields)
qed

lemma trace_inv_api: "trace_inv s \<Longrightarrow> trace_inv (snd (api e c s))"
  by (cases c) (simp_all add: trace_inv_subscribe pause_def resume_def
      stop_def markAsIdle_def toggleLight_def setFanSpeed_def startPrint_def startLocalPrint_def
      setPrintSpeed_def findMatchingSpools_def changeMaterial_def subscribeLogs_def
      unsubscribeLogs_def getLogHistory_def getTotalFileStoreUsage_def
      getMachineFileStoreUsage_def getAllMachineConfigurations_def trace_inv_request)

lemma trace_inv_after:
  assumes "trace_inv s"
  shows "\<lbrakk>\<And>r. v = Fulfilled r \<Longrightarrow> asked (out s) (AwaitSubscribe m d q)\<rbrakk> \<Longrightarrow> trace_inv (after_subscribe m d q v s)"
    and "trace_inv (after_unsubscribe m q v s)"
  using assms
  by (auto simp: after_subscribe_def after_unsubscribe_def split: settled.split intro!: trace_inv_settle)
    (simp_all add: trace_inv_def trace_parts)

lemma trace_inv_run_job:
  assumes "trace_inv s" and "\<And>a r. j = Continue a (Fulfilled r) \<Longrightarrow> asked (out s) a"
  shows "trace_inv (run_job e j s)"
  using assms
  by (cases "(e, j, s)" rule: run_job.cases)
    (auto simp: after_loop_open_def after_loop_resub_def trace_inv_loop_wake
      split: settled.split option.split loop_pc.split intro!: trace_inv_after trace_inv_loops)

lemma trace_inv_microtask: "trace_inv s \<Longrightarrow> trace_inv (microtask e s)"
proof (cases "jobs s")
  case (Cons j js)
  assume inv: "trace_inv s"
  then have "trace_inv (s\<lparr>jobs := js\<rparr>)" using Cons by (simp add: trace_inv_def) (metis trace_parts(6))
  moreover have "asked (out s) a" if "j = Continue a (Fulfilled r)" for a r
    using inv Cons that by (auto simp: trace_inv_def queue_ok_def)
  ultimately show ?thesis using Cons by (auto simp: microtask_def intro!: trace_inv_run_job)
qed (simp add: microtask_def)

lemma listeners_set:
  assumes "listeners_ok n th" and "jm_wf hs" and "\<And>x. x \<in> set (jm_keys hs) \<Longrightarrow> closure_id x < n"
  shows "listeners_ok n (jm_set t hs th)"
  using assms by (auto simp: listeners_ok_def jm_get_set)

lemma listeners_okD: "listeners_ok n th \<Longrightarrow> jm_get th t = Some hs \<Longrightarrow> jm_wf hs"
  "listeners_ok n th \<Longrightarrow> jm_get th t = Some hs \<Longrightarrow> x \<in> set (jm_keys hs) \<Longrightarrow> closure_id x < n"
  by (auto simp: listeners_ok_def)

lemma onTopic_other [simp]:
  "awaiters (onTopic t h s) = awaiters s" "jobs (onTopic t h s) = jobs s" "out (onTopic t h s) = out s"
  "subscriptions (onTopic t h s) = subscriptions s" "fresh (onTopic t h s) = fresh s"
  by (simp_all add: onTopic_def Let_def split: option.split)

text \<open>The listeners of a topic, in the order they were added.\<close>

definition listeners :: "string \<Rightarrow> client \<Rightarrow> topic_handler list" where
  "listeners t s = (case jm_get (topicHandlers s) t of None \<Rightarrow> [] | Some hs \<Rightarrow> jm_keys hs)"

lemma onTopic_handlers:
  "topicHandlers (onTopic t h s) =
     (case jm_get (topicHandlers s) t of
        None \<Rightarrow> jm_set t (jm_set h () []) (jm_set t [] (topicHandlers s))
      | Some hs \<Rightarrow> jm_set t (jm_set h () hs) (topicHandlers s))"
  by (simp add: onTopic_def jm_has_def Let_def jm_get_set split: option.split)

lemma trace_inv_onTopic:
  assumes "trace_inv s" and "closure_id h < fresh s"
  shows "trace_inv (onTopic t h s)"
proof -
  have ok: "listeners_ok (fresh s) (topicHandlers s)" using assms(1) by (simp add: trace_inv_def)
  have "listeners_ok (fresh s) (topicHandlers (onTopic t h s))"
  proof (cases "jm_get (topicHandlers s) t")
    case None
    then show ?thesis
      using ok assms(2) by (auto simp: onTopic_handlers intro!: listeners_set)
  next
    case (Some hs)
    then show ?thesis
      using ok assms(2) listeners_okD [OF ok Some]
      by (auto simp: onTopic_handlers jm_keys_set split: if_splits intro!: listeners_set)
  qed
  with assms(1) show ?thesis by (simp add: trace_inv_def)
qed

lemma trace_inv_offTopic: "trace_inv s \<Longrightarrow> trace_inv (offTopic t h s)"
  by (auto simp: offTopic_def trace_inv_def jm_keys_delete split: option.split
      intro!: listeners_set dest: listeners_okD(1) dest!: set_remove1_subset [THEN subsetD]
      intro: listeners_okD(2))

lemma trace_inv_handle_message: "trace_inv s \<Longrightarrow> trace_inv (handleMessage parse raw s)"
  by (auto simp: handleMessage_def broadcast_def Let_def split: option.split json.split
      intro!: trace_inv_settle)

lemma trace_inv_socket_events:
  assumes "trace_inv s"
  shows "trace_inv (socket_open w s)" "trace_inv (socket_error w s)" "trace_inv (timer_fires t s)"
    "trace_inv (socket_close e w code reason s)"
  using assms
  by (auto simp: socket_open_def socket_error_def socket_close_def timer_fires_def request_timeout_def Let_def
      split: option.split timer_job.split
      intro!: trace_inv_settle trace_inv_wake trace_inv_reject_all trace_inv_loops)

lemma trace_inv_handlers:
  assumes "trace_inv s"
  shows "trace_inv (on ev h s)" "trace_inv (off ev h s)" "trace_inv (onMachineState m h s)"
    "trace_inv (onLogs h s)" "trace_inv (disconnect s)" "trace_inv (downloadFile f s)"
  using assms
  by (auto simp: on_def off_def onMachineState_def onLogs_def disconnect_def close_socket_def
      downloadFile_def Let_def split: option.split
      intro!: trace_inv_reject_all trace_inv_onTopic trace_inv_fresh)

lemma trace_inv_step: "trace_inv s \<Longrightarrow> trace_inv (step parse e ev s)"
  by (cases ev) (simp_all add: connect_def trace_inv_openSocket trace_inv_api trace_inv_microtask
      trace_inv_offTopic trace_inv_handle_message trace_inv_socket_events trace_inv_handlers)

lemma reachable_trace_inv: "reachable parse (new_client u o1) s \<Longrightarrow> trace_inv s"
proof (induction rule: reachable.induct)
  case start
  show ?case by (simp add: trace_inv_def new_client_def awaits_ok_def subs_ok_def listeners_ok_def)
qed (rule trace_inv_step)

section \<open>Subscriptions and broadcasts\<close>

text \<open>A client that subscribes to machine \<open>m1\<close> and gets a successful reply.\<close>

definition demo_asked :: client where
  "demo_asked = step demo_parse (demo_env ''id2'') (Api (Subscribe ''m1'' Full)) demo_open"

definition demo_answered :: client where
  "demo_answered = step demo_parse (demo_env ''id3'') (SocketMessage 1 ''subscribed'') demo_asked"

definition demo_recorded :: client where
  "demo_recorded = step demo_parse (demo_env ''id4'') Microtask demo_answered"

lemma demo_asked_fields:
  "pending demo_asked = [Some (''id2'', \<lparr>p_promise = 3, p_timer = 4\<rparr>)]" "jobs demo_asked = []"
  "sockets demo_asked = sockets demo_open" "promises demo_asked 3 = Pending" "promises demo_asked 2 = Pending"
  "awaiters demo_asked = (\<lambda>_. None)(3 := Some (AwaitSubscribe ''m1'' Full 2))" "subscriptions demo_asked = []"
  "out demo_asked = [Sent 1 (envelope ''machine/subscribe'' ''id2'' (SubscribeToMachinePayload ''m1'' Full))]"
  "eventHandlers demo_asked = []"
  by (simp_all add: demo_asked_def subscribe_def request_def ws_open_def set_timer_def new_promise_def
      await_promise_def demo_open_fields emit_out_def Let_def demo_env_def)

lemma demo_answered_fields:
  "pending demo_answered = [None]" "subscriptions demo_answered = []" "promises demo_answered 2 = Pending"
  "jobs demo_answered = [Continue (AwaitSubscribe ''m1'' Full 2) (Fulfilled (JObj [(''isSuccess'', JBool True)]))]"
  by (simp_all add: demo_answered_def handleMessage_def demo_parse_def nullish_def find_pending_def Let_def
      settle_def clear_timer_def demo_asked_fields emit_def emit_out_def)

lemma demo_recorded_fields: "subscriptions demo_recorded = [Some (''m1'', Full)]"
  by (simp add: demo_recorded_def microtask_def demo_answered_fields after_subscribe_def nullish_def)

lemma demo_recorded_reachable: "reachable demo_parse (new_client ''ws://host/ws'' demo_options) demo_recorded"
proof -
  let ?R = "reachable demo_parse (new_client ''ws://host/ws'' demo_options)"
  have a: "?R demo_asked"
    unfolding demo_asked_def by (rule next_step [OF demo_open_reachable]) (simp_all add: demo_open_fields)
  have b: "?R demo_answered"
    unfolding demo_answered_def
    by (rule next_step [OF a]) (simp_all add: demo_asked_fields socket_in_def demo_open_fields demo_env_def)
  show ?thesis
    unfolding demo_recorded_def by (rule next_step [OF b]) (simp_all add: demo_answered_fields)
qed

text \<open>C24: The client resubscribes only to what its caller has asked for: in every state
  it can reach, each machine and level of detail it holds as an active subscription is
  one for which it has sent a subscribe envelope.\<close>

theorem subscription_was_requested:
  assumes "reachable parse (new_client u o1) s" and "jm_get (subscriptions s) m = Some d"
  shows "\<exists>w i. Sent w (envelope (Topics Machine_Subscribe) i (SubscribeToMachinePayload m d)) \<in> set (out s)"
  using reachable_trace_inv [OF assms(1)] assms(2)
  by (auto simp: trace_inv_def subs_ok_def asked_for_def)

theorem subscription_was_requested_witness:
  "\<exists>w i. Sent w (envelope ''machine/subscribe'' i (SubscribeToMachinePayload ''m1'' Full)) \<in> set (out demo_recorded)"
  using subscription_was_requested [OF demo_recorded_reachable, of "''m1''" Full]
  by (simp add: demo_recorded_fields)

lemma listeners_old:
  assumes "trace_inv s" and "x \<in> set (listeners t s)"
  shows "closure_id x < fresh s"
proof -
  obtain hs where "jm_get (topicHandlers s) t = Some hs" "x \<in> set (jm_keys hs)"
    using assms(2) by (cases "jm_get (topicHandlers s) t") (auto simp: listeners_def)
  with assms(1) show ?thesis unfolding trace_inv_def by (blast intro: listeners_okD(2))
qed

lemma listeners_onTopic:
  "h \<notin> set (listeners t s)
   \<Longrightarrow> listeners t' (onTopic t h s) = (if t' = t then listeners t s @ [h] else listeners t' s)"
  by (auto simp: listeners_def onTopic_handlers jm_get_set jm_keys_set split: option.split)

lemma handle_broadcast:
  assumes "parse raw = Some msg" and "\<not> nullish msg" and "find_pending (jget msg ''messageID'') s = None"
    and "jget msg ''topic'' = JStr t"
  shows "out (handleMessage parse raw s) = out (emit (MessageEvent msg) s) @ map (topic_effect msg) (listeners t s)"
proof -
  have "find_pending (jget msg ''messageID'') (emit (MessageEvent msg) s) = None"
    using assms(3) by (simp add: find_pending_def split: json.splits)
  with assms show ?thesis
    by (simp add: handleMessage_def Let_def broadcast_def listeners_def emit_out_def split: option.split)
qed

text \<open>A listener registered with \<open>onMachineState\<close> is called once, after the listeners
  that were there before it and with its machine's identifier and the message's data, for
  every broadcast on its machine's topic, and never for a broadcast on another topic of
  the table, another machine's included.\<close>

theorem state_listener_hears_only_its_machine:
  assumes "reachable parse (new_client u o1) s" and "parse raw = Some msg" and "\<not> nullish msg"
    and "find_pending (jget msg ''messageID'') s = None" and "jget msg ''topic'' = JStr (Topics t)"
  shows "out (handleMessage parse raw (onMachineState m h s))
    = out (handleMessage parse raw s)
      @ (if t = Machine_StateUpdated m then [StateCall h m (jget msg ''data'')] else [])"
proof -
  let ?x = "StateHandler (fresh s) h m" and ?s1 = "s\<lparr>fresh := Suc (fresh s)\<rparr>"
  let ?m = "Topics (Machine_StateUpdated m)"
  have inv: "trace_inv s" using assms(1) by (rule reachable_trace_inv)
  have new: "?x \<notin> set (listeners ?m ?s1)"
    using listeners_old [OF inv, of ?x ?m] by (auto simp: listeners_def)
  have same: "listeners k ?s1 = listeners k s" for k by (simp add: listeners_def)
  have "listeners (Topics t) (onMachineState m h s)
      = (if Topics t = ?m then listeners (Topics t) s @ [?x] else listeners (Topics t) s)"
    unfolding onMachineState_def listeners_onTopic [OF new] same by presburger
  moreover have "Topics t = ?m \<longleftrightarrow> t = Machine_StateUpdated m" using Topics_injective by blast
  moreover have "find_pending (jget msg ''messageID'') (onMachineState m h s) = None"
    using assms(4) by (simp add: find_pending_def onMachineState_def onTopic_def Let_def
        split: json.splits option.splits)
  moreover have "out (emit ev (onMachineState m h s)) = out (emit ev s)" for ev
    by (simp add: emit_def emit_out_def onMachineState_def onTopic_def Let_def split: option.splits)
  ultimately show ?thesis
    using handle_broadcast [of parse raw msg "onMachineState m h s" "Topics t"]
      handle_broadcast [of parse raw msg s "Topics t"] assms(2-5) by (simp del: Topics.simps)
qed

theorem state_listener_hears_only_its_machine_witness:
  "out (handleMessage demo_parse ''state'' (onMachineState ''m1'' 7 demo_open))
     = out (handleMessage demo_parse ''state'' demo_open) @ [StateCall 7 ''m1'' (JArr [])]"
proof -
  define msg where "msg = JObj [(''topic'', JStr ''machine/m1/state''), (''data'', JArr [])]"
  have "demo_parse ''state'' = Some msg" "\<not> nullish msg" "jget msg ''topic'' = JStr (Topics (Machine_StateUpdated ''m1''))"
    "find_pending (jget msg ''messageID'') demo_open = None" "jget msg ''data'' = JArr []"
    by (simp_all add: demo_parse_def msg_def nullish_def find_pending_def)
  with state_listener_hears_only_its_machine [OF demo_open_reachable, of "''state''" msg "Machine_StateUpdated ''m1''" "''m1''" 7]
  show ?thesis by (simp del: Topics.simps)
qed

end
