(* ===== verification/ClientReconnect.thy ===== *)
theory ClientReconnect
  imports ClientProps
begin

text \<open>
  Reconnection: the backoff of a loop and its bound, the number of attempts, how the
  subscriptions are restored, and two ways in which loops and sockets multiply.
\<close>

section \<open>Backoff\<close>

text \<open>The delay before attempt \<open>a\<close>, in closed form.\<close>

definition backoff :: "rat \<Rightarrow> rat \<Rightarrow> nat \<Rightarrow> rat" where
  "backoff ini mx a = (if a \<le> 1 then ini else min (ini * 2 ^ (a - 1)) mx)"

lemma backoff_Suc:
  assumes mx: "0 \<le> mx" and a: "1 \<le> a"
  shows "min (backoff ini mx a * 2) mx = backoff ini mx (Suc a)"
proof -
  obtain c where c: "a = Suc c" using a by (cases a) auto
  have cap: "min (min x mx * 2) mx = min (x * 2) mx" for x
    using mx by (auto simp: min_def)
  have "ini * 2 ^ c * 2 = ini * 2 ^ Suc c" by simp
  with cap [of "ini * 2 ^ c"] c show ?thesis
    by (cases c) (auto simp: backoff_def)
qed

definition loops_ok :: "ResolvedReconnect \<Rightarrow> nat \<Rightarrow> (nat \<Rightarrow> loop option) \<Rightarrow> bool" where
  "loops_ok rc n lps \<longleftrightarrow> (\<forall>l lp. lps l = Some lp \<longrightarrow> l < n \<and> 1 \<le> attempt lp
     \<and> delay lp = backoff (rc_initialDelayMs rc) (rc_maxDelayMs rc) (attempt lp)
     \<and> below_attempts (attempt lp - 1) (rc_maxAttempts rc))"

definition sleeps_ok :: "ResolvedReconnect \<Rightarrow> (nat \<Rightarrow> (timer_job \<times> rat) option) \<Rightarrow> bool" where
  "sleeps_ok rc tm \<longleftrightarrow> (\<forall>t l ms. tm t = Some (SleepOver l, ms) \<longrightarrow> ms \<le> rc_maxDelayMs rc)"

definition loop_inv :: "ResolvedReconnect \<Rightarrow> client \<Rightarrow> bool" where
  "loop_inv rc s \<longleftrightarrow> ro_reconnect (opts s) = rc \<and> loops_ok rc (fresh s) (loops s) \<and> sleeps_ok rc (timers s)"

lemma sleeps_ok_upd [simp]:
  "sleeps_ok rc tm \<Longrightarrow> sleeps_ok rc (tm(t := None))"
  "sleeps_ok rc tm \<Longrightarrow> sleeps_ok rc (tm(t := Some (RequestTimeout i a ms p, ms)))"
  "sleeps_ok rc tm \<Longrightarrow> ms \<le> rc_maxDelayMs rc \<Longrightarrow> sleeps_ok rc (tm(t := Some (SleepOver l, ms)))"
  by (auto simp: sleeps_ok_def)

lemma loops_ok_upd [simp]:
  "loops_ok rc n lps \<Longrightarrow> loops_ok rc (Suc n) lps"
  "loops_ok rc n lps \<Longrightarrow> loops_ok rc n (lps(l := None))"
  "loops_ok rc n lps \<Longrightarrow> lps l = Some lp
     \<Longrightarrow> loops_ok rc n (lps(l := Some \<lparr>attempt = attempt lp, delay = delay lp, pc = q\<rparr>))"
  by (auto simp: loops_ok_def less_Suc_eq)

text \<open>An update that leaves options, loops and timers alone.\<close>

lemma loop_inv_eq:
  assumes "opts s' = opts s" "loops s' = loops s" "timers s' = timers s" "fresh s' = fresh s"
  shows "loop_inv rc s' = loop_inv rc s"
  using assms by (simp add: loop_inv_def)

lemma loop_inv_frame [simp]:
  "loop_inv rc (emit ev s) = loop_inv rc s" "loop_inv rc (emit_out es s) = loop_inv rc s"
  "loop_inv rc (settle p v s) = loop_inv rc s" "loop_inv rc (await_promise p a s) = loop_inv rc s"
  "loop_inv rc (s\<lparr>intentionalClose := x\<rparr>) = loop_inv rc s" "loop_inv rc (s\<lparr>ws := y\<rparr>) = loop_inv rc s"
  "loop_inv rc (s\<lparr>subscriptions := z\<rparr>) = loop_inv rc s" "loop_inv rc (s\<lparr>pending := m\<rparr>) = loop_inv rc s"
  "loop_inv rc (s\<lparr>eventHandlers := h\<rparr>) = loop_inv rc s" "loop_inv rc (s\<lparr>topicHandlers := th\<rparr>) = loop_inv rc s"
  "loop_inv rc (s\<lparr>jobs := js\<rparr>) = loop_inv rc s" "loop_inv rc (s\<lparr>sockets := sk\<rparr>) = loop_inv rc s"
  by (rule loop_inv_eq; simp add: emit_out_def await_promise_def)+

lemma loop_inv_intros:
  "loop_inv rc s \<Longrightarrow> loop_inv rc (clear_timer t s)"
  "loop_inv rc s \<Longrightarrow> loop_inv rc (end_loop l s)"
  "loop_inv rc s \<Longrightarrow> loop_inv rc (s\<lparr>fresh := Suc (fresh s)\<rparr>)"
  "loop_inv rc s \<Longrightarrow> loop_inv rc (snd (new_promise og s))"
  "loop_inv rc s \<Longrightarrow> loops s l = Some lp \<Longrightarrow> loop_inv rc (set_loop l (attempt lp) (delay lp) q s)"
  by (simp_all add: loop_inv_def clear_timer_def end_loop_def)

lemma loop_inv_request: "loop_inv rc s \<Longrightarrow> loop_inv rc (snd (request e a d ms s))"
  by (auto simp: request_cases requested_def Let_def loop_inv_def set_timer_def clear_timer_def emit_out_def
      split: option.split)

lemma loop_inv_openSocket: "loop_inv rc s \<Longrightarrow> loop_inv rc (snd (openSocket e s))"
  by (simp add: openSocket_def case_prod_beta Let_def loop_inv_def split: option.split)

lemma loop_inv_reject_all: "loop_inv rc s \<Longrightarrow> loop_inv rc (rejectAllPending err s)"
proof -
  assume "loop_inv rc s"
  then have "loop_inv rc (reject_entries err es s)" for es
    by (induction es arbitrary: s) (auto simp: loop_inv_intros)
  then show ?thesis by (simp add: rejectAllPending_def Let_def)
qed

text \<open>The loop's head starts attempt \<open>a + 1\<close> with delay \<open>d\<close>.\<close>

lemma loop_inv_loop_head:
  assumes inv: "loop_inv rc s" and d: "d = backoff (rc_initialDelayMs rc) (rc_maxDelayMs rc) (Suc a)"
    and l: "l < fresh s"
  shows "loop_inv rc (loop_head e l a d s)"
proof -
  have "actual_delay e d (rc_maxDelayMs rc) \<le> rc_maxDelayMs rc"
    by (simp add: actual_delay_def)
  moreover have "ro_reconnect (opts s) = rc" "loops_ok rc (fresh s) (loops s)" "sleeps_ok rc (timers s)"
    using inv by (simp_all add: loop_inv_def)
  moreover have "loops_ok rc (Suc (fresh s)) ((loops s)(l := Some \<lparr>attempt = Suc a, delay = d, pc = Sleeping\<rparr>))"
    if "below_attempts a (rc_maxAttempts rc)"
    using that d l inv by (auto simp: loop_inv_def loops_ok_def less_Suc_eq)
  ultimately show ?thesis
    using inv by (simp add: loop_head_def Let_def loop_inv_intros(2))
      (simp add: loop_inv_def set_timer_def)
qed

lemma loop_inv_start_loop: "loop_inv rc s \<Longrightarrow> loop_inv rc (start_loop e s)"
  unfolding start_loop_def
  by (rule loop_inv_loop_head) (simp_all add: backoff_def loop_inv_intros, simp add: loop_inv_def)

lemma loop_inv_open_failed:
  assumes "loop_inv rc s" and "0 \<le> rc_maxDelayMs rc"
  shows "loop_inv rc (loop_open_failed e l s)"
proof (cases "loops s l")
  case (Some lp)
  then have "l < fresh s" "1 \<le> attempt lp" "delay lp = backoff (rc_initialDelayMs rc) (rc_maxDelayMs rc) (attempt lp)"
    and "ro_reconnect (opts s) = rc"
    using assms(1) by (auto simp: loop_inv_def loops_ok_def)
  with assms Some show ?thesis
    by (simp add: loop_open_failed_def backoff_Suc loop_inv_loop_head)
qed (simp add: loop_open_failed_def assms)

lemma loop_inv_loop_steps:
  assumes "loop_inv rc s"
  shows "loop_inv rc (loop_wake e l s)" "loop_inv rc (loop_resubscribe e l i s)"
  using assms
  by (auto simp: loop_wake_def loop_resubscribe_def case_prod_beta Let_def loop_inv_intros
      split: option.split intro!: loop_inv_openSocket loop_inv_request)

lemma loop_inv_run_job:
  assumes "loop_inv rc s" and "0 \<le> rc_maxDelayMs rc"
  shows "loop_inv rc (run_job e j s)"
  using assms
  by (cases "(e, j, s)" rule: run_job.cases)
    (auto simp: after_subscribe_def after_unsubscribe_def after_loop_open_def after_loop_resub_def
      loop_inv_loop_steps loop_inv_open_failed split: settled.split option.split loop_pc.split)

lemma loop_inv_api: "loop_inv rc s \<Longrightarrow> loop_inv rc (snd (api e c s))"
  by (cases c) (auto simp: subscribe_def unsubscribe_def case_prod_beta Let_def pause_def resume_def
      stop_def markAsIdle_def toggleLight_def setFanSpeed_def startPrint_def startLocalPrint_def
      setPrintSpeed_def findMatchingSpools_def changeMaterial_def subscribeLogs_def
      unsubscribeLogs_def getLogHistory_def getTotalFileStoreUsage_def
      getMachineFileStoreUsage_def getAllMachineConfigurations_def
      intro!: loop_inv_request loop_inv_intros(4))

lemma loop_inv_step:
  assumes "loop_inv rc s" and "0 \<le> rc_maxDelayMs rc"
  shows "loop_inv rc (step parse e ev s)"
  using assms
  by (cases ev) (auto simp: connect_def loop_inv_openSocket loop_inv_api loop_inv_run_job
      disconnect_def close_socket_def on_def off_def onTopic_def offTopic_def onMachineState_def onLogs_def
      downloadFile_def socket_open_def socket_error_def socket_close_def timer_fires_def
      request_timeout_def handleMessage_def broadcast_def microtask_def Let_def loop_inv_intros
      split: option.split json.split timer_job.split list.split
      intro!: loop_inv_reject_all loop_inv_start_loop)

lemma reachable_loop_inv:
  assumes "reachable parse (new_client u o1) s"
    and "0 \<le> rc_maxDelayMs (ro_reconnect (resolve_options o1))"
  shows "loop_inv (ro_reconnect (resolve_options o1)) s"
  using assms(1)
proof induction
  case start
  show ?case by (simp add: loop_inv_def new_client_def loops_ok_def sleeps_ok_def)
qed (rule loop_inv_step [OF _ assms(2)])

text \<open>A reconnect loop on its attempt \<open>a\<close> has the delay of exponential backoff: the
  initial delay, then doubled for each attempt and capped at the maximum; and it makes no
  more attempts than \<open>maxAttempts\<close>.\<close>

theorem reconnect_loop_backoff:
  assumes "reachable parse (new_client u o1) s"
    and "0 \<le> rc_maxDelayMs (ro_reconnect (resolve_options o1))"
    and "loops s l = Some lp"
  shows "1 \<le> attempt lp
    \<and> delay lp = backoff (rc_initialDelayMs (ro_reconnect (resolve_options o1)))
                   (rc_maxDelayMs (ro_reconnect (resolve_options o1))) (attempt lp)
    \<and> below_attempts (attempt lp - 1) (rc_maxAttempts (ro_reconnect (resolve_options o1)))"
  using reachable_loop_inv [OF assms(1,2)] assms(3) by (auto simp: loop_inv_def loops_ok_def)

text \<open>No reconnect loop ever sleeps longer than \<open>maxDelayMs\<close>, jitter included.\<close>

theorem reconnect_sleep_bounded:
  assumes "reachable parse (new_client u o1) s"
    and "0 \<le> rc_maxDelayMs (ro_reconnect (resolve_options o1))"
    and "timers s t = Some (SleepOver l, ms)"
  shows "ms \<le> rc_maxDelayMs (ro_reconnect (resolve_options o1))"
  using reachable_loop_inv [OF assms(1,2)] assms(3) by (auto simp: loop_inv_def sleeps_ok_def)

section \<open>A reconnecting client\<close>

text \<open>The demonstration client loses its connection: the close starts a loop, its first
  delay passes, and it opens socket 7.\<close>

definition demo_lost :: client where
  "demo_lost = step demo_parse (demo_env ''id2'') (SocketClose 1 1006 []) demo_open"

definition demo_woken :: client where
  "demo_woken = step demo_parse (demo_env ''id2'') Microtask
     (step demo_parse (demo_env ''id2'') (TimerFires 3) demo_lost)"

lemma demo_lost_fields:
  "loops demo_lost = (\<lambda>_. None)(2 := Some \<lparr>attempt = 1, delay = 1000, pc = Sleeping\<rparr>)"
  "timers demo_lost = (\<lambda>_. None)(3 := Some (SleepOver 2, 1100))"
  "jobs demo_lost = []" "pending demo_lost = []" "fresh demo_lost = 4"
  "awaiters demo_lost = (\<lambda>_. None)" "promises demo_lost = (\<lambda>_. Pending)(0 := Fulfilled JUndefined)"
  "sockets demo_lost = (\<lambda>_. None)(1 := Some \<lparr>readyState = CLOSED, openPromise = 0, closeFired = True\<rparr>)"
  "intentionalClose demo_lost = False" "opts demo_lost = resolve_options demo_options"
  "subscriptions demo_lost = []" "eventHandlers demo_lost = []"
  by (simp_all add: demo_lost_def socket_close_def rejectAllPending_def start_loop_def loop_head_def
      set_loop_def set_timer_def actual_delay_def demo_env_def emit_def emit_out_def Let_def
      demo_open_fields resolve_options_def demo_options_def jm_clear_def fun_eq_iff)

lemma demo_woken_fields:
  "loops demo_woken = (\<lambda>_. None)(2 := Some \<lparr>attempt = 1, delay = 1000, pc = Opening\<rparr>)"
  "timers demo_woken = (\<lambda>_. None)" "jobs demo_woken = []" "pending demo_woken = []"
  "sockets demo_woken = (\<lambda>_. None)(1 := Some \<lparr>readyState = CLOSED, openPromise = 0, closeFired = True\<rparr>,
     5 := Some \<lparr>readyState = CONNECTING, openPromise = 4, closeFired = False\<rparr>)"
  "promises demo_woken = (\<lambda>_. Pending)(0 := Fulfilled JUndefined)"
  "awaiters demo_woken = (\<lambda>_. None)(4 := Some (AwaitLoopOpen 2))"
  "fresh demo_woken = 6" "ws demo_woken = Some 5" "intentionalClose demo_woken = False"
  "opts demo_woken = resolve_options demo_options" "eventHandlers demo_woken = []"
  by (auto simp add: demo_woken_def timer_fires_def microtask_def loop_wake_def openSocket_def
      new_promise_def await_promise_def set_loop_def clear_timer_def demo_env_def Let_def
      demo_lost_fields fun_eq_iff)

lemma demo_lost_reachable: "reachable demo_parse (new_client ''ws://host/ws'' demo_options) demo_lost"
  unfolding demo_lost_def
  by (rule next_step [OF demo_open_reachable]) (simp_all add: socket_in_def demo_open_fields)

lemma demo_woken_reachable: "reachable demo_parse (new_client ''ws://host/ws'' demo_options) demo_woken"
  unfolding demo_woken_def
  by (rule next_step [OF next_step [OF demo_lost_reachable]])
    (simp_all add: demo_lost_fields timer_fires_def clear_timer_def Let_def)

theorem reconnect_loop_backoff_witness:
  "delay \<lparr>attempt = 1, delay = 1000, pc = Opening\<rparr> = backoff 1000 30000 1"
  using reconnect_loop_backoff [OF demo_woken_reachable, of 2 "\<lparr>attempt = 1, delay = 1000, pc = Opening\<rparr>"]
  by (simp add: demo_woken_fields resolve_options_def demo_options_def)

theorem reconnect_sleep_bounded_witness: "(1100 :: rat) \<le> 30000"
  using reconnect_sleep_bounded [OF demo_lost_reachable, of 3 2 1100]
  by (simp add: demo_lost_fields resolve_options_def demo_options_def)

section \<open>Restoring the subscriptions\<close>

text \<open>C5: On a socket that is open and takes what is sent, a reconnect loop restores the
  subscriptions one at a time, in the order they were made: while any entry of the map is left
  at or after its iterator, a turn of the loop sends exactly one message, the subscribe request
  for the first such entry with that entry's detail, and moves the iterator past it; when none
  is left it reports \<open>reconnected\<close>, sends nothing and ends.\<close>

theorem resubscribe_visits_in_order:
  assumes "loops s l = Some lp" and "ws_open s = Some w" and "sendThrows e = None"
  shows "case jm_entries (drop i (subscriptions s)) of
      [] \<Rightarrow> loops (loop_resubscribe e l i s) l = None
            \<and> out (loop_resubscribe e l i s) = out (emit Reconnected s)
    | (machineId, detail) # rest \<Rightarrow>
        (\<exists>j. loops (loop_resubscribe e l i s) l
               = Some \<lparr>attempt = attempt lp, delay = delay lp, pc = Resubscribing j\<rparr>
             \<and> jm_entries (drop j (subscriptions (loop_resubscribe e l i s))) = rest
             \<and> out (loop_resubscribe e l i s) = out s @
                 [Sent w (envelope ''machine/subscribe'' (uuid e) (SubscribeToMachinePayload machineId detail))])"
proof (cases "jm_next (subscriptions s) i")
  case None
  with jm_next_entries [of i "subscriptions s"] assms(1) show ?thesis
    by (simp add: loop_resubscribe_def end_loop_def)
next
  case (Some x)
  obtain j m d where x: "x = (j, m, d)" by (cases x)
  let ?t = "set_loop l (attempt lp) (delay lp) (Resubscribing (Suc j)) s"
  let ?r = "request e (Topics Machine_Subscribe) (SubscribeToMachinePayload m d) (ro_requestTimeoutMs (opts s)) ?t"
  have entries: "jm_entries (drop i (subscriptions s)) = (m, d) # jm_entries (drop (Suc j) (subscriptions s))"
    using jm_next_entries [of i "subscriptions s"] Some x by simp
  have eq: "loop_resubscribe e l i s = await_promise (fst ?r) (AwaitLoopResub l) (snd ?r)"
    using assms(1) Some x by (simp add: loop_resubscribe_def case_prod_beta Let_def)
  have aw: "loops (await_promise p a s') = loops s'" "out (await_promise p a s') = out s'"
    "subscriptions (await_promise p a s') = subscriptions s'" for p a s'
    by (simp_all add: await_promise_def)
  have "ws_open ?t = Some w"
    using assms(2) by (simp add: ws_open_def cong: option.case_cong)
  then have "out (snd ?r) = out s @ [Sent w (envelope ''machine/subscribe'' (uuid e) (SubscribeToMachinePayload m d))]"
    using assms(3) by (simp add: request_cases emit_out_def requested_def Let_def set_timer_def set_loop_def)
  with entries show ?thesis
    by (simp add: eq aw)
qed

definition demo_subscribed :: client where
  "demo_subscribed = demo_open\<lparr>subscriptions := [Some (''m1'', Full), None, Some (''m2'', AtAGlance)],
     loops := (\<lambda>_. None)(9 := Some \<lparr>attempt = 1, delay = 1000, pc = Opening\<rparr>)\<rparr>"

theorem resubscribe_visits_in_order_witness:
  "\<exists>j. jm_entries (drop j (subscriptions (loop_resubscribe (demo_env ''id3'') 9 0 demo_subscribed)))
          = [(''m2'', AtAGlance)]
     \<and> out (loop_resubscribe (demo_env ''id3'') 9 0 demo_subscribed) =
         [Sent 1 (envelope ''machine/subscribe'' ''id3'' (SubscribeToMachinePayload ''m1'' Full))]"
proof -
  have "loops demo_subscribed 9 = Some \<lparr>attempt = 1, delay = 1000, pc = Opening\<rparr>"
    and "ws_open demo_subscribed = Some 1" and "sendThrows (demo_env ''id3'') = None"
    by (simp_all add: demo_subscribed_def ws_open_def demo_open_fields demo_env_def)
  from resubscribe_visits_in_order [OF this, of 0] show ?thesis
    by (auto simp: demo_subscribed_def demo_open_fields demo_env_def)
qed

section \<open>Loops and sockets that multiply\<close>

lemma rejectAllPending_frame:
  "loops (rejectAllPending err r) = loops r" "fresh (rejectAllPending err r) = fresh r"
proof -
  have "loops (reject_entries err es r) = loops r" "fresh (reject_entries err es r) = fresh r" for es
    by (induction err es r rule: reject_entries.induct) (simp_all add: clear_timer_def)
  then show "loops (rejectAllPending err r) = loops r" "fresh (rejectAllPending err r) = fresh r"
    by (simp_all add: rejectAllPending_def Let_def)
qed

text \<open>When the socket of a reconnect attempt fails, the platform reports an error and
  then a close.  The error makes the waiting loop go on to its next attempt; the close
  handler does not know of that loop and starts a second one, from attempt 1 and the
  initial delay.  So after one failed attempt two loops are asleep where one was waiting,
  and neither the backoff nor \<open>maxAttempts\<close> limits the attempts of the client.\<close>

theorem failed_attempt_starts_another_loop:
  fixes e1 e2 :: env and code :: nat and reason :: string
  assumes "reachable parse (new_client u o1) s"
    and "0 \<le> rc_maxDelayMs (ro_reconnect (opts s))"
    and "sockets s w = Some k" and "promises s (openPromise k) = Pending"
    and "awaiters s (openPromise k) = Some (AwaitLoopOpen l)" and "loops s l = Some lp"
    and "jobs s = []" and "\<not> intentionalClose s" and "rc_enabled (ro_reconnect (opts s))"
    and "rc_maxAttempts (ro_reconnect (opts s)) = Infinity"
    and "opts s = resolve_options o1"
  defines "s3 \<equiv> socket_close e2 w code reason (microtask e1 (socket_error w s))"
  shows "loops s3 l = Some \<lparr>attempt = Suc (attempt lp),
             delay = min (delay lp * 2) (rc_maxDelayMs (ro_reconnect (opts s))), pc = Sleeping\<rparr>
         \<and> (\<exists>l'. l' \<noteq> l \<and> loops s l' = None
              \<and> loops s3 l' = Some \<lparr>attempt = 1,
                  delay = rc_initialDelayMs (ro_reconnect (opts s)), pc = Sleeping\<rparr>)"
proof -
  have inv: "loop_inv (ro_reconnect (opts s)) s"
    using reachable_loop_inv [OF assms(1)] assms(2,11) by simp
  then have alloc: "\<And>n x. loops s n = Some x \<Longrightarrow> n < fresh s"
    by (auto simp: loop_inv_def loops_ok_def)
  then have l: "l < fresh s"
    using assms(6) by blast
  have free: "loops s (Suc (fresh s)) = None"
    using alloc [of "Suc (fresh s)"] by (metis Suc_n_not_le_n less_imp_le_nat not_None_eq)
  let ?s1 = "socket_error w s"
  have s1: "loops ?s1 = loops s" "opts ?s1 = opts s" "intentionalClose ?s1 = intentionalClose s"
    "fresh ?s1 = fresh s" "jobs ?s1 = [Continue (AwaitLoopOpen l) (Rejected WebSocketErrored)]"
    using assms(3,4,5,7) by (simp_all add: socket_error_def settle_def emit_def emit_out_def)
  have s1s: "\<exists>k'. sockets ?s1 w = Some k'"
    using assms(3) by (simp add: socket_error_def)
  let ?s2 = "microtask e1 ?s1"
  have s2: "loops ?s2 = (loops s)(l := Some \<lparr>attempt = Suc (attempt lp),
       delay = min (delay lp * 2) (rc_maxDelayMs (ro_reconnect (opts s))), pc = Sleeping\<rparr>)"
    "opts ?s2 = opts s" "intentionalClose ?s2 = intentionalClose s" "fresh ?s2 = Suc (fresh s)"
    "sockets ?s2 = sockets ?s1"
    using s1 assms(6,8,10)
    by (simp_all add: microtask_def after_loop_open_def loop_open_failed_def loop_head_def Let_def
        set_timer_def)
  let ?m = "rejectAllPending (WebSocketClosed (close_reason code reason))
    (emit (Disconnected (close_reason code reason))
      (?s2\<lparr>sockets := (sockets ?s2)(w := Some ((the (sockets ?s2 w))\<lparr>readyState := CLOSED, closeFired := True\<rparr>))\<rparr>))"
  have "s3 = start_loop e2 ?m"
    using s1s s2 assms(8,9) by (auto simp: s3_def socket_close_def Let_def)
  then have "loops s3 = (loops ?s2)(Suc (fresh s) := Some \<lparr>attempt = 1,
      delay = rc_initialDelayMs (ro_reconnect (opts s)), pc = Sleeping\<rparr>)"
    using s2 assms(8,10) by (simp add: start_loop_def loop_head_def Let_def set_timer_def rejectAllPending_frame)
  with s2(1) l free show ?thesis by auto
qed

theorem failed_attempt_starts_another_loop_witness:
  "loops (socket_close (demo_env ''y'') 5 1006 [] (microtask (demo_env ''x'') (socket_error 5 demo_woken))) 2
     = Some \<lparr>attempt = 2, delay = 2000, pc = Sleeping\<rparr>"
  using failed_attempt_starts_another_loop [OF demo_woken_reachable,
      where w = 5 and k = "\<lparr>readyState = CONNECTING, openPromise = 4, closeFired = False\<rparr>" and l = 2
      and lp = "\<lparr>attempt = 1, delay = 1000, pc = Opening\<rparr>" and ?e2.0 = "demo_env ''y''"
      and code = 1006 and reason = "[]" and ?e1.0 = "demo_env ''x''"]
  by (simp add: demo_woken_fields resolve_options_def demo_options_def)

text \<open>A loop that sleeps when the caller disconnects is stopped only if the flag
  \<open>_intentionalClose\<close> still stands when it wakes.  If the caller has connected again by
  then, the loop opens one more socket and makes it the current one, so that the socket
  the caller opened is dropped while still open.\<close>

theorem stale_loop_replaces_the_socket:
  fixes e e' :: env
  assumes "loops s l = Some lp" and "ctorThrows e = None" and "ctorThrows e' = None"
  defines "s1 \<equiv> snd (connect e (disconnect s))"
  shows "\<exists>w w' k. ws s1 = Some w \<and> w \<noteq> w' \<and> ws (loop_wake e' l s1) = Some w'
           \<and> sockets (loop_wake e' l s1) w' = Some k \<and> readyState k = CONNECTING
           \<and> sockets (loop_wake e' l s1) w = sockets s1 w"
proof -
  have "loops (disconnect s) = loops s"
    by (simp add: disconnect_closing rejectAllPending_frame)
  with assms(1,2) have s1: "loops s1 l = Some lp" "\<not> intentionalClose s1"
    "\<exists>w. ws s1 = Some w \<and> w < fresh s1"
    by (simp_all add: s1_def connect_def openSocket_def case_prod_beta Let_def)
  then obtain w where w: "ws s1 = Some w" "w < fresh s1" by blast
  have "loop_wake e' l s1 = await_promise (fresh s1) (AwaitLoopOpen l)
      (snd (openSocket e' (set_loop l (attempt lp) (delay lp) Opening s1)))"
    using s1 by (simp add: loop_wake_def case_prod_beta)
  then have "ws (loop_wake e' l s1) = Some (Suc (fresh s1))"
    and "sockets (loop_wake e' l s1) = (sockets s1)(Suc (fresh s1) :=
      Some \<lparr>readyState = CONNECTING, openPromise = fresh s1, closeFired = False\<rparr>)"
    using assms(3) by (simp_all add: openSocket_def case_prod_beta Let_def await_promise_def)
  with w show ?thesis
    by (intro exI [of _ w] exI [of _ "Suc (fresh s1)"]) auto
qed

theorem stale_loop_replaces_the_socket_witness:
  "\<exists>w w'. ws (snd (connect (demo_env ''a'') (disconnect demo_lost))) = Some w \<and> w \<noteq> w'
     \<and> ws (loop_wake (demo_env ''b'') 2 (snd (connect (demo_env ''a'') (disconnect demo_lost)))) = Some w'"
  using stale_loop_replaces_the_socket [where s = demo_lost and l = 2
      and lp = "\<lparr>attempt = 1, delay = 1000, pc = Sleeping\<rparr>" and e = "demo_env ''a''" and e' = "demo_env ''b''"]
  by (auto simp: demo_lost_fields demo_env_def)

end
