(* ===== verification/ClientApi.thy ===== *)
theory ClientApi
  imports ClientTrace ClientReconnect
begin

text \<open>
  What a method call sends: each of the nineteen calls of the interface is one envelope
  with its topic and payload, one entry in the pending table and one timer of the call's
  class, or, when nothing can be sent, a rejected promise and no trace.  The duration
  \<open>subscribeLogs\<close> puts into its payload is read back by a parser of ISO 8601 durations.
\<close>

section \<open>The table of calls\<close>

fun call_topic :: "api_call \<Rightarrow> Topic" where
  "call_topic (Subscribe m d) = Machine_Subscribe"
| "call_topic (Unsubscribe m) = Machine_Unsubscribe"
| "call_topic (Pause m) = Machine_Pause"
| "call_topic (Resume m) = Machine_Resume"
| "call_topic (Stop m) = Machine_Stop"
| "call_topic (MarkAsIdle m) = Machine_MarkAsIdle"
| "call_topic (ToggleLight m f v) = Machine_ToggleLight"
| "call_topic (SetFanSpeed m f v) = Machine_SetFanSpeed"
| "call_topic (StartPrint m f p) = Machine_StartPrint"
| "call_topic (StartLocalPrint m f p) = Machine_StartPrint"
| "call_topic (SetPrintSpeed m v) = Machine_SetPrintSpeed"
| "call_topic (FindMatchingSpools m ms) = Machine_FindMatchingSpools"
| "call_topic (ChangeMaterial m l x) = Machine_ChangeMaterial"
| "call_topic (SubscribeLogs v) = Logging_Subscribe"
| "call_topic UnsubscribeLogs = Logging_Unsubscribe"
| "call_topic (GetLogHistory p) = Logging_History"
| "call_topic GetTotalFileStoreUsage = MachineFileStore_TotalUsage"
| "call_topic (GetMachineFileStoreUsage m) = MachineFileStore_MachineUsage"
| "call_topic GetAllMachineConfigurations = Machine_Configurations_All"

fun call_data :: "api_call \<Rightarrow> json" where
  "call_data (Subscribe m d) = SubscribeToMachinePayload m d"
| "call_data (Unsubscribe m) = UnsubscribeFromMachinePayload m"
| "call_data (Pause m) = MachineIdPayload m"
| "call_data (Resume m) = MachineIdPayload m"
| "call_data (Stop m) = MachineIdPayload m"
| "call_data (MarkAsIdle m) = MachineIdPayload m"
| "call_data (ToggleLight m f v) = ToggleLightMachinePayload m f v"
| "call_data (SetFanSpeed m f v) = SetFanSpeedMachinePayload m f v"
| "call_data (StartPrint m f p) = StartPrintPayload m f p"
| "call_data (StartLocalPrint m f p) = StartPrintPayload m f p"
| "call_data (SetPrintSpeed m v) = SetPrintSpeedPayload m v"
| "call_data (FindMatchingSpools m ms) = FindMatchingSpoolsPayload m ms"
| "call_data (ChangeMaterial m l x) = ChangeMaterialPayload m l x"
| "call_data (SubscribeLogs v) = JObj [(''MinInterval'', JStr (msToDuration v))]"
| "call_data UnsubscribeLogs = JObj []"
| "call_data (GetLogHistory p) = LogHistoryPayload p"
| "call_data GetTotalFileStoreUsage = JObj []"
| "call_data (GetMachineFileStoreUsage m) = MachineIdPayload m"
| "call_data GetAllMachineConfigurations = JObj []"

text \<open>The calls a machine acts on wait for the longer, control timeout.\<close>

fun is_control :: "api_call \<Rightarrow> bool" where
  "is_control (Pause m) = True"
| "is_control (Resume m) = True"
| "is_control (Stop m) = True"
| "is_control (MarkAsIdle m) = True"
| "is_control (ToggleLight m f v) = True"
| "is_control (SetFanSpeed m f v) = True"
| "is_control (StartPrint m f p) = True"
| "is_control (StartLocalPrint m f p) = True"
| "is_control (SetPrintSpeed m v) = True"
| "is_control (ChangeMaterial m l x) = True"
| "is_control _ = False"

definition call_timeout :: "client \<Rightarrow> api_call \<Rightarrow> rat" where
  "call_timeout s c =
     (if is_control c then ro_controlRequestTimeoutMs (opts s) else ro_requestTimeoutMs (opts s))"

text \<open>The two calls that are \<open>async\<close> functions with code after their \<open>await\<close>.\<close>

fun call_awaiter :: "api_call \<Rightarrow> nat \<Rightarrow> awaiter option" where
  "call_awaiter (Subscribe m d) q = Some (AwaitSubscribe m d q)"
| "call_awaiter (Unsubscribe m) q = Some (AwaitUnsubscribe m q)"
| "call_awaiter _ q = None"

definition call_request :: "env \<Rightarrow> api_call \<Rightarrow> client \<Rightarrow> nat \<times> client" where
  "call_request e c s = request e (Topics (call_topic c)) (call_data c) (call_timeout s c) s"

lemma api_plain: "call_awaiter c (fresh s) = None \<Longrightarrow> api e c s = call_request e c s"
  by (cases c) (simp_all add: call_request_def call_timeout_def pause_def resume_def stop_def
      markAsIdle_def toggleLight_def setFanSpeed_def startPrint_def startLocalPrint_def
      setPrintSpeed_def findMatchingSpools_def changeMaterial_def subscribeLogs_def
      unsubscribeLogs_def getLogHistory_def getTotalFileStoreUsage_def
      getMachineFileStoreUsage_def getAllMachineConfigurations_def)

lemma api_async:
  assumes "call_awaiter c (fresh s) = Some a"
  shows "api e c s = (fresh s,
    await_promise (Suc (fresh s)) a (snd (call_request e c (snd (new_promise ByAsync s)))))"
  using assms
  by (cases c) (simp_all add: subscribe_def unsubscribe_def call_request_def call_timeout_def
      case_prod_beta Let_def)

lemma ws_open_new_promise [simp]: "ws_open (snd (new_promise og s)) = ws_open s"
  by (simp add: ws_open_def cong: option.case_cong)

lemma requested_fields:
  "out (requested e action ms s) = out s" "promises (requested e action ms s) (fresh s) = Pending"
  "pending (requested e action ms s)
     = jm_set (uuid e) \<lparr>p_promise = fresh s, p_timer = Suc (fresh s)\<rparr> (pending s)"
  "timers (requested e action ms s)
     = (timers s)(Suc (fresh s) := Some (RequestTimeout (uuid e) action ms (fresh s), ms))"
  "jobs (requested e action ms s) = jobs s" "awaiters (requested e action ms s) = awaiters s"
  by (simp_all add: requested_def Let_def set_timer_def)

text \<open>The request a call has made: its entry, its promise and its timer.\<close>

definition waits_for :: "env \<Rightarrow> string \<Rightarrow> rat \<Rightarrow> client \<Rightarrow> bool" where
  "waits_for e action ms s' \<longleftrightarrow> (\<exists>p t. jm_get (pending s') (uuid e) = Some \<lparr>p_promise = p, p_timer = t\<rparr>
     \<and> promises s' p = Pending \<and> timers s' t = Some (RequestTimeout (uuid e) action ms p, ms))"

lemma request_sends:
  assumes "ws_open s = Some w" and "sendThrows e = None"
  shows "out (snd (request e action d ms s)) = out s @ [Sent w (envelope action (uuid e) d)]"
    and "waits_for e action ms (snd (request e action d ms s))"
    and "i \<noteq> uuid e \<Longrightarrow> jm_get (pending (snd (request e action d ms s))) i = jm_get (pending s) i"
  using assms
  by (simp_all add: request_cases requested_fields emit_out_def waits_for_def jm_get_set)

lemma await_fields [simp]:
  "out (await_promise p a s) = out s" "pending (await_promise p a s) = pending s"
  "promises (await_promise p a s) = promises s" "timers (await_promise p a s) = timers s"
  by (simp_all add: await_promise_def)

lemma waits_for_await [simp]: "waits_for e action ms (await_promise p a s) = waits_for e action ms s"
  by (simp add: waits_for_def)

text \<open>C10: A call of the interface on an open socket sends exactly one envelope, with the
  call's topic, a fresh correlation identifier and the call's payload, and waits for its
  reply: the pending table gains one entry, whose promise is unsettled and whose timer
  runs for the control timeout if the call is one a machine acts on and for the request
  timeout otherwise; no other entry of the table changes.\<close>

theorem api_call_sends_one_request:
  assumes "ws_open s = Some w" and "sendThrows e = None"
  shows "out (step parse e (Api c) s)
           = out s @ [Sent w (envelope (Topics (call_topic c)) (uuid e) (call_data c))]
         \<and> waits_for e (Topics (call_topic c)) (call_timeout s c) (step parse e (Api c) s)
         \<and> (\<forall>i. i \<noteq> uuid e \<longrightarrow> jm_get (pending (step parse e (Api c) s)) i = jm_get (pending s) i)"
proof (cases "call_awaiter c (fresh s)")
  case None
  then show ?thesis
    using assms by (simp add: api_plain call_request_def request_sends)
next
  case (Some a)
  have "call_timeout (snd (new_promise ByAsync s)) c = call_timeout s c"
    by (simp add: call_timeout_def)
  with Some show ?thesis
    using assms by (simp add: api_async call_request_def request_sends)
qed

theorem api_call_sends_one_request_witness:
  "out (step demo_parse (demo_env ''id9'') (Api (SetFanSpeed ''m1'' ''ModelFan'' 40)) demo_open)
     = [Sent 1 (envelope ''machine/setFanSpeed'' ''id9'' (SetFanSpeedMachinePayload ''m1'' ''ModelFan'' 40))]"
proof -
  have "ws_open demo_open = Some 1" "sendThrows (demo_env ''id9'') = None"
    by (simp_all add: ws_open_def demo_open_fields demo_env_def)
  from api_call_sends_one_request [OF this, where c = "SetFanSpeed ''m1'' ''ModelFan'' 40"] show ?thesis
    by (simp add: demo_open_fields demo_env_def)
qed

section \<open>Calls that cannot be sent\<close>

text \<open>Why a request is refused at once, if it is.\<close>

definition refusal :: "env \<Rightarrow> string \<Rightarrow> client \<Rightarrow> client_error option" where
  "refusal e action s =
     (case ws_open s of None \<Rightarrow> Some (WebSocketNotOpen action) | Some w \<Rightarrow> map_option Thrown (sendThrows e))"

lemma request_refused:
  assumes r: "refusal e action s = Some err" and i: "jm_get (pending s) (uuid e) = None"
    and wf: "jm_wf (pending s)" and a: "awaiters s (fresh s) = None" and t: "timers s (Suc (fresh s)) = None"
  shows "out (snd (request e action d ms s)) = out s"
    and "jm_get (pending (snd (request e action d ms s))) k = jm_get (pending s) k"
    and "promises (snd (request e action d ms s)) (fresh s) = Rejected err"
    and "jobs (snd (request e action d ms s)) = jobs s"
    and "timers (snd (request e action d ms s)) = timers s"
proof -
  let ?s' = "snd (request e action d ms s)"
  have "out ?s' = out s \<and> jm_get (pending ?s') k = jm_get (pending s) k
      \<and> promises ?s' (fresh s) = Rejected err \<and> jobs ?s' = jobs s \<and> timers ?s' = timers s"
  proof (cases "ws_open s")
    case None
    with r have "err = WebSocketNotOpen action" by (simp add: refusal_def)
    with None a show ?thesis by (simp add: request_cases settle_def)
  next
    case (Some w)
    with r obtain m where m: "sendThrows e = Some m" "err = Thrown m" by (auto simp: refusal_def)
    have "(timers s)(Suc (fresh s) := None) = timers s" using t by auto
    with m Some a i show ?thesis
      by (auto simp add: request_cases Let_def requested_fields clear_timer_def settle_def jm.get_del_fresh [OF wf])
  qed
  then show "out ?s' = out s" "jm_get (pending ?s') k = jm_get (pending s) k"
    "promises ?s' (fresh s) = Rejected err" "jobs ?s' = jobs s" "timers ?s' = timers s"
    by simp_all
qed

lemma unallocated:
  assumes "reachable parse (new_client u o1) s" and "fresh s \<le> n"
  shows "jm_wf (pending s)" and "awaiters s n = None" and "timers s n = None"
proof -
  show "jm_wf (pending s)" using reachable_client_inv [OF assms(1)] by (simp add: client_inv_def)
  show "awaiters s n = None"
    using reachable_trace_inv [OF assms(1)] assms(2)
    by (cases "awaiters s n") (auto simp: trace_inv_def dest: awaits_okD)
  show "timers s n = None"
    using reachable_client_inv [OF assms(1)] assms(2) by (simp add: client_inv_def fresh_ok_def)
qed

text \<open>C11: A call that cannot be sent, because the socket is not open or because its
  \<open>send\<close> throws, leaves no trace on the wire, in the pending table or among the timers,
  and the promise the caller gets is rejected with the reason once the microtask of its
  \<open>await\<close> has run.\<close>

theorem refused_call_is_rejected:
  assumes "reachable parse (new_client u o1) s" and "jobs s = []"
    and "jm_get (pending s) (uuid e) = None" and "refusal e (Topics (call_topic c)) s = Some err"
    and "s' = step parse e (Api c) s"
  shows "out s' = out s \<and> (\<forall>i. jm_get (pending s') i = jm_get (pending s) i) \<and> timers s' = timers s
         \<and> promises (microtask e s') (fst (api e c s)) = Rejected err"
proof -
  let ?s1 = "snd (new_promise ByAsync s)"
  let ?req = "\<lambda>s0. snd (request e (Topics (call_topic c)) (call_data c) (call_timeout s c) s0)"
  have old: "jm_wf (pending s)" "awaiters s (fresh s) = None" "timers s (Suc (fresh s)) = None"
    "awaiters s (Suc (fresh s)) = None" "timers s (Suc (Suc (fresh s))) = None"
    by (auto intro: unallocated [OF assms(1)])
  show ?thesis
  proof (cases "call_awaiter c (fresh s)")
    case None
    have facts: "out (?req s) = out s" "jobs (?req s) = jobs s" "promises (?req s) (fresh s) = Rejected err"
        "timers (?req s) = timers s" "\<forall>i. jm_get (pending (?req s)) i = jm_get (pending s) i"
      using request_refused [OF assms(4,3) old(1) old(2) old(3)] by simp_all
    have "s' = ?req s" "fst (api e c s) = fresh s"
      using assms(5) None by (simp_all add: api_plain call_request_def)
    then show ?thesis
      using assms(2) by (simp add: facts microtask_def)
  next
    case (Some a)
    have "refusal e (Topics (call_topic c)) ?s1 = Some err" using assms(4) by (simp add: refusal_def)
    moreover have "jm_get (pending ?s1) (uuid e) = None" "jm_wf (pending ?s1)" "awaiters ?s1 (fresh ?s1) = None"
      "timers ?s1 (Suc (fresh ?s1)) = None"
      using assms(3) old by simp_all
    ultimately have facts: "out (?req ?s1) = out ?s1" "jobs (?req ?s1) = jobs ?s1"
        "promises (?req ?s1) (fresh ?s1) = Rejected err" "timers (?req ?s1) = timers ?s1"
        "\<forall>i. jm_get (pending (?req ?s1)) i = jm_get (pending ?s1) i"
      using request_refused [of e _ ?s1 err] by simp_all
    have s': "s' = await_promise (Suc (fresh s)) a (?req ?s1)" "fst (api e c s) = fresh s"
      using assms(5) Some by (simp_all add: api_async call_request_def call_timeout_def)
    have jobs: "jobs s' = [Continue a (Rejected err)]"
      using facts assms(2) by (simp add: s' await_promise_def)
    have pend: "promises s' (fresh s) = Pending"
      using assms(4) by (auto simp: s' request_cases refusal_def Let_def requested_def set_timer_def
          settle_def clear_timer_def split: option.splits)
    have "promises (run_job e (Continue a (Rejected err)) (s'\<lparr>jobs := []\<rparr>)) (fresh s) = Rejected err"
      using Some pend by (cases c) (auto simp: after_subscribe_def after_unsubscribe_def settle_def)
    with jobs show ?thesis
      using facts by (simp add: s'(2) microtask_def) (simp add: s'(1))
  qed
qed

theorem refused_call_is_rejected_witness:
  "promises (microtask (demo_env ''id9'') (step demo_parse (demo_env ''id9'') (Api (Subscribe ''m1'' Full)) demo_connecting)) 2
     = Rejected (WebSocketNotOpen ''machine/subscribe'')"
proof -
  have "reachable demo_parse (new_client ''ws://host/ws'' demo_options) demo_connecting"
    using demo_reachable(1) by (simp add: demo_new_def)
  moreover have "refusal (demo_env ''id9'') (Topics (call_topic (Subscribe ''m1'' Full))) demo_connecting
      = Some (WebSocketNotOpen ''machine/subscribe'')"
    by (simp add: refusal_def ws_open_def demo_connecting_fields)
  moreover have "fst (api (demo_env ''id9'') (Subscribe ''m1'' Full) demo_connecting) = 2"
    by (simp add: api_async demo_connecting_fields del: api.simps)
  ultimately show ?thesis
    using refused_call_is_rejected [where c = "Subscribe ''m1'' Full" and e = "demo_env ''id9''", OF _ _ _ _ refl]
    by (metis demo_connecting_fields(3,4) jm_get.simps(1))
qed

section \<open>Durations\<close>

text \<open>The weight of a unit of an ISO 8601 time, and the seconds such a text stands for.\<close>

definition unit_seconds :: "char \<Rightarrow> nat option" where
  "unit_seconds c = (if c = CHR ''H'' then Some 3600 else if c = CHR ''M'' then Some 60
     else if c = CHR ''S'' then Some 1 else None)"

fun duration_seconds :: "nat \<Rightarrow> nat \<Rightarrow> string \<Rightarrow> nat option" where
  "duration_seconds acc n [] = (if n = 0 then Some acc else None)"
| "duration_seconds acc n (c # cs) =
     (case char_digit c of
        Some d \<Rightarrow> duration_seconds acc (10 * n + d) cs
      | None \<Rightarrow> (case unit_seconds c of None \<Rightarrow> None | Some w \<Rightarrow> duration_seconds (acc + w * n) 0 cs))"

fun read_duration :: "string \<Rightarrow> nat option" where
  "read_duration (p # t # cs) = (if p = CHR ''P'' \<and> t = CHR ''T'' then duration_seconds 0 0 cs else None)"
| "read_duration _ = None"

lemma duration_seconds_show_nat: "duration_seconds acc 0 (show_nat k @ r) = duration_seconds acc k r"
proof (induction k arbitrary: r rule: show_nat.induct)
  case (1 k)
  show ?case
  proof (cases "k < 10")
    case True
    then show ?thesis by (subst show_nat.simps) simp
  next
    case False
    with 1 show ?thesis by (subst show_nat.simps) simp
  qed
qed

lemma unit_chars [simp]:
  "char_digit CHR ''H'' = None" "char_digit CHR ''M'' = None" "char_digit CHR ''S'' = None"
  by (simp_all add: char_digit_def)

lemma duration_seconds_unit:
  "u = CHR ''H'' \<and> w = 3600 \<or> u = CHR ''M'' \<and> w = 60 \<or> u = CHR ''S'' \<and> w = 1 \<Longrightarrow> 0 \<le> n
   \<Longrightarrow> duration_seconds acc 0 (duration_unit n [u] @ r) = duration_seconds (acc + w * nat n) 0 r"
  by (auto simp: duration_unit_def show_int_def duration_seconds_show_nat unit_seconds_def)

lemma nat_time_parts:
  fixes t :: int
  assumes "0 \<le> t"
  shows "3600 * nat (t div 3600) + 60 * nat (t mod 3600 div 60) + nat (t mod 60) = nat t"
proof -
  obtain n where n: "t = int n" using assms by (rule nonneg_int_cases)
  have "n mod 60 = n mod 3600 mod 60" by (simp add: mod_mod_cancel)
  then have "60 * (n mod 3600 div 60) + n mod 60 = n mod 3600" by (metis mult_div_mod_eq)
  then have "3600 * (n div 3600) + (60 * (n mod 3600 div 60) + n mod 60) = n" by simp
  moreover have "nat (t div 3600) = n div 3600" "nat (t mod 3600 div 60) = n mod 3600 div 60"
    "nat (t mod 60) = n mod 60"
    using n by (simp_all add: nat_div_distrib nat_mod_distrib)
  ultimately show ?thesis using n by simp
qed

text \<open>The text \<open>MsToDuration\<close> makes is an ISO 8601 duration that stands for the whole
  seconds of the given milliseconds, and for no time at all when they are not positive.\<close>

theorem duration_roundtrip: "read_duration (msToDuration ms) = Some (nat \<lfloor>ms / 1000\<rfloor>)"
proof (cases "ms \<le> 0")
  case True
  then have "\<lfloor>ms / 1000\<rfloor> \<le> 0" by (simp add: floor_le_iff)
  with True show ?thesis
    by (simp add: msToDuration_def char_digit_def unit_seconds_def)
next
  case False
  define t where "t = \<lfloor>ms / 1000\<rfloor>"
  have t: "0 \<le> t" using False by (simp add: t_def)
  let ?h = "duration_unit (t div 3600) ''H''" and ?m = "duration_unit (t mod 3600 div 60) ''M''"
  let ?s = "if t mod 60 > 0 \<or> ''PT'' @ ?h @ ?m = ''PT'' then show_int (t mod 60) @ ''S'' else []"
  have shape: "msToDuration ms = ''PT'' @ ?h @ ?m @ ?s"
    using False by (simp add: msToDuration_def t_def Let_def)
  have "duration_seconds acc 0 ?s = Some (acc + nat (t mod 60))" for acc
    by (auto simp: show_int_def duration_seconds_show_nat unit_seconds_def)
  then have "duration_seconds 0 0 (?h @ ?m @ ?s)
      = Some (3600 * nat (t div 3600) + 60 * nat (t mod 3600 div 60) + nat (t mod 60))"
    using t by (simp add: duration_seconds_unit [where w = 3600 and u = "CHR ''H''"]
        duration_seconds_unit [where w = 60 and u = "CHR ''M''"])
  with shape t show ?thesis
    by (simp add: nat_time_parts t_def [symmetric])
qed

section \<open>A socket that closes\<close>

lemma start_loop_frame:
  "promises (start_loop e s) = promises s" "pending (start_loop e s) = pending s"
  by (simp_all add: start_loop_def loop_head_def Let_def set_timer_def end_loop_def)

lemma start_loop_sleeps:
  assumes "\<not> intentionalClose s" and "below_attempts 0 (rc_maxAttempts (ro_reconnect (opts s)))"
  shows "loops (start_loop e s) = (loops s)(fresh s := Some
     \<lparr>attempt = 1, delay = rc_initialDelayMs (ro_reconnect (opts s)), pc = Sleeping\<rparr>)"
  using assms by (simp add: start_loop_def loop_head_def Let_def set_timer_def)

lemma reject_all_loops: "loops (rejectAllPending err s) = loops s" "fresh (rejectAllPending err s) = fresh s"
proof -
  have "loops (reject_entries err es s) = loops s" "fresh (reject_entries err es s) = fresh s" for es
    by (induction err es s rule: reject_entries.induct) (simp_all add: clear_timer_def)
  then show "loops (rejectAllPending err s) = loops s" "fresh (rejectAllPending err s) = fresh s"
    by (simp_all add: rejectAllPending_def Let_def)
qed

text \<open>The state in which a socket's close handler decides on a reconnect.\<close>

definition closed_down :: "nat \<Rightarrow> string \<Rightarrow> socket \<Rightarrow> client \<Rightarrow> client" where
  "closed_down w reason k s = rejectAllPending (WebSocketClosed reason) (emit (Disconnected reason)
     (s\<lparr>sockets := (sockets s)(w := Some (k\<lparr>readyState := CLOSED, closeFired := True\<rparr>))\<rparr>))"

lemma socket_close_closed_down:
  assumes "sockets s w = Some k"
  shows "socket_close e w code reason s =
    (let s2 = closed_down w (close_reason code reason) k s
     in if \<not> intentionalClose s \<and> rc_enabled (ro_reconnect (opts s)) then start_loop e s2 else s2)"
  using assms by (simp add: socket_close_def closed_down_def Let_def)

lemma closed_down_fields:
  "intentionalClose (closed_down w r k s) = intentionalClose s" "opts (closed_down w r k s) = opts s"
  "loops (closed_down w r k s) = loops s" "fresh (closed_down w r k s) = fresh s" "jm_entries (pending (closed_down w r k s)) = []"
  by (simp_all add: closed_down_def reject_all_loops)

text \<open>C7: The close event of any socket of the client rejects every request that waits for
  a reply with the reason (the close code when the server gave none) and leaves the pending
  table empty.  It starts one more reconnect loop, asleep on attempt 1 with the initial delay,
  if and only if the caller did not close the client, reconnecting is enabled and
  \<open>maxAttempts\<close> is not 0; the loops that run already stay as they are and are not looked at, so
  the close of a failed attempt adds a loop as well
  (\<open>ClientReconnect.failed_attempt_starts_another_loop\<close>).  The largest delay of the options is
  assumed not to be negative.\<close>

theorem closed_socket_rejects_and_reconnects:
  assumes "reachable parse (new_client u o1) s" and "sockets s w = Some k"
    and "s' = socket_close e w code reason s" and "rc = ro_reconnect (opts s)"
    and "0 \<le> rc_maxDelayMs (ro_reconnect (resolve_options o1))"
  shows "(\<forall>p. origins s p = Some ByRequest \<and> promises s p = Pending
            \<longrightarrow> promises s' p = Rejected (WebSocketClosed (close_reason code reason)))
         \<and> jm_entries (pending s') = []
         \<and> (if \<not> intentionalClose s \<and> rc_enabled rc \<and> below_attempts 0 (rc_maxAttempts rc)
            then \<exists>l. loops s l = None
              \<and> loops s' = (loops s)(l := Some \<lparr>attempt = 1, delay = rc_initialDelayMs rc, pc = Sleeping\<rparr>)
            else loops s' = loops s)"
proof -
  let ?s1 = "emit (Disconnected (close_reason code reason))
      (s\<lparr>sockets := (sockets s)(w := Some (k\<lparr>readyState := CLOSED, closeFired := True\<rparr>))\<rparr>)"
  let ?s2 = "closed_down w (close_reason code reason) k s"
  have inv: "client_inv s" using assms(1) by (rule reachable_client_inv)
  then have "sockets_ok (sockets s) (origins s)" by (simp add: client_inv_def)
  with assms(2) inv have "client_inv ?s1"
    by (auto simp: client_simps client_inv_def sockets_ok_def)
  then have rej: "origins s p = Some ByRequest \<Longrightarrow> promises s p = Pending
      \<Longrightarrow> promises ?s2 p = Rejected (WebSocketClosed (close_reason code reason))" for p
    unfolding closed_down_def by (rule reject_all_settles(1)) simp_all
  have s': "s' = (if \<not> intentionalClose s \<and> rc_enabled rc then start_loop e ?s2 else ?s2)"
    using assms(2,3,4) by (simp add: socket_close_closed_down Let_def)
  have "loops s (fresh ?s2) = None"
  proof -
    have "fresh ?s2 = fresh s"
      by (simp add: closed_down_fields)
    moreover have "loops s l = Some x \<Longrightarrow> l < fresh s" for l x
      using reachable_loop_inv [OF assms(1,5)] by (simp add: loop_inv_def loops_ok_def)
    ultimately show ?thesis
      by (metis less_irrefl not_None_eq)
  qed
  moreover have "loops (start_loop e ?s2) = loops s" if "\<not> below_attempts 0 (rc_maxAttempts rc)"
    using that assms(4) \<open>loops s (fresh ?s2) = None\<close>
    by (auto simp: start_loop_def loop_head_def end_loop_def Let_def closed_down_fields)
  moreover have "loops (start_loop e ?s2) = (loops s)(fresh ?s2 := Some
      \<lparr>attempt = 1, delay = rc_initialDelayMs rc, pc = Sleeping\<rparr>)"
    if "\<not> intentionalClose s" "below_attempts 0 (rc_maxAttempts rc)"
    using that assms(4) by (simp add: start_loop_sleeps closed_down_fields)
  moreover have "promises s' = promises ?s2" "pending s' = pending ?s2"
    by (simp_all add: s' start_loop_frame)
  ultimately show ?thesis
    using rej closed_down_fields(3,5) by (auto simp: s')
qed

theorem closed_socket_rejects_and_reconnects_witness:
  "promises (socket_close (demo_env ''y'') 1 1001 ''restart'' demo_paused) 2 = Rejected (WebSocketClosed ''restart'')"
proof -
  have "close_reason 1001 ''restart'' = ''restart''"
    by (simp add: close_reason_def)
  with closed_socket_rejects_and_reconnects [OF demo_paused_reachable _ refl refl, of 1 _ "demo_env ''y''" 1001 "''restart''"]
  show ?thesis
    by (simp add: demo_paused_fields demo_open_fields resolve_options_def demo_options_def)
qed

end
