(* ===== verification/ErrorTable.thy ===== *)
theory ErrorTable
  imports Prelude
begin

text \<open>
  The two tables of printer errors (\<open>CeX73yR3.js\<close>): \<open>Ga\<close>, what is known of an error by its
  number, and \<open>Om\<close>, its text.  They are kept as lists in the order of the source, which
  names some numbers twice; in an object literal the later entry replaces the earlier.

  Four texts hold a full-width comma or colon; it is kept as its three bytes in UTF-8.
  The entry of 2788 reads \<open>level: 2A\<close>, without the comma, in this copy of the bundle, which is
  not JavaScript; it is read as \<open>level: 2,\<close>.
\<close>

text \<open>An entry, with its properties in the order of the source.  The level is the number
  of a colour; \<open>apply\<close>, \<open>isCfs\<close> and \<open>wiki\<close> may be absent.\<close>

datatype error_info =
  ErrorInfo (code: string) (level: json) (apply_to: "string list option") (content: string)
    (supportVersion: int) (isCfs: "bool option") (wiki: "string option")

text \<open>What a property access finds: the last entry under the key.\<close>

definition last_of :: "(nat \<times> 'a) list \<Rightarrow> nat \<Rightarrow> 'a option" where
  "last_of xs k = map_of (rev xs) k"

section \<open>The errors\<close>

definition Ga_1 :: "(nat \<times> error_info) list" where
  \<open>Ga_1 = [
     (1, ErrorInfo ''1'' (JNum 2) (Some [''K1'', ''K1C'', ''K1MAX'', ''K2Plus'']) ''Motor drive abnormality'' 800 None None),
     (2, ErrorInfo ''2'' (JNum 2) (Some [''K1'', ''K1C'', ''K1MAX'', ''K2Plus'']) ''internal error'' 800 None None),
     (3, ErrorInfo ''3'' (JNum 2) (Some [''K1'', ''K1C'', ''K1MAX'', ''K2Plus'']) ''Communication abnormality'' 800 None None),
     (4, ErrorInfo ''4'' (JNum 2) (Some [''K1'', ''K1C'', ''K1MAX'', ''K2Plus'']) ''Not heating as expected'' 800 None None),
     (209, ErrorInfo ''209'' (JNum 2) (Some [''K1'', ''K1C'', ''K1MAX'', ''K2Plus'']) ''Abnormal hot bed temperature'' 800 None None),
     (6, ErrorInfo ''6'' (JNum 2) (Some [''K1'', ''K1C'', ''K1MAX'', ''K2Plus'']) ''Extruder abnormality'' 800 None None),
     (7, ErrorInfo ''7'' (JNum 2) (Some [''K1'', ''K1C'', ''K1MAX'', ''K2Plus'']) ''Print file coordinates are abnormal'' 800 None None),
     (101, ErrorInfo ''101'' (JNum 2) (Some [''K1'', ''K1C'', ''K1MAX'', ''K2Plus'']) ''A print quality problem has been detected and printing is paused'' 800 None None),
     (100, ErrorInfo ''100'' (JNum 2) (Some [''K1'', ''K1C'', ''K1MAX'', ''K2Plus'']) ''An unknown error was detected in printing'' 800 None None),
     (201, ErrorInfo ''201'' (JNum 2) (Some [''K1'', ''K1C'', ''K1MAX'', ''K2Plus'']) ''Abnormal temperature of the temperature chamber'' 800 None None),
     (9, ErrorInfo ''9'' (JNum 2) (Some [''K1'', ''K1C'', ''K1MAX'', ''K2Plus'']) ''Chatter optimization sensor abnormality'' 800 None None),
     (10, ErrorInfo ''10'' (JNum 2) (Some [''K1'', ''K1C'', ''K1MAX'', ''K2Plus'']) ''Fan abnormality'' 800 None None),
     (204, ErrorInfo ''204'' (JNum 2) (Some [''K1'', ''K1C'', ''K1MAX'', ''K2Plus'']) ''Fan abnormality'' 800 None None),
     (205, ErrorInfo ''205'' (JNum 2) (Some [''K1'', ''K1C'', ''K1MAX'', ''K2Plus'']) ''network anomaly'' 800 None None),
     (206, ErrorInfo ''206'' (JNum 2) (Some [''K1'', ''K1C'', ''K1MAX'', ''K2Plus'']) ''AI detected print quality issues'' 800 None None),
     (207, ErrorInfo ''207'' (JNum 2) (Some [''K1'', ''K1C'', ''K1MAX'', ''K2Plus'']) ''z-Touch abnormality'' 800 None None),
     (208, ErrorInfo ''208'' (JNum 2) (Some [''K1'', ''K1C'', ''K1MAX'', ''K2Plus'']) ''File anomaly'' 800 None None),
     (500, ErrorInfo ''500'' (JNum 2) (Some [''K1'', ''K1C'', ''K1MAX'', ''K2Plus'']) ''Unknown exception'' 800 None None),
     (800, ErrorInfo ''800'' (JNum 2) (Some [''K1'', ''K1C'', ''K1MAX'', ''K2Plus'']) ''Axis movement error'' 800 None None),
     (801, ErrorInfo ''801'' (JNum 2) (Some [''K1'', ''K1C'', ''K1MAX'', ''K2Plus'']) ''Machine preparation'' 800 None None),
     (20000, ErrorInfo [] (JNum 2) (Some [''K1'', ''K1C'', ''K1MAX'', ''K2Plus'']) ''20000'' 800 None None)]\<close>

definition Ga_2 :: "(nat \<times> error_info) list" where
  \<open>Ga_2 = [
     (20010, ErrorInfo [] (JNum 2) (Some [''K1'', ''K1C'', ''K1MAX'', ''K2Plus'']) ''20010'' 800 None None),
     (30000, ErrorInfo [] (JNum 2) (Some [''K1'', ''K1C'', ''K1MAX'', ''K2Plus'']) ''30000'' 800 None None),
     (30010, ErrorInfo [] (JNum 2) (Some [''K1'', ''K1C'', ''K1MAX'', ''K2Plus'']) ''30010'' 800 None None),
     (101, ErrorInfo ''AC0101'' (JNum 1) (Some [''K1C'', ''K1MAX'', ''K2Plus'']) ''AC0101'' 830 None None),
     (103, ErrorInfo ''AC0103'' (JNum 1) (Some [''K1C'', ''K1MAX'', ''K2Plus'']) ''AC0103'' 830 None None),
     (104, ErrorInfo ''AC0104'' (JNum 1) (Some [''K1C'', ''K1MAX'', ''K2Plus'']) ''AC0104'' 830 None None),
     (117, ErrorInfo ''AC0117'' (JNum 1) (Some [''K1C'', ''K1MAX'', ''K2Plus'']) ''AC0117'' 830 None None),
     (500, ErrorInfo ''AC0500'' (JNum 2) (Some [''K1C'', ''K1MAX'', ''K2Plus'']) ''AC0500'' 830 None None),
     (503, ErrorInfo ''AC0503'' (JNum 2) (Some [''K1C'', ''K1MAX'', ''K2Plus'']) ''AC0503'' 830 None None),
     (509, ErrorInfo ''AC0509'' (JNum 2) (Some [''K1C'', ''K1MAX'', ''K2Plus'']) ''AC0509'' 830 None None),
     (510, ErrorInfo ''AC0510'' (JNum 2) (Some [''K1C'', ''K1MAX'', ''K2Plus'']) ''AC0510'' 830 None None),
     (523, ErrorInfo ''AC0523'' (JNum 2) (Some [''K1C'', ''K1MAX'', ''K2Plus'']) ''AC0523'' 830 None None),
     (504, ErrorInfo ''AL0504'' (JNum 2) (Some [''K1MAX'', ''K2Plus'']) ''AL0504'' 830 None None),
     (505, ErrorInfo ''AL0505'' (JNum 2) (Some [''K1MAX'']) ''AL0505'' 830 None (Some ''https://wiki.creality.com/zh/k1-flagship-series/k1-max/troubleshooting/ai-lidar-does-not-detect'')),
     (506, ErrorInfo ''AL0506'' (JNum 2) (Some [''K1MAX'']) ''AL0506'' 830 None (Some ''https://wiki.creality.com/zh/k1-flagship-series/k1-series-general-documents/506-error-trouble-shooting'')),
     (507, ErrorInfo ''AL0507'' (JNum 2) (Some [''K1MAX'']) ''AL0507'' 830 None None),
     (110, ErrorInfo ''BM0110'' (JNum 2) (Some [''K1'', ''K1C'', ''K1MAX'', ''K2Plus'']) ''BM0110'' 830 None None),
     (111, ErrorInfo ''BM0111'' (JNum 2) (Some [''K1'', ''K1C'', ''K1MAX'', ''K2Plus'']) ''BM0111'' 830 None None),
     (112, ErrorInfo ''BM0112'' (JNum 2) (Some [''K1'', ''K1C'', ''K1MAX'', ''K2Plus'']) ''BM0112'' 830 None None),
     (2512, ErrorInfo ''BM2512'' (JNum 1) (Some [''K1'', ''K1C'', ''K1MAX'', ''K2Plus'']) ''BM2512'' 830 None None),
     (508, ErrorInfo ''BS0508'' (JNum 2) (Some [''K1'', ''K1C'', ''K1MAX'', ''K2Plus'']) ''BS0508'' 830 None None)]\<close>

definition Ga_3 :: "(nat \<times> error_info) list" where
  \<open>Ga_3 = [
     (2721, ErrorInfo ''CA2721'' (JNum 2) (Some [''K2Plus'']) ''CA2721'' 830 None None),
     (2510, ErrorInfo ''CB2510'' (JNum 1) (Some [''K1'', ''K1C'', ''K1MAX'', ''K2Plus'']) ''CB2510'' 830 None None),
     (2516, ErrorInfo ''CB2516'' (JNum 1) (Some [''K1'', ''K1C'', ''K1MAX'', ''K2Plus'']) ''CB2516'' 830 None None),
     (2565, ErrorInfo ''CB2565'' (JNum 1) (Some [''K1'', ''K1C'', ''K1MAX'', ''K2Plus'']) ''CB2565'' 830 None (Some ''https://wiki.creality.com/zh/k1-flagship-series/k1-max/troubleshooting/2565-error-trouble-shooting'')),
     (502, ErrorInfo ''CF0502'' (JNum 2) (Some [''K1'', ''K1C'', ''K1MAX'', ''K2Plus'']) ''CF0502'' 830 None None),
     (2536, ErrorInfo ''CL2536'' (JNum 1) (Some [''K1'', ''K1C'', ''K1MAX'', ''K2Plus'']) ''CL2536'' 830 None None),
     (2537, ErrorInfo ''CL2537'' (JNum 1) (Some [''K1'', ''K1C'', ''K1MAX'', ''K2Plus'']) ''CL2537'' 830 None None),
     (115, ErrorInfo ''CM0115'' (JNum 3) (Some [''K1'', ''K1C'', ''K1MAX'', ''K2Plus'']) ''CM0115'' 800 None None),
     (2781, ErrorInfo ''CM2781'' (JNum 1) (Some [''K2Plus'']) ''CM2781'' 830 None None),
     (2782, ErrorInfo ''CM2782'' (JNum 1) (Some [''K2Plus'']) ''CM2782'' 830 None None),
     (2783, ErrorInfo ''CM2783'' (JNum 1) (Some [''K2Plus'']) ''CM2783'' 830 None None),
     (2787, ErrorInfo ''CM2787'' (JNum 1) (Some [''K2Plus'']) ''CM2787'' 830 None None),
     (2790, ErrorInfo ''CM2790'' (JNum 1) (Some [''K2Plus'']) ''CM2790'' 830 None None),
     (2511, ErrorInfo ''CT2511'' (JNum 2) (Some [''K1'', ''K1C'', ''K1MAX'', ''K2Plus'']) ''CT2511'' 830 None None),
     (2517, ErrorInfo ''CT2517'' (JNum 2) (Some [''K1'', ''K1C'', ''K1MAX'', ''K2Plus'']) ''CT2517'' 830 None None),
     (2566, ErrorInfo ''CX2566'' (JNum 1) (Some [''K1'', ''K1C'', ''K1MAX'']) ''CX2566'' 830 None None),
     (2573, ErrorInfo ''CX2573'' (JNum 1) (Some [''K1'', ''K1C'', ''K1MAX'', ''K2Plus'']) ''CX2573'' 830 None None),
     (2585, ErrorInfo ''CX2585'' (JNum 1) (Some [''K1'', ''K1C'', ''K1MAX'', ''K2Plus'']) ''CX2585'' 830 None None),
     (2567, ErrorInfo ''CY2567'' (JNum 1) (Some [''K1'', ''K1C'', ''K1MAX'']) ''CY2567'' 830 None None),
     (2577, ErrorInfo ''CY2577'' (JNum 1) (Some [''K1'', ''K1C'', ''K1MAX'', ''K2Plus'']) ''CY2577'' 830 None None),
     (2581, ErrorInfo ''CY2581'' (JNum 1) (Some [''K1'', ''K1C'', ''K1MAX'', ''K2Plus'']) ''CY2581'' 830 None None)]\<close>

definition Ga_4 :: "(nat \<times> error_info) list" where
  \<open>Ga_4 = [
     (2586, ErrorInfo ''CY2586'' (JNum 1) (Some [''K1'', ''K1C'', ''K1MAX'', ''K2Plus'']) ''CY2586'' 830 None None),
     (2568, ErrorInfo ''CZ2568'' (JNum 1) (Some [''K1'', ''K1C'', ''K1MAX'']) ''CZ2568'' 830 None None),
     (2581, ErrorInfo ''CZ2581'' (JNum 1) (Some [''K1'', ''K1C'', ''K1MAX'', ''K2Plus'']) ''CZ2581'' 830 None None),
     (2587, ErrorInfo ''CZ2587'' (JNum 1) (Some [''K1'', ''K1C'', ''K1MAX'', ''K2Plus'']) ''CZ2587'' 830 None None),
     (2588, ErrorInfo ''CZ2588'' (JNum 1) (Some [''K1'', ''K1C'', ''K1MAX'', ''K2Plus'']) ''CZ2588'' 830 None None),
     (2844, ErrorInfo ''FB2844'' (JNum 1) (Some [''K2Plus'']) ''FB2844'' 830 (Some True) None),
     (2846, ErrorInfo ''FB2846'' (JNum 1) (Some [''K2Plus'']) ''FB2846'' 830 (Some True) None),
     (2847, ErrorInfo ''FB2847'' (JNum 1) (Some [''K2Plus'']) ''FB2847'' 830 (Some True) None),
     (2837, ErrorInfo ''FO2837'' (JNum 1) (Some [''K2Plus'']) ''FO2837'' 830 (Some True) None),
     (2838, ErrorInfo ''FO2838'' (JNum 1) (Some [''K2Plus'']) ''FO2838'' 830 (Some True) None),
     (2845, ErrorInfo ''FO2845'' (JNum 1) (Some [''K2Plus'']) ''FO2845'' 830 (Some True) None),
     (2832, ErrorInfo ''FR2832'' (JNum 1) (Some [''K2Plus'']) ''FR2832'' 830 (Some True) None),
     (2833, ErrorInfo ''FR2833'' (JNum 1) (Some [''K2Plus'']) ''FR2833'' 830 (Some True) None),
     (2835, ErrorInfo ''FR2835'' (JNum 1) (Some [''K2Plus'']) ''FR2835'' 830 (Some True) None),
     (2836, ErrorInfo ''FR2836'' (JNum 1) (Some [''K2Plus'']) ''FR2836'' 830 (Some True) None),
     (2839, ErrorInfo ''FR2839'' (JNum 1) (Some [''K2Plus'']) ''FR2839'' 830 (Some True) None),
     (2848, ErrorInfo ''FR2848'' (JNum 1) (Some [''K2Plus'']) ''FR2848'' 830 (Some True) None),
     (2849, ErrorInfo ''FR2849'' (JNum 1) (Some [''K2Plus'']) ''FR2849'' 830 (Some True) None),
     (2850, ErrorInfo ''FR2850'' (JNum 1) (Some [''K2Plus'']) ''FR2850'' 830 (Some True) None)]\<close>

definition Ga_5 :: "(nat \<times> error_info) list" where
  \<open>Ga_5 = [
     (2851, ErrorInfo ''FR2851'' (JNum 1) (Some [''K2Plus'']) ''FR2851'' 830 (Some True) None),
     (2831, ErrorInfo ''FS2831'' (JNum 1) (Some [''K2Plus'']) ''FS2831'' 830 (Some True) None),
     (2834, ErrorInfo ''FS2834'' (JNum 2) (Some [''K2Plus'']) ''FS2834'' 830 (Some True) None),
     (2840, ErrorInfo ''FS2840'' (JNum 2) (Some [''K2Plus'']) ''FS2840'' 830 (Some True) None),
     (2843, ErrorInfo ''FS2843'' (JNum 2) (Some [''K2Plus'']) ''FS2843'' 830 (Some True) None),
     (2841, ErrorInfo ''TC2841'' (JNum 1) (Some [''K2Plus'']) ''TC2841'' 830 None None),
     (2111, ErrorInfo ''TE2111'' (JNum 1) (Some [''K1'', ''K1C'', ''K1MAX'', ''K2Plus'']) ''TE2111'' 830 None (Some ''https://wiki.creality.com/zh/k1-flagship-series/k1-series-general-documents/2111-error-trouble-shooting'')),
     (2509, ErrorInfo ''TE2509'' (JNum 1) (Some [''K1'', ''K1C'', ''K1MAX'', ''K2Plus'']) ''TE2509'' 830 None (Some ''https://wiki.creality.com/zh/k1-flagship-series/k1-series-general-documents/2509-error-trouble-shooting'')),
     (2515, ErrorInfo ''TE2515'' (JNum 1) (Some [''K1'', ''K1C'', ''K1MAX'', ''K2Plus'']) ''TE2515'' 830 None None),
     (2564, ErrorInfo ''TE2564'' (JNum 1) (Some [''K1'', ''K1C'', ''K1MAX'', ''K2Plus'']) ''TE2564'' 830 None (Some ''https://wiki.creality.com/zh/k1-flagship-series/k1-series-general-documents/2564-error-trouble-shooting'')),
     (501, ErrorInfo ''TF0501'' (JNum 2) (Some [''K1'', ''K1C'', ''K1MAX'', ''K2Plus'']) ''TF0501'' 830 None None),
     (116, ErrorInfo ''TR0116'' (JNum 3) (Some [''K1'', ''K1C'', ''K1MAX'', ''K2Plus'']) ''TR0116'' 830 None None),
     (2571, ErrorInfo ''XD2571'' (JNum 1) (Some [''K1'', ''K1C'', ''K1MAX'', ''K2Plus'']) ''XD2571'' 830 None (Some ''https://wiki.creality.com/zh/k1-flagship-series/k1-series-general-documents/2121-error-trouble-shooting'')),
     (2000, ErrorInfo ''XS2000'' (JNum 1) (Some [''K1'', ''K1C'', ''K1MAX'', ''K2Plus'']) ''XS2000'' 830 None (Some ''https://wiki.creality.com/zh/k1-flagship-series/k1-max/troubleshooting/2000-error-trouble-shooting'')),
     (2001, ErrorInfo ''XS2001'' (JNum 1) (Some [''K1'', ''K1C'', ''K1MAX'', ''K2Plus'']) ''XS2001'' 830 None (Some ''https://wiki.creality.com/zh/k1-flagship-series/k1-max/troubleshooting/2001-error-trouble-shooting'')),
     (2060, ErrorInfo ''XS2060'' (JNum 1) (Some [''K1'', ''K1C'', ''K1MAX'', ''K2Plus'']) ''XS2060'' 830 None None),
     (2093, ErrorInfo ''XS2093'' (JNum 1) (Some [''K1'', ''K1C'', ''K1MAX'', ''K2Plus'']) ''XS2093'' 830 None None),
     (3000, ErrorInfo ''XS3000'' (JNum 1) (Some [''K1'', ''K1C'', ''K1MAX'', ''K2Plus'']) ''XS3000'' 830 None None),
     (3001, ErrorInfo ''XS3001'' (JNum 1) (Some [''K1'', ''K1C'', ''K1MAX'', ''K2Plus'']) ''XS3001'' 830 None None)]\<close>

definition Ga_6 :: "(nat \<times> error_info) list" where
  \<open>Ga_6 = [
     (3002, ErrorInfo ''XS3002'' (JNum 1) (Some [''K1'', ''K1C'', ''K1MAX'', ''K2Plus'']) ''XS3002'' 830 None (Some ''https://wiki.creality.com/zh/k1-flagship-series/k1-max/troubleshooting/3002-error-trouble-shooting'')),
     (2768, ErrorInfo ''CZ2768'' (JNum 1) (Some [''K2Plus'']) ''CZ2768'' 830 None None),
     (2798, ErrorInfo ''CM2798'' (JNum 1) (Some [''K2Plus'']) ''CM2798'' 830 None None),
     (2711, ErrorInfo ''CA2711'' (JNum 2) (Some [''K2Plus'']) ''CA2711'' 830 None None),
     (119, ErrorInfo ''AC0119'' (JNum 1) (Some [''K2Plus'']) ''AC0119'' 830 None None),
     (120, ErrorInfo ''CA0120'' (JNum 1) (Some [''K2Plus'']) ''CA0120'' 830 None None),
     (2710, ErrorInfo ''CA2710'' (JNum 2) (Some [''K2Plus'']) ''CA2710'' 830 None None),
     (2559, ErrorInfo ''CP2559'' (JNum 2) (Some [''K2Plus'']) ''CP2559'' 830 None None),
     (2852, ErrorInfo ''TR2852'' (JNum 2) (Some [''K2Plus'']) ''TR2852'' 830 None None),
     (2854, ErrorInfo ''TC2854'' (JNum 1) (Some [''K2Plus'']) ''TC2854'' 830 None None),
     (2856, ErrorInfo ''TC2856'' (JNum 1) (Some [''K2Plus'']) ''TC2856'' 830 None None),
     (2855, ErrorInfo ''TC2855'' (JNum 1) (Some [''K2Plus'']) ''TC2855'' 830 None None),
     (2762, ErrorInfo ''TE2762'' (JNum 1) (Some [''K2Plus'']) ''TE2762'' 830 None None),
     (2761, ErrorInfo ''TE2761'' (JNum 1) (Some [''K2Plus'']) ''TE2761'' 830 None None),
     (526, ErrorInfo ''TF0526'' (JNum 2) (Some [''K2Plus'']) ''TF0526'' 830 None None),
     (2853, ErrorInfo ''FH2853'' (JNum 2) (Some [''K2Plus'']) ''FH2853'' 830 None None),
     (2857, ErrorInfo ''FM2857'' (JNum 1) (Some [''K2Plus'']) ''FM2857'' 830 None None),
     (121, ErrorInfo ''FR0121'' (JNum 1) (Some [''K2Plus'']) ''FR0121'' 830 None None),
     (122, ErrorInfo ''FR0122'' (JNum 1) (Some [''K2Plus'']) ''FR0122'' 830 None None),
     (2858, ErrorInfo ''FS2858'' (JNum 2) (Some [''K2Plus'']) ''FS2858'' 830 None None),
     (2859, ErrorInfo ''FO2859'' (JNum 2) (Some [''K2Plus'']) ''FO2859'' 830 None None)]\<close>

definition Ga_7 :: "(nat \<times> error_info) list" where
  \<open>Ga_7 = [
     (2860, ErrorInfo ''FB2860'' (JNum 2) (Some [''K2Plus'']) ''FB2860'' 830 None None),
     (2861, ErrorInfo ''FS2861'' (JNum 2) (Some [''K2Plus'']) ''FS2861'' 830 None None),
     (2862, ErrorInfo ''FS2862'' (JNum 2) (Some [''K2Plus'']) ''FS2862'' 830 None None),
     (2865, ErrorInfo ''FR2865'' (JNum 2) (Some [''K2Plus'']) ''FR2865'' 830 None None),
     (528, ErrorInfo ''FO0528'' (JNum 2) (Some [''K2Plus'']) ''FO0528'' 830 None None),
     (511, ErrorInfo ''AC0511'' (JNum 2) (Some [''K2Plus'']) ''AC0511'' 830 None None),
     (512, ErrorInfo ''AC0512'' (JNum 2) (Some [''K2Plus'']) ''AC0512'' 830 None None),
     (513, ErrorInfo ''AC0513'' (JNum 2) (Some [''K2Plus'']) ''AC0513'' 830 None None),
     (514, ErrorInfo ''AC0514'' (JNum 2) (Some [''K2Plus'']) ''AC0514'' 830 None None),
     (2243, ErrorInfo ''CZ2243'' (JNum 2) (Some [''K2Plus'']) ''CZ2243'' 830 None None),
     (2863, ErrorInfo ''TR2863'' (JNum 2) (Some [''K2Plus'']) ''TR2863'' 830 None None),
     (2352, ErrorInfo ''CZ2863'' (JNum 2) (Some [''K2Plus'']) ''CZ2863'' 830 None None),
     (2784, ErrorInfo ''CM2784'' (JNum 2) (Some [''K2Plus'']) ''CM2784'' 830 None None),
     (2785, ErrorInfo ''CM2785'' (JNum 2) (Some [''K2Plus'']) ''CM2785'' 830 None None),
     (2789, ErrorInfo ''CM2789'' (JNum 2) (Some [''K2Plus'']) ''CM2789'' 830 None None),
     (2786, ErrorInfo ''CM2786'' (JNum 2) (Some [''K2Plus'']) ''CM2786'' 830 None None),
     (2791, ErrorInfo ''CM2791'' (JNum 2) (Some [''K2Plus'']) ''CM2791'' 830 None None),
     (2792, ErrorInfo ''CM2792'' (JNum 2) (Some [''K2Plus'']) ''CM2792'' 830 None None),
     (2793, ErrorInfo ''CM2791'' (JNum 2) (Some [''K2Plus'']) ''CM2793'' 830 None None),
     (2794, ErrorInfo ''CM2794'' (JNum 2) (Some [''K2Plus'']) ''CM2791'' 830 None None),
     (2788, ErrorInfo ''CM2788'' (JNum 2) (Some [''K2Plus'']) ''CM2788'' 830 None None)]\<close>

definition Ga_8 :: "(nat \<times> error_info) list" where
  \<open>Ga_8 = [
     (2799, ErrorInfo ''CM2799'' (JNum 2) (Some [''K2Plus'']) ''CM2799'' 830 None None),
     (2800, ErrorInfo ''CM2800'' (JNum 2) (Some [''K2Plus'']) ''CM2800'' 830 None None),
     (2801, ErrorInfo ''CM2799'' (JNum 2) (Some [''K2Plus'']) ''CM2801'' 830 None None),
     (2802, ErrorInfo ''CM2802'' (JNum 2) (Some [''K2Plus'']) ''CM2802'' 830 None None),
     (2519, ErrorInfo ''CP2519'' (JNum 2) (Some [''K2Plus'']) ''CP2519'' 830 None None),
     (2712, ErrorInfo ''CA2712'' (JNum 2) (Some [''K2Plus'']) ''CA2712'' 830 None None),
     (2713, ErrorInfo ''CA2713'' (JNum 2) (Some [''K2Plus'']) ''CA2713'' 830 None None),
     (2714, ErrorInfo ''CA2714'' (JNum 2) (Some [''K2Plus'']) ''CA2714'' 830 None None),
     (2715, ErrorInfo ''CA2715'' (JNum 2) (Some [''K2Plus'']) ''CA2715'' 830 None None),
     (2716, ErrorInfo ''CA2716'' (JNum 2) (Some [''K2Plus'']) ''CA2716'' 830 None None),
     (2717, ErrorInfo ''CA2717'' (JNum 2) (Some [''K2Plus'']) ''CA2717'' 830 None None),
     (2718, ErrorInfo ''CA2718'' (JNum 2) (Some [''K2Plus'']) ''CA2718'' 830 None None),
     (2719, ErrorInfo ''CA2719'' (JNum 2) (Some [''K2Plus'']) ''CA2719'' 830 None None),
     (2720, ErrorInfo ''CA2720'' (JNum 2) (Some [''K2Plus'']) ''CA2720'' 830 None None),
     (2721, ErrorInfo ''CA2721'' (JNum 2) (Some [''K2Plus'']) ''CA2721'' 830 None None),
     (2357, ErrorInfo ''CL2357'' (JNum 2) (Some [''K2Plus'']) ''CL2357'' 830 None None),
     (109, ErrorInfo ''CF0109'' (JNum 2) (Some [''K2Plus'']) ''CF0109'' 830 None None),
     (2355, ErrorInfo ''BM2355'' (JNum 2) (Some [''K2Plus'']) ''BM2355'' 830 None None),
     (2797, ErrorInfo ''BM2797'' (JNum 2) (Some [''K2Plus'']) ''BM2797'' 830 None None),
     (2866, ErrorInfo ''TC2866'' (JNum 2) (Some [''K2Plus'']) ''TC2866'' 830 None None),
     (2864, ErrorInfo ''FB2864'' (JNum 2) (Some [''K2Plus'']) ''FB2864'' 830 None None)]\<close>

definition Ga_9 :: "(nat \<times> error_info) list" where
  \<open>Ga_9 = [
     (123, ErrorInfo ''AC0123'' (JNum 2) (Some [''K2Plus'']) ''AC0123'' 830 None None),
     (124, ErrorInfo ''AC0124'' (JNum 2) (Some [''K2Plus'']) ''AC0124'' 830 None None),
     (515, ErrorInfo ''AC0515'' (JNum 2) (Some [''K2Plus'']) ''AC0515'' 830 None None),
     (516, ErrorInfo ''AC0516'' (JNum 2) (Some [''K2Plus'']) ''AC0516'' 830 None None),
     (527, ErrorInfo ''AC0527'' (JNum 2) (Some [''K2Plus'']) ''AC0527'' 830 None None),
     (529, ErrorInfo ''AC0529'' (JNum 2) (Some [''K2Plus'']) ''AC0529'' 830 None None),
     (2934, ErrorInfo ''FS2934'' (JNum 2) None ''FS2934'' 830 None None),
     (2940, ErrorInfo ''FS2940'' (JNum 2) None ''FS2940'' 830 None None),
     (2953, ErrorInfo ''FH2953'' (JNum 2) None ''FH2953'' 830 None None),
     (2958, ErrorInfo ''FS2958'' (JNum 2) None ''FS2958'' 830 None None),
     (2961, ErrorInfo ''FS2961'' (JNum 2) None ''FS2961'' 830 None None),
     (2962, ErrorInfo ''FS2962'' (JNum 2) None ''FS2962'' 830 None None),
     (2943, ErrorInfo ''FS2943'' (JNum 2) None ''FS2943'' 830 None None),
     (2936, ErrorInfo ''FO2936'' (JNum 1) None ''FO2936'' 830 None None),
     (2937, ErrorInfo ''FO2937'' (JNum 1) None ''FO2937'' 830 None None),
     (2944, ErrorInfo ''FB2944'' (JNum 1) None ''FB2944'' 830 None None),
     (2964, ErrorInfo ''FB2964'' (JNum 1) None ''FB2964'' 830 None None),
     (2970, ErrorInfo ''FO2970'' (JNum 1) None ''FO2970'' 830 None None),
     (2949, ErrorInfo ''FR2949'' (JNum 1) None ''FR2949'' 830 None None),
     (2971, ErrorInfo ''FO2971'' (JNum 1) None ''FO2971'' 830 None None),
     (2939, ErrorInfo ''FR2939'' (JNum 1) None ''FR2939'' 830 None None),
     (2947, ErrorInfo ''FB2947'' (JNum 1) None ''FB2947'' 830 None None),
     (2945, ErrorInfo ''FO2945'' (JNum 1) None ''FO2945'' 830 None None),
     (2931, ErrorInfo ''FS2931'' (JNum 1) None ''FS2931'' 830 None None)]\<close>

definition Ga_10 :: "(nat \<times> error_info) list" where
  \<open>Ga_10 = [
     (3101, ErrorInfo ''FS3101'' (JNum 2) None ''FS3101'' 830 None None),
     (3103, ErrorInfo ''FS3103'' (JNum 2) None ''FS3103'' 830 None None),
     (3119, ErrorInfo ''FB3119'' (JNum 1) None ''FB3119'' 830 None None),
     (3120, ErrorInfo ''FO3120'' (JNum 1) None ''FO3120'' 830 None None),
     (3121, ErrorInfo ''FO3121'' (JNum 1) None ''FO3121'' 830 None None),
     (3134, ErrorInfo ''FO3134'' (JNum 1) None ''FO3134'' 830 None None),
     (3151, ErrorInfo ''FB3151'' (JNum 1) None ''FB3151'' 830 None None),
     (3149, ErrorInfo ''FR3149'' (JNum 1) None ''FR3149'' 830 None None),
     (3160, ErrorInfo ''FS3160'' (JNum 1) None ''FS3160'' 830 None None),
     (2952, ErrorInfo ''TR2952'' (JNum 2) None ''TR2952'' 830 None None),
     (5510, ErrorInfo ''CB5510'' (JNum 1) None ''CB5510'' 830 None None),
     (5511, ErrorInfo ''CT5511'' (JNum 2) None ''CT5511'' 830 None None),
     (5000, ErrorInfo ''CC5000'' (JNum 1) None ''CC5000'' 830 None None),
     (5003, ErrorInfo ''CL5003'' (JNum 1) None ''CL5003'' 830 None None),
     (5020, ErrorInfo ''CF5020'' (JNum 2) None ''CF5020'' 830 None None),
     (5021, ErrorInfo ''CC5021'' (JNum 2) None ''CC5021'' 830 None None),
     (5022, ErrorInfo ''CZ5022'' (JNum 2) None ''CZ5022'' 830 None None),
     (5026, ErrorInfo ''TO5026'' (JNum 1) None ''TO5026'' 830 None None),
     (5007, ErrorInfo ''FS5007'' (JNum 1) None ''FS5007'' 830 None None),
     (5008, ErrorInfo ''FO5008'' (JNum 1) None ''FO5008'' 830 None None),
     (5009, ErrorInfo ''FO5009'' (JNum 1) None ''FO5009'' 830 None None),
     (5010, ErrorInfo ''FO5010'' (JNum 1) None ''FO5010'' 830 None None),
     (5011, ErrorInfo ''FS5011'' (JNum 1) None ''FS5011'' 830 None None),
     (5012, ErrorInfo ''FS5012'' (JNum 1) None ''FS5012'' 830 None None),
     (5013, ErrorInfo ''FC5013'' (JNum 1) None ''FC5013'' 830 None None)]\<close>

definition Ga_11 :: "(nat \<times> error_info) list" where
  \<open>Ga_11 = [
     (5014, ErrorInfo ''FO5014'' (JNum 1) None ''FO5014'' 830 None None),
     (5015, ErrorInfo ''FO5015'' (JNum 1) None ''FO5015'' 830 None None),
     (5016, ErrorInfo ''FC5016'' (JNum 1) None ''FC5016'' 830 None None),
     (5017, ErrorInfo ''FO5017'' (JNum 1) None ''FO5017'' 830 None None),
     (5018, ErrorInfo ''FO5018'' (JNum 1) None ''FO5018'' 830 None None),
     (5019, ErrorInfo ''XC5019'' (JNum 1) None ''XC5019'' 830 None None),
     (5023, ErrorInfo ''FS5023'' (JNum 1) None ''FS5023'' 830 None None),
     (5024, ErrorInfo ''FO5024'' (JNum 1) None ''FO5024'' 830 None None),
     (5028, ErrorInfo ''FR5028'' (JNum 1) None ''FR5028'' 830 None None),
     (5034, ErrorInfo ''FO5034'' (JNum 1) None ''FO5034'' 830 None None),
     (5035, ErrorInfo ''FO5035'' (JNum 2) None ''FO5035'' 830 None None),
     (5036, ErrorInfo ''FC5036'' (JNum 2) None ''FC5036'' 830 None None),
     (3152, ErrorInfo ''TR3152'' (JNum 2) None ''TR3152'' 830 None None),
     (125, ErrorInfo ''XD0125'' (JNum 1) None ''XD0125'' 830 None None)]\<close>

definition Ga_entries :: "(nat \<times> error_info) list" where
  "Ga_entries = Ga_1 @ Ga_2 @ Ga_3 @ Ga_4 @ Ga_5 @ Ga_6 @ Ga_7 @ Ga_8 @ Ga_9 @ Ga_10 @ Ga_11"

section \<open>Their texts\<close>

definition Om_1 :: "(nat \<times> string) list" where
  \<open>Om_1 = [
     (0, ''An unknown error was detected in printing''),
     (1, ''Motor drive abnormality''),
     (2, ''internal error''),
     (3, ''Communication abnormality''),
     (4, ''Not heating as expected''),
     (5, ''Unknown exception''),
     (6, ''Extruder abnormality''),
     (7, ''Print file coordinates are abnormal''),
     (8, ''Unknown exception''),
     (9, ''Chatter optimization sensor abnormality''),
     (10, ''Fan abnormality''),
     (11, ''Unknown exception''),
     (12, ''Unknown exception''),
     (13, ''Unknown exception''),
     (14, ''Unknown exception''),
     (15, ''Unknown exception''),
     (16, ''Unknown exception''),
     (17, ''Unknown exception''),
     (18, ''Unknown exception''),
     (19, ''Unknown exception''),
     (20, ''Unknown exception''),
     (21, ''Unknown exception''),
     (22, ''Unknown exception''),
     (23, ''Unknown exception''),
     (24, ''Unknown exception''),
     (25, ''Unknown exception''),
     (26, ''Unknown exception''),
     (27, ''Unknown exception''),
     (28, ''Unknown exception''),
     (29, ''Unknown exception''),
     (30, ''Unknown exception''),
     (31, ''Unknown exception''),
     (32, ''Unknown exception''),
     (33, ''Unknown exception''),
     (34, ''Unknown exception''),
     (35, ''Unknown exception''),
     (36, ''Unknown exception''),
     (37, ''Unknown exception''),
     (38, ''Unknown exception''),
     (39, ''Unknown exception''),
     (40, ''Unknown exception''),
     (41, ''Unknown exception''),
     (42, ''Unknown exception''),
     (43, ''Unknown exception''),
     (44, ''Unknown exception''),
     (45, ''Unknown exception''),
     (46, ''Unknown exception''),
     (47, ''Unknown exception''),
     (48, ''Unknown exception''),
     (49, ''Unknown exception''),
     (50, ''Unknown exception''),
     (51, ''Unknown exception''),
     (52, ''Unknown exception''),
     (53, ''Unknown exception''),
     (54, ''Unknown exception''),
     (55, ''Unknown exception''),
     (56, ''Unknown exception''),
     (57, ''Unknown exception''),
     (58, ''Unknown exception''),
     (59, ''Unknown exception''),
     (60, ''Unknown exception''),
     (61, ''Unknown exception''),
     (62, ''Unknown exception''),
     (63, ''Unknown exception''),
     (64, ''Unknown exception''),
     (65, ''Unknown exception''),
     (66, ''Unknown exception''),
     (67, ''Unknown exception''),
     (68, ''Unknown exception''),
     (69, ''Unknown exception''),
     (70, ''Unknown exception''),
     (71, ''Unknown exception''),
     (72, ''Unknown exception''),
     (73, ''Unknown exception''),
     (74, ''Unknown exception''),
     (75, ''Unknown exception''),
     (76, ''Unknown exception''),
     (77, ''Unknown exception''),
     (78, ''Unknown exception''),
     (79, ''Unknown exception''),
     (80, ''Unknown exception''),
     (81, ''Unknown exception''),
     (82, ''Unknown exception''),
     (83, ''Unknown exception''),
     (84, ''Unknown exception''),
     (85, ''Unknown exception''),
     (86, ''Unknown exception''),
     (87, ''Unknown exception''),
     (88, ''Unknown exception''),
     (89, ''Unknown exception''),
     (90, ''Unknown exception''),
     (91, ''Unknown exception''),
     (92, ''Unknown exception''),
     (93, ''Unknown exception''),
     (94, ''Unknown exception''),
     (95, ''Unknown exception''),
     (96, ''Unknown exception''),
     (97, ''Unknown exception''),
     (98, ''Unknown exception''),
     (99, ''Unknown exception''),
     (100, ''An unknown error was detected in printing''),
     (101, ''A print quality issue has been detected and printing has been paused''),
     (102, ''Unknown exception''),
     (103, ''Unknown error''),
     (104, ''Foreign object detected on the printing platform, printing paused''),
     (105, ''Unknown error''),
     (106, ''Unknown error''),
     (107, ''Unknown error''),
     (108, ''Unknown error''),
     (109, ''An unknown error was detected in printing''),
     (110, ''Motherboard Connection Failure''),
     (111, ''Nozzle connection abnormal''),
     (112, ''Hotbed Connection Abnormal''),
     (113, ''Unknown error''),
     (114, ''Unknown error''),
     (115, ''Detected unfinished task, do you wish to continue printing''),
     (116, ''Filament runout, printing paused, please refill''),
     (117, (''A model warping issue has been detected'' @ [CHR 0xEF, CHR 0xBC, CHR 0x8C] @ ''printing has been paused'')),
     (118, ''Unknown error''),
     (119, ''Detected waste chute is block. Please clean it up and try again.''),
     (120, ''Belt tension abnormal. Please rerun the Input Shaping before using the printer.''),
     (121, ''FR2357: CFS filament in use. To print with spool holder, unload CFS filament and reload spool holder before printing.''),
     (122, ''FR2358: Spool holder filament in use. To print with CFS, unload spool holder filament and reload CFS filament before printing.''),
     (123, ''Unknown error''),
     (124, ''Unknown error''),
     (125, ''The current version doesn't support T command desassembled G-code files. Please upgrade the firmware.''),
     (126, ''Unknown error''),
     (127, ''Unknown error''),
     (128, ''Unknown error''),
     (129, ''Unknown error''),
     (201, ''Abnormal temperature of the temperature chamber''),
     (202, ''Unknown error''),
     (203, ''Unknown error''),
     (204, ''Fan abnormality''),
     (205, ''network anomaly''),
     (206, ''AI detected print quality issues''),
     (207, ''z-Touch abnormality''),
     (208, ''File anomaly''),
     (209, ''Abnormal hot bed temperature''),
     (210, ''Unknown error''),
     (211, ''Unknown error''),
     (212, ''Unknown error''),
     (213, ''Unknown error''),
     (214, ''Unknown error''),
     (215, ''Unknown error''),
     (216, ''Unknown error''),
     (217, ''Unknown error''),
     (218, ''Unknown error''),
     (219, ''Unknown error''),
     (220, ''Unknown error'')]\<close>

definition Om_2 :: "(nat \<times> string) list" where
  \<open>Om_2 = [
     (221, ''Unknown error''),
     (222, ''Unknown error''),
     (223, ''Unknown error''),
     (224, ''Unknown error''),
     (225, ''Unknown error''),
     (226, ''Unknown error''),
     (227, ''Unknown error''),
     (228, ''Unknown error''),
     (229, ''Unknown error''),
     (500, ''Printing quality issues detected by AI''),
     (501, ''TF0501: Heat break fan speed detected to be too low.''),
     (502, ''Mainboard fan exception''),
     (503, ''Detected a issue with the print quality of the first layer''),
     (504, ''Current file does not support flow detection''),
     (505, ''AI LiDAR anomaly''),
     (506, ''AI LiDAR calibration failure''),
     (507, ''AI LiDAR alignment failure''),
     (508, ''Current storage space usage has reached %s, please clean up in time''),
     (509, ''Chamber temp too high, camera off. It'll auto-on when temp normalizes''),
     (510, ''Camera failed to start, try restarting''),
     (511, ''Current file does not support flow ratio calibration, printing with default values.''),
     (512, ''Current filament does not support flow ratio calibration, printing with default values.''),
     (513, ''Auto PA calibration image anomaly, printing with default values.''),
     (514, ''Auto PA calibration failed, printing with default values.''),
     (515, ''Unknown error''),
     (516, ''Unknown error''),
     (517, ''Unknown error''),
     (518, ''Unknown error''),
     (519, ''Unknown error''),
     (520, ''Unknown error''),
     (521, ''Unknown error''),
     (522, ''Unknown error''),
     (523, ''A model warping issue has been detected.''),
     (524, ''Unknown error''),
     (525, ''Unknown error''),
     (526, ''TF0526: Model fan speed detected to be too low.''),
     (527, ''Unknown error''),
     (528, ''FO0528: rinter seems to be printing without extruding.''),
     (529, ''Unknown error''),
     (530, ''Unknown error''),
     (531, ''Unknown error''),
     (532, ''Unknown error''),
     (533, ''Unknown error''),
     (534, ''Unknown error''),
     (535, ''Unknown error''),
     (536, ''Unknown error''),
     (537, ''Unknown error''),
     (538, ''Unknown error''),
     (539, ''Unknown error''),
     (800, ''Axis movement error''),
     (801, ''Machine preparation''),
     (2000, ''System error, try restarting''),
     (2001, ''System error, try restarting''),
     (2022, ''An unknown error was detected in printing''),
     (2060, ''System error, try restarting''),
     (2093, ''System error, try restarting''),
     (2111, ''The nozzle temperature is below the minimum extrusion temperature''),
     (2340, ''Unknown error''),
     (2509, ''Unable to obtain nozzle temperature, the thermistor may be disconnected''),
     (2510, ''Hotbed thermistor open circuit''),
     (2511, ''The chamber thermistor may be open circuit''),
     (2512, ''The motherboard temperature is abnormal''),
     (2515, ''Nozzle temperature exceeds limit, thermistor may be short-circuited''),
     (2516, ''Hotbed thermistor short circuit''),
     (2517, ''The chamber thermistor may be short circuit''),
     (2526, ''Unknown error''),
     (2536, ''Unknown error''),
     (2537, ''Unknown error''),
     (2559, ''Chamber heating issue, please ensure the printer is sealed''),
     (2560, ''Unknown error''),
     (2561, ''Unknown error''),
     (2564, ''The nozzle is not heating as expected''),
     (2565, ''The heat bed is not heating as expected''),
     (2566, ''Unknown error''),
     (2567, ''Unknown error''),
     (2568, ''Unknown error''),
     (2571, ''Print file is corrupted''),
     (2573, ''X-axis homing abnormality''),
     (2577, ''Y-axis homing abnormality''),
     (2581, ''Z-axis homing abnormality''),
     (2585, ''X-axis print coordinates out of range''),
     (2586, ''Y-axis print coordinates out of range''),
     (2587, ''Z-axis print coordinates out of range''),
     (2588, ''Z Offset Exceeds Limit''),
     (2710, ''Belt tension module abnormal.''),
     (2711, ''Auto belt tension failure''),
     (2721, ''Unknown error''),
     (2761, ''Unable to read nozzle leveling sensor data, the connection between the nozzle and the motherboard may be loose or disconnected.''),
     (2762, ''The nozzle leveling sensor may be damaged or the wiping module may have fallen off. Please check or try restarting.''),
     (2768, ''Z-axis homing issue,may have an external disturbance ''),
     (2781, ''[Printing] XY Motor: XY motor speed limit exceeded. The motor will be released. Please reduce the print speed or re-slice and print again.Z Motor: Z motor speed limit exceeded. The motor will be released. Please reduce the print speed or re-slice and print again.E Motor: Extruder speed limit exceeded. The motor will be released. Please reduce the print speed or re-slice and print again.[Not Printing] XY Motor: XY motor speed limit exceeded. The motor will be released. Please reduce the XY motor movement speed.Z Motor: Z motor speed limit exceeded. The motor will be released. Please reduce the Z motor movement speed.E Motor: Extruder speed limit exceeded. The motor will be released. Please reduce the extruder movement speed.''),
     (2782, ''[X/Y/E/Z1/Z2] step-servo position issue, please try again after resolving''),
     (2783, ''[Printing] XY Motor: An obstacle was detected during the extruder's movement. This print has been canceled and the motor is released.Z Motor: An obstacle was detected during the heated bed's movement. This print has been canceled and the motor is released.E Motor: An extrusion anomaly was detected, possibly a clog, tangle, or jam. Printing has been paused.[Not Printing] XY Motorstep-servo: An obstacle was detected during the nozzle's movement. The motor will be released.Z Motor: An obstacle was detected during the heated bed's movement. The motor will be released.E Motor: An extrusion anomaly was detected, possibly a clog, tangle, or jam. The motor will be released.''),
     (2787, ''Unknown error''),
     (2788, ''Unknown error''),
     (2789, ''An unknown error was detected in printing''),
     (2790, ''X Motor: X motor identification error detected. The motor wire may be connected improperly or the motor may be damaged.Y Motor: Y motor identification error detected. The motor wire may be connected improperly or the motor may be damaged.Z1 Motor: Z1 motor identification error detected. The motor wire may be connected improperly or the motor may be damaged.Z2 Motor: Z2 motor identification error detected. The motor wire may be connected improperly or the motor may be damaged.E Motor: Extruder motor identification error detected. The motor wire may be connected improperly or the motor may be damaged.''),
     (2798, ''X/Y/Z/E axis step-servo motor initialization error, motor communication line may be connected incorrectly''),
     (2831, ''communication issue, please try again after resolving.''),
     (2832, ''Retract issue, check for filament or spool jams. Click &quot;Retry&quot; after resolving.''),
     (2833, ''Feed issue, check for filament or spool jams. Click &quot;Retry&quot; after resolving.''),
     (2834, ''System error.''),
     (2835, ''Feed issue , filament may be stuck from loader to CFS hub. Please resolve the issue and click the &quot;Retry&quot; button.''),
     (2836, ''Feed issue , filament may be blocked between the CFS hub and extruder filament detector. Please resolve the issue and click &quot;Retry&quot; button.''),
     (2837, ''Feed issue , filament may be jammed between the extruder sensor and the extruder gear. Please resolve the issue and click the &quot;Retry&quot; button.''),
     (2838, ''Feed issue , filament may be stuck between the CFS hub sensor and the gear. Please resolve the issue and click the &quot;Retry&quot; button.''),
     (2839, ''filament runs out, please refill.''),
     (2840, ''Command failed, current scenario does not support this command.''),
     (2841, ''Cutter issue, cutter might be jammed, please try again after resolving''),
     (2842, ''Unknown error''),
     (2843, ''RFID cannot be read, please manually edit filament''),
     (2844, ''PTFE tube may have detached from the pneumatic fitting,  please try again after resolving.''),
     (2845, ''Extruder may be clogged. Click &quot;Retry&quot; after resolving.''),
     (2846, ''The filament buffer signal is abnormal,the buffer may be stuck or the filament may be tangle.''),
     (2847, ''Filament may tangled, please try again after resolving''),
     (2848, ''filament may be broken in CFS.''),
     (2849, ''Retract issue, filament cannot be returned to CFS hub. Please resolve the issue and click the &quot;Retry&quot; button.''),
     (2850, ''Retract issue, filaments may be inserted into the CFS hub. Remove and click the &quot;Retry&quot; button.''),
     (2851, ''Retract issue, Filament Buffer failure. Please resolve and click &quot;Retry&quot; button.''),
     (2852, ''TR2852: Filament detector triggered abnormally, possibly due to an external material rack being used with CFS.''),
     (2853, ''CFS temperature and humidity sensor abnormal.''),
     (2854, ''TC2854: Filament detected in the extruder, affecting the cutter calibration. Please remove the filament and try again.''),
     (2855, ''TC2855: Cutter calibrat failed. Please try again after resolving.''),
     (2856, ''TC2856: Cutter issue, the cutter may be jammed or missing. Click &quot;Retry&quot; after resolving.''),
     (2857, ''CFS feeding motor overload, maybe excessive load or unload resistance or the filament tangled or stuck.''),
     (2858, ''FS2858: CFS EEPROM abnormal.''),
     (2859, ''FO2859: CFS filament odometry abnormal.''),
     (2860, ''FB2860: CFS filament buffer abnormal.''),
     (2861, ''FS2861: CFS left RFID board abnormal.''),
     (2862, ''FS2862: CFS right RFID board abnormal.''),
     (2864, ''Unknown error''),
     (2865, ''Feed issue, filament failed to exit extruder.Please resolve and click 'Retry' button.''),
     (3000, ''System error, try restarting''),
     (3001, ''System error, try restarting''),
     (3002, ''System error, try restarting''),
     (20000, ''The file where the last unexpected stop was detected''),
     (20010, ''Filament runout, printing paused, please refill''),
     (30000, ''No consumables detected, do you want to continue printing?''),
     (30010, ''There is no consumables in the current rack''),
     (2243, ''Axis movement exceeded limit''),
     (2863, (''TR2858'' @ [CHR 0xEF, CHR 0xBC, CHR 0x9A] @ ''Retract issue, extruder filament sensor anomaly triggered, filament may have broken inside the extruder.'')),
     (2352, ''Hotbed failed to return to the maximum Z-axis position or tilt calibration at this position failed,please try again after resolving.''),
     (2784, ''Abnormal resistance in the Y-axis movement direction,  motor released. Fix issue and restart.''),
     (2785, ''Abnormal resistance under the hotbed, motor released. Fix issue and restart.''),
     (2789, ''Extruder extrusion anomaly, possible clog or blockage. motor released.''),
     (2786, ''Extruder speed limit exceeded. The motor will be released. Please reduce the extruder movement speed.''),
     (2791, ''Y motor identification error detected. The motor wire may be connected improperly or the motor may be damaged.''),
     (2792, ''Z1 motor identification error detected. The motor wire may be connected improperly or the motor may be damaged.''),
     (2793, ''Z2 motor identification error detected. The motor wire may be connected improperly or the motor may be damaged.''),
     (2794, ''E motor identification error detected. The motor wire may be connected improperly or the motor may be damaged.'')]\<close>

definition Om_3 :: "(nat \<times> string) list" where
  \<open>Om_3 = [
     (2788, ''[x or y or e] axis servo motor hardware abnormality/[z1 or z2] axis servo motor hardware abnormality, the platform plate will drop''),
     (2799, ''X/Y/Z/E axis step-servo motor initialization error, motor communication line may be connected incorrectly''),
     (2800, ''X/Y/Z/E axis step-servo motor initialization error, motor communication line may be connected incorrectly''),
     (2801, ''X/Y/Z/E axis step-servo motor initialization error, motor communication line may be connected incorrectly''),
     (2802, ''X/Y/Z/E axis step-servo motor initialization error, motor communication line may be connected incorrectly''),
     (2519, ''Chamber heater fan abnormal, chamber heating closed.''),
     (2712, ''Chamber heater fan abnormal, chamber heating closed.''),
     (2713, ''Belt tension module error, left side belt communication line may be connected improperly. ''),
     (2714, ''Belt tension module error, right side belt tension module not calibrated, please recalibrate the module.''),
     (2715, ''Belt tension module error, left side belt tension module not calibrated, please recalibrate the module. ''),
     (2716, ''Belt tension module error, please troubleshoot and try recalibrating. ''),
     (2717, ''Belt tension module error, please troubleshoot and try recalibrating. ''),
     (2718, ''Belt tension timeout failure, please try retightening or restarting. ''),
     (2719, ''Belt tension timeout failure, please try retightening or restarting. ''),
     (2720, ''Abnormal belt tensioning module, right belt tensioning module calibration value abnormal, please recalibrate the module.''),
     (2721, ''Abnormal belt tensioning module, left belt tensioning module calibration value abnormal, please recalibrate the module.''),
     (2357, ''Hotbed failed to reach the maximum position. Check for sensor issues or bed tilt.Please check and retry.''),
     (109, ''Abnormal heat break fan''),
     (2355, ''MCU task scheduling failed, possibly due to high load or communication issues.''),
     (2797, ''Extruder MCU temperature is too high, possibly due to high chamber temperature or delayed cooling of the extruder motherboard.''),
     (2866, ''Cutter not detected.''),
     (2864, ''Feed issue, filament buffer failure. Please resolve and click "Retry" button.''),
     (123, ''Detected printing plate is missing, printing paused''),
     (124, ''Detected printing plate is missing and foreign object on the printing plate, printing paused''),
     (515, ''Flow ratio calibration image anomaly, printing with default values.''),
     (516, ''Flow ratio calibration failed, printing with default values.''),
     (527, ''Detected waste chute is block. ''),
     (529, ''Nozzle  camera failed to start, try restarting.''),
     (2934, ''Instruction data error, transmission failed.''),
     (2940, ''Command failed, current scenario does not support this command.''),
     (2936, ''Feed issue , filament may be jammed between the buffer and the extruder sensor. Please resolve the issue and click the "Retry" button.''),
     (2937, ''Feed issue , filament may be jammed between the extruder sensor and the extruder gear. Please resolve the issue and click the "Retry" button.''),
     (2944, ''PTFE tube may have detached from the pneumatic fitting,  please try again after resolving.''),
     (2964, ''Feed issue , the buffer cannot reach full limit,possible planing. Please resolve the issue and click the "Retry" button.''),
     (2970, ''Retract issue, motor jammed, filament can't exit the extruder.Please resolve the issue and click the "Retry" button.''),
     (2949, ''Retract issue, filament cannot be returned to CFS hub. Please resolve the issue and click the "Retry" button.''),
     (2971, ''Preloading issue, delivery of filament to the designated location is overdue. Please resolve the issue and click the "Retry" button.''),
     (2939, ''No.1filament runs out, please refill.''),
     (2947, ''Filament may tangled, please try again after resolving.''),
     (2953, ''CFSLite temperature and humidity sensor abnormal.''),
     (2958, ''CFSLite EEPROM abnormal.''),
     (2961, ''CFSLite left RFID board abnormal.''),
     (2962, ''CFSLite right RFID board abnormal.''),
     (2931, ''CFSLite communication issue, please try again after resolving.''),
     (2943, ''No.1 RFID cannot be read, please manually edit filament''),
     (2945, ''Extruder may be clogged. Click "Retry" after resolving.''),
     (3101, ''Instruction data error, transmission failed.''),
     (3103, ''Command failed, current scenario does not support this command.''),
     (3119, ''Feeding issue, filament can't reach extruder.''),
     (3120, ''Feed issue , filament may be jammed between the buffer and the extruder sensor. Please resolve the issue and click the "Retry" button.''),
     (3121, ''Feed issue , filament may be jammed between the extruder sensor and the extruder gear. Please resolve the issue and click the "Retry" button.''),
     (3134, ''Retract issue, motor jammed, filament can't exit the extruder.Please resolve the issue and click the "Retry" button.''),
     (3149, ''Filament runs out, please refill.''),
     (3151, ''Filament may tangled, please try again after resolving.''),
     (3160, ''CFSmini communication issue, please try again after resolving.''),
     (2952, (''TR2952'' @ [CHR 0xEF, CHR 0xBC, CHR 0x9A] @ ''Filament detector triggered abnormally, filament may have broken inside the extruder or inserted into a spool holder filament.'')),
     (5510, ''Heated bed temperature sensor failure''),
     (5511, ''Chamber temperature sensor failure''),
     (5000, ''Movement coordinates are out of range; please ensure the printing file is correct.''),
     (5003, ''Leveling sensor failure''),
     (5020, ''Motherboard fan failure''),
     (5021, ''Home the XY axes before moving them''),
     (5022, ''Home before moving the Z axis''),
     (5026, ''Printhead vibration sensor failure''),
     (5007, ''Abnormal communication between cutter buffer module and host''),
     (5008, ''Extruder clogging detected. Please troubleshoot and click the "Retry" button.''),
     (5009, ''Feeding anomaly. The consumable may be clogged between the five-way connector and the consumable detector. Please troubleshoot the anomaly and click the "Retry" button.''),
     (5010, ''Abnormal feeding. The consumables may be clogged between the consumable detector and the extruder material break detector. Please resolve the issue and click the "Retry" button.''),
     (5011, ''Abnormal RFID reading, RFID tag failed''),
     (5012, ''Abnormal RFID writing, RFID tag invalid''),
     (5013, ''The usage frequency of the cutter has reached the lifespan standard.''),
     (5014, ''Cutting error at the tip of old material consumables''),
     (5015, ''Failed to perform tip feeding excision of consumables. Please troubleshoot and click the "Retry" button.''),
     (5016, ''Cutter initialization error''),
     (5017, ''Abnormality exists between the buffer and the filament detector of the extruder''),
     (5018, ''Currently, the filament retraction during material change is abnormal, and the tip removal process fails to execute.''),
     (5019, ''The communication module can interface communication is abnormal''),
     (5023, ''The current RFID tag does not match the system. Please use Creality brand tagged consumables or replace with non-tagged consumables''),
     (5024, ''Abnormal cutter reset, please handle it promptly''),
     (5028, ''The current consumables are in a state where they cannot be retracted for material replacement. Please troubleshoot the issue and try again.''),
     (5034, ''Cutter displacement failure before cutting the tip of the consumables''),
     (5035, ''Pre-loading error, please check if the material tray is jammed''),
     (5036, ''The optical axis in the cutter buffer needs maintenance.''),
     (3152, (''TR3152'' @ [CHR 0xEF, CHR 0xBC, CHR 0x9A] @ ''Filament detector triggered abnormally, filament may have broken inside the extruder or inserted into a spool holder filament.''))]\<close>

definition Om_entries :: "(nat \<times> string) list" where
  "Om_entries = Om_1 @ Om_2 @ Om_3"

end
