(* ===== verification/DeviceSocket.thy ===== *)
theory DeviceSocket
  imports Prelude
begin

text \<open>
  \<open>Dm\<close>, the socket of one printer on the local network (\<open>CeX73yR3.js\<close>): a WebSocket
  that reconnects after an abnormal close with a delay that doubles, closes an attempt
  that takes too long, and reconnects when the printer falls silent.  A step takes the
  object to the object after it and the calls it makes, in order: to the WebSocket, and to
  the printer manager (\<open>Ne\<close>), whose methods are in \<open>PrinterStore\<close> and \<open>PrinterData\<close>.

  A timer is recorded with its identifier, its job and its delay until it fires or is
  cleared.  The job of the silence timer names the WebSocket object it belongs to; the
  jobs of the others read \<open>this.socket\<close> when they run, as the code does.
\<close>

section \<open>State\<close>

datatype dm_timer = ConnectTimeout | ReadTimeout nat | Retry

datatype dm_output =
    WsOpen string              \<comment> \<open>\<open>new WebSocket(url)\<close>\<close>
  | WsClose                    \<comment> \<open>\<open>socket.close()\<close>\<close>
  | WsSend json                \<comment> \<open>\<open>socket.send(..)\<close> on an open socket\<close>
  | CallSetPrinterOnline string
  | CallSetPrinterOffline string
  | CallSetDataFromDevice json

record dm =
  dm_url :: string
  dm_ip :: string
  maxRetries :: nat
  retryCount :: nat
  initialDelay :: nat
  sock :: "ready option"       \<comment> \<open>\<open>socket\<close>: \<open>None\<close> is \<open>null\<close>\<close>
  attached :: bool             \<comment> \<open>the current WebSocket still has its handlers\<close>
  generation :: nat            \<comment> \<open>which WebSocket object \<open>socket\<close> is\<close>
  readTimeout :: "nat option"  \<comment> \<open>the property the message handler sets on the WebSocket\<close>
  timerId :: "nat option"
  timers :: "(nat \<times> dm_timer \<times> nat) list"
  nextTimer :: nat

definition new_Dm :: "string \<Rightarrow> dm" where
  "new_Dm ip = \<lparr>dm_url = ''ws://'' @ ip @ '':9999'', dm_ip = ip, maxRetries = 5, retryCount = 0,
     initialDelay = 1000, sock = None, attached = False, generation = 0, readTimeout = None,
     timerId = None, timers = [], nextTimer = 0\<rparr>"

definition setTimeout :: "dm_timer \<Rightarrow> nat \<Rightarrow> dm \<Rightarrow> nat \<times> dm" where
  "setTimeout j ms d = (nextTimer d, d\<lparr>timers := timers d @ [(nextTimer d, j, ms)], nextTimer := Suc (nextTimer d)\<rparr>)"

definition clearTimeout :: "nat option \<Rightarrow> dm \<Rightarrow> dm" where
  "clearTimeout t d = (case t of None \<Rightarrow> d | Some i \<Rightarrow> d\<lparr>timers := filter (\<lambda>x. fst x \<noteq> i) (timers d)\<rparr>)"

definition closing_state :: "ready \<Rightarrow> ready" where
  "closing_state r = (if r = CLOSED then CLOSED else CLOSING)"

section \<open>Methods\<close>

text \<open>\<open>reconnect\<close>: the old WebSocket loses its handlers, so it never calls back.\<close>

definition dm_reconnect :: "dm \<Rightarrow> dm \<times> dm_output list" where
  "dm_reconnect d =
     (snd (setTimeout ConnectTimeout 5000
        (d\<lparr>sock := Some CONNECTING, attached := True, generation := Suc (generation d), readTimeout := None\<rparr>)),
      (case sock d of None \<Rightarrow> [] | Some _ \<Rightarrow> [WsClose]) @ [WsOpen (dm_url d)])"

definition dm_init :: "dm \<Rightarrow> dm \<times> dm_output list" where
  "dm_init d = dm_reconnect d"

definition openHandler :: "dm \<Rightarrow> dm \<times> dm_output list" where
  "openHandler d = (d\<lparr>sock := Some OPEN, retryCount := 0\<rparr>, [CallSetPrinterOnline (dm_ip d)])"

text \<open>The printer answers \<open>ok\<close> to a heartbeat; any other text is JSON, or \<open>JSON.parse\<close>
  throws and the manager is not called.\<close>

definition messageHandler :: "(string \<Rightarrow> json option) \<Rightarrow> string \<Rightarrow> dm \<Rightarrow> dm \<times> dm_output list" where
  "messageHandler parse raw d0 =
     (let d1 = clearTimeout (readTimeout d0) d0;
          (t, d2) = setTimeout (ReadTimeout (generation d1)) 20000 d1;
          d3 = d2\<lparr>readTimeout := Some t\<rparr>
      in (d3, if raw = ''ok'' then []
              else (case parse raw of None \<Rightarrow> [] | Some m \<Rightarrow> [CallSetDataFromDevice m])))"

definition handleReconnect :: "dm \<Rightarrow> dm \<times> dm_output list" where
  "handleReconnect d0 =
     (let d1 = (if retryCount d0 \<ge> maxRetries d0 then d0\<lparr>retryCount := maxRetries d0\<rparr> else d0);
          t = initialDelay d1 * 2 ^ retryCount d1;
          d2 = d1\<lparr>retryCount := Suc (retryCount d1)\<rparr>;
          calls = (if retryCount d2 > maxRetries d2 then [CallSetPrinterOffline (dm_ip d2)] else []);
          (i, d3) = setTimeout Retry t d2
      in (d3\<lparr>timerId := Some i\<rparr>, calls))"

definition closeHandler :: "nat \<Rightarrow> dm \<Rightarrow> dm \<times> dm_output list" where
  "closeHandler code d0 =
     (let d = d0\<lparr>sock := Some CLOSED\<rparr>
      in if code = 1006 then handleReconnect d else (d, [CallSetPrinterOffline (dm_ip d)]))"

text \<open>\<open>sendMsg\<close> returns whether \<open>send\<close> did not throw: it throws on \<open>null\<close> and while the
  socket connects, and drops the message without a word once the socket closes.\<close>

definition dm_sendMsg :: "json \<Rightarrow> dm \<Rightarrow> bool \<times> dm_output list" where
  "dm_sendMsg m d =
     (case sock d of
        None \<Rightarrow> (False, [])
      | Some CONNECTING \<Rightarrow> (False, [])
      | Some OPEN \<Rightarrow> (True, [WsSend m])
      | Some _ \<Rightarrow> (True, []))"

text \<open>\<open>close\<close> calls \<open>clear\<close>, whose \<open>try\<close> ends at the first access to a \<open>null\<close> socket.\<close>

definition dm_clear :: "dm \<Rightarrow> dm \<times> dm_output list" where
  "dm_clear d0 =
     (let d = clearTimeout (timerId d0) d0 in
      case sock d of
        None \<Rightarrow> (d, [])
      | Some r \<Rightarrow> (d\<lparr>attached := False, sock := Some (closing_state r)\<rparr>, [WsClose]))"

definition dm_close :: "dm \<Rightarrow> dm \<times> dm_output list" where
  "dm_close d = dm_clear d"

text \<open>What a timer does when it fires.\<close>

definition dm_timer_fires :: "nat \<Rightarrow> dm \<Rightarrow> dm \<times> dm_output list" where
  "dm_timer_fires i d0 =
     (case map_of (timers d0) i of
        None \<Rightarrow> (d0, [])
      | Some (j, ms) \<Rightarrow>
          let d = clearTimeout (Some i) d0 in
          (case j of
             ConnectTimeout \<Rightarrow>
               if sock d = Some CONNECTING then (d\<lparr>sock := Some CLOSING\<rparr>, [WsClose]) else (d, [])
           | ReadTimeout g \<Rightarrow>
               if g = generation d \<and> sock d = Some OPEN then dm_reconnect d else (d, [])
           | Retry \<Rightarrow> dm_reconnect d))"

section \<open>Events\<close>

datatype dm_event = WsOpened | WsMessage string | WsClosed nat | DmTimer nat | DmClose

fun dm_step :: "(string \<Rightarrow> json option) \<Rightarrow> dm_event \<Rightarrow> dm \<Rightarrow> dm \<times> dm_output list" where
  "dm_step parse WsOpened d = openHandler d"
| "dm_step parse (WsMessage raw) d = messageHandler parse raw d"
| "dm_step parse (WsClosed code) d = closeHandler code d"
| "dm_step parse (DmTimer i) d = dm_timer_fires i d"
| "dm_step parse DmClose d = dm_close d"

text \<open>The WebSocket calls a handler only while it is attached and in the state the event
  belongs to; a timer fires while it is set; the manager may close the object any time.\<close>

fun dm_can :: "dm_event \<Rightarrow> dm \<Rightarrow> bool" where
  "dm_can WsOpened d = (attached d \<and> sock d = Some CONNECTING)"
| "dm_can (WsMessage raw) d = (attached d \<and> sock d = Some OPEN)"
| "dm_can (WsClosed code) d = (attached d \<and> sock d \<noteq> None \<and> sock d \<noteq> Some CLOSED)"
| "dm_can (DmTimer i) d = (i \<in> fst ` set (timers d))"
| "dm_can DmClose d = True"

inductive dm_reachable :: "(string \<Rightarrow> json option) \<Rightarrow> string \<Rightarrow> dm \<Rightarrow> bool"
  for parse :: "string \<Rightarrow> json option" and ip :: string where
  dm_start: "dm_reachable parse ip (fst (dm_init (new_Dm ip)))"
| dm_next: "dm_reachable parse ip d \<Longrightarrow> dm_can ev d \<Longrightarrow> dm_reachable parse ip (fst (dm_step parse ev d))"

inductive_cases dm_reachableE: "dm_reachable parse ip d"

text \<open>The calls of a run, in order.\<close>

fun dm_run :: "(string \<Rightarrow> json option) \<Rightarrow> dm_event list \<Rightarrow> dm \<Rightarrow> (dm \<times> dm_output list) option" where
  "dm_run parse [] d = Some (d, [])"
| "dm_run parse (ev # evs) d =
     (if dm_can ev d
      then (let (d1, o1) = dm_step parse ev d
            in map_option (\<lambda>(d2, o2). (d2, o1 @ o2)) (dm_run parse evs d1))
      else None)"

section \<open>Retries\<close>

definition retry_inv :: "dm \<Rightarrow> bool" where
  "retry_inv d \<longleftrightarrow> maxRetries d = 5 \<and> initialDelay d = 1000 \<and> retryCount d \<le> 6
     \<and> (\<forall>i ms. (i, Retry, ms) \<in> set (timers d) \<longrightarrow> (\<exists>k \<le> 5. ms = 1000 * 2 ^ k))"

lemma retry_inv_simps [simp]:
  "retry_inv (d\<lparr>sock := x\<rparr>) = retry_inv d" "retry_inv (d\<lparr>attached := b\<rparr>) = retry_inv d"
  "retry_inv (d\<lparr>generation := n\<rparr>) = retry_inv d" "retry_inv (d\<lparr>readTimeout := t\<rparr>) = retry_inv d"
  "retry_inv (d\<lparr>timerId := t\<rparr>) = retry_inv d"
  by (simp_all add: retry_inv_def)

lemma retry_inv_clearTimeout [simp]: "retry_inv d \<Longrightarrow> retry_inv (clearTimeout t d)"
  by (auto simp: retry_inv_def clearTimeout_def split: option.split)

lemma retry_inv_setTimeout:
  "retry_inv d \<Longrightarrow> (j = Retry \<Longrightarrow> \<exists>k \<le> 5. ms = 1000 * 2 ^ k) \<Longrightarrow> retry_inv (snd (setTimeout j ms d))"
  by (auto simp: retry_inv_def setTimeout_def)

lemma retry_inv_reconnect: "retry_inv d \<Longrightarrow> retry_inv (fst (dm_reconnect d))"
  by (auto simp: dm_reconnect_def intro!: retry_inv_setTimeout)

lemma retry_inv_handleReconnect:
  assumes "retry_inv d"
  shows "retry_inv (fst (handleReconnect d))"
proof -
  define n where "n = min (retryCount d) 5"
  have "fst (handleReconnect d)
      = (snd (setTimeout Retry (1000 * 2 ^ n) (d\<lparr>retryCount := Suc n\<rparr>)))\<lparr>timerId := Some (nextTimer d)\<rparr>"
    using assms by (auto simp: handleReconnect_def Let_def setTimeout_def retry_inv_def n_def min_def)
  moreover have "retry_inv (snd (setTimeout Retry (1000 * 2 ^ n) (d\<lparr>retryCount := Suc n\<rparr>)))"
    using assms by (intro retry_inv_setTimeout) (auto simp: retry_inv_def n_def)
  ultimately show ?thesis by simp
qed

lemma retry_inv_step: "retry_inv d \<Longrightarrow> retry_inv (fst (dm_step parse ev d))"
proof (cases ev)
  case WsOpened
  assume "retry_inv d" with WsOpened show ?thesis by (simp add: openHandler_def retry_inv_def)
next
  case (WsMessage raw)
  assume "retry_inv d"
  then have "retry_inv (snd (setTimeout (ReadTimeout g) 20000 (clearTimeout t d)))" for g t
    by (intro retry_inv_setTimeout) simp_all
  with WsMessage show ?thesis by (simp add: messageHandler_def Let_def case_prod_beta)
next
  case (DmTimer i)
  assume "retry_inv d"
  with DmTimer show ?thesis
    by (auto simp: dm_timer_fires_def Let_def retry_inv_reconnect split: option.split dm_timer.split)
next
  case (WsClosed code)
  assume "retry_inv d"
  with WsClosed show ?thesis by (simp add: closeHandler_def Let_def retry_inv_handleReconnect)
next
  case DmClose
  assume "retry_inv d"
  with DmClose show ?thesis by (auto simp: dm_close_def dm_clear_def Let_def split: option.split)
qed

lemma reachable_retry_inv: "dm_reachable parse ip d \<Longrightarrow> retry_inv d"
proof (induction rule: dm_reachable.induct)
  case dm_start
  have "retry_inv (new_Dm ip)" by (simp add: retry_inv_def new_Dm_def)
  then show ?case by (simp add: dm_init_def retry_inv_reconnect)
qed (rule retry_inv_step)

text \<open>Timer identifiers are those already given out, each once.\<close>

definition timers_fresh :: "dm \<Rightarrow> bool" where
  "timers_fresh d \<longleftrightarrow> distinct (map fst (timers d)) \<and> (\<forall>x \<in> set (timers d). fst x < nextTimer d)"

lemma timers_fresh_simps [simp]:
  "timers_fresh (d\<lparr>sock := x\<rparr>) = timers_fresh d" "timers_fresh (d\<lparr>attached := b\<rparr>) = timers_fresh d"
  "timers_fresh (d\<lparr>generation := n\<rparr>) = timers_fresh d" "timers_fresh (d\<lparr>readTimeout := t\<rparr>) = timers_fresh d"
  "timers_fresh (d\<lparr>timerId := t\<rparr>) = timers_fresh d" "timers_fresh (d\<lparr>retryCount := n\<rparr>) = timers_fresh d"
  by (simp_all add: timers_fresh_def)

lemma timers_fresh_setTimeout: "timers_fresh d \<Longrightarrow> timers_fresh (snd (setTimeout j ms d))"
  by (auto simp: timers_fresh_def setTimeout_def)

lemma timers_fresh_clearTimeout: "timers_fresh d \<Longrightarrow> timers_fresh (clearTimeout t d)"
  by (auto simp: timers_fresh_def clearTimeout_def distinct_map_filter split: option.split)

lemmas timers_fresh_intros = timers_fresh_setTimeout timers_fresh_clearTimeout

lemma timers_fresh_reconnect: "timers_fresh d \<Longrightarrow> timers_fresh (fst (dm_reconnect d))"
  by (auto simp: dm_reconnect_def intro!: timers_fresh_intros)

lemma timers_fresh_handleReconnect: "timers_fresh d \<Longrightarrow> timers_fresh (fst (handleReconnect d))"
  by (auto simp: handleReconnect_def Let_def case_prod_beta intro!: timers_fresh_intros)

lemma timers_fresh_step: "timers_fresh d \<Longrightarrow> timers_fresh (fst (dm_step parse ev d))"
  by (cases ev) (auto simp: openHandler_def messageHandler_def closeHandler_def dm_close_def dm_clear_def
      dm_timer_fires_def Let_def case_prod_beta
      split: option.split dm_timer.split
      intro!: timers_fresh_intros timers_fresh_reconnect timers_fresh_handleReconnect)

lemma reachable_timers_fresh: "dm_reachable parse ip d \<Longrightarrow> timers_fresh d"
proof (induction rule: dm_reachable.induct)
  case dm_start
  have "timers_fresh (new_Dm ip)" by (simp add: timers_fresh_def new_Dm_def)
  then show ?case by (simp add: dm_init_def timers_fresh_reconnect)
qed (rule timers_fresh_step)

section \<open>Properties\<close>

text \<open>Rounds in which the socket is opened again and lost again.\<close>

fun lost_rounds :: "nat \<Rightarrow> dm \<Rightarrow> dm" where
  "lost_rounds 0 d = d"
| "lost_rounds (Suc n) d = fst (dm_reconnect (fst (closeHandler 1006 (lost_rounds n d))))"

lemma reconnect_fields [simp]:
  "retryCount (fst (dm_reconnect d)) = retryCount d" "maxRetries (fst (dm_reconnect d)) = maxRetries d"
  "initialDelay (fst (dm_reconnect d)) = initialDelay d" "dm_ip (fst (dm_reconnect d)) = dm_ip d"
  by (simp_all add: dm_reconnect_def setTimeout_def)

lemma closeHandler_lost:
  "retryCount (fst (closeHandler 1006 d)) = Suc (min (retryCount d) (maxRetries d))"
  "maxRetries (fst (closeHandler 1006 d)) = maxRetries d"
  "initialDelay (fst (closeHandler 1006 d)) = initialDelay d" "dm_ip (fst (closeHandler 1006 d)) = dm_ip d"
  "snd (closeHandler 1006 d) = (if retryCount d \<ge> maxRetries d then [CallSetPrinterOffline (dm_ip d)] else [])"
  "timerId (fst (closeHandler 1006 d)) = Some (nextTimer d)"
  "(nextTimer d, Retry, initialDelay d * 2 ^ min (retryCount d) (maxRetries d)) \<in> set (timers (fst (closeHandler 1006 d)))"
  by (auto simp: closeHandler_def handleReconnect_def Let_def setTimeout_def min_def)

lemma lost_rounds_fields:
  assumes "retryCount d = 0"
  shows "retryCount (lost_rounds n d) = min n (Suc (maxRetries d)) \<and> maxRetries (lost_rounds n d) = maxRetries d
     \<and> initialDelay (lost_rounds n d) = initialDelay d \<and> dm_ip (lost_rounds n d) = dm_ip d"
  by (induction n) (auto simp: assms closeHandler_lost)

text \<open>Starting from an open connection (retry counter 0), the loss that follows \<open>n\<close>
  lost reconnects sets a retry timer of \<open>2 ^ min n 5\<close> seconds, and the manager is told that
  the printer is offline from the sixth loss in a row on, and not before.\<close>

theorem losses_back_off_then_offline:
  assumes "dm_reachable parse ip d" and "retryCount d = 0"
  shows "(\<exists>i. timerId (fst (closeHandler 1006 (lost_rounds n d))) = Some i
            \<and> (i, Retry, 1000 * 2 ^ min n 5) \<in> set (timers (fst (closeHandler 1006 (lost_rounds n d)))))
         \<and> snd (closeHandler 1006 (lost_rounds n d))
             = (if 5 \<le> n then [CallSetPrinterOffline (dm_ip d)] else [])"
proof -
  have inv: "maxRetries d = 5" "initialDelay d = 1000"
    using reachable_retry_inv [OF assms(1)] by (simp_all add: retry_inv_def)
  have "min (min n 6) 5 = min n 5" by simp
  then show ?thesis
    using closeHandler_lost(5,6,7) [of "lost_rounds n d"] lost_rounds_fields [OF assms(2), of n] inv by auto
qed

text \<open>C23: When a printer's socket is opened again while the five-second timer of an earlier
  attempt is still running, that timer, when it fires before the new socket has opened, closes
  the new attempt's socket, because it looks at \<open>this.socket\<close> and not at the socket it was set
  for; the timer of the new attempt stays set.\<close>

theorem stale_timeout_closes_new_attempt:
  assumes "dm_reachable parse ip d" and "(i, ConnectTimeout, ms) \<in> set (timers d)"
  defines "d1 \<equiv> fst (dm_reconnect d)"
  shows "snd (dm_timer_fires i d1) = [WsClose] \<and> sock (fst (dm_timer_fires i d1)) = Some CLOSING
         \<and> (\<exists>j. j \<noteq> i \<and> (j, ConnectTimeout, 5000) \<in> set (timers (fst (dm_timer_fires i d1))))"
proof -
  have "timers_fresh d1" "(i, ConnectTimeout, ms) \<in> set (timers d1)" "sock d1 = Some CONNECTING"
    "(nextTimer d, ConnectTimeout, 5000) \<in> set (timers d1)"
    using assms reachable_timers_fresh [OF assms(1)]
    by (auto simp: d1_def timers_fresh_reconnect) (auto simp: dm_reconnect_def setTimeout_def)
  moreover then have "map_of (timers d1) i = Some (ConnectTimeout, ms)"
    by (simp add: timers_fresh_def)
  moreover have "i \<noteq> nextTimer d"
    using assms(2) reachable_timers_fresh [OF assms(1)] by (auto simp: timers_fresh_def)
  ultimately show ?thesis
    by (auto simp: dm_timer_fires_def Let_def clearTimeout_def intro!: exI [of _ "nextTimer d"])
qed

section \<open>A printer that is lost\<close>

definition demo_dm :: dm where
  "demo_dm = fst (dm_step (\<lambda>_. None) WsOpened (fst (dm_init (new_Dm ''ip1''))))"

definition demo_dm_lost :: dm where
  "demo_dm_lost = fst (dm_step (\<lambda>_. None) (WsClosed 1006) demo_dm)"

lemmas demo_dm_defs = demo_dm_def demo_dm_lost_def dm_init_def dm_reconnect_def new_Dm_def setTimeout_def
  openHandler_def closeHandler_def handleReconnect_def Let_def

lemma demo_dm_reachable: "dm_reachable (\<lambda>_. None) ''ip1'' demo_dm" "dm_reachable (\<lambda>_. None) ''ip1'' demo_dm_lost"
proof -
  show "dm_reachable (\<lambda>_. None) ''ip1'' demo_dm"
    unfolding demo_dm_def by (rule dm_next [OF dm_start]) (simp add: demo_dm_defs)
  then show "dm_reachable (\<lambda>_. None) ''ip1'' demo_dm_lost"
    unfolding demo_dm_lost_def by (rule dm_next) (simp add: demo_dm_defs)
qed

lemma demo_dm_fields:
  "timers demo_dm_lost = [(0, ConnectTimeout, 5000), (1, Retry, 1000)]" "retryCount demo_dm = 0" "dm_ip demo_dm = ''ip1''"
  by (simp_all add: demo_dm_defs)

theorem losses_back_off_then_offline_witness:
  "snd (closeHandler 1006 (lost_rounds 4 demo_dm)) = []
   \<and> snd (closeHandler 1006 (lost_rounds 5 demo_dm)) = [CallSetPrinterOffline ''ip1'']"
  using losses_back_off_then_offline [OF demo_dm_reachable(1), of 4] losses_back_off_then_offline [OF demo_dm_reachable(1), of 5]
  by (simp add: demo_dm_fields)

theorem stale_timeout_closes_new_attempt_witness:
  "snd (dm_timer_fires 0 (fst (dm_reconnect demo_dm_lost))) = [WsClose]"
  using stale_timeout_closes_new_attempt [OF demo_dm_reachable(2), of 0 5000] by (simp add: demo_dm_fields)

end
