(* ===== verification/PrinterTypes.thy ===== *)
theory PrinterTypes
  imports DeviceSocket
begin

text \<open>
  The data of the printer manager (\<open>M4\<close>, its one instance \<open>Ne\<close>) and of the main store
  \<open>Ut\<close> it works on (\<open>CeX73yR3.js\<close>): printers, groups of printers, presets and the filter
  of the view.  Printers and sockets are objects the groups and printers refer to, so they
  live in stores of their own and are named by number; two places that hold the same
  number hold the same object.

  A field that only ever holds what a device or the cloud sent is a JSON value; a field the
  code computes with has its type.  Fields keep the names of the source.
\<close>

section \<open>Printers\<close>

record printer_ctrol =
  autohome :: json
  curPosition :: json
  curFeedratePct :: json
  speedMode :: json
  fan :: json
  modelFanPct :: json
  fanAuxiliary :: json
  auxiliaryFanPct :: json
  fanCase :: json
  caseFanPct :: json
  lightSw :: json

record temp_series =
  temp_value :: json
  temp_target :: json
  temp_max :: json
  temp_data :: "json list"

record printer_temperature =
  record_temps :: bool
  time :: "string list"
  nozzle :: temp_series
  bed :: temp_series
  box :: temp_series

record printer_boxsInfo =
  same_material :: json
  color_same_material :: json
  boxColorInfo :: "json list"
  materialBoxs :: "json list"
  cfsName :: json
  hashBoxsInfo :: "nat option"  \<comment> \<open>absent until the first boxes arrive\<close>

record printer_boxConfig =
  cAutoFeed :: json
  cSelfTest :: json
  autoRefill :: json
  ignoreColorAutoFeed :: json

record printer_part =
  current_object :: json
  excluded_objects :: json
  objects :: json

record printer_err =
  errcode :: json
  err_key :: json
  err_value :: json
  errLevel :: json

record printer =
  deviceType :: int
  identity :: "string option"
  tbId :: json
  timeStamp :: int
  boxInfoTimeStamp :: int
  modelName :: json
  deviceImg :: string
  defaultDeviceImg :: string
  name :: "string option"
  state :: json
  filePath :: json
  deviceState :: json
  printProgress :: json
  printStartTime :: json
  printLeftTime :: json
  printJobTime :: json
  finishTime :: json
  printFileName :: json
  previewimg :: json
  address :: string
  mac :: string
  model :: string
  visable :: bool
  "type" :: int
  socket :: "nat option"
  IsMultiColorDevice :: json
  feedState :: json
  webrtcSupport :: json
  materialDetector1 :: json
  modelVersion :: json
  online :: bool
  connected :: bool
  reconnectCount :: nat
  layer :: json
  TotalLayer :: json
  repoPlrStatus :: json
  materialStatus :: json
  machinePlatformMotionEnable :: json
  auxiliary_fan :: json
  machine_LED_light_exist :: json
  support_air_filtration :: json
  video :: json
  oldPrinter :: bool
  moonrakerPort :: json
  fluiddPort :: json
  mainsailPort :: json
  KlipperUrl :: json
  withSelfTest :: json
  linuxVideoUrl :: json
  materialCutterState :: json
  err :: printer_err
  refreshBox :: json
  ctrol :: printer_ctrol
  temperature :: printer_temperature
  boxsInfo :: printer_boxsInfo
  boxConfig :: printer_boxConfig
  part :: printer_part
  materials :: "json list"
  data :: "(string \<times> json) list"
  materialState :: json
  selected :: bool
  openCFS :: bool
  printCalibration :: bool
  uploadGCodeProgress :: json
  uploadSpeed :: json
  isCurrentDevice :: bool
  isRelatedToAccount :: bool
  cfsConnect :: json
  uploadFileProgress :: json
  uploadState :: json
  material :: json  \<comment> \<open>absent until a message brings the materials\<close>
  materialTimer :: bool  \<comment> \<open>the timer \<open>materialTimerId\<close> names is running\<close>
  cfsCModifyMaterial :: json  \<comment> \<open>absent until a message brings it\<close>
  mcu_is_print :: json        \<comment> \<open>absent until an old printer sends it\<close>
  uploadError :: json         \<comment> \<open>absent until an upload fails\<close>

section \<open>Groups, presets and the main store\<close>

record printer_group =
  group :: string
  groupType :: int      \<comment> \<open>\<open>type\<close>: 0 is a local group\<close>
  groupVisable :: bool
  members :: "nat list" \<comment> \<open>\<open>list\<close>\<close>

record preset =
  printerIntName :: string
  presetName :: string
  presetModel :: json
  nozzleDiameter :: "string list"

record view_filter =
  groupName :: string
  filterDeviceState :: "int option"  \<comment> \<open>\<open>None\<close> is the star\<close>
  filterDeviceType :: "int option"
  filterText :: string

text \<open>What the manager does outside its own state.\<close>

datatype call =
    PostMessage json      \<comment> \<open>\<open>window.wx.postMessage\<close>\<close>
  | DmCall nat dm_output  \<comment> \<open>a socket object's calls\<close>
  | HttpGet string        \<comment> \<open>a request whose answer comes later\<close>
  | PollOldPrinter nat    \<comment> \<open>\<open>getOldPrinterState\<close> is started\<close>
  | PollKlipper nat       \<comment> \<open>\<open>getKlipperPrinterState\<close> is started\<close>
  | OldCommand string "(string \<times> string) list"  \<comment> \<open>\<open>pl.execute\<close>: a request to an old printer, with its parameters\<close>
  | HttpPost string "(string \<times> string) list"    \<comment> \<open>a request with its query\<close>
  | CloudPost json json   \<comment> \<open>a request to the cloud's \<open>rpc/twoway\<close> of a device, with its body\<close>

record dashboard =
  view :: view_filter
  currentActivePrinterMac :: string
  mergeState :: bool
  printerList :: "printer_group list"
  printerPreset :: "(string \<times> preset) list"
  printers :: "nat \<Rightarrow> printer"
  nextPrinter :: nat
  dms :: "nat \<Rightarrow> dm"
  nextDm :: nat
  calls :: "call list"

text \<open>What \<open>addPrinter\<close> is given: the properties every caller sets, and the other own
  properties of the object.\<close>

record new_device =
  d_model :: string
  d_mac :: string
  d_name :: "string option"
  d_address :: string
  d_type :: int
  d_online :: bool
  d_socket :: "nat option"
  d_deviceType :: "int option"
  d_oldPrinter :: bool
  d_props :: "(string \<times> json) list"

text \<open>\<open>t.hasOwnProperty(k) ? t[k] : v\<close>.\<close>

definition ownProperty :: "new_device \<Rightarrow> string \<Rightarrow> json \<Rightarrow> json" where
  "ownProperty t k v = (case map_of (d_props t) k of None \<Rightarrow> v | Some x \<Rightarrow> x)"

definition propOf :: "new_device \<Rightarrow> string \<Rightarrow> json" where
  "propOf t k = ownProperty t k JUndefined"

section \<open>The initial printer\<close>

definition zero_series :: temp_series where
  "zero_series = \<lparr>temp_value = JNum 0, temp_target = JNum 0, temp_max = JNum 0, temp_data = []\<rparr>"

definition initial_ctrol :: printer_ctrol where
  "initial_ctrol = \<lparr>autohome = JStr ''X:0 Y:0 Z:0'', curPosition = JStr ''X:1 Y:1 Z:1'',
     curFeedratePct = JNum 0, speedMode = JNum 1, fan = JNum 0, modelFanPct = JNum 0,
     fanAuxiliary = JNum 0, auxiliaryFanPct = JNum 0, fanCase = JNum 0, caseFanPct = JNum 0,
     lightSw = JNum 0\<rparr>"

definition initial_printer :: "new_device \<Rightarrow> preset option \<Rightarrow> printer" where
  "initial_printer t a = \<lparr>
     deviceType = (case d_deviceType t of None \<Rightarrow> 0 | Some k \<Rightarrow> k),
     identity = None, tbId = ownProperty t ''tbId'' JNull, timeStamp = - 1, boxInfoTimeStamp = - 1,
     modelName = (case a of None \<Rightarrow> JUndefined | Some p \<Rightarrow> JStr (presetName p)),
     deviceImg = ''./img/machine/'' @ d_model t @ ''.png'',
     defaultDeviceImg = ''./img/printerImgDefault.svg'', name = d_name t,
     state = JNum 0, filePath = JStr [], deviceState = ownProperty t ''deviceState'' (JNum 10000),
     printProgress = ownProperty t ''printProgress'' (JNum 0), printStartTime = JNum 0,
     printLeftTime = ownProperty t ''printLeftTime'' (JStr []),
     printJobTime = ownProperty t ''printJobTime'' (JStr []), finishTime = JNum 0,
     printFileName = ownProperty t ''printFileName'' (JStr []),
     previewimg = ownProperty t ''previewimg'' (JStr []),
     address = d_address t, mac = d_mac t, model = d_model t, visable = True, type = d_type t,
     socket = d_socket t, IsMultiColorDevice = ownProperty t ''IsMultiColorDevice'' (JBool False),
     feedState = JNum 0, webrtcSupport = JNum 0,
     materialDetector1 = ownProperty t ''materialDetector1'' (JNum 0),
     modelVersion = propOf t ''modelVersion'', online = d_online t, connected = False,
     reconnectCount = 0, layer = JStr ''-'', TotalLayer = JStr ''-'', repoPlrStatus = JNum 0,
     materialStatus = JNum 0, machinePlatformMotionEnable = JNum 1, auxiliary_fan = JNum 0,
     machine_LED_light_exist = JNum 0, support_air_filtration = JNum 0, video = propOf t ''video'',
     oldPrinter = d_oldPrinter t, moonrakerPort = ownProperty t ''moonrakerPort'' (JNum 0),
     fluiddPort = ownProperty t ''fluiddPort'' (JNum 0),
     mainsailPort = ownProperty t ''mainsailPort'' (JNum 0),
     KlipperUrl = ownProperty t ''KlipperUrl'' (JStr []), withSelfTest = JNum 100,
     linuxVideoUrl = JStr [], materialCutterState = JNum (- 1),
     err = \<lparr>errcode = JNum 1, err_key = JNum 0, err_value = JStr [], errLevel = JNum 0\<rparr>,
     refreshBox = JNum 0, ctrol = initial_ctrol,
     temperature = \<lparr>record_temps = False, time = [], nozzle = zero_series, bed = zero_series, box = zero_series\<rparr>,
     boxsInfo = \<lparr>same_material = JArr [], color_same_material = JArr [], boxColorInfo = [],
       materialBoxs = [], cfsName = JStr [], hashBoxsInfo = None\<rparr>,
     boxConfig = \<lparr>cAutoFeed = JNum 0, cSelfTest = JNum 0, autoRefill = JNum 0, ignoreColorAutoFeed = JNum 0\<rparr>,
     part = \<lparr>current_object = JStr [], excluded_objects = JArr [], objects = JArr []\<rparr>,
     materials = [], data = [], materialState = JNull, selected = False, openCFS = False,
     printCalibration = False, uploadGCodeProgress = JNum 0, uploadSpeed = JNum 0,
     isCurrentDevice = False, isRelatedToAccount = False, cfsConnect = JNum 0,
     uploadFileProgress = JNum 0, uploadState = JNum 0, material = JUndefined,
     materialTimer = False, cfsCModifyMaterial = JUndefined,
     mcu_is_print = JUndefined, uploadError = JUndefined \<rparr>"

end
