(* ===== verification/PrinterStore.thy ===== *)
theory PrinterStore
  imports PrinterTypes "HOL-Library.Sublist" "HOL-Library.AList"
begin

text \<open>
  The methods of the printer manager that keep the groups and printers: adding, removing,
  looking up, marking, regrouping and filtering, and the two that touch a printer's
  socket.  A loop over all printers that stops at the first match is a search for that
  match; a loop over all of them is a fold over the printers in the order of the lists.
\<close>

section \<open>Objects\<close>

definition upd :: "nat \<Rightarrow> (printer \<Rightarrow> printer) \<Rightarrow> dashboard \<Rightarrow> dashboard" where
  "upd n f s = s\<lparr>printers := (printers s)(n := f (printers s n))\<rparr>"

definition all_refs :: "dashboard \<Rightarrow> nat list" where
  "all_refs s = concat (map members (printerList s))"

definition find_ref :: "(printer \<Rightarrow> bool) \<Rightarrow> dashboard \<Rightarrow> nat option" where
  "find_ref P s = List.find (\<lambda>n. P (printers s n)) (all_refs s)"

definition has_address :: "string \<Rightarrow> printer \<Rightarrow> bool" where
  "has_address t p = (address p = t)"

definition has_mac :: "string \<Rightarrow> printer \<Rightarrow> bool" where
  "has_mac t p = (mac p = t)"

text \<open>Change the first printer with the address, if there is one.\<close>

definition update_at :: "string \<Rightarrow> (printer \<Rightarrow> printer) \<Rightarrow> dashboard \<Rightarrow> dashboard" where
  "update_at t f s = (case find_ref (has_address t) s of None \<Rightarrow> s | Some n \<Rightarrow> upd n f s)"

definition update_all :: "(printer \<Rightarrow> printer) \<Rightarrow> dashboard \<Rightarrow> dashboard" where
  "update_all f s = fold (\<lambda>n. upd n f) (all_refs s) s"

definition emit_call :: "call \<Rightarrow> dashboard \<Rightarrow> dashboard" where
  "emit_call c s = s\<lparr>calls := calls s @ [c]\<rparr>"

definition dm_call :: "nat \<Rightarrow> (dm \<Rightarrow> dm \<times> dm_output list) \<Rightarrow> dashboard \<Rightarrow> dashboard" where
  "dm_call k f s =
     s\<lparr>dms := (dms s)(k := fst (f (dms s k))), calls := calls s @ map (DmCall k) (snd (f (dms s k)))\<rparr>"

definition dm_send :: "nat \<Rightarrow> json \<Rightarrow> dashboard \<Rightarrow> bool \<times> dashboard" where
  "dm_send k m s =
     (fst (dm_sendMsg m (dms s k)), s\<lparr>calls := calls s @ map (DmCall k) (snd (dm_sendMsg m (dms s k)))\<rparr>)"

text \<open>\<open>t.socket = new Dm(t.address), t.socket.init()\<close>.\<close>

definition open_socket :: "nat \<Rightarrow> dashboard \<Rightarrow> dashboard" where
  "open_socket n s =
     (let k = nextDm s
      in dm_call k dm_init
           (upd n (\<lambda>p. p\<lparr>socket := Some k\<rparr>)
             (s\<lparr>dms := (dms s)(k := new_Dm (address (printers s n))), nextDm := Suc k\<rparr>)))"

section \<open>Looking up\<close>

definition localGroupCount :: "dashboard \<Rightarrow> nat" where
  "localGroupCount s = length (filter (\<lambda>g. groupType g = 0) (printerList s))"

definition prinertList :: "string \<Rightarrow> dashboard \<Rightarrow> nat list" where
  "prinertList t s = (case List.find (\<lambda>g. group g = t) (printerList s) of None \<Rightarrow> [] | Some g \<Rightarrow> members g)"

definition isPrinterExist :: "string \<Rightarrow> dashboard \<Rightarrow> bool" where
  "isPrinterExist t s = list_ex (\<lambda>n. address (printers s n) = t) (all_refs s)"

definition getPrinterName :: "string \<Rightarrow> dashboard \<Rightarrow> string option" where
  "getPrinterName t s =
     (case find_ref (has_address t) s of None \<Rightarrow> Some [] | Some n \<Rightarrow> name (printers s n))"

definition getPrinterData :: "string \<Rightarrow> bool \<Rightarrow> dashboard \<Rightarrow> (string \<times> json) list option" where
  "getPrinterData t byMac s =
     map_option (\<lambda>n. data (printers s n)) (find_ref (if byMac then has_mac t else has_address t) s)"

text \<open>\<open>getPrinter(t, r, n)\<close>: by address or by mac, in the groups of one type or in all.\<close>

definition getPrinter_in :: "string \<Rightarrow> bool \<Rightarrow> int \<Rightarrow> dashboard \<Rightarrow> nat option" where
  "getPrinter_in t byMac k s =
     List.find (\<lambda>n. if byMac then mac (printers s n) = t else address (printers s n) = t)
       (concat (map members (filter (\<lambda>g. \<not> (k \<noteq> - 1 \<and> groupType g \<noteq> k)) (printerList s))))"

definition getPrinter :: "string \<Rightarrow> dashboard \<Rightarrow> nat option" where
  "getPrinter t s = getPrinter_in t False (- 1) s"

definition getPrinterByMac :: "string \<Rightarrow> dashboard \<Rightarrow> nat option" where
  "getPrinterByMac t s = find_ref (has_mac t) s"

definition getPrinterRelateToAccountState :: "string \<Rightarrow> dashboard \<Rightarrow> bool option" where
  "getPrinterRelateToAccountState t s =
     map_option (\<lambda>n. isRelatedToAccount (printers s n)) (find_ref (has_address t) s)"

definition getRelatedToAccountPrinterMacs :: "dashboard \<Rightarrow> string list" where
  "getRelatedToAccountPrinterMacs s =
     map (\<lambda>n. mac (printers s n)) (filter (\<lambda>n. isRelatedToAccount (printers s n)) (all_refs s))"

definition getFirstGroupName :: "dashboard \<Rightarrow> string option" where
  "getFirstGroupName s = map_option group (List.find (\<lambda>g. groupType g = 0) (printerList s))"

definition getGroupNameByMac :: "string \<Rightarrow> dashboard \<Rightarrow> string" where
  "getGroupNameByMac t s =
     (case List.find (\<lambda>g. list_ex (\<lambda>n. mac (printers s n) = t) (members g)) (printerList s) of
        None \<Rightarrow> ''defaultGroup1'' | Some g \<Rightarrow> group g)"

definition getLocalGroupNameByMac :: "string \<Rightarrow> dashboard \<Rightarrow> string option" where
  "getLocalGroupNameByMac t s =
     (case List.find (\<lambda>g. list_ex (\<lambda>n. mac (printers s n) = t \<and> deviceType (printers s n) = 0) (members g))
             (printerList s) of
        None \<Rightarrow> getFirstGroupName s | Some g \<Rightarrow> Some (group g))"

definition getSelectedPrinters :: "dashboard \<Rightarrow> nat list" where
  "getSelectedPrinters s = filter (\<lambda>n. selected (printers s n)) (all_refs s)"

definition getAllPrinters :: "dashboard \<Rightarrow> nat list" where
  "getAllPrinters s = all_refs s"

definition getMacsOfCrealityCloudPrinter :: "dashboard \<Rightarrow> string list" where
  "getMacsOfCrealityCloudPrinter s =
     map (\<lambda>n. mac (printers s n)) (filter (\<lambda>n. deviceType (printers s n) = 1) (all_refs s))"

definition isGroupExist :: "string \<Rightarrow> dashboard \<Rightarrow> bool" where
  "isGroupExist t s = list_ex (\<lambda>g. group g = t) (printerList s)"

section \<open>The other side of a printer\<close>

text \<open>A printer may be listed twice, as a local device and as a cloud device; each then
  holds the other's address in \<open>identity\<close>.\<close>

definition removeIdentity :: "string \<Rightarrow> dashboard \<Rightarrow> dashboard" where
  "removeIdentity t s = update_all (\<lambda>p. if identity p = Some t then p\<lparr>identity := None\<rparr> else p) s"

definition addIdentity :: "nat \<Rightarrow> dashboard \<Rightarrow> dashboard" where
  "addIdentity t s =
     fold (\<lambda>n s. if mac (printers s n) = mac (printers s t)
                 then upd t (\<lambda>p. p\<lparr>identity := Some (address (printers s n))\<rparr>)
                        (upd n (\<lambda>p. p\<lparr>identity := Some (address (printers s t))\<rparr>) s)
                 else s)
       (concat (map members (filter (\<lambda>g. deviceType (printers s t) \<noteq> groupType g) (printerList s)))) s"

definition setPrinterOffline :: "string \<Rightarrow> dashboard \<Rightarrow> dashboard" where
  "setPrinterOffline t s =
     (case find_ref (has_address t) s of
        None \<Rightarrow> s
      | Some n \<Rightarrow> removeIdentity (address (printers s n)) (upd n (\<lambda>p. p\<lparr>online := False, identity := None\<rparr>) s))"

text \<open>\<open>Ht.ReqInit\<close>.  The object literal names \<open>reqGcodeList\<close> twice; it has it once.\<close>

definition ReqInit :: "string \<Rightarrow> dashboard \<Rightarrow> dashboard" where
  "ReqInit t s =
     (case Option.bind (getPrinter t s) (\<lambda>n. socket (printers s n)) of
        None \<Rightarrow> s
      | Some k \<Rightarrow> snd (dm_send k (JObj [(''method'', JStr ''get''),
          (''params'', JObj [(''reqGcodeFile'', JNum 1), (''reqGcodeList'', JNum 1),
             (''reqMaterials'', JNum 1), (''boxsInfo'', JNum 1), (''boxConfig'', JNum 1)])]) s))"

definition setPrinterOnline :: "int \<Rightarrow> string \<Rightarrow> dashboard \<Rightarrow> dashboard" where
  "setPrinterOnline now t s =
     (case find_ref (has_address t) s of
        None \<Rightarrow> s
      | Some n \<Rightarrow>
          let s1 = addIdentity n (upd n (\<lambda>p. p\<lparr>online := True, timeStamp := now\<rparr>) s)
          in ReqInit (address (printers s1 n)) s1)"

section \<open>Marks\<close>

definition setPrinterName :: "string \<Rightarrow> string \<Rightarrow> dashboard \<Rightarrow> dashboard" where
  "setPrinterName t r s = update_at t (\<lambda>p. p\<lparr>name := Some r\<rparr>) s"

definition setPrinterCFSOpenState :: "string \<Rightarrow> bool \<Rightarrow> dashboard \<Rightarrow> dashboard" where
  "setPrinterCFSOpenState t r s = update_at t (\<lambda>p. p\<lparr>openCFS := r\<rparr>) s"

definition setPrinterCalibration :: "string \<Rightarrow> bool \<Rightarrow> dashboard \<Rightarrow> dashboard" where
  "setPrinterCalibration t r s = update_at t (\<lambda>p. p\<lparr>printCalibration := r\<rparr>) s"

definition setPrinterRelateToAccountState :: "string \<Rightarrow> bool \<Rightarrow> dashboard \<Rightarrow> dashboard" where
  "setPrinterRelateToAccountState t r s = update_at t (\<lambda>p. p\<lparr>isRelatedToAccount := r\<rparr>) s"

definition clear_marks :: "printer \<Rightarrow> printer" where
  "clear_marks p = p\<lparr>selected := False, openCFS := False, printCalibration := False, uploadGCodeProgress := JNum 0\<rparr>"

definition clearOnePrinterState :: "string \<Rightarrow> dashboard \<Rightarrow> dashboard" where
  "clearOnePrinterState t s = update_at t clear_marks s"

definition clearPrinterStateOnShow :: "dashboard \<Rightarrow> dashboard" where
  "clearPrinterStateOnShow s = update_all clear_marks s"

definition clearAllPrinterRelateToAccountState :: "dashboard \<Rightarrow> dashboard" where
  "clearAllPrinterRelateToAccountState s = update_all (\<lambda>p. p\<lparr>isRelatedToAccount := False\<rparr>) s"

text \<open>The argument is \<open>null\<close> or an array of macs.\<close>

definition updatePrinterRelateToAccountState :: "string list option \<Rightarrow> dashboard \<Rightarrow> dashboard" where
  "updatePrinterRelateToAccountState t s =
     (case t of
        None \<Rightarrow> clearAllPrinterRelateToAccountState s
      | Some [] \<Rightarrow> clearAllPrinterRelateToAccountState s
      | Some ms \<Rightarrow> update_all (\<lambda>p. p\<lparr>isRelatedToAccount := mac p \<in> set ms\<rparr>) s)"

definition setCurrentActivePrinterMac :: "string \<Rightarrow> dashboard \<Rightarrow> dashboard" where
  "setCurrentActivePrinterMac t s = s\<lparr>currentActivePrinterMac := t\<rparr>"

definition setPrinterCurrentDeviceByMac :: "string \<Rightarrow> dashboard \<Rightarrow> dashboard" where
  "setPrinterCurrentDeviceByMac t s =
     fold (\<lambda>n s. if mac (printers s n) = t
                 then setCurrentActivePrinterMac t (upd n (\<lambda>p. p\<lparr>isCurrentDevice := True\<rparr>) s)
                 else upd n (\<lambda>p. p\<lparr>isCurrentDevice := False\<rparr>) s)
       (all_refs s) s"

section \<open>The main store\<close>

definition setCurrentDevice :: "string \<Rightarrow> dashboard \<Rightarrow> dashboard" where
  "setCurrentDevice e s = s\<lparr>currentActivePrinterMac := e\<rparr>"

definition SetMergeState :: "bool \<Rightarrow> dashboard \<Rightarrow> dashboard" where
  "SetMergeState e s = s\<lparr>mergeState := e\<rparr>"

definition preset_key :: "string \<Rightarrow> string" where
  "preset_key n = (if n = ''CR-K1'' then ''K1'' else if n = ''CR-K1 Max'' then ''K1 Max''
     else if n = ''Sermoon D3 Pro'' then ''Morandi '' else n)"

definition setPrinterPreset :: "preset list \<Rightarrow> dashboard \<Rightarrow> dashboard" where
  "setPrinterPreset e s =
     s\<lparr>printerPreset := fold (\<lambda>r t. AList.update (preset_key (printerIntName r)) r t) e []\<rparr>"

section \<open>Adding and removing printers\<close>

definition getMachinePlatformMotionEnable :: "new_device \<Rightarrow> dashboard \<Rightarrow> dashboard" where
  "getMachinePlatformMotionEnable t s =
     (case map_of (printerPreset s) (d_model t) of
        None \<Rightarrow> s
      | Some n \<Rightarrow>
          let pre = (if prefix ''Creality'' (presetName n) then [] else ''Creality '');
              first = (case nozzleDiameter n of [] \<Rightarrow> ''undefined'' | d # _ \<Rightarrow> d)
          in emit_call (PostMessage (JObj [(''command'', JStr ''req_device_move_direction''),
               (''preset_name'', JStr (pre @ presetName n @ '' '' @ first @ '' nozzle'')),
               (''address'', JStr (d_address t))])) s)"

text \<open>The new printer goes to the front of its group when it is online, unless the caller
  asks for the back; a group that does not exist leaves it unlisted.\<close>

fun insert_in_group :: "string \<Rightarrow> (nat list \<Rightarrow> nat list) \<Rightarrow> printer_group list \<Rightarrow> printer_group list" where
  "insert_in_group r f [] = []"
| "insert_in_group r f (g # gs) =
     (if group g = r then g\<lparr>members := f (members g)\<rparr> # gs else g # insert_in_group r f gs)"

definition link_identity :: "nat \<Rightarrow> dashboard \<Rightarrow> dashboard" where
  "link_identity i s =
     (let p = printers s i in
      if deviceType p = 0 \<or> deviceType p = 1 then
        (case getPrinter_in (mac p) True (- 1) s of
           None \<Rightarrow> s
         | Some o1 \<Rightarrow>
             let q = printers s o1 in
             if deviceType q = 0 \<and> online q \<or> deviceType q = 1 \<and> online p
             then upd i (\<lambda>p. p\<lparr>identity := Some (address q)\<rparr>)
                    (upd o1 (\<lambda>q. q\<lparr>identity := Some (address p)\<rparr>) s)
             else s)
      else s)"

definition addPrinter :: "new_device \<Rightarrow> string \<Rightarrow> bool \<Rightarrow> dashboard \<Rightarrow> dashboard" where
  "addPrinter t r back s =
     (let i = nextPrinter s;
          s1 = s\<lparr>printers := (printers s)(i := initial_printer t (map_of (printerPreset s) (d_model t))),
                 nextPrinter := Suc i\<rparr>;
          s2 = getMachinePlatformMotionEnable t (link_identity i s1);
          put = (if online (printers s2 i) \<and> \<not> back then (\<lambda>l. i # l) else (\<lambda>l. l @ [i]))
      in s2\<lparr>printerList := insert_in_group r put (printerList s2)\<rparr>)"

text \<open>Close a printer's socket and forget it.\<close>

definition drop_socket :: "nat \<Rightarrow> dashboard \<Rightarrow> dashboard" where
  "drop_socket n s =
     (case socket (printers s n) of
        None \<Rightarrow> s
      | Some k \<Rightarrow> upd n (\<lambda>p. p\<lparr>socket := None\<rparr>) (dm_call k dm_close s))"

definition remove_at :: "nat \<Rightarrow> 'a list \<Rightarrow> 'a list" where
  "remove_at l xs = take l xs @ drop (Suc l) xs"

text \<open>Where the first printer with the address is: its group and its place there.\<close>

fun index_where :: "('a \<Rightarrow> bool) \<Rightarrow> 'a list \<Rightarrow> nat option" where
  "index_where P [] = None"
| "index_where P (x # xs) = (if P x then Some 0 else map_option Suc (index_where P xs))"

definition locate :: "string \<Rightarrow> dashboard \<Rightarrow> (nat \<times> nat) option" where
  "locate t s =
     (let here = (\<lambda>n. address (printers s n) = t) in
      case index_where (\<lambda>g. list_ex here (members g)) (printerList s) of
        None \<Rightarrow> None
      | Some i \<Rightarrow> map_option (Pair i) (index_where here (members (printerList s ! i))))"

definition removePrinter :: "string \<Rightarrow> bool \<Rightarrow> dashboard \<Rightarrow> bool \<times> dashboard" where
  "removePrinter t keep s =
     (case locate t s of
        None \<Rightarrow> (False, s)
      | Some (i, a) \<Rightarrow>
          let n = members (printerList s ! i) ! a;
              s1 = removeIdentity (address (printers s n)) (drop_socket n s);
              g = printerList s1 ! i
          in (True, if keep then s1
                    else s1\<lparr>printerList := (printerList s1)[i := g\<lparr>members := remove_at a (members g)\<rparr>]\<rparr>))"

section \<open>Groups\<close>

definition addGroup :: "string \<Rightarrow> int \<Rightarrow> dashboard \<Rightarrow> dashboard" where
  "addGroup t r s = s\<lparr>printerList := printerList s @
     [\<lparr>group = t, groupType = r, groupVisable = True, members = []\<rparr>]\<rparr>"

definition addPrinterGroup :: "string \<Rightarrow> dashboard \<Rightarrow> dashboard" where
  "addPrinterGroup t s =
     emit_call (PostMessage (JObj [(''command'', JStr ''add_group''), (''group'', JStr t)])) (addGroup t 0 s)"

definition indexOf :: "string list \<Rightarrow> string \<Rightarrow> int" where
  "indexOf t x = (case index_where (\<lambda>y. y = x) t of None \<Rightarrow> - 1 | Some i \<Rightarrow> int i)"

definition sortGroup :: "string list \<Rightarrow> dashboard \<Rightarrow> dashboard" where
  "sortGroup t s = s\<lparr>printerList := sort_key (\<lambda>g. indexOf t (group g)) (printerList s)\<rparr>"

definition last_index_where :: "('a \<Rightarrow> bool) \<Rightarrow> 'a list \<Rightarrow> nat option" where
  "last_index_where P xs =
     map_option (\<lambda>k. length xs - Suc k) (index_where P (rev xs))"

definition set_members :: "nat \<Rightarrow> (nat list \<Rightarrow> nat list) \<Rightarrow> dashboard \<Rightarrow> dashboard" where
  "set_members i f s =
     (let g = printerList s ! i
      in s\<lparr>printerList := (printerList s)[i := g\<lparr>members := f (members g)\<rparr>]\<rparr>)"

text \<open>\<open>moveToGroup\<close>: both loops over the groups keep the last match.\<close>

definition moveToGroup :: "string \<Rightarrow> string \<Rightarrow> string \<Rightarrow> dashboard \<Rightarrow> dashboard" where
  "moveToGroup t r n s =
     (case last_index_where (\<lambda>g. group g = t) (printerList s) of
        None \<Rightarrow> s
      | Some i \<Rightarrow>
          (case index_where (\<lambda>m. address (printers s m) = r) (members (printerList s ! i)) of
             None \<Rightarrow> s
           | Some l \<Rightarrow>
               (case last_index_where (\<lambda>g. group g = n) (printerList s) of
                  None \<Rightarrow> s
                | Some o1 \<Rightarrow>
                    let a = members (printerList s ! i) ! l
                    in set_members i (remove_at l) (set_members o1 (\<lambda>ms. a # ms) s))))"

text \<open>The printers of a group lose their sockets when the group goes.\<close>

definition close_members :: "nat list \<Rightarrow> dashboard \<Rightarrow> dashboard" where
  "close_members ms s =
     fold (\<lambda>l s. if socket (printers s l) = None then s
                 else removeIdentity (address (printers s l)) (drop_socket l s)) ms s"

lemma printerList_frame [simp]:
  "printerList (upd n f s) = printerList s" "printerList (dm_call k g s) = printerList s"
  "printerList (drop_socket n s) = printerList s"
  by (simp_all add: upd_def dm_call_def drop_socket_def split: option.split)

lemma printerList_update_all [simp]: "printerList (update_all f s) = printerList s"
proof -
  have "printerList (fold (\<lambda>n. upd n f) ns s) = printerList s" for ns
    by (induction ns arbitrary: s) simp_all
  then show ?thesis by (simp add: update_all_def)
qed

lemma printerList_removeIdentity [simp]: "printerList (removeIdentity t s) = printerList s"
  by (simp add: removeIdentity_def)

lemma printerList_close_members [simp]: "printerList (close_members ms s) = printerList s"
proof (induction ms arbitrary: s)
  case (Cons m ms)
  then show ?case by (simp add: close_members_def)
qed (simp add: close_members_def)

text \<open>The loop of \<open>removeGroup\<close> over the live array, from index \<open>k\<close>: \<open>splice\<close> moves the
  groups behind the removed one forward while the iterator goes on to the next index.\<close>

function removeGroup_from :: "string \<Rightarrow> bool \<Rightarrow> nat \<Rightarrow> dashboard \<Rightarrow> dashboard" where
  "removeGroup_from t keep k s =
     (if k < length (printerList s) then
        let g = printerList s ! k;
            s1 = (if group g = t then close_members (members g) s else s);
            s2 = (if group g = t \<and> \<not> keep then s1\<lparr>printerList := remove_at k (printerList s1)\<rparr> else s1)
        in removeGroup_from t keep (Suc k) s2
      else s)"
  by pat_completeness auto

termination
  by (relation "measure (\<lambda>(t, keep, k, s). length (printerList s) - k)") (auto simp: remove_at_def)

declare removeGroup_from.simps [simp del]

definition removeGroup :: "string \<Rightarrow> bool \<Rightarrow> dashboard \<Rightarrow> dashboard" where
  "removeGroup t keep s = removeGroup_from t keep 0 s"

text \<open>\<open>remove2FirstGroup\<close>; \<open>None\<close> is the \<open>TypeError\<close> when the group does not exist.\<close>

definition remove2FirstGroup :: "string \<Rightarrow> dashboard \<Rightarrow> dashboard option" where
  "remove2FirstGroup t s =
     (if length (filter (\<lambda>g. groupType g = 0) (printerList s)) < 2 then Some s
      else case List.find (\<lambda>g. group g = t) (printerList s) of
             None \<Rightarrow> None
           | Some n \<Rightarrow>
               let a = (if group n = group (printerList s ! 0) then 1 else 0)
               in Some (removeGroup t False (set_members a (\<lambda>ms. members n @ ms) s)))"

fun setGroupName_in :: "string \<Rightarrow> string \<Rightarrow> printer_group list \<Rightarrow> printer_group list" where
  "setGroupName_in t r [] = []"
| "setGroupName_in t r (g # gs) =
     (if group g = t then g\<lparr>group := r\<rparr> # gs else g # setGroupName_in t r gs)"

definition setGroupName :: "string \<Rightarrow> string \<Rightarrow> dashboard \<Rightarrow> dashboard" where
  "setGroupName t r s = s\<lparr>printerList := setGroupName_in t r (printerList s)\<rparr>"

end
