(* ===== verification/DeviceCommands.thy ===== *)
theory DeviceCommands
  imports PrinterStore
begin

text \<open>
  \<open>Ht\<close>, the commands the dashboard sends to a printer on the local network
  (\<open>CeX73yR3.js\<close>).  A command looks the printer up by its address and sends one message
  through its socket, if it has one.  \<open>None\<close> is the \<open>TypeError\<close> of a method call on
  \<open>null\<close>: of a printer that is not listed, and, in the three commands that do not look,
  of a socket that is not there.
\<close>

section \<open>Messages\<close>

definition set_params :: "(string \<times> json) list \<Rightarrow> json" where
  "set_params ps = JObj [(''method'', JStr ''set''), (''params'', JObj ps)]"

definition get_params :: "(string \<times> json) list \<Rightarrow> json" where
  "get_params ps = JObj [(''method'', JStr ''get''), (''params'', JObj ps)]"

definition send_if_connected :: "nat \<Rightarrow> json \<Rightarrow> dashboard \<Rightarrow> dashboard" where
  "send_if_connected n m s =
     (case socket (printers s n) of None \<Rightarrow> s | Some k \<Rightarrow> snd (dm_send k m s))"

text \<open>\<open>const r = Ne.getPrinter(t)\<close>, then one guarded send.\<close>

definition command :: "string \<Rightarrow> (printer \<Rightarrow> json) \<Rightarrow> dashboard \<Rightarrow> dashboard option" where
  "command t m s =
     map_option (\<lambda>n. send_if_connected n (m (printers s n)) s) (getPrinter t s)"

definition set_command :: "string \<Rightarrow> (string \<times> json) list \<Rightarrow> dashboard \<Rightarrow> dashboard option" where
  "set_command t ps s = command t (\<lambda>_. set_params ps) s"

definition get_command :: "string \<Rightarrow> (string \<times> json) list \<Rightarrow> dashboard \<Rightarrow> dashboard option" where
  "get_command t ps s = command t (\<lambda>_. get_params ps) s"

text \<open>A send that does not look whether there is a socket.\<close>

definition unguarded :: "string \<Rightarrow> json \<Rightarrow> dashboard \<Rightarrow> dashboard option" where
  "unguarded t m s =
     (case Option.bind (getPrinter t s) (\<lambda>n. socket (printers s n)) of
        None \<Rightarrow> None | Some k \<Rightarrow> Some (snd (dm_send k m s)))"

section \<open>Errors, pausing and resuming\<close>

definition ErrOK :: "string \<Rightarrow> dashboard \<Rightarrow> dashboard option" where
  "ErrOK t s =
     map_option (\<lambda>n. send_if_connected n (set_params [(''cleanErr'', JNum 1)])
       (send_if_connected n (set_params [(''errorHandling'', JNum 1)]) s)) (getPrinter t s)"

definition ErrCancel :: "string \<Rightarrow> dashboard \<Rightarrow> dashboard option" where
  "ErrCancel t s = set_command t [(''repoPlrStatus'', JNum 1)] s"

definition ErrRetry :: "string \<Rightarrow> dashboard \<Rightarrow> dashboard option" where
  "ErrRetry t s = set_command t [(''errorHandling'', JNum 0)] s"

definition Stop :: "string \<Rightarrow> dashboard \<Rightarrow> dashboard option" where
  "Stop t s = set_command t [(''stop'', JNum 1)] s"

definition Pause :: "string \<Rightarrow> dashboard \<Rightarrow> dashboard option" where
  "Pause t s = set_command t [(''pause'', JNum 1)] s"

definition clear_err :: "nat \<Rightarrow> dashboard \<Rightarrow> dashboard" where
  "clear_err n s = upd n (\<lambda>p. p\<lparr>err := (err p)\<lparr>errcode := JNum 0, err_key := JNum 0\<rparr>\<rparr>) s"

definition CancelBrokenMaterial :: "string \<Rightarrow> dashboard \<Rightarrow> dashboard option" where
  "CancelBrokenMaterial t s =
     (case getPrinter t s of
        None \<Rightarrow> None
      | Some n \<Rightarrow>
          if truthy (repoPlrStatus (printers s n))
          then map_option (clear_err n) (unguarded t (set_params [(''repoPlrStatus'', JNum 0)]) s)
          else unguarded t (set_params [(''stop'', JNum 1)]) s)"

definition Continue :: "string \<Rightarrow> dashboard \<Rightarrow> dashboard option" where
  "Continue t s =
     (case getPrinter t s of
        None \<Rightarrow> None
      | Some n \<Rightarrow> Some
          (case socket (printers s n) of
             None \<Rightarrow> s
           | Some k \<Rightarrow>
               if truthy (repoPlrStatus (printers s n))
               then clear_err n (snd (dm_send k (set_params [(''repoPlrStatus'', JNum 1)]) s))
               else snd (dm_send k (set_params [(''pause'', JNum 0)]) s)))"

section \<open>Moving, switches and fans\<close>

text \<open>A distance is put into the text as it is printed.\<close>

fun axle_params :: "string \<Rightarrow> string \<Rightarrow> (string \<times> json) list option" where
  "axle_params r n =
     (if r = ''X+'' then Some [(''setPosition'', JStr (''X'' @ n @ '' F3000''))]
      else if r = ''X-'' then Some [(''setPosition'', JStr (''X-'' @ n @ '' F3000''))]
      else if r = ''Y+'' then Some [(''setPosition'', JStr (''Y'' @ n @ '' F3000''))]
      else if r = ''Y-'' then Some [(''setPosition'', JStr (''Y-'' @ n @ '' F3000''))]
      else if r = ''Z+'' then Some [(''setPosition'', JStr (''Z'' @ n @ '' F600''))]
      else if r = ''Z-'' then Some [(''setPosition'', JStr (''Z-'' @ n @ '' F600''))]
      else if r = ''HXY'' then Some [(''autohome'', JStr ''X Y'')]
      else if r = ''HZ'' then Some [(''autohome'', JStr ''Z'')]
      else None)"

text \<open>A \<open>switch\<close> with no case for its value sends nothing, and so does not look at the
  printer either.\<close>

definition switch_command :: "string \<Rightarrow> (string \<times> json) list option \<Rightarrow> dashboard \<Rightarrow> dashboard option" where
  "switch_command t ps s = (case ps of None \<Rightarrow> Some s | Some q \<Rightarrow> set_command t q s)"

definition MoveAxle :: "string \<Rightarrow> string \<Rightarrow> string \<Rightarrow> dashboard \<Rightarrow> dashboard option" where
  "MoveAxle t r n s = switch_command t (axle_params r n) s"

definition SetSwitchState :: "string \<Rightarrow> nat \<Rightarrow> json \<Rightarrow> dashboard \<Rightarrow> dashboard option" where
  "SetSwitchState t r n s =
     switch_command t (map_option (\<lambda>k. [(k, json_number (to_number n))])
       (map_of [(0, ''fan''), (1, ''fanAuxiliary''), (2, ''fanCase''), (3, ''lightSw'')] r)) s"

text \<open>\<open>M106\<close> sets a fan to a duty of 0 to 255.  Its three channels are numbered 0, 2, 1.
  The product is taken in rationals; for whole percentages the floating-point product of
  the source rounds to the same duty.\<close>

definition fan_duty :: "rat \<Rightarrow> int" where
  "fan_duty n = js_round (255 * (n / 100))"

definition SetFanSpeed :: "string \<Rightarrow> nat \<Rightarrow> rat \<Rightarrow> dashboard \<Rightarrow> dashboard option" where
  "SetFanSpeed t r n s =
     switch_command t (map_option (\<lambda>ch. [(''gcodeCmd'', JStr (''M106 P'' @ ch @ '' S'' @ show_int (fan_duty n)))])
       (map_of [(0, ''0''), (1, ''2''), (2, ''1'')] r)) s"

definition SetPrintingSpeed :: "string \<Rightarrow> json \<Rightarrow> dashboard \<Rightarrow> dashboard option" where
  "SetPrintingSpeed t r s = set_command t [(''setFeedratePct'', json_number (to_number r))] s"

section \<open>Files and prints\<close>

definition DeleteFile :: "string \<Rightarrow> string \<Rightarrow> dashboard \<Rightarrow> dashboard option" where
  "DeleteFile t r s = set_command t [(''opGcodeFile'', JStr (''deleteprt:'' @ r))] s"

definition DeleteHisoryFile :: "string \<Rightarrow> json \<Rightarrow> dashboard \<Rightarrow> dashboard option" where
  "DeleteHisoryFile t r s = set_command t [(''deleteHistory'', r)] s"

definition DeleteVideoFile :: "string \<Rightarrow> json \<Rightarrow> dashboard \<Rightarrow> dashboard option" where
  "DeleteVideoFile t r s = set_command t
     [(''ctrlVideoFiles'', JObj [(''cmd'', JStr ''remove''), (''printId'', JStr []), (''file'', r)])] s"

definition StartPrint :: "string \<Rightarrow> string \<Rightarrow> dashboard \<Rightarrow> dashboard option" where
  "StartPrint t r s =
     set_command t [(''opGcodeFile'', JStr (''printprt:'' @ r)), (''enableSelfTest'', JNum 0)] s"

definition StartPrintWidthCalibration :: "string \<Rightarrow> string \<Rightarrow> dashboard \<Rightarrow> dashboard option" where
  "StartPrintWidthCalibration t r s =
     set_command t [(''opGcodeFile'', JStr (''printprt:'' @ r)), (''enableSelfTest'', JNum 1)] s"

definition SetMaterialColorMap :: "string \<Rightarrow> json \<Rightarrow> json \<Rightarrow> dashboard \<Rightarrow> dashboard option" where
  "SetMaterialColorMap t r n s =
     set_command t [(''colorMatch'', JObj [(''path'', r), (''list'', n)])] s"

definition SetColorMatch :: "string \<Rightarrow> json \<Rightarrow> json \<Rightarrow> dashboard \<Rightarrow> dashboard option" where
  "SetColorMatch t r n s =
     set_command t [(''colorMatch'', JObj [(''path'', r), (''list'', n)])] s"

section \<open>Temperatures\<close>

definition SetTargetNozzleTemp :: "string \<Rightarrow> json \<Rightarrow> dashboard \<Rightarrow> dashboard option" where
  "SetTargetNozzleTemp t r s = unguarded t (set_params [(''nozzleTempControl'', r)]) s"

definition SetTargetBedTempTemp :: "string \<Rightarrow> json \<Rightarrow> json \<Rightarrow> dashboard \<Rightarrow> dashboard option" where
  "SetTargetBedTempTemp t r n s =
     unguarded t (set_params [(''bedTempControl'', JObj [(''num'', r), (''val'', n)])]) s"

definition SetTargetboxTemp :: "string \<Rightarrow> json \<Rightarrow> dashboard \<Rightarrow> dashboard option" where
  "SetTargetboxTemp t r s = set_command t [(''boxTempControl'', r)] s"

section \<open>Material boxes\<close>

text \<open>\<open>GetBoxsInfo\<close> returns when the printer is not listed.\<close>

definition GetBoxsInfo :: "string \<Rightarrow> dashboard \<Rightarrow> dashboard" where
  "GetBoxsInfo t s =
     (case getPrinter t s of
        None \<Rightarrow> s | Some n \<Rightarrow> send_if_connected n (get_params [(''boxsInfo'', JNum 1)]) s)"

definition GetBoxsConfig :: "string \<Rightarrow> dashboard \<Rightarrow> dashboard option" where
  "GetBoxsConfig t s = get_command t [(''boxConfig'', JNum 1)] s"

definition SetBoxsConfig :: "string \<Rightarrow> json \<Rightarrow> json \<Rightarrow> json \<Rightarrow> dashboard \<Rightarrow> dashboard option" where
  "SetBoxsConfig t r n a s = set_command t
     [(''boxConfig'', JObj [(''autoRefill'', r), (''cAutoFeed'', n), (''cSelfTest'', a)])] s"

definition SetBoxsCfscConfig :: "string \<Rightarrow> json \<Rightarrow> json \<Rightarrow> json \<Rightarrow> json \<Rightarrow> dashboard \<Rightarrow> dashboard option" where
  "SetBoxsCfscConfig t r n a i s = set_command t
     [(''boxConfig'', JObj [(''autoRefill'', r), (''cAutoFeed'', n), (''cSelfTest'', a),
        (''ignoreColorAutoFeed'', i)])] s"

definition SetBoxsCfsLiteConfig :: "string \<Rightarrow> json \<Rightarrow> json \<Rightarrow> dashboard \<Rightarrow> dashboard option" where
  "SetBoxsCfsLiteConfig t r n s =
     set_command t [(''boxConfig'', JObj [(''cAutoFeed'', r), (''autoRefill'', n)])] s"

record spool_edit =
  se_id :: json
  se_rfid :: json
  se_type :: json
  se_vendor :: json
  se_name :: json
  se_color :: string
  se_minTemp :: json
  se_maxTemp :: json
  se_pressure :: json

text \<open>\<open>#rrggbb\<close> becomes \<open>#0rrggbb\<close> on the wire; a temperature is made a fraction, so that
  the printer reads a floating-point number.\<close>

definition wire_color :: "string \<Rightarrow> string" where
  "wire_color c = take 1 c @ ''0'' @ drop 1 c"

definition wire_temp :: "json \<Rightarrow> json" where
  "wire_temp v = json_number (map_option (\<lambda>q. q + 1 / 10 ^ 8) (to_number v))"

definition blank_spool :: "(string \<times> json) list" where
  "blank_spool = [(''rfid'', JStr []), (''type'', JStr []), (''vendor'', JStr []), (''name'', JStr []),
     (''color'', JStr []), (''minTemp'', JNum 0), (''maxTemp'', JNum 0), (''pressure'', JNum 0)]"

definition spool_fields :: "spool_edit \<Rightarrow> (string \<times> json) list" where
  "spool_fields a = [(''rfid'', se_rfid a), (''type'', se_type a), (''vendor'', se_vendor a),
     (''name'', se_name a), (''color'', JStr (wire_color (se_color a))),
     (''minTemp'', wire_temp (se_minTemp a)), (''maxTemp'', wire_temp (se_maxTemp a)),
     (''pressure'', se_pressure a)]"

definition ResetCfsMiniMaterials :: "string \<Rightarrow> json \<Rightarrow> json \<Rightarrow> spool_edit \<Rightarrow> dashboard \<Rightarrow> dashboard option" where
  "ResetCfsMiniMaterials t r n a s = set_command t
     [(''modifyMaterial'', JObj ([(''boxId'', r), (''boxType'', n), (''id'', se_id a)] @ blank_spool))] s"

definition SetCfsMiniMaterials :: "string \<Rightarrow> json \<Rightarrow> json \<Rightarrow> spool_edit \<Rightarrow> dashboard \<Rightarrow> dashboard option" where
  "SetCfsMiniMaterials t r n a s = set_command t
     [(''modifyMaterial'', JObj ([(''boxId'', r), (''boxType'', n), (''id'', se_id a)] @ spool_fields a))] s"

definition ResetMaterials :: "string \<Rightarrow> json \<Rightarrow> spool_edit \<Rightarrow> dashboard \<Rightarrow> dashboard option" where
  "ResetMaterials t r a s = set_command t
     [(''modifyMaterial'', JObj ([(''boxId'', r), (''id'', se_id a)] @ blank_spool))] s"

definition SetMaterials :: "string \<Rightarrow> json \<Rightarrow> spool_edit \<Rightarrow> dashboard \<Rightarrow> dashboard option" where
  "SetMaterials t r a s = set_command t
     [(''modifyMaterial'', JObj ([(''boxId'', r), (''id'', se_id a)] @ spool_fields a))] s"

definition feedInOrOutMaterial :: "string \<Rightarrow> json \<Rightarrow> json \<Rightarrow> json \<Rightarrow> dashboard \<Rightarrow> dashboard option" where
  "feedInOrOutMaterial t r n a s = set_command t
     [(''feedInOrOut'', JObj [(''boxId'', r), (''materialId'', n), (''isFeed'', a)])] s"

definition SetRFIDRefresh :: "string \<Rightarrow> json \<Rightarrow> json \<Rightarrow> dashboard \<Rightarrow> dashboard option" where
  "SetRFIDRefresh t r n s = set_command t
     [(''refreshBox'', JObj [(''boxId'', r), (''materialId'', n)])] s"

section \<open>Requests for data and settings\<close>

definition ReqPrintObjects :: "string \<Rightarrow> dashboard \<Rightarrow> dashboard option" where
  "ReqPrintObjects t s = get_command t [(''reqPrintObjects'', JNum 1)] s"

definition ReqMaterials :: "string \<Rightarrow> dashboard \<Rightarrow> dashboard option" where
  "ReqMaterials t s = get_command t [(''reqMaterials'', JNum 1)] s"

definition getRetGcodeFile :: "string \<Rightarrow> dashboard \<Rightarrow> dashboard option" where
  "getRetGcodeFile t s = get_command t [(''reqGcodeFile'', JNum 1)] s"

definition setHostName :: "string \<Rightarrow> json \<Rightarrow> dashboard \<Rightarrow> dashboard option" where
  "setHostName t r s = set_command t [(''hostname'', r)] s"

definition setCutterState :: "string \<Rightarrow> dashboard \<Rightarrow> dashboard option" where
  "setCutterState t s = set_command t [(''replaceCutter'', JNum 1)] s"

section \<open>Starting a print, with retries\<close>

text \<open>The interval \<open>sendMsg\<close> starts when it cannot send at once: the printer, the message
  and the number of ticks so far.\<close>

record resend =
  rs_printer :: nat
  rs_msg :: json
  rs_count :: nat

definition sendMsg :: "nat \<Rightarrow> json \<Rightarrow> dashboard \<Rightarrow> resend option \<times> dashboard" where
  "sendMsg n m s =
     (let (ok, s1) = (case socket (printers s n) of None \<Rightarrow> (False, s) | Some k \<Rightarrow> dm_send k m s)
      in if ok then (None, s1)
         else (Some \<lparr>rs_printer = n, rs_msg = m, rs_count = 0\<rparr>, open_socket n s1))"

text \<open>One tick, every two seconds.  On a printer whose socket is gone it throws before it
  can clear the interval.\<close>

definition resend_tick :: "resend \<Rightarrow> dashboard \<Rightarrow> resend option \<times> dashboard" where
  "resend_tick r s =
     (let a = Suc (rs_count r); r' = r\<lparr>rs_count := a\<rparr> in
      case socket (printers s (rs_printer r)) of
        None \<Rightarrow> (Some r', s)
      | Some k \<Rightarrow>
          let (ok, s1) = dm_send k (rs_msg r) s
          in (if ok \<or> a \<ge> 5 then None else Some r', s1))"

definition StartMultiColorPrint :: "string \<Rightarrow> json \<Rightarrow> json \<Rightarrow> dashboard \<Rightarrow> (resend option \<times> dashboard) option" where
  "StartMultiColorPrint t r n s =
     map_option (\<lambda>a. sendMsg a (set_params
       [(''multiColorPrint'', JObj [(''gcode'', r), (''enableSelfTest'', n)])]) s) (getPrinter t s)"

definition StartNormalPrint :: "string \<Rightarrow> string \<Rightarrow> json \<Rightarrow> dashboard \<Rightarrow> (resend option \<times> dashboard) option" where
  "StartNormalPrint t r n s =
     map_option (\<lambda>a. sendMsg a (set_params
       [(''opGcodeFile'', JStr (''printprt:'' @ r)), (''enableSelfTest'', n)]) s) (getPrinter t s)"

end
