(* ===== verification/ErrorTip.thy ===== *)
theory ErrorTip
  imports ErrorTable DeviceCommands
begin

text \<open>
  What the dashboard offers when a printer reports an error (\<open>CeX73yR3.js\<close>): \<open>Yi\<close>, which
  buttons fit the error, the \<open>ErrorTip\<close> component that shows them and runs them, and
  \<open>HandleSendErrorCommand\<close>, which runs the same commands for the window around the page.
  A printer of device type 1 is reached through the cloud, any other through its socket.
\<close>

section \<open>Looking an error up\<close>

text \<open>The array index a value names as a property key: the only keys the tables have.\<close>

definition nat_key :: "json \<Rightarrow> nat option" where
  "nat_key v =
     (case v of
        JNum q \<Rightarrow> if q = of_nat (nat \<lfloor>q\<rfloor>) then Some (nat \<lfloor>q\<rfloor>) else None
      | JStr t \<Rightarrow> let n = fst (read_digits 0 t) in if show_nat n = t then Some n else None
      | _ \<Rightarrow> None)"

definition Ga :: "json \<Rightarrow> error_info option" where
  "Ga v = Option.bind (nat_key v) (last_of Ga_entries)"

definition Om :: "json \<Rightarrow> string option" where
  "Om v = Option.bind (nat_key v) (last_of Om_entries)"

text \<open>\<open>a <= v && v <= b\<close>.\<close>

definition num_between :: "rat \<Rightarrow> rat \<Rightarrow> json \<Rightarrow> bool" where
  "num_between a b v = (case to_number v of None \<Rightarrow> False | Some q \<Rightarrow> a \<le> q \<and> q \<le> b)"

section \<open>Which buttons fit\<close>

text \<open>The result of \<open>Yi\<close>; its last three properties are absent from some results.\<close>

datatype decision =
  Decision (on_continue: bool) (on_cancel: bool) (on_retry: bool) (on_ok: bool)
    (on_pause: "bool option") (on_stop: "bool option") (on_cutter: "bool option")

definition Yi :: "json \<Rightarrow> json \<Rightarrow> bool \<Rightarrow> decision" where
  "Yi i t r =
     (let n = Decision False False False False (Some False) (Some False) (Some False) in
      case Ga i of
        None \<Rightarrow> n
      | Some a \<Rightarrow>
          let l = level a; s = supportVersion a; p1 = eq_num t 1 in
          if i = JNum 30010 then Decision False False False False (Some False) (Some False) None
          else if i = JNum 5013 then Decision False False False True (Some False) (Some False) (Some True)
          else if i = JNum 2839 \<and> r then Decision False False False True (Some False) (Some True) None
          else if p1 \<and> i = JNum 30000 then Decision False False False False (Some True) (Some True) None
          else if i = JNum 20010 then Decision True True False False None None None
          else if num_between 1 200 i \<and> s = 800 then Decision True True False False None None None
          else if num_between 201 500 i \<and> s = 800 then Decision False False False True None None None
          else if p1 \<and> l = JNum 1 \<and> s = 830 then Decision False False True True None None None
          else if p1 \<and> l = JNum 2 \<and> s = 830 then Decision False False False True None None None
          else if p1 \<and> i = JNum 115 \<and> s = 830 then Decision True True False False None None None
          else if p1 \<and> i = JNum 116 \<and> s = 830 then Decision False False False True None None None
          else if \<not> p1 \<and> (eq_num l 1 \<or> eq_num l 2) \<and> s = 830 then Decision False False False True None None None
          else if s = - 1 \<or> eq_num i 2838 then Decision False False False True None None None
          else n)"

section \<open>The tip\<close>

text \<open>\<open>a\<close>: the material ran out on a printer that does not say in which slot.\<close>

definition needs_refill :: "printer \<Rightarrow> bool" where
  "needs_refill p =
     (if err_key (err p) = JNum 2839
      then (if truthy (IsMultiColorDevice p)
            then \<not> (truthy (err_value (err p)) \<and> err_value (err p) \<noteq> JStr []) else True)
      else False)"

text \<open>\<open>n\<close>, the text of the error; \<open>tr\<close> translates, \<open>parse\<close> is \<open>JSON.parse\<close> and \<open>text_of\<close>
  what \<open>join\<close> makes of an element.  \<open>None\<close> is a throw: of a value that is no JSON, or
  that has a length but cannot be joined.\<close>

definition joined :: "(json \<Rightarrow> string) \<Rightarrow> json \<Rightarrow> string option" where
  "joined text_of h =
     (case h of
        JArr xs \<Rightarrow> Some (js_join [] (map text_of xs))
      | JStr t \<Rightarrow> if t = [] then Some [] else None
      | JNull \<Rightarrow> None
      | JUndefined \<Rightarrow> None
      | JObj ps \<Rightarrow> (case Option.bind (map_of ps ''length'') to_number of
            None \<Rightarrow> Some [] | Some k \<Rightarrow> if k > 0 then None else Some [])
      | _ \<Rightarrow> Some [])"

definition tip_text ::
    "(string option \<Rightarrow> string) \<Rightarrow> (json \<Rightarrow> json option) \<Rightarrow> (json \<Rightarrow> string) \<Rightarrow> printer \<Rightarrow> string option" where
  "tip_text tr parse text_of p =
     (let k = err_key (err p); known = (if Ga k \<noteq> None then tr (Om k) else tr (Some ''Unknown error'')) in
      if eq_num k 2839
      then (if needs_refill p then Some (tr (Om (JNum 116)))
            else map_option (\<lambda>m. if Ga k \<noteq> None then m @ tr (Om k) else tr (Some ''Unknown error''))
                   (Option.bind (parse (err_value (err p))) (joined text_of)))
      else Some known)"

text \<open>The colour of the code: an array indexed by the level.\<close>

definition level_color :: "json \<Rightarrow> string option" where
  "level_color l =
     Option.bind (Option.bind (to_number l) (\<lambda>q. nat_key (JNum q)))
       (map_of [(0, []), (1, ''#ff1e1e''), (2, ''#15bf59''), (3, ''#ffff00'')])"

text \<open>The link to the wiki, shown for an error that is listed; \<open>a\<close> is an object there, so
  the code of 116 stands for 2839 whatever \<open>a\<close> holds.\<close>

definition open_wiki :: "bool \<Rightarrow> nat \<Rightarrow> dashboard \<Rightarrow> dashboard option" where
  "open_wiki zh n s =
     (let k = err_key (err (printers s n)) in
      case Ga k of
        None \<Rightarrow> None
      | Some e \<Rightarrow>
          map_option (\<lambda>m. emit_call (PostMessage (JObj [(''command'', JStr ''common_openurl''),
              (''url'', JStr (''https://wiki.creality.com/'' @ (if zh then ''zh'' else ''en'')
                 @ ''/printers-general-documents/'' @ m))])) s)
            (if k = JNum 2839 then map_option code (Ga (JNum 116)) else Some (code e)))"

datatype button = ContinueButton | CancelButton | RetryButton | OkButton | PauseButton | StopButton | CutterButton

text \<open>The buttons of the two forms of the tip, \<open>tip\<close> and \<open>bar\<close>, from left to right.\<close>

definition shown_buttons :: "bool \<Rightarrow> printer \<Rightarrow> button list" where
  "shown_buttons bar p =
     (let k = err_key (err p); d = Yi k (deviceState p) (needs_refill p);
          in_bar = (bar \<longrightarrow> \<not> eq_num k 30000) in
      if \<not> (case to_number k of None \<Rightarrow> False | Some q \<Rightarrow> q > 0) then []
      else if needs_refill p \<and> eq_num k 2839 then []
      else (if on_continue d then [ContinueButton] else [])
         @ (if on_cancel d then [CancelButton] else [])
         @ (if on_retry d then [RetryButton] else [])
         @ (if on_ok d then [OkButton] else [])
         @ (if on_pause d = Some True \<and> in_bar then [PauseButton] else [])
         @ (if on_stop d = Some True \<and> in_bar then [StopButton] else [])
         @ (if on_cutter d = Some True then [CutterButton] else []))"

section \<open>The commands behind the buttons\<close>

text \<open>A handler returns, or throws after the changes it made.\<close>

datatype outcome = Done (after: dashboard) | Threw (after: dashboard)

definition attempt :: "dashboard \<Rightarrow> dashboard option \<Rightarrow> outcome" where
  "attempt s r = (case r of None \<Rightarrow> Threw s | Some s' \<Rightarrow> Done s')"

definition cloud_set :: "json \<Rightarrow> (string \<times> json) list \<Rightarrow> dashboard \<Rightarrow> dashboard" where
  "cloud_set e ps s = emit_call (CloudPost e (set_params ps)) s"

definition V4 :: "json \<Rightarrow> dashboard \<Rightarrow> dashboard" where
  "V4 e s = cloud_set e [(''pause'', JNum 0)] s"

definition Gte :: "json \<Rightarrow> dashboard \<Rightarrow> dashboard" where
  "Gte e s = cloud_set e [(''errorHandling'', JNum 0)] s"

definition GKe :: "json \<Rightarrow> dashboard \<Rightarrow> dashboard" where
  "GKe e s = cloud_set e [(''stop'', JNum 1)] s"

definition H4 :: "json \<Rightarrow> dashboard \<Rightarrow> dashboard" where
  "H4 e s = cloud_set e [(''cleanErr'', JNum 1)] (cloud_set e [(''errorHandling'', JNum 1)] s)"

definition clear_key :: "nat \<Rightarrow> dashboard \<Rightarrow> dashboard" where
  "clear_key n s = upd n (\<lambda>p. p\<lparr>err := (err p)\<lparr>err_key := JNum 0\<rparr>\<rparr>) s"

text \<open>A click on a button of printer \<open>n\<close>; \<open>yes\<close> is the answer to the question that cancelling
  and stopping ask.  \<open>pausePrinter\<close> and \<open>stopPrinter\<close> are declared nowhere, so calling them
  is a \<open>ReferenceError\<close>.  Cancelling does not look at the device type.\<close>

fun press :: "bool \<Rightarrow> button \<Rightarrow> nat \<Rightarrow> dashboard \<Rightarrow> outcome" where
  "press yes ContinueButton n s =
     (if deviceType (printers s n) = 1 then Done (V4 (tbId (printers s n)) s)
      else attempt s (Continue (address (printers s n)) s))"
| "press yes CancelButton n s =
     (if \<not> yes then Done s
      else let p = printers s n in
        if truthy (repoPlrStatus p) \<or> truthy (materialStatus p)
        then attempt s (CancelBrokenMaterial (address p) s)
        else case Stop (address p) s of None \<Rightarrow> Threw s | Some s1 \<Rightarrow> attempt s1 (ErrOK (address p) s1))"
| "press yes RetryButton n s =
     (if deviceType (printers s n) = 1 then Done (Gte (tbId (printers s n)) s)
      else attempt s (ErrRetry (address (printers s n)) s))"
| "press yes OkButton n s =
     (let s1 = clear_key n s in
      if deviceType (printers s n) = 1 then Done (H4 (tbId (printers s n)) s1)
      else attempt s1 (ErrOK (address (printers s n)) s1))"
| "press yes PauseButton n s =
     (if deviceType (printers s n) = 1 then Threw s
      else attempt s (Pause (address (printers s n)) s))"
| "press yes StopButton n s =
     (if \<not> yes then Done s
      else let s1 = clear_key n s in
        if deviceType (printers s n) = 1 then Threw s1
        else attempt s1 (Stop (address (printers s n)) s1))"
| "press yes CutterButton n s =
     (if deviceType (printers s n) = 1 then Done s
      else attempt s (setCutterState (address (printers s n)) s))"

text \<open>The command the window sends: its type and the printer's address.  A printer that is
  not listed is \<open>null\<close>, whose properties cannot be read.\<close>

definition HandleSendErrorCommand :: "nat \<Rightarrow> string \<Rightarrow> dashboard \<Rightarrow> outcome" where
  "HandleSendErrorCommand n a s =
     (case getPrinter a s of
        None \<Rightarrow> Threw s
      | Some o' \<Rightarrow>
          let l = tbId (printers s o'); cloud = (deviceType (printers s o') = 1) in
          if n = 0 then (if cloud then Done (V4 l s) else attempt s (Continue a s))
          else if n = 1 then (if cloud then Done (GKe l s) else attempt s (CancelBrokenMaterial a s))
          else if n = 2 then (if cloud then Done (Gte l s) else attempt s (ErrRetry a s))
          else if n = 3 then (if cloud then Done (H4 l s) else attempt s (ErrOK a s))
          else if n = 4 then (if cloud then Threw s else attempt s (Pause a s))
          else if n = 5 then (if cloud then Threw s else attempt s (Stop a s))
          else Done s)"

end
