(* ===== verification/PrinterService.thy ===== *)
theory PrinterService
  imports DeviceCommands
begin

text \<open>
  The parts of the printer manager that run on their own: opening and reopening sockets,
  the heartbeat, loading the saved groups, filling in what a printer's HTTP interface
  answers, and the filter of the view.
\<close>

section \<open>Sockets\<close>

definition reconnectWebSocket :: "nat \<Rightarrow> dashboard \<Rightarrow> dashboard" where
  "reconnectWebSocket t s =
     (let s1 = (if socket (printers s t) \<noteq> None
                then removeIdentity (address (printers s t)) (drop_socket t s) else s)
      in if socket (printers s1 t) = None then open_socket t s1 else s1)"

text \<open>\<open>isCconnecting\<close> returns \<open>this.connecting\<close>, and \<open>isReconnect\<close> is read as a property;
  the class sets neither, so both read as \<open>undefined\<close>.\<close>

definition isCconnecting :: "dm \<Rightarrow> bool" where
  "isCconnecting d = False"

definition isReconnect :: "dm \<Rightarrow> bool" where
  "isReconnect d = False"

definition initWebSocket :: "nat \<Rightarrow> dashboard \<Rightarrow> dashboard" where
  "initWebSocket t s =
     (let s1 = (case socket (printers s t) of
                  None \<Rightarrow> s
                | Some k \<Rightarrow> if \<not> isCconnecting (dms s k)
                            then removeIdentity (address (printers s t)) (drop_socket t s) else s);
          s2 = (if socket (printers s1 t) = None then open_socket t s1 else s1)
      in emit_call (HttpGet (''http://'' @ address (printers s2 t) @ '':80/info'')) s2)"

text \<open>What a printer's \<open>/info\<close> answers, when it answers at all.\<close>

record printer_info =
  info_status :: nat
  info_model :: string
  info_mac :: string

definition update_device :: "printer \<Rightarrow> call" where
  "update_device p = PostMessage (JObj [(''command'', JStr ''update_device''), (''address'', JStr (address p)),
     (''mac'', JStr (mac p)), (''model'', JStr (model p)), (''type'', JNum (of_int (type p)))])"

text \<open>\<open>x || y\<close>.\<close>

definition js_or :: "json \<Rightarrow> json \<Rightarrow> json" where
  "js_or x y = (if truthy x then x else y)"

definition preset_name :: "string \<Rightarrow> dashboard \<Rightarrow> json" where
  "preset_name m s = (case map_of (printerPreset s) m of None \<Rightarrow> JUndefined | Some p \<Rightarrow> JStr (presetName p))"

definition initWebSocket_then :: "nat \<Rightarrow> printer_info \<Rightarrow> dashboard \<Rightarrow> dashboard" where
  "initWebSocket_then t i s =
     (if info_status i = 200 \<and> mac (printers s t) \<noteq> info_mac i
      then let s1 = upd t (\<lambda>p. p\<lparr>model := info_model i, mac := info_mac i,
                       modelName := js_or (preset_name (info_model i) s) (modelName p)\<rparr>) s
           in emit_call (update_device (printers s1 t)) s1
      else s)"

definition release :: "dashboard \<Rightarrow> dashboard" where
  "release s =
     fold (\<lambda>n s. case socket (printers s n) of None \<Rightarrow> s | Some k \<Rightarrow> dm_call k dm_close s) (all_refs s) s"

section \<open>Heartbeat\<close>

text \<open>One printer of a local group.  Times are in milliseconds.\<close>

definition heartbeat_printer :: "int \<Rightarrow> nat \<Rightarrow> dashboard \<Rightarrow> dashboard" where
  "heartbeat_printer now n s =
     (let p = printers s n in
      if oldPrinter p then emit_call (PollOldPrinter n) s
      else if type p = 4 then emit_call (PollKlipper n) s
      else if \<not> online p then (if socket p = None then initWebSocket n s else s)
      else if deviceType p \<noteq> 0 then s
      else
        let a = now - timeStamp p;
            i = now - boxInfoTimeStamp p;
            s1 = (if eq_num (cfsConnect p) 1 \<and> boxInfoTimeStamp p \<noteq> - 1 \<and> i > 20 * 1000
                  then upd n (\<lambda>p. p\<lparr>boxInfoTimeStamp := now\<rparr>) (GetBoxsInfo (address p) s) else s)
        in if timeStamp p \<noteq> - 1 \<and> a > 10 * 1000
              \<or> \<not> (case socket (printers s1 n) of None \<Rightarrow> False | Some k \<Rightarrow> isReconnect (dms s1 k))
           then s1
           else if timeStamp p \<noteq> - 1 \<and> a > 5 * 1000
           then (case ReqPrintObjects (address p) s1 of None \<Rightarrow> s1 | Some s2 \<Rightarrow> s2)
           else upd n (\<lambda>p. p\<lparr>reconnectCount := 0\<rparr>) s1)"

definition heartbeat :: "int \<Rightarrow> dashboard \<Rightarrow> dashboard" where
  "heartbeat now s =
     fold (heartbeat_printer now)
       (concat (map members (filter (\<lambda>g. groupType g = 0) (printerList s)))) s"

section \<open>Loading the saved groups\<close>

record saved_device =
  connectType :: int
  sd_model :: string
  sd_mac :: string
  sd_address :: string
  sd_name :: "string option"
  sd_oldPrinter :: bool
  sd_moonrakerPort :: rat   \<comment> \<open>0 when absent\<close>
  sd_fluiddPort :: json
  sd_mainsailPort :: json

record saved_group =
  sg_group :: string
  sg_list :: "saved_device list option"

definition lan_device :: "saved_device \<Rightarrow> new_device" where
  "lan_device i = \<lparr>
     d_model = (if sd_model i = ''K1Max'' then ''K1 Max'' else sd_model i), d_mac = sd_mac i,
     d_name = sd_name i, d_address = sd_address i, d_type = connectType i, d_online = False,
     d_socket = None, d_deviceType = None, d_oldPrinter = sd_oldPrinter i,
     d_props = (''moonrakerPort'', JNum (sd_moonrakerPort i)) #
       (if sd_moonrakerPort i > 0
        then [(''fluiddPort'', sd_fluiddPort i), (''mainsailPort'', sd_mainsailPort i)] else []) \<rparr>"

definition cloud_device :: "saved_device \<Rightarrow> new_device" where
  "cloud_device i = \<lparr>
     d_model = sd_model i, d_mac = sd_mac i,
     d_name = (case sd_name i of None \<Rightarrow> Some (sd_model i) | Some [] \<Rightarrow> Some (sd_model i) | Some n \<Rightarrow> Some n),
     d_address = sd_address i, d_type = connectType i, d_online = True, d_socket = None,
     d_deviceType = Some (connectType i), d_oldPrinter = False, d_props = [] \<rparr>"

definition init_device :: "string \<Rightarrow> saved_device \<Rightarrow> dashboard \<Rightarrow> dashboard" where
  "init_device a i s =
     (if connectType i = 3 \<or> connectType i = 4
      then (if isPrinterExist (sd_address i) s then s else addPrinter (lan_device i) a True s)
      else if connectType i = 1001 \<and> \<not> isPrinterExist (sd_address i) s
      then addPrinter (cloud_device i) a True s
      else s)"

definition init_group :: "saved_group \<Rightarrow> dashboard \<Rightarrow> dashboard" where
  "init_group n s =
     (let a = sg_group n;
          s1 = (if isGroupExist a s then s else addGroup a 0 s)
      in case sg_list n of None \<Rightarrow> s1 | Some ds \<Rightarrow> fold (init_device a) ds s1)"

definition init :: "int \<Rightarrow> string option \<Rightarrow> saved_group list \<Rightarrow> dashboard \<Rightarrow> dashboard" where
  "init now current gs s =
     heartbeat now (fold init_group gs
       (case current of None \<Rightarrow> s | Some m \<Rightarrow> setCurrentActivePrinterMac m s))"

section \<open>Adding a printer by its address\<close>

definition addPrinterFormIp :: "string \<Rightarrow> dashboard \<Rightarrow> dashboard" where
  "addPrinterFormIp t s =
     (if isPrinterExist t s then s else emit_call (HttpGet (''http://'' @ t @ '':80/info'')) s)"

text \<open>The answer: only a printer with the expected mac is added.  One that is listed in a
  local group under another address gets the new address and a new socket.\<close>

definition addPrinterFormIp_then ::
  "string \<Rightarrow> string \<Rightarrow> string option \<Rightarrow> string \<Rightarrow> printer_info \<Rightarrow> dashboard \<Rightarrow> dashboard" where
  "addPrinterFormIp_then t r n a i s =
     (if info_mac i \<noteq> r then s
      else case getPrinter_in r True 0 s of
             Some q \<Rightarrow>
               let s1 = upd q (\<lambda>p. p\<lparr>address := t\<rparr>) s;
                   s2 = reconnectWebSocket q (drop_socket q s1)
               in emit_call (update_device (printers s2 q)) s2
           | None \<Rightarrow>
               let k = nextDm s;
                   s1 = dm_call k dm_init (s\<lparr>dms := (dms s)(k := new_Dm t), nextDm := Suc k\<rparr>);
                   l = \<lparr>d_model = info_model i, d_mac = info_mac i, d_name = n, d_address = t,
                        d_type = 3, d_online = True, d_socket = Some k, d_deviceType = None,
                        d_oldPrinter = False, d_props = []\<rparr>
               in emit_call (PostMessage (JObj [(''command'', JStr ''add_device''), (''address'', JStr t),
                    (''mac'', JStr (info_mac i)), (''model'', JStr (info_model i)), (''type'', JNum 3),
                    (''group'', JStr a), (''oldPrinter'', JBool False)]))
                    (addPrinter l a False s1))"

section \<open>The filter\<close>

text \<open>\<open>parseInt\<close>: the integer a value starts with.\<close>

fun parse_int :: "json \<Rightarrow> int option" where
  "parse_int (JNum q) = Some (if q < 0 then - \<lfloor>- q\<rfloor> else \<lfloor>q\<rfloor>)"
| "parse_int (JStr t) =
     (let u = dropWhile (\<lambda>c. c = CHR '' '') t;
          (neg, v) = (case u of [] \<Rightarrow> (False, []) | c # cs \<Rightarrow>
             if c = CHR ''-'' then (True, cs) else if c = CHR ''+'' then (False, cs) else (False, u))
      in case v of
           [] \<Rightarrow> None
         | c # _ \<Rightarrow> if char_digit c = None then None
                   else Some ((if neg then - 1 else 1) * int (fst (read_digits 0 v))))"
| "parse_int _ = None"

text \<open>\<open>v != null && v.includes(a)\<close> for the texts of a printer.\<close>

definition text_includes :: "string \<Rightarrow> json \<Rightarrow> bool" where
  "text_includes a v = (case v of JStr t \<Rightarrow> sublist a t | _ \<Rightarrow> False)"

definition opt_includes :: "string \<Rightarrow> string option \<Rightarrow> bool" where
  "opt_includes a v = (case v of None \<Rightarrow> False | Some t \<Rightarrow> sublist a t)"

definition shown :: "int option \<Rightarrow> int option \<Rightarrow> string \<Rightarrow> printer \<Rightarrow> bool" where
  "shown r n a p \<longleftrightarrow>
     (case r of None \<Rightarrow> True | Some k \<Rightarrow> parse_int (deviceState p) = Some k)
     \<and> (case n of None \<Rightarrow> True | Some k \<Rightarrow> type p = k)
     \<and> (opt_includes a (name p) \<or> sublist a (address p) \<or> text_includes a (printFileName p)
        \<or> opt_includes a (identity p))"

definition setFilter :: "string \<Rightarrow> int option \<Rightarrow> int option \<Rightarrow> string \<Rightarrow> dashboard \<Rightarrow> dashboard" where
  "setFilter t r n a s =
     (let hit = (\<lambda>g. group g = t \<or> t = ''*'');
          s1 = s\<lparr>view := \<lparr>groupName = t, filterDeviceState = r, filterDeviceType = n, filterText = a\<rparr>,
                 printerList := map (\<lambda>g. if hit g then g\<lparr>groupVisable := True\<rparr> else g) (printerList s)\<rparr>
      in fold (\<lambda>m. upd m (\<lambda>p. p\<lparr>visable := shown r n a p\<rparr>))
           (concat (map members (filter hit (printerList s1)))) s1)"

end
