(* ===== verification/PrinterLemmas.thy ===== *)
theory PrinterLemmas
  imports PrinterService "HOL-Library.Multiset"
begin

text \<open>
  What each operation of the printer manager leaves alone, and the contract the markers
  share: they change one field of the first printer with an address and nothing else.
\<close>

section \<open>Frames\<close>

lemma upd_fields [simp]:
  "printers (upd n f s) = (printers s)(n := f (printers s n))" "all_refs (upd n f s) = all_refs s"
  "calls (upd n f s) = calls s" "dms (upd n f s) = dms s" "nextPrinter (upd n f s) = nextPrinter s"
  "nextDm (upd n f s) = nextDm s" "printerPreset (upd n f s) = printerPreset s"
  "view (upd n f s) = view s" "currentActivePrinterMac (upd n f s) = currentActivePrinterMac s"
  by (simp_all add: upd_def all_refs_def)

lemma dm_call_fields [simp]:
  "printers (dm_call k g s) = printers s" "all_refs (dm_call k g s) = all_refs s"
  "nextPrinter (dm_call k g s) = nextPrinter s" "nextDm (dm_call k g s) = nextDm s"
  "calls (dm_call k g s) = calls s @ map (DmCall k) (snd (g (dms s k)))"
  "dms (dm_call k g s) = (dms s)(k := fst (g (dms s k)))"
  by (simp_all add: dm_call_def all_refs_def)

lemma dm_send_fields [simp]:
  "fst (dm_send k m s) = fst (dm_sendMsg m (dms s k))"
  "printers (snd (dm_send k m s)) = printers s" "printerList (snd (dm_send k m s)) = printerList s"
  "all_refs (snd (dm_send k m s)) = all_refs s" "dms (snd (dm_send k m s)) = dms s"
  "nextPrinter (snd (dm_send k m s)) = nextPrinter s" "nextDm (snd (dm_send k m s)) = nextDm s"
  "calls (snd (dm_send k m s)) = calls s @ map (DmCall k) (snd (dm_sendMsg m (dms s k)))"
  by (simp_all add: dm_send_def all_refs_def)

lemma emit_call_fields [simp]:
  "printers (emit_call c s) = printers s" "printerList (emit_call c s) = printerList s"
  "all_refs (emit_call c s) = all_refs s" "calls (emit_call c s) = calls s @ [c]"
  "dms (emit_call c s) = dms s" "nextPrinter (emit_call c s) = nextPrinter s" "nextDm (emit_call c s) = nextDm s"
  by (simp_all add: emit_call_def all_refs_def)

lemma drop_socket_fields [simp]:
  "printers (drop_socket n s) = (printers s)(n := (printers s n)\<lparr>socket := None\<rparr>)"
  "all_refs (drop_socket n s) = all_refs s" "nextPrinter (drop_socket n s) = nextPrinter s"
  "nextDm (drop_socket n s) = nextDm s"
  by (auto simp: drop_socket_def fun_eq_iff split: option.split)

lemma open_socket_fields [simp]:
  "printers (open_socket n s) = (printers s)(n := (printers s n)\<lparr>socket := Some (nextDm s)\<rparr>)"
  "printerList (open_socket n s) = printerList s" "all_refs (open_socket n s) = all_refs s"
  "nextPrinter (open_socket n s) = nextPrinter s" "nextDm (open_socket n s) = Suc (nextDm s)"
  by (simp_all add: open_socket_def Let_def) (simp_all add: upd_def dm_call_def all_refs_def)

text \<open>A fold of one update over a list of printers: the update is applied to each of them
  (however often it is listed, as long as applying it again changes nothing).\<close>

lemma fold_upd:
  assumes "\<And>p. f (f p) = f p"
  shows "printers (fold (\<lambda>n. upd n f) ns s) m = (if m \<in> set ns then f (printers s m) else printers s m)"
proof (induction ns arbitrary: s)
  case (Cons n ns)
  then show ?case using assms by simp
qed simp

lemma fold_upd_frame [simp]:
  "all_refs (fold (\<lambda>n. upd n f) ns s) = all_refs s" "calls (fold (\<lambda>n. upd n f) ns s) = calls s"
  "dms (fold (\<lambda>n. upd n f) ns s) = dms s" "nextPrinter (fold (\<lambda>n. upd n f) ns s) = nextPrinter s"
  "nextDm (fold (\<lambda>n. upd n f) ns s) = nextDm s" "printerList (fold (\<lambda>n. upd n f) ns s) = printerList s"
  by (induction ns arbitrary: s) simp_all

lemma update_all_frame [simp]:
  "all_refs (update_all f s) = all_refs s" "calls (update_all f s) = calls s"
  "dms (update_all f s) = dms s" "nextPrinter (update_all f s) = nextPrinter s"
  "nextDm (update_all f s) = nextDm s"
  by (simp_all add: update_all_def)

lemma removeIdentity_fields [simp]:
  "printers (removeIdentity t s) = (\<lambda>n. if n \<in> set (all_refs s) \<and> identity (printers s n) = Some t
     then (printers s n)\<lparr>identity := None\<rparr> else printers s n)"
  "all_refs (removeIdentity t s) = all_refs s" "calls (removeIdentity t s) = calls s"
  "dms (removeIdentity t s) = dms s" "nextPrinter (removeIdentity t s) = nextPrinter s"
  "nextDm (removeIdentity t s) = nextDm s"
  by (simp_all add: removeIdentity_def update_all_def fold_upd fun_eq_iff)

section \<open>Finding\<close>

lemma find_Some_in: "List.find P xs = Some x \<Longrightarrow> x \<in> set xs \<and> P x"
  by (induction xs) (auto split: if_splits)

lemma find_None_all: "List.find P xs = None \<longleftrightarrow> (\<forall>x \<in> set xs. \<not> P x)"
  by (induction xs) auto

lemma find_cong_on: "(\<And>x. x \<in> set xs \<Longrightarrow> P x = Q x) \<Longrightarrow> List.find P xs = List.find Q xs"
  by (induction xs) auto

lemma find_ref_Some: "find_ref P s = Some n \<Longrightarrow> n \<in> set (all_refs s) \<and> P (printers s n)"
  by (auto simp: find_ref_def dest: find_Some_in)

lemma find_ref_None: "find_ref P s = None \<longleftrightarrow> (\<forall>n \<in> set (all_refs s). \<not> P (printers s n))"
  by (simp add: find_ref_def find_None_all)

lemma getPrinter_find_ref: "getPrinter t s = find_ref (has_address t) s"
  by (simp add: getPrinter_def getPrinter_in_def find_ref_def has_address_def all_refs_def)

lemma isPrinterExist_iff: "isPrinterExist t s \<longleftrightarrow> getPrinter t s \<noteq> None"
  by (auto simp: isPrinterExist_def getPrinter_find_ref find_ref_None has_address_def list_ex_iff)

lemma index_where_Some: "index_where P xs = Some i \<Longrightarrow> i < length xs \<and> P (xs ! i) \<and> (\<forall>j < i. \<not> P (xs ! j))"
proof (induction xs arbitrary: i)
  case (Cons x xs)
  then show ?case by (cases i) (auto split: if_splits simp: less_Suc_eq_0_disj)
qed simp

lemma index_where_None: "index_where P xs = None \<longleftrightarrow> (\<forall>x \<in> set xs. \<not> P x)"
  by (induction xs) auto

lemma last_index_where_Some:
  assumes "last_index_where P xs = Some i"
  shows "i < length xs \<and> P (xs ! i)"
proof -
  obtain k where k: "index_where P (rev xs) = Some k" "i = length xs - Suc k"
    using assms by (auto simp: last_index_where_def)
  from index_where_Some [OF k(1)] k(2) show ?thesis
    by (auto simp: rev_nth)
qed

lemma last_index_where_None: "last_index_where P xs = None \<longleftrightarrow> (\<forall>x \<in> set xs. \<not> P x)"
  by (simp add: last_index_where_def index_where_None)

section \<open>Marking one printer\<close>

locale marker =
  fixes mark :: "string \<Rightarrow> 'v \<Rightarrow> dashboard \<Rightarrow> dashboard" and seen :: "printer \<Rightarrow> 'v"
    and put :: "'v \<Rightarrow> printer \<Rightarrow> printer"
  assumes mark_is: "mark t v s = update_at t (put v) s"
    and seen_put: "seen (put v p) = v"
    and put_put: "put v (put w p) = put v p"
    and put_address: "address (put v p) = address p" and put_identity: "identity (put v p) = identity p"
    and put_socket: "socket (put v p) = socket p" and put_online: "online (put v p) = online p"
begin

lemma refs: "all_refs (mark t v s) = all_refs s"
  by (simp add: mark_is update_at_def split: option.split)

lemma address_same: "address (printers (mark t v s) n) = address (printers s n)"
  by (simp add: mark_is update_at_def put_address split: option.split)

lemma finds_same: "getPrinter t' (mark t v s) = getPrinter t' s"
  by (simp add: getPrinter_find_ref find_ref_def has_address_def refs address_same)

text \<open>The printer that is found afterwards shows the value; every other keeps its own.\<close>

lemma marked: "getPrinter t s = Some n \<Longrightarrow> seen (printers (mark t v s) n) = v"
  by (simp add: mark_is update_at_def getPrinter_find_ref seen_put)

lemma others: "getPrinter t s \<noteq> Some n \<Longrightarrow> printers (mark t v s) n = printers s n"
  by (auto simp: mark_is update_at_def getPrinter_find_ref split: option.split)

lemma last_mark_wins: "mark t v (mark t w s) = mark t v s"
proof (cases "getPrinter t s")
  case None
  then show ?thesis by (simp add: mark_is update_at_def getPrinter_find_ref)
next
  case (Some n)
  then have "find_ref (has_address t) (mark t w s) = Some n" "find_ref (has_address t) s = Some n"
    using finds_same by (simp_all add: getPrinter_find_ref)
  then show ?thesis
    by (simp add: mark_is update_at_def) (simp add: upd_def put_put)
qed

lemma frame: "calls (mark t v s) = calls s" "dms (mark t v s) = dms s" "printerList (mark t v s) = printerList s"
  "socket (printers (mark t v s) n) = socket (printers s n)" "online (printers (mark t v s) n) = online (printers s n)"
  "identity (printers (mark t v s) n) = identity (printers s n)"
  by (simp_all add: mark_is update_at_def put_socket put_online put_identity split: option.split)

end

interpretation set_name: marker setPrinterName "\<lambda>p. the (name p)" "\<lambda>v p. p\<lparr>name := Some v\<rparr>"
  by unfold_locales (simp_all add: setPrinterName_def)

interpretation set_cfs: marker setPrinterCFSOpenState openCFS "\<lambda>v p. p\<lparr>openCFS := v\<rparr>"
  by unfold_locales (simp_all add: setPrinterCFSOpenState_def)

interpretation set_calibration: marker setPrinterCalibration printCalibration "\<lambda>v p. p\<lparr>printCalibration := v\<rparr>"
  by unfold_locales (simp_all add: setPrinterCalibration_def)

interpretation set_related: marker setPrinterRelateToAccountState isRelatedToAccount "\<lambda>v p. p\<lparr>isRelatedToAccount := v\<rparr>"
  by unfold_locales (simp_all add: setPrinterRelateToAccountState_def)

end
