(* ===== verification/PrinterListing.thy ===== *)
theory PrinterListing
  imports PrinterLemmas
begin

text \<open>
  The listing: which printer is in which group.  Every operation of the manager is one
  constructor of \<open>manager_op\<close>; a printer object stands at one place at most as long as none of
  them moves a printer within its own group.
\<close>

section \<open>Operations\<close>

datatype manager_op =
    AddPrinter new_device string bool
  | RemovePrinter string bool
  | SetPrinterOffline string
  | SetPrinterOnline int string
  | SetPrinterName string string
  | SetPrinterCFSOpenState string bool
  | SetPrinterCalibration string bool
  | SetPrinterRelateToAccountState string bool
  | UpdatePrinterRelateToAccountState "string list option"
  | ClearPrinterStateOnShow
  | ClearOnePrinterState string
  | SetPrinterCurrentDeviceByMac string
  | AddGroup string int
  | SortGroup "string list"
  | MoveToGroup string string string
  | Remove2FirstGroup string
  | RemoveGroup string bool
  | SetGroupName string string
  | SetFilter string "int option" "int option" string
  | ReconnectWebSocket nat
  | InitWebSocket_then nat printer_info
  | Heartbeat int
  | Init int "string option" "saved_group list"
  | AddPrinterFormIp string
  | AddPrinterFormIp_then string string "string option" string printer_info
  | Release

fun apply_op :: "manager_op \<Rightarrow> dashboard \<Rightarrow> dashboard" where
  "apply_op (AddPrinter t r back) s = addPrinter t r back s"
| "apply_op (RemovePrinter t keep) s = snd (removePrinter t keep s)"
| "apply_op (SetPrinterOffline t) s = setPrinterOffline t s"
| "apply_op (SetPrinterOnline now t) s = setPrinterOnline now t s"
| "apply_op (SetPrinterName t r) s = setPrinterName t r s"
| "apply_op (SetPrinterCFSOpenState t r) s = setPrinterCFSOpenState t r s"
| "apply_op (SetPrinterCalibration t r) s = setPrinterCalibration t r s"
| "apply_op (SetPrinterRelateToAccountState t r) s = setPrinterRelateToAccountState t r s"
| "apply_op (UpdatePrinterRelateToAccountState ms) s = updatePrinterRelateToAccountState ms s"
| "apply_op ClearPrinterStateOnShow s = clearPrinterStateOnShow s"
| "apply_op (ClearOnePrinterState t) s = clearOnePrinterState t s"
| "apply_op (SetPrinterCurrentDeviceByMac t) s = setPrinterCurrentDeviceByMac t s"
| "apply_op (AddGroup t r) s = addGroup t r s"
| "apply_op (SortGroup t) s = sortGroup t s"
| "apply_op (MoveToGroup t r n) s = moveToGroup t r n s"
| "apply_op (Remove2FirstGroup t) s = (case remove2FirstGroup t s of None \<Rightarrow> s | Some s' \<Rightarrow> s')"
| "apply_op (RemoveGroup t keep) s = removeGroup t keep s"
| "apply_op (SetGroupName t r) s = setGroupName t r s"
| "apply_op (SetFilter t r n a) s = setFilter t r n a s"
| "apply_op (ReconnectWebSocket n) s = reconnectWebSocket n s"
| "apply_op (InitWebSocket_then n i) s = initWebSocket_then n i s"
| "apply_op (Heartbeat now) s = heartbeat now s"
| "apply_op (Init now current gs) s = init now current gs s"
| "apply_op (AddPrinterFormIp t) s = addPrinterFormIp t s"
| "apply_op (AddPrinterFormIp_then t r n a i) s = addPrinterFormIp_then t r n a i s"
| "apply_op Release s = release s"

text \<open>The store before \<open>init\<close>.\<close>

definition empty_dashboard :: "printer \<Rightarrow> dm \<Rightarrow> dashboard" where
  "empty_dashboard p d = \<lparr>
     view = \<lparr>groupName = ''*'', filterDeviceState = None, filterDeviceType = None, filterText = []\<rparr>,
     currentActivePrinterMac = [], mergeState = True, printerList = [], printerPreset = [],
     printers = (\<lambda>_. p), nextPrinter = 0, dms = (\<lambda>_. d), nextDm = 0, calls = []\<rparr>"

section \<open>Operations that leave the listing alone\<close>

text \<open>The listing is the lists of the groups and the number of printers made so far.\<close>

definition listing :: "dashboard \<Rightarrow> nat list \<times> nat" where
  "listing s = (all_refs s, nextPrinter s)"

lemma fold_frame: "(\<And>n s. g (f n s) = g s) \<Longrightarrow> g (fold f ns s) = g s"
  by (induction ns arbitrary: s) simp_all

lemma listing_basic [simp]:
  "listing (upd n f s) = listing s" "listing (dm_call k g s) = listing s"
  "listing (snd (dm_send k m s)) = listing s" "listing (emit_call c s) = listing s"
  "listing (drop_socket n s) = listing s" "listing (open_socket n s) = listing s"
  "listing (removeIdentity t s) = listing s" "listing (update_all f s) = listing s"
  "listing (setCurrentActivePrinterMac t s) = listing s"
  by (simp_all add: listing_def setCurrentActivePrinterMac_def) (simp_all add: all_refs_def)

lemma listing_update_at [simp]: "listing (update_at t f s) = listing s"
  by (simp add: update_at_def split: option.split)

lemma listing_addIdentity [simp]: "listing (addIdentity t s) = listing s"
  unfolding addIdentity_def by (rule fold_frame) simp

lemma listing_ReqInit [simp]: "listing (ReqInit t s) = listing s"
  by (simp add: ReqInit_def split: option.split)

lemma listing_send [simp]: "listing (send_if_connected n m s) = listing s"
  by (simp add: send_if_connected_def split: option.split)

lemma listing_command: "command t m s = Some s' \<Longrightarrow> listing s' = listing s"
  by (auto simp: command_def)

lemma listing_marks [simp]:
  "listing (setPrinterName t r s) = listing s" "listing (setPrinterCFSOpenState t b s) = listing s"
  "listing (setPrinterCalibration t b s) = listing s" "listing (setPrinterRelateToAccountState t b s) = listing s"
  "listing (clearOnePrinterState t s) = listing s" "listing (clearPrinterStateOnShow s) = listing s"
  "listing (updatePrinterRelateToAccountState ms s) = listing s" "listing (setPrinterOffline t s) = listing s"
  "listing (setPrinterOnline now t s) = listing s"
  by (simp_all add: setPrinterName_def setPrinterCFSOpenState_def setPrinterCalibration_def
      setPrinterRelateToAccountState_def clearOnePrinterState_def clearPrinterStateOnShow_def
      updatePrinterRelateToAccountState_def clearAllPrinterRelateToAccountState_def setPrinterOffline_def
      setPrinterOnline_def Let_def split: option.split list.split)

lemma listing_current [simp]: "listing (setPrinterCurrentDeviceByMac t s) = listing s"
  unfolding setPrinterCurrentDeviceByMac_def by (rule fold_frame) simp

lemma listing_sockets [simp]:
  "listing (reconnectWebSocket n s) = listing s" "listing (initWebSocket n s) = listing s"
  "listing (initWebSocket_then n i s) = listing s"
  by (simp_all add: reconnectWebSocket_def initWebSocket_def initWebSocket_then_def Let_def split: option.split)

lemma listing_release [simp]: "listing (release s) = listing s"
  unfolding release_def by (rule fold_frame) (simp split: option.split)

lemma listing_heartbeat_printer: "listing (heartbeat_printer now n s) = listing s"
proof -
  have boxs: "listing (GetBoxsInfo t s) = listing s" for t
    by (simp add: GetBoxsInfo_def split: option.split)
  show ?thesis
    by (simp add: heartbeat_printer_def Let_def isReconnect_def boxs split: option.split)
qed

lemma listing_heartbeat [simp]: "listing (heartbeat now s) = listing s"
  unfolding heartbeat_def by (rule fold_frame) (rule listing_heartbeat_printer)

lemma listing_setFilter [simp]: "listing (setFilter t r n a s) = listing s"
proof -
  let ?hit = "\<lambda>g. group g = t \<or> t = ''*''"
  have map: "map members (map (\<lambda>g. if ?hit g then g\<lparr>groupVisable := True\<rparr> else g) gs) = map members gs" for gs
    by (induction gs) auto
  have "listing (s\<lparr>view := v, printerList := map (\<lambda>g. if ?hit g then g\<lparr>groupVisable := True\<rparr> else g) (printerList s)\<rparr>)
      = listing s" for v
    by (simp add: listing_def all_refs_def map del: map_map)
  then show ?thesis
    unfolding setFilter_def Let_def by (subst fold_frame) simp_all
qed

section \<open>The listing of the group operations\<close>

definition listed_once :: "dashboard \<Rightarrow> bool" where
  "listed_once s \<longleftrightarrow> distinct (all_refs s) \<and> (\<forall>n \<in> set (all_refs s). n < nextPrinter s)"

lemma listed_once_same: "listing s' = listing s \<Longrightarrow> listed_once s' = listed_once s"
  by (simp add: listing_def listed_once_def)

lemma distinct_submset:
  assumes "mset ys \<subseteq># mset xs" and "distinct xs"
  shows "distinct ys"
proof -
  have "count (mset ys) x \<le> 1" for x
  proof -
    have "count (mset xs) x \<le> 1"
      using assms(2) by (metis distinct_count_atmost_1 le_refl zero_le)
    with mset_subset_eq_count [OF assms(1), of x] show ?thesis by simp
  qed
  then show ?thesis
    unfolding distinct_count_atmost_1 by (metis One_nat_def count_mset_0_iff le_Suc_eq le_zero_eq)
qed

lemma listed_once_mset:
  assumes "listed_once s" and "mset (all_refs s') \<subseteq># mset (all_refs s)" and "nextPrinter s' = nextPrinter s"
  shows "listed_once s'"
proof -
  have "distinct (all_refs s')"
    using assms(1) distinct_submset [OF assms(2)] by (simp add: listed_once_def)
  with assms show ?thesis
    by (auto simp: listed_once_def dest: mset_subset_eqD)
qed

lemma all_refs_split:
  assumes "i < length (printerList s)"
  shows "all_refs s = concat (map members (take i (printerList s))) @ members (printerList s ! i)
     @ concat (map members (drop (Suc i) (printerList s)))"
proof -
  have "printerList s = take i (printerList s) @ printerList s ! i # drop (Suc i) (printerList s)"
    using assms by (rule id_take_nth_drop)
  then have "map members (printerList s)
      = map members (take i (printerList s) @ printerList s ! i # drop (Suc i) (printerList s))" by simp
  then show ?thesis by (simp add: all_refs_def)
qed

lemma set_members_fields [simp]:
  "length (printerList (set_members i f s)) = length (printerList s)"
  "nextPrinter (set_members i f s) = nextPrinter s" "printers (set_members i f s) = printers s"
  "calls (set_members i f s) = calls s" "dms (set_members i f s) = dms s"
  by (simp_all add: set_members_def Let_def)

lemma set_members_group [simp]:
  "j < length (printerList s) \<Longrightarrow> group (printerList (set_members i f s) ! j) = group (printerList s ! j)"
  "i < length (printerList s) \<Longrightarrow> members (printerList (set_members i f s) ! i) = f (members (printerList s ! i))"
  "j \<noteq> i \<Longrightarrow> printerList (set_members i f s) ! j = printerList s ! j"
  by (cases "i = j"; simp add: set_members_def Let_def)+

lemma all_refs_set_members:
  assumes "i < length (printerList s)"
  shows "all_refs (set_members i f s) = concat (map members (take i (printerList s)))
     @ f (members (printerList s ! i)) @ concat (map members (drop (Suc i) (printerList s)))"
proof -
  have "take i (printerList (set_members i f s)) = take i (printerList s)"
    "drop (Suc i) (printerList (set_members i f s)) = drop (Suc i) (printerList s)"
    by (simp_all add: set_members_def Let_def)
  with all_refs_split [of i "set_members i f s"] assms show ?thesis by simp
qed

lemma mset_set_members_le:
  assumes "i < length (printerList s)"
    and "mset (f (members (printerList s ! i))) \<subseteq># mset (members (printerList s ! i))"
  shows "mset (all_refs (set_members i f s)) \<subseteq># mset (all_refs s)"
  using assms by (simp add: all_refs_set_members all_refs_split [of i s])

lemma mset_remove_at: "l < length xs \<Longrightarrow> add_mset (xs ! l) (mset (remove_at l xs)) = mset xs"
proof -
  assume "l < length xs"
  then have "mset xs = mset (take l xs @ xs ! l # drop (Suc l) xs)" by (metis id_take_nth_drop)
  then show ?thesis by (simp add: remove_at_def)
qed

lemma mset_remove_at_le: "l < length xs \<Longrightarrow> mset (remove_at l xs) \<subseteq># mset xs"
  by (metis add_mset_add_single mset_remove_at mset_subset_eq_add_left)

text \<open>Moving between two groups keeps every printer listed, each where it was listed once.\<close>

lemma mset_moveToGroup:
  assumes "t \<noteq> n"
  shows "mset (all_refs (moveToGroup t r n s)) = mset (all_refs s)"
proof (cases "last_index_where (\<lambda>g. group g = t) (printerList s)")
  case (Some i)
  note i = this
  let ?here = "\<lambda>m. address (printers s m) = r"
  show ?thesis
  proof (cases "index_where ?here (members (printerList s ! i))")
    case (Some l)
    note l = this
    show ?thesis
    proof (cases "last_index_where (\<lambda>g. group g = n) (printerList s)")
      case (Some o1)
      let ?m = "members (printerList s ! i)" and ?a = "members (printerList s ! i) ! l"
      let ?s1 = "set_members o1 ((#) ?a) s"
      have io: "i < length (printerList s)" "o1 < length (printerList s)" "i \<noteq> o1"
        using last_index_where_Some [OF i] last_index_where_Some [OF Some] assms by auto
      have "mset (all_refs ?s1) = add_mset ?a (mset (all_refs s))"
        using io by (simp add: all_refs_set_members all_refs_split [of o1 s])
      moreover have "add_mset ?a (mset (all_refs (set_members i (remove_at l) ?s1))) = mset (all_refs ?s1)"
      proof -
        have "members (printerList ?s1 ! i) = ?m" using io by simp
        moreover have "add_mset ?a (mset (remove_at l ?m)) = mset ?m"
          using index_where_Some [OF l] by (simp add: mset_remove_at)
        ultimately show ?thesis
          using io by (simp add: all_refs_set_members [of i ?s1] all_refs_split [of i ?s1])
      qed
      moreover have "moveToGroup t r n s = set_members i (remove_at l) ?s1"
        using i l Some by (simp add: moveToGroup_def)
      ultimately show ?thesis by simp
    qed (simp add: moveToGroup_def i l)
  qed (simp add: moveToGroup_def i)
qed (simp add: moveToGroup_def)

lemma nextPrinter_moveToGroup: "nextPrinter (moveToGroup t r n s) = nextPrinter s"
  by (simp add: moveToGroup_def Let_def split: option.split)

section \<open>Removing groups\<close>

lemma listing_drop_group_frame [simp]:
  "nextPrinter (close_members ms s) = nextPrinter s"
proof (induction ms arbitrary: s)
  case (Cons m ms)
  then show ?case by (simp add: close_members_def)
qed (simp add: close_members_def)

lemma all_refs_printerList: "printerList s' = printerList s \<Longrightarrow> all_refs s' = all_refs s"
  by (simp add: all_refs_def)

lemma mset_concat_remove_at:
  "k < length gs \<Longrightarrow> mset (concat (map members (remove_at k gs))) + mset (members (gs ! k)) = mset (concat (map members gs))"
proof -
  assume "k < length gs"
  then have "gs = take k gs @ gs ! k # drop (Suc k) gs" by (rule id_take_nth_drop)
  then have "mset (concat (map members gs)) = mset (concat (map members (take k gs @ gs ! k # drop (Suc k) gs)))"
    by simp
  then show ?thesis by (simp add: remove_at_def)
qed

lemma mset_remove_at_sub:
  "k < length gs \<Longrightarrow> mset (concat (map members (remove_at k gs))) \<subseteq># mset (concat (map members gs))"
  by (metis mset_concat_remove_at mset_subset_eq_add_left)

lemma mset_removeGroup_from: "mset (all_refs (removeGroup_from t keep k s)) \<subseteq># mset (all_refs s)"
proof (induction t keep k s rule: removeGroup_from.induct)
  case (1 t keep k s)
  show ?case
  proof (cases "k < length (printerList s)")
    case True
    let ?s1 = "if group (printerList s ! k) = t then close_members (members (printerList s ! k)) s else s"
    let ?s2 = "if group (printerList s ! k) = t \<and> \<not> keep
      then ?s1\<lparr>printerList := remove_at k (printerList ?s1)\<rparr> else ?s1"
    have "mset (all_refs ?s2) \<subseteq># mset (all_refs s)"
      using mset_remove_at_sub [OF True] by (simp add: all_refs_def)
    moreover have "mset (all_refs (removeGroup_from t keep (Suc k) ?s2)) \<subseteq># mset (all_refs ?s2)"
      using "1.IH" [OF True refl refl refl] .
    ultimately show ?thesis
      using True by (subst removeGroup_from.simps) (simp add: Let_def)
  qed (subst removeGroup_from.simps, simp)
qed

lemma nextPrinter_removeGroup_from [simp]: "nextPrinter (removeGroup_from t keep k s) = nextPrinter s"
proof (induction t keep k s rule: removeGroup_from.induct)
  case (1 t keep k s)
  then show ?case by (subst removeGroup_from.simps) (simp add: Let_def)
qed

text \<open>The first group with the name is always removed.\<close>

lemma mset_removeGroup_first:
  assumes "j < length (printerList s)" and "group (printerList s ! j) = t" and "k \<le> j"
    and "\<forall>i < j. group (printerList s ! i) \<noteq> t"
  shows "mset (all_refs (removeGroup_from t False k s)) + mset (members (printerList s ! j)) \<subseteq># mset (all_refs s)"
  using assms(3)
proof (induction "j - k" arbitrary: k)
  case 0
  then have k: "k = j" by simp
  let ?s1 = "close_members (members (printerList s ! j)) s"
  let ?s2 = "?s1\<lparr>printerList := remove_at j (printerList ?s1)\<rparr>"
  have "mset (all_refs (removeGroup_from t False (Suc j) ?s2)) \<subseteq># mset (all_refs ?s2)"
    by (rule mset_removeGroup_from)
  moreover have "mset (all_refs ?s2) + mset (members (printerList s ! j)) = mset (all_refs s)"
    using mset_concat_remove_at [OF assms(1)] by (simp add: all_refs_def)
  moreover have "removeGroup_from t False k s = removeGroup_from t False (Suc j) ?s2"
    using assms(1,2) k by (subst removeGroup_from.simps) (simp add: Let_def)
  ultimately show ?case by (metis mset_subset_eq_mono_add_right_cancel)
next
  case (Suc d)
  then have "k < j" by simp
  with assms(4) have "group (printerList s ! k) \<noteq> t" by blast
  then have "removeGroup_from t False k s = removeGroup_from t False (Suc k) s"
    using \<open>k < j\<close> assms(1) by (subst removeGroup_from.simps) (simp add: Let_def)
  with Suc \<open>k < j\<close> show ?case by simp
qed

lemma find_index_where:
  "List.find P xs = Some x \<Longrightarrow> \<exists>j. j < length xs \<and> xs ! j = x \<and> P x \<and> (\<forall>i < j. \<not> P (xs ! i))"
proof (induction xs)
  case (Cons y ys)
  show ?case
  proof (cases "P y")
    case True
    with Cons.prems show ?thesis by (intro exI [of _ 0]) auto
  next
    case False
    with Cons obtain j where "j < length ys" "ys ! j = x" "P x" "\<forall>i < j. \<not> P (ys ! i)" by auto
    with False show ?thesis
      by (intro exI [of _ "Suc j"]) (auto simp: less_Suc_eq_0_disj)
  qed
qed simp

text \<open>Merging a group into another loses no printer and doubles none.\<close>

lemma mset_remove2FirstGroup:
  assumes "remove2FirstGroup t s = Some s'"
  shows "mset (all_refs s') \<subseteq># mset (all_refs s) \<and> nextPrinter s' = nextPrinter s"
proof (cases "length (filter (\<lambda>g. groupType g = 0) (printerList s)) < 2")
  case True
  with assms show ?thesis by (simp add: remove2FirstGroup_def)
next
  case False
  then obtain n where n: "List.find (\<lambda>g. group g = t) (printerList s) = Some n"
    using assms by (auto simp: remove2FirstGroup_def split: option.splits)
  define a :: nat where "a = (if group n = group (printerList s ! 0) then 1 else 0)"
  let ?s1 = "set_members a (\<lambda>ms. members n @ ms) s"
  have s': "s' = removeGroup t False ?s1"
    using assms False n by (simp add: remove2FirstGroup_def a_def Let_def)
  have len: "2 \<le> length (printerList s)"
    using False by (meson length_filter_le le_trans not_le)
  then have a: "a < length (printerList s)" by (auto simp: a_def)
  obtain j where j: "j < length (printerList s)" "printerList s ! j = n" "group n = t"
    "\<forall>i < j. group (printerList s ! i) \<noteq> t"
    using find_index_where [OF n] by auto
  have "a \<noteq> j"
  proof
    assume "a = j"
    show False
    proof (cases "group n = group (printerList s ! 0)")
      case True
      with \<open>a = j\<close> have "j = 1" by (simp add: a_def)
      with j(3,4) True show False by auto
    next
      case False
      with \<open>a = j\<close> j(2) show False by (simp add: a_def)
    qed
  qed
  then have "members (printerList ?s1 ! j) = members n" using j by simp
  moreover have "mset (all_refs (removeGroup_from t False 0 ?s1)) + mset (members (printerList ?s1 ! j))
      \<subseteq># mset (all_refs ?s1)"
    using j \<open>a \<noteq> j\<close> by (intro mset_removeGroup_first) auto
  moreover have "mset (all_refs ?s1) = mset (all_refs s) + mset (members n)"
    using a by (simp add: all_refs_set_members all_refs_split [of a s])
  ultimately show ?thesis
    by (simp add: s' removeGroup_def)
qed

section \<open>Adding, removing and sorting\<close>

lemma mset_insert_in_group:
  assumes "\<And>l. mset (f l) = add_mset i (mset l)"
  shows "mset (concat (map members (insert_in_group r f gs)))
    = (if r \<in> group ` set gs then add_mset i (mset (concat (map members gs))) else mset (concat (map members gs)))"
  by (induction gs) (auto simp: assms)

lemma listing_motion [simp]: "listing (getMachinePlatformMotionEnable t s) = listing s"
  by (simp add: getMachinePlatformMotionEnable_def Let_def split: option.split)

lemma printerList_motion [simp]: "printerList (getMachinePlatformMotionEnable t s) = printerList s"
  by (simp add: getMachinePlatformMotionEnable_def Let_def split: option.split)

lemma listing_link [simp]: "listing (link_identity i s) = listing s"
  by (simp add: link_identity_def Let_def split: option.split)

lemma printerList_link [simp]: "printerList (link_identity i s) = printerList s"
  by (simp add: link_identity_def Let_def split: option.split)

lemma listed_once_addPrinter:
  assumes "listed_once s"
  shows "listed_once (addPrinter t r back s)"
proof -
  let ?i = "nextPrinter s"
  let ?s1 = "s\<lparr>printers := (printers s)(?i := initial_printer t (map_of (printerPreset s) (d_model t))),
     nextPrinter := Suc ?i\<rparr>"
  let ?s2 = "getMachinePlatformMotionEnable t (link_identity ?i ?s1)"
  let ?put = "if online (printers ?s2 ?i) \<and> \<not> back then (\<lambda>l. ?i # l) else (\<lambda>l. l @ [?i])"
  have "mset (?put l) = add_mset ?i (mset l)" for l by simp
  then have "mset (all_refs (addPrinter t r back s)) \<subseteq># add_mset ?i (mset (all_refs s))"
    using mset_insert_in_group [of ?put ?i r "printerList s"]
    by (simp add: addPrinter_def Let_def all_refs_def)
  then have "mset (all_refs (addPrinter t r back s)) \<subseteq># mset (?i # all_refs s)" by simp
  moreover have "distinct (?i # all_refs s)" using assms by (auto simp: listed_once_def)
  moreover have "nextPrinter (addPrinter t r back s) = Suc ?i"
  proof -
    have "listing ?s2 = listing ?s1" by simp
    then have "nextPrinter ?s2 = Suc ?i" by (simp add: listing_def)
    then show ?thesis by (simp add: addPrinter_def Let_def)
  qed
  ultimately show ?thesis
    using assms distinct_submset [of "all_refs (addPrinter t r back s)" "?i # all_refs s"]
    by (auto simp: listed_once_def less_Suc_eq dest!: mset_subset_eqD)
qed

lemma locate_Some:
  assumes "locate t s = Some (i, a)"
  shows "i < length (printerList s) \<and> a < length (members (printerList s ! i))
     \<and> address (printers s (members (printerList s ! i) ! a)) = t"
  using assms by (auto simp: locate_def Let_def split: option.splits dest!: index_where_Some)

lemma listed_once_removePrinter:
  assumes "listed_once s"
  shows "listed_once (snd (removePrinter t keep s))"
proof (cases "locate t s")
  case (Some x)
  obtain i a where x: "x = (i, a)" by (cases x)
  note loc = locate_Some [OF Some [unfolded x]]
  let ?n = "members (printerList s ! i) ! a"
  let ?s1 = "removeIdentity (address (printers s ?n)) (drop_socket ?n s)"
  have "snd (removePrinter t keep s) = (if keep then ?s1 else set_members i (remove_at a) ?s1)"
    using Some x by (simp add: removePrinter_def Let_def set_members_def)
  moreover have "listed_once ?s1"
    using assms listed_once_same [of ?s1 s] by simp
  moreover have "mset (remove_at a (members (printerList s ! i))) \<subseteq># mset (members (printerList s ! i))"
    using loc by (simp add: mset_remove_at_le)
  then have "mset (all_refs (set_members i (remove_at a) ?s1)) \<subseteq># mset (all_refs ?s1)"
    using loc by (intro mset_set_members_le) simp_all
  ultimately show ?thesis
    using listed_once_mset [of ?s1 "set_members i (remove_at a) ?s1"] by auto
qed (simp add: removePrinter_def assms)

lemma mset_sortGroup: "mset (all_refs (sortGroup t s)) = mset (all_refs s)"
proof -
  have "mset (concat (map members gs)) = mset (concat (map members hs))" if "mset gs = mset hs" for gs hs
    using that by (metis mset_concat mset_map sum_mset_sum_list)
  from this [of "sort_key (\<lambda>g. indexOf t (group g)) (printerList s)" "printerList s"] show ?thesis
    by (simp add: sortGroup_def all_refs_def)
qed

lemma all_refs_setGroupName: "all_refs (setGroupName t r s) = all_refs s"
proof -
  have "map members (setGroupName_in t r gs) = map members gs" for gs
    by (induction gs) auto
  then show ?thesis by (simp add: setGroupName_def all_refs_def)
qed

section \<open>Every printer is listed once\<close>

lemma listed_once_init_device: "listed_once s \<Longrightarrow> listed_once (init_device a i s)"
  by (simp add: init_device_def listed_once_addPrinter)

lemma listed_once_addGroup: "listed_once s \<Longrightarrow> listed_once (addGroup t r s)"
  by (simp add: addGroup_def listed_once_def all_refs_def)

lemma fold_keeps: "(\<And>x s. P s \<Longrightarrow> P (f x s)) \<Longrightarrow> P s \<Longrightarrow> P (fold f xs s)"
  by (induction xs arbitrary: s) auto

lemma listed_once_init:
  assumes "listed_once s"
  shows "listed_once (init now current gs s)"
proof -
  have "listed_once (init_group g s)" if "listed_once s" for g s
    using that by (auto simp: init_group_def Let_def listed_once_addGroup listed_once_init_device
        split: option.split intro!: fold_keeps [where P = listed_once])
  then have "listed_once (fold init_group gs s')" if "listed_once s'" for s'
    using that by (rule fold_keeps [where P = listed_once])
  moreover have "listed_once (case current of None \<Rightarrow> s | Some m \<Rightarrow> setCurrentActivePrinterMac m s)"
    using assms listed_once_same [OF listing_basic(9)] by (simp split: option.split)
  ultimately show ?thesis
    by (simp add: init_def listed_once_same [OF listing_heartbeat])
qed

lemma listed_once_addPrinterFormIp_then:
  assumes "listed_once s"
  shows "listed_once (addPrinterFormIp_then t r n a i s)"
proof -
  have "listed_once (dm_call k dm_init (s\<lparr>dms := d, nextDm := m\<rparr>))" for k d m
    using assms by (simp add: listed_once_same [OF listing_basic(2)]) (simp add: listed_once_def all_refs_def)
  then have "listed_once (emit_call c (addPrinter l a False (dm_call k dm_init (s\<lparr>dms := d, nextDm := m\<rparr>))))"
    for c l k d m
    by (simp add: listed_once_same [OF listing_basic(4)] listed_once_addPrinter)
  moreover have "listed_once (emit_call c (reconnectWebSocket q (drop_socket q (upd q f s))))" for c q f
    using assms listed_once_same [of "emit_call c (reconnectWebSocket q (drop_socket q (upd q f s)))" s] by simp
  ultimately show ?thesis
    using assms by (simp add: addPrinterFormIp_then_def Let_def split: option.split)
qed

fun own_group_move :: "manager_op \<Rightarrow> bool" where
  "own_group_move (MoveToGroup t r n) = (t = n)"
| "own_group_move _ = False"

lemma listed_once_apply:
  assumes "listed_once s" and "\<not> own_group_move c"
  shows "listed_once (apply_op c s)"
proof (cases c)
  case (AddGroup t r)
  with assms show ?thesis by (simp add: listed_once_addGroup)
next
  case (SortGroup t)
  with assms show ?thesis
    using listed_once_mset [of s "sortGroup t s"] mset_sortGroup [of t s] by (simp add: sortGroup_def)
next
  case (MoveToGroup t r n)
  with assms show ?thesis
    using listed_once_mset [of s "moveToGroup t r n s"] mset_moveToGroup [of t n r s] nextPrinter_moveToGroup
    by simp
next
  case (Remove2FirstGroup t)
  with assms show ?thesis
    using listed_once_mset [of s] mset_remove2FirstGroup [of t s] by (auto split: option.split)
next
  case (RemoveGroup t keep)
  with assms show ?thesis
    using listed_once_mset [of s] mset_removeGroup_from [of t keep 0 s] by (simp add: removeGroup_def)
next
  case (SetGroupName t r)
  with assms show ?thesis
    by (simp add: listed_once_def all_refs_setGroupName) (simp add: setGroupName_def)
next
  case (AddPrinterFormIp t)
  with assms show ?thesis by (simp add: addPrinterFormIp_def listed_once_same [OF listing_basic(4)])
qed (use assms in \<open>simp_all add: listed_once_addPrinter listed_once_removePrinter listed_once_init
      listed_once_addPrinterFormIp_then listed_once_same [OF listing_marks(1)] listed_once_same [OF listing_marks(2)]
      listed_once_same [OF listing_marks(3)] listed_once_same [OF listing_marks(4)] listed_once_same [OF listing_marks(5)]
      listed_once_same [OF listing_marks(6)] listed_once_same [OF listing_marks(7)] listed_once_same [OF listing_marks(8)]
      listed_once_same [OF listing_marks(9)] listed_once_same [OF listing_current] listed_once_same [OF listing_setFilter]
      listed_once_same [OF listing_sockets(1)] listed_once_same [OF listing_sockets(3)]
      listed_once_same [OF listing_heartbeat] listed_once_same [OF listing_release]\<close>)

text \<open>However the manager is used from the empty store on, no printer object is listed twice,
  in one group or in two, as long as no call of \<open>moveToGroup\<close> names the same group as source
  and as target.\<close>

lemma listed_once_run:
  assumes "\<forall>c \<in> set cs. \<not> own_group_move c"
  shows "listed_once (fold apply_op cs (empty_dashboard p d))"
proof -
  have "listed_once s \<Longrightarrow> listed_once (fold apply_op cs s)" for s
    using assms by (induction cs arbitrary: s) (auto simp: listed_once_apply)
  moreover have "listed_once (empty_dashboard p d)"
    by (simp add: listed_once_def empty_dashboard_def all_refs_def)
  ultimately show ?thesis by simp
qed

end
