(* ===== verification/PrinterProps.thy ===== *)
theory PrinterProps
  imports PrinterListing
begin

text \<open>
  What the operations on groups, printers and their sockets do: moving, merging and
  removing groups, going offline, the heartbeat, the order and the filter of the view.
\<close>

section \<open>A small dashboard\<close>

definition demo_device :: "string \<Rightarrow> new_device" where
  "demo_device a = \<lparr>d_model = ''K1C'', d_mac = a @ ''mac'', d_name = Some a, d_address = a, d_type = 3,
     d_online = True, d_socket = Some 0, d_deviceType = None, d_oldPrinter = False, d_props = []\<rparr>"

definition demo_printer :: "string \<Rightarrow> printer" where
  "demo_printer a = initial_printer (demo_device a) None"

definition demo_board :: dashboard where
  "demo_board = (empty_dashboard (demo_printer ''x'') (new_Dm ''x''))
     \<lparr>printerList := [\<lparr>group = ''g'', groupType = 0, groupVisable = True, members = [0]\<rparr>,
                      \<lparr>group = ''h'', groupType = 0, groupVisable = True, members = [1, 2]\<rparr>],
      printers := (\<lambda>n. demo_printer (if n = 0 then ''a'' else if n = 1 then ''b'' else ''c'')),
      nextPrinter := 3, dms := (\<lambda>_. demo_dm), nextDm := 1\<rparr>"

lemma demo_printer_fields [simp]:
  "address (demo_printer a) = a" "mac (demo_printer a) = a @ ''mac''" "socket (demo_printer a) = Some 0"
  "online (demo_printer a)" "\<not> oldPrinter (demo_printer a)" "type (demo_printer a) = 3"
  "deviceType (demo_printer a) = 0" "identity (demo_printer a) = None" "name (demo_printer a) = Some a"
  "deviceState (demo_printer a) = JNum 10000" "printFileName (demo_printer a) = JStr []"
  "repoPlrStatus (demo_printer a) = JNum 0" "reconnectCount (demo_printer a) = 0"
  by (simp_all add: demo_printer_def initial_printer_def demo_device_def ownProperty_def)

lemma demo_board_fields [simp]:
  "printerList demo_board = [\<lparr>group = ''g'', groupType = 0, groupVisable = True, members = [0]\<rparr>,
     \<lparr>group = ''h'', groupType = 0, groupVisable = True, members = [1, 2]\<rparr>]"
  "printers demo_board = (\<lambda>n. demo_printer (if n = 0 then ''a'' else if n = 1 then ''b'' else ''c''))"
  "all_refs demo_board = [0, 1, 2]" "calls demo_board = []" "dms demo_board = (\<lambda>_. demo_dm)"
  by (simp_all add: demo_board_def all_refs_def empty_dashboard_def)

section \<open>Moving\<close>

text \<open>Moving a printer to another group takes it, and only it, out of the group it was
  in, puts it at the front of the other, and changes no other group and no printer.\<close>

theorem move_to_other_group:
  assumes "last_index_where (\<lambda>g. group g = t) (printerList s) = Some i"
    and "last_index_where (\<lambda>g. group g = n) (printerList s) = Some k" and "t \<noteq> n"
    and "index_where (\<lambda>m. address (printers s m) = r) (members (printerList s ! i)) = Some l"
    and "s' = moveToGroup t r n s"
  shows "members (printerList s' ! i) = remove_at l (members (printerList s ! i))
         \<and> members (printerList s' ! k) = members (printerList s ! i) ! l # members (printerList s ! k)
         \<and> (\<forall>j. j \<noteq> i \<and> j \<noteq> k \<longrightarrow> printerList s' ! j = printerList s ! j)
         \<and> map group (printerList s') = map group (printerList s) \<and> printers s' = printers s"
proof -
  have ik: "i < length (printerList s)" "k < length (printerList s)" "i \<noteq> k"
    using last_index_where_Some [OF assms(1)] last_index_where_Some [OF assms(2)] assms(3) by auto
  let ?s1 = "set_members k ((#) (members (printerList s ! i) ! l)) s"
  have s': "s' = set_members i (remove_at l) ?s1"
    using assms(1,2,4,5) by (simp add: moveToGroup_def)
  have "map group (printerList (set_members j f b)) = map group (printerList b)" if "j < length (printerList b)" for j f b
    using that by (simp add: set_members_def Let_def map_update list_update_same_conv)
  with ik show ?thesis by (simp add: s')
qed

theorem move_to_other_group_witness:
  "members (printerList (moveToGroup ''h'' ''c'' ''g'' demo_board) ! 0) = [2, 0]
   \<and> members (printerList (moveToGroup ''h'' ''c'' ''g'' demo_board) ! 1) = [1]"
  using move_to_other_group [of "''h''" demo_board 1 "''g''" 0 "''c''" 1, OF _ _ _ _ refl]
  by (simp add: last_index_where_def remove_at_def)

text \<open>Moving a printer to the group it is already in, when it is not the first there,
  removes the printer before it from the dashboard and lists the moved one twice: the
  index to remove was taken before the printer was put at the front.\<close>

theorem move_within_group_drops_neighbour:
  assumes "last_index_where (\<lambda>g. group g = t) (printerList s) = Some i"
    and "index_where (\<lambda>m. address (printers s m) = r) (members (printerList s ! i)) = Some (Suc l)"
    and "distinct (members (printerList s ! i))"
  defines "ms \<equiv> members (printerList s ! i)" and "ms' \<equiv> members (printerList (moveToGroup t r t s) ! i)"
  shows "ms ! l \<in> set ms \<and> ms ! l \<notin> set ms' \<and> count (mset ms') (ms ! Suc l) = 2"
proof -
  have i: "i < length (printerList s)" using last_index_where_Some [OF assms(1)] by simp
  have l: "Suc l < length ms" using index_where_Some [OF assms(2)] by (simp add: ms_def)
  have ms': "ms' = ms ! Suc l # remove_at l ms"
    using assms(1,2) i by (simp add: ms'_def ms_def moveToGroup_def remove_at_def)
  have split: "ms = take l ms @ ms ! l # drop (Suc l) ms"
    using l by (intro id_take_nth_drop) simp
  have d: "distinct ms" using assms(3) by (simp add: ms_def)
  then have "ms ! l \<notin> set (remove_at l ms)"
    by (subst (asm) split) (simp add: remove_at_def)
  moreover have "ms ! l \<noteq> ms ! Suc l" using d l by (simp add: nth_eq_iff_index_eq)
  moreover have "count (mset (remove_at l ms)) (ms ! Suc l) = 1"
  proof -
    have "add_mset (ms ! l) (mset (remove_at l ms)) = mset ms" using l by (simp add: mset_remove_at)
    moreover have "count (mset ms) (ms ! Suc l) = 1"
      using d l by (metis distinct_count_atmost_1 nth_mem)
    ultimately show ?thesis
      using \<open>ms ! l \<noteq> ms ! Suc l\<close> by (metis count_add_mset)
  qed
  ultimately show ?thesis using l by (auto simp: ms')
qed

theorem move_within_group_drops_neighbour_witness:
  "members (printerList (moveToGroup ''h'' ''c'' ''h'' demo_board) ! 1) = [2, 2]
   \<and> 1 \<notin> set (members (printerList (moveToGroup ''h'' ''c'' ''h'' demo_board) ! 1))"
  using move_within_group_drops_neighbour [of "''h''" demo_board 1 "''c''" 0]
  by (simp add: last_index_where_def moveToGroup_def set_members_def remove_at_def)

section \<open>Removing a group\<close>

lemma removeGroup_none:
  "(\<forall>i. k \<le> i \<and> i < length (printerList s) \<longrightarrow> group (printerList s ! i) \<noteq> t) \<Longrightarrow> removeGroup_from t keep k s = s"
proof (induction "length (printerList s) - k" arbitrary: k)
  case 0
  then show ?case by (subst removeGroup_from.simps) simp
next
  case (Suc d)
  then have "removeGroup_from t keep (Suc k) s = s" by auto
  moreover have "group (printerList s ! k) \<noteq> t" using Suc(2,3) by auto
  ultimately show ?case by (subst removeGroup_from.simps) simp
qed

lemma nth_remove_at: "j < length xs \<Longrightarrow> i < length xs - 1 \<Longrightarrow> remove_at j xs ! i = (if i < j then xs ! i else xs ! Suc i)"
  by (auto simp: remove_at_def nth_append min_def)

lemma removeGroup_unique:
  assumes "j < length (printerList s)" "group (printerList s ! j) = t"
    and "\<forall>i < length (printerList s). i \<noteq> j \<longrightarrow> group (printerList s ! i) \<noteq> t" and "k \<le> j"
  shows "removeGroup_from t False k s
    = (close_members (members (printerList s ! j)) s)\<lparr>printerList := remove_at j (printerList s)\<rparr>"
  using assms(4)
proof (induction "j - k" arbitrary: k)
  case 0
  then have k: "k = j" by simp
  let ?s2 = "(close_members (members (printerList s ! j)) s)\<lparr>printerList := remove_at j (printerList s)\<rparr>"
  have "removeGroup_from t False (Suc j) ?s2 = ?s2"
  proof (rule removeGroup_none, intro allI impI)
    fix i
    assume i: "Suc j \<le> i \<and> i < length (printerList ?s2)"
    then have len: "i < length (printerList s) - 1" using assms(1) by (simp add: remove_at_def)
    then have "remove_at j (printerList s) ! i = printerList s ! Suc i"
      using i assms(1) by (simp add: nth_remove_at)
    then show "group (printerList ?s2 ! i) \<noteq> t" using assms(3) i len by simp
  qed
  moreover have "removeGroup_from t False k s = removeGroup_from t False (Suc j) ?s2"
    using assms(1,2) k by (subst removeGroup_from.simps) (simp add: Let_def)
  ultimately show ?case by simp
next
  case (Suc d)
  then have "k < j" by simp
  then have "group (printerList s ! k) \<noteq> t" using assms(1,3) by simp
  then have "removeGroup_from t False k s = removeGroup_from t False (Suc k) s"
    using \<open>k < j\<close> assms(1) by (subst removeGroup_from.simps) (simp add: Let_def)
  with Suc \<open>k < j\<close> show ?case by simp
qed

lemma close_members_printers:
  "socket (printers (close_members ms s) m) = (if m \<in> set ms then None else socket (printers s m))"
  "online (printers (close_members ms s) m) = online (printers s m)"
  "oldPrinter (printers (close_members ms s) m) = oldPrinter (printers s m)"
  "type (printers (close_members ms s) m) = type (printers s m)"
proof -
  have "socket (printers (close_members ms s) m) = (if m \<in> set ms then None else socket (printers s m))
    \<and> online (printers (close_members ms s) m) = online (printers s m)
    \<and> oldPrinter (printers (close_members ms s) m) = oldPrinter (printers s m)
    \<and> type (printers (close_members ms s) m) = type (printers s m)"
  proof (induction ms arbitrary: s)
    case (Cons l ms)
    let ?s1 = "if socket (printers s l) = None then s else removeIdentity (address (printers s l)) (drop_socket l s)"
    have "close_members (l # ms) s = close_members ms ?s1" by (simp add: close_members_def)
    with Cons.IH [of ?s1] show ?case by auto
  qed (simp add: close_members_def)
  then show "socket (printers (close_members ms s) m) = (if m \<in> set ms then None else socket (printers s m))"
    "online (printers (close_members ms s) m) = online (printers s m)"
    "oldPrinter (printers (close_members ms s) m) = oldPrinter (printers s m)"
    "type (printers (close_members ms s) m) = type (printers s m)" by simp_all
qed

text \<open>Removing a group whose name no other group has removes that group, closes the
  sockets of its printers, and leaves every other group as it was and every printer
  outside it with its socket.\<close>

theorem remove_group_closes_its_sockets:
  assumes "j < length (printerList s)" and "group (printerList s ! j) = t"
    and "\<forall>i < length (printerList s). i \<noteq> j \<longrightarrow> group (printerList s ! i) \<noteq> t"
  shows "printerList (removeGroup t False s) = remove_at j (printerList s)
         \<and> (\<forall>m. socket (printers (removeGroup t False s) m)
                = (if m \<in> set (members (printerList s ! j)) then None else socket (printers s m)))"
  using removeGroup_unique [OF assms, of 0] by (simp add: removeGroup_def close_members_printers)

theorem remove_group_closes_its_sockets_witness:
  "map group (printerList (removeGroup ''h'' False demo_board)) = [''g'']
   \<and> socket (printers (removeGroup ''h'' False demo_board) 2) = None
   \<and> socket (printers (removeGroup ''h'' False demo_board) 0) = Some 0"
  using remove_group_closes_its_sockets [of 1 demo_board "''h''"]
  by (simp add: remove_at_def less_Suc_eq)

section \<open>The heartbeat\<close>

lemma getPrinter_sends_nothing_new [simp]:
  "printers (GetBoxsInfo t s) = printers s" "printerList (GetBoxsInfo t s) = printerList s"
  "all_refs (GetBoxsInfo t s) = all_refs s"
  by (simp_all add: GetBoxsInfo_def send_if_connected_def split: option.split)

text \<open>No socket has the property the heartbeat asks for, so its last two branches are dead.\<close>

lemma heartbeat_printer_cases:
  "heartbeat_printer now n s =
     (let p = printers s n in
      if oldPrinter p then emit_call (PollOldPrinter n) s
      else if type p = 4 then emit_call (PollKlipper n) s
      else if \<not> online p then (if socket p = None then initWebSocket n s else s)
      else if deviceType p \<noteq> 0 then s
      else if eq_num (cfsConnect p) 1 \<and> boxInfoTimeStamp p \<noteq> - 1 \<and> now - boxInfoTimeStamp p > 20 * 1000
           then upd n (\<lambda>p. p\<lparr>boxInfoTimeStamp := now\<rparr>) (GetBoxsInfo (address p) s) else s)"
  by (simp add: heartbeat_printer_def Let_def isReconnect_def split: option.split)

lemma initWebSocket_printers:
  "n \<noteq> m \<Longrightarrow> socket (printers (initWebSocket n s) m) = socket (printers s m)"
  "online (printers (initWebSocket n s) m) = online (printers s m)"
  "oldPrinter (printers (initWebSocket n s) m) = oldPrinter (printers s m)"
  "type (printers (initWebSocket n s) m) = type (printers s m)"
  "reconnectCount (printers (initWebSocket n s) m) = reconnectCount (printers s m)"
  by (auto simp: initWebSocket_def Let_def split: option.split)

text \<open>A printer that is shown as online and has no socket.\<close>

definition stranded :: "nat \<Rightarrow> dashboard \<Rightarrow> bool" where
  "stranded m s \<longleftrightarrow> online (printers s m) \<and> socket (printers s m) = None
     \<and> \<not> oldPrinter (printers s m) \<and> type (printers s m) \<noteq> 4"

lemma stranded_heartbeat_printer:
  assumes "stranded m s"
  shows "stranded m (heartbeat_printer now n s)"
proof (cases "n = m")
  case True
  with assms show ?thesis
    by (simp add: heartbeat_printer_cases Let_def stranded_def)
next
  case False
  with assms show ?thesis
    by (simp add: heartbeat_printer_cases Let_def stranded_def initWebSocket_printers)
qed

lemma stranded_heartbeats: "stranded m s \<Longrightarrow> stranded m (fold heartbeat nows s)"
proof (induction nows arbitrary: s)
  case (Cons now nows)
  have "stranded m (fold (heartbeat_printer now) ns s)" for ns
    using Cons.prems by (induction ns arbitrary: s) (simp_all add: stranded_heartbeat_printer)
  then have "stranded m (heartbeat now s)" by (simp add: heartbeat_def)
  with Cons.IH show ?case by simp
qed simp

text \<open>Merging a group into the first one moves its printers and then closes their
  sockets, as \<open>removeGroup\<close> still finds them in the old group.  A printer that was online
  stays listed and is shown as online, without a socket, and no number of heartbeats
  opens one again, since the heartbeat looks for a missing socket only at printers that
  are offline.\<close>

theorem merged_group_is_stranded:
  assumes "remove2FirstGroup t s = Some s'"
    and "2 \<le> length (filter (\<lambda>g. groupType g = 0) (printerList s))" and "distinct (map group (printerList s))"
    and "g \<in> set (printerList s)" and "group g = t" and "m \<in> set (members g)"
    and "online (printers s m)" and "\<not> oldPrinter (printers s m)" and "type (printers s m) \<noteq> 4"
  shows "m \<in> set (all_refs s') \<and> online (printers (fold heartbeat nows s') m)
         \<and> socket (printers (fold heartbeat nows s') m) = None"
proof -
  obtain n where n: "List.find (\<lambda>g. group g = t) (printerList s) = Some n"
    using assms(4,5) by (cases "List.find (\<lambda>g. group g = t) (printerList s)") (auto simp: find_None_all)
  obtain j where j: "j < length (printerList s)" "printerList s ! j = n" "group n = t"
    using find_index_where [OF n] by auto
  have only: "group (printerList s ! i) \<noteq> t" if "i < length (printerList s)" "i \<noteq> j" for i
    using nth_eq_iff_index_eq [OF assms(3), of i j] that j by auto
  obtain i where i: "i < length (printerList s)" "printerList s ! i = g"
    using assms(4) by (metis in_set_conv_nth)
  then have "g = n" using only [of i] assms(5) j by auto
  define a :: nat where "a = (if group n = group (printerList s ! 0) then 1 else 0)"
  have len: "2 \<le> length (printerList s)" using assms(2) by (meson length_filter_le le_trans)
  have "0 < length (printerList s)" using len by linarith
  then have "a \<noteq> j"
    using only [of 0] j(2,3) by (cases "j = 0") (auto simp: a_def)
  moreover have "a < length (printerList s)" using len by (auto simp: a_def)
  ultimately have a: "a < length (printerList s)" "a \<noteq> j" by simp_all
  let ?s1 = "set_members a (\<lambda>ms. members n @ ms) s"
  have s': "s' = removeGroup t False ?s1"
    using assms(1,2) n by (simp add: remove2FirstGroup_def a_def Let_def)
  have rm: "s' = (close_members (members n) ?s1)\<lparr>printerList := remove_at j (printerList ?s1)\<rparr>"
    using removeGroup_unique [of j ?s1 t 0] j only a by (simp add: s' removeGroup_def)
  have "m \<in> set (members (printerList ?s1 ! a))"
    using a assms(6) \<open>g = n\<close> by simp
  moreover have "printerList ?s1 ! a \<in> set (remove_at j (printerList ?s1))"
  proof (cases "a < j")
    case True
    with j(1) show ?thesis by (auto simp: remove_at_def in_set_conv_nth)
  next
    case False
    with a have "a - Suc j < length (drop (Suc j) (printerList ?s1))"
      "drop (Suc j) (printerList ?s1) ! (a - Suc j) = printerList ?s1 ! a" by simp_all
    then show ?thesis unfolding remove_at_def by (metis UnCI in_set_conv_nth set_append)
  qed
  ultimately have "m \<in> set (all_refs s')" by (auto simp: rm all_refs_def)
  moreover have "stranded m s'"
    using assms(6-9) \<open>g = n\<close> by (simp add: stranded_def rm close_members_printers)
  ultimately show ?thesis
    using stranded_heartbeats [of m s' nows] by (simp add: stranded_def)
qed

theorem merged_group_is_stranded_witness:
  "\<exists>s'. remove2FirstGroup ''h'' demo_board = Some s' \<and> socket (printers (fold heartbeat [60000, 120000] s') 1) = None
     \<and> online (printers (fold heartbeat [60000, 120000] s') 1)"
proof -
  obtain s' where "remove2FirstGroup ''h'' demo_board = Some s'"
    by (simp add: remove2FirstGroup_def)
  with merged_group_is_stranded [OF this, of "\<lparr>group = ''h'', groupType = 0, groupVisable = True, members = [1, 2]\<rparr>" 1 "[60000, 120000]"]
  show ?thesis by auto
qed

text \<open>The heartbeat never asks a printer for its print objects and never resets a
  retry counter: on every state, whatever the time, it sends no \<open>reqPrintObjects\<close> and
  leaves every \<open>reconnectCount\<close> as it is, although its last two branches are there to do so.\<close>

theorem heartbeat_keepalive_is_dead:
  "(\<exists>cs. calls (heartbeat now s) = calls s @ cs
       \<and> (\<forall>k. DmCall k (WsSend (get_params [(''reqPrintObjects'', JNum 1)])) \<notin> set cs))
   \<and> (\<forall>m. reconnectCount (printers (heartbeat now s) m) = reconnectCount (printers s m))"
proof -
  let ?req = "\<lambda>k. DmCall k (WsSend (get_params [(''reqPrintObjects'', JNum 1)]))"
  have send: "\<exists>cs. calls (GetBoxsInfo t s) = calls s @ cs \<and> (\<forall>k. ?req k \<notin> set cs)" for t s
    by (auto simp: GetBoxsInfo_def send_if_connected_def get_params_def dm_sendMsg_def
        split: option.split ready.split)
  have init: "\<exists>cs. calls (initWebSocket n s) = calls s @ cs \<and> (\<forall>k. ?req k \<notin> set cs)" for n s
    by (auto simp: initWebSocket_def Let_def open_socket_def drop_socket_def dm_close_def dm_clear_def
        dm_init_def dm_reconnect_def split: option.split)
  have one: "(\<exists>cs. calls (heartbeat_printer now n s) = calls s @ cs \<and> (\<forall>k. ?req k \<notin> set cs))
      \<and> (\<forall>m. reconnectCount (printers (heartbeat_printer now n s) m) = reconnectCount (printers s m))" for n s
    using send init by (simp add: heartbeat_printer_cases Let_def initWebSocket_printers)
  have "(\<exists>cs. calls (fold (heartbeat_printer now) ns s) = calls s @ cs \<and> (\<forall>k. ?req k \<notin> set cs))
      \<and> (\<forall>m. reconnectCount (printers (fold (heartbeat_printer now) ns s) m) = reconnectCount (printers s m))" for ns
  proof (induction ns arbitrary: s)
    case (Cons n ns)
    obtain c1 where c1: "calls (heartbeat_printer now n s) = calls s @ c1" "\<forall>k. ?req k \<notin> set c1"
      using one [of n s] by blast
    obtain c2 where "calls (fold (heartbeat_printer now) ns (heartbeat_printer now n s))
        = calls (heartbeat_printer now n s) @ c2" "\<forall>k. ?req k \<notin> set c2"
      using Cons.IH [of "heartbeat_printer now n s"] by blast
    with c1 have "calls (fold (heartbeat_printer now) (n # ns) s) = calls s @ (c1 @ c2) \<and> (\<forall>k. ?req k \<notin> set (c1 @ c2))"
      by simp
    moreover have "\<forall>m. reconnectCount (printers (fold (heartbeat_printer now) (n # ns) s) m) = reconnectCount (printers s m)"
      using Cons.IH [of "heartbeat_printer now n s"] one [of n s] by simp
    ultimately show ?case by blast
  qed simp
  then show ?thesis by (simp add: heartbeat_def)
qed

end
