(* ===== verification/PrinterView.thy ===== *)
theory PrinterView
  imports PrinterProps
begin

text \<open>
  Going offline, removing a printer, loading the saved printers, and the order and the
  filter of the view.
\<close>

section \<open>Offline and removed printers\<close>

text \<open>A printer that goes offline is shown as offline, and no printer of the
  dashboard, itself included, keeps pointing to it as its other side; sockets and groups
  are not touched.\<close>

theorem offline_printer_is_unlinked:
  assumes "getPrinter t s = Some n" and "identity (printers s n) = None \<or> n \<in> set (all_refs s)"
  shows "\<not> online (printers (setPrinterOffline t s) n)
         \<and> identity (printers (setPrinterOffline t s) n) = None
         \<and> (\<forall>m \<in> set (all_refs s). identity (printers (setPrinterOffline t s) m) \<noteq> Some t)
         \<and> (\<forall>m. socket (printers (setPrinterOffline t s) m) = socket (printers s m))
         \<and> printerList (setPrinterOffline t s) = printerList s"
proof -
  have n: "find_ref (has_address t) s = Some n" using assms(1) by (simp add: getPrinter_find_ref)
  then have "address (printers s n) = t" by (auto dest: find_ref_Some simp: has_address_def)
  with n show ?thesis by (auto simp: setPrinterOffline_def)
qed

text \<open>Every address is on one printer.\<close>

definition distinct_addresses :: "dashboard \<Rightarrow> bool" where
  "distinct_addresses s \<longleftrightarrow> distinct (map (\<lambda>n. address (printers s n)) (all_refs s))"

lemma distinct_addresses_inj:
  assumes "distinct_addresses s" "m \<in> set (all_refs s)" "n \<in> set (all_refs s)"
    and "address (printers s m) = address (printers s n)"
  shows "m = n"
  using assms by (auto simp: distinct_addresses_def distinct_map inj_on_def)

lemma removePrinter_Some:
  assumes "locate t s = Some (i, a)" and "n = members (printerList s ! i) ! a"
  shows "removePrinter t False s = (True, set_members i (remove_at a) (removeIdentity t (drop_socket n s)))"
proof -
  have "address (printers s n) = t" using locate_Some [OF assms(1)] assms(2) by simp
  with assms show ?thesis
    by (simp add: removePrinter_def Let_def set_members_def)
qed

lemma locate_None: "locate t s = None \<longleftrightarrow> \<not> isPrinterExist t s"
proof -
  have "locate t s \<noteq> None" if "isPrinterExist t s"
  proof (cases "index_where (\<lambda>g. list_ex (\<lambda>n. address (printers s n) = t) (members g)) (printerList s)")
    case None
    with that show ?thesis by (auto simp: index_where_None isPrinterExist_def list_ex_iff all_refs_def)
  next
    case (Some i)
    with index_where_Some [OF Some] show ?thesis
      by (auto simp: locate_def Let_def index_where_None list_ex_iff)
  qed
  moreover have "locate t s = None" if "\<not> isPrinterExist t s"
  proof -
    have "index_where (\<lambda>g. list_ex (\<lambda>n. address (printers s n) = t) (members g)) (printerList s) = None"
      using that by (auto simp: isPrinterExist_def list_ex_iff all_refs_def index_where_None)
    then show ?thesis by (simp add: locate_def)
  qed
  ultimately show ?thesis by blast
qed

text \<open>On a dashboard where no two printers share an address and no printer is listed
  twice, removing a printer reports whether it was there; afterwards its address is not
  found any more, every other printer still is, and if it had a socket, that socket has
  been closed and will call no handler of the dashboard again.\<close>

theorem removed_printer_is_gone:
  assumes "distinct_addresses s" and "distinct (all_refs s)" and "(found, s') = removePrinter t False s"
  shows "found = isPrinterExist t s \<and> \<not> isPrinterExist t s'
         \<and> (\<forall>u. u \<noteq> t \<longrightarrow> isPrinterExist u s' = isPrinterExist u s)
         \<and> (\<forall>n k. getPrinter t s = Some n \<and> socket (printers s n) = Some k \<and> sock (dms s k) \<noteq> None
              \<longrightarrow> \<not> attached (dms s' k) \<and> DmCall k WsClose \<in> set (calls s'))"
proof (cases "locate t s")
  case None
  then have "\<not> isPrinterExist t s" by (simp add: locate_None)
  moreover have "found = False" "s' = s" using assms(3) None by (simp_all add: removePrinter_def)
  ultimately show ?thesis by (auto simp: isPrinterExist_iff)
next
  case (Some x)
  obtain i a where x: "x = (i, a)" by (cases x)
  define n where "n = members (printerList s ! i) ! a"
  note loc = locate_Some [OF Some [unfolded x]]
  have s': "found" "s' = set_members i (remove_at a) (removeIdentity t (drop_socket n s))"
    using assms(3) removePrinter_Some [OF Some [unfolded x] n_def] by simp_all
  have ex: "isPrinterExist t s" using Some locate_None [of t s] by auto
  have n: "n \<in> set (all_refs s)" "address (printers s n) = t"
    using loc by (auto simp: n_def all_refs_split [of i s])
  have addr: "address (printers s' m) = address (printers s m)" for m
    by (simp add: s')
  have "add_mset n (mset (all_refs s')) = mset (all_refs s)"
    using loc mset_remove_at [of a "members (printerList s ! i)"]
    by (simp add: s' all_refs_set_members all_refs_split [of i s] n_def [symmetric])
  then have refs: "set (all_refs s) = insert n (set (all_refs s'))" and "n \<notin> set (all_refs s')"
    using assms(2) by (metis set_mset_add_mset_insert set_mset_mset)
      (metis \<open>add_mset n (mset (all_refs s')) = mset (all_refs s)\<close> assms(2) distinct.simps(2) mset.simps(2) mset_eq_imp_distinct_iff)
  then have gone: "\<not> isPrinterExist t s'"
    using distinct_addresses_inj [OF assms(1) _ n(1)] n(2) by (auto simp: isPrinterExist_def list_ex_iff addr)
  have others: "isPrinterExist u s' = isPrinterExist u s" if "u \<noteq> t" for u
    using that n(2) by (auto simp: isPrinterExist_def list_ex_iff addr refs)
  have "\<not> attached (dms s' k) \<and> DmCall k WsClose \<in> set (calls s')"
    if "getPrinter t s = Some m" "socket (printers s m) = Some k" "sock (dms s k) \<noteq> None" for m k
  proof -
    have "m \<in> set (all_refs s)" "address (printers s m) = t"
      using that(1) by (auto simp: getPrinter_find_ref has_address_def dest: find_ref_Some)
    then have "m = n" using distinct_addresses_inj [OF assms(1) _ n(1)] n(2) by simp
    with that show ?thesis
      by (auto simp: s' drop_socket_def dm_close_def dm_clear_def Let_def clearTimeout_def split: option.split)
  qed
  with ex gone others s'(1) show ?thesis by blast
qed

theorem offline_printer_is_unlinked_witness:
  "\<not> online (printers (setPrinterOffline ''b'' demo_board) 1)"
  using offline_printer_is_unlinked [of "''b''" demo_board 1]
  by (simp add: getPrinter_find_ref find_ref_def has_address_def)

theorem removed_printer_is_gone_witness:
  "\<not> isPrinterExist ''b'' (snd (removePrinter ''b'' False demo_board))
   \<and> isPrinterExist ''c'' (snd (removePrinter ''b'' False demo_board))"
proof -
  have "distinct_addresses demo_board" "distinct (all_refs demo_board)"
    by (simp_all add: distinct_addresses_def)
  from removed_printer_is_gone [OF this surjective_pairing [symmetric], of "''b''"] show ?thesis
    by (simp add: isPrinterExist_def)
qed

section \<open>Order and filter\<close>

text \<open>Sorting the groups by a list of names permutes them; they come in the order of
  the list, those of the same name (and those the list does not name, which come first)
  in the order they had.\<close>

theorem sort_group_orders_stably:
  "mset (printerList (sortGroup t s)) = mset (printerList s)
   \<and> sorted (map (\<lambda>g. indexOf t (group g)) (printerList (sortGroup t s)))
   \<and> (\<forall>k. filter (\<lambda>g. indexOf t (group g) = k) (printerList (sortGroup t s))
          = filter (\<lambda>g. indexOf t (group g) = k) (printerList s))"
  by (simp add: sortGroup_def sort_key_stable)

lemma setFilter_members:
  fixes t :: string
  shows "concat (map members (filter (\<lambda>g. group g = t \<or> t = ''*'')
       (map (\<lambda>g. if group g = t \<or> t = ''*'' then g\<lparr>groupVisable := True\<rparr> else g) gs)))
   = concat (map members (filter (\<lambda>g. group g = t \<or> t = ''*'') gs))"
  by (induction gs) auto

text \<open>Applying a filter shows a printer of the selected groups if and only if its state
  and type are the asked ones (or any is) and the text occurs in its name, its address,
  its file's name or its other side's address; printers of other groups keep what they
  have, and nothing but the visibility of a printer changes.\<close>

theorem filter_shows_the_matches:
  "visable (printers (setFilter t r n a s) m)
     = (if \<exists>g \<in> set (printerList s). (group g = t \<or> t = ''*'') \<and> m \<in> set (members g)
        then shown r n a (printers s m) else visable (printers s m))
   \<and> (printers (setFilter t r n a s) m)\<lparr>visable := v\<rparr> = (printers s m)\<lparr>visable := v\<rparr>"
proof -
  let ?hit = "\<lambda>g. group g = t \<or> t = ''*''" and ?f = "\<lambda>p. p\<lparr>visable := shown r n a p\<rparr>"
  have "shown r n a (p\<lparr>visable := b\<rparr>) = shown r n a p" for p b
    by (simp add: shown_def split: option.split)
  then have idem: "?f (?f p) = ?f p" for p by simp
  define Q where "Q \<longleftrightarrow> (\<exists>g \<in> set (printerList s). ?hit g \<and> m \<in> set (members g))"
  let ?L = "map (\<lambda>g. if ?hit g then g\<lparr>groupVisable := True\<rparr> else g) (printerList s)"
  have "m \<in> set (concat (map members (filter ?hit ?L))) \<longleftrightarrow> Q"
    unfolding setFilter_members by (auto simp: Q_def)
  moreover have "printers (setFilter t r n a s) m
      = (if m \<in> set (concat (map members (filter ?hit ?L))) then ?f (printers s m) else printers s m)"
    by (simp add: setFilter_def Let_def fold_upd [OF idem] cong: if_cong split del: if_split)
  ultimately have "printers (setFilter t r n a s) m = (if Q then ?f (printers s m) else printers s m)"
    by simp
  then show ?thesis unfolding Q_def [symmetric] by simp
qed

section \<open>The saved printers\<close>

lemma address_link [simp]: "address (printers (link_identity i s) m) = address (printers s m)"
  by (simp add: link_identity_def Let_def split: option.split)

lemma printers_motion [simp]: "printers (getMachinePlatformMotionEnable t s) = printers s"
  by (simp add: getMachinePlatformMotionEnable_def Let_def split: option.split)

lemma address_addPrinter:
  "address (printers (addPrinter t r back s) m) = (if m = nextPrinter s then d_address t else address (printers s m))"
  by (simp add: addPrinter_def Let_def initial_printer_def)

lemma insert_in_group_refs:
  assumes "\<And>l. mset (f l) = add_mset i (mset l)"
  shows "set (concat (map members (insert_in_group r f gs)))
    = (if r \<in> group ` set gs then insert i (set (concat (map members gs))) else set (concat (map members gs)))"
  using arg_cong [OF mset_insert_in_group [of f i r gs, OF assms], of set_mset]
  by (auto split: if_splits)

lemma refs_addPrinter:
  "set (all_refs (addPrinter t r back s))
     = (if isGroupExist r s then insert (nextPrinter s) (set (all_refs s)) else set (all_refs s))"
proof -
  let ?i = "nextPrinter s"
  have "set (concat (map members (insert_in_group r (if b then (\<lambda>l. ?i # l) else (\<lambda>l. l @ [?i])) (printerList s))))
    = (if r \<in> group ` set (printerList s) then insert ?i (set (all_refs s)) else set (all_refs s))" for b
    unfolding all_refs_def by (rule insert_in_group_refs) simp
  moreover have "isGroupExist r s \<longleftrightarrow> r \<in> group ` set (printerList s)"
    by (auto simp: isGroupExist_def list_ex_iff)
  ultimately show ?thesis by (simp add: addPrinter_def Let_def all_refs_def)
qed

lemma isGroupExist_addPrinter [simp]: "isGroupExist g (addPrinter t r back s) = isGroupExist g s"
proof -
  have "list_ex (\<lambda>x. group x = g) (insert_in_group r f gs) = list_ex (\<lambda>x. group x = g) gs" for f gs
    by (induction gs) auto
  then show ?thesis by (simp add: addPrinter_def Let_def isGroupExist_def)
qed

text \<open>The state while the saved printers are loaded.\<close>

definition loading_ok :: "dashboard \<Rightarrow> bool" where
  "loading_ok s \<longleftrightarrow> listed_once s \<and> distinct_addresses s"

lemma isPrinterExist_set: "isPrinterExist u s \<longleftrightarrow> u \<in> (\<lambda>n. address (printers s n)) ` set (all_refs s)"
  by (auto simp: isPrinterExist_def list_ex_iff)

lemma isPrinterExist_addPrinter:
  assumes "listed_once s"
  shows "isPrinterExist u (addPrinter t r back s) \<longleftrightarrow> isPrinterExist u s \<or> (isGroupExist r s \<and> u = d_address t)"
proof -
  have "nextPrinter s \<notin> set (all_refs s)" using assms by (auto simp: listed_once_def)
  then show ?thesis
    by (auto simp: isPrinterExist_set refs_addPrinter address_addPrinter image_iff)
qed

lemma loading_ok_addPrinter:
  assumes ok: "loading_ok s" and new: "\<not> isPrinterExist (d_address t) s"
  shows "loading_ok (addPrinter t r back s)"
proof -
  let ?s = "addPrinter t r back s" and ?i = "nextPrinter s"
  have once: "listed_once s" "listed_once ?s"
    using ok by (simp_all add: loading_ok_def listed_once_addPrinter)
  then have i: "?i \<notin> set (all_refs s)" by (auto simp: listed_once_def)
  have fresh: "address (printers s x) \<noteq> d_address t" if "x \<in> set (all_refs s)" for x
    using new that unfolding isPrinterExist_set by (metis image_eqI)
  have "inj_on (\<lambda>n. address (printers ?s n)) (set (all_refs ?s))"
  proof (rule inj_onI)
    fix x y
    assume "x \<in> set (all_refs ?s)" "y \<in> set (all_refs ?s)" "address (printers ?s x) = address (printers ?s y)"
    then show "x = y"
      using i fresh [of x] fresh [of y] distinct_addresses_inj [of s x y] ok
      by (auto simp: loading_ok_def refs_addPrinter address_addPrinter split: if_splits)
  qed
  with once show ?thesis
    by (simp add: loading_ok_def distinct_addresses_def distinct_map listed_once_def)
qed

lemma loading_ok_init_device: "loading_ok s \<Longrightarrow> loading_ok (init_device a i s)"
  by (simp add: init_device_def loading_ok_addPrinter lan_device_def cloud_device_def)

definition is_saved_printer :: "saved_device \<Rightarrow> bool" where
  "is_saved_printer d \<longleftrightarrow> connectType d = 3 \<or> connectType d = 4 \<or> connectType d = 1001"

lemma init_device_adds:
  assumes "loading_ok s" and "isGroupExist a s"
  shows "isPrinterExist u (init_device a d s) \<longleftrightarrow> isPrinterExist u s \<or> (is_saved_printer d \<and> u = sd_address d)"
  using assms by (auto simp: init_device_def is_saved_printer_def loading_ok_def isPrinterExist_addPrinter
      lan_device_def cloud_device_def)

lemma isGroupExist_init_device [simp]: "isGroupExist g (init_device a d s) = isGroupExist g s"
  by (simp add: init_device_def)

lemma init_devices_add:
  assumes "loading_ok s" and "isGroupExist a s"
  shows "loading_ok (fold (init_device a) ds s)
    \<and> (\<forall>u. isPrinterExist u (fold (init_device a) ds s)
         \<longleftrightarrow> isPrinterExist u s \<or> (\<exists>d \<in> set ds. is_saved_printer d \<and> u = sd_address d))"
  using assms
proof (induction ds arbitrary: s)
  case (Cons d ds)
  then have "loading_ok (init_device a d s)" "isGroupExist a (init_device a d s)"
    by (simp_all add: loading_ok_init_device)
  from Cons.IH [OF this] show ?case
    using init_device_adds [OF Cons.prems] by auto
qed simp

lemma addGroup_same:
  "loading_ok (addGroup a r s) = loading_ok s" "isPrinterExist u (addGroup a r s) = isPrinterExist u s"
  "isGroupExist a (addGroup a r s)"
  by (simp_all add: addGroup_def loading_ok_def listed_once_def distinct_addresses_def isPrinterExist_def
      isGroupExist_def all_refs_def)

definition saved_in :: "saved_group \<Rightarrow> string set" where
  "saved_in g = sd_address ` {d \<in> set (case sg_list g of None \<Rightarrow> [] | Some ds \<Rightarrow> ds). is_saved_printer d}"

lemma init_group_adds:
  assumes "loading_ok s"
  shows "loading_ok (init_group g s) \<and> (\<forall>u. isPrinterExist u (init_group g s) \<longleftrightarrow> isPrinterExist u s \<or> u \<in> saved_in g)"
proof -
  let ?s1 = "if isGroupExist (sg_group g) s then s else addGroup (sg_group g) 0 s"
  have s1: "loading_ok ?s1" "isGroupExist (sg_group g) ?s1" "\<And>u. isPrinterExist u ?s1 = isPrinterExist u s"
    using assms by (simp_all add: addGroup_same)
  show ?thesis
  proof (cases "sg_list g")
    case None
    with s1 show ?thesis by (simp add: init_group_def Let_def saved_in_def)
  next
    case (Some ds)
    with init_devices_add [OF s1(1,2), of ds] s1(3) show ?thesis
      by (auto simp: init_group_def Let_def saved_in_def)
  qed
qed

lemma address_heartbeat_printer: "address (printers (heartbeat_printer now n s) m) = address (printers s m)"
  by (auto simp: heartbeat_printer_cases Let_def initWebSocket_def split: option.split)

lemma heartbeat_addresses: "address (printers (heartbeat now s) m) = address (printers s m)"
proof -
  have "address (printers (fold (heartbeat_printer now) ns s) m) = address (printers s m)" for ns
    by (induction ns arbitrary: s) (simp_all add: address_heartbeat_printer)
  then show ?thesis by (simp add: heartbeat_def)
qed

lemma heartbeat_loading:
  "isPrinterExist u (heartbeat now s) = isPrinterExist u s" "distinct_addresses (heartbeat now s) = distinct_addresses s"
proof -
  have "all_refs (heartbeat now s) = all_refs s" using listing_heartbeat [of now s] by (simp add: listing_def)
  then show "isPrinterExist u (heartbeat now s) = isPrinterExist u s"
    "distinct_addresses (heartbeat now s) = distinct_addresses s"
    by (simp_all add: isPrinterExist_def distinct_addresses_def heartbeat_addresses)
qed

text \<open>Loading the saved configuration lists, by its address, every saved printer whose
  connection type is known, and nothing else that was not listed before; a printer that
  is listed already, or saved twice, is not added again, so that every address stays on
  one printer.\<close>

theorem init_lists_saved_printers_once:
  assumes "listed_once s" and "distinct_addresses s"
  shows "(\<forall>u. isPrinterExist u (init now current gs s)
             \<longleftrightarrow> isPrinterExist u s \<or> (\<exists>g \<in> set gs. u \<in> saved_in g))
         \<and> distinct_addresses (init now current gs s)"
proof -
  let ?s0 = "case current of None \<Rightarrow> s | Some m \<Rightarrow> setCurrentActivePrinterMac m s"
  have s0: "loading_ok ?s0" "\<And>u. isPrinterExist u ?s0 = isPrinterExist u s"
    using assms by (auto simp: loading_ok_def listed_once_def distinct_addresses_def isPrinterExist_def
        setCurrentActivePrinterMac_def all_refs_def split: option.split)
  have "loading_ok (fold init_group gs b) \<and> (\<forall>u. isPrinterExist u (fold init_group gs b)
      \<longleftrightarrow> isPrinterExist u b \<or> (\<exists>g \<in> set gs. u \<in> saved_in g))" if "loading_ok b" for b
    using that
  proof (induction gs arbitrary: b)
    case (Cons g gs)
    with init_group_adds [OF Cons.prems, of g] show ?case by auto
  qed simp
  from this [OF s0(1)] s0(2) show ?thesis
    by (simp add: init_def heartbeat_loading loading_ok_def)
qed

definition demo_saved :: "string \<Rightarrow> saved_device" where
  "demo_saved a = \<lparr>connectType = 3, sd_model = ''K1Max'', sd_mac = a, sd_address = a, sd_name = None,
     sd_oldPrinter = False, sd_moonrakerPort = 0, sd_fluiddPort = JNum 0, sd_mainsailPort = JNum 0\<rparr>"

theorem init_lists_saved_printers_once_witness:
  "isPrinterExist ''d'' (init 0 None [\<lparr>sg_group = ''new'', sg_list = Some [demo_saved ''d'', demo_saved ''d'', demo_saved ''a'']\<rparr>] demo_board)
   \<and> distinct_addresses (init 0 None [\<lparr>sg_group = ''new'', sg_list = Some [demo_saved ''d'', demo_saved ''d'', demo_saved ''a'']\<rparr>] demo_board)"
proof -
  have "listed_once demo_board" "distinct_addresses demo_board"
    by (simp_all add: listed_once_def distinct_addresses_def) (simp add: demo_board_def)
  from init_lists_saved_printers_once [OF this, of 0 None
      "[\<lparr>sg_group = ''new'', sg_list = Some [demo_saved ''d'', demo_saved ''d'', demo_saved ''a'']\<rparr>]"]
  have *: "isPrinterExist ''d'' (init 0 None
        [\<lparr>sg_group = ''new'', sg_list = Some [demo_saved ''d'', demo_saved ''d'', demo_saved ''a'']\<rparr>] demo_board)
      \<longleftrightarrow> isPrinterExist ''d'' demo_board
        \<or> ''d'' \<in> saved_in \<lparr>sg_group = ''new'', sg_list = Some [demo_saved ''d'', demo_saved ''d'', demo_saved ''a'']\<rparr>"
    "distinct_addresses (init 0 None
        [\<lparr>sg_group = ''new'', sg_list = Some [demo_saved ''d'', demo_saved ''d'', demo_saved ''a'']\<rparr>] demo_board)"
    by simp_all
  have "''d'' \<in> saved_in \<lparr>sg_group = ''new'', sg_list = Some [demo_saved ''d'', demo_saved ''d'', demo_saved ''a'']\<rparr>"
    unfolding saved_in_def
    by (rule image_eqI [of _ _ "demo_saved ''d''"]) (simp_all add: is_saved_printer_def demo_saved_def)
  with * show ?thesis by blast
qed

end
