(* ===== verification/CommandProps.thy ===== *)
theory CommandProps
  imports PrinterView
begin

text \<open>
  The contract of the commands a printer is sent, with the table of their messages, and what
  happens to a print that cannot be started at once.
\<close>

section \<open>One message to one printer\<close>

text \<open>What is sent when the printer's socket is open; a socket that is closing or closed
  drops the message, and one that connects refuses it.\<close>

definition delivered :: "nat \<Rightarrow> json \<Rightarrow> dashboard \<Rightarrow> call list" where
  "delivered n m s =
     (case socket (printers s n) of
        None \<Rightarrow> [] | Some k \<Rightarrow> if sock (dms s k) = Some OPEN then [DmCall k (WsSend m)] else [])"

lemma dm_sendMsg_calls: "snd (dm_sendMsg m d) = (if sock d = Some OPEN then [WsSend m] else [])"
  by (simp add: dm_sendMsg_def split: option.split ready.split)

lemma send_if_connected_fields [simp]:
  "printers (send_if_connected n m s) = printers s" "printerList (send_if_connected n m s) = printerList s"
  "dms (send_if_connected n m s) = dms s" "all_refs (send_if_connected n m s) = all_refs s"
  "calls (send_if_connected n m s) = calls s @ delivered n m s"
  by (simp_all add: send_if_connected_def delivered_def dm_sendMsg_calls split: option.split)

locale lan_command =
  fixes cmd :: "string \<Rightarrow> dashboard \<Rightarrow> dashboard option" and msg :: json
  assumes throws_iff: "cmd t s = None \<longleftrightarrow> getPrinter t s = None"
    and sends: "getPrinter t s = Some n \<Longrightarrow> cmd t s = Some s' \<Longrightarrow> calls s' = calls s @ delivered n msg s"
    and keeps: "cmd t s = Some s' \<Longrightarrow> printers s' = printers s \<and> printerList s' = printerList s \<and> dms s' = dms s"
begin

lemma finds_same: "cmd t s = Some s' \<Longrightarrow> getPrinter u s' = getPrinter u s"
  using keeps by (simp add: getPrinter_find_ref find_ref_def has_address_def all_refs_def)

lemma can_send_again: "cmd t s = Some s' \<Longrightarrow> cmd u s' = None \<longleftrightarrow> cmd u s = None"
  by (simp add: throws_iff finds_same)

lemma at_most_one: "cmd t s = Some s' \<Longrightarrow> length (calls s') \<le> Suc (length (calls s))"
proof -
  assume s': "cmd t s = Some s'"
  then obtain n where "getPrinter t s = Some n" using throws_iff [of t s] by (cases "getPrinter t s") auto
  from sends [OF this s'] show ?thesis by (simp add: delivered_def split: option.split)
qed

lemma silent_without_socket:
  "getPrinter t s = Some n \<Longrightarrow> socket (printers s n) = None \<Longrightarrow> \<exists>s'. cmd t s = Some s' \<and> calls s' = calls s"
  using throws_iff [of t s] sends [of t s n] by (cases "cmd t s") (auto simp: delivered_def)

end

lemma lan_command_command: "lan_command (\<lambda>t. command t (\<lambda>_. m)) m"
  by unfold_locales (auto simp: command_def)

lemma set_command_eta: "set_command t ps = command t (\<lambda>_. set_params ps)"
  "get_command t qs = command t (\<lambda>_. get_params qs)"
  by (auto simp: set_command_def get_command_def)

interpretation pause_cmd: lan_command Pause "set_params [(''pause'', JNum 1)]"
  using lan_command_command by (simp add: Pause_def [abs_def] set_command_eta)

interpretation stop_cmd: lan_command Stop "set_params [(''stop'', JNum 1)]"
  using lan_command_command by (simp add: Stop_def [abs_def] set_command_eta)

interpretation cancel_cmd: lan_command ErrCancel "set_params [(''repoPlrStatus'', JNum 1)]"
  using lan_command_command by (simp add: ErrCancel_def [abs_def] set_command_eta)

text \<open>The commands that look the printer up and send one message, as one type.\<close>

datatype lan_cmd =
    DoErrCancel | DoErrRetry | DoStop | DoPause
  | DoMoveAxle string string | DoSetSwitchState nat json | DoSetFanSpeed nat rat | DoSetPrintingSpeed json
  | DoDeleteFile string | DoDeleteHisoryFile json | DoDeleteVideoFile json
  | DoStartPrint string | DoStartPrintWidthCalibration string
  | DoSetMaterialColorMap json json | DoSetColorMatch json json | DoSetTargetboxTemp json
  | DoGetBoxsConfig | DoSetBoxsConfig json json json | DoSetBoxsCfscConfig json json json json
  | DoSetBoxsCfsLiteConfig json json
  | DoResetCfsMiniMaterials json json spool_edit | DoSetCfsMiniMaterials json json spool_edit
  | DoResetMaterials json spool_edit | DoSetMaterials json spool_edit
  | DoFeedInOrOutMaterial json json json | DoSetRFIDRefresh json json
  | DoReqPrintObjects | DoReqMaterials | DoGetRetGcodeFile | DoSetHostName json | DoSetCutterState

fun lan_run :: "lan_cmd \<Rightarrow> string \<Rightarrow> dashboard \<Rightarrow> dashboard option" where
  "lan_run DoErrCancel t s = ErrCancel t s"
| "lan_run DoErrRetry t s = ErrRetry t s"
| "lan_run DoStop t s = Stop t s"
| "lan_run DoPause t s = Pause t s"
| "lan_run (DoMoveAxle r n) t s = MoveAxle t r n s"
| "lan_run (DoSetSwitchState r n) t s = SetSwitchState t r n s"
| "lan_run (DoSetFanSpeed r n) t s = SetFanSpeed t r n s"
| "lan_run (DoSetPrintingSpeed r) t s = SetPrintingSpeed t r s"
| "lan_run (DoDeleteFile r) t s = DeleteFile t r s"
| "lan_run (DoDeleteHisoryFile r) t s = DeleteHisoryFile t r s"
| "lan_run (DoDeleteVideoFile r) t s = DeleteVideoFile t r s"
| "lan_run (DoStartPrint r) t s = StartPrint t r s"
| "lan_run (DoStartPrintWidthCalibration r) t s = StartPrintWidthCalibration t r s"
| "lan_run (DoSetMaterialColorMap r n) t s = SetMaterialColorMap t r n s"
| "lan_run (DoSetColorMatch r n) t s = SetColorMatch t r n s"
| "lan_run (DoSetTargetboxTemp r) t s = SetTargetboxTemp t r s"
| "lan_run DoGetBoxsConfig t s = GetBoxsConfig t s"
| "lan_run (DoSetBoxsConfig r n a) t s = SetBoxsConfig t r n a s"
| "lan_run (DoSetBoxsCfscConfig r n a i) t s = SetBoxsCfscConfig t r n a i s"
| "lan_run (DoSetBoxsCfsLiteConfig r n) t s = SetBoxsCfsLiteConfig t r n s"
| "lan_run (DoResetCfsMiniMaterials r n a) t s = ResetCfsMiniMaterials t r n a s"
| "lan_run (DoSetCfsMiniMaterials r n a) t s = SetCfsMiniMaterials t r n a s"
| "lan_run (DoResetMaterials r a) t s = ResetMaterials t r a s"
| "lan_run (DoSetMaterials r a) t s = SetMaterials t r a s"
| "lan_run (DoFeedInOrOutMaterial r n a) t s = feedInOrOutMaterial t r n a s"
| "lan_run (DoSetRFIDRefresh r n) t s = SetRFIDRefresh t r n s"
| "lan_run DoReqPrintObjects t s = ReqPrintObjects t s"
| "lan_run DoReqMaterials t s = ReqMaterials t s"
| "lan_run DoGetRetGcodeFile t s = getRetGcodeFile t s"
| "lan_run (DoSetHostName r) t s = setHostName t r s"
| "lan_run DoSetCutterState t s = setCutterState t s"

section \<open>The protocol\<close>

text \<open>What each command sends, as a table of the protocol: either it sets parameters of the
  printer or asks for some.  A move names the axis, the direction, the distance and the speed
  of the axis; a switch, a fan or a direction the code has no case for sends nothing.\<close>

definition axle_wire :: "string \<Rightarrow> string \<Rightarrow> json option" where
  "axle_wire r n =
     (if r \<in> {''HXY'', ''HZ''} then Some (set_params [(''autohome'', JStr (if r = ''HZ'' then ''Z'' else ''X Y''))])
      else if length r = 2 \<and> r ! 0 \<in> {CHR ''X'', CHR ''Y'', CHR ''Z''} \<and> r ! 1 \<in> {CHR ''+'', CHR ''-''}
      then Some (set_params [(''setPosition'', JStr
        ([r ! 0] @ (if r ! 1 = CHR ''-'' then ''-'' else []) @ n @ (if r ! 0 = CHR ''Z'' then '' F600'' else '' F3000'')))])
      else None)"

definition switch_wire :: "nat \<Rightarrow> json \<Rightarrow> json option" where
  "switch_wire r v = (if r < 4
     then Some (set_params [([''fan'', ''fanAuxiliary'', ''fanCase'', ''lightSw''] ! r, json_number (to_number v))]) else None)"

definition fan_wire :: "nat \<Rightarrow> rat \<Rightarrow> json option" where
  "fan_wire r v = (if r < 3
     then Some (set_params [(''gcodeCmd'', JStr (''M106 P'' @ [''0'', ''2'', ''1''] ! r @ '' S'' @ show_int (fan_duty v)))]) else None)"

definition print_message :: "string \<Rightarrow> int \<Rightarrow> json" where
  "print_message r k = set_params [(''opGcodeFile'', JStr (''printprt:'' @ r)), (''enableSelfTest'', JNum (of_int k))]"

definition spool_message :: "(string \<times> json) list \<Rightarrow> spool_edit \<Rightarrow> (string \<times> json) list \<Rightarrow> json" where
  "spool_message place a fs = set_params [(''modifyMaterial'', JObj (place @ [(''id'', se_id a)] @ fs))]"

fun lan_message :: "lan_cmd \<Rightarrow> json option" where
  "lan_message DoErrCancel = Some (set_params [(''repoPlrStatus'', JNum 1)])"
| "lan_message DoErrRetry = Some (set_params [(''errorHandling'', JNum 0)])"
| "lan_message DoStop = Some (set_params [(''stop'', JNum 1)])"
| "lan_message DoPause = Some (set_params [(''pause'', JNum 1)])"
| "lan_message (DoMoveAxle r n) = axle_wire r n"
| "lan_message (DoSetSwitchState r v) = switch_wire r v"
| "lan_message (DoSetFanSpeed r v) = fan_wire r v"
| "lan_message (DoSetPrintingSpeed v) = Some (set_params [(''setFeedratePct'', json_number (to_number v))])"
| "lan_message (DoDeleteFile f) = Some (set_params [(''opGcodeFile'', JStr (''deleteprt:'' @ f))])"
| "lan_message (DoDeleteHisoryFile f) = Some (set_params [(''deleteHistory'', f)])"
| "lan_message (DoDeleteVideoFile f) =
     Some (set_params [(''ctrlVideoFiles'', JObj [(''cmd'', JStr ''remove''), (''printId'', JStr []), (''file'', f)])])"
| "lan_message (DoStartPrint f) = Some (print_message f 0)"
| "lan_message (DoStartPrintWidthCalibration f) = Some (print_message f 1)"
| "lan_message (DoSetMaterialColorMap f l) = Some (set_params [(''colorMatch'', JObj [(''path'', f), (''list'', l)])])"
| "lan_message (DoSetColorMatch f l) = Some (set_params [(''colorMatch'', JObj [(''path'', f), (''list'', l)])])"
| "lan_message (DoSetTargetboxTemp v) = Some (set_params [(''boxTempControl'', v)])"
| "lan_message DoGetBoxsConfig = Some (get_params [(''boxConfig'', JNum 1)])"
| "lan_message (DoSetBoxsConfig r n a) =
     Some (set_params [(''boxConfig'', JObj [(''autoRefill'', r), (''cAutoFeed'', n), (''cSelfTest'', a)])])"
| "lan_message (DoSetBoxsCfscConfig r n a i) = Some (set_params
     [(''boxConfig'', JObj [(''autoRefill'', r), (''cAutoFeed'', n), (''cSelfTest'', a), (''ignoreColorAutoFeed'', i)])])"
| "lan_message (DoSetBoxsCfsLiteConfig r n) = Some (set_params [(''boxConfig'', JObj [(''cAutoFeed'', r), (''autoRefill'', n)])])"
| "lan_message (DoResetCfsMiniMaterials b k a) = Some (spool_message [(''boxId'', b), (''boxType'', k)] a blank_spool)"
| "lan_message (DoSetCfsMiniMaterials b k a) = Some (spool_message [(''boxId'', b), (''boxType'', k)] a (spool_fields a))"
| "lan_message (DoResetMaterials b a) = Some (spool_message [(''boxId'', b)] a blank_spool)"
| "lan_message (DoSetMaterials b a) = Some (spool_message [(''boxId'', b)] a (spool_fields a))"
| "lan_message (DoFeedInOrOutMaterial b m f) =
     Some (set_params [(''feedInOrOut'', JObj [(''boxId'', b), (''materialId'', m), (''isFeed'', f)])])"
| "lan_message (DoSetRFIDRefresh b m) = Some (set_params [(''refreshBox'', JObj [(''boxId'', b), (''materialId'', m)])])"
| "lan_message DoReqPrintObjects = Some (get_params [(''reqPrintObjects'', JNum 1)])"
| "lan_message DoReqMaterials = Some (get_params [(''reqMaterials'', JNum 1)])"
| "lan_message DoGetRetGcodeFile = Some (get_params [(''reqGcodeFile'', JNum 1)])"
| "lan_message (DoSetHostName v) = Some (set_params [(''hostname'', v)])"
| "lan_message DoSetCutterState = Some (set_params [(''replaceCutter'', JNum 1)])"

lemma length_two: "length r = 2 \<longleftrightarrow> (\<exists>a b. r = [a, b])"
  by (auto simp: numeral_2_eq_2 length_Suc_conv)

lemma axle_message: "map_option set_params (axle_params r n) = axle_wire r n"
proof (cases "r \<in> {''X+'', ''X-'', ''Y+'', ''Y-'', ''Z+'', ''Z-'', ''HXY'', ''HZ''}")
  case True
  then show ?thesis by (elim insertE emptyE) (simp_all add: axle_wire_def)
next
  case False
  then have "\<not> (length r = 2 \<and> r ! 0 \<in> {CHR ''X'', CHR ''Y'', CHR ''Z''} \<and> r ! 1 \<in> {CHR ''+'', CHR ''-''})"
    unfolding length_two by (elim contrapos_nn conjE exE) (elim insertE emptyE; simp)
  with False have "axle_wire r n = None" unfolding axle_wire_def by simp
  with False show ?thesis by simp
qed

lemma less_cases: "(r::nat) < 4 \<longleftrightarrow> r = 0 \<or> r = 1 \<or> r = 2 \<or> r = 3" "r < 3 \<longleftrightarrow> r = 0 \<or> r = 1 \<or> r = 2"
  by auto

lemma switched:
  "switch_command t ps s = (case map_option set_params ps of None \<Rightarrow> Some s | Some m \<Rightarrow> command t (\<lambda>_. m) s)"
  by (simp add: switch_command_def set_command_def split: option.split)

lemma lan_run_message:
  "lan_run c t s = (case lan_message c of None \<Rightarrow> Some s | Some m \<Rightarrow> command t (\<lambda>_. m) s)"
proof (cases c)
  case (DoMoveAxle r n)
  then show ?thesis by (simp add: MoveAxle_def switched axle_message del: axle_params.simps)
next
  case (DoSetSwitchState r v)
  then show ?thesis by (auto simp: SetSwitchState_def switched switch_wire_def less_cases)
next
  case (DoSetFanSpeed r v)
  then show ?thesis by (auto simp: SetFanSpeed_def switched fan_wire_def less_cases)
qed (simp_all add: ErrCancel_def ErrRetry_def Stop_def Pause_def SetPrintingSpeed_def
    DeleteFile_def DeleteHisoryFile_def DeleteVideoFile_def StartPrint_def StartPrintWidthCalibration_def
    SetMaterialColorMap_def SetColorMatch_def SetTargetboxTemp_def GetBoxsConfig_def SetBoxsConfig_def
    SetBoxsCfscConfig_def SetBoxsCfsLiteConfig_def ResetCfsMiniMaterials_def SetCfsMiniMaterials_def
    ResetMaterials_def SetMaterials_def feedInOrOutMaterial_def SetRFIDRefresh_def ReqPrintObjects_def
    ReqMaterials_def getRetGcodeFile_def setHostName_def setCutterState_def
    set_command_def get_command_def print_message_def spool_message_def)

text \<open>C20: Each of the thirty-one commands that look at the printer's socket sends the message
  the protocol has for it (\<open>lan_message\<close>), once, when the printer is listed and its socket is
  open, and nothing otherwise.  It throws exactly when the printer is not listed, but for a
  switch, a fan or a direction the code has no case for, which does nothing for any printer.
  Printers, groups and sockets stay as they are.\<close>

theorem commands_send_at_most_one_message:
  "(lan_run c t s = None \<longleftrightarrow> lan_message c \<noteq> None \<and> getPrinter t s = None)
   \<and> (\<forall>s'. lan_run c t s = Some s' \<longrightarrow>
        printers s' = printers s \<and> printerList s' = printerList s \<and> dms s' = dms s
        \<and> calls s' = calls s @ (case (lan_message c, getPrinter t s) of
            (Some m, Some n) \<Rightarrow> delivered n m s | _ \<Rightarrow> []))"
  unfolding lan_run_message by (auto simp: command_def split: option.split)

lemma demo_getPrinter [simp]:
  "getPrinter ''b'' demo_board = Some 1" "getPrinter ''zz'' demo_board = None"
  by (simp_all add: getPrinter_find_ref find_ref_def has_address_def)

theorem commands_send_at_most_one_message_witness:
  "(\<exists>s'. lan_run DoPause ''b'' demo_board = Some s' \<and> calls s' = delivered 1 (set_params [(''pause'', JNum 1)]) demo_board)
   \<and> lan_run DoPause ''zz'' demo_board = None"
  using commands_send_at_most_one_message [of DoPause "''b''" demo_board]
    commands_send_at_most_one_message [of DoPause "''zz''" demo_board]
  by (auto simp del: lan_run.simps)

text \<open>\<open>ErrCancel\<close>, the command named for cancelling, sends a printer that waits for a
  decision after a power loss the same message as \<open>Continue\<close>, the command that resumes;
  \<open>CancelBrokenMaterial\<close>, which the window calls to cancel, sends it the opposite value.\<close>

theorem cancel_after_power_loss_resumes:
  assumes "getPrinter t s = Some n" and "socket (printers s n) = Some k" and "sock (dms s k) = Some OPEN"
    and "truthy (repoPlrStatus (printers s n))"
  shows "\<exists>s1 s2 s3. ErrCancel t s = Some s1 \<and> Continue t s = Some s2 \<and> CancelBrokenMaterial t s = Some s3
    \<and> calls s1 = calls s @ [DmCall k (WsSend (set_params [(''repoPlrStatus'', JNum 1)]))]
    \<and> calls s2 = calls s1
    \<and> calls s3 = calls s @ [DmCall k (WsSend (set_params [(''repoPlrStatus'', JNum 0)]))]"
  using assms
  by (auto simp: ErrCancel_def set_command_def command_def Continue_def CancelBrokenMaterial_def
      unguarded_def clear_err_def delivered_def dm_sendMsg_calls)

definition demo_power_loss :: dashboard where
  "demo_power_loss = upd 1 (\<lambda>p. p\<lparr>repoPlrStatus := JNum 1\<rparr>) demo_board"

lemma demo_power_loss_fields [simp]:
  "getPrinter ''b'' demo_power_loss = Some 1" "socket (printers demo_power_loss 1) = Some 0"
  "dms demo_power_loss = (\<lambda>_. demo_dm)" "repoPlrStatus (printers demo_power_loss 1) = JNum 1"
  "calls demo_power_loss = []"
  by (simp_all add: demo_power_loss_def getPrinter_find_ref find_ref_def has_address_def)

lemma demo_dm_open [simp]: "sock demo_dm = Some OPEN" "attached demo_dm"
  by (simp_all add: demo_dm_defs)

theorem cancel_after_power_loss_resumes_witness:
  "\<exists>s1 s2. ErrCancel ''b'' demo_power_loss = Some s1 \<and> Continue ''b'' demo_power_loss = Some s2
     \<and> calls s1 = calls s2 \<and> calls s1 = [DmCall 0 (WsSend (set_params [(''repoPlrStatus'', JNum 1)]))]"
proof -
  have "truthy (repoPlrStatus (printers demo_power_loss 1))" "sock (dms demo_power_loss 0) = Some OPEN"
    by (simp_all del: One_nat_def)
  from cancel_after_power_loss_resumes [OF demo_power_loss_fields(1,2) this(2,1)]
  show ?thesis unfolding demo_power_loss_fields(5) by auto
qed

text \<open>Three commands do not look whether the printer has a socket: setting the nozzle
  or the bed temperature and cancelling for lack of material throw a \<open>TypeError\<close> on a
  listed printer that is not connected, where the other commands send nothing.\<close>

theorem unguarded_commands_throw:
  assumes "getPrinter t s = Some n" and "socket (printers s n) = None"
  shows "SetTargetNozzleTemp t r s = None \<and> SetTargetBedTempTemp t r v s = None \<and> CancelBrokenMaterial t s = None
         \<and> (\<forall>c. \<exists>s'. lan_run c t s = Some s' \<and> calls s' = calls s)"
proof -
  have "\<exists>s'. lan_run c t s = Some s' \<and> calls s' = calls s" for c
    using assms unfolding lan_run_message by (simp add: command_def delivered_def split: option.split)
  with assms show ?thesis
    by (simp add: SetTargetNozzleTemp_def SetTargetBedTempTemp_def CancelBrokenMaterial_def unguarded_def)
qed

definition demo_unconnected :: dashboard where
  "demo_unconnected = upd 1 (\<lambda>p. p\<lparr>socket := None\<rparr>) demo_board"

theorem unguarded_commands_throw_witness:
  "SetTargetNozzleTemp ''b'' (JNum 200) demo_unconnected = None
   \<and> (\<exists>s'. lan_run DoStop ''b'' demo_unconnected = Some s' \<and> calls s' = calls demo_unconnected)"
proof -
  have "getPrinter ''b'' demo_unconnected = Some 1" "socket (printers demo_unconnected 1) = None"
    by (simp_all add: demo_unconnected_def getPrinter_find_ref find_ref_def has_address_def)
  from unguarded_commands_throw [OF this, of "JNum 200"] show ?thesis by blast
qed

section \<open>Starting a print\<close>

text \<open>The messages the ticks of a resend put on the wire, for the states they find.\<close>

definition wire :: "call list \<Rightarrow> json list" where
  "wire cs = concat (map (\<lambda>c. case c of DmCall k (WsSend m) \<Rightarrow> [m] | _ \<Rightarrow> []) cs)"

fun resend_log :: "resend \<Rightarrow> dashboard list \<Rightarrow> json list" where
  "resend_log r [] = []"
| "resend_log r (s # ss) =
     wire (drop (length (calls s)) (calls (snd (resend_tick r s))))
     @ (case fst (resend_tick r s) of None \<Rightarrow> [] | Some r' \<Rightarrow> resend_log r' ss)"

fun resend_left :: "resend \<Rightarrow> dashboard list \<Rightarrow> resend option" where
  "resend_left r [] = Some r"
| "resend_left r (s # ss) = (case fst (resend_tick r s) of None \<Rightarrow> None | Some r' \<Rightarrow> resend_left r' ss)"

lemma dm_sendMsg_result:
  "fst (dm_sendMsg m d) = (sock d \<noteq> None \<and> sock d \<noteq> Some CONNECTING)"
  by (simp add: dm_sendMsg_def split: option.split ready.split)

lemma resend_tick_cases:
  "resend_tick r s =
     (case socket (printers s (rs_printer r)) of
        None \<Rightarrow> (Some (r\<lparr>rs_count := Suc (rs_count r)\<rparr>), s)
      | Some k \<Rightarrow>
          (if sock (dms s k) \<noteq> None \<and> sock (dms s k) \<noteq> Some CONNECTING \<or> 5 \<le> Suc (rs_count r) then None
           else Some (r\<lparr>rs_count := Suc (rs_count r)\<rparr>),
           snd (dm_send k (rs_msg r) s)))"
  by (simp add: resend_tick_def Let_def case_prod_beta dm_sendMsg_result split: option.split)

text \<open>C25: A print that could not be sent at once is sent at most once by the ticks that
  follow, whatever happens to the printer in between, and with exactly the message that
  was asked for; once the printer has a socket at five ticks, the ticking has ended.\<close>

theorem print_is_resent_at_most_once:
  "(resend_log r ss = [] \<or> resend_log r ss = [rs_msg r])
   \<and> (rs_count r + length ss \<ge> 5 \<and> ss \<noteq> [] \<and> (\<forall>s \<in> set ss. socket (printers s (rs_printer r)) \<noteq> None)
        \<longrightarrow> resend_left r ss = None)"
proof (induction ss arbitrary: r)
  case (Cons s ss)
  show ?case
  proof (cases "socket (printers s (rs_printer r))")
    case None
    with Cons.IH [of "r\<lparr>rs_count := Suc (rs_count r)\<rparr>"] show ?thesis
      by (simp add: resend_tick_cases wire_def)
  next
    case (Some k)
    let ?r' = "r\<lparr>rs_count := Suc (rs_count r)\<rparr>"
    show ?thesis
    proof (cases "fst (resend_tick r s)")
      case None
      then show ?thesis
        using Some by (simp add: resend_tick_cases wire_def dm_sendMsg_calls)
    next
      case (Some r1)
      note tick = this
      have r1: "r1 = ?r'" and sk: "sock (dms s k) = None \<or> sock (dms s k) = Some CONNECTING" "Suc (rs_count r) < 5"
        using tick \<open>socket (printers s (rs_printer r)) = Some k\<close>
        by (auto simp: resend_tick_cases split: if_splits)
      have "wire (drop (length (calls s)) (calls (snd (resend_tick r s)))) = []"
        using sk(1) \<open>socket (printers s (rs_printer r)) = Some k\<close>
        by (auto simp: resend_tick_cases wire_def dm_sendMsg_calls)
      moreover have "resend_left ?r' ss = None"
        if "5 \<le> rs_count r + length (s # ss)" "\<forall>s \<in> set (s # ss). socket (printers s (rs_printer r)) \<noteq> None"
      proof -
        have "ss \<noteq> []" using that(1) sk(2) by auto
        with Cons.IH [of ?r'] that show ?thesis by simp
      qed
      ultimately show ?thesis
        using Cons.IH [of ?r'] tick r1 by auto
    qed
  qed
qed simp

theorem print_is_resent_at_most_once_witness:
  "resend_left \<lparr>rs_printer = 1, rs_msg = JNull, rs_count = 0\<rparr> (replicate 5 demo_board) = None
   \<and> length (resend_log \<lparr>rs_printer = 1, rs_msg = JNull, rs_count = 0\<rparr> (replicate 5 demo_board)) \<le> 1"
  using print_is_resent_at_most_once [of "\<lparr>rs_printer = 1, rs_msg = JNull, rs_count = 0\<rparr>" "replicate 5 demo_board"]
  by auto

text \<open>A print started on a printer whose socket is closing or closed is lost: nothing is
  sent, no retry is scheduled, and no new socket is opened, although the same print is
  sent again every two seconds when the socket is still connecting.\<close>

theorem print_on_closed_socket_is_lost:
  assumes "getPrinter t s = Some n" and "socket (printers s n) = Some k"
  shows "(sock (dms s k) \<in> {Some CLOSING, Some CLOSED} \<longrightarrow> StartNormalPrint t file st s = Some (None, s))
    \<and> (sock (dms s k) \<in> {None, Some CONNECTING} \<longrightarrow>
        (\<exists>r s'. StartNormalPrint t file st s = Some (Some r, s') \<and> rs_printer r = n
           \<and> socket (printers s' n) = Some (nextDm s) \<and> nextDm s' = Suc (nextDm s)))"
  using assms
  by (auto simp: StartNormalPrint_def sendMsg_def dm_send_def dm_sendMsg_def open_socket_def Let_def
      dm_call_def upd_def split: prod.split)

definition demo_closed :: dashboard where
  "demo_closed = demo_board\<lparr>dms := (\<lambda>_. demo_dm\<lparr>sock := Some CLOSED\<rparr>)\<rparr>"

theorem print_on_closed_socket_is_lost_witness:
  "StartNormalPrint ''b'' ''cube.gcode'' (JNum 0) demo_closed = Some (None, demo_closed)"
proof -
  have a: "getPrinter ''b'' demo_closed = Some 1"
    by (simp add: demo_closed_def getPrinter_find_ref find_ref_def has_address_def all_refs_def)
  have b: "socket (printers demo_closed 1) = Some 0"
    by (simp add: demo_closed_def)
  have c: "sock (dms demo_closed 0) = Some CLOSED"
    by (simp add: demo_closed_def)
  from print_on_closed_socket_is_lost [OF a b] c show ?thesis by simp
qed

end
