(* ===== verification/ErrorProps.thy ===== *)
theory ErrorProps
  imports ErrorTip CommandProps
begin

text \<open>
  What the error tables and the tip promise: every listed error has a text and, but for a
  few, a button; what the entries that share a number hide; and how the buttons relate to
  the commands the window sends.
\<close>

section \<open>The classes of errors\<close>

lemmas Ga_parts = Ga_1_def Ga_2_def Ga_3_def Ga_4_def Ga_5_def Ga_6_def Ga_7_def Ga_8_def Ga_9_def
  Ga_10_def Ga_11_def

lemmas Om_parts = Om_1_def Om_2_def Om_3_def

text \<open>An entry of the first generation (version 800) has one of a few numbers; one of the
  second has level 1 or 2, but for 116.\<close>

definition first_numbers :: "nat list" where
  "first_numbers = [1, 2, 3, 4, 6, 7, 9, 10, 100, 101, 115, 201, 204, 205, 206, 207, 208, 209, 210, 211,
     500, 800, 801, 20000, 20010, 30000, 30010]"

definition entry_ok :: "nat \<times> error_info \<Rightarrow> bool" where
  "entry_ok x = (let (k, e) = x in
     supportVersion e = 800 \<and> k \<in> set first_numbers
     \<or> supportVersion e = 830 \<and> level e = JNum 3 \<and> k = 116
     \<or> supportVersion e = 830 \<and> (level e = JNum 1 \<or> level e = JNum 2)
        \<and> k \<notin> {0, 116, 800, 801, 20000, 20010, 30000, 30010})"

lemma entry_ok_simps [simp]:
  "entry_ok (k, ErrorInfo c l a t 800 i w) = (k \<in> set first_numbers)"
  "entry_ok (k, ErrorInfo c (JNum 3) a t 830 i w) = (k = 116)"
  "entry_ok (k, ErrorInfo c (JNum 1) a t 830 i w) = (k \<notin> {0, 116, 800, 801, 20000, 20010, 30000, 30010})"
  "entry_ok (k, ErrorInfo c (JNum 2) a t 830 i w) = (k \<notin> {0, 116, 800, 801, 20000, 20010, 30000, 30010})"
  by (simp_all add: entry_ok_def)

lemma entries_ok:
  "list_all entry_ok Ga_1" "list_all entry_ok Ga_2" "list_all entry_ok Ga_3" "list_all entry_ok Ga_4"
  "list_all entry_ok Ga_5" "list_all entry_ok Ga_6" "list_all entry_ok Ga_7" "list_all entry_ok Ga_8"
  "list_all entry_ok Ga_9" "list_all entry_ok Ga_10" "list_all entry_ok Ga_11"
  by (simp_all add: Ga_parts first_numbers_def)

lemma Ga_entries_ok: "list_all entry_ok Ga_entries"
  by (simp add: Ga_entries_def entries_ok)

lemma last_of_in: "last_of xs k = Some e \<Longrightarrow> (k, e) \<in> set xs"
  by (simp add: last_of_def map_of_SomeD [of "rev xs", simplified])

lemma last_of_None: "last_of xs k = None \<longleftrightarrow> k \<notin> fst ` set xs"
  by (simp add: last_of_def map_of_eq_None_iff)

lemma nat_key_of_nat [simp]: "nat_key (JNum (of_nat k)) = Some k" "nat_key (JNum (numeral m)) = Some (numeral m)"
  "nat_key (JNum 0) = Some 0" "nat_key (JNum 1) = Some 1"
proof -
  show k: "nat_key (JNum (of_nat k)) = Some k" for k
    by (simp add: nat_key_def)
  show "nat_key (JNum (numeral m)) = Some (numeral m)"
    using k [of "numeral m"] by simp
  show "nat_key (JNum 0) = Some 0" using k [of 0] by simp
  show "nat_key (JNum 1) = Some 1" using k [of 1] by simp
qed

lemma of_nat_rat_cmp [simp]:
  "rat_of_nat k = numeral m \<longleftrightarrow> k = numeral m" "rat_of_nat k \<le> numeral m \<longleftrightarrow> k \<le> numeral m"
  "1 \<le> rat_of_nat k \<longleftrightarrow> 1 \<le> k" "numeral m \<le> rat_of_nat k \<longleftrightarrow> numeral m \<le> k"
proof -
  have "rat_of_nat k = rat_of_nat (numeral m) \<longleftrightarrow> k = numeral m" by (simp only: of_nat_eq_iff)
  then show "rat_of_nat k = numeral m \<longleftrightarrow> k = numeral m" by simp
  have "rat_of_nat k \<le> rat_of_nat (numeral m) \<longleftrightarrow> k \<le> numeral m" by (simp only: of_nat_le_iff)
  then show "rat_of_nat k \<le> numeral m \<longleftrightarrow> k \<le> numeral m" by simp
  have "rat_of_nat 1 \<le> rat_of_nat k \<longleftrightarrow> 1 \<le> k" by (simp only: of_nat_le_iff)
  then show "1 \<le> rat_of_nat k \<longleftrightarrow> 1 \<le> k" by simp
  have "rat_of_nat (numeral m) \<le> rat_of_nat k \<longleftrightarrow> numeral m \<le> k" by (simp only: of_nat_le_iff)
  then show "numeral m \<le> rat_of_nat k \<longleftrightarrow> numeral m \<le> k" by simp
qed

definition some_button :: "decision \<Rightarrow> bool" where
  "some_button d \<longleftrightarrow> on_continue d \<or> on_cancel d \<or> on_retry d \<or> on_ok d \<or> on_pause d = Some True
     \<or> on_stop d = Some True \<or> on_cutter d = Some True"

lemma some_button_Decision [simp]:
  "some_button (Decision a b c d e f g) \<longleftrightarrow> a \<or> b \<or> c \<or> d \<or> e = Some True \<or> f = Some True \<or> g = Some True"
  by (simp add: some_button_def)

definition silent :: "nat \<Rightarrow> json \<Rightarrow> bool" where
  "silent k t \<longleftrightarrow> k \<in> {800, 801, 20000, 30010} \<or> (k \<in> {116, 30000} \<and> \<not> eq_num t 1)"

lemma Yi_some_button:
  assumes "Ga (JNum (of_nat k)) = Some e"
  shows "some_button (Yi (JNum (of_nat k)) t r) \<longleftrightarrow> \<not> silent k t"
proof -
  have ge: "last_of Ga_entries k = Some e" using assms by (simp add: Ga_def)
  have "entry_ok (k, e)"
    using last_of_in [OF ge] Ga_entries_ok by (auto simp: list_all_iff)
  then consider (old) "supportVersion e = 800" "k \<in> set first_numbers"
    | (last) "supportVersion e = 830" "level e = JNum 3" "k = 116"
    | (new) "supportVersion e = 830" "level e = JNum 1 \<or> level e = JNum 2"
        "k \<notin> {0, 116, 800, 801, 20000, 20010, 30000, 30010}"
    by (auto simp: entry_ok_def)
  then show ?thesis
  proof cases
    case old
    then show ?thesis
      unfolding first_numbers_def set_simps insert_iff empty_iff simp_thms Yi_def assms
      by (elim disjE) (simp_all add: silent_def Let_def num_between_def)
  next
    case last
    then show ?thesis
      using assms by (simp add: Yi_def silent_def Let_def num_between_def)
  next
    case new
    then show ?thesis
      using assms by (auto simp: Yi_def silent_def Let_def num_between_def)
  qed
qed

lemma shown_in_tip:
  assumes "err_key (err p) = JNum (of_nat k)"
  shows "shown_buttons False p \<noteq> [] \<longleftrightarrow>
     k \<noteq> 0 \<and> \<not> (needs_refill p \<and> k = 2839) \<and> some_button (Yi (err_key (err p)) (deviceState p) (needs_refill p))"
  using assms by (auto simp: shown_buttons_def Let_def some_button_def)

lemma listed_not_zero: "0 \<notin> fst ` set Ga_entries"
  using Ga_entries_ok by (auto simp: list_all_iff entry_ok_def first_numbers_def)

text \<open>C19: The tip offers at least one button exactly for the listed errors, but for a few: 800,
  801, 20000 (the file of a power loss) and 30010 never have one, 116 and 30000 only have
  one while the printer prints; and 2839 has none when the printer cannot say which slot
  ran out.\<close>

theorem every_listed_error_has_a_button:
  assumes "err_key (err p) = JNum (of_nat k)"
  shows "shown_buttons False p \<noteq> [] \<longleftrightarrow>
     k \<in> fst ` set Ga_entries \<and> \<not> silent k (deviceState p) \<and> \<not> (needs_refill p \<and> k = 2839)"
proof (cases "Ga (JNum (of_nat k))")
  case None
  then have "k \<notin> fst ` set Ga_entries" by (simp add: Ga_def last_of_None)
  moreover from None have "\<not> some_button (Yi (err_key (err p)) (deviceState p) (needs_refill p))"
    by (simp add: Yi_def assms)
  ultimately show ?thesis by (simp add: shown_in_tip [OF assms])
next
  case (Some e)
  then have "(k, e) \<in> set Ga_entries" by (simp add: Ga_def last_of_in)
  then have "k \<in> fst ` set Ga_entries" by force
  moreover have "k \<noteq> 0" using \<open>k \<in> fst ` set Ga_entries\<close> listed_not_zero by metis
  ultimately show ?thesis
    using shown_in_tip [OF assms] Yi_some_button [OF Some, of "deviceState p" "needs_refill p"] assms by auto
qed

definition demo_error :: "nat \<Rightarrow> int \<Rightarrow> dashboard" where
  "demo_error k dt = upd 1 (\<lambda>p. p\<lparr>err := (err p)\<lparr>err_key := JNum (of_nat k)\<rparr>, deviceType := dt\<rparr>) demo_board"

lemma demo_error_fields [simp]:
  "err_key (err (printers (demo_error k dt) (Suc 0))) = JNum (of_nat k)" "deviceType (printers (demo_error k dt) (Suc 0)) = dt"
  "deviceState (printers (demo_error k dt) (Suc 0)) = JNum 10000" "address (printers (demo_error k dt) (Suc 0)) = ''b''"
  "getPrinter ''b'' (demo_error k dt) = Some (Suc 0)" "socket (printers (demo_error k dt) (Suc 0)) = Some 0"
  "dms (demo_error k dt) = (\<lambda>_. demo_dm)" "calls (demo_error k dt) = []"
  by (simp_all add: demo_error_def getPrinter_find_ref find_ref_def has_address_def)

theorem every_listed_error_has_a_button_witness:
  "shown_buttons False (printers (demo_error 20000 0) (Suc 0)) = []"
  using every_listed_error_has_a_button [of "printers (demo_error 20000 0) (Suc 0)" 20000]
  by (simp add: silent_def)

section \<open>Numbers and texts\<close>

lemma last_of_later:
  assumes "(k, e) \<in> set ys" and "\<And>x. x \<in> set ys \<Longrightarrow> fst x = k \<Longrightarrow> snd x = e"
  shows "last_of (xs @ ys) k = Some e"
proof -
  have "\<exists>e'. map_of (rev ys) k = Some e'"
    using assms(1) by (metis domD dom_map_of_conv_image_fst fst_conv image_eqI set_rev)
  then obtain e' where e': "map_of (rev ys) k = Some e'" by blast
  with assms(2) have "e' = e" by (metis fst_conv map_of_SomeD set_rev snd_conv)
  with e' show ?thesis by (simp add: last_of_def map_of_append map_add_def)
qed

definition only_at :: "nat \<Rightarrow> 'a \<Rightarrow> nat \<times> 'a \<Rightarrow> bool" where
  "only_at k e x = (fst x = k \<longrightarrow> snd x = e)"

lemma only_at_simps [simp]:
  "only_at (numeral m) e (numeral n, e') = (m = n \<longrightarrow> e' = e)"
  by (auto simp: only_at_def)

definition new_101 :: error_info where
  "new_101 = ErrorInfo ''AC0101'' (JNum 1) (Some [''K1C'', ''K1MAX'', ''K2Plus'']) ''AC0101'' 830 None None"

definition new_500 :: error_info where
  "new_500 = ErrorInfo ''AC0500'' (JNum 2) (Some [''K1C'', ''K1MAX'', ''K2Plus'']) ''AC0500'' 830 None None"

lemma repeated_numbers:
  "last_of Ga_entries 101 = Some new_101" "last_of Ga_entries 500 = Some new_500"
proof -
  let ?ys = "Ga_2 @ Ga_3 @ Ga_4 @ Ga_5 @ Ga_6 @ Ga_7 @ Ga_8 @ Ga_9 @ Ga_10 @ Ga_11"
  have "list_all (only_at 101 new_101) ?ys"
    by (simp only: list_all_append) (simp add: Ga_parts new_101_def)
  moreover have "(101, new_101) \<in> set ?ys"
    by (simp add: Ga_2_def new_101_def)
  ultimately show "last_of Ga_entries 101 = Some new_101"
    unfolding Ga_entries_def by (intro last_of_later) (auto simp: list_all_iff only_at_def)
  have "list_all (only_at 500 new_500) ?ys"
    by (simp only: list_all_append) (simp add: Ga_parts new_500_def)
  moreover have "(500, new_500) \<in> set ?ys"
    by (simp add: Ga_2_def new_500_def)
  ultimately show "last_of Ga_entries 500 = Some new_500"
    unfolding Ga_entries_def by (intro last_of_later) (auto simp: list_all_iff only_at_def)
qed

text \<open>Two entries of the error table are hidden by a later entry with the same number:
  101, whose text says that printing was paused for a quality problem, and 500.  So 101,
  which by its first entry would offer to continue or to cancel the print whatever the
  printer does, offers to retry or dismiss while it prints and only to dismiss otherwise.\<close>

theorem repeated_numbers_hide_their_first_entry:
  "map (\<lambda>k. map_option code (Ga (JNum k))) [101, 500] = [Some ''AC0101'', Some ''AC0500'']
   \<and> (101, ErrorInfo ''101'' (JNum 2) (Some [''K1'', ''K1C'', ''K1MAX'', ''K2Plus''])
        ''A print quality problem has been detected and printing is paused'' 800 None None) \<in> set Ga_entries
   \<and> Yi (JNum 101) t r = (if eq_num t 1 then Decision False False True True None None None
                          else Decision False False False True None None None)"
proof (intro conjI)
  show "(101, ErrorInfo ''101'' (JNum 2) (Some [''K1'', ''K1C'', ''K1MAX'', ''K2Plus''])
        ''A print quality problem has been detected and printing is paused'' 800 None None) \<in> set Ga_entries"
    by (simp add: Ga_entries_def Ga_1_def)
qed (simp_all add: Ga_def repeated_numbers new_101_def new_500_def Yi_def num_between_def)

text \<open>Membership among the texts, decided one part at a time on the numbers alone.\<close>

definition has_text :: "nat \<times> error_info \<Rightarrow> bool" where
  "has_text x = (fst x \<in> set (map fst Om_entries))"

lemma Om_numbers:
  "set (map fst Om_entries) = set (map fst Om_1) \<union> set (map fst Om_2) \<union> set (map fst Om_3)"
  by (simp add: Om_entries_def Un_assoc)

lemma list_all_has_text: "list_all has_text xs = (\<forall>k \<in> set (map fst xs). k \<in> set (map fst Om_entries))"
  by (auto simp: has_text_def list_all_iff)

lemma listed_have_text_1:
  "list_all has_text Ga_1" "list_all has_text Ga_2" "list_all has_text Ga_3"
  unfolding list_all_has_text Om_numbers by (simp_all add: Ga_1_def Ga_2_def Ga_3_def Om_parts)

lemma listed_have_text_4:
  "list_all has_text Ga_4" "list_all has_text Ga_5" "list_all has_text Ga_6"
  unfolding list_all_has_text Om_numbers by (simp_all add: Ga_4_def Ga_5_def Ga_6_def Om_parts)

lemma listed_have_text_7:
  "list_all has_text Ga_7" "list_all has_text Ga_8" "list_all has_text Ga_9"
  unfolding list_all_has_text Om_numbers by (simp_all add: Ga_7_def Ga_8_def Ga_9_def Om_parts)

lemma listed_have_text_10:
  "list_all has_text Ga_10" "list_all has_text Ga_11"
  unfolding list_all_has_text Om_numbers by (simp_all add: Ga_10_def Ga_11_def Om_parts)

lemmas listed_have_text = listed_have_text_1 listed_have_text_4 listed_have_text_7 listed_have_text_10

lemma Ga_has_Om: "k \<in> fst ` set Ga_entries \<Longrightarrow> last_of Om_entries k \<noteq> None"
proof -
  have "list_all has_text Ga_entries"
    by (simp add: Ga_entries_def listed_have_text)
  then show "k \<in> fst ` set Ga_entries \<Longrightarrow> last_of Om_entries k \<noteq> None"
    unfolding last_of_None by (auto simp: list_all_iff has_text_def)
qed

text \<open>Every listed error has a text, and but for 2839 the tip shows the translation of
  that text, whatever value came with the error.\<close>

theorem every_listed_error_has_a_text:
  assumes "err_key (err p) = JNum (of_nat k)" and "k \<in> fst ` set Ga_entries" and "k \<noteq> 2839"
  shows "\<exists>m. Om (err_key (err p)) = Some m \<and> tip_text tr parse text_of p = Some (tr (Some m))"
proof -
  obtain m where "last_of Om_entries k = Some m" using Ga_has_Om assms(2) by auto
  moreover obtain e where "last_of Ga_entries k = Some e" using assms(2) last_of_None [of Ga_entries k] by auto
  ultimately show ?thesis using assms(1,3) by (simp add: tip_text_def Om_def Ga_def Let_def)
qed

theorem every_listed_error_has_a_text_witness:
  "\<exists>m. tip_text (\<lambda>m. case m of None \<Rightarrow> ''?'' | Some t \<Rightarrow> t) (\<lambda>_. None) (\<lambda>_. []) (printers (demo_error 101 0) (Suc 0)) = Some m"
proof -
  have "101 \<in> fst ` set Ga_entries" by (simp add: Ga_entries_def Ga_1_def)
  moreover have "err_key (err (printers (demo_error 101 0) (Suc 0))) = JNum (of_nat 101)" by simp
  ultimately show ?thesis
    using every_listed_error_has_a_text [of "printers (demo_error 101 0) (Suc 0)" 101
        "\<lambda>m. case m of None \<Rightarrow> ''?'' | Some t \<Rightarrow> t" "\<lambda>_. None" "\<lambda>_. []"] by auto
qed

section \<open>Buttons and commands\<close>

text \<open>On a printer that the cloud reaches, the buttons to pause and to stop throw: they
  send nothing, and stopping has already taken the error off the screen.  The window's
  commands to pause and to stop such a printer throw as well.\<close>

theorem cloud_printer_cannot_be_paused_or_stopped:
  assumes "deviceType (printers s n) = 1" and "getPrinter a s = Some n"
  shows "press yes PauseButton n s = Threw s
    \<and> (\<exists>s1. press True StopButton n s = Threw s1 \<and> calls s1 = calls s \<and> err_key (err (printers s1 n)) = JNum 0)
    \<and> HandleSendErrorCommand 4 a s = Threw s \<and> HandleSendErrorCommand 5 a s = Threw s"
  using assms by (simp add: HandleSendErrorCommand_def clear_key_def upd_def Let_def)

theorem cloud_printer_cannot_be_paused_or_stopped_witness:
  "press False PauseButton (Suc 0) (demo_error 101 1) = Threw (demo_error 101 1)"
  using cloud_printer_cannot_be_paused_or_stopped [of "demo_error 101 1" "Suc 0" "''b''" False] by simp

lemma send_keeps [simp]:
  "delivered n k (send_if_connected n m s) = delivered n k s"
  "getPrinter b (send_if_connected n m s) = getPrinter b s"
  by (auto simp: getPrinter_find_ref find_ref_def has_address_def delivered_def split: option.split)

text \<open>C27: How the buttons of the error dialog and the window's commands of the same names agree
  on a listed printer that is not in the cloud: continuing, retrying and pausing leave the same
  dashboard; stopping and dismissing send the same messages; cancelling leaves the same dashboard
  while the printer waits for a decision (\<open>repoPlrStatus\<close> or \<open>materialStatus\<close>), and otherwise the
  button sends, after the command's messages, the two that dismiss the error.\<close>

theorem buttons_agree_with_commands:
  assumes "deviceType (printers s n) \<noteq> 1" and "address (printers s n) = a" and "getPrinter a s = Some n"
  shows "press yes ContinueButton n s = HandleSendErrorCommand 0 a s
    \<and> press yes RetryButton n s = HandleSendErrorCommand 2 a s
    \<and> press yes PauseButton n s = HandleSendErrorCommand 4 a s
    \<and> calls (after (press True StopButton n s)) = calls (after (HandleSendErrorCommand 5 a s))
    \<and> calls (after (press yes OkButton n s)) = calls (after (HandleSendErrorCommand 3 a s))
    \<and> (truthy (repoPlrStatus (printers s n)) \<or> truthy (materialStatus (printers s n))
         \<longrightarrow> press True CancelButton n s = HandleSendErrorCommand 1 a s)
    \<and> (\<not> truthy (repoPlrStatus (printers s n)) \<and> \<not> truthy (materialStatus (printers s n))
         \<longrightarrow> calls (after (press True CancelButton n s)) = calls (after (HandleSendErrorCommand 1 a s))
               @ delivered n (set_params [(''errorHandling'', JNum 1)]) s
               @ delivered n (set_params [(''cleanErr'', JNum 1)]) s)"
proof -
  let ?s1 = "clear_key n s"
  have same: "getPrinter b ?s1 = getPrinter b s" "delivered n m ?s1 = delivered n m s" "calls ?s1 = calls s"
    "address (printers ?s1 n) = a" "deviceType (printers ?s1 n) = deviceType (printers s n)" for b m
    using assms(2) by (auto simp: clear_key_def upd_def getPrinter_find_ref find_ref_def has_address_def
        all_refs_def delivered_def intro!: arg_cong2 [of _ _ _ _ List.find] split: option.split)
  have stop: "\<And>t. getPrinter a t = Some n \<Longrightarrow> Stop a t = Some (send_if_connected n (set_params [(''stop'', JNum 1)]) t)"
    by (simp add: Stop_def set_command_def command_def)
  have ok: "\<And>t. getPrinter a t = Some n \<Longrightarrow> \<exists>t'. ErrOK a t = Some t' \<and> calls t' = calls t
      @ delivered n (set_params [(''errorHandling'', JNum 1)]) t @ delivered n (set_params [(''cleanErr'', JNum 1)]) t"
    by (auto simp: ErrOK_def)
  have cancel: "calls (after (attempt s (CancelBrokenMaterial a s)))
      = calls s @ delivered n (set_params [(''stop'', JNum 1)]) s" if "\<not> truthy (repoPlrStatus (printers s n))"
    using assms(3) that
    by (simp add: CancelBrokenMaterial_def unguarded_def attempt_def delivered_def dm_send_def dm_sendMsg_calls
        split: option.split)
  show ?thesis
    using assms ok [OF assms(3)] ok [of ?s1] stop [OF assms(3)] stop [of ?s1] cancel
      ok [of "send_if_connected n (set_params [(''stop'', JNum 1)]) s"]
    by (auto simp: HandleSendErrorCommand_def Let_def same attempt_def)
qed

theorem buttons_agree_with_commands_witness:
  "press True RetryButton (Suc 0) (demo_error 101 0) = HandleSendErrorCommand 2 ''b'' (demo_error 101 0)"
  using buttons_agree_with_commands [of "demo_error 101 0" "Suc 0" "''b''" True] by simp

end
