(* ===== verification/ColorDistance.thy ===== *)
theory ColorDistance
  imports Complex_Main Prelude
begin

text \<open>
  The distance between two colours (\<open>CeX73yR3.js\<close>): from the text \<open>#rrggbb\<close> to linear RGB,
  XYZ and Lab, and the CIEDE2000 formula on two Lab colours.  The floating-point numbers
  of the source are real numbers here, so its rounding is not modelled; a \<open>NaN\<close>, which a
  text that is no colour leads to, is \<open>None\<close>.
\<close>

section \<open>Colour spaces\<close>

text \<open>\<open>L4\<close>: from the gamma-coded to the linear value.\<close>

definition L4 :: "real \<Rightarrow> real" where
  "L4 e = (if e > 0.04045 then ((e + 0.055) / 1.055) powr 2.4 else e / 12.92)"

definition uy :: "real \<Rightarrow> real" where
  "uy e = (if e > 0.008856 then e powr (1 / 3) else 7.787 * e + 16 / 116)"

text \<open>\<open>Vte\<close> and \<open>Hte\<close>: XYZ to Lab, and RGB to XYZ relative to the white point.\<close>

definition Vte :: "real \<Rightarrow> real \<Rightarrow> real \<Rightarrow> real \<times> real \<times> real" where
  "Vte e t r = (116 * uy t - 16, 500 * (uy e - uy t), 200 * (uy t - uy r))"

definition Hte :: "real \<Rightarrow> real \<Rightarrow> real \<Rightarrow> real \<times> real \<times> real" where
  "Hte e t r =
     (let n = L4 e; a = L4 t; i = L4 r;
          c = n * 0.412453 + a * 0.35758 + i * 0.180423;
          d = n * 0.212671 + a * 0.71516 + i * 0.072169;
          u = n * 0.019334 + a * 0.119193 + i * 0.950227
      in (c / 0.95047, d / 1, u / 1.08883))"

section \<open>CIEDE2000\<close>

text \<open>\<open>Math.atan2\<close>.\<close>

definition atan2 :: "real \<Rightarrow> real \<Rightarrow> real" where
  "atan2 y x =
     (if x > 0 then arctan (y / x)
      else if x < 0 then (if y \<ge> 0 then arctan (y / x) + pi else arctan (y / x) - pi)
      else if y > 0 then pi / 2 else if y < 0 then - pi / 2 else 0)"

text \<open>The hue angle in degrees; a colour that is almost grey counts as 270.\<close>

definition hue :: "real \<Rightarrow> real \<Rightarrow> real \<Rightarrow> real" where
  "hue chroma b a =
     (let h = (if chroma > 1 / 10 ^ 4 then atan2 b a * (180 / pi) else 270) in if h < 0 then h + 360 else h)"

text \<open>The difference of the hues, folded into a half turn, and the mean hue.\<close>

definition hue_mean_diff :: "real \<Rightarrow> real \<Rightarrow> real \<times> real" where
  "hue_mean_diff R N =
     (let U = (R + N) / 2; V = N - R
      in if \<bar>V\<bar> > 180
         then (U + (if U < 180 then 180 else - 180), V + (if R \<ge> N then 360 else - 360))
         else (U, V))"

definition weight_T :: "real \<Rightarrow> real" where
  "weight_T U = 1 - 0.17 * cos ((U - 30) * pi / 180) + 0.24 * cos (2 * U * pi / 180)
     + 0.32 * cos ((3 * U + 6) * pi / 180) - 0.2 * cos ((4 * U - 63) * pi / 180)"

text \<open>The factor that turns the hue of blue colours.\<close>

definition rotation :: "real \<Rightarrow> real \<Rightarrow> real" where
  "rotation F U =
     (let ie = 30 * exp (- (((U - 275) / 25) ^ 2))
      in - (2 * sqrt (F ^ 7 / (F ^ 7 + 25 ^ 7))) * sin (2 * ie * pi / 180))"

text \<open>The four summands under the root: lightness, chroma, hue and their product.\<close>

definition DKe_terms ::
    "real \<times> real \<times> real \<Rightarrow> real \<times> real \<times> real \<Rightarrow> real \<Rightarrow> real \<Rightarrow> real \<Rightarrow> real \<times> real \<times> real \<times> real" where
  "DKe_terms e t r n a =
     (let (i, o', l) = e; (s, c, d) = t;
          u = (i + s) * 0.5; f = (u - 50) ^ 2; p = s - i;
          m = 1 + 0.015 * f / sqrt (20 + f); h = p / (m * r);
          b = sqrt (o' * o' + l * l); v = sqrt (c * c + d * d); y = 0.5 * (b + v);
          C = 0.5 * (1 - sqrt (y ^ 7 / (y ^ 7 + 25 ^ 7)));
          k = c * (1 + C); P = o' * (1 + C);
          E = sqrt (k * k + d * d); S = sqrt (P * P + l * l);
          F = 0.5 * (E + S); A = 1 + 0.045 * F; z = (E - S) / (A * n);
          (U, V) = hue_mean_diff (hue S l P) (hue E d k);
          O' = 2 * sqrt (S * E) * sin (0.5 * V * pi / 180);
          W = 1 + 0.015 * F * weight_T U; J = O' / (W * a)
      in (h, z, J, rotation F U))"

definition DKe ::
    "real \<times> real \<times> real \<Rightarrow> real \<times> real \<times> real \<Rightarrow> real \<Rightarrow> real \<Rightarrow> real \<Rightarrow> real" where
  "DKe e t r n a =
     (let (h, z, J, q) = DKe_terms e t r n a in sqrt (h * h + z * z + J * J + q * z * J))"

section \<open>From the texts\<close>

text \<open>\<open>parseInt(t, 16)\<close>, for a text of at most two characters: blanks, a sign and then the
  longest run of digits; \<open>0x\<close> is a prefix with no digit after it.\<close>

definition hex_digit :: "char \<Rightarrow> nat option" where
  "hex_digit c =
     (let n = of_char c :: nat in
      if 48 \<le> n \<and> n \<le> 57 then Some (n - 48)
      else if 65 \<le> n \<and> n \<le> 70 then Some (n - 55)
      else if 97 \<le> n \<and> n \<le> 102 then Some (n - 87) else None)"

fun hex_run :: "nat option \<Rightarrow> string \<Rightarrow> nat option" where
  "hex_run a [] = a"
| "hex_run a (c # cs) =
     (case hex_digit c of
        None \<Rightarrow> a
      | Some d \<Rightarrow> hex_run (Some ((case a of None \<Rightarrow> 0 | Some n \<Rightarrow> n * 16) + d)) cs)"

fun parse_hex :: "string \<Rightarrow> int option" where
  "parse_hex t =
     (if t = ''0x'' \<or> t = ''0X'' then None
      else case t of
        [] \<Rightarrow> None
      | c # cs \<Rightarrow>
          if c = CHR '' '' then parse_hex cs
          else if c = CHR ''-'' then map_option (\<lambda>n. - int n) (hex_run None cs)
          else if c = CHR ''+'' then map_option int (hex_run None cs)
          else map_option int (hex_run None t))"

record rgb =
  red :: "int option"
  green :: "int option"
  blue :: "int option"

text \<open>\<open>t.slice(a, b)\<close> for indices that count from the start.\<close>

definition slice :: "nat \<Rightarrow> nat \<Rightarrow> string \<Rightarrow> string" where
  "slice a b t = drop a (take b t)"

definition Ute :: "string \<Rightarrow> rgb" where
  "Ute e = (let t = drop 1 e in
     \<lparr>red = parse_hex (slice 0 2 t), green = parse_hex (slice 2 4 t), blue = parse_hex (slice 4 6 t)\<rparr>)"

text \<open>The channels as numbers, when all three are; one \<open>NaN\<close> makes the distance \<open>NaN\<close>.\<close>

definition channels :: "rgb \<Rightarrow> (real \<times> real \<times> real) option" where
  "channels c =
     (case (red c, green c, blue c) of
        (Some r, Some g, Some b) \<Rightarrow> Some (of_int r, of_int g, of_int b) | _ \<Rightarrow> None)"

definition lab :: "real \<times> real \<times> real \<Rightarrow> real \<times> real \<times> real" where
  "lab c = (let (r, g, b) = c; (x, y, z) = Hte (r / 255) (g / 255) (b / 255) in Vte x y z)"

definition MKe :: "rgb \<Rightarrow> rgb \<Rightarrow> real option" where
  "MKe e t =
     (case (channels e, channels t) of
        (Some x, Some y) \<Rightarrow> Some (DKe (lab x) (lab y) 0.8 0.6 0.8) | _ \<Rightarrow> None)"

definition text_distance :: "string \<Rightarrow> string \<Rightarrow> real option" where
  "text_distance e c = MKe (Ute e) (Ute c)"

section \<open>The distance is one\<close>

lemma rotation_bound: "0 \<le> F \<Longrightarrow> \<bar>rotation F U\<bar> \<le> 2"
proof -
  assume F: "0 \<le> F"
  define w where "w = sqrt (F ^ 7 / (F ^ 7 + 25 ^ 7))"
  have "0 \<le> w" "w \<le> 1"
    using F add_nonneg_pos [OF zero_le_power [OF F, of 7], of "25 ^ 7"] by (auto simp: w_def divide_le_eq_1)
  moreover define s where "s = sin (2 * (30 * exp (- (((U - 275) / 25) ^ 2))) * pi / 180)"
  moreover have "\<bar>s\<bar> \<le> 1" by (simp add: s_def)
  ultimately have "\<bar>2 * w * s\<bar> \<le> 2 * 1 * 1"
    unfolding abs_mult by (intro mult_mono) auto
  then show ?thesis by (simp add: rotation_def Let_def w_def s_def)
qed

text \<open>What is under the root is never negative, so the real root is the one of the source.\<close>

lemma radicand_nonneg:
  assumes "\<bar>q\<bar> \<le> (2::real)"
  shows "0 \<le> h * h + z * z + J * J + q * z * J"
proof -
  have "\<bar>q * (z * J)\<bar> \<le> 2 * \<bar>z * J\<bar>"
    unfolding abs_mult using assms by (intro mult_right_mono) auto
  moreover have "2 * \<bar>z * J\<bar> \<le> z * z + J * J"
    using sum_squares_bound [of "\<bar>z\<bar>" "\<bar>J\<bar>"] by (simp add: abs_mult power2_eq_square)
  moreover have "- \<bar>q * (z * J)\<bar> \<le> q * (z * J)" by simp
  moreover have "0 \<le> h * h" by simp
  moreover have "q * z * J = q * (z * J)" by simp
  ultimately show ?thesis by linarith
qed

lemma DKe_nonneg: "0 \<le> DKe e t r n a"
proof -
  obtain h z J q where t: "DKe_terms e t r n a = (h, z, J, q)" by (cases "DKe_terms e t r n a")
  then have "\<exists>F U. 0 \<le> F \<and> q = rotation F U"
    by (auto simp: DKe_terms_def Let_def split: prod.splits)
       (metis add_nonneg_nonneg divide_nonneg_nonneg real_sqrt_ge_zero sum_squares_ge_zero zero_le_numeral)+
  with rotation_bound have "\<bar>q\<bar> \<le> 2" by blast
  with t radicand_nonneg [of q h z J] show ?thesis by (simp add: DKe_def)
qed

lemma DKe_same: "DKe c c r n a = 0"
  by (cases c) (simp add: DKe_def DKe_terms_def Let_def hue_mean_diff_def split: prod.split)

lemma text_distance_same: "channels (Ute c) \<noteq> None \<Longrightarrow> text_distance c c = Some 0"
  by (auto simp: text_distance_def MKe_def DKe_same)

lemma text_distance_nonneg: "text_distance e c = Some y \<Longrightarrow> 0 \<le> y"
  by (auto simp: text_distance_def MKe_def DKe_nonneg split: option.splits)

lemma text_distance_colour: "text_distance e c \<noteq> None \<longleftrightarrow> channels (Ute e) \<noteq> None \<and> channels (Ute c) \<noteq> None"
  by (auto simp: text_distance_def MKe_def split: option.splits)

end
