(* ===== verification/ColorMatch.thy ===== *)
theory ColorMatch
  imports ColorDistance DeviceCommands "HOL-Library.Multiset"
begin

text \<open>
  Matching the filaments a print asks for with the slots of a printer's material boxes
  (\<open>CeX73yR3.js\<close>): \<open>$4\<close>, which finds the nearest slot of the right type, the greedy
  rounds of \<open>HandleRequestColorMatchInfo\<close>, and the choice of \<open>N4\<close> for one plate, which
  matches every extruder on its own.

  The distance of two colour texts is an argument, so that what is proved of the rounds
  holds for any distance; the program's is \<open>text_distance\<close>.  \<open>None\<close> is \<open>NaN\<close>, which is
  nearer than nothing.
\<close>

section \<open>Slots and extruders\<close>

record slot =
  slotBoxType :: json
  slotColor :: string
  slotBoxId :: json
  slotMaterialId :: json
  slotFilamentType :: json
  slotRFIDState :: json
  slotPercent :: json
  slotRemaining :: json
  slotCId :: json

record extruder =
  extruder_id :: json
  extruder_color :: string
  filament_type :: json

text \<open>The colours are texts: a slot's is made by \<open>formatBoxsInfoData\<close>, an extruder's by the
  slicer.\<close>

definition text_in :: "json \<Rightarrow> string" where
  "text_in v = (case v of JStr t \<Rightarrow> t | _ \<Rightarrow> [])"

definition slot_of :: "json \<Rightarrow> slot" where
  "slot_of v = \<lparr>slotBoxType = jget v ''boxType'', slotColor = text_in (jget v ''color''),
     slotBoxId = jget v ''boxId'', slotMaterialId = jget v ''materialId'',
     slotFilamentType = jget v ''filamentType'', slotRFIDState = jget v ''RFIDState'',
     slotPercent = jget v ''percent'', slotRemaining = jget v ''remaining_length'', slotCId = jget v ''cId''\<rparr>"

definition extruder_of :: "json \<Rightarrow> extruder" where
  "extruder_of v = \<lparr>extruder_id = jget v ''extruder_id'', extruder_color = text_in (jget v ''extruder_color''),
     filament_type = jget v ''filament_type''\<rparr>"

text \<open>The slots of the boxes that are not spool holders.\<close>

definition box_slots :: "printer \<Rightarrow> slot list" where
  "box_slots p = filter (\<lambda>b. slotBoxType b = JNum 0) (map slot_of (boxColorInfo (boxsInfo p)))"

section \<open>The nearest slot\<close>

text \<open>What \<open>$4\<close> returns; a distance of \<open>None\<close> is \<open>Infinity\<close> here.\<close>

record color_match =
  m_index :: int
  m_color :: string
  m_materialId :: json
  m_boxId :: json
  m_filamentType :: json
  m_cId :: json
  m_status :: nat
  m_msg :: string
  m_distance :: "real option"
  m_RFIDState :: json
  m_percent :: json
  m_remaining :: json

definition no_match :: color_match where
  "no_match = \<lparr>m_index = - 1, m_color = ''#ffffff'', m_materialId = JNum 0, m_boxId = JNum (- 1),
     m_filamentType = JStr [], m_cId = JNum (- 1), m_status = 1, m_msg = ''Filament type not matched'',
     m_distance = None, m_RFIDState = JNum 1, m_percent = JNum 100, m_remaining = JNum 0\<rparr>"

definition match_at :: "nat \<Rightarrow> slot \<Rightarrow> real \<Rightarrow> color_match" where
  "match_at v b y = \<lparr>m_index = int v, m_color = slotColor b, m_materialId = slotMaterialId b,
     m_boxId = slotBoxId b, m_filamentType = slotFilamentType b, m_cId = slotCId b, m_status = 0,
     m_msg = ''ok'', m_distance = Some y, m_RFIDState = slotRFIDState b, m_percent = slotPercent b,
     m_remaining = slotRemaining b\<rparr>"

definition below :: "real \<Rightarrow> real option \<Rightarrow> bool" where
  "below y n = (case n of None \<Rightarrow> True | Some x \<Rightarrow> y < x)"

fun nearest_from ::
    "(string \<Rightarrow> string \<Rightarrow> real option) \<Rightarrow> string \<Rightarrow> json \<Rightarrow> nat \<Rightarrow> slot list \<Rightarrow> color_match \<Rightarrow> color_match" where
  "nearest_from gap e t v [] m = m"
| "nearest_from gap e t v (b # bs) m =
     nearest_from gap e t (Suc v) bs
       (if slotFilamentType b = t
        then (case gap e (slotColor b) of
                None \<Rightarrow> m | Some y \<Rightarrow> if below y (m_distance m) then match_at v b y else m)
        else m)"

definition nearest_slot ::
    "(string \<Rightarrow> string \<Rightarrow> real option) \<Rightarrow> string \<Rightarrow> json \<Rightarrow> slot list \<Rightarrow> color_match" where
  "nearest_slot gap e t r = nearest_from gap e t 0 r no_match"

section \<open>The rounds\<close>

text \<open>\<open>b.distance <= u.distance\<close>.\<close>

definition at_most :: "real option \<Rightarrow> real option \<Rightarrow> bool" where
  "at_most x y = (case y of None \<Rightarrow> True | Some b \<Rightarrow> (case x of None \<Rightarrow> False | Some a \<Rightarrow> a \<le> b))"

text \<open>One round looks at all waiting extruders: the first is the candidate until another of
  the same filament type is at least as near to its slot.\<close>

definition replaces :: "color_match \<Rightarrow> color_match \<Rightarrow> bool" where
  "replaces b u = (at_most (m_distance b) (m_distance u) \<and> m_filamentType b = m_filamentType u)"

fun pick_from ::
    "(string \<Rightarrow> string \<Rightarrow> real option) \<Rightarrow> slot list \<Rightarrow> nat \<Rightarrow> extruder list
      \<Rightarrow> (color_match \<times> extruder \<times> nat) option \<Rightarrow> (color_match \<times> extruder \<times> nat) option" where
  "pick_from gap l h [] c = c"
| "pick_from gap l h (m # ms) c =
     (let b = nearest_slot gap (extruder_color m) (filament_type m) l in
      pick_from gap l (Suc h) ms
        (if (case c of None \<Rightarrow> True | Some (u, f, p) \<Rightarrow> replaces b u) then Some (b, m, h) else c))"

record answer =
  a_extruderId :: json
  a_extruderColor :: string
  a_matchColor :: string
  a_filamentType :: json
  a_materialId :: json
  a_boxId :: json
  a_cId :: json
  a_status :: nat
  a_msg :: string

definition answer_of :: "extruder \<Rightarrow> color_match \<Rightarrow> answer" where
  "answer_of f u = \<lparr>a_extruderId = extruder_id f, a_extruderColor = extruder_color f, a_matchColor = m_color u,
     a_filamentType = m_filamentType u, a_materialId = m_materialId u, a_boxId = m_boxId u, a_cId = m_cId u,
     a_status = m_status u, a_msg = m_msg u\<rparr>"

definition left_over :: "extruder \<Rightarrow> answer" where
  "left_over f = \<lparr>a_extruderId = extruder_id f, a_extruderColor = extruder_color f, a_matchColor = ''#ffffff'',
     a_filamentType = JStr [], a_materialId = JNum 0, a_boxId = JNum (- 1), a_cId = JNum (- 1),
     a_status = 1, a_msg = ''No matching color found''\<rparr>"

text \<open>\<open>xs.splice(i, 1)\<close>: a negative index counts from the end.\<close>

definition splice_one :: "int \<Rightarrow> 'a list \<Rightarrow> 'a list" where
  "splice_one i xs = remove_at (nat (if i < 0 then max 0 (int (length xs) + i) else i)) xs"

lemma pick_from_bound:
  assumes "pick_from gap l h ms c = Some (u, f, p)"
  shows "c = Some (u, f, p)
    \<or> h \<le> p \<and> p < h + length ms \<and> f = ms ! (p - h)
      \<and> u = nearest_slot gap (extruder_color f) (filament_type f) l"
  using assms
proof (induction ms arbitrary: h c)
  case (Cons m ms)
  from Cons.IH [of "Suc h"] Cons.prems show ?case
    by (fastforce simp: Let_def nth_Cons' split: if_splits)
qed simp

function rounds ::
    "(string \<Rightarrow> string \<Rightarrow> real option) \<Rightarrow> extruder list \<Rightarrow> slot list \<Rightarrow> answer list \<times> extruder list" where
  "rounds gap n l =
     (if n = [] \<or> l = [] then ([], n)
      else case pick_from gap l 0 n None of
        None \<Rightarrow> ([], n)
      | Some (u, f, p) \<Rightarrow>
          let (s, r) = rounds gap (remove_at p n) (splice_one (m_index u) l) in (answer_of f u # s, r))"
  by pat_completeness auto
termination
  by (relation "measure (\<lambda>(gap, n, l). length n)")
     (auto simp: remove_at_def dest!: pick_from_bound)

declare rounds.simps [simp del]

definition match_colors ::
    "(string \<Rightarrow> string \<Rightarrow> real option) \<Rightarrow> extruder list \<Rightarrow> slot list \<Rightarrow> answer list" where
  "match_colors gap n l = (let (s, r) = rounds gap n l in s @ map left_over r)"

text \<open>What \<open>JSON.stringify\<close> writes: a property that is \<open>undefined\<close> is left out.\<close>

definition written :: "(string \<times> json) list \<Rightarrow> json" where
  "written ps = JObj (filter (\<lambda>x. snd x \<noteq> JUndefined) ps)"

definition answer_json :: "answer \<Rightarrow> json" where
  "answer_json u = written
     [(''extruderId'', a_extruderId u), (''extruderColor'', JStr (a_extruderColor u)),
      (''matchColor'', JStr (a_matchColor u)), (''matchFilamentType'', a_filamentType u),
      (''materialId'', a_materialId u), (''boxId'', a_boxId u), (''cId'', a_cId u),
      (''matchStatusCode'', JNum (of_nat (a_status u))), (''msg'', JStr (a_msg u))]"

text \<open>Whatever throws is caught: a text that is no JSON, a printer that is not listed, colours
  that are no array.\<close>

definition HandleRequestColorMatchInfo ::
    "(string \<Rightarrow> json option) \<Rightarrow> string \<Rightarrow> dashboard \<Rightarrow> dashboard" where
  "HandleRequestColorMatchInfo parse t s =
     (case parse t of
        None \<Rightarrow> s
      | Some r \<Rightarrow>
          (case (jget r ''printer_ip'', jget r ''plate_extruder_colors'') of
             (JStr a, JArr n) \<Rightarrow>
               (case getPrinter a s of
                  None \<Rightarrow> s
                | Some i \<Rightarrow>
                    emit_call (PostMessage (JObj
                      [(''command'', JStr ''receive_color_match_info''),
                       (''data'', JArr (map answer_json
                          (match_colors text_distance (map extruder_of n) (box_slots (printers s i)))))])) s)
           | _ \<Rightarrow> s))"

end
