(* ===== verification/Formats.thy ===== *)
theory Formats
  imports Prelude
begin

text \<open>
  Numbers as text (\<open>CeX73yR3.js\<close>): what \<open>String\<close> writes and \<open>parseFloat\<close> reads, and the
  two ways the dashboard writes a duration, \<open>Tl\<close> and \<open>cb\<close>.  Numbers are exact here; a
  number is written with at most twenty decimals, and the exponents that JavaScript uses
  for very large and very small numbers do not occur.
\<close>

section \<open>Writing\<close>

fun fraction_digits :: "nat \<Rightarrow> rat \<Rightarrow> string" where
  "fraction_digits 0 q = []"
| "fraction_digits (Suc k) q =
     (if q = 0 then []
      else digit_char (nat \<lfloor>10 * q\<rfloor>) # fraction_digits k (10 * q - of_int \<lfloor>10 * q\<rfloor>))"

definition show_number :: "rat \<Rightarrow> string" where
  "show_number q =
     (let a = \<bar>q\<bar>; i = \<lfloor>a\<rfloor>; f = a - of_int i
      in (if q < 0 then ''-'' else []) @ show_nat (nat i)
         @ (if f = 0 then [] else CHR ''.'' # fraction_digits 20 f))"

definition show_num :: "rat option \<Rightarrow> string" where
  "show_num x = (case x of None \<Rightarrow> ''NaN'' | Some q \<Rightarrow> show_number q)"

text \<open>\<open>s.padStart(2, '0')\<close>.\<close>

definition pad2 :: "string \<Rightarrow> string" where
  "pad2 t = replicate (2 - length t) (CHR ''0'') @ t"

section \<open>Reading\<close>

text \<open>\<open>parseFloat\<close>: the number a text starts with.\<close>

definition parse_float :: "string \<Rightarrow> rat option" where
  "parse_float t0 =
     (let t = dropWhile (\<lambda>c. c = CHR '' '') t0;
          neg = (t \<noteq> [] \<and> hd t = CHR ''-'');
          u = (if t \<noteq> [] \<and> hd t \<in> {CHR ''-'', CHR ''+''} then tl t else t);
          i = takeWhile (\<lambda>c. char_digit c \<noteq> None) u;
          r = dropWhile (\<lambda>c. char_digit c \<noteq> None) u;
          f = (case r of c # cs \<Rightarrow> if c = CHR ''.'' then takeWhile (\<lambda>c. char_digit c \<noteq> None) cs else [] | [] \<Rightarrow> []);
          q = of_nat (fst (read_digits 0 i)) + of_nat (fst (read_digits 0 f)) / 10 ^ length f
      in if i = [] \<and> f = [] then None else Some (if neg then - q else q))"

section \<open>Durations\<close>

text \<open>\<open>e % k\<close>, which has the sign of \<open>e\<close>.\<close>

definition js_trunc :: "rat \<Rightarrow> int" where
  "js_trunc q = (if q < 0 then - \<lfloor>- q\<rfloor> else \<lfloor>q\<rfloor>)"

definition js_rem :: "rat \<Rightarrow> rat \<Rightarrow> rat" where
  "js_rem e k = e - k * of_int (js_trunc (e / k))"

definition Tl :: "rat option \<Rightarrow> string" where
  "Tl x =
     (let t = map_option (\<lambda>e. js_rem e 60) x;
          r = map_option (\<lambda>e. of_int \<lfloor>js_rem e 3600 / 60\<rfloor>) x;
          n = map_option (\<lambda>e. of_int \<lfloor>e / 3600\<rfloor>) x
      in pad2 (show_num n) @ ''h '' @ pad2 (show_num r) @ ''m '' @ pad2 (show_num t) @ ''s'')"

text \<open>\<open>cb\<close>, of a number that is read as an integer.\<close>

definition cb :: "int option \<Rightarrow> string" where
  "cb x =
     (case x of
        None \<Rightarrow> ''NaN''
      | Some e \<Rightarrow>
          if e = 0 then ''NaN''
          else
            let (t, r) = (if e > 60 then (e mod 60, e div 60) else (e, 0));
                (r, n) = (if e > 60 \<and> r > 60 then (r mod 60, r div 60) else (r, 0));
                a = show_int t @ ''s'';
                a = (if r > 0 then show_int r @ ''m'' @ a else a)
            in if n > 0 then show_int n @ ''h'' @ a else a)"

section \<open>Reading a duration back\<close>

definition expect :: "string \<Rightarrow> nat \<times> string \<Rightarrow> (nat \<times> string) option" where
  "expect k x = (if prefix k (snd x) then Some (fst x, drop (length k) (snd x)) else None)"

definition read_hms :: "string \<Rightarrow> nat option" where
  "read_hms t =
     (case expect ''h '' (read_digits 0 t) of
        None \<Rightarrow> None
      | Some (h, u) \<Rightarrow>
          (case expect ''m '' (read_digits 0 u) of
             None \<Rightarrow> None
           | Some (m, v) \<Rightarrow>
               (case expect ''s'' (read_digits 0 v) of
                  None \<Rightarrow> None
                | Some (s, w) \<Rightarrow> if w = [] then Some (3600 * h + 60 * m + s) else None)))"

lemma show_number_nat [simp]: "show_number (of_nat n) = show_nat n"
  by (simp add: show_number_def)

lemma show_number_of_int: "0 \<le> i \<Longrightarrow> show_number (of_int i) = show_nat (nat i)"
  by (simp add: show_number_def)

lemma read_zeros: "read_digits 0 (replicate k (CHR ''0'') @ t) = read_digits 0 t"
  by (induction k) (simp_all add: char_digit_def)

lemma read_pad2:
  assumes "rest = [] \<or> char_digit (hd rest) = None"
  shows "read_digits 0 (pad2 (show_nat n) @ rest) = (n, rest)"
  using read_digits_show_nat [OF assms] by (simp add: pad2_def read_zeros)

lemma floor_div_nat: "\<lfloor>(of_nat n :: rat) / of_nat k\<rfloor> = int (n div k)"
  by (rule floor_divide_of_nat_eq)

lemma js_rem_nat: "js_rem (of_nat n) (of_nat k) = of_nat (n mod k)"
proof -
  have "\<not> (of_nat n :: rat) / of_nat k < 0" by (simp add: not_less)
  then have "js_rem (of_nat n) (of_nat k) = of_nat n - of_nat k * of_int (int (n div k))"
    by (simp add: js_rem_def js_trunc_def floor_div_nat)
  moreover have "(of_nat n :: rat) = of_nat (k * (n div k)) + of_nat (n mod k)"
    unfolding of_nat_add [symmetric] by simp
  ultimately show ?thesis by simp
qed

lemma Tl_nat:
  "Tl (Some (of_nat n)) = pad2 (show_nat (n div 3600)) @ ''h '' @ pad2 (show_nat (n mod 3600 div 60)) @ ''m ''
     @ pad2 (show_nat (n mod 60)) @ ''s''"
  using js_rem_nat [of n 60] js_rem_nat [of n 3600] floor_div_nat [of "n mod 3600" 60] floor_div_nat [of n 3600]
  by (simp add: Tl_def show_num_def Let_def)

lemma Tl_reads_back: "read_hms (Tl (Some (of_nat n))) = Some n"
proof -
  have "3600 * (n div 3600) + 60 * (n mod 3600 div 60) + n mod 60 = n"
  proof -
    have "n mod 60 = n mod 3600 mod 60" using mod_mod_cancel [of 60 3600 n] by simp
    then show ?thesis using div_mult_mod_eq [of "n mod 3600" 60] div_mult_mod_eq [of n 3600] by linarith
  qed
  then show ?thesis
    by (simp add: Tl_nat read_hms_def expect_def read_pad2 char_digit_def)
qed

text \<open>\<open>cb\<close>, the other way to write a duration, keeps a full minute and a full hour in the
  smaller unit and has no text for zero.\<close>

lemma cb_boundaries: "cb (Some 60) = ''60s''" "cb (Some 61) = ''1m1s''" "cb (Some 3600) = ''60m0s''" "cb (Some 0) = ''NaN''"
  by code_simp+

end
