(* ===== verification/OldPrinter.thy ===== *)
theory OldPrinter
  imports Formats PrinterProps
begin

text \<open>
  \<open>pl\<close>, the commands for printers of the old generation (\<open>CeX73yR3.js\<close>).  Each is an HTTP
  request through a proxy on the computer; the request is recorded with the printer's
  address and the parameters it adds to the fixed ones.  These printers are moved to
  absolute positions, so \<open>MoveAxle_LAN\<close> reads the current one and keeps to the bed.
\<close>

definition execute :: "string \<Rightarrow> (string \<times> string) list \<Rightarrow> dashboard \<Rightarrow> dashboard" where
  "execute t r s = emit_call (OldCommand t r) s"

definition StartNormalPrint_LAN :: "string \<Rightarrow> string \<Rightarrow> dashboard \<Rightarrow> dashboard" where
  "StartNormalPrint_LAN t r s = execute t [(''print'', ''/media/mmcblk0p1/creality/gztemp/'' @ r)] s"

definition pause_LAN :: "string \<Rightarrow> dashboard \<Rightarrow> dashboard" where
  "pause_LAN t s = execute t [(''pause'', ''1'')] s"

definition Continue_LAN :: "string \<Rightarrow> dashboard \<Rightarrow> dashboard" where
  "Continue_LAN t s = execute t [(''pause'', ''0'')] s"

definition Stop_LAN :: "string \<Rightarrow> dashboard \<Rightarrow> dashboard" where
  "Stop_LAN t s = execute t [(''stop'', ''1'')] s"

definition SetTargetNozzleTemp_LAN :: "string \<Rightarrow> rat \<Rightarrow> dashboard \<Rightarrow> dashboard" where
  "SetTargetNozzleTemp_LAN t r s = execute t [(''nozzleTemp2'', show_number r)] s"

definition SetTargetBedTempTemp_LAN :: "string \<Rightarrow> rat \<Rightarrow> rat \<Rightarrow> dashboard \<Rightarrow> dashboard" where
  "SetTargetBedTempTemp_LAN t r n s = execute t [(''bedTemp2'', show_number n)] s"

definition SetPrintingSpeed_LAN :: "string \<Rightarrow> rat \<Rightarrow> dashboard \<Rightarrow> dashboard" where
  "SetPrintingSpeed_LAN t r s = execute t [(''setFeedratePct'', show_number r)] s"

text \<open>\<open>n == true\<close>.\<close>

definition SetSwitchState_LAN :: "string \<Rightarrow> nat \<Rightarrow> json \<Rightarrow> dashboard \<Rightarrow> dashboard" where
  "SetSwitchState_LAN t r n s =
     (let a = (if eq_num n 1 then ''1'' else ''0'') in
      if r = 0 then execute t [(''fan'', a)] s
      else if r = 3 then execute t [(''led'', a)] s else s)"

section \<open>Moving\<close>

text \<open>The position text is \<open>X:.. Y:.. Z:..\<close>; a coordinate that is missing or no number is
  \<open>NaN\<close>, which no comparison holds for.\<close>

definition coordinate :: "string list \<Rightarrow> nat \<Rightarrow> rat option" where
  "coordinate c k =
     (if k < length c
      then (case js_split '':'' (c ! k) of _ # v # _ \<Rightarrow> parse_float v | _ \<Rightarrow> None) else None)"

definition exceeds :: "rat option \<Rightarrow> rat \<Rightarrow> bool" where
  "exceeds x m = (case x of None \<Rightarrow> False | Some q \<Rightarrow> q > m)"

definition falls_below :: "rat option \<Rightarrow> rat \<Rightarrow> bool" where
  "falls_below x m = (case x of None \<Rightarrow> False | Some q \<Rightarrow> q < m)"

definition move_to :: "string \<Rightarrow> string \<Rightarrow> rat option \<Rightarrow> dashboard \<Rightarrow> dashboard" where
  "move_to t ax x s = execute t [(''setPosition'', ax @ show_num x)] s"

definition MoveAxle_LAN :: "string \<Rightarrow> string \<Rightarrow> rat \<Rightarrow> dashboard \<Rightarrow> dashboard option" where
  "MoveAxle_LAN t r n s =
     (case getPrinter t s of
        None \<Rightarrow> None
      | Some a \<Rightarrow>
          (case curPosition (ctrol (printers s a)) of
             JStr pos \<Rightarrow>
               let c = js_split '' '' pos;
                   d = coordinate c 0; u = coordinate c 1; f = coordinate c 2;
                   plus = map_option (\<lambda>x. x + n); minus = map_option (\<lambda>x. x - n)
               in Some
                 (if r = ''X+'' then (if exceeds (plus d) 220 then s else move_to t ''X'' (plus d) s)
                  else if r = ''X-'' then (if falls_below (minus d) 0 then s else move_to t ''X'' (minus d) s)
                  else if r = ''Y+'' then (if exceeds (plus u) 220 then s else move_to t ''Y'' (plus u) s)
                  else if r = ''Y-'' then (if falls_below (minus u) 0 then s else move_to t ''Y'' (minus u) s)
                  else if r = ''Z+'' then (if exceeds (plus f) 220 then s else move_to t ''Z'' (plus f) s)
                  else if r = ''Z-'' then (if falls_below (minus f) 0 then s else move_to t ''Z'' (minus f) s)
                  else if r = ''HXY'' then execute t [(''gcodeCmd'', ''G28 X0 Y0'')] s
                  else if r = ''HZ'' then execute t [(''gcodeCmd'', ''G28 Z0'')] s
                  else s)
           | _ \<Rightarrow> None))"

definition DeleteFile_LAN :: "string \<Rightarrow> json \<Rightarrow> dashboard \<Rightarrow> dashboard option" where
  "DeleteFile_LAN t r s =
     map_option (\<lambda>n.
       emit_call (PostMessage (JObj [(''command'', JStr ''get_file_List_from_lan_device''),
                                     (''url'', JStr (address (printers s n)))]))
         (emit_call (PostMessage (JObj [(''command'', JStr ''delete_file_from_lan_device''),
                                     (''url'', JStr (address (printers s n))), (''name'', r)])) s))
       (getPrinter t s)"

section \<open>The bed is not left\<close>

text \<open>Where a printer says it is.\<close>

definition position :: "printer \<Rightarrow> nat \<Rightarrow> rat option" where
  "position p k = (case curPosition (ctrol p) of JStr pos \<Rightarrow> coordinate (js_split '' '' pos) k | _ \<Rightarrow> None)"

definition axes :: "string list" where "axes = [''X'', ''Y'', ''Z'']"

lemma execute_fields [simp]:
  "calls (execute t ps s) = calls s @ [OldCommand t ps]" "printers (execute t ps s) = printers s"
  by (simp_all add: execute_def emit_call_def)

text \<open>A request that moves one axis to a place on the bed.\<close>

definition on_bed :: "string \<Rightarrow> dashboard \<Rightarrow> dashboard \<Rightarrow> bool" where
  "on_bed t s s' \<longleftrightarrow> (\<exists>k < 3. \<exists>x. 0 \<le> x \<and> x \<le> 220 \<and> s' = move_to t (axes ! k) (Some x) s)"

lemma on_bedI:
  assumes "0 \<le> x" and "x \<le> 220"
  shows "on_bed t s (move_to t ''X'' (Some x) s)" "on_bed t s (move_to t ''Y'' (Some x) s)"
    "on_bed t s (move_to t ''Z'' (Some x) s)"
proof -
  have b: "on_bed t s (move_to t (axes ! k) (Some x) s)" if "k < 3" for k
    unfolding on_bed_def using assms that by blast
  show "on_bed t s (move_to t ''X'' (Some x) s)" "on_bed t s (move_to t ''Y'' (Some x) s)"
    "on_bed t s (move_to t ''Z'' (Some x) s)"
    using b [of 0] b [of 1] b [of 2] by (simp_all add: axes_def)
qed

lemma on_bed_calls:
  assumes "on_bed t s s'"
  shows "printers s' = printers s \<and> (\<exists>k < 3. \<exists>x. calls s' = calls s @ [OldCommand t [(''setPosition'', axes ! k @ show_number x)]]
    \<and> 0 \<le> x \<and> x \<le> 220)"
proof -
  from assms obtain k x where "k < 3" "0 \<le> x" "x \<le> 220" "s' = move_to t (axes ! k) (Some x) s"
    unfolding on_bed_def by blast
  then have "calls s' = calls s @ [OldCommand t [(''setPosition'', axes ! k @ show_number x)]]" "printers s' = printers s"
    by (simp_all add: move_to_def show_num_def)
  with \<open>k < 3\<close> \<open>0 \<le> x\<close> \<open>x \<le> 220\<close> show ?thesis by blast
qed

text \<open>C21: From a position on the bed (each coordinate between 0 and 220), a move by a
  distance that is not negative sends at most one request, and one that moves to a
  position sends the printer to a place on the bed; a move that would leave the bed sends
  nothing.  Nothing else changes.\<close>

theorem old_printer_stays_on_its_bed:
  assumes "getPrinter t s = Some a" and "MoveAxle_LAN t r n s = Some s'" and "0 \<le> n"
    and "\<forall>k < 3. \<exists>x. position (printers s a) k = Some x \<and> 0 \<le> x \<and> x \<le> 220"
  shows "printers s' = printers s \<and>
    (s' = s
     \<or> (\<exists>k < 3. \<exists>x. calls s' = calls s @ [OldCommand t [(''setPosition'', axes ! k @ show_number x)]] \<and> 0 \<le> x \<and> x \<le> 220)
     \<or> (\<exists>g \<in> {''G28 X0 Y0'', ''G28 Z0''}. calls s' = calls s @ [OldCommand t [(''gcodeCmd'', g)]]))"
proof -
  obtain pos where pos: "curPosition (ctrol (printers s a)) = JStr pos"
    using assms(1,2) by (auto simp: MoveAxle_LAN_def split: json.splits)
  have c: "\<exists>x. coordinate (js_split '' '' pos) k = Some x \<and> 0 \<le> x \<and> x \<le> 220" if "k < 3" for k
    using assms(4) pos that by (simp add: position_def)
  obtain x y z where xyz: "coordinate (js_split '' '' pos) 0 = Some x" "coordinate (js_split '' '' pos) 1 = Some y"
      "coordinate (js_split '' '' pos) 2 = Some z" and b: "0 \<le> x" "x \<le> 220" "0 \<le> y" "y \<le> 220" "0 \<le> z" "z \<le> 220"
    using c [of 0] c [of 1] c [of 2] by auto
  define Q where "Q u \<longleftrightarrow> u = s \<or> on_bed t s u \<or> (\<exists>g \<in> {''G28 X0 Y0'', ''G28 Z0''}. u = execute t [(''gcodeCmd'', g)] s)" for u
  have if_Q: "(c \<Longrightarrow> Q u) \<Longrightarrow> (\<not> c \<Longrightarrow> Q v) \<Longrightarrow> Q (if c then u else v)" for c u v by simp
  have Q: "Q s" "Q (execute t [(''gcodeCmd'', ''G28 X0 Y0'')] s)" "Q (execute t [(''gcodeCmd'', ''G28 Z0'')] s)"
    "0 \<le> v \<Longrightarrow> v \<le> 220 \<Longrightarrow> Q (move_to t ''X'' (Some v) s)"
    "0 \<le> v \<Longrightarrow> v \<le> 220 \<Longrightarrow> Q (move_to t ''Y'' (Some v) s)"
    "0 \<le> v \<Longrightarrow> v \<le> 220 \<Longrightarrow> Q (move_to t ''Z'' (Some v) s)" for v
    using on_bedI [of v t s] by (simp_all add: Q_def)
  have "Q s'"
    using assms(1,2) pos xyz unfolding MoveAxle_LAN_def Let_def
    by simp (erule subst, intro if_Q Q, insert assms(3) b,
        simp_all add: exceeds_def falls_below_def, (rule Q(4-6); linarith)+)
  then have "s' = s \<or> on_bed t s s' \<or> (\<exists>g \<in> {''G28 X0 Y0'', ''G28 Z0''}. s' = execute t [(''gcodeCmd'', g)] s)"
    unfolding Q_def .
  then show ?thesis
    using on_bed_calls [of t s s'] by (elim disjE bexE) auto
qed

definition demo_old :: "string \<Rightarrow> dashboard" where
  "demo_old pos = upd 1 (\<lambda>p. p\<lparr>ctrol := (ctrol p)\<lparr>curPosition := JStr pos\<rparr>\<rparr>) demo_board"

lemma demo_old_fields [simp]:
  "getPrinter ''b'' (demo_old pos) = Some (Suc 0)"
  "curPosition (ctrol (printers (demo_old pos) (Suc 0))) = JStr pos" "calls (demo_old pos) = []"
  by (simp_all add: demo_old_def getPrinter_find_ref find_ref_def has_address_def)

theorem old_printer_stays_on_its_bed_witness:
  "\<exists>s'. MoveAxle_LAN ''b'' ''X+'' 10 (demo_old ''X:215 Y:0 Z:7'') = Some s' \<and> length (calls s') \<le> 1"
proof -
  let ?s = "demo_old ''X:215 Y:0 Z:7''"
  obtain s' where s': "MoveAxle_LAN ''b'' ''X+'' 10 ?s = Some s'"
    by (simp add: MoveAxle_LAN_def Let_def)
  have "coordinate (js_split '' '' ''X:215 Y:0 Z:7'') 0 = Some 215"
    "coordinate (js_split '' '' ''X:215 Y:0 Z:7'') 1 = Some 0"
    "coordinate (js_split '' '' ''X:215 Y:0 Z:7'') 2 = Some 7"
    by code_simp+
  then have "\<forall>k < 3. \<exists>x. position (printers ?s (Suc 0)) k = Some x \<and> 0 \<le> x \<and> x \<le> 220"
    by (simp add: position_def less_Suc_eq numeral_3_eq_3 numeral_2_eq_2)
  from old_printer_stays_on_its_bed [OF _ s' _ this]
  have "length (calls s') \<le> 1" by auto
  with s' show ?thesis by blast
qed

text \<open>A printer whose position text is empty is sent to \<open>NaN\<close>: no bound holds it back.\<close>

lemma unknown_position_moves_to_NaN:
  assumes "getPrinter t s = Some a" and "curPosition (ctrol (printers s a)) = JStr []"
  shows "map_option calls (MoveAxle_LAN t ''X+'' n s) = Some (calls s @ [OldCommand t [(''setPosition'', ''XNaN'')]])"
  using assms by (simp add: MoveAxle_LAN_def coordinate_def js_split_def exceeds_def move_to_def show_num_def)

end
