(* ===== verification/PlatePrint.thy ===== *)
theory PlatePrint
  imports ColorMatch OldPrinter JsMap
begin

text \<open>
  Sending a sliced plate to a printer (\<open>CeX73yR3.js\<close>): the store of plates with the colour
  matches chosen for them (\<open>plateStore\<close> and its front \<open>N4\<close>), and \<open>HandleSendPrintCommand\<close>,
  which picks the file's path and the commands for the kind of printer.
\<close>

section \<open>Plates\<close>

record plate =
  plate_index :: int
  extruderIndexs :: "nat list"
  active :: bool
  uploadGCodeName :: json
  sendGCodeOnly :: json

record plate_match =
  pm_extruder :: nat
  pm_matchColor :: string
  pm_materialId :: json
  pm_filamentType :: json

record plate_store =
  allExtruderColors :: "string list"
  allFilamentTypes :: "json list"
  hasPlate :: bool
  plateData :: "(int, plate) jsmap"
  platePrinterColorMatchData :: "(string, plate_match list) jsmap"

definition setAllExtruderColors :: "string list \<Rightarrow> plate_store \<Rightarrow> plate_store" where
  "setAllExtruderColors e d = d\<lparr>allExtruderColors := e\<rparr>"

definition setAllFilamentTypes :: "json list \<Rightarrow> plate_store \<Rightarrow> plate_store" where
  "setAllFilamentTypes e d = d\<lparr>allFilamentTypes := e\<rparr>"

definition addPlateData :: "plate \<Rightarrow> plate_store \<Rightarrow> plate_store" where
  "addPlateData e d = d\<lparr>plateData := jm_set (plate_index e) e (plateData d)\<rparr>"

definition getPlateData :: "int \<Rightarrow> plate_store \<Rightarrow> plate option" where
  "getPlateData e d = jm_get (plateData d) e"

definition setPlateDatas :: "plate list \<Rightarrow> plate_store \<Rightarrow> plate_store" where
  "setPlateDatas e d = fold addPlateData e d"

definition setHasPlate :: "bool \<Rightarrow> plate_store \<Rightarrow> plate_store" where
  "setHasPlate e d = d\<lparr>hasPlate := e\<rparr>"

definition getPlateDatas :: "plate_store \<Rightarrow> plate list" where
  "getPlateDatas d = map snd (jm_entries (plateData d))"

definition getActivePlateData :: "plate_store \<Rightarrow> plate option" where
  "getActivePlateData d = List.find active (getPlateDatas d)"

text \<open>A plate that is not there is \<open>undefined\<close>, on which the assignment throws.\<close>

definition setPlateUploadGCodeName :: "int \<Rightarrow> json \<Rightarrow> plate_store \<Rightarrow> plate_store option" where
  "setPlateUploadGCodeName e t d =
     map_option (\<lambda>p. d\<lparr>plateData := jm_set e (p\<lparr>uploadGCodeName := t\<rparr>) (plateData d)\<rparr>) (getPlateData e d)"

definition setPlateSendGCodeOnly :: "int \<Rightarrow> json \<Rightarrow> plate_store \<Rightarrow> plate_store option" where
  "setPlateSendGCodeOnly e t d =
     map_option (\<lambda>p. d\<lparr>plateData := jm_set e (p\<lparr>sendGCodeOnly := t\<rparr>) (plateData d)\<rparr>) (getPlateData e d)"

text \<open>The key of a plate and a printer: the template of index, comma and address.\<close>

definition match_key :: "int \<Rightarrow> string \<Rightarrow> string" where
  "match_key t r = show_int t @ '','' @ r"

definition setPlatePrinterColorMatchInfo :: "int \<Rightarrow> string \<Rightarrow> plate_match list \<Rightarrow> plate_store \<Rightarrow> plate_store" where
  "setPlatePrinterColorMatchInfo t r n d =
     d\<lparr>platePrinterColorMatchData := jm_set (match_key t r) n (platePrinterColorMatchData d)\<rparr>"

definition getPlatePrinterColorMatchInfo :: "int \<Rightarrow> string \<Rightarrow> plate_store \<Rightarrow> plate_match list option" where
  "getPlatePrinterColorMatchInfo t r d = jm_get (platePrinterColorMatchData d) (match_key t r)"

text \<open>The test for \<open>null\<close> does not catch the \<open>undefined\<close> of \<open>find\<close>: without an active plate
  the method throws.\<close>

definition removePlatePrinterColorMatchInfo :: "string \<Rightarrow> plate_store \<Rightarrow> plate_store option" where
  "removePlatePrinterColorMatchInfo t d =
     map_option (\<lambda>r. d\<lparr>platePrinterColorMatchData :=
         jm_delete (match_key (plate_index r) t) (platePrinterColorMatchData d)\<rparr>) (getActivePlateData d)"

text \<open>\<open>xs[c - 1]\<close>, which is \<open>undefined\<close> outside the array.\<close>

definition at_js :: "'a \<Rightarrow> 'a list \<Rightarrow> nat \<Rightarrow> 'a" where
  "at_js u xs c = (if 0 < c \<and> c \<le> length xs then xs ! (c - 1) else u)"

text \<open>Each extruder of the active plate is matched on its own, so two may get one slot.\<close>

definition updatePlatePrinterColorMatchInfo ::
    "(string \<Rightarrow> string \<Rightarrow> real option) \<Rightarrow> string \<Rightarrow> dashboard \<Rightarrow> plate_store \<Rightarrow> plate_store" where
  "updatePlatePrinterColorMatchInfo gap t s d =
     (case getPrinter t s of
        None \<Rightarrow> d
      | Some r \<Rightarrow>
          (case getActivePlateData d of
             None \<Rightarrow> d
           | Some n \<Rightarrow>
               setPlatePrinterColorMatchInfo (plate_index n) t
                 (map (\<lambda>c. let f = nearest_slot gap (at_js [] (allExtruderColors d) c)
                                     (at_js JUndefined (allFilamentTypes d) c) (box_slots (printers s r))
                           in \<lparr>pm_extruder = c, pm_matchColor = m_color f, pm_materialId = m_materialId f,
                               pm_filamentType = m_filamentType f\<rparr>) (extruderIndexs n)) d))"

section \<open>The file on the printer\<close>

text \<open>\<open>h.replace(/gcodes\\/.*/, repl)\<close>: from the first \<open>gcodes/\<close> to the end of its line.  A
  dollar sign in a file name, which \<open>replace\<close> would interpret, is not modelled.\<close>

fun replace_gcodes :: "string \<Rightarrow> string \<Rightarrow> string" where
  "replace_gcodes repl [] = []"
| "replace_gcodes repl (c # cs) =
     (if prefix ''gcodes/'' (c # cs)
      then repl @ dropWhile (\<lambda>x. x \<noteq> CHR 0x0A \<and> x \<noteq> CHR 0x0D) (drop 7 (c # cs))
      else c # replace_gcodes repl cs)"

text \<open>\<open>None\<close> is a throw: a list of files with no first entry, or a path that is no text.\<close>

definition gcode_path :: "printer \<Rightarrow> json \<Rightarrow> string \<Rightarrow> string option" where
  "gcode_path o' allPlate i =
     (let two = jget (JObj (data o')) ''retGcodeFileInfo2''; one = jget (JObj (data o')) ''retGcodeFileInfo'' in
      if truthy two then
        (case two of
           JArr (x # _) \<Rightarrow>
             (case jget x ''path'' of
                JStr h \<Rightarrow> Some (replace_gcodes (if truthy allPlate then ''gcodes/.'' @ i else ''gcodes/'' @ i) h)
              | _ \<Rightarrow> None)
         | _ \<Rightarrow> None)
      else if truthy one then
        (case jget one ''fileInfo'' of
           JStr t \<Rightarrow> Some (hd (js_split '':'' t) @ ''/'' @ i)
         | _ \<Rightarrow> None)
      else Some [])"

text \<open>The name of the slot of extruder \<open>b\<close>: a letter for its place among four, after the
  number of the box.  \<open>String.fromCharCode(NaN)\<close> is the character zero.\<close>

definition slot_name :: "rat option \<Rightarrow> string" where
  "slot_name b =
     ''T'' @ show_num (map_option (\<lambda>x. of_int \<lfloor>(x - 1) / 4 + 1\<rfloor>) b)
       @ [case b of None \<Rightarrow> CHR 0x00 | Some x \<Rightarrow> char_of (nat (js_trunc (65 + js_rem (x - 1) 4)))]"

definition wire_match :: "json \<Rightarrow> json" where
  "wire_match h = written
     [(''id'', JStr (slot_name (to_number (jget h ''extruderId'')))), (''type'', jget h ''extruderFilamentType''),
      (''color'', jget h ''matchColor''), (''boxId'', jget h ''boxId''), (''materialId'', jget h ''materialId'')]"

section \<open>The print command\<close>

definition StartNormalPrint_Klipper :: "string \<Rightarrow> string \<Rightarrow> json \<Rightarrow> dashboard \<Rightarrow> dashboard" where
  "StartNormalPrint_Klipper t r n s =
     emit_call (HttpPost (''http://'' @ hd (js_split ''('' t) @ '':'' @ show_num (to_number n) @ ''/printer/print/start'')
       [(''filename'', r)]) s"

definition or_zero :: "json \<Rightarrow> json" where
  "or_zero v = (if v = JUndefined then JNum 0 else v)"

text \<open>The colour matches: an empty text stands for none; what is no array throws.\<close>

definition match_list :: "json \<Rightarrow> json list option" where
  "match_list d =
     (case d of
        JArr xs \<Rightarrow> if \<exists>x \<in> set xs. nullish x then None else Some xs
      | JStr t \<Rightarrow> if list_all (\<lambda>c. c = CHR '' '' \<or> (9 \<le> (of_char c :: nat) \<and> (of_char c :: nat) \<le> 13)) t then Some [] else None
      | _ \<Rightarrow> None)"

text \<open>What throws is caught, and then nothing more is sent; the result holds the interval that
  waits to send the print again, if there is one.\<close>

definition HandleSendPrintCommand :: "json \<Rightarrow> dashboard \<Rightarrow> resend option \<times> dashboard" where
  "HandleSendPrintCommand n s =
     (let a = text_in (jget n ''printer_ip''); i = text_in (jget n ''upload_gcode_name'') in
      case getPrinter a s of
        None \<Rightarrow> (None, s)
      | Some k \<Rightarrow>
          let o' = printers s k in
          if oldPrinter o' then (None, StartNormalPrint_LAN a i s)
          else if type o' = 4 then (None, StartNormalPrint_Klipper a i (moonrakerPort o') s)
          else
            (case gcode_path o' (jget n ''allPlate'') i of
               None \<Rightarrow> (None, s)
             | Some l \<Rightarrow>
                 let st = or_zero (jget n ''print_calibration''); c = jget n ''open_cfs'';
                     d = jget n ''color_match_info''; u = (boxColorInfo (boxsInfo o') \<noteq> []);
                     start = (\<lambda>t. case StartNormalPrint a l st t of None \<Rightarrow> (None, t) | Some r \<Rightarrow> r) in
                 if l = [] then (None, s)
                 else if (\<not> truthy d \<or> d = JArr []) \<and> \<not> u then start s
                 else
                   (case match_list d of
                      None \<Rightarrow> (None, s)
                    | Some ds \<Rightarrow>
                        if ds \<noteq> [] \<or> (cfsName (boxsInfo o') = JStr ''MF046'' \<and> c = JNum 1)
                        then (case SetColorMatch a (JStr l) (JArr (map wire_match ds)) s of
                                None \<Rightarrow> (None, s)
                              | Some s1 \<Rightarrow>
                                  if c = JNum 1
                                  then (case StartMultiColorPrint a (JStr l) st s1 of None \<Rightarrow> (None, s1) | Some r \<Rightarrow> r)
                                  else start s1)
                        else start s)))"

end
