(* ===== verification/ColorProps.thy ===== *)
theory ColorProps
  imports ColorMatch
begin

text \<open>
  What the colour matching promises: the nearest slot of the right type for one extruder,
  one answer for every extruder of a print, no slot given twice; and the slot that an
  extruder without a match throws away.
\<close>

section \<open>One extruder\<close>

text \<open>What a scan of the slots \<open>xs\<close> has found.\<close>

definition found :: "(string \<Rightarrow> string \<Rightarrow> real option) \<Rightarrow> string \<Rightarrow> json \<Rightarrow> slot list \<Rightarrow> color_match \<Rightarrow> bool" where
  "found gap e t xs m \<longleftrightarrow>
     (m = no_match \<and> (\<forall>b \<in> set xs. slotFilamentType b = t \<longrightarrow> gap e (slotColor b) = None))
     \<or> (\<exists>v y. v < length xs \<and> slotFilamentType (xs ! v) = t \<and> gap e (slotColor (xs ! v)) = Some y
          \<and> m = match_at v (xs ! v) y
          \<and> (\<forall>j < length xs. \<forall>y'. slotFilamentType (xs ! j) = t \<and> gap e (slotColor (xs ! j)) = Some y'
               \<longrightarrow> y \<le> y' \<and> (j < v \<longrightarrow> y < y')))"

lemma match_at_fields [simp]:
  "m_distance (match_at v b y) = Some y" "m_index (match_at v b y) = int v" "m_status (match_at v b y) = 0"
  "m_filamentType (match_at v b y) = slotFilamentType b" "m_color (match_at v b y) = slotColor b"
  "m_materialId (match_at v b y) = slotMaterialId b" "m_boxId (match_at v b y) = slotBoxId b"
  "m_cId (match_at v b y) = slotCId b"
  by (simp_all add: match_at_def)

lemma no_match_fields [simp]:
  "m_distance no_match = None" "m_index no_match = - 1" "m_status no_match = 1" "m_filamentType no_match = JStr []"
  by (simp_all add: no_match_def)

lemma found_Nil: "found gap e t [] no_match"
  by (simp add: found_def)

lemma found_step:
  assumes "found gap e t xs m"
  shows "found gap e t (xs @ [b])
    (if slotFilamentType b = t
     then (case gap e (slotColor b) of
             None \<Rightarrow> m | Some y \<Rightarrow> if below y (m_distance m) then match_at (length xs) b y else m)
     else m)"
proof (cases "slotFilamentType b = t \<and> gap e (slotColor b) \<noteq> None")
  case False
  then show ?thesis using assms
    by (auto simp: found_def nth_append less_Suc_eq)
next
  case True
  then obtain y where y: "gap e (slotColor b) = Some y" by auto
  from assms consider (none) "m = no_match" "\<forall>b \<in> set xs. slotFilamentType b = t \<longrightarrow> gap e (slotColor b) = None"
    | (some) v x where "v < length xs" "slotFilamentType (xs ! v) = t" "gap e (slotColor (xs ! v)) = Some x"
        "m = match_at v (xs ! v) x"
        "\<forall>j < length xs. \<forall>y'. slotFilamentType (xs ! j) = t \<and> gap e (slotColor (xs ! j)) = Some y'
               \<longrightarrow> x \<le> y' \<and> (j < v \<longrightarrow> x < y')"
    unfolding found_def by blast
  then show ?thesis
  proof cases
    case none
    with True y show ?thesis
      by (auto simp: found_def below_def nth_append less_Suc_eq intro!: exI [of _ "length xs"])
  next
    case some
    show ?thesis
    proof (cases "y < x")
      case True
      with some y \<open>slotFilamentType b = t \<and> gap e (slotColor b) \<noteq> None\<close> show ?thesis
        by (auto simp: found_def below_def nth_append less_Suc_eq intro!: exI [of _ "length xs"]) (metis less_le_trans less_le)+
    next
      case False
      with some y \<open>slotFilamentType b = t \<and> gap e (slotColor b) \<noteq> None\<close> show ?thesis
        by (auto simp: found_def below_def nth_append less_Suc_eq intro!: exI [of _ v])
    qed
  qed
qed

lemma found_nearest_from:
  "found gap e t xs m \<Longrightarrow> found gap e t (xs @ bs) (nearest_from gap e t (length xs) bs m)"
proof (induction bs arbitrary: xs m)
  case (Cons b bs)
  from Cons.IH [OF found_step [OF Cons.prems, of b]] show ?case by simp
qed simp

lemma nearest_found: "found gap e t l (nearest_slot gap e t l)"
  using found_nearest_from [OF found_Nil, of gap e t l] by (simp add: nearest_slot_def)

text \<open>A slot is found exactly when one has the wanted filament type and a colour that can
  be compared; the one found is the nearest of these, and the first of them when several
  are equally near.\<close>

theorem nearest_slot_is_nearest:
  "(m_status (nearest_slot gap e t l) = 0
      \<longleftrightarrow> (\<exists>b \<in> set l. slotFilamentType b = t \<and> gap e (slotColor b) \<noteq> None))
   \<and> (m_status (nearest_slot gap e t l) = 0 \<longrightarrow>
       (\<exists>v y. v < length l \<and> slotFilamentType (l ! v) = t \<and> gap e (slotColor (l ! v)) = Some y
          \<and> nearest_slot gap e t l = match_at v (l ! v) y
          \<and> (\<forall>j < length l. \<forall>y'. slotFilamentType (l ! j) = t \<and> gap e (slotColor (l ! j)) = Some y'
               \<longrightarrow> y \<le> y' \<and> (j < v \<longrightarrow> y < y'))))"
proof -
  from nearest_found [of gap e t l, unfolded found_def] show ?thesis
  proof (elim disjE exE conjE)
    fix v y
    assume "v < length l" "slotFilamentType (l ! v) = t" "gap e (slotColor (l ! v)) = Some y"
      and m: "nearest_slot gap e t l = match_at v (l ! v) y"
      and "\<forall>j < length l. \<forall>y'. slotFilamentType (l ! j) = t \<and> gap e (slotColor (l ! j)) = Some y'
               \<longrightarrow> y \<le> y' \<and> (j < v \<longrightarrow> y < y')"
    moreover from this have "\<exists>b \<in> set l. slotFilamentType b = t \<and> gap e (slotColor b) \<noteq> None"
      by (intro bexI [of _ "l ! v"]) auto
    ultimately show ?thesis by auto
  qed auto
qed

text \<open>With the distance of the program, a slot of the wanted type whose colour is the very
  colour that is asked for is never passed over for a different shade: the slot found is
  at distance zero.\<close>

theorem exact_colour_is_found:
  assumes "b \<in> set l" and "slotFilamentType b = t" and "slotColor b = e" and "channels (Ute e) \<noteq> None"
  shows "m_status (nearest_slot text_distance e t l) = 0
    \<and> m_distance (nearest_slot text_distance e t l) = Some 0"
proof -
  have b: "text_distance e (slotColor b) = Some 0" using assms text_distance_same by simp
  obtain j where j: "j < length l" "l ! j = b" using assms(1) by (auto simp: in_set_conv_nth)
  from nearest_found [of text_distance e t l, unfolded found_def] show ?thesis
  proof (elim disjE exE conjE)
    fix v y
    assume y: "text_distance e (slotColor (l ! v)) = Some y"
      and m: "nearest_slot text_distance e t l = match_at v (l ! v) y"
      and least: "\<forall>j < length l. \<forall>y'. slotFilamentType (l ! j) = t \<and> text_distance e (slotColor (l ! j)) = Some y'
               \<longrightarrow> y \<le> y' \<and> (j < v \<longrightarrow> y < y')"
    have "y \<le> 0" using least j b assms(2) by auto
    with text_distance_nonneg [OF y] m show ?thesis by simp
  qed (use assms b in auto)
qed

definition demo_slot :: "string \<Rightarrow> string \<Rightarrow> nat \<Rightarrow> slot" where
  "demo_slot t c k = \<lparr>slotBoxType = JNum 0, slotColor = c, slotBoxId = JNum 1, slotMaterialId = JNum (of_nat k),
     slotFilamentType = JStr t, slotRFIDState = JNum 0, slotPercent = JNum 100, slotRemaining = JNum 0,
     slotCId = JUndefined\<rparr>"

definition demo_extruder :: "nat \<Rightarrow> string \<Rightarrow> string \<Rightarrow> extruder" where
  "demo_extruder k t c = \<lparr>extruder_id = JNum (of_nat k), extruder_color = c, filament_type = JStr t\<rparr>"

lemma demo_fields [simp]:
  "slotFilamentType (demo_slot t c k) = JStr t" "slotColor (demo_slot t c k) = c"
  "slotMaterialId (demo_slot t c k) = JNum (of_nat k)"
  "extruder_id (demo_extruder k t c) = JNum (of_nat k)" "filament_type (demo_extruder k t c) = JStr t"
  "extruder_color (demo_extruder k t c) = c"
  by (simp_all add: demo_slot_def demo_extruder_def)

theorem nearest_slot_is_nearest_witness:
  "m_status (nearest_slot (\<lambda>a b. if a = b then Some 0 else Some 1) ''#ff0000'' (JStr ''PLA'') [demo_slot ''PLA'' ''#00ff00'' 0]) = 0"
  using nearest_slot_is_nearest [of "\<lambda>a b. if a = b then Some 0 else Some 1" "''#ff0000''" "JStr ''PLA''"
      "[demo_slot ''PLA'' ''#00ff00'' 0]"] by simp

theorem exact_colour_is_found_witness:
  "m_distance (nearest_slot text_distance ''#ff0000'' (JStr ''PLA'')
     [demo_slot ''PLA'' ''#00ff00'' 0, demo_slot ''PLA'' ''#ff0000'' 1]) = Some 0"
proof -
  have "channels (Ute ''#ff0000'') \<noteq> None"
    by (simp add: Ute_def slice_def channels_def hex_digit_def Let_def)
  with exact_colour_is_found [of "demo_slot ''PLA'' ''#ff0000'' 1"
      "[demo_slot ''PLA'' ''#00ff00'' 0, demo_slot ''PLA'' ''#ff0000'' 1]" "JStr ''PLA''" "''#ff0000''"]
  show ?thesis by simp
qed

section \<open>All extruders of a print\<close>

lemma pick_from_Some: "c \<noteq> None \<or> ms \<noteq> [] \<Longrightarrow> pick_from gap l h ms c \<noteq> None"
  by (induction gap l h ms c rule: pick_from.induct) (auto simp: Let_def split: option.splits)

text \<open>A round: what it picks, and the two lists it goes on with.\<close>

lemma rounds_step:
  assumes "n \<noteq> []" and "l \<noteq> []"
  obtains p where "p < length n"
    and "pick_from gap l 0 n None = Some (nearest_slot gap (extruder_color (n ! p)) (filament_type (n ! p)) l, n ! p, p)"
    and "rounds gap n l =
      (let (s, r) = rounds gap (remove_at p n)
              (splice_one (m_index (nearest_slot gap (extruder_color (n ! p)) (filament_type (n ! p)) l)) l)
       in (answer_of (n ! p) (nearest_slot gap (extruder_color (n ! p)) (filament_type (n ! p)) l) # s, r))"
proof -
  obtain u f p where pick: "pick_from gap l 0 n None = Some (u, f, p)"
    using pick_from_Some [of None n gap l 0] assms(1) by (metis not_None_eq prod_cases3)
  with pick_from_bound [OF pick] have "p < length n" "f = n ! p"
    "u = nearest_slot gap (extruder_color (n ! p)) (filament_type (n ! p)) l" by auto
  with pick assms that [of p] show ?thesis by (simp add: rounds.simps [of gap n l])
qed

lemma rounds_done: "n = [] \<or> l = [] \<Longrightarrow> rounds gap n l = ([], n)"
  by (simp add: rounds.simps)

lemma mset_without: "p < length n \<Longrightarrow> mset n = add_mset (n ! p) (mset (remove_at p n))"
  by (metis id_take_nth_drop mset_append mset.simps(2) remove_at_def union_mset_add_mset_right)

lemma length_remove_at: "p < length n \<Longrightarrow> length n = Suc (length (remove_at p n))"
  by (auto simp: remove_at_def)

lemma splice_one_nat: "splice_one (int v) l = remove_at v l"
  by (simp add: splice_one_def)

lemma splice_one_last: "l \<noteq> [] \<Longrightarrow> splice_one (- 1) l = butlast l"
  by (cases l rule: rev_cases) (simp_all add: splice_one_def remove_at_def)

text \<open>The key of an extruder, and of the answer it gets.\<close>

definition asked :: "extruder \<Rightarrow> json \<times> string" where
  "asked f = (extruder_id f, extruder_color f)"

definition answered :: "answer \<Rightarrow> json \<times> string" where
  "answered u = (a_extruderId u, a_extruderColor u)"

lemma answered_simps [simp]: "answered (answer_of f u) = asked f" "answered (left_over f) = asked f"
  by (simp_all add: answered_def asked_def answer_of_def left_over_def)

lemma rounds_answers:
  "mset (map answered (fst (rounds gap n l))) + mset (map asked (snd (rounds gap n l))) = mset (map asked n)"
proof (induction n arbitrary: l rule: length_induct)
  case (1 n)
  show ?case
  proof (cases "n = [] \<or> l = []")
    case False
    then obtain p where p: "p < length n" and r: "rounds gap n l =
      (let (s, r) = rounds gap (remove_at p n)
              (splice_one (m_index (nearest_slot gap (extruder_color (n ! p)) (filament_type (n ! p)) l)) l)
       in (answer_of (n ! p) (nearest_slot gap (extruder_color (n ! p)) (filament_type (n ! p)) l) # s, r))"
      by (metis rounds_step)
    have "mset (map asked n) = add_mset (asked (n ! p)) (mset (map asked (remove_at p n)))"
      using mset_without [OF p] by simp
    with 1 p r length_remove_at [OF p] show ?thesis
      by (simp add: case_prod_beta Let_def del: mset_map)
  qed (simp add: rounds_done)
qed

text \<open>What an answer says of its slot.\<close>

definition slot_key :: "slot \<Rightarrow> json \<times> json \<times> json \<times> string \<times> json" where
  "slot_key b = (slotBoxId b, slotMaterialId b, slotCId b, slotColor b, slotFilamentType b)"

definition given :: "answer \<Rightarrow> json \<times> json \<times> json \<times> string \<times> json" where
  "given u = (a_boxId u, a_materialId u, a_cId u, a_matchColor u, a_filamentType u)"

definition matched :: "answer list \<Rightarrow> answer list" where
  "matched us = filter (\<lambda>u. a_status u = 0) us"

lemma answer_of_cases:
  assumes "u = nearest_slot gap (extruder_color f) (filament_type f) l"
  obtains (none) "u = no_match"
    "\<forall>b \<in> set l. slotFilamentType b = filament_type f \<longrightarrow> gap (extruder_color f) (slotColor b) = None"
  | (some) v y where "v < length l" "u = match_at v (l ! v) y" "slotFilamentType (l ! v) = filament_type f"
  using nearest_found [of gap "extruder_color f" "filament_type f" l] assms by (auto simp: found_def)

lemma answer_status [simp]:
  "a_status (answer_of f (match_at v b y)) = 0" "a_status (answer_of f no_match) = 1" "a_status (left_over f) = 1"
  "given (answer_of f (match_at v b y)) = slot_key b"
  by (simp_all add: answer_of_def left_over_def given_def slot_key_def)

lemma rounds_given:
  "mset (map given (matched (fst (rounds gap n l)))) \<subseteq># mset (map slot_key l)"
proof (induction n arbitrary: l rule: length_induct)
  case (1 n)
  show ?case
  proof (cases "n = [] \<or> l = []")
    case False
    then obtain p where p: "p < length n" and r: "rounds gap n l =
      (let (s, r) = rounds gap (remove_at p n)
              (splice_one (m_index (nearest_slot gap (extruder_color (n ! p)) (filament_type (n ! p)) l)) l)
       in (answer_of (n ! p) (nearest_slot gap (extruder_color (n ! p)) (filament_type (n ! p)) l) # s, r))"
      by (metis rounds_step)
    let ?u = "nearest_slot gap (extruder_color (n ! p)) (filament_type (n ! p)) l"
    have IH: "mset (map given (matched (fst (rounds gap (remove_at p n) l')))) \<subseteq># mset (map slot_key l')" for l'
      using 1 length_remove_at [OF p] by simp
    show ?thesis
    proof (rule answer_of_cases [OF refl, of gap "n ! p" l])
      assume none: "?u = no_match"
      have "mset (map slot_key (butlast l)) \<subseteq># mset (map slot_key l)"
        by (cases l rule: rev_cases) auto
      with IH [of "butlast l"] none r False show ?thesis
        by (auto simp: case_prod_beta Let_def matched_def splice_one_last intro: subset_mset.order_trans)
    next
      fix v y
      assume v: "v < length l" "?u = match_at v (l ! v) y"
      have "mset (map slot_key l) = add_mset (slot_key (l ! v)) (mset (map slot_key (remove_at v l)))"
        using mset_without [OF v(1)] by simp
      with IH [of "remove_at v l"] v r show ?thesis
        by (simp add: case_prod_beta Let_def matched_def splice_one_nat del: mset_map)
    qed
  qed (simp add: rounds_done matched_def)
qed

text \<open>C13: However many slots there are, every extruder of the print gets exactly one answer,
  and the answers that name a slot name different slots of the printer, of which each is
  given at most once.\<close>

theorem every_extruder_is_answered_once:
  "mset (map answered (match_colors gap n l)) = mset (map asked n)
   \<and> mset (map given (matched (match_colors gap n l))) \<subseteq># mset (map slot_key l)"
proof -
  obtain s r where sr: "rounds gap n l = (s, r)" by force
  have "matched (map left_over r) = []" by (auto simp: matched_def filter_empty_conv)
  moreover have "map answered (map left_over r) = map asked r" by simp
  ultimately show ?thesis
    using rounds_answers [of gap n l] rounds_given [of gap n l] sr
    by (simp add: match_colors_def matched_def del: map_map mset_map)
qed

text \<open>When all extruders and slots have one filament type and all colours can be compared,
  as many extruders get a slot as there can: the smaller of the two numbers.\<close>

theorem one_type_uses_every_slot:
  assumes "\<forall>f \<in> set n. filament_type f = t" and "\<forall>b \<in> set l. slotFilamentType b = t"
    and "\<forall>e c. gap e c \<noteq> None"
  shows "length (matched (match_colors gap n l)) = min (length n) (length l)"
proof -
  have "length (matched (fst (rounds gap n l))) = min (length n) (length l)" using assms(1,2)
  proof (induction n arbitrary: l rule: length_induct)
    case (1 n)
    show ?case
    proof (cases "n = [] \<or> l = []")
      case False
      then obtain p where p: "p < length n" and r: "rounds gap n l =
        (let (s, r) = rounds gap (remove_at p n)
                (splice_one (m_index (nearest_slot gap (extruder_color (n ! p)) (filament_type (n ! p)) l)) l)
         in (answer_of (n ! p) (nearest_slot gap (extruder_color (n ! p)) (filament_type (n ! p)) l) # s, r))"
        by (metis rounds_step)
      have sub: "set (remove_at v xs) \<subseteq> set xs" for v :: nat and xs :: "'z list"
        by (auto simp: remove_at_def dest: in_set_takeD in_set_dropD)
      show ?thesis
      proof (rule answer_of_cases [OF refl, of gap "n ! p" l])
        assume "\<forall>b \<in> set l. slotFilamentType b = filament_type (n ! p) \<longrightarrow> gap (extruder_color (n ! p)) (slotColor b) = None"
        moreover have "filament_type (n ! p) = t" "hd l \<in> set l" using 1 p False by auto
        ultimately show ?thesis using 1 assms(3) by metis
      next
        fix v y
        assume v: "v < length l"
          "nearest_slot gap (extruder_color (n ! p)) (filament_type (n ! p)) l = match_at v (l ! v) y"
        have "length (remove_at p n) < length n" using length_remove_at [OF p] by simp
        moreover have "\<forall>f \<in> set (remove_at p n). filament_type f = t"
          using 1(2) sub [of p n] by blast
        moreover have "\<forall>b \<in> set (remove_at v l). slotFilamentType b = t"
          using 1(3) sub [of v l] by blast
        ultimately have "length (matched (fst (rounds gap (remove_at p n) (remove_at v l))))
            = min (length (remove_at p n)) (length (remove_at v l))"
          using 1(1) [rule_format, of "remove_at p n" "remove_at v l"] by blast
        with v r length_remove_at [OF p] length_remove_at [OF v(1)] show ?thesis
          by (simp add: case_prod_beta Let_def matched_def splice_one_nat)
      qed
    qed (auto simp: rounds_done matched_def)
  qed
  then show ?thesis
    by (simp add: match_colors_def matched_def case_prod_beta filter_empty_conv)
qed

lemma pick_unmatched:
  assumes "\<forall>b \<in> set l. slotFilamentType b \<noteq> JStr []"
  shows "pick_from gap l h ms (Some (no_match, f, p)) = Some (u, f', p') \<Longrightarrow> u = no_match"
proof (induction ms arbitrary: h f p)
  case (Cons m ms)
  have "nearest_slot gap (extruder_color m) (filament_type m) l = no_match"
    if "replaces (nearest_slot gap (extruder_color m) (filament_type m) l) no_match"
    using that assms by (rule_tac answer_of_cases [OF refl, of gap m l]) (auto simp: replaces_def)
  with Cons show ?case by (auto simp: Let_def split: if_splits)
qed simp

text \<open>An extruder without a slot costs the others one: when the first waiting extruder
  matches no slot, the round answers an extruder that matches none and throws the last
  slot away (its index, -1, counts from the end of the array), so that a later extruder
  that only this slot would fit is told that there is none.\<close>

theorem unmatched_extruder_wastes_a_slot:
  assumes "n = f # fs" and "l \<noteq> []"
    and "\<forall>b \<in> set l. slotFilamentType b \<noteq> JStr [] \<and> slotFilamentType b \<noteq> filament_type f"
  shows "\<exists>p < length n. match_colors gap n l
           = answer_of (n ! p) no_match # match_colors gap (remove_at p n) (butlast l)"
proof -
  have f: "nearest_slot gap (extruder_color f) (filament_type f) l = no_match"
    using assms(3) by (rule_tac answer_of_cases [OF refl, of gap f l]) auto
  obtain p where p: "p < length n"
    and pick: "pick_from gap l 0 n None = Some (nearest_slot gap (extruder_color (n ! p)) (filament_type (n ! p)) l, n ! p, p)"
    and r: "rounds gap n l =
      (let (s, r) = rounds gap (remove_at p n)
              (splice_one (m_index (nearest_slot gap (extruder_color (n ! p)) (filament_type (n ! p)) l)) l)
       in (answer_of (n ! p) (nearest_slot gap (extruder_color (n ! p)) (filament_type (n ! p)) l) # s, r))"
    using rounds_step [of n l gap] assms(1,2) by auto
  have "pick_from gap l (Suc 0) fs (Some (no_match, f, 0))
      = Some (nearest_slot gap (extruder_color (n ! p)) (filament_type (n ! p)) l, n ! p, p)"
    using pick assms(1) f by (simp add: Let_def)
  from pick_unmatched [OF _ this] assms(3)
  have "nearest_slot gap (extruder_color (n ! p)) (filament_type (n ! p)) l = no_match" by blast
  with p r assms(2) show ?thesis
    by (auto simp: match_colors_def case_prod_beta Let_def splice_one_last)
qed

theorem unmatched_extruder_wastes_a_slot_witness:
  "matched (match_colors (\<lambda>a b. Some 0) [demo_extruder 1 ''ABS'' ''#ff0000'', demo_extruder 2 ''PLA'' ''#00ff00'']
     [demo_slot ''PLA'' ''#00ff00'' 0]) = []
   \<and> length (matched (match_colors (\<lambda>a b. Some 0) [demo_extruder 2 ''PLA'' ''#00ff00'', demo_extruder 1 ''ABS'' ''#ff0000'']
     [demo_slot ''PLA'' ''#00ff00'' 0])) = 1"
proof
  let ?n = "[demo_extruder 1 ''ABS'' ''#ff0000'', demo_extruder 2 ''PLA'' ''#00ff00'']"
  let ?l = "[demo_slot ''PLA'' ''#00ff00'' 0]"
  obtain p where p: "match_colors (\<lambda>a b. Some 0) ?n ?l
      = answer_of (?n ! p) no_match # match_colors (\<lambda>a b. Some 0) (remove_at p ?n) (butlast ?l)"
    using unmatched_extruder_wastes_a_slot [of ?n "demo_extruder 1 ''ABS'' ''#ff0000''"
        "[demo_extruder 2 ''PLA'' ''#00ff00'']" ?l "\<lambda>a b. Some 0"] by auto
  have "matched (match_colors (\<lambda>a b. Some 0) m []) = []" for m
    by (simp add: match_colors_def rounds_done matched_def filter_empty_conv)
  with p show "matched (match_colors (\<lambda>a b. Some 0) ?n ?l) = []"
    by (simp add: matched_def)
qed (simp add: match_colors_def rounds.simps nearest_slot_def below_def Let_def replaces_def at_most_def
    splice_one_def remove_at_def matched_def)

theorem one_type_uses_every_slot_witness:
  "length (matched (match_colors (\<lambda>a b. Some 0) [demo_extruder 1 ''PLA'' ''#ff0000'', demo_extruder 2 ''PLA'' ''#00ff00'']
     [demo_slot ''PLA'' ''#00ff00'' 0])) = 1"
  using one_type_uses_every_slot [of "[demo_extruder 1 ''PLA'' ''#ff0000'', demo_extruder 2 ''PLA'' ''#00ff00'']"
      "JStr ''PLA''" "[demo_slot ''PLA'' ''#00ff00'' 0]" "\<lambda>a b. Some 0"] by simp

end
