(* ===== verification/PlateProps.thy ===== *)
theory PlateProps
  imports PlatePrint CommandProps ColorProps
begin

text \<open>
  What the plate store and the print command promise: matches are kept apart by plate and
  printer, slot names can be read back, and a print is preceded by its colour matches.
\<close>

section \<open>The store\<close>

lemma show_nat_no_comma: "CHR '','' \<notin> set (show_nat n)"
  using all_digits_show_nat [of n] by (auto simp: all_digits_def list_all_iff char_digit_def Let_def)

lemma show_int_no_comma: "CHR '','' \<notin> set (show_int i)"
  by (simp add: show_int_def show_nat_no_comma)

lemma show_int_inject: "show_int i = show_int j \<longleftrightarrow> i = j"
proof -
  have "CHR ''-'' \<notin> set (show_nat n)" for n
    using all_digits_show_nat [of n] by (auto simp: all_digits_def list_all_iff char_digit_def Let_def)
  then have "show_nat n \<noteq> CHR ''-'' # t" "CHR ''-'' # t \<noteq> show_nat n" for n t
    by (metis list.set_intros(1))+
  then show ?thesis by (auto simp: show_int_def)
qed

lemma match_key_inject: "match_key t r = match_key t' r' \<longleftrightarrow> t = t' \<and> r = r'"
proof -
  have "takeWhile (\<lambda>c. c \<noteq> CHR '','') (match_key t r) = show_int t"
    "dropWhile (\<lambda>c. c \<noteq> CHR '','') (match_key t r) = CHR '','' # r" for t r
    unfolding match_key_def
    using show_int_no_comma [of t]
    by (subst takeWhile_append2 dropWhile_append2, auto simp: match_key_def)+
  then show ?thesis by (metis show_int_inject list.inject)
qed

text \<open>The colour matches kept for a plate and a printer are the ones last set for that
  plate and that printer, and setting them touches no other plate's or printer's.\<close>

theorem matches_are_kept_apart:
  "getPlatePrinterColorMatchInfo t' r' (setPlatePrinterColorMatchInfo t r n d)
     = (if t = t' \<and> r = r' then Some n else getPlatePrinterColorMatchInfo t' r' d)"
  by (auto simp: getPlatePrinterColorMatchInfo_def setPlatePrinterColorMatchInfo_def jm_get_set match_key_inject)

section \<open>Slot names\<close>

definition read_slot :: "string \<Rightarrow> nat option" where
  "read_slot t =
     (case t of
        [] \<Rightarrow> None
      | c # cs \<Rightarrow>
          (case read_digits 0 cs of
             (k, [x]) \<Rightarrow> if c = CHR ''T'' then Some (4 * (k - 1) + (of_char x - 65) + 1) else None
           | _ \<Rightarrow> None))"

lemma slot_name_Suc:
  "slot_name (Some (of_nat (Suc b))) = ''T'' @ show_nat (Suc (b div 4)) @ [char_of (65 + b mod 4)]"
proof -
  have f: "\<lfloor>(of_nat b :: rat) / 4 + 1\<rfloor> = int (Suc (b div 4))"
    using floor_div_nat [of b 4] by simp
  have r: "js_rem (of_nat b) 4 = of_nat (b mod 4)"
    using js_rem_nat [of b 4] by simp
  have "js_trunc (of_nat k) = int k" for k :: nat
    by (simp add: js_trunc_def)
  from this [of "65 + k" for k] have t: "js_trunc (65 + of_nat k) = int (65 + k)" for k :: nat
    by simp
  show ?thesis
    using f r t [of "b mod 4"] show_number_of_int [of "int (Suc (b div 4))"]
    by (simp add: slot_name_def show_num_def nat_add_distrib add.commute)
qed

text \<open>The name of an extruder's slot (\<open>T1A\<close> to \<open>T1D\<close> for the first four, \<open>T2A\<close> for the
  fifth, and so on) determines the extruder.\<close>

theorem slot_name_roundtrip: "read_slot (slot_name (Some (of_nat (Suc b)))) = Some (Suc b)"
proof -
  have m: "b mod 4 < 4" by simp
  have c: "of_char (char_of (65 + b mod 4) :: char) = 65 + b mod 4" for b :: nat
    by (simp add: of_char_of)
  have "char_digit (char_of (65 + b mod 4)) = None"
    by (simp add: char_digit_def of_char_of)
  then have "read_digits 0 (show_nat (Suc (b div 4)) @ [char_of (65 + b mod 4)]) = (Suc (b div 4), [char_of (65 + b mod 4)])"
    by (intro read_digits_show_nat) simp
  then show ?thesis
    unfolding slot_name_Suc read_slot_def using c [of b] by simp
qed

section \<open>The print command\<close>

lemma send_open:
  assumes "socket (printers s k) = Some m" and "sock (dms s m) = Some OPEN"
  shows "send_if_connected k j s = s\<lparr>calls := calls s @ [DmCall m (WsSend j)]\<rparr>"
    "sendMsg k j s = (None, s\<lparr>calls := calls s @ [DmCall m (WsSend j)]\<rparr>)"
  using assms by (simp_all add: send_if_connected_def sendMsg_def dm_send_def dm_sendMsg_def)

definition print_message :: "string \<Rightarrow> json \<Rightarrow> json \<Rightarrow> json" where
  "print_message l st c =
     (if c = JNum 1
      then set_params [(''multiColorPrint'', JObj [(''gcode'', JStr l), (''enableSelfTest'', st)])]
      else set_params [(''opGcodeFile'', JStr (''printprt:'' @ l)), (''enableSelfTest'', st)])"

definition match_message :: "string \<Rightarrow> json list \<Rightarrow> json" where
  "match_message l ds = set_params [(''colorMatch'', JObj [(''path'', JStr l), (''list'', JArr (map wire_match ds))])]"

text \<open>A print with colour matches, sent to a connected printer that is neither an old
  one nor a Klipper one and whose file list has arrived, puts exactly two messages on the
  wire: the matches for the file, and then the print of that file, from the box if the box
  is to be used and from the spool if not.\<close>

theorem print_follows_its_matches:
  assumes "getPrinter (text_in (jget n ''printer_ip'')) s = Some k"
    and "\<not> oldPrinter (printers s k)" and "type (printers s k) \<noteq> 4"
    and "gcode_path (printers s k) (jget n ''allPlate'') (text_in (jget n ''upload_gcode_name'')) = Some l" and "l \<noteq> []"
    and "socket (printers s k) = Some m" and "sock (dms s m) = Some OPEN"
    and "match_list (jget n ''color_match_info'') = Some ds" and "ds \<noteq> []"
  shows "HandleSendPrintCommand n s =
    (None, s\<lparr>calls := calls s
       @ [DmCall m (WsSend (match_message l ds)),
          DmCall m (WsSend (print_message l (or_zero (jget n ''print_calibration'')) (jget n ''open_cfs'')))]\<rparr>)"
proof -
  let ?a = "text_in (jget n ''printer_ip'')"
  let ?s1 = "s\<lparr>calls := calls s @ [DmCall m (WsSend (match_message l ds))]\<rparr>"
  have list: "truthy (jget n ''color_match_info'')" "jget n ''color_match_info'' \<noteq> JArr []"
    using assms(8,9) by (auto simp: match_list_def split: json.splits if_splits)
  have "getPrinter ?a ?s1 = Some k"
    using assms(1) by (simp add: getPrinter_find_ref find_ref_def has_address_def all_refs_def)
  then have start:
    "StartNormalPrint ?a l st ?s1 = Some (sendMsg k (set_params [(''opGcodeFile'', JStr (''printprt:'' @ l)), (''enableSelfTest'', st)]) ?s1)"
    "StartMultiColorPrint ?a (JStr l) st ?s1
       = Some (sendMsg k (set_params [(''multiColorPrint'', JObj [(''gcode'', JStr l), (''enableSelfTest'', st)])]) ?s1)" for st
    by (simp_all add: StartNormalPrint_def StartMultiColorPrint_def)
  have col: "SetColorMatch ?a (JStr l) (JArr (map wire_match ds)) s = Some ?s1"
    using assms(1,6,7) by (simp add: SetColorMatch_def set_command_def command_def send_open match_message_def)
  have snd: "sendMsg k j ?s1 = (None, ?s1\<lparr>calls := calls ?s1 @ [DmCall m (WsSend j)]\<rparr>)" for j
    using assms(6,7) by (intro send_open(2)) simp_all
  show ?thesis
    using assms list unfolding HandleSendPrintCommand_def
    by (simp add: Let_def col start snd print_message_def)
qed

text \<open>A print without colour match information, sent to a printer whose material boxes
  are known, is dropped: the missing list is used as an array, the exception is caught and
  nothing is sent, although the same command to a printer without boxes prints the file.\<close>

theorem print_without_matches_is_dropped:
  assumes "nullish (jget n ''color_match_info'')"
    and "getPrinter (text_in (jget n ''printer_ip'')) s = Some k"
    and "\<not> oldPrinter (printers s k)" and "type (printers s k) \<noteq> 4"
    and "gcode_path (printers s k) (jget n ''allPlate'') (text_in (jget n ''upload_gcode_name'')) = Some l" and "l \<noteq> []"
  shows "HandleSendPrintCommand n s =
    (if boxColorInfo (boxsInfo (printers s k)) \<noteq> [] then (None, s)
     else sendMsg k (set_params [(''opGcodeFile'', JStr (''printprt:'' @ l)),
            (''enableSelfTest'', or_zero (jget n ''print_calibration''))]) s)"
proof -
  have "match_list (jget n ''color_match_info'') = None" "\<not> truthy (jget n ''color_match_info'')"
    using assms(1) by (auto simp: nullish_def match_list_def)
  with assms show ?thesis
    by (simp add: HandleSendPrintCommand_def Let_def StartNormalPrint_def)
qed

definition demo_files :: "json list \<Rightarrow> dashboard" where
  "demo_files bs = upd 1 (\<lambda>p. p\<lparr>data := [(''retGcodeFileInfo2'', JArr [JObj [(''path'', JStr ''/usr/gcodes/x.gcode'')]])],
     boxsInfo := (boxsInfo p)\<lparr>boxColorInfo := bs\<rparr>\<rparr>) demo_board"

lemma demo_files_fields [simp]:
  "getPrinter ''b'' (demo_files bs) = Some (Suc 0)" "\<not> oldPrinter (printers (demo_files bs) (Suc 0))"
  "type (printers (demo_files bs) (Suc 0)) = 3" "socket (printers (demo_files bs) (Suc 0)) = Some 0"
  "dms (demo_files bs) = (\<lambda>_. demo_dm)" "calls (demo_files bs) = []"
  "data (printers (demo_files bs) (Suc 0)) = [(''retGcodeFileInfo2'', JArr [JObj [(''path'', JStr ''/usr/gcodes/x.gcode'')]])]"
  "boxColorInfo (boxsInfo (printers (demo_files bs) (Suc 0))) = bs"
  by (simp_all add: demo_files_def getPrinter_find_ref find_ref_def has_address_def)

lemma demo_path:
  "gcode_path (printers (demo_files bs) (Suc 0)) JUndefined ''cube.gcode'' = Some ''/usr/gcodes/cube.gcode''"
  by (simp add: gcode_path_def)

definition demo_print :: "json \<Rightarrow> json" where
  "demo_print d = JObj [(''printer_ip'', JStr ''b''), (''upload_gcode_name'', JStr ''cube.gcode''), (''color_match_info'', d)]"

lemma demo_print_fields [simp]:
  "jget (demo_print d) ''printer_ip'' = JStr ''b''" "jget (demo_print d) ''upload_gcode_name'' = JStr ''cube.gcode''"
  "jget (demo_print d) ''color_match_info'' = d" "jget (demo_print d) ''allPlate'' = JUndefined"
  by (simp_all add: demo_print_def)

theorem print_follows_its_matches_witness:
  "length (calls (snd (HandleSendPrintCommand (demo_print (JArr [JObj [(''extruderId'', JNum 1)]])) (demo_files [])))) = 2"
  using print_follows_its_matches [of "demo_print (JArr [JObj [(''extruderId'', JNum 1)]])" "demo_files []" "Suc 0"
      "''/usr/gcodes/cube.gcode''" 0 "[JObj [(''extruderId'', JNum 1)]]"]
  by (simp add: text_in_def demo_path match_list_def)

theorem print_without_matches_is_dropped_witness:
  "HandleSendPrintCommand (demo_print JNull) (demo_files [JNull]) = (None, demo_files [JNull])"
  using print_without_matches_is_dropped [of "demo_print JNull" "demo_files [JNull]" "Suc 0" "''/usr/gcodes/cube.gcode''"]
  by (simp add: text_in_def demo_path)

end
