(* ===== verification/PrinterData.thy ===== *)
theory PrinterData
  imports Formats PrinterService "HOL-Library.Word"
begin

text \<open>
  What a message does to a printer of the manager \<open>M4\<close> (\<open>CeX73yR3.js\<close>):
  \<open>setDataFromDevice\<close>, which a socket calls with every message, and its helpers for
  temperatures, print objects and material boxes.

  A message is a JSON object with fields of the kinds the firmware sends: \<open>err\<close>,
  \<open>boxsInfo\<close>, \<open>boxConfig\<close> and \<open>result\<close> are objects, file names are texts; the
  \<open>TypeError\<close> of another kind is not modelled.  The source stores parts of the message
  in \<open>data\<close> and in the fields alike and changes them later through one name; here each is
  a value of its own.
\<close>

unbundle bit_operations_syntax

section \<open>The page\<close>

text \<open>What the code asks of the page and of JavaScript: the time, \<open>wu\<close>, which writes the
  local time that many minutes ago, the parameters in the address of the page, and
  \<open>JSON.stringify\<close>.\<close>

record page =
  page_now :: int
  page_wu :: "rat option \<Rightarrow> bool \<Rightarrow> string"
  page_params :: "(string \<times> string) list"
  page_stringify :: "json \<Rightarrow> string"

definition lower :: "char \<Rightarrow> char" where
  "lower c = (let n = of_char c :: nat in if 65 \<le> n \<and> n \<le> 90 then char_of (n + 32) else c)"

text \<open>A page with parameters has one for the operating system.\<close>

definition getLinuxVideoUrl :: "page \<Rightarrow> string \<Rightarrow> string" where
  "getLinuxVideoUrl pg t =
     (if page_params pg = [] then []
      else
        (case map_of (page_params pg) ''port'' of
           None \<Rightarrow> []
         | Some a \<Rightarrow>
             if sublist ''linux'' (map lower (case map_of (page_params pg) ''os'' of None \<Rightarrow> [] | Some n \<Rightarrow> n))
             then ''http://127.0.0.1:'' @ a @ ''/videostream?ip='' @ t else []))"

section \<open>Fields\<close>

definition hasOwn :: "json \<Rightarrow> string \<Rightarrow> bool" where
  "hasOwn m k = (case m of JObj ps \<Rightarrow> map_of ps k \<noteq> None | _ \<Rightarrow> False)"

text \<open>\<open>m.hasOwnProperty(k) && (p.f = m[k])\<close>.\<close>

definition field :: "string \<Rightarrow> (json \<Rightarrow> 'p \<Rightarrow> 'p) \<Rightarrow> json \<Rightarrow> 'p \<Rightarrow> 'p" where
  "field k f m p = (if hasOwn m k then f (jget m k) p else p)"

text \<open>Fields in the order of the code.\<close>

definition fields :: "(string \<times> (json \<Rightarrow> 'p \<Rightarrow> 'p)) list \<Rightarrow> json \<Rightarrow> 'p \<Rightarrow> 'p" where
  "fields fs m p = fold (\<lambda>(k, f). field k f m) fs p"

definition the_text :: "json \<Rightarrow> string" where
  "the_text v = (case v of JStr t \<Rightarrow> t | _ \<Rightarrow> [])"

definition on_err :: "(printer_err \<Rightarrow> printer_err) \<Rightarrow> printer \<Rightarrow> printer" where
  "on_err f p = p\<lparr>err := f (err p)\<rparr>"

definition on_ctrol :: "(json \<Rightarrow> printer_ctrol \<Rightarrow> printer_ctrol) \<Rightarrow> json \<Rightarrow> printer \<Rightarrow> printer" where
  "on_ctrol f v p = p\<lparr>ctrol := f v (ctrol p)\<rparr>"

definition set_error :: "int \<Rightarrow> printer \<Rightarrow> printer" where
  "set_error k = on_err (\<lambda>e. e\<lparr>errcode := JNum (of_int k), err_key := JNum (of_int k)\<rparr>)"

definition err_of :: "json \<Rightarrow> printer_err" where
  "err_of v = \<lparr>errcode = jget v ''errcode'', err_key = jget v ''key'', err_value = jget v ''value'',
     errLevel = jget v ''errLevel''\<rparr>"

definition boxConfig_of :: "json \<Rightarrow> printer_boxConfig" where
  "boxConfig_of v = \<lparr>cAutoFeed = jget v ''cAutoFeed'', cSelfTest = jget v ''cSelfTest'',
     autoRefill = jget v ''autoRefill'', ignoreColorAutoFeed = jget v ''ignoreColorAutoFeed''\<rparr>"

section \<open>Errors\<close>

text \<open>The message is kept property by property; values that are written alike are not stored
  again.\<close>

definition keep_data :: "page \<Rightarrow> json \<Rightarrow> printer \<Rightarrow> printer" where
  "keep_data pg m p =
     (case m of
        JObj ps \<Rightarrow> fold (\<lambda>k p. p\<lparr>timeStamp := page_now pg,
            data := (if hasOwn (JObj (data p)) k \<and> page_stringify pg (jget (JObj (data p)) k) = page_stringify pg (jget m k)
                     then data p else AList.update k (jget m k) (data p))\<rparr>) (remdups (map fst ps)) p
      | _ \<Rightarrow> p)"

definition take_power_loss :: "json \<Rightarrow> printer \<Rightarrow> printer" where
  "take_power_loss v p0 =
     (let p = p0\<lparr>repoPlrStatus := v\<rparr> in
      if eq_num v 0 \<and> eq_num (errcode (err p)) 115 then set_error 0 p
      else if eq_num v 1 then set_error 115 p else p)"

definition take_material_status :: "json \<Rightarrow> printer \<Rightarrow> printer" where
  "take_material_status v p0 =
     (let p = p0\<lparr>materialStatus := v\<rparr> in if eq_num v 1 then (set_error 2839 p)\<lparr>materialTimer := True\<rparr> else p)"

definition set_errLevel :: "printer \<Rightarrow> printer" where
  "set_errLevel p =
     (let c = errcode (err p) in
      on_err (\<lambda>e. e\<lparr>errLevel :=
        (if (case to_number c of None \<Rightarrow> False | Some q \<Rightarrow> 1 \<le> q \<and> q \<le> 100) \<or> eq_num c 20000 \<or> eq_num c 20010
         then JNum 1 else JNum 0)\<rparr>) p)"

definition take_errors :: "json \<Rightarrow> printer \<Rightarrow> printer" where
  "take_errors m p0 =
     (let p1 = field ''repoPlrStatus'' take_power_loss m p0;
          p2 = (if hasOwn m ''err'' \<and> repoPlrStatus p1 \<noteq> JNum 1 then p1\<lparr>err := err_of (jget m ''err'')\<rparr> else p1);
          p3 = field ''materialStatus'' take_material_status m p2
      in set_errLevel p3)"

section \<open>Progress and names\<close>

definition seconds :: "json \<Rightarrow> string" where
  "seconds v = Tl (to_number v)"

definition take_left_time :: "page \<Rightarrow> json \<Rightarrow> printer \<Rightarrow> printer" where
  "take_left_time pg v p = p\<lparr>printLeftTime := JStr (seconds v),
     finishTime := JStr (page_wu pg (map_option (\<lambda>x. - x / 60) (to_number v)) True)\<rparr>"

definition take_file_name :: "json \<Rightarrow> printer \<Rightarrow> printer" where
  "take_file_name v p = p\<lparr>printFileName := JStr (js_split_last ''/'' (the_text v)), filePath := v\<rparr>"

definition take_model :: "(string \<times> preset) list \<Rightarrow> json \<Rightarrow> printer \<Rightarrow> printer" where
  "take_model presets v p =
     p\<lparr>modelName := js_or (case map_of presets (the_text v) of None \<Rightarrow> JUndefined | Some d \<Rightarrow> presetModel d) (modelName p),
       model := the_text v\<rparr>"

definition take_first :: "page \<Rightarrow> (string \<times> preset) list \<Rightarrow> json \<Rightarrow> printer \<Rightarrow> printer" where
  "take_first pg presets m p0 =
     (let p = take_errors m (keep_data pg m (p0\<lparr>online := True\<rparr>)) in
      fields
        [(''printProgress'', \<lambda>v p. p\<lparr>printProgress := v\<rparr>),
         (''printLeftTime'', take_left_time pg),
         (''printJobTime'', \<lambda>v p. p\<lparr>printJobTime := JStr (seconds v)\<rparr>),
         (''printFileName'', take_file_name),
         (''deviceState'', \<lambda>v p. p\<lparr>deviceState := v\<rparr>),
         (''hostname'', \<lambda>v p. p\<lparr>name := Some (the_text v)\<rparr>),
         (''model'', take_model presets)] m
        (p\<lparr>previewimg := JStr (''http://'' @ address p @ '':80/downloads/original/current_print_image.png'')\<rparr>))"

text \<open>On a Linux desktop the video comes from a local stream instead of WebRTC.\<close>

definition choose_video :: "page \<Rightarrow> printer \<Rightarrow> printer" where
  "choose_video pg p =
     (if truthy (webrtcSupport p)
      then let u = getLinuxVideoUrl pg (address p)
           in p\<lparr>linuxVideoUrl := JStr u, webrtcSupport := (if u \<noteq> [] then JNum 0 else webrtcSupport p)\<rparr>
      else p)"

definition take_second :: "page \<Rightarrow> json \<Rightarrow> printer \<Rightarrow> printer" where
  "take_second pg m p =
     fields
       [(''materialState'', \<lambda>v p. p\<lparr>materialState := v\<rparr>),
        (''video'', \<lambda>v p. p\<lparr>video := v\<rparr>),
        (''withSelfTest'', \<lambda>v p. p\<lparr>withSelfTest := v\<rparr>),
        (''printStartTime'', \<lambda>v p. p\<lparr>printStartTime := v\<rparr>)] m
       (choose_video pg
         (fields [(''feedState'', \<lambda>v p. p\<lparr>feedState := v\<rparr>), (''webrtcSupport'', \<lambda>v p. p\<lparr>webrtcSupport := v\<rparr>)] m p))"

section \<open>Temperatures\<close>

text \<open>A number that is not one is kept as \<open>null\<close>.\<close>

definition as_float :: "json \<Rightarrow> json" where
  "as_float v = json_number (case v of JNum q \<Rightarrow> Some q | JStr t \<Rightarrow> parse_float t | _ \<Rightarrow> None)"

text \<open>\<open>xs.splice(0, 1)\<close> and \<open>xs.push(x)\<close>.\<close>

definition shift_in :: "'a \<Rightarrow> 'a list \<Rightarrow> 'a list" where
  "shift_in x xs = drop 1 xs @ [x]"

definition record_value :: "json \<Rightarrow> temp_series \<Rightarrow> temp_series" where
  "record_value n t = t\<lparr>temp_data := shift_in (as_float n) (temp_data t), temp_value := as_float n\<rparr>"

definition start_history :: "page \<Rightarrow> printer_temperature \<Rightarrow> printer_temperature" where
  "start_history pg t =
     (if time t = []
      then let z = (\<lambda>x. x\<lparr>temp_data := temp_data x @ replicate 600 (JNum 0)\<rparr>)
           in t\<lparr>time := replicate 600 (page_wu pg (Some 0) False), nozzle := z (nozzle t), bed := z (bed t), box := z (box t)\<rparr>
      else t)"

text \<open>\<open>d\<close> is the printer's \<open>data\<close>, which the message is part of by now.\<close>

definition take_temperatures :: "page \<Rightarrow> json \<Rightarrow> json \<Rightarrow> printer_temperature \<Rightarrow> printer_temperature" where
  "take_temperatures pg d r t0 =
     (let t1 = start_history pg t0;
          t2 = (if hasOwn d ''nozzleTemp''
                then t1\<lparr>nozzle := record_value (if hasOwn r ''nozzleTemp'' then jget r ''nozzleTemp'' else temp_value (nozzle t1)) (nozzle t1)\<rparr>
                else t1);
          t3 = (if hasOwn d ''bedTemp0''
                then t2\<lparr>bed := record_value (if hasOwn r ''bedTemp0'' then jget r ''bedTemp0'' else temp_value (bed t2)) (bed t2)\<rparr>
                else t2);
          t4 = (if hasOwn d ''boxTemp'' then t3\<lparr>box := record_value (jget d ''boxTemp'') (box t3)\<rparr> else t3);
          t5 = field ''maxNozzleTemp'' (\<lambda>v t. t\<lparr>nozzle := (nozzle t)\<lparr>temp_max := as_float v\<rparr>\<rparr>) d t4;
          t6 = field ''maxBedTemp'' (\<lambda>v t. t\<lparr>bed := (bed t)\<lparr>temp_max := as_float v\<rparr>\<rparr>) d t5;
          t7 = t6\<lparr>time := shift_in (page_wu pg (Some 0) False) (time t6)\<rparr>;
          t8 = field ''targetNozzleTemp'' (\<lambda>v t. t\<lparr>nozzle := (nozzle t)\<lparr>temp_target := as_float v\<rparr>\<rparr>) d t7
      in field ''targetBedTemp0'' (\<lambda>v t. t\<lparr>bed := (bed t)\<lparr>temp_target := as_float v\<rparr>\<rparr>) d t8)"

definition formatTemperatureData :: "page \<Rightarrow> json \<Rightarrow> printer \<Rightarrow> printer" where
  "formatTemperatureData pg r p =
     (if record_temps (temperature p)
      then p\<lparr>temperature := take_temperatures pg (JObj (data p)) r (temperature p)\<rparr> else p)"

section \<open>Print objects and materials\<close>

text \<open>\<open>parse\<close> reads the list of objects, which the printer sends as a text.\<close>

definition formatObjectData :: "(json \<Rightarrow> json) \<Rightarrow> json \<Rightarrow> printer \<Rightarrow> printer" where
  "formatObjectData parse r p =
     fields
       [(''current_object'', \<lambda>v p. p\<lparr>part := (part p)\<lparr>current_object := v\<rparr>\<rparr>),
        (''excluded_objects'', \<lambda>v p. p\<lparr>part := (part p)\<lparr>excluded_objects := v\<rparr>\<rparr>),
        (''objects'', \<lambda>v p. p\<lparr>part := (part p)\<lparr>objects := (if v = JStr [] \<or> v = JArr [] then JArr [] else parse v)\<rparr>\<rparr>)] r p"

definition formatMaterialData :: "page \<Rightarrow> json \<Rightarrow> printer \<Rightarrow> printer" where
  "formatMaterialData pg r p =
     (if hasOwn r ''retMaterials'' \<and> page_stringify pg (material p) \<noteq> page_stringify pg (jget r ''retMaterials'')
      then p\<lparr>material := jget r ''retMaterials''\<rparr> else p)"

definition findUserMaterialByName :: "printer \<Rightarrow> json \<Rightarrow> json option" where
  "findUserMaterialByName t r =
     (case material t of
        JArr as \<Rightarrow> List.find (\<lambda>a. jget (jget a ''base'') ''name'' = r) as | _ \<Rightarrow> None)"

section \<open>Material boxes\<close>

text \<open>\<open>stringHash\<close> works on 32-bit integers: \<open>^\<close> takes its operands modulo \<open>2 ^ 32\<close>, as
  signed numbers, and \<open>>>> 0\<close> reads the result as an unsigned one.\<close>

definition js_xor :: "int \<Rightarrow> int \<Rightarrow> int" where
  "js_xor a b = sint ((of_int a :: 32 word) XOR (of_int b :: 32 word))"

definition stringHash :: "string \<Rightarrow> nat" where
  "stringHash t = unat (of_int (fold (\<lambda>c r. js_xor (r * 33) (int (of_char c))) t 5381) :: 32 word)"

text \<open>\<open>#0rrggbb\<close> from the wire becomes \<open>#rrggbb\<close>.\<close>

definition read_color :: "string \<Rightarrow> string" where
  "read_color c = (if length c = 8 then ''#'' @ take 6 (drop 2 c) else c)"

definition with_prop :: "string \<Rightarrow> json \<Rightarrow> json \<Rightarrow> json" where
  "with_prop k v m = (case m of JObj ps \<Rightarrow> JObj (AList.update k v ps) | _ \<Rightarrow> m)"

text \<open>\<open>s.substring(s.indexOf('box'))\<close>: all of it when there is no \<open>box\<close>.\<close>

fun from_box :: "string \<Rightarrow> string option" where
  "from_box [] = None"
| "from_box (c # cs) = (if prefix ''box'' (c # cs) then Some (c # cs) else from_box cs)"

definition box_part :: "string \<Rightarrow> string" where
  "box_part t = (case from_box t of None \<Rightarrow> t | Some u \<Rightarrow> u)"

text \<open>One material of a box: what the box keeps, and what the list of colours gets.\<close>

definition format_material :: "printer \<Rightarrow> json \<Rightarrow> json \<Rightarrow> json \<times> json list" where
  "format_material t o' l0 =
     (let l1 = (if jget l0 ''name'' \<noteq> JStr []
                then (case findUserMaterialByName t (jget l0 ''name'') of
                        None \<Rightarrow> l0
                      | Some a \<Rightarrow>
                          if truthy (jget a ''userMaterial'')
                          then with_prop ''userMaterial'' (JStr (box_part (the_text (jget a ''userMaterial'')))) l0 else l0)
                else l0)
      in if \<not> hasOwn l1 ''color'' then (l1, [])
         else let c = JStr (read_color (the_text (jget l1 ''color''))); l2 = with_prop ''color'' c l1 in
           (l2, [JObj [(''boxType'', jget o' ''type''), (''color'', c), (''boxId'', jget o' ''id''),
                       (''materialId'', jget l2 ''id''), (''filamentType'', jget l2 ''type''),
                       (''filamentName'', jget l2 ''name''), (''RFIDState'', jget l2 ''state''),
                       (''percent'', jget l2 ''percent''), (''remaining_length'', jget l2 ''remaining_length'')]]))"

definition format_box :: "printer \<Rightarrow> json \<Rightarrow> json \<times> json list" where
  "format_box t o' =
     (case jget o' ''materials'' of
        JArr ls \<Rightarrow>
          let rs = map (format_material t o') ls
          in (with_prop ''materials'' (JArr (map fst rs)) o', concat (map snd rs))
      | _ \<Rightarrow> (o', []))"

definition formatBoxsInfoData :: "page \<Rightarrow> json \<Rightarrow> printer \<Rightarrow> printer" where
  "formatBoxsInfoData pg r p0 =
     (let a = jget r ''boxsInfo'' in
      if \<not> (hasOwn r ''boxsInfo'' \<and> hasOwn a ''materialBoxs'') then p0
      else
        let p = p0\<lparr>boxInfoTimeStamp := page_now pg\<rparr>; i = stringHash (page_stringify pg a) in
        if hashBoxsInfo (boxsInfo p) = Some i then p
        else
          let rs = map (format_box p) (case jget a ''materialBoxs'' of JArr bs \<Rightarrow> bs | _ \<Rightarrow> []);
              b = (boxsInfo p)\<lparr>hashBoxsInfo := Some i, boxColorInfo := concat (map snd rs), materialBoxs := map fst rs,
                    cfsName := (if truthy (jget a ''name'') then jget a ''name'' else JStr [])\<rparr>;
              b1 = field ''same_material'' (\<lambda>v b. b\<lparr>same_material := v\<rparr>) a b
          in p\<lparr>boxsInfo := field ''color_same_material'' (\<lambda>v b. b\<lparr>color_same_material := v\<rparr>) a b1\<rparr>)"

section \<open>The rest of a message\<close>

definition late_fields :: "(string \<times> (json \<Rightarrow> printer \<Rightarrow> printer)) list" where
  "late_fields =
     [(''modifyMaterial'', \<lambda>v p. p\<lparr>cfsCModifyMaterial := v\<rparr>),
     (''autohome'', on_ctrol (\<lambda>v c. c\<lparr>autohome := v\<rparr>)),
     (''curPosition'', on_ctrol (\<lambda>v c. c\<lparr>curPosition := v\<rparr>)),
     (''curFeedratePct'', on_ctrol (\<lambda>v c. c\<lparr>curFeedratePct := v\<rparr>)),
     (''fan'', on_ctrol (\<lambda>v c. c\<lparr>fan := v\<rparr>)),
     (''modelFanPct'', on_ctrol (\<lambda>v c. c\<lparr>modelFanPct := v\<rparr>)),
     (''fanAuxiliary'', on_ctrol (\<lambda>v c. c\<lparr>fanAuxiliary := v\<rparr>)),
     (''auxiliaryFanPct'', on_ctrol (\<lambda>v c. c\<lparr>auxiliaryFanPct := v\<rparr>)),
     (''fanCase'', on_ctrol (\<lambda>v c. c\<lparr>fanCase := v\<rparr>)),
     (''caseFanPct'', on_ctrol (\<lambda>v c. c\<lparr>caseFanPct := v\<rparr>)),
     (''lightSw'', on_ctrol (\<lambda>v c. c\<lparr>lightSw := v\<rparr>)),
     (''boxConfig'', \<lambda>v p. p\<lparr>boxConfig := boxConfig_of v\<rparr>),
     (''materialDetector1'', \<lambda>v p. p\<lparr>materialDetector1 := v\<rparr>),
     (''cfsConnect'', \<lambda>v p. p\<lparr>cfsConnect := v\<rparr>),
     (''modelVersion'', \<lambda>v p. p\<lparr>modelVersion := v\<rparr>)]"

definition take_third :: "page \<Rightarrow> (json \<Rightarrow> json) \<Rightarrow> json \<Rightarrow> printer \<Rightarrow> printer" where
  "take_third pg parse m p0 =
     (let p1 = fields
            [(''layer'', \<lambda>v p. p\<lparr>layer := v\<rparr>), (''TotalLayer'', \<lambda>v p. p\<lparr>TotalLayer := v\<rparr>),
             (''materialCutterState'', \<lambda>v p. p\<lparr>materialCutterState := v\<rparr>)] m p0;
          p2 = (if hasOwn m ''bedTemp0'' \<or> hasOwn m ''nozzleTemp'' \<or> hasOwn m ''boxTemp''
                then formatTemperatureData pg m p1 else p1);
          p3 = formatMaterialData pg m (formatBoxsInfoData pg m (formatObjectData parse m p2));
          p4 = fields late_fields m p3;
          p5 = (if jget m ''cmd'' = JStr ''refreshBox''
                then p4\<lparr>refreshBox := jget (jget m ''result'') ''code''\<rparr> else p4)
      in if boxColorInfo (boxsInfo p5) \<noteq> [] then p5\<lparr>IsMultiColorDevice := JBool True\<rparr> else p5)"

text \<open>The state is stored before it is compared with itself, so only the error 115 is
  cleared here, and the socket opened again; the same would be done for a change of state
  after 2839 if the old state were still there.\<close>

definition take_state :: "nat \<Rightarrow> json \<Rightarrow> dashboard \<Rightarrow> dashboard" where
  "take_state n m s =
     (if hasOwn m ''state''
      then let s1 = upd n (\<lambda>p. p\<lparr>state := jget m ''state''\<rparr>) s
           in if eq_num (err_key (err (printers s1 n))) 115
              then reconnectWebSocket n (upd n (set_error 0) s1) else s1
      else s)"

text \<open>A local printer hands all it knows to the cloud's view of it, but for what identifies
  that view.  (The identifier of the material timer is copied too; the timer stays the
  local printer's.)\<close>

definition copy_printer :: "printer \<Rightarrow> printer \<Rightarrow> printer" where
  "copy_printer l d = l\<lparr>deviceType := deviceType d, address := address d, identity := identity d,
     online := online d, tbId := tbId d, name := name d, socket := socket d,
     materialTimer := materialTimer d\<rparr>"

definition share_with_identity :: "nat \<Rightarrow> dashboard \<Rightarrow> dashboard" where
  "share_with_identity n s =
     (let l = printers s n in
      case identity l of
        None \<Rightarrow> s
      | Some i \<Rightarrow>
          if deviceType l \<noteq> 0 then s
          else (case getPrinter_in i False 1 s of
                  None \<Rightarrow> s
                | Some d \<Rightarrow> if online (printers s d) then upd d (\<lambda>d. copy_printer l d) s else s))"

definition setDataFromDevice :: "page \<Rightarrow> (json \<Rightarrow> json) \<Rightarrow> string \<Rightarrow> json \<Rightarrow> dashboard \<Rightarrow> dashboard" where
  "setDataFromDevice pg parse ip m s =
     (case find_ref (\<lambda>p. case socket p of None \<Rightarrow> False | Some k \<Rightarrow> dm_ip (dms s k) = ip) s of
        None \<Rightarrow> s
      | Some n \<Rightarrow>
          share_with_identity n
            (upd n (take_third pg parse m)
              (take_state n m
                (upd n (take_second pg m) (upd n (take_first pg (printerPreset s) m) s)))))"

text \<open>Ten seconds after the material ran out, the socket is opened again.\<close>

definition material_timer_fires :: "nat \<Rightarrow> dashboard \<Rightarrow> dashboard" where
  "material_timer_fires n s =
     (if materialTimer (printers s n) then reconnectWebSocket n (upd n (\<lambda>p. p\<lparr>materialTimer := False\<rparr>) s) else s)"

end
