(* ===== verification/DataProps.thy ===== *)
theory DataProps
  imports PrinterData PrinterProps
begin

text \<open>
  What the handling of messages promises: a temperature history of constant length, the
  error of a power loss, material boxes that a repeated message leaves alone, and a hash
  that is 32-bit arithmetic.
\<close>

section \<open>Fields\<close>

text \<open>A component that no assignment of a list touches keeps its value.\<close>

lemma fields_keep:
  assumes "\<And>k f v p. (k, f) \<in> set fs \<Longrightarrow> T (f v p) = T p"
  shows "T (fields fs m p) = T p"
  using assms
proof (induction fs arbitrary: p)
  case (Cons x fs)
  obtain k f where x: "x = (k, f)" by force
  have "T (fields fs m q) = T q" for q
  proof (rule Cons.IH)
    show "T (f v p) = T p" if "(k, f) \<in> set fs" for k f v p using Cons.prems [of k f v p] that by simp
  qed
  moreover have "T (field k f m p) = T p" using Cons.prems [of k f] x by (simp add: field_def)
  ultimately show ?case by (simp add: fields_def x)
qed (simp add: fields_def)

lemma fold_keep:
  assumes "\<And>k p. T (f k p) = T p"
  shows "T (fold f ks p) = T p"
  by (induction ks arbitrary: p) (simp_all add: assms)

lemma field_keep: "(\<And>v p. T (f v p) = T p) \<Longrightarrow> T (field k f m p) = T p"
  by (simp add: field_def)

lemma on_fields [simp]:
  "temperature (on_err f p) = temperature p" "temperature (on_ctrol g v p) = temperature p"
  "err (on_err f p) = f (err p)" "err (on_ctrol g v p) = err p"
  "err (set_error k p) = (err p)\<lparr>errcode := JNum (of_int k), err_key := JNum (of_int k)\<rparr>"
  "temperature (set_error k p) = temperature p" "repoPlrStatus (on_err f p) = repoPlrStatus p"
  "repoPlrStatus (set_error k p) = repoPlrStatus p"
  "data (on_err f p) = data p" "data (on_ctrol g v p) = data p" "data (set_error k p) = data p"
  by (simp_all add: on_err_def on_ctrol_def set_error_def)

lemma keep_data_fields [simp]:
  "temperature (keep_data pg m p) = temperature p" "err (keep_data pg m p) = err p"
  by (simp_all add: keep_data_def fold_keep [where T = temperature] fold_keep [where T = err] split: json.split)

lemma errors_keep [simp]:
  "temperature (take_errors m p) = temperature p" "data (take_errors m p) = data p"
  by (simp_all add: take_errors_def Let_def set_errLevel_def take_power_loss_def take_material_status_def field_def)

lemma first_keep [simp]:
  "temperature (take_first pg ps m p) = temperature p"
  "err (take_first pg ps m p) = err (take_errors m (keep_data pg m (p\<lparr>online := True\<rparr>)))"
  "data (take_first pg ps m p) = data (keep_data pg m (p\<lparr>online := True\<rparr>))"
proof -
  show "data (take_first pg ps m p) = data (keep_data pg m (p\<lparr>online := True\<rparr>))"
    unfolding take_first_def Let_def
    by (subst fields_keep [where T = data]) (auto simp: take_left_time_def take_file_name_def take_model_def)
  show "temperature (take_first pg ps m p) = temperature p"
    unfolding take_first_def Let_def
    by (subst fields_keep [where T = temperature]) (auto simp: take_left_time_def take_file_name_def take_model_def)
  show "err (take_first pg ps m p) = err (take_errors m (keep_data pg m (p\<lparr>online := True\<rparr>)))"
    unfolding take_first_def Let_def
    by (subst fields_keep [where T = err]) (auto simp: take_left_time_def take_file_name_def take_model_def)
qed

lemma second_keep [simp]:
  "temperature (take_second pg m p) = temperature p" "err (take_second pg m p) = err p"
  "data (take_second pg m p) = data p"
proof -
  have v: "temperature (choose_video pg p) = temperature p" "err (choose_video pg p) = err p"
      "data (choose_video pg p) = data p" for p
    by (simp_all add: choose_video_def Let_def)
  show "temperature (take_second pg m p) = temperature p"
    unfolding take_second_def
    by (subst fields_keep [where T = temperature], force, subst v, subst fields_keep [where T = temperature]) auto
  show "err (take_second pg m p) = err p"
    unfolding take_second_def
    by (subst fields_keep [where T = err], force, subst v, subst fields_keep [where T = err]) auto
  show "data (take_second pg m p) = data p"
    unfolding take_second_def
    by (subst fields_keep [where T = data], force, subst v, subst fields_keep [where T = data]) auto
qed

lemma format_keep [simp]:
  "temperature (formatObjectData parse m p) = temperature p" "err (formatObjectData parse m p) = err p"
  "temperature (formatMaterialData pg m p) = temperature p" "err (formatMaterialData pg m p) = err p"
  "temperature (formatBoxsInfoData pg m p) = temperature p" "err (formatBoxsInfoData pg m p) = err p"
  "err (formatTemperatureData pg m p) = err p"
  by (simp_all add: formatObjectData_def fields_def field_def formatMaterialData_def formatBoxsInfoData_def
      formatTemperatureData_def Let_def)

lemma late_keep [simp]:
  "temperature (fields late_fields m p) = temperature p" "err (fields late_fields m p) = err p"
proof -
  show "temperature (fields late_fields m p) = temperature p"
    by (rule fields_keep [where T = temperature]) (auto simp: late_fields_def)
  show "err (fields late_fields m p) = err p"
    by (rule fields_keep [where T = err]) (auto simp: late_fields_def)
qed

text \<open>The temperature comes from the message's temperatures alone.\<close>

lemma third_keep:
  "err (take_third pg parse m p) = err p"
  "temperature (take_third pg parse m p) =
     (if (hasOwn m ''bedTemp0'' \<or> hasOwn m ''nozzleTemp'' \<or> hasOwn m ''boxTemp'') \<and> record_temps (temperature p)
      then take_temperatures pg (JObj (data p)) m (temperature p) else temperature p)"
proof -
  define p1 where "p1 = fields
     [(''layer'', \<lambda>v p. p\<lparr>layer := v\<rparr>), (''TotalLayer'', \<lambda>v p. p\<lparr>TotalLayer := v\<rparr>),
      (''materialCutterState'', \<lambda>v p. p\<lparr>materialCutterState := v\<rparr>)] m p"
  have p1: "temperature p1 = temperature p" "err p1 = err p" "data p1 = data p"
    unfolding p1_def by (rule fields_keep [where T = temperature], force,
        rule fields_keep [where T = err], force, rule fields_keep [where T = data], force)
  have "temperature (take_third pg parse m p) =
      temperature (if hasOwn m ''bedTemp0'' \<or> hasOwn m ''nozzleTemp'' \<or> hasOwn m ''boxTemp''
                   then formatTemperatureData pg m p1 else p1)"
    unfolding take_third_def Let_def p1_def [symmetric] by (simp add: if_distrib [where f = temperature])
  then show "temperature (take_third pg parse m p) =
     (if (hasOwn m ''bedTemp0'' \<or> hasOwn m ''nozzleTemp'' \<or> hasOwn m ''boxTemp'') \<and> record_temps (temperature p)
      then take_temperatures pg (JObj (data p)) m (temperature p) else temperature p)"
    using p1 by (simp add: formatTemperatureData_def)
  show "err (take_third pg parse m p) = err p"
    unfolding take_third_def Let_def p1_def [symmetric] by (simp add: if_distrib [where f = err] p1)
qed

section \<open>The temperature history\<close>

text \<open>The history has no entry yet, or 600 of each kind.\<close>

definition hist_ok :: "printer_temperature \<Rightarrow> bool" where
  "hist_ok t \<longleftrightarrow> (\<exists>k \<in> {0, 600}. length (time t) = k \<and> length (temp_data (nozzle t)) = k
     \<and> length (temp_data (bed t)) = k \<and> length (temp_data (box t)) = k)"

lemma shift_in_length [simp]: "xs \<noteq> [] \<Longrightarrow> length (shift_in x xs) = length xs"
  by (cases xs) (simp_all add: shift_in_def)

lemma record_length [simp]:
  "length (temp_data t) = 600 \<Longrightarrow> length (temp_data (record_value v t)) = 600"
  using shift_in_length [of "temp_data t" "as_float v"] by (cases "temp_data t") (simp_all add: record_value_def)

definition full :: "printer_temperature \<Rightarrow> bool" where
  "full t \<longleftrightarrow> length (time t) = 600 \<and> length (temp_data (nozzle t)) = 600 \<and> length (temp_data (bed t)) = 600
     \<and> length (temp_data (box t)) = 600"

lemma start_history_full: "hist_ok t \<Longrightarrow> full (start_history pg t)"
  by (auto simp: hist_ok_def full_def start_history_def Let_def)

lemma full_updates:
  assumes "full t"
  shows "full (t\<lparr>nozzle := record_value v (nozzle t)\<rparr>)" "full (t\<lparr>bed := record_value v (bed t)\<rparr>)"
    "full (t\<lparr>box := record_value v (box t)\<rparr>)" "full (t\<lparr>time := shift_in z (time t)\<rparr>)"
    "full (t\<lparr>nozzle := (nozzle t)\<lparr>temp_max := v\<rparr>\<rparr>)" "full (t\<lparr>bed := (bed t)\<lparr>temp_max := v\<rparr>\<rparr>)"
    "full (t\<lparr>nozzle := (nozzle t)\<lparr>temp_target := v\<rparr>\<rparr>)" "full (t\<lparr>bed := (bed t)\<lparr>temp_target := v\<rparr>\<rparr>)"
  using assms shift_in_length [of "time t" z] by (cases "time t", auto simp: full_def)+

lemma field_full: "full t \<Longrightarrow> (\<And>v t. full t \<Longrightarrow> full (f v t)) \<Longrightarrow> full (field k f m t)"
  by (simp add: field_def)

lemma if_full: "full t \<Longrightarrow> full u \<Longrightarrow> full (if b then t else u)"
  by simp

lemma take_temperatures_full: "hist_ok t \<Longrightarrow> full (take_temperatures pg d r t)"
  unfolding take_temperatures_def Let_def
  by (intro field_full full_updates if_full start_history_full) assumption+

lemma full_hist_ok: "full t \<Longrightarrow> hist_ok t"
  by (simp add: full_def hist_ok_def)

lemma reconnect_keep [simp]:
  "temperature (printers (reconnectWebSocket t s) n) = temperature (printers s n)"
  "err (printers (reconnectWebSocket t s) n) = err (printers s n)"
  "data (printers (reconnectWebSocket t s) n) = data (printers s n)"
  by (simp_all add: reconnectWebSocket_def Let_def)

lemma take_state_keep [simp]: "temperature (printers (take_state n m s) k) = temperature (printers s k)"
  by (simp add: take_state_def Let_def)

lemma take_state_data [simp]: "data (printers (take_state n m s) k) = data (printers s k)"
  by (simp add: take_state_def Let_def on_err_def set_error_def)

lemma share_keep [simp]:
  "temperature (printers (share_with_identity n s) n) = temperature (printers s n)"
  "err (printers (share_with_identity n s) n) = err (printers s n)"
  by (simp_all add: share_with_identity_def Let_def copy_printer_def split: option.split)

lemma share_temperature:
  "temperature (printers (share_with_identity n s) k) \<in> {temperature (printers s k), temperature (printers s n)}"
  by (auto simp: share_with_identity_def Let_def copy_printer_def split: option.split)


text \<open>A field of a message is in the printer's data from then on.\<close>

lemma keep_data_has:
  assumes "hasOwn m k"
  shows "hasOwn (JObj (data (keep_data pg m p))) k"
proof -
  obtain ps where m: "m = JObj ps" "k \<in> set (map fst ps)"
    using assms by (auto simp: hasOwn_def map_of_eq_None_iff split: json.splits)
  let ?H = "\<lambda>p. hasOwn (JObj (data p)) k"
  define g where "g = (\<lambda>k (p::printer). p\<lparr>timeStamp := page_now pg,
     data := (if hasOwn (JObj (data p)) k \<and> page_stringify pg (jget (JObj (data p)) k) = page_stringify pg (jget m k)
              then data p else AList.update k (jget m k) (data p))\<rparr>)"
  have own: "?H (g k p)" for p by (simp add: g_def hasOwn_def update_conv')
  have stays: "?H p \<Longrightarrow> ?H (g j p)" for p j by (simp add: g_def hasOwn_def update_conv')
  have keeps: "?H p \<Longrightarrow> ?H (fold g ks p)" for p ks
    by (induction ks arbitrary: p) (simp_all add: stays)
  have "k \<in> set ks \<Longrightarrow> ?H (fold g ks p)" for p ks
    by (induction ks arbitrary: p) (auto simp: own keeps)
  moreover have "keep_data pg m p = fold g (remdups (map fst ps)) p"
    unfolding g_def keep_data_def m(1) by (simp only: json.case)
  ultimately show ?thesis using m(2) by simp
qed


text \<open>The printer a message is for: the first whose socket has the address.\<close>

definition receiver :: "string \<Rightarrow> dashboard \<Rightarrow> nat option" where
  "receiver ip s = find_ref (\<lambda>p. case socket p of None \<Rightarrow> False | Some k \<Rightarrow> dm_ip (dms s k) = ip) s"

definition reads_temperatures :: "json \<Rightarrow> bool" where
  "reads_temperatures m \<longleftrightarrow> hasOwn m ''bedTemp0'' \<or> hasOwn m ''nozzleTemp'' \<or> hasOwn m ''boxTemp''"

lemma receiver_temperature:
  assumes "receiver ip s = Some n"
  shows "temperature (printers (setDataFromDevice pg parse ip m s) n) =
     (if reads_temperatures m \<and> record_temps (temperature (printers s n))
      then take_temperatures pg (JObj (data (keep_data pg m ((printers s n)\<lparr>online := True\<rparr>)))) m (temperature (printers s n))
      else temperature (printers s n))"
  using assms by (simp add: setDataFromDevice_def receiver_def third_keep reads_temperatures_def)

lemma setData_temperature:
  "temperature (printers (setDataFromDevice pg parse ip m s) k)
     \<in> insert (temperature (printers s k))
         {temperature (printers (setDataFromDevice pg parse ip m s) n) | n. receiver ip s = Some n}"
proof (cases "receiver ip s")
  case (Some n)
  let ?s = "upd n (take_third pg parse m) (take_state n m (upd n (take_second pg m) (upd n (take_first pg (printerPreset s) m) s)))"
  have "setDataFromDevice pg parse ip m s = share_with_identity n ?s"
    using Some by (simp add: setDataFromDevice_def receiver_def)
  moreover have "k \<noteq> n \<Longrightarrow> temperature (printers ?s k) = temperature (printers s k)" by simp
  ultimately show ?thesis
    using share_temperature [of n ?s k] Some by (cases "k = n") (auto simp del: upd_fields)
qed (simp add: setDataFromDevice_def receiver_def)

lemma take_temperatures_nozzle:
  assumes "hasOwn d ''nozzleTemp''" "hasOwn r ''nozzleTemp''"
  shows "temp_data (nozzle (take_temperatures pg d r t)) =
    shift_in (as_float (jget r ''nozzleTemp'')) (temp_data (nozzle (start_history pg t)))"
  using assms by (simp add: take_temperatures_def Let_def field_def record_value_def)

text \<open>C22: The temperature history of every printer is empty or holds exactly 600 entries of
  each kind, whatever a device sends; while recording is on, a nozzle temperature takes the
  place at the end of the history of the printer the message is for, and the oldest entry
  goes.\<close>

theorem temperature_history_is_bounded:
  assumes "\<forall>n. hist_ok (temperature (printers s n))"
  shows "hist_ok (temperature (printers (setDataFromDevice pg parse ip m s) k))
    \<and> (receiver ip s = Some k \<longrightarrow> hasOwn m ''nozzleTemp'' \<longrightarrow> record_temps (temperature (printers s k))
        \<longrightarrow> temp_data (nozzle (temperature (printers (setDataFromDevice pg parse ip m s) k))) =
              shift_in (as_float (jget m ''nozzleTemp'')) (temp_data (nozzle (start_history pg (temperature (printers s k)))))
            \<and> length (temp_data (nozzle (temperature (printers (setDataFromDevice pg parse ip m s) k)))) = 600)"
proof (intro conjI impI)
  have r: "hist_ok (temperature (printers (setDataFromDevice pg parse ip m s) n))
      \<and> (reads_temperatures m \<longrightarrow> record_temps (temperature (printers s n))
        \<longrightarrow> full (temperature (printers (setDataFromDevice pg parse ip m s) n)))"
    if "receiver ip s = Some n" for n
    using assms take_temperatures_full full_hist_ok by (simp add: receiver_temperature [OF that])
  then show "hist_ok (temperature (printers (setDataFromDevice pg parse ip m s) k))"
    using setData_temperature [of pg parse ip m s k] assms by auto
  assume k: "receiver ip s = Some k" "hasOwn m ''nozzleTemp''" "record_temps (temperature (printers s k))"
  then have "reads_temperatures m" by (simp add: reads_temperatures_def)
  then show "length (temp_data (nozzle (temperature (printers (setDataFromDevice pg parse ip m s) k)))) = 600"
    using r k by (simp add: full_def)
  show "temp_data (nozzle (temperature (printers (setDataFromDevice pg parse ip m s) k))) =
      shift_in (as_float (jget m ''nozzleTemp'')) (temp_data (nozzle (start_history pg (temperature (printers s k)))))"
    using k \<open>reads_temperatures m\<close>
    by (simp add: receiver_temperature take_temperatures_nozzle keep_data_has)
qed

definition demo_recording :: dashboard where
  "demo_recording = upd 0 (\<lambda>p. p\<lparr>temperature := (temperature p)\<lparr>record_temps := True\<rparr>\<rparr>) demo_board"

definition demo_page :: page where
  "demo_page = \<lparr>page_now = 7, page_wu = (\<lambda>_ _. ''12:00''), page_params = [], page_stringify = (\<lambda>_. [])\<rparr>"

lemma demo_recording_fields [simp]:
  "hist_ok (temperature (printers demo_recording n))" "record_temps (temperature (printers demo_recording 0))"
  "time (temperature (printers demo_recording 0)) = []"
  "temp_data (nozzle (temperature (printers demo_recording 0))) = []"
  "receiver (dm_ip demo_dm) demo_recording = Some 0"
  by (simp_all add: demo_recording_def demo_printer_def initial_printer_def hist_ok_def receiver_def find_ref_def
      demo_device_def zero_series_def)

theorem temperature_history_is_bounded_witness:
  "(\<forall>n. hist_ok (temperature (printers demo_recording n)))
   \<and> temp_data (nozzle (temperature (printers (setDataFromDevice demo_page id (dm_ip demo_dm)
         (JObj [(''nozzleTemp'', JNum 210)]) demo_recording) 0))) = replicate 599 (JNum 0) @ [JNum 210]"
  using temperature_history_is_bounded [of demo_recording demo_page id "dm_ip demo_dm" "JObj [(''nozzleTemp'', JNum 210)]" 0]
  by (simp add: hasOwn_def as_float_def json_number_def start_history_def shift_in_def Let_def)

section \<open>A power loss\<close>

text \<open>A message that reports a power loss (and no lack of material) leaves the printer it
  is for with the error 115, whatever error it names itself; but a message that also holds
  the printer's state clears the error at once, whether or not the state has changed, and
  opens the socket again.\<close>

theorem power_loss_error:
  assumes "receiver ip s = Some n" "hasOwn m ''repoPlrStatus''" "jget m ''repoPlrStatus'' = JNum 1"
    and "hasOwn m ''materialStatus'' \<longrightarrow> \<not> eq_num (jget m ''materialStatus'') 1"
  shows "err_key (err (printers (setDataFromDevice pg parse ip m s) n)) = JNum (if hasOwn m ''state'' then 0 else 115)"
proof -
  let ?p = "take_first pg (printerPreset s) m (printers s n)"
  have e: "err_key (err ?p) = JNum 115"
    using assms(2-4)
    by (auto simp: take_errors_def take_power_loss_def take_material_status_def set_errLevel_def
        field_def Let_def on_err_def set_error_def)
  then have "err_key (err (printers (take_state n m (upd n (take_second pg m) (upd n (take_first pg (printerPreset s) m) s))) n))
      = JNum (if hasOwn m ''state'' then 0 else 115)"
    by (simp add: take_state_def Let_def)
  then show ?thesis
    using assms(1) by (simp add: setDataFromDevice_def receiver_def third_keep)
qed


theorem power_loss_error_witness:
  "receiver (dm_ip demo_dm) demo_recording = Some 0
   \<and> err_key (err (printers (setDataFromDevice demo_page id (dm_ip demo_dm)
        (JObj [(''repoPlrStatus'', JNum 1), (''err'', JNull)]) demo_recording) 0)) = JNum 115
   \<and> err_key (err (printers (setDataFromDevice demo_page id (dm_ip demo_dm)
        (JObj [(''state'', JNum 1), (''repoPlrStatus'', JNum 1)]) demo_recording) 0)) = JNum 0"
  using power_loss_error [of "dm_ip demo_dm" demo_recording 0 "JObj [(''repoPlrStatus'', JNum 1), (''err'', JNull)]" demo_page id]
    power_loss_error [of "dm_ip demo_dm" demo_recording 0 "JObj [(''state'', JNum 1), (''repoPlrStatus'', JNum 1)]" demo_page id]
  by (simp add: hasOwn_def)

section \<open>The hash of the boxes\<close>

text \<open>One step of the hash on 32-bit words.\<close>

definition hash_step :: "char \<Rightarrow> 32 word \<Rightarrow> 32 word" where
  "hash_step c r = r * 33 XOR of_nat (of_char c)"

lemma js_xor_word: "(of_int (js_xor a b) :: 32 word) = of_int a XOR of_int b"
  by (simp add: js_xor_def)

lemma hash_fold:
  "(of_int (fold (\<lambda>c r. js_xor (r * 33) (int (of_char c))) t r) :: 32 word) = fold hash_step t (of_int r)"
proof (induction t arbitrary: r)
  case (Cons c t)
  have "fold hash_step (c # t) (of_int r) = fold hash_step t (of_int (js_xor (r * 33) (int (of_char c))))"
    by (simp add: hash_step_def js_xor_word)
  then show ?case using Cons.IH by simp
qed simp

text \<open>\<open>stringHash\<close>, which mixes floating-point products with signed 32-bit \<open>^\<close> and an
  unsigned shift, is the well-known hash \<open>h * 33 XOR c\<close> on 32-bit words, read as an unsigned
  number below \<open>2 ^ 32\<close>; and no intermediate product leaves the integers a double holds
  exactly.\<close>

theorem stringHash_is_word_hash:
  "stringHash t = unat (fold hash_step t 5381) \<and> stringHash t < 2 ^ 32
   \<and> \<bar>fold (\<lambda>c r. js_xor (r * 33) (int (of_char c))) t 5381 * 33\<bar> < 2 ^ 53"
proof (intro conjI)
  show h: "stringHash t = unat (fold hash_step t 5381)"
    using hash_fold [of t 5381] by (simp add: stringHash_def)
  show "stringHash t < 2 ^ 32"
    using unsigned_less [of "fold hash_step t 5381", where 'a = nat] unfolding h by simp
  have "\<bar>js_xor a b\<bar> \<le> 2 ^ 31" for a b
    using sint_ge [of "(of_int a :: 32 word) XOR of_int b"] sint_lt [of "(of_int a :: 32 word) XOR of_int b"]
    by (simp add: js_xor_def)
  then have "\<bar>fold (\<lambda>c r. js_xor (r * 33) (int (of_char c))) t 5381\<bar> \<le> 2 ^ 31"
    by (cases t rule: rev_cases) simp_all
  then show "\<bar>fold (\<lambda>c r. js_xor (r * 33) (int (of_char c))) t 5381 * 33\<bar> < 2 ^ 53" by simp
qed


section \<open>Boxes\<close>

text \<open>The boxes are read once: a message with the same boxes again, which is told from
  the hash alone, changes the time of the last boxes and nothing else, and so does any
  message whose boxes have the same hash.\<close>

theorem same_boxes_are_read_once:
  assumes "hasOwn r ''boxsInfo''" "hasOwn (jget r ''boxsInfo'') ''materialBoxs''"
    and "hasOwn r' ''boxsInfo''" "hasOwn (jget r' ''boxsInfo'') ''materialBoxs''"
    and "stringHash (page_stringify pg' (jget r' ''boxsInfo'')) = stringHash (page_stringify pg (jget r ''boxsInfo''))"
  shows "formatBoxsInfoData pg' r' (formatBoxsInfoData pg r p) =
    (formatBoxsInfoData pg r p)\<lparr>boxInfoTimeStamp := page_now pg'\<rparr>"
proof -
  have "hashBoxsInfo (boxsInfo (formatBoxsInfoData pg r p)) = Some (stringHash (page_stringify pg (jget r ''boxsInfo'')))"
    using assms(1,2) by (simp add: formatBoxsInfoData_def Let_def field_def)
  then show ?thesis
    using assms(3-5) by (simp add: formatBoxsInfoData_def [of pg' r'] Let_def)
qed

definition demo_boxes :: json where
  "demo_boxes = JObj [(''boxsInfo'', JObj [(''materialBoxs'', JArr [JObj [(''id'', JNum 1), (''type'', JNum 0),
     (''materials'', JArr [JObj [(''id'', JNum 0), (''name'', JStr []), (''color'', JStr ''#0ff8000'')]])]])])]"

theorem same_boxes_are_read_once_witness:
  "map (\<lambda>c. jget c ''color'') (boxColorInfo (boxsInfo (formatBoxsInfoData demo_page demo_boxes (demo_printer ''a'')))) = [JStr ''#ff8000'']
   \<and> formatBoxsInfoData (demo_page\<lparr>page_now := 9\<rparr>) demo_boxes (formatBoxsInfoData demo_page demo_boxes (demo_printer ''a'')) =
     (formatBoxsInfoData demo_page demo_boxes (demo_printer ''a''))\<lparr>boxInfoTimeStamp := 9\<rparr>"
proof
  have "hasOwn demo_boxes ''boxsInfo''" "hasOwn (jget demo_boxes ''boxsInfo'') ''materialBoxs''"
    by (simp_all add: demo_boxes_def hasOwn_def)
  then show "formatBoxsInfoData (demo_page\<lparr>page_now := 9\<rparr>) demo_boxes (formatBoxsInfoData demo_page demo_boxes (demo_printer ''a'')) =
     (formatBoxsInfoData demo_page demo_boxes (demo_printer ''a''))\<lparr>boxInfoTimeStamp := 9\<rparr>"
    using same_boxes_are_read_once [of demo_boxes demo_boxes "demo_page\<lparr>page_now := 9\<rparr>" demo_page]
    by (simp add: demo_page_def)
  have "hashBoxsInfo (boxsInfo (demo_printer ''a'')) = None"
    by (simp add: demo_printer_def initial_printer_def)
  then show "map (\<lambda>c. jget c ''color'') (boxColorInfo (boxsInfo (formatBoxsInfoData demo_page demo_boxes (demo_printer ''a'')))) = [JStr ''#ff8000'']"
    by (simp add: formatBoxsInfoData_def demo_boxes_def hasOwn_def field_def Let_def format_box_def format_material_def
        read_color_def the_text_def with_prop_def)
qed

end
