(* ===== verification/Klipper.thy ===== *)
theory Klipper
  imports PrinterData PrinterListing
begin

text \<open>
  Printers that run Klipper (class \<open>Ua\<close> and \<open>getKlipperPrinterState\<close> of \<open>M4\<close>,
  \<open>CeX73yR3.js\<close>): finding and adding the machines behind an address, asking for their
  state, and what an answer does to a printer.

  The answers of the HTTP requests are arguments: \<open>None\<close> is a request that fails.  Numbers
  are exact, and the clock stands still while code runs without waiting.
\<close>

section \<open>Values\<close>

text \<open>\<open>v ?? d\<close>, and a value in a template literal; objects and arrays do not occur there.\<close>

definition coalesce :: "json \<Rightarrow> json \<Rightarrow> json" where
  "coalesce v d = (if nullish v then d else v)"

fun js_text :: "json \<Rightarrow> string" where
  "js_text (JStr t) = t"
| "js_text (JNum q) = show_number q"
| "js_text (JBool b) = (if b then ''true'' else ''false'')"
| "js_text JNull = ''null''"
| "js_text JUndefined = ''undefined''"
| "js_text _ = []"

definition positive :: "json \<Rightarrow> bool" where
  "positive v = (case to_number v of None \<Rightarrow> False | Some q \<Rightarrow> 0 < q)"

definition host_of :: "string \<Rightarrow> string" where
  "host_of a = hd (js_split ''('' a)"

section \<open>The state of a printer\<close>

definition set_data :: "string \<Rightarrow> json \<Rightarrow> printer \<Rightarrow> printer" where
  "set_data k v p = p\<lparr>data := AList.update k v (data p)\<rparr>"

definition klipper_temperatures :: "json \<Rightarrow> printer \<Rightarrow> printer" where
  "klipper_temperatures r p =
     (let b = jget r ''heater_bed''; e = jget r ''extruder'';
          p1 = (if truthy b
                then set_data ''bedTemp0'' (coalesce (jget b ''temperature'') (JNum 0))
                       (set_data ''targetBedTemp0'' (coalesce (jget b ''target'') (JNum 0)) p) else p)
      in if truthy e
         then set_data ''nozzleTemp'' (coalesce (jget e ''temperature'') (JNum 0))
                (set_data ''targetNozzleTemp'' (coalesce (jget e ''target'') (JNum 0)) p1) else p1)"

text \<open>A machine whose bed and nozzle both read zero is taken for switched off.\<close>

definition klipper_online :: "printer \<Rightarrow> printer" where
  "klipper_online p = p\<lparr>online := \<not> (jget (JObj (data p)) ''bedTemp0'' = JNum 0 \<and> jget (JObj (data p)) ''nozzleTemp'' = JNum 0)\<rparr>"

definition klipper_names :: "json \<Rightarrow> printer \<Rightarrow> printer" where
  "klipper_names r p =
     (let p1 = (if truthy (jget r ''print_stats'')
                then p\<lparr>printFileName := coalesce (jget (jget r ''print_stats'') ''filename'') (JStr [])\<rparr> else p)
      in if truthy (KlipperUrl p1) then p1
         else p1\<lparr>KlipperUrl := JStr (''http://'' @ host_of (address p1) @ '':'' @ js_text (fluiddPort p1))\<rparr>)"

definition klipper_progress :: "json \<Rightarrow> printer \<Rightarrow> printer" where
  "klipper_progress r p =
     (let p1 = (case jget (jget r ''gcode_move'') ''speed_factor'' of
                  JNum q \<Rightarrow> p\<lparr>ctrol := (ctrol p)\<lparr>curFeedratePct := JNum (q * 100)\<rparr>\<rparr> | _ \<Rightarrow> p)
      in case jget (jget r ''display_status'') ''progress'' of
           JNum q \<Rightarrow> p1\<lparr>printProgress := JNum (of_int \<lfloor>q * 100\<rfloor>)\<rparr> | _ \<Rightarrow> p1)"

definition klipper_times :: "json \<Rightarrow> printer \<Rightarrow> printer" where
  "klipper_times r p =
     (case jget (jget r ''print_stats'') ''print_duration'' of
        JNum q \<Rightarrow>
          let s = of_int (js_round q);
              p1 = p\<lparr>printJobTime := JStr (Tl (Some s))\<rparr>
          in (case to_number (printProgress p1) of
                Some g \<Rightarrow>
                  if 0 < g then p1\<lparr>printLeftTime := JStr (Tl (Some (of_int (js_round (s / (g / 100) - s)))))\<rparr> else p1
              | None \<Rightarrow> p1)
      | _ \<Rightarrow> p)"

definition klipper_state :: "json \<Rightarrow> printer \<Rightarrow> printer" where
  "klipper_state r p0 =
     (let p = p0\<lparr>deviceState := JNum 10000\<rparr>;
          v = jget (jget r ''print_stats'') ''state'';
          put = (\<lambda>a b. p\<lparr>state := JNum a, deviceState := JNum b\<rparr>)
      in if \<not> truthy (jget r ''print_stats'') \<or> \<not> truthy v then p
         else if v = JStr ''standby'' then put 0 0
         else if v = JStr ''printing'' then put 1 1
         else if v = JStr ''complete'' then put 2 0
         else if v = JStr ''error'' then put 3 0
         else if v = JStr ''cancelled'' then put 4 0
         else if v = JStr ''paused'' then put 5 1
         else p\<lparr>state := JNum 0\<rparr>)"

definition setDataFromKlipperState :: "json \<Rightarrow> printer \<Rightarrow> bool \<times> printer" where
  "setDataFromKlipperState r p0 =
     (if \<not> truthy r then (False, p0)
      else
        let p = (if name p0 = None \<or> name p0 = Some [] then p0\<lparr>name := Some (model p0)\<rparr> else p0)
        in (True, klipper_state r (klipper_times r (klipper_progress r
             (klipper_online (klipper_names r (klipper_temperatures r p)))))))"

section \<open>Asking for the state\<close>

definition klipper_query :: string where
  "klipper_query = ''toolhead=position&extruder=target%2Ctemperature&heater_bed=target%2Ctemperature&fan=speed''
     @ ''&print_stats=filename%2Cstate%2Cprint_duration&display_status=progress&gcode_move=speed_factor''"

definition klipper_state_url :: "string \<Rightarrow> json \<Rightarrow> string" where
  "klipper_state_url a port = ''http://'' @ host_of a @ '':'' @ js_text port @ ''/printer/objects/query?'' @ klipper_query"

text \<open>The method asks whether the promise of \<open>onGetKlipperInterfaceState\<close> is true, which
  every promise is: it never waits, so the first turn of its loop is the last, and the
  printer counts as having answered.\<close>

definition getKlipperPrinterState :: "int \<Rightarrow> nat \<Rightarrow> string set \<times> dashboard \<Rightarrow> string set \<times> dashboard" where
  "getKlipperPrinterState now n b =
     (let (busy, s) = b; p = printers s n; r = address p in
      if r \<in> busy \<or> now - timeStamp p \<le> 3000 then (busy, s)
      else (insert r busy - {r},
            upd n (\<lambda>p. p\<lparr>reconnectCount := 0, timeStamp := now\<rparr>)
              (emit_call (HttpGet (klipper_state_url (address p) (moonrakerPort p))) s)))"

text \<open>The answer comes later: its status and data.\<close>

definition klipper_answer :: "nat \<Rightarrow> (int \<times> json) option \<Rightarrow> dashboard \<Rightarrow> dashboard" where
  "klipper_answer n a s =
     (case a of
        None \<Rightarrow> s
      | Some (status, d) \<Rightarrow>
          if status = 200 then upd n (\<lambda>p. snd (setDataFromKlipperState (jget (jget d ''result'') ''status'') p)) s else s)"

section \<open>Finding machines\<close>

datatype printer_status = SUCCESS | ALREADY_EXISTS | FAILED

record machine =
  m_ip :: json
  m_deviceName :: string
  m_printerName :: json
  m_moonrakerPort :: json
  m_printerId :: json
  m_fluiddPort :: json
  m_mainsailPort :: json
  m_status :: json
  m_printerImagePath :: json
  m_address :: string
  m_online :: bool
  m_mac :: string

definition machine_of :: "json \<Rightarrow> machine" where
  "machine_of v = \<lparr>
     m_ip = js_or (jget v ''ip'') (JStr []), m_deviceName = ''Fast-'' @ js_text (jget v ''machine_name''),
     m_printerName = js_or (jget v ''machine_type'') (JStr []),
     m_moonrakerPort = js_or (jget v ''moonraker_port'') (JNum 0),
     m_printerId = js_or (jget v ''printer_id'') (JNum 0),
     m_fluiddPort = js_or (jget v ''fluidd_port'') (JNum 0),
     m_mainsailPort = js_or (jget v ''mainsail_port'') (JNum 0),
     m_status = js_or (jget v ''status'') (JNum 0),
     m_printerImagePath = js_or (jget v ''printer_image_path'') (JStr []),
     m_address = js_text (js_or (jget v ''ip'') (JStr [])) @ ''('' @ js_text (js_or (jget v ''printer_id'') (JNum 0)) @ '')'',
     m_online = False, m_mac = [] \<rparr>"

definition onAddKlipperInterfaceList :: "json option \<Rightarrow> dashboard \<Rightarrow> printer_status \<times> machine list" where
  "onAddKlipperInterfaceList a s =
     (case a of
        None \<Rightarrow> (FAILED, [])
      | Some i \<Rightarrow>
          if \<not> truthy i \<or> \<not> truthy (jget i ''result'') then (FAILED, [])
          else (case jget (jget i ''result'') ''multi_printer_info'' of
                  JArr vs \<Rightarrow>
                    if \<exists>v \<in> set vs. nullish v then (FAILED, [])
                    else
                      let o' = filter (\<lambda>c. \<not> isPrinterExist (m_address c) s) (map machine_of vs)
                      in if o' = [] then (ALREADY_EXISTS, []) else (SUCCESS, o')
                | _ \<Rightarrow> (FAILED, [])))"

definition getKlipperInterfaceSystemInfo :: "json option \<Rightarrow> machine \<Rightarrow> machine option" where
  "getKlipperInterfaceSystemInfo a m =
     (case a of
        None \<Rightarrow> None
      | Some d \<Rightarrow>
          (case jget (jget (jget (jget (jget d ''result'') ''system_info'') ''network'') ''wlan0'') ''mac_address'' of
             JStr c \<Rightarrow> Some (m\<lparr>m_mac := c @ ''_'' @ js_text (js_or (m_printerId m) (JStr []))\<rparr>)
           | _ \<Rightarrow> None))"

text \<open>\<open>onGetKlipperInterfaceState(m, true)\<close>: a machine is online when something is warm.\<close>

definition machine_heat :: "(int \<times> json) option \<Rightarrow> machine \<Rightarrow> machine option" where
  "machine_heat a m =
     (case a of
        None \<Rightarrow> None
      | Some (status, d) \<Rightarrow>
          if status \<noteq> 200 then None
          else
            let st = jget (jget d ''result'') ''status''
            in Some (m\<lparr>m_online := positive (coalesce (jget (jget st ''heater_bed'') ''temperature'') (JNum 0))
                         \<or> positive (coalesce (jget (jget st ''extruder'') ''temperature'') (JNum 0))\<rparr>))"

text \<open>The first machine that does not answer ends the search.\<close>

fun check_machines ::
    "(machine \<Rightarrow> json option) \<Rightarrow> (machine \<Rightarrow> (int \<times> json) option) \<Rightarrow> machine list \<Rightarrow> machine list option" where
  "check_machines info heat [] = Some []"
| "check_machines info heat (m # ms) =
     (case getKlipperInterfaceSystemInfo (info m) m of
        None \<Rightarrow> None
      | Some m1 \<Rightarrow>
          (case machine_heat (heat m1) m1 of
             None \<Rightarrow> None
           | Some m2 \<Rightarrow> map_option (Cons m2) (check_machines info heat ms)))"

section \<open>Adding machines\<close>

definition klipper_device :: "machine \<Rightarrow> new_device" where
  "klipper_device n = \<lparr>
     d_model = m_deviceName n, d_mac = m_mac n, d_name = None, d_address = m_address n, d_type = 4,
     d_online = m_online n, d_socket = None, d_deviceType = Some 0, d_oldPrinter = False,
     d_props = [(''moonrakerPort'', m_moonrakerPort n), (''fluiddPort'', m_fluiddPort n),
       (''mainsailPort'', m_mainsailPort n),
       (''KlipperUrl'', JStr (''http://'' @ js_text (m_ip n) @ '':'' @ js_text (m_fluiddPort n)))] \<rparr>"

definition add_device_klipper :: "string \<Rightarrow> machine \<Rightarrow> call" where
  "add_device_klipper r n = PostMessage (JObj
     [(''command'', JStr ''add_device_klipper''), (''address'', JStr (m_address n)), (''mac'', JStr (m_mac n)),
      (''model'', JStr (m_deviceName n)), (''type'', JNum 4), (''group'', JStr r), (''oldPrinter'', JBool False),
      (''moonrakerPort'', m_moonrakerPort n), (''fluiddPort'', m_fluiddPort n), (''mainsailPort'', m_mainsailPort n)])"

definition onAddKlipperInterface :: "machine list \<Rightarrow> string \<Rightarrow> dashboard \<Rightarrow> dashboard" where
  "onAddKlipperInterface ms r s =
     fold (\<lambda>n s. if m_online n then emit_call (add_device_klipper r n) (addPrinter (klipper_device n) r False s) else s) ms s"

text \<open>The search reads the listed printers in the state \<open>s0\<close>; when the last answer is there
  the state is \<open>s\<close>.\<close>

definition onAddKlipper ::
    "json option \<Rightarrow> (machine \<Rightarrow> json option) \<Rightarrow> (machine \<Rightarrow> (int \<times> json) option) \<Rightarrow> string
      \<Rightarrow> dashboard \<Rightarrow> dashboard \<Rightarrow> printer_status \<times> dashboard" where
  "onAddKlipper a info heat r s0 s =
     (case onAddKlipperInterfaceList a s0 of
        (SUCCESS, ms) \<Rightarrow>
          (case check_machines info heat ms of
             None \<Rightarrow> (FAILED, s)
           | Some ms' \<Rightarrow> (SUCCESS, onAddKlipperInterface ms' r s))
      | (st, _) \<Rightarrow> (st, s))"

end
