(* ===== verification/KlipperProps.thy ===== *)
theory KlipperProps
  imports Klipper PrinterView
begin

text \<open>
  What holds of Klipper printers: the state shown follows the state reported, the times
  shown can be read back, a search adds all machines it found warm or none, and a printer
  that no longer answers stays online for ever.
\<close>

section \<open>Frames\<close>

lemma temperatures_keep [simp]:
  "ctrol (klipper_temperatures r p) = ctrol p" "address (klipper_temperatures r p) = address p"
  by (simp_all add: klipper_temperatures_def Let_def set_data_def)

lemma times_state [simp]: "state (klipper_times r p) = state p" "printProgress (klipper_times r p) = printProgress p"
  by (auto simp: klipper_times_def Let_def split: json.split option.split)

lemma klipper_state_keep [simp]:
  "printJobTime (klipper_state r p) = printJobTime p" "printLeftTime (klipper_state r p) = printLeftTime p"
  "printProgress (klipper_state r p) = printProgress p"
  by (simp_all add: klipper_state_def Let_def)

section \<open>The state\<close>

text \<open>The states Klipper reports, with the numbers the dashboard uses: its own, and the
  device's, which is 1 while a print goes on.\<close>

definition klipper_codes :: "(string \<times> rat \<times> rat) list" where
  "klipper_codes = [(''standby'', 0, 0), (''printing'', 1, 1), (''complete'', 2, 0), (''error'', 3, 0),
     (''cancelled'', 4, 0), (''paused'', 5, 1)]"

lemma klipper_state_codes:
  assumes "jget (jget r ''print_stats'') ''state'' = JStr t" "map_of klipper_codes t = Some (a, b)"
  shows "state (klipper_state r p) = JNum a \<and> deviceState (klipper_state r p) = JNum b"
proof -
  have "truthy (jget r ''print_stats'')" using assms(1) by (cases "jget r ''print_stats''") auto
  moreover have "t \<noteq> []" using assms(2) by (auto simp: klipper_codes_def)
  ultimately show ?thesis using assms by (auto simp: klipper_state_def klipper_codes_def Let_def split: if_splits)
qed

lemma klipper_state_unknown:
  assumes "\<forall>t. jget (jget r ''print_stats'') ''state'' = JStr t \<longrightarrow> map_of klipper_codes t = None"
  shows "deviceState (klipper_state r p) = JNum 10000"
  using assms by (auto simp: klipper_state_def klipper_codes_def Let_def)

text \<open>A printer shows the state its last answer names, and counts as busy exactly while
  it prints or pauses; an answer that names no state, or an unknown one, leaves the state
  of the device unknown, whatever it was before.\<close>

theorem klipper_state_is_shown:
  assumes "truthy r"
  shows "(case jget (jget r ''print_stats'') ''state'' of
            JStr t \<Rightarrow> (case map_of klipper_codes t of
                Some (a, b) \<Rightarrow> state (snd (setDataFromKlipperState r p)) = JNum a
                             \<and> deviceState (snd (setDataFromKlipperState r p)) = JNum b
              | None \<Rightarrow> deviceState (snd (setDataFromKlipperState r p)) = JNum 10000)
          | _ \<Rightarrow> deviceState (snd (setDataFromKlipperState r p)) = JNum 10000)"
  using assms klipper_state_codes klipper_state_unknown
  by (simp add: setDataFromKlipperState_def Let_def split: json.split option.split)

section \<open>Times\<close>

text \<open>While a print of which some per cent are done goes on, the printing time and the
  time left on the display read back as the reported duration, rounded to seconds, and as
  what is left of it at the same pace; the latter is never negative.\<close>

theorem klipper_times_read_back:
  assumes "jget (jget r ''print_stats'') ''print_duration'' = JNum q" "0 \<le> q"
    and "jget (jget r ''display_status'') ''progress'' = JNum g" "1 / 100 \<le> g" "g \<le> 1"
  shows "\<exists>u v t. printJobTime (snd (setDataFromKlipperState r p)) = JStr u \<and> read_hms u = Some (nat (js_round q))
    \<and> printLeftTime (snd (setDataFromKlipperState r p)) = JStr v \<and> read_hms v = Some t
    \<and> int t = js_round (of_int (js_round q) * (100 / of_int \<lfloor>g * 100\<rfloor> - 1))"
proof -
  let ?s = "of_int (js_round q) :: rat" and ?g = "\<lfloor>g * 100\<rfloor>"
  let ?l = "js_round (?s / (of_int ?g / 100) - ?s)"
  have r: "truthy r" using assms(1) by (cases r) auto
  have "1 \<le> g * 100" using assms(4) by simp
  then have g1: "1 \<le> ?g" by (simp add: le_floor_iff)
  have g2: "?g \<le> 100" using assms(5) by (simp add: floor_le_iff)
  have s0: "0 \<le> js_round q" using assms(2) by (simp add: js_round_def le_floor_iff)
  have eq: "?s / (of_int ?g / 100) - ?s = ?s * (100 / of_int ?g - 1)" by (simp add: field_simps)
  have "0 \<le> ?s * (100 / of_int ?g - 1)" using g1 g2 s0 by (simp add: le_divide_eq)
  then have l0: "0 \<le> ?l" unfolding eq by (simp add: js_round_def le_floor_iff)
  have job: "read_hms (Tl (Some ?s)) = Some (nat (js_round q))"
    using Tl_reads_back [of "nat (js_round q)"] s0 by simp
  have left: "read_hms (Tl (Some (of_int ?l))) = Some (nat ?l)"
    using Tl_reads_back [of "nat ?l"] l0 by simp
  have "printJobTime (snd (setDataFromKlipperState r p)) = JStr (Tl (Some ?s))
      \<and> printLeftTime (snd (setDataFromKlipperState r p)) = JStr (Tl (Some (of_int ?l)))"
    using assms(1,3) r g1 by (simp add: setDataFromKlipperState_def Let_def klipper_times_def klipper_progress_def split: json.split)
  then show ?thesis using job left l0 eq by force
qed


section \<open>Polling\<close>

text \<open>The heartbeat polls the printers at some times.\<close>

definition klipper_polls :: "(int \<times> nat) list \<Rightarrow> string set \<times> dashboard \<Rightarrow> string set \<times> dashboard" where
  "klipper_polls ts b = fold (\<lambda>(now, n). getKlipperPrinterState now n) ts b"

lemma klipper_poll_keeps:
  assumes "getKlipperPrinterState now n (busy, s) = (busy', s')" "busy = {}"
  shows "busy' = {} \<and> online (printers s' k) = online (printers s k)
    \<and> state (printers s' k) = state (printers s k)
    \<and> (reconnectCount (printers s k) = 0 \<longrightarrow> reconnectCount (printers s' k) = 0)"
  using assms by (auto simp: getKlipperPrinterState_def Let_def split: if_splits)

text \<open>However often the heartbeat polls and however long a Klipper printer has been silent,
  the printer is never taken for offline, keeps the state it last showed, and no failure is
  ever counted: the branch of the method that counts them is never reached.\<close>

theorem silent_klipper_printer_stays_online:
  "\<exists>s'. klipper_polls ts ({}, s) = ({}, s')
    \<and> (\<forall>k. online (printers s' k) = online (printers s k) \<and> state (printers s' k) = state (printers s k)
          \<and> (reconnectCount (printers s k) = 0 \<longrightarrow> reconnectCount (printers s' k) = 0))"
proof (induction ts arbitrary: s)
  case Nil
  then show ?case by (simp add: klipper_polls_def)
next
  case (Cons t ts)
  obtain now n where t: "t = (now, n)" by force
  obtain b s1 where s1: "getKlipperPrinterState now n ({}, s) = (b, s1)" by force
  have k: "b = {} \<and> online (printers s1 k) = online (printers s k) \<and> state (printers s1 k) = state (printers s k)
      \<and> (reconnectCount (printers s k) = 0 \<longrightarrow> reconnectCount (printers s1 k) = 0)" for k
    using klipper_poll_keeps [OF s1 refl] .
  obtain s2 where s2: "klipper_polls ts ({}, s1) = ({}, s2)"
      "\<forall>k. online (printers s2 k) = online (printers s1 k) \<and> state (printers s2 k) = state (printers s1 k)
          \<and> (reconnectCount (printers s1 k) = 0 \<longrightarrow> reconnectCount (printers s2 k) = 0)"
    using Cons.IH [of s1] by auto
  have "klipper_polls (t # ts) ({}, s) = ({}, s2)"
    using s2(1) k [of 0] by (simp add: klipper_polls_def t s1)
  then show ?case using s2(2) k by auto
qed

section \<open>Adding machines\<close>

lemma listing_add_device [simp]:
  "all_refs (emit_call c s) = all_refs s" "isGroupExist r (emit_call c s) = isGroupExist r s"
  by (simp_all add: isGroupExist_def)

lemma nextPrinter_addPrinter: "nextPrinter (addPrinter t r back s) = Suc (nextPrinter s)"
  by (simp add: addPrinter_def Let_def getMachinePlatformMotionEnable_def link_identity_def split: option.split)

lemma add_machine:
  fixes s r m
  defines "s1 \<equiv> emit_call (add_device_klipper r m) (addPrinter (klipper_device m) r False s)"
  shows "nextPrinter s1 = Suc (nextPrinter s)" "isGroupExist r s1 = isGroupExist r s"
    "address (printers s1 k) = (if k = nextPrinter s then m_address m else address (printers s k))"
    "isGroupExist r s \<Longrightarrow> set (all_refs s1) = insert (nextPrinter s) (set (all_refs s))"
  by (simp_all add: s1_def nextPrinter_addPrinter address_addPrinter refs_addPrinter klipper_device_def)

text \<open>The warm machines get the next numbers, in their order.\<close>

lemma added_machines:
  assumes "isGroupExist r s"
  shows "set (all_refs (onAddKlipperInterface ms r s)) =
      set (all_refs s) \<union> {nextPrinter s ..< nextPrinter s + length (filter m_online ms)}
    \<and> (\<forall>n < nextPrinter s. address (printers (onAddKlipperInterface ms r s) n) = address (printers s n))
    \<and> (\<forall>i < length (filter m_online ms).
        address (printers (onAddKlipperInterface ms r s) (nextPrinter s + i)) = m_address (filter m_online ms ! i))"
  using assms
proof (induction ms arbitrary: s)
  case Nil
  then show ?case by (simp add: onAddKlipperInterface_def)
next
  case (Cons m ms)
  show ?case
  proof (cases "m_online m")
    case False
    then show ?thesis using Cons by (simp add: onAddKlipperInterface_def)
  next
    case True
    define s1 where "s1 = emit_call (add_device_klipper r m) (addPrinter (klipper_device m) r False s)"
    note f = add_machine [where s = s and r = r and m = m, folded s1_def]
    have e: "onAddKlipperInterface (m # ms) r s = onAddKlipperInterface ms r s1"
      using True by (simp add: onAddKlipperInterface_def s1_def)
    from Cons.IH [of s1] Cons.prems f
    have ih: "set (all_refs (onAddKlipperInterface ms r s1)) =
        insert (nextPrinter s) (set (all_refs s)) \<union> {Suc (nextPrinter s) ..< Suc (nextPrinter s) + length (filter m_online ms)}"
      "\<And>n. n < Suc (nextPrinter s) \<Longrightarrow> address (printers (onAddKlipperInterface ms r s1) n) = address (printers s1 n)"
      "\<And>i. i < length (filter m_online ms) \<Longrightarrow>
        address (printers (onAddKlipperInterface ms r s1) (Suc (nextPrinter s) + i)) = m_address (filter m_online ms ! i)"
      by simp_all
    have "address (printers (onAddKlipperInterface ms r s1) (nextPrinter s + i)) = m_address ((m # filter m_online ms) ! i)"
      if "i < Suc (length (filter m_online ms))" for i
      using ih(2) [of "nextPrinter s"] ih(3) [of "i - 1"] f(3) [of "nextPrinter s"] that by (cases i) simp_all
    then show ?thesis using True ih(1,2) f(3) by (auto simp: e)
  qed
qed

lemma search_finds_new:
  assumes "onAddKlipperInterfaceList a s = (SUCCESS, ms)" "m \<in> set ms"
  shows "\<not> isPrinterExist (m_address m) s"
  using assms by (auto simp: onAddKlipperInterfaceList_def Let_def split: option.splits json.splits if_splits)

lemma search_keeps_addresses:
  assumes "check_machines info heat ms = Some ms'"
  shows "map m_address ms' = map m_address ms"
  using assms
  by (induction ms arbitrary: ms') (auto simp: getKlipperInterfaceSystemInfo_def machine_heat_def Let_def
      split: option.splits json.splits if_splits)

text \<open>A search for the machines behind an address adds nothing unless every machine found
  answers; then it adds a printer for each warm machine, in their order, to the group asked
  for, with addresses that were not listed when the search began, and no other; a cold
  machine is left out, though the search reports success.\<close>

theorem klipper_search_adds_all_or_none:
  assumes "onAddKlipper a info heat r s0 s = (st, s')"
  shows "(st \<noteq> SUCCESS \<longrightarrow> s' = s)
    \<and> (st = SUCCESS \<and> isGroupExist r s \<longrightarrow>
       (\<exists>ms :: machine list. set (all_refs s') = set (all_refs s) \<union> {nextPrinter s ..< nextPrinter s + length (filter m_online ms)}
         \<and> (\<forall>i < length (filter m_online ms). address (printers s' (nextPrinter s + i)) = m_address (filter m_online ms ! i))
         \<and> (\<forall>n < nextPrinter s. address (printers s' n) = address (printers s n))
         \<and> (\<forall>m \<in> set ms. \<not> isPrinterExist (m_address m) s0)
         \<and> snd (onAddKlipperInterfaceList a s0) \<noteq> [] \<and> length ms = length (snd (onAddKlipperInterfaceList a s0))))"
proof -
  obtain st0 ms0 where l: "onAddKlipperInterfaceList a s0 = (st0, ms0)" by force
  show ?thesis
  proof (cases "st0 = SUCCESS \<and> st = SUCCESS")
    case False
    then show ?thesis using assms l by (auto simp: onAddKlipper_def split: printer_status.splits option.splits)
  next
    case True
    then obtain ms where ms: "check_machines info heat ms0 = Some ms" "s' = onAddKlipperInterface ms r s"
      using assms l by (auto simp: onAddKlipper_def split: option.splits)
    have new: "\<not> isPrinterExist (m_address m) s0" if "m \<in> set ms" for m
    proof -
      have "m_address m \<in> set (map m_address ms0)" using that search_keeps_addresses [OF ms(1)] by (metis image_eqI set_map)
      then show ?thesis using search_finds_new l True by fastforce
    qed
    have len: "length ms = length ms0" using search_keeps_addresses [OF ms(1)] by (metis length_map)
    have "ms0 \<noteq> []" using l True by (auto simp: onAddKlipperInterfaceList_def Let_def split: option.splits json.splits if_splits)
    then show ?thesis
      using added_machines [of r s ms] new len l ms(2) True by (intro conjI impI exI [of _ ms]) simp_all
  qed
qed


section \<open>Witnesses\<close>

definition demo_report :: json where
  "demo_report = JObj [(''print_stats'', JObj [(''state'', JStr ''paused''), (''print_duration'', JNum 600)]),
     (''display_status'', JObj [(''progress'', JNum (1 / 4))])]"

theorem klipper_state_is_shown_witness:
  "state (snd (setDataFromKlipperState demo_report (demo_printer ''a''))) = JNum 5
   \<and> deviceState (snd (setDataFromKlipperState demo_report (demo_printer ''a''))) = JNum 1"
  using klipper_state_is_shown [of demo_report "demo_printer ''a''"] by (simp add: demo_report_def klipper_codes_def)

theorem klipper_times_read_back_witness:
  "\<exists>v t. printLeftTime (snd (setDataFromKlipperState demo_report (demo_printer ''a''))) = JStr v \<and> read_hms v = Some t \<and> t = 1800"
proof -
  have "\<lfloor>(1 / 4 :: rat) * 100\<rfloor> = 25" by simp
  moreover have "js_round 600 = 600" "js_round (1800 :: rat) = 1800" by (simp_all add: js_round_def floor_eq_iff)
  ultimately show ?thesis
    using klipper_times_read_back [of demo_report 600 "1 / 4" "demo_printer ''a''"] by (simp add: demo_report_def) force
qed

theorem silent_klipper_printer_stays_online_witness:
  "\<exists>s'. klipper_polls [(5000, 1), (90000, 1)] ({}, demo_board) = ({}, s') \<and> online (printers s' 1) \<and> reconnectCount (printers s' 1) = 0"
  using silent_klipper_printer_stays_online [of "[(5000, 1), (90000, 1)]" demo_board] by auto

definition demo_machines :: json where
  "demo_machines = JObj [(''result'', JObj [(''multi_printer_info'', JArr
     [JObj [(''ip'', JStr ''10.0.0.7''), (''machine_name'', JStr ''A''), (''printer_id'', JNum 1)],
      JObj [(''ip'', JStr ''10.0.0.7''), (''machine_name'', JStr ''B''), (''printer_id'', JNum 2)]])])]"

definition demo_info :: json where
  "demo_info = JObj [(''result'', JObj [(''system_info'', JObj [(''network'', JObj [(''wlan0'',
     JObj [(''mac_address'', JStr ''aa'')])])])])]"

text \<open>The second machine is cold.\<close>

definition demo_heat :: "machine \<Rightarrow> (int \<times> json) option" where
  "demo_heat m = Some (200, JObj [(''result'', JObj [(''status'', JObj [(''extruder'',
     JObj [(''temperature'', JNum (if m_deviceName m = ''Fast-A'' then 24 else 0))])])])])"

theorem klipper_search_adds_all_or_none_witness:
  "fst (onAddKlipper (Some demo_machines) (\<lambda>_. Some demo_info) demo_heat ''g'' demo_board demo_board) = SUCCESS
   \<and> address (printers (snd (onAddKlipper (Some demo_machines) (\<lambda>_. Some demo_info) demo_heat ''g'' demo_board demo_board)) 0) = ''a''
   \<and> snd (onAddKlipper None (\<lambda>_. Some demo_info) demo_heat ''g'' demo_board demo_board) = demo_board"
proof -
  let ?r = "onAddKlipper (Some demo_machines) (\<lambda>_. Some demo_info) demo_heat ''g'' demo_board demo_board"
  have st: "fst ?r = SUCCESS"
    by (simp add: onAddKlipper_def onAddKlipperInterfaceList_def demo_machines_def demo_info_def demo_heat_def
        getKlipperInterfaceSystemInfo_def machine_heat_def isPrinterExist_def machine_of_def js_or_def split: option.split)
  have g: "isGroupExist ''g'' demo_board" "0 < nextPrinter demo_board" by (simp_all add: isGroupExist_def demo_board_def)
  have "address (printers (snd ?r) 0) = address (printers demo_board 0)"
    using klipper_search_adds_all_or_none [OF prod.collapse [symmetric], of "Some demo_machines" "\<lambda>_. Some demo_info"
        demo_heat "''g''" demo_board demo_board] st g by auto
  moreover have "snd (onAddKlipper None (\<lambda>_. Some demo_info) demo_heat ''g'' demo_board demo_board) = demo_board"
    by (simp add: onAddKlipper_def onAddKlipperInterfaceList_def)
  ultimately show ?thesis using st by simp
qed

end
