(* ===== verification/OldPolling.thy ===== *)
theory OldPolling
  imports PrinterData PrinterListing
begin

text \<open>
  Old printers, which are asked for their state over HTTP (\<open>getOldPrinterState\<close>,
  \<open>setDataFromOldPrinter\<close> and \<open>formatTemperatureDataByOldPrinter\<close> of \<open>M4\<close>,
  \<open>CeX73yR3.js\<close>).  A poll is a loop of attempts of at most twenty seconds; its turns, with
  the replies and what else happened before each turn, come from outside.

  Texts are texts: the \<open>TypeError\<close> of a \<open>model\<close> or \<open>print\<close> that is none is not modelled,
  that of a missing \<open>ssid\<close> is.
\<close>

section \<open>What an answer does to its printer\<close>

text \<open>The texts \<open>null\<close> and \<open>undefined\<close> stand for a missing parameter in a concatenation.\<close>

definition getOlderPrinterVideoUrl :: "page \<Rightarrow> string \<Rightarrow> string" where
  "getOlderPrinterVideoUrl pg t =
     (if page_params pg = [] then []
      else ''http://127.0.0.1:'' @ (case map_of (page_params pg) ''port'' of None \<Rightarrow> ''null'' | Some a \<Rightarrow> a)
           @ ''/rtspvideostream?ip='' @ t)"

definition blank :: "char \<Rightarrow> bool" where
  "blank c = ((of_char c :: nat) \<in> {9, 10, 11, 12, 13, 32, 160})"

definition js_trim :: "string \<Rightarrow> string" where
  "js_trim t = rev (dropWhile blank (rev (dropWhile blank t)))"

text \<open>\<open>JSON.stringify(l.data?.k) !== JSON.stringify(v) && (l.data.k = v)\<close>.\<close>

definition store_changed :: "page \<Rightarrow> string \<Rightarrow> json \<Rightarrow> printer \<Rightarrow> printer" where
  "store_changed pg k v p =
     (if hasOwn (JObj (data p)) k \<and> page_stringify pg (jget (JObj (data p)) k) = page_stringify pg v then p
      else p\<lparr>data := AList.update k v (data p)\<rparr>)"

definition old_model :: "(string \<times> preset) list \<Rightarrow> json \<Rightarrow> printer \<Rightarrow> printer" where
  "old_model presets v p =
     (if online p
      then let t = js_trim (the_text v) in
        p\<lparr>modelName := js_or (case map_of presets t of None \<Rightarrow> JUndefined | Some d \<Rightarrow> presetModel d) (modelName p),
          model := t, name := Some t\<rparr>
      else p)"

definition old_video :: "page \<Rightarrow> json \<Rightarrow> printer \<Rightarrow> printer" where
  "old_video pg v p0 =
     (let p = p0\<lparr>video := v\<rparr> in
      if truthy v \<and> oldPrinter p then p\<lparr>linuxVideoUrl := JStr (getOlderPrinterVideoUrl pg (address p))\<rparr> else p)"

definition old_state :: "json \<Rightarrow> printer \<Rightarrow> printer" where
  "old_state v p =
     p\<lparr>state := v,
       deviceState := (if v \<in> {JNum 0, JNum 2, JNum 3, JNum 4} then JNum 0
                       else if v \<in> {JNum 1, JNum 5} then JNum 1 else JNum 10000)\<rparr>"

definition old_print :: "json \<Rightarrow> json \<Rightarrow> printer \<Rightarrow> printer" where
  "old_print m v p =
     (let t = the_text v;
          p1 = (if CHR ''/'' \<in> set t then p\<lparr>printFileName := JStr (js_split_last ''/'' t), filePath := v\<rparr> else p)
      in if hasOwn m ''mcu_is_print'' \<and> jget m ''mcu_is_print'' = JNum 1
         then p1\<lparr>printFileName := v, mcu_is_print := JNum 1\<rparr> else p1)"

definition old_temperatures :: "page \<Rightarrow> json \<Rightarrow> json \<Rightarrow> printer_temperature \<Rightarrow> printer_temperature" where
  "old_temperatures pg d r t0 =
     (let t1 = start_history pg t0;
          t2 = (if hasOwn d ''nozzleTemp''
                then t1\<lparr>nozzle := record_value (if hasOwn r ''nozzleTemp'' then jget r ''nozzleTemp'' else temp_value (nozzle t1)) (nozzle t1)\<rparr>
                else t1);
          t3 = (if hasOwn d ''bedTemp0''
                then t2\<lparr>bed := record_value (if hasOwn r ''bedTemp'' then jget r ''bedTemp'' else temp_value (bed t2)) (bed t2)\<rparr>
                else t2);
          t4 = field ''maxNozzleTemp'' (\<lambda>v t. t\<lparr>nozzle := (nozzle t)\<lparr>temp_max := as_float v\<rparr>\<rparr>) d t3;
          t5 = field ''maxBedTemp'' (\<lambda>v t. t\<lparr>bed := (bed t)\<lparr>temp_max := as_float v\<rparr>\<rparr>) d t4;
          t6 = t5\<lparr>time := shift_in (page_wu pg (Some 0) False) (time t5)\<rparr>;
          t7 = field ''targetNozzleTemp'' (\<lambda>v t. t\<lparr>nozzle := (nozzle t)\<lparr>temp_target := as_float v\<rparr>\<rparr>) d t6
      in field ''targetBedTemp0'' (\<lambda>v t. t\<lparr>bed := (bed t)\<lparr>temp_target := as_float v\<rparr>\<rparr>) d t7)"

definition formatTemperatureDataByOldPrinter :: "page \<Rightarrow> json \<Rightarrow> printer \<Rightarrow> printer" where
  "formatTemperatureDataByOldPrinter pg r p =
     (if record_temps (temperature p)
      then p\<lparr>temperature := old_temperatures pg (JObj (data p)) r (temperature p)\<rparr> else p)"

definition old_first :: "page \<Rightarrow> (string \<times> preset) list \<Rightarrow> json \<Rightarrow> printer \<Rightarrow> printer" where
  "old_first pg presets m p0 =
     (let p1 = fields
            [(''nozzleTemp'', store_changed pg ''nozzleTemp''), (''bedTemp'', store_changed pg ''bedTemp0''),
             (''nozzleTemp2'', store_changed pg ''targetNozzleTemp''), (''bedTemp2'', store_changed pg ''targetBedTemp0'')] m
            (p0\<lparr>online := \<not> (hasOwn m ''connect'' \<and> jget m ''connect'' \<noteq> JNum 1)\<rparr>);
          p2 = p1\<lparr>data := AList.update ''maxBedTemp'' (JNum 200) (AList.update ''maxNozzleTemp'' (JNum 300) (data p1))\<rparr>
      in fields
        [(''printLeftTime'', take_left_time pg),
         (''printJobTime'', \<lambda>v p. p\<lparr>printJobTime := JStr (seconds v)\<rparr>),
         (''curFeedratePct'', on_ctrol (\<lambda>v c. c\<lparr>curFeedratePct := v\<rparr>)),
         (''printProgress'', \<lambda>v p. p\<lparr>printProgress := v\<rparr>),
         (''model'', old_model presets)] m p2)"

definition old_second :: "page \<Rightarrow> json \<Rightarrow> printer \<Rightarrow> printer" where
  "old_second pg m p0 =
     (let p1 = fields
            [(''video'', old_video pg), (''printStartTime'', \<lambda>v p. p\<lparr>printStartTime := v\<rparr>), (''state'', old_state),
             (''autohome'', on_ctrol (\<lambda>v c. c\<lparr>autohome := (if v = JNum 0 then JStr ''X:0 Y:0 Z:0'' else JStr ''X:1 Y:1 Z:1'')\<rparr>)),
             (''print'', old_print m), (''layer'', \<lambda>v p. p\<lparr>layer := JStr []\<rparr>),
             (''TotalLayer'', \<lambda>v p. p\<lparr>TotalLayer := JStr []\<rparr>)] m p0;
          p2 = (if hasOwn m ''bedTemp'' \<or> hasOwn m ''nozzleTemp'' then formatTemperatureDataByOldPrinter pg m p1 else p1)
      in fields
        [(''curPosition'', on_ctrol (\<lambda>v c. c\<lparr>curPosition := v\<rparr>)),
         (''curFeedratePct'', on_ctrol (\<lambda>v c. c\<lparr>curFeedratePct := v\<rparr>)),
         (''fan'', on_ctrol (\<lambda>v c. c\<lparr>fan := v, modelFanPct := (if v = JNum 0 then JNum 0 else JNum 100)\<rparr>)),
         (''modelVersion'', \<lambda>v p. p\<lparr>modelVersion := v\<rparr>)] m p2)"

text \<open>The printer is found by the part of the \<open>ssid\<close> after the first dash.  \<open>None\<close> is the
  \<open>TypeError\<close> of an answer without \<open>ssid\<close>, which nothing is looked up with when no printer
  is listed.\<close>

definition setDataFromOldPrinter :: "page \<Rightarrow> json \<Rightarrow> dashboard \<Rightarrow> dashboard option" where
  "setDataFromOldPrinter pg t s =
     (if (case t of JObj _ \<Rightarrow> False | JArr _ \<Rightarrow> False | _ \<Rightarrow> True) \<or> all_refs s = [] then Some s
      else (case jget t ''ssid'' of
              JStr u \<Rightarrow>
                (case js_split ''-'' u of
                   _ # m # _ \<Rightarrow>
                     (case find_ref (has_mac m) s of
                        None \<Rightarrow> Some s
                      | Some n \<Rightarrow> Some (upd n (\<lambda>p. old_second pg t (old_first pg (printerPreset s) t p)) s))
                 | _ \<Rightarrow> Some s)
            | _ \<Rightarrow> None))"

section \<open>A poll\<close>

text \<open>A request gets a reply, with a status, or fails with a code.\<close>

datatype poll_reply = Reply int json | NoReply string

definition retry_wait :: "string \<Rightarrow> int" where
  "retry_wait c = (if c = ''ECONNABORTED'' then 1000 else 3000)"

text \<open>One attempt: the first request switches the printer's report on, the second reads it.
  It fails with the time to wait until the next turn.\<close>

definition old_attempt :: "page \<Rightarrow> nat \<Rightarrow> poll_reply \<Rightarrow> poll_reply \<Rightarrow> dashboard \<Rightarrow> int + dashboard" where
  "old_attempt pg n a b s =
     (case a of
        NoReply c \<Rightarrow> Inl (retry_wait c)
      | Reply st _ \<Rightarrow>
          if st \<noteq> 200 then Inl (retry_wait ''UNKNOWN'')
          else (case b of
                  NoReply c \<Rightarrow> Inl (retry_wait c)
                | Reply st d \<Rightarrow>
                    if st \<noteq> 200 then Inl (retry_wait ''UNKNOWN'')
                    else (case setDataFromOldPrinter pg d s of
                            None \<Rightarrow> Inl (retry_wait ''UNKNOWN'')
                          | Some s1 \<Rightarrow> Inr (upd n (\<lambda>p. p\<lparr>reconnectCount := 0, timeStamp := page_now pg\<rparr>) s1))))"

text \<open>A poll that had no answer in time counts against a printer that is online; the
  fifteenth one takes it offline.\<close>

definition old_poll_failed :: "nat \<Rightarrow> dashboard \<Rightarrow> dashboard" where
  "old_poll_failed n s =
     upd n (\<lambda>p. if online p
                then (let c = Suc (reconnectCount p)
                      in if 15 \<le> c then p\<lparr>online := False, reconnectCount := 0\<rparr> else p\<lparr>reconnectCount := c\<rparr>)
                else p) s"

text \<open>The turns of the loop: the page at that time, the two replies, and what else changed
  since the last turn.  \<open>None\<close> is a poll still under way.\<close>

type_synonym poll_turn = "page \<times> poll_reply \<times> poll_reply \<times> (dashboard \<Rightarrow> dashboard)"

fun old_poll_loop :: "nat \<Rightarrow> int \<Rightarrow> poll_turn list \<Rightarrow> dashboard \<Rightarrow> (bool \<times> dashboard) option" where
  "old_poll_loop n started [] s = None"
| "old_poll_loop n started ((pg, a, b, f) # ts) s =
     (let s1 = f s in
      if page_now pg - started < 20000
      then (case old_attempt pg n a b s1 of
              Inr s2 \<Rightarrow> Some (True, s2)
            | Inl w \<Rightarrow> old_poll_loop n started ts s1)
      else Some (False, old_poll_failed n s1))"

text \<open>\<open>getOldPrinterState\<close>: a printer that is being polled, or that answered in the last three
  seconds, is left alone.  The set holds the addresses being polled.\<close>

definition getOldPrinterState ::
    "int \<Rightarrow> nat \<Rightarrow> poll_turn list \<Rightarrow> string set \<times> dashboard \<Rightarrow> (string set \<times> dashboard) option" where
  "getOldPrinterState now n ts b =
     (let (busy, s) = b; r = address (printers s n) in
      if r \<in> busy \<or> now - timeStamp (printers s n) \<le> 3000 then Some (busy, s)
      else map_option (\<lambda>(_, s'). (insert r busy - {r}, s')) (old_poll_loop n now ts s))"

text \<open>The turns come when the code asks for them: the first at once, each other when the wait
  is over.\<close>

fun on_time :: "nat \<Rightarrow> int \<Rightarrow> poll_turn list \<Rightarrow> dashboard \<Rightarrow> bool" where
  "on_time n t [] s = True"
| "on_time n t ((pg, a, b, f) # ts) s \<longleftrightarrow>
     t \<le> page_now pg
     \<and> (case old_attempt pg n a b (f s) of Inr _ \<Rightarrow> True | Inl w \<Rightarrow> on_time n (page_now pg + w) ts (f s))"

end
