(* ===== verification/OldPollingProps.thy ===== *)
theory OldPollingProps
  imports OldPolling DataProps
begin

text \<open>
  What holds of the polling of old printers: an answer reaches the printer it names and no
  other, every poll ends within twenty-one turns and frees its address, and a silent printer goes offline
  with its fifteenth failed poll, not earlier.
\<close>

section \<open>An answer\<close>

lemma fields_Cons: "fields ((k, f) # fs) m p = fields fs m (field k f m p)"
  by (simp add: fields_def)

lemma on_ctrol_keep [simp]:
  "online (on_ctrol g v p) = online p" "state (on_ctrol g v p) = state p" "deviceState (on_ctrol g v p) = deviceState p"
  by (simp_all add: on_ctrol_def)

lemma old_parts_keep [simp]:
  "online (store_changed pg k v p) = online p" "temperature (store_changed pg k v p) = temperature p"
  "online (old_model ps v p) = online p" "temperature (old_model ps v p) = temperature p"
  "online (old_video pg v p) = online p" "temperature (old_video pg v p) = temperature p"
  "online (old_print m v p) = online p" "temperature (old_print m v p) = temperature p"
  "state (old_print m v p) = state p" "deviceState (old_print m v p) = deviceState p"
  "online (old_state v p) = online p" "temperature (old_state v p) = temperature p"
  "online (take_left_time pg v p) = online p" "temperature (take_left_time pg v p) = temperature p"
  "online (formatTemperatureDataByOldPrinter pg m p) = online p" "state (formatTemperatureDataByOldPrinter pg m p) = state p"
  "deviceState (formatTemperatureDataByOldPrinter pg m p) = deviceState p"
  by (simp_all add: store_changed_def old_model_def old_video_def old_print_def old_state_def take_left_time_def
      formatTemperatureDataByOldPrinter_def Let_def)

lemma old_first_keep [simp]:
  "online (old_first pg ps m p) \<longleftrightarrow> \<not> (hasOwn m ''connect'' \<and> jget m ''connect'' \<noteq> JNum 1)"
  "temperature (old_first pg ps m p) = temperature p"
  unfolding old_first_def Let_def
  by (subst fields_keep [where T = online], force, simp, subst fields_keep [where T = online], force, simp)
    (subst fields_keep [where T = temperature], force, simp, subst fields_keep [where T = temperature], force, simp)

lemma old_second_online [simp]: "online (old_second pg m p) = online p"
  unfolding old_second_def Let_def
  by (subst fields_keep [where T = online], force)
    (auto simp: if_distrib [where f = online] intro!: fields_keep [where T = online])

lemma field_at:
  "state (field k f m p) = (if hasOwn m k then state (f (jget m k) p) else state p)"
  "deviceState (field k f m p) = (if hasOwn m k then deviceState (f (jget m k) p) else deviceState p)"
  by (simp_all add: field_def)

definition device_code :: "json \<Rightarrow> json" where
  "device_code v = (if v \<in> {JNum 0, JNum 2, JNum 3, JNum 4} then JNum 0
     else if v \<in> {JNum 1, JNum 5} then JNum 1 else JNum 10000)"

lemma old_state_codes [simp]: "state (old_state v p) = v" "deviceState (old_state v p) = device_code v"
  by (simp_all add: old_state_def device_code_def)

lemma old_second_state:
  assumes "hasOwn m ''state''"
  shows "(state (old_second pg m p), deviceState (old_second pg m p)) = (jget m ''state'', device_code (jget m ''state''))"
proof -
  let ?T = "\<lambda>p :: printer. (state p, deviceState p)"
  have "?T (old_second pg m p) = (jget m ''state'', device_code (jget m ''state''))"
    unfolding old_second_def Let_def
    by (subst fields_keep [where T = ?T], force)
      (simp add: fields_Cons field_at if_distrib [where f = state] if_distrib [where f = deviceState] assms fields_def)
  then show ?thesis by simp
qed

lemma old_temperatures_full: "hist_ok t \<Longrightarrow> full (old_temperatures pg d r t)"
  unfolding old_temperatures_def Let_def
  by (intro field_full full_updates if_full start_history_full) assumption+

lemma old_second_history:
  assumes "hist_ok (temperature p)"
  shows "hist_ok (temperature (old_second pg m p))"
proof -
  define p1 where "p1 = fields
    [(''video'', old_video pg), (''printStartTime'', \<lambda>v p. p\<lparr>printStartTime := v\<rparr>), (''state'', old_state),
     (''autohome'', on_ctrol (\<lambda>v c. c\<lparr>autohome := (if v = JNum 0 then JStr ''X:0 Y:0 Z:0'' else JStr ''X:1 Y:1 Z:1'')\<rparr>)),
     (''print'', old_print m), (''layer'', \<lambda>v p. p\<lparr>layer := JStr []\<rparr>),
     (''TotalLayer'', \<lambda>v p. p\<lparr>TotalLayer := JStr []\<rparr>)] m p"
  have p1: "temperature p1 = temperature p"
    unfolding p1_def by (rule fields_keep [where T = temperature]) force
  have "temperature (old_second pg m p) =
      temperature (if hasOwn m ''bedTemp'' \<or> hasOwn m ''nozzleTemp'' then formatTemperatureDataByOldPrinter pg m p1 else p1)"
    unfolding old_second_def Let_def p1_def [symmetric] by (rule fields_keep [where T = temperature]) force
  then show ?thesis
    using assms old_temperatures_full full_hist_ok
    by (simp add: p1 formatTemperatureDataByOldPrinter_def)
qed

text \<open>An answer reaches the first listed printer with the mac its \<open>ssid\<close> ends in, and no
  other: that printer is online unless the answer says it is not connected, and shows the
  state the answer names, with the device busy while it prints or pauses; its temperature
  history stays within its bounds.\<close>

theorem answer_reaches_its_printer:
  assumes "jget t ''ssid'' = JStr (w @ ''-'' @ m)" "CHR ''-'' \<notin> set w" "CHR ''-'' \<notin> set m"
    and "find_ref (has_mac m) s = Some n" "hasOwn t ''state''"
  shows "\<exists>s'. setDataFromOldPrinter pg t s = Some s'
    \<and> (\<forall>k. k \<noteq> n \<longrightarrow> printers s' k = printers s k)
    \<and> (online (printers s' n) \<longleftrightarrow> \<not> (hasOwn t ''connect'' \<and> jget t ''connect'' \<noteq> JNum 1))
    \<and> state (printers s' n) = jget t ''state'' \<and> deviceState (printers s' n) = device_code (jget t ''state'')
    \<and> (hist_ok (temperature (printers s n)) \<longrightarrow> hist_ok (temperature (printers s' n)))"
proof -
  have sp: "js_split ''-'' (w @ ''-'' @ m) = [w, m]"
    using js_split_from_piece [OF assms(2), of "[]" "[]" m] js_split_from_last [OF assms(3), of "[]" "[]"]
    by (simp add: js_split_def)
  have obj: "\<exists>ps. t = JObj ps" using assms(1) by (cases t) simp_all
  have "all_refs s \<noteq> []" using find_ref_Some [OF assms(4)] by auto
  then have "setDataFromOldPrinter pg t s =
      Some (upd n (\<lambda>p. old_second pg t (old_first pg (printerPreset s) t p)) s)"
    using assms(1,4) sp obj by (auto simp: setDataFromOldPrinter_def simp del: append.simps append_Cons)
  then show ?thesis
    using old_second_state [OF assms(5), of pg] old_second_history by simp
qed


section \<open>A poll ends\<close>

lemma old_attempt_waits: "old_attempt pg n a b s = Inl w \<Longrightarrow> 1000 \<le> w"
  by (auto simp: old_attempt_def retry_wait_def split: poll_reply.splits if_splits option.splits)

text \<open>The time that is left bounds the turns that are left.\<close>

lemma poll_ends:
  assumes "on_time n t ts s" "ts \<noteq> []" "started \<le> t" "20000 \<le> t - started + 1000 * (int (length ts) - 1)"
  shows "old_poll_loop n started ts s \<noteq> None"
  using assms
proof (induction n started ts s arbitrary: t rule: old_poll_loop.induct)
  case (2 n started pg a b f ts s)
  show ?case
  proof (cases "page_now pg - started < 20000")
    case True
    show ?thesis
    proof (cases "old_attempt pg n a b (f s)")
      case (Inl w)
      then have w: "1000 \<le> w" by (rule old_attempt_waits)
      have now: "t \<le> page_now pg" and rest: "on_time n (page_now pg + w) ts (f s)"
        using "2.prems"(1) Inl by simp_all
      have "ts \<noteq> []" using now True "2.prems"(4) by auto
      moreover have "20000 \<le> page_now pg + w - started + 1000 * (int (length ts) - 1)"
        using "2.prems"(4) w now by simp
      ultimately have "old_poll_loop n started ts (f s) \<noteq> None"
        using "2.IH" [OF refl True Inl rest] "2.prems"(3) now w by simp
      then show ?thesis using True Inl by simp
    qed (use True in simp)
  qed simp
qed simp

lemma old_poll_loop_ends:
  assumes "on_time n started ts s" "21 \<le> length ts"
  shows "old_poll_loop n started ts s \<noteq> None"
proof -
  have "ts \<noteq> []" using assms(2) by auto
  moreover have "20000 \<le> started - started + 1000 * (int (length ts) - 1)" using assms(2) by simp
  ultimately show ?thesis using poll_ends [OF assms(1)] by simp
qed

text \<open>C26: A poll of an old printer ends, whatever the printer replies and whatever else goes
  on: within twenty-one turns that come when they are asked for it has an answer or has given
  up, and leaves the set of addresses being polled as it was, so the printer's address is free
  again and its next poll may start.  A printer whose address is in the set, or which answered
  in the last three seconds, is left alone.\<close>

theorem every_old_poll_ends:
  assumes "on_time n now ts s" and "21 \<le> length ts"
  shows "\<exists>s'. getOldPrinterState now n ts (busy, s) = Some (busy, s')
    \<and> (if address (printers s n) \<in> busy \<or> now - timeStamp (printers s n) \<le> 3000 then s' = s
       else address (printers s n) \<notin> busy \<and> (\<exists>ok. old_poll_loop n now ts s = Some (ok, s')))"
  using old_poll_loop_ends [OF assms] by (auto simp: getOldPrinterState_def Let_def)

section \<open>Fifteen failures\<close>

text \<open>Polls one after another that all fail, with nothing else going on.\<close>

fun silent_polls :: "nat \<Rightarrow> (int \<times> poll_turn list) list \<Rightarrow> dashboard \<Rightarrow> dashboard option" where
  "silent_polls n [] s = Some s"
| "silent_polls n ((now, ts) # ps) s =
     (if \<forall>(pg, a, b, f) \<in> set ts. f = id
      then (case old_poll_loop n now ts s of Some (False, s1) \<Rightarrow> silent_polls n ps s1 | _ \<Rightarrow> None) else None)"

lemma quiet_poll_fails:
  assumes "old_poll_loop n now ts s = Some (False, s')" "\<forall>(pg, a, b, f) \<in> set ts. f = id"
  shows "s' = old_poll_failed n s"
  using assms
  by (induction n now ts s rule: old_poll_loop.induct) (auto split: if_splits sum.splits)

lemma failed_counts:
  assumes "online (printers s n)" "reconnectCount (printers s n) < 15"
  shows "online (printers (old_poll_failed n s) n) \<longleftrightarrow> Suc (reconnectCount (printers s n)) < 15"
    and "Suc (reconnectCount (printers s n)) < 15 \<Longrightarrow>
      reconnectCount (printers (old_poll_failed n s) n) = Suc (reconnectCount (printers s n))"
  using assms by (auto simp: old_poll_failed_def Let_def)

lemma offline_stays: "\<not> online (printers s n) \<Longrightarrow> \<not> online (printers (old_poll_failed n s) n)"
  by (simp add: old_poll_failed_def)

lemma silent_polls_online:
  assumes "silent_polls n ps s = Some s'"
  shows "(online (printers s n) \<and> reconnectCount (printers s n) < 15 \<longrightarrow>
       (online (printers s' n) \<longleftrightarrow> reconnectCount (printers s n) + length ps < 15))
    \<and> (\<not> online (printers s n) \<longrightarrow> \<not> online (printers s' n))
    \<and> (\<forall>k. k \<noteq> n \<longrightarrow> printers s' k = printers s k)"
  using assms
proof (induction ps arbitrary: s)
  case (Cons p ps)
  obtain now ts where p: "p = (now, ts)" by force
  obtain s1 where s1: "old_poll_loop n now ts s = Some (False, s1)" "silent_polls n ps s1 = Some s'"
      "\<forall>(pg, a, b, f) \<in> set ts. f = id"
    using Cons.prems by (auto simp: p split: if_splits option.splits bool.splits)
  have f: "s1 = old_poll_failed n s" using quiet_poll_fails s1 by blast
  have others: "\<forall>k. k \<noteq> n \<longrightarrow> printers s1 k = printers s k" by (simp add: f old_poll_failed_def)
  show ?case
    using Cons.IH [OF s1(2)] failed_counts [of s n] offline_stays [of s n] others unfolding f [symmetric]
    by (cases "online (printers s n)"; cases "Suc (reconnectCount (printers s n)) < 15") auto
qed simp

text \<open>A silent old printer that was online is taken offline by its fifteenth failed poll
  in a row and not before, and no other printer is touched.\<close>

theorem fifteen_failed_polls_take_offline:
  assumes "silent_polls n ps s = Some s'" "online (printers s n)" "reconnectCount (printers s n) = 0"
  shows "(online (printers s' n) \<longleftrightarrow> length ps < 15) \<and> (\<forall>k. k \<noteq> n \<longrightarrow> printers s' k = printers s k)"
  using silent_polls_online [OF assms(1)] assms(2,3) by simp

section \<open>Witnesses\<close>

definition demo_answer :: json where
  "demo_answer = JObj [(''ssid'', JStr (''CR'' @ ''-'' @ ''bmac'')), (''state'', JNum 5), (''connect'', JNum 1)]"

theorem answer_reaches_its_printer_witness:
  "\<exists>s'. setDataFromOldPrinter demo_page demo_answer demo_board = Some s' \<and> deviceState (printers s' 1) = JNum 1
    \<and> printers s' 0 = printers demo_board 0"
proof -
  have f: "find_ref (has_mac ''bmac'') demo_board = Some 1" by (simp add: find_ref_def has_mac_def)
  have "jget demo_answer ''ssid'' = JStr (''CR'' @ ''-'' @ ''bmac'')" "hasOwn demo_answer ''state''"
      "jget demo_answer ''state'' = JNum 5" "device_code (JNum 5) = JNum 1"
    by (simp_all add: demo_answer_def hasOwn_def device_code_def)
  then show ?thesis
    using answer_reaches_its_printer [of demo_answer "''CR''" "''bmac''" demo_board 1 demo_page] f by auto
qed

definition silent_turn :: "int \<Rightarrow> poll_turn" where
  "silent_turn t = (demo_page\<lparr>page_now := t\<rparr>, NoReply ''ECONNABORTED'', NoReply [], id)"

theorem every_old_poll_ends_witness:
  "\<exists>s' ok. getOldPrinterState 5000 0 (map (\<lambda>k. silent_turn (5000 + 1000 * int k)) [0..<21]) ({''x''}, demo_board) = Some ({''x''}, s')
    \<and> old_poll_loop 0 5000 (map (\<lambda>k. silent_turn (5000 + 1000 * int k)) [0..<21]) demo_board = Some (ok, s')"
proof -
  have "on_time 0 (5000 + 1000 * int i) (map (\<lambda>k. silent_turn (5000 + 1000 * int k)) [i..<j]) demo_board" for i j
  proof (induction "j - i" arbitrary: i)
    case (Suc d)
    then have "[i..<j] = i # [Suc i..<j]" by (simp add: upt_conv_Cons)
    moreover have "d = j - Suc i" using Suc.hyps(2) by simp
    ultimately show ?case
      using Suc.hyps(1) [of "Suc i"] by (simp add: silent_turn_def old_attempt_def retry_wait_def add.commute)
  qed simp
  from this [of 0 21] have "on_time 0 5000 (map (\<lambda>k. silent_turn (5000 + 1000 * int k)) [0..<21]) demo_board" by simp
  moreover have "timeStamp (printers demo_board 0) = - 1" "address (printers demo_board 0) \<noteq> ''x''"
    by (simp_all add: demo_board_def demo_printer_def initial_printer_def demo_device_def)
  ultimately show ?thesis
    using every_old_poll_ends [of 0 5000 "map (\<lambda>k. silent_turn (5000 + 1000 * int k)) [0..<21]" demo_board "{''x''}"] by auto
qed

theorem fifteen_failed_polls_take_offline_witness:
  "\<exists>s'. silent_polls 1 [(0, [silent_turn 0, silent_turn 20000]), (30000, [silent_turn 50000])] demo_board = Some s'
    \<and> online (printers s' 1) \<and> printers s' 0 = printers demo_board 0"
proof -
  let ?ps = "[(0, [silent_turn 0, silent_turn 20000]), (30000, [silent_turn 50000])]"
  obtain s' where s': "silent_polls 1 ?ps demo_board = Some s'"
    by (simp add: silent_turn_def old_attempt_def retry_wait_def)
  show ?thesis using fifteen_failed_polls_take_offline [OF s'] s' by simp
qed

end
