(* ===== verification/CloudData.thy ===== *)
theory CloudData
  imports PrinterData
begin

text \<open>
  What the cloud's answers do to its printers (\<open>setDataFromCxCloud\<close>,
  \<open>setTimeseriesDataFromCxCloud\<close>, \<open>setAttrDataFromCxCloud\<close>, \<open>setCFSFromCxCloud\<close>,
  \<open>setCFSInfoFromCxCloud\<close>, \<open>setFilamentBrandFromCxCloud\<close> and
  \<open>setCFSBoxsConfigFromCxCloud\<close> of \<open>M4\<close>, \<open>CeX73yR3.js\<close>).

  A result of \<open>None\<close>, or a flag that is false, is the \<open>TypeError\<close> of a printer that is not
  there or of a series without values.  Other fields have the kinds the cloud sends: lists
  are lists, colours are texts, and every box has its list of materials.
\<close>

section \<open>The list of devices\<close>

definition named_printer :: "json \<Rightarrow> dashboard \<Rightarrow> nat option" where
  "named_printer v s = (case v of JStr t \<Rightarrow> getPrinter t s | _ \<Rightarrow> None)"

definition elements :: "json \<Rightarrow> json list" where
  "elements v = (case v of JArr xs \<Rightarrow> xs | _ \<Rightarrow> [])"

definition text_option :: "json \<Rightarrow> string option" where
  "text_option v = (case v of JStr t \<Rightarrow> Some t | _ \<Rightarrow> None)"

definition members_of :: "json \<Rightarrow> (string \<times> json) list" where
  "members_of v = (case v of JObj ps \<Rightarrow> ps | _ \<Rightarrow> [])"

text \<open>What every named printer gets; one that is linked to a local printer gets no more.\<close>

definition cloud_base :: "json \<Rightarrow> printer \<Rightarrow> printer" where
  "cloud_base r n =
     n\<lparr>data := members_of r, name := text_option (jget r ''aliasName''), online := \<not> eq_num (jget r ''deviceState'') (- 1)\<rparr>"

definition cloud_telemetry :: "page \<Rightarrow> json \<Rightarrow> printer \<Rightarrow> printer" where
  "cloud_telemetry pg a n =
     (if jget a ''key'' = JStr ''printLeftTime'' then take_left_time pg (jget a ''value'') n
      else if jget a ''key'' = JStr ''printProgress'' then n\<lparr>printProgress := jget a ''value''\<rparr> else n)"

definition cloud_state :: "page \<Rightarrow> json \<Rightarrow> printer \<Rightarrow> printer" where
  "cloud_state pg r n0 =
     (let n1 = n0\<lparr>deviceState := jget r ''idleState'', state := jget r ''deviceState''\<rparr>;
          i = jget r ''printInfo'';
          n2 = (if truthy i
                then n1\<lparr>printFileName := js_or (jget i ''modelName'') (JStr []),
                        printJobTime := JStr (seconds (jget i ''printJobTime'')),
                        previewimg := js_or (jget i ''gcodeThumbnail'') (JStr [])\<rparr> else n1)
      in fold (cloud_telemetry pg) (elements (jget r ''iotTelemetry'')) n2)"

text \<open>An old printer shows what its local twin shows.\<close>

definition cloud_twin :: "nat \<Rightarrow> dashboard \<Rightarrow> dashboard" where
  "cloud_twin n s =
     (case identity (printers s n) of
        None \<Rightarrow> s
      | Some i \<Rightarrow>
          (case getPrinter i s of
             None \<Rightarrow> s
           | Some a \<Rightarrow> upd n (\<lambda>p. p\<lparr>state := state (printers s a), printFileName := printFileName (printers s a)\<rparr>) s))"

definition cloud_device_data :: "page \<Rightarrow> json \<Rightarrow> dashboard \<Rightarrow> dashboard" where
  "cloud_device_data pg r s =
     (case named_printer (jget r ''deviceName'') s of
        None \<Rightarrow> s
      | Some n \<Rightarrow>
          let s1 = upd n (cloud_base r) s in
          if \<not> oldPrinter (printers s1 n) \<and> identity (printers s1 n) \<noteq> None then s1
          else let s2 = upd n (cloud_state pg r) s1
               in if oldPrinter (printers s2 n) then cloud_twin n s2 else s2)"

definition setDataFromCxCloud :: "page \<Rightarrow> json \<Rightarrow> dashboard \<Rightarrow> dashboard" where
  "setDataFromCxCloud pg t s = fold (cloud_device_data pg) (elements t) s"

section \<open>Series and attributes\<close>

text \<open>\<open>r[k][0].value\<close>.\<close>

definition first_value :: "json \<Rightarrow> json option" where
  "first_value v = (case v of JArr (x # _) \<Rightarrow> if nullish x then None else Some (jget x ''value'') | _ \<Rightarrow> None)"

text \<open>The series in the order of the code; the first that throws ends the handler.\<close>

fun take_series :: "(string \<times> (json \<Rightarrow> printer \<Rightarrow> printer option)) list \<Rightarrow> json \<Rightarrow> printer \<Rightarrow> bool \<times> printer" where
  "take_series [] r p = (True, p)"
| "take_series ((k, f) # fs) r p =
     (if hasOwn r k
      then (case f (jget r k) p of None \<Rightarrow> (False, p) | Some p1 \<Rightarrow> take_series fs r p1)
      else take_series fs r p)"

definition series :: "(json \<Rightarrow> printer \<Rightarrow> printer) \<Rightarrow> json \<Rightarrow> printer \<Rightarrow> printer option" where
  "series f v p = map_option (\<lambda>x. f x p) (first_value v)"

definition set_feedrate :: "json \<Rightarrow> printer \<Rightarrow> printer" where
  "set_feedrate = on_ctrol (\<lambda>v c. c\<lparr>curFeedratePct := v\<rparr>)"

definition on_temperature :: "(json \<Rightarrow> printer_temperature \<Rightarrow> printer_temperature) \<Rightarrow> json \<Rightarrow> printer \<Rightarrow> printer" where
  "on_temperature f v p = p\<lparr>temperature := f v (temperature p)\<rparr>"

definition timeseries_fields :: "(string \<times> (json \<Rightarrow> printer \<Rightarrow> printer option)) list" where
  "timeseries_fields =
     [(''layer'', series (\<lambda>v p. p\<lparr>layer := v\<rparr>)),
      (''curFeedratePct'', \<lambda>v p. if eq_num (speedMode (ctrol p)) 1 then Some (set_feedrate (JNum 25) p)
                                else series set_feedrate v p),
      (''curPosition'', series (on_ctrol (\<lambda>v c. c\<lparr>curPosition := v\<rparr>))),
      (''curHome'', series (on_ctrol (\<lambda>v c. c\<lparr>autohome := v\<rparr>))),
      (''speedMode'', \<lambda>v p. Some (set_feedrate (JNum 25) p)),
      (''nozzleTemp'', series (on_temperature (\<lambda>v t. t\<lparr>nozzle := (nozzle t)\<lparr>temp_value := v\<rparr>\<rparr>))),
      (''bedTemp'', series (on_temperature (\<lambda>v t. t\<lparr>bed := (bed t)\<lparr>temp_value := v\<rparr>\<rparr>))),
      (''boxTemp'', series (on_temperature (\<lambda>v t. t\<lparr>box := (box t)\<lparr>temp_value := v\<rparr>\<rparr>)))]"

definition setTimeseriesDataFromCxCloud :: "string \<Rightarrow> json \<Rightarrow> dashboard \<Rightarrow> bool \<times> dashboard" where
  "setTimeseriesDataFromCxCloud t r s =
     (case getPrinter t s of
        None \<Rightarrow> (True, s)
      | Some n \<Rightarrow> let (ok, p) = take_series timeseries_fields r (printers s n) in (ok, upd n (\<lambda>_. p) s))"

definition switch_of :: "json \<Rightarrow> json" where
  "switch_of v = (if eq_num v 0 then JNum 0 else JNum 1)"

definition cloud_attr :: "json \<Rightarrow> printer \<Rightarrow> printer" where
  "cloud_attr a n =
     (let v = jget a ''value''; k = jget a ''key'' in
      if k = JStr ''TotalLayer'' then n\<lparr>TotalLayer := v\<rparr>
      else if k = JStr ''modelFanPct'' then on_ctrol (\<lambda>v c. c\<lparr>modelFanPct := v, fan := switch_of v\<rparr>) v n
      else if k = JStr ''led_state'' then on_ctrol (\<lambda>v c. c\<lparr>lightSw := v\<rparr>) v n
      else if k = JStr ''caseFanPct'' then on_ctrol (\<lambda>v c. c\<lparr>caseFanPct := v, fanCase := switch_of v\<rparr>) v n
      else if k = JStr ''auxiliaryFanPct'' then on_ctrol (\<lambda>v c. c\<lparr>auxiliaryFanPct := v, fanAuxiliary := switch_of v\<rparr>) v n
      else if k = JStr ''speedMode''
      then (let n1 = on_ctrol (\<lambda>v c. c\<lparr>speedMode := v\<rparr>) v n in if eq_num v 1 then set_feedrate (JNum 25) n1 else n1)
      else if k = JStr ''err'' then on_err (\<lambda>e. e\<lparr>err_key := v, errcode := (if eq_num v 0 then JNum 1 else JNum 0)\<rparr>) n
      else if k = JStr ''feedState'' then n\<lparr>feedState := v\<rparr>
      else if k = JStr ''nozzleTemp2'' then on_temperature (\<lambda>v t. t\<lparr>nozzle := (nozzle t)\<lparr>temp_target := v, temp_max := JNum 350\<rparr>\<rparr>) v n
      else if k = JStr ''bedTemp2'' then on_temperature (\<lambda>v t. t\<lparr>bed := (bed t)\<lparr>temp_target := v, temp_max := JNum 150\<rparr>\<rparr>) v n
      else if k = JStr ''boxTemp2'' then on_temperature (\<lambda>v t. t\<lparr>box := (box t)\<lparr>temp_target := v, temp_max := JNum 60\<rparr>\<rparr>) v n
      else if k = JStr ''report_consumables'' then n\<lparr>materialStatus := v\<rparr>
      else if k = JStr ''materialCutterState'' then n\<lparr>materialCutterState := v\<rparr>
      else n)"

definition setAttrDataFromCxCloud :: "string \<Rightarrow> json \<Rightarrow> dashboard \<Rightarrow> dashboard" where
  "setAttrDataFromCxCloud t r s =
     (case getPrinter t s of None \<Rightarrow> s | Some n \<Rightarrow> upd n (fold cloud_attr (elements r)) s)"

section \<open>Material boxes\<close>

text \<open>\<open>#ffrrggbb\<close> from the cloud becomes \<open>#rrggbb\<close>.\<close>

definition cloud_color :: "string \<Rightarrow> string" where
  "cloud_color f = (if length f = 9 then ''#'' @ take 6 (drop 3 f) else f)"

definition port_material :: "nat \<Rightarrow> json \<Rightarrow> json" where
  "port_material d u = JObj
     [(''color'', JStr (cloud_color (the_text (jget u ''filamentsColor'')))), (''editStatus'', jget u ''editStatus''),
      (''id'', JNum (of_nat d)), (''maxTemp'', JNum 0), (''minTemp'', JNum 0), (''name'', JStr []),
      (''percent'', json_number (map_option (\<lambda>q. q * 100) (to_number (jget u ''filamentProgress'')))),
      (''pressure'', JNum 0), (''rfid'', jget u ''rfid''),
      (''selected'', if truthy (jget u ''selected'') then JNum 1 else JNum 0), (''state'', jget u ''rfidState''),
      (''type'', jget u ''filamentType''), (''vendor'', JStr []), (''cId'', jget u ''cId'')]"

definition port_color :: "nat \<Rightarrow> nat \<Rightarrow> json \<Rightarrow> json" where
  "port_color a d u = JObj
     [(''boxId'', JNum (of_nat a)), (''boxType'', JNum 0), (''color'', JStr (cloud_color (the_text (jget u ''filamentsColor'')))),
      (''filamentName'', jget u ''filamentType''), (''filamentType'', jget u ''filamentType''),
      (''materialId'', JNum (of_nat d)), (''cId'', jget u ''cId'')]"

definition cloud_box :: "nat \<Rightarrow> json \<Rightarrow> json \<times> json list" where
  "cloud_box a b =
     (let us = enumerate 0 (elements (jget b ''portList'')) in
      (JObj [(''humidity'', jget b ''humidity''), (''id'', JNum (of_nat a)), (''type'', JNum 0), (''state'', JNum 0),
             (''materials'', JArr (map (\<lambda>(d, u). port_material d u) us))],
       map (\<lambda>(d, u). port_color a d u) us))"

text \<open>The spool on the rack.\<close>

definition rack_material :: "json \<Rightarrow> json" where
  "rack_material r = JObj
     [(''color'', JStr (cloud_color (the_text (jget r ''filamentsColor'')))), (''editStatus'', jget r ''editStatus''),
      (''id'', JNum 0), (''maxTemp'', JNum 0), (''minTemp'', JNum 0), (''name'', JStr []), (''percent'', JNum 100),
      (''pressure'', JNum 0), (''rfid'', jget r ''rfid''),
      (''selected'', if truthy (jget r ''selected'') then JNum 1 else JNum 0), (''state'', JNum 1),
      (''type'', jget r ''filamentType''), (''vendor'', JStr []), (''cId'', jget r ''cId'')]"

definition rack_box :: "json \<Rightarrow> json \<times> json list" where
  "rack_box r =
     (JObj [(''humidity'', JNum 0), (''id'', JNum 0), (''type'', JNum 1), (''state'', JNum 0), (''materials'', JArr [rack_material r])],
      [JObj [(''boxId'', JNum 0), (''boxType'', JNum 1), (''color'', JStr (cloud_color (the_text (jget r ''filamentsColor'')))),
             (''filamentName'', jget r ''filamentType''), (''filamentType'', jget r ''filamentType''), (''materialId'', JNum 0)]])"

text \<open>\<open>l[1]\<close> of a material that is offered for another.\<close>

definition same_color :: "json \<Rightarrow> json" where
  "same_color l = (case l of
     JArr (a # JStr t # xs) \<Rightarrow> JArr (a # JStr (if length t = 7 then ''#'' @ drop 1 t else t) # xs) | _ \<Rightarrow> l)"

definition cloud_boxes :: "json \<Rightarrow> (json \<times> json list) list" where
  "cloud_boxes r =
     map (\<lambda>(a, b). cloud_box a b) (enumerate 1 (elements (jget r ''cfsList'')))
     @ (if hasOwn r ''rackFilament'' then [rack_box (jget r ''rackFilament'')] else [])"

definition setCFSFromCxCloud :: "(json \<Rightarrow> string) \<Rightarrow> string \<Rightarrow> json \<Rightarrow> dashboard \<Rightarrow> dashboard option" where
  "setCFSFromCxCloud stringify t r s =
     (if nullish r then Some s
      else
        let bs = cloud_boxes r; cs = concat (map snd bs);
            sm = (if hasOwn r ''same_material'' then JArr (map same_color (elements (jget r ''same_material''))) else JArr []);
            h = stringHash (stringify (JObj [(''boxColorInfo'', JArr cs), (''materialBoxs'', JArr (map fst bs)), (''same_material'', sm)]))
        in (case getPrinter t s of
              None \<Rightarrow> None
            | Some i \<Rightarrow>
                Some (upd i (\<lambda>p. if hashBoxsInfo (boxsInfo p) \<noteq> Some h
                  then p\<lparr>boxsInfo := (boxsInfo p)\<lparr>hashBoxsInfo := Some h, boxColorInfo := cs, materialBoxs := map fst bs,
                         same_material := sm\<rparr>\<rparr> else p) s)))"

text \<open>\<open>Number(v) || d\<close>.\<close>

definition number_or :: "json \<Rightarrow> rat \<Rightarrow> json" where
  "number_or v d = JNum (case to_number v of None \<Rightarrow> d | Some q \<Rightarrow> if q = 0 then d else q)"

definition cloud_spool :: "json \<Rightarrow> json \<Rightarrow> json" where
  "cloud_spool r i =
     (if jget i ''cId'' = jget r ''cId''
      then with_prop ''pressure'' (number_or (jget r ''cPressureAdvance'') 0)
             (with_prop ''vendor'' (jget r ''cBrandName'')
               (with_prop ''minTemp'' (number_or (jget r ''nozzleTempMin'') 0)
                 (with_prop ''maxTemp'' (number_or (jget r ''nozzleTempMax'') 220)
                   (with_prop ''name'' (jget r ''name'') i))))
      else i)"

definition spools_of_box :: "json \<Rightarrow> json \<Rightarrow> json" where
  "spools_of_box r a =
     (case jget a ''materials'' of JArr ms \<Rightarrow> with_prop ''materials'' (JArr (map (cloud_spool r) ms)) a | _ \<Rightarrow> a)"

definition setCFSInfoFromCxCloud :: "string \<Rightarrow> json \<Rightarrow> dashboard \<Rightarrow> dashboard option" where
  "setCFSInfoFromCxCloud t r s =
     (if nullish r then Some s
      else map_option (\<lambda>n. upd n (\<lambda>p. p\<lparr>boxsInfo := (boxsInfo p)\<lparr>materialBoxs := map (spools_of_box r) (materialBoxs (boxsInfo p))\<rparr>\<rparr>) s)
             (getPrinter t s))"

definition setFilamentBrandFromCxCloud :: "string \<Rightarrow> json \<Rightarrow> dashboard \<Rightarrow> dashboard option" where
  "setFilamentBrandFromCxCloud t r s =
     (if nullish r then Some s else map_option (\<lambda>n. upd n (\<lambda>p. p\<lparr>material := jget r ''list''\<rparr>) s) (getPrinter t s))"

definition setCFSBoxsConfigFromCxCloud :: "string \<Rightarrow> json \<Rightarrow> dashboard \<Rightarrow> dashboard option" where
  "setCFSBoxsConfigFromCxCloud t r s =
     (if nullish r then Some s
      else map_option (\<lambda>n. upd n (\<lambda>p.
          let b = (boxConfig p)\<lparr>cAutoFeed := jget r ''cAutoFeed'', cSelfTest := jget r ''cSelfTest'', autoRefill := jget r ''autoRefill''\<rparr>
          in p\<lparr>boxConfig := field ''ignoreColorAutoFeed'' (\<lambda>v b. b\<lparr>ignoreColorAutoFeed := v\<rparr>) r b\<rparr>) s) (getPrinter t s))"

end
