(* ===== verification/CloudProps.thy ===== *)
theory CloudProps
  imports CloudData DataProps
begin

text \<open>
  What holds of the cloud's data: a printer that is linked to a local one keeps the state the
  local one reports, a printer is online when the cloud last said so, and every colour on
  offer is the colour of a material in a box, wherever the boxes come from.
\<close>

section \<open>Devices\<close>

lemma telemetry_keeps:
  "online (fold (cloud_telemetry pg) xs p) = online p" "address (fold (cloud_telemetry pg) xs p) = address p"
  "identity (fold (cloud_telemetry pg) xs p) = identity p" "oldPrinter (fold (cloud_telemetry pg) xs p) = oldPrinter p"
  "boxsInfo (fold (cloud_telemetry pg) xs p) = boxsInfo p" "temperature (fold (cloud_telemetry pg) xs p) = temperature p"
  by (induction xs arbitrary: p) (simp_all add: cloud_telemetry_def take_left_time_def)

lemma cloud_state_keeps [simp]:
  "online (cloud_state pg r p) = online p" "address (cloud_state pg r p) = address p"
  "identity (cloud_state pg r p) = identity p" "oldPrinter (cloud_state pg r p) = oldPrinter p"
  "boxsInfo (cloud_state pg r p) = boxsInfo p"
  by (simp_all add: cloud_state_def Let_def telemetry_keeps)

lemma cloud_base_keeps [simp]:
  "address (cloud_base r p) = address p" "identity (cloud_base r p) = identity p" "oldPrinter (cloud_base r p) = oldPrinter p"
  "boxsInfo (cloud_base r p) = boxsInfo p" "online (cloud_base r p) \<longleftrightarrow> \<not> eq_num (jget r ''deviceState'') (- 1)"
  by (simp_all add: cloud_base_def)

lemma cloud_twin_keeps [simp]:
  "all_refs (cloud_twin n s) = all_refs s" "address (printers (cloud_twin n s) k) = address (printers s k)"
  "identity (printers (cloud_twin n s) k) = identity (printers s k)"
  "oldPrinter (printers (cloud_twin n s) k) = oldPrinter (printers s k)"
  "online (printers (cloud_twin n s) k) = online (printers s k)"
  "boxsInfo (printers (cloud_twin n s) k) = boxsInfo (printers s k)"
  "k \<noteq> n \<Longrightarrow> printers (cloud_twin n s) k = printers s k"
  by (simp_all add: cloud_twin_def split: option.split)

lemma cloud_device_keeps [simp]:
  "all_refs (cloud_device_data pg r s) = all_refs s"
  "address (printers (cloud_device_data pg r s) k) = address (printers s k)"
  "identity (printers (cloud_device_data pg r s) k) = identity (printers s k)"
  "oldPrinter (printers (cloud_device_data pg r s) k) = oldPrinter (printers s k)"
  "boxsInfo (printers (cloud_device_data pg r s) k) = boxsInfo (printers s k)"
  by (simp_all add: cloud_device_data_def Let_def split: option.split)

lemma named_printer_same:
  assumes "all_refs s' = all_refs s" "\<And>k. address (printers s' k) = address (printers s k)"
  shows "named_printer v s' = named_printer v s"
  using assms by (simp add: named_printer_def getPrinter_find_ref find_ref_def has_address_def split: json.split)

lemma named_printer_device [simp]: "named_printer v (cloud_device_data pg r s) = named_printer v s"
  by (rule named_printer_same) simp_all

lemma cloud_device_online:
  "online (printers (cloud_device_data pg r s) k) =
     (if named_printer (jget r ''deviceName'') s = Some k then \<not> eq_num (jget r ''deviceState'') (- 1) else online (printers s k))"
  by (simp add: cloud_device_data_def Let_def split: option.split)

lemma cloud_devices_online:
  assumes "\<forall>r \<in> set rs. named_printer (jget r ''deviceName'') s = Some n \<longrightarrow> (eq_num (jget r ''deviceState'') (- 1) \<longleftrightarrow> b)"
  shows "online (printers (fold (cloud_device_data pg) rs s) n) =
     (if \<exists>r \<in> set rs. named_printer (jget r ''deviceName'') s = Some n then \<not> b else online (printers s n))"
  using assms
proof (induction rs arbitrary: s)
  case (Cons r rs)
  show ?case
    using Cons.IH [of "cloud_device_data pg r s"] Cons.prems by (auto simp: cloud_device_online)
qed simp

text \<open>The cloud's list of devices sets, of a printer that is linked to a local printer and
  is not an old one, nothing but its name, its data and whether it is online, so that what
  the local printer reports stays on the display.\<close>

theorem cloud_leaves_linked_printers:
  assumes "identity (printers s n) \<noteq> None" "\<not> oldPrinter (printers s n)"
  shows "\<exists>d nm on. printers (setDataFromCxCloud pg t s) n = (printers s n)\<lparr>data := d, name := nm, online := on\<rparr>"
proof -
  have "\<exists>d nm on. printers (fold (cloud_device_data pg) rs s) n = (printers s n)\<lparr>data := d, name := nm, online := on\<rparr>" for rs
    using assms
  proof (induction rs arbitrary: s)
    case Nil
    have "printers s n = (printers s n)\<lparr>data := data (printers s n), name := name (printers s n), online := online (printers s n)\<rparr>"
      by simp
    then show ?case by (metis fold_simps(1))
  next
    case (Cons r rs)
    have "\<exists>d nm on. printers (cloud_device_data pg r s) n = (printers s n)\<lparr>data := d, name := nm, online := on\<rparr>"
    proof (cases "named_printer (jget r ''deviceName'') s = Some n")
      case True
      then have "printers (cloud_device_data pg r s) n = cloud_base r (printers s n)"
        using Cons.prems by (simp add: cloud_device_data_def Let_def)
      then show ?thesis unfolding cloud_base_def by blast
    next
      case False
      then have "printers (cloud_device_data pg r s) n = printers s n"
        by (auto simp: cloud_device_data_def Let_def split: option.split)
      then have "printers (cloud_device_data pg r s) n = (printers s n)\<lparr>data := data (printers s n),
          name := name (printers s n), online := online (printers s n)\<rparr>" by simp
      then show ?thesis by blast
    qed
    moreover obtain d nm on where "printers (fold (cloud_device_data pg) rs (cloud_device_data pg r s)) n =
        (printers (cloud_device_data pg r s) n)\<lparr>data := d, name := nm, online := on\<rparr>"
      using Cons.IH [of "cloud_device_data pg r s"] Cons.prems by auto
    ultimately obtain d nm on where
        "printers (fold (cloud_device_data pg) rs (cloud_device_data pg r s)) n = (printers s n)\<lparr>data := d, name := nm, online := on\<rparr>"
      by force
    then show ?case unfolding fold.simps comp_apply by blast
  qed
  then show ?thesis by (simp add: setDataFromCxCloud_def)
qed

text \<open>A printer the cloud's list names is online afterwards exactly when the list does not
  give it the state -1, if the list says the same of it each time it names it, and the
  other printers stay as they were.\<close>

theorem cloud_says_who_is_online:
  assumes "\<forall>r \<in> set (elements t). named_printer (jget r ''deviceName'') s = Some n
      \<longrightarrow> (eq_num (jget r ''deviceState'') (- 1) \<longleftrightarrow> b)"
  shows "online (printers (setDataFromCxCloud pg t s) n) =
     (if \<exists>r \<in> set (elements t). named_printer (jget r ''deviceName'') s = Some n then \<not> b else online (printers s n))"
  unfolding setDataFromCxCloud_def by (rule cloud_devices_online [OF assms])

section \<open>Colours on offer\<close>

text \<open>Each colour is that of a material in a box, with the numbers the colour gives.\<close>

definition in_a_box :: "json list \<Rightarrow> json \<Rightarrow> bool" where
  "in_a_box bs c \<longleftrightarrow> (\<exists>x \<in> set bs. jget x ''id'' = jget c ''boxId'' \<and> jget x ''type'' = jget c ''boxType''
     \<and> (\<exists>m \<in> set (elements (jget x ''materials'')). jget m ''id'' = jget c ''materialId'' \<and> jget m ''color'' = jget c ''color''))"

lemma in_a_boxI:
  "x \<in> set bs \<Longrightarrow> m \<in> set (elements (jget x ''materials'')) \<Longrightarrow> jget x ''id'' = jget c ''boxId'' \<Longrightarrow> jget x ''type'' = jget c ''boxType''
    \<Longrightarrow> jget m ''id'' = jget c ''materialId'' \<Longrightarrow> jget m ''color'' = jget c ''color'' \<Longrightarrow> in_a_box bs c"
  by (auto simp: in_a_box_def)

definition boxes_ok :: "printer_boxsInfo \<Rightarrow> bool" where
  "boxes_ok b \<longleftrightarrow> (\<forall>c \<in> set (boxColorInfo b). in_a_box (materialBoxs b) c)"

lemma jget_with_prop: "jget (with_prop k v m) j = (if j = k \<and> (\<exists>ps. m = JObj ps) then v else jget m j)"
  by (cases m) (simp_all add: with_prop_def update_conv')

lemma hasOwn_object: "hasOwn m k \<Longrightarrow> \<exists>ps. m = JObj ps"
  by (cases m) (simp_all add: hasOwn_def)

text \<open>Boxes from the printer.\<close>

lemma format_material_colors:
  assumes "c \<in> set (snd (format_material t x l))"
  shows "jget c ''boxId'' = jget x ''id'' \<and> jget c ''boxType'' = jget x ''type''
    \<and> jget (fst (format_material t x l)) ''id'' = jget c ''materialId''
    \<and> jget (fst (format_material t x l)) ''color'' = jget c ''color''"
proof -
  define l1 where "l1 = (if jget l ''name'' \<noteq> JStr []
      then (case findUserMaterialByName t (jget l ''name'') of None \<Rightarrow> l
            | Some a \<Rightarrow> if truthy (jget a ''userMaterial'')
                then with_prop ''userMaterial'' (JStr (box_part (the_text (jget a ''userMaterial'')))) l else l)
      else l)"
  have own: "hasOwn l1 ''color''"
    using assms by (auto simp: format_material_def Let_def l1_def [symmetric] split: if_splits)
  then show ?thesis
    using assms hasOwn_object [OF own] by (auto simp: format_material_def Let_def l1_def [symmetric] jget_with_prop)
qed

lemma format_box_colors:
  assumes "c \<in> set (snd (format_box t x))"
  shows "in_a_box [fst (format_box t x)] c"
proof -
  obtain ls where ls: "jget x ''materials'' = JArr ls"
    using assms by (auto simp: format_box_def split: json.splits)
  then have x: "\<exists>ps. x = JObj ps" by (cases x) simp_all
  obtain l where "l \<in> set ls" "c \<in> set (snd (format_material t x l))"
    using assms ls by (auto simp: format_box_def)
  then show ?thesis
    using format_material_colors [of c t x l] ls x
    by (auto simp: in_a_box_def format_box_def jget_with_prop elements_def)
qed

lemma in_a_box_mono: "in_a_box bs c \<Longrightarrow> set bs \<subseteq> set bs' \<Longrightarrow> in_a_box bs' c"
  by (auto simp: in_a_box_def)

lemma device_boxes_ok:
  assumes "boxes_ok (boxsInfo p)"
  shows "boxes_ok (boxsInfo (formatBoxsInfoData pg r p))"
proof -
  have "in_a_box (map (fst \<circ> format_box q) bs) c" if "c \<in> set (concat (map (snd \<circ> format_box q) bs))" for q bs c
    using that format_box_colors in_a_box_mono by fastforce
  then show ?thesis
    using assms by (auto simp: formatBoxsInfoData_def Let_def field_def boxes_ok_def comp_def split: json.split)
qed

text \<open>Boxes from the cloud.\<close>

lemma cloud_box_colors:
  assumes "c \<in> set (snd (cloud_box a b))"
  shows "in_a_box [fst (cloud_box a b)] c"
proof -
  obtain d u where u: "(d, u) \<in> set (enumerate 0 (elements (jget b ''portList'')))" "c = port_color a d u"
    using assms by (auto simp: cloud_box_def Let_def)
  have "port_material d u \<in> set (elements (jget (fst (cloud_box a b)) ''materials''))"
    using u(1) by (force simp: cloud_box_def Let_def elements_def)
  then show ?thesis
    by (rule in_a_boxI [rotated]) (simp_all add: u(2) port_color_def port_material_def cloud_box_def Let_def)
qed

lemma rack_box_colors: "c \<in> set (snd (rack_box r)) \<Longrightarrow> in_a_box [fst (rack_box r)] c"
  by (auto simp: in_a_box_def rack_box_def rack_material_def elements_def)

lemma cloud_boxes_ok:
  assumes "c \<in> set (concat (map snd (cloud_boxes r)))"
  shows "in_a_box (map fst (cloud_boxes r)) c"
proof -
  obtain b where b: "b \<in> set (cloud_boxes r)" "c \<in> set (snd b)" using assms by auto
  then have "in_a_box [fst b] c"
    using cloud_box_colors rack_box_colors by (auto simp: cloud_boxes_def split: if_splits)
  then show ?thesis using b in_a_box_mono [of "[fst b]" c "map fst (cloud_boxes r)"] by simp
qed

lemma spools_keep:
  "jget (cloud_spool r i) ''id'' = jget i ''id''" "jget (cloud_spool r i) ''color'' = jget i ''color''"
  "jget (spools_of_box r a) ''id'' = jget a ''id''" "jget (spools_of_box r a) ''type'' = jget a ''type''"
  by (auto simp: cloud_spool_def spools_of_box_def jget_with_prop split: json.split)

lemma spools_in_a_box:
  assumes "in_a_box bs c"
  shows "in_a_box (map (spools_of_box r) bs) c"
proof -
  obtain x m where x: "x \<in> set bs" "jget x ''id'' = jget c ''boxId''" "jget x ''type'' = jget c ''boxType''"
      "m \<in> set (elements (jget x ''materials''))" "jget m ''id'' = jget c ''materialId''" "jget m ''color'' = jget c ''color''"
    using assms by (auto simp: in_a_box_def)
  then obtain ms where ms: "jget x ''materials'' = JArr ms" "m \<in> set ms" by (cases "jget x ''materials''") (auto simp: elements_def)
  then have "\<exists>ps. x = JObj ps" by (cases x) simp_all
  then have "cloud_spool r m \<in> set (elements (jget (spools_of_box r x) ''materials''))"
    using ms by (auto simp: spools_of_box_def jget_with_prop elements_def)
  then show ?thesis using x by (intro in_a_boxI [of "spools_of_box r x" _ "cloud_spool r m"]) (simp_all add: spools_keep)
qed


text \<open>A message of a local printer touches the boxes in one place.\<close>

lemma boxes_fields [simp]:
  "boxsInfo (on_err f p) = boxsInfo p" "boxsInfo (on_ctrol g v p) = boxsInfo p" "boxsInfo (set_error k p) = boxsInfo p"
  "boxsInfo (keep_data pg m p) = boxsInfo p" "boxsInfo (take_left_time pg v p) = boxsInfo p"
  "boxsInfo (take_file_name v p) = boxsInfo p" "boxsInfo (take_model ps v p) = boxsInfo p"
  "boxsInfo (choose_video pg p) = boxsInfo p" "boxsInfo (formatTemperatureData pg m p) = boxsInfo p"
  "boxsInfo (formatMaterialData pg m p) = boxsInfo p"
  by (simp_all add: on_err_def on_ctrol_def set_error_def keep_data_def fold_keep [where T = boxsInfo] take_left_time_def
      take_file_name_def take_model_def choose_video_def Let_def formatTemperatureData_def formatMaterialData_def
      split: json.split)

lemma errors_boxes [simp]: "boxsInfo (take_errors m p) = boxsInfo p"
  by (simp add: take_errors_def Let_def set_errLevel_def take_power_loss_def take_material_status_def field_def)

lemma parts_boxes [simp]:
  "boxsInfo (take_first pg ps m p) = boxsInfo p" "boxsInfo (take_second pg m p) = boxsInfo p"
  "boxsInfo (formatObjectData parse m p) = boxsInfo p" "boxsInfo (fields late_fields m p) = boxsInfo p"
proof -
  show "boxsInfo (take_first pg ps m p) = boxsInfo p"
    unfolding take_first_def Let_def by (subst fields_keep [where T = boxsInfo]) auto
  show "boxsInfo (take_second pg m p) = boxsInfo p"
    unfolding take_second_def
    by (subst fields_keep [where T = boxsInfo], force, subst boxes_fields, subst fields_keep [where T = boxsInfo]) auto
  show "boxsInfo (formatObjectData parse m p) = boxsInfo p"
    unfolding formatObjectData_def by (rule fields_keep [where T = boxsInfo]) auto
  show "boxsInfo (fields late_fields m p) = boxsInfo p"
    by (rule fields_keep [where T = boxsInfo]) (auto simp: late_fields_def)
qed

lemma third_boxes_ok:
  assumes "boxes_ok (boxsInfo p)"
  shows "boxes_ok (boxsInfo (take_third pg parse m p))"
proof -
  define p1 where "p1 = fields
     [(''layer'', \<lambda>v p. p\<lparr>layer := v\<rparr>), (''TotalLayer'', \<lambda>v p. p\<lparr>TotalLayer := v\<rparr>),
      (''materialCutterState'', \<lambda>v p. p\<lparr>materialCutterState := v\<rparr>)] m p"
  define p2 where "p2 = (if hasOwn m ''bedTemp0'' \<or> hasOwn m ''nozzleTemp'' \<or> hasOwn m ''boxTemp''
                then formatTemperatureData pg m p1 else p1)"
  have "boxsInfo p1 = boxsInfo p"
    unfolding p1_def by (rule fields_keep [where T = boxsInfo]) force
  then have "boxsInfo p2 = boxsInfo p" by (simp add: p2_def)
  then have "boxes_ok (boxsInfo (formatBoxsInfoData pg m (formatObjectData parse m p2)))"
    using assms by (intro device_boxes_ok) simp
  moreover have "boxsInfo (take_third pg parse m p) = boxsInfo (formatBoxsInfoData pg m (formatObjectData parse m p2))"
    unfolding take_third_def Let_def p1_def [symmetric] p2_def [symmetric] by (simp add: if_distrib [where f = boxsInfo])
  ultimately show ?thesis by simp
qed

lemma reconnect_boxes [simp]: "boxsInfo (printers (reconnectWebSocket t s) n) = boxsInfo (printers s n)"
  by (simp add: reconnectWebSocket_def Let_def)

lemma take_state_boxes [simp]: "boxsInfo (printers (take_state n m s) k) = boxsInfo (printers s k)"
  by (simp add: take_state_def Let_def)

lemma share_boxes:
  "boxsInfo (printers (share_with_identity n s) k) \<in> {boxsInfo (printers s k), boxsInfo (printers s n)}"
  by (auto simp: share_with_identity_def Let_def copy_printer_def split: option.split)

lemma device_message_boxes_ok:
  assumes "\<And>n. boxes_ok (boxsInfo (printers s n))"
  shows "boxes_ok (boxsInfo (printers (setDataFromDevice pg parse ip m s) k))"
proof (cases "receiver ip s")
  case (Some n)
  let ?s = "upd n (take_third pg parse m) (take_state n m (upd n (take_second pg m) (upd n (take_first pg (printerPreset s) m) s)))"
  have "boxes_ok (boxsInfo (printers ?s j))" for j
    using assms third_boxes_ok by simp
  then have "boxes_ok (boxsInfo (printers (share_with_identity n ?s) k))"
    using share_boxes [of n ?s k] by (auto simp del: upd_fields)
  then show ?thesis using Some by (simp add: setDataFromDevice_def receiver_def)
qed (use assms in \<open>simp add: setDataFromDevice_def receiver_def\<close>)

section \<open>All sources of boxes\<close>

datatype box_op =
    DeviceMessage page "json \<Rightarrow> json" string json
  | CloudDevices page json
  | CloudBoxes "json \<Rightarrow> string" string json
  | CloudSpools string json

fun apply_box_op :: "box_op \<Rightarrow> dashboard \<Rightarrow> dashboard" where
  "apply_box_op (DeviceMessage pg parse ip m) s = setDataFromDevice pg parse ip m s"
| "apply_box_op (CloudDevices pg t) s = setDataFromCxCloud pg t s"
| "apply_box_op (CloudBoxes stringify t r) s = (case setCFSFromCxCloud stringify t r s of None \<Rightarrow> s | Some s1 \<Rightarrow> s1)"
| "apply_box_op (CloudSpools t r) s = (case setCFSInfoFromCxCloud t r s of None \<Rightarrow> s | Some s1 \<Rightarrow> s1)"

lemma box_op_keeps:
  assumes "\<And>n. boxes_ok (boxsInfo (printers s n))"
  shows "boxes_ok (boxsInfo (printers (apply_box_op c s) k))"
proof (cases c)
  case (DeviceMessage pg parse ip m)
  then show ?thesis using device_message_boxes_ok assms by simp
next
  case (CloudDevices pg t)
  have "boxsInfo (printers (fold (cloud_device_data pg) rs s) k) = boxsInfo (printers s k)" for rs
    by (induction rs arbitrary: s) simp_all
  then show ?thesis using CloudDevices assms by (simp add: setDataFromCxCloud_def)
next
  case (CloudBoxes stringify t r)
  have "boxes_ok (b\<lparr>hashBoxsInfo := h, boxColorInfo := concat (map snd (cloud_boxes r)),
      materialBoxs := map fst (cloud_boxes r), same_material := sm\<rparr>)" for b h sm
    using cloud_boxes_ok by (simp add: boxes_ok_def)
  then show ?thesis
    using CloudBoxes assms by (simp add: setCFSFromCxCloud_def Let_def split: option.split)
next
  case (CloudSpools t r)
  have "boxes_ok (b\<lparr>materialBoxs := map (spools_of_box r) (materialBoxs b)\<rparr>)" if "boxes_ok b" for b
    using that spools_in_a_box by (simp add: boxes_ok_def)
  then show ?thesis using CloudSpools assms by (simp add: setCFSInfoFromCxCloud_def split: option.split)
qed

text \<open>C12: However the messages of the printers and the answers of the cloud follow each other,
  every colour a printer offers is the colour of a material in one of its boxes, with the
  number and kind of the box and the number of the material that the colour gives.\<close>

theorem colours_are_in_boxes:
  assumes "\<forall>n. boxColorInfo (boxsInfo (printers s n)) = []"
  shows "boxes_ok (boxsInfo (printers (fold apply_box_op cs s) k))"
proof -
  have "\<forall>n. boxes_ok (boxsInfo (printers s n)) \<Longrightarrow> \<forall>n. boxes_ok (boxsInfo (printers (fold apply_box_op cs s) n))" for s
    by (induction cs arbitrary: s) (auto simp: box_op_keeps)
  then show ?thesis using assms by (simp add: boxes_ok_def)
qed

section \<open>Witnesses\<close>

definition demo_linked :: dashboard where
  "demo_linked = upd 0 (\<lambda>p. p\<lparr>identity := Some ''b''\<rparr>) demo_board"

definition demo_cloud :: json where
  "demo_cloud = JArr [JObj [(''deviceName'', JStr ''a''), (''deviceState'', JNum (- 1)), (''aliasName'', JStr ''x'')],
     JObj [(''deviceName'', JStr ''c''), (''deviceState'', JNum 1), (''aliasName'', JStr ''y'')]]"

lemma demo_linked_fields [simp]:
  "all_refs demo_linked = [0, 1, 2]" "printers demo_linked 0 = (demo_printer ''a'')\<lparr>identity := Some ''b''\<rparr>"
  "k \<noteq> 0 \<Longrightarrow> printers demo_linked k = printers demo_board k"
  by (simp_all add: demo_linked_def)

lemma demo_named [simp]:
  "named_printer (JStr ''a'') demo_linked = Some 0" "named_printer (JStr ''c'') demo_linked = Some 2"
  by (simp_all add: named_printer_def getPrinter_find_ref find_ref_def has_address_def)

theorem cloud_leaves_linked_printers_witness:
  "state (printers (setDataFromCxCloud demo_page demo_cloud demo_linked) 0) = state (demo_printer ''a'')"
proof -
  obtain d nm on where "printers (setDataFromCxCloud demo_page demo_cloud demo_linked) 0 =
      (printers demo_linked 0)\<lparr>data := d, name := nm, online := on\<rparr>"
    using cloud_leaves_linked_printers [of demo_linked 0 demo_page demo_cloud] by auto
  then show ?thesis by simp
qed

theorem cloud_says_who_is_online_witness:
  "\<not> online (printers (setDataFromCxCloud demo_page demo_cloud demo_linked) 0)
   \<and> online (printers (setDataFromCxCloud demo_page demo_cloud demo_linked) 2)"
  using cloud_says_who_is_online [of demo_cloud demo_linked 0 True demo_page]
    cloud_says_who_is_online [of demo_cloud demo_linked 2 False demo_page]
  by (simp add: demo_cloud_def elements_def)

theorem colours_are_in_boxes_witness:
  "boxes_ok (boxsInfo (printers (fold apply_box_op
     [DeviceMessage demo_page id (dm_ip demo_dm) demo_boxes, CloudSpools ''a'' (JObj [])] demo_board) 0))"
  by (rule colours_are_in_boxes) (simp add: demo_printer_def initial_printer_def)

end
