(* ===== verification/WindowMessages.thy ===== *)
theory WindowMessages
  imports PlatePrint Klipper
begin

text \<open>
  The handlers of the window's messages (class \<open>_n\<close> of \<open>CeX73yR3.js\<close>) that answer with
  copies of printers or change marks, and the two functions the window calls while it
  uploads a file, \<open>updateProgress\<close> and \<open>uploadStatus\<close>.  The handlers of the colour matches
  and of the commands are in \<open>ColorMatch\<close>, \<open>PlatePrint\<close> and \<open>ErrorTip\<close>.

  A handler that reads a text catches what \<open>JSON.parse\<close> throws: \<open>parse\<close> then returns \<open>None\<close>.
\<close>

section \<open>Copies of printers\<close>

definition text_or_absent :: "string option \<Rightarrow> json" where
  "text_or_absent v = (case v of None \<Rightarrow> JUndefined | Some t \<Rightarrow> JStr t)"

text \<open>A printer as a message to the window shows it, in three forms; absent values are not
  written.\<close>

definition card_head :: "printer \<Rightarrow> (string \<times> json) list" where
  "card_head p =
     [(''address'', JStr (address p)), (''mac'', JStr (mac p)), (''model'', JStr (model p)), (''online'', JBool (online p)),
      (''modelName'', modelName p), (''deviceState'', deviceState p), (''boxColorInfo'', JArr (boxColorInfo (boxsInfo p))),
      (''materialBoxs'', JArr (materialBoxs (boxsInfo p))), (''name'', text_or_absent (name p))]"

definition card_tail :: "printer \<Rightarrow> (string \<times> json) list" where
  "card_tail p = [(''deviceType'', JNum (of_int (deviceType p))), (''isCurrentDevice'', JBool (isCurrentDevice p))]"

definition short_card :: "int \<Rightarrow> printer \<Rightarrow> json" where
  "short_card now p = written (card_head p @
     [(''sync_time'', JNum (of_int now)), (''group'', JStr ''groupName'')] @ card_tail p)"

definition full_card :: "int \<Rightarrow> printer \<Rightarrow> json" where
  "full_card now p = written (card_head p @
     [(''group'', JStr ''groupName''), (''sync_time'', JNum (of_int now))] @ card_tail p @
     [(''printFileName'', printFileName p), (''printLeftTime'', printLeftTime p), (''printJobTime'', printJobTime p),
      (''printProgress'', printProgress p)])"

definition current_card :: "int \<Rightarrow> nat option \<Rightarrow> dashboard \<Rightarrow> json" where
  "current_card now a s = (case a of None \<Rightarrow> JObj [] | Some n \<Rightarrow> full_card now (printers s n))"

text \<open>The literal names \<open>modelVersion\<close> twice: the second value, of \<open>refreshBox\<close>, is the one it
  has.\<close>

definition list_card :: "printer \<Rightarrow> json" where
  "list_card p = written
     [(''address'', JStr (address p)), (''mac'', JStr (mac p)), (''model'', JStr (model p)), (''online'', JBool (online p)),
      (''deviceState'', deviceState p), (''boxColorInfo'', JArr (boxColorInfo (boxsInfo p))),
      (''name'', text_or_absent (name p)), (''group'', JStr ''groupName''),
      (''deviceType'', JNum (of_int (deviceType p))), (''webrtcSupport'', webrtcSupport p),
      (''isCurrentDevice'', JBool (isCurrentDevice p)), (''tbId'', if nullish (tbId p) then JStr [] else tbId p),
      (''materialDetector1'', materialDetector1 p), (''machinePlatformMotionEnable'', machinePlatformMotionEnable p),
      (''modelVersion'', refreshBox p)]"

section \<open>Answers\<close>

definition post :: "(string \<times> json) list \<Rightarrow> dashboard \<Rightarrow> dashboard" where
  "post ps s = emit_call (PostMessage (written ps)) s"

definition set_current_device :: "json \<Rightarrow> dashboard \<Rightarrow> dashboard" where
  "set_current_device t s = post [(''command'', JStr ''set_current_device''), (''device_id'', t)] s"

definition HandleSetDeviceRelateToAccount :: "string \<Rightarrow> dashboard \<Rightarrow> dashboard" where
  "HandleSetDeviceRelateToAccount t s =
     (case getPrinter t s of
        None \<Rightarrow> s
      | Some n \<Rightarrow>
          let r = printers s n in
          post [(''command'', JStr ''set_device_relate_to_account''), (''ipAddress'', JStr (address r)),
                (''device_mac'', JStr (mac r)), (''device_name'', text_or_absent (name r)), (''device_model'', JStr (model r)),
                (''device_group'', JStr (getGroupNameByMac (mac r) s)), (''relateState'', JBool (isRelatedToAccount r)),
                (''type'', JNum (of_int (type r)))] s)"

definition requestUpdateDeviceRelateToAccountState :: "dashboard \<Rightarrow> dashboard" where
  "requestUpdateDeviceRelateToAccountState s =
     post [(''command'', JStr ''request_update_device_relate_to_account'')] s"

definition HandleRequestAllDevices :: "dashboard \<Rightarrow> dashboard" where
  "HandleRequestAllDevices s =
     post [(''command'', JStr ''receive_device_list''),
       (''data'', JArr (map (\<lambda>n. list_card (printers s n)) (filter (\<lambda>n. deviceType (printers s n) < 5) (getAllPrinters s))))] s"

text \<open>The macs an account is bound to; \<open>null\<close> stands for none.\<close>

definition macs_of :: "json \<Rightarrow> string list option" where
  "macs_of v = (case v of JArr xs \<Rightarrow> Some (map the_text xs) | _ \<Rightarrow> None)"

definition HandleUpdateDeviceRelateAccountState :: "(string \<Rightarrow> json option) \<Rightarrow> string \<Rightarrow> dashboard \<Rightarrow> dashboard" where
  "HandleUpdateDeviceRelateAccountState parse t s =
     (case parse t of
        None \<Rightarrow> clearAllPrinterRelateToAccountState s
      | Some r \<Rightarrow>
          if nullish r then clearAllPrinterRelateToAccountState s
          else updatePrinterRelateToAccountState (macs_of (jget r ''accout_binded_devices'')) s)"

text \<open>Afterwards \<open>sendDevices\<close> hands a copy of the store to the window, which changes
  nothing here.\<close>

definition handle_update_which_device_is_current :: "string \<Rightarrow> dashboard \<Rightarrow> dashboard" where
  "handle_update_which_device_is_current d s =
     set_current_device (JStr d) (setPrinterCurrentDeviceByMac d (setCurrentActivePrinterMac [] s))"

definition by_mac :: "json \<Rightarrow> dashboard \<Rightarrow> nat option" where
  "by_mac v s = (case v of JStr t \<Rightarrow> getPrinterByMac t s | _ \<Rightarrow> None)"

definition handle_sync_device_filament_from_worlshop ::
    "int \<Rightarrow> (string \<Rightarrow> json option) \<Rightarrow> string \<Rightarrow> dashboard \<Rightarrow> dashboard" where
  "handle_sync_device_filament_from_worlshop now parse t s =
     (case parse t of
        None \<Rightarrow> s
      | Some r \<Rightarrow>
          if nullish r then s
          else post [(''command'', JStr ''sync_filament_result''),
                     (''device_info'', current_card now (by_mac (jget r ''device_id'') s) s)] s)"

text \<open>The printers of some macs, those that are listed, in the order of the macs.\<close>

definition listed :: "string list \<Rightarrow> dashboard \<Rightarrow> nat list" where
  "listed ms s = List.map_filter (\<lambda>m. getPrinterByMac m s) ms"

definition handle_request_current_device_info_for_workshop ::
    "int \<Rightarrow> bool \<Rightarrow> (string \<Rightarrow> json option) \<Rightarrow> string \<Rightarrow> dashboard \<Rightarrow> dashboard" where
  "handle_request_current_device_info_for_workshop now login parse t s =
     (case parse t of
        None \<Rightarrow> s
      | Some r \<Rightarrow>
          if nullish r then s
          else
            let a = by_mac (jget r ''current_device_id'') s;
                i = listed (if login then getRelatedToAccountPrinterMacs s else []) s
            in post [(''command'', JStr ''update_current_device_info''),
                     (''my_devices'', JArr (map (\<lambda>c. short_card now (printers s c)) i)),
                     (''current_device'', current_card now a s)] s)"

text \<open>\<open>my_devices\<close> is a text that holds the macs of the window's own list.\<close>

definition own_macs :: "(string \<Rightarrow> json option) \<Rightarrow> json \<Rightarrow> string list option" where
  "own_macs parse v =
     (if \<not> truthy v then Some []
      else (case parse (the_text v) of Some (JArr xs) \<Rightarrow> Some (map the_text xs) | _ \<Rightarrow> None))"

definition handle_request_device_info_for_workshop ::
    "int \<Rightarrow> (string \<Rightarrow> json option) \<Rightarrow> string \<Rightarrow> dashboard \<Rightarrow> dashboard" where
  "handle_request_device_info_for_workshop now parse t s =
     (case parse t of
        None \<Rightarrow> s
      | Some r \<Rightarrow>
          if nullish r then s
          else
            (case own_macs parse (jget r ''my_devices'') of
               None \<Rightarrow> s
             | Some a \<Rightarrow>
                 let l = listed (a @ getMacsOfCrealityCloudPrinter s) s
                 in post [(''command'', JStr ''update_device_info''),
                          (''my_devices'', JArr (map (\<lambda>d. short_card now (printers s d)) l)),
                          (''current_device'', current_card now (by_mac (jget r ''current_device_id'') s) s)] s))"

section \<open>Uploads\<close>

text \<open>\<open>console(..)\<close> calls an object, which throws: an unknown printer, an upload error and a
  missing plate end in a \<open>TypeError\<close>, \<open>None\<close>.\<close>

definition updateProgress :: "string \<Rightarrow> json \<Rightarrow> json \<Rightarrow> dashboard \<Rightarrow> dashboard option" where
  "updateProgress e t r s =
     map_option (\<lambda>n. upd n (\<lambda>p. p\<lparr>uploadGCodeProgress := t, uploadSpeed := r\<rparr>) s) (getPrinter e s)"

text \<open>\<open>Math.floor((s - 1) / 4 + 1)\<close> and the letter of the slot's place, for an extruder's number.\<close>

definition plate_slot :: "plate_store \<Rightarrow> json list \<Rightarrow> plate_match \<Rightarrow> json option" where
  "plate_slot d cs l =
     (case List.find (\<lambda>f. jget f ''color'' = JStr (pm_matchColor l)) cs of
        None \<Rightarrow> None
      | Some c \<Rightarrow>
          let x = pm_extruder l; ts = allFilamentTypes d
          in Some (written
            [(''id'', JStr (slot_name (Some (of_nat x)))),
             (''type'', if ts \<noteq> [] then at_js JUndefined ts x else JStr ''PLA''),
             (''color'', JStr (pm_matchColor l)), (''boxId'', jget c ''boxId''), (''materialId'', jget c ''materialId'')]))"

fun all_of :: "'a option list \<Rightarrow> 'a list option" where
  "all_of [] = Some []"
| "all_of (None # xs) = None"
| "all_of (Some x # xs) = map_option (Cons x) (all_of xs)"

definition calibration :: "printer \<Rightarrow> json" where
  "calibration r = (if printCalibration r then JNum 1 else JNum 0)"

text \<open>The matches of a printer with material boxes are replaced by an empty list.\<close>

definition uploadStatus :: "string \<Rightarrow> json \<Rightarrow> plate_store \<Rightarrow> dashboard \<Rightarrow> (resend option \<times> dashboard) option" where
  "uploadStatus e t d s =
     (case getPrinter e s of
        None \<Rightarrow> None
      | Some k \<Rightarrow>
          if t \<noteq> JNum 0 then None
          else (case getActivePlateData d of
                  None \<Rightarrow> None
                | Some n \<Rightarrow>
                    let r = printers s k; cs = boxColorInfo (boxsInfo r); f = js_text (uploadGCodeName n) in
                    if \<not> (sendGCodeOnly n = JBool False \<and> online r \<and> deviceState r = JNum 0) then Some (None, s)
                    else (case (if cs \<noteq> [] then Some [] else getPlatePrinterColorMatchInfo (plate_index n) e d) of
                            None \<Rightarrow> StartNormalPrint e (''/usr/data/printer_data/gcodes/'' @ f) (calibration r) s
                          | Some a \<Rightarrow>
                              (case all_of (map (plate_slot d cs) a) of
                                 None \<Rightarrow> None
                               | Some i \<Rightarrow>
                                   let o' = ''/mnt/UDISK/printer_data/gcodes/'' @ f in
                                   if a \<noteq> []
                                   then (case SetColorMatch e (JStr o') (JArr i) s of
                                           None \<Rightarrow> None
                                         | Some s1 \<Rightarrow>
                                             if openCFS r then StartMultiColorPrint e (JStr o') (calibration r) s1
                                             else StartNormalPrint e o' (calibration r) s1)
                                   else StartNormalPrint e o' (calibration r) s))))"

end
