(* ===== verification/WindowProps.thy ===== *)
theory WindowProps
  imports WindowMessages PrinterProps
begin

text \<open>
  What holds of the window's messages: the window's choice of the current printer is kept by
  mark and by name alike, and a file the window uploaded is never printed in the colours
  chosen for it.
\<close>

section \<open>The current printer\<close>

definition mark_step :: "string \<Rightarrow> nat \<Rightarrow> dashboard \<Rightarrow> dashboard" where
  "mark_step t n s =
     (if mac (printers s n) = t
      then setCurrentActivePrinterMac t (upd n (\<lambda>p. p\<lparr>isCurrentDevice := True\<rparr>) s)
      else upd n (\<lambda>p. p\<lparr>isCurrentDevice := False\<rparr>) s)"

lemma mark_step_fields:
  "printers (mark_step t n s) k =
     (if k = n then (printers s n)\<lparr>isCurrentDevice := (mac (printers s n) = t)\<rparr> else printers s k)"
  "currentActivePrinterMac (mark_step t n s) = (if mac (printers s n) = t then t else currentActivePrinterMac s)"
  by (simp_all add: mark_step_def setCurrentActivePrinterMac_def)

lemma marks_macs: "mac (printers (fold (mark_step t) ns s) k) = mac (printers s k)"
  by (induction ns arbitrary: s) (simp_all add: mark_step_fields)

lemma marks_current:
  "isCurrentDevice (printers (fold (mark_step t) ns s) k) =
     (if k \<in> set ns then mac (printers s k) = t else isCurrentDevice (printers s k))"
  by (induction ns arbitrary: s) (simp_all add: mark_step_fields)

lemma marks_name:
  "currentActivePrinterMac (fold (mark_step t) ns s) =
     (if \<exists>k \<in> set ns. mac (printers s k) = t then t else currentActivePrinterMac s)"
proof (induction ns arbitrary: s)
  case (Cons n ns)
  have "mac (printers (mark_step t n s) k) = mac (printers s k)" for k by (simp add: mark_step_fields)
  then show ?case by (simp add: Cons.IH mark_step_fields(2))
qed simp

lemma set_current_fields [simp]:
  "printers (set_current_device t s) = printers s" "all_refs (set_current_device t s) = all_refs s"
  "currentActivePrinterMac (set_current_device t s) = currentActivePrinterMac s"
  by (simp_all add: set_current_device_def post_def emit_call_def all_refs_def)

text \<open>When the window names the current printer, the listed printers with that mac are
  marked and no other, and the store names the mac exactly when such a printer is listed.\<close>

theorem window_chooses_the_current_printer:
  "(\<forall>k \<in> set (all_refs s). isCurrentDevice (printers (handle_update_which_device_is_current d s) k) \<longleftrightarrow> mac (printers s k) = d)
   \<and> currentActivePrinterMac (handle_update_which_device_is_current d s) = (if getPrinterByMac d s = None then [] else d)"
proof -
  let ?s = "setCurrentActivePrinterMac [] s"
  have s: "printers ?s = printers s" "all_refs ?s = all_refs s" "currentActivePrinterMac ?s = []"
    by (simp_all add: setCurrentActivePrinterMac_def all_refs_def)
  have "getPrinterByMac d s = None \<longleftrightarrow> \<not> (\<exists>k \<in> set (all_refs s). mac (printers s k) = d)"
    by (simp add: getPrinterByMac_def find_ref_None has_mac_def)
  then show ?thesis
    by (simp add: handle_update_which_device_is_current_def setPrinterCurrentDeviceByMac_def mark_step_def [symmetric]
        marks_current marks_name s)
qed

theorem window_chooses_the_current_printer_witness:
  "\<forall>k \<in> {0, 1, 2}. isCurrentDevice (printers (handle_update_which_device_is_current ''bmac'' demo_board) k) \<longleftrightarrow> k = 1"
  using window_chooses_the_current_printer [of demo_board "''bmac''"] by simp

section \<open>Uploads\<close>

lemma no_slot_without_boxes: "ms \<noteq> [] \<Longrightarrow> all_of (map (plate_slot d []) ms) = None"
  by (cases ms) (simp_all add: plate_slot_def)

lemma upload_result:
  assumes "uploadStatus e t d s = Some r" "getPrinter e s = Some k"
  shows "r = (None, s) \<or> (\<exists>path. StartNormalPrint e path (calibration (printers s k)) s = Some r)"
proof -
  let ?r = "printers s k" and ?X = "\<lambda>n. if boxColorInfo (boxsInfo (printers s k)) \<noteq> [] then Some []
      else getPlatePrinterColorMatchInfo (plate_index n) e d"
  have t: "t = JNum 0" using assms by (cases "t = JNum 0") (simp_all add: uploadStatus_def)
  obtain n where n: "getActivePlateData d = Some n"
    using assms t by (cases "getActivePlateData d") (simp_all add: uploadStatus_def)
  note u = assms(1) [unfolded uploadStatus_def Let_def, simplified assms(2) t n option.case simp_thms if_False if_True]
  show ?thesis
  proof (cases "sendGCodeOnly n = JBool False \<and> online ?r \<and> deviceState ?r = JNum 0")
    case True
    show ?thesis
    proof (cases "?X n")
      case None
      then show ?thesis using u True by (simp add: if_splits) blast
    next
      case (Some a)
      show ?thesis
      proof (cases "a = []")
        case True
        then show ?thesis using u Some \<open>sendGCodeOnly n = JBool False \<and> _\<close> by auto
      next
        case False
        then have "boxColorInfo (boxsInfo ?r) = []" using Some by (auto split: if_splits)
        then show ?thesis using u Some False \<open>sendGCodeOnly n = JBool False \<and> _\<close> no_slot_without_boxes [of a d] by simp
      qed
    qed
  qed (use u in auto)
qed

text \<open>A plate that is to be printed on a printer that is ready for it.\<close>

definition ready_to_print :: "plate \<Rightarrow> printer \<Rightarrow> bool" where
  "ready_to_print n r \<longleftrightarrow> sendGCodeOnly n = JBool False \<and> online r \<and> deviceState r = JNum 0"

text \<open>Whatever colours were matched to a plate, the end of its upload never sends them: the
  handler does nothing, or throws, or starts an ordinary print.  It throws whenever there
  are matches for a printer that has no material boxes to take them from.\<close>

theorem upload_never_sends_its_colours:
  assumes "getPrinter e s = Some k"
  shows "(\<forall>r. uploadStatus e t d s = Some r \<longrightarrow>
      r = (None, s) \<or> (\<exists>path. StartNormalPrint e path (calibration (printers s k)) s = Some r))
    \<and> (\<forall>n m ms. getActivePlateData d = Some n \<longrightarrow> ready_to_print n (printers s k)
        \<longrightarrow> getPlatePrinterColorMatchInfo (plate_index n) e d = Some (m # ms)
        \<longrightarrow> boxColorInfo (boxsInfo (printers s k)) = [] \<longrightarrow> uploadStatus e (JNum 0) d s = None)"
proof (intro conjI allI impI)
  show "r = (None, s) \<or> (\<exists>path. StartNormalPrint e path (calibration (printers s k)) s = Some r)"
    if "uploadStatus e t d s = Some r" for r
    using upload_result [OF that assms] .
  show "uploadStatus e (JNum 0) d s = None"
    if "getActivePlateData d = Some n" "ready_to_print n (printers s k)"
      "getPlatePrinterColorMatchInfo (plate_index n) e d = Some (m # ms)" "boxColorInfo (boxsInfo (printers s k)) = []" for n m ms
    using that assms no_slot_without_boxes [of "m # ms" d] by (simp add: uploadStatus_def Let_def ready_to_print_def)
qed

definition demo_plates :: plate_store where
  "demo_plates = setPlatePrinterColorMatchInfo 0 ''b'' [\<lparr>pm_extruder = 1, pm_matchColor = ''#ff0000'', pm_materialId = JNum 0,
       pm_filamentType = JStr ''PLA''\<rparr>]
     (addPlateData \<lparr>plate_index = 0, extruderIndexs = [1], active = True, uploadGCodeName = JStr ''f.gcode'', sendGCodeOnly = JBool False\<rparr>
       \<lparr>allExtruderColors = [], allFilamentTypes = [], hasPlate = True, plateData = [], platePrinterColorMatchData = []\<rparr>)"


definition demo_upload :: dashboard where
  "demo_upload = upd 1 (\<lambda>p. p\<lparr>deviceState := JNum 0\<rparr>) demo_board"

lemma demo_upload_fields [simp]:
  "getPrinter ''b'' demo_upload = Some (Suc 0)" "deviceState (printers demo_upload (Suc 0)) = JNum 0"
  "online (printers demo_upload (Suc 0))" "boxColorInfo (boxsInfo (printers demo_upload (Suc 0))) = []"
  by (simp_all add: demo_upload_def getPrinter_find_ref find_ref_def has_address_def demo_printer_def initial_printer_def
      demo_device_def)

theorem upload_never_sends_its_colours_witness: "uploadStatus ''b'' (JNum 0) demo_plates demo_upload = None"
proof -
  obtain n where n: "getActivePlateData demo_plates = Some n" "plate_index n = 0" "ready_to_print n (printers demo_upload (Suc 0))"
    by (simp add: demo_plates_def addPlateData_def setPlatePrinterColorMatchInfo_def getActivePlateData_def
        getPlateDatas_def ready_to_print_def)
  have "\<exists>m. getPlatePrinterColorMatchInfo 0 ''b'' demo_plates = Some [m]"
    by (simp add: demo_plates_def addPlateData_def setPlatePrinterColorMatchInfo_def getPlatePrinterColorMatchInfo_def)
  then show ?thesis
    using upload_never_sends_its_colours [of "''b''" demo_upload "Suc 0" "JNum 0" demo_plates] n by auto
qed

end
