(* ===== verification/BatchUpload.thy ===== *)
theory BatchUpload
  imports PlatePrint Klipper
begin

text \<open>
  Sending one file to many printers (\<open>JKe\<close>, \<open>qte\<close>, \<open>ZKe\<close>, the store
  \<open>useBatchUploadStore\<close> and the handlers \<open>upload_complete\<close>, \<open>upload_status\<close> and
  \<open>upload_progress\<close> of \<open>CeX73yR3.js\<close>): the printers are split into batches that wait in a
  queue; a batch is uploaded, an interval waits until all of it is done, and after a pause
  the next one starts; each printer whose upload is complete gets its print command when
  the file shows up on it.

  Intervals and timeouts are parts of the state that fire as steps.  \<open>parse\<close> decodes a
  message of the window, \<open>None\<close> where that throws.
\<close>

section \<open>State\<close>

record batch =
  ipArr :: "string list"
  b_action :: json
  b_fileName :: json
  b_loopTime :: rat
  b_plateIndex :: json
  b_matchBoxs :: "json list"
  b_printCalibration :: json

text \<open>An entry of \<open>gv\<close>.\<close>

record upload =
  up_action :: json
  up_done :: bool
  up_name :: json
  up_matchBoxs :: "json list"
  up_printCalibration :: json

text \<open>The interval of \<open>ZKe\<close>: the printer, its upload and the ticks so far.\<close>

record print_wait =
  w_ip :: string
  w_printer :: nat
  w_upload :: upload
  w_count :: nat

record uploads =
  board :: dashboard
  batchIps :: "string list"
  showDialog :: bool
  q4 :: "batch list"
  gv :: "(string, upload) jsmap"
  jd :: "string \<Rightarrow> nat option"
  pollers :: "(nat \<times> rat) list"  \<comment> \<open>intervals of \<open>qte\<close> with their pause\<close>
  pauses :: "nat list"          \<comment> \<open>timeouts of \<open>qte\<close> under way\<close>
  Wte :: "nat option"
  prints :: "(nat \<times> print_wait) list"
  resends :: "resend list"
  next_id :: nat

definition on_board :: "(dashboard \<Rightarrow> dashboard) \<Rightarrow> uploads \<Rightarrow> uploads" where
  "on_board f w = w\<lparr>board := f (board w)\<rparr>"

definition setBatchIps :: "string list \<Rightarrow> uploads \<Rightarrow> uploads" where
  "setBatchIps e w = w\<lparr>batchIps := fold (\<lambda>r xs. if r \<in> set xs then xs else xs @ [r]) e (batchIps w)\<rparr>"

section \<open>Starting a batch\<close>

definition send_gcode :: "batch \<Rightarrow> string \<Rightarrow> printer \<Rightarrow> call" where
  "send_gcode r c d = PostMessage (written
     [(''command'', JStr ''send_gcode''), (''plateIndex'', b_plateIndex r), (''ipAddress'', JStr c),
      (''oldPrinter'', JBool (oldPrinter d)), (''uploadName'', b_fileName r), (''moonrakerPort'', moonrakerPort d)])"

definition new_upload :: "batch \<Rightarrow> upload" where
  "new_upload r = \<lparr>up_action = b_action r, up_done = False, up_name = b_fileName r,
     up_matchBoxs = (if b_action r = JStr ''print'' then b_matchBoxs r else []),
     up_printCalibration = (if b_action r = JStr ''print'' then b_printCalibration r else JUndefined)\<rparr>"

text \<open>The messages of a batch; a printer that is not there ends them with a \<open>TypeError\<close>.\<close>

fun send_batch :: "batch \<Rightarrow> string list \<Rightarrow> dashboard \<Rightarrow> bool \<times> dashboard" where
  "send_batch r [] s = (True, s)"
| "send_batch r (c # cs) s =
     (case getPrinter_in c False 0 s of
        None \<Rightarrow> (False, s)
      | Some d \<Rightarrow> send_batch r cs (emit_call (send_gcode r c (printers s d)) s))"

text \<open>\<open>qte(q4)\<close>: the batch at the front becomes the batch under way, whatever was under way.\<close>

definition qte :: "uploads \<Rightarrow> uploads" where
  "qte w =
     (case q4 w of
        [] \<Rightarrow> w
      | r # rs \<Rightarrow>
          let (ok, s) = send_batch r (ipArr r) (board w); w1 = w\<lparr>q4 := rs, board := s\<rparr>
          in if \<not> ok then w1
             else w1\<lparr>gv := fold (\<lambda>c t. jm_set c (new_upload r) t) (ipArr r) [],
                     pollers := pollers w1 @ [(next_id w1, b_loopTime r)], next_id := Suc (next_id w1)\<rparr>)"

definition qte_throws :: "uploads \<Rightarrow> bool" where
  "qte_throws w = (case q4 w of [] \<Rightarrow> False | r # rs \<Rightarrow> \<not> fst (send_batch r (ipArr r) (board w)))"

text \<open>The interval: when all of the batch under way is done it stops and the pause begins.\<close>

definition all_done :: "uploads \<Rightarrow> bool" where
  "all_done w = list_all (\<lambda>(c, u). up_done u) (jm_entries (gv w))"

definition poller_tick :: "nat \<Rightarrow> uploads \<Rightarrow> uploads" where
  "poller_tick i w =
     (if i \<in> fst ` set (pollers w) \<and> all_done w
      then w\<lparr>pollers := filter (\<lambda>p. fst p \<noteq> i) (pollers w), pauses := pauses w @ [next_id w],
             Wte := Some (next_id w), next_id := Suc (next_id w)\<rparr>
      else w)"

text \<open>The pause is over.  With an empty queue the last timeout set is cleared, which may be
  another one.\<close>

definition pause_over :: "nat \<Rightarrow> uploads \<Rightarrow> uploads" where
  "pause_over i w =
     (if i \<notin> set (pauses w) then w
      else let w1 = w\<lparr>pauses := remove1 i (pauses w)\<rparr> in
           if q4 w1 = [] then w1\<lparr>pauses := filter (\<lambda>j. Wte w1 \<noteq> Some j) (pauses w1)\<rparr> else qte w1)"

section \<open>A request\<close>

record batch_request =
  r_action :: json
  r_deviceIps :: "string list"
  r_plateIndex :: json
  r_fileName :: json
  r_printNum :: nat
  r_loopTime :: rat
  r_matchBoxs :: "json list"
  r_printCalibration :: json

text \<open>The slices of a list; the length is positive where this is used.\<close>

function slices :: "nat \<Rightarrow> 'a list \<Rightarrow> 'a list list" where
  "slices k xs = (if xs = [] \<or> k = 0 then [] else take k xs # slices k (drop k xs))"
  by pat_completeness auto
termination
  by (relation "measure (\<lambda>(k, xs). length xs)") auto

declare slices.simps [simp del]

definition batch_of :: "batch_request \<Rightarrow> string list \<Rightarrow> batch" where
  "batch_of e d = \<lparr>ipArr = d, b_action = r_action e, b_fileName = r_fileName e, b_loopTime = r_loopTime e,
     b_plateIndex = r_plateIndex e, b_matchBoxs = r_matchBoxs e, b_printCalibration = r_printCalibration e\<rparr>"

text \<open>A printer that waits: it is looked up once and remembered.\<close>

fun mark_waiting :: "string list \<Rightarrow> uploads \<Rightarrow> bool \<times> uploads" where
  "mark_waiting [] w = (True, w)"
| "mark_waiting (f # fs) w =
     (let w1 = (if jd w f = None then w\<lparr>jd := (jd w)(f := getPrinter_in f False 0 (board w))\<rparr> else w)
      in case jd w1 f of
           None \<Rightarrow> (False, w1)
         | Some n \<Rightarrow> mark_waiting fs (on_board (upd n (\<lambda>p. p\<lparr>uploadState := JNum 5\<rparr>)) w1))"

fun enqueue :: "batch_request \<Rightarrow> string list list \<Rightarrow> uploads \<Rightarrow> bool \<times> uploads" where
  "enqueue e [] w = (True, w)"
| "enqueue e (d # ds) w =
     (let (ok, w1) = mark_waiting d w
      in if ok then enqueue e ds (w1\<lparr>q4 := q4 w1 @ [batch_of e d]\<rparr>) else (False, w1))"

text \<open>\<open>None\<close> is the loop that does not end: batches of no printers.  The queue is started
  when it was empty, whether or not a batch is still under way; what it throws leaves \<open>JKe\<close>
  before the dialog is shown.\<close>

definition JKe :: "batch_request \<Rightarrow> uploads \<Rightarrow> uploads option" where
  "JKe e w =
     (if r_printNum e = 0 \<and> r_deviceIps e \<noteq> [] then None
      else
        let s = (q4 w = []); (ok, w1) = enqueue e (slices (r_printNum e) (r_deviceIps e)) w in
        Some (if \<not> ok then w1 else if s \<and> qte_throws w1 then qte w1
          else (setBatchIps (r_deviceIps e) (if s then qte w1 else w1))\<lparr>showDialog := True\<rparr>))"

section \<open>Messages of the window\<close>

definition set_done :: "string \<Rightarrow> upload \<Rightarrow> uploads \<Rightarrow> uploads" where
  "set_done r u w = w\<lparr>gv := jm_set r (u\<lparr>up_done := True\<rparr>) (gv w)\<rparr>"

definition upload_complete :: "(string \<Rightarrow> json option) \<Rightarrow> string \<Rightarrow> uploads \<Rightarrow> uploads" where
  "upload_complete parse e w =
     (case parse e of
        None \<Rightarrow> w
      | Some t \<Rightarrow>
          (case jget t ''ip'' of
             JStr r \<Rightarrow>
               (case jm_get (gv w) r of
                  None \<Rightarrow> w
                | Some u \<Rightarrow>
                    let w1 = set_done r u w in
                    (case jd w1 r of
                       None \<Rightarrow> w1
                     | Some n \<Rightarrow>
                         let w2 = on_board (upd n (\<lambda>p. p\<lparr>uploadState := JNum 1\<rparr>)) w1 in
                         if up_action u = JStr ''print''
                         then w2\<lparr>prints := prints w2 @ [(next_id w2, \<lparr>w_ip = r, w_printer = n, w_upload = u\<lparr>up_done := True\<rparr>, w_count = 0\<rparr>)],
                                 next_id := Suc (next_id w2)\<rparr>
                         else w2))
           | _ \<Rightarrow> w))"

definition upload_status :: "(string \<Rightarrow> json option) \<Rightarrow> string \<Rightarrow> uploads \<Rightarrow> uploads" where
  "upload_status parse e w =
     (case parse e of
        None \<Rightarrow> w
      | Some t \<Rightarrow>
          (case jget t ''ip'' of
             JStr r \<Rightarrow>
               (case getPrinter_in r False 0 (board w) of
                  None \<Rightarrow> w
                | Some a \<Rightarrow>
                    let n = jget t ''statusCode'';
                        w1 = on_board (upd a (\<lambda>p. if n = JNum 0 then p\<lparr>uploadState := JNum 1\<rparr>
                               else if n = JNum 601 then p\<lparr>uploadState := JNum 4\<rparr>
                               else p\<lparr>uploadState := JNum 3, uploadError := n\<rparr>)) w
                    in (case jm_get (gv w1) r of None \<Rightarrow> w1 | Some u \<Rightarrow> set_done r u w1))
           | _ \<Rightarrow> w))"

definition upload_progress :: "(string \<Rightarrow> json option) \<Rightarrow> string \<Rightarrow> uploads \<Rightarrow> uploads" where
  "upload_progress parse e w =
     (case parse e of
        None \<Rightarrow> w
      | Some t \<Rightarrow>
          (case jget t ''ip'' of
             JStr r \<Rightarrow>
               (case jd w r of
                  None \<Rightarrow> w
                | Some n \<Rightarrow> on_board (upd n (\<lambda>p. p\<lparr>uploadSpeed := jget t ''speed'', uploadState := JNum 2,
                                                   uploadFileProgress := jget t ''progress''\<rparr>)) w)
           | _ \<Rightarrow> w))"

section \<open>Printing what was uploaded\<close>

text \<open>\<open>encodeURIComponent\<close>: the characters of a text are those up to 255, of which the upper
  half takes two bytes.\<close>

definition hex_digit :: "nat \<Rightarrow> char" where
  "hex_digit d = char_of (if d < 10 then 48 + d else 55 + d)"

definition percent :: "nat \<Rightarrow> string" where
  "percent b = [CHR ''%'', hex_digit (b div 16), hex_digit (b mod 16)]"

definition unreserved :: "nat \<Rightarrow> bool" where
  "unreserved n \<longleftrightarrow> 48 \<le> n \<and> n \<le> 57 \<or> 65 \<le> n \<and> n \<le> 90 \<or> 97 \<le> n \<and> n \<le> 122
     \<or> n \<in> {45, 95, 46, 33, 126, 42, 39, 40, 41}"

definition encode_char :: "char \<Rightarrow> string" where
  "encode_char c =
     (let n = of_char c :: nat in
      if unreserved n then [c]
      else if n < 128 then percent n
      else percent (192 + n div 64) @ percent (128 + n mod 64))"

definition encodeURIComponent :: "string \<Rightarrow> string" where
  "encodeURIComponent t = concat (map encode_char t)"

text \<open>The name of the newest file on the printer; \<open>None\<close> is a \<open>TypeError\<close>.\<close>

definition newest_file :: "printer \<Rightarrow> json option" where
  "newest_file n =
     (let two = jget (JObj (data n)) ''retGcodeFileInfo2''; one = jget (JObj (data n)) ''retGcodeFileInfo'' in
      case two of
        JArr (x # _) \<Rightarrow> if nullish x then None else Some (jget x ''name'')
      | _ \<Rightarrow>
          if truthy one
          then (case jget one ''fileInfo'' of
                  JStr t \<Rightarrow>
                    (case filter (\<lambda>u. u \<noteq> []) (js_split '';'' t) of
                       [] \<Rightarrow> Some (JStr [])
                     | u # _ \<Rightarrow>
                         (case js_split '':'' u of
                            _ # v # _ \<Rightarrow> Some (JStr (encodeURIComponent v))
                          | _ \<Rightarrow> Some (JStr ''undefined'')))
                | _ \<Rightarrow> None)
          else Some (JStr []))"

text \<open>The boxes of the kind 0 in the order of their numbers; the matches that follow each
  other in one box of the request share a box, the next ones get the next box.  A match
  too many throws.\<close>

definition sorted_boxes :: "printer \<Rightarrow> json list" where
  "sorted_boxes n =
     sort_key (\<lambda>b. case to_number (jget b ''id'') of None \<Rightarrow> 0 | Some q \<Rightarrow> q)
       (filter (\<lambda>b. jget b ''type'' = JNum 0) (materialBoxs (boxsInfo n)))"

fun place_matches :: "json list \<Rightarrow> nat \<Rightarrow> json option \<Rightarrow> json list \<Rightarrow> json list option" where
  "place_matches u p prev [] = Some []"
| "place_matches u p prev (h # hs) =
     (let p' = (case prev of None \<Rightarrow> p | Some b \<Rightarrow> if jget h ''boxId'' \<noteq> b then Suc p else p) in
      if p' < length u
      then map_option (Cons (written
             [(''boxId'', jget (u ! p') ''id''), (''materialId'', jget h ''materialId''), (''extruderId'', jget h ''extruderId''),
              (''matchColor'', jget h ''extruderColor''), (''extruderFilamentType'', jget h ''filamentType'')]))
             (place_matches u p' (Some (jget h ''boxId'')) hs)
      else None)"

definition print_request :: "print_wait \<Rightarrow> printer \<Rightarrow> json option" where
  "print_request t n =
     (let i = up_matchBoxs (w_upload t); u = sorted_boxes n in
      map_option (\<lambda>c. written
        [(''printer_ip'', JStr (w_ip t)), (''open_cfs'', if i \<noteq> [] then JNum 1 else JNum 0),
         (''upload_gcode_name'', up_name (w_upload t)), (''print_calibration'', up_printCalibration (w_upload t)),
         (''color_match_info'', JArr c)])
        (if u = [] then Some [] else place_matches u 0 None i))"

text \<open>One tick: until the file is there, or ten ticks have passed, nothing but the count
  changes.\<close>

definition print_tick :: "nat \<Rightarrow> uploads \<Rightarrow> uploads" where
  "print_tick j w =
     (case map_of (prints w) j of
        None \<Rightarrow> w
      | Some t \<Rightarrow>
          let n = printers (board w) (w_printer t) in
          (case newest_file n of
             None \<Rightarrow> w
           | Some f \<Rightarrow>
               let r = Suc (w_count t) in
               if f = up_name (w_upload t) \<or> r > 10
               then (let w1 = w\<lparr>prints := filter (\<lambda>p. fst p \<noteq> j) (prints w)\<rparr> in
                     case print_request t n of
                       None \<Rightarrow> w1
                     | Some m \<Rightarrow>
                         let (i, s) = HandleSendPrintCommand m (board w1)
                         in w1\<lparr>board := s, resends := resends w1 @ (case i of None \<Rightarrow> [] | Some x \<Rightarrow> [x])\<rparr>)
               else w\<lparr>prints := map (\<lambda>p. if fst p = j then (j, t\<lparr>w_count := r\<rparr>) else p) (prints w)\<rparr>))"

end
