(* ===== verification/BatchProps.thy ===== *)
theory BatchProps
  imports BatchUpload PrinterProps
begin

text \<open>
  What holds of batch uploads: whatever the order of the events, no printer of a request is
  skipped or sent the file twice; a request made while the last batch is under way forgets
  that batch; and the print of an uploaded file is decided within eleven ticks.
\<close>

section \<open>What was sent\<close>

text \<open>The address of a \<open>send_gcode\<close> message.\<close>

definition gcode_ip :: "call \<Rightarrow> string option" where
  "gcode_ip c = (case c of
     PostMessage m \<Rightarrow> if jget m ''command'' = JStr ''send_gcode'' then Some (the_text (jget m ''ipAddress'')) else None
   | _ \<Rightarrow> None)"

definition sent :: "dashboard \<Rightarrow> string list" where
  "sent s = List.map_filter gcode_ip (calls s)"

definition waiting :: "uploads \<Rightarrow> string list" where
  "waiting w = concat (map ipArr (q4 w))"

lemma gcode_ip_simps [simp]:
  "gcode_ip (DmCall k x) = None" "gcode_ip (HttpGet t) = None" "gcode_ip (HttpPost t ps) = None" "gcode_ip (OldCommand t ps) = None"
  "gcode_ip (send_gcode r c d) = Some c"
  by (simp_all add: gcode_ip_def send_gcode_def written_def the_text_def)

lemma map_filter_DmCall [simp]: "List.map_filter gcode_ip (map (DmCall k) xs) = []"
  by (induction xs) (simp_all add: List.map_filter_simps)

lemma map_filter_append: "List.map_filter f (xs @ ys) = List.map_filter f xs @ List.map_filter f ys"
  by (simp add: List.map_filter_def)

text \<open>A change of the board that sends no file and moves no printer.\<close>

definition quiet :: "dashboard \<Rightarrow> dashboard \<Rightarrow> bool" where
  "quiet s s' \<longleftrightarrow> printerList s' = printerList s \<and> (\<forall>n. address (printers s' n) = address (printers s n)) \<and> sent s' = sent s"

lemma quiet_refl [simp]: "quiet s s"
  by (simp add: quiet_def)

lemma quiet_trans: "quiet s t \<Longrightarrow> quiet t u \<Longrightarrow> quiet s u"
  by (simp add: quiet_def)

lemma quiet_upd [intro]: "(\<And>p. address (f p) = address p) \<Longrightarrow> quiet s (upd n f s)"
  by (simp add: quiet_def sent_def)

lemma quiet_send: "quiet s (snd (dm_send k m s))"
  by (simp add: quiet_def sent_def map_filter_append)

lemma quiet_open: "quiet s (open_socket n s)"
  by (simp add: quiet_def sent_def) (simp add: open_socket_def Let_def dm_call_def upd_def map_filter_append)

lemma quiet_emit: "gcode_ip c = None \<Longrightarrow> quiet s (emit_call c s)"
  by (simp add: quiet_def sent_def map_filter_append List.map_filter_simps)

lemma quiet_sendMsg: "quiet s (snd (sendMsg n m s))"
proof (cases "socket (printers s n)")
  case None
  then show ?thesis using quiet_open by (simp add: sendMsg_def)
next
  case (Some k)
  obtain ok s1 where d: "dm_send k m s = (ok, s1)" by force
  have "quiet s s1" using quiet_send [of s k m] d by simp
  then show ?thesis using quiet_trans [OF _ quiet_open] by (simp add: sendMsg_def Some d)
qed

lemma quiet_print:
  "StartNormalPrint t r n s = Some (i, s') \<Longrightarrow> quiet s s'"
  "StartMultiColorPrint t r' n s = Some (i, s') \<Longrightarrow> quiet s s'"
  using quiet_sendMsg by (auto simp: StartNormalPrint_def StartMultiColorPrint_def) (metis snd_conv)+

lemma quiet_match: "SetColorMatch t r n s = Some s' \<Longrightarrow> quiet s s'"
  using quiet_send by (auto simp: SetColorMatch_def set_command_def command_def send_if_connected_def split: option.split)

lemma quiet_start: "quiet s (snd (case StartNormalPrint t r n s of None \<Rightarrow> (None, s) | Some x \<Rightarrow> x))"
  using quiet_print(1) [of t r n s] by (auto split: option.split)


lemma quiet_if: "quiet s (snd a) \<Longrightarrow> quiet s (snd b) \<Longrightarrow> quiet s (snd (if c then a else b))"
  by simp

lemma quiet_option:
  "(x = None \<Longrightarrow> quiet s (snd a)) \<Longrightarrow> (\<And>y. x = Some y \<Longrightarrow> quiet s (snd (f y)))
    \<Longrightarrow> quiet s (snd (case x of None \<Rightarrow> a | Some y \<Rightarrow> f y))"
  by (cases x) simp_all

lemma quiet_prints:
  "StartNormalPrint t l st s = Some y \<Longrightarrow> quiet s (snd y)"
  "StartMultiColorPrint t r st s = Some y \<Longrightarrow> quiet s (snd y)"
  using quiet_print [of t _ st s "fst y" "snd y"] by (cases y, simp)+

lemma quiet_match_print:
  assumes "SetColorMatch t r m s = Some s1"
  shows "quiet s (snd (x, s1))" "StartMultiColorPrint t' r' st s1 = Some y \<Longrightarrow> quiet s (snd y)"
    "StartNormalPrint t' l st s1 = Some y \<Longrightarrow> quiet s (snd y)"
  using quiet_match [OF assms] quiet_prints quiet_trans by (simp, blast+)

lemma quiet_HandleSendPrintCommand: "quiet s (snd (HandleSendPrintCommand n s))"
  unfolding HandleSendPrintCommand_def Let_def
  by (intro quiet_option quiet_if; (erule quiet_prints quiet_match_print)?; (erule (1) quiet_match_print)?;
      simp add: StartNormalPrint_LAN_def execute_def StartNormalPrint_Klipper_def quiet_emit)

section \<open>No printer is skipped\<close>

text \<open>The printers of a request are local printers that are listed.\<close>

definition all_local :: "string list \<Rightarrow> dashboard \<Rightarrow> bool" where
  "all_local cs s \<longleftrightarrow> (\<forall>c \<in> set cs. getPrinter_in c False 0 s \<noteq> None)"

lemma all_local_simps [simp]:
  "all_local [] s" "all_local (xs @ ys) s \<longleftrightarrow> all_local xs s \<and> all_local ys s"
  "all_local (c # cs) s \<longleftrightarrow> (\<exists>n. getPrinter_in c False 0 s = Some n) \<and> all_local cs s"
  by (auto simp: all_local_def)

lemma all_local_mono: "all_local cs s \<Longrightarrow> set ds \<subseteq> set cs \<Longrightarrow> all_local ds s"
  by (auto simp: all_local_def)

lemma quiet_getPrinter_in: "quiet s s' \<Longrightarrow> getPrinter_in c False k s' = getPrinter_in c False k s"
  by (simp add: getPrinter_in_def quiet_def)

lemma quiet_local: "quiet s s' \<Longrightarrow> all_local cs s' = all_local cs s"
  by (simp add: all_local_def quiet_getPrinter_in)

text \<open>Everything the events can do to the state, as a step.\<close>

datatype event =
    Request batch_request
  | PollerTick nat
  | PauseOver nat
  | UploadComplete string
  | UploadStatus string
  | UploadProgress string
  | PrintTick nat

fun event_step :: "(string \<Rightarrow> json option) \<Rightarrow> event \<Rightarrow> uploads \<Rightarrow> uploads" where
  "event_step parse (Request e) w = (case JKe e w of None \<Rightarrow> w | Some w' \<Rightarrow> w')"
| "event_step parse (PollerTick i) w = poller_tick i w"
| "event_step parse (PauseOver i) w = pause_over i w"
| "event_step parse (UploadComplete t) w = upload_complete parse t w"
| "event_step parse (UploadStatus t) w = upload_status parse t w"
| "event_step parse (UploadProgress t) w = upload_progress parse t w"
| "event_step parse (PrintTick j) w = print_tick j w"

lemma sent_emit: "sent (emit_call c s) = sent s @ (case gcode_ip c of None \<Rightarrow> [] | Some x \<Rightarrow> [x])"
  by (simp add: sent_def map_filter_append List.map_filter_simps split: option.split)

lemma send_batch_sends:
  assumes "all_local cs s"
  shows "fst (send_batch r cs s) \<and> sent (snd (send_batch r cs s)) = sent s @ cs
    \<and> printerList (snd (send_batch r cs s)) = printerList s \<and> printers (snd (send_batch r cs s)) = printers s"
  using assms
proof (induction r cs s rule: send_batch.induct)
  case (2 r c cs s)
  then obtain d where d: "getPrinter_in c False 0 s = Some d" by auto
  have "all_local cs (emit_call (send_gcode r c (printers s d)) s)"
    using "2.prems" by (simp add: all_local_def getPrinter_in_def)
  then show ?case using "2.IH" [OF d] d by (simp add: sent_emit)
qed simp

lemma qte_moves:
  assumes "all_local (waiting w) (board w)"
  shows "sent (board (qte w)) @ waiting (qte w) = sent (board w) @ waiting w
    \<and> all_local cs (board (qte w)) = all_local cs (board w) \<and> set (waiting (qte w)) \<subseteq> set (waiting w)"
proof (cases "q4 w")
  case Nil
  then show ?thesis by (simp add: qte_def)
next
  case (Cons r rs)
  then have "all_local (ipArr r) (board w)" using assms by (simp add: waiting_def all_local_def)
  from send_batch_sends [OF this, of r] show ?thesis
    by (auto simp: qte_def Cons waiting_def all_local_def getPrinter_in_def Let_def split: prod.split)
qed

lemma qte_throws_not: "all_local (waiting w) (board w) \<Longrightarrow> \<not> qte_throws w"
  using send_batch_sends by (auto simp: qte_throws_def waiting_def all_local_def split: list.split)

lemma slices_concat: "0 < k \<Longrightarrow> concat (slices k xs) = xs"
proof (induction k xs rule: slices.induct)
  case (1 k xs)
  then show ?case by (subst slices.simps) auto
qed

lemma mark_waiting_quiet:
  assumes "mark_waiting fs w = (ok, w')"
  shows "quiet (board w) (board w') \<and> q4 w' = q4 w"
  using assms
proof (induction fs w rule: mark_waiting.induct)
  case (2 f fs w)
  define w1 where "w1 = (if jd w f = None then w\<lparr>jd := (jd w)(f := getPrinter_in f False 0 (board w))\<rparr> else w)"
  have w1: "board w1 = board w" "q4 w1 = q4 w" by (simp_all add: w1_def)
  show ?case
  proof (cases "jd w1 f")
    case None
    then show ?thesis using "2.prems" w1 by (simp add: Let_def w1_def [symmetric])
  next
    case (Some n)
    let ?w2 = "on_board (upd n (\<lambda>p. p\<lparr>uploadState := JNum 5\<rparr>)) w1"
    have "quiet (board w1) (board ?w2)" "q4 ?w2 = q4 w1" by (auto simp: on_board_def)
    moreover have "mark_waiting fs ?w2 = (ok, w')" using "2.prems" Some by (simp add: Let_def w1_def [symmetric])
    ultimately show ?thesis using "2.IH" [OF w1_def Some] w1 quiet_trans by metis
  qed
qed simp


lemma mark_waiting_ok: "all_local fs (board w) \<Longrightarrow> fst (mark_waiting fs w)"
proof (induction fs w rule: mark_waiting.induct)
  case (2 f fs w)
  define w1 where "w1 = (if jd w f = None then w\<lparr>jd := (jd w)(f := getPrinter_in f False 0 (board w))\<rparr> else w)"
  obtain n where n: "jd w1 f = Some n" using "2.prems" by (cases "jd w f") (auto simp: w1_def)
  let ?w2 = "on_board (upd n (\<lambda>p. p\<lparr>uploadState := JNum 5\<rparr>)) w1"
  have "quiet (board w) (board ?w2)" by (auto simp: on_board_def w1_def)
  then have "all_local fs (board ?w2)" using "2.prems" quiet_local by simp
  then show ?case using "2.IH" [OF w1_def n] n by (simp add: Let_def w1_def [symmetric])
qed simp

lemma enqueue_ok:
  assumes "all_local (concat ds) (board w)"
  shows "\<exists>w'. enqueue e ds w = (True, w') \<and> quiet (board w) (board w') \<and> q4 w' = q4 w @ map (batch_of e) ds"
  using assms
proof (induction ds arbitrary: w)
  case (Cons d ds)
  obtain ok w1 where m: "mark_waiting d w = (ok, w1)" by force
  have ok: "ok" using mark_waiting_ok [of d w] Cons.prems m by simp
  have q: "quiet (board w) (board w1)" "q4 w1 = q4 w" using mark_waiting_quiet [OF m] by simp_all
  have "all_local (concat ds) (board (w1\<lparr>q4 := q4 w1 @ [batch_of e d]\<rparr>))"
    using Cons.prems quiet_local [OF q(1)] by simp
  from Cons.IH [OF this] obtain w' where w': "enqueue e ds (w1\<lparr>q4 := q4 w1 @ [batch_of e d]\<rparr>) = (True, w')"
      "quiet (board w1) (board w')" "q4 w' = (q4 w1 @ [batch_of e d]) @ map (batch_of e) ds"
    by auto
  then show ?case using m ok q quiet_trans [OF q(1) w'(2)] by simp
qed simp

text \<open>A step sends the printers at the front of the queue, or adds those of a request.\<close>

definition moves :: "string list \<Rightarrow> uploads \<Rightarrow> uploads \<Rightarrow> bool" where
  "moves new w w' \<longleftrightarrow> sent (board w') @ waiting w' = sent (board w) @ waiting w @ new
     \<and> (\<forall>cs. all_local cs (board w') = all_local cs (board w)) \<and> set (waiting w') \<subseteq> set (waiting w) \<union> set new"

lemma movesI: "quiet (board w) (board w') \<Longrightarrow> q4 w' = q4 w \<Longrightarrow> moves [] w w'"
  using quiet_local by (simp add: moves_def waiting_def quiet_def)

lemma moves_refl [simp]: "moves [] w w"
  by (rule movesI) simp_all

lemma JKe_request_fields [simp]:
  "waiting (setBatchIps e w) = waiting w" "waiting (w\<lparr>showDialog := b\<rparr>) = waiting w" "board (setBatchIps e w) = board w"
  by (simp_all add: waiting_def setBatchIps_def)

lemma JKe_moves:
  assumes "0 < r_printNum e" "all_local (r_deviceIps e) (board w)" "all_local (waiting w) (board w)"
  shows "\<exists>w'. JKe e w = Some w' \<and> moves (r_deviceIps e) w w' \<and> showDialog w'"
proof -
  let ?ds = "slices (r_printNum e) (r_deviceIps e)"
  have c: "concat ?ds = r_deviceIps e" using slices_concat assms(1) .
  obtain w1 where w1: "enqueue e ?ds w = (True, w1)" "quiet (board w) (board w1)" "q4 w1 = q4 w @ map (batch_of e) ?ds"
    using enqueue_ok [of ?ds w e] assms(2) c by auto
  have "map ipArr (map (batch_of e) ?ds) = ?ds" by (simp add: batch_of_def comp_def)
  then have wait: "waiting w1 = waiting w @ r_deviceIps e" using w1(3) c by (simp add: waiting_def)
  have loc: "all_local cs (board w1) = all_local cs (board w)" for cs using quiet_local [OF w1(2)] .
  have "all_local (waiting w1) (board w1)" using wait loc assms(2,3) by simp
  from qte_moves [OF this] have q: "sent (board (qte w1)) @ waiting (qte w1) = sent (board w1) @ waiting w1"
      "\<And>cs. all_local cs (board (qte w1)) = all_local cs (board w1)"
      "set (waiting (qte w1)) \<subseteq> set (waiting w1)" by auto
  have "sent (board w1) = sent (board w)" using w1(2) by (simp add: quiet_def)
  then have "moves (r_deviceIps e) w ((setBatchIps (r_deviceIps e) (if q4 w = [] then qte w1 else w1))\<lparr>showDialog := True\<rparr>)"
    using q wait loc by (auto simp: moves_def)
  moreover have "\<not> qte_throws w1" using wait loc assms(2,3) by (intro qte_throws_not) simp
  ultimately show ?thesis using assms(1) w1(1) by (simp add: JKe_def Let_def)
qed

lemma set_done_fields [simp]: "board (set_done r u w) = board w" "q4 (set_done r u w) = q4 w"
  by (simp_all add: set_done_def)

lemma on_board_fields [simp]: "board (on_board f w) = f (board w)" "q4 (on_board f w) = q4 w"
  by (simp_all add: on_board_def)

lemma message_moves:
  "moves [] w (upload_complete parse t w)" "moves [] w (upload_status parse t w)" "moves [] w (upload_progress parse t w)"
  by (rule movesI; auto simp: upload_complete_def upload_status_def upload_progress_def Let_def
      split: option.split json.split)+

lemma print_tick_moves: "moves [] w (print_tick j w)"
proof (rule movesI)
  show "quiet (board w) (board (print_tick j w))"
    using quiet_HandleSendPrintCommand [of "board w"]
    by (auto simp: print_tick_def Let_def split: option.split prod.split) (metis snd_conv)+
  show "q4 (print_tick j w) = q4 w"
    by (simp add: print_tick_def Let_def split: option.split prod.split)
qed

lemma pause_over_moves:
  assumes "all_local (waiting w) (board w)"
  shows "moves [] w (pause_over i w)"
proof -
  let ?w = "w\<lparr>pauses := remove1 i (pauses w)\<rparr>"
  have "all_local (waiting ?w) (board ?w)" using assms by (simp add: waiting_def)
  from qte_moves [OF this] have "moves [] w (qte ?w)" by (auto simp: moves_def waiting_def)
  then show ?thesis by (auto simp: pause_over_def Let_def intro: movesI)
qed

fun request_of :: "event \<Rightarrow> string list" where
  "request_of (Request e) = r_deviceIps e"
| "request_of _ = []"

lemma step_moves:
  assumes "\<And>e. v = Request e \<Longrightarrow> 0 < r_printNum e \<and> all_local (r_deviceIps e) (board w)" "all_local (waiting w) (board w)"
  shows "moves (request_of v) w (event_step parse v w)"
proof (cases v)
  case (Request e)
  then show ?thesis using JKe_moves [of e w] assms by auto
next
  case (PollerTick i)
  then show ?thesis by (auto simp: poller_tick_def intro: movesI)
qed (use message_moves print_tick_moves pause_over_moves assms in auto)

text \<open>C9: Whatever the order in which requests, messages of the window and timers come, the
  files sent and the printers still in the queue are together the printers of all requests,
  each once for each request that names it and in the order of the requests: none is
  skipped, and none is sent a file twice.  (The printers asked for are listed, and no
  request asks for batches of no printers.)\<close>

theorem no_printer_is_skipped:
  assumes "\<forall>e. Request e \<in> set vs \<longrightarrow> 0 < r_printNum e \<and> all_local (r_deviceIps e) (board w)"
    and "q4 w = []" and "sent (board w) = []"
  shows "sent (board (fold (event_step parse) vs w)) @ waiting (fold (event_step parse) vs w) = concat (map request_of vs)"
proof -
  have "all_local (waiting w) (board w) \<Longrightarrow>
      sent (board (fold (event_step parse) vs w)) @ waiting (fold (event_step parse) vs w)
        = sent (board w) @ waiting w @ concat (map request_of vs)"
    if "\<forall>e. Request e \<in> set vs \<longrightarrow> 0 < r_printNum e \<and> all_local (r_deviceIps e) (board w)" for vs w
    using that
  proof (induction vs arbitrary: w)
    case (Cons v vs)
    let ?w = "event_step parse v w"
    have m: "moves (request_of v) w ?w" using Cons.prems by (intro step_moves) auto
    then have loc: "all_local cs (board ?w) = all_local cs (board w)" for cs by (simp add: moves_def)
    have "all_local (request_of v) (board w)" using Cons.prems(2) by (cases v) auto
    then have "all_local (waiting w @ request_of v) (board w)" using Cons.prems(1) by simp
    then have "all_local (waiting ?w) (board ?w)"
      using all_local_mono [of "waiting w @ request_of v" "board w" "waiting ?w"] m loc by (auto simp: moves_def)
    then show ?case using Cons.IH [of ?w] Cons.prems(2) loc m by (simp add: moves_def)
  qed simp
  then show ?thesis using assms by (simp add: waiting_def all_local_def)
qed


section \<open>A batch that is forgotten\<close>

lemma gv_of_batch: "jm_get (fold (\<lambda>c t. jm_set c u t) cs t) d = (if d \<in> set cs then Some u else jm_get t d)"
  by (induction cs arbitrary: t) (auto simp: jm_get_set)

lemma mark_waiting_gv: "gv (snd (mark_waiting fs w)) = gv w"
  by (induction fs w rule: mark_waiting.induct) (auto simp: Let_def on_board_def split: option.split)

text \<open>The queue is empty while the last batch is under way.  A request that comes then
  starts at once and replaces that batch: of a printer that is not in the new one nothing
  is remembered, so the message that its upload is complete changes nothing, and its file
  is never printed.\<close>

theorem second_request_forgets_the_batch_under_way:
  assumes "q4 w = []" "0 < r_printNum e" "r_deviceIps e \<noteq> []" "all_local (r_deviceIps e) (board w)"
    and "c \<notin> set (take (r_printNum e) (r_deviceIps e))"
  shows "\<exists>w'. JKe e w = Some w' \<and> jm_get (gv w') c = None
    \<and> (\<forall>parse t m. parse t = Some m \<longrightarrow> jget m ''ip'' = JStr c \<longrightarrow> upload_complete parse t w' = w')"
proof -
  let ?ds = "slices (r_printNum e) (r_deviceIps e)" and ?d = "take (r_printNum e) (r_deviceIps e)"
  have ds: "?ds = ?d # slices (r_printNum e) (drop (r_printNum e) (r_deviceIps e))"
    using assms(2,3) by (subst slices.simps) simp
  have "concat ?ds = r_deviceIps e" using slices_concat assms(2) .
  then obtain w1 where w1: "enqueue e ?ds w = (True, w1)" "quiet (board w) (board w1)" "q4 w1 = map (batch_of e) ?ds"
    using enqueue_ok [of ?ds w e] assms(1,4) by auto
  let ?r = "batch_of e ?d"
  have q: "q4 w1 = ?r # map (batch_of e) (slices (r_printNum e) (drop (r_printNum e) (r_deviceIps e)))"
    using w1(3) ds by simp
  have "all_local (ipArr ?r) (board w1)"
    using assms(4) quiet_local [OF w1(2)] all_local_mono [OF assms(4), of ?d] set_take_subset
    by (simp add: batch_of_def) fast
  then have "fst (send_batch ?r (ipArr ?r) (board w1))" using send_batch_sends by blast
  then obtain s1 where "send_batch ?r (ipArr ?r) (board w1) = (True, s1)" by (metis prod.collapse)
  then have "gv (qte w1) = fold (\<lambda>c t. jm_set c (new_upload ?r) t) (ipArr ?r) []"
    by (simp add: qte_def q)
  then have "jm_get (gv (qte w1)) c = None"
    using assms(5) by (simp add: gv_of_batch batch_of_def)
  moreover have "JKe e w = Some ((setBatchIps (r_deviceIps e) (qte w1))\<lparr>showDialog := True\<rparr>)"
    using assms(1-3) w1(1) \<open>fst (send_batch ?r (ipArr ?r) (board w1))\<close> q by (simp add: JKe_def Let_def qte_throws_def)
  ultimately show ?thesis by (simp add: upload_complete_def setBatchIps_def)
qed

section \<open>Waiting for the file\<close>

lemma map_of_update:
  "map_of (map (\<lambda>p. if fst p = j then (j, y) else p) ps) j = (if j \<in> fst ` set ps then Some y else None)"
  by (induction ps) auto

lemma print_tick_counts:
  assumes "map_of (prints w) j = Some t" "newest_file (printers (board w) (w_printer t)) \<noteq> None" "w_count t \<le> 10"
  shows "map_of (prints (print_tick j w)) j = None
    \<or> map_of (prints (print_tick j w)) j = Some (t\<lparr>w_count := Suc (w_count t)\<rparr>)
      \<and> board (print_tick j w) = board w \<and> Suc (w_count t) \<le> 10"
proof -
  have j: "j \<in> fst ` set (prints w)" using assms(1) by (metis map_of_eq_None_iff option.simps(3))
  have gone: "map_of (filter (\<lambda>p. fst p \<noteq> j) (prints w)) j = None" by (auto simp: map_of_eq_None_iff)
  obtain f where f: "newest_file (printers (board w) (w_printer t)) = Some f" using assms(2) by auto
  show ?thesis
  proof (cases "f = up_name (w_upload t) \<or> Suc (w_count t) > 10")
    case True
    then show ?thesis
      using gone by (simp add: print_tick_def assms(1) f Let_def split: option.split prod.split)
  next
    case False
    then show ?thesis using j by (simp add: print_tick_def assms(1) f Let_def map_of_update)
  qed
qed

text \<open>Once an upload is complete its print is decided after at most eleven ticks, whether
  or not the file ever shows up on the printer (as long as the printer's list of files can
  be read): the interval does not go on for ever.\<close>

theorem print_is_decided_in_eleven_ticks:
  assumes "map_of (prints w) j = Some t" "w_count t = 0" "newest_file (printers (board w) (w_printer t)) \<noteq> None"
  shows "map_of (prints ((print_tick j ^^ 11) w)) j = None"
proof -
  have gone: "map_of (prints ((print_tick j ^^ k) w)) j = None" if "map_of (prints w) j = None" for k w
    using that by (induction k) (simp_all add: print_tick_def)
  have "map_of (prints ((print_tick j ^^ k) w)) j = None"
    if "map_of (prints w) j = Some t" "newest_file (printers (board w) (w_printer t)) \<noteq> None" "w_count t \<le> 10"
      "11 \<le> k + w_count t" for k w t
    using that
  proof (induction k arbitrary: w t)
    case (Suc k)
    show ?case
      using print_tick_counts [OF Suc.prems(1-3)]
    proof
      assume "map_of (prints (print_tick j w)) j = None"
      then show ?thesis using gone by (simp add: funpow_swap1)
    next
      assume a: "map_of (prints (print_tick j w)) j = Some (t\<lparr>w_count := Suc (w_count t)\<rparr>)
        \<and> board (print_tick j w) = board w \<and> Suc (w_count t) \<le> 10"
      then show ?thesis
        using Suc.IH [of "print_tick j w" "t\<lparr>w_count := Suc (w_count t)\<rparr>"] Suc.prems(2,4) by (simp add: funpow_swap1)
    qed
  qed simp
  from this [OF assms(1,3)] show ?thesis using assms(2) by simp
qed

section \<open>Witnesses\<close>

definition demo_uploads :: uploads where
  "demo_uploads = \<lparr>board = demo_board, batchIps = [], showDialog = False, q4 = [], gv = [], jd = (\<lambda>_. None), pollers = [],
     pauses = [], Wte = None, prints = [], resends = [], next_id = 0\<rparr>"

definition demo_request :: "string list \<Rightarrow> batch_request" where
  "demo_request ips = \<lparr>r_action = JStr ''print'', r_deviceIps = ips, r_plateIndex = JNum 0, r_fileName = JStr ''f'', r_printNum = 2,
     r_loopTime = 1, r_matchBoxs = [], r_printCalibration = JNum 0\<rparr>"

lemma demo_local: "all_local [''a'', ''b'', ''c''] demo_board"
  by (simp add: getPrinter_in_def)

theorem no_printer_is_skipped_witness:
  "let w = fold (event_step (\<lambda>_. None)) [Request (demo_request [''a'', ''b'', ''c'']), PollerTick 0, Request (demo_request [''b''])] demo_uploads
   in sent (board w) @ waiting w = [''a'', ''b'', ''c'', ''b'']"
proof -
  have "sent demo_board = []" by (simp add: sent_def List.map_filter_simps)
  then show ?thesis
    using no_printer_is_skipped [of "[Request (demo_request [''a'', ''b'', ''c'']), PollerTick 0, Request (demo_request [''b''])]"
        demo_uploads "\<lambda>_. None"] demo_local
    by (auto simp: demo_uploads_def demo_request_def Let_def)
qed

theorem second_request_forgets_the_batch_under_way_witness:
  "\<exists>w'. JKe (demo_request [''a'', ''b'']) demo_uploads = Some w' \<and> jm_get (gv w') ''c'' = None"
  using second_request_forgets_the_batch_under_way [of demo_uploads "demo_request [''a'', ''b'']" "''c''"] demo_local
  by (auto simp: demo_uploads_def demo_request_def)

definition demo_wait :: print_wait where
  "demo_wait = \<lparr>w_ip = ''a'', w_printer = 0, w_upload = new_upload (batch_of (demo_request [''a'']) [''a'']), w_count = 0\<rparr>"

definition demo_printing :: uploads where
  "demo_printing = demo_uploads\<lparr>prints := [(0, demo_wait)]\<rparr>"

theorem print_is_decided_in_eleven_ticks_witness: "map_of (prints ((print_tick 0 ^^ 11) demo_printing)) 0 = None"
proof (rule print_is_decided_in_eleven_ticks)
  show "map_of (prints demo_printing) 0 = Some demo_wait" "w_count demo_wait = 0"
    by (simp_all add: demo_printing_def demo_wait_def)
  have "data (demo_printer ''a'') = []" by (simp add: demo_printer_def initial_printer_def)
  then show "newest_file (printers (board demo_printing) (w_printer demo_wait)) \<noteq> None"
    by (simp add: demo_printing_def demo_uploads_def demo_wait_def newest_file_def)
qed

end
