(* ===== verification/CloudApi.thy ===== *)
theory CloudApi
  imports CloudData ColorMatch
begin

text \<open>
  The front of the cloud (class \<open>rr\<close> of \<open>CeX73yR3.js\<close>): who is logged in, and the request
  each command makes.  A request is an output with its path, the headers as they are then,
  and its body; the callbacks get what comes back and are not part of the model, but the
  two tests of the answers that change the state are.  \<open>R4\<close>, which makes the identifier of
  a request, is an argument.
\<close>

section \<open>State\<close>

record cloud_headers =
  cxy_uid :: string
  cxy_token :: string
  CXY_PID :: string
  cxy_requestid :: string

record api_request =
  rq_url :: string
  rq_headers :: cloud_headers
  rq_body :: "json option"  \<comment> \<open>\<open>None\<close> is a \<open>GET\<close>\<close>
  rq_timeout :: "nat option"
  rq_catalogue :: bool  \<comment> \<open>a request for a list of filaments, which has headers of its own\<close>

record cloud_api =
  headers :: cloud_headers
  region :: string
  requests :: "api_request list"

definition initial_api :: cloud_api where
  "initial_api = \<lparr>headers = \<lparr>cxy_uid = [], cxy_token = [], CXY_PID = [], cxy_requestid = []\<rparr>,
     region = ''China'', requests = []\<rparr>"

definition getApiPrefix :: "cloud_api \<Rightarrow> string" where
  "getApiPrefix a = ''https://api.crealitycloud.'' @ (if region a = ''China'' then ''cn'' else ''com'')"

definition IsLogin :: "cloud_api \<Rightarrow> bool" where
  "IsLogin a \<longleftrightarrow> cxy_uid (headers a) \<noteq> []"

definition checkLogin :: "cloud_api \<Rightarrow> bool" where
  "checkLogin a \<longleftrightarrow> cxy_token (headers a) \<noteq> []"

definition IsSameUser :: "string \<Rightarrow> cloud_api \<Rightarrow> bool" where
  "IsSameUser t a \<longleftrightarrow> cxy_uid (headers a) = t"

definition SetAuthority :: "string \<Rightarrow> string \<Rightarrow> string \<Rightarrow> string \<Rightarrow> cloud_api \<Rightarrow> cloud_api" where
  "SetAuthority t r n p a = a\<lparr>headers := (headers a)\<lparr>cxy_uid := t, cxy_token := r, CXY_PID := p\<rparr>, region := n\<rparr>"

definition NewRequest :: "string \<Rightarrow> cloud_api \<Rightarrow> cloud_api" where
  "NewRequest uuid a = a\<lparr>headers := (headers a)\<lparr>cxy_requestid := uuid\<rparr>\<rparr>"

definition api_send :: "string \<Rightarrow> string \<Rightarrow> json option \<Rightarrow> nat option \<Rightarrow> cloud_api \<Rightarrow> cloud_api" where
  "api_send uuid path body t a =
     (let a1 = NewRequest uuid a
      in a1\<lparr>requests := requests a1 @ [\<lparr>rq_url = getApiPrefix a1 @ path, rq_headers = headers a1, rq_body = body, rq_timeout = t,
       rq_catalogue = False\<rparr>]\<rparr>)"

section \<open>Devices\<close>

definition GetDeviceCount :: "string \<Rightarrow> cloud_api \<Rightarrow> cloud_api" where
  "GetDeviceCount uuid = api_send uuid ''/api/rest/print/cluster/devices/getDeviceCount'' (Some (JObj [])) (Some 60000)"

definition GetDevices :: "string \<Rightarrow> json \<Rightarrow> json \<Rightarrow> cloud_api \<Rightarrow> cloud_api" where
  "GetDevices uuid t r = api_send uuid ''/api/rest/print/cluster/devices/getDevices''
     (Some (written [(''page'', t), (''pageSize'', r)])) (Some 60000)"

definition PollState :: "string \<Rightarrow> json \<Rightarrow> cloud_api \<Rightarrow> cloud_api" where
  "PollState uuid t = api_send uuid ''/api/rest/print/cluster/devices/pollState'' (Some (written [(''dnList'', t)])) None"

definition EditDeviceName :: "string \<Rightarrow> json \<Rightarrow> json \<Rightarrow> cloud_api \<Rightarrow> cloud_api" where
  "EditDeviceName uuid t r = api_send uuid ''/api/rest/print/cluster/devices/edit''
     (Some (written [(''deviceName'', t), (''aliasName'', r)])) None"

definition deleteDevice :: "string \<Rightarrow> json \<Rightarrow> cloud_api \<Rightarrow> cloud_api" where
  "deleteDevice uuid t = api_send uuid ''/api/rest/print/cluster/devices/delete'' (Some (written [(''deviceName'', t)])) None"

definition GetDeviceDetial :: "string \<Rightarrow> string \<Rightarrow> cloud_api \<Rightarrow> cloud_api" where
  "GetDeviceDetial uuid t = api_send uuid (''/api/rest/iotrouter/'' @ t @ ''/values/timeseries?keys=&useStrictDataTypes=true'') None None"

definition GetDeviceAttributes :: "string \<Rightarrow> string \<Rightarrow> cloud_api \<Rightarrow> cloud_api" where
  "GetDeviceAttributes uuid t =
     api_send uuid (''/api/rest/iotrouter/plugins/telemetry/'' @ t @ ''/values/attributes?key='') None (Some 6000)"

definition addSingleTask :: "string \<Rightarrow> json \<Rightarrow> cloud_api \<Rightarrow> cloud_api" where
  "addSingleTask uuid t = api_send uuid ''/api/rest/print/cluster/addSingleTask'' (Some t) None"

definition getCurrentPrintInfo :: "string \<Rightarrow> json \<Rightarrow> cloud_api \<Rightarrow> cloud_api" where
  "getCurrentPrintInfo uuid t = api_send uuid ''/api/rest/print/cluster/devices/getDeviceDetail'' (Some (written [(''dn'', t)])) None"

section \<open>Commands to a device\<close>

definition oneway :: "string \<Rightarrow> string" where
  "oneway t = ''/api/rest/iotrouter/rpc/oneway/'' @ t"

definition twoway :: "string \<Rightarrow> string" where
  "twoway t = ''/api/rest/iotrouter/rpc/twoway/'' @ t"

definition rpc_body :: "string \<Rightarrow> (string \<times> json) list \<Rightarrow> json" where
  "rpc_body m ps = JObj [(''method'', JStr m), (''params'', written ps)]"

definition api_set :: "string \<Rightarrow> string \<Rightarrow> (string \<times> json) list \<Rightarrow> cloud_api \<Rightarrow> cloud_api" where
  "api_set uuid path ps = api_send uuid path (Some (rpc_body ''set'' ps)) None"

definition api_get :: "string \<Rightarrow> string \<Rightarrow> (string \<times> json) list \<Rightarrow> cloud_api \<Rightarrow> cloud_api" where
  "api_get uuid path ps = api_send uuid path (Some (rpc_body ''get'' ps)) None"

definition SetLedState :: "string \<Rightarrow> string \<Rightarrow> json \<Rightarrow> cloud_api \<Rightarrow> cloud_api" where
  "SetLedState uuid t r = api_set uuid (oneway t) [(''led'', r)]"

definition SetModelFanPct :: "string \<Rightarrow> string \<Rightarrow> json \<Rightarrow> cloud_api \<Rightarrow> cloud_api" where
  "SetModelFanPct uuid t r = api_set uuid (oneway t) [(''modelFanPct'', r)]"

definition SetAuxiliaryFanPct :: "string \<Rightarrow> string \<Rightarrow> json \<Rightarrow> cloud_api \<Rightarrow> cloud_api" where
  "SetAuxiliaryFanPct uuid t r = api_set uuid (oneway t) [(''auxiliaryFanPct'', r)]"

definition SetCaseFanPct :: "string \<Rightarrow> string \<Rightarrow> json \<Rightarrow> cloud_api \<Rightarrow> cloud_api" where
  "SetCaseFanPct uuid t r = api_set uuid (oneway t) [(''caseFanPct'', r)]"

text \<open>A quarter of the speed is the silent mode.\<close>

definition speed_params :: "json \<Rightarrow> (string \<times> json) list" where
  "speed_params r = (if eq_num r 25 then [(''speedMode'', JNum 1)] else [(''speedMode'', JNum 0), (''setFeedratePct'', r)])"

definition SetPrintSpeed :: "string \<Rightarrow> string \<Rightarrow> json \<Rightarrow> cloud_api \<Rightarrow> cloud_api" where
  "SetPrintSpeed uuid t r = api_set uuid (oneway t) (speed_params r)"

definition newline :: string where
  "newline = [CHR 0x0A]"

definition axle_gcode :: "string \<Rightarrow> rat \<Rightarrow> rat \<Rightarrow> string option" where
  "axle_gcode r n a =
     (let go = (\<lambda>ax x f. Some (''G90'' @ newline @ ''G1 '' @ ax @ show_number x @ '' F'' @ f)) in
      if r = ''X+'' then go ''X'' (n + a) ''7800''
      else if r = ''X-'' then go ''X'' (n - a) ''7800''
      else if r = ''Y+'' then go ''Y'' (n + a) ''7800''
      else if r = ''Y-'' then go ''Y'' (n - a) ''7800''
      else if r = ''Z+'' then go ''Z'' (n + a) ''600''
      else if r = ''Z-'' then go ''Z'' (n - a) ''600''
      else if r = ''HXY'' then Some ''G28 X Y''
      else if r = ''HZ'' then Some ''G28 Z''
      else None)"

definition MoveAxle_cloud :: "string \<Rightarrow> string \<Rightarrow> string \<Rightarrow> rat \<Rightarrow> rat \<Rightarrow> cloud_api \<Rightarrow> cloud_api" where
  "MoveAxle_cloud uuid t r n a c =
     (case axle_gcode r n a of
        None \<Rightarrow> NewRequest uuid c
      | Some g \<Rightarrow> api_set uuid (oneway t) [(''gcodeCmd'', JStr g)] c)"

definition GetDeviceFiles :: "string \<Rightarrow> string \<Rightarrow> json \<Rightarrow> cloud_api \<Rightarrow> cloud_api" where
  "GetDeviceFiles uuid t r = api_get uuid (oneway t) [(''pFileList'', r)]"

definition GetDeviceCFS :: "string \<Rightarrow> string \<Rightarrow> cloud_api \<Rightarrow> cloud_api" where
  "GetDeviceCFS uuid t = api_send uuid (twoway t) (Some (rpc_body ''get'' [(''cfsList'', JNum 1)])) (Some 6000)"

definition GetDeviceFilamentInfo :: "string \<Rightarrow> string \<Rightarrow> json \<Rightarrow> cloud_api \<Rightarrow> cloud_api" where
  "GetDeviceFilamentInfo uuid t r = api_get uuid (twoway t) [(''cId'', r)]"

text \<open>\<open>color.replace('#', '#FF')\<close>: the first one.\<close>

fun opaque_color :: "string \<Rightarrow> string" where
  "opaque_color [] = []"
| "opaque_color (c # cs) = (if c = CHR ''#'' then ''#FF'' @ cs else c # opaque_color cs)"

definition SetMaterials_cloud :: "string \<Rightarrow> string \<Rightarrow> json \<Rightarrow> cloud_api \<Rightarrow> cloud_api" where
  "SetMaterials_cloud uuid t r = api_set uuid (twoway t)
     [(''cId'', jget r ''cId''), (''filamentsColor'', JStr (opaque_color (the_text (jget r ''color'')))),
      (''filamentType'', jget r ''type''), (''nozzleTempMin'', jget r ''minTemp''), (''nozzleTempMax'', jget r ''maxTemp''),
      (''cPressureAdvance'', jget r ''pressure''), (''cBrandName'', jget r ''vendor''), (''name'', jget r ''name'')]"

definition feedInOrOutMaterial_cloud :: "string \<Rightarrow> string \<Rightarrow> json \<Rightarrow> json \<Rightarrow> json \<Rightarrow> cloud_api \<Rightarrow> cloud_api" where
  "feedInOrOutMaterial_cloud uuid t r n a = api_set uuid (twoway t) [(''feedStateTemp2'', r), (''feed'', a), (''cId'', n)]"

definition GetBoxsConfig_cloud :: "string \<Rightarrow> string \<Rightarrow> cloud_api \<Rightarrow> cloud_api" where
  "GetBoxsConfig_cloud uuid t = api_get uuid (twoway t) [(''cfsInfo'', JNum 1)]"

definition SetCfsConfigAutoFeed :: "string \<Rightarrow> string \<Rightarrow> json \<Rightarrow> cloud_api \<Rightarrow> cloud_api" where
  "SetCfsConfigAutoFeed uuid t r = api_set uuid (twoway t) [(''cAutoFeed'', r)]"

definition SetCfsConfigSelfTest :: "string \<Rightarrow> string \<Rightarrow> json \<Rightarrow> cloud_api \<Rightarrow> cloud_api" where
  "SetCfsConfigSelfTest uuid t r = api_set uuid (twoway t) [(''cSelfTest'', r)]"

definition SetCfsConfigautoRefill :: "string \<Rightarrow> string \<Rightarrow> json \<Rightarrow> cloud_api \<Rightarrow> cloud_api" where
  "SetCfsConfigautoRefill uuid t r = api_set uuid (twoway t) [(''autoRefill'', r)]"

definition SetCfscConfigautoIgnoreColor :: "string \<Rightarrow> string \<Rightarrow> json \<Rightarrow> cloud_api \<Rightarrow> cloud_api" where
  "SetCfscConfigautoIgnoreColor uuid t r = api_set uuid (twoway t) [(''ignoreColorAutoFeed'', r)]"

definition SetRFIDRefresh_cloud :: "string \<Rightarrow> string \<Rightarrow> json \<Rightarrow> json \<Rightarrow> cloud_api \<Rightarrow> cloud_api" where
  "SetRFIDRefresh_cloud uuid t r n = api_set uuid (twoway t) [(''cId'', r), (''cRFIDRefresh'', n)]"

definition getGcodeColor :: "string \<Rightarrow> string \<Rightarrow> json \<Rightarrow> cloud_api \<Rightarrow> cloud_api" where
  "getGcodeColor uuid t r = api_get uuid (twoway t) [(''queryParseGCode'', r)]"

definition getGcodeColor_then :: "json \<Rightarrow> json" where
  "getGcodeColor_then l = (if truthy l \<and> jget l ''code'' = JNum 0 then jget (jget l ''result'') ''filamentsList'' else JArr [])"

definition setPrintCalibration :: "string \<Rightarrow> string \<Rightarrow> json \<Rightarrow> cloud_api \<Rightarrow> cloud_api" where
  "setPrintCalibration uuid t r = api_set uuid (twoway t) [(''enableSelfTest'', if truthy r then JNum 1 else JNum 0)]"

section \<open>The catalogue of filaments\<close>

text \<open>Three requests that write their headers out instead of taking the shared ones.  The
  address of the list of types lacks the prefix \<open>/api\<close> of the other two.\<close>

definition catalogue_request :: "string \<Rightarrow> string \<Rightarrow> json \<Rightarrow> cloud_api \<Rightarrow> cloud_api" where
  "catalogue_request uuid path body a =
     (let a1 = NewRequest uuid a
      in a1\<lparr>requests := requests a1 @ [\<lparr>rq_url = getApiPrefix a1 @ path, rq_headers = headers a1, rq_body = Some body,
           rq_timeout = None, rq_catalogue = True\<rparr>]\<rparr>)"

definition GetFilamentBrandList :: "string \<Rightarrow> cloud_api \<Rightarrow> cloud_api" where
  "GetFilamentBrandList uuid = catalogue_request uuid ''/api/cxy/v2/slice/profile/official/material/brandList'' (JObj [])"

definition GetFilamentTypeList :: "string \<Rightarrow> cloud_api \<Rightarrow> cloud_api" where
  "GetFilamentTypeList uuid = catalogue_request uuid ''/cxy/v2/slice/profile/official/material/typeList'' (JObj [])"

definition GetFilamentNameList :: "string \<Rightarrow> string \<Rightarrow> cloud_api \<Rightarrow> cloud_api" where
  "GetFilamentNameList uuid t = catalogue_request uuid ''/api/cxy/v2/slice/profile/official/material/printerParameter''
     (JObj [(''printerIntName'', JStr t), (''page'', JNum 1), (''pageSize'', JNum 499)])"

text \<open>The headers a request is sent with; \<open>agent\<close> is \<open>navigator.userAgent\<close>.\<close>

definition shared_headers :: "string \<Rightarrow> cloud_headers \<Rightarrow> (string \<times> json) list" where
  "shared_headers agent h =
     [(''Content-Type'', JStr ''application/json''), (''__CXY_BRAND_'', JStr ''creality''), (''__CXY_APP_CH_'', JStr ''creality''),
      (''__CXY_PLATFORM_'', JNum 11), (''__CXY_APP_ID_'', JStr ''creality_model''), (''__CXY_APP_VER_'', JStr ''6.0.1.1375''),
      (''__CXY_PID_'', JStr (CXY_PID h)), (''__cxy_uid_'', JStr (cxy_uid h)), (''__cxy_token_'', JStr (cxy_token h)),
      (''__CXY_OS_VER_'', JStr (if agent = [] then ''unknown'' else agent)), (''__cxy_requestid_'', JStr (cxy_requestid h)),
      (''__cxy_os_lang_'', JStr ''1''), (''Accept'', JStr ''*/*'')]"

definition catalogue_headers :: "cloud_headers \<Rightarrow> (string \<times> json) list" where
  "catalogue_headers h =
     [(''__cxy_app_ch_'', JStr ''Chrome 123.0.0.0''), (''__cxy_app_ver_'', JStr ''24.10.1''), (''__cxy_brand_'', JStr ''creality''),
      (''__cxy_duid_'', JStr (cxy_requestid h)), (''__CXY_PID_'', JStr (CXY_PID h)), (''__cxy_os_lang_'', JNum 1),
      (''__cxy_os_ver_'', JStr ''Windows 10''), (''__CXY_APP_ID_'', JStr ''creality_model''), (''__CXY_APP_VER_'', JStr ''6.0.1.1375''),
      (''__CXY_PLATFORM_'', JNum 11), (''__cxy_requestid_'', JStr (cxy_requestid h)), (''__cxy_timezone_'', JNum 28800),
      (''__cxy_token_'', JStr (cxy_token h)), (''__cxy_uid_'', JStr (cxy_uid h))]"

definition wire_headers :: "string \<Rightarrow> api_request \<Rightarrow> (string \<times> json) list" where
  "wire_headers agent q = (if rq_catalogue q then catalogue_headers (rq_headers q) else shared_headers agent (rq_headers q))"

section \<open>The quality of the network\<close>

text \<open>\<open>checkInternet\<close>: is the browser on line, and did the request to a public page
  succeed.\<close>

definition checkInternet :: "bool \<Rightarrow> bool \<Rightarrow> bool" where
  "checkInternet onLine reached \<longleftrightarrow> onLine \<and> reached"

text \<open>\<open>checkLatency\<close>: the requests are started and nobody waits for them, so a latency is the
  time a call of \<open>fetch\<close> takes to return, in milliseconds, and no call fails.\<close>

record latency =
  packetLoss :: rat
  avgLatency :: rat
  isWeak :: bool

definition latency_of :: "rat option list \<Rightarrow> latency" where
  "latency_of samples =
     (let l = of_nat (length (filter (\<lambda>x. x = None) samples)) / of_nat (length samples);
          ok = map the (filter (\<lambda>x. x \<noteq> None) samples);
          c = sum_list ok / of_nat (length ok)
      in \<lparr>packetLoss = l, avgLatency = c, isWeak = l > 1 / 2 \<or> c > 5000\<rparr>)"

definition checkLatency :: "rat list \<Rightarrow> latency" where
  "checkLatency starts = latency_of (map Some starts)"

lemma checkLatency_loses_nothing:
  "checkLatency starts = \<lparr>packetLoss = 0, avgLatency = sum_list starts / of_nat (length starts),
     isWeak = sum_list starts / of_nat (length starts) > 5000\<rparr>"
  by (simp add: checkLatency_def latency_of_def Let_def filter_map o_def)

lemma weak_only_when_starting_is_slow:
  assumes "list_all (\<lambda>x. x \<le> 5000) starts"
  shows "\<not> isWeak (checkLatency starts)"
proof -
  have "sum_list starts \<le> 5000 * of_nat (length starts)"
    using assms by (induction starts) (auto simp: algebra_simps)
  then show ?thesis
    by (cases starts) (auto simp: checkLatency_loses_nothing not_less field_simps)
qed

section \<open>The session\<close>

text \<open>The store \<open>sysStore\<close>: what the answers change of it.\<close>

record sys =
  isTokenValid :: bool
  isOffline :: bool
  reloads :: nat

text \<open>\<open>checkTokenIsValid\<close>: the answer of the count of devices.  Code 4 is a token that is no
  longer valid: the printers of the group without a name go offline.  \<open>Inl e\<close> is a failed
  request with its code.\<close>

definition checkToken_then :: "string + json \<Rightarrow> sys \<times> dashboard \<Rightarrow> sys \<times> dashboard" where
  "checkToken_then ans b =
     (let (y, s) = b in
      case ans of
        Inl e \<Rightarrow> (if e = ''ERR_NETWORK'' then y\<lparr>isOffline := True\<rparr> else y, s)
      | Inr r \<Rightarrow>
          let y1 = y\<lparr>isOffline := False\<rparr> in
          if jget r ''code'' = JNum 4
          then (y1\<lparr>isTokenValid := False\<rparr>, fold (\<lambda>n. upd n (\<lambda>p. p\<lparr>online := False\<rparr>)) (prinertList [] s) s)
          else if jget r ''code'' = JNum 0 \<and> isOffline y1
          then (y1\<lparr>isTokenValid := True, isOffline := False, reloads := Suc (reloads y1)\<rparr>, s)
          else (y1\<lparr>isTokenValid := True\<rparr>, s))"

section \<open>What holds\<close>

text \<open>A colour the user sets goes to the cloud with an opaque alpha value and is read back
  from it as the colour it was.\<close>

theorem cloud_color_roundtrip:
  assumes "length c = 7" "hd c = CHR ''#''"
  shows "cloud_color (opaque_color c) = c"
  using assms by (cases c) (simp_all add: cloud_color_def)

theorem cloud_color_roundtrip_witness: "cloud_color (opaque_color ''#1a2b3c'') = ''#1a2b3c''"
  by (rule cloud_color_roundtrip) simp_all

text \<open>The page is never reloaded when the connection is back: the flag it would need is
  cleared just before it is read.\<close>

lemma never_reloads: "reloads (fst (checkToken_then ans b)) = reloads (fst b)"
  by (simp add: checkToken_then_def Let_def split: prod.split sum.split)

end
