(* ===== verification/ClientTypes.thy ===== *)
theory ClientTypes
  imports ClientApi
begin

text \<open>
  The types of the messages.  TypeScript's interfaces are erased when the client is
  compiled: what they promise about the payloads is stated here as a predicate on the JSON
  values, one type for each topic the client sends, and holds of everything it puts on the
  wire.
\<close>

section \<open>The types of the interfaces\<close>

datatype ts =
    TsString
  | TsNumber
  | TsBoolean
  | TsNull
  | TsLiteral string
  | TsUnion "ts list"
  | TsArray ts
  | TsRecord ts
  | TsObject "ts_field list"
and ts_field = Field string bool ts  \<comment> \<open>name, optional, type\<close>

fun field_name :: "ts_field \<Rightarrow> string" where
  "field_name (Field k opt t) = k"

text \<open>Exact types: an object has the listed properties and no others.\<close>

fun has_ts :: "ts \<Rightarrow> json \<Rightarrow> bool" and has_field :: "ts_field \<Rightarrow> (string \<times> json) list \<Rightarrow> bool" where
  "has_ts TsString v = (case v of JStr _ \<Rightarrow> True | _ \<Rightarrow> False)"
| "has_ts TsNumber v = (case v of JNum _ \<Rightarrow> True | _ \<Rightarrow> False)"
| "has_ts TsBoolean v = (case v of JBool _ \<Rightarrow> True | _ \<Rightarrow> False)"
| "has_ts TsNull v = (v = JNull)"
| "has_ts (TsLiteral t) v = (v = JStr t)"
| "has_ts (TsUnion ts) v = list_ex (\<lambda>t. has_ts t v) ts"
| "has_ts (TsArray t) v = (case v of JArr xs \<Rightarrow> list_all (has_ts t) xs | _ \<Rightarrow> False)"
| "has_ts (TsRecord t) v = (case v of JObj ps \<Rightarrow> list_all (\<lambda>p. has_ts t (snd p)) ps | _ \<Rightarrow> False)"
| "has_ts (TsObject fs) v =
     (case v of
        JObj ps \<Rightarrow> list_all (\<lambda>p. fst p \<in> field_name ` set fs) ps \<and> list_all (\<lambda>f. has_field f ps) fs
      | _ \<Rightarrow> False)"
| "has_field (Field k opt t) ps = (case map_of ps k of None \<Rightarrow> opt | Some v \<Rightarrow> has_ts t v)"

text \<open>\<open>string | null\<close>, and the interfaces of \<open>state.ts\<close> and \<open>actions.ts\<close> that occur in payloads.\<close>

definition ts_nullable :: "ts \<Rightarrow> ts" where
  "ts_nullable t = TsUnion [t, TsNull]"

definition ts_file_handle :: ts where
  "ts_file_handle = TsObject [Field ''machineID'' False TsString, Field ''uri'' False TsString,
     Field ''mime'' False TsString, Field ''hashSha256'' False TsString]"

definition ts_color :: ts where
  "ts_color = TsObject [Field ''name'' True (ts_nullable TsString), Field ''r'' False TsNumber,
     Field ''g'' False TsNumber, Field ''b'' False TsNumber]"

definition ts_material :: ts where
  "ts_material = TsObject [Field ''name'' False TsString, Field ''color'' False ts_color,
     Field ''fProfileIDX'' True (ts_nullable TsString)]"

definition ts_spool_location :: ts where
  "ts_spool_location = TsObject [Field ''muid'' False TsString, Field ''slot'' False TsNumber]"

definition ts_material_to_print :: ts where
  "ts_material_to_print = TsObject [Field ''material'' False ts_material,
     Field ''totalGramsUsed'' False TsNumber, Field ''nozzleDiameter'' False TsNumber]"

definition ts_state_details :: ts where
  "ts_state_details = TsUnion [TsLiteral ''None'', TsLiteral ''AtAGlance'', TsLiteral ''Full'']"

definition ts_start_options :: ts where
  "ts_start_options = TsObject [Field ''CustomID'' True (ts_nullable TsString), Field ''LevelBed'' False TsBoolean,
     Field ''FlowCalibration'' False TsBoolean, Field ''VibrationCalibration'' False TsBoolean,
     Field ''InspectFirstLayer'' False TsBoolean,
     Field ''MaterialMap'' True (ts_nullable (TsRecord
       (TsObject [Field ''MUID'' False TsString, Field ''Slot'' False TsNumber])))]"

text \<open>A payload that names its machine.\<close>

definition ts_for_machine :: "ts_field list \<Rightarrow> ts" where
  "ts_for_machine fs = TsObject (Field ''MachineID'' False TsString # fs)"

text \<open>The type of the \<open>Data\<close> of each topic a client sends.\<close>

fun payload_type :: "Topic \<Rightarrow> ts option" where
  "payload_type Machine_Subscribe = Some (ts_for_machine [Field ''DetailOfState'' False ts_state_details])"
| "payload_type Machine_Unsubscribe = Some (ts_for_machine [])"
| "payload_type Machine_MarkAsIdle = Some (ts_for_machine [])"
| "payload_type Machine_Pause = Some (ts_for_machine [])"
| "payload_type Machine_Resume = Some (ts_for_machine [])"
| "payload_type Machine_Stop = Some (ts_for_machine [])"
| "payload_type Machine_ToggleLight =
     Some (ts_for_machine [Field ''FixtureName'' False TsString, Field ''IsOn'' False TsBoolean])"
| "payload_type Machine_SetFanSpeed =
     Some (ts_for_machine [Field ''FanName'' False TsString, Field ''SpeedPercent'' False TsNumber])"
| "payload_type Machine_StartPrint =
     Some (ts_for_machine [Field ''File'' False ts_file_handle, Field ''Options'' False ts_start_options])"
| "payload_type Machine_FindMatchingSpools =
     Some (ts_for_machine [Field ''MaterialsToPrint'' False (TsRecord ts_material_to_print)])"
| "payload_type Machine_ChangeMaterial =
     Some (ts_for_machine [Field ''Location'' False ts_spool_location, Field ''Material'' False ts_material])"
| "payload_type Machine_SetPrintSpeed = Some (ts_for_machine [Field ''SpeedPercent'' False TsNumber])"
| "payload_type Machine_Configurations_All = Some (TsObject [])"
| "payload_type Logging_Subscribe = Some (TsObject [Field ''MinInterval'' False TsString])"
| "payload_type Logging_Unsubscribe = Some (TsObject [])"
| "payload_type Logging_History =
     Some (TsObject [Field ''Max'' False TsNumber, Field ''Before'' False (ts_nullable TsString),
       Field ''After'' False (ts_nullable TsString), Field ''MinLevel'' False TsString])"
| "payload_type MachineFileStore_TotalUsage = Some (TsObject [])"
| "payload_type MachineFileStore_MachineUsage = Some (ts_for_machine [])"
| "payload_type (Machine_StateUpdated m) = None"
| "payload_type Logging_Logs = None"

definition typed_payload :: "Topic \<Rightarrow> json \<Rightarrow> bool" where
  "typed_payload t d = (case payload_type t of None \<Rightarrow> False | Some ty \<Rightarrow> has_ts ty d)"

section \<open>The payloads have their types\<close>

lemma typed_file_handle [simp]: "has_ts ts_file_handle (json_of_file_handle h)"
  by (simp add: ts_file_handle_def json_of_file_handle_def)

lemma typed_color [simp]: "has_ts ts_color (json_of_color c)"
  by (simp add: ts_color_def json_of_color_def ts_nullable_def opt_prop_def orNull_def split: option.split)

lemma typed_material [simp]: "has_ts ts_material (json_of_material m)"
  by (simp add: ts_material_def json_of_material_def ts_nullable_def opt_prop_def orNull_def split: option.split)

lemma typed_spool_location [simp]: "has_ts ts_spool_location (json_of_spool_location l)"
  by (simp add: ts_spool_location_def json_of_spool_location_def)

lemma typed_material_to_print [simp]: "has_ts ts_material_to_print (json_of_material_to_print m)"
  by (simp add: ts_material_to_print_def json_of_material_to_print_def)

lemma typed_record [simp]: "(\<And>x. has_ts t (f x)) \<Longrightarrow> has_ts (TsRecord t) (json_of_record f xs)"
  by (simp add: json_of_record_def list_all_iff case_prod_beta)

lemma typed_start_options [simp]: "has_ts ts_start_options (json_of_start_options p)"
  by (simp add: ts_start_options_def json_of_start_options_def ts_nullable_def opt_prop_def orNull_def
      case_prod_beta split: option.split del: has_ts.simps(8))

lemma typed_call: "typed_payload (call_topic c) (call_data c)"
proof (cases c)
  case (Subscribe m d)
  then show ?thesis
    by (cases d) (simp_all add: typed_payload_def ts_for_machine_def SubscribeToMachinePayload_def ts_state_details_def)
next
  case (GetLogHistory p)
  then show ?thesis
    by (simp add: typed_payload_def LogHistoryPayload_def ts_nullable_def coalesceNull_def split: option.split)
qed (simp_all add: typed_payload_def ts_for_machine_def UnsubscribeFromMachinePayload_def MachineIdPayload_def
    ToggleLightMachinePayload_def SetFanSpeedMachinePayload_def StartPrintPayload_def FindMatchingSpoolsPayload_def
    ChangeMaterialPayload_def SetPrintSpeedPayload_def del: has_ts.simps(8))

section \<open>Everything that is sent and delivered\<close>

definition typed_message :: "json \<Rightarrow> bool" where
  "typed_message v \<longleftrightarrow> (\<exists>t i d. v = envelope (Topics t) i d \<and> typed_payload t d)"

text \<open>The data of a broadcast on the topic of a machine.\<close>

definition broadcast_of :: "(string \<Rightarrow> json option) \<Rightarrow> string \<Rightarrow> json \<Rightarrow> bool" where
  "broadcast_of parse m v \<longleftrightarrow>
     (\<exists>raw msg. parse raw = Some msg \<and> jget msg ''topic'' = JStr (Topics (Machine_StateUpdated m))
        \<and> v = jget msg ''data'')"

fun allowed :: "(string \<Rightarrow> json option) \<Rightarrow> effect \<Rightarrow> bool" where
  "allowed parse (Sent w v) = typed_message v"
| "allowed parse (StateCall h m v) = broadcast_of parse m v"
| "allowed parse _ = True"

text \<open>Each listener of a machine stands under its machine's topic.\<close>

definition placed :: "(string, topic_handler jsset) jsmap \<Rightarrow> bool" where
  "placed th \<longleftrightarrow> (\<forall>t hs c h m. jm_get th t = Some hs \<longrightarrow> StateHandler c h m \<in> set (jm_keys hs)
     \<longrightarrow> t = Topics (Machine_StateUpdated m))"

definition sends_typed :: "(string \<Rightarrow> json option) \<Rightarrow> client \<Rightarrow> bool" where
  "sends_typed parse s \<longleftrightarrow> placed (topicHandlers s) \<and> list_all (allowed parse) (out s)"

lemma sends_emit_out: "sends_typed parse s \<Longrightarrow> list_all (allowed parse) es \<Longrightarrow> sends_typed parse (emit_out es s)"
  by (simp add: sends_typed_def emit_out_def)

lemma placed_set:
  assumes "placed th" and "\<And>c h m. StateHandler c h m \<in> set (jm_keys hs) \<Longrightarrow> t = Topics (Machine_StateUpdated m)"
  shows "placed (jm_set t hs th)"
  using assms unfolding placed_def by (auto simp: jm_get_set simp del: Topics.simps)

lemma placedD: "placed th \<Longrightarrow> jm_get th t = Some hs \<Longrightarrow> StateHandler c h m \<in> set (jm_keys hs)
    \<Longrightarrow> t = Topics (Machine_StateUpdated m)"
  unfolding placed_def by blast

lemma sends_onTopic:
  assumes "sends_typed parse s" and "\<And>c h' m. h = StateHandler c h' m \<Longrightarrow> t = Topics (Machine_StateUpdated m)"
  shows "sends_typed parse (onTopic t h s)"
proof -
  have ok: "placed (topicHandlers s)" using assms(1) by (simp add: sends_typed_def)
  have "placed (topicHandlers (onTopic t h s))"
  proof (cases "jm_get (topicHandlers s) t")
    case None
    have "placed (jm_set t [] (topicHandlers s))" by (rule placed_set [OF ok]) simp
    with None assms(2) show ?thesis
      by (auto simp: onTopic_handlers jm_keys_set simp del: Topics.simps intro!: placed_set)
  next
    case (Some hs)
    with placedD [OF ok Some] assms(2) show ?thesis
      by (auto simp: onTopic_handlers jm_keys_set simp del: Topics.simps split: if_splits intro!: placed_set [OF ok])
  qed
  moreover have "out (onTopic t h s) = out s" by (simp add: onTopic_def Let_def split: option.split)
  ultimately show ?thesis using assms(1) by (simp add: sends_typed_def)
qed

lemma sends_offTopic:
  assumes "sends_typed parse s"
  shows "sends_typed parse (offTopic t h s)"
proof (cases "jm_get (topicHandlers s) t")
  case (Some hs)
  have ok: "placed (topicHandlers s)" using assms by (simp add: sends_typed_def)
  have "placed (jm_set t (jm_delete h hs) (topicHandlers s))"
    using placedD [OF ok Some] by (auto simp: jm_keys_delete simp del: Topics.simps dest!: set_remove1_subset [THEN subsetD]
        intro!: placed_set [OF ok])
  with Some assms show ?thesis by (simp add: offTopic_def sends_typed_def)
qed (use assms in \<open>simp add: offTopic_def\<close>)

lemma allowed_events [simp]: "list_all (allowed parse) (map (\<lambda>h. EventCall h ev) hs)"
  by (simp add: list_all_iff)

lemma sends_frame [simp]:
  "sends_typed parse s \<Longrightarrow> sends_typed parse (emit ev s)" "sends_typed parse s \<Longrightarrow> sends_typed parse (settle p v s)"
  "sends_typed parse s \<Longrightarrow> sends_typed parse (set_loop l k d q s)" "sends_typed parse s \<Longrightarrow> sends_typed parse (end_loop l s)"
  "sends_typed parse s \<Longrightarrow> sends_typed parse (clear_timer t s)" "sends_typed parse s \<Longrightarrow> sends_typed parse (set_timer j ms s)"
  "sends_typed parse s \<Longrightarrow> sends_typed parse (snd (new_promise og s))" "sends_typed parse s \<Longrightarrow> sends_typed parse (await_promise p a s)"
  "sends_typed parse s \<Longrightarrow> sends_typed parse (requested e action ms s)"
  "sends_typed parse (s\<lparr>intentionalClose := x\<rparr>) = sends_typed parse s" "sends_typed parse (s\<lparr>ws := y\<rparr>) = sends_typed parse s"
  "sends_typed parse (s\<lparr>pending := m\<rparr>) = sends_typed parse s" "sends_typed parse (s\<lparr>eventHandlers := h'\<rparr>) = sends_typed parse s"
  "sends_typed parse (s\<lparr>sockets := sk\<rparr>) = sends_typed parse s" "sends_typed parse (s\<lparr>fresh := n\<rparr>) = sends_typed parse s"
  "sends_typed parse (s\<lparr>jobs := js\<rparr>) = sends_typed parse s"
  "sends_typed parse (s\<lparr>subscriptions := sb\<rparr>) = sends_typed parse s"
  by (auto simp: sends_typed_def emit_def emit_out_def requested_fields requested_def new_promise_def
      await_promise_def set_loop_def end_loop_def clear_timer_def set_timer_def Let_def
      split: option.split settled.split)

lemma sends_request: "sends_typed parse s \<Longrightarrow> typed_payload t d \<Longrightarrow> sends_typed parse (snd (request e (Topics t) d ms s))"
proof -
  assume s: "sends_typed parse s" and "typed_payload t d"
  then have "typed_message (envelope (Topics t) (uuid e) d)" by (auto simp: typed_message_def)
  with s show ?thesis by (auto simp: request_cases Let_def split: option.split intro!: sends_emit_out)
qed

lemma sends_subscription: "sends_typed parse s \<Longrightarrow>
  sends_typed parse (snd (request e ''machine/subscribe'' (SubscribeToMachinePayload m d) ms s))"
  using sends_request [of parse s Machine_Subscribe] typed_call [of "Subscribe m d"] by simp

lemma sends_api: "sends_typed parse s \<Longrightarrow> sends_typed parse (snd (api e c s))"
proof (cases "call_awaiter c (fresh s)")
  case None
  then show "sends_typed parse s \<Longrightarrow> ?thesis"
    by (simp add: api_plain call_request_def sends_request typed_call)
next
  case (Some a)
  then show "sends_typed parse s \<Longrightarrow> ?thesis"
    by (simp add: api_async call_request_def sends_request typed_call)
qed

lemma sends_openSocket: "sends_typed parse s \<Longrightarrow> sends_typed parse (snd (openSocket e s))"
  by (simp add: openSocket_def case_prod_beta Let_def split: option.split)

lemma sends_reject_all: "sends_typed parse s \<Longrightarrow> sends_typed parse (rejectAllPending err s)"
proof -
  assume "sends_typed parse s"
  then have "sends_typed parse (reject_entries err es s)" for es
    by (induction es arbitrary: s) auto
  then show ?thesis by (simp add: rejectAllPending_def Let_def)
qed

lemma sends_loops:
  assumes "sends_typed parse s"
  shows "sends_typed parse (start_loop e s)" "sends_typed parse (loop_open_failed e l s)" "sends_typed parse (loop_resubscribe e l i s)"
    "sends_typed parse (loop_wake e l s)"
  using assms
  by (auto simp: start_loop_def loop_open_failed_def loop_resubscribe_def loop_head_def loop_wake_def case_prod_beta
      Let_def sends_subscription sends_openSocket split: option.split)

lemma sends_after:
  assumes "sends_typed parse s"
  shows "sends_typed parse (after_subscribe m d q v s)" "sends_typed parse (after_unsubscribe m q v s)"
  using assms by (auto simp: after_subscribe_def after_unsubscribe_def split: settled.split)

lemma sends_microtask: "sends_typed parse s \<Longrightarrow> sends_typed parse (microtask e s)"
proof (cases "jobs s")
  case (Cons j js)
  assume "sends_typed parse s"
  then have "sends_typed parse (run_job e j s')" if "sends_typed parse s'" for s'
    using that by (cases "(e, j, s')" rule: run_job.cases)
      (auto simp: after_loop_open_def after_loop_resub_def sends_after sends_loops
        split: settled.split option.split loop_pc.split)
  with Cons \<open>sends_typed parse s\<close> show ?thesis by (simp add: microtask_def)
qed (simp add: microtask_def)

lemma sends_handle_message:
  assumes "sends_typed parse s"
  shows "sends_typed parse (handleMessage parse raw s)"
proof -
  have "sends_typed parse (broadcast msg s)" if msg: "parse raw = Some msg" and s: "sends_typed parse s" for msg s
  proof -
    have "allowed parse (topic_effect msg x)"
      if t: "jget msg ''topic'' = JStr t" and hs: "jm_get (topicHandlers s) t = Some hs" and x: "x \<in> set (jm_keys hs)" for t hs x
    proof (cases x)
      case (StateHandler c h m)
      with placedD [of "topicHandlers s" t hs c h m] s hs x have "t = Topics (Machine_StateUpdated m)"
        by (simp add: sends_typed_def)
      with StateHandler t msg show ?thesis by (auto simp: broadcast_of_def)
    qed simp
    with s show ?thesis
      by (auto simp: broadcast_def list_all_iff split: option.split json.split intro!: sends_emit_out)
  qed
  with assms show ?thesis
    by (auto simp: handleMessage_def Let_def split: option.split json.split intro!: sends_emit_out)
qed

lemma sends_socket_events:
  assumes "sends_typed parse s"
  shows "sends_typed parse (socket_open w s)" "sends_typed parse (socket_error w s)" "sends_typed parse (timer_fires t s)"
    "sends_typed parse (socket_close e w code reason s)"
  using assms
  by (auto simp: socket_open_def socket_error_def socket_close_def timer_fires_def request_timeout_def Let_def
      split: option.split timer_job.split intro!: sends_reject_all sends_loops)

lemma sends_handlers:
  assumes "sends_typed parse s"
  shows "sends_typed parse (on ev h s)" "sends_typed parse (off ev h s)" "sends_typed parse (onMachineState m h s)"
    "sends_typed parse (onLogs h s)" "sends_typed parse (disconnect s)" "sends_typed parse (downloadFile f s)"
  using assms
  by (auto simp: on_def off_def onMachineState_def onLogs_def disconnect_def close_socket_def
      downloadFile_def Let_def simp del: Topics.simps split: option.split
      intro!: sends_reject_all sends_emit_out sends_onTopic)

lemma sends_step: "sends_typed parse s \<Longrightarrow> sends_typed parse (step parse e ev s)"
  by (cases ev) (simp_all add: connect_def sends_openSocket sends_api sends_microtask sends_handle_message
      sends_socket_events sends_handlers sends_offTopic)

lemma reachable_sends_typed:
  assumes "reachable parse (new_client u o1) s"
  shows "sends_typed parse s"
  using assms
proof (induction rule: reachable.induct)
  case start
  show ?case by (simp add: sends_typed_def new_client_def placed_def)
qed (rule sends_step)

text \<open>C8: Whatever happens to the client, everything it puts on the wire is an envelope
  with a topic of the table whose \<open>Data\<close> has exactly the properties, with the types, that
  the interfaces declare for that topic; the topics only the server uses are never sent.\<close>

theorem sent_messages_are_typed:
  assumes "reachable parse (new_client u o1) s" and "Sent w v \<in> set (out s)"
  shows "\<exists>t i d ty. v = envelope (Topics t) i d \<and> payload_type t = Some ty \<and> has_ts ty d"
proof -
  have "allowed parse (Sent w v)"
    using reachable_sends_typed [OF assms(1)] assms(2) unfolding sends_typed_def list_all_iff by blast
  then obtain t i d where "v = envelope (Topics t) i d" "typed_payload t d"
    unfolding typed_message_def allowed.simps by blast
  then show ?thesis by (cases "payload_type t") (auto simp: typed_payload_def)
qed

lemma demo_asked_reachable: "reachable demo_parse (new_client ''ws://host/ws'' demo_options) demo_asked"
  unfolding demo_asked_def by (rule next_step [OF demo_open_reachable]) (simp_all add: demo_open_fields)

theorem sent_messages_are_typed_witness:
  "\<exists>t i d ty. envelope ''machine/subscribe'' ''id2'' (SubscribeToMachinePayload ''m1'' Full)
      = envelope (Topics t) i d \<and> payload_type t = Some ty \<and> has_ts ty d"
  by (rule sent_messages_are_typed [OF demo_asked_reachable]) (simp add: demo_asked_fields)

end
