(* ===== verification/ChangeTypes.thy ===== *)
theory ChangeTypes
  imports ClientTypes ClientDemo
begin

text \<open>
  The change reports of \<open>types/changes.ts\<close>, written with the four patterns its header
  names, and the interfaces of \<open>types/state.ts\<close> they report on.  The reports follow the
  state but for a few properties no report can carry, and the listeners of a machine get
  nothing but the reports the server sent.
\<close>

section \<open>The interfaces of the state\<close>

definition required :: "string \<Rightarrow> ts \<Rightarrow> ts_field" where
  "required k t = Field k False t"

text \<open>\<open>k?: t | null\<close>\<close>

definition maybe :: "string \<Rightarrow> ts \<Rightarrow> ts_field" where
  "maybe k t = Field k True (ts_nullable t)"

definition heating_constraints_fields :: "ts_field list" where
  "heating_constraints_fields =
     [required ''minTempC'' TsNumber, required ''maxTempC'' TsNumber]"

definition heating_element_fields :: "ts_field list" where
  "heating_element_fields =
     [required ''tempC'' TsNumber, required ''targetTempC'' TsNumber,
      required ''constraints'' (TsObject heating_constraints_fields)]"

definition material_color_fields :: "ts_field list" where
  "material_color_fields =
     [maybe ''name'' TsString, required ''r'' TsNumber, required ''g'' TsNumber,
      required ''b'' TsNumber]"

definition material_fields :: "ts_field list" where
  "material_fields =
     [required ''name'' TsString, required ''color'' ts_color, maybe ''fProfileIDX'' TsString]"

definition machine_spool_fields :: "ts_field list" where
  "machine_spool_fields =
     [required ''number'' TsNumber, required ''material'' ts_material,
      maybe ''gramsMaximum'' TsNumber, maybe ''gramsRemaining'' TsNumber]"

definition extruder_fields :: "ts_field list" where
  "extruder_fields =
     [required ''number'' TsNumber,
      required ''heatingConstraint'' (TsObject heating_constraints_fields),
      required ''tempC'' TsNumber, maybe ''targetTempC'' TsNumber, maybe ''nozzleNumber'' TsNumber,
      maybe ''loadedSpool'' ts_spool_location]"

definition nozzle_fields :: "ts_field list" where
  "nozzle_fields =
     [required ''number'' TsNumber, required ''diameter'' TsNumber]"

definition auto_resolve_fields :: "ts_field list" where
  "auto_resolve_fields =
     [maybe ''whenConnected'' TsBoolean, maybe ''whenStatus'' TsString,
      maybe ''whenPrinting'' TsBoolean]"

definition message_fields :: "ts_field list" where
  "message_fields =
     [required ''id'' TsString, required ''title'' TsString, required ''body'' TsString,
      required ''severity'' TsString, required ''manualResolve'' TsString,
      required ''autoResolve'' (TsObject auto_resolve_fields)]"

definition notification_fields :: "ts_field list" where
  "notification_fields =
     [required ''message'' (TsObject message_fields), required ''issuedAt'' TsString,
      required ''lastSeenAt'' TsString]"

definition heating_job_fields :: "ts_field list" where
  "heating_job_fields =
     [required ''tempC'' TsNumber, required ''duration'' TsString]"

definition heating_settings_fields :: "ts_field list" where
  "heating_settings_fields =
     [required ''tempC'' TsNumber, required ''duration'' TsString, maybe ''doSpin'' TsBoolean]"

definition heating_schedule_fields :: "ts_field list" where
  "heating_schedule_fields =
     [required ''timing'' TsString, required ''settings'' (TsObject heating_settings_fields)]"

definition munit_fields :: "ts_field list" where
  "munit_fields =
     [required ''id'' TsString, required ''capacity'' TsNumber, maybe ''model'' TsString,
      required ''capabilities'' TsString,
      maybe ''heatingConstraints'' (TsObject heating_constraints_fields),
      required ''trays'' (TsRecord (TsObject machine_spool_fields)), maybe ''humidityPercent'' TsNumber,
      maybe ''temperatureC'' TsNumber, maybe ''heatingJob'' (TsObject heating_job_fields),
      required ''heatingSchedule'' (TsArray (TsObject heating_schedule_fields))]"

definition print_options_fields :: "ts_field list" where
  "print_options_fields =
     [maybe ''customID'' TsString, required ''levelBed'' TsBoolean,
      required ''flowCalibration'' TsBoolean, required ''vibrationCalibration'' TsBoolean,
      required ''inspectFirstLayer'' TsBoolean, maybe ''materialMap'' (TsRecord ts_spool_location)]"

definition print_job_fields :: "ts_field list" where
  "print_job_fields =
     [required ''name'' TsString, maybe ''customID'' TsString,
      required ''percentageComplete'' TsNumber, required ''remainingTime'' TsString,
      required ''totalTime'' TsString, maybe ''issue'' (TsObject message_fields),
      maybe ''thumbnail'' ts_file_handle, maybe ''file'' ts_file_handle,
      maybe ''subStage'' TsString, maybe ''totalMaterialUsage'' TsNumber,
      maybe ''localPath'' TsString, maybe ''spoolMaterialUsages'' (TsRecord TsNumber),
      maybe ''printSpeedPercent'' TsNumber]"

definition historic_job_fields :: "ts_field list" where
  "historic_job_fields =
     [required ''name'' TsString, required ''isSuccess'' TsBoolean, required ''endedAt'' TsString,
      required ''elapsed'' TsString, maybe ''thumbnail'' ts_file_handle,
      maybe ''file'' ts_file_handle]"

definition local_job_fields :: "ts_field list" where
  "local_job_fields =
     [required ''name'' TsString, required ''file'' ts_file_handle,
      required ''totalGramsUsed'' TsNumber, required ''time'' TsString,
      required ''materialsToPrint'' (TsRecord ts_material_to_print)]"

definition scheduled_print_fields :: "ts_field list" where
  "scheduled_print_fields =
     [required ''timing'' TsString, required ''localJob'' (TsObject local_job_fields),
      required ''options'' (TsObject print_options_fields),
      Field ''initialMapping'' True (TsRecord ts_material)]"

definition camera_spec_fields :: "ts_field list" where
  "camera_spec_fields =
     [required ''width'' (ts_nullable TsNumber), required ''height'' (ts_nullable TsNumber),
      required ''fps'' (ts_nullable TsNumber)]"

definition camera_stream_fields :: "ts_field list" where
  "camera_stream_fields =
     [required ''whepUrl'' TsString, required ''hlsUrl'' (ts_nullable TsString),
      required ''spec'' (ts_nullable (TsObject camera_spec_fields))]"

definition streaming_fields :: "ts_field list" where
  "streaming_fields =
     [required ''glance'' (ts_nullable (TsObject camera_stream_fields)),
      required ''full'' (TsObject camera_stream_fields)]"

definition machine_state_fields :: "ts_field list" where
  "machine_state_fields =
     [maybe ''brand'' TsString, maybe ''model'' TsString, maybe ''nickname'' TsString,
      required ''capabilities'' TsString, required ''status'' TsString,
      maybe ''currentJob'' (TsObject print_job_fields),
      required ''jobHistory'' (TsArray (TsObject historic_job_fields)),
      required ''localJobs'' (TsArray (TsObject local_job_fields)),
      required ''scheduledPrints'' (TsArray (TsObject scheduled_print_fields)),
      required ''extruders'' (TsRecord (TsObject extruder_fields)),
      required ''nozzles'' (TsRecord (TsObject nozzle_fields)),
      required ''materialUnits'' (TsRecord (TsObject munit_fields)),
      required ''airDuctMode'' TsString, required ''fans'' (TsRecord TsNumber),
      required ''lights'' (TsRecord TsBoolean),
      required ''heatingElements'' (TsRecord (TsObject heating_element_fields)),
      required ''isLocalStorageScanning'' TsBoolean,
      maybe ''streamingURLs'' (TsObject streaming_fields),
      maybe ''speedRange'' (TsObject [required ''min'' TsNumber, required ''max'' TsNumber]),
      required ''speedPresets'' (TsRecord TsNumber),
      required ''notifications'' (TsRecord (TsObject notification_fields))]"

definition glance_job_fields :: "ts_field list" where
  "glance_job_fields =
     [required ''name'' TsString, maybe ''customID'' TsString,
      required ''percentageComplete'' TsNumber, required ''remainingTime'' TsString,
      required ''totalTime'' TsString, maybe ''issue'' (TsObject message_fields),
      maybe ''file'' ts_file_handle, maybe ''thumbnail'' ts_file_handle,
      maybe ''subStage'' TsString, maybe ''totalMaterialUsage'' TsNumber]"

definition glance_state_fields :: "ts_field list" where
  "glance_state_fields =
     [required ''status'' TsString, required ''capabilities'' TsString,
      maybe ''nickname'' TsString, maybe ''currentJob'' (TsObject glance_job_fields)]"

section \<open>The reports\<close>

text \<open>The patterns of the property names.  The key, the value and the report of a value of a
  dictionary each have a type; a dictionary without reports on its values has their new
  values instead.\<close>

datatype change_field =
    Scalar string ts
  | Dictionary string ts ts ts  \<comment> \<open>key, value, report\<close>
  | Members string ts
  | Nested string ts

definition ts_kvp :: "ts \<Rightarrow> ts \<Rightarrow> ts" where
  "ts_kvp k v = TsObject [required ''key'' k, required ''value'' v]"

fun change_fields :: "change_field \<Rightarrow> ts_field list" where
  "change_fields (Scalar k t) =
     [required (k @ ''HasChanged'') TsBoolean, required (k @ ''Previous'') (ts_nullable t),
      required (k @ ''New'') (ts_nullable t)]"
| "change_fields (Dictionary k t v u) =
     [required (k @ ''Added'') (TsArray (ts_kvp t v)), required (k @ ''Removed'') (TsArray t),
      required (k @ ''Updated'') (TsArray (ts_kvp t u))]"
| "change_fields (Members k t) =
     [required (k @ ''Added'') (TsArray t), required (k @ ''Removed'') (TsArray t)]"
| "change_fields (Nested k t) = [required (k @ ''Changes'') (ts_nullable t)]"

definition ts_report :: "change_field list \<Rightarrow> ts" where
  "ts_report cs = TsObject (required ''hasChanged'' TsBoolean # concat (map change_fields cs))"

definition MaterialColorChanges :: "change_field list" where
  "MaterialColorChanges =
     [Scalar ''name'' TsString, Scalar ''r'' TsNumber, Scalar ''g'' TsNumber,
      Scalar ''b'' TsNumber]"

definition MaterialChanges :: "change_field list" where
  "MaterialChanges =
     [Scalar ''name'' TsString, Nested ''color'' (ts_report MaterialColorChanges),
      Scalar ''fProfileIDX'' TsString]"

definition SpoolChanges :: "change_field list" where
  "SpoolChanges =
     [Scalar ''number'' TsNumber, Nested ''material'' (ts_report MaterialChanges),
      Scalar ''gramsMaximum'' TsNumber, Scalar ''gramsRemaining'' TsNumber]"

definition MachineExtruderChanges :: "change_field list" where
  "MachineExtruderChanges =
     [Scalar ''number'' TsNumber,
      Scalar ''heatingConstraint'' (TsObject heating_constraints_fields),
      Scalar ''tempC'' TsNumber, Scalar ''targetTempC'' TsNumber, Scalar ''nozzleNumber'' TsNumber,
      Scalar ''loadedSpool'' ts_spool_location]"

definition MachineNozzleChanges :: "change_field list" where
  "MachineNozzleChanges =
     [Scalar ''number'' TsNumber, Scalar ''diameter'' TsNumber]"

definition NotificationChanges :: "change_field list" where
  "NotificationChanges =
     [Scalar ''message'' (TsObject message_fields), Scalar ''lastSeenAt'' TsString]"

definition MUnitChanges :: "change_field list" where
  "MUnitChanges =
     [Scalar ''iD'' TsString, Scalar ''capacity'' TsNumber, Scalar ''model'' TsString,
      Scalar ''capabilities'' TsString,
      Scalar ''heatingConstraints'' (TsObject heating_constraints_fields),
      Dictionary ''trays'' TsNumber (TsObject machine_spool_fields) (ts_report SpoolChanges),
      Scalar ''humidityPercent'' TsNumber, Scalar ''temperatureC'' TsNumber,
      Scalar ''heatingJob'' (TsObject heating_job_fields),
      Members ''heatingSchedule'' (TsObject heating_schedule_fields)]"

definition PrintJobChanges :: "change_field list" where
  "PrintJobChanges =
     [Scalar ''name'' TsString, Scalar ''customID'' TsString,
      Scalar ''percentageComplete'' TsNumber, Scalar ''remainingTime'' TsString,
      Scalar ''totalTime'' TsString, Scalar ''issue'' (TsObject message_fields),
      Scalar ''thumbnail'' ts_file_handle, Scalar ''file'' ts_file_handle,
      Scalar ''subStage'' TsString, Scalar ''totalMaterialUsage'' TsNumber,
      Scalar ''localPath'' TsString, Dictionary ''spoolMaterialUsages'' TsString TsNumber TsNumber]"

definition MachineStateChanges :: "change_field list" where
  "MachineStateChanges =
     [Scalar ''brand'' TsString, Scalar ''model'' TsString, Scalar ''nickname'' TsString,
      Scalar ''capabilities'' TsString, Scalar ''status'' TsString,
      Nested ''currentJob'' (ts_report PrintJobChanges),
      Members ''jobHistory'' (TsObject historic_job_fields),
      Members ''localJobs'' (TsObject local_job_fields),
      Members ''scheduledPrints'' (TsObject scheduled_print_fields),
      Dictionary ''extruders'' TsNumber (TsObject extruder_fields) (ts_report MachineExtruderChanges),
      Dictionary ''nozzles'' TsNumber (TsObject nozzle_fields) (ts_report MachineNozzleChanges),
      Dictionary ''materialUnits'' TsString (TsObject munit_fields) (ts_report MUnitChanges),
      Scalar ''airDuctMode'' TsString, Dictionary ''fans'' TsString TsNumber TsNumber,
      Dictionary ''lights'' TsString TsBoolean TsBoolean,
      Dictionary ''heatingElements'' TsString (TsObject heating_element_fields) (TsObject heating_element_fields),
      Scalar ''isLocalStorageScanning'' TsBoolean,
      Scalar ''streamingURLs'' (TsObject streaming_fields),
      Dictionary ''notifications'' TsString (TsObject notification_fields) (ts_report NotificationChanges)]"

definition AtAGlanceMachineStateChanges :: "change_field list" where
  "AtAGlanceMachineStateChanges =
     [Scalar ''status'' TsString, Scalar ''capabilities'' TsString, Scalar ''nickname'' TsString,
      Nested ''currentJob'' (ts_report PrintJobChanges)]"

definition BroadcastedMachineStateUpdateData :: ts where
  "BroadcastedMachineStateUpdateData = TsObject
     [required ''fullChanges'' (ts_nullable (ts_report MachineStateChanges)),
      required ''atAGlanceChanges'' (ts_nullable (ts_report AtAGlanceMachineStateChanges))]"

section \<open>The reports follow the state\<close>

text \<open>A report property that carries the changes of a state property of the type.\<close>

fun carries :: "ts_field \<Rightarrow> change_field \<Rightarrow> bool" where
  "carries (Field k opt t) (Scalar k' u) = (k = k' \<and> (t = u \<or> t = ts_nullable u))"
| "carries (Field k opt t) (Dictionary k' i v u) = (k = k' \<and> (t = TsRecord v \<or> t = ts_nullable (TsRecord v)))"
| "carries (Field k opt t) (Members k' u) = (k = k' \<and> t = TsArray u)"
| "carries (Field k opt t) (Nested k' u) =
     (k = k' \<and> (case t of TsObject fs \<Rightarrow> True | TsUnion ts \<Rightarrow> True | _ \<Rightarrow> False))"

definition uncarried :: "ts_field list \<Rightarrow> change_field list \<Rightarrow> string list" where
  "uncarried fs cs = map field_name (filter (\<lambda>f. \<not> list_ex (carries f) cs) fs)"

lemmas state_interfaces = required_def maybe_def material_color_fields_def material_fields_def machine_spool_fields_def
  extruder_fields_def nozzle_fields_def notification_fields_def munit_fields_def print_job_fields_def
  machine_state_fields_def glance_state_fields_def

lemmas change_interfaces = MaterialColorChanges_def MaterialChanges_def SpoolChanges_def MachineExtruderChanges_def
  MachineNozzleChanges_def NotificationChanges_def MUnitChanges_def PrintJobChanges_def MachineStateChanges_def
  AtAGlanceMachineStateChanges_def

text \<open>Every property of the state has the report its type calls for, with five exceptions:
  the speed range, the speed presets and the speed of a job, the time a notification was
  issued, and the identifier of a material unit, which the reports spell \<open>iD\<close>.\<close>

lemma reports_follow_the_state:
  "uncarried material_color_fields MaterialColorChanges = []"
  "uncarried machine_spool_fields SpoolChanges = []" "uncarried extruder_fields MachineExtruderChanges = []"
  "uncarried nozzle_fields MachineNozzleChanges = []" "uncarried glance_state_fields AtAGlanceMachineStateChanges = []"
  "uncarried notification_fields NotificationChanges = [''issuedAt'']"
  "uncarried munit_fields MUnitChanges = [''id'']"
  "uncarried print_job_fields PrintJobChanges = [''printSpeedPercent'']"
  "uncarried machine_state_fields MachineStateChanges = [''speedRange'', ''speedPresets'']"
  by (simp_all add: uncarried_def state_interfaces change_interfaces ts_nullable_def ts_material_def)

section \<open>What a listener gets\<close>

text \<open>As long as the server only broadcasts well-typed reports on the topics of its
  machines, every report a state listener is called with is one it broadcast on the topic of
  the listener's machine, unchanged, and has the type the listener declares.\<close>

theorem listeners_get_typed_reports:
  assumes "reachable parse (new_client u o1) s" and "StateCall h m v \<in> set (out s)"
    and "\<And>raw msg k. parse raw = Some msg \<Longrightarrow> jget msg ''topic'' = JStr (Topics (Machine_StateUpdated k))
      \<Longrightarrow> has_ts BroadcastedMachineStateUpdateData (jget msg ''data'')"
  shows "has_ts BroadcastedMachineStateUpdateData v
    \<and> (\<exists>raw msg. parse raw = Some msg \<and> jget msg ''topic'' = JStr (Topics (Machine_StateUpdated m)) \<and> v = jget msg ''data'')"
proof -
  have "allowed parse (StateCall h m v)"
    using reachable_sends_typed [OF assms(1)] assms(2) unfolding sends_typed_def list_all_iff by blast
  with assms(3) show ?thesis unfolding broadcast_of_def allowed.simps by metis
qed

definition demo_glance :: json where
  "demo_glance = JObj [(''fullChanges'', JNull), (''atAGlanceChanges'', JObj
     [(''hasChanged'', JBool True),
      (''statusHasChanged'', JBool True), (''statusPrevious'', JStr ''Idle''), (''statusNew'', JStr ''Printing''),
      (''capabilitiesHasChanged'', JBool False), (''capabilitiesPrevious'', JNull), (''capabilitiesNew'', JNull),
      (''nicknameHasChanged'', JBool False), (''nicknamePrevious'', JNull), (''nicknameNew'', JNull),
      (''currentJobChanges'', JNull)])]"

definition glance_parse :: "string \<Rightarrow> json option" where
  "glance_parse raw =
     (if raw = ''glance'' then Some (JObj [(''topic'', JStr ''machine/m1/state''), (''data'', demo_glance)]) else None)"

definition demo_glanced :: client where
  "demo_glanced = handleMessage glance_parse ''glance'' (onMachineState ''m1'' 7 demo_open)"

lemma demo_glanced_reachable: "reachable glance_parse (new_client ''ws://host/ws'' demo_options) demo_glanced"
proof -
  let ?e = "demo_env ''id0''" and ?s = "onMachineState ''m1'' 7 demo_open"
  have s: "jobs ?s = []" "pending ?s = []" "sockets ?s = sockets demo_open"
    by (simp_all add: onMachineState_def onTopic_def Let_def demo_open_fields split: option.split)
  have "reachable glance_parse demo_new (step glance_parse ?e Connect demo_new)"
    by (rule next_step [OF start]) (simp_all add: demo_new_def new_client_def)
  then have "reachable glance_parse demo_new demo_connecting" by (simp add: demo_connecting_def)
  then have "reachable glance_parse demo_new (step glance_parse ?e (SocketOpen 1) demo_connecting)"
    by (rule next_step) (simp_all add: socket_in_def demo_connecting_fields)
  then have "reachable glance_parse demo_new demo_open" by (simp add: demo_open_def)
  then have "reachable glance_parse demo_new (step glance_parse ?e (OnMachineState ''m1'' 7) demo_open)"
    by (rule next_step) (simp_all add: demo_open_fields)
  then have "reachable glance_parse demo_new ?s" by simp
  then have "reachable glance_parse demo_new (step glance_parse ?e (SocketMessage 1 ''glance'') ?s)"
    by (rule next_step) (simp_all add: s socket_in_def demo_open_fields)
  then show ?thesis by (simp add: demo_glanced_def demo_new_def)
qed

theorem listeners_get_typed_reports_witness:
  "has_ts BroadcastedMachineStateUpdateData demo_glance
    \<and> (\<exists>raw msg. glance_parse raw = Some msg \<and> jget msg ''topic'' = JStr (Topics (Machine_StateUpdated ''m1''))
      \<and> demo_glance = jget msg ''data'')"
proof (rule listeners_get_typed_reports [OF demo_glanced_reachable])
  show "StateCall 7 ''m1'' demo_glance \<in> set (out demo_glanced)"
    by (simp add: demo_glanced_def handleMessage_def glance_parse_def onMachineState_def onTopic_def Let_def
        demo_open_fields broadcast_def find_pending_def emit_def emit_out_def jm_has_def js_simps)
next
  fix raw msg k
  assume "glance_parse raw = Some msg" "jget msg ''topic'' = JStr (Topics (Machine_StateUpdated k))"
  then show "has_ts BroadcastedMachineStateUpdateData (jget msg ''data'')"
    by (auto simp: glance_parse_def demo_glance_def BroadcastedMachineStateUpdateData_def ts_nullable_def required_def
        ts_report_def AtAGlanceMachineStateChanges_def split: if_splits)
qed

end
