(* ===== verification/DeviceServer.thy ===== *)
theory DeviceServer
  imports BatchUpload WindowMessages PrinterProps
begin

text \<open>
  The copy of the store the window gets every two seconds (\<open>sendDevices\<close> of class \<open>G4\<close> of
  \<open>CeX73yR3.js\<close>), and the handler that reads the saved printers again
  (\<open>handle_reinit_related_to_account_device\<close>).

  \<open>parse\<close> is \<open>JSON.parse\<close>, \<open>None\<close> where it throws.  The copy is a deep one, so a change to it
  is no change to the store; the properties the window gets are those of the printer object
  in the order of its literal, with those that are emptied or added written in place (the
  number of a running timer, \<open>materialTimerId\<close>, is left out).
\<close>

section \<open>What a printer becomes\<close>

text \<open>The local addresses of the cloud printers that are offline, by mac: whether there is one.\<close>

definition kept :: "printer \<Rightarrow> bool" where
  "kept a \<longleftrightarrow> deviceType a < 100"

definition linked :: "printer \<Rightarrow> bool" where
  "linked a \<longleftrightarrow> identity a \<noteq> None \<and> identity a \<noteq> Some []"

definition offline_twin :: "string \<Rightarrow> dashboard \<Rightarrow> bool" where
  "offline_twin m s =
     list_ex (\<lambda>n. let a = printers s n in deviceType a = 1 \<and> linked a \<and> \<not> online a \<and> mac a = m) (all_refs s)"

definition localOnline :: "printer \<Rightarrow> bool" where
  "localOnline a = (deviceType a = 0 \<and> online a)"

definition cloudOnline :: "dashboard \<Rightarrow> printer \<Rightarrow> bool" where
  "cloudOnline s a = (\<not> offline_twin (mac a) s \<and> (if deviceType a = 0 then linked a else online a))"

text \<open>A cloud printer is shown offline while the session is not valid.\<close>

definition shown_online :: "bool \<Rightarrow> printer \<Rightarrow> bool" where
  "shown_online valid a = (online a \<and> \<not> (deviceType a = 1 \<and> \<not> valid))"

text \<open>The newest file; \<open>None\<close> is a \<open>TypeError\<close>.\<close>

definition file_list :: "json list \<Rightarrow> json" where
  "file_list fs = JObj [(''file'', JArr fs)]"

definition fileList :: "printer \<Rightarrow> json option" where
  "fileList a =
     (let two = jget (JObj (data a)) ''retGcodeFileInfo2''; one = jget (JObj (data a)) ''retGcodeFileInfo'' in
      case two of
        JArr (i # _) \<Rightarrow>
          if nullish i then None
          else Some (file_list [written [(''name'', JStr (encodeURIComponent (js_text (jget i ''name'')))), (''size'', jget i ''file_size'')]])
      | _ \<Rightarrow>
          if truthy one
          then (case jget one ''fileInfo'' of
                  JStr t \<Rightarrow>
                    (case filter (\<lambda>l. l \<noteq> []) (js_split '';'' t) of
                       [] \<Rightarrow> Some (file_list [])
                     | u # _ \<Rightarrow>
                         let l = js_split '':'' u in
                         Some (file_list [written
                           [(''name'', JStr (encodeURIComponent (if 1 < length l then l ! 1 else ''undefined''))),
                            (''size'', if 2 < length l then JStr (l ! 2) else JUndefined)]]))
                | _ \<Rightarrow> None)
          else Some JNull)"

definition err_json :: "(string \<Rightarrow> json option) \<Rightarrow> printer_err \<Rightarrow> json" where
  "err_json parse e = JObj
     [(''errcode'', errcode e), (''key'', err_key e),
      (''value'', if truthy (err_value e)
                  then (case parse (js_text (err_value e)) of None \<Rightarrow> JStr [] | Some v \<Rightarrow> v) else err_value e),
      (''errLevel'', errLevel e)]"

definition boxsInfo_json :: "printer_boxsInfo \<Rightarrow> json" where
  "boxsInfo_json b = written
     [(''same_material'', same_material b), (''color_same_material'', color_same_material b),
      (''boxColorInfo'', JArr (boxColorInfo b)), (''materialBoxs'', JArr (materialBoxs b)), (''cfsName'', cfsName b),
      (''hashBoxsInfo'', case hashBoxsInfo b of None \<Rightarrow> JUndefined | Some h \<Rightarrow> JNum (of_nat h))]"

definition boxConfig_json :: "printer_boxConfig \<Rightarrow> json" where
  "boxConfig_json b = written
     [(''cAutoFeed'', cAutoFeed b), (''cSelfTest'', cSelfTest b), (''autoRefill'', autoRefill b),
      (''ignoreColorAutoFeed'', ignoreColorAutoFeed b)]"

text \<open>The properties before and after \<open>online\<close>.\<close>

definition card_identity :: "printer \<Rightarrow> (string \<times> json) list" where
  "card_identity a =
     [(''deviceType'', JNum (of_int (deviceType a))), (''identity'', orNull JStr (identity a)), (''tbId'', tbId a),
      (''timeStamp'', JNum (of_int (timeStamp a))), (''boxInfoTimeStamp'', JNum (of_int (boxInfoTimeStamp a))),
      (''modelName'', modelName a), (''deviceImg'', JStr (deviceImg a)), (''defaultDeviceImg'', JStr (defaultDeviceImg a)),
      (''name'', text_or_absent (name a)), (''state'', state a), (''filePath'', JStr []), (''deviceState'', deviceState a),
      (''printProgress'', printProgress a), (''printStartTime'', printStartTime a), (''printLeftTime'', printLeftTime a),
      (''printJobTime'', printJobTime a), (''finishTime'', finishTime a), (''printFileName'', printFileName a),
      (''previewimg'', JStr []), (''address'', JStr (address a)), (''mac'', JStr (mac a)),
      (''model'', JStr (if model a = ''K1Max'' then ''K1 Max'' else model a)), (''visable'', JBool (visable a)),
      (''type'', JNum (of_int (type a))), (''socket'', JNull), (''IsMultiColorDevice'', IsMultiColorDevice a),
      (''feedState'', feedState a), (''webrtcSupport'', webrtcSupport a), (''materialDetector1'', materialDetector1 a),
      (''modelVersion'', modelVersion a)]"

definition card_state :: "(string \<Rightarrow> json option) \<Rightarrow> printer \<Rightarrow> (string \<times> json) list" where
  "card_state parse a =
     [(''connected'', JBool (connected a)), (''reconnectCount'', JNum (of_nat (reconnectCount a))), (''layer'', layer a),
      (''TotalLayer'', TotalLayer a), (''repoPlrStatus'', repoPlrStatus a), (''materialStatus'', materialStatus a),
      (''machinePlatformMotionEnable'', machinePlatformMotionEnable a), (''auxiliary_fan'', auxiliary_fan a),
      (''machine_LED_light_exist'', machine_LED_light_exist a), (''support_air_filtration'', support_air_filtration a),
      (''video'', video a), (''oldPrinter'', JBool (oldPrinter a)), (''moonrakerPort'', moonrakerPort a),
      (''fluiddPort'', fluiddPort a), (''mainsailPort'', mainsailPort a), (''KlipperUrl'', KlipperUrl a),
      (''withSelfTest'', withSelfTest a), (''linuxVideoUrl'', linuxVideoUrl a), (''materialCutterState'', materialCutterState a),
      (''err'', err_json parse (err a)), (''refreshBox'', refreshBox a), (''ctrol'', JObj []), (''temperature'', JObj []),
      (''boxsInfo'', boxsInfo_json (boxsInfo a)), (''boxConfig'', boxConfig_json (boxConfig a)), (''part'', JObj []),
      (''materials'', JArr (materials a)), (''data'', written [(''cfsConnect'', jget (JObj (data a)) ''cfsConnect'')]),
      (''materialState'', materialState a), (''selected'', JBool (selected a)), (''openCFS'', JBool (openCFS a)),
      (''printCalibration'', JBool (printCalibration a)), (''uploadGCodeProgress'', uploadGCodeProgress a),
      (''uploadSpeed'', uploadSpeed a), (''isCurrentDevice'', JBool (isCurrentDevice a)),
      (''isRelatedToAccount'', JBool (isRelatedToAccount a)), (''cfsConnect'', cfsConnect a),
      (''uploadFileProgress'', uploadFileProgress a), (''uploadState'', uploadState a), (''material'', JArr []),
      (''cfsCModifyMaterial'', cfsCModifyMaterial a), (''mcu_is_print'', mcu_is_print a), (''uploadError'', uploadError a)]"

definition device_card :: "(string \<Rightarrow> json option) \<Rightarrow> bool \<Rightarrow> dashboard \<Rightarrow> printer \<Rightarrow> json \<Rightarrow> json" where
  "device_card parse valid s a files = written
     (card_identity a @ [(''online'', JBool (shown_online valid a))] @ card_state parse a @
      [(''localOnline'', JBool (localOnline a)), (''cloudOnline'', JBool (cloudOnline s a)), (''fileList'', files),
       (''supportMultiple'', JBool (\<not> nullish (jget (JObj (data a)) ''retGcodeFileInfo2'')))])"

section \<open>The message\<close>

definition group_cards :: "(string \<Rightarrow> json option) \<Rightarrow> bool \<Rightarrow> dashboard \<Rightarrow> printer_group \<Rightarrow> json option" where
  "group_cards parse valid s g =
     map_option (\<lambda>cs. JObj [(''group'', JStr (group g)), (''type'', JNum (of_int (groupType g))),
         (''visable'', JBool (groupVisable g)), (''list'', JArr cs)])
       (all_of (map (\<lambda>a. map_option (device_card parse valid s a) (fileList a))
         (filter kept (map (printers s) (members g)))))"

definition devices_message :: "dashboard \<Rightarrow> json list \<Rightarrow> (string \<times> json) list" where
  "devices_message s gs =
     [(''command'', JStr ''update_devices''),
      (''data'', JObj [(''filter'', JObj []), (''currentActivePrinterMac'', JStr (currentActivePrinterMac s)),
         (''mergeState'', JBool (mergeState s)), (''printerList'', JArr gs), (''printerPreset'', JObj [])])]"

text \<open>A \<open>TypeError\<close> on the way ends the call before anything is posted.\<close>

definition sendDevices :: "(string \<Rightarrow> json option) \<Rightarrow> bool \<Rightarrow> dashboard \<Rightarrow> dashboard" where
  "sendDevices parse valid s =
     (case all_of (map (group_cards parse valid s) (printerList s)) of
        None \<Rightarrow> s
      | Some gs \<Rightarrow> post (devices_message s gs) s)"

section \<open>Reading the saved printers again\<close>

text \<open>\<open>read\<close> turns the saved configuration into groups.  The account's printers are marked by a
  timer 200 milliseconds later, which is the second component until it fires.\<close>

definition handle_reinit_related_to_account_device ::
    "(string \<Rightarrow> json option) \<Rightarrow> (json \<Rightarrow> string option \<times> saved_group list) \<Rightarrow> int \<Rightarrow> string \<Rightarrow> dashboard
      \<Rightarrow> dashboard \<times> json option" where
  "handle_reinit_related_to_account_device parse read now t s =
     (case parse t of
        None \<Rightarrow> (s, None)
      | Some r \<Rightarrow>
          if nullish r then (s, None)
          else
            let v = jget r ''related_device_info'' in
            if \<not> truthy v then (s, Some (jget r ''accout_binded_devices''))
            else (case parse (js_text v) of
                    None \<Rightarrow> (s, None)
                  | Some c \<Rightarrow> (init now (fst (read c)) (snd (read c)) s, Some (jget r ''accout_binded_devices''))))"

definition reinit_timer :: "json option \<Rightarrow> dashboard \<Rightarrow> dashboard" where
  "reinit_timer v s =
     (case v of
        None \<Rightarrow> s
      | Some JNull \<Rightarrow> updatePrinterRelateToAccountState None s
      | Some (JObj []) \<Rightarrow> updatePrinterRelateToAccountState None s
      | Some (JArr xs) \<Rightarrow> updatePrinterRelateToAccountState (macs_of (JArr xs)) s
      | Some _ \<Rightarrow> s)"

section \<open>What the window sees\<close>

lemma all_of_Some: "list_all (\<lambda>x. x \<noteq> None) xs \<Longrightarrow> all_of xs = Some (map the xs)"
  by (induction xs rule: all_of.induct) simp_all

lemma jget_written_Cons:
  "jget (written ((k', v) # ps)) k = (if k = k' \<and> v \<noteq> JUndefined then v else jget (written ps) k)"
  by (simp add: written_def)

lemma jget_card:
  "jget (device_card parse valid s a f) ''address'' = JStr (address a)"
  "jget (device_card parse valid s a f) ''online'' = JBool (shown_online valid a)"
  "jget (device_card parse valid s a f) ''localOnline'' = JBool (localOnline a)"
  "jget (device_card parse valid s a f) ''cloudOnline'' = JBool (cloudOnline s a)"
  by (simp_all add: device_card_def card_identity_def card_state_def jget_written_Cons)

lemma cards_of_group:
  assumes "\<forall>n \<in> set (members g). kept (printers s n) \<longrightarrow> fileList (printers s n) \<noteq> None"
  shows "group_cards parse valid s g = Some (JObj [(''group'', JStr (group g)), (''type'', JNum (of_int (groupType g))),
    (''visable'', JBool (groupVisable g)),
    (''list'', JArr (map (\<lambda>a. device_card parse valid s a (the (fileList a))) (filter kept (map (printers s) (members g)))))])"
proof -
  have "list_all (\<lambda>x. x \<noteq> None) (map (\<lambda>a. map_option (device_card parse valid s a) (fileList a))
      (filter kept (map (printers s) (members g))))"
    using assms by (auto simp: list_all_iff)
  moreover have "map the (map (\<lambda>a. map_option (device_card parse valid s a) (fileList a)) (filter kept (map (printers s) (members g))))
      = map (\<lambda>a. device_card parse valid s a (the (fileList a))) (filter kept (map (printers s) (members g)))"
    using assms by (auto simp: option.map_sel)
  ultimately show ?thesis by (simp add: group_cards_def all_of_Some)
qed

definition card_view :: "json \<Rightarrow> json \<times> json \<times> json \<times> json" where
  "card_view c = (jget c ''address'', jget c ''online'', jget c ''localOnline'', jget c ''cloudOnline'')"

definition group_view :: "json \<Rightarrow> json \<times> (json \<times> json \<times> json \<times> json) list" where
  "group_view j = (jget j ''group'', case jget j ''list'' of JArr cs \<Rightarrow> map card_view cs | _ \<Rightarrow> [])"

text \<open>As long as the file lists can be read, the window gets one message, and it shows
  every group with the printers of its own kinds, in order, each with its address and with
  what it is reachable by: a printer counts as reachable over the cloud only while no
  offline cloud printer has its mac.\<close>

theorem window_sees_every_printer:
  assumes "\<forall>n \<in> set (all_refs s). kept (printers s n) \<longrightarrow> fileList (printers s n) \<noteq> None"
  shows "\<exists>gs. sendDevices parse valid s = post (devices_message s gs) s
    \<and> map group_view gs = map (\<lambda>g. (JStr (group g),
        map (\<lambda>a. (JStr (address a), JBool (shown_online valid a), JBool (deviceType a = 0 \<and> online a),
             JBool ((if deviceType a = 0 then linked a else online a) \<and> \<not> offline_twin (mac a) s)))
          (filter kept (map (printers s) (members g))))) (printerList s)"
proof -
  let ?card = "\<lambda>a. device_card parse valid s a (the (fileList a))"
  let ?group = "\<lambda>g. JObj [(''group'', JStr (group g)), (''type'', JNum (of_int (groupType g))),
    (''visable'', JBool (groupVisable g)), (''list'', JArr (map ?card (filter kept (map (printers s) (members g)))))]"
  have "group_cards parse valid s g = Some (?group g)" if "g \<in> set (printerList s)" for g
    using assms that by (intro cards_of_group) (auto simp: all_refs_def)
  then have "all_of (map (group_cards parse valid s) (printerList s)) = Some (map ?group (printerList s))"
    by (subst all_of_Some) (auto simp: list_all_iff)
  then have "sendDevices parse valid s = post (devices_message s (map ?group (printerList s))) s"
    by (simp add: sendDevices_def)
  moreover have "map group_view (map ?group (printerList s)) = map (\<lambda>g. (JStr (group g),
        map (\<lambda>a. (JStr (address a), JBool (shown_online valid a), JBool (deviceType a = 0 \<and> online a),
             JBool ((if deviceType a = 0 then linked a else online a) \<and> \<not> offline_twin (mac a) s)))
          (filter kept (map (printers s) (members g))))) (printerList s)"
    by (auto simp: group_view_def card_view_def jget_card localOnline_def cloudOnline_def)
  ultimately show ?thesis by blast
qed

lemma demo_data: "data (demo_printer a) = []" "identity (demo_printer a) = None"
  by (simp_all add: demo_printer_def initial_printer_def)

theorem window_sees_every_printer_witness:
  "\<exists>gs. sendDevices (\<lambda>_. None) True demo_board = post (devices_message demo_board gs) demo_board
    \<and> map group_view gs = [(JStr ''g'', [(JStr ''a'', JBool True, JBool True, JBool False)]),
        (JStr ''h'', [(JStr ''b'', JBool True, JBool True, JBool False), (JStr ''c'', JBool True, JBool True, JBool False)])]"
  using window_sees_every_printer [of demo_board "\<lambda>_. None" True]
  by (simp add: fileList_def demo_data kept_def shown_online_def linked_def)

end
