(* ===== verification/RequestLimit.thy ===== *)
theory RequestLimit
  imports Complex_Main
begin

text \<open>
  The limiter of requests (\<open>VZe\<close> with its queue \<open>BZe\<close> in \<open>CeX73yR3.js\<close>): a search for
  printers asks many addresses at once and no more than thirty requests are under way.  The
  events are the calls of the limiter, of the two members it has, and the end of a task; what
  the promises of the code put off is a queue of microtasks, run in order.
\<close>

section \<open>State\<close>

text \<open>\<open>None\<close> is \<open>Number.POSITIVE_INFINITY\<close>.\<close>

type_synonym concurrency = "rat option"

definition Xte :: "concurrency \<Rightarrow> bool" where
  "Xte e = (case e of None \<Rightarrow> True | Some q \<Rightarrow> of_int \<lfloor>q\<rfloor> = q \<and> 0 < q)"

definition below_limit :: "nat \<Rightarrow> concurrency \<Rightarrow> bool" where
  "below_limit r e = (case e of None \<Rightarrow> True | Some q \<Rightarrow> of_nat r < q)"

text \<open>What waits for its turn: the check after a call, a task whose place has come, the
  continuation of a task that has ended, and the checks after a change of the limit.\<close>

datatype 'a limit_job = Check | Begin 'a | Ended 'a | Refill

record 'a limiter =
  concurrency :: concurrency
  activeCount :: nat
  waiting :: "'a list"
  microtasks :: "'a limit_job list"
  running :: "'a list"
  begun :: "'a list"  \<comment> \<open>every task that has been started, in order\<close>

text \<open>\<open>VZe\<close>; \<open>None\<close> is the \<open>TypeError\<close>.\<close>

definition VZe :: "concurrency \<Rightarrow> 'a limiter option" where
  "VZe e = (if Xte e then Some \<lparr>concurrency = e, activeCount = 0, waiting = [], microtasks = [], running = [], begun = []\<rparr>
     else None)"

section \<open>Steps\<close>

text \<open>\<open>n\<close>: the first waiting task is let through.\<close>

definition let_through :: "'a limiter \<Rightarrow> 'a limiter" where
  "let_through s =
     (if below_limit (activeCount s) (concurrency s)
      then (case waiting s of
              [] \<Rightarrow> s
            | t # ts \<Rightarrow> s\<lparr>waiting := ts, microtasks := microtasks s @ [Begin t], activeCount := Suc (activeCount s)\<rparr>)
      else s)"

text \<open>\<open>for (; r < e && t.size > 0;) n()\<close>\<close>

function refill :: "'a limiter \<Rightarrow> 'a limiter" where
  "refill s = (if below_limit (activeCount s) (concurrency s) \<and> waiting s \<noteq> [] then refill (let_through s) else s)"
  by pat_completeness auto

termination
  by (relation "measure (\<lambda>s. length (waiting s))") (auto simp: let_through_def split: list.split)

declare refill.simps [simp del]

definition call_limited :: "'a \<Rightarrow> 'a limiter \<Rightarrow> 'a limiter" where
  "call_limited t s = s\<lparr>waiting := waiting s @ [t], microtasks := microtasks s @ [Check]\<rparr>"

definition clearQueue :: "'a limiter \<Rightarrow> 'a limiter" where
  "clearQueue s = s\<lparr>waiting := []\<rparr>"

definition set_concurrency :: "concurrency \<Rightarrow> 'a limiter \<Rightarrow> 'a limiter option" where
  "set_concurrency e s =
     (if Xte e then Some (s\<lparr>concurrency := e, microtasks := microtasks s @ [Refill]\<rparr>) else None)"

text \<open>The promise of a running task is fulfilled or rejected.\<close>

definition task_ends :: "'a \<Rightarrow> 'a limiter \<Rightarrow> 'a limiter" where
  "task_ends t s = s\<lparr>running := remove1 t (running s), microtasks := microtasks s @ [Ended t]\<rparr>"

fun run_microtask :: "'a limit_job \<Rightarrow> 'a limiter \<Rightarrow> 'a limiter" where
  "run_microtask Check s = let_through s"
| "run_microtask (Begin t) s = s\<lparr>running := running s @ [t], begun := begun s @ [t]\<rparr>"
| "run_microtask (Ended t) s = let_through (s\<lparr>activeCount := activeCount s - 1\<rparr>)"
| "run_microtask Refill s = refill s"

definition next_microtask :: "'a limiter \<Rightarrow> 'a limiter" where
  "next_microtask s = (case microtasks s of [] \<Rightarrow> s | j # js \<Rightarrow> run_microtask j (s\<lparr>microtasks := js\<rparr>))"

datatype 'a limit_event = Call 'a | Microtask | TaskEnds 'a | ClearQueue | SetConcurrency concurrency

fun limit_step :: "'a limit_event \<Rightarrow> 'a limiter \<Rightarrow> 'a limiter" where
  "limit_step (Call t) s = call_limited t s"
| "limit_step Microtask s = next_microtask s"
| "limit_step (TaskEnds t) s = (if t \<in> set (running s) then task_ends t s else s)"
| "limit_step ClearQueue s = clearQueue s"
| "limit_step (SetConcurrency e) s = (case set_concurrency e s of None \<Rightarrow> s | Some s' \<Rightarrow> s')"

section \<open>How many are under way\<close>

fun under_way_job :: "'a limit_job \<Rightarrow> nat" where
  "under_way_job (Begin t) = 1"
| "under_way_job (Ended t) = 1"
| "under_way_job _ = 0"

definition count_ok :: "'a limiter \<Rightarrow> bool" where
  "count_ok s \<longleftrightarrow> activeCount s = length (running s) + sum_list (map under_way_job (microtasks s))"

lemma count_let_through: "count_ok s \<Longrightarrow> count_ok (let_through s)"
  by (auto simp: count_ok_def let_through_def split: list.split)

lemma keeps_refill:
  assumes "\<And>s. P s \<Longrightarrow> P (let_through s)"
  shows "P s \<Longrightarrow> P (refill s)"
proof (induction s rule: refill.induct)
  case (1 s)
  then show ?case by (subst refill.simps) (simp add: assms)
qed

lemma count_step: "count_ok s \<Longrightarrow> count_ok (limit_step ev s)"
proof (cases ev)
  case Microtask
  assume ok: "count_ok s"
  show ?thesis
  proof (cases "microtasks s")
    case (Cons j js)
    then show ?thesis
      using ok Microtask
      by (cases j) (auto simp: next_microtask_def count_ok_def [of s] intro!: count_let_through keeps_refill [of count_ok],
        auto simp: count_ok_def)
  qed (use ok Microtask in \<open>simp add: next_microtask_def\<close>)
next
  case (TaskEnds t)
  assume ok: "count_ok s"
  show ?thesis
  proof (cases "t \<in> set (running s)")
    case True
    then have "length (running s) = Suc (length (remove1 t (running s)))"
      by (simp add: length_remove1) (metis Suc_pred length_pos_if_in_set)
    with ok TaskEnds True show ?thesis by (simp add: count_ok_def task_ends_def)
  qed (use ok TaskEnds in simp)
qed (auto simp: count_ok_def call_limited_def clearQueue_def set_concurrency_def split: option.split)

text \<open>A limit of at most \<open>l\<close> tasks.\<close>

definition limited :: "nat \<Rightarrow> concurrency \<Rightarrow> bool" where
  "limited l e = (case e of None \<Rightarrow> False | Some q \<Rightarrow> q \<le> of_nat l)"

fun limits_within :: "nat \<Rightarrow> 'a limit_event \<Rightarrow> bool" where
  "limits_within l (SetConcurrency e) = limited l e"
| "limits_within l _ = True"

definition bound_ok :: "nat \<Rightarrow> 'a limiter \<Rightarrow> bool" where
  "bound_ok l s \<longleftrightarrow> limited l (concurrency s) \<and> activeCount s \<le> l"

lemma bound_let_through: "bound_ok l s \<Longrightarrow> bound_ok l (let_through s)"
proof -
  have "Suc r \<le> l" if "of_nat r < q" "q \<le> of_nat l" for r and q :: rat
    using that by (metis Suc_leI less_le_trans of_nat_less_iff)
  then show "bound_ok l s \<Longrightarrow> ?thesis"
    by (auto simp: bound_ok_def let_through_def limited_def below_limit_def split: list.split option.splits)
qed

lemma bound_microtask: "bound_ok l s \<Longrightarrow> bound_ok l (next_microtask s)"
proof (cases "microtasks s")
  case (Cons j js)
  assume "bound_ok l s"
  then have "bound_ok l (s\<lparr>microtasks := js\<rparr>)" "bound_ok l (s\<lparr>microtasks := js, activeCount := activeCount s - 1\<rparr>)"
    by (auto simp: bound_ok_def)
  with Cons show ?thesis
    by (cases j) (simp_all add: next_microtask_def bound_let_through keeps_refill [of "bound_ok l"] bound_ok_def [of _ "_\<lparr>running := _\<rparr>"],
      simp_all add: bound_ok_def)
qed (simp add: next_microtask_def)

lemma bound_step: "bound_ok l s \<Longrightarrow> limits_within l ev \<Longrightarrow> bound_ok l (limit_step ev s)"
  by (cases ev) (auto simp: bound_microtask, auto simp: bound_ok_def call_limited_def clearQueue_def
      set_concurrency_def task_ends_def split: option.split)

section \<open>The order of the tasks\<close>

fun begins :: "'a limit_job list \<Rightarrow> 'a list" where
  "begins [] = []"
| "begins (Begin t # js) = t # begins js"
| "begins (_ # js) = begins js"

lemma begins_append [simp]: "begins (js @ js') = begins js @ begins js'"
  by (induction js rule: begins.induct) simp_all

definition in_order :: "'a limiter \<Rightarrow> 'a list" where
  "in_order s = begun s @ begins (microtasks s) @ waiting s"

lemma order_let_through [simp]: "in_order (let_through s) = in_order s"
  by (simp add: in_order_def let_through_def split: list.split)

lemma order_refill [simp]: "in_order (refill s) = in_order s"
  by (rule keeps_refill [where P = "\<lambda>x. in_order x = in_order s"]) simp_all

fun called :: "'a limit_event \<Rightarrow> 'a list" where
  "called (Call t) = [t]"
| "called _ = []"

lemma order_microtask: "in_order (next_microtask s) = in_order s"
proof (cases "microtasks s")
  case (Cons j js)
  then show ?thesis by (cases j) (simp_all add: next_microtask_def, simp_all add: in_order_def)
qed (simp add: next_microtask_def)

lemma order_step: "ev \<noteq> ClearQueue \<Longrightarrow> in_order (limit_step ev s) = in_order s @ called ev"
  by (cases ev) (auto simp: order_microtask, auto simp: in_order_def call_limited_def task_ends_def
      set_concurrency_def split: option.split)

section \<open>Nobody waits in vain\<close>

definition checks :: "'a limit_job list \<Rightarrow> nat" where
  "checks js = length (filter (\<lambda>j. case j of Check \<Rightarrow> True | _ \<Rightarrow> False) js)"

lemma checks_simps [simp]:
  "checks [] = 0" "checks (js @ js') = checks js + checks js'" "checks (Check # js) = Suc (checks js)"
  "checks (Begin t # js) = checks js" "checks (Ended t # js) = checks js" "checks (Refill # js) = checks js"
  by (simp_all add: checks_def)

text \<open>As long as there is room, every waiting task has a check to come.\<close>

definition room_ok :: "'a limiter \<Rightarrow> bool" where
  "room_ok s \<longleftrightarrow> \<not> below_limit (activeCount s) (concurrency s) \<or> Refill \<in> set (microtasks s)
     \<or> length (waiting s) \<le> checks (microtasks s)"

lemma full_refill: "\<not> below_limit (activeCount (refill s)) (concurrency (refill s)) \<or> waiting (refill s) = []"
proof (induction s rule: refill.induct)
  case (1 s)
  then show ?case by (subst (1 2 3) refill.simps) simp
qed

lemma room_microtask: "room_ok s \<Longrightarrow> room_ok (next_microtask s)"
proof (cases "microtasks s")
  case (Cons j js)
  assume ok: "room_ok s"
  show ?thesis
  proof (cases j)
    case Refill
    with Cons full_refill [of "s\<lparr>microtasks := js\<rparr>"] show ?thesis by (auto simp: next_microtask_def room_ok_def)
  next
    case (Ended t)
    have down: "below_limit (activeCount s - 1) e" if "below_limit (activeCount s) e" for e
      using that by (auto simp: below_limit_def split: option.splits elim: order.strict_trans1 [rotated])
    show ?thesis
    proof (cases "below_limit (activeCount s - 1) (concurrency s) \<and> waiting s \<noteq> []")
      case True
      then show ?thesis
        using ok Cons Ended
        by (cases "activeCount s") (auto simp: next_microtask_def room_ok_def let_through_def neq_Nil_conv)
    next
      case False
      then show ?thesis using Cons Ended down by (auto simp: next_microtask_def room_ok_def let_through_def)
    qed
  qed (use ok Cons in \<open>auto simp: next_microtask_def room_ok_def let_through_def split: list.split\<close>)
qed (simp add: next_microtask_def)

lemma room_step: "room_ok s \<Longrightarrow> room_ok (limit_step ev s)"
  by (cases ev) (auto simp: room_microtask, auto simp: room_ok_def call_limited_def clearQueue_def task_ends_def
      set_concurrency_def split: option.split)

section \<open>What holds of every run\<close>

lemma VZe_state: "VZe e = Some s \<Longrightarrow> count_ok s \<and> room_ok s \<and> in_order s = [] \<and> activeCount s = 0 \<and> concurrency s = e"
  by (auto simp: VZe_def count_ok_def room_ok_def in_order_def split: if_splits)

lemma run_keeps:
  assumes "\<And>ev s. Q ev \<Longrightarrow> P s \<Longrightarrow> P (limit_step ev s)" and "list_all Q evs" and "P s"
  shows "P (fold limit_step evs s)"
  using assms(2,3) by (induction evs arbitrary: s) (simp_all add: assms(1))

lemma run_always: "(\<And>ev s. P s \<Longrightarrow> P (limit_step ev s)) \<Longrightarrow> P s \<Longrightarrow> P (fold limit_step evs s)"
  by (rule run_keeps [where Q = "\<lambda>_. True"]) (simp_all add: list_all_iff)

lemma run_order: "list_all (\<lambda>ev. ev \<noteq> ClearQueue) evs
  \<Longrightarrow> in_order (fold limit_step evs s) = in_order s @ concat (map called evs)"
  by (induction evs arbitrary: s) (simp_all add: order_step)

text \<open>C18: Whatever is called and however the tasks end, a limiter made for at most \<open>l\<close> tasks
  never has more than \<open>l\<close> of them running, and as long as its queue is not cleared the tasks
  are started one after the other in the order of the calls, each once.\<close>

theorem limiter_runs_few_in_order:
  assumes "VZe e = Some s0" and "limited l e" and "list_all (limits_within l) evs"
    and "list_all (\<lambda>ev. ev \<noteq> ClearQueue) evs"
  shows "let s = fold limit_step evs s0 in length (running s) \<le> l
    \<and> begun s @ begins (microtasks s) @ waiting s = concat (map called evs)"
proof -
  let ?s = "fold limit_step evs s0"
  have "bound_ok l s0" using VZe_state [OF assms(1)] assms(2) by (simp add: bound_ok_def)
  then have "bound_ok l ?s"
    by (intro run_keeps [of "limits_within l" "bound_ok l"]) (simp_all add: bound_step assms(3))
  moreover have "count_ok ?s"
    using VZe_state [OF assms(1)] by (intro run_always [of count_ok]) (simp_all add: count_step)
  moreover have "in_order ?s = concat (map called evs)"
    using run_order [OF assms(4), of s0] VZe_state [OF assms(1)] by simp
  ultimately show ?thesis by (simp add: Let_def in_order_def bound_ok_def count_ok_def)
qed

text \<open>The microtasks come to an end by themselves.\<close>

definition work :: "'a limiter \<Rightarrow> nat" where
  "work s = 2 * length (waiting s) + length (microtasks s)"

lemma work_let_through: "work (let_through s) \<le> work s"
  by (simp add: work_def let_through_def split: list.split)

lemma work_microtask: "microtasks s \<noteq> [] \<Longrightarrow> work (next_microtask s) < work s"
proof (cases "microtasks s")
  case (Cons j js)
  have refill: "work (refill s') \<le> work s'" for s' :: "'a limiter"
    by (rule keeps_refill [where P = "\<lambda>x. work x \<le> work s'"]) (auto intro: order_trans [OF work_let_through])
  have less: "work (s\<lparr>microtasks := js\<rparr>) < work s" "work (s\<lparr>microtasks := js, activeCount := k\<rparr>) < work s" for k
    using Cons by (simp_all add: work_def)
  show ?thesis
  proof (cases j)
    case (Begin t)
    with Cons show ?thesis by (simp add: next_microtask_def work_def)
  qed (use Cons less work_let_through refill in \<open>auto simp: next_microtask_def intro: order.strict_trans1\<close>)
qed simp

function drain :: "'a limiter \<Rightarrow> 'a limiter" where
  "drain s = (if microtasks s = [] then s else drain (next_microtask s))"
  by pat_completeness auto

termination
  by (relation "measure work") (simp_all add: work_microtask)

declare drain.simps [simp del]

lemma drain_keeps: "(\<And>s. P s \<Longrightarrow> P (next_microtask s)) \<Longrightarrow> P s \<Longrightarrow> P (drain s)"
proof (induction s rule: drain.induct)
  case (1 s)
  then show ?case by (subst drain.simps) simp
qed

lemma drain_done: "microtasks (drain s) = []"
  by (induction s rule: drain.induct) (subst drain.simps, simp)

text \<open>C37: Nobody waits in vain.  Once the microtasks have run, which they always do, tasks wait
  only while as many are running as the limit allows; so when nothing is running nothing
  waits, whatever was called, cleared or changed before, tasks that failed included.\<close>

theorem limiter_starves_nobody:
  assumes "VZe e = Some s0"
  shows "let s = drain (fold limit_step evs s0)
    in waiting s \<noteq> [] \<longrightarrow> \<not> below_limit (length (running s)) (concurrency s) \<and> running s \<noteq> []"
proof -
  let ?s = "fold limit_step evs s0" and ?valid = "\<lambda>s. Xte (concurrency s)"
  have let_through: "concurrency (let_through s) = concurrency s" for s :: "'a limiter"
    by (simp add: let_through_def split: list.split)
  then have refill: "concurrency (refill s) = concurrency s" for s :: "'a limiter"
    by (intro keeps_refill [where P = "\<lambda>x. concurrency x = concurrency s"]) simp_all
  have micro: "concurrency (next_microtask s) = concurrency s" for s :: "'a limiter"
  proof (cases "microtasks s")
    case (Cons j js)
    then show ?thesis by (cases j) (simp_all add: next_microtask_def let_through refill)
  qed (simp add: next_microtask_def)
  have "?valid (limit_step ev s)" if "?valid s" for ev and s :: "'a limiter"
    using that by (cases ev) (auto simp: micro, auto simp: call_limited_def clearQueue_def task_ends_def set_concurrency_def split: option.split)
  moreover have "?valid s0" using assms by (auto simp: VZe_def split: if_splits)
  ultimately have "?valid ?s" by (intro run_always [of ?valid])
  then have valid: "?valid (drain ?s)" by (intro drain_keeps [of ?valid]) (simp_all add: micro)
  have "count_ok ?s" "room_ok ?s"
    using VZe_state [OF assms] by (simp_all add: run_always [of count_ok] run_always [of room_ok] count_step room_step)
  moreover have "count_ok (next_microtask s)" if "count_ok s" for s :: "'a limiter"
    using count_step [OF that, of Microtask] by simp
  ultimately have "count_ok (drain ?s)" "room_ok (drain ?s)"
    by (simp_all add: drain_keeps [of count_ok] drain_keeps [of room_ok] room_microtask)
  moreover have "below_limit 0 (concurrency (drain ?s))" using valid by (auto simp: Xte_def below_limit_def split: option.splits)
  ultimately show ?thesis by (auto simp: Let_def count_ok_def room_ok_def drain_done)
qed

definition thirty :: "nat limiter" where
  "thirty = \<lparr>concurrency = Some 30, activeCount = 0, waiting = [], microtasks = [], running = [], begun = []\<rparr>"

lemma VZe_thirty: "VZe (Some 30) = Some thirty"
proof -
  have "of_int \<lfloor>30 :: rat\<rfloor> = (30 :: rat)" by simp
  then show ?thesis by (simp add: VZe_def Xte_def thirty_def)
qed

theorem limiter_runs_few_in_order_witness:
  "let s = fold limit_step [Call 7, Call 8, Microtask, Microtask, Microtask, TaskEnds 7, SetConcurrency (Some 2)] thirty
    in length (running s) \<le> 30 \<and> begun s @ begins (microtasks s) @ waiting s = [7, 8]"
  using limiter_runs_few_in_order [OF VZe_thirty, of 30
      "[Call 7, Call 8, Microtask, Microtask, Microtask, TaskEnds 7, SetConcurrency (Some 2)]"]
  by (simp add: limited_def)

theorem limiter_starves_nobody_witness:
  "let s = drain (fold limit_step [Call 7, Call 8] thirty)
    in waiting s \<noteq> [] \<longrightarrow> \<not> below_limit (length (running s)) (concurrency s) \<and> running s \<noteq> []"
  by (rule limiter_starves_nobody [OF VZe_thirty])

end
