(* ===== verification/Simulation.thy ===== *)
theory Simulation
  imports Main
begin

text \<open>
  What it takes for a component to implement an abstract one: an invariant that its steps
  keep, and an abstraction function under which every step does what the abstract step
  does.  Then every run does.
\<close>

locale simulation =
  fixes step :: "'o \<Rightarrow> 's \<Rightarrow> 's" and spec :: "'o \<Rightarrow> 'a \<Rightarrow> 'a"
    and inv :: "'s \<Rightarrow> bool" and abs :: "'s \<Rightarrow> 'a" and ok :: "'o \<Rightarrow> bool"
  assumes inv_step: "ok c \<Longrightarrow> inv s \<Longrightarrow> inv (step c s)"
    and abs_step: "ok c \<Longrightarrow> inv s \<Longrightarrow> abs (step c s) = spec c (abs s)"
begin

lemma inv_run: "list_all ok cs \<Longrightarrow> inv s \<Longrightarrow> inv (fold step cs s)"
  by (induction cs arbitrary: s) (simp_all add: inv_step)

lemma abs_run: "list_all ok cs \<Longrightarrow> inv s \<Longrightarrow> abs (fold step cs s) = fold spec cs (abs s)"
  by (induction cs arbitrary: s) (simp_all add: inv_step abs_step)

text \<open>Two runs that the abstract component cannot tell apart end in states it cannot tell
  apart.\<close>

lemma same_run:
  "list_all ok cs \<Longrightarrow> inv s \<Longrightarrow> inv t \<Longrightarrow> abs s = abs t \<Longrightarrow> abs (fold step cs s) = abs (fold step cs t)"
  by (simp add: abs_run)

end

end
