(* ===== verification/AddressBook.thy ===== *)
theory AddressBook
  imports PrinterView PrinterProps Simulation
begin

text \<open>
  What the groups of the printer manager are for its callers: a list of named groups, each
  with the addresses of its printers in order.  The operations on such a book are plain
  list functions; the manager, with its objects, sockets, links and marks, implements them.
\<close>

section \<open>The book\<close>

record book_group =
  title :: string
  kind :: int
  addresses :: "string list"

definition entry_of :: "(nat \<Rightarrow> printer) \<Rightarrow> printer_group \<Rightarrow> book_group" where
  "entry_of ps g = \<lparr>title = group g, kind = groupType g, addresses = map (\<lambda>n. address (ps n)) (members g)\<rparr>"

definition book_of :: "dashboard \<Rightarrow> book_group list" where
  "book_of s = map (entry_of (printers s)) (printerList s)"

fun on_first :: "('a \<Rightarrow> bool) \<Rightarrow> ('a \<Rightarrow> 'a) \<Rightarrow> 'a list \<Rightarrow> 'a list" where
  "on_first P f [] = []"
| "on_first P f (x # xs) = (if P x then f x # xs else x # on_first P f xs)"

definition titled :: "string \<Rightarrow> book_group \<Rightarrow> bool" where
  "titled t b = (title b = t)"

definition with_addresses :: "(string list \<Rightarrow> string list) \<Rightarrow> book_group \<Rightarrow> book_group" where
  "with_addresses f b = b\<lparr>addresses := f (addresses b)\<rparr>"

definition book_lists :: "string \<Rightarrow> book_group list \<Rightarrow> bool" where
  "book_lists t bs = list_ex (\<lambda>b. t \<in> set (addresses b)) bs"

definition book_add :: "string \<Rightarrow> bool \<Rightarrow> string \<Rightarrow> book_group list \<Rightarrow> book_group list" where
  "book_add r front t = on_first (titled r) (with_addresses (if front then Cons t else (\<lambda>xs. xs @ [t])))"

definition book_remove :: "string \<Rightarrow> book_group list \<Rightarrow> book_group list" where
  "book_remove t = on_first (\<lambda>b. t \<in> set (addresses b)) (with_addresses (remove1 t))"

definition book_new :: "string \<Rightarrow> int \<Rightarrow> book_group list \<Rightarrow> book_group list" where
  "book_new t r bs = bs @ [\<lparr>title = t, kind = r, addresses = []\<rparr>]"

definition book_rename :: "string \<Rightarrow> string \<Rightarrow> book_group list \<Rightarrow> book_group list" where
  "book_rename t r = on_first (titled t) (title_update (\<lambda>_. r))"

text \<open>Between two groups: off the last group of the one name, to the front of the last
  group of the other.\<close>

definition book_move :: "string \<Rightarrow> string \<Rightarrow> string \<Rightarrow> book_group list \<Rightarrow> book_group list" where
  "book_move t r n bs =
     (case (last_index_where (titled t) bs, last_index_where (titled n) bs) of
        (Some i, Some j) \<Rightarrow>
          if r \<in> set (addresses (bs ! i))
          then bs[i := with_addresses (remove1 r) (bs ! i), j := with_addresses (Cons r) (bs ! j)] else bs
      | _ \<Rightarrow> bs)"

text \<open>Groups are removed while the list is walked: the group behind a removed one is not
  looked at.\<close>

fun book_drop :: "string \<Rightarrow> book_group list \<Rightarrow> book_group list" where
  "book_drop t [] = []"
| "book_drop t [b] = (if titled t b then [] else [b])"
| "book_drop t (b # c # bs) = (if titled t b then c # book_drop t bs else b # book_drop t (c # bs))"

definition book_merge :: "string \<Rightarrow> book_group list \<Rightarrow> book_group list" where
  "book_merge t bs =
     (if length (filter (\<lambda>b. kind b = 0) bs) < 2 then bs
      else case List.find (titled t) bs of
             None \<Rightarrow> bs
           | Some n \<Rightarrow>
               let a = (if title n = title (bs ! 0) then 1 else 0)
               in book_drop t (bs[a := with_addresses (\<lambda>xs. addresses n @ xs) (bs ! a)]))"

definition book_saved :: "saved_group \<Rightarrow> book_group list \<Rightarrow> book_group list" where
  "book_saved g bs =
     (let a = sg_group g; bs1 = (if list_ex (titled a) bs then bs else book_new a 0 bs)
      in fold (\<lambda>d bs. if is_saved_printer d \<and> \<not> book_lists (sd_address d) bs then book_add a False (sd_address d) bs else bs)
           (case sg_list g of None \<Rightarrow> [] | Some ds \<Rightarrow> ds) bs1)"

fun book_op :: "manager_op \<Rightarrow> book_group list \<Rightarrow> book_group list" where
  "book_op (AddPrinter t r back) = book_add r (d_online t \<and> \<not> back) (d_address t)"
| "book_op (RemovePrinter t keep) = (if keep then id else book_remove t)"
| "book_op (AddGroup t r) = book_new t r"
| "book_op (SortGroup t) = sort_key (\<lambda>b. indexOf t (title b))"
| "book_op (MoveToGroup t r n) = book_move t r n"
| "book_op (Remove2FirstGroup t) = book_merge t"
| "book_op (RemoveGroup t keep) = (if keep then id else book_drop t)"
| "book_op (SetGroupName t r) = book_rename t r"
| "book_op (Init now current gs) = fold book_saved gs"
| "book_op _ = id"

text \<open>The two operations the book does not follow: a printer found under a new address,
  which is looked up by its mac, and a move within one group.\<close>

fun book_follows :: "manager_op \<Rightarrow> bool" where
  "book_follows (AddPrinterFormIp_then _ _ _ _ _) = False"
| "book_follows c = (\<not> own_group_move c)"

section \<open>Operations the book does not see\<close>

lemma book_same:
  assumes "printerList s' = printerList s" and "\<And>n. address (printers s' n) = address (printers s n)"
  shows "book_of s' = book_of s"
  using assms by (simp add: book_of_def entry_of_def)

lemma book_basic [simp]:
  "book_of (dm_call k g s) = book_of s" "book_of (snd (dm_send k m s)) = book_of s"
  "book_of (emit_call c s) = book_of s" "book_of (drop_socket n s) = book_of s"
  "book_of (open_socket n s) = book_of s" "book_of (removeIdentity t s) = book_of s"
  "book_of (setCurrentActivePrinterMac t s) = book_of s"
  by (rule book_same; simp add: setCurrentActivePrinterMac_def)+

lemma book_upd: "(\<And>p. address (f p) = address p) \<Longrightarrow> book_of (upd n f s) = book_of s"
  by (rule book_same) simp_all

lemma book_fold_upd: "(\<And>p. address (f p) = address p) \<Longrightarrow> book_of (fold (\<lambda>n. upd n f) ns s) = book_of s"
  by (rule fold_frame) (rule book_upd)

lemma book_update [simp]:
  "(\<And>p. address (f p) = address p) \<Longrightarrow> book_of (update_at t f s) = book_of s"
  "(\<And>p. address (f p) = address p) \<Longrightarrow> book_of (update_all f s) = book_of s"
  by (simp add: update_at_def book_upd split: option.split) (simp add: update_all_def book_fold_upd)

lemma book_addIdentity [simp]: "book_of (addIdentity t s) = book_of s"
  unfolding addIdentity_def by (rule fold_frame) (simp add: book_upd)

lemma book_ReqInit [simp]: "book_of (ReqInit t s) = book_of s"
  by (simp add: ReqInit_def split: option.split)

lemma book_send [simp]: "book_of (send_if_connected n m s) = book_of s"
  by (simp add: send_if_connected_def split: option.split)

lemma book_command: "command t m s = Some s' \<Longrightarrow> book_of s' = book_of s"
  by (auto simp: command_def)

lemma book_marks [simp]:
  "book_of (setPrinterName t r s) = book_of s" "book_of (setPrinterCFSOpenState t b s) = book_of s"
  "book_of (setPrinterCalibration t b s) = book_of s" "book_of (setPrinterRelateToAccountState t b s) = book_of s"
  "book_of (clearOnePrinterState t s) = book_of s" "book_of (clearPrinterStateOnShow s) = book_of s"
  by (simp_all add: setPrinterName_def setPrinterCFSOpenState_def setPrinterCalibration_def
      setPrinterRelateToAccountState_def clearOnePrinterState_def clearPrinterStateOnShow_def clear_marks_def)

lemma book_states [simp]:
  "book_of (updatePrinterRelateToAccountState ms s) = book_of s"
  "book_of (setPrinterOffline t s) = book_of s" "book_of (setPrinterOnline now t s) = book_of s"
  by (simp_all add: updatePrinterRelateToAccountState_def clearAllPrinterRelateToAccountState_def
      setPrinterOffline_def setPrinterOnline_def Let_def book_upd split: option.split list.split)

lemma book_current [simp]: "book_of (setPrinterCurrentDeviceByMac t s) = book_of s"
  unfolding setPrinterCurrentDeviceByMac_def by (rule fold_frame) (simp add: book_upd)

lemma book_sockets [simp]:
  "book_of (reconnectWebSocket n s) = book_of s" "book_of (initWebSocket n s) = book_of s"
  "book_of (initWebSocket_then n i s) = book_of s"
  by (simp_all add: reconnectWebSocket_def initWebSocket_def initWebSocket_then_def Let_def book_upd
      split: option.split)

lemma book_release [simp]: "book_of (release s) = book_of s"
  unfolding release_def by (rule fold_frame) (simp split: option.split)

lemma book_heartbeat [simp]: "book_of (heartbeat now s) = book_of s"
proof -
  have "book_of (GetBoxsInfo t s) = book_of s" for t s
    by (simp add: GetBoxsInfo_def split: option.split)
  then have "book_of (heartbeat_printer now n s) = book_of s" for n s
    by (simp add: heartbeat_printer_def Let_def isReconnect_def book_upd split: option.split)
  then show ?thesis unfolding heartbeat_def by (rule fold_frame)
qed

lemma book_setFilter [simp]: "book_of (setFilter t r n a s) = book_of s"
proof -
  let ?hit = "\<lambda>g. group g = t \<or> t = ''*''"
  have "entry_of ps (if ?hit g then g\<lparr>groupVisable := True\<rparr> else g) = entry_of ps g" for ps g
    by (simp add: entry_of_def)
  then have "book_of (s\<lparr>view := v, printerList := map (\<lambda>g. if ?hit g then g\<lparr>groupVisable := True\<rparr> else g) (printerList s)\<rparr>)
      = book_of s" for v
    by (simp add: book_of_def)
  then show ?thesis by (simp add: setFilter_def Let_def book_fold_upd)
qed

section \<open>Groups\<close>

lemma entry_fields [simp]:
  "title (entry_of ps g) = group g" "kind (entry_of ps g) = groupType g"
  "addresses (entry_of ps g) = map (\<lambda>n. address (ps n)) (members g)" "titled t (entry_of ps g) = (group g = t)"
  by (simp_all add: entry_of_def titled_def)

lemma with_addresses_fields [simp]:
  "title (with_addresses f b) = title b" "kind (with_addresses f b) = kind b"
  "addresses (with_addresses f b) = f (addresses b)" "titled t (with_addresses f b) = titled t b"
  by (simp_all add: with_addresses_def titled_def)

lemma length_book [simp]: "length (book_of s) = length (printerList s)"
  by (simp add: book_of_def)

lemma nth_book: "i < length (printerList s) \<Longrightarrow> book_of s ! i = entry_of (printers s) (printerList s ! i)"
  by (simp add: book_of_def)

lemma index_where_map: "index_where P (map f xs) = index_where (P \<circ> f) xs"
  by (induction xs) simp_all

lemma last_index_book: "last_index_where (titled t) (book_of s) = last_index_where (\<lambda>g. group g = t) (printerList s)"
  by (simp add: last_index_where_def book_of_def rev_map index_where_map comp_def)

lemma find_map: "List.find P (map f xs) = map_option f (List.find (P \<circ> f) xs)"
  by (induction xs) simp_all

lemma find_book: "List.find (titled t) (book_of s)
  = map_option (entry_of (printers s)) (List.find (\<lambda>g. group g = t) (printerList s))"
  by (simp add: book_of_def find_map comp_def)

lemma map_insort_key: "map f (insort_key (\<lambda>x. k (f x)) x xs) = insort_key k (f x) (map f xs)"
  by (induction xs) simp_all

lemma map_sort_key: "map f (sort_key (\<lambda>x. k (f x)) xs) = sort_key k (map f xs)"
  by (induction xs) (simp_all add: map_insort_key)

lemma book_sortGroup: "book_of (sortGroup t s) = sort_key (\<lambda>b. indexOf t (title b)) (book_of s)"
  by (simp add: book_of_def sortGroup_def flip: map_sort_key)

lemma book_addGroup [simp]: "book_of (addGroup t r s) = book_new t r (book_of s)"
  by (simp add: book_of_def addGroup_def book_new_def entry_of_def)

lemma book_setGroupName: "book_of (setGroupName t r s) = book_rename t r (book_of s)"
proof -
  have "map (entry_of ps) (setGroupName_in t r gs) = on_first (titled t) (title_update (\<lambda>_. r)) (map (entry_of ps) gs)" for ps gs
    by (induction gs) (simp_all add: entry_of_def titled_def)
  then show ?thesis by (simp add: book_of_def setGroupName_def book_rename_def)
qed

lemma entry_set: "entry_of ps (g\<lparr>members := ms\<rparr>) = with_addresses (\<lambda>_. map (\<lambda>n. address (ps n)) ms) (entry_of ps g)"
  by (simp add: entry_of_def with_addresses_def)

text \<open>Changing the members of one group.\<close>

lemma book_set_members:
  assumes "i < length (printerList s)"
    and "map (\<lambda>n. address (printers s n)) (f (members (printerList s ! i))) = h (addresses (book_of s ! i))"
  shows "book_of (set_members i f s) = (book_of s)[i := with_addresses h (book_of s ! i)]"
  using assms
  by (simp add: book_of_def set_members_def Let_def map_update entry_set)
     (simp add: with_addresses_def entry_of_def)

section \<open>Adding and removing\<close>

lemma book_initial:
  assumes "listed_once s"
  shows "map (entry_of ((printers s)(nextPrinter s := p))) (printerList s) = book_of s"
proof -
  have "n \<noteq> nextPrinter s" if "g \<in> set (printerList s)" "n \<in> set (members g)" for g n
    using assms that by (auto simp: listed_once_def all_refs_def)
  then show ?thesis by (auto simp: book_of_def entry_of_def)
qed

lemma book_insert:
  assumes "\<And>l. map (\<lambda>n. address (ps n)) (f l) = h (map (\<lambda>n. address (ps n)) l)"
  shows "map (entry_of ps) (insert_in_group r f gs) = on_first (titled r) (with_addresses h) (map (entry_of ps) gs)"
  by (induction gs) (auto simp: entry_set with_addresses_def assms)

lemma online_link [simp]: "online (printers (link_identity i s) m) = online (printers s m)"
  by (simp add: link_identity_def Let_def split: option.split)

lemma book_addPrinter:
  assumes "listed_once s"
  shows "book_of (addPrinter t r back s) = book_add r (d_online t \<and> \<not> back) (d_address t) (book_of s)"
proof -
  let ?i = "nextPrinter s" and ?p = "initial_printer t (map_of (printerPreset s) (d_model t))"
  let ?s1 = "s\<lparr>printers := (printers s)(?i := ?p), nextPrinter := Suc ?i\<rparr>"
  let ?s2 = "getMachinePlatformMotionEnable t (link_identity ?i ?s1)"
  let ?front = "d_online t \<and> \<not> back"
  let ?put = "if ?front then Cons ?i else (\<lambda>l. l @ [?i])"
  have p: "address ?p = d_address t" "online ?p = d_online t" by (simp_all add: initial_printer_def)
  have s2: "address (printers ?s2 n) = (if n = ?i then d_address t else address (printers s n))" for n
    by (simp add: p)
  have s': "addPrinter t r back s = ?s2\<lparr>printerList := insert_in_group r ?put (printerList s)\<rparr>"
    by (simp add: addPrinter_def Let_def p)
  have "book_of (addPrinter t r back s) = map (entry_of (printers ?s2)) (insert_in_group r ?put (printerList s))"
    unfolding s' by (simp add: book_of_def)
  also have "\<dots> = book_add r ?front (d_address t) (map (entry_of (printers ?s2)) (printerList s))"
    unfolding book_add_def by (rule book_insert) (simp add: s2 p)
  also have "map (entry_of (printers ?s2)) (printerList s) = map (entry_of ((printers s)(?i := ?p))) (printerList s)"
    by (simp add: entry_of_def)
  finally show ?thesis by (simp add: book_initial [OF assms])
qed

lemma map_remove_at: "map f (remove_at l xs) = remove_at l (map f xs)"
  by (simp add: remove_at_def take_map drop_map)

lemma remove_at_index: "index_where ((=) x) xs = Some l \<Longrightarrow> remove_at l xs = remove1 x xs"
proof (induction xs arbitrary: l)
  case (Cons y ys)
  then show ?case by (auto simp: remove_at_def split: if_splits)
qed simp

lemma remove_located:
  assumes "index_where (\<lambda>m. address (ps m) = r) ms = Some l"
  shows "map (\<lambda>n. address (ps n)) (remove_at l ms) = remove1 r (map (\<lambda>n. address (ps n)) ms)"
proof -
  have "index_where ((=) r) (map (\<lambda>n. address (ps n)) ms) = Some l"
    using assms by (simp add: index_where_map comp_def eq_commute)
  then show ?thesis by (simp add: map_remove_at remove_at_index)
qed

lemma on_first_index:
  "on_first P f xs = (case index_where P xs of None \<Rightarrow> xs | Some i \<Rightarrow> xs[i := f (xs ! i)])"
  by (induction xs) (auto split: option.split)

lemma book_removePrinter:
  "book_of (snd (removePrinter t keep s)) = (if keep then book_of s else book_remove t (book_of s))"
proof -
  let ?here = "\<lambda>n. address (printers s n) = t"
  have find: "index_where (\<lambda>b. t \<in> set (addresses b)) (book_of s) = index_where (\<lambda>g. list_ex ?here (members g)) (printerList s)"
    by (simp add: book_of_def index_where_map comp_def list_ex_iff image_iff Bex_def eq_commute conj_commute)
  show ?thesis
  proof (cases "locate t s")
    case None
    have "index_where (\<lambda>g. list_ex ?here (members g)) (printerList s) = None"
    proof (rule ccontr)
      assume "\<not> ?thesis"
      then obtain i where i: "index_where (\<lambda>g. list_ex ?here (members g)) (printerList s) = Some i" by blast
      with None have "index_where ?here (members (printerList s ! i)) = None" by (simp add: locate_def Let_def)
      with index_where_Some [OF i] show False by (auto simp: index_where_None list_ex_iff)
    qed
    with None show ?thesis by (simp add: removePrinter_def book_remove_def on_first_index find)
  next
    case (Some x)
    obtain i a where x: "x = (i, a)" by (cases x)
    with Some have i: "index_where (\<lambda>g. list_ex ?here (members g)) (printerList s) = Some i"
      "index_where ?here (members (printerList s ! i)) = Some a"
      by (auto simp: locate_def Let_def split: option.splits)
    let ?n = "members (printerList s ! i) ! a"
    let ?s1 = "removeIdentity (address (printers s ?n)) (drop_socket ?n s)"
    have r: "snd (removePrinter t keep s) = (if keep then ?s1 else set_members i (remove_at a) ?s1)"
      using Some x by (simp add: removePrinter_def Let_def set_members_def)
    have same: "(\<lambda>n. address (printers ?s1 n)) = (\<lambda>n. address (printers s n))" by auto
    have "book_of (set_members i (remove_at a) ?s1) = (book_of ?s1)[i := with_addresses (remove1 t) (book_of ?s1 ! i)]"
      using index_where_Some [OF i(1)] remove_located [OF i(2)] same
      by (intro book_set_members) (simp_all add: nth_book)
    then show ?thesis
      by (simp add: r book_remove_def on_first_index find i(1))
  qed
qed

section \<open>Moving, dropping and merging\<close>

lemma book_moveToGroup:
  assumes "t \<noteq> n"
  shows "book_of (moveToGroup t r n s) = book_move t r n (book_of s)"
proof (cases "last_index_where (\<lambda>g. group g = t) (printerList s)")
  case (Some i)
  note i = Some and il = last_index_where_Some [OF Some]
  show ?thesis
  proof (cases "last_index_where (\<lambda>g. group g = n) (printerList s)")
    case None
    with i show ?thesis by (simp add: moveToGroup_def book_move_def last_index_book split: option.split)
  next
    case (Some j)
    note j = Some and jl = last_index_where_Some [OF Some]
    let ?here = "\<lambda>m. address (printers s m) = r"
    show ?thesis
    proof (cases "index_where ?here (members (printerList s ! i))")
      case None
      then have "r \<notin> set (addresses (book_of s ! i))" using il by (auto simp: nth_book index_where_None)
      with i j None show ?thesis by (simp add: moveToGroup_def book_move_def last_index_book)
    next
      case (Some l)
      let ?a = "members (printerList s ! i) ! l" and ?s1 = "set_members j (Cons (members (printerList s ! i) ! l)) s"
      have a: "address (printers s ?a) = r" and r: "r \<in> set (addresses (book_of s ! i))"
        using index_where_Some [OF Some] il by (auto simp: nth_book)
      have ij: "i \<noteq> j" using il jl assms by auto
      have "book_of ?s1 = (book_of s)[j := with_addresses (Cons r) (book_of s ! j)]"
        using jl a by (intro book_set_members) (simp_all add: nth_book)
      moreover have "book_of (set_members i (remove_at l) ?s1)
          = (book_of ?s1)[i := with_addresses (remove1 r) (book_of ?s1 ! i)]"
        using il ij remove_located [OF Some] by (intro book_set_members) (simp_all add: nth_book)
      moreover have "moveToGroup t r n s = set_members i (remove_at l) ?s1"
        using i j Some by (simp add: moveToGroup_def)
      ultimately show ?thesis
        using i j r ij by (simp add: book_move_def last_index_book list_update_swap)
    qed
  qed
qed (simp add: moveToGroup_def book_move_def last_index_book)

lemma book_close [simp]: "book_of (close_members ms s) = book_of s"
  unfolding close_members_def by (rule fold_frame) simp

lemma book_listing_update: "book_of (s\<lparr>printerList := gs\<rparr>) = map (entry_of (printers s)) gs"
  by (simp add: book_of_def)

lemma entry_close [simp]: "entry_of (printers (close_members ms s)) = entry_of (printers s)"
proof -
  have "address (printers (close_members ms s) n) = address (printers s n)" for n
    unfolding close_members_def by (rule fold_frame) simp
  then show ?thesis by (simp add: entry_of_def fun_eq_iff)
qed

lemma book_drop_Cons: "book_drop t (b # bs) = (if titled t b then (case bs of [] \<Rightarrow> [] | c # cs \<Rightarrow> c # book_drop t cs) else b # book_drop t bs)"
  by (cases bs) simp_all

lemma take_drop_remove_at:
  assumes "k < length xs"
  shows "take (Suc k) (remove_at k xs) = take k xs @ take 1 (drop (Suc k) xs)"
    and "drop (Suc k) (remove_at k xs) = drop 1 (drop (Suc k) xs)"
  using assms by (simp_all add: remove_at_def min_def)

lemma book_removeGroup_from:
  "book_of (removeGroup_from t keep k s)
    = (if keep then book_of s else take k (book_of s) @ book_drop t (drop k (book_of s)))"
proof (induction t keep k s rule: removeGroup_from.induct)
  case (1 t keep k s)
  show ?case
  proof (cases "k < length (printerList s)")
    case True
    let ?s1 = "if group (printerList s ! k) = t then close_members (members (printerList s ! k)) s else s"
    let ?s2 = "if group (printerList s ! k) = t \<and> \<not> keep
      then ?s1\<lparr>printerList := remove_at k (printerList ?s1)\<rparr> else ?s1"
    have step: "removeGroup_from t keep k s = removeGroup_from t keep (Suc k) ?s2"
      using True by (subst removeGroup_from.simps) (simp add: Let_def)
    have s1: "book_of ?s1 = book_of s" by simp
    have s2: "book_of ?s2 = (if group (printerList s ! k) = t \<and> \<not> keep then remove_at k (book_of s) else book_of s)"
      by (simp add: book_listing_update map_remove_at) (simp add: book_of_def)
    have k: "drop k (book_of s) = entry_of (printers s) (printerList s ! k) # drop (Suc k) (book_of s)"
      using True by (simp add: Cons_nth_drop_Suc nth_book [symmetric])
    have IH: "book_of (removeGroup_from t keep (Suc k) ?s2)
        = (if keep then book_of ?s2 else take (Suc k) (book_of ?s2) @ book_drop t (drop (Suc k) (book_of ?s2)))"
      using "1.IH" [OF True refl refl refl] .
    show ?thesis
    proof (cases "group (printerList s ! k) = t \<and> \<not> keep")
      case True': True
      have split: "take 1 xs @ book_drop t (drop 1 xs) = (case xs of [] \<Rightarrow> [] | c # cs \<Rightarrow> c # book_drop t cs)" for xs
        by (cases xs) simp_all
      have "book_of (removeGroup_from t keep k s)
          = take (Suc k) (remove_at k (book_of s)) @ book_drop t (drop (Suc k) (remove_at k (book_of s)))"
        unfolding step IH s2 using True' by simp
      then show ?thesis
        using True' True split [of "drop (Suc k) (book_of s)"] by (simp add: k book_drop_Cons take_drop_remove_at)
    next
      case False
      then show ?thesis
        using True by (auto simp: step IH s2 k book_drop_Cons take_Suc_conv_app_nth nth_book)
    qed
  qed (subst removeGroup_from.simps, simp)
qed

lemma book_removeGroup: "book_of (removeGroup t keep s) = (if keep then book_of s else book_drop t (book_of s))"
  by (simp add: removeGroup_def book_removeGroup_from)

lemma book_remove2FirstGroup:
  "book_of (case remove2FirstGroup t s of None \<Rightarrow> s | Some s' \<Rightarrow> s') = book_merge t (book_of s)"
proof -
  have kinds: "length (filter (\<lambda>b. kind b = 0) (book_of s)) = length (filter (\<lambda>g. groupType g = 0) (printerList s))"
    by (simp add: book_of_def filter_map comp_def)
  show ?thesis
  proof (cases "length (filter (\<lambda>g. groupType g = 0) (printerList s)) < 2")
    case True
    then show ?thesis by (simp add: remove2FirstGroup_def book_merge_def kinds)
  next
    case False
    note two = False
    show ?thesis
    proof (cases "List.find (\<lambda>g. group g = t) (printerList s)")
      case None
      with two show ?thesis by (simp add: remove2FirstGroup_def book_merge_def kinds find_book)
    next
      case (Some n)
      define a :: nat where "a = (if group n = group (printerList s ! 0) then 1 else 0)"
      have len: "2 \<le> length (printerList s)" using two by (meson length_filter_le le_trans not_le)
      then have a: "a < length (printerList s)" by (auto simp: a_def)
      have r: "remove2FirstGroup t s = Some (removeGroup t False (set_members a (\<lambda>ms. members n @ ms) s))"
        using two Some by (simp add: remove2FirstGroup_def a_def Let_def)
      have "book_of (set_members a (\<lambda>ms. members n @ ms) s) = (book_of s)
          [a := with_addresses (\<lambda>xs. map (\<lambda>n. address (printers s n)) (members n) @ xs) (book_of s ! a)]"
        using a by (intro book_set_members) (simp_all add: nth_book)
      moreover have "book_of s ! 0 = entry_of (printers s) (printerList s ! 0)"
        using a by (intro nth_book) (cases "printerList s"; simp)
      ultimately show ?thesis
        using two Some by (simp add: r book_removeGroup book_merge_def kinds find_book a_def Let_def)
    qed
  qed
qed

section \<open>The saved configuration\<close>

lemma exist_book: "isPrinterExist t s = book_lists t (book_of s)" "isGroupExist t s = list_ex (titled t) (book_of s)"
proof -
  have "list_ex (\<lambda>n. address (ps n) = t) (concat (map members gs))
      = list_ex (\<lambda>b. t \<in> set (addresses b)) (map (entry_of ps) gs)" for ps gs
    by (induction gs) (auto simp: list_ex_iff)
  then show "isPrinterExist t s = book_lists t (book_of s)"
    by (simp add: isPrinterExist_def book_lists_def book_of_def all_refs_def)
  show "isGroupExist t s = list_ex (titled t) (book_of s)"
    by (simp add: isGroupExist_def book_of_def list_ex_iff)
qed

lemma book_init_device:
  assumes "listed_once s"
  shows "book_of (init_device a d s)
    = (if is_saved_printer d \<and> \<not> book_lists (sd_address d) (book_of s) then book_add a False (sd_address d) (book_of s) else book_of s)"
  using assms by (auto simp: init_device_def is_saved_printer_def book_addPrinter lan_device_def cloud_device_def exist_book)

lemma book_init_devices:
  "listed_once s \<Longrightarrow> book_of (fold (init_device a) ds s)
    = fold (\<lambda>d bs. if is_saved_printer d \<and> \<not> book_lists (sd_address d) bs then book_add a False (sd_address d) bs else bs)
        ds (book_of s)"
  by (induction ds arbitrary: s) (simp_all add: book_init_device listed_once_init_device)

lemma book_init_group:
  assumes "listed_once s"
  shows "book_of (init_group g s) = book_saved g (book_of s)" "listed_once (init_group g s)"
proof -
  let ?s1 = "if isGroupExist (sg_group g) s then s else addGroup (sg_group g) 0 s"
  have s1: "listed_once ?s1" using assms by (simp add: listed_once_addGroup)
  have "init_group g s = fold (init_device (sg_group g)) (case sg_list g of None \<Rightarrow> [] | Some ds \<Rightarrow> ds) ?s1"
    by (simp add: init_group_def Let_def split: option.split)
  then show "book_of (init_group g s) = book_saved g (book_of s)" "listed_once (init_group g s)"
    using s1 by (simp_all add: book_init_devices book_saved_def Let_def exist_book fold_keeps [where P = listed_once]
        listed_once_init_device if_distrib [where f = book_of])
qed

lemma book_init_groups: "listed_once s \<Longrightarrow> book_of (fold init_group gs s) = fold book_saved gs (book_of s)"
  by (induction gs arbitrary: s) (simp_all add: book_init_group)

lemma book_init:
  assumes "listed_once s"
  shows "book_of (init now current gs s) = fold book_saved gs (book_of s)"
proof -
  let ?s1 = "case current of None \<Rightarrow> s | Some m \<Rightarrow> setCurrentActivePrinterMac m s"
  have "listed_once ?s1" using assms listed_once_same [OF listing_basic(9)] by (simp split: option.split)
  moreover have "book_of ?s1 = book_of s" by (simp split: option.split)
  ultimately show ?thesis by (simp add: init_def book_init_groups)
qed

section \<open>The manager implements the book\<close>

lemma book_apply:
  assumes "book_follows c" and "listed_once s"
  shows "book_of (apply_op c s) = book_op c (book_of s)"
  using assms
  by (cases c) (simp_all add: book_addPrinter book_removePrinter book_sortGroup book_moveToGroup book_removeGroup
      book_remove2FirstGroup book_setGroupName book_init addPrinterFormIp_def)

interpretation book: simulation apply_op book_op listed_once book_of book_follows
proof unfold_locales
  fix c s
  assume "book_follows c" "listed_once s"
  moreover have "\<not> own_group_move c" using \<open>book_follows c\<close> by (cases c) simp_all
  ultimately show "listed_once (apply_op c s)" "book_of (apply_op c s) = book_op c (book_of s)"
    by (simp_all add: listed_once_apply book_apply)
qed



end
