(* ===== verification/GroupDialogs.thy ===== *)
theory GroupDialogs
  imports AddressBook WindowMessages CloudApi OldPolling
begin

text \<open>
  The dialogs that name and arrange groups and printers (\<open>GroupAdd\<close>, \<open>GroupEditName\<close>,
  \<open>PrinterEditName\<close>, \<open>EditNameDialog\<close> and the group manager of \<open>CeX73yR3.js\<close>).  The state is
  the dialog's and the manager's; a dialog that sends to the cloud has the cloud's too.

  An object that is used as a table from names to values is an association list in the order
  of insertion; JavaScript lists keys that are array indices first, so the names are taken
  not to be such numbers.  \<open>None\<close> is a handler that throws.
\<close>

section \<open>A new group\<close>

datatype name_note = Fine | CannotBeEmpty | NameExists | InvalidHostname

record group_add =
  ga_shown :: bool
  ga_name :: string
  ga_note :: name_note

definition group_add_show :: "group_add \<Rightarrow> group_add" where
  "group_add_show d = d\<lparr>ga_note := Fine, ga_shown := True\<rparr>"

definition group_add_ok :: "group_add \<times> dashboard \<Rightarrow> group_add \<times> dashboard" where
  "group_add_ok b =
     (let (d, s) = b in
      if ga_name d = [] then (d\<lparr>ga_note := CannotBeEmpty\<rparr>, s)
      else if isGroupExist (ga_name d) s then (d\<lparr>ga_note := NameExists\<rparr>, s)
      else (d\<lparr>ga_shown := False\<rparr>,
            addGroup (ga_name d) 0 (post [(''command'', JStr ''add_group''), (''group'', JStr (ga_name d))] s)))"

section \<open>Another name for a group\<close>

record group_edit =
  ge_shown :: bool
  oldName :: string
  newName :: string
  ge_note :: name_note

definition group_edit_show :: "string \<Rightarrow> group_edit \<Rightarrow> group_edit" where
  "group_edit_show t d = d\<lparr>ge_note := Fine, newName := t, oldName := t, ge_shown := True\<rparr>"

definition rename_message :: "string \<Rightarrow> string \<Rightarrow> (string \<times> json) list" where
  "rename_message t r = [(''command'', JStr ''edit_device_group_name''), (''oldName'', JStr t), (''newName'', JStr r)]"

definition group_edit_ok :: "group_edit \<times> dashboard \<Rightarrow> group_edit \<times> dashboard" where
  "group_edit_ok b =
     (let (d, s) = b in
      if newName d = [] then (d\<lparr>ge_note := CannotBeEmpty\<rparr>, s)
      else if newName d = oldName d then (d\<lparr>ge_shown := False\<rparr>, s)
      else if isGroupExist (newName d) s then (d\<lparr>ge_note := NameExists\<rparr>, s)
      else (d\<lparr>ge_shown := False\<rparr>, post (rename_message (oldName d) (newName d)) (setGroupName (oldName d) (newName d) s)))"

section \<open>Another name for a printer\<close>

text \<open>\<open>^(?!-)(?!.*--)[A-Za-z0-9-]{1,63}(?<!-)$\<close>\<close>

definition host_char :: "char \<Rightarrow> bool" where
  "host_char c \<longleftrightarrow> (let n = of_char c :: nat in
     48 \<le> n \<and> n \<le> 57 \<or> 65 \<le> n \<and> n \<le> 90 \<or> 97 \<le> n \<and> n \<le> 122 \<or> n = 45)"

definition valid_hostname :: "string \<Rightarrow> bool" where
  "valid_hostname t \<longleftrightarrow> 1 \<le> length t \<and> length t \<le> 63 \<and> list_all host_char t
     \<and> hd t \<noteq> CHR ''-'' \<and> last t \<noteq> CHR ''-'' \<and> \<not> sublist ''--'' t"

record name_edit =
  ne_shown :: bool
  ne_ip :: string
  ne_name :: string
  ne_note :: name_note

type_synonym name_state = "name_edit \<times> cloud_api \<times> dashboard"

text \<open>The printer, its twin and the cloud get the name.  A twin that is not listed makes
  \<open>setHostName\<close> throw.\<close>

definition rename_printer :: "string \<Rightarrow> string \<Rightarrow> string \<Rightarrow> printer \<Rightarrow> cloud_api \<times> dashboard \<Rightarrow> (cloud_api \<times> dashboard) option" where
  "rename_printer uuid a t p c =
     (let (k, s) = c in
      if deviceType p = 1001
      then Some (k, post [(''command'', JStr ''edit_device_name''), (''address'', JStr a), (''name'', JStr t)] s)
      else if deviceType p = 0
      then (case setHostName a (JStr t) s of
              None \<Rightarrow> None
            | Some s1 \<Rightarrow>
                (case identity p of
                   None \<Rightarrow> Some (k, s1)
                 | Some i \<Rightarrow> if i = [] then Some (k, s1)
                     else Some (EditDeviceName uuid (JStr i) (JStr t) k, setPrinterName i t s1)))
      else if deviceType p = 1
      then (let k1 = EditDeviceName uuid (JStr a) (JStr t) k in
            case identity p of
              None \<Rightarrow> Some (k1, s)
            | Some i \<Rightarrow> if i = [] then Some (k1, s)
                else map_option (\<lambda>s1. (k1, s1)) (setHostName i (JStr t) (setPrinterName i t s)))
      else Some c)"

definition name_edit_ok :: "string \<Rightarrow> name_state \<Rightarrow> name_state option" where
  "name_edit_ok uuid b =
     (let (d, k, s) = b in
      if ne_name d = [] then Some (d\<lparr>ne_note := CannotBeEmpty\<rparr>, k, s)
      else if \<not> valid_hostname (ne_name d) then Some (d\<lparr>ne_note := InvalidHostname\<rparr>, k, s)
      else map_option (\<lambda>(k1, s1). (d\<lparr>ne_shown := False\<rparr>, k1, setPrinterName (ne_ip d) (ne_name d) s1))
             (case getPrinter (ne_ip d) s of
                None \<Rightarrow> Some (k, s)
              | Some n \<Rightarrow> rename_printer uuid (ne_ip d) (ne_name d) (printers s n) (k, s)))"

text \<open>The dialog of the cards, with the device type and the identity of its card.  For a cloud
  printer it names a variable that does not exist, after the cloud was asked.\<close>

definition card_rename_group :: "string \<Rightarrow> string \<Rightarrow> dashboard \<Rightarrow> bool \<times> dashboard" where
  "card_rename_group old new s =
     (if new = [] \<or> isGroupExist new s then (False, s)
      else (True, setGroupName old new (post (rename_message old new) s)))"

definition card_rename_device :: "string \<Rightarrow> int \<Rightarrow> string \<Rightarrow> string \<Rightarrow> string \<Rightarrow> cloud_api \<times> dashboard
    \<Rightarrow> bool option \<times> cloud_api \<times> dashboard" where
  "card_rename_device uuid dt a i t c =
     (let (k, s) = c in
      if t = [] \<or> \<not> valid_hostname t then (Some False, c)
      else if dt = 0 \<or> dt = 1001
      then (let s1 = setPrinterName a t s in
            case setHostName a (JStr t) s1 of
              None \<Rightarrow> (None, k, s1)
            | Some s2 \<Rightarrow> (Some True, if i = [] then k else EditDeviceName uuid (JStr i) (JStr t) k, s2))
      else if dt = 1 then (None, EditDeviceName uuid (JStr a) (JStr t) k, s)
      else (Some True, c))"

section \<open>The group manager\<close>

record group_row =
  row_id :: string
  row_group :: string

record group_manager =
  gm_shown :: bool
  gm_rows :: "group_row list"
  gm_names :: "(string \<times> string) list"  \<comment> \<open>the edited name of each identifier\<close>
  gm_drag :: "nat option"
  gm_tabs :: "string list"               \<comment> \<open>the addresses \<open>removeTab\<close> was emitted for\<close>

type_synonym manager_state = "group_manager \<times> dashboard"

definition groups_show :: "manager_state \<Rightarrow> manager_state" where
  "groups_show b =
     (let ns = map group (printerList (snd b)) in
      ((fst b)\<lparr>gm_shown := True, gm_rows := map (\<lambda>g. \<lparr>row_id = g, row_group = g\<rparr>) (filter (\<lambda>g. g \<noteq> []) ns),
         gm_names := fold (\<lambda>g t. AList.update g g t) ns (gm_names (fst b))\<rparr>, snd b))"

text \<open>A row is dragged over another: it takes that row's place.\<close>

definition insert_at :: "nat \<Rightarrow> 'a \<Rightarrow> 'a list \<Rightarrow> 'a list" where
  "insert_at i x xs = take i xs @ x # drop i xs"

definition drag_over :: "nat \<Rightarrow> group_manager \<Rightarrow> group_manager" where
  "drag_over j d =
     (case gm_drag d of
        None \<Rightarrow> d
      | Some i \<Rightarrow>
          if i = j then d
          else d\<lparr>gm_rows := insert_at j (gm_rows d ! i) (remove_at i (gm_rows d)), gm_drag := Some j\<rparr>)"

text \<open>A name for a new group: one more than the largest number behind the prefix.\<close>

definition group_number :: "string \<Rightarrow> string \<Rightarrow> rat option" where
  "group_number pre g =
     (if prefix pre g
      then (case js_split pre g of _ # t # _ \<Rightarrow> to_number (JStr t) | _ \<Rightarrow> None) else None)"

definition next_number :: "string \<Rightarrow> string list \<Rightarrow> rat" where
  "next_number pre gs = fold (\<lambda>g m. case group_number pre g of None \<Rightarrow> m | Some z \<Rightarrow> max m z) gs 0"

definition add_row_for_group :: "(string \<Rightarrow> string) \<Rightarrow> group_manager \<Rightarrow> group_manager" where
  "add_row_for_group tr d =
     (let pre = tr ''New Group''; a = pre @ show_number (next_number pre (map row_group (gm_rows d)) + 1)
      in d\<lparr>gm_rows := gm_rows d @ [\<lparr>row_id = a, row_group = a\<rparr>], gm_names := AList.update a a (gm_names d)\<rparr>)"

text \<open>A row is removed, after the question whether its printers go to the first group.  The
  group is gone before the printers are moved, and before they are listed for their tabs.
  The first component is whether the handler came to its end.\<close>

definition remove_row :: "string \<Rightarrow> bool \<Rightarrow> manager_state \<Rightarrow> bool \<times> manager_state" where
  "remove_row t move b =
     (let (d, s) = b;
          d1 = d\<lparr>gm_rows := filter (\<lambda>r. row_id r \<noteq> t) (gm_rows d), gm_names := AList.delete t (gm_names d)\<rparr>;
          s1 = removeGroup t False s
      in if t = [] then (True, b)
         else if move
         then (let s2 = post [(''command'', JStr ''remove_to_first''), (''name'', JStr t)] s1 in
               case remove2FirstGroup t s2 of None \<Rightarrow> (False, d1, s2) | Some s3 \<Rightarrow> (True, d1, s3))
         else (let s2 = post [(''command'', JStr ''remove_group''), (''name'', JStr t)] s1
               in (True, d1\<lparr>gm_tabs := gm_tabs d1 @ map (\<lambda>n. address (printers s2 n)) (prinertList t s2)\<rparr>, s2)))"

text \<open>The rule of a name field, and \<open>P\<close>: what the edited names change.\<close>

definition name_allowed :: "(string \<times> string) list \<Rightarrow> string \<Rightarrow> bool" where
  "name_allowed names t \<longleftrightarrow> js_trim t \<noteq> [] \<and> length (filter (\<lambda>x. js_trim (snd x) = js_trim t) names) \<le> 1"

definition rows_valid :: "group_manager \<Rightarrow> bool" where
  "rows_valid d \<longleftrightarrow> list_all (\<lambda>r. case map_of (gm_names d) (row_id r) of None \<Rightarrow> False | Some t \<Rightarrow> name_allowed (gm_names d) t) (gm_rows d)"

record name_changes =
  modified :: "(string \<times> string) list"
  added :: "string list"
  deleted :: "string list"

definition changes_of_names :: "string list \<Rightarrow> (string \<times> string) list \<Rightarrow> name_changes" where
  "changes_of_names gs names = \<lparr>
     modified = concat (map (\<lambda>g. case map_of names g of None \<Rightarrow> [] | Some t \<Rightarrow> if t \<noteq> g then [(g, t)] else []) gs),
     added = map snd (filter (\<lambda>x. fst x \<notin> set gs) names),
     deleted = filter (\<lambda>g. map_of names g = None) gs \<rparr>"

definition groups_closed :: "group_manager \<Rightarrow> group_manager" where
  "groups_closed d = d\<lparr>gm_shown := False, gm_rows := [], gm_names := []\<rparr>"

definition save_deleted :: "string list \<Rightarrow> dashboard \<Rightarrow> dashboard" where
  "save_deleted gs s =
     fold (\<lambda>g s. post [(''command'', JStr ''remove_group''), (''name'', JStr g)] (removeGroup g False s)) gs s"

definition save_modified :: "(string \<times> string) list \<Rightarrow> dashboard \<Rightarrow> dashboard" where
  "save_modified xs s = fold (\<lambda>(old, new) s. post (rename_message old new) (setGroupName old new s)) xs s"

definition save_added :: "string list \<Rightarrow> dashboard \<Rightarrow> dashboard" where
  "save_added gs s =
     fold (\<lambda>g s. post [(''command'', JStr ''add_group''), (''group'', JStr g)] (addGroup g 0 s)) gs s"

definition groups_save :: "(json \<Rightarrow> string) \<Rightarrow> manager_state \<Rightarrow> manager_state" where
  "groups_save stringify b =
     (let (d, s) = b; c = changes_of_names (map group (printerList s)) (gm_names d) in
      if gm_rows d = [] then (groups_closed d, save_deleted (deleted c) s)
      else if \<not> rows_valid d then b
      else
        let order = map row_group (gm_rows d);
            s1 = post [(''command'', JStr ''sort_group''), (''groupMap'', JStr (stringify (JArr (map JStr order))))] (sortGroup order s)
        in (groups_closed d, save_deleted (deleted c) (save_added (added c) (save_modified (modified c) s1))))"

end
