(* ===== verification/AddDevice.thy ===== *)
theory AddDevice
  imports AddressBook BatchUpload WindowMessages OldPolling
begin

text \<open>
  Adding printers by hand (\<open>PrinterAdd\<close>, \<open>PrinterScanAdd\<close> and \<open>addOldPrinterFormIp\<close> of
  \<open>CeX73yR3.js\<close>): the dialog that asks for an address, and the one that shows the printers
  the window finds in the network.  Requests are outputs and their answers events of their
  own, so the state may have changed in between.

  \<open>tr\<close> is the translation of a text.  The hosts are those that \<open>URL\<close> leaves as they are.  An
  old printer's \<open>ssid\<close> without a dash gives no mac; the code then has \<open>undefined\<close>, and the
  model the empty text.
\<close>

section \<open>Models and addresses\<close>

record model_entry =
  e_model :: string
  e_name :: string
  e_bed :: string
  obj_dischange :: bool

definition gGe :: "model_entry list" where
  "gGe =
     [\<lparr>e_model = ''CR-K1C'', e_name = ''K1C'', e_bed = ''0 0 220 220'', obj_dischange = True\<rparr>,
      \<lparr>e_model = ''Ender-3 S1'', e_name = ''Ender-3 S1'', e_bed = ''0 0 220 220'', obj_dischange = True\<rparr>,
      \<lparr>e_model = ''X1C'', e_name = ''X1C'', e_bed = ''0 0 250 250'', obj_dischange = True\<rparr>,
      \<lparr>e_model = ''F005'', e_name = ''Ender-3 V3 KE'', e_bed = ''0 0 220 220'', obj_dischange = True\<rparr>,
      \<lparr>e_model = ''F008'', e_name = ''K2 Plus'', e_bed = ''0 0 350 350'', obj_dischange = True\<rparr>,
      \<lparr>e_model = ''K1C'', e_name = ''K1C'', e_bed = ''0 0 220 220'', obj_dischange = True\<rparr>,
      \<lparr>e_model = ''K1 SE'', e_name = ''K1 SE'', e_bed = ''0 0 220 220'', obj_dischange = True\<rparr>,
      \<lparr>e_model = ''F003'', e_name = ''CR-10 SE'', e_bed = ''0 0 220 220'', obj_dischange = True\<rparr>,
      \<lparr>e_model = ''F002'', e_name = ''Ender-3 V3 Plus'', e_bed = ''0 0 300 300'', obj_dischange = True\<rparr>,
      \<lparr>e_model = ''F001'', e_name = ''Ender-3 V3'', e_bed = ''0 0 220 220'', obj_dischange = True\<rparr>,
      \<lparr>e_model = ''Ender-3 V3 SE'', e_name = ''Ender-3 V3 SE'', e_bed = ''0 0 220 220'', obj_dischange = True\<rparr>,
      \<lparr>e_model = ''K1 Max'', e_name = ''K1 Max'', e_bed = ''0 0 300 300'', obj_dischange = True\<rparr>,
      \<lparr>e_model = ''K1'', e_name = ''K1'', e_bed = ''0 0 220 220'', obj_dischange = True\<rparr>,
      \<lparr>e_model = ''F018'', e_name = ''Creality Hi'', e_bed = ''0 0 260 260'', obj_dischange = True\<rparr>,
      \<lparr>e_model = ''F004'', e_name = ''Ender-5 Max'', e_bed = ''0 0 300 300'', obj_dischange = True\<rparr>,
      \<lparr>e_model = ''F021'', e_name = ''K2'', e_bed = ''0 0 260 260'', obj_dischange = True\<rparr>,
      \<lparr>e_model = ''F012'', e_name = ''K2 Pro'', e_bed = ''0 0 300 300'', obj_dischange = True\<rparr>,
      \<lparr>e_model = ''F009'', e_name = ''Ender V4'', e_bed = ''0 0 220 220'', obj_dischange = True\<rparr>]"

definition vGe :: "string \<Rightarrow> string" where
  "vGe e = (case List.find (\<lambda>r. e_model r = e) gGe of None \<Rightarrow> [] | Some r \<Rightarrow> e_name r)"

definition info_url :: "string \<Rightarrow> string" where
  "info_url x = ''http://'' @ x @ '':80/info''"

text \<open>The proxy's address for an old printer: the port is not part of the host name, and is
  lost.\<close>

definition old_info_url :: "string \<Rightarrow> string" where
  "old_info_url x = ''http://localhost:13666/proxy?host='' @ x @ ''&path=/protocal.csp?fname=Info&opt=main&function=get''"

text \<open>The same with \<open>URLSearchParams\<close>, which encodes the path.\<close>

definition scan_info_url :: "string \<Rightarrow> string" where
  "scan_info_url x = ''http://localhost:13666/proxy?host='' @ encodeURIComponent x
     @ ''&path='' @ encodeURIComponent (''/protocal.csp?fname=Info&opt=main&function=get'')"

text \<open>What an old printer answers; \<open>None\<close> is a \<open>TypeError\<close>.  The mac that a network name without a
  dash leaves undefined is the empty text here.\<close>

definition trim_end :: "string \<Rightarrow> string" where
  "trim_end t = rev (dropWhile blank (rev t))"

definition old_answer :: "json \<Rightarrow> printer_info option" where
  "old_answer d =
     (case (jget d ''model'', jget d ''ssid'') of
        (JStr t, JStr u) \<Rightarrow> Some \<lparr>info_status = 200, info_model = trim_end t,
          info_mac = (case js_split ''-'' u of _ # m # _ \<Rightarrow> m | _ \<Rightarrow> [])\<rparr>
      | _ \<Rightarrow> None)"

definition add_device_message :: "new_device \<Rightarrow> string \<Rightarrow> (string \<times> json) list" where
  "add_device_message p g =
     [(''command'', JStr ''add_device''), (''address'', JStr (d_address p)), (''mac'', JStr (d_mac p)),
      (''model'', JStr (d_model p)), (''type'', JNum (of_int (d_type p))), (''group'', JStr g),
      (''oldPrinter'', JBool (d_oldPrinter p))]"

text \<open>\<open>new Dm(address)\<close> and \<open>init()\<close>.\<close>

definition new_socket :: "string \<Rightarrow> dashboard \<Rightarrow> dashboard" where
  "new_socket a s = dm_call (nextDm s) dm_init (s\<lparr>dms := (dms s)(nextDm s := new_Dm a), nextDm := Suc (nextDm s)\<rparr>)"

section \<open>An old printer by its address\<close>

definition addOldPrinterFormIp :: "string \<Rightarrow> dashboard \<Rightarrow> dashboard" where
  "addOldPrinterFormIp t s = (if isPrinterExist t s then s else emit_call (HttpGet (old_info_url t)) s)"

definition addOldPrinterFormIp_then :: "string \<Rightarrow> string \<Rightarrow> string option \<Rightarrow> string \<Rightarrow> json \<Rightarrow> dashboard \<Rightarrow> dashboard" where
  "addOldPrinterFormIp_then t r n a d s =
     (case old_answer d of
        None \<Rightarrow> s
      | Some i \<Rightarrow>
          if info_mac i = r
          then (let p = \<lparr>d_model = info_model i, d_mac = info_mac i, d_name = n, d_address = t, d_type = 3, d_online = True,
                   d_socket = None, d_deviceType = None, d_oldPrinter = True, d_props = []\<rparr>
                in post (add_device_message p a) (addPrinter p a False s))
          else s)"

section \<open>The dialog that asks for an address\<close>

datatype notice = NoNote | AlreadyExists | AddedSuccessfully | DoesNotExist

record add_dialog =
  ad_ip :: string
  ad_url :: string
  deviceSubType :: int
  ad_shown :: bool
  ad_group :: string
  ad_selected :: nat
  ad_note :: notice
  ad_busy :: bool
  ad_keep :: bool
  oldPolls :: "string list"  \<comment> \<open>the addresses \<open>getOldPrinterState\<close> was started for\<close>

type_synonym add_state = "add_dialog \<times> dashboard"

text \<open>Whenever the dialog opens or closes the note is cleared.\<close>

definition ad_close :: "add_dialog \<Rightarrow> add_dialog" where
  "ad_close d = d\<lparr>ad_shown := False, ad_note := (if ad_shown d then NoNote else ad_note d)\<rparr>"

definition ad_done :: "notice \<Rightarrow> add_dialog \<Rightarrow> add_dialog" where
  "ad_done x d = d\<lparr>ad_busy := False, ad_note := x\<rparr>"

text \<open>\<open>n.value || _()\<close> after a printer was added.\<close>

definition ad_added :: "add_dialog \<Rightarrow> add_dialog" where
  "ad_added d = (let d1 = d\<lparr>ad_note := AddedSuccessfully\<rparr> in if ad_keep d then d1 else ad_close d1)"

text \<open>\<open>d\<close>: without a local group there is one to make first.\<close>

definition ensure_group :: "(string \<Rightarrow> string) \<Rightarrow> add_state \<Rightarrow> add_state" where
  "ensure_group tr b =
     (let (d, s) = b in
      if localGroupCount s = 0
      then (let g = (if ad_group d = [] then tr ''New Group1'' else ad_group d)
            in (d\<lparr>ad_group := g\<rparr>, addGroup g 0 (post [(''command'', JStr ''add_group''), (''group'', JStr g)] s)))
      else b)"

definition other_printer :: "add_dialog \<Rightarrow> new_device" where
  "other_printer d = \<lparr>d_model = ''Other'', d_mac = ad_url d, d_name = Some ''Other'', d_address = ad_url d,
     d_type = deviceSubType d, d_online = True, d_socket = None, d_deviceType = Some (deviceSubType d),
     d_oldPrinter = False, d_props = []\<rparr>"

definition ad_submit :: "(string \<Rightarrow> string) \<Rightarrow> add_state \<Rightarrow> add_state" where
  "ad_submit tr b =
     (let (d0, s) = ensure_group tr b; d = d0\<lparr>ad_note := NoNote\<rparr> in
      if ad_selected d = 0
      then (if ad_ip d = [] then (d, s) else (d\<lparr>ad_busy := True\<rparr>, emit_call (HttpGet (info_url (ad_ip d))) s))
      else if ad_selected d = 1
      then (if isPrinterExist (ad_url d) s then (d\<lparr>ad_note := AlreadyExists\<rparr>, s)
            else (ad_added d, addPrinter (other_printer d) (ad_group d) False
                    (post (add_device_message (other_printer d) (ad_group d)) s)))
      else (d, s))"

text \<open>The answer of the printer, or of an old one through the proxy.  The address is read from
  the field again.\<close>

definition found_printer :: "bool \<Rightarrow> printer_info \<Rightarrow> string \<Rightarrow> nat \<Rightarrow> new_device" where
  "found_printer old i a k = \<lparr>d_model = info_model i, d_mac = info_mac i, d_name = None, d_address = a, d_type = 3,
     d_online = True, d_socket = Some k, d_deviceType = Some 0, d_oldPrinter = old, d_props = []\<rparr>"

definition ad_answer :: "bool \<Rightarrow> printer_info \<Rightarrow> add_state \<Rightarrow> add_state" where
  "ad_answer old i b =
     (let (d, s) = b in
      if isPrinterExist (ad_ip d) s then (ad_done AlreadyExists d, s)
      else
        let p = found_printer old i (ad_ip d) (nextDm s);
            d1 = (if old then d\<lparr>oldPolls := oldPolls d @ [ad_ip d]\<rparr> else d)
        in (ad_added (d1\<lparr>ad_busy := False\<rparr>),
            addPrinter p (ad_group d) False (post (add_device_message p (ad_group d)) (new_socket (ad_ip d) s))))"

text \<open>No answer from the printer: the proxy is asked.  An old printer's answer that cannot be
  read and a second failure go on with Klipper's search, whose answers come later.\<close>

definition ad_no_answer :: "add_state \<Rightarrow> add_state" where
  "ad_no_answer b = (fst b, emit_call (HttpGet (old_info_url (ad_ip (fst b)))) (snd b))"

definition ad_klipper_done :: "printer_status \<times> dashboard \<Rightarrow> add_dialog \<Rightarrow> add_state" where
  "ad_klipper_done r d =
     ((case fst r of
         SUCCESS \<Rightarrow> ad_added (d\<lparr>ad_busy := False\<rparr>)
       | ALREADY_EXISTS \<Rightarrow> ad_done AlreadyExists d
       | FAILED \<Rightarrow> ad_done DoesNotExist d), snd r)"

definition ad_show :: "string \<Rightarrow> add_state \<Rightarrow> add_state" where
  "ad_show g b = ((fst b)\<lparr>ad_group := g, ad_shown := True, ad_note := (if ad_shown (fst b) then ad_note (fst b) else NoNote)\<rparr>, snd b)"

datatype add_event =
    EnterIp string | EnterUrl string | ChooseType nat | Keep bool | ShowAdd string | CloseAdd
  | Submit | LanAnswer printer_info | LanFails | OldAnswer json

fun add_step :: "(string \<Rightarrow> string) \<Rightarrow> add_event \<Rightarrow> add_state \<Rightarrow> add_state" where
  "add_step tr (EnterIp t) b = ((fst b)\<lparr>ad_ip := t, ad_note := NoNote\<rparr>, snd b)"
| "add_step tr (EnterUrl t) b = ((fst b)\<lparr>ad_url := t\<rparr>, snd b)"
| "add_step tr (ChooseType k) b = ((fst b)\<lparr>ad_selected := k\<rparr>, snd b)"
| "add_step tr (Keep k) b = ((fst b)\<lparr>ad_keep := k\<rparr>, snd b)"
| "add_step tr (ShowAdd g) b = ad_show g b"
| "add_step tr CloseAdd b = (ad_close (fst b), snd b)"
| "add_step tr Submit b = ad_submit tr b"
| "add_step tr (LanAnswer i) b = ad_answer False i b"
| "add_step tr LanFails b = ad_no_answer b"
| "add_step tr (OldAnswer d) b = (case old_answer d of None \<Rightarrow> b | Some i \<Rightarrow> ad_answer True i b)"

section \<open>The dialog that searches the network\<close>

text \<open>A row of the table is an object of its own: it may be chosen, and be answered, after the
  table has been emptied.\<close>

record scanned =
  row_model :: string
  row_modelName :: string
  row_address :: string
  row_img :: string
  row_mac :: json
  row_type :: int
  row_old :: bool
  row_added :: bool      \<comment> \<open>\<open>state\<close>\<close>
  row_port :: json       \<comment> \<open>\<open>moonrakerPort\<close>\<close>

record scan_dialog =
  sc_shown :: bool
  sc_group :: string
  sc_filter :: "bool option"  \<comment> \<open>\<open>None\<close> is the star\<close>
  sc_rows :: "nat \<Rightarrow> scanned"
  sc_nextRow :: nat
  sc_found :: "nat list"
  sc_chosen :: "nat list"
  sc_searching :: bool
  sc_countdown :: nat
  sc_ticking :: bool
  sc_total :: "nat \<times> nat"   \<comment> \<open>what a handler last reported: all rows, rows added\<close>

type_synonym scan_state = "scan_dialog \<times> dashboard"

definition device_total :: "nat list \<Rightarrow> scan_dialog \<Rightarrow> scan_dialog" where
  "device_total rs d = d\<lparr>sc_total := (length rs, length (filter (\<lambda>r. row_added (sc_rows d r)) rs))\<rparr>"

definition shown_rows :: "scan_dialog \<Rightarrow> nat list" where
  "shown_rows d = filter (\<lambda>r. case sc_filter d of None \<Rightarrow> True | Some x \<Rightarrow> row_added (sc_rows d r) = x) (sc_found d)"

definition mark_added :: "nat \<Rightarrow> scan_dialog \<Rightarrow> scan_dialog" where
  "mark_added r d = d\<lparr>sc_rows := (sc_rows d)(r := (sc_rows d r)\<lparr>row_added := True\<rparr>)\<rparr>"

text \<open>\<open>v\<close>: the search and its clock.\<close>

definition scan_start :: "scan_state \<Rightarrow> scan_state" where
  "scan_start b = ((fst b)\<lparr>sc_countdown := 5, sc_searching := True, sc_ticking := True\<rparr>,
     post [(''command'', JStr ''scan_device'')] (snd b))"

definition scan_tick :: "scan_dialog \<Rightarrow> scan_dialog" where
  "scan_tick d = d\<lparr>sc_countdown := sc_countdown d - 1\<rparr>"

text \<open>The window's answer: the addresses to ask.  Without printers of the first two kinds the
  search ends.  The requests go through the limiter, in this order.\<close>

definition klipper_scan_url :: "string \<Rightarrow> string" where
  "klipper_scan_url u =
     (let ps = js_split '':'' u; part = (\<lambda>i. if i < length ps then ps ! i else ''undefined'')
      in ''http://'' @ part 0 @ '':'' @ part 1 @ ''/machine/multi_machine'')"

definition scan_device :: "string list \<Rightarrow> string list \<Rightarrow> string list \<Rightarrow> scan_state \<Rightarrow> scan_state" where
  "scan_device servers boxs klipper b =
     (let d = (fst b)\<lparr>sc_ticking := False\<rparr> in
      if servers = [] \<and> boxs = [] then (d\<lparr>sc_searching := False\<rparr>, snd b)
      else (d, fold (\<lambda>u. emit_call (HttpGet u))
                 (map info_url servers @ map scan_info_url boxs @ map klipper_scan_url klipper) (snd b)))"

text \<open>A row is added unless one with its mac is there; \<open>==\<close> of two macs.\<close>

definition found_row :: "scanned \<Rightarrow> scan_dialog \<Rightarrow> scan_dialog" where
  "found_row x d =
     (if \<exists>r \<in> set (sc_found d). row_mac (sc_rows d r) = row_mac x then d
      else d\<lparr>sc_rows := (sc_rows d)(sc_nextRow d := x), sc_found := sc_found d @ [sc_nextRow d],
             sc_nextRow := Suc (sc_nextRow d)\<rparr>)"

definition machine_img :: "(string \<Rightarrow> string option) \<Rightarrow> string \<Rightarrow> string" where
  "machine_img thumb m = (case thumb m of Some t \<Rightarrow> t | None \<Rightarrow> ''./img/machine/'' @ m @ ''.png'')"

definition server_row :: "(string \<Rightarrow> string option) \<Rightarrow> string \<Rightarrow> json \<Rightarrow> dashboard \<Rightarrow> scanned" where
  "server_row thumb u a s = (let m = js_text (jget a ''model'') in
     \<lparr>row_model = m, row_modelName = vGe m, row_address = u, row_img = machine_img thumb m,
      row_mac = jget a ''mac'', row_type = 3, row_old = False, row_added = isPrinterExist u s, row_port = JUndefined\<rparr>)"

definition box_row :: "string \<Rightarrow> printer_info \<Rightarrow> dashboard \<Rightarrow> scanned" where
  "box_row u i s =
     \<lparr>row_model = info_model i, row_modelName = info_model i, row_address = u,
      row_img = ''./img/machine/'' @ info_model i @ ''.png'', row_mac = JStr (info_mac i), row_type = 3, row_old = True,
      row_added = isPrinterExist u s, row_port = JUndefined\<rparr>"

text \<open>The machines behind an address are one row, with all their names; \<open>None\<close> is a
  \<open>TypeError\<close>.  The picture is looked up under a property the answer does not have.\<close>

definition klipper_row :: "(string \<Rightarrow> string option) \<Rightarrow> string \<Rightarrow> json \<Rightarrow> dashboard \<Rightarrow> scanned option" where
  "klipper_row thumb u a s =
     (case jget (jget a ''result'') ''multi_printer_info'' of
        JArr vs \<Rightarrow>
          if \<exists>v \<in> set vs. nullish v then None
          else
            let ps = js_split '':'' u; host = (case ps of [] \<Rightarrow> [] | h # _ \<Rightarrow> h);
                port = (case ps of _ # q # _ \<Rightarrow> JStr q | _ \<Rightarrow> JUndefined);
                names = trim_end (concat (map (\<lambda>v. js_text (jget v ''machine_name'') @ [CHR 0x0A]) vs))
            in Some \<lparr>row_model = names, row_modelName = names, row_address = host,
                 row_img = machine_img thumb (js_text (jget a ''model'')), row_mac = JStr host, row_type = 4, row_old = False,
                 row_added = isPrinterExist host s, row_port = port\<rparr>
      | _ \<Rightarrow> None)"

datatype scan_answer = ServerAnswer string json | BoxAnswer string json | KlipperAnswer string json

fun answer_row :: "(string \<Rightarrow> string option) \<Rightarrow> scan_answer \<Rightarrow> dashboard \<Rightarrow> scanned option" where
  "answer_row thumb (ServerAnswer u a) s = Some (server_row thumb u a s)"
| "answer_row thumb (BoxAnswer u a) s = map_option (\<lambda>i. box_row u i s) (old_answer a)"
| "answer_row thumb (KlipperAnswer u a) s = klipper_row thumb u a s"

definition scan_answered :: "(string \<Rightarrow> string option) \<Rightarrow> scan_answer \<Rightarrow> scan_state \<Rightarrow> scan_state" where
  "scan_answered thumb a b =
     ((case answer_row thumb a (snd b) of None \<Rightarrow> fst b | Some x \<Rightarrow> found_row x (fst b)), snd b)"

text \<open>All requests have been answered.  The cover over the table goes five seconds after the
  window's answer at the latest.\<close>

definition scan_over :: "scan_dialog \<Rightarrow> scan_dialog" where
  "scan_over d = (device_total (sc_found d) d)\<lparr>sc_searching := False\<rparr>"

definition scan_close :: "scan_dialog \<Rightarrow> scan_dialog" where
  "scan_close d = d\<lparr>sc_shown := False, sc_found := [], sc_searching := False, sc_ticking := False\<rparr>"

definition scan_show :: "string \<Rightarrow> scan_state \<Rightarrow> scan_state" where
  "scan_show g b =
     ((fst b)\<lparr>sc_group := g, sc_shown := True,
        sc_rows := (\<lambda>r. if r \<in> set (sc_found (fst b))
          then (sc_rows (fst b) r)\<lparr>row_added := isPrinterExist (row_address (sc_rows (fst b) r)) (snd b)\<rparr>
          else sc_rows (fst b) r)\<rparr>, snd b)"

definition resetState :: "string \<Rightarrow> scan_dialog \<Rightarrow> scan_dialog" where
  "resetState a d =
     (case List.find (\<lambda>r. row_address (sc_rows d r) = a) (sc_found d) of
        None \<Rightarrow> d
      | Some r \<Rightarrow> d\<lparr>sc_rows := (sc_rows d)(r := (sc_rows d r)\<lparr>row_added := False\<rparr>)\<rparr>)"

section \<open>Adding what was found\<close>

text \<open>\<open>_\<close>: the request of a row; a Klipper row starts Klipper's search.\<close>

definition add_row :: "nat \<Rightarrow> scan_state \<Rightarrow> scan_state" where
  "add_row r b =
     (let x = sc_rows (fst b) r in
      if row_old x then (fst b, emit_call (HttpGet (scan_info_url (row_address x))) (snd b))
      else if row_type x = 4 then b
      else (fst b, emit_call (HttpGet (info_url (row_address x))) (snd b)))"

text \<open>Its answer: nothing is looked up before the printer is added.\<close>

definition row_answer :: "nat \<Rightarrow> printer_info \<Rightarrow> scan_state \<Rightarrow> scan_state" where
  "row_answer r i b =
     (let (d, s) = b; a = row_address (sc_rows d r); p = (found_printer False i a (nextDm s))\<lparr>d_deviceType := None\<rparr>;
          d1 = mark_added r d
      in (device_total (sc_found d1) d1, post (add_device_message p (sc_group d)) (addPrinter p (sc_group d) False (new_socket a s))))"

text \<open>\<open>y\<close>: an old printer.  \<open>isPrinterExist(A.data)\<close> looks for a property no row has, so it is
  never true.\<close>

definition old_row_answer :: "nat \<Rightarrow> json \<Rightarrow> scan_state \<Rightarrow> scan_state" where
  "old_row_answer r v b =
     (case old_answer v of
        None \<Rightarrow> b
      | Some i \<Rightarrow>
          let (d, s) = b; a = row_address (sc_rows d r);
              p = \<lparr>d_model = info_model i, d_mac = info_mac i, d_name = None, d_address = a, d_type = 3, d_online = True,
                   d_socket = None, d_deviceType = None, d_oldPrinter = True, d_props = []\<rparr>
          in (mark_added r d, addPrinter p (sc_group d) False (post (add_device_message p (sc_group d)) s)))"

text \<open>\<open>C\<close>: all chosen rows, after a group was made when there is none.  The answer of a row
  posts before it adds, and again nothing is found under \<open>D.data\<close>.\<close>

definition scan_ensure_group :: "(string \<Rightarrow> string) \<Rightarrow> scan_state \<Rightarrow> scan_state" where
  "scan_ensure_group tr b =
     (let (d, s) = b in
      if localGroupCount s = 0
      then (let g = tr ''New Group1''
            in (d\<lparr>sc_group := g\<rparr>, addGroup g 0 (post [(''command'', JStr ''add_group''), (''group'', JStr g)] s)))
      else b)"

definition add_chosen :: "(string \<Rightarrow> string) \<Rightarrow> scan_state \<Rightarrow> scan_state" where
  "add_chosen tr b =
     (let (d, s) = scan_ensure_group tr b; xs = map (sc_rows d) (sc_chosen d)
      in (d, fold (\<lambda>u. emit_call (HttpGet u))
               (map (\<lambda>x. info_url (row_address x)) (filter (\<lambda>x. \<not> row_old x \<and> row_type x \<noteq> 4) xs)
                @ map (\<lambda>x. scan_info_url (row_address x)) (filter row_old xs)) s))"

definition chosen_answer :: "nat \<Rightarrow> printer_info \<Rightarrow> scan_state \<Rightarrow> scan_state" where
  "chosen_answer r i b =
     (let (d, s) = b; a = row_address (sc_rows d r); p = (found_printer False i a (nextDm s))\<lparr>d_deviceType := None\<rparr>
      in (mark_added r d, addPrinter p (sc_group d) False (post (add_device_message p (sc_group d)) (new_socket a s))))"

definition chosen_over :: "scan_dialog \<Rightarrow> scan_dialog" where
  "chosen_over d = device_total (sc_found d) d"

text \<open>Klipper's search for a row has ended.\<close>

definition row_klipper_done :: "nat \<Rightarrow> printer_status \<times> dashboard \<Rightarrow> scan_dialog \<Rightarrow> scan_state" where
  "row_klipper_done r x d =
     (if fst x = SUCCESS then (device_total (sc_found d) (mark_added r d), snd x) else (d, snd x))"

datatype scan_event =
    ScanShow string | ScanClose | ScanHide | ScanFilter "bool option" | Choose "nat list" | StartScan | ScanTick
  | Scanned "string list" "string list" "string list" | ScanAnswer scan_answer | ScanOver | ScanTimeout | ResetState string
  | AddRow nat | RowAnswer nat printer_info | OldRowAnswer nat json
  | AddChosen | ChosenAnswer nat printer_info | ChosenOver

fun scan_step :: "(string \<Rightarrow> string) \<Rightarrow> (string \<Rightarrow> string option) \<Rightarrow> scan_event \<Rightarrow> scan_state \<Rightarrow> scan_state" where
  "scan_step tr thumb (ScanShow g) b = scan_show g b"
| "scan_step tr thumb ScanClose b = (scan_close (fst b), snd b)"
| "scan_step tr thumb ScanHide b = ((fst b)\<lparr>sc_shown := False\<rparr>, snd b)"
| "scan_step tr thumb (ScanFilter x) b =
     (let d = (fst b)\<lparr>sc_filter := x\<rparr> in (device_total (shown_rows d) d, snd b))"
| "scan_step tr thumb (Choose rs) b = ((fst b)\<lparr>sc_chosen := rs\<rparr>, snd b)"
| "scan_step tr thumb StartScan b = scan_start b"
| "scan_step tr thumb ScanTick b = ((if sc_ticking (fst b) then scan_tick (fst b) else fst b), snd b)"
| "scan_step tr thumb (Scanned xs ys zs) b = scan_device xs ys zs b"
| "scan_step tr thumb (ScanAnswer a) b = scan_answered thumb a b"
| "scan_step tr thumb ScanOver b = (scan_over (fst b), snd b)"
| "scan_step tr thumb ScanTimeout b = ((fst b)\<lparr>sc_searching := False\<rparr>, snd b)"
| "scan_step tr thumb (ResetState a) b = (resetState a (fst b), snd b)"
| "scan_step tr thumb (AddRow r) b = add_row r b"
| "scan_step tr thumb (RowAnswer r i) b = row_answer r i b"
| "scan_step tr thumb (OldRowAnswer r v) b = old_row_answer r v b"
| "scan_step tr thumb AddChosen b = add_chosen tr b"
| "scan_step tr thumb (ChosenAnswer r i) b = chosen_answer r i b"
| "scan_step tr thumb ChosenOver b = (chosen_over (fst b), snd b)"

end
