(* ===== verification/ListedOnce.thy ===== *)
theory ListedOnce
  imports AddressBook
begin

text \<open>
  That the printer manager lists every address once, proved of the address book it
  implements: none of the book's list functions makes an address twice, but for adding one
  that is there.
\<close>

section \<open>The addresses of a book\<close>

text \<open>The book of a state in which every address is listed once.\<close>

definition all_addresses :: "book_group list \<Rightarrow> string list" where
  "all_addresses bs = concat (map addresses bs)"

lemma distinct_book: "distinct_addresses s \<longleftrightarrow> distinct (all_addresses (book_of s))"
proof -
  have "map (\<lambda>n. address (ps n)) (concat (map members gs)) = all_addresses (map (entry_of ps) gs)" for ps gs
    by (induction gs) (simp_all add: all_addresses_def)
  then show ?thesis by (simp add: distinct_addresses_def all_refs_def book_of_def)
qed

lemma lists_all_addresses: "book_lists t bs \<longleftrightarrow> t \<in> set (all_addresses bs)"
  by (simp add: book_lists_def all_addresses_def list_ex_iff)

lemma mset_add: "mset (all_addresses (book_add r front t bs))
    = (if list_ex (titled r) bs then {#t#} else {#}) + mset (all_addresses bs)"
  unfolding book_add_def by (induction bs) (auto simp: all_addresses_def)

lemma distinct_add:
  assumes "distinct (all_addresses bs)" and "\<not> book_lists t bs"
  shows "distinct (all_addresses (book_add r front t bs))"
proof -
  have "distinct (t # all_addresses bs)" using assms by (simp add: lists_all_addresses)
  moreover have "mset (all_addresses (book_add r front t bs)) \<subseteq># mset (t # all_addresses bs)"
    by (simp add: mset_add)
  ultimately show ?thesis by (rule distinct_submset [rotated])
qed

lemma distinct_new [simp]: "all_addresses (book_new t r bs) = all_addresses bs"
  by (simp add: all_addresses_def book_new_def)

section \<open>Every address is listed once\<close>

text \<open>No list function of the book makes an address twice, but for adding one that is there.\<close>

lemma distinct_less:
  "distinct (all_addresses bs) \<Longrightarrow> mset (all_addresses bs') \<subseteq># mset (all_addresses bs) \<Longrightarrow> distinct (all_addresses bs')"
  by (rule distinct_submset)

lemma all_addresses_simps [simp]:
  "all_addresses [] = []" "all_addresses (b # bs) = addresses b @ all_addresses bs"
  "addresses (with_addresses f b) = f (addresses b)" "addresses (b\<lparr>title := t\<rparr>) = addresses b"
  "title (with_addresses f b) = title b"
  by (simp_all add: all_addresses_def with_addresses_def)

lemma mset_remove: "mset (all_addresses (book_remove t bs)) \<subseteq># mset (all_addresses bs)"
  unfolding book_remove_def by (induction bs) (auto simp: diff_subset_eq_self subset_mset.add_mono)

lemma mset_drop: "mset (all_addresses (book_drop t bs)) \<subseteq># mset (all_addresses bs)"
proof (induction t bs rule: book_drop.induct)
  case (3 t b c bs)
  then show ?case
    by (auto simp: add.assoc intro: subset_mset.add_left_mono subset_mset.order_trans [OF subset_mset.add_left_mono])
      (metis add.assoc add.commute mset_subset_eq_add_left subset_mset.add_left_mono subset_mset.order_trans)
qed simp_all

lemma addresses_rename: "all_addresses (book_rename t r bs) = all_addresses bs"
  unfolding book_rename_def by (induction bs) auto

lemma mset_sort: "mset (all_addresses (sort_key f bs)) = mset (all_addresses bs)"
  by (simp add: all_addresses_def mset_concat flip: sum_mset_sum_list)

lemma mset_put:
  assumes "i < length bs"
  shows "mset (all_addresses (bs[i := b])) + mset (addresses (bs ! i)) = mset (all_addresses bs) + mset (addresses b)"
proof -
  have "mset (all_addresses bs) = mset (all_addresses (take i bs)) + mset (addresses (bs ! i)) + mset (all_addresses (drop (Suc i) bs))"
    using assms by (subst id_take_nth_drop [of i bs]) (simp_all add: all_addresses_def)
  moreover have "mset (all_addresses (bs[i := b])) = mset (all_addresses (take i bs)) + mset (addresses b) + mset (all_addresses (drop (Suc i) bs))"
    using assms by (simp add: upd_conv_take_nth_drop all_addresses_def)
  ultimately show ?thesis by (simp add: ac_simps)
qed

lemma mset_move:
  assumes "t \<noteq> n"
  shows "mset (all_addresses (book_move t r n bs)) = mset (all_addresses bs)"
proof (cases "\<exists>i j. last_index_where (titled t) bs = Some i \<and> last_index_where (titled n) bs = Some j \<and> r \<in> set (addresses (bs ! i))")
  case True
  then obtain i j where ij: "last_index_where (titled t) bs = Some i" "last_index_where (titled n) bs = Some j"
    and r: "r \<in> set (addresses (bs ! i))" by blast
  then have le: "i < length bs" "j < length bs" "i \<noteq> j"
    using assms by (auto dest!: last_index_where_Some simp: titled_def)
  let ?x = "with_addresses (remove1 r) (bs ! i)" and ?y = "with_addresses (Cons r) (bs ! j)"
  have "mset (all_addresses (bs[i := ?x, j := ?y])) + mset (addresses (bs ! j))
      = mset (all_addresses (bs[i := ?x])) + mset (addresses ?y)"
    using mset_put [of j "bs[i := ?x]" ?y] le by simp
  moreover have "mset (all_addresses (bs[i := ?x])) + mset (addresses (bs ! i))
      = mset (all_addresses bs) + (mset (addresses (bs ! i)) - {#r#})"
    using mset_put [of i bs ?x] le by simp
  moreover have "mset (addresses (bs ! i)) = add_mset r (mset (addresses (bs ! i)) - {#r#})"
    using r by simp
  ultimately have "mset (all_addresses (bs[i := ?x, j := ?y])) = mset (all_addresses bs)"
    by (metis (no_types, lifting) add_mset_add_single all_addresses_simps(3) mset.simps(2) union_mset_add_mset_left
        union_mset_add_mset_right add_right_cancel)
  then show ?thesis using ij r by (simp add: book_move_def)
qed (auto simp: book_move_def split: option.split)

section \<open>Every address is listed once\<close>

text \<open>Dropping the groups of a name drops the first of them, whatever else it drops.\<close>

lemma mset_drop_first:
  "List.find (titled t) bs = Some n \<Longrightarrow> mset (all_addresses (book_drop t bs)) + mset (addresses n) \<subseteq># mset (all_addresses bs)"
proof (induction t bs rule: book_drop.induct)
  case (3 t b c bs)
  show ?case
  proof (cases "titled t b")
    case True
    then show ?thesis using 3(3) mset_drop [of t bs] by (simp add: ac_simps)
  next
    case False
    then show ?thesis using 3 by (simp add: ac_simps)
  qed
qed (auto split: if_splits)

lemma distinct_merge:
  assumes "distinct (all_addresses bs)"
  shows "distinct (all_addresses (book_merge t bs))"
proof (cases "length (filter (\<lambda>b. kind b = 0) bs) < 2 \<or> List.find (titled t) bs = None")
  case True
  then show ?thesis using assms by (auto simp: book_merge_def)
next
  case False
  then obtain n where n: "List.find (titled t) bs = Some n" and "2 \<le> length (filter (\<lambda>b. kind b = 0) bs)" by auto
  then have "2 \<le> length bs" using length_filter_le [of "\<lambda>b. kind b = 0" bs] by linarith
  then obtain x y zs where bs: "bs = x # y # zs" by (metis Suc_le_length_iff numeral_2_eq_2)
  define a where "a = (if title n = title (bs ! 0) then 1 else 0 :: nat)"
  let ?bs = "bs[a := with_addresses (\<lambda>xs. addresses n @ xs) (bs ! a)]"
  have "title n = t" using n by (auto simp: find_Some_iff titled_def)
  then have "List.find (titled t) ?bs = Some n"
    using n by (auto simp: bs a_def titled_def split: if_splits)
  then have "mset (all_addresses (book_drop t ?bs)) + mset (addresses n) \<subseteq># mset (all_addresses ?bs)"
    by (rule mset_drop_first)
  moreover have "mset (all_addresses ?bs) = mset (all_addresses bs) + mset (addresses n)"
    by (simp add: bs a_def ac_simps)
  ultimately have "mset (all_addresses (book_drop t ?bs)) \<subseteq># mset (all_addresses bs)"
    by simp
  moreover have "book_merge t bs = book_drop t ?bs"
    using False n by (simp add: book_merge_def Let_def a_def)
  ultimately show ?thesis using distinct_less [OF assms] by simp
qed

lemma distinct_saved: "distinct (all_addresses bs) \<Longrightarrow> distinct (all_addresses (book_saved g bs))"
proof -
  assume "distinct (all_addresses bs)"
  then have "distinct (all_addresses (if list_ex (titled (sg_group g)) bs then bs else book_new (sg_group g) 0 bs))"
    by simp
  then show ?thesis
    unfolding book_saved_def Let_def
    by (rule fold_keeps [where P = "\<lambda>bs. distinct (all_addresses bs)", rotated]) (simp add: distinct_add)
qed

text \<open>What an operation may not do: add an address that is listed.\<close>

definition adds_listed :: "manager_op \<Rightarrow> dashboard \<Rightarrow> bool" where
  "adds_listed c s = (case c of AddPrinter t r back \<Rightarrow> isPrinterExist (d_address t) s | _ \<Rightarrow> False)"

fun adds_unlisted :: "manager_op list \<Rightarrow> dashboard \<Rightarrow> bool" where
  "adds_unlisted [] s = True"
| "adds_unlisted (c # cs) s = (\<not> adds_listed c s \<and> adds_unlisted cs (apply_op c s))"

lemma distinct_op:
  assumes "book_follows c" and "\<not> adds_listed c s" and "listed_once s" and "distinct_addresses s"
  shows "distinct_addresses (apply_op c s)"
proof -
  have "distinct (all_addresses (book_op c (book_of s)))" if "distinct (all_addresses (book_of s))"
    using that assms(1,2)
    by (cases c) (simp_all add: adds_listed_def exist_book distinct_add distinct_merge addresses_rename
        distinct_less [OF _ mset_remove] distinct_less [OF _ mset_drop] distinct_less [OF _ subset_mset.eq_refl [OF mset_sort]]
        distinct_less [OF _ subset_mset.eq_refl [OF mset_move]] fold_keeps [where P = "\<lambda>bs. distinct (all_addresses bs)"] distinct_saved)
  then show ?thesis using assms by (simp add: distinct_book book_apply)
qed

lemma distinct_run:
  "list_all book_follows cs \<Longrightarrow> adds_unlisted cs s \<Longrightarrow> listed_once s \<Longrightarrow> distinct_addresses s
    \<Longrightarrow> distinct_addresses (fold apply_op cs s)"
  by (induction cs arbitrary: s) (auto intro: distinct_op book.inv_step)

lemma exist_run:
  assumes "list_all book_follows cs"
  shows "isPrinterExist a (fold apply_op cs (empty_dashboard p d)) = book_lists a (fold book_op cs [])"
proof -
  have "listed_once (empty_dashboard p d)" "book_of (empty_dashboard p d) = []"
    by (simp_all add: listed_once_def empty_dashboard_def all_refs_def book_of_def)
  with book.abs_run [OF assms, of "empty_dashboard p d"] show ?thesis by (simp add: exist_book)
qed



end
