(* ===== verification/AddProps.thy ===== *)
theory AddProps
  imports AddDevice ListedOnce
begin

text \<open>
  What holds of the two dialogs: the one that asks for an address never lists an address
  twice, the table of found printers never shows a mac twice, and adding from the table
  lists a printer again each time.  The proofs are about the address book, which the
  manager implements.
\<close>

section \<open>What the operations do to the book\<close>

lemma listed_once_call [simp]: "listed_once (emit_call c s) = listed_once s"
  by (rule listed_once_same) simp

lemma book_post [simp]: "book_of (post ps s) = book_of s" "listed_once (post ps s) = listed_once s"
  "nextDm (post ps s) = nextDm s" "isPrinterExist a (post ps s) = isPrinterExist a s"
  by (simp_all add: post_def exist_book)

lemma book_new_socket [simp]:
  "book_of (new_socket a s) = book_of s" "listed_once (new_socket a s) = listed_once s"
  by (simp_all add: new_socket_def book_of_def listed_once_def all_refs_def dm_call_def)

lemma book_requests [simp]:
  "book_of (fold (\<lambda>u. emit_call (f u)) us s) = book_of s"
  "listed_once (fold (\<lambda>u. emit_call (f u)) us s) = listed_once s"
proof -
  show "book_of (fold (\<lambda>u. emit_call (f u)) us s) = book_of s" by (rule fold_frame) simp
  have "listing (fold (\<lambda>u. emit_call (f u)) us s) = listing s" by (rule fold_frame) simp
  then show "listed_once (fold (\<lambda>u. emit_call (f u)) us s) = listed_once s" by (rule listed_once_same)
qed

section \<open>The dialog that asks for an address\<close>

definition ad_ok :: "add_state \<Rightarrow> bool" where
  "ad_ok b \<longleftrightarrow> listed_once (snd b) \<and> distinct_addresses (snd b)"

lemma ad_ok_add:
  assumes "ad_ok (d, s)" and "\<not> isPrinterExist (d_address p) s"
    and "book_of s' = book_of s" and "listed_once s' = listed_once s"
  shows "ad_ok (d', addPrinter p g back s')"
  using assms distinct_add
  by (auto simp: ad_ok_def distinct_book book_addPrinter listed_once_addPrinter exist_book)

lemma ad_ok_group: "ad_ok b \<Longrightarrow> ad_ok (ensure_group tr b)"
  by (cases b) (auto simp: ensure_group_def ad_ok_def Let_def distinct_book listed_once_addGroup)

lemma ad_ok_submit: "ad_ok b \<Longrightarrow> ad_ok (ad_submit tr b)"
proof -
  assume "ad_ok b"
  then have ok: "ad_ok (ensure_group tr b)" by (rule ad_ok_group)
  obtain d s where e: "ensure_group tr b = (d, s)" by fastforce
  then have s: "ad_ok (x, s)" for x using ok by (simp add: ad_ok_def)
  have "ad_ok (x, emit_call c s)" for x c using s by (simp add: ad_ok_def distinct_book)
  moreover have "ad_ok (x, addPrinter (other_printer y) g False (post ps s))"
    if "\<not> isPrinterExist (ad_url y) s" for x y g ps
    using that by (intro ad_ok_add [OF s]) (simp_all add: other_printer_def)
  ultimately show ?thesis using s e by (auto simp: ad_submit_def Let_def)
qed

lemma ad_ok_answer: "ad_ok b \<Longrightarrow> ad_ok (ad_answer old i b)"
proof -
  assume "ad_ok b"
  obtain d s where b: "b = (d, s)" by fastforce
  have s: "ad_ok (x, s)" for x using \<open>ad_ok b\<close> by (simp add: ad_ok_def b)
  have "ad_ok (x, addPrinter (found_printer old i (ad_ip d) k) g False (post ps (new_socket (ad_ip d) s)))"
    if "\<not> isPrinterExist (ad_ip d) s" for x k g ps
    using that by (intro ad_ok_add [OF s]) (simp_all add: found_printer_def)
  then show ?thesis using s by (auto simp: ad_answer_def b Let_def)
qed

lemma ad_ok_step: "ad_ok b \<Longrightarrow> ad_ok (add_step tr ev b)"
  by (cases ev) (simp_all add: ad_ok_submit ad_ok_answer split: option.split,
    simp_all add: ad_ok_def ad_show_def ad_no_answer_def distinct_book)

text \<open>The dialog that asks for an address never lists an address twice, whatever is typed,
  answered late, or answered for another address than the one in the field by then.\<close>

theorem add_dialog_lists_once:
  assumes "listed_once s" and "distinct_addresses s"
  shows "listed_once (snd (fold (add_step tr) evs (d, s))) \<and> distinct_addresses (snd (fold (add_step tr) evs (d, s)))"
proof -
  have "ad_ok (fold (add_step tr) evs b)" if "ad_ok b" for b
    using that by (induction evs arbitrary: b) (simp_all add: ad_ok_step)
  with assms show ?thesis by (simp add: ad_ok_def)
qed

section \<open>The table of found printers\<close>

definition rows_ok :: "scan_dialog \<Rightarrow> bool" where
  "rows_ok d \<longleftrightarrow> (\<forall>r \<in> set (sc_found d). r < sc_nextRow d) \<and> distinct (map (\<lambda>r. row_mac (sc_rows d r)) (sc_found d))"

lemma rows_frame:
  assumes "sc_found d' = sc_found d" and "sc_nextRow d' = sc_nextRow d" and "\<And>r. row_mac (sc_rows d' r) = row_mac (sc_rows d r)"
  shows "rows_ok d' = rows_ok d"
  using assms by (simp add: rows_ok_def)

lemma rows_total [simp]: "rows_ok (device_total rs d) = rows_ok d" "rows_ok (mark_added r d) = rows_ok d"
  "rows_ok (scan_tick d) = rows_ok d" "rows_ok (resetState a d) = rows_ok d"
  by (rule rows_frame; simp add: device_total_def mark_added_def scan_tick_def resetState_def split: option.split)+

lemma rows_found: "rows_ok d \<Longrightarrow> rows_ok (found_row x d)"
proof (cases "\<exists>r \<in> set (sc_found d). row_mac (sc_rows d r) = row_mac x")
  case False
  assume ok: "rows_ok d"
  let ?g = "(sc_rows d)(sc_nextRow d := x)"
  have same: "map (\<lambda>r. row_mac (?g r)) (sc_found d) = map (\<lambda>r. row_mac (sc_rows d r)) (sc_found d)"
    using ok by (auto simp: rows_ok_def)
  have "distinct (map (\<lambda>r. row_mac (?g r)) (sc_found d @ [sc_nextRow d]))"
    unfolding map_append same using ok False by (auto simp: rows_ok_def)
  then show ?thesis using ok False by (auto simp: rows_ok_def found_row_def less_Suc_eq)
qed (simp add: found_row_def)

lemma rows_step: "rows_ok (fst b) \<Longrightarrow> rows_ok (fst (scan_step tr thumb ev b))"
proof (cases ev)
  case (ScanShow g)
  moreover have "rows_ok (fst (scan_show g b)) = rows_ok (fst b)"
    by (rule rows_frame) (simp_all add: scan_show_def)
  ultimately show "rows_ok (fst b) \<Longrightarrow> ?thesis" by simp
qed (auto simp: rows_found scan_start_def scan_device_def scan_answered_def scan_over_def scan_close_def add_row_def
      row_answer_def old_row_answer_def add_chosen_def scan_ensure_group_def chosen_answer_def chosen_over_def Let_def
      case_prod_beta split: option.split, auto simp: rows_ok_def device_total_def)

text \<open>Whatever the window finds and however the answers of the printers are interleaved with
  the rest, no two rows of the table have the same mac.\<close>

theorem scanned_rows_have_own_macs:
  assumes "sc_found d = []"
  shows "let d' = fst (fold (scan_step tr thumb) evs (d, s))
    in distinct (map (\<lambda>r. row_mac (sc_rows d' r)) (sc_found d'))"
proof -
  have "rows_ok (fst (fold (scan_step tr thumb) evs b))" if "rows_ok (fst b)" for b
    using that by (induction evs arbitrary: b) (simp_all add: rows_step)
  then show ?thesis using assms by (simp add: rows_ok_def Let_def)
qed

text \<open>How often an address is listed.\<close>

definition times_listed :: "string \<Rightarrow> dashboard \<Rightarrow> nat" where
  "times_listed a s = length (filter (\<lambda>n. address (printers s n) = a) (all_refs s))"

lemma times_book: "times_listed a s = count (mset (all_addresses (book_of s))) a"
proof -
  have one: "length (filter (\<lambda>n. address (ps n) = a) ns) = count (mset (map (\<lambda>n. address (ps n)) ns)) a" for ps ns
    by (induction ns) simp_all
  have "length (filter (\<lambda>n. address (ps n) = a) (concat (map members gs)))
      = count (mset (all_addresses (map (entry_of ps) gs))) a" for ps gs
    by (induction gs) (simp_all add: all_addresses_def one del: mset_map)
  then show ?thesis by (simp add: times_listed_def all_refs_def book_of_def)
qed

lemma times_addPrinter:
  assumes "listed_once s'" and "book_of s' = book_of s" and "isGroupExist g s"
  shows "times_listed (d_address p) (addPrinter p g back s') = Suc (times_listed (d_address p) s)"
  using assms by (simp add: times_book book_addPrinter mset_add exist_book)

text \<open>Adding from the table does not look whether the printer is listed.  Every answer to a
  row that was added, or that was among the chosen ones, lists its address once more, the
  printers that are listed already included.\<close>

theorem scan_lists_again:
  assumes "listed_once s" and "isGroupExist (sc_group d) s" and "a = row_address (sc_rows d r)"
  shows "times_listed a (snd (scan_step tr thumb (RowAnswer r i) (d, s))) = Suc (times_listed a s)
    \<and> times_listed a (snd (scan_step tr thumb (ChosenAnswer r i) (d, s))) = Suc (times_listed a s)
    \<and> (old_answer v \<noteq> None
         \<longrightarrow> times_listed a (snd (scan_step tr thumb (OldRowAnswer r v) (d, s))) = Suc (times_listed a s))"
proof -
  have add: "times_listed a (addPrinter p (sc_group d) False s') = Suc (times_listed a s)"
    if "d_address p = a" "book_of s' = book_of s" "listed_once s' = listed_once s" for p s'
    using times_addPrinter [of s' s "sc_group d" p False] that assms by simp
  have post: "times_listed a (post ps s') = times_listed a s'" for ps s' by (simp add: times_book)
  have "times_listed a (snd (scan_step tr thumb (RowAnswer r i) (d, s))) = Suc (times_listed a s)"
    by (simp add: row_answer_def Let_def post found_printer_def add assms(3) [symmetric])
  moreover have "times_listed a (snd (scan_step tr thumb (ChosenAnswer r i) (d, s))) = Suc (times_listed a s)"
    by (simp add: chosen_answer_def Let_def found_printer_def add assms(3) [symmetric])
  moreover have "times_listed a (snd (scan_step tr thumb (OldRowAnswer r v) (d, s))) = Suc (times_listed a s)"
    if "old_answer v \<noteq> None"
    using that by (auto simp: old_row_answer_def Let_def add assms(3) [symmetric])
  ultimately show ?thesis by blast
qed

section \<open>Witnesses\<close>

definition demo_row :: scanned where
  "demo_row = \<lparr>row_model = ''K1'', row_modelName = ''K1'', row_address = ''a'', row_img = [], row_mac = JStr ''m'',
     row_type = 3, row_old = False, row_added = False, row_port = JUndefined\<rparr>"

definition demo_scan :: scan_dialog where
  "demo_scan = \<lparr>sc_shown = True, sc_group = ''g'', sc_filter = None, sc_rows = (\<lambda>_. demo_row), sc_nextRow = 0,
     sc_found = [], sc_chosen = [], sc_searching = False, sc_countdown = 0, sc_ticking = False, sc_total = (0, 0)\<rparr>"

definition demo_add :: add_dialog where
  "demo_add = \<lparr>ad_ip = [], ad_url = [], deviceSubType = 1001, ad_shown = True, ad_group = ''g'', ad_selected = 0,
     ad_note = NoNote, ad_busy = False, ad_keep = False, oldPolls = []\<rparr>"

lemma demo_board_ok: "listed_once demo_board" "distinct_addresses demo_board"
  by (simp_all add: listed_once_def distinct_addresses_def) (simp add: demo_board_def)

definition demo_found :: printer_info where
  "demo_found = \<lparr>info_status = 200, info_model = ''K1'', info_mac = ''m''\<rparr>"

theorem add_dialog_lists_once_witness:
  "distinct_addresses (snd (fold (add_step id) [EnterIp ''z'', Submit, LanAnswer demo_found, LanAnswer demo_found] (demo_add, demo_board)))"
  using add_dialog_lists_once [OF demo_board_ok] by blast

theorem scanned_rows_have_own_macs_witness:
  "let d' = fst (fold (scan_step id (\<lambda>_. None))
       [ScanAnswer (ServerAnswer ''x'' (JObj [(''mac'', JStr ''m'')])), ScanAnswer (ServerAnswer ''y'' (JObj [(''mac'', JStr ''m'')]))]
       (demo_scan, demo_board))
    in distinct (map (\<lambda>r. row_mac (sc_rows d' r)) (sc_found d'))"
  by (rule scanned_rows_have_own_macs) (simp add: demo_scan_def)

theorem scan_lists_again_witness:
  "times_listed ''a'' (snd (scan_step id (\<lambda>_. None) (RowAnswer 0 demo_found) (demo_scan, demo_board))) = 2
   \<and> times_listed ''a'' (snd (scan_step id (\<lambda>_. None) (ChosenAnswer 0 demo_found) (demo_scan, demo_board))) = 2
   \<and> times_listed ''a'' (snd (scan_step id (\<lambda>_. None)
       (OldRowAnswer 0 (JObj [(''model'', JStr ''K1''), (''ssid'', JStr ''K1-m'')])) (demo_scan, demo_board))) = 2"
proof -
  let ?old = "JObj [(''model'', JStr ''K1''), (''ssid'', JStr ''K1-m'')]"
  have g: "isGroupExist (sc_group demo_scan) demo_board" "''a'' = row_address (sc_rows demo_scan 0)"
    by (simp_all add: demo_scan_def demo_row_def isGroupExist_def demo_board_def)
  have "times_listed ''a'' demo_board = 1" by (simp add: times_listed_def)
  moreover have "old_answer ?old \<noteq> None" by (simp add: old_answer_def)
  ultimately show ?thesis
    using scan_lists_again [OF demo_board_ok(1) g, of id "\<lambda>_. None" demo_found ?old] by (simp del: scan_step.simps)
qed

end
