(* ===== verification/GroupProps.thy ===== *)
theory GroupProps
  imports GroupDialogs AddProps CommandProps
begin

text \<open>
  What the dialogs do to the groups: names stay apart, the group manager does what its rows
  say unless a new name is an old one, and the group whose printers were to be moved is lost.
  Everything is proved about the address book.
\<close>

section \<open>Books with distinct names\<close>

definition titles :: "book_group list \<Rightarrow> string list" where
  "titles bs = map title bs"

lemma titles_book: "titles (book_of s) = map group (printerList s)"
  by (simp add: titles_def book_of_def)

lemma exist_titles: "isGroupExist t s \<longleftrightarrow> t \<in> set (titles (book_of s))"
  by (auto simp: isGroupExist_def titles_book list_ex_iff)

lemma on_first_distinct:
  assumes "distinct (titles bs)"
  shows "on_first (titled t) f bs = map (\<lambda>b. if title b = t then f b else b) bs"
proof -
  have "map (\<lambda>b. if title b = t then f b else b) bs = bs" if "t \<notin> set (titles bs)" for bs
    using that by (intro map_idI) (auto simp: titles_def intro: rev_image_eqI)
  then show ?thesis using assms by (induction bs) (auto simp: titles_def titled_def)
qed

lemma drop_distinct: "distinct (titles bs) \<Longrightarrow> book_drop t bs = filter (\<lambda>b. title b \<noteq> t) bs"
proof (induction t bs rule: book_drop.induct)
  case (3 t b c bs)
  have "filter (\<lambda>b. title b \<noteq> t) bs = bs" if "t = title b" "t \<notin> set (titles bs)"
    using that by (intro filter_True) (auto simp: titles_def intro: rev_image_eqI)
  with 3 show ?case by (auto simp: titles_def titled_def)
qed (simp_all add: titled_def)

lemma titles_rename: "distinct (titles bs) \<Longrightarrow> titles (book_rename t r bs) = map (\<lambda>x. if x = t then r else x) (titles bs)"
  by (simp add: book_rename_def on_first_distinct) (simp add: titles_def)

lemma distinct_rename: "distinct xs \<Longrightarrow> r \<notin> set xs \<Longrightarrow> distinct (map (\<lambda>x. if x = t then r else x) xs)"
  by (auto simp: distinct_map inj_on_def)

section \<open>Names stay apart\<close>

datatype naming = AddOk group_add | EditOk group_edit | CardOk string string

fun name_step :: "naming \<Rightarrow> dashboard \<Rightarrow> dashboard" where
  "name_step (AddOk d) s = snd (group_add_ok (d, s))"
| "name_step (EditOk d) s = snd (group_edit_ok (d, s))"
| "name_step (CardOk t r) s = snd (card_rename_group t r s)"

lemma titles_new [simp]: "titles (book_new t k bs) = titles bs @ [t]"
  by (simp add: titles_def book_new_def)

text \<open>C38: The three dialogs never give two groups one name, and never make a group without a
  name, whatever is entered.\<close>

theorem group_names_stay_distinct:
  assumes "distinct (map group (printerList s))" and "[] \<notin> set (map group (printerList s))"
  shows "distinct (map group (printerList (fold name_step cs s))) \<and> [] \<notin> set (map group (printerList (fold name_step cs s)))"
proof -
  have one: "distinct (titles (book_of (name_step c s))) \<and> [] \<notin> set (titles (book_of (name_step c s)))"
    if "distinct (titles (book_of s)) \<and> [] \<notin> set (titles (book_of s))" for c s
    using that
    by (cases c) (auto simp: group_add_ok_def group_edit_ok_def card_rename_group_def Let_def exist_titles
        book_setGroupName distinct_rename titles_rename)
  have "distinct (titles (book_of (fold name_step cs s))) \<and> [] \<notin> set (titles (book_of (fold name_step cs s)))"
    using assms unfolding titles_book [symmetric] by (induction cs arbitrary: s) (simp_all add: one)
  then show ?thesis by (simp add: titles_book)
qed

section \<open>Saving the rows\<close>

text \<open>Every edited name is new: no group has it, and no other row.\<close>

definition fresh_names :: "string list \<Rightarrow> (string \<times> string) list \<Rightarrow> bool" where
  "fresh_names gs names \<longleftrightarrow> distinct gs
     \<and> list_all (\<lambda>g. case map_of names g of None \<Rightarrow> True | Some t \<Rightarrow> t = g \<or> t \<notin> set gs) gs
     \<and> distinct (concat (map (\<lambda>g. case map_of names g of None \<Rightarrow> [] | Some t \<Rightarrow> [t]) gs) @ added (changes_of_names gs names))
     \<and> set (added (changes_of_names gs names)) \<inter> set gs = {}"

definition new_title :: "(string \<times> string) list \<Rightarrow> string \<Rightarrow> string" where
  "new_title names g = (case map_of names g of None \<Rightarrow> g | Some t \<Rightarrow> t)"

definition retitle :: "(string \<times> string) list \<Rightarrow> string set \<Rightarrow> book_group \<Rightarrow> book_group" where
  "retitle names done b = (if title b \<in> done then b\<lparr>title := new_title names (title b)\<rparr> else b)"

lemma on_first_map:
  assumes "\<And>b. b \<in> set bs \<Longrightarrow> P (f b) \<longleftrightarrow> title b = g" and "distinct (titles bs)"
  shows "on_first P h (map f bs) = map (\<lambda>b. if title b = g then h (f b) else f b) bs"
  using assms
proof (induction bs)
  case (Cons b bs)
  have "map (\<lambda>b. if title b = g then h (f b) else f b) bs = map f bs" if "title b = g"
    using Cons.prems(2) that by (auto simp: titles_def intro: rev_image_eqI)
  with Cons show ?case by (auto simp: titles_def)
qed simp

lemma rename_one:
  assumes "distinct (titles bs)" and "g \<in> set (titles bs)" and "g \<notin> done" and "map_of names g = Some t"
    and "\<And>h u. h \<in> set (titles bs) \<Longrightarrow> map_of names h = Some u \<Longrightarrow> u = h \<or> u \<notin> set (titles bs)"
  shows "book_rename g t (map (retitle names done) bs) = map (retitle names (insert g done)) bs"
proof -
  have "titled g (retitle names done b) \<longleftrightarrow> title b = g" if b: "b \<in> set bs" for b
  proof -
    have "title b \<in> set (titles bs)" using b by (simp add: titles_def)
    then show ?thesis
      using assms(2,3) assms(5) [of "title b"]
      by (auto simp: titled_def retitle_def new_title_def split: option.split)
  qed
  then have "book_rename g t (map (retitle names done) bs)
      = map (\<lambda>b. if title b = g then (retitle names done b)\<lparr>title := t\<rparr> else retitle names done b) bs"
    unfolding book_rename_def using on_first_map [OF _ assms(1), of "titled g" "retitle names done" g] by auto
  also have "\<dots> = map (retitle names (insert g done)) bs"
    using assms(3,4) by (auto simp: retitle_def new_title_def)
  finally show ?thesis .
qed

lemma retitle_same: "map_of names g = None \<or> map_of names g = Some g \<Longrightarrow> retitle names (insert g done) = retitle names done"
  by (auto simp: retitle_def new_title_def fun_eq_iff)

lemma rename_all:
  assumes "distinct (titles bs)" and "set gs \<subseteq> set (titles bs)" and "distinct gs" and "set gs \<inter> done = {}"
    and "\<And>h u. h \<in> set (titles bs) \<Longrightarrow> map_of names h = Some u \<Longrightarrow> u = h \<or> u \<notin> set (titles bs)"
  shows "fold (\<lambda>(old, new). book_rename old new) (modified (changes_of_names gs names)) (map (retitle names done) bs)
    = map (retitle names (done \<union> set gs)) bs"
  using assms(2-4)
proof (induction gs arbitrary: "done")
  case (Cons g gs)
  let ?rest = "\<lambda>x. fold (\<lambda>(old, new). book_rename old new) (modified (changes_of_names gs names)) x"
  have IH: "?rest (map (retitle names (insert g done)) bs) = map (retitle names (insert g done \<union> set gs)) bs"
    using Cons.prems by (intro Cons.IH) auto
  show ?case
  proof (cases "map_of names g")
    case (Some t)
    then show ?thesis
      using IH rename_one [OF assms(1) _ _ Some assms(5), of "done"] retitle_same [of names g "done"] Cons.prems
      by (cases "t = g") (simp_all add: changes_of_names_def Un_insert_left)
  qed (use IH retitle_same [of names g "done"] in \<open>simp add: changes_of_names_def\<close>)
qed (simp add: changes_of_names_def)

lemma drop_all:
  assumes "distinct (titles bs)"
  shows "fold book_drop ds bs = filter (\<lambda>b. title b \<notin> set ds) bs"
  using assms
proof (induction ds arbitrary: bs)
  case (Cons d ds)
  moreover have "distinct (titles (filter (\<lambda>b. title b \<noteq> d) bs))"
    using Cons.prems by (induction bs) (auto simp: titles_def)
  ultimately show ?case by (simp add: drop_distinct conj_commute)
qed simp

lemma book_save:
  "book_of (save_modified xs s) = fold (\<lambda>(old, new). book_rename old new) xs (book_of s)"
  "book_of (save_added gs s) = book_of s @ map (\<lambda>t. \<lparr>title = t, kind = 0, addresses = []\<rparr>) gs"
  "book_of (save_deleted gs s) = fold book_drop gs (book_of s)"
  unfolding save_modified_def save_added_def save_deleted_def
  by (induction xs arbitrary: s; fastforce simp: book_setGroupName)
     (induction gs arbitrary: s; simp add: book_new_def book_removeGroup)+

lemma filter_map_id: "(\<And>x. x \<in> set xs \<Longrightarrow> P (f x) \<longleftrightarrow> Q x) \<Longrightarrow> filter P (map f xs) = map f (filter Q xs)"
  by (induction xs) auto

lemma concat_options_distinct:
  assumes "distinct (concat (map (\<lambda>g. case m g of None \<Rightarrow> [] | Some t \<Rightarrow> [t]) gs))" and "h \<in> set gs" and "k \<in> set gs"
    and "m h = Some t" and "m k = Some t"
  shows "h = k"
  using assms by (induction gs) (auto split: option.splits)

lemma titles_sort: "mset (titles (sort_key k bs)) = mset (titles bs)"
  by (simp add: titles_def)

lemma fresh_own: "fresh_names gs names \<Longrightarrow> h \<in> set gs \<Longrightarrow> map_of names h = Some u \<Longrightarrow> u = h \<or> u \<notin> set gs"
  by (auto simp: fresh_names_def list_all_iff split: option.splits)

lemma fresh_titles_inj:
  assumes "fresh_names gs names"
  shows "inj_on (new_title names) (set gs)"
proof (rule inj_onI)
  fix h k assume hk: "h \<in> set gs" "k \<in> set gs" and t: "new_title names h = new_title names k"
  have conc: "distinct (concat (map (\<lambda>g. case map_of names g of None \<Rightarrow> [] | Some t \<Rightarrow> [t]) gs))"
    using assms by (simp add: fresh_names_def)
  consider (both) u where "map_of names h = Some u" "map_of names k = Some u" | (left) "map_of names h = Some k"
    | (right) "map_of names k = Some h" | (none) "h = k"
    using t by (auto simp: new_title_def split: option.splits)
  then show "h = k"
  proof cases
    case both
    then show ?thesis using concat_options_distinct [OF conc hk] by blast
  next
    case left
    then show ?thesis using fresh_own [OF assms hk(1)] hk(2) by blast
  next
    case right
    then show ?thesis using fresh_own [OF assms hk(2)] hk(1) by blast
  qed
qed

lemma fresh_titles_not_added:
  assumes "fresh_names gs names" and "h \<in> set gs"
  shows "new_title names h \<notin> set (added (changes_of_names gs names))"
proof (cases "map_of names h")
  case None
  then show ?thesis using assms by (auto simp: fresh_names_def new_title_def)
next
  case (Some u)
  let ?old = "concat (map (\<lambda>g. case map_of names g of None \<Rightarrow> [] | Some t \<Rightarrow> [t]) gs)"
  have "u \<in> set ?old" using Some assms(2) by force
  moreover have "set ?old \<inter> set (added (changes_of_names gs names)) = {}"
    using assms(1) unfolding fresh_names_def distinct_append by blast
  ultimately show ?thesis using Some by (auto simp: new_title_def)
qed

definition new_groups :: "string list \<Rightarrow> book_group list" where
  "new_groups ts = map (\<lambda>t. \<lparr>title = t, kind = 0, addresses = []\<rparr>) ts"

definition renamed :: "(string \<times> string) list \<Rightarrow> book_group \<Rightarrow> book_group" where
  "renamed names b = b\<lparr>title := new_title names (title b)\<rparr>"

lemma renames_rename_all:
  assumes "fresh_names gs names" and "set (titles bs) = set gs" and "distinct (titles bs)"
  shows "fold (\<lambda>(old, new). book_rename old new) (modified (changes_of_names gs names)) bs = map (renamed names) bs"
proof -
  have "map (retitle names {}) bs = bs" by (rule map_idI) (simp add: retitle_def)
  moreover have "map (retitle names (set gs)) bs = map (renamed names) bs"
    using assms(2) by (auto simp: retitle_def renamed_def titles_def)
  ultimately show ?thesis
    using rename_all [of bs gs "{}" names] assms fresh_own [OF assms(1)] by (simp add: fresh_names_def)
qed

lemma renamed_distinct:
  assumes "fresh_names gs names" and "set (titles bs) = set gs" and "distinct (titles bs)"
  shows "distinct (titles (map (renamed names) bs @ new_groups (added (changes_of_names gs names))))"
proof -
  have "titles (map (renamed names) bs @ new_groups (added (changes_of_names gs names)))
      = map (new_title names) (titles bs) @ added (changes_of_names gs names)"
    by (simp add: titles_def new_groups_def renamed_def comp_def)
  moreover have "distinct (added (changes_of_names gs names))" using assms(1) by (simp add: fresh_names_def)
  ultimately show ?thesis
    using assms fresh_titles_inj [OF assms(1)] fresh_titles_not_added [OF assms(1)] by (auto simp: distinct_map)
qed

lemma deletions_drop_the_unnamed:
  assumes "fresh_names gs names" and "set (titles bs) = set gs"
  shows "filter (\<lambda>b. title b \<notin> set (deleted (changes_of_names gs names)))
      (map (renamed names) bs @ new_groups (added (changes_of_names gs names)))
    = map (renamed names) (filter (\<lambda>b. map_of names (title b) \<noteq> None) bs)
      @ new_groups (added (changes_of_names gs names))"
proof -
  have del: "g \<in> set (deleted (changes_of_names gs names)) \<longleftrightarrow> g \<in> set gs \<and> map_of names g = None" for g
    by (auto simp: changes_of_names_def)
  have "title (renamed names b) \<notin> set (deleted (changes_of_names gs names)) \<longleftrightarrow> map_of names (title b) \<noteq> None"
    if "b \<in> set bs" for b
    using fresh_own [OF assms(1), of "title b"] assms(2) that
    by (auto simp: del new_title_def renamed_def titles_def split: option.split)
  then have "filter (\<lambda>b. title b \<notin> set (deleted (changes_of_names gs names))) (map (renamed names) bs)
      = map (renamed names) (filter (\<lambda>b. map_of names (title b) \<noteq> None) bs)"
    by (rule filter_map_id)
  moreover have "set (added (changes_of_names gs names)) \<inter> set gs = {}" using assms(1) by (simp add: fresh_names_def)
  ultimately show ?thesis by (auto simp: filter_id_conv new_groups_def del)
qed

text \<open>C16: What saving the group manager makes of valid rows, of which there is at least one, when
  the groups' names differ, no new name is the old name of another group and no two rows end
  with one name (\<open>fresh_names\<close>): first the
  old groups, in the order of their rows, with their new names and all their printers, but for
  those the rows do not know, which are removed; behind all of them the new groups, empty, in
  whatever place their rows stood.  Names that go round are not saved, as
  \<open>exchanged_names_change_nothing\<close> shows.\<close>

theorem saved_rows_become_groups:
  assumes "rows_valid d" and "gm_rows d \<noteq> []" and "fresh_names (map group (printerList s)) (gm_names d)"
  shows "book_of (snd (groups_save stringify (d, s)))
    = map (\<lambda>b. b\<lparr>title := new_title (gm_names d) (title b)\<rparr>)
        (filter (\<lambda>b. map_of (gm_names d) (title b) \<noteq> None)
          (sort_key (\<lambda>b. indexOf (map row_group (gm_rows d)) (title b)) (book_of s)))
      @ map (\<lambda>t. \<lparr>title = t, kind = 0, addresses = []\<rparr>) (added (changes_of_names (map group (printerList s)) (gm_names d)))"
proof -
  let ?names = "gm_names d" and ?gs = "titles (book_of s)"
  let ?bs = "sort_key (\<lambda>b. indexOf (map row_group (gm_rows d)) (title b)) (book_of s)"
  let ?c = "changes_of_names ?gs ?names"
  have fresh: "fresh_names ?gs ?names" using assms(3) by (simp add: titles_book)
  have gs: "set (titles ?bs) = set ?gs" "distinct (titles ?bs)"
    using fresh titles_sort [of _ "book_of s"] unfolding fresh_names_def
    by (metis mset_eq_setD mset_eq_imp_distinct_iff)+
  have "book_of (snd (groups_save stringify (d, s)))
      = fold book_drop (deleted ?c) (fold (\<lambda>(old, new). book_rename old new) (modified ?c) ?bs @ new_groups (added ?c))"
    using assms(1,2) by (simp add: groups_save_def Let_def book_save book_sortGroup titles_book [symmetric] new_groups_def)
  also have "\<dots> = map (renamed ?names) (filter (\<lambda>b. map_of ?names (title b) \<noteq> None) ?bs) @ new_groups (added ?c)"
    unfolding renames_rename_all [OF fresh gs]
    by (simp only: drop_all [OF renamed_distinct [OF fresh gs]] deletions_drop_the_unnamed [OF fresh gs(1)])
  finally show ?thesis by (simp add: renamed_def [abs_def] new_groups_def titles_book)
qed

section \<open>Names that go round\<close>

text \<open>Two groups cannot exchange their names.  The names are given one after the other, so
  the second looks for a name that by then stands for the first group too, and takes the
  new name back from it: the groups stay as they were, after the window was told twice.\<close>

theorem exchanged_names_change_nothing:
  assumes "map group (printerList s) = [a, b]" and "js_trim a \<noteq> []" and "js_trim b \<noteq> []" and "js_trim a \<noteq> js_trim b"
    and "map row_id (gm_rows d) = [a, b]" and "map row_group (gm_rows d) = [a, b]" and "gm_names d = [(a, b), (b, a)]"
  shows "printerList (snd (groups_save stringify (d, s))) = printerList s
    \<and> PostMessage (JObj (rename_message a b)) \<in> set (calls (snd (groups_save stringify (d, s))))
    \<and> PostMessage (JObj (rename_message b a)) \<in> set (calls (snd (groups_save stringify (d, s))))"
proof -
  obtain x y where l: "printerList s = [x, y]" "group x = a" "group y = b" using assms(1) by (auto simp: map_eq_Cons_conv)
  obtain r1 r2 where r: "gm_rows d = [r1, r2]" "row_id r1 = a" "row_id r2 = b" "row_group r1 = a" "row_group r2 = b"
    using assms(5,6) by (auto simp: map_eq_Cons_conv)
  have ab: "a \<noteq> b" using assms(4) by blast
  have valid: "rows_valid d" using assms(2-4) ab by (simp add: rows_valid_def r name_allowed_def assms(7))
  have c: "changes_of_names [a, b] (gm_names d) = \<lparr>modified = [(a, b), (b, a)], added = [], deleted = []\<rparr>"
    using ab by (simp add: changes_of_names_def assms(7))
  have sorted: "printerList (sortGroup [a, b] s) = [x, y]"
    using ab by (simp add: sortGroup_def l indexOf_def)
  have told: "written (rename_message t u) = JObj (rename_message t u)" for t u
    by (simp add: written_def rename_message_def)
  have same: "x\<lparr>group := a\<rparr> = x" using l by (cases x) simp
  show ?thesis
    using valid ab l sorted
    by (simp add: groups_save_def c assms(1) r save_modified_def save_added_def save_deleted_def setGroupName_def post_def
        emit_call_def Let_def told same)
qed

section \<open>The group whose printers were to be moved\<close>

lemma list_all_filter_id: "filter P xs = xs \<longleftrightarrow> list_all P xs"
  by (simp add: filter_id_conv list_all_iff)

text \<open>Removing a group with its printers to be moved to the first group loses them: the group
  is removed first, so there is nothing to move, and with two more groups of that kind the
  handler throws.\<close>

theorem moved_printers_are_lost:
  assumes "t \<noteq> []" and "distinct (map group (printerList s))"
  shows "book_of (snd (snd (remove_row t True (d, s)))) = filter (\<lambda>b. title b \<noteq> t) (book_of s)
    \<and> (fst (remove_row t True (d, s)) \<longleftrightarrow> length (filter (\<lambda>b. title b \<noteq> t \<and> kind b = 0) (book_of s)) < 2)"
proof -
  let ?s1 = "removeGroup t False s"
  let ?s2 = "post [(''command'', JStr ''remove_to_first''), (''name'', JStr t)] ?s1"
  have left: "book_of ?s2 = filter (\<lambda>b. title b \<noteq> t) (book_of s)"
    using assms(2) by (simp add: book_removeGroup drop_distinct titles_book)
  have gone: "List.find (\<lambda>g. group g = t) (printerList ?s2) = None"
  proof -
    have "t \<notin> set (titles (book_of ?s2))" by (unfold left) (auto simp: titles_def)
    then show ?thesis by (auto simp: titles_book find_None_iff simp del: book_post)
  qed
  have count: "length (filter (\<lambda>g. groupType g = 0) (printerList ?s2))
      = length (filter (\<lambda>b. title b \<noteq> t \<and> kind b = 0) (book_of s))"
  proof -
    have "length (filter (\<lambda>g. groupType g = 0) (printerList ?s2)) = length (filter (\<lambda>b. kind b = 0) (book_of ?s2))"
      by (simp add: book_of_def filter_map comp_def)
    then show ?thesis by (unfold left) (simp add: conj_commute)
  qed
  have move: "remove2FirstGroup t ?s2
      = (if length (filter (\<lambda>b. title b \<noteq> t \<and> kind b = 0) (book_of s)) < 2 then Some ?s2 else None)"
    using gone count by (simp add: remove2FirstGroup_def)
  show ?thesis
    using assms(1) left by (simp add: remove_row_def Let_def move)
qed

section \<open>A printer and its twin\<close>

text \<open>Renaming a printer of the network that is linked to its twin in the cloud names both,
  asks the cloud to rename the twin, and sends the new host name to the printer when its
  socket is open, and nothing else.\<close>

theorem rename_reaches_the_twin:
  assumes "getPrinter (ne_ip d) s = Some n" and "deviceType (printers s n) = 0" and "identity (printers s n) = Some i"
    and "i \<noteq> []" and "valid_hostname (ne_name d)" and "getPrinter i s = Some m"
  shows "\<exists>s'. name_edit_ok uuid (d, k, s) = Some (d\<lparr>ne_shown := False\<rparr>, EditDeviceName uuid (JStr i) (JStr (ne_name d)) k, s')
    \<and> name (printers s' n) = Some (ne_name d) \<and> name (printers s' m) = Some (ne_name d)
    \<and> calls s' = calls (send_if_connected n (set_params [(''hostname'', JStr (ne_name d))]) s)"
proof -
  let ?t = "ne_name d" and ?s1 = "send_if_connected n (set_params [(''hostname'', JStr (ne_name d))]) s"
  have t: "?t \<noteq> []" using assms(5) by (auto simp: valid_hostname_def)
  have s1: "setHostName (ne_ip d) (JStr ?t) s = Some ?s1"
    using assms(1) by (simp add: setHostName_def set_command_def command_def)
  have find: "getPrinter u ?s1 = getPrinter u s" for u by (simp add: getPrinter_find_ref find_ref_def)
  have twin: "setPrinterName i ?t ?s1 = upd m (\<lambda>p. p\<lparr>name := Some ?t\<rparr>) ?s1"
    using assms(6) find [of i] by (simp add: setPrinterName_def update_at_def getPrinter_find_ref)
  have "setPrinterName (ne_ip d) ?t (setPrinterName i ?t ?s1)
      = upd n (\<lambda>p. p\<lparr>name := Some ?t\<rparr>) (upd m (\<lambda>p. p\<lparr>name := Some ?t\<rparr>) ?s1)"
    using assms(1) find [of "ne_ip d"] set_name.finds_same [of "ne_ip d" i ?t ?s1]
    by (simp add: setPrinterName_def [of "ne_ip d"] update_at_def getPrinter_find_ref twin)
  then show ?thesis
    using assms t s1 by (simp add: name_edit_ok_def rename_printer_def)
qed

section \<open>Witnesses\<close>

definition demo_groups :: group_manager where
  "demo_groups = \<lparr>gm_shown = True, gm_rows = [\<lparr>row_id = ''h'', row_group = ''h''\<rparr>, \<lparr>row_id = ''g'', row_group = ''g''\<rparr>],
     gm_names = [(''g'', ''new''), (''h'', ''h''), (''x'', ''x'')], gm_drag = None, gm_tabs = []\<rparr>"

lemma demo_board_groups: "map group (printerList demo_board) = [''g'', ''h'']"
  by (simp add: demo_board_def)

theorem group_names_stay_distinct_witness:
  "distinct (map group (printerList (fold name_step [CardOk ''g'' ''k'', AddOk \<lparr>ga_shown = True, ga_name = ''k'', ga_note = Fine\<rparr>] demo_board)))"
  by (rule group_names_stay_distinct [THEN conjunct1]) (simp_all add: demo_board_groups)

theorem saved_rows_become_groups_witness:
  "map title (book_of (snd (groups_save (\<lambda>_. []) (demo_groups, demo_board)))) = [''h'', ''new'', ''x'']"
proof -
  have "rows_valid demo_groups"
    by (simp add: rows_valid_def demo_groups_def name_allowed_def js_trim_def blank_def)
  moreover have "fresh_names [''g'', ''h''] (gm_names demo_groups)"
    by (simp add: fresh_names_def demo_groups_def changes_of_names_def)
  moreover have "map title (sort_key (\<lambda>b. indexOf [''h'', ''g''] (title b)) (book_of demo_board)) = [''h'', ''g'']"
    by (simp add: book_of_def demo_board_def indexOf_def)
  ultimately show ?thesis
    using saved_rows_become_groups [of demo_groups demo_board "\<lambda>_. []"]
    by (auto simp: demo_board_groups) (simp add: demo_groups_def changes_of_names_def new_title_def comp_def)
qed

theorem exchanged_names_change_nothing_witness:
  "printerList (snd (groups_save (\<lambda>_. []) (demo_groups\<lparr>gm_rows := [\<lparr>row_id = ''g'', row_group = ''g''\<rparr>, \<lparr>row_id = ''h'', row_group = ''h''\<rparr>],
     gm_names := [(''g'', ''h''), (''h'', ''g'')]\<rparr>, demo_board))) = printerList demo_board"
  by (rule exchanged_names_change_nothing [THEN conjunct1, of _ "''g''" "''h''"])
     (simp_all add: demo_board_groups js_trim_def blank_def)

theorem moved_printers_are_lost_witness:
  "book_of (snd (snd (remove_row ''g'' True (demo_groups, demo_board)))) = filter (\<lambda>b. title b \<noteq> ''g'') (book_of demo_board)"
  using moved_printers_are_lost [of "''g''" demo_board demo_groups] by (simp add: demo_board_groups)

definition demo_twins :: dashboard where
  "demo_twins = upd 0 (\<lambda>p. p\<lparr>identity := Some ''b''\<rparr>) demo_board"

theorem rename_reaches_the_twin_witness:
  "\<exists>s'. name_edit_ok ''u'' (\<lparr>ne_shown = True, ne_ip = ''a'', ne_name = ''K1-7'', ne_note = Fine\<rparr>, initial_api, demo_twins)
      = Some (\<lparr>ne_shown = False, ne_ip = ''a'', ne_name = ''K1-7'', ne_note = Fine\<rparr>,
          EditDeviceName ''u'' (JStr ''b'') (JStr ''K1-7'') initial_api, s')
    \<and> name (printers s' 0) = Some ''K1-7'' \<and> name (printers s' 1) = Some ''K1-7''
    \<and> calls s' = calls (send_if_connected 0 (set_params [(''hostname'', JStr ''K1-7'')]) demo_twins)"
  using rename_reaches_the_twin [of "\<lparr>ne_shown = True, ne_ip = ''a'', ne_name = ''K1-7'', ne_note = Fine\<rparr>" demo_twins 0 "''b''" 1]
  by (simp add: demo_twins_def getPrinter_find_ref find_ref_def has_address_def valid_hostname_def host_char_def sublist_code)

end
