(* ===== verification/FileList.thy ===== *)
theory FileList
  imports OldPolling "HOL-Library.Monad_Syntax"
begin

text \<open>
  The files of an old printer (\<open>updateFileListToOldPrinter\<close> and
  \<open>parseFileTimeByOldPrinter\<close> of \<open>M4\<close>).  The window sends the lines of a directory listing;
  two regular expressions read a line and its date.  The classes that follow one another in
  them are disjoint, so every repetition takes the longest run there is; only the name at the
  end can give a blank back.  Reading a date with its year is date-fns' and an argument.
\<close>

section \<open>Runs of characters\<close>

definition span1 :: "(char \<Rightarrow> bool) \<Rightarrow> string \<Rightarrow> (string \<times> string) option" where
  "span1 P t = (if takeWhile P t = [] then None else Some (takeWhile P t, dropWhile P t))"

definition span_of :: "(char \<Rightarrow> bool) \<Rightarrow> nat list \<Rightarrow> string \<Rightarrow> (string \<times> string) option" where
  "span_of P ns t = (if length (takeWhile P t) \<in> set ns then Some (takeWhile P t, dropWhile P t) else None)"

definition one_of :: "(char \<Rightarrow> bool) \<Rightarrow> string \<Rightarrow> string option" where
  "one_of P t = (case t of [] \<Rightarrow> None | c # u \<Rightarrow> if P c then Some u else None)"

definition digit :: "char \<Rightarrow> bool" where
  "digit c = (char_digit c \<noteq> None)"

definition letter :: "char \<Rightarrow> bool" where
  "letter c = (let k = (of_char c :: nat) in 65 \<le> k \<and> k \<le> 90 \<or> 97 \<le> k \<and> k \<le> 122)"

definition word_char :: "char \<Rightarrow> bool" where
  "word_char c \<longleftrightarrow> letter c \<or> digit c \<or> c = CHR ''_''"

definition mode_char :: "char \<Rightarrow> bool" where
  "mode_char c \<longleftrightarrow> c \<in> set ''rwx-''"

definition newline_char :: "char \<Rightarrow> bool" where
  "newline_char c = ((of_char c :: nat) \<in> {10, 13})"

section \<open>A line of the listing\<close>

text \<open>A number and the blanks behind it.\<close>

definition number_field :: "string \<Rightarrow> (string \<times> string) option" where
  "number_field t = do { (n, t) \<leftarrow> span1 digit t; (_, t) \<leftarrow> span1 blank t; Some (n, t) }"

definition time_field :: "string \<Rightarrow> (string \<times> string) option" where
  "time_field t = do {
     (m, t) \<leftarrow> span_of word_char [3] t; (b, t) \<leftarrow> span1 blank t;
     (d, t) \<leftarrow> span_of digit [1, 2] t; (c, t) \<leftarrow> span1 blank t;
     (h, t) \<leftarrow> span_of digit [2] t; t \<leftarrow> one_of ((=) CHR '':'') t; (n, t) \<leftarrow> span_of digit [2] t;
     Some (m @ b @ d @ c @ h @ '':'' @ n, t) }"

definition name_field :: "string \<Rightarrow> string option" where
  "name_field t = do {
     (b, u) \<leftarrow> span1 blank t;
     let v = (if u = [] \<and> length b > 1 then [last b] else u);
     if v = [] \<or> list_ex newline_char v then None else Some v }"

definition file_line :: "string \<Rightarrow> (string \<times> string \<times> string) option" where
  "file_line t = do {
     t \<leftarrow> one_of (\<lambda>c. c = CHR ''d'' \<or> c = CHR ''-'') t; (_, t) \<leftarrow> span1 mode_char t; (_, t) \<leftarrow> span1 blank t;
     (_, t) \<leftarrow> number_field t; (_, t) \<leftarrow> number_field t; (_, t) \<leftarrow> number_field t; (n, t) \<leftarrow> number_field t;
     (d, t) \<leftarrow> time_field t; f \<leftarrow> name_field t;
     Some (n, d, f) }"

section \<open>The date of a file\<close>

definition dated :: "string \<Rightarrow> bool" where
  "dated t = (do {
     (_, t) \<leftarrow> span_of letter [3] t; t \<leftarrow> one_of blank t; (_, t) \<leftarrow> span_of digit [1, 2] t; t \<leftarrow> one_of blank t;
     (_, t) \<leftarrow> span_of digit [1, 2] t; t \<leftarrow> one_of ((=) CHR '':'') t; (_, t) \<leftarrow> span_of digit [2] t;
     Some t } = Some [])"

text \<open>Times in milliseconds; \<open>read_date\<close> reads month, day, time and year, with \<open>None\<close> for an
  invalid date.\<close>

record clock =
  now_ms :: int
  this_year :: int
  read_date :: "string \<Rightarrow> int option"

definition Ite :: "int \<Rightarrow> int" where
  "Ite t = (if t < 0 then - ((- t) div 1000) else t div 1000)"

definition parseFileTimeByOldPrinter :: "clock \<Rightarrow> string \<Rightarrow> int" where
  "parseFileTimeByOldPrinter k t =
     (let r = Ite (now_ms k); a = js_trim t in
      if t = [] \<or> \<not> dated a then r
      else case read_date k (a @ '' '' @ show_int (this_year k)) of
             None \<Rightarrow> r
           | Some o1 \<Rightarrow>
               if o1 \<le> now_ms k then Ite o1
               else case read_date k (a @ '' '' @ show_int (this_year k - 1)) of None \<Rightarrow> r | Some o2 \<Rightarrow> Ite o2)"

section \<open>The list of a printer\<close>

definition file_entry :: "clock \<Rightarrow> string \<Rightarrow> string" where
  "file_entry k t =
     (case file_line t of
        None \<Rightarrow> []
      | Some (n, d, f) \<Rightarrow>
          f @ '':'' @ show_nat (fst (read_digits 0 n)) @ '':'' @ show_int (parseFileTimeByOldPrinter k d) @ '';'')"

definition store_files :: "string \<Rightarrow> printer \<Rightarrow> printer" where
  "store_files l p =
     (let i = jget (JObj (data p)) ''retGcodeFileInfo3'';
          d1 = (if \<not> truthy i \<or> \<not> truthy (jget i ''fileInfo'')
                then AList.update ''retGcodeFileInfo3'' (JObj [(''fileInfo'', JStr [])]) (data p) else data p)
      in p\<lparr>data := (if jget (jget (JObj d1) ''retGcodeFileInfo3'') ''fileInfo'' = JStr l then d1
                    else AList.update ''retGcodeFileInfo3'' (JObj [(''fileInfo'', JStr l)]) d1)\<rparr>)"

definition updateFileListToOldPrinter :: "clock \<Rightarrow> string \<Rightarrow> string list \<Rightarrow> dashboard \<Rightarrow> dashboard" where
  "updateFileListToOldPrinter k r ls s =
     fold (\<lambda>n s. if address (printers s n) = r then upd n (store_files (concat (map (file_entry k) ls))) s else s) (all_refs s) s"

section \<open>What is read of a listing\<close>

text \<open>A file as \<open>ls -l\<close> writes it: the day is padded to two places with a blank.\<close>

record listed_file =
  lf_dir :: bool
  lf_mode :: string
  lf_links :: nat
  lf_user :: nat
  lf_group :: nat
  lf_size :: nat
  lf_month :: string
  lf_day :: nat
  lf_hour :: nat
  lf_minute :: nat
  lf_name :: string

definition two :: "nat \<Rightarrow> string" where
  "two n = [digit_char (n div 10), digit_char (n mod 10)]"

definition padded :: "nat \<Rightarrow> string" where
  "padded d = (if d < 10 then '' '' else []) @ show_nat d"

definition stamp :: "listed_file \<Rightarrow> string" where
  "stamp e = lf_month e @ '' '' @ padded (lf_day e) @ '' '' @ two (lf_hour e) @ '':'' @ two (lf_minute e)"

definition ls_line :: "listed_file \<Rightarrow> string" where
  "ls_line e = (if lf_dir e then CHR ''d'' else CHR ''-'') # lf_mode e @ '' '' @ show_nat (lf_links e) @ '' ''
     @ show_nat (lf_user e) @ '' '' @ show_nat (lf_group e) @ '' '' @ show_nat (lf_size e) @ '' '' @ stamp e @ '' '' @ lf_name e"

definition listed_ok :: "listed_file \<Rightarrow> bool" where
  "listed_ok e \<longleftrightarrow> lf_mode e \<noteq> [] \<and> list_all mode_char (lf_mode e) \<and> length (lf_month e) = 3 \<and> list_all letter (lf_month e)
     \<and> 1 \<le> lf_day e \<and> lf_day e \<le> 31 \<and> lf_hour e < 24 \<and> lf_minute e < 60
     \<and> lf_name e \<noteq> [] \<and> \<not> blank (hd (lf_name e)) \<and> \<not> list_ex newline_char (lf_name e)"

lemma span1_run: "list_all P xs \<Longrightarrow> xs \<noteq> [] \<Longrightarrow> \<not> P c \<Longrightarrow> span1 P (xs @ c # ys) = Some (xs, c # ys)"
  by (simp add: span1_def list_all_iff)

lemma span_of_run: "list_all P xs \<Longrightarrow> length xs \<in> set ns \<Longrightarrow> \<not> P c \<Longrightarrow> span_of P ns (xs @ c # ys) = Some (xs, c # ys)"
  by (simp add: span_of_def list_all_iff)

lemma span_of_all: "list_all P xs \<Longrightarrow> length xs \<in> set ns \<Longrightarrow> span_of P ns xs = Some (xs, [])"
  by (simp add: span_of_def list_all_iff takeWhile_eq_all_conv [THEN iffD2])

lemma digits_run: "list_all digit (show_nat n)"
  using all_digits_show_nat [of n] by (simp add: all_digits_def digit_def [abs_def])

lemma characters [simp]:
  "blank CHR '' ''" "\<not> digit CHR '' ''" "\<not> mode_char CHR '' ''" "\<not> letter CHR '' ''" "\<not> word_char CHR '' ''"
  "\<not> digit CHR '':''" "\<not> blank CHR '':''"
  by (simp_all add: blank_def digit_def mode_char_def letter_def word_char_def char_digit_def)

lemma digit_not_blank: "digit c \<Longrightarrow> \<not> blank c"
  by (auto simp: digit_def blank_def char_digit_def Let_def split: if_splits)

lemma blank_run: "\<not> blank c \<Longrightarrow> span1 blank (CHR '' '' # c # ys) = Some ('' '', c # ys)"
  "\<not> blank c \<Longrightarrow> span1 blank (CHR '' '' # CHR '' '' # c # ys) = Some (''  '', c # ys)"
  by (simp_all add: span1_def)

lemma show_nat_cons: "\<exists>c cs. show_nat n = c # cs \<and> \<not> blank c"
  using digits_run [of n] show_nat_nonempty [of n] digit_not_blank by (cases "show_nat n") auto

lemma number_field_show:
  assumes "\<not> blank c"
  shows "number_field (show_nat n @ '' '' @ c # ys) = Some (show_nat n, c # ys)"
  using assms by (simp add: number_field_def span1_run digits_run blank_run)

lemma number_field_next: "number_field (show_nat n @ '' '' @ show_nat m @ ys) = Some (show_nat n, show_nat m @ ys)"
proof -
  obtain c cs where "show_nat m = c # cs" "\<not> blank c" using show_nat_cons by blast
  then show ?thesis using number_field_show [of c n "cs @ ys"] by simp
qed

lemma digit_of_char [simp]: "d < 10 \<Longrightarrow> digit (digit_char d)"
  by (simp add: digit_def)

lemma two_digits: "n < 100 \<Longrightarrow> list_all digit (two n) \<and> length (two n) = 2 \<and> \<not> blank (hd (two n))"
  by (simp add: two_def digit_not_blank)

lemma two_cons: "n < 100 \<Longrightarrow> \<exists>c cs. two n = c # cs \<and> \<not> blank c"
  by (simp add: two_def digit_not_blank)

lemma day_length: "d \<le> 31 \<Longrightarrow> length (show_nat d) \<in> {1, 2}"
  by (subst show_nat.simps) (auto, subst show_nat.simps, simp)

lemma letters_are_words: "list_all letter m \<Longrightarrow> list_all word_char m"
  by (auto simp: list_all_iff word_char_def)

lemma blanks_before_day: "span1 blank ('' '' @ padded d @ ys) = Some ('' '' @ (if d < 10 then '' '' else []), show_nat d @ ys)"
  using show_nat_cons [of d] by (auto simp: padded_def blank_run)

lemma time_field_stamp:
  assumes "length m = 3" "list_all letter m" "d \<le> 31" "h < 100" "n < 100"
  shows "time_field (m @ '' '' @ padded d @ '' '' @ two h @ '':'' @ two n @ '' '' @ ys)
    = Some (m @ '' '' @ padded d @ '' '' @ two h @ '':'' @ two n, '' '' @ ys)"
proof -
  let ?rest = "'':'' @ two n @ '' '' @ ys"
  obtain c cs where h: "two h = c # cs" "\<not> blank c" using two_cons [OF assms(4)] by blast
  have 1: "span_of word_char [3] (m @ '' '' @ padded d @ '' '' @ two h @ ?rest) = Some (m, '' '' @ padded d @ '' '' @ two h @ ?rest)"
    using assms(1,2) by (simp add: span_of_run letters_are_words)
  have 2: "span_of digit [1, 2] (show_nat d @ '' '' @ two h @ ?rest) = Some (show_nat d, '' '' @ two h @ ?rest)"
    using day_length [OF assms(3)] by (auto simp: span_of_run digits_run)
  have 3: "span1 blank ('' '' @ two h @ ?rest) = Some ('' '', two h @ ?rest)"
    using h by (simp add: blank_run)
  have 4: "span_of digit [2] (two h @ ?rest) = Some (two h, ?rest)" "span_of digit [2] (two n @ '' '' @ ys) = Some (two n, '' '' @ ys)"
    using two_digits [OF assms(4)] two_digits [OF assms(5)] by (simp_all add: span_of_run)
  have 5: "one_of ((=) CHR '':'') ?rest = Some (two n @ '' '' @ ys)" by (simp add: one_of_def)
  show ?thesis
    unfolding time_field_def by (simp only: append_assoc 1 blanks_before_day 2 3 4 5 Option.bind.bind_lunit prod.case) (simp add: padded_def)
qed

lemma file_line_reads:
  assumes "listed_ok e"
  shows "file_line (ls_line e) = Some (show_nat (lf_size e), stamp e, lf_name e)"
proof -
  let ?r = "'' '' @ lf_name e"
  obtain c cs where mon: "lf_month e = c # cs" "letter c"
    using assms by (cases "lf_month e") (auto simp: listed_ok_def)
  then have c: "\<not> blank c" by (auto simp: letter_def blank_def Let_def)
  obtain v vs where nm: "lf_name e = v # vs" "\<not> blank v"
    using assms by (cases "lf_name e") (auto simp: listed_ok_def)
  obtain u us where ln: "show_nat (lf_links e) = u # us" "\<not> blank u" using show_nat_cons by blast
  have 1: "span1 mode_char (lf_mode e @ '' '' @ ys) = Some (lf_mode e, '' '' @ ys)" for ys
    using assms by (simp add: span1_run listed_ok_def)
  have 2: "span1 blank ('' '' @ show_nat (lf_links e) @ ys) = Some ('' '', show_nat (lf_links e) @ ys)" for ys
    using ln by (simp add: blank_run)
  have 3: "number_field (show_nat (lf_size e) @ '' '' @ stamp e @ ?r) = Some (show_nat (lf_size e), stamp e @ ?r)"
    using number_field_show [OF c, of "lf_size e"] mon by (simp add: stamp_def)
  have 4: "time_field (stamp e @ ?r) = Some (stamp e, ?r)"
    using time_field_stamp [of "lf_month e" "lf_day e" "lf_hour e" "lf_minute e"] assms by (simp add: stamp_def listed_ok_def)
  have 5: "name_field ?r = Some (lf_name e)"
    using nm assms by (simp add: name_field_def blank_run listed_ok_def)
  have 0: "one_of (\<lambda>c. c = CHR ''d'' \<or> c = CHR ''-'') (ls_line e) = Some (lf_mode e @ '' '' @ show_nat (lf_links e) @ '' ''
     @ show_nat (lf_user e) @ '' '' @ show_nat (lf_group e) @ '' '' @ show_nat (lf_size e) @ '' '' @ stamp e @ ?r)"
    by (simp add: ls_line_def one_of_def)
  show ?thesis
    unfolding file_line_def by (simp only: 0 1 2 number_field_next 3 4 5 Option.bind.bind_lunit prod.case)
qed

text \<open>Two blanks before the day are one too many for the date.\<close>

lemma trim_stamp:
  assumes "listed_ok e"
  shows "js_trim (stamp e) = stamp e"
proof -
  obtain c cs where c: "lf_month e = c # cs" "\<not> blank c"
    using assms by (cases "lf_month e") (auto simp: listed_ok_def letter_def blank_def Let_def)
  have "\<not> blank (last (two (lf_minute e)))" "two (lf_minute e) \<noteq> []"
    using assms by (simp_all add: two_def listed_ok_def digit_not_blank)
  then obtain d ds where d: "rev (stamp e) = d # ds" "\<not> blank d"
    by (cases "rev (two (lf_minute e))") (auto simp: stamp_def last_rev hd_rev [symmetric])
  have "dropWhile blank (stamp e) = stamp e" using c by (simp add: stamp_def)
  moreover have "dropWhile blank (rev (stamp e)) = rev (stamp e)" using d by simp
  ultimately show ?thesis by (simp add: js_trim_def)
qed

lemma dated_stamp:
  assumes "listed_ok e"
  shows "dated (stamp e) \<longleftrightarrow> 10 \<le> lf_day e"
proof -
  let ?h = "two (lf_hour e)" and ?n = "two (lf_minute e)" and ?d = "lf_day e"
  obtain c cs where h: "?h = c # cs" "\<not> blank c"
    using two_cons [of "lf_hour e"] assms by (auto simp: listed_ok_def)
  have 1: "span_of letter [3] (lf_month e @ '' '' @ ys) = Some (lf_month e, '' '' @ ys)" for ys
    using assms by (simp add: span_of_run listed_ok_def)
  have 2: "span_of digit [1, 2] (show_nat ?d @ '' '' @ ys) = Some (show_nat ?d, '' '' @ ys)" for ys
    using day_length [of ?d] assms by (auto simp: span_of_run digits_run listed_ok_def)
  have 3: "span_of digit [1, 2] (?h @ '':'' @ ys) = Some (?h, '':'' @ ys)" for ys
    using two_digits [of "lf_hour e"] assms by (simp add: span_of_run listed_ok_def)
  have 4: "span_of digit [2] ?n = Some (?n, [])"
    using two_digits [of "lf_minute e"] assms by (simp add: span_of_all listed_ok_def)
  have 5: "one_of blank ('' '' @ ys) = Some ys" "one_of ((=) CHR '':'') ('':'' @ ys) = Some ys" for ys
    by (simp_all add: one_of_def)
  have 6: "span_of digit [1, 2] ('' '' @ ys) = None" for ys by (simp add: span_of_def)
  show ?thesis
  proof (cases "10 \<le> ?d")
    case True
    then have "padded ?d = show_nat ?d" by (simp add: padded_def)
    then show ?thesis
      using True unfolding dated_def stamp_def
      by (simp only: 1 2 3 4 5 append_assoc Option.bind.bind_lunit prod.case) simp
  next
    case False
    then have "padded ?d = '' '' @ show_nat ?d" by (simp add: padded_def)
    then show ?thesis
      using False unfolding dated_def stamp_def
      by (simp only: 1 5 6 append_assoc Option.bind.bind_lunit Option.bind.bind_lzero prod.case) simp
  qed
qed

text \<open>Every line of a listing is read back with its name and size, and with its date when the
  day has two digits; the files of the first nine days of a month, whose day \<open>ls\<close> pads with a
  blank, all get the current time.\<close>

theorem early_days_get_the_current_time:
  assumes "listed_ok e" and "read_date k (stamp e @ '' '' @ show_int (this_year k)) = Some t" and "t \<le> now_ms k"
  shows "file_entry k (ls_line e) = lf_name e @ '':'' @ show_nat (lf_size e) @ '':''
    @ show_int (Ite (if lf_day e < 10 then now_ms k else t)) @ '';''"
proof -
  have "stamp e \<noteq> []" by (simp add: stamp_def)
  then show ?thesis
    using assms by (simp add: file_entry_def file_line_reads read_digits_show_nat_exact parseFileTimeByOldPrinter_def
        trim_stamp dated_stamp Let_def)
qed

theorem early_days_get_the_current_time_witness:
  "file_entry \<lparr>now_ms = 1700000000000, this_year = 2023, read_date = (\<lambda>_. Some 1699000000000)\<rparr>
     ''-rw-r--r-- 1 0 0 1234 Nov  3 08:26 a.gcode'' = ''a.gcode:1234:1700000000;''"
proof -
  let ?e = "\<lparr>lf_dir = False, lf_mode = ''rw-r--r--'', lf_links = 1, lf_user = 0, lf_group = 0, lf_size = 1234,
    lf_month = ''Nov'', lf_day = 3, lf_hour = 8, lf_minute = 26, lf_name = ''a.gcode''\<rparr>"
  let ?k = "\<lparr>now_ms = 1700000000000, this_year = 2023, read_date = (\<lambda>_. Some 1699000000000)\<rparr>"
  have "listed_ok ?e" by (simp add: listed_ok_def mode_char_def letter_def blank_def newline_char_def)
  moreover have "ls_line ?e = ''-rw-r--r-- 1 0 0 1234 Nov  3 08:26 a.gcode''"
    by (simp add: ls_line_def stamp_def padded_def two_def digit_char_def show_nat.simps char_of_def bit_0)
  moreover have "show_nat 1234 = ''1234''" "show_int (Ite 1700000000000) = ''1700000000''"
    by (simp_all add: show_int_def Ite_def digit_char_def show_nat.simps char_of_def bit_0)
  ultimately show ?thesis using early_days_get_the_current_time [of ?e ?k 1699000000000] by simp
qed

end
