(* ===== verification/AppShell.thy ===== *)
theory AppShell
  imports AddDevice CloudApi DeviceServer
begin

text \<open>
  The application itself (component \<open>App\<close> of \<open>CeX73yR3.js\<close>): the page of one printer, the
  intervals of the heartbeat and of the cloud, the messages of the window, the loading of the
  account's printers and their polling.  A callback is an operation of its own with the answer
  as its argument; what the callback remembers of its request is an argument too.
  \<open>fresh k\<close> is the identifier of the request after \<open>k\<close> others.  Deletion from a list that is
  being walked through is written out by index, as the iterator does it.
\<close>

section \<open>State\<close>

record shell =
  loaded :: bool                 \<comment> \<open>\<open>ce\<close>\<close>
  detail_visable :: bool         \<comment> \<open>\<open>f\<close>\<close>
  detail_address :: string
  tabs :: "(string \<times> string \<times> string) list"
  pending_polls :: nat           \<comment> \<open>timeouts of a tenth of a second that will poll the cloud\<close>
  next_timer :: nat
  beats :: "nat list"            \<comment> \<open>the heartbeat intervals that run\<close>
  beat :: "nat option"           \<comment> \<open>\<open>z\<close>\<close>
  polls :: "nat list"            \<comment> \<open>the intervals of the cloud that run\<close>
  poll :: "nat option"           \<comment> \<open>\<open>D\<close>\<close>
  last_poll :: "int option"      \<comment> \<open>\<open>R\<close>, in milliseconds\<close>
  sys_user :: string
  sys_region :: string
  sys_token :: string
  token_checks :: "(string \<times> string \<times> string) list"  \<comment> \<open>the requests of \<open>checkTokenIsValid\<close>\<close>
  api :: cloud_api
  session :: sys
  board :: dashboard

definition on_shell_board :: "(dashboard \<Rightarrow> dashboard) \<Rightarrow> shell \<Rightarrow> shell" where
  "on_shell_board f s = s\<lparr>board := f (board s)\<rparr>"

definition on_session :: "(sys \<Rightarrow> sys) \<Rightarrow> shell \<Rightarrow> shell" where
  "on_session f s = s\<lparr>session := f (session s)\<rparr>"

definition ask :: "(nat \<Rightarrow> string) \<Rightarrow> (string \<Rightarrow> cloud_api \<Rightarrow> cloud_api) \<Rightarrow> shell \<Rightarrow> shell" where
  "ask fresh f s = s\<lparr>api := f (fresh (length (requests (api s)))) (api s)\<rparr>"

text \<open>A method that throws leaves what it has done so far, which for these is nothing.\<close>

definition or_same :: "('a \<Rightarrow> 'a option) \<Rightarrow> 'a \<Rightarrow> 'a" where
  "or_same f x = (case f x of None \<Rightarrow> x | Some y \<Rightarrow> y)"

section \<open>The page of a printer\<close>

definition viewDeviceList :: "shell \<Rightarrow> shell" where
  "viewDeviceList s = s\<lparr>detail_visable := False, detail_address := []\<rparr>"

definition close_page_of :: "string \<Rightarrow> shell \<Rightarrow> shell" where
  "close_page_of le s = (if detail_address s = le then viewDeviceList s else s)"

text \<open>The address a printer is shown under: a cloud printer with a twin in the network is shown
  as the twin.  \<open>None\<close> is the \<open>TypeError\<close> of a printer that is not listed.\<close>

definition shown_as :: "string \<Rightarrow> dashboard \<Rightarrow> string option" where
  "shown_as le s =
     (case getPrinter le s of
        None \<Rightarrow> None
      | Some n \<Rightarrow>
          (case (deviceType (printers s n) = 1, identity (printers s n)) of
             (True, Some i) \<Rightarrow> map_option (\<lambda>m. address (printers s m)) (getPrinter_in i False 0 s)
           | _ \<Rightarrow> Some le))"

definition show_page :: "string \<Rightarrow> shell \<Rightarrow> shell" where
  "show_page le s =
     (let s1 = viewDeviceList s in
      if le = ''deviceList'' then s1\<lparr>pending_polls := Suc (pending_polls s1)\<rparr>
      else (case shown_as le (board s) of
              None \<Rightarrow> s1
            | Some a \<Rightarrow> s1\<lparr>detail_visable := True, detail_address := a, pending_polls := Suc (pending_polls s1)\<rparr>))"

definition viewDetialEvent :: "string \<Rightarrow> string \<Rightarrow> shell \<Rightarrow> shell option" where
  "viewDetialEvent le ye s = map_option (\<lambda>a. s\<lparr>tabs := tabs s @ [(le, a, ye)]\<rparr>) (shown_as ye (board s))"

section \<open>The messages of the window\<close>

definition post_command :: "string \<Rightarrow> shell \<Rightarrow> shell" where
  "post_command c = on_shell_board (post [(''command'', JStr c)])"

definition start_beats :: "shell \<Rightarrow> shell" where
  "start_beats s = s\<lparr>beats := next_timer s # beats s, beat := Some (next_timer s), next_timer := Suc (next_timer s)\<rparr>"

text \<open>\<open>saved\<close> is what could be read of the message; the clock is the last argument.\<close>

definition on_init_device :: "(string option \<times> saved_group list) option \<Rightarrow> int \<Rightarrow> shell \<Rightarrow> shell" where
  "on_init_device saved now s =
     (let s1 = s\<lparr>loaded := True\<rparr>;
          s2 = (case saved of None \<Rightarrow> s1 | Some (m, gs) \<Rightarrow> on_shell_board (init now m gs) s1)
      in start_beats (post_command ''get_user'' s2))"

definition correct_device :: "string \<Rightarrow> string \<Rightarrow> dashboard \<Rightarrow> dashboard" where
  "correct_device ip m s =
     (case getPrinter_in m True 0 s of
        None \<Rightarrow> s
      | Some n \<Rightarrow>
          let s1 = drop_socket n (upd n (\<lambda>p. p\<lparr>address := ip\<rparr>) s) in emit_call (update_device (printers s1 n)) s1)"

definition stop_heartbeat_cmd :: "shell \<Rightarrow> shell" where
  "stop_heartbeat_cmd s = (case beat s of None \<Rightarrow> s | Some t \<Rightarrow> s\<lparr>beats := removeAll t (beats s)\<rparr>)"

text \<open>The other printers that are offline are reconnected too; a printer that is not listed
  ends the handler with a \<open>TypeError\<close> after the interval was started.\<close>

definition wake_printers :: "string \<Rightarrow> int \<Rightarrow> dashboard \<Rightarrow> dashboard" where
  "wake_printers t now s =
     (case getPrinter t s of
        None \<Rightarrow> s
      | Some n \<Rightarrow>
          let s1 = reconnectWebSocket n s;
              s2 = fold (\<lambda>m s. if \<not> online (printers s m) \<and> address (printers s n) \<noteq> address (printers s m)
                               then reconnectWebSocket m s else s) (all_refs s1) s1;
              s3 = upd n (\<lambda>p. p\<lparr>timeStamp := now, online := oldPrinter p \<or> type p = 4 \<or> online p\<rparr>) s2
          in heartbeat now s3)"

definition start_heartbeat_cmd :: "string \<Rightarrow> int \<Rightarrow> shell \<Rightarrow> shell" where
  "start_heartbeat_cmd t now s = on_shell_board (wake_printers t now) (start_beats s)"

definition get_machine_list :: "preset list \<Rightarrow> shell \<Rightarrow> shell" where
  "get_machine_list ps s = post_command ''init_device'' (on_shell_board (setPrinterPreset ps) s)"

text \<open>The answer about a model; \<open>machine_ptc_exist\<close>, which nothing here reads, is left out.\<close>

definition req_device_move_direction :: "json \<Rightarrow> dashboard \<Rightarrow> dashboard" where
  "req_device_move_direction le s =
     (case getPrinter_in (the_text (jget le ''address'')) False 0 s of
        None \<Rightarrow> s
      | Some n \<Rightarrow> upd n (\<lambda>p. p\<lparr>machinePlatformMotionEnable := jget le ''direction'',
          machine_LED_light_exist := jget le ''machine_LED_light_exist'', auxiliary_fan := jget le ''auxiliary_fan'',
          support_air_filtration := jget le ''support_air_filtration''\<rparr>) s)"

text \<open>What the window asks for when the page is there, and what is given up when it goes.\<close>

definition mounted :: "shell \<Rightarrow> shell" where
  "mounted s = post_command ''get_machine_list'' (post_command ''is_dark_theme'' (post_command ''get_lang'' s))"

definition unmounted :: "shell \<Rightarrow> shell" where
  "unmounted s =
     (let s1 = stop_heartbeat_cmd (on_shell_board release s)
      in case poll s1 of None \<Rightarrow> s1 | Some t \<Rightarrow> s1\<lparr>polls := removeAll t (polls s1)\<rparr>)"

section \<open>The printers of the account\<close>

definition loadDevices :: "(nat \<Rightarrow> string) \<Rightarrow> shell \<Rightarrow> shell" where
  "loadDevices fresh s =
     (if \<not> IsLogin (api s) then s
      else ask fresh GetDeviceCount (on_shell_board (\<lambda>b. if isGroupExist [] b then b else addGroup [] 1 b) s))"

definition count_answer :: "(nat \<Rightarrow> string) \<Rightarrow> json \<Rightarrow> shell \<Rightarrow> shell" where
  "count_answer fresh ye s =
     ask fresh (\<lambda>uuid. GetDevices uuid (JNum 1) (jget ye ''result''))
       (if jget ye ''code'' = JNum 4 then on_session (\<lambda>y. y\<lparr>isTokenValid := False\<rparr>) s else s)"

text \<open>The listed devices of an answer, and the printers that are not among them.  The walk over
  a group goes on to the next index after a deletion.\<close>

definition cloud_devices :: "json \<Rightarrow> json list" where
  "cloud_devices Ce = elements (jget (jget Ce ''result'') ''list'')"

definition named_in :: "json list \<Rightarrow> string \<Rightarrow> bool" where
  "named_in xs a \<longleftrightarrow> list_ex (\<lambda>x. jget x ''deviceName'' = JStr a) xs"

definition drop_absent_at :: "json list \<Rightarrow> nat \<Rightarrow> nat \<Rightarrow> dashboard \<Rightarrow> dashboard" where
  "drop_absent_at xs gi k s =
     (let ms = members (printerList s ! gi) in
      if k < length ms \<and> \<not> named_in xs (address (printers s (ms ! k)))
      then snd (removePrinter (address (printers s (ms ! k))) False s) else s)"

definition drop_absent_in :: "json list \<Rightarrow> nat \<Rightarrow> dashboard \<Rightarrow> dashboard" where
  "drop_absent_in xs gi s =
     (if groupType (printerList s ! gi) = 1
      then fold (drop_absent_at xs gi) [0..<length (members (printerList s ! gi))] s else s)"

definition drop_absent :: "json list \<Rightarrow> dashboard \<Rightarrow> dashboard" where
  "drop_absent xs s = fold (drop_absent_in xs) [0..<length (printerList s)] s"

text \<open>A device of the account as a printer.  It has no \<open>type\<close>; -1 stands for the undefined
  value here.  A later report of the remaining time or progress overrides an earlier one.\<close>

definition cloud_model :: "string \<Rightarrow> string" where
  "cloud_model t = (if t = ''CR-K1 Max'' then ''K1 Max'' else if t = ''CR-K1'' then ''K1'' else t)"

definition telemetry :: "string \<Rightarrow> json \<Rightarrow> json \<Rightarrow> json" where
  "telemetry k x v = fold (\<lambda>u v. if jget u ''key'' = JStr k then jget u ''value'' else v) (elements (jget x ''iotTelemetry'')) v"

definition time_left :: "json \<Rightarrow> json" where
  "time_left x =
     fold (\<lambda>u v. if jget u ''key'' = JStr ''printLeftTime'' then JStr (seconds (jget u ''value'')) else v)
       (elements (jget x ''iotTelemetry''))
       (let i = jget x ''printInfo'' in if truthy i then JStr (seconds (jget i ''printLeftTime'')) else JStr [])"

definition cloud_listed :: "json \<Rightarrow> new_device" where
  "cloud_listed x = (let i = jget x ''printInfo'' in
     \<lparr>d_model = cloud_model (the_text (jget x ''model'')), d_mac = the_text (jget x ''macAddress''),
      d_name = text_option (jget x ''aliasName''), d_address = the_text (jget x ''deviceName''), d_type = - 1,
      d_online = \<not> eq_num (jget x ''deviceState'') (- 1), d_socket = None, d_deviceType = Some 1,
      d_oldPrinter = (jget x ''type'' = JNum 1),
      d_props = [(''tbId'', jget x ''tbId''), (''deviceState'', jget x ''idleState''),
        (''IsMultiColorDevice'', js_or (jget (jget x ''deviceType'') ''multicolor'') (JBool False)),
        (''printFileName'', js_or (jget i ''modelName'') (JStr [])),
        (''printProgress'', telemetry ''printProgress'' x (js_or (jget i ''printProgress'') (JNum 0))),
        (''printLeftTime'', time_left x),
        (''printJobTime'', if truthy i then JStr (seconds (jget i ''printJobTime'')) else JStr []),
        (''previewimg'', js_or (jget i ''gcodeThumbnail'') (JStr []))]\<rparr>)"

definition from_cloud :: "json \<Rightarrow> bool" where
  "from_cloud x \<longleftrightarrow> jget x ''type'' = JNum 9 \<or> jget x ''type'' = JNum 1"

definition has_twin :: "dashboard \<Rightarrow> printer \<Rightarrow> bool" where
  "has_twin b p = (case identity p of None \<Rightarrow> False | Some i \<Rightarrow> getPrinter i b \<noteq> None)"

text \<open>\<open>!ue.identity && getPrinter(ue.identity) == null\<close>\<close>

definition unlinked :: "dashboard \<Rightarrow> printer \<Rightarrow> bool" where
  "unlinked b p = (case identity p of None \<Rightarrow> True | Some i \<Rightarrow> i = [] \<and> getPrinter i b = None)"

definition list_new :: "(nat \<Rightarrow> string) \<Rightarrow> json \<Rightarrow> shell \<Rightarrow> shell" where
  "list_new fresh x s =
     (let d = cloud_listed x; s1 = on_shell_board (addPrinter d [] True) s in
      case getPrinter (d_address d) (board s1) of
        None \<Rightarrow> s1
      | Some n \<Rightarrow> let p = printers (board s1) n in
          if truthy (IsMultiColorDevice p) \<and> unlinked (board s1) p
          then ask fresh (\<lambda>uuid. GetDeviceCFS uuid (js_text (tbId p))) s1 else s1)"

definition list_device :: "(nat \<Rightarrow> string) \<Rightarrow> json \<Rightarrow> shell \<Rightarrow> shell" where
  "list_device fresh x s =
     (if \<not> from_cloud x then s
      else
        let a = d_address (cloud_listed x);
            s1 = on_shell_board (\<lambda>b. if isGroupExist [] b then b else addGroup [] 1 b) s;
            s2 = (if isPrinterExist a (board s1) then s1 else list_new fresh x s1)
        in case getPrinter a (board s2) of
             None \<Rightarrow> s2
           | Some n \<Rightarrow> let p = printers (board s2) n in
               if identity p = None then ask fresh (\<lambda>uuid. GetDeviceAttributes uuid (js_text (tbId p))) s2 else s2)"

definition total_count :: "json \<Rightarrow> rat option" where
  "total_count Ce = (case jget (jget Ce ''result'') ''totalCount'' of JNum q \<Rightarrow> Some q | _ \<Rightarrow> None)"

definition devices_answer :: "(nat \<Rightarrow> string) \<Rightarrow> json \<Rightarrow> shell \<Rightarrow> shell" where
  "devices_answer fresh Ce s =
     (let s1 = (if total_count Ce = Some 0 then on_shell_board (removeGroup [] True) s else s) in
      case total_count Ce of
        None \<Rightarrow> s1
      | Some q \<Rightarrow>
          if q > 0 then fold (list_device fresh) (cloud_devices Ce) (on_shell_board (drop_absent (cloud_devices Ce)) s1) else s1)"

text \<open>The attributes of a device name its address in the network, the last one counts: the
  printer there is looked for under it.  \<open>n\<close> is the printer, \<open>m\<close> and \<open>old\<close> come from the list.  The
  request remembers what the callback of \<open>addOldPrinterFormIp\<close> or \<open>addPrinterFormIp\<close> gets.\<close>

record ip_request =
  ip_old :: bool
  ip_address :: string
  ip_mac :: string
  ip_name :: "string option"
  ip_group :: string

definition netIP :: "json \<Rightarrow> json" where
  "netIP v = fold (\<lambda>u j. if jget u ''key'' = JStr ''netIP'' then jget u ''value'' else j) (elements (jget v ''result'')) JNull"

definition attributes_answer :: "(string \<Rightarrow> string) \<Rightarrow> nat \<Rightarrow> bool \<Rightarrow> string \<Rightarrow> json \<Rightarrow> dashboard \<Rightarrow> ip_request option \<times> dashboard" where
  "attributes_answer tr n old m v s =
     (if nullish (jget v ''result'') \<or> nullish (netIP v) then (None, s)
      else
        let ip = js_text (netIP v);
            (x, s1) = (case getLocalGroupNameByMac m s of
               Some g \<Rightarrow> (g, s)
             | None \<Rightarrow> let g = tr ''New Group1''
                 in (g, addGroup g 0 (post [(''command'', JStr ''add_group''), (''group'', JStr g)] s)));
            q = \<lparr>ip_old = old, ip_address = ip, ip_mac = mac (printers s n), ip_name = name (printers s n), ip_group = x\<rparr>
        in (if isPrinterExist ip s1 then None else Some q,
            if old then addOldPrinterFormIp ip s1 else addPrinterFormIp ip s1))"

text \<open>The answer of the printer itself.\<close>

definition network_answer :: "ip_request \<Rightarrow> printer_info + json \<Rightarrow> dashboard \<Rightarrow> dashboard" where
  "network_answer q a s =
     (case a of
        Inl i \<Rightarrow> if ip_old q then s else addPrinterFormIp_then (ip_address q) (ip_mac q) (ip_name q) (ip_group q) i s
      | Inr v \<Rightarrow> if ip_old q then addOldPrinterFormIp_then (ip_address q) (ip_mac q) (ip_name q) (ip_group q) v s else s)"

section \<open>Polling the cloud\<close>

definition poll_member :: "(nat \<Rightarrow> string) \<Rightarrow> nat \<Rightarrow> shell \<Rightarrow> shell" where
  "poll_member fresh n s =
     (let s1 = on_shell_board (upd n (\<lambda>p. p\<lparr>online := isTokenValid (session s)\<rparr>)) s; p = printers (board s1) n in
      if truthy (IsMultiColorDevice p) \<and> \<not> has_twin (board s1) p
      then ask fresh (\<lambda>uuid. GetDeviceCFS uuid (js_text (tbId p))) s1 else s1)"

text \<open>The \<open>tbId\<close> the printer of the page had in its last data.\<close>

definition page_device :: "nat list \<Rightarrow> shell \<Rightarrow> json" where
  "page_device ms s =
     fold (\<lambda>n v. if address (printers (board s) n) = detail_address s
                 then jget (JObj (data (printers (board s) n))) ''tbId'' else v) ms JNull"

definition poll_page :: "(nat \<Rightarrow> string) \<Rightarrow> json \<Rightarrow> shell \<Rightarrow> shell" where
  "poll_page fresh t s =
     (case getPrinter (detail_address s) (board s) of
        None \<Rightarrow> s
      | Some n \<Rightarrow>
          let p = printers (board s) n in
          if \<not> online p \<or> has_twin (board s) p then s
          else
            let s1 = ask fresh (\<lambda>uuid. GetDeviceDetial uuid (js_text t)) s;
                s2 = ask fresh (\<lambda>uuid. GetDeviceAttributes uuid (js_text t)) s1;
                s3 = (if material p = JUndefined \<or> material p = JArr []
                      then ask fresh (\<lambda>uuid. GetFilamentNameList uuid (model p)) s2 else s2)
            in if truthy (IsMultiColorDevice p)
               then ask fresh (\<lambda>uuid. GetDeviceCFS uuid (js_text t))
                      (ask fresh (\<lambda>uuid. GetBoxsConfig_cloud uuid (js_text (tbId p))) s3)
               else s3)"

definition too_early :: "bool \<Rightarrow> int \<Rightarrow> shell \<Rightarrow> bool" where
  "too_early forced now s \<longleftrightarrow>
     \<not> forced \<and> (case last_poll s of None \<Rightarrow> False | Some r \<Rightarrow> rat_of_int (now - r) / 1000 < 15 * (8 / 10))"

text \<open>Only the first group of the account is polled.\<close>

definition poll_cloud :: "(nat \<Rightarrow> string) \<Rightarrow> bool \<Rightarrow> int \<Rightarrow> shell \<Rightarrow> shell" where
  "poll_cloud fresh forced now s =
     (if \<not> IsLogin (api s) \<or> too_early forced now s then s
      else case List.find (\<lambda>g. groupType g = 1) (printerList (board s)) of
             None \<Rightarrow> s
           | Some g \<Rightarrow>
               let t = page_device (members g) s; s1 = fold (poll_member fresh) (members g) s;
                   names = JArr (map (\<lambda>n. JStr (address (printers (board s1) n))) (members g));
                   s2 = (if members g = [] then s1 else ask fresh (\<lambda>uuid. PollState uuid names) s1)
               in if nullish t then s2 else poll_page fresh t s2)"

definition poll_answer :: "page \<Rightarrow> int \<Rightarrow> json \<Rightarrow> shell \<Rightarrow> shell" where
  "poll_answer pg now he s =
     (if jget he ''code'' = JNum 4 then on_session (\<lambda>y. y\<lparr>isTokenValid := False\<rparr>) s
      else if jget he ''code'' = JNum 0 \<and> isOffline (session s)
      then on_session (\<lambda>y. y\<lparr>isTokenValid := True, isOffline := False, reloads := Suc (reloads y)\<rparr>) s
      else on_shell_board (setDataFromCxCloud pg (jget he ''result'')) (s\<lparr>last_poll := Some now\<rparr>))"

definition poll_failed :: "shell \<Rightarrow> shell" where
  "poll_failed = on_session (\<lambda>y. y\<lparr>isOffline := True\<rparr>)"

text \<open>The answers for the page go to the printer the page shows when they come.\<close>

definition page_series :: "json \<Rightarrow> shell \<Rightarrow> shell" where
  "page_series me s =
     (if truthy me then on_shell_board (\<lambda>b. snd (setTimeseriesDataFromCxCloud (detail_address s) (jget me ''result'') b)) s else s)"

definition page_attributes :: "json \<Rightarrow> shell \<Rightarrow> shell" where
  "page_attributes me s =
     (if nullish me then s else on_shell_board (setAttrDataFromCxCloud (detail_address s) (jget me ''result'')) s)"

definition page_filaments :: "json \<Rightarrow> shell \<Rightarrow> shell" where
  "page_filaments me s =
     (if nullish me then s else on_shell_board (or_same (setFilamentBrandFromCxCloud (detail_address s) (jget me ''result''))) s)"

definition page_boxes :: "json \<Rightarrow> shell \<Rightarrow> shell" where
  "page_boxes me s =
     (if nullish me then s else on_shell_board (or_same (setCFSBoxsConfigFromCxCloud (detail_address s) (jget me ''result''))) s)"

text \<open>Every spool of the boxes is asked for; \<open>t\<close> is the device of the request.\<close>

definition page_cfs :: "(nat \<Rightarrow> string) \<Rightarrow> (json \<Rightarrow> string) \<Rightarrow> string \<Rightarrow> json \<Rightarrow> shell \<Rightarrow> shell" where
  "page_cfs fresh stringify t me s =
     (case setCFSFromCxCloud stringify (detail_address s) (jget me ''result'') (board s) of
        None \<Rightarrow> s
      | Some b \<Rightarrow>
          let s1 = s\<lparr>board := b\<rparr> in
          case getPrinter (detail_address s) b of
            None \<Rightarrow> s1
          | Some n \<Rightarrow>
              fold (\<lambda>m. ask fresh (\<lambda>uuid. GetDeviceFilamentInfo uuid t (jget m ''cId'')))
                (concat (map (\<lambda>g. elements (jget g ''materials'')) (materialBoxs (boxsInfo (printers b n))))) s1)"

definition spool_answer :: "nat \<Rightarrow> json \<Rightarrow> dashboard \<Rightarrow> dashboard" where
  "spool_answer n v s =
     (if nullish v then s else or_same (setCFSInfoFromCxCloud (address (printers s n)) (jget v ''result'')) s)"

definition cfs_answer :: "(json \<Rightarrow> string) \<Rightarrow> nat \<Rightarrow> json \<Rightarrow> dashboard \<Rightarrow> dashboard" where
  "cfs_answer stringify n v s =
     (if nullish v then s else or_same (setCFSFromCxCloud stringify (address (printers s n)) (jget v ''result'')) s)"

section \<open>Who is logged in\<close>

record user_message =
  um_userId :: string
  um_token :: string
  um_region :: string
  um_pid :: string

definition checkTokenIsValid :: "shell \<Rightarrow> shell" where
  "checkTokenIsValid s = s\<lparr>token_checks := token_checks s @
     [((if sys_region s = ''China'' then ''https://api.crealitycloud.cn/'' else ''https://api.crealitycloud.com/'')
         @ ''/api/rest/print/cluster/devices/getDeviceCount'', sys_user s, sys_token s)]\<rparr>"

definition token_answer :: "string + json \<Rightarrow> shell \<Rightarrow> shell" where
  "token_answer ans s = (let (y, b) = checkToken_then ans (session s, board s) in s\<lparr>session := y, board := b\<rparr>)"

definition or_text :: "string \<Rightarrow> string \<Rightarrow> string" where
  "or_text t u = (if t = [] then u else t)"

definition log_in :: "(nat \<Rightarrow> string) \<Rightarrow> user_message \<Rightarrow> shell \<Rightarrow> shell" where
  "log_in fresh u s =
     (let s1 = on_shell_board (removeGroup [] False) s;
          s2 = loadDevices fresh (s1\<lparr>api := SetAuthority (um_userId u) (um_token u) (um_region u) (um_pid u) (api s1)\<rparr>);
          s3 = (if IsLogin (api s2) then on_shell_board requestUpdateDeviceRelateToAccountState s2 else s2)
      in s3\<lparr>polls := next_timer s3 # polls s3, poll := Some (next_timer s3), next_timer := Suc (next_timer s3)\<rparr>)"

definition get_user :: "(nat \<Rightarrow> string) \<Rightarrow> user_message \<Rightarrow> shell \<Rightarrow> shell" where
  "get_user fresh u s =
     (if \<not> loaded s then s
      else if um_userId u = []
      then on_shell_board (removeGroup [] False)
             ((case poll s of None \<Rightarrow> s | Some t \<Rightarrow> s\<lparr>polls := removeAll t (polls s)\<rparr>)
                \<lparr>api := SetAuthority [] [] [] [] (api s)\<rparr>)
      else
        let s1 = checkTokenIsValid (s\<lparr>sys_user := um_userId u, sys_region := or_text (um_region u) (sys_region s),
                   sys_token := or_text (um_token u) (sys_token s)\<rparr>)
        in if IsSameUser (um_userId u) (api s1) then s1 else log_in fresh u s1)"

section \<open>All that can happen\<close>

text \<open>\<open>Elsewhere\<close> is whatever the rest of the program does to the store.\<close>

datatype shell_event =
    ShowPage string | ViewDetail string string | ViewList | ClosePage string
  | Mounted | Unmounted | InitDevice "(string option \<times> saved_group list) option" int
  | CorrectDevice string string | StopHeartbeat | StartHeartbeat string int | MachineList "preset list"
  | MoveDirection json | GetUser user_message | ReinitAccount | RefreshAll
  | BeatTimer nat int | PollTimer nat int | PagePoll int
  | CountAnswer json | DevicesAnswer json | AttributesAnswer nat bool string json | NetworkAnswer ip_request "printer_info + json"
  | CfsAnswer nat json | SpoolAnswer nat json | TokenAnswer "string + json"
  | PollAnswer page int json | PollFailed
  | PageSeries json | PageAttributes json | PageFilaments json | PageBoxes json | PageCfs string json
  | Elsewhere dashboard

fun shell_step :: "(nat \<Rightarrow> string) \<Rightarrow> (string \<Rightarrow> string) \<Rightarrow> (json \<Rightarrow> string) \<Rightarrow> shell_event \<Rightarrow> shell \<Rightarrow> shell" where
  "shell_step fresh tr str (ShowPage le) s = show_page le s"
| "shell_step fresh tr str (ViewDetail le ye) s = or_same (viewDetialEvent le ye) s"
| "shell_step fresh tr str ViewList s = viewDeviceList s"
| "shell_step fresh tr str (ClosePage le) s = close_page_of le s"
| "shell_step fresh tr str Mounted s = mounted s"
| "shell_step fresh tr str Unmounted s = unmounted s"
| "shell_step fresh tr str (InitDevice saved now) s = on_init_device saved now s"
| "shell_step fresh tr str (CorrectDevice ip m) s = on_shell_board (correct_device ip m) s"
| "shell_step fresh tr str StopHeartbeat s = stop_heartbeat_cmd s"
| "shell_step fresh tr str (StartHeartbeat t now) s = start_heartbeat_cmd t now s"
| "shell_step fresh tr str (MachineList ps) s = get_machine_list ps s"
| "shell_step fresh tr str (MoveDirection le) s = on_shell_board (req_device_move_direction le) s"
| "shell_step fresh tr str (GetUser u) s = get_user fresh u s"
| "shell_step fresh tr str ReinitAccount s = post_command ''get_user'' s"
| "shell_step fresh tr str RefreshAll s = loadDevices fresh (on_session (\<lambda>y. y\<lparr>reloads := Suc (reloads y)\<rparr>) s)"
| "shell_step fresh tr str (BeatTimer t now) s = (if t \<in> set (beats s) then on_shell_board (heartbeat now) s else s)"
| "shell_step fresh tr str (PollTimer t now) s = (if t \<in> set (polls s) then poll_cloud fresh False now s else s)"
| "shell_step fresh tr str (PagePoll now) s =
     (if pending_polls s = 0 then s else poll_cloud fresh True now (s\<lparr>pending_polls := pending_polls s - 1\<rparr>))"
| "shell_step fresh tr str (CountAnswer v) s = count_answer fresh v s"
| "shell_step fresh tr str (DevicesAnswer v) s = devices_answer fresh v s"
| "shell_step fresh tr str (AttributesAnswer n old m v) s = on_shell_board (snd \<circ> attributes_answer tr n old m v) s"
| "shell_step fresh tr str (NetworkAnswer q a) s = on_shell_board (network_answer q a) s"
| "shell_step fresh tr str (CfsAnswer n v) s = on_shell_board (cfs_answer str n v) s"
| "shell_step fresh tr str (SpoolAnswer n v) s = on_shell_board (spool_answer n v) s"
| "shell_step fresh tr str (TokenAnswer a) s = token_answer a s"
| "shell_step fresh tr str (PollAnswer pg now v) s = poll_answer pg now v s"
| "shell_step fresh tr str PollFailed s = poll_failed s"
| "shell_step fresh tr str (PageSeries v) s = page_series v s"
| "shell_step fresh tr str (PageAttributes v) s = page_attributes v s"
| "shell_step fresh tr str (PageFilaments v) s = page_filaments v s"
| "shell_step fresh tr str (PageBoxes v) s = page_boxes v s"
| "shell_step fresh tr str (PageCfs t v) s = page_cfs fresh str t v s"
| "shell_step fresh tr str (Elsewhere b) s = s\<lparr>board := b\<rparr>"

end
