(* ===== verification/FilePage.thy ===== *)
theory FilePage
  imports FileList AppShell
begin

text \<open>
  The page of a printer's files (component \<open>DeviceFile\<close> of \<open>CeX73yR3.js\<close>): the tables of
  files, prints and videos, what is chosen in them, deleting, exporting, printing and
  importing.  \<open>Date.now()\<close> is an argument; a number that cannot be read is \<open>null\<close> here, the
  times of files are numbers, and the objects a printer lists have the texts that are read of
  them.  Rows of the tables of prints and videos are the printer's own objects.
\<close>

section \<open>State\<close>

record file_row =
  fr_path :: string
  fr_name :: string
  fr_size :: json
  fr_layer :: json
  fr_time :: json
  fr_length :: json
  fr_thumb :: "string option"
  fr_multi :: json
  fr_data :: json

datatype page_note =
    PrintDialog file_row "nat option"  \<comment> \<open>the dialog before a print, with the plate to show\<close>
  | CopiedLink string
  | FileGone
  | BadImport
  | CloudList json nat                 \<comment> \<open>a request for a page of the cloud's list of files\<close>

record file_page =
  fp_address :: string
  fp_printer :: nat       \<comment> \<open>\<open>i\<close>\<close>
  fp_page :: nat          \<comment> \<open>\<open>n\<close>\<close>
  fp_files :: "file_row list"
  fp_chosen :: "file_row list"
  fp_history :: "json list"
  fp_history_chosen :: "json list"
  fp_videos :: "json list"
  fp_videos_chosen :: "json list"
  fp_tab :: nat
  fp_canDel :: bool
  fp_statistics :: "nat \<times> nat"
  fp_start_disabled :: bool
  fp_calibrate_visible :: bool
  fp_calibrate_disabled :: bool
  fp_export_visible :: bool
  fp_delete_visible :: bool
  fp_delete_disabled :: bool
  fp_restart_disabled :: bool
  fp_reprint_disabled :: bool
  fp_fileUrl :: string
  fp_notes :: "page_note list"

type_synonym page_state = "file_page \<times> cloud_api \<times> dashboard"

definition note_page :: "page_note \<Rightarrow> file_page \<Rightarrow> file_page" where
  "note_page x f = f\<lparr>fp_notes := fp_notes f @ [x]\<rparr>"

section \<open>Names\<close>

text \<open>\<open>t.substring(t.lastIndexOf(c) + 1)\<close> and \<open>t.indexOf(u)\<close>.\<close>

definition after_last :: "char \<Rightarrow> string \<Rightarrow> string" where
  "after_last c t = rev (takeWhile (\<lambda>x. x \<noteq> c) (rev t))"

fun index_in :: "string \<Rightarrow> string \<Rightarrow> nat option" where
  "index_in u [] = (if u = [] then Some 0 else None)"
| "index_in u (c # cs) = (if prefix u (c # cs) then Some 0 else map_option Suc (index_in u cs))"

definition before_last :: "string \<Rightarrow> string \<Rightarrow> string" where
  "before_last u t = (case index_in (rev u) (rev t) of None \<Rightarrow> [] | Some k \<Rightarrow> take (length t - k - length u) t)"

definition download_url :: "string \<Rightarrow> string \<Rightarrow> string \<Rightarrow> string" where
  "download_url a dir f = ''http://'' @ a @ ''/downloads/'' @ dir @ ''/'' @ encodeURIComponent f"

section \<open>The rows of the table of files\<close>

text \<open>The first format: seven fields between colons.  \<open>None\<close> is the \<open>TypeError\<close> of a line with
  fewer.\<close>

definition row_of_line :: "string \<Rightarrow> bool \<Rightarrow> string \<Rightarrow> file_row option" where
  "row_of_line a multi u =
     (let v = js_split '':'' u; num = (\<lambda>t. json_number (to_number (JStr t))) in
      if length v < 7 then None
      else Some \<lparr>fr_path = v ! 0 @ ''/'' @ v ! 1, fr_name = v ! 1, fr_size = num (v ! 2), fr_layer = num (v ! 3),
        fr_time = JStr (v ! 4),
        fr_length = (case to_number (JStr (v ! 5)) of None \<Rightarrow> JStr ''NaN''
                     | Some q \<Rightarrow> if q = 0 then JStr ''NaN'' else JNum (q / 1000)),
        fr_thumb = Some (download_url (a @ '':80'') ''humbnail'' (after_last CHR ''/'' (v ! 6))),
        fr_multi = (if multi then JStr ''Yes'' else JUndefined), fr_data = JStr u\<rparr>)"

text \<open>The second format: objects, a container of plates has \<open>custom_types\<close> 3.  The picture of
  such a container lies in a folder of its own, three names deep.\<close>

definition thumb_of :: "string \<Rightarrow> int \<Rightarrow> json \<Rightarrow> string option" where
  "thumb_of a now r =
     (let th = the_text (jget r ''thumbnail''); base = ''http://'' @ a @ '':80/downloads/''; tail = ''?'' @ show_int now in
      if jget r ''custom_types'' = JNum 3 then
        (case index_in ''humbnail'' th of
           Some (Suc i) \<Rightarrow>
             let c = js_split ''/'' (drop (Suc i) th); f = (if 2 < length c then c ! 2 else []) in
             Some (base @ c ! 0 @ ''/'' @ encodeURIComponent (if 1 < length c then c ! 1 else ''undefined'') @ ''/''
                   @ encodeURIComponent (before_last ''.png'' f) @ ''.png'' @ tail)
         | _ \<Rightarrow> None)
      else if jget r ''custom_types'' = JNum 1
      then Some (base @ ''humbnail/'' @ encodeURIComponent (after_last CHR ''/'' th) @ tail)
      else None)"

definition thousandth :: "json \<Rightarrow> json" where
  "thousandth v = (case to_number v of None \<Rightarrow> JNull | Some q \<Rightarrow> JNum (q / 1000))"

text \<open>\<open>forEach\<close> does not stop: the last plate with the picture counts.\<close>

definition length_of :: "json \<Rightarrow> json" where
  "length_of r =
     (case (jget r ''custom_types'' = JNum 3, index_in ''humbnail'' (the_text (jget r ''thumbnail''))) of
        (True, Some (Suc i)) \<Rightarrow>
          fold (\<lambda>c v. if text_includes (drop (Suc i) (the_text (jget r ''thumbnail''))) (jget c ''thumbnail'')
                      then thousandth (jget c ''consumables'') else v)
            (elements (jget r ''file'')) (JNum 0)
      | _ \<Rightarrow> thousandth (jget r ''consumables''))"

definition colour_count :: "json \<Rightarrow> nat" where
  "colour_count r =
     (let m = jget r ''materialColors'' in if truthy m then length (filter (\<lambda>t. t \<noteq> []) (js_split '';'' (the_text m))) else 0)"

definition row_of_object :: "string \<Rightarrow> int \<Rightarrow> json \<Rightarrow> file_row" where
  "row_of_object a now r =
     \<lparr>fr_path = the_text (jget r ''path''), fr_name = the_text (jget r ''name''), fr_size = jget r ''file_size'',
      fr_layer = (if truthy (jget r ''floorHeight'')
                  then (case to_number (jget r ''floorHeight'') of None \<Rightarrow> JNull | Some q \<Rightarrow> JNum (q / 100)) else JNum 0),
      fr_time = jget r ''create_time'', fr_length = length_of r, fr_thumb = thumb_of a now r,
      fr_multi = JStr (if 2 \<le> colour_count r then ''Yes'' else ''No''), fr_data = r\<rparr>"

text \<open>The third format: what \<open>updateFileListToOldPrinter\<close> wrote.\<close>

definition row_of_listing :: "string \<Rightarrow> file_row" where
  "row_of_listing u =
     (let v = js_split '':'' u; part = (\<lambda>i. if i < length v then JStr (v ! i) else JUndefined) in
      \<lparr>fr_path = v ! 0, fr_name = v ! 0, fr_size = json_number (to_number (part 1)), fr_layer = JUndefined,
       fr_time = part 2, fr_length = JUndefined, fr_thumb = None, fr_multi = JUndefined, fr_data = JStr u\<rparr>)"

definition lines_of :: "json \<Rightarrow> string list" where
  "lines_of i = filter (\<lambda>u. u \<noteq> []) (js_split '';'' (the_text (jget i ''fileInfo'')))"

definition rows_of :: "string \<Rightarrow> int \<Rightarrow> printer \<Rightarrow> file_row list option" where
  "rows_of a now p =
     (let d = jget (JObj (data p)) in
      if truthy (d ''retGcodeFileInfo'')
      then (let rs = map (row_of_line a (boxColorInfo (boxsInfo p) \<noteq> [])) (lines_of (d ''retGcodeFileInfo''))
            in if None \<in> set rs then None else Some (map the rs))
      else if truthy (d ''retGcodeFileInfo2'') then Some (map (row_of_object a now) (elements (d ''retGcodeFileInfo2'')))
      else if truthy (d ''retGcodeFileInfo3'') then Some (map row_of_listing (lines_of (d ''retGcodeFileInfo3'')))
      else Some [])"

definition row_time :: "file_row \<Rightarrow> rat" where
  "row_time r = (case to_number (fr_time r) of None \<Rightarrow> 0 | Some q \<Rightarrow> q)"

section \<open>Filling the tables\<close>

definition count_rows :: "file_page \<Rightarrow> file_page" where
  "count_rows f = f\<lparr>fp_statistics :=
     (if fp_tab f = 0 then (length (fp_chosen f), length (fp_files f))
      else if fp_tab f = 1 then (length (fp_history_chosen f), length (fp_history f))
      else if fp_tab f = 2 then (length (fp_videos_chosen f), length (fp_videos f)) else fp_statistics f)\<rparr>"

text \<open>Whenever the table of files is a new one with fewer than ten rows, the next page of the
  cloud's list is asked for.\<close>

definition watch_files :: "dashboard \<Rightarrow> file_page \<Rightarrow> file_page" where
  "watch_files s f =
     (if length (fp_files f) < 10
      then note_page (CloudList (tbId (printers s (fp_printer f))) (Suc (fp_page f))) (f\<lparr>fp_page := Suc (fp_page f)\<rparr>) else f)"

definition setFileData :: "int \<Rightarrow> file_page \<times> dashboard \<Rightarrow> file_page \<times> dashboard" where
  "setFileData now b =
     (let (f, s) = b; i = fp_printer f;
          s1 = upd i (\<lambda>p. p\<lparr>IsMultiColorDevice := JBool (boxColorInfo (boxsInfo p) \<noteq> [])\<rparr>) s
      in (case rows_of (fp_address f) now (printers s1 i) of
            None \<Rightarrow> watch_files s1 (f\<lparr>fp_files := []\<rparr>)
          | Some rs \<Rightarrow> watch_files s1 (count_rows (f\<lparr>fp_files := sort_key (\<lambda>r. - row_time r) rs\<rparr>)), s1))"

definition setHistoryData :: "dashboard \<Rightarrow> file_page \<Rightarrow> file_page" where
  "setHistoryData s f =
     count_rows (f\<lparr>fp_history := elements (jget (JObj (data (printers s (fp_printer f)))) ''historyList'')\<rparr>)"

definition setElapseVideoData :: "dashboard \<Rightarrow> file_page \<Rightarrow> file_page" where
  "setElapseVideoData s f =
     (let v = jget (JObj (data (printers s (fp_printer f)))) ''elapseVideoList''
      in count_rows (if truthy v then f\<lparr>fp_videos := elements v\<rparr> else f))"

text \<open>\<open>toFixed(2)\<close>, of sums that are not negative.\<close>

definition two_places :: "rat \<Rightarrow> string" where
  "two_places q = (let c = nat \<lfloor>q * 100 + 1 / 2\<rfloor> in show_nat (c div 100) @ ''.'' @ two (c mod 100))"

definition used_material :: "json \<Rightarrow> rat" where
  "used_material v = (\<Sum>g\<leftarrow>elements (jget v ''plates''). case to_number (jget g ''use'') of None \<Rightarrow> 0 | Some q \<Rightarrow> q)"

definition cloud_row :: "json \<Rightarrow> file_row" where
  "cloud_row v =
     \<lparr>fr_path = the_text (jget v ''path''), fr_name = the_text (jget v ''name''), fr_size = jget v ''file_size'',
      fr_layer = JStr ''NaN'', fr_time = jget v ''file_create_time'',
      fr_length = (let t = two_places (used_material v) in
        case read_decimal t of Some q \<Rightarrow> (if q < 1 then JStr ''/'' else JStr t) | None \<Rightarrow> JStr t),
      fr_thumb = Some [], fr_multi = JStr ''/'', fr_data = v\<rparr>"

text \<open>The list gets a new array with each answer, the empty ones included.\<close>

definition list_answer :: "dashboard \<Rightarrow> json \<Rightarrow> file_page \<Rightarrow> file_page" where
  "list_answer s r f =
     (if jget r ''code'' = JNum 0 \<and> truthy (jget r ''result'')
      then watch_files s (f\<lparr>fp_files := fp_files f @ map cloud_row (elements (jget (jget r ''result'') ''pFileList''))\<rparr>) else f)"

text \<open>The page is opened; scrolled to its end, it asks for the next part of the cloud's list.\<close>

definition next_part :: "dashboard \<Rightarrow> file_page \<Rightarrow> file_page" where
  "next_part s f = note_page (CloudList (tbId (printers s (fp_printer f))) (Suc (fp_page f))) (f\<lparr>fp_page := Suc (fp_page f)\<rparr>)"

definition page_opened :: "int \<Rightarrow> file_page \<times> dashboard \<Rightarrow> file_page \<times> dashboard" where
  "page_opened now b =
     (let i = fp_printer (fst b); d = (\<lambda>s. jget (JObj (data (printers s i)))); s0 = snd b;
          (f1, s1) = (if truthy (d s0 ''retGcodeFileInfo'') \<or> truthy (d s0 ''retGcodeFileInfo2'') \<or> truthy (d s0 ''retGcodeFileInfo3'')
                      then setFileData now b
                      else (note_page (CloudList (tbId (printers s0 i)) (fp_page (fst b))) (fst b), s0));
          s2 = send_if_connected i (get_params [(''reqGcodeFile'', JNum 1)]) s1;
          (f3, s3) = (if truthy (d s2 ''historyList'') then (setHistoryData s2 f1, s2)
                      else (f1, send_if_connected i (get_params [(''reqHistory'', JNum 1)]) s2))
      in if truthy (d s3 ''elapseVideoList'') then (setElapseVideoData s3 f3, s3)
         else (f3, send_if_connected i (get_params [(''reqElapseVideoList'', JNum 1)]) s3))"

section \<open>Choosing\<close>

definition busy :: "printer \<Rightarrow> bool" where
  "busy p \<longleftrightarrow> eq_num (deviceState p) 1 \<or> eq_num (state p) 5 \<or> eq_num (state p) 1"

text \<open>\<open>P\<close>: is the row the file being printed, or a container of its plate?\<close>

definition being_printed :: "printer \<Rightarrow> file_row list \<Rightarrow> file_row \<Rightarrow> bool" where
  "being_printed p rs z =
     (if suffix ''.3mf'' (fr_name z)
      then list_ex (\<lambda>r. jget (fr_data r) ''custom_types'' = JNum 3 \<and> fr_name r = fr_name z
             \<and> list_ex (\<lambda>c. jget c ''custom_types'' = JNum 1 \<and> jget c ''name'' = printFileName p) (elements (jget (fr_data r) ''file''))) rs
      else JStr (fr_name z) = printFileName p)"

definition none_or_printed :: "printer \<Rightarrow> file_row list \<Rightarrow> file_row list \<Rightarrow> bool" where
  "none_or_printed p rs zs \<longleftrightarrow> zs = [] \<or> list_ex (being_printed p rs) zs"

definition choose_files :: "dashboard \<Rightarrow> file_row list \<Rightarrow> file_page \<Rightarrow> file_page" where
  "choose_files s zs f =
     (let p = printers s (fp_printer f) in
      count_rows (f\<lparr>fp_chosen := zs, fp_canDel := (if busy p then \<not> none_or_printed p (fp_files f) zs else zs \<noteq> [])\<rparr>))"

definition choose_others :: "json list \<Rightarrow> file_page \<Rightarrow> file_page" where
  "choose_others zs f =
     count_rows (if fp_tab f = 1 then f\<lparr>fp_history_chosen := zs, fp_canDel := zs \<noteq> []\<rparr>
                 else if fp_tab f = 2 then f\<lparr>fp_videos_chosen := zs, fp_canDel := zs \<noteq> []\<rparr> else f)"

definition handleTabClick :: "nat \<Rightarrow> file_page \<Rightarrow> file_page" where
  "handleTabClick z f =
     count_rows (f\<lparr>fp_tab := z, fp_canDel :=
       (if z = 0 then fp_chosen f \<noteq> [] else if z = 1 then fp_history_chosen f \<noteq> []
        else if z = 2 then fp_videos_chosen f \<noteq> [] else fp_canDel f)\<rparr>)"

section \<open>Deleting and exporting what is chosen\<close>

text \<open>The first call that throws ends the handler.\<close>

fun until_thrown :: "('a \<Rightarrow> 'b \<Rightarrow> 'b option) \<Rightarrow> 'a list \<Rightarrow> 'b \<Rightarrow> 'b" where
  "until_thrown f [] s = s"
| "until_thrown f (x # xs) s = (case f x s of None \<Rightarrow> s | Some s' \<Rightarrow> until_thrown f xs s')"

definition delete_row :: "file_page \<Rightarrow> file_row \<Rightarrow> dashboard \<Rightarrow> dashboard option" where
  "delete_row f z s =
     (let p = printers s (fp_printer f) in
      if busy p \<and> JStr (fr_name z) = printFileName p then Some s
      else if oldPrinter p then DeleteFile_LAN (fp_address f) (JStr (fr_name z)) s
      else DeleteFile (fp_address f) (fr_path z) s)"

definition delete_chosen :: "file_page \<Rightarrow> dashboard \<Rightarrow> dashboard" where
  "delete_chosen f s =
     (if fp_tab f = 0 then until_thrown (delete_row f) (fp_chosen f) s
      else if fp_tab f = 1 then or_same (DeleteHisoryFile (fp_address f) (JArr (map (\<lambda>d. jget d ''id'') (fp_history_chosen f)))) s
      else if fp_tab f = 2 then until_thrown (\<lambda>z. DeleteVideoFile (fp_address f) (jget z ''video'')) (fp_videos_chosen f) s
      else s)"

text \<open>\<open>b\<close>: is a printed file still there?\<close>

definition still_there :: "file_page \<Rightarrow> json \<Rightarrow> bool" where
  "still_there f z =
     list_ex (\<lambda>r. if jget (fr_data r) ''custom_types'' = JNum 3
                  then list_ex (\<lambda>c. jget c ''custom_types'' = JNum 1 \<and> jget c ''path'' = z) (elements (jget (fr_data r) ''file''))
                  else JStr (fr_path r) = z) (fp_files f)"

text \<open>The name a printed file is downloaded under: that of the hidden folder of a container,
  without its dot, or the last part of the path.\<close>

definition history_name :: "string \<Rightarrow> string" where
  "history_name t =
     (let v = drop (case index_in ''gcodes'' t of None \<Rightarrow> 6 | Some i \<Rightarrow> i + 7) t; o1 = js_split ''/'' v ! 0
      in if suffix ''.3mf'' o1 then drop 1 o1 else after_last CHR ''/'' t)"

definition export_urls :: "file_page \<Rightarrow> (string \<times> json) list" where
  "export_urls f =
     (let add = (\<lambda>dir n. AList.update n (JStr (download_url (fp_address f) dir n))) in
      if fp_tab f = 0 then fold (\<lambda>r. add ''gcode'' (fr_name r)) (fp_chosen f) []
      else if fp_tab f = 1
      then fold (\<lambda>r. if still_there f (jget r ''filename'') then add ''gcode'' (history_name (the_text (jget r ''filename''))) else id)
             (fp_history_chosen f) []
      else if fp_tab f = 2 then fold (\<lambda>r. add ''video'' (the_text (jget r ''video''))) (fp_videos_chosen f) []
      else [])"

definition export_chosen :: "file_page \<Rightarrow> dashboard \<Rightarrow> dashboard" where
  "export_chosen f = post [(''command'', JStr ''down_files''), (''urls'', JObj (export_urls f)),
     (''file_type'', JStr (if fp_tab f = 2 \<and> fp_videos_chosen f \<noteq> [] then ''Videos'' else ''Documents''))]"

section \<open>The menus\<close>

definition open_file_menu :: "file_row \<Rightarrow> dashboard \<Rightarrow> file_page \<Rightarrow> file_page" where
  "open_file_menu z s f =
     (let p = printers s (fp_printer f); idle = eq_num (deviceState p) 0;
          f1 = f\<lparr>fp_start_disabled := \<not> idle,
                 fp_calibrate_visible := (if boxColorInfo (boxsInfo p) \<noteq> [] \<or> suffix ''.3mf'' (fr_path z) then False
                                         else suffix ''.gcode'' (fr_path z) \<or> fp_calibrate_visible f),
                 fp_calibrate_disabled := \<not> idle,
                 fp_delete_disabled := (if busy p then being_printed p (fp_files f) z else fp_delete_disabled f)\<rparr>;
          f2 = (if deviceType p = 1 then f1\<lparr>fp_export_visible := False, fp_delete_visible := False\<rparr> else f1)
      in if oldPrinter p then f2\<lparr>fp_calibrate_visible := False, fp_export_visible := False\<rparr> else f2)"

definition open_history_menu :: "dashboard \<Rightarrow> file_page \<Rightarrow> file_page" where
  "open_history_menu s f =
     (let p = printers s (fp_printer f); idle = eq_num (deviceState p) 0 in
      if deviceType p = 0
      then f\<lparr>fp_restart_disabled := \<not> idle, fp_reprint_disabled := truthy (IsMultiColorDevice p) \<or> \<not> idle\<rparr> else f)"

definition down_file :: "string \<Rightarrow> string \<Rightarrow> string \<Rightarrow> file_page \<Rightarrow> dashboard \<Rightarrow> dashboard" where
  "down_file dir n ty f = post [(''command'', JStr ''down_file''), (''url'', JStr (download_url (fp_address f) dir n)),
     (''name'', JStr n), (''file_type'', JStr ty)]"

definition cloud_task :: "file_page \<Rightarrow> file_row \<Rightarrow> json" where
  "cloud_task f r = JObj [(''deviceName'', JStr (fp_address f)), (''modelName'', JStr (fr_name r)), (''gcodeFilePath'', JStr (fr_path r))]"

definition printing_now :: "nat \<Rightarrow> dashboard \<Rightarrow> dashboard" where
  "printing_now i = upd i (\<lambda>p. p\<lparr>state := JNum 1, deviceState := JNum 1\<rparr>)"

definition start_file :: "string \<Rightarrow> file_row \<Rightarrow> page_state \<Rightarrow> page_state" where
  "start_file uuid r b =
     (let (f, k, s) = b; p = printers s (fp_printer f) in
      if boxColorInfo (boxsInfo p) \<noteq> [] then (note_page (PrintDialog r None) f, k, s)
      else if suffix ''.gcode'' (fr_path r)
      then (if deviceType p = 0
            then (f, k, if oldPrinter p then StartNormalPrint_LAN (fp_address f) (fr_path r) s
                        else or_same (StartPrint (fp_address f) (fr_path r)) s)
            else (f, addSingleTask uuid (cloud_task f r) k, printing_now (fp_printer f) s))
      else if suffix ''.3mf'' (fr_path r) then (note_page (PrintDialog r None) f, k, s)
      else b)"

definition start_calibrated :: "string \<Rightarrow> string \<Rightarrow> file_row \<Rightarrow> page_state \<Rightarrow> page_state" where
  "start_calibrated u1 u2 r b =
     (let (f, k, s) = b; p = printers s (fp_printer f) in
      if deviceType p = 0 then (f, k, or_same (StartPrintWidthCalibration (fp_address f) (fr_path r)) s)
      else (f, addSingleTask u2 (cloud_task f r) (setPrintCalibration u1 (js_text (tbId p)) (JBool True) k),
            printing_now (fp_printer f) s))"

definition delete_one :: "file_row \<Rightarrow> file_page \<Rightarrow> dashboard \<Rightarrow> dashboard" where
  "delete_one r f s =
     (if oldPrinter (printers s (fp_printer f)) then or_same (DeleteFile_LAN (fp_address f) (JStr (fr_name r))) s
      else or_same (DeleteFile (fp_address f) (fr_path r)) s)"

text \<open>The row a printed file is in, the last one counts, and its place in a container.\<close>

definition row_of_print :: "file_page \<Rightarrow> json \<Rightarrow> (file_row \<times> nat) option" where
  "row_of_print f g =
     fold (\<lambda>r x. let w = (case x of None \<Rightarrow> 0 | Some (_, w) \<Rightarrow> w) in
         if jget (fr_data r) ''custom_types'' = JNum 3
         then fold (\<lambda>(v, c) x. if jget c ''custom_types'' = JNum 1 \<and> jget c ''path'' = g then Some (r, v) else x)
                (enumerate 0 (elements (jget (fr_data r) ''file''))) x
         else if JStr (fr_path r) = g then Some (r, w) else x) (fp_files f) None"

definition restart_print :: "json \<Rightarrow> page_state \<Rightarrow> page_state" where
  "restart_print h b =
     (let (f, k, s) = b; g = the_text (jget h ''filename'') in
      case row_of_print f (jget h ''filename'') of
        None \<Rightarrow> (note_page FileGone f, k, s)
      | Some (r, w) \<Rightarrow>
          if boxColorInfo (boxsInfo (printers s (fp_printer f))) \<noteq> [] then (note_page (PrintDialog r (Some (Suc w))) f, k, s)
          else if suffix ''.gcode'' g then (f, k, or_same (StartPrint (fp_address f) g) s)
          else if suffix ''.3mf'' g then (note_page (PrintDialog r None) f, k, s)
          else b)"

definition reprint_calibrated :: "json \<Rightarrow> page_state \<Rightarrow> page_state" where
  "reprint_calibrated h b =
     (let (f, k, s) = b in
      if still_there f (jget h ''filename'')
      then (f, k, or_same (StartPrintWidthCalibration (fp_address f) (the_text (jget h ''filename''))) s)
      else (note_page FileGone f, k, s))"

definition export_print :: "json \<Rightarrow> page_state \<Rightarrow> page_state" where
  "export_print h b =
     (let (f, k, s) = b in
      if still_there f (jget h ''filename'')
      then (f, k, down_file ''gcode'' (history_name (the_text (jget h ''filename''))) ''Documents'' f s)
      else (note_page FileGone f, k, s))"

datatype menu_choice =
    FileStart file_row | FileCalibrated file_row | FileExport file_row | FileDelete file_row
  | HistoryRestart json | HistoryReprint json | HistoryExport json | HistoryDelete json
  | VideoCopy json | VideoExport json | VideoDelete json

fun handleClickMenuItem :: "string \<Rightarrow> string \<Rightarrow> menu_choice \<Rightarrow> page_state \<Rightarrow> page_state" where
  "handleClickMenuItem u1 u2 (FileStart r) b = start_file u1 r b"
| "handleClickMenuItem u1 u2 (FileCalibrated r) b = start_calibrated u1 u2 r b"
| "handleClickMenuItem u1 u2 (FileExport r) (f, k, s) = (f, k, down_file ''gcode'' (fr_name r) ''Documents'' f s)"
| "handleClickMenuItem u1 u2 (FileDelete r) (f, k, s) = (f, k, delete_one r f s)"
| "handleClickMenuItem u1 u2 (HistoryRestart h) b = restart_print h b"
| "handleClickMenuItem u1 u2 (HistoryReprint h) b = reprint_calibrated h b"
| "handleClickMenuItem u1 u2 (HistoryExport h) b = export_print h b"
| "handleClickMenuItem u1 u2 (HistoryDelete h) (f, k, s) = (f, k, or_same (DeleteHisoryFile (fp_address f) (JArr [jget h ''id''])) s)"
| "handleClickMenuItem u1 u2 (VideoCopy v) (f, k, s) =
     (note_page (CopiedLink (fp_address f @ ''/downloads/video/'' @ js_text (jget v ''videoname''))) f, k, s)"
| "handleClickMenuItem u1 u2 (VideoExport v) (f, k, s) = (f, k, down_file ''video'' (the_text (jget v ''videoname'')) ''Videos'' f s)"
| "handleClickMenuItem u1 u2 (VideoDelete v) (f, k, s) = (f, k, or_same (DeleteVideoFile (fp_address f) (jget v ''video'')) s)"

section \<open>Importing\<close>

definition toLowerCase :: "string \<Rightarrow> string" where
  "toLowerCase = map (\<lambda>c. let n = (of_char c :: nat) in if 65 \<le> n \<and> n \<le> 90 \<or> 192 \<le> n \<and> n \<le> 222 \<and> n \<noteq> 215 then char_of (n + 32) else c)"

text \<open>The name being printed is looked for in the printer's data, where it never is: the call
  of a method of \<open>undefined\<close> throws, which is \<open>None\<close>.  \<open>inside\<close> is what the archive of a
  container holds, if it can be read.\<close>

definition handleBeforeUpload :: "string \<Rightarrow> string list option \<Rightarrow> file_page \<times> dashboard \<Rightarrow> (bool \<times> file_page) option" where
  "handleBeforeUpload n inside b =
     (let (f, s) = b; ext = toLowerCase (after_last CHR ''.'' n); bad = (False, note_page BadImport f) in
      if ext \<noteq> ''gcode'' \<and> ext \<noteq> ''3mf'' then Some bad
      else case jget (JObj (data (printers s (fp_printer f)))) ''printFileName'' of
             JStr t \<Rightarrow>
               if toLowerCase n = toLowerCase t then Some bad
               else if ext = ''3mf''
                 \<and> (case inside of None \<Rightarrow> True | Some xs \<Rightarrow> \<not> list_ex (\<lambda>x. suffix ''.gcode'' x \<and> prefix ''Metadata'' x) xs)
               then Some bad
               else Some (True, f\<lparr>fp_fileUrl := ''/upload/'' @ encodeURIComponent (filter (\<lambda>c. c \<notin> set ([CHR 0x5C, CHR 0x22] @ ''/:*?<>|'' @ [CHR 0x27])) n)\<rparr>)
           | _ \<Rightarrow> None)"

definition handleUpload :: "file_page \<times> dashboard \<Rightarrow> file_page \<times> dashboard" where
  "handleUpload b =
     (let (f, s) = b; u = ''http://'' @ fp_address f @ fp_fileUrl f in (f\<lparr>fp_fileUrl := u\<rparr>, emit_call (HttpPost u []) s))"

definition import_to_old_printer :: "file_page \<Rightarrow> dashboard \<Rightarrow> dashboard" where
  "import_to_old_printer f s =
     (if fp_tab f = 0
      then post [(''command'', JStr ''get_file_List_from_lan_device''), (''url'', JStr (address (printers s (fp_printer f))))]
             (post [(''command'', JStr ''uploade_file_oldPrinter''), (''url'', JStr (fp_address f))] s)
      else s)"

end
