(* ===== verification/AppProps.thy ===== *)
theory AppProps
  imports AppShell AddProps
begin

text \<open>
  What holds of the application: which printers of the account are listed and which stay when
  they are gone, which intervals go on for ever, and what the pages show after a late answer
  or a corrected address.
\<close>

section \<open>Frames\<close>

lemma shell_fields [simp]:
  "board (on_shell_board f s) = f (board s)" "board (on_session g s) = board s" "board (ask fresh h s) = board s"
  "detail_address (on_shell_board f s) = detail_address s" "detail_address (on_session g s) = detail_address s"
  "detail_address (ask fresh h s) = detail_address s"
  "api (on_shell_board f s) = api s" "api (on_session g s) = api s"
  "session (on_shell_board f s) = session s" "session (ask fresh h s) = session s"
  by (simp_all add: on_shell_board_def on_session_def ask_def)

definition timers :: "shell \<Rightarrow> (nat list \<times> nat option) \<times> (nat list \<times> nat option) \<times> nat" where
  "timers s = ((beats s, beat s), (polls s, poll s), next_timer s)"

lemma timers_basic [simp]:
  "timers (on_shell_board f s) = timers s" "timers (on_session g s) = timers s" "timers (ask fresh h s) = timers s"
  "timers (s\<lparr>board := b\<rparr>) = timers s" "timers (s\<lparr>last_poll := l\<rparr>) = timers s" "timers (s\<lparr>pending_polls := k\<rparr>) = timers s"
  "timers (s\<lparr>detail_visable := v\<rparr>) = timers s" "timers (s\<lparr>detail_address := a\<rparr>) = timers s" "timers (s\<lparr>tabs := ts\<rparr>) = timers s"
  "timers (s\<lparr>loaded := l'\<rparr>) = timers s" "timers (s\<lparr>api := k'\<rparr>) = timers s" "timers (s\<lparr>token_checks := c\<rparr>) = timers s"
  "timers (s\<lparr>sys_user := u\<rparr>) = timers s" "timers (s\<lparr>sys_region := r\<rparr>) = timers s" "timers (s\<lparr>sys_token := t\<rparr>) = timers s"
  "timers (s\<lparr>session := y\<rparr>) = timers s"
  by (simp_all add: timers_def on_shell_board_def on_session_def ask_def)

lemma timers_loading [simp]:
  "timers (list_device fresh x s) = timers s" "timers (loadDevices fresh s) = timers s" "timers (count_answer fresh v s) = timers s"
  by (simp_all add: list_device_def list_new_def loadDevices_def count_answer_def Let_def split: option.split)

lemma timers_devices [simp]: "timers (devices_answer fresh v s) = timers s"
  by (simp add: devices_answer_def Let_def fold_frame [where g = timers] split: option.split)

lemma timers_polling [simp]:
  "timers (poll_member fresh n s) = timers s" "timers (poll_page fresh t s) = timers s"
  "timers (poll_answer pg now v s) = timers s" "timers (page_cfs fresh str u v s) = timers s"
  by (simp_all add: poll_member_def poll_page_def poll_answer_def page_cfs_def Let_def fold_frame [where g = timers] split: option.split)

lemma timers_poll [simp]: "timers (poll_cloud fresh forced now s) = timers s"
  by (simp add: poll_cloud_def Let_def fold_frame [where g = timers] split: option.split)

lemma timers_others [simp]:
  "timers (viewDeviceList s) = timers s" "timers (show_page le s) = timers s" "timers (close_page_of le s) = timers s"
  "timers (or_same (viewDetialEvent le ye) s) = timers s" "timers (post_command c s) = timers s" "timers (mounted s) = timers s"
  "timers (get_machine_list ps s) = timers s" "timers (token_answer a s) = timers s" "timers (poll_failed s) = timers s"
  "timers (page_series v s) = timers s" "timers (page_attributes v s) = timers s" "timers (page_filaments v s) = timers s"
  "timers (page_boxes v s) = timers s" "timers (checkTokenIsValid s) = timers s"
  by (simp_all add: viewDeviceList_def show_page_def close_page_of_def or_same_def viewDetialEvent_def post_command_def
      mounted_def get_machine_list_def token_answer_def poll_failed_def page_series_def page_attributes_def
      page_filaments_def page_boxes_def checkTokenIsValid_def Let_def split: option.split prod.split)

section \<open>Intervals that nobody stops\<close>

text \<open>An interval that runs although its variable has been overwritten.\<close>

definition astray :: "nat \<Rightarrow> (nat list \<times> nat option) \<Rightarrow> nat \<Rightarrow> bool" where
  "astray t ts k \<longleftrightarrow> t \<in> set (fst ts) \<and> snd ts \<noteq> Some t \<and> t < k"

definition stray_beat :: "nat \<Rightarrow> shell \<Rightarrow> bool" where
  "stray_beat t s \<longleftrightarrow> astray t (fst (timers s)) (snd (snd (timers s)))"

definition stray_poll :: "nat \<Rightarrow> shell \<Rightarrow> bool" where
  "stray_poll t s \<longleftrightarrow> astray t (fst (snd (timers s))) (snd (snd (timers s)))"

lemma stray_same: "timers s' = timers s \<Longrightarrow> stray_beat t s' = stray_beat t s \<and> stray_poll t s' = stray_poll t s"
  by (simp add: stray_beat_def stray_poll_def)

lemma stray_start_beats:
  "stray_beat t s \<Longrightarrow> stray_beat t (start_beats s)" "stray_poll t s \<Longrightarrow> stray_poll t (start_beats s)"
  by (auto simp: stray_beat_def stray_poll_def astray_def timers_def start_beats_def)

lemma stray_stop:
  "stray_beat t s \<Longrightarrow> stray_beat t (stop_heartbeat_cmd s)" "stray_poll t s \<Longrightarrow> stray_poll t (stop_heartbeat_cmd s)"
  by (auto simp: stray_beat_def stray_poll_def astray_def timers_def stop_heartbeat_cmd_def split: option.split)

lemma stray_stop_poll:
  "stray_beat t s \<Longrightarrow> stray_beat t (case poll s of None \<Rightarrow> s | Some r \<Rightarrow> s\<lparr>polls := removeAll r (polls s)\<rparr>)"
  "stray_poll t s \<Longrightarrow> stray_poll t (case poll s of None \<Rightarrow> s | Some r \<Rightarrow> s\<lparr>polls := removeAll r (polls s)\<rparr>)"
  by (auto simp: stray_beat_def stray_poll_def astray_def timers_def split: option.split)

lemma stray_start_poll:
  "stray_beat t s \<Longrightarrow> stray_beat t (s\<lparr>polls := next_timer s # polls s, poll := Some (next_timer s), next_timer := Suc (next_timer s)\<rparr>)"
  "stray_poll t s \<Longrightarrow> stray_poll t (s\<lparr>polls := next_timer s # polls s, poll := Some (next_timer s), next_timer := Suc (next_timer s)\<rparr>)"
  by (auto simp: stray_beat_def stray_poll_def astray_def timers_def)

lemma stray_loops:
  assumes "stray t s" and "stray = stray_beat \<or> stray = stray_poll"
  shows "stray t (unmounted s)" "stray t (on_init_device saved now s)" "stray t (start_heartbeat_cmd a now s)"
    "stray t (log_in fresh u s)" "stray t (get_user fresh u s)"
proof -
  have same: "stray t s' = stray t s''" if "timers s' = timers s''" for s' s''
    using assms(2) stray_same [OF that] by auto
  have begins: "stray t s' \<Longrightarrow> stray t (start_beats s')" and ends: "stray t s' \<Longrightarrow> stray t (stop_heartbeat_cmd s')"
    and quits: "stray t s' \<Longrightarrow> stray t (case poll s' of None \<Rightarrow> s' | Some r \<Rightarrow> s'\<lparr>polls := removeAll r (polls s')\<rparr>)"
    and polls: "stray t s' \<Longrightarrow> stray t (s'\<lparr>polls := next_timer s' # polls s', poll := Some (next_timer s'), next_timer := Suc (next_timer s')\<rparr>)"
    for s'
    using assms(2) stray_start_beats stray_stop stray_stop_poll stray_start_poll by auto
  show "stray t (unmounted s)"
    unfolding unmounted_def Let_def using assms(1) same [of "on_shell_board release s" s] by (intro quits ends) simp
  show "stray t (on_init_device saved now s)"
    unfolding on_init_device_def Let_def
    by (rule begins, subst same [of _ s]) (simp_all add: assms(1) split: option.split prod.split)
  show "stray t (start_heartbeat_cmd a now s)"
    unfolding start_heartbeat_cmd_def using begins [OF assms(1)] same [of "on_shell_board _ _" "start_beats s"] by simp
  have log: "stray t (log_in fresh u s')" if "timers s' = timers s" for s'
    unfolding log_in_def Let_def by (rule polls, subst same [of _ s]) (simp_all add: assms(1) that)
  then show "stray t (log_in fresh u s)" by simp
  have "stray t (on_shell_board (removeGroup [] False) ((case poll s of None \<Rightarrow> s | Some r \<Rightarrow> s\<lparr>polls := removeAll r (polls s)\<rparr>)\<lparr>api := k\<rparr>))" for k
    using quits [OF assms(1)] same [of "on_shell_board _ (_\<lparr>api := k\<rparr>)"] by simp
  then show "stray t (get_user fresh u s)"
    unfolding get_user_def Let_def using assms(1) same [of "checkTokenIsValid _" s] log by simp
qed

lemma stray_step:
  assumes "stray t s" and "stray = stray_beat \<or> stray = stray_poll"
  shows "stray t (shell_step fresh tr str ev s)"
proof -
  have same: "stray t s'" if "timers s' = timers s" for s'
    using assms stray_same [OF that] by auto
  have stop: "stray t (stop_heartbeat_cmd s)" using assms stray_stop by auto
  show ?thesis
    by (cases ev) (use stray_loops [OF assms] stop in \<open>auto intro: same simp: assms(1)\<close>)
qed

text \<open>An interval that is replaced is never stopped.  When the heartbeat is started while it
  runs, or another user logs in while the cloud is polled, the interval that ran goes on for
  ever, whatever messages, answers and timers follow, the end of the application included.\<close>

theorem replaced_intervals_never_stop:
  assumes "beat s = Some t" and "t \<in> set (beats s)" and "t < next_timer s"
    and "poll s = Some r" and "r \<in> set (polls s)" and "r < next_timer s"
    and "loaded s" and "um_userId u \<noteq> []" and "\<not> IsSameUser (um_userId u) (api s)"
  shows "t \<in> set (beats (fold (shell_step fresh tr str) (StartHeartbeat a now # evs) s))
    \<and> r \<in> set (polls (fold (shell_step fresh tr str) (GetUser u # evs) s))"
proof
  have run: "stray x (fold (shell_step fresh tr str) evs s')"
    if "stray x s'" "stray = stray_beat \<or> stray = stray_poll" for stray x s'
    using that(1) by (rule fold_keeps [rotated]) (rule stray_step [OF _ that(2)])
  have "stray_beat t (start_heartbeat_cmd a now s)"
    using assms(1-3) by (auto simp: stray_beat_def astray_def start_heartbeat_cmd_def) (auto simp: timers_def start_beats_def)
  then have "stray_beat t (fold (shell_step fresh tr str) evs (start_heartbeat_cmd a now s))" by (rule run) simp
  then show "t \<in> set (beats (fold (shell_step fresh tr str) (StartHeartbeat a now # evs) s))"
    by (simp add: stray_beat_def astray_def timers_def)
  let ?s1 = "checkTokenIsValid (s\<lparr>sys_user := um_userId u, sys_region := or_text (um_region u) (sys_region s),
                   sys_token := or_text (um_token u) (sys_token s)\<rparr>)"
  have same: "timers ?s1 = timers s" by simp
  have "api ?s1 = api s" by (simp add: checkTokenIsValid_def)
  then have "get_user fresh u s = log_in fresh u ?s1"
    using assms(7-9) by (simp add: get_user_def Let_def)
  moreover have "stray_poll r (log_in fresh u ?s1)"
  proof -
    have log: "timers (on_shell_board g (loadDevices fresh s')) = timers s'" "timers (loadDevices fresh s') = timers s'" for g s'
      by simp_all
    have "\<exists>s3. timers s3 = timers ?s1 \<and> log_in fresh u ?s1
        = s3\<lparr>polls := next_timer s3 # polls s3, poll := Some (next_timer s3), next_timer := Suc (next_timer s3)\<rparr>"
      unfolding log_in_def Let_def by (rule exI, rule conjI [rotated], rule refl) simp
    then show ?thesis
      using assms(4-6) same by (auto simp: stray_poll_def astray_def timers_def)
  qed
  ultimately have "stray_poll r (get_user fresh u s)" by simp
  then have "stray_poll r (fold (shell_step fresh tr str) evs (get_user fresh u s))" by (rule run) simp
  then show "r \<in> set (polls (fold (shell_step fresh tr str) (GetUser u # evs) s))"
    by (simp add: stray_poll_def astray_def timers_def)
qed

section \<open>Printers that are gone\<close>

text \<open>What a walk leaves of a list when it deletes while it goes on: the element behind a
  deleted one is not looked at.\<close>

fun survivors :: "('a \<Rightarrow> bool) \<Rightarrow> 'a list \<Rightarrow> 'a list" where
  "survivors P [] = []"
| "survivors P [x] = (if P x then [x] else [])"
| "survivors P (x # y # xs) = (if P x then x # survivors P (y # xs) else y # survivors P xs)"

definition walk_at :: "('a \<Rightarrow> bool) \<Rightarrow> nat \<Rightarrow> 'a list \<Rightarrow> 'a list" where
  "walk_at P k xs = (if k < length xs \<and> \<not> P (xs ! k) then remove_at k xs else xs)"

lemma walk_beyond: "\<forall>k \<in> set ks. length xs \<le> k \<Longrightarrow> fold (walk_at P) ks xs = xs"
  by (induction ks) (simp_all add: walk_at_def)

lemma walk_at_here:
  "P x \<Longrightarrow> walk_at P (length pre) (pre @ x # xs) = pre @ x # xs"
  "\<not> P x \<Longrightarrow> walk_at P (length pre) (pre @ x # xs) = pre @ xs"
  by (simp_all add: walk_at_def remove_at_def)

lemma walk_survivors:
  "length pre + length xs \<le> n \<Longrightarrow> fold (walk_at P) [length pre..<n] (pre @ xs) = pre @ survivors P xs"
proof (induction P xs arbitrary: pre rule: survivors.induct)
  case (1 P)
  then show ?case by (simp add: walk_beyond)
next
  case (2 P x)
  then show ?case
    by (cases "P x") (simp_all add: upt_conv_Cons walk_at_here walk_beyond)
next
  case (3 P x y xs)
  show ?case
  proof (cases "P x")
    case True
    then show ?thesis using 3(1) [of "pre @ [x]"] 3(3) by (simp add: upt_conv_Cons walk_at_here)
  next
    case False
    then show ?thesis using 3(2) [of "pre @ [y]"] 3(3) by (simp add: upt_conv_Cons walk_at_here)
  qed
qed

lemma mset_survivors: "mset (survivors P xs) \<subseteq># mset xs"
  by (induction P xs rule: survivors.induct) (auto intro: subset_mset.order_trans)

text \<open>The same walk in the book.\<close>

lemma all_addresses_split:
  assumes "i < length bs"
  shows "all_addresses bs = all_addresses (take i bs) @ addresses (bs ! i) @ all_addresses (drop (Suc i) bs)"
  by (subst id_take_nth_drop [OF assms]) (simp add: all_addresses_def)

lemma distinct_set_addresses:
  assumes "i < length bs" and "distinct (all_addresses bs)" and "mset as \<subseteq># mset (addresses (bs ! i))"
  shows "distinct (all_addresses (bs[i := with_addresses (\<lambda>_. as) (bs ! i)]))"
proof (rule distinct_submset [OF _ assms(2)])
  show "mset (all_addresses (bs[i := with_addresses (\<lambda>_. as) (bs ! i)])) \<subseteq># mset (all_addresses bs)"
    using assms(1,3) all_addresses_split [of i bs] all_addresses_split [of i "bs[i := with_addresses (\<lambda>_. as) (bs ! i)]"]
    by simp
qed

lemma remove1_at: "distinct xs \<Longrightarrow> k < length xs \<Longrightarrow> remove1 (xs ! k) xs = remove_at k xs"
proof (induction xs arbitrary: k)
  case (Cons x xs)
  then show ?case by (cases k) (auto simp: remove_at_def)
qed simp

lemma book_remove_at:
  assumes "i < length bs" and "distinct (all_addresses bs)" and "k < length (addresses (bs ! i))"
  shows "book_remove (addresses (bs ! i) ! k) bs = bs[i := with_addresses (remove_at k) (bs ! i)]"
proof -
  let ?a = "addresses (bs ! i) ! k"
  have a: "?a \<in> set (addresses (bs ! i))" using assms(3) by simp
  have parts: "distinct (all_addresses (take i bs) @ addresses (bs ! i) @ all_addresses (drop (Suc i) bs))"
    using assms(2) by (simp only: all_addresses_split [OF assms(1)])
  have "?a \<notin> set (all_addresses (take i bs))" using parts a by auto
  then have "\<forall>j < i. ?a \<notin> set (addresses (bs ! j))"
    using assms(1) by (fastforce simp: all_addresses_def in_set_conv_nth)
  then have "index_where (\<lambda>b. ?a \<in> set (addresses b)) bs = Some i"
    using a assms(1) by (metis (no_types, lifting) index_where_None index_where_Some linorder_neqE_nat nth_mem option.exhaust)
  moreover have "remove1 ?a (addresses (bs ! i)) = remove_at k (addresses (bs ! i))"
    using parts assms(3) by (intro remove1_at) simp_all
  ultimately show ?thesis by (simp add: book_remove_def on_first_index with_addresses_def)
qed

lemma book_drop_absent_at:
  assumes "gi < length (printerList s)" and "distinct_addresses s"
  shows "book_of (drop_absent_at xs gi k s)
    = (book_of s)[gi := with_addresses (walk_at (named_in xs) k) (book_of s ! gi)]"
proof -
  let ?as = "addresses (book_of s ! gi)"
  have as: "?as = map (\<lambda>n. address (printers s n)) (members (printerList s ! gi))"
    using assms(1) by (simp add: nth_book)
  show ?thesis
  proof (cases "k < length ?as \<and> \<not> named_in xs (?as ! k)")
    case True
    then have "book_of (drop_absent_at xs gi k s) = book_remove (?as ! k) (book_of s)"
      by (auto simp: drop_absent_at_def Let_def as book_removePrinter)
    then show ?thesis
      using True assms book_remove_at [of gi "book_of s" k] by (simp add: distinct_book walk_at_def with_addresses_def)
  next
    case False
    then have "drop_absent_at xs gi k s = s" by (auto simp: drop_absent_at_def Let_def as)
    moreover have "walk_at (named_in xs) k ?as = ?as" using False by (auto simp: walk_at_def)
    ultimately show ?thesis by (simp add: with_addresses_def)
  qed
qed

lemma mset_walk_at: "mset (walk_at P k xs) \<subseteq># mset xs"
  by (simp add: walk_at_def mset_remove_at_le)

lemma book_walk:
  assumes "gi < length (printerList s)" and "distinct_addresses s"
  shows "book_of (fold (drop_absent_at xs gi) ks s)
      = (book_of s)[gi := with_addresses (fold (walk_at (named_in xs)) ks) (book_of s ! gi)]
    \<and> distinct_addresses (fold (drop_absent_at xs gi) ks s)"
  using assms
proof (induction ks arbitrary: s)
  case Nil
  then show ?case by (simp add: with_addresses_def)
next
  case (Cons k ks)
  let ?s = "drop_absent_at xs gi k s" and ?as = "walk_at (named_in xs) k (addresses (book_of s ! gi))"
  have book: "book_of ?s = (book_of s)[gi := with_addresses (\<lambda>_. ?as) (book_of s ! gi)]"
    using book_drop_absent_at [OF Cons.prems] by (simp add: with_addresses_def)
  then have "length (printerList ?s) = length (printerList s)" by (metis length_book length_list_update)
  moreover have "distinct_addresses ?s"
    using Cons.prems distinct_set_addresses [of gi "book_of s" ?as] by (simp add: distinct_book book mset_walk_at)
  ultimately show ?case
    using Cons.IH [of ?s] Cons.prems by (simp add: book with_addresses_def)
qed

definition cloud_only :: "json list \<Rightarrow> book_group \<Rightarrow> book_group" where
  "cloud_only xs b = (if kind b = 1 then with_addresses (survivors (named_in xs)) b else b)"

lemma book_drop_absent_in:
  assumes "gi < length (printerList s)" and "distinct_addresses s"
  shows "book_of (drop_absent_in xs gi s) = (book_of s)[gi := cloud_only xs (book_of s ! gi)]
    \<and> distinct_addresses (drop_absent_in xs gi s)"
proof -
  let ?as = "addresses (book_of s ! gi)"
  have "length (members (printerList s ! gi)) = length ?as" and "groupType (printerList s ! gi) = kind (book_of s ! gi)"
    using assms(1) by (simp_all add: nth_book)
  moreover have "fold (walk_at (named_in xs)) [0..<length ?as] ?as = survivors (named_in xs) ?as"
    using walk_survivors [of "[]" ?as "length ?as" "named_in xs"] by simp
  ultimately show ?thesis
    using book_walk [OF assms, of xs "[0..<length ?as]"] assms(2)
    by (simp add: drop_absent_in_def cloud_only_def with_addresses_def)
qed

lemma map_by_index:
  assumes "\<And>i b. Q b \<Longrightarrow> i < length (f b) \<Longrightarrow> f (g i b) = (f b)[i := h (f b ! i)] \<and> Q (g i b)" and "Q b"
  shows "f (fold g [0..<length (f b)] b) = map h (f b)"
proof -
  have "f (fold g [0..<k] b) = map h (take k (f b)) @ drop k (f b) \<and> Q (fold g [0..<k] b)" if "k \<le> length (f b)" for k
    using that
  proof (induction k)
    case 0
    then show ?case using assms(2) by simp
  next
    case (Suc k)
    let ?b = "fold g [0..<k] b"
    have IH: "f ?b = map h (take k (f b)) @ drop k (f b)" "Q ?b" using Suc by simp_all
    then have "f (g k ?b) = (f ?b)[k := h (f ?b ! k)] \<and> Q (g k ?b)" using Suc.prems by (intro assms(1)) simp_all
    then show ?case
      using Suc.prems IH by (simp add: nth_append take_Suc_conv_app_nth list_update_append Cons_nth_drop_Suc [symmetric])
  qed
  from this [of "length (f b)"] show ?thesis by simp
qed

text \<open>After an answer of the account every group of the account keeps, in order, what a walk
  leaves that deletes while it goes on: the printers that are not in the answer go, but one
  that stood behind a deleted one stays, and the other groups do not change.\<close>

theorem absent_neighbours_stay:
  assumes "distinct_addresses b"
  shows "book_of (drop_absent xs b)
    = map (\<lambda>g. if kind g = 1 then g\<lparr>addresses := survivors (named_in xs) (addresses g)\<rparr> else g) (book_of b)"
proof -
  have "book_of (fold (drop_absent_in xs) [0..<length (book_of b)] b) = map (cloud_only xs) (book_of b)"
    by (rule map_by_index [where Q = distinct_addresses]) (auto simp: book_drop_absent_in assms)
  then show ?thesis by (simp add: drop_absent_def cloud_only_def [abs_def] with_addresses_def [abs_def])
qed

section \<open>Printers of the account\<close>

lemma login_requests [simp]:
  "IsLogin (api (ask fresh (\<lambda>uuid. GetDeviceCFS uuid t) s)) = IsLogin (api s)"
  "IsLogin (api (ask fresh (\<lambda>uuid. GetDeviceAttributes uuid t) s)) = IsLogin (api s)"
  by (simp_all add: ask_def GetDeviceCFS_def GetDeviceAttributes_def api_send_def NewRequest_def Let_def IsLogin_def)

lemma login_list_device [simp]: "IsLogin (api (list_device fresh x s)) = IsLogin (api s)"
  by (simp add: list_device_def list_new_def Let_def split: option.split)

lemma login_devices_answer [simp]: "IsLogin (api (devices_answer fresh v s)) = IsLogin (api s)"
  by (simp add: devices_answer_def Let_def fold_frame [where g = "\<lambda>s. IsLogin (api s)"] split: option.split)

lemma board_list_new [simp]: "board (list_new fresh x s) = addPrinter (cloud_listed x) [] True (board s)"
  by (simp add: list_new_def Let_def split: option.split)

lemma board_list_device:
  "board (list_device fresh x s)
    = (if \<not> from_cloud x then board s
       else let b = (if isGroupExist [] (board s) then board s else addGroup [] 1 (board s))
            in if isPrinterExist (d_address (cloud_listed x)) b then b else addPrinter (cloud_listed x) [] True b)"
  by (simp add: list_device_def Let_def split: option.split)

lemma lists_add: "book_lists a (book_add r front t bs) \<longleftrightarrow> book_lists a bs \<or> a = t \<and> list_ex (titled r) bs"
  unfolding lists_all_addresses using arg_cong [OF mset_add [of r front t bs], of set_mset]
  by (auto split: if_splits)

lemma lists_new [simp]: "book_lists a (book_new t r bs) \<longleftrightarrow> book_lists a bs"
  by (simp add: lists_all_addresses)

lemma list_device_lists:
  assumes "listed_once (board s)"
  shows "listed_once (board (list_device fresh x s))"
    and "isPrinterExist a (board s) \<Longrightarrow> isPrinterExist a (board (list_device fresh x s))"
    and "from_cloud x \<Longrightarrow> isPrinterExist (d_address (cloud_listed x)) (board (list_device fresh x s))"
proof -
  let ?b = "if isGroupExist [] (board s) then board s else addGroup [] 1 (board s)"
  have b: "listed_once ?b" using assms by (simp add: listed_once_addGroup)
  have g: "list_ex (titled []) (book_of ?b)" by (simp add: exist_book book_new_def titled_def)
  show "listed_once (board (list_device fresh x s))"
    using assms b by (simp add: board_list_device Let_def listed_once_addPrinter)
  show "isPrinterExist a (board s) \<Longrightarrow> isPrinterExist a (board (list_device fresh x s))"
    using b by (simp add: board_list_device Let_def exist_book book_addPrinter lists_add split: if_splits)
  show "from_cloud x \<Longrightarrow> isPrinterExist (d_address (cloud_listed x)) (board (list_device fresh x s))"
    using b g by (simp add: board_list_device Let_def exist_book book_addPrinter lists_add split: if_splits)
qed

lemma list_devices_lists:
  assumes "listed_once (board s)" and "x \<in> set xs" and "from_cloud x"
  shows "isPrinterExist (d_address (cloud_listed x)) (board (fold (list_device fresh) xs s))"
  using assms(1,2)
proof (induction xs arbitrary: s)
  case (Cons y ys)
  let ?P = "\<lambda>s. listed_once (board s) \<and> isPrinterExist (d_address (cloud_listed x)) (board s)"
  show ?case
  proof (cases "x = y")
    case True
    have "?P (list_device fresh y s)" using list_device_lists [OF Cons.prems(1)] assms(3) True by simp
    then have "?P (fold (list_device fresh) ys (list_device fresh y s))"
      by (rule fold_keeps [rotated]) (simp add: list_device_lists)
    then show ?thesis by simp
  next
    case False
    then show ?thesis using Cons.IH [OF list_device_lists(1) [OF Cons.prems(1)]] Cons.prems by simp
  qed
qed simp

lemma listed_once_removeGroup: "listed_once b \<Longrightarrow> listed_once (removeGroup t keep b)"
  by (rule listed_once_mset) (simp_all add: removeGroup_def mset_removeGroup_from)

lemma listed_once_drop_absent: "listed_once b \<Longrightarrow> listed_once (drop_absent xs b)"
  unfolding drop_absent_def
proof (rule fold_keeps)
  fix gi b assume "listed_once b"
  then show "listed_once (drop_absent_in xs gi b)"
    by (auto simp: drop_absent_in_def drop_absent_at_def Let_def listed_once_removePrinter intro: fold_keeps [where P = listed_once])
qed

text \<open>The printers of an account come back after it is logged out.  Nobody looks at the
  session when the list of the devices arrives: if it was asked for before, every device of the
  kinds that are shown is listed, although nobody is logged in.\<close>

theorem logged_out_printers_come_back:
  assumes "loaded s" and "um_userId u = []" and "listed_once (board s)"
    and "total_count v = Some q" and "0 < q" and "x \<in> set (cloud_devices v)" and "from_cloud x"
  shows "let s' = devices_answer fresh v (get_user fresh u s)
    in \<not> IsLogin (api s') \<and> isPrinterExist (the_text (jget x ''deviceName'')) (board s')"
proof -
  let ?s = "get_user fresh u s"
  have "board ?s = removeGroup [] False (board s)" and "\<not> IsLogin (api ?s)"
    using assms(1,2) by (simp_all add: get_user_def SetAuthority_def IsLogin_def split: option.split)
  moreover have "listed_once (drop_absent (cloud_devices v) (removeGroup [] False (board s)))"
    using assms(3) by (simp add: listed_once_drop_absent listed_once_removeGroup)
  moreover have "d_address (cloud_listed x) = the_text (jget x ''deviceName'')"
    by (simp add: cloud_listed_def Let_def)
  ultimately show ?thesis
    using list_devices_lists [of "on_shell_board (drop_absent (cloud_devices v)) ?s" x "cloud_devices v" fresh] assms(4-7)
    by (simp add: Let_def) (simp add: devices_answer_def)
qed

section \<open>Pages\<close>

text \<open>An answer for the page of a printer goes to the printer the page shows by then.  When
  the page is changed between the request and its answer, the printer that is shown gets the
  attributes of the one that was asked for, which gets none.\<close>

theorem late_answer_changes_the_wrong_printer:
  assumes "getPrinter (detail_address s) (board s) = Some n" and "shown_as le (board s) = Some c"
    and "getPrinter c (board s) = Some m" and "n \<noteq> m" and "le \<noteq> ''deviceList''" and "\<not> nullish v"
  shows "let ps = printers (board (page_attributes v (show_page le (poll_page fresh t s))))
    in ps n = printers (board s) n \<and> ps m = fold cloud_attr (elements (jget v ''result'')) (printers (board s) m)"
proof -
  have "board (poll_page fresh t s) = board s"
    by (simp add: poll_page_def Let_def split: option.split)
  then have "board (show_page le (poll_page fresh t s)) = board s \<and> detail_address (show_page le (poll_page fresh t s)) = c"
    using assms(2,5) by (simp add: show_page_def viewDeviceList_def)
  then show ?thesis
    using assms(3,4,6) by (simp add: page_attributes_def setAttrDataFromCxCloud_def)
qed

lemma distinct_address_eq:
  assumes "distinct_addresses s" and "n \<in> set (all_refs s)" and "m \<in> set (all_refs s)"
    and "address (printers s n) = address (printers s m)"
  shows "n = m"
  using assms by (auto simp: distinct_addresses_def distinct_map dest: inj_onD)

lemma getPrinter_in_listed: "getPrinter_in t byMac k s = Some n \<Longrightarrow> n \<in> set (all_refs s)"
  by (auto simp: getPrinter_in_def all_refs_def dest!: find_Some_in)

lemma getPrinter_in_None: "\<forall>n \<in> set (all_refs s). address (printers s n) \<noteq> t \<Longrightarrow> getPrinter_in t False k s = None"
  by (auto simp: getPrinter_in_def find_None_all all_refs_def)

text \<open>When the window corrects the address of a printer, the printer it is linked to in the
  cloud still names the old one: its page cannot be opened any more.\<close>

theorem corrected_printer_hides_its_twin:
  assumes "distinct_addresses (board s)" and "getPrinter_in mc True 0 (board s) = Some n"
    and "k \<in> set (all_refs (board s))" and "k \<noteq> n" and "deviceType (printers (board s) k) = 1"
    and "identity (printers (board s) k) = Some (address (printers (board s) n))" and "\<not> isPrinterExist ip (board s)"
  shows "viewDetialEvent g (address (printers (board s) k)) (on_shell_board (correct_device ip mc) s) = None"
proof -
  let ?b = "board s" and ?c = "correct_device ip mc (board s)"
  note n = getPrinter_in_listed [OF assms(2)] and kn = assms(4)
  have ip: "\<forall>m \<in> set (all_refs ?b). address (printers ?b m) \<noteq> ip"
    using assms(7) by (simp add: isPrinterExist_def list_ex_iff)
  have c: "all_refs ?c = all_refs ?b" "printers ?c = (printers ?b)(n := (printers ?b n)\<lparr>address := ip, socket := None\<rparr>)"
    using assms(2) by (simp_all add: correct_device_def Let_def)
  have only: "m = k" if "m \<in> set (all_refs ?b)" "address (printers ?c m) = address (printers ?b k)" for m
    using that ip assms(3) distinct_address_eq [OF assms(1) that(1) assms(3)] by (auto simp: c split: if_splits)
  have "getPrinter (address (printers ?b k)) ?c \<noteq> None"
    using assms(3) kn by (auto simp: getPrinter_find_ref find_ref_None has_address_def c intro!: bexI [of _ k])
  then obtain m where m: "getPrinter (address (printers ?b k)) ?c = Some m" by auto
  then have "m = k"
    using find_ref_Some only by (fastforce simp: getPrinter_find_ref has_address_def c(1))
  moreover have "getPrinter_in (address (printers ?b n)) False 0 ?c = None"
  proof (rule getPrinter_in_None, rule ballI)
    fix m assume "m \<in> set (all_refs ?c)"
    then show "address (printers ?c m) \<noteq> address (printers ?b n)"
      using distinct_address_eq [OF assms(1) _ n, of m] ip n by (auto simp: c)
  qed
  ultimately show ?thesis
    using m assms(5,6) kn by (simp add: viewDetialEvent_def shown_as_def c)
qed

section \<open>At work\<close>

definition account_board :: dashboard where
  "account_board = demo_board
     \<lparr>printerList := [\<lparr>group = ''g'', groupType = 0, groupVisable = True, members = [0]\<rparr>,
                      \<lparr>group = [], groupType = 1, groupVisable = True, members = [1, 2, 3]\<rparr>],
      printers := (\<lambda>n. if n = 0 then demo_printer ''a''
        else (demo_printer (if n = 1 then ''x'' else if n = 2 then ''y'' else ''z''))
               \<lparr>deviceType := 1, identity := if n = 1 then Some ''a'' else None\<rparr>),
      nextPrinter := 4\<rparr>"

definition demo_shell :: shell where
  "demo_shell = \<lparr>loaded = True, detail_visable = True, detail_address = ''y'', tabs = [], pending_polls = 0,
     next_timer = 2, beats = [0], beat = Some 0, polls = [1], poll = Some 1, last_poll = None,
     sys_user = ''u'', sys_region = [], sys_token = [], token_checks = [],
     api = SetAuthority ''u'' ''t'' ''China'' [] initial_api,
     session = \<lparr>isTokenValid = True, isOffline = False, reloads = 0\<rparr>, board = account_board\<rparr>"

definition user_of :: "string \<Rightarrow> user_message" where
  "user_of u = \<lparr>um_userId = u, um_token = ''t'', um_region = ''China'', um_pid = []\<rparr>"

lemma demo_account [simp]:
  "all_refs account_board = [0, 1, 2, 3]" "board demo_shell = account_board"
  "address (printers account_board 0) = ''a''" "address (printers account_board (Suc 0)) = ''x''"
  "address (printers account_board 2) = ''y''" "address (printers account_board 3) = ''z''"
  "deviceType (printers account_board (Suc 0)) = 1" "identity (printers account_board (Suc 0)) = Some ''a''"
  "deviceType (printers account_board 3) = 1" "identity (printers account_board 3) = None"
  "mac (printers account_board 0) = ''amac''"
  by (simp_all add: account_board_def demo_board_def empty_dashboard_def all_refs_def demo_shell_def)

lemma demo_account_ok: "distinct_addresses account_board" "listed_once account_board"
  by (simp_all add: distinct_addresses_def listed_once_def) (simp add: account_board_def)

theorem replaced_intervals_never_stop_witness:
  "0 \<in> set (beats (fold (shell_step (\<lambda>k. []) id (\<lambda>j. [])) (StartHeartbeat ''a'' 5 # [StopHeartbeat, Unmounted]) demo_shell))
   \<and> 1 \<in> set (polls (fold (shell_step (\<lambda>k. []) id (\<lambda>j. [])) (GetUser (user_of ''w'') # [StopHeartbeat, Unmounted]) demo_shell))"
  by (rule replaced_intervals_never_stop)
    (simp_all add: demo_shell_def user_of_def SetAuthority_def IsSameUser_def)

theorem absent_neighbours_stay_witness:
  "map addresses (book_of (drop_absent [JObj [(''deviceName'', JStr ''z'')]] account_board)) = [[''a''], [''y'', ''z'']]"
proof -
  have "map addresses (book_of account_board) = [[''a''], [''x'', ''y'', ''z'']] \<and> map kind (book_of account_board) = [0, 1]"
    by (simp add: book_of_def entry_of_def account_board_def)
  then obtain g h where "book_of account_board = [g, h]" "addresses g = [''a'']" "kind g = 0"
    "addresses h = [''x'', ''y'', ''z'']" "kind h = 1" by (auto simp: map_eq_Cons_conv)
  then show ?thesis
    using absent_neighbours_stay [OF demo_account_ok(1), of "[JObj [(''deviceName'', JStr ''z'')]]"]
    by (simp add: named_in_def)
qed

definition demo_devices :: json where
  "demo_devices = JObj [(''result'', JObj [(''totalCount'', JNum 1),
     (''list'', JArr [JObj [(''type'', JNum 9), (''deviceName'', JStr ''v'')]])])]"

theorem logged_out_printers_come_back_witness:
  "let s' = devices_answer (\<lambda>k. []) demo_devices (get_user (\<lambda>k. []) (user_of []) demo_shell)
   in \<not> IsLogin (api s') \<and> isPrinterExist ''v'' (board s')"
  using logged_out_printers_come_back [of demo_shell "user_of []" demo_devices 1
      "JObj [(''type'', JNum 9), (''deviceName'', JStr ''v'')]" "\<lambda>k. []"]
  by (simp add: demo_account_ok Let_def the_text_def)
    (simp add: demo_shell_def user_of_def demo_devices_def total_count_def cloud_devices_def elements_def from_cloud_def)

lemma demo_finds [simp]:
  "getPrinter ''y'' account_board = Some 2" "getPrinter ''z'' account_board = Some 3"
  "getPrinter_in ''amac'' True 0 account_board = Some 0"
  by (simp_all add: getPrinter_find_ref find_ref_def has_address_def)
    (simp add: getPrinter_in_def account_board_def)

theorem late_answer_changes_the_wrong_printer_witness:
  "let ps = printers (board (page_attributes (JObj [(''result'', JArr [])]) (show_page ''z'' (poll_page (\<lambda>k. []) (JStr ''t'') demo_shell))))
   in ps 2 = printers account_board 2 \<and> ps 3 = fold cloud_attr [] (printers account_board 3)"
  using late_answer_changes_the_wrong_printer [of demo_shell 2 "''z''" "''z''" 3 "JObj [(''result'', JArr [])]" "\<lambda>k. []" "JStr ''t''"]
  by (simp add: shown_as_def elements_def) (simp add: demo_shell_def)

theorem corrected_printer_hides_its_twin_witness:
  "viewDetialEvent ''n'' ''x'' (on_shell_board (correct_device ''b'' ''amac'') demo_shell) = None"
  using corrected_printer_hides_its_twin [of demo_shell "''amac''" 0 1 "''b''" "''n''"]
  by (simp add: demo_account_ok isPrinterExist_def)

end
