(* ===== verification/FileProps.thy ===== *)
theory FileProps
  imports FilePage AppProps
begin

text \<open>
  What holds of the page of files: what a directory listing becomes in its table, what a
  printer with few files costs, and which deletions are not prevented.
\<close>

section \<open>From a listing to the table\<close>

lemma join_terminated: "js_join '';'' (xs @ [[]]) = concat (map (\<lambda>x. x @ '';'') xs)"
proof (induction xs)
  case (Cons x xs)
  then show ?case by (cases xs) simp_all
qed simp

lemma split_terminated:
  assumes "\<forall>x \<in> set xs. CHR '';'' \<notin> set x"
  shows "js_split '';'' (concat (map (\<lambda>x. x @ '';'') xs)) = xs @ [[]]"
  using js_split_join [of "xs @ [[]]" "CHR '';''" "[]"] assms by (simp add: join_terminated)

lemma split_three:
  assumes "CHR '':'' \<notin> set x" "CHR '':'' \<notin> set y" "CHR '':'' \<notin> set z"
  shows "js_split '':'' (x @ '':'' @ y @ '':'' @ z) = [x, y, z]"
  using js_split_join [of "[x, y, z]" "CHR '':''" "[]"] assms by simp

lemma number_chars: "all_digits t \<Longrightarrow> CHR '':'' \<notin> set t \<and> CHR '';'' \<notin> set t"
  by (auto simp: all_digits_def list_all_iff char_digit_def)

lemma show_int_chars: "CHR '':'' \<notin> set (show_int i) \<and> CHR '';'' \<notin> set (show_int i)"
  using number_chars [OF all_digits_show_nat] by (simp add: show_int_def)

lemma show_nat_head: "\<exists>c cs. show_nat n = c # cs \<and> c \<noteq> CHR ''-''"
  using all_digits_show_nat [of n] show_nat_nonempty [of n]
  by (cases "show_nat n") (auto simp: all_digits_def char_digit_def)

lemma read_show_nat [simp]: "read_decimal (show_nat n) = Some (of_nat n)"
proof -
  obtain c cs where "show_nat n = c # cs" "c \<noteq> CHR ''-''" using show_nat_head by blast
  then show ?thesis
    using read_digits_show_nat_exact [of n] by (simp add: read_decimal_def read_unsigned_def)
qed

lemma read_show_int [simp]: "read_decimal (show_int i) = Some (of_int i)"
proof (cases "i < 0")
  case True
  obtain c cs where n: "show_nat (nat (- i)) = c # cs" using show_nat_head by blast
  then show ?thesis
    using True read_digits_show_nat_exact [of "nat (- i)"] by (simp add: show_int_def read_decimal_def read_unsigned_def)
qed (simp add: show_int_def)

lemma stored_files:
  "jget (JObj (data (store_files l p))) ''retGcodeFileInfo3'' \<noteq> JUndefined"
  "truthy (jget (JObj (data (store_files l p))) ''retGcodeFileInfo3'')"
  "jget (jget (JObj (data (store_files l p))) ''retGcodeFileInfo3'') ''fileInfo'' = JStr l"
  "k \<noteq> ''retGcodeFileInfo3'' \<Longrightarrow> jget (JObj (data (store_files l p))) k = jget (JObj (data p)) k"
proof -
  have object: "truthy v \<and> v \<noteq> JUndefined" if "jget v t = JStr u" for v t u
    using that by (cases v) simp_all
  show 1: "jget (jget (JObj (data (store_files l p))) ''retGcodeFileInfo3'') ''fileInfo'' = JStr l"
    by (simp add: store_files_def Let_def update_conv')
  show "truthy (jget (JObj (data (store_files l p))) ''retGcodeFileInfo3'')"
    "jget (JObj (data (store_files l p))) ''retGcodeFileInfo3'' \<noteq> JUndefined"
    using object [OF 1] by simp_all
  show "k \<noteq> ''retGcodeFileInfo3'' \<Longrightarrow> jget (JObj (data (store_files l p))) k = jget (JObj (data p)) k"
    by (simp add: store_files_def Let_def update_conv')
qed

definition entry_text :: "clock \<Rightarrow> listed_file \<Rightarrow> string" where
  "entry_text k e = lf_name e @ '':'' @ show_nat (lf_size e) @ '':'' @ show_int (parseFileTimeByOldPrinter k (stamp e))"

definition shown_row :: "file_row \<Rightarrow> string \<times> json \<times> rat" where
  "shown_row r = (fr_name r, fr_size r, row_time r)"

lemma row_of_entry:
  assumes "CHR '':'' \<notin> set (lf_name e)"
  shows "shown_row (row_of_listing (entry_text k e))
    = (lf_name e, JNum (of_nat (lf_size e)), of_int (parseFileTimeByOldPrinter k (stamp e)))"
proof -
  have "js_split '':'' (entry_text k e) = [lf_name e, show_nat (lf_size e), show_int (parseFileTimeByOldPrinter k (stamp e))]"
    unfolding entry_text_def using assms number_chars [OF all_digits_show_nat] show_int_chars by (intro split_three) simp_all
  then show ?thesis by (simp add: row_of_listing_def shown_row_def row_time_def Let_def json_number_def)
qed

text \<open>A printer that keeps a listing, and is otherwise as it was for the table.\<close>

definition keeps_listing :: "string \<Rightarrow> printer \<Rightarrow> bool" where
  "keeps_listing l q \<longleftrightarrow> truthy (jget (JObj (data q)) ''retGcodeFileInfo3'')
     \<and> jget (jget (JObj (data q)) ''retGcodeFileInfo3'') ''fileInfo'' = JStr l"

definition otherwise_same :: "printer \<Rightarrow> printer \<Rightarrow> bool" where
  "otherwise_same p q \<longleftrightarrow> address q = address p
     \<and> (\<forall>k. k \<noteq> ''retGcodeFileInfo3'' \<longrightarrow> jget (JObj (data q)) k = jget (JObj (data p)) k)"

lemma store_files_kept:
  "keeps_listing l (store_files l p)" "otherwise_same p q \<Longrightarrow> otherwise_same p (store_files l q)"
  using stored_files(2,3) [of l] stored_files(4) [of _ l]
  by (auto simp: keeps_listing_def otherwise_same_def simp del: jget.simps) (simp add: store_files_def Let_def)

lemma update_stores:
  assumes "otherwise_same p (printers s n)" and "address p = r"
  shows "otherwise_same p (printers (fold (\<lambda>n s. if address (printers s n) = r then upd n (store_files l) s else s) ns s) n)
    \<and> (n \<in> set ns \<or> keeps_listing l (printers s n)
       \<longrightarrow> keeps_listing l (printers (fold (\<lambda>n s. if address (printers s n) = r then upd n (store_files l) s else s) ns s) n))"
  using assms(1)
proof (induction ns arbitrary: s)
  case (Cons m ns)
  let ?s = "if address (printers s m) = r then upd m (store_files l) s else s"
  have "otherwise_same p (printers ?s n)"
    using Cons.prems store_files_kept(2) by (auto simp: upd_def)
  moreover have "m = n \<or> keeps_listing l (printers s n) \<Longrightarrow> keeps_listing l (printers ?s n)"
    using Cons.prems assms(2) store_files_kept(1) by (auto simp: upd_def otherwise_same_def)
  ultimately show ?case using Cons.IH [of ?s] by auto
qed simp

lemma rows_of_listing:
  assumes "\<forall>e \<in> set es. listed_ok e \<and> CHR '':'' \<notin> set (lf_name e) \<and> CHR '';'' \<notin> set (lf_name e)"
    and "keeps_listing (concat (map (file_entry k) (map ls_line es))) q"
    and "\<not> truthy (jget (JObj (data q)) ''retGcodeFileInfo'')" and "\<not> truthy (jget (JObj (data q)) ''retGcodeFileInfo2'')"
  shows "rows_of a now q = Some (map (\<lambda>e. row_of_listing (entry_text k e)) es)"
proof -
  let ?l = "concat (map (file_entry k) (map ls_line es))"
  have entries: "?l = concat (map (\<lambda>x. x @ '';'') (map (entry_text k) es))"
    using assms(1) by (simp add: file_entry_def file_line_reads entry_text_def read_digits_show_nat_exact comp_def cong: map_cong)
  have clean: "\<forall>x \<in> set (map (entry_text k) es). CHR '';'' \<notin> set x \<and> x \<noteq> []"
    using assms(1) number_chars [OF all_digits_show_nat] show_int_chars by (auto simp: entry_text_def)
  then have "js_split '';'' ?l = map (entry_text k) es @ [[]]"
    unfolding entries by (intro split_terminated) blast
  moreover have "filter (\<lambda>u. u \<noteq> []) (map (entry_text k) es) = map (entry_text k) es"
    using clean by (simp add: filter_id_conv)
  ultimately show ?thesis
    using assms(2-4) by (simp add: rows_of_def Let_def lines_of_def the_text_def keeps_listing_def)
qed

lemma setFileData_files:
  assumes "rows_of (fp_address f) now ((printers s (fp_printer f))\<lparr>IsMultiColorDevice := v\<rparr>) = Some rs"
    and "v = JBool (boxColorInfo (boxsInfo (printers s (fp_printer f))) \<noteq> [])"
  shows "fp_files (fst (setFileData now (f, s))) = sort_key (\<lambda>r. - row_time r) rs"
  using assms by (simp add: setFileData_def Let_def watch_files_def count_rows_def note_page_def)

text \<open>C36: What the directory listing of an old printer says is what its page shows.  When the
  listing is stored with the printer and the table is filled from it, the rows are the listed
  files with their names, their sizes and the times read of their dates, the latest first and
  files of one time in the order of the listing, as long as the printer has no list of files in
  the two other formats (which come first), and every line is as \<open>ls -l\<close> writes it with a name
  that has no colon and no semicolon.  The time of a file of one of the first nine days of a
  month is the current one (\<open>early_days_get_the_current_time\<close>).\<close>

theorem listing_reaches_the_table:
  assumes "\<forall>e \<in> set es. listed_ok e \<and> CHR '':'' \<notin> set (lf_name e) \<and> CHR '';'' \<notin> set (lf_name e)"
    and "\<not> truthy (jget (JObj (data (printers s (fp_printer f)))) ''retGcodeFileInfo'')"
    and "\<not> truthy (jget (JObj (data (printers s (fp_printer f)))) ''retGcodeFileInfo2'')"
    and "fp_printer f \<in> set (all_refs s)" and "address (printers s (fp_printer f)) = r"
  shows "map shown_row (fp_files (fst (setFileData now (f, updateFileListToOldPrinter k r (map ls_line es) s))))
    = sort_key (\<lambda>(name, size, t). - t)
        (map (\<lambda>e. (lf_name e, JNum (of_nat (lf_size e)), of_int (parseFileTimeByOldPrinter k (stamp e)))) es)"
proof -
  let ?l = "concat (map (file_entry k) (map ls_line es))" and ?p = "printers s (fp_printer f)"
  let ?q = "printers (updateFileListToOldPrinter k r (map ls_line es) s) (fp_printer f)"
  have "otherwise_same ?p ?p" by (simp add: otherwise_same_def)
  from update_stores [OF this assms(5), of ?l "all_refs s"] have q: "otherwise_same ?p ?q" "keeps_listing ?l ?q"
    using assms(4) by (simp_all add: updateFileListToOldPrinter_def)
  have "rows_of (fp_address f) now (?q\<lparr>IsMultiColorDevice := v\<rparr>) = Some (map (\<lambda>e. row_of_listing (entry_text k e)) es)" for v
    using q assms(2,3) by (intro rows_of_listing [OF assms(1)]) (simp_all add: keeps_listing_def otherwise_same_def)
  from setFileData_files [OF this refl]
  have "map shown_row (fp_files (fst (setFileData now (f, updateFileListToOldPrinter k r (map ls_line es) s))))
      = map shown_row (sort_key (\<lambda>x. (\<lambda>(name, size, t). - t) (shown_row x)) (map (\<lambda>e. row_of_listing (entry_text k e)) es))"
    by (simp add: shown_row_def)
  also have "\<dots> = sort_key (\<lambda>(name, size, t). - t) (map (\<lambda>e. shown_row (row_of_listing (entry_text k e))) es)"
    by (simp add: map_sort_key comp_def)
  also have "map (\<lambda>e. shown_row (row_of_listing (entry_text k e))) es
      = map (\<lambda>e. (lf_name e, JNum (of_nat (lf_size e)), of_int (parseFileTimeByOldPrinter k (stamp e)))) es"
    using assms(1) by (simp add: row_of_entry cong: map_cong)
  finally show ?thesis .
qed

section \<open>Printers with few files\<close>

definition empty_answer :: "json \<Rightarrow> bool" where
  "empty_answer r \<longleftrightarrow> jget r ''code'' = JNum 0 \<and> truthy (jget r ''result'') \<and> elements (jget (jget r ''result'') ''pFileList'') = []"

text \<open>A list of fewer than ten files is asked for without end: every answer, an empty page
  included, makes the next request, for a page further on, and never stops asking.\<close>

theorem short_list_is_asked_for_ever:
  assumes "list_all empty_answer rs" and "length (fp_files f) < 10"
  shows "fp_notes (fold (list_answer s) rs f)
    = fp_notes f @ map (\<lambda>i. CloudList (tbId (printers s (fp_printer f))) (fp_page f + i)) [1..<Suc (length rs)]"
  using assms
proof (induction rs arbitrary: f)
  case (Cons r rs)
  let ?f = "note_page (CloudList (tbId (printers s (fp_printer f))) (Suc (fp_page f))) (f\<lparr>fp_page := Suc (fp_page f)\<rparr>)"
  have "list_answer s r f = ?f"
    using Cons.prems by (simp add: list_answer_def empty_answer_def watch_files_def note_page_def)
  moreover have "map (\<lambda>i. CloudList t (n + i)) [1..<Suc (Suc m)] = CloudList t (Suc n) # map (\<lambda>i. CloudList t (Suc n + i)) [1..<Suc m]"
    for t n m by (simp add: upt_conv_Cons map_Suc_upt [symmetric] del: upt_Suc)
  ultimately show ?case
    using Cons.IH [of ?f] Cons.prems by (simp add: note_page_def del: upt_Suc)
qed simp

section \<open>Deleting what is printed\<close>

text \<open>The button that deletes is locked while the chosen container is being printed from, but
  looking at another table and coming back unlocks it, and the deletion is sent: only the name
  of the plate, not that of its container, is compared again.\<close>

theorem other_tab_unlocks_deletion:
  assumes "fp_tab f = 0" and "i = fp_printer f" and "busy (printers s i)" and "being_printed (printers s i) (fp_files f) z"
    and "JStr (fr_name z) \<noteq> printFileName (printers s i)" and "\<not> oldPrinter (printers s i)"
  shows "let g = choose_files s [z] f; h = handleTabClick 0 (handleTabClick 1 g)
    in \<not> fp_canDel g \<and> fp_canDel h \<and> delete_chosen h s = or_same (DeleteFile (fp_address f) (fr_path z)) s"
  using assms
  by (simp add: choose_files_def handleTabClick_def count_rows_def none_or_printed_def delete_chosen_def delete_row_def
      or_same_def Let_def split: option.split)

section \<open>At work\<close>

definition demo_container :: file_row where
  "demo_container = \<lparr>fr_path = ''/c.3mf'', fr_name = ''c.3mf'', fr_size = JNum 1, fr_layer = JNum 0, fr_time = JNum 1,
     fr_length = JNum 0, fr_thumb = None, fr_multi = JStr ''No'',
     fr_data = JObj [(''custom_types'', JNum 3),
       (''file'', JArr [JObj [(''custom_types'', JNum 1), (''name'', JStr ''p.gcode'')]])]\<rparr>"

definition demo_page :: file_page where
  "demo_page = \<lparr>fp_address = ''a'', fp_printer = 0, fp_page = 1, fp_files = [demo_container], fp_chosen = [], fp_history = [],
     fp_history_chosen = [], fp_videos = [], fp_videos_chosen = [], fp_tab = 0, fp_canDel = False, fp_statistics = (0, 0),
     fp_start_disabled = False, fp_calibrate_visible = True, fp_calibrate_disabled = False, fp_export_visible = True,
     fp_delete_visible = True, fp_delete_disabled = False, fp_restart_disabled = False, fp_reprint_disabled = False,
     fp_fileUrl = [], fp_notes = []\<rparr>"

definition printing_board :: dashboard where
  "printing_board = upd 0 (\<lambda>p. p\<lparr>deviceState := JNum 1, printFileName := JStr ''p.gcode''\<rparr>) demo_board"

definition november_file :: "nat \<Rightarrow> string \<Rightarrow> listed_file" where
  "november_file d n = \<lparr>lf_dir = False, lf_mode = ''rw-r--r--'', lf_links = 1, lf_user = 0, lf_group = 0, lf_size = 1234,
     lf_month = ''Nov'', lf_day = d, lf_hour = 8, lf_minute = 26, lf_name = n\<rparr>"

definition listing_clock :: clock where
  "listing_clock = \<lparr>now_ms = 5000, this_year = 2023, read_date = (\<lambda>t. Some (if take 6 t = ''Nov 13'' then 1000 else 0))\<rparr>"

lemma november_times:
  "parseFileTimeByOldPrinter listing_clock (stamp (november_file 12 n)) = 0"
  "parseFileTimeByOldPrinter listing_clock (stamp (november_file 13 n)) = 1"
proof -
  have s: "stamp (november_file 12 n) = ''Nov 12 08:26''" "stamp (november_file 13 n) = ''Nov 13 08:26''"
    by code_simp+
  show "parseFileTimeByOldPrinter listing_clock (stamp (november_file 12 n)) = 0"
    "parseFileTimeByOldPrinter listing_clock (stamp (november_file 13 n)) = 1"
    unfolding s parseFileTimeByOldPrinter_def listing_clock_def by code_simp+
qed

theorem listing_reaches_the_table_witness:
  "map (\<lambda>r. fst (shown_row r)) (fp_files (fst (setFileData 0 (demo_page,
     updateFileListToOldPrinter listing_clock ''a'' (map ls_line [november_file 12 ''x.gcode'', november_file 13 ''y.gcode'']) demo_board))))
   = [''y.gcode'', ''x.gcode'']"
proof -
  have ok: "\<forall>e \<in> set [november_file 12 ''x.gcode'', november_file 13 ''y.gcode''].
      listed_ok e \<and> CHR '':'' \<notin> set (lf_name e) \<and> CHR '';'' \<notin> set (lf_name e)"
    by (simp add: november_file_def listed_ok_def mode_char_def letter_def blank_def newline_char_def)
  have d: "data (printers demo_board (fp_printer demo_page)) = []" "fp_printer demo_page \<in> set (all_refs demo_board)"
    "address (printers demo_board (fp_printer demo_page)) = ''a''"
    by (simp_all add: demo_page_def demo_board_def demo_printer_def initial_printer_def demo_device_def all_refs_def)
  from listing_reaches_the_table [OF ok, of demo_board demo_page "''a''" 0 listing_clock] d
  have "map shown_row (fp_files (fst (setFileData 0 (demo_page,
     updateFileListToOldPrinter listing_clock ''a'' (map ls_line [november_file 12 ''x.gcode'', november_file 13 ''y.gcode'']) demo_board))))
    = [(''y.gcode'', JNum 1234, 1), (''x.gcode'', JNum 1234, 0)]"
    by (simp add: november_times) (simp add: november_file_def)
  from arg_cong [OF this, of "map fst"] show ?thesis by (simp add: comp_def)
qed

definition empty_page :: json where
  "empty_page = JObj [(''code'', JNum 0), (''result'', JObj [(''pFileList'', JArr [])])]"

theorem short_list_is_asked_for_ever_witness:
  "fp_notes (fold (list_answer demo_board) [empty_page, empty_page] demo_page) = [CloudList JNull 2, CloudList JNull 3]"
proof -
  have "tbId (printers demo_board 0) = JNull"
    by (simp add: demo_board_def demo_printer_def initial_printer_def demo_device_def ownProperty_def)
  then show ?thesis
    using short_list_is_asked_for_ever [of "[empty_page, empty_page]" demo_page demo_board]
    by (simp add: empty_page_def empty_answer_def elements_def) (simp add: demo_page_def upt_rec)
qed

theorem other_tab_unlocks_deletion_witness:
  "fp_canDel (handleTabClick 0 (handleTabClick 1 (choose_files printing_board [demo_container] demo_page)))"
proof -
  have "busy (printers printing_board 0)" "printFileName (printers printing_board 0) = JStr ''p.gcode''"
    "\<not> oldPrinter (printers printing_board 0)"
    by (simp_all add: printing_board_def busy_def demo_board_def)
  then show ?thesis
    using other_tab_unlocks_deletion [of demo_page 0 printing_board demo_container]
    by (simp add: Let_def) (simp add: demo_page_def demo_container_def being_printed_def elements_def suffix_def Let_def)
qed

end
