(* ===== verification/Diagnosis.thy ===== *)
theory Diagnosis
  imports AppShell
begin

text \<open>
  The diagnosis of a printer's connection (\<open>x\<close>, \<open>C\<close>, \<open>k\<close>, \<open>P\<close>, \<open>E\<close>, \<open>S\<close>, \<open>F\<close>, \<open>A\<close> of the
  component \<open>App\<close>): of a printer in the network, which the window tests, and of one in the
  cloud.  What is awaited is an argument of the operation that goes on with it; \<open>tr\<close>
  translates a text, and a sign that is not ASCII is written as its bytes.
\<close>

section \<open>The dialog\<close>

record diag =
  dg_open :: bool
  nettype :: int
  contentVis :: bool
  contentText :: "string list"
  wikiVisible :: bool
  wikiUrl :: string
  buttonState :: nat   \<comment> \<open>1 offers to log in, 2 to refresh\<close>
  align_left :: bool

type_synonym diag_state = "diag \<times> shell"

definition connect_wiki :: string where
  "connect_wiki = ''https://wiki.creality.com/wiki/CrealityCloud_Connect''"

definition diag_reset :: "diag \<Rightarrow> diag" where
  "diag_reset y = y\<lparr>nettype := - 1, contentVis := True, contentText := [], wikiVisible := False, wikiUrl := connect_wiki,
     buttonState := 0, align_left := False\<rparr>"

definition diag_begin :: "int \<Rightarrow> diag \<Rightarrow> diag" where
  "diag_begin k y = (diag_reset y)\<lparr>contentVis := False, dg_open := True, nettype := k\<rparr>"

definition say :: "string list \<Rightarrow> diag \<Rightarrow> diag" where
  "say ts y = y\<lparr>contentVis := True, contentText := ts\<rparr>"

definition say_with_wiki :: "string list \<Rightarrow> diag \<Rightarrow> diag" where
  "say_with_wiki ts y = (say ts y)\<lparr>wikiVisible := True, align_left := True\<rparr>"

definition no_internet :: "(string \<Rightarrow> string) \<Rightarrow> string list" where
  "no_internet tr = [tr ''Network abnormality, please check whether the computer is connected to the Internet'']"

definition poor_network :: "(string \<Rightarrow> string) \<Rightarrow> string list" where
  "poor_network tr = [tr ''Poor network quality'' @ '': '', ''1. '' @ tr ''Check if the router and device are too far away'',
     ''2. '' @ tr ''Check whether there are large files in the network to be transferred'']"

definition connection_fine :: string where
  "connection_fine = ''The network connection is normal, refresh to reconnect''"

section \<open>A printer in the network\<close>

text \<open>The window tests the address; for a printer with a twin in the cloud it is the first one
  its attributes name.\<close>

definition lan_test :: "json \<Rightarrow> shell \<Rightarrow> shell" where
  "lan_test ip = on_shell_board (post [(''command'', JStr ''diagnosis_lan_connect''), (''ip'', ip)])"

definition twin_device :: "string \<Rightarrow> dashboard \<Rightarrow> json" where
  "twin_device m s = (case getPrinter_in m True 1 s of None \<Rightarrow> JNull | Some n \<Rightarrow> tbId (printers s n))"

definition lan_checked :: "(nat \<Rightarrow> string) \<Rightarrow> (string \<Rightarrow> string) \<Rightarrow> bool \<Rightarrow> string \<Rightarrow> string \<Rightarrow> diag_state \<Rightarrow> diag_state" where
  "lan_checked fresh tr internet m a b =
     (let (y, s) = b in
      if \<not> internet then (say (no_internet tr) y, s)
      else if m \<noteq> [] \<and> getPrinter_in m True (- 1) (board s) \<noteq> None \<and> truthy (twin_device m (board s))
      then (y, ask fresh (\<lambda>uuid. GetDeviceAttributes uuid (js_text (twin_device m (board s)))) s)
      else (y, lan_test (JStr a) s))"

definition first_netIP :: "json \<Rightarrow> json" where
  "first_netIP v =
     (case List.find (\<lambda>u. jget u ''key'' = JStr ''netIP'') (elements (jget v ''result'')) of
        None \<Rightarrow> JNull | Some u \<Rightarrow> jget u ''value'')"

definition twin_answer :: "json \<Rightarrow> string \<Rightarrow> shell \<Rightarrow> shell" where
  "twin_answer v a s = lan_test (if nullish (first_netIP v) then JStr a else first_netIP v) s"

text \<open>\<open>k\<close>: what the window found out.  A printer that is online by now is fine.  The dialog has
  no method \<open>close\<close>, so code -1 ends in the exception handler.\<close>

definition lan_code :: "json \<Rightarrow> dashboard \<Rightarrow> json" where
  "lan_code le s =
     (case getPrinter_in (the_text (jget le ''ip'')) False 0 s of
        None \<Rightarrow> jget le ''errorcode''
      | Some n \<Rightarrow> if online (printers s n) then JNum 0 else jget le ''errorcode'')"

definition lan_caught :: "(string \<Rightarrow> string) \<Rightarrow> string list" where
  "lan_caught tr = [tr ''catch  LAN connect'']"

definition lan_result :: "(string \<Rightarrow> string) \<Rightarrow> json \<Rightarrow> dashboard \<Rightarrow> diag \<Rightarrow> diag" where
  "lan_result tr le s y =
     (if nullish le then y\<lparr>contentText := lan_caught tr\<rparr>
      else
        let c = lan_code le s in
        if c = JNum (- 1) then say (lan_caught tr) y
        else if c = JNum 0 then (say [connection_fine] y)\<lparr>buttonState := 2\<rparr>
        else if c = JNum 1 then (say_with_wiki [tr ''Please check'', ''1. '' @ tr ''Is the device turned on'',
            ''2. '' @ tr ''Is the device connected to the network'',
            ''3. '' @ tr ''Whether the device ip has changed (current ip:'' @ tr (js_text (jget le ''ip''))
              @ [CHR 0xEF, CHR 0xBC, CHR 0x89]] y)\<lparr>wikiUrl := connect_wiki\<rparr>
        else if c = JNum 2 then (say_with_wiki
            [''1. '' @ tr ''The IP may be occupied by other devices at present. Please confirm the IP address of the printer device.'',
             ''2. '' @ tr ''The device network port may be closed abnormally. Is the device restarting normal''] y)\<lparr>wikiUrl := connect_wiki\<rparr>
        else if c = JNum 31 \<or> c = JNum 32 then (say_with_wiki (poor_network tr) y)\<lparr>wikiUrl := connect_wiki\<rparr>
        else say [tr ''Unknown error''] y)"

section \<open>A printer in the cloud\<close>

definition cloud_checked :: "(nat \<Rightarrow> string) \<Rightarrow> bool \<Rightarrow> string \<Rightarrow> shell \<Rightarrow> nat option \<times> shell" where
  "cloud_checked fresh internet a s =
     (if \<not> internet then (Some 1, s) else (None, ask fresh (\<lambda>uuid. PollState uuid (JArr [JStr a])) s))"

text \<open>The code an answer means; \<open>starts\<close> are the times \<open>checkLatency\<close> would measure.\<close>

definition cloud_code :: "rat list \<Rightarrow> json \<Rightarrow> nat" where
  "cloud_code starts ze =
     (if jget ze ''code'' = JNum 4 then 2
      else if jget ze ''code'' = JNum 0
      then (case elements (jget ze ''result'') of
              [] \<Rightarrow> 4
            | m # _ \<Rightarrow> if eq_num (jget m ''deviceState'') (- 1) then 32 else if isWeak (checkLatency starts) then 31 else 0)
      else 5)"

definition cloud_advice :: "(string \<Rightarrow> string) \<Rightarrow> nat \<Rightarrow> diag \<Rightarrow> diag" where
  "cloud_advice tr c y =
     (if c = 0 then (say [connection_fine] y)\<lparr>buttonState := 2\<rparr>
      else if c = 1 then say (no_internet tr) y
      else if c = 2 then (say [tr ''The login status has expired, please log in again''] y)\<lparr>buttonState := 1\<rparr>
      else if c = 31 then say_with_wiki (poor_network tr) y
      else if c = 32 then (say_with_wiki
        [tr ''Check whether the device is connected to the Internet, or rebind the Creality Cloud account on the device''] y)
          \<lparr>wikiUrl := connect_wiki\<rparr>
      else if c = 4 then say [tr ''Device not found''] y
      else if c = 5 then say [tr ''Unknown error''] y
      else y\<lparr>contentVis := True\<rparr>)"

section \<open>The buttons\<close>

definition diag_cancel :: "shell \<Rightarrow> shell" where
  "diag_cancel = post_command ''diagnosis_close_cmd''"

definition diag_log_in :: "diag_state \<Rightarrow> diag_state" where
  "diag_log_in b = ((fst b)\<lparr>dg_open := False\<rparr>,
     on_shell_board (post [(''command'', JStr ''switch_to_tab''), (''tabName'', JStr ''tpHome''), (''pageName'', JStr ''token_expired'')]) (snd b))"

definition diag_refresh :: "shell \<Rightarrow> shell" where
  "diag_refresh = on_session (\<lambda>y. y\<lparr>reloads := Suc (reloads y)\<rparr>)"

definition diag_wiki :: "string \<Rightarrow> diag_state \<Rightarrow> diag_state" where
  "diag_wiki lang b =
     (let u = (if prefix ''zh_CN'' lang then ''https://wiki.creality.com/zh/software/6-0/Network-Diagnostics''
               else ''https://wiki.creality.com/en/software/6-0/Network-Diagnostics'')
      in ((fst b)\<lparr>wikiUrl := u\<rparr>, on_shell_board (post [(''command'', JStr ''common_openurl''), (''url'', JStr u)]) (snd b)))"

datatype diag_event =
    DiagnoseLan | DiagnoseCloud | LanChecked bool string string | TwinAnswer json string | LanResult json
  | CloudChecked bool string | CloudAnswer "rat list" json | CloudLost
  | Cancel | LogIn | Refresh | OpenWiki string

fun diag_step :: "(nat \<Rightarrow> string) \<Rightarrow> (string \<Rightarrow> string) \<Rightarrow> diag_event \<Rightarrow> diag_state \<Rightarrow> diag_state" where
  "diag_step fresh tr DiagnoseLan (y, s) = (diag_begin 0 y, s)"
| "diag_step fresh tr DiagnoseCloud (y, s) = (diag_begin 1 y, s)"
| "diag_step fresh tr (LanChecked internet m a) b = lan_checked fresh tr internet m a b"
| "diag_step fresh tr (TwinAnswer v a) (y, s) = (y, twin_answer v a s)"
| "diag_step fresh tr (LanResult le) (y, s) = (lan_result tr le (board s) y, s)"
| "diag_step fresh tr (CloudChecked internet a) (y, s) =
     (case cloud_checked fresh internet a s of (Some c, s') \<Rightarrow> (cloud_advice tr c y, s') | (None, s') \<Rightarrow> (y, s'))"
| "diag_step fresh tr (CloudAnswer starts v) (y, s) = (cloud_advice tr (cloud_code starts v) y, s)"
| "diag_step fresh tr CloudLost (y, s) = (y, poll_failed s)"
| "diag_step fresh tr Cancel (y, s) = (y, diag_cancel s)"
| "diag_step fresh tr LogIn b = diag_log_in b"
| "diag_step fresh tr Refresh (y, s) = (y, diag_refresh s)"
| "diag_step fresh tr (OpenWiki lang) b = diag_wiki lang b"

section \<open>What it says\<close>

lemma advice_codes: "cloud_code starts v \<in> {0, 2, 4, 5, 31, 32}"
  by (simp add: cloud_code_def split: list.split)

text \<open>Every answer is followed by advice: whatever the window reports about a printer of the
  network and whatever the cloud answers, the dialog shows a text.  It says that the network
  is slow only when starting the five requests that should measure it takes more than five
  seconds, however slow their answers are.\<close>

theorem every_answer_gives_advice:
  "(\<not> nullish le \<longrightarrow> contentVis (lan_result tr le b y) \<and> contentText (lan_result tr le b y) \<noteq> [])
   \<and> contentVis (cloud_advice tr (cloud_code starts v) y) \<and> contentText (cloud_advice tr (cloud_code starts v) y) \<noteq> []
   \<and> (list_all (\<lambda>x. x \<le> 5000) starts \<longrightarrow> cloud_code starts v \<noteq> 31)"
proof -
  have lan: "contentVis (lan_result tr le b y) \<and> contentText (lan_result tr le b y) \<noteq> []" if "\<not> nullish le"
    using that by (simp add: lan_result_def Let_def say_def say_with_wiki_def lan_caught_def poor_network_def)
  have cloud: "contentVis (cloud_advice tr c y) \<and> contentText (cloud_advice tr c y) \<noteq> []" if "c \<in> {0, 2, 4, 5, 31, 32}" for c
    using that by (auto simp: cloud_advice_def say_def say_with_wiki_def poor_network_def)
  have "cloud_code starts v \<noteq> 31" if "list_all (\<lambda>x. x \<le> 5000) starts"
    using weak_only_when_starting_is_slow [OF that] by (simp add: cloud_code_def split: list.split)
  then show ?thesis using lan cloud [OF advice_codes] by blast
qed

theorem every_answer_gives_advice_witness:
  "\<forall>b y v. contentText (lan_result (\<lambda>t. t) (JObj [(''errorcode'', JNum 2)]) b y) \<noteq> [] \<and> cloud_code [1, 2, 0, 1, 1] v \<noteq> 31"
proof (intro allI)
  fix b y v
  show "contentText (lan_result (\<lambda>t. t) (JObj [(''errorcode'', JNum 2)]) b y) \<noteq> [] \<and> cloud_code [1, 2, 0, 1, 1] v \<noteq> 31"
    using every_answer_gives_advice [of "JObj [(''errorcode'', JNum 2)]" "\<lambda>t. t" b y "[1, 2, 0, 1, 1]" v] by simp
qed

end
