(* ===== verification/CtrolPage.thy ===== *)
theory CtrolPage
  imports AppShell
begin

text \<open>
  The control panel of a printer (component \<open>DeviceCtrol\<close> of \<open>CeX73yR3.js\<close>): moving its axes,
  the speed of a print, the fans and the light.  A printer in the network is told over its
  socket, one in the cloud by a request.  The panel's \<open>Position\<close> and \<open>MaxPosition\<close> are functions
  of the axis, 0 for X, 1 for Y, 2 for Z; a coordinate that is no number is \<open>None\<close>.  The panel
  looks at its printer by reference, its commands look the printer up by its address.
\<close>

section \<open>State\<close>

record switch_state =
  sw_on :: bool
  sw_progress :: json

record ctrol_page =
  ct_address :: string
  ct_printer :: nat
  ct_position :: "nat \<Rightarrow> rat option"
  ct_max :: "nat \<Rightarrow> rat"
  ct_reset :: "nat \<Rightarrow> bool"      \<comment> \<open>\<open>ResetState\<close>: x, y, z\<close>
  ct_reset_r :: bool
  ct_reset_v :: bool
  ct_speed :: json
  ct_switches :: "switch_state list" \<comment> \<open>model fan, side fan, case fan, light\<close>
  ct_steps :: "(rat \<times> bool) list"
  ct_wait :: "(string \<times> rat option \<times> nat \<times> nat) option" \<comment> \<open>the interval: move, target, ticks, limit\<close>
  ct_moving :: bool
  ct_printStatus :: json
  ct_refused :: nat              \<comment> \<open>warnings shown\<close>

definition new_ctrol :: "string \<Rightarrow> nat \<Rightarrow> printer \<Rightarrow> ctrol_page" where
  "new_ctrol t n p =
     \<lparr>ct_address = t, ct_printer = n, ct_position = (\<lambda>k. Some 0), ct_max = (\<lambda>k. 350), ct_reset = (\<lambda>k. False),
      ct_reset_r = False, ct_reset_v = False, ct_speed = JNum 100, ct_switches = replicate 4 \<lparr>sw_on = False, sw_progress = JNum 0\<rparr>,
      ct_steps = [(1 / 10, False), (1, False), (10, True), (100, False)], ct_wait = None, ct_moving = False,
      ct_printStatus = state p, ct_refused = 0\<rparr>"

section \<open>What is shown of the printer\<close>

text \<open>\<open>None\<close> is the \<open>TypeError\<close> of a position that is no text.\<close>

definition read_position :: "json \<Rightarrow> (nat \<Rightarrow> rat option) option" where
  "read_position v = (case v of JStr t \<Rightarrow> Some (coordinate (js_split '' '' t)) | _ \<Rightarrow> None)"

definition show_position :: "printer \<Rightarrow> ctrol_page \<Rightarrow> ctrol_page option" where
  "show_position p f = map_option (\<lambda>c. f\<lparr>ct_position := c\<rparr>) (read_position (curPosition (ctrol p)))"

definition show_resets :: "printer \<Rightarrow> ctrol_page \<Rightarrow> ctrol_page option" where
  "show_resets p f =
     map_option (\<lambda>h.
       if eq_num (state p) 1 then f\<lparr>ct_reset := (\<lambda>k. True), ct_reset_r := True, ct_reset_v := True\<rparr>
       else f\<lparr>ct_reset := (\<lambda>k. h k = Some 0), ct_reset_v := h 0 = Some 0 \<and> h 1 = Some 0 \<and> h 2 = Some 0,
              ct_reset_r := repoPlrStatus p = JNum 1\<rparr>)
       (read_position (autohome (ctrol p)))"

definition show_speed :: "printer \<Rightarrow> ctrol_page \<Rightarrow> ctrol_page" where
  "show_speed p f =
     (let v = curFeedratePct (ctrol p) in
      f\<lparr>ct_speed := if list_ex (eq_num v) [125, 100, 50, 25] then v else JStr (js_text v @ ''%'')\<rparr>)"

definition show_switches :: "printer \<Rightarrow> ctrol_page \<Rightarrow> ctrol_page" where
  "show_switches p f =
     (let c = ctrol p in
      f\<lparr>ct_printStatus := state p,
        ct_switches := [\<lparr>sw_on = (fan c = JNum 1), sw_progress = modelFanPct c\<rparr>,
          \<lparr>sw_on = (fanAuxiliary c = JNum 1), sw_progress = auxiliaryFanPct c\<rparr>,
          \<lparr>sw_on = (fanCase c = JNum 1), sw_progress = caseFanPct c\<rparr>,
          (ct_switches f ! 3)\<lparr>sw_on := (lightSw c = JNum 1)\<rparr>]\<rparr>)"

text \<open>What is asked about the printer when its model has a preset, with the name and the first
  nozzle of the preset; \<open>sizes\<close> are the preset's.\<close>

definition preset_question :: "preset \<Rightarrow> string" where
  "preset_question q =
     (if prefix ''Creality'' (presetName q) then [] else ''Creality '') @ presetName q @ '' ''
       @ (case nozzleDiameter q of [] \<Rightarrow> ''undefined'' | d # _ \<Rightarrow> d) @ '' nozzle''"

definition ctrol_opened :: "(string \<Rightarrow> nat \<Rightarrow> rat) \<Rightarrow> ctrol_page \<Rightarrow> shell \<Rightarrow> (ctrol_page \<times> shell) option" where
  "ctrol_opened sizes f s =
     (let p = printers (board s) (ct_printer f) in
      map_option (\<lambda>f1.
        case map_of (printerPreset (board s)) (model p) of
          None \<Rightarrow> (f1, s)
        | Some q \<Rightarrow>
            (f1\<lparr>ct_max := sizes (model p)\<rparr>,
             on_shell_board (post [(''command'', JStr ''req_device_move_direction''),
               (''preset_name'', JStr (preset_question q)), (''address'', JStr (address p))]) s))
        (map_option (show_speed p) (Option.bind (show_position p (show_switches p f)) (show_resets p))))"

section \<open>Speed, fans and light\<close>

text \<open>A command to a printer in the network; it throws for a printer that is not listed.\<close>

definition tell :: "(dashboard \<Rightarrow> dashboard option) \<Rightarrow> shell \<Rightarrow> shell option" where
  "tell m s = map_option (\<lambda>b. s\<lparr>board := b\<rparr>) (m (board s))"

text \<open>The conditional ends with \<open>deviceType == 1\<close>; after the comma the cloud is asked in every
  case, for the device \<open>print.tbId\<close>, and \<open>print\<close> is the window's function, which has none.\<close>

definition choose_speed :: "(nat \<Rightarrow> string) \<Rightarrow> rat \<Rightarrow> ctrol_page \<Rightarrow> shell \<Rightarrow> ctrol_page \<times> shell" where
  "choose_speed fresh v f s =
     (let p = printers (board s) (ct_printer f);
          told = (if deviceType p = 0
                  then tell (if oldPrinter p then Some \<circ> SetPrintingSpeed_LAN (ct_address f) v
                             else SetPrintingSpeed (ct_address f) (JNum v)) s
                  else Some s)
      in (f\<lparr>ct_speed := JNum v\<rparr>,
          case told of None \<Rightarrow> s | Some s1 \<Rightarrow> ask fresh (\<lambda>uuid. SetPrintSpeed uuid ''undefined'' (JNum v)) s1))"

definition fan_request :: "nat \<Rightarrow> string \<Rightarrow> string \<Rightarrow> json \<Rightarrow> cloud_api \<Rightarrow> cloud_api" where
  "fan_request which = (if which = 0 then SetModelFanPct else if which = 1 then SetAuxiliaryFanPct else SetCaseFanPct)"

text \<open>A fan that is switched on in the cloud and had no speed gets half of it.\<close>

definition press_switch :: "(nat \<Rightarrow> string) \<Rightarrow> nat \<Rightarrow> bool \<Rightarrow> ctrol_page \<Rightarrow> shell \<Rightarrow> ctrol_page \<times> shell" where
  "press_switch fresh which on f s =
     (let p = printers (board s) (ct_printer f); w = (ct_switches f ! which)\<lparr>sw_on := on\<rparr>;
          put = (\<lambda>w. f\<lparr>ct_switches := (ct_switches f)[which := w]\<rparr>); t = the_text (tbId p)
      in if deviceType p = 0
         then (put w, or_same (tell (if oldPrinter p \<and> (which = 0 \<or> which = 3) then Some \<circ> SetSwitchState_LAN (ct_address f) which (JBool on)
                                     else SetSwitchState (ct_address f) which (JBool on))) s)
         else if deviceType p = 1
         then if which = 3 then (put w, ask fresh (\<lambda>uuid. SetLedState uuid t (JNum (of_bool on))) s)
              else let v = (if eq_num (sw_progress w) 0 then JNum 50 else sw_progress w)
                   in (put (w\<lparr>sw_progress := v\<rparr>), ask fresh (\<lambda>uuid. fan_request which uuid t (if on then v else JNum 0)) s)
         else (put w, s))"

definition slide_fan :: "(nat \<Rightarrow> string) \<Rightarrow> nat \<Rightarrow> rat \<Rightarrow> ctrol_page \<Rightarrow> shell \<Rightarrow> ctrol_page \<times> shell" where
  "slide_fan fresh which v f s =
     (let p = printers (board s) (ct_printer f) in
      (f\<lparr>ct_switches := (ct_switches f)[which := (ct_switches f ! which)\<lparr>sw_progress := JNum v\<rparr>]\<rparr>,
       if deviceType p = 0 then or_same (tell (SetFanSpeed (ct_address f) which v)) s
       else if deviceType p = 1 \<and> which < 3 then ask fresh (\<lambda>uuid. fan_request which uuid (the_text (tbId p)) (JNum v)) s
       else s))"

section \<open>Moving\<close>

definition step_width :: "ctrol_page \<Rightarrow> rat" where
  "step_width f = fold (\<lambda>(v, active) e. if active then v else e) (ct_steps f) (1 / 10)"

definition choose_step :: "rat \<Rightarrow> ctrol_page \<Rightarrow> ctrol_page" where
  "choose_step v f = f\<lparr>ct_steps := map (\<lambda>(x, _). (x, v = x)) (ct_steps f)\<rparr>"

definition axis_of :: "string \<Rightarrow> nat option" where
  "axis_of e = map_of [(''X+'', 0), (''X-'', 0), (''Y+'', 1), (''Y-'', 1), (''Z+'', 2), (''Z-'', 2), (''HXY'', 0), (''HZ'', 2)] e"

definition position_of :: "ctrol_page \<Rightarrow> string \<Rightarrow> rat option" where
  "position_of f e = Option.bind (axis_of e) (ct_position f)"

text \<open>\<open>toFixed(2)\<close>, read as a number again.\<close>

definition fixed2 :: "rat \<Rightarrow> rat" where
  "fixed2 q = (if q < 0 then - of_int (js_round (100 * - q)) else of_int (js_round (100 * q))) / 100"

text \<open>The interval that waits until a printer is where it should be; \<open>NaN\<close> as a target is
  waited for until the limit.\<close>

definition wait_for :: "string \<Rightarrow> rat option \<Rightarrow> nat \<Rightarrow> ctrol_page \<Rightarrow> ctrol_page" where
  "wait_for e a limit f =
     (let t = map_option fixed2 a; f1 = f\<lparr>ct_wait := None\<rparr>
      in if falls_below t 0 then f1 else f1\<lparr>ct_moving := True, ct_wait := Some (e, t, 0, limit)\<rparr>)"

definition wait_tick :: "ctrol_page \<Rightarrow> ctrol_page" where
  "wait_tick f =
     (case ct_wait f of
        None \<Rightarrow> f
      | Some (e, t, n, limit) \<Rightarrow>
          if t \<noteq> None \<and> position_of f e = t \<or> limit \<le> n then f\<lparr>ct_wait := None, ct_moving := False\<rparr>
          else f\<lparr>ct_wait := Some (e, t, Suc n, limit)\<rparr>)"

definition turned :: "printer \<Rightarrow> string \<Rightarrow> string" where
  "turned p e =
     (if machinePlatformMotionEnable p = JNum 1 \<and> \<not> oldPrinter p
      then (if e = ''Z-'' then ''Z+'' else if e = ''Z+'' then ''Z-'' else e) else e)"

definition tick_limit :: "string \<Rightarrow> rat \<Rightarrow> nat" where
  "tick_limit e w =
     (if e = ''Z+'' \<or> e = ''Z-'' then (if w > 10 then 120 else if w > 1 then 20 else 10)
      else if w > 10 then 100 else 10)"

text \<open>The width and the target of a move that is held within the printer.\<close>

definition held_within :: "ctrol_page \<Rightarrow> string \<Rightarrow> rat \<Rightarrow> rat \<times> rat option" where
  "held_within f e w =
     (case position_of f e of
        None \<Rightarrow> (w, None)
      | Some q \<Rightarrow>
          if CHR ''+'' \<in> set (tl e)
          then let m = ct_max f (the (axis_of e)) in if q + w > m then (m - q, Some m) else (w, Some (q + w))
          else if q - w < 0 then (w + (q - w), Some 0) else (w, Some (q - w)))"

definition move_axle :: "(nat \<Rightarrow> string) \<Rightarrow> string \<Rightarrow> ctrol_page \<Rightarrow> shell \<Rightarrow> ctrol_page \<times> shell" where
  "move_axle fresh e0 f s =
     (let p = printers (board s) (ct_printer f); w = step_width f in
      if ct_printStatus f = JNum 1 then (f\<lparr>ct_refused := Suc (ct_refused f)\<rparr>, s)
      else if deviceType p = 0
      then let e = turned p e0 in
           if oldPrinter p then (f, or_same (tell (MoveAxle_LAN (ct_address f) e w)) s)
           else if e = ''HXY'' \<or> e = ''HZ''
           then (wait_for e (Some 0) 100 f, or_same (tell (MoveAxle (ct_address f) e (show_number w))) s)
           else let (d, t) = held_within f e w
                in (wait_for e t (tick_limit e w) f, or_same (tell (MoveAxle (ct_address f) e (show_number d))) s)
      else if position_of f e0 \<notin> {None, Some 0} \<or> e0 = ''HXY'' \<or> e0 = ''HZ''
      then (f, ask fresh (\<lambda>uuid. MoveAxle_cloud uuid (the_text (tbId p)) e0 (case position_of f e0 of None \<Rightarrow> 0 | Some q \<Rightarrow> q) w) s)
      else (f, s))"

end
