(* ===== verification/Filament.thy ===== *)
theory Filament
  imports CtrolPage "HOL-Library.List_Lexorder" "HOL-Library.Char_ord"
begin

text \<open>
  The catalogue of filaments a printer knows and the form that edits a spool, as the panels
  \<open>DeviceFilament\<close> and the one of the small box (\<open>index\<close>, \<open>CeX73yR3.js\<close>) share them.  The code
  has both twice, word for word.  Filaments and spools are JSON objects; the texts that name
  them are ASCII, so that \<open>sort\<close> orders them by their characters.
\<close>

section \<open>The catalogue\<close>

type_synonym catalogue = "(string \<times> json list) list"

definition base_of :: "json \<Rightarrow> string \<Rightarrow> json" where
  "base_of m k = jget (jget m ''base'') k"

text \<open>One more filament, under its brand; \<open>forEach\<close> with \<open>push\<close> and \<open>reduce\<close> do the same.\<close>

definition list_filament :: "json \<Rightarrow> catalogue \<Rightarrow> catalogue" where
  "list_filament m c =
     (let b = the_text (base_of m ''brand'') in AList.update b ((case map_of c b of None \<Rightarrow> [] | Some ms \<Rightarrow> ms) @ [m]) c)"

definition list_filaments :: "json list \<Rightarrow> catalogue \<Rightarrow> catalogue" where
  "list_filaments ms c = fold list_filament ms c"

definition of_brand :: "string \<Rightarrow> catalogue \<Rightarrow> json list" where
  "of_brand b c = (case map_of c b of None \<Rightarrow> [] | Some ms \<Rightarrow> ms)"

section \<open>What can be chosen\<close>

definition kinds_of :: "catalogue \<Rightarrow> string \<Rightarrow> string list" where
  "kinds_of c b =
     sort (fold (\<lambda>m ks. let k = the_text (base_of m ''meterialType'') in if k \<in> set ks then ks else ks @ [k]) (of_brand b c) [])"

text \<open>A name is left out when the list already has the name of its \<^emph>\<open>type\<close>.\<close>

definition add_name :: "string \<Rightarrow> json \<Rightarrow> string list \<Rightarrow> string list" where
  "add_name k m ns =
     (if k = the_text (base_of m ''meterialType'')
      then (if the_text (base_of m ''meterialType'') \<in> set ns then ns else ns @ [the_text (base_of m ''name'')]) else ns)"

definition names_of :: "catalogue \<Rightarrow> string \<Rightarrow> string \<Rightarrow> string list" where
  "names_of c b k = sort (fold (add_name k) (of_brand b c) [])"

definition offered_names :: "catalogue \<Rightarrow> string \<Rightarrow> string \<Rightarrow> string list" where
  "offered_names c b k = remdups_adj (names_of c b k)"

section \<open>The spool that is edited\<close>

definition edit_text :: "string \<Rightarrow> json \<Rightarrow> string" where
  "edit_text k v = the_text (jget v k)"

text \<open>Listing the types sets an empty type, listing the names a name that is not among them.\<close>

definition settle_kind :: "catalogue \<Rightarrow> json \<Rightarrow> json" where
  "settle_kind c v =
     (let ks = kinds_of c (edit_text ''vendor'' v) in
      if ks \<noteq> [] \<and> jget v ''type'' = JStr [] then with_prop ''type'' (JStr (if ''PLA'' \<in> set ks then ''PLA'' else hd ks)) v else v)"

definition settle_name :: "catalogue \<Rightarrow> json \<Rightarrow> json" where
  "settle_name c v =
     (let ns = names_of c (edit_text ''vendor'' v) (edit_text ''type'' v) in
      if ns \<noteq> [] \<and> edit_text ''name'' v \<notin> set ns
      then with_prop ''name'' (JStr (if ''Hyper PLA'' \<in> set ns then ''Hyper PLA'' else hd ns)) v else v)"

definition settle_form :: "catalogue \<Rightarrow> json \<Rightarrow> json" where
  "settle_form c v = settle_name c (settle_kind c v)"

text \<open>The filament of the catalogue that is chosen: \<open>None\<close> is the \<open>TypeError\<close> of a brand that is
  not in it.\<close>

definition chosen_filament :: "catalogue \<Rightarrow> json \<Rightarrow> json option option" where
  "chosen_filament c v =
     map_option (find (\<lambda>m. base_of m ''meterialType'' = jget v ''type'' \<and> base_of m ''name'' = jget v ''name''))
       (map_of c (edit_text ''vendor'' v))"

definition number_or_zero :: "json \<Rightarrow> json" where
  "number_or_zero v = (if truthy v then v else JNum 0)"

definition temperatures :: "catalogue \<Rightarrow> json \<Rightarrow> (json \<times> json) option" where
  "temperatures c v =
     (if jget v ''vendor'' = JStr [] then Some (JNum 0, JNum 0)
      else map_option (\<lambda>m. case m of None \<Rightarrow> (JNum 0, JNum 0)
             | Some f \<Rightarrow> (number_or_zero (base_of f ''minTemp''), number_or_zero (base_of f ''maxTemp''))) (chosen_filament c v))"

definition pressure_advance :: "catalogue \<Rightarrow> json \<Rightarrow> json option" where
  "pressure_advance c v =
     (if jget v ''vendor'' = JStr [] then Some (JNum 0)
      else Option.bind (chosen_filament c v) (\<lambda>m. case m of None \<Rightarrow> Some (JNum 0)
             | Some f \<Rightarrow> if nullish (jget f ''kvParam'') then None else Some (number_or_zero (jget (jget f ''kvParam'') ''pressure_advance''))))"

text \<open>The spool as it is sent: its temperatures and pressure are those of the catalogue.\<close>

definition completed :: "catalogue \<Rightarrow> json \<Rightarrow> json option" where
  "completed c v =
     (case (temperatures c v, pressure_advance c v) of
        (Some (a, b), Some p) \<Rightarrow> Some (with_prop ''pressure'' p (with_prop ''maxTemp'' b (with_prop ''minTemp'' a v)))
      | _ \<Rightarrow> None)"

definition spool_of :: "json \<Rightarrow> spool_edit" where
  "spool_of v = \<lparr>se_id = jget v ''id'', se_rfid = jget v ''rfid'', se_type = jget v ''type'', se_vendor = jget v ''vendor'',
     se_name = jget v ''name'', se_color = edit_text ''color'' v, se_minTemp = jget v ''minTemp'', se_maxTemp = jget v ''maxTemp'',
     se_pressure = jget v ''pressure''\<rparr>"

definition cleared_spool :: "json \<Rightarrow> json" where
  "cleared_spool v = fold (\<lambda>k. with_prop k (JStr [])) [''vendor'', ''type'', ''name'', ''color''] v"

text \<open>\<open>minTemp > maxTemp\<close>; a temperature that is no number compares with nothing.\<close>

definition bad_range :: "json \<Rightarrow> bool" where
  "bad_range v =
     (case (to_number (jget v ''minTemp''), to_number (jget v ''maxTemp'')) of (Some a, Some b) \<Rightarrow> a > b | _ \<Rightarrow> False)"

text \<open>Whether an edited spool differs from the printer's own.\<close>

definition differs_in :: "string list \<Rightarrow> json \<Rightarrow> json \<Rightarrow> bool" where
  "differs_in ks v w = list_ex (\<lambda>k. jget w k \<noteq> jget v k) ks"

definition edited_fields :: "string list" where
  "edited_fields = [''vendor'', ''type'', ''name'', ''minTemp'', ''maxTemp'', ''percent'', ''state'', ''rfid'']"

section \<open>Boxes\<close>

definition spools :: "json \<Rightarrow> json list" where
  "spools b = elements (jget b ''materials'')"

definition member_with :: "string \<Rightarrow> json \<Rightarrow> json list \<Rightarrow> json option" where
  "member_with k i = find (\<lambda>x. jget x k = i)"

definition spool_at :: "json \<Rightarrow> json \<Rightarrow> json list \<Rightarrow> json option" where
  "spool_at b i bs = Option.bind (member_with ''id'' b bs) (\<lambda>x. member_with ''id'' i (spools x))"

text \<open>A feed that goes to a printer in the network is a message, in the cloud a request with the
  greatest temperature of the spool.\<close>

definition feed_cloud :: "(nat \<Rightarrow> string) \<Rightarrow> printer \<Rightarrow> json \<Rightarrow> nat \<Rightarrow> shell \<Rightarrow> shell" where
  "feed_cloud fresh p m j =
     ask fresh (\<lambda>uuid. feedInOrOutMaterial_cloud uuid (the_text (tbId p)) (jget m ''maxTemp'') (jget m ''cId'') (JNum (of_nat j)))"

definition feed_local :: "string \<Rightarrow> json \<Rightarrow> json \<Rightarrow> nat \<Rightarrow> shell \<Rightarrow> shell" where
  "feed_local t b i j = or_same (tell (feedInOrOutMaterial t b i (JNum (of_nat j))))"

end
