(* ===== verification/FilamentPage.thy ===== *)
theory FilamentPage
  imports Filament
begin

text \<open>
  The panel of a printer's spools (component \<open>DeviceFilament\<close> of \<open>CeX73yR3.js\<close>): its boxes and
  the spool outside of them, feeding and retracting, reading a spool again, the settings of the
  box and the form for a spool.  Texts that are shown are their English originals; a question
  is kept with what its answer does.  The watchers are operations that are called when what
  they watch has changed.
\<close>

section \<open>State\<close>

datatype box_kind = CFS | CFS_C | CFS_Lite | CFS_Mini

datatype fl_question =
    AskToEdit            \<comment> \<open>the spool is unknown; the answer opens its form\<close>
  | AskPlatform nat      \<comment> \<open>no foreign object on the platform; the answer feeds\<close>
  | AskOverwrite         \<comment> \<open>the answer sends the edited spool\<close>

record same_spools =
  same_color :: string
  same_kind :: json
  same_boxs :: "(string \<times> string option) list"

record filament_page =
  fl_address :: string
  fl_printer :: nat
  fl_cfs :: "json list"
  fl_external :: "json list"
  fl_same :: "same_spools list"
  fl_filled :: bool              \<comment> \<open>\<open>empty\<close>\<close>
  fl_active :: "json \<times> json \<times> json" \<comment> \<open>box, spool, state\<close>
  fl_holder :: "json \<times> json \<times> json \<times> json" \<comment> \<open>\<open>x.active\<close>: matId, boxId, state, type\<close>
  fl_by_holder :: bool           \<comment> \<open>\<open>b\<close>\<close>
  fl_feeding :: bool             \<comment> \<open>\<open>m\<close>\<close>
  fl_retracting :: bool          \<comment> \<open>\<open>h\<close>\<close>
  fl_refill :: bool              \<comment> \<open>\<open>v\<close>\<close>
  fl_refill_shown :: bool        \<comment> \<open>\<open>y\<close>\<close>
  fl_page :: "nat option"        \<comment> \<open>\<open>currentPage\<close>\<close>
  fl_read :: "json \<times> json"      \<comment> \<open>\<open>currentBoxId\<close>, \<open>currentId\<close>\<close>
  fl_box :: nat                  \<comment> \<open>\<open>currentCFS\<close>\<close>
  fl_humidity :: json
  fl_config :: "(string \<times> bool) list"
  fl_material :: catalogue
  fl_edit :: json
  fl_edit_at :: "json \<times> json \<times> json" \<comment> \<open>box, spool, type of the box\<close>
  fl_color :: string
  fl_alerts :: "string list"
  fl_questions :: "fl_question list"
  fl_rereads :: nat              \<comment> \<open>timeouts that will reset \<open>refreshBox\<close>\<close>

definition new_filament_page :: "string \<Rightarrow> nat \<Rightarrow> filament_page" where
  "new_filament_page t n =
     \<lparr>fl_address = t, fl_printer = n, fl_cfs = [], fl_external = [], fl_same = [], fl_filled = False,
      fl_active = (JNum (-1), JNum (-1), JNum 1), fl_holder = (JNull, JNull, JNull, JUndefined), fl_by_holder = False,
      fl_feeding = False, fl_retracting = False, fl_refill = False, fl_refill_shown = False, fl_page = Some 0,
      fl_read = (JNum (-1), JNum (-1)), fl_box = 0, fl_humidity = JNum 0, fl_config = [], fl_material = [],
      fl_edit = JNull, fl_edit_at = (JNum (-1), JNum (-1), JUndefined), fl_color = ''#F4E076'', fl_alerts = [],
      fl_questions = [], fl_rereads = 0\<rparr>"

definition alert :: "string \<Rightarrow> filament_page \<Rightarrow> filament_page" where
  "alert t f = f\<lparr>fl_alerts := fl_alerts f @ [t]\<rparr>"

definition question :: "fl_question \<Rightarrow> filament_page \<Rightarrow> filament_page" where
  "question q f = f\<lparr>fl_questions := fl_questions f @ [q]\<rparr>"

definition shown_printer :: "filament_page \<Rightarrow> shell \<Rightarrow> printer" where
  "shown_printer f s = printers (board s) (fl_printer f)"

section \<open>The settings of the box\<close>

definition kind_of_box :: "printer \<Rightarrow> box_kind" where
  "kind_of_box p =
     (let n = cfsName (boxsInfo p) in
      if n = JStr ''MF050'' then CFS_C else if n = JStr ''MF040'' then CFS_Lite else if n = JStr ''MF046'' then CFS_Mini else CFS)"

definition config_labels :: "json \<Rightarrow> string list" where
  "config_labels n =
     (if n = JStr ''MF040'' then [''Detection on insertion'', ''Automatic feeding system'']
      else if n = JStr ''MF050''
      then [''Detection on insertion'', ''Detection at startup'', ''Automatic feeding system'',
            ''Ignore color automatic material refill.'', ''Replace the Cutter.'']
      else [''Detection on insertion'', ''Detection at startup'', ''Automatic feeding system''])"

definition config_values :: "printer \<Rightarrow> json list" where
  "config_values p = (let c = boxConfig p in [cAutoFeed c, cSelfTest c, autoRefill c, ignoreColorAutoFeed c])"

text \<open>Which of the four values the switches of a kind show.\<close>

definition switch_values :: "box_kind \<Rightarrow> nat list" where
  "switch_values k = (case k of CFS_C \<Rightarrow> [0, 1, 2, 3] | CFS_Lite \<Rightarrow> [0, 2] | _ \<Rightarrow> [0, 1, 2])"

text \<open>\<open>None\<close> is the \<open>TypeError\<close> of a switch that is not there.\<close>

definition show_config :: "json list \<Rightarrow> printer \<Rightarrow> filament_page \<Rightarrow> filament_page option" where
  "show_config vs p f =
     (let k = kind_of_box p; js = switch_values k; on = (\<lambda>i. vs ! i = JNum 1) in
      if length (fl_config f) < length js then None
      else Some (f\<lparr>fl_refill := on 2 \<or> (k = CFS_C \<and> on 3),
        fl_config := map2 (\<lambda>c i. (fst c, on i)) (take (length js) (fl_config f)) js @ drop (length js) (fl_config f)\<rparr>))"

definition boxes_named :: "json \<Rightarrow> printer \<Rightarrow> filament_page \<Rightarrow> filament_page option" where
  "boxes_named n p f = show_config (config_values p) p (f\<lparr>fl_config := map (\<lambda>l. (l, False)) (config_labels n)\<rparr>)"

definition bit_of :: "bool \<Rightarrow> json" where
  "bit_of b = JNum (of_bool b)"

definition switch_is :: "filament_page \<Rightarrow> nat \<Rightarrow> bool" where
  "switch_is f i = snd (fl_config f ! i)"

text \<open>What is sent of the settings to a printer in the network; a switch that is not there throws.\<close>

definition config_message :: "filament_page \<Rightarrow> printer \<Rightarrow> dashboard \<Rightarrow> dashboard option" where
  "config_message f p s =
     (let t = fl_address f; b = (\<lambda>i. bit_of (switch_is f i)) in
      if length (fl_config f) < length (switch_values (kind_of_box p)) then None
      else case kind_of_box p of
        CFS_C \<Rightarrow> SetBoxsCfscConfig t (b 2) (b 0) (b 1) (b 3) s
      | CFS_Lite \<Rightarrow> SetBoxsCfsLiteConfig t (b 0) (b 1) s
      | _ \<Rightarrow> SetBoxsConfig t (b 2) (b 0) (b 1) s)"

definition config_request :: "filament_page \<Rightarrow> printer \<Rightarrow> nat \<Rightarrow> (string \<Rightarrow> cloud_api \<Rightarrow> cloud_api) option" where
  "config_request f p j =
     (let t = the_text (tbId p); b = bit_of (switch_is f j);
          reqs = (case kind_of_box p of
              CFS_C \<Rightarrow> [SetCfsConfigAutoFeed, SetCfsConfigSelfTest, SetCfsConfigautoRefill, SetCfscConfigautoIgnoreColor]
            | CFS_Lite \<Rightarrow> [SetCfsConfigAutoFeed, SetCfsConfigautoRefill]
            | _ \<Rightarrow> [SetCfsConfigAutoFeed, SetCfsConfigSelfTest, SetCfsConfigautoRefill])
      in if j < length reqs then Some (\<lambda>uuid. (reqs ! j) uuid t b) else None)"

definition press_config :: "(nat \<Rightarrow> string) \<Rightarrow> nat \<Rightarrow> bool \<Rightarrow> filament_page \<Rightarrow> shell \<Rightarrow> filament_page \<times> shell" where
  "press_config fresh j on f0 s =
     (let f = f0\<lparr>fl_config := (fl_config f0)[j := (fst (fl_config f0 ! j), on)]\<rparr>; p = shown_printer f s;
          f1 = f\<lparr>fl_refill := (j = 1 \<and> kind_of_box p = CFS_Lite \<or> j = 2) \<and> on\<rparr>
      in (f1, if deviceType p = 0 then or_same (tell (config_message f p)) s
              else if deviceType p = 1
              then (case config_request f p j of None \<Rightarrow> s | Some r \<Rightarrow> ask fresh r s) else s))"

section \<open>Boxes\<close>

text \<open>The letter of a spool, \<open>A\<close> for 0; there is none beyond \<open>Z\<close>.\<close>

definition letter_at :: "json \<Rightarrow> string" where
  "letter_at v =
     (case to_number v of
        None \<Rightarrow> ''A''
      | Some q \<Rightarrow> let i = (if q < 0 then - \<lfloor>- q\<rfloor> else \<lfloor>q\<rfloor>) in if 0 \<le> i \<and> i < 26 then [char_of (65 + nat i)] else [])"

definition slot_label :: "json \<Rightarrow> string" where
  "slot_label v = js_text (jget v ''boxId'') @ letter_at (jget v ''materialId'')"

definition has_all :: "string list \<Rightarrow> json \<Rightarrow> bool" where
  "has_all ks v = list_all (\<lambda>k. hasOwn v k) ks"

definition hash_color :: "json \<Rightarrow> string" where
  "hash_color v = ''#'' @ drop 1 (the_text v)"

text \<open>The groups of like spools as the printers list them: a group that is too short ends the
  list, one with a single spool is passed over.\<close>

definition colored_group :: "json list \<Rightarrow> same_spools option" where
  "colored_group g =
     (let bs = map (\<lambda>v. (slot_label v, Some (hash_color (jget v ''color''))))
                 (filter (has_all [''boxId'', ''materialId'', ''color'']) (elements (g ! 1)))
      in if length bs < 2 then None else Some \<lparr>same_color = the (snd (hd bs)), same_kind = g ! 2, same_boxs = bs\<rparr>)"

definition local_group :: "json list \<Rightarrow> same_spools option" where
  "local_group g =
     (let bs = map (\<lambda>v. (slot_label v, None)) (filter (has_all [''boxId'', ''materialId'']) (elements (g ! 2)))
      in if length bs < 2 then None else Some \<lparr>same_color = hash_color (g ! 1), same_kind = g ! 3, same_boxs = bs\<rparr>)"

definition cloud_group :: "json list \<Rightarrow> same_spools option" where
  "cloud_group g =
     (let strip = (\<lambda>t. if t \<noteq> [] \<and> hd t = CHR ''T'' then tl t else t);
          bs = map (\<lambda>v. (strip (the_text v), None)) (elements (g ! 2))
      in if length bs < 2 then None else Some \<lparr>same_color = hash_color (g ! 1), same_kind = g ! 3, same_boxs = bs\<rparr>)"

definition same_groups :: "printer \<Rightarrow> same_spools list" where
  "same_groups p =
     (let b = boxsInfo p; until = (\<lambda>n f v. List.map_filter f (takeWhile (\<lambda>g. n \<le> length g) (map elements (elements v)))) in
      if deviceType p = 0
      then if kind_of_box p = CFS_C \<and> truthy (ignoreColorAutoFeed (boxConfig p)) \<and> color_same_material b \<noteq> JUndefined
           then until 3 colored_group (color_same_material b)
           else until 4 local_group (same_material b)
      else List.map_filter cloud_group (filter (\<lambda>g. 4 \<le> length g) (map elements (elements (same_material b)))))"

definition sort_boxes :: "printer \<Rightarrow> filament_page \<Rightarrow> filament_page" where
  "sort_boxes p f =
     (let bs = materialBoxs (boxsInfo p) in
      f\<lparr>fl_external := filter (\<lambda>b. eq_num (jget b ''type'') 1) bs,
        fl_cfs := filter (\<lambda>b. \<not> eq_num (jget b ''type'') 1 \<and> eq_num (jget b ''type'') 0) bs,
        fl_filled := bs \<noteq> [], fl_same := same_groups p\<rparr>)"

text \<open>What the watcher of the boxes, the materials and one setting does.  The materials of a
  printer in the network are put beside those that are there; those of the cloud take their
  place.\<close>

definition boxes_changed :: "printer \<Rightarrow> filament_page \<Rightarrow> filament_page" where
  "boxes_changed p f =
     (let f1 = sort_boxes p f in
      if \<not> truthy (material p) then f1
      else if deviceType p = 0 then f1\<lparr>fl_material := list_filaments (elements (material p)) (fl_material f1)\<rparr>
      else f1\<lparr>fl_material := list_filaments (elements (material p)) []\<rparr>)"

text \<open>The form follows the printer while it is open.\<close>

definition refresh_edit :: "printer \<Rightarrow> filament_page \<Rightarrow> filament_page" where
  "refresh_edit p f =
     (if fl_page f \<noteq> Some 3 then f
      else case spool_at (fst (fl_edit_at f)) (fst (snd (fl_edit_at f))) (materialBoxs (boxsInfo p)) of
             None \<Rightarrow> f
           | Some v \<Rightarrow> f\<lparr>fl_edit := fold (\<lambda>k. with_prop k (jget v k))
               [''color'', ''vendor'', ''type'', ''name'', ''minTemp'', ''maxTemp'', ''pressure'', ''state'', ''percent'', ''rfid'']
               (fl_edit f)\<rparr>)"

text \<open>The box that is shown is the last one a spool of which is in use.\<close>

definition follow_box :: "json \<Rightarrow> filament_page \<Rightarrow> filament_page" where
  "follow_box v f =
     (let bs = filter (\<lambda>b. jget b ''type'' = JNum 0) (elements v);
          used = filter (\<lambda>i. list_ex (\<lambda>m. jget m ''selected'' = JNum 1) (spools (bs ! i))) [0..<length bs]
      in if used = [] then f else f\<lparr>fl_box := last used\<rparr>)"

definition connection_changed :: "printer \<Rightarrow> shell \<Rightarrow> shell" where
  "connection_changed p s = (if deviceType p = 0 \<and> online p then on_shell_board (GetBoxsInfo (address p)) s else s)"

definition feed_state_changed :: "json \<Rightarrow> filament_page \<Rightarrow> filament_page" where
  "feed_state_changed j f =
     (let moving = j \<notin> {JNum 0, JNum 3, JNum 14} in f\<lparr>fl_feeding := moving, fl_retracting := moving\<rparr>)"

definition material_state_changed :: "nat \<Rightarrow> dashboard \<Rightarrow> dashboard" where
  "material_state_changed n = upd n (\<lambda>p.
     let x = materialState p;
         put = fold (\<lambda>k. with_prop k (jget x k)) [''editStatus'', ''percent'', ''selected'', ''state''];
         spool = (\<lambda>m. if jget m ''id'' = jget x ''materialId'' then put m else m);
         box = (\<lambda>b. if jget b ''id'' = jget x ''boxId'' then with_prop ''materials'' (JArr (map spool (spools b))) b else b)
     in if nullish x then p else p\<lparr>boxsInfo := (boxsInfo p)\<lparr>materialBoxs := map box (materialBoxs (boxsInfo p))\<rparr>\<rparr>)"

text \<open>A small hint is shown once and the mark put back.\<close>

definition tip_forming :: "nat \<Rightarrow> filament_page \<Rightarrow> dashboard \<Rightarrow> filament_page \<times> dashboard" where
  "tip_forming n f s =
     (let p = printers s n in
      if cfsCModifyMaterial p = JNum 0 \<and> kind_of_box p = CFS_C
      then (alert ''The current consumables are optimizing the tip forming technology. CFS-C printing is not supported for now.'' f,
            upd n (\<lambda>p. p\<lparr>cfsCModifyMaterial := JNum 1\<rparr>) s)
      else (f, s))"

definition filament_opened :: "filament_page \<Rightarrow> shell \<Rightarrow> filament_page \<times> shell" where
  "filament_opened f s =
     (let p = shown_printer f s; t = fl_address f;
          asked = (if deviceType p = 0 then Option.bind (tell (GetBoxsConfig t) s) (tell (ReqMaterials t)) else Some s)
      in case asked of
           None \<Rightarrow> (f, or_same (tell (GetBoxsConfig t)) s)
         | Some s1 \<Rightarrow>
             (sort_boxes p f,
              case map_of (printerPreset (board s1)) (model p) of
                None \<Rightarrow> s1
              | Some q \<Rightarrow> on_shell_board (post [(''command'', JStr ''req_device_move_direction''),
                  (''preset_name'', JStr (preset_question q)), (''address'', JStr t)]) s1))"

end
