(* ===== verification/DefaultFilaments.thy ===== *)
theory DefaultFilaments
  imports Filament
begin

text \<open>
  The filaments a panel offers while a printer has not sent its own (\<open>XJe\<close>, \<open>ZJe\<close> of
  \<open>CeX73yR3.js\<close>).  An entry is its \<open>base\<close>, in full, and of the slicer's parameters in
  \<open>kvParam\<close> the one that is read, \<open>pressure_advance\<close>.  The engine's version, the printer and
  the nozzle are the same for all.
\<close>

definition filament_entry ::
  "string \<Rightarrow> string \<Rightarrow> string \<Rightarrow> string \<Rightarrow> string \<Rightarrow> rat \<Rightarrow> rat \<Rightarrow> rat \<Rightarrow> rat \<Rightarrow> bool \<Rightarrow> bool \<Rightarrow> rat list \<Rightarrow> string \<Rightarrow> json" where
  "filament_entry i brand n ty color density rank lo hi soluble support dry pa =
     JObj [(''engineVersion'', JStr ''3.0.0''), (''printerIntName'', JStr ''F008''), (''nozzleDiameter'', JArr [JStr ''0.4'']),
       (''kvParam'', JObj [(''pressure_advance'', JStr pa)]),
       (''base'', JObj [(''id'', JStr i), (''brand'', JStr brand), (''name'', JStr n), (''meterialType'', JStr ty),
         (''colors'', JArr [JStr color]), (''density'', JNum density), (''diameter'', JStr ''1.75''),
         (''costPerMeter'', JNum 0), (''weightPerMeter'', JNum 0), (''rank'', JNum rank),
         (''minTemp'', JNum lo), (''maxTemp'', JNum hi), (''isSoluble'', JBool soluble), (''isSupport'', JBool support),
         (''shrinkageRate'', JNum (dry ! 0)), (''softeningTemp'', JNum (dry ! 1)),
         (''dryingTemp'', JNum (dry ! 2)), (''dryingTime'', JNum (dry ! 3))])]"

lemma base_of_entry [simp]:
  "base_of (filament_entry i b n ty c d r lo hi so su dr pa) ''brand'' = JStr b"
  "base_of (filament_entry i b n ty c d r lo hi so su dr pa) ''name'' = JStr n"
  "base_of (filament_entry i b n ty c d r lo hi so su dr pa) ''meterialType'' = JStr ty"
  "base_of (filament_entry i b n ty c d r lo hi so su dr pa) ''minTemp'' = JNum lo"
  "base_of (filament_entry i b n ty c d r lo hi so su dr pa) ''maxTemp'' = JNum hi"
  by (simp_all add: filament_entry_def base_of_def)

section \<open>The entries\<close>

definition filament_01001 :: json where
  "filament_01001 = filament_entry ''01001'' ''Creality'' ''Hyper PLA'' ''PLA''
     ''#ffffff'' (124 / 100) 410 190 240 False False [0, 0, 0, 0] ''0.04''"

definition filament_02001 :: json where
  "filament_02001 = filament_entry ''02001'' ''Creality'' ''Hyper PLA-CF'' ''PLA-CF''
     ''#ffffff'' (127 / 100) 400 190 240 False False [0, 0, 0, 0] ''0.04''"

definition filament_06002 :: json where
  "filament_06002 = filament_entry ''06002'' ''Creality'' ''Hyper PETG'' ''PETG''
     ''#000000'' (1275 / 1000) 391 220 260 False False [0, 0, 0, 0] ''0.05''"

definition filament_03001 :: json where
  "filament_03001 = filament_entry ''03001'' ''Creality'' ''Hyper ABS'' ''ABS''
     ''#ffffff'' (108 / 100) 390 230 260 False False [0, 0, 0, 0] ''0.03''"

definition filament_09002 :: json where
  "filament_09002 = filament_entry ''09002'' ''Creality'' ''ENDER FAST PLA'' ''PLA''
     ''#000000'' (121 / 100) 389 190 240 False False [0, 53, 50, 6] ''0.04''"

definition filament_04001 :: json where
  "filament_04001 = filament_entry ''04001'' ''Creality'' ''CR-PLA'' ''PLA''
     ''#ffffff'' (124 / 100) 380 190 240 False False [0, 0, 0, 0] ''0.04''"

definition filament_05001 :: json where
  "filament_05001 = filament_entry ''05001'' ''Creality'' ''CR-Silk'' ''PLA''
     ''#000000'' (125 / 100) 370 190 240 False False [0, 0, 0, 0] ''0.04''"

definition filament_06001 :: json where
  "filament_06001 = filament_entry ''06001'' ''Creality'' ''CR-PETG'' ''PETG''
     ''#ffffff'' (123 / 100) 360 220 270 False False [0, 0, 0, 0] ''0.07''"

definition filament_07001 :: json where
  "filament_07001 = filament_entry ''07001'' ''Creality'' ''CR-ABS'' ''ABS''
     ''#ffffff'' (108 / 100) 350 230 260 False False [0, 0, 0, 0] ''0.04''"

definition filament_00001 :: json where
  "filament_00001 = filament_entry ''00001'' ''Generic'' ''Generic PLA'' ''PLA''
     ''#ffffff'' (124 / 100) 340 190 240 False False [0, 0, 0, 0] ''0.04''"

definition filament_00002 :: json where
  "filament_00002 = filament_entry ''00002'' ''Generic'' ''Generic PLA-Silk'' ''PLA''
     ''#ffffff'' (124 / 100) 330 190 240 False False [0, 0, 0, 0] ''0.04''"

definition filament_00003 :: json where
  "filament_00003 = filament_entry ''00003'' ''Generic'' ''Generic PETG'' ''PETG''
     ''#ffffff'' (124 / 100) 320 220 270 False False [0, 0, 0, 0] ''0.1''"

definition filament_00004 :: json where
  "filament_00004 = filament_entry ''00004'' ''Generic'' ''Generic ABS'' ''ABS''
     ''#ffffff'' (124 / 100) 310 240 280 False False [0, 0, 0, 0] ''0.06''"

definition filament_00005 :: json where
  "filament_00005 = filament_entry ''00005'' ''Generic'' ''Generic TPU'' ''TPU''
     ''#ffffff'' (124 / 100) 300 200 250 False False [0, 0, 0, 0] ''0.3''"

definition filament_00006 :: json where
  "filament_00006 = filament_entry ''00006'' ''Generic'' ''Generic PLA-CF'' ''PLA-CF''
     ''#ffffff'' (124 / 100) 290 190 240 False False [0, 0, 0, 0] ''0.05''"

definition filament_00007 :: json where
  "filament_00007 = filament_entry ''00007'' ''Generic'' ''Generic ASA'' ''ASA''
     ''#ffffff'' (124 / 100) 280 240 280 False False [0, 0, 0, 0] ''0.04''"

definition filament_08001 :: json where
  "filament_08001 = filament_entry ''08001'' ''Creality'' ''Ender-PLA'' ''PLA''
     ''#ffffff'' (124 / 100) 270 190 240 False False [0, 0, 0, 0] ''0.04''"

definition filament_09001 :: json where
  "filament_09001 = filament_entry ''09001'' ''Creality'' ''EN-PLA+'' ''PLA''
     ''#ffffff'' (124 / 100) 260 190 240 False False [0, 0, 0, 0] ''0.04''"

definition filament_10001 :: json where
  "filament_10001 = filament_entry ''10001'' ''Creality'' ''HP-TPU'' ''TPU''
     ''#ffffff'' (126 / 100) 250 200 220 False False [0, 0, 0, 0] ''0.4''"

definition filament_11001 :: json where
  "filament_11001 = filament_entry ''11001'' ''Creality'' ''CR-Nylon'' ''PA''
     ''#ffffff'' (112 / 100) 240 250 270 False False [0, 0, 0, 0] ''0.064''"

definition filament_13001 :: json where
  "filament_13001 = filament_entry ''13001'' ''Creality'' ''CR-PLA Carbon'' ''PLA''
     ''#ffffff'' (125 / 100) 220 190 240 False False [0, 0, 0, 0] ''0.04''"

definition filament_14001 :: json where
  "filament_14001 = filament_entry ''14001'' ''Creality'' ''CR-PLA Matte'' ''PLA''
     ''#ffffff'' (13 / 10) 210 190 240 False False [0, 0, 0, 0] ''0.04''"

definition filament_15001 :: json where
  "filament_15001 = filament_entry ''15001'' ''Creality'' ''CR-PLA Fluo'' ''PLA''
     ''#ffffff'' (124 / 100) 200 190 240 False False [0, 0, 0, 0] ''0.044''"

definition filament_16001 :: json where
  "filament_16001 = filament_entry ''16001'' ''Creality'' ''CR-TPU'' ''TPU''
     ''#ffffff'' (112 / 100) 190 210 240 False False [0, 0, 0, 0] ''0.05''"

definition filament_17001 :: json where
  "filament_17001 = filament_entry ''17001'' ''Creality'' ''CR-Wood'' ''PLA''
     ''#ffffff'' (122 / 100) 180 190 240 False False [0, 0, 0, 0] ''0.044''"

definition filament_18001 :: json where
  "filament_18001 = filament_entry ''18001'' ''Creality'' ''HP Ultra PLA'' ''PLA''
     ''#ffffff'' (123 / 100) 170 190 240 False False [0, 0, 0, 0] ''0.04''"

definition filament_19001 :: json where
  "filament_19001 = filament_entry ''19001'' ''Creality'' ''HP-ASA'' ''ASA''
     ''#ffffff'' (115 / 100) 160 240 280 False False [0, 0, 0, 0] ''0.04''"

definition filament_00008 :: json where
  "filament_00008 = filament_entry ''00008'' ''Generic'' ''Generic PA'' ''PA''
     ''#ffffff'' (124 / 100) 140 240 260 False False [0, 0, 0, 0] ''0.06''"

definition filament_00009 :: json where
  "filament_00009 = filament_entry ''00009'' ''Generic'' ''Generic PA-CF'' ''PA-CF''
     ''#ffffff'' (124 / 100) 130 260 300 False False [0, 0, 0, 0] ''0.036''"

definition filament_00010 :: json where
  "filament_00010 = filament_entry ''00010'' ''Generic'' ''Generic BVOH'' ''BVOH''
     ''#ffffff'' (124 / 100) 120 200 220 True True [0, 0, 0, 0] ''0.04''"

definition filament_00011 :: json where
  "filament_00011 = filament_entry ''00011'' ''Generic'' ''Generic PVA'' ''PVA''
     ''#ffffff'' (124 / 100) 110 215 225 True True [0, 0, 0, 0] ''0.04''"

definition filament_00012 :: json where
  "filament_00012 = filament_entry ''00012'' ''Generic'' ''Generic HIPS'' ''HIPS''
     ''#ffffff'' (124 / 100) 100 220 250 False False [0, 0, 0, 0] ''0.05''"

definition filament_00013 :: json where
  "filament_00013 = filament_entry ''00013'' ''Generic'' ''Generic PET-CF'' ''PET-CF''
     ''#ffffff'' (124 / 100) 90 280 320 False False [0, 0, 0, 0] ''0.034''"

definition filament_00014 :: json where
  "filament_00014 = filament_entry ''00014'' ''Generic'' ''Generic PETG-CF'' ''PETG-CF''
     ''#ffffff'' (124 / 100) 80 240 260 False False [0, 0, 0, 0] ''0.02''"

definition filament_00015 :: json where
  "filament_00015 = filament_entry ''00015'' ''Generic'' ''Generic PA6-CF'' ''PA6-CF''
     ''#ffffff'' (124 / 100) 70 280 300 False False [0, 0, 0, 0] ''0.048''"

definition filament_00016 :: json where
  "filament_00016 = filament_entry ''00016'' ''Generic'' ''Generic PAHT-CF'' ''PAHT-CF''
     ''#ffffff'' (124 / 100) 60 300 320 False False [0, 0, 0, 0] ''0.036''"

definition filament_00017 :: json where
  "filament_00017 = filament_entry ''00017'' ''Generic'' ''Generic PPS'' ''PPS''
     ''#ffffff'' (124 / 100) 50 320 350 False False [0, 0, 0, 0] ''0.02''"

definition filament_00018 :: json where
  "filament_00018 = filament_entry ''00018'' ''Generic'' ''Generic PPS-CF'' ''PPS-CF''
     ''#ffffff'' (124 / 100) 40 305 320 False False [0, 0, 0, 0] ''0.058''"

definition filament_00019 :: json where
  "filament_00019 = filament_entry ''00019'' ''Generic'' ''Generic PP'' ''PP''
     ''#ffffff'' (124 / 100) 30 220 250 False False [0, 0, 0, 0] ''0.08''"

definition filament_00020 :: json where
  "filament_00020 = filament_entry ''00020'' ''Generic'' ''Generic PET'' ''PET''
     ''#ffffff'' (124 / 100) 20 210 230 False False [40, 0, 0, 0] ''0.02''"

definition filament_00021 :: json where
  "filament_00021 = filament_entry ''00021'' ''Generic'' ''Generic PC'' ''PC''
     ''#ffffff'' (124 / 100) 10 250 270 False False [0, 0, 0, 0] ''0.03''"

definition filament_00022 :: json where
  "filament_00022 = filament_entry ''00022'' ''Generic'' ''Generic PA612-CF'' ''PA-CF''
     ''#000000'' (117 / 100) 9 270 310 False False [0, 0, 0, 0] ''0.048''"

definition filament_12003 :: json where
  "filament_12003 = filament_entry ''12003'' ''Creality'' ''Hyper PAHT-CF'' ''PA-CF''
     ''#000000'' (106 / 100) 8 280 320 False False [0, 0, 0, 0] ''0.036''"

definition filament_00023 :: json where
  "filament_00023 = filament_entry ''00023'' ''Generic'' ''Generic Support for PA'' ''PA''
     ''#000000'' (117 / 100) 7 260 300 False False [0, 0, 0, 0] ''0.034''"

definition filament_12002 :: json where
  "filament_12002 = filament_entry ''12002'' ''Creality'' ''Hyper PPA-CF'' ''PA-CF''
     ''#000000'' (125 / 100) 7 280 320 False False [0, 0, 0, 0] ''0.04''"

definition filament_00024 :: json where
  "filament_00024 = filament_entry ''00024'' ''Generic'' ''Generic Support for PLA'' ''PLA''
     ''#000000'' (128 / 100) 6 190 240 False False [0, 0, 0, 0] ''0.04''"

definition filament_00025 :: json where
  "filament_00025 = filament_entry ''00025'' ''Generic'' ''Generic PA12-CF'' ''PA-CF''
     ''#000000'' (106 / 100) 4 270 310 False False [0, 0, 0, 0] ''0.048''"

definition filament_00033 :: json where
  "filament_00033 = filament_entry ''00033'' ''Generic'' ''Generic ASA-CF'' ''ASA-CF''
     ''#000000'' (127 / 100) 1 0 0 False False [0, 0, 0, 0] ''0.036''"

definition filament_00026 :: json where
  "filament_00026 = filament_entry ''00026'' ''Generic'' ''Generic TPU 64D'' ''TPU''
     ''#000000'' (115 / 100) 1 0 0 False False [0, 0, 0, 0] ''0.04''"

definition filament_07002 :: json where
  "filament_07002 = filament_entry ''07002'' ''Creality'' ''Hyper PC'' ''PC''
     ''#000000'' (119 / 100) 1 0 0 False False [0, 0, 0, 0] ''0.03''"

definition filament_01601 :: json where
  "filament_01601 = filament_entry ''01601'' ''Creality'' ''Soleyin Ultra PLA'' ''PLA''
     ''#000000'' (125 / 100) 1 190 230 False False [0, 0, 0, 0] ''0.06''"

section \<open>The table\<close>

definition default_materials :: "json list" where
  "default_materials = [
     filament_01001, filament_02001, filament_06002, filament_03001, filament_09002,
     filament_04001, filament_05001, filament_06001, filament_07001, filament_00001,
     filament_00002, filament_00003, filament_00004, filament_00005, filament_00006,
     filament_00007, filament_08001, filament_09001, filament_10001, filament_11001,
     filament_13001, filament_14001, filament_15001, filament_16001, filament_17001,
     filament_18001, filament_19001, filament_00008, filament_00009, filament_00010,
     filament_00011, filament_00012, filament_00013, filament_00014, filament_00015,
     filament_00016, filament_00017, filament_00018, filament_00019, filament_00020,
     filament_00021, filament_00022, filament_12003, filament_00023, filament_12002,
     filament_00024, filament_00025, filament_00033, filament_00026, filament_07002,
     filament_01601]"

lemmas default_entries =
  filament_01001_def filament_02001_def filament_06002_def filament_03001_def filament_09002_def
  filament_04001_def filament_05001_def filament_06001_def filament_07001_def filament_00001_def
  filament_00002_def filament_00003_def filament_00004_def filament_00005_def filament_00006_def
  filament_00007_def filament_08001_def filament_09001_def filament_10001_def filament_11001_def
  filament_13001_def filament_14001_def filament_15001_def filament_16001_def filament_17001_def
  filament_18001_def filament_19001_def filament_00008_def filament_00009_def filament_00010_def
  filament_00011_def filament_00012_def filament_00013_def filament_00014_def filament_00015_def
  filament_00016_def filament_00017_def filament_00018_def filament_00019_def filament_00020_def
  filament_00021_def filament_00022_def filament_12003_def filament_00023_def filament_12002_def
  filament_00024_def filament_00025_def filament_00033_def filament_00026_def filament_07002_def
  filament_01601_def

end
