(* ===== verification/FilamentActs.thy ===== *)
theory FilamentActs
  imports FilamentPage DefaultFilaments
begin

text \<open>
  What is done on the panel of spools (component \<open>DeviceFilament\<close>): choosing a spool, feeding and
  retracting, reading a spool again, the cutter, and the form for a spool.
\<close>

section \<open>Choosing\<close>

text \<open>The spool outside of the boxes, and one in a box; the state of a printer at work forbids
  the first.\<close>

definition choose_holder :: "json \<Rightarrow> json \<Rightarrow> filament_page \<Rightarrow> shell \<Rightarrow> filament_page" where
  "choose_holder b m f s =
     (if state (shown_printer f s) = JNum 1 then f
      else f\<lparr>fl_by_holder := True, fl_active := (JNum (-1), JNum (-1), JNum 1),
             fl_holder := (jget b ''id'', jget m ''id'', jget m ''state'', jget m ''type'')\<rparr>)"

definition choose_spool :: "json \<Rightarrow> json \<Rightarrow> filament_page \<Rightarrow> filament_page" where
  "choose_spool b m f = f\<lparr>fl_by_holder := False, fl_active := (jget b ''id'', jget m ''id'', jget m ''state'')\<rparr>"

definition open_settings :: "filament_page \<Rightarrow> filament_page" where
  "open_settings f = f\<lparr>fl_page := Some 1\<rparr>"

definition open_humidity :: "json \<Rightarrow> filament_page \<Rightarrow> filament_page" where
  "open_humidity b f = f\<lparr>fl_humidity := jget b ''humidity'', fl_page := Some 2\<rparr>"

definition open_refill :: "filament_page \<Rightarrow> filament_page" where
  "open_refill f = f\<lparr>fl_refill_shown := \<not> fl_refill_shown f, fl_page := None\<rparr>"

definition close_refill :: "filament_page \<Rightarrow> filament_page" where
  "close_refill f = f\<lparr>fl_page := Some 0, fl_refill_shown := \<not> fl_refill_shown f\<rparr>"

definition to_front :: "filament_page \<Rightarrow> filament_page" where
  "to_front f = f\<lparr>fl_page := Some 0\<rparr>"

text \<open>The guide opens in the language of the page.\<close>

definition open_guide :: "bool \<Rightarrow> shell \<Rightarrow> shell" where
  "open_guide chinese = on_shell_board (post [(''command'', JStr ''common_openurl''),
     (''url'', JStr (''https://wiki.creality.com/'' @ (if chinese then ''zh'' else ''en'')
        @ ''/software/update-released/Basic-introduction/CFS-tutorial''))])"

text \<open>Whether a spool can be read again, and how it is named beside its box.\<close>

definition reading_offered :: "printer \<Rightarrow> filament_page \<Rightarrow> bool" where
  "reading_offered p f \<longleftrightarrow> \<not> fl_feeding f \<and> \<not> fl_retracting f \<and> state p \<notin> {JNum 6, JNum 7}"

definition spool_label :: "json \<Rightarrow> nat \<Rightarrow> string" where
  "spool_label b i = js_text (jget b ''id'') @ (if i < 16 then [char_of (65 + i)] else ''undefined'')"

section \<open>Feeding and retracting\<close>

text \<open>The first spool of the boxes that is in use.\<close>

definition spool_in_use :: "filament_page \<Rightarrow> (json \<times> json) option" where
  "spool_in_use f =
     List.find (\<lambda>_. True) (List.map_filter
       (\<lambda>b. if jget b ''state'' \<noteq> JNum 0 \<and> jget b ''type'' = JNum 0
            then map_option (\<lambda>m. (jget b ''id'', jget m ''id'')) (member_with ''selected'' (JNum 1) (spools b)) else None)
       (fl_cfs f))"

text \<open>The spool outside of the boxes as a cloud printer has it; \<open>None\<close> is a \<open>TypeError\<close>.\<close>

definition holder_spool :: "printer \<Rightarrow> filament_page \<Rightarrow> json option" where
  "holder_spool p f =
     spool_at (fst (fl_holder f)) (fst (snd (fl_holder f)))
       (filter (\<lambda>b. jget b ''type'' = JNum 1) (materialBoxs (boxsInfo p)))"

text \<open>The message names \<open>boxId\<close> and \<open>matId\<close> of what was chosen, where \<open>choose_holder\<close> has put the
  numbers of the spool and of the box.\<close>

definition feed_holder :: "(nat \<Rightarrow> string) \<Rightarrow> nat \<Rightarrow> filament_page \<Rightarrow> shell \<Rightarrow> filament_page \<times> shell" where
  "feed_holder fresh j f s =
     (let p = shown_printer f s; (mt, bx, st, ty) = fl_holder f in
      if deviceType p = 0
      then if ty = JStr [] then (question AskToEdit (f\<lparr>fl_retracting := False, fl_feeding := False\<rparr>), s)
           else (f, feed_local (fl_address f) bx mt j s)
      else (case holder_spool p f of None \<Rightarrow> (f, s) | Some m \<Rightarrow> (f, feed_cloud fresh p m j s)))"

definition feed_box :: "(nat \<Rightarrow> string) \<Rightarrow> nat \<Rightarrow> filament_page \<Rightarrow> shell \<Rightarrow> shell" where
  "feed_box fresh j f s =
     (let p = shown_printer f s; (b, m, st) = fl_active f in
      if deviceType p = 0
      then let (b1, m1) = (if j = 0 \<and> b = JNum (-1) \<and> m = JNum (-1)
                           then (case spool_in_use f of None \<Rightarrow> (JNum 0, JNum 0) | Some (x, y) \<Rightarrow> (number_or_zero x, number_or_zero y)) else (b, m))
           in feed_local (fl_address f) b1 m1 j s
      else if deviceType p = 1
      then (case List.map_filter (\<lambda>x. if jget x ''id'' = b then member_with ''id'' m (spools x) else None) (fl_cfs f) of
              [] \<Rightarrow> s | v # _ \<Rightarrow> feed_cloud fresh p v j s)
      else s)"

text \<open>\<open>j\<close> is 1 to feed and 0 to retract.\<close>

definition feed :: "(nat \<Rightarrow> string) \<Rightarrow> nat \<Rightarrow> filament_page \<Rightarrow> shell \<Rightarrow> filament_page \<times> shell" where
  "feed fresh j f s =
     (if j = 1 \<and> fst (fl_active f) = JNum (-1) \<and> fst (snd (fl_holder f)) = JNull
      then (alert ''Please select a material for feed handling'' f, s)
      else let f1 = (if j = 0 then f\<lparr>fl_retracting := True\<rparr> else f\<lparr>fl_feeding := True\<rparr>)
           in if fl_by_holder f1 then feed_holder fresh j f1 s else (f1, feed_box fresh j f1 s))"

text \<open>One model asks first when its platform is down.\<close>

definition press_feed :: "(nat \<Rightarrow> string) \<Rightarrow> nat \<Rightarrow> filament_page \<Rightarrow> shell \<Rightarrow> filament_page \<times> shell" where
  "press_feed fresh j f s =
     (let p = shown_printer f s; home = autohome (ctrol p) in
      if model p = [] \<or> \<not> truthy home then feed fresh j f s
      else case read_position home of
             None \<Rightarrow> (f, s)
           | Some c \<Rightarrow> if model p = ''F016'' \<and> c 2 = Some 0 then (question (AskPlatform j) f, s) else feed fresh j f s)"

section \<open>Reading a spool again\<close>

definition holder_in_use :: "filament_page \<Rightarrow> bool" where
  "holder_in_use f =
     (fl_external f \<noteq> [] \<and> spools (hd (fl_external f)) \<noteq> [] \<and> eq_num (jget (hd (spools (hd (fl_external f)))) ''selected'') 1)"

text \<open>Why a spool is not read: without a word or with a warning.\<close>

definition reading_refused :: "json \<Rightarrow> filament_page \<Rightarrow> printer \<Rightarrow> string option option" where
  "reading_refused m f p =
     (if \<not> truthy m \<or> materialStatus p = JNum 1 then Some None
      else if state p \<in> {JNum 1, JNum 5, JNum 8} then Some (Some ''Printing in progress. This operation cannot be performed.'')
      else if \<not> truthy (jget m ''color'') \<and> jget m ''state'' = JNum 0 then Some None
      else if list_ex (\<lambda>x. list_ex (\<lambda>v. jget v ''selected'' = JNum 1) (spools x)) (fl_cfs f)
      then Some (Some ''The five-way connection is occupied, please return the material first! '')
      else if eq_num (refreshBox p) (-1) then Some (Some ''Pre-loading in progress. This operation cannot be performed.'')
      else if holder_in_use f \<or> materialDetector1 p = JNum 0
      then Some (Some ''The extruder is occupied and pre-loading cannot be performed.'')
      else None)"

definition read_spool :: "(nat \<Rightarrow> string) \<Rightarrow> json \<Rightarrow> json \<Rightarrow> filament_page \<Rightarrow> shell \<Rightarrow> filament_page \<times> shell" where
  "read_spool fresh b m f s =
     (let p = shown_printer f s in
      case reading_refused m f p of
        Some None \<Rightarrow> (f, s)
      | Some (Some t) \<Rightarrow> (alert t f, s)
      | None \<Rightarrow>
          let s1 = on_shell_board (upd (fl_printer f) (\<lambda>p. p\<lparr>refreshBox := JNum (-1)\<rparr>)) s
          in (f\<lparr>fl_read := (jget b ''id'', jget m ''id'')\<rparr>,
              if deviceType p = 0 then or_same (tell (SetRFIDRefresh (address p) (jget b ''id'') (jget m ''id''))) s1
              else if deviceType p = 1
              then ask fresh (\<lambda>uuid. SetRFIDRefresh_cloud uuid (the_text (tbId p)) (jget m ''cId'') (JNum 1)) s1 else s1))"

text \<open>The cloud's answer starts a timeout of twenty seconds; a failure ends the reading at once.\<close>

definition read_again_possible :: "filament_page \<Rightarrow> shell \<Rightarrow> shell" where
  "read_again_possible f = on_shell_board (upd (fl_printer f) (\<lambda>p. p\<lparr>refreshBox := JNum 0\<rparr>))"

definition read_answer :: "bool \<Rightarrow> filament_page \<Rightarrow> shell \<Rightarrow> filament_page \<times> shell" where
  "read_answer ok f s = (if ok then (f\<lparr>fl_rereads := Suc (fl_rereads f)\<rparr>, s) else (f, read_again_possible f s))"

definition read_timeout :: "filament_page \<Rightarrow> shell \<Rightarrow> filament_page \<times> shell" where
  "read_timeout f s =
     (if fl_rereads f = 0 then (f, s) else (f\<lparr>fl_rereads := fl_rereads f - 1\<rparr>, read_again_possible f s))"

section \<open>The cutter\<close>

definition press_cutter :: "filament_page \<Rightarrow> shell \<Rightarrow> filament_page \<times> shell" where
  "press_cutter f s =
     (let p = shown_printer f s in
      if feedState p \<in> {JNum 0, JNum 3, JNum 14}
      then if state p \<in> {JNum 0, JNum 2, JNum 3, JNum 4}
           then if state p = JNum 5 \<or> state p = JNum 6 then (alert ''Printing is paused, please do not operate...'' f, s)
                else if materialCutterState p = JNum 1
                then (alert ''Consumables remain in Teflon tube. Retract and try again.'' f, s)
                else if materialCutterState p = JNum 0
                then (case tell (setCutterState (address p)) s of
                        None \<Rightarrow> (f, s)
                      | Some s1 \<Rightarrow> (alert ''Return successful...Please replace it after powering off'' f, s1))
                else (f, s)
           else (alert ''Printing in progress, unable to perform the operation'' f, s)
      else (alert ''Filament extrude/retract in progress, please do not operate'' f, s))"

section \<open>The form\<close>

text \<open>A printer that has not sent its filaments gets those of the table.\<close>

definition edit_spool :: "json \<Rightarrow> json \<Rightarrow> filament_page \<Rightarrow> shell \<Rightarrow> filament_page \<times> shell" where
  "edit_spool b m f s =
     (let s1 = (if material (shown_printer f s) = JUndefined
                then on_shell_board (upd (fl_printer f) (\<lambda>p. p\<lparr>material := JArr default_materials\<rparr>)) s else s);
          f1 = f\<lparr>fl_edit := m, fl_edit_at := (jget b ''id'', jget m ''id'', jget b ''type'')\<rparr>
      in (if \<not> eq_num (jget b ''type'') 1 \<and> jget m ''state'' = JNum 0 then f1 else f1\<lparr>fl_page := Some 3\<rparr>, s1))"

definition reset_form :: "filament_page \<Rightarrow> filament_page" where
  "reset_form f = f\<lparr>fl_edit := cleared_spool (fl_edit f)\<rparr>"

definition set_field :: "string \<Rightarrow> string \<Rightarrow> filament_page \<Rightarrow> filament_page" where
  "set_field k v f = f\<lparr>fl_edit := with_prop k (JStr v) (fl_edit f)\<rparr>"

text \<open>Rendering the form lists the types and names, which settles both.\<close>

definition show_form :: "filament_page \<Rightarrow> filament_page" where
  "show_form f = f\<lparr>fl_edit := settle_form (fl_material f) (fl_edit f)\<rparr>"

definition open_colors :: "filament_page \<Rightarrow> filament_page" where
  "open_colors f = f\<lparr>fl_color := map (\<lambda>c. if CHR ''a'' \<le> c \<and> c \<le> CHR ''z'' then char_of (of_char c - 32 :: nat) else c)
     (edit_text ''color'' (fl_edit f)), fl_page := Some 4\<rparr>"

definition pick_color :: "filament_page \<Rightarrow> filament_page" where
  "pick_color f = set_field ''color'' (fl_color f) (f\<lparr>fl_page := Some 3\<rparr>)"

definition spool_modified :: "filament_page \<Rightarrow> bool" where
  "spool_modified f =
     (let (b, m, t) = fl_edit_at f in
      list_ex (\<lambda>x. jget x ''id'' = b \<and> list_ex (\<lambda>v. jget v ''id'' = m \<and> differs_in edited_fields (fl_edit f) v) (spools x))
        (fl_external f @ fl_cfs f))"

text \<open>A filament that is not in the catalogue throws before anything is sent.  Only the answer to
  the question resets a spool without a brand.\<close>

definition send_spool :: "(nat \<Rightarrow> string) \<Rightarrow> bool \<Rightarrow> filament_page \<Rightarrow> shell \<Rightarrow> filament_page \<times> shell" where
  "send_spool fresh asked f s =
     (let p = shown_printer f s; t = fl_address f; b = fst (fl_edit_at f) in
      case completed (fl_material f) (fl_edit f) of
        None \<Rightarrow> (f, s)
      | Some v \<Rightarrow>
          if deviceType p = 0
          then (case tell (if asked \<and> jget v ''vendor'' = JStr [] then ResetMaterials t b (spool_of v) else SetMaterials t b (spool_of v)) s of
                  None \<Rightarrow> (f, s) | Some s1 \<Rightarrow> (to_front f, s1))
          else if deviceType p = 1
          then (to_front f, ask fresh (\<lambda>uuid. SetMaterials_cloud uuid (the_text (tbId p)) v) s)
          else (to_front f, s))"

definition save_spool :: "(nat \<Rightarrow> string) \<Rightarrow> filament_page \<Rightarrow> shell \<Rightarrow> filament_page \<times> shell" where
  "save_spool fresh f s =
     (if bad_range (fl_edit f) then (alert ''Temperature range invalide,please reset'' f, s)
      else if jget (fl_edit f) ''vendor'' \<noteq> JStr [] \<and> jget (fl_edit f) ''color'' = JStr []
      then (alert ''The color can not be empty.'' f, s)
      else if spool_modified f then (question AskOverwrite f, s)
      else send_spool fresh False f s)"

text \<open>The answer to the first question opens the form of the spool outside of the boxes that was
  chosen.\<close>

definition edit_holder :: "filament_page \<Rightarrow> filament_page" where
  "edit_holder f =
     (let (mt, bx, st, ty) = fl_holder f in
      case spool_at mt bx (fl_external f) of
        None \<Rightarrow> f
      | Some m \<Rightarrow> f\<lparr>fl_edit := m, fl_edit_at := (mt, bx, snd (snd (fl_edit_at f))), fl_page := Some 3\<rparr>)"

fun confirm_question :: "(nat \<Rightarrow> string) \<Rightarrow> fl_question \<Rightarrow> filament_page \<Rightarrow> shell \<Rightarrow> filament_page \<times> shell" where
  "confirm_question fresh AskToEdit f s = (edit_holder f, s)"
| "confirm_question fresh (AskPlatform j) f s = feed fresh j f s"
| "confirm_question fresh AskOverwrite f s = send_spool fresh True f s"

definition answer_question :: "(nat \<Rightarrow> string) \<Rightarrow> bool \<Rightarrow> filament_page \<Rightarrow> shell \<Rightarrow> filament_page \<times> shell" where
  "answer_question fresh yes f s =
     (case fl_questions f of
        [] \<Rightarrow> (f, s)
      | q # qs \<Rightarrow> (let f1 = f\<lparr>fl_questions := qs\<rparr> in if yes then confirm_question fresh q f1 s else (f1, s)))"


text \<open>
  The panel of the small box (component \<open>index\<close> beside \<open>DeviceFilament\<close>, \<open>CeX73yR3.js\<close>), which
  has one spool inside and one outside: choosing, feeding, retracting and the form.  What the
  form shares with the panel of the larger boxes is in \<open>Filament\<close>.  A property that is read of
  a spool that is not there throws, and the operation ends.
\<close>

section \<open>State\<close>

record mini_page =
  mn_address :: string
  mn_printer :: nat
  mn_page :: nat
  mn_edit :: json
  mn_chosen :: nat         \<comment> \<open>\<open>boxType\<close>: 0 none, 1 the outer spool, 2 the inner one\<close>
  mn_source :: nat         \<comment> \<open>\<open>editSource\<close>\<close>
  mn_alerts :: "string list"
  mn_questions :: "fl_question list"

definition new_mini_page :: "string \<Rightarrow> nat \<Rightarrow> mini_page" where
  "new_mini_page t n = \<lparr>mn_address = t, mn_printer = n, mn_page = 0, mn_edit = JNull, mn_chosen = 0, mn_source = 0,
     mn_alerts = [], mn_questions = []\<rparr>"

definition mini_alert :: "string \<Rightarrow> mini_page \<Rightarrow> mini_page" where
  "mini_alert t f = f\<lparr>mn_alerts := mn_alerts f @ [t]\<rparr>"

definition mini_question :: "fl_question \<Rightarrow> mini_page \<Rightarrow> mini_page" where
  "mini_question q f = f\<lparr>mn_questions := mn_questions f @ [q]\<rparr>"

section \<open>What is shown of the printer\<close>

definition box_of_type :: "nat \<Rightarrow> printer \<Rightarrow> json" where
  "box_of_type k p = (case member_with ''type'' (JNum (of_nat k)) (materialBoxs (boxsInfo p)) of None \<Rightarrow> JObj [] | Some b \<Rightarrow> b)"

definition first_spool :: "nat \<Rightarrow> printer \<Rightarrow> json option" where
  "first_spool k p = (case spools (box_of_type k p) of [] \<Rightarrow> None | m # _ \<Rightarrow> Some m)"

definition spool_color :: "nat \<Rightarrow> printer \<Rightarrow> json" where
  "spool_color k p =
     (case first_spool k p of None \<Rightarrow> JStr ''#505156'' | Some m \<Rightarrow> if truthy (jget m ''color'') then jget m ''color'' else JStr ''#505156'')"

definition spool_text :: "string \<Rightarrow> string \<Rightarrow> nat \<Rightarrow> printer \<Rightarrow> json" where
  "spool_text key d k p =
     (case first_spool k p of None \<Rightarrow> JStr d | Some m \<Rightarrow> if truthy (jget m key) then jget m key else JStr d)"

definition mini_feeding :: "printer \<Rightarrow> bool" where
  "mini_feeding p \<longleftrightarrow> feedState p \<in> {JNum 150, JNum 151, JNum 152}"

definition mini_retracting :: "printer \<Rightarrow> bool" where
  "mini_retracting p \<longleftrightarrow> feedState p \<in> {JNum 155, JNum 156, JNum 157}"

definition mini_moving :: "printer \<Rightarrow> bool" where
  "mini_moving p \<longleftrightarrow> feedState p \<notin> {JNum 0, JNum 3, JNum 14}"

text \<open>Which of the two inlets of the box has a filament in it.\<close>

definition inlet_A :: "printer \<Rightarrow> string" where
  "inlet_A p = (if jget (box_of_type 2 p) ''filamentDetected'' \<in> {JStr ''10'', JStr ''11''} then ''A'' else [])"

definition inlet_B :: "printer \<Rightarrow> string" where
  "inlet_B p = (if jget (box_of_type 2 p) ''filamentDetected'' \<in> {JStr ''01'', JStr ''11''} then ''B'' else [])"

definition type_size :: "printer \<Rightarrow> nat" where
  "type_size p = (let n = length (the_text (spool_text ''type'' [] 2 p)) in if n < 4 then 38 else if n = 4 then 33 else 29)"

definition mini_catalogue :: "printer \<Rightarrow> catalogue" where
  "mini_catalogue p = list_filaments (elements (material p)) []"

definition mini_opened :: "mini_page \<Rightarrow> shell \<Rightarrow> shell" where
  "mini_opened f s =
     (if deviceType (printers (board s) (mn_printer f)) = 0
      then case tell (GetBoxsConfig (mn_address f)) s of None \<Rightarrow> s | Some s1 \<Rightarrow> or_same (tell (ReqMaterials (mn_address f))) s1
      else s)"

section \<open>The form\<close>

definition edit_mini :: "nat \<Rightarrow> mini_page \<Rightarrow> shell \<Rightarrow> mini_page" where
  "edit_mini k f s =
     (let f1 = (case first_spool k (printers (board s) (mn_printer f)) of
           None \<Rightarrow> f | Some m \<Rightarrow> f\<lparr>mn_edit := with_prop ''boxType'' (JNum (of_nat k)) m\<rparr>)
      in f1\<lparr>mn_source := k, mn_page := 3\<rparr>)"

definition reset_mini :: "mini_page \<Rightarrow> mini_page" where
  "reset_mini f = f\<lparr>mn_edit := cleared_spool (mn_edit f)\<rparr>"

definition settle_mini :: "printer \<Rightarrow> mini_page \<Rightarrow> mini_page" where
  "settle_mini p f = f\<lparr>mn_edit := settle_form (mini_catalogue p) (mn_edit f)\<rparr>"

definition edited_box :: "mini_page \<Rightarrow> nat" where
  "edited_box f = (if mn_source f = 2 then 2 else 1)"

definition mini_modified :: "mini_page \<Rightarrow> printer \<Rightarrow> bool" where
  "mini_modified f p =
     differs_in (edited_fields @ [''color'']) (mn_edit f)
       (case first_spool (edited_box f) p of None \<Rightarrow> JObj [] | Some m \<Rightarrow> m)"

text \<open>The form is closed whether the question is answered or not; what was not changed is not
  sent.\<close>

definition save_mini :: "mini_page \<Rightarrow> shell \<Rightarrow> mini_page" where
  "save_mini f s =
     (if bad_range (mn_edit f) then mini_alert ''Temperature range invalide,please reset'' f
      else if truthy (jget (mn_edit f) ''vendor'') \<and> \<not> truthy (jget (mn_edit f) ''color'') then mini_alert ''The color can not be empty.'' f
      else (if mini_modified f (printers (board s) (mn_printer f)) then mini_question AskOverwrite f else f)\<lparr>mn_page := 0\<rparr>)"

definition send_mini :: "(nat \<Rightarrow> string) \<Rightarrow> mini_page \<Rightarrow> shell \<Rightarrow> shell" where
  "send_mini fresh f s =
     (let p = printers (board s) (mn_printer f); k = edited_box f; i = jget (box_of_type k p) ''id''; t = mn_address f in
      case completed (mini_catalogue p) (mn_edit f) of
        None \<Rightarrow> s
      | Some v \<Rightarrow>
          if deviceType p = 0
          then or_same (tell (if jget v ''vendor'' = JStr [] then ResetCfsMiniMaterials t i (JNum (of_nat k)) (spool_of v)
                              else SetCfsMiniMaterials t i (JNum (of_nat k)) (spool_of v))) s
          else if deviceType p = 1 then ask fresh (\<lambda>uuid. SetMaterials_cloud uuid (the_text (tbId p)) v) s
          else s)"

section \<open>Feeding and retracting\<close>

definition choose_mini :: "nat \<Rightarrow> mini_page \<Rightarrow> shell \<Rightarrow> mini_page" where
  "choose_mini k f s = (if state (printers (board s) (mn_printer f)) = JNum 1 then f else f\<lparr>mn_chosen := k\<rparr>)"

text \<open>The outer spool goes to every printer that is not in the network by a request, the inner one
  to those of the cloud only.\<close>

definition move_mini :: "(nat \<Rightarrow> string) \<Rightarrow> nat \<Rightarrow> mini_page \<Rightarrow> shell \<Rightarrow> shell" where
  "move_mini fresh j f s =
     (let p = printers (board s) (mn_printer f); k = (if mn_chosen f = 1 then 1 else 2) in
      case first_spool k p of
        None \<Rightarrow> s
      | Some m \<Rightarrow>
          if deviceType p = 0 then feed_local (mn_address f) (jget (box_of_type k p) ''id'') (jget m ''id'') j s
          else if k = 1 \<or> deviceType p = 1 then feed_cloud fresh p m j s else s)"

text \<open>An unknown filament is asked about, and fed all the same.\<close>

definition feed_mini :: "(nat \<Rightarrow> string) \<Rightarrow> mini_page \<Rightarrow> shell \<Rightarrow> mini_page \<times> shell" where
  "feed_mini fresh f s =
     (if mn_chosen f = 0 then (mini_alert ''Please select a material for feed handling'' f, s)
      else let f1 = (if mn_chosen f = 1 \<and> map_option (\<lambda>m. jget m ''type'') (first_spool 1 (printers (board s) (mn_printer f))) = Some (JStr [])
                     then mini_question AskToEdit f else f)
           in (f1, move_mini fresh 1 f s))"

definition retract_mini :: "(nat \<Rightarrow> string) \<Rightarrow> mini_page \<Rightarrow> shell \<Rightarrow> shell" where
  "retract_mini fresh f s = move_mini fresh 0 f s"

text \<open>The answers to the two questions the panel asks.\<close>

fun answer_mini :: "(nat \<Rightarrow> string) \<Rightarrow> fl_question \<Rightarrow> mini_page \<Rightarrow> shell \<Rightarrow> mini_page \<times> shell" where
  "answer_mini fresh AskToEdit f s = (edit_mini 1 f s, s)"
| "answer_mini fresh AskOverwrite f s = (f, send_mini fresh f s)"
| "answer_mini fresh (AskPlatform j) f s = (f, s)"

end
