(* ===== verification/CtrolProps.thy ===== *)
theory CtrolProps
  imports CtrolPage AppProps
begin

text \<open>
  What the control panel promises and where it fails: moves stay within the printer when it is
  in the network, a printer in the cloud cannot leave the zero of an axis, a speed that is
  chosen never reaches a printer in the cloud, and waiting for a move ends.
\<close>

section \<open>Moves\<close>

definition moves :: "string list" where
  "moves = [''X+'', ''X-'', ''Y+'', ''Y-'', ''Z+'', ''Z-'']"

lemma moves_cases: "e \<in> set moves \<longleftrightarrow> e \<in> {''X+'', ''X-'', ''Y+'', ''Y-'', ''Z+'', ''Z-''}"
  by (auto simp: moves_def)

lemma turned_move: "e \<in> set moves \<Longrightarrow> turned p e \<in> set moves"
  by (auto simp: turned_def moves_def)

lemma turned_axis: "axis_of (turned p e) = axis_of e"
  by (auto simp: turned_def axis_of_def)

lemma turned_position [simp]: "position_of f (turned p e) = position_of f e"
  by (simp add: position_of_def turned_axis)

lemma move_has_axis: "e \<in> set moves \<Longrightarrow> \<exists>a. axis_of e = Some a \<and> a < 3"
  by (auto simp: moves_def axis_of_def)

lemma move_is_not_home: "e \<in> set moves \<Longrightarrow> e \<noteq> ''HXY'' \<and> e \<noteq> ''HZ''"
  by (auto simp: moves_def)

definition onward :: "string \<Rightarrow> rat" where
  "onward e = (if CHR ''+'' \<in> set (tl e) then 1 else - 1)"

text \<open>How far the axis can go in the direction of the move.\<close>

definition room :: "ctrol_page \<Rightarrow> string \<Rightarrow> rat \<Rightarrow> rat" where
  "room f e q = (if CHR ''+'' \<in> set (tl e) then ct_max f (the (axis_of e)) - q else q)"

lemma held_within_box:
  assumes "position_of f e = Some q" and "0 \<le> q" and "q \<le> ct_max f (the (axis_of e))" and "0 \<le> w"
    and "d = min w (room f e q)"
  shows "held_within f e w = (d, Some (q + onward e * d))" and "0 \<le> d \<and> d \<le> w"
    and "0 \<le> q + onward e * d \<and> q + onward e * d \<le> ct_max f (the (axis_of e))"
  using assms by (auto simp: held_within_def onward_def room_def Let_def min_def split: if_splits)

definition axle_move :: "string \<Rightarrow> rat \<Rightarrow> string" where
  "axle_move e x = ''G90'' @ newline @ ''G1 '' @ [hd e] @ show_number x @ '' F'' @ (if hd e = CHR ''Z'' then ''600'' else ''7800'')"

lemma cloud_move:
  assumes "e \<in> set moves"
  shows "MoveAxle_cloud uuid t e q w = api_set uuid (oneway t) [(''gcodeCmd'', JStr (axle_move e (q + onward e * w)))]"
proof -
  have "axle_gcode e q w = Some (axle_move e (q + onward e * w))"
    using assms unfolding moves_cases by (elim insertE emptyE) (simp_all add: axle_gcode_def onward_def axle_move_def)
  then show ?thesis by (intro ext) (simp add: MoveAxle_cloud_def)
qed

text \<open>C30: A move of a printer in the network stays within the printer.  For a printer that is not
  an old one and does not print, and an axis whose position is known and between zero and the
  printer's size, the printer is told to go as far as was chosen or to the edge, whichever is
  nearer, in the direction chosen (turned, for the models whose axis is); the panel then waits for
  exactly that position, which again lies between zero and the size.  From a position outside
  nothing is promised.\<close>

theorem network_moves_stay_inside:
  assumes "deviceType (printers (board s) (ct_printer f)) = 0" and "\<not> oldPrinter (printers (board s) (ct_printer f))"
    and "ct_printStatus f \<noteq> JNum 1" and "e \<in> set moves" and "position_of f e = Some q"
    and "0 \<le> q" and "q \<le> ct_max f (the (axis_of e))" and "0 \<le> step_width f"
    and "e' = turned (printers (board s) (ct_printer f)) e" and "d = min (step_width f) (room f e' q)"
  shows "move_axle fresh e f s = (wait_for e' (Some (q + onward e' * d)) (tick_limit e' (step_width f)) f,
        or_same (tell (MoveAxle (ct_address f) e' (show_number d))) s)
    \<and> 0 \<le> d \<and> d \<le> step_width f
    \<and> 0 \<le> q + onward e' * d \<and> q + onward e' * d \<le> ct_max f (the (axis_of e))"
proof -
  have go: "e' \<noteq> ''HXY'' \<and> e' \<noteq> ''HZ''" and axis: "axis_of e' = axis_of e" "position_of f e' = Some q"
    using move_is_not_home turned_move [OF assms(4)] assms(5,9) by (auto simp: turned_axis)
  moreover have "held_within f e' (step_width f) = (d, Some (q + onward e' * d))"
    "0 \<le> d \<and> d \<le> step_width f" "0 \<le> q + onward e' * d \<and> q + onward e' * d \<le> ct_max f (the (axis_of e))"
    using held_within_box [OF axis(2) assms(6) _ assms(8,10)] assms(7) axis(1) by simp_all
  ultimately show ?thesis
    using assms(1-3,9) by (simp add: move_axle_def Let_def)
qed

text \<open>A printer in the cloud cannot be moved along an axis from its zero, nor from an unknown
  position; from anywhere else it is sent to the position one step further, however far
  outside of the printer that is.\<close>

theorem cloud_moves_are_pinned_or_unbounded:
  assumes "deviceType (printers (board s) (ct_printer f)) \<noteq> 0" and "ct_printStatus f \<noteq> JNum 1" and "e \<in> set moves"
  shows "move_axle fresh e f s =
    (case position_of f e of
       None \<Rightarrow> (f, s)
     | Some q \<Rightarrow> if q = 0 then (f, s)
         else (f, ask fresh (\<lambda>uuid. api_set uuid (oneway (the_text (tbId (printers (board s) (ct_printer f)))))
           [(''gcodeCmd'', JStr (axle_move e (q + onward e * step_width f)))]) s))"
  using assms(1,2) move_is_not_home [OF assms(3)]
  by (simp add: move_axle_def Let_def cloud_move [OF assms(3)] split: option.split)

section \<open>Speed\<close>

text \<open>A speed that is chosen is always asked of the cloud for a device \<open>undefined\<close>, after it was
  told to a printer in the network; a printer in the cloud is never told.\<close>

theorem chosen_speed_is_asked_of_nobody:
  assumes "deviceType (printers (board s) (ct_printer f)) \<noteq> 0 \<or> isPrinterExist (ct_address f) (board s)"
  shows "\<exists>s1. snd (choose_speed fresh v f s)
      = ask fresh (\<lambda>uuid. api_set uuid ''/api/rest/iotrouter/rpc/oneway/undefined'' (speed_params (JNum v))) s1
    \<and> api s1 = api s \<and> (deviceType (printers (board s) (ct_printer f)) \<noteq> 0 \<longrightarrow> s1 = s)"
proof -
  have "\<exists>s1. (if deviceType (printers (board s) (ct_printer f)) = 0
      then tell (if oldPrinter (printers (board s) (ct_printer f)) then Some \<circ> SetPrintingSpeed_LAN (ct_address f) v
                 else SetPrintingSpeed (ct_address f) (JNum v)) s
      else Some s) = Some s1 \<and> api s1 = api s \<and> (deviceType (printers (board s) (ct_printer f)) \<noteq> 0 \<longrightarrow> s1 = s)"
    using assms by (auto simp: tell_def SetPrintingSpeed_def set_command_def command_def isPrinterExist_iff split: option.split)
  then obtain s1 where "(if deviceType (printers (board s) (ct_printer f)) = 0
      then tell (if oldPrinter (printers (board s) (ct_printer f)) then Some \<circ> SetPrintingSpeed_LAN (ct_address f) v
                 else SetPrintingSpeed (ct_address f) (JNum v)) s
      else Some s) = Some s1" "api s1 = api s \<and> (deviceType (printers (board s) (ct_printer f)) \<noteq> 0 \<longrightarrow> s1 = s)" by blast
  then show ?thesis by (intro exI [of _ s1]) (simp add: choose_speed_def Let_def SetPrintSpeed_def oneway_def)
qed

section \<open>Waiting\<close>

datatype wait_event = WaitTick | Seen printer

fun wait_step :: "wait_event \<Rightarrow> ctrol_page \<Rightarrow> ctrol_page" where
  "wait_step WaitTick f = wait_tick f"
| "wait_step (Seen p) f = or_same (show_position p) f"

lemma seen_keeps: "ct_wait (or_same (show_position p) f) = ct_wait f" "ct_moving (or_same (show_position p) f) = ct_moving f"
  by (auto simp: or_same_def show_position_def split: option.split)

lemma idle_stays:
  assumes "ct_wait f = None"
  shows "ct_wait (fold wait_step evs f) = None \<and> ct_moving (fold wait_step evs f) = ct_moving f"
  using assms
proof (induction evs arbitrary: f)
  case (Cons ev evs)
  have "ct_wait (wait_step ev f) = None \<and> ct_moving (wait_step ev f) = ct_moving f"
    using Cons.prems by (cases ev) (simp_all add: wait_tick_def seen_keeps)
  then show ?case using Cons.IH [of "wait_step ev f"] by simp
qed simp

text \<open>C33: However the printer reports its position, waiting for a move ends after one tick more
  than the limit, and the buttons are free again.\<close>

theorem waiting_for_a_move_ends:
  assumes "ct_wait f = Some (e, t, n, limit)" and "limit - n < length (filter ((=) WaitTick) evs)"
  shows "ct_wait (fold wait_step evs f) = None \<and> \<not> ct_moving (fold wait_step evs f)"
  using assms
proof (induction evs arbitrary: f n)
  case (Cons ev evs)
  have over: "ct_wait (fold wait_step evs g) = None \<and> \<not> ct_moving (fold wait_step evs g)"
    if "ct_wait g = None" "\<not> ct_moving g" for g
    using idle_stays [of g] that by simp
  show ?case
  proof (cases ev)
    case WaitTick
    show ?thesis
    proof (cases "t \<noteq> None \<and> position_of f e = t \<or> limit \<le> n")
      case True
      then show ?thesis using Cons.prems WaitTick over [of "wait_tick f"] by (simp add: wait_tick_def)
    next
      case False
      then have "ct_wait (wait_tick f) = Some (e, t, Suc n, limit)" using Cons.prems by (auto simp: wait_tick_def)
      then show ?thesis using Cons.IH [of "wait_tick f" "Suc n"] Cons.prems WaitTick False by simp linarith
    qed
  next
    case (Seen p)
    then show ?thesis
      using Cons.IH [of "or_same (show_position p) f" n] Cons.prems by (simp add: seen_keeps)
  qed
qed simp

text \<open>A move that would end below zero stops the waiting of the one before it, but the buttons
  stay locked: no tick and no report frees them.\<close>

theorem negative_target_locks_the_buttons:
  assumes "ct_moving f" and "fixed2 a < 0"
  shows "ct_wait (fold wait_step evs (wait_for e (Some a) limit f)) = None
    \<and> ct_moving (fold wait_step evs (wait_for e (Some a) limit f))"
  using assms idle_stays [of "wait_for e (Some a) limit f"] by (simp add: wait_for_def falls_below_def Let_def)

section \<open>At work\<close>

definition demo_ctrol :: "nat \<Rightarrow> rat \<Rightarrow> ctrol_page" where
  "demo_ctrol n q =
     (new_ctrol (address (printers account_board n)) n (printers account_board n))\<lparr>ct_position := (\<lambda>k. Some q)\<rparr>"

lemma demo_ctrol_simps:
  "ct_printer (demo_ctrol n q) = n" "position_of (demo_ctrol n q) ''X+'' = Some q" "step_width (demo_ctrol n q) = 10"
  "ct_max (demo_ctrol n q) k = 350" "ct_address (demo_ctrol n q) = address (printers account_board n)"
  "ct_printStatus (demo_ctrol n q) = state (printers account_board n)"
  by (simp_all add: demo_ctrol_def new_ctrol_def position_of_def axis_of_def step_width_def)

lemma account_printers:
  "deviceType (printers account_board 0) = 0" "\<not> oldPrinter (printers account_board 0)"
  "state (printers account_board 0) = JNum 0" "state (printers account_board (Suc 0)) = JNum 0"
  "machinePlatformMotionEnable (printers account_board 0) = JNum 1"
  by (simp_all add: account_board_def demo_printer_def initial_printer_def demo_device_def ownProperty_def)

theorem network_moves_stay_inside_witness:
  "snd (move_axle (\<lambda>k. []) ''X+'' (demo_ctrol 0 345) demo_shell)
      = or_same (tell (MoveAxle (address (printers account_board 0)) ''X+'' (show_number 5))) demo_shell"
  using network_moves_stay_inside [of demo_shell "demo_ctrol 0 345" "''X+''" 345 _ _ "\<lambda>k. []", OF _ _ _ _ _ _ _ _ refl refl]
  by (auto simp: demo_ctrol_simps account_printers moves_def turned_def onward_def room_def)

theorem cloud_moves_are_pinned_or_unbounded_witness:
  "move_axle (\<lambda>k. []) ''X+'' (demo_ctrol 1 0) demo_shell = (demo_ctrol 1 0, demo_shell)"
  using cloud_moves_are_pinned_or_unbounded [of demo_shell "demo_ctrol 1 0" "''X+''" "\<lambda>k. []"]
  by (simp add: demo_ctrol_simps account_printers moves_def)

theorem chosen_speed_is_asked_of_nobody_witness:
  "snd (choose_speed (\<lambda>k. []) 50 (demo_ctrol 1 0) demo_shell)
    = ask (\<lambda>k. []) (\<lambda>uuid. api_set uuid ''/api/rest/iotrouter/rpc/oneway/undefined'' [(''speedMode'', JNum 0), (''setFeedratePct'', JNum 50)]) demo_shell"
  using chosen_speed_is_asked_of_nobody [of demo_shell "demo_ctrol 1 0" "\<lambda>k. []" 50]
  by (simp add: demo_ctrol_simps account_printers speed_params_def)

theorem waiting_for_a_move_ends_witness:
  "\<not> ct_moving (fold wait_step [WaitTick, WaitTick, WaitTick] (wait_for ''X+'' None 2 (demo_ctrol 0 5)))"
  using waiting_for_a_move_ends [of "wait_for ''X+'' None 2 (demo_ctrol 0 5)" "''X+''" None 0 2 "[WaitTick, WaitTick, WaitTick]"]
  by (simp add: wait_for_def falls_below_def)

theorem negative_target_locks_the_buttons_witness:
  "ct_moving (fold wait_step (replicate 1000 WaitTick) (wait_for ''X+'' (Some (- 2)) 10 (wait_for ''X+'' (Some 5) 10 (demo_ctrol 0 1))))"
  by (rule conjunct2, rule negative_target_locks_the_buttons) (simp_all add: wait_for_def falls_below_def fixed2_def js_round_def)

end
