(* ===== verification/FilamentProps.thy ===== *)
theory FilamentProps
  imports FilamentActs CtrolProps DataProps CommandProps
begin

text \<open>
  What holds of the panels of spools: what is offered and found in the catalogue, what is sent of
  a spool and of the settings, and where feeding, reading and the form go wrong.
\<close>

section \<open>The catalogue\<close>

lemma of_brand_list_filament:
  "of_brand b (list_filament m c) = of_brand b c @ (if the_text (base_of m ''brand'') = b then [m] else [])"
  by (simp add: of_brand_def list_filament_def Let_def update_conv' split: option.split)

lemma of_brand_list_filaments:
  "of_brand b (list_filaments ms c) = of_brand b c @ filter (\<lambda>m. the_text (base_of m ''brand'') = b) ms"
  by (induction ms arbitrary: c) (simp_all add: list_filaments_def of_brand_list_filament)

lemma brand_listed:
  "map_of (list_filaments ms c) b = None \<longleftrightarrow> map_of c b = None \<and> b \<notin> (\<lambda>m. the_text (base_of m ''brand'')) ` set ms"
  by (induction ms arbitrary: c) (auto simp: list_filaments_def list_filament_def Let_def update_conv')

definition filament_key :: "json \<Rightarrow> string \<times> json \<times> json" where
  "filament_key m = (the_text (base_of m ''brand''), base_of m ''meterialType'', base_of m ''name'')"

lemma find_only:
  assumes "x \<in> set xs" and "P x" and "\<And>y. y \<in> set xs \<Longrightarrow> P y \<Longrightarrow> y = x"
  shows "find P xs = Some x"
proof (cases "find P xs")
  case None
  then show ?thesis using assms(1,2) by (simp add: find_None_all)
next
  case (Some y)
  then show ?thesis using assms(3) [of y] find_Some_in [OF Some] by simp
qed

lemma chosen_found:
  assumes "distinct (map filament_key ms)" and "m \<in> set ms" and "base_of m ''brand'' = JStr b" and "b \<noteq> []"
    and "jget v ''vendor'' = JStr b" and "jget v ''type'' = base_of m ''meterialType''" and "jget v ''name'' = base_of m ''name''"
  shows "chosen_filament (list_filaments ms []) v = Some (Some m)
    \<and> temperatures (list_filaments ms []) v = Some (number_or_zero (base_of m ''minTemp''), number_or_zero (base_of m ''maxTemp''))"
proof -
  let ?c = "list_filaments ms []"
  let ?P = "\<lambda>x. base_of x ''meterialType'' = jget v ''type'' \<and> base_of x ''name'' = jget v ''name''"
  have b: "the_text (base_of m ''brand'') = b" "edit_text ''vendor'' v = b"
    using assms(3,5) by (simp_all add: the_text_def edit_text_def)
  then have "map_of ?c b \<noteq> None" using assms(2) by (auto simp: brand_listed)
  then obtain xs where xs: "map_of ?c b = Some xs" by blast
  then have members: "xs = filter (\<lambda>m. the_text (base_of m ''brand'') = b) ms"
    using of_brand_list_filaments [of b ms "[]"] by (simp add: of_brand_def)
  have "x = m" if "x \<in> set xs" "?P x" for x
    using that assms(1,2,6,7) b members by (intro inj_onD [of filament_key "set ms" x m]) (auto simp: distinct_map filament_key_def)
  moreover have m: "m \<in> set xs" "?P m" using assms(2,6,7) b members by simp_all
  ultimately have "find ?P xs = Some m" using find_only [of m xs ?P, OF m] by blast
  then show ?thesis using xs b assms(4,5) by (simp add: chosen_filament_def temperatures_def)
qed

text \<open>What a printer in the network is told of a spool that is given a filament of the catalogue.\<close>

definition filament_message :: "json \<Rightarrow> json \<Rightarrow> json \<Rightarrow> json" where
  "filament_message b v m = set_params [(''modifyMaterial'', JObj
     [(''boxId'', b), (''id'', jget v ''id''), (''rfid'', jget v ''rfid''), (''type'', base_of m ''meterialType''),
      (''vendor'', base_of m ''brand''), (''name'', base_of m ''name''), (''color'', JStr (wire_color (edit_text ''color'' v))),
      (''minTemp'', wire_temp (number_or_zero (base_of m ''minTemp''))),
      (''maxTemp'', wire_temp (number_or_zero (base_of m ''maxTemp''))),
      (''pressure'', number_or_zero (jget (jget m ''kvParam'') ''pressure_advance''))])]"

lemma completed_found:
  assumes "chosen_filament c (JObj ps) = Some (Some m)" and "\<not> nullish (jget m ''kvParam'')"
    and "jget (JObj ps) ''vendor'' = JStr b" and "b \<noteq> []"
    and "temperatures c (JObj ps) = Some (lo, hi)"
  shows "completed c (JObj ps) = Some (with_prop ''pressure'' (number_or_zero (jget (jget m ''kvParam'') ''pressure_advance''))
    (with_prop ''maxTemp'' hi (with_prop ''minTemp'' lo (JObj ps))))"
  using assms by (simp add: completed_def pressure_advance_def del: jget.simps)

lemma jget_put: "jget (with_prop k x (JObj ps)) i = (if i = k then x else jget (JObj ps) i)"
  by (simp add: with_prop_def update_conv')

text \<open>C35: A spool of a printer in the network is told the temperatures of the filament that is
  chosen in the form.  When the catalogue's filaments differ in brand, type or name, the one
  that has those of the form is found, and the message to the printer, sent when its socket is
  open, names its brand, type and name, its lowest and its highest temperature (0 where it has
  none, and a hundred-millionth more, so that they are read as fractions) and its pressure
  advance, whatever temperatures the form shows; the printer is listed and the filament has
  parameters (\<open>kvParam\<close>), without which nothing is sent.\<close>

theorem chosen_filament_is_found:
  assumes "distinct (map filament_key ms)" and "m \<in> set ms" and "base_of m ''brand'' = JStr b" and "b \<noteq> []"
    and "fl_edit f = JObj ps" and "jget (JObj ps) ''vendor'' = JStr b"
    and "jget (JObj ps) ''type'' = base_of m ''meterialType''" and "jget (JObj ps) ''name'' = base_of m ''name''"
    and "fl_material f = list_filaments ms []" and "\<not> nullish (jget m ''kvParam'')"
    and "deviceType (shown_printer f s) = 0" and "getPrinter (fl_address f) (board s) = Some n"
  shows "chosen_filament (fl_material f) (fl_edit f) = Some (Some m)
    \<and> calls (board (snd (send_spool fresh asked f s)))
      = calls (board s) @ delivered n (filament_message (fst (fl_edit_at f)) (fl_edit f) m) (board s)"
proof -
  note found = chosen_found [OF assms(1-4,6-8)]
  let ?v = "with_prop ''pressure'' (number_or_zero (jget (jget m ''kvParam'') ''pressure_advance''))
    (with_prop ''maxTemp'' (number_or_zero (base_of m ''maxTemp'')) (with_prop ''minTemp'' (number_or_zero (base_of m ''minTemp'')) (JObj ps)))"
  have v: "completed (fl_material f) (fl_edit f) = Some ?v"
    using completed_found found assms(4-6,9,10) by simp
  obtain qs where q: "with_prop ''minTemp'' (number_or_zero (base_of m ''minTemp'')) (JObj ps) = JObj qs"
    by (simp add: with_prop_def)
  obtain us where u: "with_prop ''maxTemp'' (number_or_zero (base_of m ''maxTemp'')) (JObj qs) = JObj us"
    by (simp add: with_prop_def)
  have get: "jget ?v k = (if k = ''pressure'' then number_or_zero (jget (jget m ''kvParam'') ''pressure_advance'')
      else if k = ''maxTemp'' then number_or_zero (base_of m ''maxTemp'')
      else if k = ''minTemp'' then number_or_zero (base_of m ''minTemp'') else jget (JObj ps) k)" for k
    unfolding q u jget_put unfolding u [symmetric] jget_put unfolding q [symmetric] jget_put by simp
  have "set_params [(''modifyMaterial'', JObj ([(''boxId'', fst (fl_edit_at f)), (''id'', se_id (spool_of ?v))] @ spool_fields (spool_of ?v)))]
      = filament_message (fst (fl_edit_at f)) (JObj ps) m"
    using assms(3,6-8) by (simp add: spool_of_def spool_fields_def filament_message_def edit_text_def get del: jget.simps)
  then show ?thesis
    using found v assms(4-6,9,11,12) get [of "''vendor''"]
    by (simp add: send_spool_def Let_def tell_def SetMaterials_def set_command_def command_def to_front_def del: jget.simps)
qed

definition choice_of :: "json \<Rightarrow> json" where
  "choice_of m = JObj [(''vendor'', base_of m ''brand''), (''type'', base_of m ''meterialType''), (''name'', base_of m ''name'')]"

lemma number_or_zero_num [simp]: "number_or_zero (JNum q) = JNum q"
  by (simp add: number_or_zero_def)

lemma default_keys: "distinct (map filament_key default_materials)"
  by (simp add: default_materials_def default_entries filament_key_def the_text_def)

lemma default_brands:
  "list_all (\<lambda>m. base_of m ''brand'' = JStr ''Creality'' \<or> base_of m ''brand'' = JStr ''Generic'') default_materials"
  by (simp add: default_materials_def default_entries)

text \<open>Every filament of the built-in table is found when it is chosen; three of them have the
  temperatures 0 and 0 in it, so that is what a printer is told for them.\<close>

theorem three_default_filaments_are_cold:
  "map (\<lambda>m. temperatures (list_filaments default_materials []) (choice_of m)) default_materials
     = map (\<lambda>m. Some (base_of m ''minTemp'', base_of m ''maxTemp'')) default_materials
   \<and> map (\<lambda>m. base_of m ''name'') (filter (\<lambda>m. base_of m ''maxTemp'' = JNum 0) default_materials)
     = [JStr ''Generic ASA-CF'', JStr ''Generic TPU 64D'', JStr ''Hyper PC'']"
proof
  have nums: "list_all (\<lambda>m. number_or_zero (base_of m ''minTemp'') = base_of m ''minTemp'' \<and> number_or_zero (base_of m ''maxTemp'') = base_of m ''maxTemp'') default_materials"
    by (simp add: default_materials_def default_entries)
  have "temperatures (list_filaments default_materials []) (choice_of m) = Some (base_of m ''minTemp'', base_of m ''maxTemp'')"
    if m: "m \<in> set default_materials" for m
  proof -
    obtain b where "base_of m ''brand'' = JStr b" "b \<noteq> []" using default_brands m by (auto simp: list_all_iff)
    then show ?thesis using chosen_found [OF default_keys m, of b "choice_of m"] nums m by (simp add: choice_of_def list_all_iff)
  qed
  then show "map (\<lambda>m. temperatures (list_filaments default_materials []) (choice_of m)) default_materials
     = map (\<lambda>m. Some (base_of m ''minTemp'', base_of m ''maxTemp'')) default_materials" by simp
  show "map (\<lambda>m. base_of m ''name'') (filter (\<lambda>m. base_of m ''maxTemp'' = JNum 0) default_materials)
     = [JStr ''Generic ASA-CF'', JStr ''Generic TPU 64D'', JStr ''Hyper PC'']"
    by (simp add: default_materials_def default_entries)
qed

text \<open>Of a brand's filaments of a type, those behind one that is named like the type are not
  offered, because a name is left out when the list has the name of its type.\<close>

theorem names_stop_at_the_type:
  "set (offered_names c b k)
    = set (let ns = map (\<lambda>m. the_text (base_of m ''name'')) (filter (\<lambda>m. the_text (base_of m ''meterialType'') = k) (of_brand b c))
           in takeWhile (\<lambda>n. n \<noteq> k) ns @ take 1 (dropWhile (\<lambda>n. n \<noteq> k) ns))"
proof -
  let ?ns = "\<lambda>ms. map (\<lambda>m. the_text (base_of m ''name'')) (filter (\<lambda>m. the_text (base_of m ''meterialType'') = k) ms)"
  have stopped: "fold (add_name k) ms ns = ns" if "k \<in> set ns" for ms ns
    using that by (induction ms) (auto simp: add_name_def)
  have "fold (add_name k) ms ns = ns @ takeWhile (\<lambda>n. n \<noteq> k) (?ns ms) @ take 1 (dropWhile (\<lambda>n. n \<noteq> k) (?ns ms))"
    if "k \<notin> set ns" for ms ns
    using that
  proof (induction ms arbitrary: ns)
    case (Cons m ms)
    define kd n where "kd = the_text (base_of m ''meterialType'')" and "n = the_text (base_of m ''name'')"
    have add: "add_name k m ns = (if kd = k then ns @ [n] else ns)"
      using Cons.prems by (simp add: add_name_def kd_def n_def)
    consider "kd \<noteq> k" | "kd = k" "n = k" | "kd = k" "n \<noteq> k" by blast
    then show ?case
    proof cases
      case 2
      then show ?thesis using add stopped [of "ns @ [n]" ms] by (simp flip: kd_def n_def)
    next
      case 3
      then show ?thesis using add Cons.IH [of "ns @ [n]"] Cons.prems by (simp flip: kd_def n_def)
    qed (use add Cons.IH [of ns] Cons.prems in \<open>simp flip: kd_def n_def\<close>)
  qed simp
  from this [of "[]"] show ?thesis by (simp add: offered_names_def names_of_def Let_def)
qed

definition catalogue_size :: "catalogue \<Rightarrow> nat" where
  "catalogue_size c = (\<Sum>(b, ms)\<leftarrow>c. length ms)"

text \<open>The brands of a catalogue are the keys of an association list.\<close>

lemma size_list_filament:
  "catalogue_size (list_filament m c) = Suc (catalogue_size c)"
proof -
  have "(\<Sum>(b, ms)\<leftarrow>AList.update k ((case map_of c k of None \<Rightarrow> [] | Some ms \<Rightarrow> ms) @ [x]) c. length ms) = Suc (catalogue_size c)" for k x
    by (induction c) (auto simp: catalogue_size_def)
  then show ?thesis by (simp add: list_filament_def Let_def catalogue_size_def)
qed

lemma size_list_filaments: "catalogue_size (list_filaments ms c) = length ms + catalogue_size c"
  by (induction ms arbitrary: c) (simp_all add: list_filaments_def size_list_filament)

text \<open>With every change of the boxes of a printer in the network all its filaments are listed
  once more: after \<open>n\<close> changes the catalogue holds each of them \<open>n\<close> times.\<close>

theorem catalogue_grows_with_every_change:
  assumes "deviceType p = 0" and "truthy (material p)"
  shows "catalogue_size (fl_material ((boxes_changed p ^^ n) f)) = n * length (elements (material p)) + catalogue_size (fl_material f)"
  using assms by (induction n) (simp_all add: boxes_changed_def size_list_filaments sort_boxes_def Let_def)

section \<open>The settings\<close>

lemma show_config_same:
  assumes "length (switch_values k) \<le> length (fl_config f)" and "k = kind_of_box p"
    and "\<forall>i < length (switch_values k). (vs ! (switch_values k ! i) = JNum 1) = switch_is f i"
  shows "show_config vs p f = Some (f\<lparr>fl_refill := vs ! 2 = JNum 1 \<or> (k = CFS_C \<and> vs ! 3 = JNum 1)\<rparr>)"
proof -
  let ?n = "length (switch_values k)"
  have "map2 (\<lambda>c i. (fst c, vs ! i = JNum 1)) (take ?n (fl_config f)) (switch_values k) = take ?n (fl_config f)"
    using assms by (intro nth_equalityI) (auto simp: switch_is_def prod_eq_iff)
  then show ?thesis using assms(1,2) by (simp add: show_config_def Let_def not_less del: take_all)
qed

text \<open>C34: The settings a printer in the network is sent are those the switches show: when it
  answers with them, the switches stay as they were.\<close>

theorem settings_are_read_back:
  assumes "length (switch_values (kind_of_box p)) \<le> length (fl_config f)"
  shows "\<exists>ps. config_message f p = set_command (fl_address f) [(''boxConfig'', JObj ps)]
    \<and> map_option fl_config (show_config (config_values (p\<lparr>boxConfig := boxConfig_of (JObj ps)\<rparr>)) p f) = Some (fl_config f)"
proof -
  let ?b = "\<lambda>i. bit_of (switch_is f i)"
  have read: "?thesis" if "config_message f p = set_command (fl_address f) [(''boxConfig'', JObj ps)]"
    and "\<forall>i < length (switch_values (kind_of_box p)).
      (config_values (p\<lparr>boxConfig := boxConfig_of (JObj ps)\<rparr>) ! (switch_values (kind_of_box p) ! i) = JNum 1) = switch_is f i" for ps
    using that(1) show_config_same [OF assms refl that(2)] by (intro exI [of _ ps]) simp
  have bit: "(bit_of x = JNum 1) = x" for x by (simp add: bit_of_def)
  show ?thesis
  proof (cases "kind_of_box p")
    case CFS_C
    then show ?thesis using assms
      by (intro read [of "[(''autoRefill'', ?b 2), (''cAutoFeed'', ?b 0), (''cSelfTest'', ?b 1), (''ignoreColorAutoFeed'', ?b 3)]"])
        (auto simp: config_message_def SetBoxsCfscConfig_def switch_values_def fun_eq_iff config_values_def boxConfig_of_def bit less_Suc_eq eval_nat_numeral Let_def)
  next
    case CFS_Lite
    then show ?thesis using assms
      by (intro read [of "[(''cAutoFeed'', ?b 0), (''autoRefill'', ?b 1)]"])
        (auto simp: config_message_def SetBoxsCfsLiteConfig_def switch_values_def fun_eq_iff config_values_def boxConfig_of_def bit less_Suc_eq eval_nat_numeral Let_def)
  qed (use assms in \<open>(intro read [of "[(''autoRefill'', ?b 2), (''cAutoFeed'', ?b 0), (''cSelfTest'', ?b 1)]"];
        auto simp: config_message_def SetBoxsConfig_def switch_values_def fun_eq_iff config_values_def boxConfig_of_def bit less_Suc_eq eval_nat_numeral Let_def)\<close>)+
qed

section \<open>Feeding\<close>

text \<open>The message that feeds the spool outside of the boxes exchanges the two numbers: the
  number of the spool is sent as that of the box, and the other way round.\<close>

theorem outer_feed_exchanges_numbers:
  assumes "deviceType (shown_printer f s) = 0" and "state (shown_printer f s) \<noteq> JNum 1"
    and "jget m ''type'' \<noteq> JStr []" and "jget m ''id'' \<noteq> JNull"
  shows "feed fresh 1 (choose_holder b m f s) s
    = ((choose_holder b m f s)\<lparr>fl_feeding := True\<rparr>,
       or_same (tell (set_command (fl_address f)
         [(''feedInOrOut'', JObj [(''boxId'', jget m ''id''), (''materialId'', jget b ''id''), (''isFeed'', JNum 1)])])) s)"
proof -
  let ?f = "choose_holder b m f s"
  have f: "fl_by_holder ?f" "fl_holder ?f = (jget b ''id'', jget m ''id'', jget m ''state'', jget m ''type'')"
    "fl_address ?f = fl_address f" "fl_printer ?f = fl_printer f"
    using assms(2) by (simp_all add: choose_holder_def)
  have "feedInOrOutMaterial t x y z = set_command t [(''feedInOrOut'', JObj [(''boxId'', x), (''materialId'', y), (''isFeed'', z)])]" for t x y z
    by (intro ext) (simp add: feedInOrOutMaterial_def)
  then show ?thesis
    using assms(1,3,4) f by (simp add: feed_def feed_holder_def shown_printer_def feed_local_def)
qed

text \<open>The panel of the small box feeds an unknown filament while it asks what it is; the panel
  of the larger boxes asks and feeds nothing.\<close>

theorem unknown_filament_is_fed_all_the_same:
  assumes "deviceType (printers (board s) (mn_printer g)) = 0" and "mn_chosen g = 1"
    and "first_spool 1 (printers (board s) (mn_printer g)) = Some m" and "jget m ''type'' = JStr []"
    and "deviceType (shown_printer f s) = 0" and "fl_by_holder f" and "fl_holder f = (x, y, z, JStr [])" and "y \<noteq> JNull"
  shows "feed_mini fresh g s = (mini_question AskToEdit g,
      feed_local (mn_address g) (jget (box_of_type 1 (printers (board s) (mn_printer g))) ''id'') (jget m ''id'') 1 s)
    \<and> feed fresh 1 f s = (question AskToEdit (f\<lparr>fl_feeding := False, fl_retracting := False\<rparr>), s)"
  using assms by (simp add: feed_mini_def move_mini_def feed_def feed_holder_def shown_printer_def Let_def question_def)

text \<open>Retracting from a cloud printer when no spool was chosen sends nothing and locks the
  buttons, which stay locked until the printer reports another feeding state.\<close>

theorem retracting_nothing_locks_the_buttons:
  assumes "deviceType (shown_printer f s) = 1" and "\<not> fl_by_holder f" and "fl_active f = (JNum (-1), JNum (-1), st)"
    and "\<forall>b \<in> set (fl_cfs f). jget b ''id'' \<noteq> JNum (-1)"
  shows "feed fresh 0 f s = (f\<lparr>fl_retracting := True\<rparr>, s) \<and> \<not> reading_offered (shown_printer f s) (fst (feed fresh 0 f s))"
proof -
  have "List.map_filter (\<lambda>x. if jget x ''id'' = JNum (-1) then member_with ''id'' (JNum (-1)) (spools x) else None) (fl_cfs f) = []"
    using assms(4) by (auto simp: List.map_filter_def filter_empty_conv)
  then show ?thesis
    using assms(1-3) by (simp add: feed_def feed_box_def shown_printer_def reading_offered_def Let_def)
qed

lemma find_ref_upd: "(\<And>p. P (f p) = P p) \<Longrightarrow> find_ref P (upd n f s) = find_ref P s"
  by (auto simp: find_ref_def upd_def all_refs_def intro: find_cong_on)

lemma silent_refresh:
  assumes "getPrinter t (board s) = Some n" and "socket (printers (board s) n) = None"
  shows "or_same (tell (SetRFIDRefresh t i j)) s = s"
  using assms by (simp add: or_same_def tell_def SetRFIDRefresh_def set_command_def command_def send_if_connected_def)

lemma refused: "refreshBox p = JNum (-1) \<Longrightarrow> reading_refused m f p \<noteq> None"
  by (simp add: reading_refused_def)

text \<open>Reading a spool of a printer whose socket is gone sends nothing and forbids reading any
  spool from then on.\<close>

theorem reading_without_socket_locks_reading:
  assumes "deviceType (shown_printer f s) = 0" and "getPrinter (address (shown_printer f s)) (board s) = Some (fl_printer f)"
    and "socket (shown_printer f s) = None" and "snd (read_spool fresh b m f s) \<noteq> s"
  shows "calls (board (snd (read_spool fresh b m f s))) = calls (board s)
    \<and> snd (read_spool fresh b' m' (fst (read_spool fresh b m f s)) (snd (read_spool fresh b m f s))) = snd (read_spool fresh b m f s)"
proof -
  let ?n = "fl_printer f" and ?s1 = "on_shell_board (upd (fl_printer f) (\<lambda>p. p\<lparr>refreshBox := JNum (-1)\<rparr>)) s"
  have g: "getPrinter (address (shown_printer f s)) (board ?s1) = Some ?n"
    using assms(2) by (simp add: getPrinter_find_ref on_shell_board_def find_ref_upd has_address_def)
  have "read_spool fresh b m f s = (f\<lparr>fl_read := (jget b ''id'', jget m ''id'')\<rparr>,
      or_same (tell (SetRFIDRefresh (address (shown_printer f s)) (jget b ''id'') (jget m ''id''))) ?s1)"
    using assms(1,4) by (simp add: read_spool_def Let_def split: option.splits)
  moreover have "or_same (tell (SetRFIDRefresh (address (shown_printer f s)) i j)) ?s1 = ?s1" for i j
    using g assms(3) by (intro silent_refresh [where n = ?n]) (simp_all add: on_shell_board_def shown_printer_def upd_def)
  moreover have "snd (read_spool fresh b' m' f' ?s1) = ?s1" if "fl_printer f' = ?n" for f'
    using that refused [of "shown_printer f' ?s1" m' f']
    by (auto simp: read_spool_def Let_def shown_printer_def on_shell_board_def upd_def split: option.split)
  ultimately show ?thesis by (simp add: on_shell_board_def upd_def)
qed

section \<open>The cutter\<close>

text \<open>Nobody is told that a print is paused: the answer for a paused printer is that it is
  printing, and the message to the cutter goes to idle printers only.\<close>

theorem paused_printers_are_told_to_be_printing:
  assumes "state (shown_printer f s) \<in> {JNum 5, JNum 6}" and "feedState (shown_printer f s) \<in> {JNum 0, JNum 3, JNum 14}"
  shows "press_cutter f s = (alert ''Printing in progress, unable to perform the operation'' f, s)"
  using assms by (auto simp: press_cutter_def Let_def)

section \<open>The form\<close>

text \<open>What was chosen in the form is lost with the next report of the printer's boxes: brand,
  type, name and colour are those of the printer again.\<close>

theorem reports_undo_the_form:
  assumes "fl_page f = Some 3" and "fl_edit_at f = (b, i, t)" and "spool_at b i (materialBoxs (boxsInfo p)) = Some v"
    and "fl_edit f = JObj ps" and "k \<in> {''vendor'', ''type'', ''name'', ''color''}"
  shows "jget (fl_edit (refresh_edit p (set_field k x f))) k = jget v k"
  using assms by (auto simp: refresh_edit_def set_field_def with_prop_def update_conv')

text \<open>A spool that is saved without a question is sent with the temperatures and the pressure of
  the catalogue, whatever the form shows; one whose brand the catalogue does not have is not
  sent at all, and nobody is told.\<close>

theorem saved_spool_is_completed:
  assumes "\<not> bad_range (fl_edit f)" and "jget (fl_edit f) ''vendor'' = JStr []  \<or> jget (fl_edit f) ''color'' \<noteq> JStr []"
    and "\<not> spool_modified f" and "deviceType (shown_printer f s) = 1"
  shows "save_spool fresh f s =
    (case completed (fl_material f) (fl_edit f) of
       None \<Rightarrow> (f, s)
     | Some v \<Rightarrow> (to_front f, ask fresh (\<lambda>uuid. SetMaterials_cloud uuid (the_text (tbId (shown_printer f s))) v) s))"
  using assms by (auto simp: save_spool_def send_spool_def Let_def split: option.split)

section \<open>At work\<close>

definition spool_json :: "nat \<Rightarrow> json" where
  "spool_json i = JObj [(''id'', JNum (of_nat i)), (''state'', JNum 1), (''type'', JStr ''PLA''), (''vendor'', JStr ''Generic''),
     (''name'', JStr ''Generic PLA''), (''color'', JStr ''#ffffff''), (''selected'', JNum 0)]"

definition box_json :: "nat \<Rightarrow> json" where
  "box_json i = JObj [(''id'', JNum (of_nat i)), (''type'', JNum 1), (''state'', JNum 1), (''materials'', JArr [spool_json 3])]"

definition demo_filaments :: filament_page where
  "demo_filaments = new_filament_page ''a'' 0"

lemma shown_demo [simp]: "shown_printer demo_filaments demo_shell = printers account_board 0"
  by (simp add: shown_printer_def demo_filaments_def new_filament_page_def)

theorem chosen_filament_is_found_witness:
  "let f = demo_filaments\<lparr>fl_material := list_filaments default_materials [], fl_edit := choice_of filament_01001\<rparr> in
   calls (board (snd (send_spool (\<lambda>k. []) False f demo_shell)))
    = calls (board demo_shell) @ delivered 0 (filament_message (fst (fl_edit_at f)) (choice_of filament_01001) filament_01001) (board demo_shell)"
proof -
  have m: "filament_01001 \<in> set default_materials" by (simp add: default_materials_def)
  let ?f = "demo_filaments\<lparr>fl_material := list_filaments default_materials [], fl_edit := choice_of filament_01001\<rparr>"
  have base: "base_of filament_01001 ''brand'' = JStr ''Creality''" by (simp add: filament_01001_def)
  have kv: "\<not> nullish (jget filament_01001 ''kvParam'')" by (simp add: filament_01001_def filament_entry_def)
  have p: "deviceType (shown_printer ?f demo_shell) = 0" "getPrinter (fl_address ?f) (board demo_shell) = Some 0"
    by (simp_all add: shown_printer_def demo_filaments_def new_filament_page_def account_printers demo_shell_def
        account_board_def demo_printer_def initial_printer_def demo_device_def getPrinter_find_ref find_ref_def has_address_def all_refs_def)
  show ?thesis
    using chosen_filament_is_found [OF default_keys m base _ _ _ _ _ _ kv p] by (simp add: choice_of_def base)
qed

theorem catalogue_grows_with_every_change_witness:
  "catalogue_size (fl_material ((boxes_changed ((demo_printer ''a'')\<lparr>material := JArr default_materials\<rparr>) ^^ 3) demo_filaments)) = 153"
proof -
  have "deviceType (demo_printer ''a'') = 0" by (simp add: demo_printer_def initial_printer_def demo_device_def)
  then show ?thesis
    using catalogue_grows_with_every_change [of "(demo_printer ''a'')\<lparr>material := JArr default_materials\<rparr>" 3 demo_filaments]
    by (simp add: elements_def default_materials_def) (simp add: demo_filaments_def new_filament_page_def catalogue_size_def)
qed

theorem settings_are_read_back_witness:
  "\<exists>ps. config_message (demo_filaments\<lparr>fl_config := [(''a'', True), (''b'', False), (''c'', True)]\<rparr>) (demo_printer ''a'')
      = set_command ''a'' [(''boxConfig'', JObj ps)]"
proof -
  have "kind_of_box (demo_printer ''a'') = CFS"
    by (simp add: kind_of_box_def demo_printer_def initial_printer_def)
  moreover have "fl_address demo_filaments = ''a''" by (simp add: demo_filaments_def new_filament_page_def)
  ultimately show ?thesis
    using settings_are_read_back [of "demo_printer ''a''" "demo_filaments\<lparr>fl_config := [(''a'', True), (''b'', False), (''c'', True)]\<rparr>"]
    by (simp add: switch_values_def) blast
qed

theorem outer_feed_exchanges_numbers_witness:
  "snd (feed (\<lambda>k. []) 1 (choose_holder (box_json 2) (spool_json 3) demo_filaments demo_shell) demo_shell)
    = or_same (tell (set_command ''a'' [(''feedInOrOut'', JObj [(''boxId'', JNum 3), (''materialId'', JNum 2), (''isFeed'', JNum 1)])])) demo_shell"
  using outer_feed_exchanges_numbers [of demo_filaments demo_shell "spool_json 3" "\<lambda>k. []" "box_json 2"]
  by (simp add: account_printers spool_json_def box_json_def) (simp add: demo_filaments_def new_filament_page_def)

theorem retracting_nothing_locks_the_buttons_witness:
  "feed (\<lambda>k. []) 0 (new_filament_page ''x'' 1) demo_shell = ((new_filament_page ''x'' 1)\<lparr>fl_retracting := True\<rparr>, demo_shell)"
  using retracting_nothing_locks_the_buttons [of "new_filament_page ''x'' 1" demo_shell "JNum 1" "\<lambda>k. []"]
  by (simp add: shown_printer_def new_filament_page_def)

definition unplugged :: shell where
  "unplugged = on_shell_board (upd 0 (\<lambda>p. p\<lparr>socket := None, materialDetector1 := JNum 1\<rparr>)) demo_shell"

lemma unplugged_simps:
  "shown_printer demo_filaments unplugged = (printers account_board 0)\<lparr>socket := None, materialDetector1 := JNum 1\<rparr>" "fl_printer demo_filaments = 0"
  "board unplugged = upd 0 (\<lambda>p. p\<lparr>socket := None, materialDetector1 := JNum 1\<rparr>) account_board" "fl_cfs demo_filaments = []" "fl_external demo_filaments = []"
  by (simp_all add: shown_printer_def unplugged_def on_shell_board_def upd_def demo_filaments_def new_filament_page_def)

lemma unplugged_state:
  "materialStatus (printers account_board 0) = JNum 0" "refreshBox (printers account_board 0) = JNum 0"
  by (simp_all add: account_board_def demo_printer_def initial_printer_def demo_device_def ownProperty_def)

theorem reading_without_socket_locks_reading_witness:
  "calls (board (snd (read_spool (\<lambda>k. []) (box_json 2) (spool_json 3) demo_filaments unplugged))) = calls (board unplugged)"
proof -
  let ?b = "upd 0 (\<lambda>p. p\<lparr>socket := None, materialDetector1 := JNum 1\<rparr>) account_board"
  have found: "getPrinter ''a'' ?b = Some 0"
    by (simp add: getPrinter_find_ref find_ref_upd has_address_def) (simp add: find_ref_def has_address_def)
  have "reading_refused (spool_json 3) demo_filaments ((printers account_board 0)\<lparr>socket := None, materialDetector1 := JNum 1\<rparr>) = None"
    by (simp add: reading_refused_def unplugged_simps unplugged_state account_printers holder_in_use_def spool_json_def)
  moreover have "or_same (tell (SetRFIDRefresh ''a'' i j)) (on_shell_board (upd 0 (\<lambda>p. p\<lparr>refreshBox := JNum (-1)\<rparr>)) unplugged)
      = on_shell_board (upd 0 (\<lambda>p. p\<lparr>refreshBox := JNum (-1)\<rparr>)) unplugged" for i j
    using found by (intro silent_refresh [where n = 0])
      (simp add: on_shell_board_def getPrinter_find_ref find_ref_upd has_address_def unplugged_simps,
       simp add: on_shell_board_def unplugged_simps upd_def)
  ultimately have "refreshBox (printers (board (snd (read_spool (\<lambda>k. []) (box_json 2) (spool_json 3) demo_filaments unplugged))) 0) = JNum (-1)"
    by (simp add: read_spool_def unplugged_simps account_printers on_shell_board_def upd_def)
  moreover have "refreshBox (printers (board unplugged) 0) = JNum 0"
    by (simp add: unplugged_simps upd_def unplugged_state)
  ultimately have "snd (read_spool (\<lambda>k. []) (box_json 2) (spool_json 3) demo_filaments unplugged) \<noteq> unplugged" by auto
  then show ?thesis
    using reading_without_socket_locks_reading [of demo_filaments unplugged "\<lambda>k. []" "box_json 2" "spool_json 3"] found
    by (simp add: unplugged_simps account_printers)
qed

theorem reports_undo_the_form_witness:
  "jget (fl_edit (refresh_edit ((demo_printer ''a'')\<lparr>boxsInfo := (boxsInfo (demo_printer ''a''))\<lparr>materialBoxs := [box_json 2]\<rparr>\<rparr>)
     (set_field ''color'' ''#000000'' (fst (edit_spool (box_json 2) (spool_json 3) demo_filaments demo_shell))))) ''color'' = JStr ''#ffffff''"
proof -
  have "spool_at (JNum 2) (JNum 3) [box_json 2] = Some (spool_json 3)"
    by (simp add: spool_at_def member_with_def box_json_def spool_json_def spools_def elements_def)
  then show ?thesis
    using reports_undo_the_form [of "fst (edit_spool (box_json 2) (spool_json 3) demo_filaments demo_shell)" "JNum 2" "JNum 3" "JNum 1"
        "(demo_printer ''a'')\<lparr>boxsInfo := (boxsInfo (demo_printer ''a''))\<lparr>materialBoxs := [box_json 2]\<rparr>\<rparr>" "spool_json 3"
        _ "''color''" "''#000000''"]
    by (simp add: edit_spool_def Let_def) (simp add: box_json_def spool_json_def)
qed

end
