(* ===== verification/FilePrint.thy ===== *)
theory FilePrint
  imports FilePage FilamentPage
begin

text \<open>
  The dialog before a print (component \<open>DeviceFilePrint\<close> of \<open>CeX73yR3.js\<close>): the plates of the
  chosen file, the matching of its colours with the slots of the printer's boxes, the slot a
  user chooses instead, the warnings about spools that run out, and the start of the print on
  a printer in the network or of the cloud.  Files are the rows of \<open>FilePage\<close>; times are whole
  seconds; the distance of two colours and \<open>Date.now()\<close> are arguments, as in \<open>ColorMatch\<close> and
  \<open>FilePage\<close>.
\<close>

section \<open>State\<close>

text \<open>A plate as it is listed; a list of \<open>materialUsed\<close> that is missing is empty here, since all
  its elements are \<open>undefined\<close>.\<close>

record plate_row =
  pr_index :: nat
  pr_name :: json
  pr_time :: string
  pr_preview :: "string option"
  pr_active :: bool
  pr_colors :: "string list"
  pr_material :: "json list"
  pr_used :: "json list"
  pr_consumables :: string
  pr_path :: json

text \<open>A colour of the plate with the slot it is printed from (\<open>filamentColor\<close>).\<close>

record dialog_color =
  dc_cId :: json
  dc_boxId :: json
  dc_matColor :: string
  dc_boxColor :: json
  dc_boxColorID :: json
  dc_type :: json
  dc_extruder_type :: json
  dc_index :: nat
  dc_title :: string
  dc_RFIDState :: json
  dc_percent :: json
  dc_remaining :: json
  dc_used :: json

text \<open>A slot the user may choose (\<open>boxColor\<close>).\<close>

record dialog_slot =
  ds_box :: string
  ds_boxId :: json
  ds_index :: json
  ds_color :: json
  ds_remaining :: json
  ds_percent :: json
  ds_RFIDState :: json
  ds_type :: json

datatype dialog_question =
    HolderMismatch   \<comment> \<open>told, the print does not start\<close>
  | HolderEmpty      \<comment> \<open>asked whether to print all the same\<close>

record print_dialog =
  pd_open :: bool
  pd_data :: "plate_row list"
  pd_colors :: "dialog_color list"
  pd_slots :: "dialog_slot list"
  pd_current :: nat
  pd_custom_types :: json
  pd_calib :: bool
  pd_cfs :: bool                 \<comment> \<open>\<open>enableCFS\<close>\<close>
  pd_box_info :: "json list"     \<comment> \<open>\<open>boxColorInfo\<close>\<close>
  pd_address :: string
  pd_printer :: "nat option"
  pd_has_cfs :: bool
  pd_has_ext :: bool             \<comment> \<open>\<open>hasExr\<close>\<close>
  pd_questions :: "dialog_question list"
  pd_waiting :: "file_row list"  \<comment> \<open>requests for the colours of a file\<close>
  pd_tasks :: nat                \<comment> \<open>tasks the cloud has not answered\<close>
  pd_resends :: "resend list"

definition new_print_dialog :: print_dialog where
  "new_print_dialog = \<lparr>pd_open = False, pd_data = [], pd_colors = [], pd_slots = [], pd_current = 0,
     pd_custom_types = JNum 0, pd_calib = False, pd_cfs = False, pd_box_info = [], pd_address = [],
     pd_printer = None, pd_has_cfs = False, pd_has_ext = False, pd_questions = [], pd_waiting = [],
     pd_tasks = 0, pd_resends = []\<rparr>"

type_synonym dialog_state = "print_dialog \<times> cloud_api \<times> dashboard"

section \<open>Plates\<close>

text \<open>\<open>String.fromCharCode(65 + v)\<close> of a number, and the name of a slot.\<close>

definition letter_from :: "json \<Rightarrow> char" where
  "letter_from v = (case to_number v of None \<Rightarrow> CHR 0x00 | Some q \<Rightarrow> char_of (nat (js_trunc (65 + q))))"

definition slot_title :: "json \<Rightarrow> json \<Rightarrow> string" where
  "slot_title b m = js_text b @ [letter_from m]"

definition pieces :: "string \<Rightarrow> json \<Rightarrow> string list" where
  "pieces sep v = (case v of JStr t \<Rightarrow> js_split sep t | _ \<Rightarrow> [])"

text \<open>The other lists are cut, or filled with \<open>undefined\<close>, to the length of the list of colours.\<close>

definition beside :: "string list \<Rightarrow> string list \<Rightarrow> json list" where
  "beside cs xs = map (\<lambda>i. at_js JUndefined (map JStr xs) (Suc i)) [0..<length cs]"

definition duration :: "json \<Rightarrow> string" where
  "duration v = cb (map_option js_trunc (to_number v))"

definition metres_used :: "json \<Rightarrow> string" where
  "metres_used v = show_num (map_option (\<lambda>q. q / 1000) (to_number v)) @ ''m''"

text \<open>The picture of a plate: \<open>None\<close> is the \<open>TypeError\<close> of a path with fewer than three names,
  or of a plate without a picture.\<close>

definition get_thumb :: "int \<Rightarrow> json \<Rightarrow> string \<Rightarrow> string option option" where
  "get_thumb now r x =
     (case jget r ''thumbnail'' of
        JStr th \<Rightarrow>
          (case index_in ''humbnail'' th of
             Some (Suc i) \<Rightarrow>
               let e = js_split ''/'' (drop (Suc i) th) in
               if length e < 3 then None
               else Some (Some (x @ ''/downloads/'' @ e ! 0 @ ''/'' @ encodeURIComponent (e ! 1) @ ''/''
                      @ encodeURIComponent (before_last ''.png'' (e ! 2)) @ ''.png?'' @ show_int now))
           | _ \<Rightarrow> Some None)
      | _ \<Rightarrow> None)"

definition plate_of :: "string \<Rightarrow> json \<Rightarrow> nat \<Rightarrow> string option \<Rightarrow> json \<Rightarrow> plate_row" where
  "plate_of t path k preview r =
     (let cs = pieces '';'' (jget r ''materialColors'') in
      \<lparr>pr_index = k, pr_name = JUndefined, pr_time = duration (jget r ''timeCost''), pr_preview = preview,
       pr_active = False, pr_colors = cs, pr_material = beside cs (pieces '';'' (jget r ''material'')),
       pr_used = beside cs (pieces '','' (jget r ''materialUsed'')),
       pr_consumables = metres_used (jget r ''consumables''), pr_path = path\<rparr>)"

text \<open>The picture of a file with a single plate.\<close>

definition single_preview :: "string \<Rightarrow> json \<Rightarrow> string option" where
  "single_preview c v =
     (let th = jget v ''thumbnail'' in
      if truthy th
      then (case index_in ''humbnail'' (the_text th) of
              Some (Suc i) \<Rightarrow>
                let e = js_split ''/'' (drop (Suc i) (the_text th)) in
                if length e < 2 then None
                else Some (c @ ''/downloads/'' @ e ! 0 @ ''/'' @ encodeURIComponent (before_last ''.png'' (e ! 1)) @ ''.png'')
            | _ \<Rightarrow> Some [])
      else (case v of
              JStr t \<Rightarrow>
                (case index_in ''humbnail'' t of
                   Some (Suc i) \<Rightarrow> Some (c @ ''/downloads/'' @ hd (js_split '':'' (drop (Suc i) t)))
                 | _ \<Rightarrow> Some [])
            | _ \<Rightarrow> None))"

text \<open>The plates of a file on a printer in the network: those before the first that throws, and
  whether none did.\<close>

fun until_throw :: "'a option list \<Rightarrow> 'a list \<times> bool" where
  "until_throw [] = ([], True)"
| "until_throw (None # xs) = ([], False)"
| "until_throw (Some x # xs) = (x # fst (until_throw xs), snd (until_throw xs))"

definition creatLocalPlate :: "int \<Rightarrow> string \<Rightarrow> file_row \<Rightarrow> plate_row list \<times> bool" where
  "creatLocalPlate now t x =
     (let c = ''http://'' @ t @ '':80''; v = fr_data x; fs = jget v ''file'' in
      if truthy fs
      then until_throw (map (\<lambda>(i, a). map_option (\<lambda>th. plate_of t (jget a ''path'') (Suc i) th a) (get_thumb now a c))
                          (enumerate 0 (elements fs)))
      else until_throw [map_option (\<lambda>th. plate_of t (JStr (fr_path x)) 1 (Some th) v) (single_preview c v)])"

text \<open>\<open>s.replace(u, v)\<close> of texts: the first place only.\<close>

definition replace_first :: "string \<Rightarrow> string \<Rightarrow> string \<Rightarrow> string" where
  "replace_first u v t = (case index_in u t of None \<Rightarrow> t | Some i \<Rightarrow> take i t @ v @ drop (i + length u) t)"

definition rgb_of_cloud :: "json \<Rightarrow> string" where
  "rgb_of_cloud v = replace_first ''#FF'' ''#'' (the_text v)"

definition cloud_plate :: "nat \<Rightarrow> json \<Rightarrow> plate_row" where
  "cloud_plate c x =
     (let fs = filter truthy (elements (jget x ''colors'')) in
      \<lparr>pr_index = Suc c, pr_name = jget x ''name'', pr_time = duration (jget x ''print_time''), pr_preview = Some [],
       pr_active = False, pr_colors = map (\<lambda>f. rgb_of_cloud (jget f ''color'')) fs,
       pr_material = map (\<lambda>f. jget f ''type'') fs, pr_used = [], pr_consumables = js_text (jget x ''use'') @ ''g'',
       pr_path = jget x ''path''\<rparr>)"

definition asked_plate :: "file_row \<Rightarrow> json list \<Rightarrow> plate_row" where
  "asked_plate r es =
     \<lparr>pr_index = 1, pr_name = JStr (fr_name r), pr_time = ''NaN'', pr_preview = Some [], pr_active = False,
      pr_colors = map (\<lambda>e. rgb_of_cloud (jget e ''filamentsColor'')) es,
      pr_material = map (\<lambda>e. jget e ''filamentType'') es, pr_used = [], pr_consumables = ''NaN'',
      pr_path = jget (fr_data r) ''path''\<rparr>"

section \<open>Matching the colours of a plate\<close>

text \<open>\<open>M.distance < S.distance\<close>.\<close>

definition nearer :: "real option \<Rightarrow> real option \<Rightarrow> bool" where
  "nearer x y = (case x of None \<Rightarrow> False | Some a \<Rightarrow> below a y)"

text \<open>One round: the first colour that is not served and has a slot of its type is the candidate
  until another of the same type is nearer to its slot.\<close>

fun candidate_from ::
    "(string \<Rightarrow> string \<Rightarrow> real option) \<Rightarrow> json list \<Rightarrow> slot list \<Rightarrow> nat list \<Rightarrow> nat \<Rightarrow> string list
      \<Rightarrow> (nat \<times> color_match) option \<Rightarrow> (nat \<times> color_match) option" where
  "candidate_from gap ty l served h [] c = c"
| "candidate_from gap ty l served h (x # xs) c =
     candidate_from gap ty l served (Suc h) xs
       (if x = [] \<or> h \<in> set served then c
        else let m = nearest_slot gap x (at_js JUndefined ty (Suc h)) l in
             if (case c of None \<Rightarrow> truthy (m_filamentType m)
                 | Some (f, u) \<Rightarrow> nearer (m_distance m) (m_distance u) \<and> m_filamentType m = m_filamentType u)
             then Some (h, m) else c)"

definition candidate_ok ::
    "(string \<Rightarrow> string \<Rightarrow> real option) \<Rightarrow> json list \<Rightarrow> slot list \<Rightarrow> nat list \<Rightarrow> string list \<Rightarrow> nat \<Rightarrow> color_match \<Rightarrow> bool" where
  "candidate_ok gap ty l served cs f u =
     (f < length cs \<and> f \<notin> set served \<and> cs ! f \<noteq> []
      \<and> u = nearest_slot gap (cs ! f) (at_js JUndefined ty (Suc f)) l \<and> truthy (m_filamentType u))"

lemma candidate_from_ok:
  assumes "candidate_from gap ty l served h xs c = Some (f, u)" "xs = drop h cs"
    "\<And>f u. c = Some (f, u) \<Longrightarrow> candidate_ok gap ty l served cs f u"
  shows "candidate_ok gap ty l served cs f u"
  using assms
proof (induction xs arbitrary: h c)
  case (Cons x xs)
  have x: "h < length cs" "cs ! h = x" "xs = drop (Suc h) cs"
    using Cons.prems(2) by (metis drop_eq_Nil list.distinct(1) not_less nth_via_drop,
      metis nth_via_drop, metis drop_Suc drop_tl list.sel(3))
  show ?case
    by (rule Cons.IH [OF Cons.prems(1) [unfolded candidate_from.simps] x(3)])
       (use Cons.prems(3) x in \<open>auto simp: candidate_ok_def Let_def split: if_splits option.splits\<close>)
qed simp

lemma candidate_from_bound:
  "candidate_from gap ty l served 0 cs None = Some (f, u) \<Longrightarrow> candidate_ok gap ty l served cs f u"
  by (erule candidate_from_ok [where h = 0 and c = None]) simp_all

definition unserved :: "nat \<Rightarrow> nat list \<Rightarrow> nat list" where
  "unserved n served = filter (\<lambda>i. i \<notin> set served) [0..<n]"

lemma unserved_shrinks: "f < n \<Longrightarrow> f \<notin> set served \<Longrightarrow> length (unserved n (served @ [f])) < length (unserved n served)"
proof -
  assume "f < n" "f \<notin> set served"
  have "unserved n (served @ [f]) = filter (\<lambda>i. i \<noteq> f) (unserved n served)"
    by (simp add: unserved_def conj_commute)
  moreover have "f \<in> set (unserved n served)"
    using \<open>f < n\<close> \<open>f \<notin> set served\<close> by (simp add: unserved_def)
  ultimately show ?thesis
    using length_filter_less [of f "unserved n served" "\<lambda>i. i \<noteq> f"] by simp
qed

text \<open>The rounds: what was matched, with the place of the colour.\<close>

function dialog_rounds ::
    "(string \<Rightarrow> string \<Rightarrow> real option) \<Rightarrow> string list \<Rightarrow> json list \<Rightarrow> nat list \<Rightarrow> slot list
      \<Rightarrow> (nat \<times> color_match) list" where
  "dialog_rounds gap cs ty served l =
     (if cs = [] \<or> l = [] then []
      else case candidate_from gap ty l served 0 cs None of
        None \<Rightarrow> []
      | Some (f, u) \<Rightarrow> (f, u) # dialog_rounds gap cs ty (served @ [f]) (splice_one (m_index u) l))"
  by pat_completeness auto
termination
proof (relation "measure (\<lambda>(gap, cs, ty, served, l). length (unserved (length cs) served))", goal_cases)
  case (2 gap cs ty served l x f u)
  then show ?case
    using candidate_from_bound [of gap ty l served cs f u] by (simp add: unserved_shrinks candidate_ok_def)
qed simp

declare dialog_rounds.simps [simp del]

definition matched_color :: "plate_row \<Rightarrow> nat \<Rightarrow> color_match \<Rightarrow> dialog_color" where
  "matched_color r f u =
     (let free = eq_num (m_boxId u) (- 1) in
      \<lparr>dc_cId = m_cId u, dc_boxId = m_boxId u, dc_matColor = pr_colors r ! f,
       dc_boxColor = JStr (if free then ''#707070'' else m_color u), dc_boxColorID = m_materialId u,
       dc_type = m_filamentType u, dc_extruder_type = at_js JUndefined (pr_material r) (Suc f), dc_index = f,
       dc_title = (if free then [] else slot_title (m_boxId u) (m_materialId u)), dc_RFIDState = m_RFIDState u,
       dc_percent = m_percent u, dc_remaining = m_remaining u,
       dc_used = at_js JUndefined (pr_used r) (Suc f)\<rparr>)"

text \<open>A colour that is left over has the same fields as \<open>$4\<close> gives without a slot.\<close>

definition match_plate :: "(string \<Rightarrow> string \<Rightarrow> real option) \<Rightarrow> plate_row \<Rightarrow> slot list \<Rightarrow> dialog_color list" where
  "match_plate gap r l =
     (let ms = dialog_rounds gap (pr_colors r) (pr_material r) [] l in
      map (\<lambda>(f, u). matched_color r f u) ms
      @ map (\<lambda>f. matched_color r f no_match) (unserved (length (pr_colors r)) (map fst ms)))"

text \<open>What \<open>matchModelColor\<close> does; without the chosen plate it throws where the colours would be
  copied.  Nothing sets \<open>hasExr\<close> back, and whatever the user chose, a printer with boxes prints
  from them again.\<close>

definition matchModelColor :: "(string \<Rightarrow> string \<Rightarrow> real option) \<Rightarrow> print_dialog \<Rightarrow> print_dialog" where
  "matchModelColor gap d =
     (let d1 = d\<lparr>pd_colors := []\<rparr>; bs = map slot_of (pd_box_info d);
          l = filter (\<lambda>b. eq_num (slotBoxType b) 0) bs;
          d2 = d1\<lparr>pd_has_ext := (pd_has_ext d \<or> length l < length bs), pd_has_cfs := (l \<noteq> []), pd_cfs := (l \<noteq> [])\<rparr>
      in if pd_data d = [] then d1
         else if l \<noteq> [] \<and> pd_current d < length (pd_data d)
         then d2\<lparr>pd_colors := match_plate gap (pd_data d ! pd_current d) l\<rparr> else d2)"

text \<open>\<open>onPlateClick\<close>.\<close>

definition onPlateClick :: "(string \<Rightarrow> string \<Rightarrow> real option) \<Rightarrow> nat \<Rightarrow> print_dialog \<Rightarrow> print_dialog" where
  "onPlateClick gap x d =
     matchModelColor gap (d\<lparr>pd_data := map (\<lambda>r. r\<lparr>pr_active := (pr_index r = x)\<rparr>) (pd_data d),
       pd_current := (if x \<in> pr_index ` set (pd_data d) then x - 1 else pd_current d)\<rparr>)"

section \<open>Showing a file\<close>

definition slots_of_box :: "json \<Rightarrow> dialog_slot list" where
  "slots_of_box e =
     map (\<lambda>(i, f). \<lparr>ds_box = js_text (jget e ''id'') @ [char_of (65 + i)], ds_boxId = jget e ''id'',
            ds_index = jget f ''id'', ds_color = (if jget f ''color'' = JStr [] then JNull else jget f ''color''),
            ds_remaining = jget f ''remaining_length'', ds_percent = jget f ''percent'', ds_RFIDState = jget f ''state'',
            ds_type = (if truthy (jget f ''type'') then jget f ''type''
                       else if jget f ''editStatus'' = JNum 0 then JStr ''/'' else JStr ''?'')\<rparr>)
       (enumerate (0::nat) (elements (jget e ''materials'')))"

definition slots_of :: "printer_boxsInfo \<Rightarrow> dialog_slot list" where
  "slots_of k = concat (map slots_of_box (filter (\<lambda>e. eq_num (jget e ''type'') 0) (materialBoxs k)))"

text \<open>\<open>show\<close>: the file of a printer in the network is listed at once; for a file of the cloud
  without plates the colours are asked for, and the dialog opens with the answer.  A printer
  that is not listed throws when its kind is read.\<close>

definition fill_dialog :: "string \<Rightarrow> nat option \<Rightarrow> file_row \<Rightarrow> printer_boxsInfo \<Rightarrow> print_dialog \<Rightarrow> print_dialog" where
  "fill_dialog t o' r k d =
     d\<lparr>pd_current := 0, pd_printer := o', pd_address := t, pd_box_info := boxColorInfo k, pd_slots := slots_of k,
       pd_data := [], pd_custom_types := jget (fr_data r) ''custom_types''\<rparr>"

definition open_dialog :: "(string \<Rightarrow> string \<Rightarrow> real option) \<Rightarrow> plate_row list \<Rightarrow> print_dialog \<Rightarrow> print_dialog" where
  "open_dialog gap rs d = (matchModelColor gap (d\<lparr>pd_data := pd_data d @ rs\<rparr>))\<lparr>pd_open := True\<rparr>"

definition show_file ::
    "(string \<Rightarrow> string \<Rightarrow> real option) \<Rightarrow> int \<Rightarrow> string \<Rightarrow> string \<Rightarrow> file_row \<Rightarrow> printer_boxsInfo
      \<Rightarrow> dialog_state \<Rightarrow> dialog_state" where
  "show_file gap now uuid t r k b =
     (let (d, a, s) = b; d1 = fill_dialog t (getPrinter t s) r k d in
      case getPrinter t s of
        None \<Rightarrow> (d1, a, s)
      | Some n \<Rightarrow>
          if deviceType (printers s n) = 0
          then (case creatLocalPlate now t r of
                  (rs, True) \<Rightarrow> (open_dialog gap rs d1, a, s)
                | (rs, False) \<Rightarrow> (d1\<lparr>pd_data := rs\<rparr>, a, s))
          else if deviceType (printers s n) = 1
          then let ps = jget (fr_data r) ''plates'' in
               if truthy ps
               then (open_dialog gap (map (\<lambda>(c, x). cloud_plate c x) (enumerate 0 (elements ps))) d1, a, s)
               else (d1\<lparr>pd_waiting := pd_waiting d1 @ [r]\<rparr>,
                     getGcodeColor uuid (js_text (tbId (printers s n))) (jget (fr_data r) ''path'') a, s)
          else (open_dialog gap [] d1, a, s))"

text \<open>The answer to the \<open>k\<close>-th request for colours; a list that is not there throws.\<close>

definition colors_answered ::
    "(string \<Rightarrow> string \<Rightarrow> real option) \<Rightarrow> nat \<Rightarrow> json \<Rightarrow> print_dialog \<Rightarrow> print_dialog" where
  "colors_answered gap k v d =
     (if k < length (pd_waiting d)
      then let d1 = d\<lparr>pd_waiting := remove_at k (pd_waiting d)\<rparr> in
           (case getGcodeColor_then v of
              JArr es \<Rightarrow> open_dialog gap [asked_plate (pd_waiting d ! k) es] d1
            | _ \<Rightarrow> d1)
      else d)"

definition close_dialog :: "print_dialog \<Rightarrow> print_dialog" where
  "close_dialog d = d\<lparr>pd_open := False\<rparr>"

section \<open>Choosing slots\<close>

text \<open>\<open>hidePopover\<close> and the watcher of \<open>enableCalib\<close>.\<close>

definition choose_slot :: "nat \<Rightarrow> dialog_slot \<Rightarrow> print_dialog \<Rightarrow> print_dialog" where
  "choose_slot i x d =
     (if truthy (ds_color x) \<and> i < length (pd_colors d)
      then d\<lparr>pd_colors := (pd_colors d)[i := (pd_colors d ! i)
             \<lparr>dc_boxColor := ds_color x, dc_boxId := ds_boxId x, dc_cId := JStr (''T'' @ ds_box x),
              dc_boxColorID := ds_index x, dc_type := ds_type x, dc_title := slot_title (ds_boxId x) (ds_index x),
              dc_remaining := ds_remaining x, dc_percent := ds_percent x, dc_RFIDState := ds_RFIDState x\<rparr>]\<rparr>
      else d)"

definition choose_calibration :: "string \<Rightarrow> bool \<Rightarrow> dialog_state \<Rightarrow> dialog_state" where
  "choose_calibration uuid on b =
     (let (d, a, s) = b in
      (d\<lparr>pd_calib := on\<rparr>,
       (case pd_printer d of
          Some n \<Rightarrow> if on \<noteq> pd_calib d \<and> truthy (tbId (printers s n))
                    then setPrintCalibration uuid (js_text (tbId (printers s n))) (JBool on) a else a
        | None \<Rightarrow> a), s))"

text \<open>\<open>getTextColor\<close>: black on a light colour, white on a dark one; and the style of a slot, which
  is crossed out when its type is not the one that is asked for.\<close>

definition channel :: "int \<Rightarrow> nat \<Rightarrow> int" where
  "channel n k = n div 2 ^ k mod 256"

definition getTextColor :: "string \<Rightarrow> string" where
  "getTextColor t =
     (if t = [] then ''#000''
      else let e = (if hd t = CHR ''#'' then tl t else t);
               e = (if length e = 3 then concat (map (\<lambda>c. [c, c]) e) else e);
               n = (case parse_hex e of None \<Rightarrow> 0 | Some n \<Rightarrow> n)
           in if channel n 16 * 299 + channel n 8 * 587 + channel n 0 * 114 > 50 * 1000 then ''#000'' else ''#FFF'')"

record slot_style =
  st_crossed :: bool
  st_background :: json
  st_text :: string

definition matchStyle :: "dialog_slot \<Rightarrow> dialog_color \<Rightarrow> slot_style" where
  "matchStyle x c =
     (if ds_type x = dc_extruder_type c
      then \<lparr>st_crossed = False, st_background = ds_color x, st_text = getTextColor (the_text (ds_color x))\<rparr>
      else \<lparr>st_crossed = True, st_background = JUndefined, st_text = ''#000''\<rparr>)"

text \<open>The two lists of like spools by their names: a group with too few names is left out.\<close>

definition absent :: "json \<Rightarrow> bool" where
  "absent v = (v = JStr [] \<or> nullish v)"

definition names_of_group :: "json \<Rightarrow> string list" where
  "names_of_group v = map (\<lambda>e. slot_title (jget e ''boxId'') (jget e ''materialId''))
     (filter (\<lambda>e. \<not> absent (jget e ''boxId'') \<and> \<not> absent (jget e ''materialId'')) (elements v))"

definition groups_by :: "nat \<Rightarrow> nat \<Rightarrow> json \<Rightarrow> string list list" where
  "groups_by least i v = filter (\<lambda>g. 2 \<le> length g)
     (map (\<lambda>k. names_of_group (k ! i)) (filter (\<lambda>k. least \<le> length k) (map elements (elements v))))"

definition like_groups :: "printer \<Rightarrow> string list list" where
  "like_groups p = (if deviceType p = 0 then groups_by 4 2 (same_material (boxsInfo p)) else [])"

definition colored_like_groups :: "printer \<Rightarrow> string list list" where
  "colored_like_groups p = (if deviceType p = 0 then groups_by 3 1 (color_same_material (boxsInfo p)) else [])"

text \<open>The spool after \<open>m\<close> in the first group that lists it, the first after the last.\<close>

fun next_spool :: "string list list \<Rightarrow> string \<Rightarrow> string option" where
  "next_spool [] m = None"
| "next_spool (z # zs) m =
     (if m \<in> set z then Some (z ! (Suc (length (takeWhile (\<lambda>x. x \<noteq> m) z)) mod length z)) else next_spool zs m)"

text \<open>What the plate needs of each spool whose chip was read, with what is left of it.\<close>

definition add_need :: "dialog_color \<Rightarrow> (string \<times> rat \<times> rat) list \<Rightarrow> (string \<times> rat \<times> rat) list" where
  "add_need c es =
     (case (to_number (dc_used c), to_number (dc_remaining c)) of
        (Some n, Some u) \<Rightarrow>
          if dc_RFIDState c = JNum 2 \<and> dc_title c \<noteq> []
          then (let t = (case map_of es (dc_title c) of None \<Rightarrow> 0 | Some (t, _) \<Rightarrow> t)
                in AList.update (dc_title c) (t + n, u) es)
          else es
      | _ \<Rightarrow> es)"

definition needs :: "dialog_color list \<Rightarrow> (string \<times> rat \<times> rat) list" where
  "needs cs = fold add_need cs []"

text \<open>A warning: the spool, the metres left and needed, and what the printer goes on with when it
  refills by itself.\<close>

record spool_warning =
  sw_title :: string
  sw_left :: string
  sw_need :: string
  sw_next :: "string option"

definition metres :: "rat \<Rightarrow> string" where
  "metres q = (if q < 0 then ''-'' @ two_places (- (q / 1000)) else two_places (q / 1000))"

definition spool_warnings :: "print_dialog \<Rightarrow> printer \<Rightarrow> spool_warning list" where
  "spool_warnings d p =
     (let gs = (if truthy (ignoreColorAutoFeed (boxConfig p)) then colored_like_groups p
                else if truthy (autoRefill (boxConfig p)) then like_groups p else [])
      in map (\<lambda>(a, m, z). \<lparr>sw_title = a, sw_left = metres z, sw_need = metres m, sw_next = next_spool gs a\<rparr>)
           (filter (\<lambda>(a, m, z). z < m \<and> m \<noteq> 0 \<and> z \<noteq> 0) (needs (pd_colors d))))"

section \<open>Starting\<close>

definition every_color_served :: "print_dialog \<Rightarrow> printer \<Rightarrow> bool" where
  "every_color_served d p =
     (deviceType p = 0 \<and> \<not> truthy (cfsConnect p) \<or> \<not> pd_cfs d
      \<or> list_all (\<lambda>c. dc_matColor c = [] \<or> \<not> eq_num (dc_boxId c) (- 1)) (pd_colors d))"

definition start_disabled :: "print_dialog \<Rightarrow> printer \<Rightarrow> bool" where
  "start_disabled d p =
     (\<not> every_color_served d p
      \<or> (\<exists>k \<in> {1, 6, 7, 8}. eq_num (state p) k) \<and> eq_num (errcode (err p)) 0 \<and> pd_has_cfs d \<and> pd_has_ext d)"

definition dialog_match :: "dialog_color \<Rightarrow> json" where
  "dialog_match c = written
     [(''id'', JStr (slot_name (Some (of_nat (Suc (dc_index c)))))), (''type'', dc_type c), (''color'', dc_boxColor c),
      (''boxId'', dc_boxId c), (''materialId'', dc_boxColorID c)]"

definition cloud_match :: "dialog_color \<Rightarrow> json" where
  "cloud_match c = written
     [(''cId'', dc_cId c), (''filamentId'', JStr (slot_name (Some (of_nat (Suc (dc_index c)))))),
      (''filamentType'', dc_type c), (''filamentsColor'', JStr (replace_first ''#'' ''#FF'' (dc_matColor c)))]"

definition chosen_colors :: "print_dialog \<Rightarrow> dialog_color list" where
  "chosen_colors d = filter (\<lambda>c. truthy (dc_type c)) (pd_colors d)"

text \<open>The print: the matches first, then the command.  Without the chosen plate, and for a printer
  that is no longer listed under the address, a call throws and what follows is not done.\<close>

definition send_matches :: "print_dialog \<Rightarrow> json \<Rightarrow> dashboard \<Rightarrow> dashboard option" where
  "send_matches d c s =
     (if chosen_colors d = [] then Some s
      else SetColorMatch (pd_address d) c (JArr (map dialog_match (chosen_colors d))) s)"

definition send_start :: "print_dialog \<Rightarrow> json \<Rightarrow> dashboard \<Rightarrow> (resend option \<times> dashboard) option" where
  "send_start d c s =
     (let k = JNum (of_bool (pd_calib d)) in
      if pd_cfs d then StartMultiColorPrint (pd_address d) c k s
      else StartNormalPrint (pd_address d) (js_text c) k s)"

definition print_in_network :: "json \<Rightarrow> dialog_state \<Rightarrow> dialog_state" where
  "print_in_network c b =
     (let (d, a, s) = b in
      case send_matches d c s of
        None \<Rightarrow> b
      | Some s1 \<Rightarrow>
          (case send_start d c s1 of
             None \<Rightarrow> (d, a, s1)
           | Some (r, s2) \<Rightarrow>
               (close_dialog (d\<lparr>pd_resends := pd_resends d @ (case r of None \<Rightarrow> [] | Some x \<Rightarrow> [x])\<rparr>), a, s2)))"

definition task_of :: "print_dialog \<Rightarrow> plate_row \<Rightarrow> string \<Rightarrow> json" where
  "task_of d r p = written
     [(''modelName'', pr_name r), (''deviceName'', JStr p), (''filamentsList'', JArr (map cloud_match (chosen_colors d))),
      (''gcodeFilePath'', pr_path r), (''enableCfs'', JNum (of_bool (pd_cfs d)))]"

definition start_print :: "string \<Rightarrow> dialog_state \<Rightarrow> dialog_state" where
  "start_print uuid b =
     (let (d, a, s) = b in
      case pd_printer d of
        None \<Rightarrow> b
      | Some n \<Rightarrow>
          if pd_current d < length (pd_data d)
          then let r = pd_data d ! pd_current d; p = printers s n in
               if deviceType p = 0 then print_in_network (pr_path r) b
               else if deviceType p = 1
               then (d\<lparr>pd_tasks := Suc (pd_tasks d)\<rparr>, addSingleTask uuid (task_of d r (address p)) a, s)
               else b
          else b)"

text \<open>The cloud answers: the printer counts as printing, and the dialog closes.\<close>

definition task_answered :: "dialog_state \<Rightarrow> dialog_state" where
  "task_answered b =
     (let (d, a, s) = b in
      case (pd_tasks d, pd_printer d) of
        (Suc k, Some n) \<Rightarrow> (close_dialog (d\<lparr>pd_tasks := k\<rparr>), a, printing_now n s)
      | _ \<Rightarrow> b)"

text \<open>The last box that is a holder, and what it holds.\<close>

definition holder_mismatch :: "printer \<Rightarrow> bool" where
  "holder_mismatch p =
     (case filter (\<lambda>x. eq_num (jget x ''type'') 1) (materialBoxs (boxsInfo p)) of
        [] \<Rightarrow> False
      | xs \<Rightarrow> (case jget (last xs) ''materials'' of
                 JArr [m] \<Rightarrow> jget m ''type'' = JStr []
               | _ \<Rightarrow> False))"

definition ask_dialog :: "dialog_question \<Rightarrow> print_dialog \<Rightarrow> print_dialog" where
  "ask_dialog q d = d\<lparr>pd_questions := pd_questions d @ [q]\<rparr>"

definition handleStartPrint :: "string \<Rightarrow> dialog_state \<Rightarrow> dialog_state" where
  "handleStartPrint uuid b =
     (let (d, a, s) = b in
      case pd_printer d of
        None \<Rightarrow> b
      | Some n \<Rightarrow>
          let p = printers s n in
          if \<not> pd_cfs d \<and> holder_mismatch p then (ask_dialog HolderMismatch d, a, s)
          else if \<not> pd_cfs d \<and> materialDetector1 p = JNum 1 then (ask_dialog HolderEmpty d, a, s)
          else start_print uuid b)"

definition answer_dialog :: "string \<Rightarrow> bool \<Rightarrow> dialog_state \<Rightarrow> dialog_state" where
  "answer_dialog uuid yes b =
     (let (d, a, s) = b in
      case pd_questions d of
        [] \<Rightarrow> b
      | q # qs \<Rightarrow> (if q = HolderEmpty \<and> yes then start_print uuid (d\<lparr>pd_questions := qs\<rparr>, a, s)
                   else (d\<lparr>pd_questions := qs\<rparr>, a, s)))"

end
