(* ===== verification/FilePrintProps.thy ===== *)
theory FilePrintProps
  imports FilePrint ColorProps PlateProps FileProps
begin

text \<open>
  What holds of the dialog before a print: every colour of a plate is listed once, no slot is
  given twice and none that fits is left unused; a warning names another spool of the same
  group; a print that may start names a slot for every colour and follows its matches; and
  what goes wrong when plates are changed or two files are asked for.
\<close>

section \<open>The rounds\<close>

definition wanted :: "plate_row \<Rightarrow> nat \<Rightarrow> json" where
  "wanted r f = at_js JUndefined (pr_material r) (Suc f)"

lemma candidate_slot:
  assumes "candidate_from gap ty l served 0 cs None = Some (f, u)"
  obtains v y where "v < length l" "u = match_at v (l ! v) y" "slotFilamentType (l ! v) = at_js JUndefined ty (Suc f)"
    "truthy (slotFilamentType (l ! v))"
proof -
  note ok = candidate_from_bound [OF assms, unfolded candidate_ok_def]
  from nearest_found [of gap "cs ! f" "at_js JUndefined ty (Suc f)" l] ok that show ?thesis
    by (auto simp: found_def)
qed

lemma candidate_from_kept: "c \<noteq> None \<Longrightarrow> candidate_from gap ty l served h xs c \<noteq> None"
  by (induction xs arbitrary: h c) (auto simp: Let_def split: option.splits)

lemma candidate_from_None:
  assumes "candidate_from gap ty l served h xs None = None" and "i < length xs" and "xs ! i \<noteq> []"
    and "h + i \<notin> set served"
  shows "\<not> truthy (m_filamentType (nearest_slot gap (xs ! i) (at_js JUndefined ty (Suc (h + i))) l))"
  using assms
proof (induction xs arbitrary: h i)
  case (Cons x xs)
  have kept: "candidate_from gap ty l served (Suc h) xs (Some c) \<noteq> None" for c
    using candidate_from_kept [of "Some c"] by blast
  have rest: "candidate_from gap ty l served (Suc h) xs None = None"
    and here: "x \<noteq> [] \<Longrightarrow> h \<notin> set served \<Longrightarrow> \<not> truthy (m_filamentType (nearest_slot gap x (at_js JUndefined ty (Suc h)) l))"
    using Cons.prems(1) kept by (auto simp: Let_def split: if_splits simp del: not_None_eq)
  show ?case
  proof (cases i)
    case (Suc k)
    then show ?thesis using Cons.IH [OF rest, of k] Cons.prems by simp
  qed (use here Cons.prems in simp)
qed simp

text \<open>The rounds as one step and the rest.\<close>

lemma dialog_rounds_cases:
  obtains (stop) "dialog_rounds gap cs ty served l = []" "cs = [] \<or> l = [] \<or> candidate_from gap ty l served 0 cs None = None"
  | (step) f v y where "candidate_from gap ty l served 0 cs None = Some (f, match_at v (l ! v) y)" "cs \<noteq> []" "l \<noteq> []"
      "f < length cs" "f \<notin> set served" "cs ! f \<noteq> []" "v < length l" "slotFilamentType (l ! v) = at_js JUndefined ty (Suc f)"
      "truthy (slotFilamentType (l ! v))"
      "dialog_rounds gap cs ty served l = (f, match_at v (l ! v) y) # dialog_rounds gap cs ty (served @ [f]) (remove_at v l)"
proof (cases "cs = [] \<or> l = [] \<or> candidate_from gap ty l served 0 cs None = None")
  case True
  then show ?thesis by (intro stop) (auto simp: dialog_rounds.simps)
next
  case False
  then obtain f u where c: "candidate_from gap ty l served 0 cs None = Some (f, u)" by auto
  obtain v y where v: "v < length l" "u = match_at v (l ! v) y" "slotFilamentType (l ! v) = at_js JUndefined ty (Suc f)"
    "truthy (slotFilamentType (l ! v))" using candidate_slot [OF c] by blast
  have f: "f < length cs" "f \<notin> set served" "cs ! f \<noteq> []"
    using candidate_from_bound [OF c] by (simp_all add: candidate_ok_def)
  show ?thesis
    using c [unfolded v(2)] v(1,3,4) False f
    by (intro step [of f v y]) (auto simp: dialog_rounds.simps [of gap cs ty served l] splice_one_nat)
qed

lemma dialog_rounds_induct [case_names stop step]:
  assumes "\<And>served l. cs = [] \<or> l = [] \<or> candidate_from gap ty l served 0 cs None = None \<Longrightarrow> P served l []"
    and "\<And>served l f v y ms. f < length cs \<Longrightarrow> f \<notin> set served \<Longrightarrow> cs ! f \<noteq> [] \<Longrightarrow> v < length l
      \<Longrightarrow> slotFilamentType (l ! v) = at_js JUndefined ty (Suc f) \<Longrightarrow> truthy (slotFilamentType (l ! v))
      \<Longrightarrow> P (served @ [f]) (remove_at v l) ms \<Longrightarrow> P served l ((f, match_at v (l ! v) y) # ms)"
  shows "P served l (dialog_rounds gap cs ty served l)"
proof (induction "length (unserved (length cs) served)" arbitrary: served l rule: less_induct)
  case less
  show ?case
  proof (cases rule: dialog_rounds_cases [of gap cs ty served l])
    case (step f v y)
    then show ?thesis
      using assms(2) [OF step(4-9) less [OF unserved_shrinks [OF step(4,5)]]] by simp
  qed (use assms(1) in simp)
qed

text \<open>Each colour is served at most once, with a slot of the type it wants.\<close>

lemma rounds_distinct:
  "distinct (map fst (dialog_rounds gap cs ty served l))
   \<and> set (map fst (dialog_rounds gap cs ty served l)) \<subseteq> {f. f < length cs \<and> f \<notin> set served \<and> cs ! f \<noteq> []}"
  by (rule dialog_rounds_induct) auto

definition slot_given :: "color_match \<Rightarrow> json \<times> json \<times> json \<times> string" where
  "slot_given u = (m_boxId u, m_materialId u, m_filamentType u, m_color u)"

definition slot_there :: "slot \<Rightarrow> json \<times> json \<times> json \<times> string" where
  "slot_there b = (slotBoxId b, slotMaterialId b, slotFilamentType b, slotColor b)"

lemma slot_given_match [simp]: "slot_given (match_at v b y) = slot_there b"
  by (simp add: slot_given_def slot_there_def)

lemma rounds_slots:
  "mset (map (slot_given \<circ> snd) (dialog_rounds gap cs ty served l)) \<subseteq># mset (map slot_there l)"
proof (rule dialog_rounds_induct [of cs gap ty "\<lambda>served l ms. mset (map (slot_given \<circ> snd) ms) \<subseteq># mset (map slot_there l)"], goal_cases)
  case (2 served l f v y ms)
  have "mset (map slot_there l) = add_mset (slot_there (l ! v)) (mset (map slot_there (remove_at v l)))"
    using arg_cong [OF mset_without [OF \<open>v < length l\<close>], of "image_mset slot_there"] by simp
  with 2(7) show ?case by (simp add: comp_def)
qed simp

lemma rounds_types:
  "\<forall>(f, u) \<in> set (dialog_rounds gap cs ty served l). truthy (m_filamentType u) \<and> m_filamentType u = at_js JUndefined ty (Suc f)"
  by (rule dialog_rounds_induct) auto

text \<open>How many colours of a type are served.\<close>

definition wants :: "string list \<Rightarrow> json list \<Rightarrow> json \<Rightarrow> nat \<Rightarrow> bool" where
  "wants cs ty t f = (cs ! f \<noteq> [] \<and> at_js JUndefined ty (Suc f) = t)"

lemma unserved_step: "unserved n (served @ [f]) = filter (\<lambda>i. i \<noteq> f) (unserved n served)"
  by (simp add: unserved_def conj_commute)

lemma length_filter_mset: "mset xs = add_mset x (mset ys) \<Longrightarrow> length (filter P xs) = of_bool (P x) + length (filter P ys)"
  by (cases "P x"; drule arg_cong [of _ _ "\<lambda>m. size (filter_mset P m)"]; simp flip: mset_filter)

lemma wants_step:
  assumes "f < length cs" and "f \<notin> set served"
  shows "length (filter (wants cs ty t) (unserved (length cs) served))
    = of_bool (wants cs ty t f) + length (filter (wants cs ty t) (unserved (length cs) (served @ [f])))"
proof (rule length_filter_mset)
  have "distinct (unserved (length cs) served)" and f: "f \<in> set (unserved (length cs) served)"
    using assms by (simp_all add: unserved_def)
  then have "unserved (length cs) (served @ [f]) = remove1 f (unserved (length cs) served)"
    by (simp add: unserved_step distinct_remove1_removeAll removeAll_filter_not_eq eq_commute)
  then show "mset (unserved (length cs) served) = add_mset f (mset (unserved (length cs) (served @ [f])))"
    using f by simp
qed

lemma slots_step:
  "v < length l \<Longrightarrow> length (filter P l) = of_bool (P (l ! v)) + length (filter P (remove_at v l))"
  by (rule length_filter_mset [OF mset_without])

text \<open>That the colours which ask for a type can be compared with those of the slots that hold it.\<close>

definition comparable :: "(string \<Rightarrow> string \<Rightarrow> real option) \<Rightarrow> string list \<Rightarrow> json list \<Rightarrow> json \<Rightarrow> slot list \<Rightarrow> bool" where
  "comparable gap cs ty t l =
     (\<forall>f < length cs. wants cs ty t f \<longrightarrow> (\<forall>b \<in> set l. slotFilamentType b = t \<longrightarrow> gap (cs ! f) (slotColor b) \<noteq> None))"

lemma comparable_less: "comparable gap cs ty t l \<Longrightarrow> comparable gap cs ty t (remove_at v l)"
  by (auto simp: comparable_def remove_at_def dest: in_set_takeD in_set_dropD)

lemma no_candidate:
  assumes "candidate_from gap ty l served 0 cs None = None" and "comparable gap cs ty t l" and "truthy t"
  shows "filter (wants cs ty t) (unserved (length cs) served) = [] \<or> filter (\<lambda>b. slotFilamentType b = t) l = []"
proof (rule ccontr)
  assume "\<not> ?thesis"
  then obtain f b where f: "f < length cs" "f \<notin> set served" "wants cs ty t f" and b: "b \<in> set l" "slotFilamentType b = t"
    by (auto simp: filter_empty_conv unserved_def)
  have "\<not> truthy (m_filamentType (nearest_slot gap (cs ! f) t l))"
    using candidate_from_None [OF assms(1) f(1)] f by (simp add: wants_def)
  moreover have "gap (cs ! f) (slotColor b) \<noteq> None"
    using assms(2) f b by (auto simp: comparable_def)
  ultimately show False
    using nearest_found [of gap "cs ! f" t l] b assms(3) by (auto simp: found_def)
qed

lemma rounds_per_type:
  assumes "comparable gap cs ty t l" and "truthy t"
  shows "length (filter (\<lambda>x. m_filamentType (snd x) = t) (dialog_rounds gap cs ty served l))
    = min (length (filter (wants cs ty t) (unserved (length cs) served))) (length (filter (\<lambda>b. slotFilamentType b = t) l))"
proof -
  let ?P = "\<lambda>served l ms. comparable gap cs ty t l \<longrightarrow> length (filter (\<lambda>x. m_filamentType (snd x) = t) ms)
    = min (length (filter (wants cs ty t) (unserved (length cs) served))) (length (filter (\<lambda>b. slotFilamentType b = t) l))"
  have "?P served l (dialog_rounds gap cs ty served l)"
  proof (rule dialog_rounds_induct [of cs gap ty ?P], goal_cases)
    case (1 served l)
    then show ?case using no_candidate [OF _ _ assms(2), of gap ty l served cs] by (auto simp: unserved_def)
  next
    case (2 served l f v y ms)
    then show ?case
      using wants_step [of f cs served ty t] slots_step [of v l "\<lambda>b. slotFilamentType b = t"] comparable_less [of gap cs ty t l v]
      by (simp add: wants_def)
  qed
  with assms(1) show ?thesis by simp
qed

section \<open>The colours of a plate\<close>

lemma matched_color_fields [simp]:
  "dc_index (matched_color r f u) = f" "dc_type (matched_color r f u) = m_filamentType u"
  "dc_boxId (matched_color r f u) = m_boxId u" "dc_boxColorID (matched_color r f u) = m_materialId u"
  "dc_extruder_type (matched_color r f u) = at_js JUndefined (pr_material r) (Suc f)"
  "dc_matColor (matched_color r f u) = pr_colors r ! f"
  by (simp_all add: matched_color_def Let_def)

lemma match_plate_index:
  "map dc_index (match_plate gap r l)
   = map fst (dialog_rounds gap (pr_colors r) (pr_material r) [] l)
     @ unserved (length (pr_colors r)) (map fst (dialog_rounds gap (pr_colors r) (pr_material r) [] l))"
  by (simp add: match_plate_def Let_def comp_def split_beta)

definition served :: "dialog_color \<Rightarrow> bool" where
  "served c = truthy (dc_type c)"

definition slot_of_color :: "dialog_color \<Rightarrow> json \<times> json \<times> json" where
  "slot_of_color c = (dc_boxId c, dc_boxColorID c, dc_type c)"

definition slot_name_of :: "slot \<Rightarrow> json \<times> json \<times> json" where
  "slot_name_of b = (slotBoxId b, slotMaterialId b, slotFilamentType b)"

lemma match_plate_served:
  "filter served (match_plate gap r l)
   = map (\<lambda>(f, u). matched_color r f u) (dialog_rounds gap (pr_colors r) (pr_material r) [] l)"
proof -
  have "filter served (map (\<lambda>(f, u). matched_color r f u) (dialog_rounds gap (pr_colors r) (pr_material r) [] l))
      = map (\<lambda>(f, u). matched_color r f u) (dialog_rounds gap (pr_colors r) (pr_material r) [] l)"
    using rounds_types [of gap "pr_colors r" "pr_material r" "[]" l] by (auto simp: served_def filter_id_conv)
  then show ?thesis
    by (simp add: match_plate_def Let_def served_def filter_empty_conv)
qed

text \<open>C14: Matching lists every colour of a plate exactly once; the slots that are given are
  among the printer's, none is given to two colours, and each holds the type of filament its
  colour asks for.\<close>

theorem plate_colours_are_listed_once:
  "distinct (map dc_index (match_plate gap r l))
   \<and> set (map dc_index (match_plate gap r l)) = {..<length (pr_colors r)}
   \<and> mset (map slot_of_color (filter served (match_plate gap r l))) \<subseteq># mset (map slot_name_of l)
   \<and> list_all (\<lambda>c. dc_type c = dc_extruder_type c) (filter served (match_plate gap r l))"
proof (intro conjI)
  let ?ms = "dialog_rounds gap (pr_colors r) (pr_material r) [] l"
  note d = rounds_distinct [of gap "pr_colors r" "pr_material r" "[]" l]
  show "distinct (map dc_index (match_plate gap r l))"
    unfolding match_plate_index using d by (auto simp: unserved_def)
  show "set (map dc_index (match_plate gap r l)) = {..<length (pr_colors r)}"
    unfolding match_plate_index using d by (auto simp: unserved_def)
  have "map slot_of_color (filter served (match_plate gap r l))
      = map (\<lambda>(b, m, t, _). (b, m, t)) (map (slot_given \<circ> snd) ?ms)"
    unfolding match_plate_served by (simp add: slot_of_color_def slot_given_def split_beta comp_def)
  moreover have "map slot_name_of l = map (\<lambda>(b, m, t, _). (b, m, t)) (map slot_there l)"
    by (simp add: slot_name_of_def slot_there_def)
  ultimately show "mset (map slot_of_color (filter served (match_plate gap r l))) \<subseteq># mset (map slot_name_of l)"
    using image_mset_subseteq_mono [OF rounds_slots [of gap "pr_colors r" "pr_material r" "[]" l], of "\<lambda>(b, m, t, _). (b, m, t)"]
    by (metis mset_map)
  show "list_all (\<lambda>c. dc_type c = dc_extruder_type c) (filter served (match_plate gap r l))"
    unfolding match_plate_served using rounds_types [of gap "pr_colors r" "pr_material r" "[]" l]
    by (auto simp: list_all_iff)
qed

text \<open>C15: With the program's own distance, as many colours of a plate are served with a type of
  filament as there are colours that ask for it and slots that hold it, whichever is fewer, as
  long as the plate's colours (but for blank ones) and those of the slots of that type are texts
  the distance can read: unlike the rounds for the slicer, the dialog leaves no slot unused that
  some colour could have had.\<close>

theorem every_fitting_slot_is_given:
  assumes "truthy t" and "\<forall>e \<in> set (pr_colors r). e \<noteq> [] \<longrightarrow> channels (Ute e) \<noteq> None"
    and "\<forall>b \<in> set l. slotFilamentType b = t \<longrightarrow> channels (Ute (slotColor b)) \<noteq> None"
  shows "length (filter (\<lambda>c. dc_type c = t) (match_plate text_distance r l))
    = min (length (filter (\<lambda>f. pr_colors r ! f \<noteq> [] \<and> wanted r f = t) [0..<length (pr_colors r)]))
          (length (filter (\<lambda>b. slotFilamentType b = t) l))"
proof -
  have "filter (\<lambda>c. dc_type c = t) (match_plate text_distance r l)
      = filter (\<lambda>c. dc_type c = t) (filter served (match_plate text_distance r l))"
    using assms(1) by (auto simp: served_def intro!: filter_cong)
  also have "length \<dots> = length (filter (\<lambda>x. m_filamentType (snd x) = t)
      (dialog_rounds text_distance (pr_colors r) (pr_material r) [] l))"
    unfolding match_plate_served by (simp add: filter_map comp_def split_beta)
  moreover have "comparable text_distance (pr_colors r) (pr_material r) t l"
    using assms(2,3) unfolding comparable_def wants_def text_distance_colour by (meson nth_mem)
  ultimately show ?thesis
    using rounds_per_type [OF _ assms(1), of text_distance "pr_colors r" "pr_material r" l "[]"]
    by (simp add: unserved_def wants_def [abs_def] wanted_def)
qed

definition demo_plate :: plate_row where
  "demo_plate = \<lparr>pr_index = 1, pr_name = JUndefined, pr_time = ''NaN'', pr_preview = None, pr_active = False,
     pr_colors = [''#ff0000'', ''#00ff00'', ''#0000ff''], pr_material = [JStr ''ABS'', JStr ''PLA'', JStr ''PLA''],
     pr_used = [JStr ''5000'', JStr ''7000'', JStr ''100''], pr_consumables = ''1m'', pr_path = JStr ''/p.gcode''\<rparr>"

theorem every_fitting_slot_is_given_witness:
  "length (filter (\<lambda>c. dc_type c = JStr ''PLA'') (match_plate text_distance demo_plate [demo_slot ''PLA'' ''#ff0000'' 0])) = 1"
proof -
  have "channels (Ute ''#ff0000'') \<noteq> None" "channels (Ute ''#00ff00'') \<noteq> None" "channels (Ute ''#0000ff'') \<noteq> None"
    by (simp_all add: Ute_def slice_def channels_def ColorDistance.hex_digit_def Let_def)
  then show ?thesis
    using every_fitting_slot_is_given [of "JStr ''PLA''" demo_plate "[demo_slot ''PLA'' ''#ff0000'' 0]"]
    by (simp add: demo_plate_def wanted_def at_js_def upt_conv_Cons)
qed

section \<open>Warnings\<close>

text \<open>The colours that count for a spool.\<close>

definition counts_for :: "string \<Rightarrow> dialog_color \<Rightarrow> bool" where
  "counts_for a c = (dc_RFIDState c = JNum 2 \<and> dc_title c = a \<and> a \<noteq> [] \<and> to_number (dc_used c) \<noteq> None
     \<and> to_number (dc_remaining c) \<noteq> None)"

definition used_of :: "dialog_color \<Rightarrow> rat" where
  "used_of c = the (to_number (dc_used c))"

definition left_of :: "dialog_color \<Rightarrow> rat" where
  "left_of c = the (to_number (dc_remaining c))"

lemma map_of_add_need:
  "map_of (add_need c es) a =
     (if counts_for a c
      then Some ((case map_of es a of None \<Rightarrow> 0 | Some (t, _) \<Rightarrow> t) + used_of c, left_of c) else map_of es a)"
  by (auto simp: add_need_def counts_for_def used_of_def left_of_def update_conv Let_def split: option.splits)

lemma map_of_needs:
  "map_of (fold add_need cs es) a =
     (if filter (counts_for a) cs = [] then map_of es a
      else Some ((case map_of es a of None \<Rightarrow> 0 | Some (t, _) \<Rightarrow> t) + sum_list (map used_of (filter (counts_for a) cs)),
                 left_of (last (filter (counts_for a) cs))))"
  by (induction cs arbitrary: es) (auto simp: map_of_add_need)

lemma needs_distinct: "distinct (map fst es) \<Longrightarrow> distinct (map fst (fold add_need cs es))"
  by (induction cs arbitrary: es) (auto simp: add_need_def distinct_update Let_def split: option.splits)

lemma in_needs:
  "(a, m, z) \<in> set (needs cs)
   \<longleftrightarrow> filter (counts_for a) cs \<noteq> [] \<and> m = sum_list (map used_of (filter (counts_for a) cs))
     \<and> z = left_of (last (filter (counts_for a) cs))"
  using map_of_eq_Some_iff [OF needs_distinct [of "[]" cs], of a "(m, z)"] map_of_needs [of cs "[]" a]
  by (auto simp: needs_def split: if_splits)

lemma next_spool_in:
  "next_spool gs a = Some b \<Longrightarrow> \<exists>g \<in> set gs. a \<in> set g \<and> b \<in> set g \<and> (2 \<le> length g \<longrightarrow> distinct g \<longrightarrow> b \<noteq> a)"
proof (induction gs)
  case (Cons z zs)
  show ?case
  proof (cases "a \<in> set z")
    case True
    let ?k = "length (takeWhile (\<lambda>x. x \<noteq> a) z)"
    have k: "?k < length z" "z ! ?k = a"
      proof -
      obtain ys zs where "z = ys @ a # zs" "a \<notin> set ys" using split_list_first [OF True] by blast
      moreover from this(2) have "takeWhile (\<lambda>x. x \<noteq> a) (ys @ a # zs) = ys" by (auto simp: takeWhile_append)
      ultimately show "?k < length z" "z ! ?k = a" by simp_all
    qed
    have b: "b = z ! (Suc ?k mod length z)" "Suc ?k mod length z < length z"
      using Cons.prems True k(1) by (auto intro: mod_less_divisor)
    have "b \<noteq> a" if "2 \<le> length z" "distinct z"
    proof -
      have "Suc ?k mod length z \<noteq> ?k" using k(1) that(1) by (cases "Suc ?k = length z") auto
      then show ?thesis using nth_eq_iff_index_eq [OF that(2) b(2) k(1)] b(1) k(2) by simp
    qed
    with True b show ?thesis by (intro bexI [of _ z]) auto
  qed (use Cons in auto)
qed simp

definition refill_groups :: "printer \<Rightarrow> string list list" where
  "refill_groups p = (if truthy (ignoreColorAutoFeed (boxConfig p)) then colored_like_groups p
     else if truthy (autoRefill (boxConfig p)) then like_groups p else [])"

lemma refill_groups_long: "g \<in> set (refill_groups p) \<Longrightarrow> 2 \<le> length g"
  by (auto simp: refill_groups_def colored_like_groups_def like_groups_def groups_by_def split: if_splits)

text \<open>C29: A warning is about a spool whose chip was read and of which less is left than the
  colours printed from it need together, and the spool it says the printer will go on with is
  another one of a group of like spools.\<close>

theorem warnings_are_about_short_spools:
  assumes "w \<in> set (spool_warnings d p)"
  shows "\<exists>cs. cs = filter (counts_for (sw_title w)) (pd_colors d) \<and> cs \<noteq> []
    \<and> left_of (last cs) < sum_list (map used_of cs) \<and> sw_need w = metres (sum_list (map used_of cs))
    \<and> (case sw_next w of None \<Rightarrow> True
       | Some b \<Rightarrow> \<exists>g \<in> set (refill_groups p). {sw_title w, b} \<subseteq> set g \<and> (distinct g \<longrightarrow> b \<noteq> sw_title w))"
proof -
  obtain a m z where w: "(a, m, z) \<in> set (needs (pd_colors d))" "z < m"
    "w = \<lparr>sw_title = a, sw_left = metres z, sw_need = metres m, sw_next = next_spool (refill_groups p) a\<rparr>"
    using assms by (auto simp: spool_warnings_def refill_groups_def)
  show ?thesis
    using w in_needs [of a m z "pd_colors d"] next_spool_in [of "refill_groups p" a] refill_groups_long [of _ p]
    by (fastforce split: option.splits)
qed

definition short_spools :: print_dialog where
  "short_spools = new_print_dialog\<lparr>pd_colors := [(matched_color demo_plate 0 no_match)
     \<lparr>dc_title := ''1A'', dc_RFIDState := JNum 2, dc_used := JNum 5, dc_remaining := JNum 3\<rparr>]\<rparr>"

theorem warnings_are_about_short_spools_witness:
  "sw_title (hd (spool_warnings short_spools (printers (demo_files []) 1))) = ''1A''
   \<and> filter (counts_for ''1A'') (pd_colors short_spools) \<noteq> []"
proof -
  have n: "needs (pd_colors short_spools) = [(''1A'', 5, 3)]"
    by (simp add: short_spools_def new_print_dialog_def needs_def add_need_def)
  obtain w ws where w: "spool_warnings short_spools (printers (demo_files []) 1) = w # ws" "sw_title w = ''1A''"
    by (simp add: spool_warnings_def n Let_def)
  then show ?thesis
    using warnings_are_about_short_spools [of w short_spools "printers (demo_files []) 1"] by auto
qed

section \<open>Starting\<close>

definition marked :: "print_dialog \<Rightarrow> bool" where
  "marked d = (\<forall>c \<in> set (pd_colors d). served c \<or> eq_num (dc_boxId c) (- 1))"

lemma choose_slot_keeps: "marked d \<Longrightarrow> x \<in> set (slots_of b) \<Longrightarrow> marked (choose_slot i x d)"
proof -
  assume d: "marked d" and x: "x \<in> set (slots_of b)"
  have "truthy (ds_type x)" using x by (auto simp: slots_of_def slots_of_box_def)
  with d show ?thesis
    by (auto simp: marked_def choose_slot_def served_def dest!: set_update_subset_insert [THEN subsetD])
qed

lemma onPlateClick_marked: "marked (onPlateClick gap k d)"
proof -
  have "served c \<or> eq_num (dc_boxId c) (- 1)" if "c \<in> set (match_plate gap r l)" for c r l
    using that rounds_types [of gap "pr_colors r" "pr_material r" "[]" l]
    by (auto simp: match_plate_def Let_def served_def no_match_def)
  then show ?thesis
    by (auto simp: marked_def onPlateClick_def matchModelColor_def Let_def)
qed

definition user_choices :: "(nat \<times> dialog_slot) list \<Rightarrow> print_dialog \<Rightarrow> print_dialog" where
  "user_choices xs d = fold (\<lambda>(i, x). choose_slot i x) xs d"

lemma user_choices_keep: "marked d \<Longrightarrow> \<forall>y \<in> set xs. snd y \<in> set (slots_of b) \<Longrightarrow> marked (user_choices xs d)"
  unfolding user_choices_def
proof (induction xs arbitrary: d)
  case (Cons y xs)
  have "marked (choose_slot (fst y) (snd y) d)"
    using Cons.prems choose_slot_keeps [of d "snd y" b "fst y"] by simp
  from Cons.IH [OF this] Cons.prems(2) show ?case by (simp add: split_beta)
qed simp

definition ready_slot_json :: json where
  "ready_slot_json = JObj [(''boxType'', JNum 0), (''color'', JStr ''#ff0000''), (''boxId'', JNum 1), (''materialId'', JNum 0),
     (''filamentType'', JStr ''PLA'')]"

definition ready_slot :: slot where
  "ready_slot = slot_of ready_slot_json"

definition one_colour :: plate_row where
  "one_colour = demo_plate\<lparr>pr_colors := [''#ff0000''], pr_material := [JStr ''PLA'']\<rparr>"

definition ready_printer :: printer where
  "ready_printer = (printers (demo_files []) 1)\<lparr>cfsConnect := JNum 1\<rparr>"

definition ready_dialog :: print_dialog where
  "ready_dialog = new_print_dialog\<lparr>pd_printer := Some 1, pd_address := ''b'', pd_data := [demo_plate], pd_cfs := True,
     pd_box_info := [ready_slot_json],
     pd_colors := [matched_color demo_plate 1 (match_at 0 (demo_slot ''PLA'' ''#00ff00'' 0) 0)]\<rparr>"

lemma ready_fields [simp]:
  "pd_printer ready_dialog = Some 1" "pd_address ready_dialog = ''b''" "pd_data ready_dialog = [demo_plate]"
  "pd_cfs ready_dialog" "pd_current ready_dialog = 0"
  "chosen_colors ready_dialog = [matched_color demo_plate 1 (match_at 0 (demo_slot ''PLA'' ''#00ff00'' 0) 0)]"
  by (simp_all add: ready_dialog_def new_print_dialog_def chosen_colors_def)

lemma demo_files_kind [simp]: "deviceType (printers (demo_files bs) (Suc 0)) = 0"
  by (simp add: demo_files_def demo_board_def demo_printer_def initial_printer_def demo_device_def ownProperty_def)

text \<open>C28: A print from the boxes (\<open>pd_cfs\<close>) of a printer in the cloud, or of one in the network
  whose boxes are connected (\<open>cfsConnect\<close>), cannot be started unless its matches name a slot for
  every colour of the plate that is not blank, whatever slots the user chose since the plate was
  chosen, as long as they are slots of the boxes the dialog shows.  For a printer in the network
  without connected boxes the start does not look at the colours.\<close>

theorem a_print_that_may_start_names_every_colour:
  assumes "d' = user_choices xs (onPlateClick gap k d)" and "\<forall>y \<in> set xs. snd y \<in> set (slots_of b)"
    and "\<not> start_disabled d' p" and "deviceType p = 0 \<longrightarrow> truthy (cfsConnect p)" and "pd_cfs d'"
    and "c \<in> set (pd_colors d')" and "dc_matColor c \<noteq> []"
  shows "c \<in> set (chosen_colors d')"
proof -
  have "marked d'" unfolding assms(1) by (rule user_choices_keep [OF onPlateClick_marked assms(2)])
  then show ?thesis
    using assms by (auto simp: marked_def start_disabled_def every_color_served_def list_all_iff chosen_colors_def served_def)
qed

theorem a_print_that_may_start_names_every_colour_witness:
  "\<not> start_disabled (user_choices [] (onPlateClick (\<lambda>a b. Some 0) (Suc 0) (ready_dialog\<lparr>pd_data := [one_colour]\<rparr>))) ready_printer
   \<and> matched_color one_colour 0 (match_at 0 ready_slot 0)
     \<in> set (chosen_colors (user_choices [] (onPlateClick (\<lambda>a b. Some 0) (Suc 0) (ready_dialog\<lparr>pd_data := [one_colour]\<rparr>))))"
proof -
  let ?d = "onPlateClick (\<lambda>a b. Some 0) (Suc 0) (ready_dialog\<lparr>pd_data := [one_colour]\<rparr>)"
  have c: "pd_colors ?d = [matched_color one_colour 0 (match_at 0 ready_slot 0)]" and d: "pd_cfs ?d" "\<not> pd_has_ext ?d"
    by (simp_all add: onPlateClick_def matchModelColor_def ready_dialog_def new_print_dialog_def ready_slot_def one_colour_def
        ready_slot_json_def demo_plate_def matched_color_def slot_of_def match_plate_def dialog_rounds.simps nearest_slot_def at_js_def below_def splice_one_def remove_at_def
        unserved_def text_in_def Let_def)
  have m: "dc_matColor (matched_color one_colour 0 (match_at 0 ready_slot 0)) = ''#ff0000''"
    "dc_boxId (matched_color one_colour 0 (match_at 0 ready_slot 0)) = JNum 1"
    by (simp_all add: one_colour_def ready_slot_def ready_slot_json_def slot_of_def)
  have s: "\<not> start_disabled ?d ready_printer"
    using m by (simp add: start_disabled_def every_color_served_def c d)
  show ?thesis
    using a_print_that_may_start_names_every_colour [of ?d "[]" "\<lambda>a b. Some 0" "Suc 0" "ready_dialog\<lparr>pd_data := [one_colour]\<rparr>"
        "\<lparr>same_material = JArr [], color_same_material = JArr [], boxColorInfo = [], materialBoxs = [], cfsName = JNull, hashBoxsInfo = None\<rparr>"
        ready_printer "matched_color one_colour 0 (match_at 0 ready_slot 0)"] s c d m
    by (simp add: user_choices_def ready_printer_def)
qed

text \<open>The messages of a print from the boxes.\<close>

definition dialog_messages :: "print_dialog \<Rightarrow> json \<Rightarrow> json list" where
  "dialog_messages d c =
     [set_params [(''colorMatch'', JObj [(''path'', c), (''list'', JArr (map dialog_match (chosen_colors d)))])],
      set_params [(''multiColorPrint'', JObj [(''gcode'', c), (''enableSelfTest'', JNum (of_bool (pd_calib d)))])]]"

text \<open>Starting a print from the boxes of a connected printer in the network sends the matches
  of the chosen plate's file and then the print of that file, nothing else, and closes the
  dialog.\<close>

theorem started_print_follows_the_dialog:
  assumes "pd_printer d = Some n" and "pd_current d < length (pd_data d)" and "deviceType (printers s n) = 0"
    and "pd_cfs d" and "chosen_colors d \<noteq> []"
    and "getPrinter (pd_address d) s = Some k" and "socket (printers s k) = Some m" and "sock (dms s m) = Some OPEN"
  shows "handleStartPrint uuid (d, a, s) = (close_dialog d, a, s\<lparr>calls := calls s
    @ map (\<lambda>j. DmCall m (WsSend j)) (dialog_messages d (pr_path (pd_data d ! pd_current d)))\<rparr>)"
proof -
  let ?c = "pr_path (pd_data d ! pd_current d)"
  let ?j = "hd (dialog_messages d ?c)"
  let ?s1 = "s\<lparr>calls := calls s @ [DmCall m (WsSend ?j)]\<rparr>"
  have "send_matches d ?c s = Some ?s1"
    using assms(5-8) by (simp add: send_matches_def SetColorMatch_def set_command_def command_def send_open dialog_messages_def)
  moreover have "getPrinter (pd_address d) ?s1 = Some k"
    using assms(6) by (simp add: getPrinter_find_ref find_ref_def has_address_def all_refs_def)
  moreover have "sendMsg k j ?s1 = (None, ?s1\<lparr>calls := calls ?s1 @ [DmCall m (WsSend j)]\<rparr>)" for j
    using assms(7,8) by (intro send_open(2)) simp_all
  ultimately show ?thesis
    using assms(1-4)
    by (simp add: handleStartPrint_def start_print_def print_in_network_def send_start_def StartMultiColorPrint_def
        Let_def dialog_messages_def)
qed

theorem started_print_follows_the_dialog_witness:
  "length (calls (snd (snd (handleStartPrint [] (ready_dialog, initial_api, demo_files []))))) = 2"
  using started_print_follows_the_dialog [of ready_dialog 1 "demo_files []" 1 0 "[]" initial_api]
  by (simp add: dialog_messages_def)

text \<open>Choosing a plate turns printing from the boxes on again for a printer that has boxes,
  although the user had turned it off.\<close>

theorem choosing_a_plate_turns_the_boxes_on:
  assumes "pd_data d \<noteq> []" and "v \<in> set (pd_box_info d)" and "eq_num (slotBoxType (slot_of v)) 0"
  shows "pd_cfs (onPlateClick gap x (d\<lparr>pd_cfs := False\<rparr>))"
  using assms by (auto simp: onPlateClick_def matchModelColor_def Let_def filter_empty_conv)

theorem choosing_a_plate_turns_the_boxes_on_witness:
  "pd_cfs (onPlateClick (\<lambda>a b. None) 1 (ready_dialog\<lparr>pd_cfs := False\<rparr>))"
  by (rule choosing_a_plate_turns_the_boxes_on [of _ ready_slot_json])
     (simp_all add: ready_dialog_def new_print_dialog_def slot_of_def ready_slot_json_def)

lemma colors_answered_opens:
  assumes "k < length (pd_waiting d)" and "getGcodeColor_then v = JArr es"
  shows "pd_data (colors_answered gap k v d) = pd_data d @ [asked_plate (pd_waiting d ! k) es]"
    and "pd_current (colors_answered gap k v d) = pd_current d"
    and "pd_waiting (colors_answered gap k v d) = remove_at k (pd_waiting d)"
    and "pd_printer (colors_answered gap k v d) = pd_printer d"
  using assms by (simp_all add: colors_answered_def open_dialog_def matchModelColor_def Let_def)

text \<open>When a second file of a cloud printer is shown before the colours of the first have
  arrived, the dialog lists both, and the print that is started is the first file's, not
  that of the file shown last.\<close>

theorem the_first_of_two_files_is_printed:
  assumes "getPrinter t s = Some n" and "deviceType (printers s n) = 1"
    and "\<not> truthy (jget (fr_data r1) ''plates'')" and "\<not> truthy (jget (fr_data r2) ''plates'')"
    and "getGcodeColor_then v1 = JArr e1" and "getGcodeColor_then v2 = JArr e2" and "pd_waiting d = []"
    and "show_file gap now u2 t r2 k (show_file gap now u1 t r1 k (d, a, s)) = (d1, a1, s1)"
    and "d2 = colors_answered gap 0 v2 (colors_answered gap 0 v1 d1)"
  shows "pd_data d2 = [asked_plate r1 e1, asked_plate r2 e2] \<and> pd_open d2
    \<and> snd (start_print u3 (d2, a1, s1)) = (addSingleTask u3 (task_of d2 (asked_plate r1 e1) (address (printers s n))) a1, s)"
proof -
  have d1: "pd_waiting d1 = [r1, r2]" "pd_data d1 = []" "pd_current d1 = 0" "pd_printer d1 = Some n" "s1 = s"
    using assms(1-4,7,8) by (auto simp: show_file_def fill_dialog_def Let_def)
  have d2: "pd_data d2 = [asked_plate r1 e1, asked_plate r2 e2]" "pd_current d2 = 0" "pd_printer d2 = Some n"
    unfolding assms(9) using assms(5,6) d1 by (simp_all add: colors_answered_opens remove_at_def)
  have "pd_open d2"
    using assms(5,6,9) d1 by (simp add: colors_answered_def open_dialog_def colors_answered_opens remove_at_def Let_def)
  with d1 d2 assms(2) show ?thesis by (simp add: start_print_def Let_def)
qed

definition asked_file :: "string \<Rightarrow> file_row" where
  "asked_file n = \<lparr>fr_path = n, fr_name = n, fr_size = JNum 0, fr_layer = JNum 0, fr_time = JNum 0, fr_length = JNum 0,
     fr_thumb = None, fr_multi = JNull, fr_data = JObj [(''path'', JStr n)]\<rparr>"

definition cloud_files :: dashboard where
  "cloud_files = upd 1 (\<lambda>p. p\<lparr>deviceType := 1\<rparr>) (demo_files [])"

theorem the_first_of_two_files_is_printed_witness:
  "\<exists>d2 a1 s1. map pr_name (pd_data d2) = [JStr ''a'', JStr ''b'']
     \<and> snd (start_print [] (d2, a1, s1))
       = (addSingleTask [] (task_of d2 (asked_plate (asked_file ''a'') []) (address (printers cloud_files 1))) a1, cloud_files)"
proof -
  let ?k = "boxsInfo (printers cloud_files 1)" and ?v = "JObj [(''code'', JNum 0), (''result'', JObj [(''filamentsList'', JArr [])])]"
  let ?gap = "\<lambda>a b :: string. None :: real option"
  obtain d1 a1 s1 where e: "show_file ?gap 0 [] ''b'' (asked_file ''b'') ?k
      (show_file ?gap 0 [] ''b'' (asked_file ''a'') ?k (new_print_dialog, initial_api, cloud_files)) = (d1, a1, s1)"
    by (metis prod_cases3)
  have c: "getPrinter ''b'' cloud_files = Some 1" "deviceType (printers cloud_files 1) = 1" "pd_waiting new_print_dialog = []"
    "\<not> truthy (jget (fr_data (asked_file f)) ''plates'')" "getGcodeColor_then ?v = JArr []" for f
    by (simp_all add: cloud_files_def demo_files_def getPrinter_find_ref find_ref_def has_address_def new_print_dialog_def
        asked_file_def getGcodeColor_then_def)
  show ?thesis
    using the_first_of_two_files_is_printed [OF c(1,2,4,4,5,5,3) e refl, of "[]"]
    by (intro exI [of _ "colors_answered ?gap 0 ?v (colors_answered ?gap 0 ?v d1)"] exI [of _ a1] exI [of _ s1])
       (simp add: asked_plate_def asked_file_def)
qed

end
