(* ===== verification/TabBar.thy ===== *)
theory TabBar
  imports AppShell AppProps
begin

text \<open>
  The tabs of the application (component \<open>Tabs\<close> of \<open>CeX73yR3.js\<close>) and the page they show: a tab
  for the list of devices and one for each printer that was opened, the neighbour that takes
  over when the chosen tab is closed, the titles that follow the printers' names, and what the
  events do to the shell of \<open>AppShell\<close>.
\<close>

section \<open>The tabs\<close>

record tab =
  tab_title :: string
  tab_ip :: string
  tab_key :: string

datatype tab_event = TabChanged string | TabRemoved string | TabContentGone

record tab_bar =
  tb_selected :: string
  tb_tabs :: "tab list"
  tb_printers :: "nat list"       \<comment> \<open>\<open>i\<close>: the printers that were opened\<close>

definition new_tab_bar :: tab_bar where
  "new_tab_bar = \<lparr>tb_selected = [], tb_tabs = [\<lparr>tab_title = [], tab_ip = ''deviceList'', tab_key = ''deviceList''\<rparr>],
     tb_printers = []\<rparr>"

definition tab_changed :: "string \<Rightarrow> tab_bar \<Rightarrow> tab_bar \<times> tab_event list" where
  "tab_changed f b = (b\<lparr>tb_selected := f\<rparr>, [TabChanged f])"

text \<open>\<open>add\<close>: a printer that is not listed would be remembered as \<open>undefined\<close>.\<close>

definition tab_add :: "dashboard \<Rightarrow> string \<Rightarrow> string \<Rightarrow> string \<Rightarrow> tab_bar \<Rightarrow> tab_bar \<times> tab_event list" where
  "tab_add s f p m b =
     (b\<lparr>tb_printers := tb_printers b @ (case getPrinter p s of None \<Rightarrow> [] | Some n \<Rightarrow> [n]),
        tb_tabs := tb_tabs b @ (if m \<in> tab_key ` set (tb_tabs b) then []
                                else [\<lparr>tab_title = f @ ''_'' @ m, tab_ip = p, tab_key = m\<rparr>]),
        tb_selected := m\<rparr>, [TabChanged m])"

text \<open>The tab after place \<open>h\<close>, or the one before it.\<close>

definition neighbour :: "tab list \<Rightarrow> nat \<Rightarrow> tab option" where
  "neighbour ts h = (if Suc h < length ts then Some (ts ! Suc h) else if 0 < h then Some (ts ! (h - 1)) else None)"

definition pass_on :: "tab list \<Rightarrow> string \<Rightarrow> nat \<times> tab \<Rightarrow> tab_bar \<times> tab_event list \<Rightarrow> tab_bar \<times> tab_event list" where
  "pass_on ts f x be =
     (if tab_key (snd x) = f
      then (case neighbour ts (fst x) of
              None \<Rightarrow> be
            | Some t \<Rightarrow> ((fst be)\<lparr>tb_selected := tab_key t\<rparr>, snd be @ [TabChanged (tab_key t)]))
      else be)"

definition tab_remove :: "string \<Rightarrow> tab_bar \<Rightarrow> tab_bar \<times> tab_event list" where
  "tab_remove f b =
     (let ts = tb_tabs b; e = [TabRemoved f];
          (b1, es) = (if tb_selected b = f then fold (pass_on ts f) (enumerate 0 ts) (b, e) else (b, e))
      in (b1\<lparr>tb_tabs := filter (\<lambda>t. tab_key t \<noteq> f) ts\<rparr>, es))"

text \<open>A click, before the choice changes.\<close>

definition tab_clicked :: "string \<Rightarrow> tab_bar \<Rightarrow> tab_event list" where
  "tab_clicked f b =
     (if f \<noteq> ''deviceList'' \<and> tb_selected b \<noteq> ''deviceList'' \<and> f \<noteq> tb_selected b then [TabContentGone] else [])"

text \<open>The watcher of the names of the opened printers: of printers with one address the last
  counts.\<close>

definition rename_tabs :: "dashboard \<Rightarrow> tab_bar \<Rightarrow> tab_bar" where
  "rename_tabs s b =
     (let m = map_of (rev (map (\<lambda>n. (address (printers s n), name (printers s n))) (tb_printers b))) in
      if tb_printers b = [] then b
      else b\<lparr>tb_tabs := map (\<lambda>t. case m (tab_ip t) of
               Some (Some x) \<Rightarrow> if x \<noteq> [] then t\<lparr>tab_title := x @ ''_'' @ tab_ip t\<rparr> else t
             | _ \<Rightarrow> t) (tb_tabs b)\<rparr>)"

section \<open>The page behind the tabs\<close>

text \<open>What the application does with an event.\<close>

fun on_tab_event :: "tab_event \<Rightarrow> shell \<Rightarrow> shell" where
  "on_tab_event (TabChanged k) s = show_page k s"
| "on_tab_event (TabRemoved k) s = close_page_of k s"
| "on_tab_event TabContentGone s = viewDeviceList s"

datatype tab_act =
    OpenPage string string     \<comment> \<open>\<open>viewDetialEvent\<close> with the name and the address\<close>
  | ChooseTab string
  | CloseTab string

definition open_tab :: "string \<Rightarrow> string \<Rightarrow> tab_bar \<times> shell \<Rightarrow> tab_bar \<times> tab_event list" where
  "open_tab le ye x =
     (case shown_as ye (board (snd x)) of
        None \<Rightarrow> (fst x, [])
      | Some a \<Rightarrow> tab_add (board (snd x)) le a ye (fst x))"

fun tab_act_events :: "tab_act \<Rightarrow> tab_bar \<times> shell \<Rightarrow> tab_bar \<times> tab_event list" where
  "tab_act_events (OpenPage le ye) x = open_tab le ye x"
| "tab_act_events (ChooseTab k) x = (fst (tab_changed k (fst x)), tab_clicked k (fst x) @ snd (tab_changed k (fst x)))"
| "tab_act_events (CloseTab k) x = tab_remove k (fst x)"

definition tab_step :: "tab_act \<Rightarrow> tab_bar \<times> shell \<Rightarrow> tab_bar \<times> shell" where
  "tab_step c x = (let (b, es) = tab_act_events c x in (b, fold on_tab_event es (snd x)))"

text \<open>The acts a user has: a tab that is there is chosen, the list of devices stays open.\<close>

inductive tabs_reach :: "tab_bar \<times> shell \<Rightarrow> tab_bar \<times> shell \<Rightarrow> bool" for x where
  tabs_start: "tabs_reach x x"
| tabs_open: "tabs_reach x y \<Longrightarrow> tabs_reach x (tab_step (OpenPage le ye) y)"
| tabs_choose: "tabs_reach x y \<Longrightarrow> k \<in> tab_key ` set (tb_tabs (fst y)) \<Longrightarrow> tabs_reach x (tab_step (ChooseTab k) y)"
| tabs_close: "tabs_reach x y \<Longrightarrow> k \<noteq> ''deviceList'' \<Longrightarrow> tabs_reach x (tab_step (CloseTab k) y)"


text \<open>
  What holds of the tabs: there is one for each printer that is open, the list of devices is
  the first, and one of them is chosen; the page shown is the chosen tab's, as long as no
  printer of the cloud is shown as its twin in the network.
\<close>

section \<open>One tab each\<close>

definition tab_keys :: "tab_bar \<Rightarrow> string list" where
  "tab_keys b = map tab_key (tb_tabs b)"

definition tabs_ok :: "tab_bar \<Rightarrow> bool" where
  "tabs_ok b \<longleftrightarrow> distinct (tab_keys b) \<and> tab_keys b \<noteq> [] \<and> hd (tab_keys b) = ''deviceList''
     \<and> (tb_selected b = [] \<or> tb_selected b \<in> set (tab_keys b))"

lemma fold_only:
  "distinct xs \<Longrightarrow> x \<in> set xs \<Longrightarrow> (\<And>y z. y \<in> set xs \<Longrightarrow> y \<noteq> x \<Longrightarrow> g y z = z) \<Longrightarrow> fold g xs z = g x z"
proof (induction xs arbitrary: z)
  case (Cons y ys)
  have none: "fold g zs z = z" if "\<And>y z. y \<in> set zs \<Longrightarrow> g y z = z" for zs z
    using that by (induction zs arbitrary: z) auto
  show ?case
  proof (cases "y = x")
    case True
    then show ?thesis using Cons.prems none [of ys "g x z"] by auto
  next
    case False
    then show ?thesis using Cons.prems Cons.IH [of z] by auto
  qed
qed simp

lemma fold_none: "(\<And>y z. y \<in> set xs \<Longrightarrow> g y z = z) \<Longrightarrow> fold g xs z = z"
  by (induction xs arbitrary: z) auto

text \<open>Closing a tab: the neighbour takes over when it was the chosen one.\<close>

lemma tab_remove_other: "tb_selected b \<noteq> f \<Longrightarrow>
  tab_remove f b = (b\<lparr>tb_tabs := filter (\<lambda>t. tab_key t \<noteq> f) (tb_tabs b)\<rparr>, [TabRemoved f])"
  by (simp add: tab_remove_def)

lemma tab_remove_absent: "f \<notin> set (tab_keys b) \<Longrightarrow>
  tab_remove f b = (b\<lparr>tb_tabs := filter (\<lambda>t. tab_key t \<noteq> f) (tb_tabs b)\<rparr>, [TabRemoved f])"
proof -
  assume f: "f \<notin> set (tab_keys b)"
  have "fold (pass_on (tb_tabs b) f) (enumerate 0 (tb_tabs b)) z = z" for z
    by (rule fold_none) (use f in \<open>auto simp: tab_keys_def pass_on_def in_set_enumerate_eq dest: nth_mem\<close>)
  then show ?thesis by (simp add: tab_remove_def Let_def)
qed

lemma tab_remove_chosen:
  assumes "distinct (tab_keys b)" and "h < length (tb_tabs b)" and "tab_key (tb_tabs b ! h) = f" and "tb_selected b = f"
    and "neighbour (tb_tabs b) h = Some t"
  shows "tab_remove f b = (b\<lparr>tb_tabs := filter (\<lambda>t. tab_key t \<noteq> f) (tb_tabs b), tb_selected := tab_key t\<rparr>,
    [TabRemoved f, TabChanged (tab_key t)])"
proof -
  let ?ts = "tb_tabs b"
  have "fold (pass_on ?ts f) (enumerate 0 ?ts) z = pass_on ?ts f (h, ?ts ! h) z" for z
  proof (rule fold_only)
    show "(h, ?ts ! h) \<in> set (enumerate 0 ?ts)" using assms(2) by (simp add: in_set_enumerate_eq)
    fix y z assume "y \<in> set (enumerate 0 ?ts)" "y \<noteq> (h, ?ts ! h)"
    then have y: "fst y < length ?ts" "snd y = ?ts ! fst y" "fst y \<noteq> h" by (auto simp: in_set_enumerate_eq)
    then have "tab_key (snd y) \<noteq> f"
      using assms(1-3) nth_eq_iff_index_eq [of "tab_keys b" "fst y" h] by (auto simp: tab_keys_def)
    then show "pass_on ?ts f y z = z" by (simp add: pass_on_def)
  qed simp
  with assms(3-5) show ?thesis by (simp add: tab_remove_def pass_on_def)
qed

lemma neighbour_stays:
  assumes "tabs_ok b" and "f \<in> set (tab_keys b)" and "f \<noteq> ''deviceList''"
  obtains h t where "h < length (tb_tabs b)" "tab_key (tb_tabs b ! h) = f" "neighbour (tb_tabs b) h = Some t"
    "tab_key t \<in> set (tab_keys b)" "tab_key t \<noteq> f"
proof -
  obtain h where h: "h < length (tb_tabs b)" "tab_key (tb_tabs b ! h) = f"
    using assms(2) by (auto simp: tab_keys_def in_set_conv_nth)
  have "tab_key (tb_tabs b ! 0) = ''deviceList''" using assms(1) by (auto simp: tabs_ok_def tab_keys_def hd_map hd_conv_nth)
  with assms(3) h have "h \<noteq> 0" by (cases h) auto
  define j where "j = (if Suc h < length (tb_tabs b) then Suc h else h - 1)"
  have j: "j < length (tb_tabs b)" "j \<noteq> h" "neighbour (tb_tabs b) h = Some (tb_tabs b ! j)"
    using h \<open>h \<noteq> 0\<close> by (auto simp: j_def neighbour_def)
  have "tab_key (tb_tabs b ! j) \<noteq> f"
    using assms(1) h j nth_eq_iff_index_eq [of "tab_keys b" j h] by (auto simp: tabs_ok_def tab_keys_def)
  with that h j show ?thesis by (auto simp: tab_keys_def)
qed

lemma keys_filter: "tab_keys (b\<lparr>tb_tabs := filter (\<lambda>t. tab_key t \<noteq> f) (tb_tabs b)\<rparr>) = filter (\<lambda>k. k \<noteq> f) (tab_keys b)"
  by (simp add: tab_keys_def filter_map comp_def)

lemma tabs_ok_filter:
  assumes "tabs_ok b" and "f \<noteq> ''deviceList''" and "k = [] \<or> k \<in> set (tab_keys b) \<and> k \<noteq> f"
  shows "tabs_ok (b\<lparr>tb_tabs := filter (\<lambda>t. tab_key t \<noteq> f) (tb_tabs b), tb_selected := k\<rparr>)"
proof -
  obtain ks where "tab_keys b = ''deviceList'' # ks"
    using assms(1) by (cases "tab_keys b") (auto simp: tabs_ok_def)
  with assms keys_filter [of f b] show ?thesis
    by (auto simp: tabs_ok_def tab_keys_def)
qed

lemma tab_remove_ok:
  assumes "tabs_ok b" and "f \<noteq> ''deviceList''"
  shows "tabs_ok (fst (tab_remove f b))"
proof (cases "f \<in> set (tab_keys b) \<and> tb_selected b = f")
  case True
  then obtain h t where "h < length (tb_tabs b)" "tab_key (tb_tabs b ! h) = f" "neighbour (tb_tabs b) h = Some t"
    "tab_key t \<in> set (tab_keys b)" "tab_key t \<noteq> f" using neighbour_stays [OF assms(1) _ assms(2)] by metis
  with True assms show ?thesis
    by (simp add: tab_remove_chosen tabs_ok_filter tabs_ok_def [of b])
next
  case False
  then have r: "tab_remove f b = (b\<lparr>tb_tabs := filter (\<lambda>t. tab_key t \<noteq> f) (tb_tabs b)\<rparr>, [TabRemoved f])"
    using tab_remove_other [of b f] tab_remove_absent [of f b] by blast
  have "tabs_ok (b\<lparr>tb_tabs := filter (\<lambda>t. tab_key t \<noteq> f) (tb_tabs b), tb_selected := tb_selected b\<rparr>)"
    using False assms by (intro tabs_ok_filter) (auto simp: tabs_ok_def)
  then show ?thesis by (simp add: r)
qed

lemma tab_add_ok: "tabs_ok b \<Longrightarrow> tabs_ok (fst (tab_add s f p m b))"
  by (auto simp: tab_add_def tabs_ok_def tab_keys_def)

lemma tab_step_bar: "fst (tab_step c x) = fst (tab_act_events c x)"
  by (simp add: tab_step_def split_beta)

lemma tabs_reach_ok: "tabs_reach x y \<Longrightarrow> tabs_ok (fst x) \<Longrightarrow> tabs_ok (fst y)"
proof (induction rule: tabs_reach.induct)
  case (tabs_open y le ye)
  then show ?case by (simp add: tab_step_bar open_tab_def tab_add_ok split: option.split)
next
  case (tabs_choose y k)
  then show ?case by (simp add: tab_step_bar tab_changed_def tabs_ok_def tab_keys_def)
next
  case (tabs_close y k)
  then show ?case by (simp add: tab_step_bar tab_remove_ok)
qed simp

lemma new_tabs_ok: "tabs_ok new_tab_bar"
  by (simp add: tabs_ok_def tab_keys_def new_tab_bar_def)

text \<open>C40: However pages are opened, chosen and closed, no two tabs have the same key, the list of
  devices is the first, and the chosen tab is one that is there.\<close>

theorem tabs_stay_distinct:
  assumes "tabs_reach (new_tab_bar, s) y"
  shows "distinct (tab_keys (fst y)) \<and> tab_keys (fst y) \<noteq> [] \<and> hd (tab_keys (fst y)) = ''deviceList''
    \<and> (tb_selected (fst y) = [] \<or> tb_selected (fst y) \<in> set (tab_keys (fst y)))"
  using tabs_reach_ok [OF assms] new_tabs_ok by (simp add: tabs_ok_def)

section \<open>The page of the chosen tab\<close>

definition page_of :: "string \<Rightarrow> dashboard \<Rightarrow> string" where
  "page_of k s = (if k = ''deviceList'' then [] else case shown_as k s of None \<Rightarrow> [] | Some a \<Rightarrow> a)"

definition shows_chosen :: "tab_bar \<times> shell \<Rightarrow> bool" where
  "shows_chosen x = (detail_address (snd x) = page_of (tb_selected (fst x)) (board (snd x)))"

lemma show_page_address [simp]: "detail_address (show_page k s) = page_of k (board s)" "board (show_page k s) = board s"
  by (auto simp: show_page_def page_of_def viewDeviceList_def Let_def split: option.split)

lemma close_page_address [simp]:
  "detail_address (close_page_of k s) = (if detail_address s = k then [] else detail_address s)"
  "board (close_page_of k s) = board s" "detail_address (viewDeviceList s) = []" "board (viewDeviceList s) = board s"
  by (simp_all add: close_page_of_def viewDeviceList_def)

text \<open>A board on which no printer is shown as another.\<close>

definition plain_board :: "dashboard \<Rightarrow> bool" where
  "plain_board s = (\<forall>k a. shown_as k s = Some a \<longrightarrow> a = k)"

lemma page_plain: "plain_board s \<Longrightarrow> page_of k s = [] \<or> page_of k s = k"
  by (auto simp: page_of_def plain_board_def split: option.split)

lemma tab_step_board: "board (snd (tab_step c x)) = board (snd x)"
proof -
  have "board (fold on_tab_event es s) = board s" for es s
  proof (induction es arbitrary: s)
    case (Cons e es)
    then show ?case by (cases e) simp_all
  qed simp
  then show ?thesis by (simp add: tab_step_def split_beta)
qed

lemma remove_shows:
  assumes "plain_board (board s)" and "tabs_ok b" and "k \<noteq> ''deviceList''" and "shows_chosen (b, s)"
  shows "shows_chosen (tab_step (CloseTab k) (b, s))"
proof (cases "k \<in> set (tab_keys b) \<and> tb_selected b = k")
  case True
  then obtain h t where "h < length (tb_tabs b)" "tab_key (tb_tabs b ! h) = k" "neighbour (tb_tabs b) h = Some t"
    using neighbour_stays [OF assms(2) _ assms(3)] by metis
  with True assms(2) show ?thesis
    by (simp add: shows_chosen_def tab_step_def tab_remove_chosen tabs_ok_def)
next
  case False
  have r: "tab_remove k b = (b\<lparr>tb_tabs := filter (\<lambda>t. tab_key t \<noteq> k) (tb_tabs b)\<rparr>, [TabRemoved k])"
    using False tab_remove_other [of b k] tab_remove_absent [of k b] by blast
  have "page_of (tb_selected b) (board s) = [] \<or> page_of (tb_selected b) (board s) \<noteq> k"
    using page_plain [OF assms(1), of "tb_selected b"] False assms(2) by (auto simp: tabs_ok_def)
  then show ?thesis
    using assms(4) by (auto simp: shows_chosen_def tab_step_def r)
qed

text \<open>As long as no printer of the cloud stands for one in the network, the page that is
  shown is the chosen tab's, whatever is opened, chosen and closed.\<close>

theorem the_page_is_the_chosen_tabs:
  assumes "tabs_reach (new_tab_bar, s) (b, s')" and "detail_address s = []" and "getPrinter [] (board s) = None"
    and "plain_board (board s)"
  shows "detail_address s' = page_of (tb_selected b) (board s)"
proof -
  have "shows_chosen y \<and> tabs_ok (fst y) \<and> board (snd y) = board s" if "tabs_reach (new_tab_bar, s) y" for y
    using that
  proof (induction rule: tabs_reach.induct)
    case tabs_start
    then show ?case using assms(2,3) new_tabs_ok by (simp add: shows_chosen_def new_tab_bar_def page_of_def shown_as_def)
  next
    case (tabs_open y le ye)
    then have "tabs_ok (fst (tab_step (OpenPage le ye) y))" using tabs_reach_ok tabs_reach.tabs_open new_tabs_ok
      by (metis fst_conv)
    moreover have "shows_chosen (tab_step (OpenPage le ye) y)"
      using tabs_open by (cases "shown_as ye (board s)") (simp_all add: shows_chosen_def tab_step_def open_tab_def tab_add_def)
    ultimately show ?case using tabs_open by (simp add: tab_step_board)
  next
    case (tabs_choose y k)
    then have "tabs_ok (fst (tab_step (ChooseTab k) y))" using tabs_reach_ok tabs_reach.tabs_choose new_tabs_ok
      by (metis fst_conv)
    moreover have "shows_chosen (tab_step (ChooseTab k) y)"
      by (simp add: shows_chosen_def tab_step_def tab_changed_def tab_clicked_def)
    ultimately show ?case using tabs_choose by (simp add: tab_step_board)
  next
    case (tabs_close y k)
    then show ?case
      using remove_shows [of "snd y" "fst y" k] assms(4) tab_remove_ok [of "fst y" k]
      by (simp add: tab_step_board) (simp add: tab_step_bar)
  qed
  from this [OF assms(1)] show ?thesis by (simp add: shows_chosen_def)
qed

lemma plain_when_unlinked:
  assumes "\<forall>n \<in> set (all_refs s). deviceType (printers s n) \<noteq> 1 \<or> identity (printers s n) = None"
  shows "plain_board s"
proof -
  have "a = k" if h: "shown_as k s = Some a" for k a
  proof -
    obtain n where n: "getPrinter k s = Some n" using h by (auto simp: shown_as_def split: option.splits)
    then have "n \<in> set (all_refs s)"
      by (auto simp: getPrinter_find_ref find_ref_def find_Some_iff)
    with assms n h show ?thesis by (auto simp: shown_as_def split: option.splits bool.splits)
  qed
  then show ?thesis by (simp add: plain_board_def)
qed

definition tab_shell :: shell where
  "tab_shell = demo_shell\<lparr>board := demo_board, detail_visable := False, detail_address := []\<rparr>"

lemma tab_board_finds:
  "getPrinter ''a'' demo_board = Some 0" "getPrinter ''b'' demo_board = Some (Suc 0)" "getPrinter [] demo_board = None"
  by (simp_all add: getPrinter_find_ref find_ref_def has_address_def)

lemma demo_plain: "plain_board demo_board"
  by (rule plain_when_unlinked) (simp add: all_refs_def)

theorem the_page_is_the_chosen_tabs_witness:
  "detail_address (snd (tab_step (CloseTab ''b'') (tab_step (OpenPage ''n'' ''b'') (tab_step (OpenPage ''n'' ''a'') (new_tab_bar, tab_shell))))) = ''a''"
proof -
  let ?x = "tab_step (CloseTab ''b'') (tab_step (OpenPage ''n'' ''b'') (tab_step (OpenPage ''n'' ''a'') (new_tab_bar, tab_shell)))"
  have b: "board tab_shell = demo_board" "detail_address tab_shell = []" by (simp_all add: tab_shell_def)
  have "tabs_reach (new_tab_bar, tab_shell) (fst ?x, snd ?x)"
    by (auto intro!: tabs_reach.intros)
  from the_page_is_the_chosen_tabs [OF this] b demo_plain tab_board_finds(3)
  have "detail_address (snd ?x) = page_of (tb_selected (fst ?x)) demo_board" by simp
  moreover have "tb_selected (fst ?x) = ''a''"
    by (simp add: tab_step_bar tab_step_board open_tab_def b shown_as_def tab_board_finds)
       (simp add: new_tab_bar_def tab_add_def tab_remove_def pass_on_def neighbour_def Let_def)
  ultimately show ?thesis by (simp add: page_of_def shown_as_def tab_board_finds)
qed

theorem tabs_stay_distinct_witness:
  "distinct (tab_keys (fst (tab_step (CloseTab ''b'') (new_tab_bar, tab_shell))))"
  using tabs_stay_distinct [of tab_shell "tab_step (CloseTab ''b'') (new_tab_bar, tab_shell)"]
  by (simp add: tabs_reach.intros)

text \<open>A printer of the cloud that stands for one in the network is shown under the other's
  address.  Closing the other's own tab then hides the page, although the tab it belongs to
  is still the chosen one.\<close>

theorem closing_the_twin_hides_the_page:
  assumes "shown_as (tb_selected b) (board s) = Some a" and "a \<noteq> tb_selected b" and "detail_address s = a"
    and "tab_step (CloseTab a) (b, s) = (b', s')"
  shows "tb_selected b' = tb_selected b \<and> \<not> detail_visable s' \<and> detail_address s' = []"
proof -
  have "tab_remove a b = (b\<lparr>tb_tabs := filter (\<lambda>t. tab_key t \<noteq> a) (tb_tabs b)\<rparr>, [TabRemoved a])"
    using assms(2) by (intro tab_remove_other) simp
  with assms(3,4) show ?thesis
    by (auto simp: tab_step_def close_page_of_def viewDeviceList_def)
qed

definition twin_board :: dashboard where
  "twin_board = upd 1 (\<lambda>p. p\<lparr>deviceType := 1, identity := Some ''a''\<rparr>) demo_board"

theorem closing_the_twin_hides_the_page_witness:
  "detail_address (snd (tab_step (CloseTab ''a'') (new_tab_bar\<lparr>tb_selected := ''b''\<rparr>, tab_shell\<lparr>board := twin_board, detail_address := ''a''\<rparr>))) = []"
proof -
  let ?b = "new_tab_bar\<lparr>tb_selected := ''b''\<rparr>" and ?s = "tab_shell\<lparr>board := twin_board, detail_address := ''a''\<rparr>"
  have t: "shown_as (tb_selected ?b) (board ?s) = Some ''a''" "''a'' \<noteq> tb_selected ?b" "detail_address ?s = ''a''"
    by (simp_all add: shown_as_def twin_board_def getPrinter_def getPrinter_in_def)
  show ?thesis
    using closing_the_twin_hides_the_page [OF t, of "fst (tab_step (CloseTab ''a'') (?b, ?s))" "snd (tab_step (CloseTab ''a'') (?b, ?s))"]
    by simp
qed

end
