(* ===== verification/DeviceList.thy ===== *)
theory DeviceList
  imports PlatePrint FilePage AddDevice GroupDialogs
begin

text \<open>
  The dialog of a printer's matches (component \<open>FilamentLinkSet\<close> of \<open>CeX73yR3.js\<close>): the
  extruders of the active plate with the slots matched to them, the slots a user may choose
  instead, and what is written back to the store of plates of \<open>PlatePrint\<close>.  The copy of the
  slots that is changed along with a choice is never read and left out.
\<close>

section \<open>The dialog\<close>

record link_row =
  lk_circle :: "string option"
  lk_type :: json
  lk_rect :: string
  lk_material :: json
  lk_match :: json           \<comment> \<open>\<open>matchFilamentType\<close>\<close>

record link_dialog =
  ld_open :: bool
  ld_address :: string
  ld_slots :: "json list"
  ld_rows :: "link_row list"

definition new_link_dialog :: link_dialog where
  "new_link_dialog = \<lparr>ld_open = False, ld_address = [], ld_slots = [], ld_rows = []\<rparr>"

definition link_row_of :: "plate_store \<Rightarrow> plate_match \<Rightarrow> link_row" where
  "link_row_of d m =
     \<lparr>lk_circle = at_js None (map Some (allExtruderColors d)) (pm_extruder m),
      lk_type = at_js JUndefined (allFilamentTypes d) (pm_extruder m),
      lk_rect = (if truthy (pm_filamentType m) then pm_matchColor m else ''#ccc''),
      lk_material = pm_materialId m, lk_match = pm_filamentType m\<rparr>"

text \<open>\<open>showFilament\<close>: without a listed printer it throws at once, without an active plate the
  dialog stays closed, and without matches of the plate it throws once the rows are gone.\<close>

definition showFilament :: "string \<Rightarrow> dashboard \<Rightarrow> plate_store \<Rightarrow> link_dialog \<Rightarrow> link_dialog" where
  "showFilament t s d f =
     (case getPrinter t s of
        None \<Rightarrow> f
      | Some n \<Rightarrow>
          let f1 = f\<lparr>ld_slots := filter (\<lambda>v. jget v ''boxType'' = JNum 0) (boxColorInfo (boxsInfo (printers s n)))\<rparr> in
          (case getActivePlateData d of
             None \<Rightarrow> f1
           | Some p \<Rightarrow>
               (case getPlatePrinterColorMatchInfo (plate_index p) t d of
                  None \<Rightarrow> f1\<lparr>ld_rows := []\<rparr>
                | Some ms \<Rightarrow> f1\<lparr>ld_rows := map (link_row_of d) ms, ld_address := t, ld_open := True\<rparr>)))"

definition link_close :: "link_dialog \<Rightarrow> link_dialog" where
  "link_close f = f\<lparr>ld_open := False\<rparr>"

text \<open>Choosing a slot for a row that was matched; others cannot be changed.\<close>

definition link_choose :: "nat \<Rightarrow> json \<Rightarrow> link_dialog \<Rightarrow> link_dialog" where
  "link_choose i x f =
     (if i < length (ld_rows f) \<and> truthy (lk_match (ld_rows f ! i))
      then f\<lparr>ld_rows := (ld_rows f)[i := (ld_rows f ! i)\<lparr>lk_rect := text_in (jget x ''color''),
               lk_material := jget x ''materialId''\<rparr>]\<rparr>
      else f)"

text \<open>\<open>Confirm\<close>: the rows are written for the extruders of the plate that is active by then,
  without the type of their filament.  \<open>None\<close> is the \<open>TypeError\<close> without an active plate, or
  with more extruders than rows.\<close>

definition link_confirm :: "plate_store \<Rightarrow> link_dialog \<Rightarrow> (plate_store \<times> link_dialog) option" where
  "link_confirm d f =
     (case getActivePlateData d of
        None \<Rightarrow> None
      | Some p \<Rightarrow>
          if length (extruderIndexs p) \<le> length (ld_rows f)
          then Some (setPlatePrinterColorMatchInfo (plate_index p) (ld_address f)
                 (map (\<lambda>(c, r). \<lparr>pm_extruder = c, pm_matchColor = lk_rect r, pm_materialId = lk_material r,
                         pm_filamentType = JUndefined\<rparr>) (zip (extruderIndexs p) (ld_rows f))) d, link_close f)
          else None)"

section \<open>Labels\<close>

text \<open>A slot is named by its number alone, whichever box it is in.\<close>

definition box_names :: "string list" where
  "box_names = [''1A'', ''1B'', ''1C'', ''1D'', ''1E'']"

definition slot_label_of :: "json \<Rightarrow> string" where
  "slot_label_of v =
     (case v of
        JNum q \<Rightarrow> if q \<in> \<int> \<and> 0 \<le> q \<and> q < 5 then box_names ! nat \<lfloor>q\<rfloor> else ''Unknown''
      | _ \<Rightarrow> ''Unknown'')"

definition row_label :: "link_row \<Rightarrow> string" where
  "row_label r = (if truthy (lk_match r) then slot_label_of (lk_material r) else ''/'')"

definition row_type :: "json list \<Rightarrow> link_row \<Rightarrow> json" where
  "row_type slots r =
     (if truthy (lk_match r)
      then (case List.find (\<lambda>k. jget k ''materialId'' = lk_material r) slots of
              None \<Rightarrow> JStr ''Unknown'' | Some k \<Rightarrow> jget k ''filamentType'')
      else JStr ''/'')"

definition line_color :: "string \<Rightarrow> string" where
  "line_color t = (if t \<in> {''#000000'', ''#37373B''} then ''#FFFFFF'' else ''#000000'')"


text \<open>
  The lists of devices (\<open>CeX73yR3.js\<close>): the context menus (\<open>O4\<close>) and the menu component, the
  table of a group (\<open>DeviceList\<close>), the cards (\<open>DeviceCard\<close> and the list around them) and their
  menu (\<open>DeviceMenu\<close>).  \<open>localeCompare\<close> is given by a key to sort by, the label of the cloud's
  group by the translation; what the table and the cards draw is not modelled, nor are the
  messages to the statistics, which are empty functions.
\<close>

section \<open>Context menus\<close>

text \<open>\<open>O4\<close>: the menus that were added with what they belong to, and those that are shown with
  what they were opened for.\<close>

record 'a menus =
  m_data :: "(nat \<times> nat) list"
  m_shown :: "(nat \<times> 'a) list"

definition menu_add :: "nat \<Rightarrow> nat \<Rightarrow> 'a menus \<Rightarrow> 'a menus" where
  "menu_add t r m = m\<lparr>m_data := m_data m @ [(r, t)]\<rparr>"

text \<open>\<open>splice\<close> behind the last entry removes nothing.\<close>

definition menu_remove :: "nat \<Rightarrow> 'a menus \<Rightarrow> 'a menus" where
  "menu_remove t m = (let r = length (takeWhile (\<lambda>x. fst x \<noteq> t) (m_data m)) in m\<lparr>m_data := remove_at r (m_data m)\<rparr>)"

definition menu_show_one :: "nat \<Rightarrow> 'a \<Rightarrow> 'a menus \<Rightarrow> 'a menus" where
  "menu_show_one k x m = m\<lparr>m_shown := AList.update k x (m_shown m)\<rparr>"

definition menu_hide_one :: "nat \<Rightarrow> 'a menus \<Rightarrow> 'a menus" where
  "menu_hide_one k m = m\<lparr>m_shown := AList.delete k (m_shown m)\<rparr>"

definition menu_show :: "nat \<Rightarrow> 'a \<Rightarrow> 'a menus \<Rightarrow> 'a menus" where
  "menu_show t x m = (case map_of (m_data m) t of None \<Rightarrow> m | Some k \<Rightarrow> menu_show_one k x m)"

text \<open>A click with the right button outside of what a menu belongs to hides it, one with the left
  button outside of the menu itself.\<close>

definition hideByContextMenu :: "(nat \<Rightarrow> bool) \<Rightarrow> 'a menus \<Rightarrow> 'a menus" where
  "hideByContextMenu inside m = fold (\<lambda>(r, k) m. if inside r then m else menu_hide_one k m) (m_data m) m"

definition hideByClick :: "(nat \<Rightarrow> bool) \<Rightarrow> 'a menus \<Rightarrow> 'a menus" where
  "hideByClick inside m = fold (\<lambda>(r, k) m. if inside k then m else menu_hide_one k m) (m_data m) m"

text \<open>\<open>hideAll\<close> reads \<open>value\<close> of the pair and not of the menu in it: it is \<open>undefined\<close>.\<close>

definition hideAll :: "'a menus \<Rightarrow> 'a menus" where
  "hideAll m = m"

text \<open>The component: a click on an item that is not disabled, or on one of its groups, emits it
  for what the menu was opened for, and hides the menu.\<close>

record menu_item =
  mi_index :: nat
  mi_disabled :: bool
  mi_visible :: bool
  mi_sub :: "string list"

definition menu_item_click :: "nat \<Rightarrow> menu_item \<Rightarrow> 'a menus \<Rightarrow> (nat \<times> 'a) option \<times> 'a menus" where
  "menu_item_click k i m =
     (case map_of (m_shown m) k of
        Some x \<Rightarrow> if mi_visible i \<and> \<not> mi_disabled i then (Some (mi_index i, x), menu_hide_one k m) else (None, m)
      | None \<Rightarrow> (None, m))"

definition sub_item_click :: "nat \<Rightarrow> menu_item \<Rightarrow> string \<Rightarrow> 'a menus \<Rightarrow> (nat \<times> string \<times> 'a) option \<times> 'a menus" where
  "sub_item_click k i g m =
     (case map_of (m_shown m) k of
        Some x \<Rightarrow> if g \<in> set (mi_sub i) \<and> g \<noteq> [] then (Some (mi_index i, g, x), menu_hide_one k m) else (None, m)
      | None \<Rightarrow> (None, m))"

section \<open>The table of a group\<close>

datatype list_event =
    ViewDetial "string option" string
  | RemoveTab string
  | UpdateCxDevice
  | DiagnoseEvent nat
  | ShowScanAdd string
  | ShowManualAdd string
  | ShowEditName string
  | ShowEditGroup string
  | ResetScanned string
  | AskRemoveGroup string bool     \<comment> \<open>whether keeping the devices is offered\<close>

datatype state_choice = AllStates | IdleStates | PrintingStates

record device_list =
  dl_group :: string
  dl_by_model :: bool
  dl_state :: state_choice
  dl_remove :: menu_item
  dl_move :: menu_item
  dl_refreshing :: bool

definition new_device_list :: "string \<Rightarrow> device_list" where
  "new_device_list g = \<lparr>dl_group = g, dl_by_model = False, dl_state = AllStates,
     dl_remove = \<lparr>mi_index = 1, mi_disabled = False, mi_visible = True, mi_sub = []\<rparr>,
     dl_move = \<lparr>mi_index = 2, mi_disabled = False, mi_visible = True, mi_sub = []\<rparr>, dl_refreshing = False\<rparr>"

text \<open>The menu of a row: the groups a printer may be moved to.  An item that was made invisible
  stays so.\<close>

definition other_groups :: "string \<Rightarrow> dashboard \<Rightarrow> string list" where
  "other_groups g s = map group (filter (\<lambda>x. groupType x = 0 \<and> group x \<noteq> g) (printerList s))"

definition on_row_menu :: "nat \<Rightarrow> dashboard \<Rightarrow> device_list \<Rightarrow> device_list" where
  "on_row_menu n s f =
     (let gs = other_groups (dl_group f) s in
      f\<lparr>dl_move := (dl_move f)\<lparr>mi_sub := gs, mi_disabled := (gs = []),
          mi_visible := (mi_visible (dl_move f) \<and> deviceType (printers s n) \<noteq> 1)\<rparr>\<rparr>)"

definition move_message :: "string \<Rightarrow> string \<Rightarrow> string \<Rightarrow> (string \<times> json) list" where
  "move_message t n a = [(''command'', JStr ''move_to_group''), (''originGroup'', JStr t), (''targetGroup'', JStr n), (''address'', JStr a)]"

definition onSubMenuItemClick :: "nat \<Rightarrow> string \<Rightarrow> nat \<Rightarrow> device_list \<Rightarrow> dashboard \<Rightarrow> dashboard" where
  "onSubMenuItemClick q g n f s =
     (let a = address (printers s n) in
      if q = 2 then post (move_message (dl_group f) g a) (moveToGroup (dl_group f) a g s) else s)"

definition view_row :: "printer \<Rightarrow> list_event list" where
  "view_row p = (if online p then [ViewDetial (name p) (address p)] else [])"

text \<open>What removing the group offers: the first of two questions is answered by what is there.\<close>

definition may_keep_devices :: "string \<Rightarrow> dashboard \<Rightarrow> bool" where
  "may_keep_devices g s =
     (let gs = filter (\<lambda>x. groupType x = 0) (printerList s) in
      2 \<le> length gs \<and> (\<forall>x \<in> set gs. group x = g \<longrightarrow> members x \<noteq> []))"

definition remove_row_device :: "(string \<Rightarrow> cloud_api \<Rightarrow> cloud_api) \<Rightarrow> nat \<Rightarrow> cloud_api \<times> dashboard
    \<Rightarrow> list_event list \<times> cloud_api \<times> dashboard" where
  "remove_row_device del n b =
     (let (k, s) = b; a = address (printers s n); s1 = snd (removePrinter a False s) in
      if deviceType (printers s n) = 1 then ([], del a k, s1)
      else ([ResetScanned a, RemoveTab a], k, post [(''command'', JStr ''remove_device''), (''address'', JStr a)] s1))"

fun onMenuItemClick :: "string \<Rightarrow> nat \<Rightarrow> nat \<Rightarrow> device_list \<Rightarrow> cloud_api \<times> dashboard
    \<Rightarrow> list_event list \<times> cloud_api \<times> dashboard" where
  "onMenuItemClick uuid q n f b =
     (if q = 0 then (view_row (printers (snd b) n), b)
      else if q = 1 then remove_row_device (\<lambda>a. deleteDevice uuid (JStr a)) n b
      else if q = 3 then ([AskRemoveGroup (dl_group f) (may_keep_devices (dl_group f) (snd b))], b)
      else if q = 4 then ([ShowEditGroup (dl_group f)], b)
      else if q = 5 then ([ShowEditName (address (printers (snd b) n))], b)
      else ([], b))"

text \<open>The answer: a name that is no group's throws in \<open>remove2FirstGroup\<close>, once the window was
  told.\<close>

definition remove_group_confirmed :: "string \<Rightarrow> bool \<Rightarrow> dashboard \<Rightarrow> list_event list \<times> dashboard" where
  "remove_group_confirmed g keep s =
     (if keep
      then (let s1 = post [(''command'', JStr ''remove_to_first''), (''name'', JStr g)] s in
            ([], or_same (remove2FirstGroup g) s1))
      else (map (\<lambda>n. RemoveTab (address (printers s n))) (prinertList g s),
            removeGroup g False (post [(''command'', JStr ''remove_group''), (''name'', JStr g)] s)))"

text \<open>The choice of a state filters the printers of the group; the cloud's group, whose name is
  empty, is looked for under its label.\<close>

definition state_filter :: "(string \<Rightarrow> string) \<Rightarrow> device_list \<Rightarrow> dashboard \<Rightarrow> dashboard" where
  "state_filter tr f s =
     setFilter (if dl_group f = [] then tr ''Creality Cloud binds devices'' else dl_group f)
       (case dl_state f of AllStates \<Rightarrow> None | IdleStates \<Rightarrow> Some 0 | PrintingStates \<Rightarrow> Some 1) None [] s"

definition choose_state :: "(string \<Rightarrow> string) \<Rightarrow> state_choice \<Rightarrow> device_list \<times> dashboard \<Rightarrow> device_list \<times> dashboard" where
  "choose_state tr c b = (let f = (fst b)\<lparr>dl_state := c\<rparr> in (f, state_filter tr f (snd b)))"

text \<open>Stable sorting with what has no text behind the rest.\<close>

definition texts_first :: "(string \<Rightarrow> 'k :: linorder) \<Rightarrow> ('a \<Rightarrow> string option) \<Rightarrow> 'a list \<Rightarrow> 'a list" where
  "texts_first key f xs = sort_key (\<lambda>x. key (the (f x))) (filter (\<lambda>x. f x \<noteq> None) xs) @ filter (\<lambda>x. f x = None) xs"

definition text_of_model :: "printer \<Rightarrow> string option" where
  "text_of_model p = (if nullish (modelName p) then None else Some (js_text (modelName p)))"

definition table_rows :: "(string \<Rightarrow> 'k :: linorder) \<Rightarrow> device_list \<Rightarrow> dashboard \<Rightarrow> nat list" where
  "table_rows key f s =
     texts_first key (\<lambda>n. if dl_by_model f then text_of_model (printers s n) else name (printers s n))
       (filter (\<lambda>n. visable (printers s n)) (prinertList (dl_group f) s))"

text \<open>The pictures of the printers with a model, when the rows are listed; \<open>thumb\<close> gives the
  picture of a preset.\<close>

definition picture_of :: "(string \<Rightarrow> string option) \<Rightarrow> printer \<Rightarrow> printer" where
  "picture_of thumb p =
     (case thumb (model p) of
        Some t \<Rightarrow> if truthy (modelName p) then p\<lparr>deviceImg := t\<rparr> else p
      | None \<Rightarrow> p)"

definition list_rows :: "(string \<Rightarrow> string option) \<Rightarrow> device_list \<Rightarrow> dashboard \<Rightarrow> dashboard" where
  "list_rows thumb f s = fold (\<lambda>n. upd n (picture_of thumb)) (prinertList (dl_group f) s) s"

text \<open>The watcher of the names sorts the group itself; an empty name is none.\<close>

definition sort_by_name :: "(string \<Rightarrow> 'k :: linorder) \<Rightarrow> string \<Rightarrow> dashboard \<Rightarrow> dashboard" where
  "sort_by_name key g s =
     (case index_where (\<lambda>x. group x = g) (printerList s) of
        None \<Rightarrow> s
      | Some i \<Rightarrow> set_members i (texts_first key (\<lambda>n. case name (printers s n) of Some t \<Rightarrow> if t = [] then None else Some t
                                              | None \<Rightarrow> None)) s)"

section \<open>Choosing printers\<close>

definition row_choosable :: "bool \<Rightarrow> printer \<Rightarrow> bool" where
  "row_choosable plate p = (plate \<and> online p \<and> deviceType p = 0 \<and> state p \<noteq> JNum 1)"

definition choose_row :: "nat \<Rightarrow> bool \<Rightarrow> dashboard \<Rightarrow> dashboard" where
  "choose_row n v s = upd n (\<lambda>p. p\<lparr>selected := v\<rparr>) s"

text \<open>The box over the rows: it looks at nothing but whether a printer is online.\<close>

definition choose_all_rows :: "(string \<Rightarrow> 'k :: linorder) \<Rightarrow> bool \<Rightarrow> device_list \<Rightarrow> dashboard \<Rightarrow> dashboard" where
  "choose_all_rows key v f s = fold (\<lambda>n. choose_row n (online (printers s n) \<and> v)) (table_rows key f s) s"

definition all_rows_chosen :: "(string \<Rightarrow> 'k :: linorder) \<Rightarrow> device_list \<Rightarrow> dashboard \<Rightarrow> bool \<times> bool" where
  "all_rows_chosen key f s =
     (let every = list_all (\<lambda>n. selected (printers s n)) (table_rows key f s) in
      (every, list_ex (\<lambda>n. selected (printers s n)) (table_rows key f s) \<and> \<not> every))"

definition set_calibration_mark :: "nat \<Rightarrow> bool \<Rightarrow> dashboard \<Rightarrow> dashboard" where
  "set_calibration_mark n v s = setPrinterCalibration (address (printers s n)) v s"

definition set_cfs_mark ::
    "(string \<Rightarrow> string \<Rightarrow> real option) \<Rightarrow> nat \<Rightarrow> bool \<Rightarrow> plate_store \<times> dashboard \<Rightarrow> plate_store \<times> dashboard" where
  "set_cfs_mark gap n v b =
     (let (d, s) = b; a = address (printers s n); s1 = setPrinterCFSOpenState a v s in
      (if v then updatePlatePrinterColorMatchInfo gap a s1 d else d, s1))"

text \<open>The matches are shown for a printer with boxes; an address that is not listed throws.\<close>

definition show_matches :: "string \<Rightarrow> dashboard \<Rightarrow> plate_store \<Rightarrow> link_dialog \<Rightarrow> link_dialog" where
  "show_matches t s d f =
     (case getPrinter t s of
        None \<Rightarrow> f
      | Some n \<Rightarrow> if boxColorInfo (boxsInfo (printers s n)) \<noteq> [] then showFilament t s d f else f)"

section \<open>Klipper pages\<close>

text \<open>The search parameters of the page: none, or those with \<open>os\<close>.  Without \<open>os\<close> the call throws,
  after the address is set.\<close>

datatype page_params = NoParams | ParamsWithout | Os string

definition klipper_url :: "printer \<Rightarrow> json \<Rightarrow> string \<Rightarrow> string" where
  "klipper_url p port t = ''http://'' @ hd (js_split ''('' (address p)) @ '':'' @ js_text port @ t"

definition open_klipper :: "page_params \<Rightarrow> nat \<Rightarrow> string \<Rightarrow> dashboard \<Rightarrow> list_event list \<times> dashboard" where
  "open_klipper os n url s =
     (let s1 = upd n (\<lambda>p. p\<lparr>KlipperUrl := JStr url\<rparr>) s; p = printers s n in
      case os of
        Os t \<Rightarrow> if sublist ''linux'' (toLowerCase t)
                then ([], post [(''command'', JStr ''common_openurl''), (''url'', JStr url)] s1)
                else ([ViewDetial (name p) (address p)], s1)
      | _ \<Rightarrow> ([], s1))"

definition open_fluidd :: "page_params \<Rightarrow> nat \<Rightarrow> dashboard \<Rightarrow> list_event list \<times> dashboard" where
  "open_fluidd os n s = open_klipper os n (klipper_url (printers s n) (fluiddPort (printers s n)) []) s"

definition open_mainsail :: "page_params \<Rightarrow> nat \<Rightarrow> dashboard \<Rightarrow> list_event list \<times> dashboard" where
  "open_mainsail os n s = open_klipper os n (klipper_url (printers s n) (mainsailPort (printers s n)) ''/allPrinters'') s"

section \<open>The header of a table\<close>

definition add_manually :: "device_list \<Rightarrow> list_event list" where
  "add_manually f = [ShowManualAdd (dl_group f)]"

definition add_by_scan :: "device_list \<Rightarrow> list_event list" where
  "add_by_scan f = [ShowScanAdd (dl_group f)]"

text \<open>The account's devices are asked for again; the mark goes after a second, answered or not.\<close>

definition refresh_account :: "device_list \<Rightarrow> list_event list \<times> device_list" where
  "refresh_account f = ([UpdateCxDevice], f\<lparr>dl_refreshing := True\<rparr>)"

definition refresh_over :: "device_list \<Rightarrow> device_list" where
  "refresh_over f = f\<lparr>dl_refreshing := False\<rparr>"

definition diagnose_row :: "nat \<Rightarrow> list_event list" where
  "diagnose_row n = [DiagnoseEvent n]"

definition table_shown :: "sys \<Rightarrow> device_list \<Rightarrow> bool" where
  "table_shown y f = (\<not> (isOffline y \<and> dl_group f = []) \<and> (isTokenValid y \<or> dl_group f \<noteq> []))"

definition few_groups :: "bool \<Rightarrow> dashboard \<Rightarrow> bool" where
  "few_groups logged_in s = (\<not> logged_in \<and> length (printerList s) \<le> 1)"

definition ask_login_again :: "dashboard \<Rightarrow> dashboard" where
  "ask_login_again s = post [(''command'', JStr ''switch_to_tab''), (''tabName'', JStr ''tpHome''), (''pageName'', JStr ''token_expired'')] s"


text \<open>
  The cards of the printers (\<open>CeX73yR3.js\<close>): what a card shows of its printer (\<open>DeviceCard\<close>), the
  list of cards of a group with its filter and its order (the component \<open>index\<close> around them),
  the menu of a card (\<open>DeviceMenu\<close>), and the panel in place of the account's cards
  (\<open>DeviceCXYEmpty\<close>).
\<close>

section \<open>A card\<close>

datatype card_status =
    Offline | Idle | Printing | Complete | Failed | Aborted | Paused | Pausing | Stopping | Restoring

text \<open>\<open>m\<close>: there is no status for another state.\<close>

definition status_of_card :: "printer \<Rightarrow> card_status option" where
  "status_of_card p =
     (if \<not> online p then Some Offline
      else map_of [(JNum 0, Idle), (JNum 1, Printing), (JNum 2, Complete), (JNum 3, Failed), (JNum 4, Aborted),
                   (JNum 5, Paused), (JNum 6, Pausing), (JNum 7, Stopping), (JNum 8, Restoring)] (state p))"

text \<open>\<open>f\<close>: the identity of a printer of the cloud, and otherwise the first four numbers between
  dots in the address.\<close>

definition is_digit :: "char \<Rightarrow> bool" where
  "is_digit c = (48 \<le> (of_char c :: nat) \<and> (of_char c :: nat) \<le> 57)"

text \<open>\<open>\\d{1,3}\<close> at the start of a text, taking as many as there are, up to three.\<close>

definition some_digits :: "string \<Rightarrow> (string \<times> string) option" where
  "some_digits t = (let d = takeWhile is_digit (take 3 t) in if d = [] then None else Some (d, drop (length d) t))"

fun dotted :: "nat \<Rightarrow> string \<Rightarrow> string option" where
  "dotted 0 t = map_option fst (some_digits t)"
| "dotted (Suc k) t =
     (case some_digits t of
        Some (d, CHR ''.'' # r) \<Rightarrow> map_option (\<lambda>x. d @ ''.'' @ x) (dotted k r)
      | _ \<Rightarrow> None)"

fun first_ip :: "string \<Rightarrow> string option" where
  "first_ip [] = None"
| "first_ip (c # cs) = (case dotted 3 (c # cs) of Some t \<Rightarrow> Some t | None \<Rightarrow> first_ip cs)"

definition card_address :: "bool \<Rightarrow> printer \<Rightarrow> string option" where
  "card_address cxy p =
     (if cxy then Some (case identity p of None \<Rightarrow> [] | Some i \<Rightarrow> i) else first_ip (address p))"

text \<open>\<open>p\<close>: the name of the model.\<close>

definition card_model :: "dashboard \<Rightarrow> printer \<Rightarrow> string option" where
  "card_model s p =
     (if type p = 1001 then Some ''Fluidd''
      else map_option (presetName \<circ> snd) (List.find (\<lambda>x. printerIntName (snd x) = model p) (printerPreset s)))"

text \<open>\<open>u\<close>: the colour of a text on a colour.\<close>

definition hex_at :: "string \<Rightarrow> nat \<Rightarrow> int option" where
  "hex_at m i = parse_hex (take 2 (drop i m))"

definition card_text_color :: "string \<Rightarrow> string" where
  "card_text_color a =
     (if a = [] then ''#000''
      else let m = (case index_in ''#'' a of None \<Rightarrow> a | Some i \<Rightarrow> take i a @ drop (Suc i) a) in
           case (hex_at m 0, hex_at m 2, hex_at m 4) of
             (Some z, Some d, Some r) \<Rightarrow> if 299 * z + 587 * d + 114 * r > 186000 then ''#000000'' else ''#ffffff''
           | _ \<Rightarrow> ''#ffffff'')"

text \<open>\<open>h\<close>, \<open>b\<close> and \<open>_\<close>: the spool outside of the boxes, the name of a slot, and the boxes.  A holder
  without a first spool throws.\<close>

record ext_spool =
  ext_color :: json
  ext_class :: string
  ext_content :: string

definition card_ext :: "printer \<Rightarrow> ext_spool option" where
  "card_ext p =
     (let bs = materialBoxs (boxsInfo p) in
      if bs = [] then None
      else case filter (\<lambda>u. jget u ''type'' = JNum 1) bs of
             [] \<Rightarrow> Some \<lparr>ext_color = JStr [], ext_class = ''print-ext-unknown'', ext_content = []\<rparr>
           | x # _ \<Rightarrow>
               (case elements (jget x ''materials'') of
                  [] \<Rightarrow> None
                | m # _ \<Rightarrow>
                    if jget m ''color'' = JStr []
                    then Some \<lparr>ext_color = JStr [], ext_class = ''print-ext-unknown'', ext_content = ''?''\<rparr>
                    else Some \<lparr>ext_color = jget m ''color'', ext_class = ''print-ext'', ext_content = ''EXT''\<rparr>))"

definition card_slot :: "json \<Rightarrow> json \<Rightarrow> nat \<Rightarrow> string" where
  "card_slot a m z =
     (if truthy (jget m ''color'') then js_text a @ [char_of (if z < 26 then 65 + z else 97 + z)]
      else if jget m ''state'' = JNum 1 then ''?'' else ''/'')"

definition card_boxes :: "printer \<Rightarrow> json list" where
  "card_boxes p =
     (if boxColorInfo (boxsInfo p) = [] then []
      else filter (\<lambda>u. jget u ''type'' \<noteq> JNum 1) (materialBoxs (boxsInfo p)))"

definition card_file :: "printer \<Rightarrow> string" where
  "card_file p =
     (if status_of_card p = Some Offline \<or> status_of_card p = Some Idle then ''/''
      else if truthy (printFileName p) then js_text (printFileName p) else ''/'')"

definition card_busy :: "printer \<Rightarrow> bool" where
  "card_busy p = (status_of_card p \<noteq> Some Idle \<and> status_of_card p \<noteq> Some Offline)"

text \<open>The clicks of a card; each needs a name and an address, and Klipper's pages their port.\<close>

definition named_text :: "printer \<Rightarrow> bool" where
  "named_text p = (address p \<noteq> [] \<and> name p \<noteq> None \<and> name p \<noteq> Some [])"

definition card_clicked :: "printer \<Rightarrow> list_event list" where
  "card_clicked p = (if online p \<and> named_text p then [ViewDetial (name p) (address p)] else [])"

definition card_fluidd :: "page_params \<Rightarrow> nat \<Rightarrow> dashboard \<Rightarrow> list_event list \<times> dashboard" where
  "card_fluidd os n s =
     (let p = printers s n in if named_text p \<and> truthy (fluiddPort p) then open_fluidd os n s else ([], s))"

definition card_mainsail :: "page_params \<Rightarrow> nat \<Rightarrow> dashboard \<Rightarrow> list_event list \<times> dashboard" where
  "card_mainsail os n s =
     (let p = printers s n in if named_text p \<and> truthy (mainsailPort p) then open_mainsail os n s else ([], s))"

text \<open>The width of a card by that of the list around it.\<close>

definition card_width :: "nat \<Rightarrow> string option" where
  "card_width w =
     (if 700 < w \<and> w < 1260 then Some ''800px''
      else if 1260 \<le> w \<and> w < 1460 then Some ''600px''
      else if 1460 \<le> w \<and> w < 1660 then Some ''700px''
      else if 1660 \<le> w \<and> w < 1860 then Some ''800px''
      else if 1860 \<le> w then Some ''600px'' else None)"

section \<open>The menu of a card\<close>

record device_menu =
  cm_shown :: bool
  cm_cxy :: bool               \<comment> \<open>\<open>isCXYDevice\<close>\<close>
  cm_address :: string
  cm_from :: string            \<comment> \<open>the group of the list\<close>
  cm_groups :: "string list"

definition new_device_menu :: "bool \<Rightarrow> device_menu" where
  "new_device_menu c = \<lparr>cm_shown = False, cm_cxy = c, cm_address = [], cm_from = [], cm_groups = []\<rparr>"

definition showMenu :: "nat \<Rightarrow> string \<Rightarrow> dashboard \<Rightarrow> device_menu \<Rightarrow> device_menu" where
  "showMenu n g s m = m\<lparr>cm_groups := map group (printerList s), cm_from := g, cm_shown := True,
     cm_address := address (printers s n)\<rparr>"

definition hideMenu :: "device_menu \<Rightarrow> device_menu" where
  "hideMenu m = m\<lparr>cm_shown := False\<rparr>"

definition menu_groups :: "device_menu \<Rightarrow> string list" where
  "menu_groups m = filter (\<lambda>g. g \<noteq> [] \<and> g \<noteq> cm_from m) (cm_groups m)"

definition may_move :: "device_menu \<Rightarrow> bool" where
  "may_move m = (\<not> cm_cxy m \<and> menu_groups m \<noteq> [])"

text \<open>\<open>h\<close>: the item to remove the printer and the names of the groups share one argument.  The
  message about the removal is an object where the others are texts.\<close>

definition menu_handle :: "string \<Rightarrow> string \<Rightarrow> device_menu \<Rightarrow> cloud_api \<times> dashboard
    \<Rightarrow> list_event list \<times> cloud_api \<times> dashboard" where
  "menu_handle uuid y m b =
     (let (k, s) = b; a = cm_address m in
      if y = ''remove''
      then (let s1 = snd (removePrinter a False s) in
            if cm_cxy m then ([RemoveTab a], deleteDevice uuid (JStr a) k, s1)
            else ([ResetScanned a, RemoveTab a], k, post [(''command'', JStr ''remove_device''), (''address'', JStr a)] s1))
      else ([], k, post (move_message (cm_from m) y a) (moveToGroup (cm_from m) a y s)))"

section \<open>The list of cards\<close>

record card_list =
  cl_group :: string
  cl_by_model :: bool
  cl_state :: state_choice
  cl_menus :: "device_menu list"

text \<open>\<open>v\<close>: texts are compared, what is empty or missing comes last.\<close>

definition full_text :: "string option \<Rightarrow> string option" where
  "full_text x = (case x of Some t \<Rightarrow> if t = [] then None else Some t | None \<Rightarrow> None)"

definition list_cards :: "(string \<Rightarrow> 'k :: linorder) \<Rightarrow> string \<Rightarrow> dashboard \<Rightarrow> dashboard" where
  "list_cards key g s = sort_by_name key g s"

definition card_passes :: "state_choice \<Rightarrow> printer \<Rightarrow> bool" where
  "card_passes c p =
     (case c of AllStates \<Rightarrow> True
      | IdleStates \<Rightarrow> online p \<and> deviceState p = JNum 0
      | PrintingStates \<Rightarrow> online p \<and> deviceState p = JNum 1)"

definition shown_cards :: "(string \<Rightarrow> 'k :: linorder) \<Rightarrow> card_list \<Rightarrow> dashboard \<Rightarrow> nat list" where
  "shown_cards key f s =
     texts_first key (\<lambda>n. full_text (if cl_by_model f then text_of_model (printers s n) else name (printers s n)))
       (filter (\<lambda>n. card_passes (cl_state f) (printers s n)) (prinertList (cl_group f) s))"

definition open_card_menu :: "(string \<Rightarrow> 'k :: linorder) \<Rightarrow> nat \<Rightarrow> dashboard \<Rightarrow> card_list \<Rightarrow> card_list" where
  "open_card_menu key d s f =
     (let ns = shown_cards key f s in
      f\<lparr>cl_menus := map (\<lambda>(u, m). if u = d \<and> d < length ns then showMenu (ns ! d) (cl_group f) s m
                               else if u < length ns then hideMenu m else m)
           (enumerate 0 (cl_menus f))\<rparr>)"

text \<open>Whether the cards are shown, and whether the panel in their place.\<close>

definition cards_shown :: "nat list \<Rightarrow> sys \<Rightarrow> card_list \<Rightarrow> bool" where
  "cards_shown ns y f = (\<not> (cl_group f = [] \<and> (ns = [] \<or> isOffline y \<or> \<not> isTokenValid y)))"

definition empty_panel :: "nat list \<Rightarrow> sys \<Rightarrow> bool \<times> bool \<times> bool" where
  "empty_panel ns y = (isOffline y, ns = [] \<and> isTokenValid y \<and> \<not> isOffline y, \<not> isTokenValid y \<and> \<not> isOffline y)"

definition go_to_login :: "dashboard \<Rightarrow> dashboard" where
  "go_to_login s = post [(''command'', JStr ''switch_to_tab''), (''tabName'', JStr ''tpHome''), (''pageName'', JStr ''login'')] s"

end
