(* ===== verification/ListProps.thy ===== *)
theory ListProps
  imports DeviceList PrinterView AppProps
begin

text \<open>
  What holds of the lists of devices: rows and cards are the printers that match, in order;
  sorting by name keeps the store; the box over the rows chooses what is online; and what goes
  wrong with a group that is called like a command, with the filter of the account's printers
  and with matches that are confirmed.
\<close>

section \<open>Sorting\<close>

lemma texts_first_mset [simp]: "mset (texts_first key f xs) = mset xs"
proof -
  have "mset (filter P xs) + mset (filter (\<lambda>x. \<not> P x) xs) = mset xs" for P
    by (metis mset_filter multiset_partition)
  from this [of "\<lambda>x. f x \<noteq> None"] show ?thesis by (simp add: texts_first_def)
qed

lemma texts_first_set [simp]: "set (texts_first key f xs) = set xs"
  by (metis texts_first_mset set_mset_mset)

text \<open>In the order of the key, what has no text behind the rest, and like elements as they were.\<close>

definition ordered_by :: "(string \<Rightarrow> 'k :: linorder) \<Rightarrow> ('a \<Rightarrow> string option) \<Rightarrow> 'a list \<Rightarrow> bool" where
  "ordered_by key f xs \<longleftrightarrow>
     (\<exists>ys zs. xs = ys @ zs \<and> list_all (\<lambda>x. f x \<noteq> None) ys \<and> list_all (\<lambda>x. f x = None) zs
        \<and> sorted (map (\<lambda>x. key (the (f x))) ys))"

lemma texts_first_ordered: "ordered_by key f (texts_first key f xs)"
  unfolding ordered_by_def texts_first_def
  by (intro exI conjI) (rule refl, auto simp: list_all_iff)

text \<open>The cards of a group are exactly its printers that pass the filter, each once, in the
  order of their names or models, those without one last.\<close>

theorem cards_are_the_matching_printers:
  "mset (shown_cards key f s) = mset (filter (\<lambda>n. card_passes (cl_state f) (printers s n)) (prinertList (cl_group f) s))
   \<and> ordered_by key (\<lambda>n. full_text (if cl_by_model f then text_of_model (printers s n) else name (printers s n)))
       (shown_cards key f s)"
  by (simp add: shown_cards_def texts_first_ordered)

lemma index_where_lt: "index_where P xs = Some i \<Longrightarrow> i < length xs \<and> P (xs ! i)"
  by (induction xs arbitrary: i) (auto split: if_splits)

lemma find_at: "index_where P xs = Some i \<Longrightarrow> List.find P xs = Some (xs ! i)" "index_where P xs = None \<Longrightarrow> List.find P xs = None"
  by (induction xs arbitrary: i) (auto split: if_splits)

lemma prinertList_at:
  "index_where (\<lambda>x. group x = g) (printerList s) = Some i \<Longrightarrow> prinertList g s = members (printerList s ! i)"
  by (simp add: prinertList_def find_at(1))

text \<open>Sorting a group by name changes nothing but the order of its printers: the same printers
  are listed, as often as before, and those of the group come by name.\<close>

theorem sorting_by_name_keeps_the_printers:
  "mset (all_refs (sort_by_name key g s)) = mset (all_refs s)
   \<and> printers (sort_by_name key g s) = printers s
   \<and> mset (prinertList g (sort_by_name key g s)) = mset (prinertList g s)
   \<and> ordered_by key (\<lambda>n. full_text (name (printers s n))) (prinertList g (sort_by_name key g s))"
proof (cases "index_where (\<lambda>x. group x = g) (printerList s)")
  case None
  then have "List.find (\<lambda>x. group x = g) (printerList s) = None" by (rule find_at(2))
  with None show ?thesis by (simp add: sort_by_name_def prinertList_def ordered_by_def)
next
  case (Some i)
  let ?f = "texts_first key (\<lambda>n. full_text (name (printers s n)))"
  note i = index_where_lt [OF Some]
  have s: "sort_by_name key g s = set_members i ?f s"
    by (simp add: sort_by_name_def Some full_text_def [abs_def])
  have find: "index_where (\<lambda>x. group x = g) (printerList (set_members i ?f s)) = Some i"
  proof -
    have "index_where (\<lambda>x. group x = g) xs = index_where ((=) g) (map group xs)" for xs
      by (induction xs) auto
    moreover have "map group (printerList (set_members i ?f s)) = map group (printerList s)"
      by (rule nth_equalityI) simp_all
    ultimately show ?thesis using Some by metis
  qed
  show ?thesis
    using i by (simp add: s all_refs_set_members all_refs_split [of i s] prinertList_at [OF find] prinertList_at [OF Some]
        texts_first_ordered)
qed

section \<open>Choosing\<close>

lemma fold_choose_other: "m \<notin> set ns \<Longrightarrow> printers (fold (\<lambda>n. choose_row n (g n)) ns s) m = printers s m"
  by (induction ns arbitrary: s) (auto simp: choose_row_def upd_def)

lemma fold_choose: "m \<in> set ns \<Longrightarrow> printers (fold (\<lambda>n. choose_row n (g n)) ns s) m = (printers s m)\<lparr>selected := g m\<rparr>"
proof (induction ns arbitrary: s)
  case (Cons n ns)
  show ?case
  proof (cases "m \<in> set ns")
    case True
    then show ?thesis using Cons.IH [of "choose_row n (g n) s"] by (auto simp: choose_row_def upd_def)
  next
    case False
    with Cons.prems have "m = n" by simp
    with False show ?thesis by (simp add: fold_choose_other) (simp add: choose_row_def upd_def)
  qed
qed simp

text \<open>The box over the rows chooses exactly the printers that are online, among them those
  whose own box is not there: printers that print, and those of the account.\<close>

theorem the_box_over_the_rows_chooses_who_is_online:
  assumes "n \<in> set (table_rows key f s)"
  shows "selected (printers (choose_all_rows key True f s) n) = online (printers s n)"
  using assms fold_choose [of n "table_rows key f s" "\<lambda>n. online (printers s n) \<and> True" s]
  by (simp add: choose_all_rows_def)

definition busy_board :: dashboard where
  "busy_board = upd 1 (\<lambda>p. p\<lparr>state := JNum 1\<rparr>) demo_board"

definition table_h :: device_list where
  "table_h = new_device_list ''h''"

theorem the_box_over_the_rows_chooses_who_is_online_witness:
  "selected (printers (choose_all_rows (\<lambda>_. 0 :: nat) True table_h busy_board) 1)
   \<and> \<not> row_choosable True (printers busy_board 1)"
proof -
  have "visable (demo_printer a)" for a
    by (simp add: demo_printer_def initial_printer_def demo_device_def ownProperty_def)
  then have "1 \<in> set (table_rows (\<lambda>_. 0 :: nat) table_h busy_board)"
    by (simp add: table_rows_def table_h_def new_device_list_def busy_board_def prinertList_def)
  from the_box_over_the_rows_chooses_who_is_online [OF this]
  show ?thesis by (simp add: row_choosable_def busy_board_def)
qed

section \<open>A group called remove\<close>

lemma exists_post [simp]: "isPrinterExist t (post ps s) = isPrinterExist t s"
  by (simp add: isPrinterExist_def all_refs_def post_def emit_call_def)

text \<open>The menu of a card passes the name of the chosen group where it passes the command to
  remove: a printer that is moved to a group called \<open>remove\<close> is removed from the lists, and the
  window is told to forget it.\<close>

theorem moving_to_a_group_called_remove_removes:
  assumes "''remove'' \<in> set (menu_groups m)" and "distinct_addresses s" and "distinct (all_refs s)"
    and "menu_handle uuid ''remove'' m (k, s) = (es, k', s')"
  shows "\<not> isPrinterExist (cm_address m) s' \<and> RemoveTab (cm_address m) \<in> set es"
proof -
  have "\<not> isPrinterExist (cm_address m) (snd (removePrinter (cm_address m) False s))"
    using removed_printer_is_gone [OF assms(2,3) surjective_pairing [symmetric], of "cm_address m"] by simp
  then show ?thesis
    using assms(4) by (auto simp: menu_handle_def Let_def split: if_splits)
qed

definition remove_board :: dashboard where
  "remove_board = setGroupName ''g'' ''remove'' demo_board"

lemma remove_board_fields [simp]:
  "map group (printerList remove_board) = [''remove'', ''h'']" "all_refs remove_board = [0, 1, 2]"
  "printers remove_board = printers demo_board"
  by (simp_all add: remove_board_def setGroupName_def all_refs_def)

definition card_menu :: device_menu where
  "card_menu = showMenu 1 ''h'' remove_board (new_device_menu False)"

theorem moving_to_a_group_called_remove_removes_witness:
  "\<not> isPrinterExist ''b'' (snd (snd (menu_handle [] ''remove'' card_menu (initial_api, remove_board))))"
proof -
  have m: "''remove'' \<in> set (menu_groups card_menu)" "cm_address card_menu = ''b''"
    by (simp_all add: menu_groups_def card_menu_def showMenu_def)
  have d: "distinct_addresses remove_board" "distinct (all_refs remove_board)"
    by (simp_all add: distinct_addresses_def)
  show ?thesis
    using moving_to_a_group_called_remove_removes [OF m(1) d, of "[]" initial_api] m(2) by (metis prod.collapse)
qed

section \<open>The filter of the account's printers\<close>

text \<open>Choosing a state over the list of the account's printers looks for a group with the name
  of its label.  As long as no group is called so, no printer is hidden or shown.\<close>

theorem the_accounts_printers_are_not_filtered:
  assumes "dl_group f = []" and "tr ''Creality Cloud binds devices'' \<notin> set (map group (printerList s))"
    and "tr ''Creality Cloud binds devices'' \<noteq> ''*''"
  shows "printers (snd (choose_state tr c (f, s))) n = printers s n"
proof -
  have none: "filter (\<lambda>g. group g = t \<or> t = ''*'') (map (\<lambda>g. if group g = t \<or> t = ''*'' then h g else g) xs) = []"
    if "t \<notin> set (map group xs)" "t \<noteq> ''*''" for t h and xs :: "printer_group list"
    using that by (induction xs) auto
  show ?thesis
    using assms none [OF assms(2,3)] by (simp add: choose_state_def state_filter_def setFilter_def Let_def)
qed

theorem the_accounts_printers_are_not_filtered_witness:
  "visable (printers (snd (choose_state id IdleStates (new_device_list [], demo_board))) 0) = visable (printers demo_board 0)"
  using the_accounts_printers_are_not_filtered [of "new_device_list []" id demo_board IdleStates 0]
  by (simp add: new_device_list_def)

section \<open>Confirmed matches\<close>

lemma active_plate_kept [simp]: "getActivePlateData (setPlatePrinterColorMatchInfo i t ms d) = getActivePlateData d"
  by (simp add: getActivePlateData_def getPlateDatas_def setPlatePrinterColorMatchInfo_def)

lemma stored_matches:
  "jm_wf (platePrinterColorMatchData d) \<Longrightarrow>
   getPlatePrinterColorMatchInfo i t (setPlatePrinterColorMatchInfo i t ms d) = Some ms"
  by (simp add: getPlatePrinterColorMatchInfo_def setPlatePrinterColorMatchInfo_def jm.get_put)

text \<open>Confirming the matches, even unchanged ones, forgets the types of their filaments: when
  the dialog is shown for the plate and the printer again, every row is grey, and none can be
  changed any more.\<close>

theorem confirmed_matches_are_locked:
  assumes "link_confirm d f = Some (d', f')" and "getActivePlateData d = Some p"
    and "getPrinter (ld_address f) s = Some n" and "jm_wf (platePrinterColorMatchData d)"
  shows "ld_open (showFilament (ld_address f) s d' f')
    \<and> list_all (\<lambda>r. lk_rect r = ''#ccc'' \<and> row_label r = ''/'') (ld_rows (showFilament (ld_address f) s d' f'))
    \<and> link_choose i x (showFilament (ld_address f) s d' f') = showFilament (ld_address f) s d' f'"
proof -
  let ?ms = "map (\<lambda>(c, r). \<lparr>pm_extruder = c, pm_matchColor = lk_rect r, pm_materialId = lk_material r,
                 pm_filamentType = JUndefined\<rparr>) (zip (extruderIndexs p) (ld_rows f))"
  let ?f = "showFilament (ld_address f) s d' f'"
  have d': "d' = setPlatePrinterColorMatchInfo (plate_index p) (ld_address f) ?ms d"
    using assms(1,2) by (simp add: link_confirm_def split: if_splits)
  have rows: "ld_rows ?f = map (link_row_of d') ?ms" "ld_open ?f"
    using assms(2-4) by (simp_all add: showFilament_def d' stored_matches Let_def)
  have r: "lk_rect r = ''#ccc'' \<and> lk_match r = JUndefined" if "r \<in> set (ld_rows ?f)" for r
    using that unfolding rows by (auto simp: link_row_of_def)
  have "\<not> (i < length (ld_rows ?f) \<and> truthy (lk_match (ld_rows ?f ! i)))"
    using r [OF nth_mem, of i] by auto
  then have "link_choose i x ?f = ?f" unfolding link_choose_def by (rule if_not_P)
  with rows(2) r show ?thesis by (simp add: list_all_iff row_label_def)
qed

definition linked_plates :: plate_store where
  "linked_plates = setPlatePrinterColorMatchInfo 0 ''b'' [\<lparr>pm_extruder = 1, pm_matchColor = ''#ff0000'', pm_materialId = JNum 0,
       pm_filamentType = JStr ''PLA''\<rparr>]
     (addPlateData \<lparr>plate_index = 0, extruderIndexs = [1], active = True, uploadGCodeName = JStr ''f.gcode'', sendGCodeOnly = JBool False\<rparr>
       \<lparr>allExtruderColors = [''#ff0000''], allFilamentTypes = [JStr ''PLA''], hasPlate = True, plateData = [],
         platePrinterColorMatchData = []\<rparr>)"

definition linked_dialog :: link_dialog where
  "linked_dialog = showFilament ''b'' demo_board linked_plates new_link_dialog"

theorem confirmed_matches_are_locked_witness:
  "\<exists>d' f'. link_confirm linked_plates linked_dialog = Some (d', f')
     \<and> map lk_rect (ld_rows linked_dialog) = [''#ff0000'']
     \<and> list_all (\<lambda>r. lk_rect r = ''#ccc'') (ld_rows (showFilament ''b'' demo_board d' f'))"
proof -
  have g: "getPrinter ''b'' demo_board = Some (Suc 0)"
    by (simp add: getPrinter_find_ref find_ref_def has_address_def)
  obtain p where p: "getActivePlateData linked_plates = Some p" "plate_index p = 0" "extruderIndexs p = [1]"
    by (simp add: linked_plates_def addPlateData_def getActivePlateData_def getPlateDatas_def setPlatePrinterColorMatchInfo_def)
  have m: "getPlatePrinterColorMatchInfo 0 ''b'' linked_plates = Some [\<lparr>pm_extruder = 1, pm_matchColor = ''#ff0000'', pm_materialId = JNum 0,
       pm_filamentType = JStr ''PLA''\<rparr>]" "jm_wf (platePrinterColorMatchData linked_plates)"
    by (simp_all add: linked_plates_def stored_matches addPlateData_def)
       (simp add: setPlatePrinterColorMatchInfo_def jm.ok_put)
  have f: "ld_address linked_dialog = ''b''" "map lk_rect (ld_rows linked_dialog) = [''#ff0000'']" "length (ld_rows linked_dialog) = 1"
    by (simp_all add: linked_dialog_def showFilament_def g p m Let_def link_row_of_def)
  obtain d' f' where c: "link_confirm linked_plates linked_dialog = Some (d', f')"
    by (simp add: link_confirm_def p f)
  from confirmed_matches_are_locked [OF c p(1) _ m(2), of demo_board "Suc 0"] f g c
  show ?thesis by (auto simp: list_all_iff)
qed

section \<open>Tabs of printers that are gone\<close>

text \<open>Removing a printer of the account from the table leaves its tab: unlike the menu of a card
  it does not say that the tab is to go, and when the tab is chosen again no page is shown.\<close>

theorem removed_account_printers_keep_their_tabs:
  assumes "deviceType (printers s n) = 1" and "address (printers s n) = a" and "distinct_addresses s" and "distinct (all_refs s)"
    and "onMenuItemClick uuid 1 n f (k, s) = (es, k', s')" and "a \<noteq> ''deviceList''"
  shows "es = [] \<and> \<not> detail_visable (show_page a (y\<lparr>board := s'\<rparr>))"
proof -
  have e: "es = []" "s' = snd (removePrinter a False s)"
    using assms(1,2,5) by (auto simp: remove_row_device_def Let_def)
  have "\<not> isPrinterExist a s'"
    unfolding e(2) using removed_printer_is_gone [OF assms(3,4) surjective_pairing [symmetric], of a] by simp
  then have "getPrinter a s' = None"
    by (auto simp: isPrinterExist_def getPrinter_find_ref find_ref_None has_address_def list_ex_iff)
  with e(1) assms(6) show ?thesis
    by (simp add: show_page_def shown_as_def viewDeviceList_def Let_def)
qed

definition cloud_b :: dashboard where
  "cloud_b = upd 1 (\<lambda>p. p\<lparr>deviceType := 1\<rparr>) demo_board"

theorem removed_account_printers_keep_their_tabs_witness:
  "\<not> detail_visable (show_page ''b'' (demo_shell\<lparr>board := snd (snd (onMenuItemClick [] 1 1 table_h (initial_api, cloud_b)))\<rparr>))"
proof -
  have c: "deviceType (printers cloud_b 1) = 1" "address (printers cloud_b 1) = ''b''" "all_refs cloud_b = [0, 1, 2]"
    "distinct_addresses cloud_b"
    by (simp_all add: cloud_b_def distinct_addresses_def all_refs_def upd_def)
  show ?thesis
    using removed_account_printers_keep_their_tabs [OF c(1,2,4), of "[]" table_h initial_api
        "fst (onMenuItemClick [] 1 1 table_h (initial_api, cloud_b))" "fst (snd (onMenuItemClick [] 1 1 table_h (initial_api, cloud_b)))"
        "snd (snd (onMenuItemClick [] 1 1 table_h (initial_api, cloud_b)))" demo_shell] c(3)
    by simp
qed

section \<open>Addresses on a card\<close>

definition number_text :: "string \<Rightarrow> bool" where
  "number_text d = (list_all is_digit d \<and> 1 \<le> length d \<and> length d \<le> 3)"

lemma some_digits_number:
  assumes "number_text d" and "r = [] \<or> \<not> is_digit (hd r)"
  shows "some_digits (d @ r) = Some (d, r)"
proof -
  have "takeWhile is_digit (take 3 (d @ r)) = d"
    using assms by (cases r) (auto simp: number_text_def list_all_iff takeWhile_append take_Cons' )
  moreover have "d \<noteq> []" using assms(1) by (auto simp: number_text_def)
  ultimately show ?thesis by (simp add: some_digits_def Let_def)
qed

text \<open>A card shows the address of a printer in the network as it is: four numbers of one to
  three digits between dots are found in it, whatever follows.\<close>

theorem card_shows_the_address:
  assumes "number_text a" and "number_text b" and "number_text c" and "number_text d" and "r = [] \<or> \<not> is_digit (hd r)"
    and "address p = a @ ''.'' @ b @ ''.'' @ c @ ''.'' @ d @ r"
  shows "card_address False p = Some (a @ ''.'' @ b @ ''.'' @ c @ ''.'' @ d)"
proof -
  have dot: "\<not> is_digit CHR ''.''" by (simp add: is_digit_def)
  have "dotted 3 (address p) = Some (a @ ''.'' @ b @ ''.'' @ c @ ''.'' @ d)"
    using assms dot some_digits_number
    by (simp add: numeral_3_eq_3 some_digits_number [of _ "CHR ''.'' # _"])
  moreover obtain x xs where "address p = x # xs"
    using assms(1,6) by (cases a) (auto simp: number_text_def)
  ultimately show ?thesis by (simp add: card_address_def)
qed

theorem card_shows_the_address_witness:
  "card_address False ((demo_printer ''x'')\<lparr>address := ''10.0.0.12(K1)''\<rparr>) = Some ''10.0.0.12''"
  using card_shows_the_address [of "''10''" "''0''" "''0''" "''12''" "''(K1)''" "(demo_printer ''x'')\<lparr>address := ''10.0.0.12(K1)''\<rparr>"]
  by (simp add: number_text_def is_digit_def)

end
