(* ===== verification/InfoPages.thy ===== *)
theory InfoPages
  imports FilePage ErrorTip PrinterProps
begin

text \<open>
  The panels of a print and of the temperatures (components \<open>DeviceInfo\<close> and
  \<open>DeviceTemperature\<close> of \<open>CeX73yR3.js\<close>): the texts of states and of feeding, the picture of the
  file, pausing, continuing and stopping, the print time that is asked of the cloud, the
  targets a user sets, and the chart.  The chart's first points, which are replaced at once,
  and the animation of the progress are not modelled.  Whether a printer has a heated chamber
  (\<open>machine_ptc_exist\<close>, which printers do not keep here) is an argument.
\<close>

section \<open>Texts\<close>

text \<open>The table \<open>Mm\<close> of states, by the text of the state.\<close>

definition Mm :: "(string \<times> string) list" where
  "Mm = [([], []), (''-1'', []), (''10000'', []), (''0'', ''Idle''), (''1'', ''Printing''), (''2'', ''Printing Complete''),
     (''3'', ''Printing Failed''), (''4'', ''Print Abort''), (''5'', ''Printing Paused''), (''6'', ''Printing Pausing''),
     (''7'', ''Printing Stopping''), (''8'', ''Printing Restoring''), (''9'', ''Printing''), (''10'', []),
     (''101'', ''Executing print termination command''), (''102'', ''Executing pause command''),
     (''103'', ''Executing the command to continue printing'')]"

definition state_text :: "json \<Rightarrow> string option" where
  "state_text v = map_of Mm (js_text v)"

text \<open>The table \<open>jte\<close> of what a printer does while it feeds or retracts.  The sign for degrees
  Celsius in the text of 101, which is no character here, is written as the letter.\<close>

definition jte :: "(nat \<times> string) list" where
  "jte = [(0, ''Select a slot and click the 'Feed'/'Retract' button''),
     (1, ''Temperature will heat up to 240'' @ [CHR 0xB0] @ ''C before feed''), (2, ''Extruding''), (3, ''Finish''),
     (11, ''Temperature will heat up to 240'' @ [CHR 0xB0] @ ''C before retreat''), (12, ''Retract Prepare''),
     (13, ''Retracting''), (14, ''Retract Finish''),
     (101, ''Feed nozzle heating (220C) 220C is an example, the actual operating temperature is based on the maximum temperature of the consumables''),
     (102, ''Feeding inspection line position''), (103, ''Feeding and cutting line''),
     (104, ''Feed back to the current material line''), (105, ''Feeding and delivering new material line''),
     (106, ''Feeding and biting line''), (107, ''Feed flushing old material line''), (111, ''Check the feed line position''),
     (112, ''Cutting line''), (113, ''Retract the current material line''), (114, ''Flushing old material line''),
     (150, ''Feed nozzle heating''), (151, ''Check the feed line position''), (152, ''Feed material to the extruder''),
     (153, ''Feed flushing old material line''), (160, ''Retract nozzle heating''), (161, ''Check the feed line position''),
     (162, ''Cutting line''), (163, ''Retract the current material line'')]"

section \<open>The panel of the print\<close>

record info_page =
  in_address :: string
  in_printer :: nat
  in_pausing :: bool         \<comment> \<open>\<open>o\<close>: also set while a print is stopped\<close>
  in_stopping :: bool        \<comment> \<open>\<open>l\<close>\<close>
  in_resuming :: bool        \<comment> \<open>\<open>s\<close>\<close>
  in_state :: "string option"
  in_img :: json
  in_time :: string
  in_here :: bool            \<comment> \<open>the panel is there\<close>
  in_first :: nat            \<comment> \<open>requests for the time whose answer starts the interval\<close>
  in_intervals :: "nat list" \<comment> \<open>the intervals that run\<close>
  in_interval :: "nat option" \<comment> \<open>\<open>c\<close>\<close>
  in_next :: nat
  in_asked :: nat            \<comment> \<open>requests of the intervals\<close>
  in_questions :: nat        \<comment> \<open>open questions whether to stop\<close>

text \<open>The picture of the printed file: \<open>None\<close> is that of the printer, also when something throws
  on the way.\<close>

fun find_preview :: "string \<Rightarrow> json \<Rightarrow> json list \<Rightarrow> string option" where
  "find_preview x y [] = None"
| "find_preview x y (e # es) =
     (if jget e ''custom_types'' = JNum 3
      then (case jget e ''file'' of
              JArr fs \<Rightarrow>
                (case List.find (\<lambda>f. jget f ''path'' = y) fs of
                   Some f \<Rightarrow>
                     (case jget f ''thumbnail'' of
                        JStr t \<Rightarrow> Some (x @ encodeURIComponent (js_text (jget e ''name'')) @ ''/''
                                        @ encodeURIComponent (after_last CHR ''/'' t))
                      | _ \<Rightarrow> None)
                 | None \<Rightarrow> find_preview x y es)
            | _ \<Rightarrow> None)
      else if jget e ''path'' = y
      then (case jget e ''thumbnail'' of JStr t \<Rightarrow> Some (x @ encodeURIComponent (after_last CHR ''/'' t)) | _ \<Rightarrow> None)
      else find_preview x y es)"

text \<open>The other format: fields between colons, six for each file.\<close>

function old_preview :: "string \<Rightarrow> string \<Rightarrow> json \<Rightarrow> string list \<Rightarrow> string option" where
  "old_preview x p y ks =
     (case ks of
        [] \<Rightarrow> None
      | k # _ \<Rightarrow>
          if JStr (p @ k) = y
          then (if 5 < length ks then Some (x @ encodeURIComponent (after_last CHR ''/'' (hd (js_split '';'' (ks ! 5))))) else None)
          else old_preview x p y (drop 6 ks))"
  by pat_completeness auto
termination
  by (relation "measure (\<lambda>(x, p, y, ks). length ks)") auto

declare old_preview.simps [simp del]

definition preview_image :: "printer \<Rightarrow> json" where
  "preview_image p =
     (if deviceType p = 1
      then (if truthy (previewimg p) then previewimg p else JStr ''./img/default.png'')
      else
        let x = ''http://'' @ address p @ ''/downloads/humbnail/''; two = jget (JObj (data p)) ''retGcodeFileInfo2'';
            one = jget (JObj (data p)) ''retGcodeFileInfo'';
            found = (if truthy two then find_preview x (filePath p) (elements two)
                     else if truthy one \<and> truthy (jget one ''fileInfo'')
                     then (case jget one ''fileInfo'' of
                             JStr t \<Rightarrow> (let ks = js_split '':'' t in old_preview x (hd ks @ ''/'') (filePath p) (tl ks))
                           | _ \<Rightarrow> None)
                     else None)
        in case found of None \<Rightarrow> previewimg p | Some t \<Rightarrow> JStr t)"

definition opened_info :: "string \<Rightarrow> nat \<Rightarrow> dashboard \<Rightarrow> info_page" where
  "opened_info t n s =
     \<lparr>in_address = t, in_printer = n, in_pausing = False, in_stopping = False, in_resuming = False,
      in_state = state_text (state (printers s n)), in_img = preview_image (printers s n), in_time = ''--'', in_here = True,
      in_first = (if deviceType (printers s n) = 1 then 1 else 0), in_intervals = [], in_interval = None, in_next = 0,
      in_asked = 0, in_questions = 0\<rparr>"

text \<open>The two watchers.\<close>

definition info_state_changed :: "info_page \<Rightarrow> info_page" where
  "info_state_changed f = f\<lparr>in_pausing := False, in_resuming := False, in_stopping := False\<rparr>"

definition info_file_changed :: "dashboard \<Rightarrow> info_page \<Rightarrow> info_page" where
  "info_file_changed s f = f\<lparr>in_img := preview_image (printers s (in_printer f))\<rparr>"

text \<open>The print time: the first answer starts an interval, whether the panel is still there or not.
  An answer without the time throws.\<close>

definition print_time :: "json \<Rightarrow> string option" where
  "print_time v =
     (case jget (jget v ''result'') ''printJobTime'' of
        JArr (x # _) \<Rightarrow> Some (Tl (map_option of_int (parse_int (jget x ''value''))))
      | _ \<Rightarrow> None)"

definition first_time :: "json \<Rightarrow> info_page \<Rightarrow> info_page" where
  "first_time v f =
     (if in_first f = 0 then f
      else let f1 = f\<lparr>in_first := in_first f - 1\<rparr> in
           (case print_time v of
              None \<Rightarrow> f1
            | Some t \<Rightarrow> f1\<lparr>in_time := t, in_intervals := in_next f1 # in_intervals f1, in_interval := Some (in_next f1),
                           in_next := Suc (in_next f1)\<rparr>))"

definition time_tick :: "nat \<Rightarrow> info_page \<Rightarrow> info_page" where
  "time_tick k f = (if k \<in> set (in_intervals f) then f\<lparr>in_asked := Suc (in_asked f)\<rparr> else f)"

definition later_time :: "json \<Rightarrow> info_page \<Rightarrow> info_page" where
  "later_time v f =
     (if in_asked f = 0 then f
      else let f1 = f\<lparr>in_asked := in_asked f - 1\<rparr> in
           (case print_time v of None \<Rightarrow> f1 | Some t \<Rightarrow> f1\<lparr>in_time := t\<rparr>))"

definition info_unmounted :: "info_page \<Rightarrow> info_page" where
  "info_unmounted f =
     (let f1 = f\<lparr>in_here := False\<rparr> in
      case in_interval f of
        None \<Rightarrow> f1
      | Some k \<Rightarrow> f1\<lparr>in_intervals := removeAll k (in_intervals f), in_interval := None\<rparr>)"

text \<open>Pausing, continuing and stopping.\<close>

definition info_pause :: "info_page \<Rightarrow> dashboard \<Rightarrow> info_page \<times> dashboard" where
  "info_pause f s =
     (let p = printers s (in_printer f); f1 = f\<lparr>in_pausing := True\<rparr>; t = in_address f in
      if deviceType p = 1 then (f1, cloud_set (tbId p) [(''pause'', JNum 1)] s)
      else (f1\<lparr>in_state := state_text (JNum 102)\<rparr>, if oldPrinter p then pause_LAN t s else or_same (Pause t) s))"

definition info_continue :: "info_page \<Rightarrow> dashboard \<Rightarrow> info_page \<times> dashboard" where
  "info_continue f s =
     (let p = printers s (in_printer f); f1 = f\<lparr>in_resuming := True\<rparr>; t = in_address f in
      if deviceType p = 1 then (f1, V4 (tbId p) s)
      else (f1\<lparr>in_state := state_text (JNum 103)\<rparr>, if oldPrinter p then Continue_LAN t s else or_same (Continue t) s))"

definition info_stop :: "info_page \<Rightarrow> info_page" where
  "info_stop f = f\<lparr>in_questions := Suc (in_questions f)\<rparr>"

definition stop_answered :: "bool \<Rightarrow> info_page \<Rightarrow> dashboard \<Rightarrow> info_page \<times> dashboard" where
  "stop_answered yes f s =
     (let p = printers s (in_printer f); t = in_address f; f1 = f\<lparr>in_questions := in_questions f - 1\<rparr> in
      if in_questions f = 0 then (f, s)
      else if \<not> yes then (f1\<lparr>in_pausing := False\<rparr>, s)
      else let f2 = f1\<lparr>in_pausing := True\<rparr> in
           if deviceType p = 1 then (f2, cloud_set (tbId p) [(''stop'', JNum 1)] s)
           else (f2\<lparr>in_state := state_text (JNum 101)\<rparr>, if oldPrinter p then Stop_LAN t s else or_same (Stop t) s))"

text \<open>Which buttons can be pressed.\<close>

datatype info_button = PauseButton | ContinueButton | StopButton

definition power_loss_shown :: "printer \<Rightarrow> bool" where
  "power_loss_shown p =
     (err_key (err p) = JNum 2839
      \<and> (truthy (IsMultiColorDevice p) \<longrightarrow> \<not> (truthy (err_value (err p)) \<and> err_value (err p) \<noteq> JStr [])))"

definition info_buttons :: "info_page \<Rightarrow> printer \<Rightarrow> info_button list" where
  "info_buttons f p =
     (if (eq_num (err_key (err p)) 0 \<or> eq_num (err_key (err p)) 30000 \<or> power_loss_shown p)
         \<and> (state p = JNum 1 \<or> state p = JNum 5)
         \<and> \<not> (state p = JNum 1 \<and> mcu_is_print p = JNum 1 \<and> oldPrinter p)
      then (if state p = JNum 1 \<and> \<not> in_resuming f \<and> \<not> in_pausing f then [PauseButton] else [])
         @ (if state p = JNum 5 \<and> \<not> in_pausing f \<and> \<not> in_stopping f then [ContinueButton] else [])
         @ (if \<not> in_pausing f \<and> \<not> in_resuming f then [StopButton] else [])
      else [])"

section \<open>The panel of the temperatures\<close>

record temp_row =
  tr_temperature :: json
  tr_target :: json
  tr_max :: json
  tr_show :: json

record temp_page =
  tp_address :: string
  tp_printer :: nat
  tp_nozzle :: temp_row
  tp_bed :: temp_row
  tp_chamber :: temp_row
  tp_chart :: "(string list \<times> json list \<times> json list \<times> json list) option"
  tp_runs :: bool           \<comment> \<open>the interval that draws\<close>

definition empty_row :: "bool \<Rightarrow> temp_row" where
  "empty_row b = \<lparr>tr_temperature = JStr ''/'', tr_target = JNum 0, tr_max = JNum 0, tr_show = JBool b\<rparr>"

definition new_temp_page :: "string \<Rightarrow> nat \<Rightarrow> temp_page" where
  "new_temp_page t n = \<lparr>tp_address = t, tp_printer = n, tp_nozzle = empty_row True, tp_bed = empty_row True,
     tp_chamber = empty_row False, tp_chart = None, tp_runs = False\<rparr>"

definition row_from :: "temp_series \<Rightarrow> temp_row \<Rightarrow> temp_row" where
  "row_from t r = r\<lparr>tr_temperature := temp_value t, tr_target := temp_target t, tr_max := temp_max t\<rparr>"

text \<open>\<open>a\<close>, also done whenever one of the temperatures changes: the targets are the printer's again,
  whatever was typed.\<close>

definition show_temps :: "json \<Rightarrow> dashboard \<Rightarrow> temp_page \<Rightarrow> temp_page" where
  "show_temps ptc s f =
     (let p = printers s (tp_printer f); t = temperature p in
      f\<lparr>tp_nozzle := row_from (nozzle t) (tp_nozzle f), tp_bed := row_from (bed t) (tp_bed f),
        tp_chamber := \<lparr>tr_temperature = temp_value (box t), tr_target = jget (JObj (data p)) ''targetBoxTemp'',
                        tr_max = jget (JObj (data p)) ''maxBoxTemp'', tr_show = ptc\<rparr>\<rparr>)"

definition draw_temps :: "dashboard \<Rightarrow> temp_page \<Rightarrow> temp_page" where
  "draw_temps s f =
     (let t = temperature (printers s (tp_printer f)); shown = (\<lambda>r d. if tr_show r = JBool False then [] else temp_data d) in
      case tp_chart f of
        None \<Rightarrow> f
      | Some _ \<Rightarrow> f\<lparr>tp_chart := Some (time t, shown (tp_nozzle f) (nozzle t), shown (tp_bed f) (bed t), shown (tp_chamber f) (box t))\<rparr>)"

definition temps_mounted :: "json \<Rightarrow> temp_page \<times> dashboard \<Rightarrow> temp_page \<times> dashboard" where
  "temps_mounted ptc b =
     (let (f, s0) = b; n = tp_printer f;
          s = upd n (\<lambda>p. p\<lparr>temperature := (temperature p)\<lparr>record_temps := True\<rparr>\<rparr>) s0; f1 = show_temps ptc s f
      in (if deviceType (printers s n) = 0 then (draw_temps s (f1\<lparr>tp_chart := Some ([], [], [], [])\<rparr>))\<lparr>tp_runs := True\<rparr> else f1, s))"

definition temps_tick :: "dashboard \<Rightarrow> temp_page \<Rightarrow> temp_page" where
  "temps_tick s f = (if tp_runs f then draw_temps s f else f)"

definition temps_unmounted :: "temp_page \<Rightarrow> temp_page" where
  "temps_unmounted f = f\<lparr>tp_runs := False\<rparr>"

datatype temp_kind = Nozzle | HotBed | Chamber

definition temp_row_of :: "temp_kind \<Rightarrow> temp_page \<Rightarrow> temp_row" where
  "temp_row_of k f = (case k of Nozzle \<Rightarrow> tp_nozzle f | HotBed \<Rightarrow> tp_bed f | Chamber \<Rightarrow> tp_chamber f)"

definition type_target :: "temp_kind \<Rightarrow> json \<Rightarrow> temp_page \<Rightarrow> temp_page" where
  "type_target k v f =
     (case k of
        Nozzle \<Rightarrow> f\<lparr>tp_nozzle := (tp_nozzle f)\<lparr>tr_target := v\<rparr>\<rparr>
      | HotBed \<Rightarrow> f\<lparr>tp_bed := (tp_bed f)\<lparr>tr_target := v\<rparr>\<rparr>
      | Chamber \<Rightarrow> f\<lparr>tp_chamber := (tp_chamber f)\<lparr>tr_target := v\<rparr>\<rparr>)"

definition float_of :: "json \<Rightarrow> rat option" where
  "float_of v = (case v of JNum q \<Rightarrow> Some q | JStr t \<Rightarrow> parse_float t | _ \<Rightarrow> None)"

text \<open>Leaving the field sends the target; a field that is empty is \<open>NaN\<close>, on the wire \<open>null\<close>.
  \<open>None\<close> is the \<open>TypeError\<close> of a printer without a socket.\<close>

definition leave_target :: "temp_kind \<Rightarrow> temp_page \<Rightarrow> dashboard \<Rightarrow> dashboard option" where
  "leave_target k f s =
     (let t = tp_address f; x = float_of (tr_target (temp_row_of k f)); v = json_number x in
      if oldPrinter (printers s (tp_printer f))
      then (case k of
              Nozzle \<Rightarrow> Some (execute t [(''nozzleTemp2'', show_num x)] s)
            | HotBed \<Rightarrow> Some (execute t [(''bedTemp2'', show_num x)] s)
            | Chamber \<Rightarrow> Some s)
      else (case k of
              Nozzle \<Rightarrow> SetTargetNozzleTemp t v s
            | HotBed \<Rightarrow> SetTargetBedTempTemp t (JNum 0) v s
            | Chamber \<Rightarrow> SetTargetboxTemp t v s))"


text \<open>
  What holds of the panels of the print and of the temperatures: the picture of the printed
  file is found whenever it is listed; what locks the buttons; an interval that outlives its
  panel; and targets that are not sent.
\<close>

section \<open>The picture\<close>

text \<open>A file, or a container of files, with the names of its pictures.\<close>

definition listed_file :: "json \<Rightarrow> bool" where
  "listed_file e =
     (if jget e ''custom_types'' = JNum 3
      then (\<exists>fs. jget e ''file'' = JArr fs \<and> list_all (\<lambda>f. \<exists>t. jget f ''thumbnail'' = JStr t) fs)
      else \<exists>t. jget e ''thumbnail'' = JStr t)"

definition has_path :: "json \<Rightarrow> json \<Rightarrow> bool" where
  "has_path y e = (if jget e ''custom_types'' = JNum 3 then list_ex (\<lambda>f. jget f ''path'' = y) (elements (jget e ''file''))
     else jget e ''path'' = y)"

text \<open>The picture of the printed file is found exactly when the printer lists the file, by
  itself or within a container, and it lies in the printer's folder of pictures.\<close>

theorem the_printed_file_has_its_picture:
  assumes "list_all listed_file es"
  shows "(find_preview x y es \<noteq> None) = list_ex (has_path y) es
    \<and> (case find_preview x y es of None \<Rightarrow> True | Some t \<Rightarrow> prefix x t)"
  using assms
proof (induction es)
  case (Cons e es)
  show ?case
  proof (cases "jget e ''custom_types'' = JNum 3")
    case True
    then obtain fs where fs: "jget e ''file'' = JArr fs" "list_all (\<lambda>f. \<exists>t. jget f ''thumbnail'' = JStr t) fs"
      using Cons.prems by (auto simp: listed_file_def)
    show ?thesis
    proof (cases "List.find (\<lambda>f. jget f ''path'' = y) fs")
      case None
      then have "\<not> list_ex (\<lambda>f. jget f ''path'' = y) fs" by (auto simp: find_None_iff list_ex_iff)
      with None True fs Cons show ?thesis by (simp add: has_path_def elements_def)
    next
      case (Some f)
      then have f: "f \<in> set fs" "jget f ''path'' = y" by (auto simp: find_Some_iff)
      then obtain t where "jget f ''thumbnail'' = JStr t" using fs(2) by (auto simp: list_all_iff)
      moreover have "list_ex (\<lambda>f. jget f ''path'' = y) fs" using f by (auto simp: list_ex_iff)
      ultimately show ?thesis using Some True fs by (simp add: has_path_def elements_def)
    qed
  next
    case False
    with Cons obtain t where "jget e ''thumbnail'' = JStr t" by (auto simp: listed_file_def)
    with False Cons show ?thesis by (simp add: has_path_def)
  qed
qed simp

definition gcode_file :: "string \<Rightarrow> json" where
  "gcode_file n = JObj [(''path'', JStr n), (''thumbnail'', JStr ''/humbnail/p.png'')]"

theorem the_printed_file_has_its_picture_witness:
  "find_preview ''x'' (JStr ''f'') [gcode_file ''e'', gcode_file ''f''] \<noteq> None"
  using the_printed_file_has_its_picture [of "[gcode_file ''e'', gcode_file ''f'']" "''x''" "JStr ''f''"]
  by (simp add: listed_file_def gcode_file_def has_path_def)

section \<open>Buttons\<close>

text \<open>A print on a printer in the network that is not connected cannot be paused, and trying to
  takes all buttons away until its state changes: the message is dropped, the mark of the
  waiting stays.\<close>

theorem pausing_without_socket_locks_the_buttons:
  assumes "printers s (in_printer f) = p" and "deviceType p = 0" and "\<not> oldPrinter p" and "state p = JNum 1"
    and "getPrinter (in_address f) s = Some n" and "socket (printers s n) = None"
    and "info_pause f s = (f', s')"
  shows "s' = s \<and> info_buttons f' p = [] \<and> info_buttons (info_file_changed s f') p = []"
proof -
  have "or_same (Pause (in_address f)) s = s"
    using assms(5,6) by (simp add: or_same_def Pause_def set_command_def command_def send_if_connected_def)
  with assms show ?thesis
    by (auto simp: info_pause_def info_buttons_def info_file_changed_def Let_def)
qed

definition printing_b :: dashboard where
  "printing_b = upd 1 (\<lambda>p. p\<lparr>state := JNum 1, socket := None\<rparr>) demo_board"

theorem pausing_without_socket_locks_the_buttons_witness:
  "info_buttons (opened_info ''b'' 1 printing_b) ((printers printing_b 1)\<lparr>err := (err (printers printing_b 1))\<lparr>err_key := JNum 0\<rparr>\<rparr>)
     = [PauseButton, StopButton]
   \<and> info_buttons (fst (info_pause (opened_info ''b'' 1 printing_b) printing_b)) (printers printing_b 1) = []"
proof
  let ?f = "opened_info ''b'' 1 printing_b"
  show "info_buttons ?f ((printers printing_b 1)\<lparr>err := (err (printers printing_b 1))\<lparr>err_key := JNum 0\<rparr>\<rparr>) = [PauseButton, StopButton]"
    by (simp add: info_buttons_def opened_info_def printing_b_def)
  have p: "printers printing_b (in_printer ?f) = printers printing_b 1" "deviceType (printers printing_b 1) = 0"
    "\<not> oldPrinter (printers printing_b 1)" "state (printers printing_b 1) = JNum 1" "getPrinter (in_address ?f) printing_b = Some 1"
    "socket (printers printing_b 1) = None"
    by (simp_all add: opened_info_def printing_b_def getPrinter_def getPrinter_in_def)
  show "info_buttons (fst (info_pause ?f printing_b)) (printers printing_b 1) = []"
    using pausing_without_socket_locks_the_buttons [OF p, of "fst (info_pause ?f printing_b)" "snd (info_pause ?f printing_b)"]
    by simp
qed

section \<open>The print time\<close>

datatype time_event = TimeTick nat | TimeAnswer json | StateChanged | FileChanged

fun time_step :: "dashboard \<Rightarrow> time_event \<Rightarrow> info_page \<Rightarrow> info_page" where
  "time_step s (TimeTick k) f = time_tick k f"
| "time_step s (TimeAnswer v) f = later_time v f"
| "time_step s StateChanged f = info_state_changed f"
| "time_step s FileChanged f = info_file_changed s f"

text \<open>When the panel of a cloud printer goes before the first print time has arrived, the answer
  starts an interval for a panel that is not there, and nothing ever stops it.\<close>

theorem the_time_is_asked_for_ever:
  assumes "deviceType (printers s n) = 1" and "print_time v = Some t"
  shows "\<exists>k. \<not> in_here (fold (time_step s') es (first_time v (info_unmounted (opened_info a n s))))
    \<and> k \<in> set (in_intervals (fold (time_step s') es (first_time v (info_unmounted (opened_info a n s)))))"
proof -
  have keep: "in_intervals (fold (time_step s') es f) = in_intervals f \<and> in_here (fold (time_step s') es f) = in_here f" for f
  proof (induction es arbitrary: f)
    case (Cons e es)
    have "in_intervals (time_step s' e f) = in_intervals f \<and> in_here (time_step s' e f) = in_here f"
      by (cases e) (auto simp: time_tick_def later_time_def info_state_changed_def info_file_changed_def Let_def split: option.split)
    with Cons.IH [of "time_step s' e f"] show ?case by simp
  qed simp
  show ?thesis
    using assms by (auto simp: keep first_time_def info_unmounted_def opened_info_def)
qed

theorem the_time_is_asked_for_ever_witness:
  "\<exists>k. k \<in> set (in_intervals (fold (time_step demo_board) [TimeTick 0, StateChanged]
     (first_time (JObj [(''result'', JObj [(''printJobTime'', JArr [JObj [(''value'', JNum 60)]])])])
       (info_unmounted (opened_info ''b'' 1 (upd 1 (\<lambda>p. p\<lparr>deviceType := 1\<rparr>) demo_board))))))"
proof -
  let ?v = "JObj [(''result'', JObj [(''printJobTime'', JArr [JObj [(''value'', JNum 60)]])])]"
  have "print_time ?v = Some (Tl (Some 60))" by (simp add: print_time_def)
  from the_time_is_asked_for_ever [OF _ this, of "upd 1 (\<lambda>p. p\<lparr>deviceType := 1\<rparr>) demo_board" 1 demo_board
      "[TimeTick 0, StateChanged]" "''b''"]
  show ?thesis by auto
qed

section \<open>Targets\<close>

text \<open>Whatever target is typed, a report of a temperature that arrives before the field is left
  puts the printer's own target in its place, and that is what is sent.\<close>

theorem reports_undo_typed_targets:
  "leave_target k (show_temps ptc s (type_target k v f)) s = leave_target k (show_temps ptc s f) s"
  by (cases k) (simp_all add: leave_target_def type_target_def show_temps_def temp_row_of_def row_from_def Let_def)

text \<open>The targets of a printer without a socket, and so of every printer of the cloud, cannot be
  set: sending one to the nozzle or the bed throws, one to the chamber is dropped.\<close>

theorem targets_need_a_socket:
  assumes "getPrinter (tp_address f) s = Some n" and "socket (printers s n) = None"
    and "\<not> oldPrinter (printers s (tp_printer f))"
  shows "leave_target k f s = (if k = Chamber then Some s else None)"
  using assms
  by (cases k) (simp_all add: leave_target_def SetTargetNozzleTemp_def SetTargetBedTempTemp_def SetTargetboxTemp_def
      unguarded_def set_command_def command_def send_if_connected_def Let_def)

theorem targets_need_a_socket_witness:
  "leave_target Nozzle (new_temp_page ''b'' 1) (upd 1 (\<lambda>p. p\<lparr>socket := None\<rparr>) demo_board) = None"
  using targets_need_a_socket [of "new_temp_page ''b'' 1" "upd 1 (\<lambda>p. p\<lparr>socket := None\<rparr>) demo_board" 1 Nozzle]
  by (simp add: new_temp_page_def getPrinter_def getPrinter_in_def)

end
