(* ===== verification/CameraPage.thy ===== *)
theory CameraPage
  imports FilePage PrinterProps
begin

text \<open>
  The camera of a printer and the objects of a print (components \<open>DeviceCamera\<close>,
  \<open>ExcludeObject\<close> and \<open>DeviceObjDischarge\<close> of \<open>CeX73yR3.js\<close>): the offer of a connection with
  its video formats cut down, the connection with its timers, and what may be excluded.
  The statistics of a connection are taken to arrive at once; drawing is not modelled.
\<close>

section \<open>The offer\<close>

definition crlf :: string where
  "crlf = [CHR 0x0D, CHR 0x0A]"

definition is_rtpmap :: "string \<Rightarrow> bool" where
  "is_rtpmap l = sublist ''a=rtpmap:'' l"

definition names_h264 :: "string \<Rightarrow> bool" where
  "names_h264 l = (sublist ''H264'' l \<or> sublist ''h264'' l)"

text \<open>The number of the format, \<open>None\<close> for \<open>NaN\<close>.\<close>

definition format_number :: "string \<Rightarrow> int option" where
  "format_number l =
     (let ws = js_split '':'' (hd (js_split '' '' l)) in if length ws < 2 then None else parse_int (JStr (ws ! 1)))"

definition not_dynamic :: "int option \<Rightarrow> bool" where
  "not_dynamic z = (case z of None \<Rightarrow> False | Some n \<Rightarrow> n < 96 \<or> 127 < n)"

text \<open>The formats: each begins with its \<open>a=rtpmap:\<close> and takes the lines up to the next one.\<close>

function rtp_groups :: "string list \<Rightarrow> string list list" where
  "rtp_groups [] = []"
| "rtp_groups (l # ls) =
     (l # takeWhile (\<lambda>m. \<not> is_rtpmap m) ls) # rtp_groups (dropWhile (\<lambda>m. \<not> is_rtpmap m) ls)"
  by pat_completeness auto
termination
  by (relation "measure length") (auto simp: le_imp_less_Suc length_dropWhile_le)

text \<open>Which of them go, the last one apart.\<close>

fun format_dropped :: "string list \<Rightarrow> bool" where
  "format_dropped [] = True"
| "format_dropped (m # ms) =
     (if is_rtpmap m \<and> not_dynamic (format_number m) then True
      else if names_h264 m then False else format_dropped ms)"

text \<open>The last one keeps the lines that speak of it; the others come after everything else.\<close>

definition format_mark :: "string list \<Rightarrow> string" where
  "format_mark f = '':'' @ show_num (map_option of_int (format_number (hd f))) @ '' ''"

definition kept_formats :: "string list list \<Rightarrow> string list list" where
  "kept_formats gs =
     (let f = last gs; m = filter (sublist (format_mark f)) f in
      filter (\<lambda>g. \<not> format_dropped g) (butlast gs)
      @ (if not_dynamic (format_number (hd f)) \<or> \<not> list_ex names_h264 m then [] else [m]))"

text \<open>The lines before the formats, those of the first format that is left, and the lines of the
  last format that do not speak of it; \<open>None\<close> when no format is left.\<close>

definition sdp_parts :: "string list \<Rightarrow> (string list \<times> string list \<times> string list) option" where
  "sdp_parts x =
     (let c = takeWhile (\<lambda>m. \<not> is_rtpmap m) x; gs = rtp_groups (dropWhile (\<lambda>m. \<not> is_rtpmap m) x) in
      if gs = [] then None
      else (case kept_formats gs of
              [] \<Rightarrow> None
            | g # _ \<Rightarrow> Some (c, g, filter (\<lambda>a. \<not> sublist (format_mark (last gs)) a) (last gs))))"

definition filter_sdp :: "string \<Rightarrow> string" where
  "filter_sdp t =
     (case sdp_parts (js_split crlf t) of
        None \<Rightarrow> t
      | Some (c, g, k) \<Rightarrow> concat (map (\<lambda>l. l @ crlf) (c @ g)) @ js_join crlf k)"

section \<open>The connection\<close>

record camera =
  cm_address :: string
  cm_webrtc :: bool          \<comment> \<open>\<open>webrtcSupport\<close>\<close>
  cm_here :: bool            \<comment> \<open>the video is wanted: not closed since it was opened\<close>
  cm_peer :: "nat option"    \<comment> \<open>\<open>s\<close>\<close>
  cm_timer :: "nat option"   \<comment> \<open>\<open>c\<close>\<close>
  cm_timers :: "nat list"    \<comment> \<open>the timers that run\<close>
  cm_stat :: "nat option"    \<comment> \<open>\<open>h\<close>\<close>
  cm_stats :: "(nat \<times> nat) list"  \<comment> \<open>the intervals of statistics, with their \<open>k\<close>\<close>
  cm_next :: nat
  cm_requests :: "(string \<times> json) list"  \<comment> \<open>offers sent to the printer\<close>
  cm_refreshTime :: nat
  cm_refreshes :: nat        \<comment> \<open>the intervals that count it down\<close>
  cm_state :: string
  cm_bars :: nat
  cm_url :: json
  cm_accessible :: bool
  cm_posts :: "(string \<times> json) list list"  \<comment> \<open>messages that wait 200 ms\<close>

definition new_camera :: "string \<Rightarrow> bool \<Rightarrow> camera" where
  "new_camera a w = \<lparr>cm_address = a, cm_webrtc = w, cm_here = False, cm_peer = None, cm_timer = None, cm_timers = [],
     cm_stat = None, cm_stats = [], cm_next = 0, cm_requests = [], cm_refreshTime = 0, cm_refreshes = 0, cm_state = [],
     cm_bars = 0, cm_url = JStr [], cm_accessible = False, cm_posts = []\<rparr>"

text \<open>\<open>c = setTimeout(b, 5e3)\<close>: a timer that \<open>c\<close> held before runs on.\<close>

definition retry_later :: "camera \<Rightarrow> camera" where
  "retry_later f = f\<lparr>cm_timer := Some (cm_next f), cm_timers := cm_next f # cm_timers f, cm_next := Suc (cm_next f)\<rparr>"

definition reconnecting :: "camera \<Rightarrow> camera" where
  "reconnecting f = retry_later (f\<lparr>cm_state := ''Reconnecting''\<rparr>)"

definition clear_stats :: "camera \<Rightarrow> camera" where
  "clear_stats f = f\<lparr>cm_stats := filter (\<lambda>x. Some (fst x) \<noteq> cm_stat f) (cm_stats f)\<rparr>"

definition drop_peer :: "camera \<Rightarrow> camera" where
  "drop_peer f = f\<lparr>cm_peer := None, cm_bars := 0, cm_timers := filter (\<lambda>k. Some k \<noteq> cm_timer f) (cm_timers f)\<rparr>"

definition connect_camera :: "dashboard \<Rightarrow> camera \<Rightarrow> camera" where
  "connect_camera s f =
     (let f1 = drop_peer (clear_stats f) in
      case getPrinter (cm_address f) s of
        None \<Rightarrow> retry_later f1
      | Some n \<Rightarrow> if online (printers s n) then f1\<lparr>cm_peer := Some (cm_next f1), cm_next := Suc (cm_next f1)\<rparr>
                  else retry_later f1)"

definition camera_timer :: "nat \<Rightarrow> dashboard \<Rightarrow> camera \<Rightarrow> camera" where
  "camera_timer k s f =
     (if k \<in> set (cm_timers f) then connect_camera s (f\<lparr>cm_timers := removeAll k (cm_timers f)\<rparr>) else f)"

text \<open>The handlers of the connection; they are taken off when it is closed.\<close>

definition ice_changed :: "string \<Rightarrow> camera \<Rightarrow> camera" where
  "ice_changed st f =
     (if cm_peer f = None then f
      else if st = ''disconnected'' \<or> st = ''failed'' then reconnecting f
      else f\<lparr>cm_state := []\<rparr>)"

definition offer_message :: "string \<Rightarrow> string \<Rightarrow> (string \<times> json) list" where
  "offer_message a t = [(''command'', JStr ''get_webrtc_local_param''), (''url'', JStr (''http://'' @ a @ '':8000/call/webrtc_local'')),
     (''sdp'', JStr (filter_sdp t))]"

definition candidates_done :: "string \<Rightarrow> camera \<Rightarrow> dashboard \<Rightarrow> dashboard" where
  "candidates_done t f s = (if cm_peer f = None then s else post (offer_message (cm_address f) t) s)"

text \<open>The window answers with the offer to send.\<close>

definition offer_given :: "json \<Rightarrow> camera \<Rightarrow> camera" where
  "offer_given v f = f\<lparr>cm_requests := (''http://'' @ cm_address f @ '':8000/call/webrtc_local'', v) # cm_requests f\<rparr>"

text \<open>The printer's answer, \<open>None\<close> when there is none or it cannot be read.  An answer for a
  connection that is closed throws, which is taken for a failure.\<close>

definition offer_answered :: "json option \<Rightarrow> camera \<Rightarrow> camera" where
  "offer_answered v f =
     (if cm_requests f = [] then f
      else let f1 = f\<lparr>cm_requests := tl (cm_requests f)\<rparr> in
           (case v of
              None \<Rightarrow> reconnecting f1
            | Some x \<Rightarrow> if x = JNull \<or> jget x ''type'' = JStr ''answer'' \<and> cm_peer f = None then reconnecting f1 else f1))"

definition track_arrived :: "camera \<Rightarrow> camera" where
  "track_arrived f =
     (if cm_peer f = None then f
      else f\<lparr>cm_stat := Some (cm_next f), cm_stats := (cm_next f, 0) # cm_stats f, cm_next := Suc (cm_next f)\<rparr>)"

text \<open>Bars for the share of lost packets; the canvas has three.\<close>

definition signal_bars :: "rat \<Rightarrow> nat" where
  "signal_bars r =
     (let x = min (max r 0) 1 in
      if x < 1/20 then 4 else if x < 1/10 then 3 else if x < 1/5 then 2 else if x < 3/10 then 1 else 0)"

text \<open>The reports on received video: packets received, packets lost and jitter.\<close>

definition one_report :: "nat \<Rightarrow> dashboard \<Rightarrow> rat \<times> rat \<times> rat \<Rightarrow> camera \<Rightarrow> camera" where
  "one_report k s r f =
     (let (got, lost, jitter) = r; a = (if 0 < got then lost / got else 0);
          weak = (case map_of (cm_stats f) k of None \<Rightarrow> 0 | Some w \<Rightarrow> w);
          w = (if 1 < a \<or> 50 < jitter then Suc weak else 0);
          f1 = f\<lparr>cm_bars := signal_bars a\<rparr>;
          put = (\<lambda>v g. g\<lparr>cm_stats := map (\<lambda>x. if fst x = k then (k, v) else x) (cm_stats g)\<rparr>)
      in if 20 < w then connect_camera s (clear_stats (put 0 (f1\<lparr>cm_state := ''Reconnecting''\<rparr>)))
         else put w f1)"

definition stats_tick :: "nat \<Rightarrow> (rat \<times> rat \<times> rat) list \<Rightarrow> dashboard \<Rightarrow> camera \<Rightarrow> camera" where
  "stats_tick k rs s f =
     (if k \<in> fst ` set (cm_stats f) \<and> cm_peer f \<noteq> None then fold (one_report k s) rs f else f)"

text \<open>Closing, and opening again.\<close>

definition closeAllVideo :: "camera \<Rightarrow> camera" where
  "closeAllVideo f = drop_peer (clear_stats (f\<lparr>cm_url := JNull, cm_here := False\<rparr>))"

definition blank_url :: "json \<Rightarrow> bool" where
  "blank_url v = (v \<in> {JStr [], JNum 0, JBool False, JArr []})"

definition reopenVideo :: "dashboard \<Rightarrow> camera \<Rightarrow> camera" where
  "reopenVideo s f =
     (case getPrinter (cm_address f) s of
        None \<Rightarrow> f
      | Some n \<Rightarrow>
          let p = printers s n; g = f\<lparr>cm_here := True\<rparr> in
          if deviceType p \<noteq> 0 then f
          else if cm_webrtc f then connect_camera s g
          else if blank_url (linuxVideoUrl p) then g\<lparr>cm_url := JStr (''http://'' @ cm_address f @ '':8080/?action=stream'')\<rparr>
          else g\<lparr>cm_url := linuxVideoUrl p,
                 cm_posts := cm_posts f @ [[(''command'', JStr ''switch_webrtc_source''), (''ip'', JStr (address p)),
                                            (''oldPrinter'', JBool (oldPrinter p))]]\<rparr>)"

definition picture_tried :: "bool \<Rightarrow> camera \<Rightarrow> camera" where
  "picture_tried b f = f\<lparr>cm_accessible := b\<rparr>"

definition post_waited :: "camera \<Rightarrow> dashboard \<Rightarrow> camera \<times> dashboard" where
  "post_waited f s =
     (case cm_posts f of [] \<Rightarrow> (f, s) | m # ms \<Rightarrow> (f\<lparr>cm_posts := ms\<rparr>, post m s))"

text \<open>Refreshing by hand; no one stops the interval that counts down.\<close>

definition refresh_camera :: "dashboard \<Rightarrow> camera \<Rightarrow> camera" where
  "refresh_camera s f =
     (if cm_refreshTime f = 0
      then (connect_camera s f)\<lparr>cm_refreshTime := 3, cm_refreshes := Suc (cm_refreshes f)\<rparr>
      else f)"

definition refresh_tick :: "camera \<Rightarrow> camera" where
  "refresh_tick f = f\<lparr>cm_refreshTime := cm_refreshTime f - 1\<rparr>"

definition camera_second :: "camera \<Rightarrow> camera" where
  "camera_second f = (refresh_tick ^^ cm_refreshes f) f"

datatype camera_event =
    Reopen | CloseVideo | Refresh | Second | RetryTimer nat | IceState string | OfferGiven json | OfferAnswered "json option"
  | Track | StatsTick nat "(rat \<times> rat \<times> rat) list" | PictureTried bool

fun camera_step :: "dashboard \<Rightarrow> camera_event \<Rightarrow> camera \<Rightarrow> camera" where
  "camera_step s Reopen f = reopenVideo s f"
| "camera_step s CloseVideo f = closeAllVideo f"
| "camera_step s Refresh f = refresh_camera s f"
| "camera_step s Second f = camera_second f"
| "camera_step s (RetryTimer k) f = camera_timer k s f"
| "camera_step s (IceState st) f = ice_changed st f"
| "camera_step s (OfferGiven v) f = offer_given v f"
| "camera_step s (OfferAnswered v) f = offer_answered v f"
| "camera_step s Track f = track_arrived f"
| "camera_step s (StatsTick k rs) f = stats_tick k rs s f"
| "camera_step s (PictureTried b) f = picture_tried b f"

text \<open>The states of a camera, while the printers change as they like.\<close>

inductive camera_reach :: "string \<Rightarrow> bool \<Rightarrow> camera \<Rightarrow> bool" for a w where
  camera_new: "camera_reach a w (new_camera a w)"
| camera_moved: "camera_reach a w f \<Longrightarrow> camera_reach a w (camera_step s e f)"

section \<open>The objects of a print\<close>

record object_panel =
  op_printer :: nat
  op_question :: "json option"   \<comment> \<open>the object that is asked about\<close>
  op_said :: "string list"

definition excluded_one :: "printer \<Rightarrow> json \<Rightarrow> bool" where
  "excluded_one p o1 = (o1 \<in> set (elements (excluded_objects (part p))))"

definition ask_exclude :: "json \<Rightarrow> dashboard \<Rightarrow> object_panel \<Rightarrow> object_panel" where
  "ask_exclude o1 s f =
     (let p = printers s (op_printer f); os = elements (objects (part p));
          gone = length (filter (\<lambda>c. excluded_one p (jget c ''name'')) os);
          say = (\<lambda>t. f\<lparr>op_said := op_said f @ [t]\<rparr>)
      in if int (length os) - int gone \<le> 1 then say ''Only a single model remains and does not support exclusion''
         else if excluded_one p o1 then say ''This object is excluded!''
         else if current_object (part p) = o1 then say ''The object being printed does not support exclusion''
         else f\<lparr>op_question := Some o1\<rparr>)"

text \<open>Without a socket the confirmed exclusion throws, and what catches it says that the user
  cancelled.\<close>

definition exclude_answered :: "bool \<Rightarrow> object_panel \<Rightarrow> dashboard \<Rightarrow> object_panel \<times> dashboard" where
  "exclude_answered yes f s =
     (case op_question f of
        None \<Rightarrow> (f, s)
      | Some o1 \<Rightarrow>
          let g = f\<lparr>op_question := None\<rparr>; say = (\<lambda>t. g\<lparr>op_said := op_said f @ [t]\<rparr>) in
          if \<not> yes then (say ''Cancel'', s)
          else (case socket (printers s (op_printer f)) of
                  None \<Rightarrow> (say ''Cancel'', s)
                | Some k \<Rightarrow> (say ''Exclusion succeeded!'', snd (dm_send k (set_params [(''excludeObjects'', JArr [o1])]) s))))"

fun outline_from :: "string \<Rightarrow> json list \<Rightarrow> string" where
  "outline_from c [] = []"
| "outline_from c (d # ds) =
     c @ js_text (hd (elements d @ [JUndefined])) @ '','' @ js_text (hd (tl (elements d) @ [JUndefined, JUndefined])) @ outline_from ''L'' ds"

definition object_outline :: "json \<Rightarrow> string" where
  "object_outline o1 = outline_from ''M'' (elements (jget o1 ''polygon'')) @ ''z''"

text \<open>The presets are those of the printer list, with all their fields.\<close>

definition bed_box :: "(string \<times> json) list \<Rightarrow> string \<Rightarrow> string" where
  "bed_box ps m =
     (case map_of ps m of
        None \<Rightarrow> ''0 0 350 350''
      | Some u \<Rightarrow> ''0 0 '' @ js_text (jget u ''xSize'') @ '' '' @ js_text (jget u ''ySize''))"

definition objects_mounted :: "string \<Rightarrow> dashboard \<Rightarrow> dashboard option" where
  "objects_mounted t s = ReqPrintObjects t s"


text \<open>
  What holds of the camera and of excluding objects: the offer that is sent has one format
  which is H264; a camera that is wanted never gives up, and one that was left may come back;
  what the intervals of refreshing do; and when an object is excluded.
\<close>

section \<open>The offer\<close>

lemma rtp_groups_concat: "concat (rtp_groups x) = x"
  by (induction x rule: rtp_groups.induct) simp_all

lemma rtp_groups_heads:
  assumes "x = [] \<or> is_rtpmap (hd x)" and "g \<in> set (rtp_groups x)"
  shows "\<exists>l ls. g = l # ls \<and> is_rtpmap l \<and> (\<forall>m\<in>set ls. \<not> is_rtpmap m)"
  using assms
proof (induction x rule: rtp_groups.induct)
  case (2 l ls)
  let ?d = "dropWhile (\<lambda>m. \<not> is_rtpmap m) ls"
  have "?d = [] \<or> is_rtpmap (hd ?d)" using hd_dropWhile by blast
  with 2 show ?case by (auto dest: set_takeWhileD)
qed simp

lemma rtp_groups_empty [simp]: "(rtp_groups x = []) = (x = [])"
  by (cases x) simp_all

lemma kept_format_names_h264: "\<not> format_dropped g \<Longrightarrow> list_ex names_h264 g"
  by (induction g rule: format_dropped.induct) (auto split: if_splits)

lemma one_head:
  assumes "g = l # ls" and "\<forall>m\<in>set ls. \<not> is_rtpmap m"
  shows "length (filter is_rtpmap g) \<le> 1" and "length (filter is_rtpmap (filter P g)) \<le> 1"
proof -
  have "filter is_rtpmap ls = []" "filter is_rtpmap (filter P ls) = []" using assms(2) by (auto simp: filter_empty_conv)
  then show "length (filter is_rtpmap g) \<le> 1" "length (filter is_rtpmap (filter P g)) \<le> 1"
    using assms(1) by simp_all
qed

lemma mset_of_group:
  assumes "g \<in> set (butlast gs)" and "gs \<noteq> []"
  shows "mset g + mset (last gs) \<subseteq># mset (concat gs)"
proof -
  have "mset (concat gs) = mset (concat (butlast gs)) + mset (last gs)"
    by (metis append_butlast_last_id assms(2) concat.simps concat_append mset_append append_Nil2)
  moreover have "mset g \<subseteq># mset (concat (butlast gs))"
    using assms(1) by (auto simp: in_set_conv_decomp)
  ultimately show ?thesis by simp
qed

lemma mset_halves: "mset (filter P f) + mset (filter (\<lambda>a. \<not> P a) f) = mset f"
  by (induction f) auto

text \<open>C32: An offer that is cut down names at most one format before its trailing lines, that format
  is H264, and nothing is added to what the browser offered; an offer that cannot be cut is
  sent as it is.\<close>

theorem the_offer_has_one_h264_format:
  assumes "sdp_parts x = Some (c, g, k)"
  shows "list_ex names_h264 g \<and> length (filter is_rtpmap (c @ g)) \<le> 1 \<and> mset (c @ g @ k) \<subseteq># mset x"
proof -
  let ?not = "\<lambda>m. \<not> is_rtpmap m"
  let ?x = "dropWhile ?not x"
  let ?gs = "rtp_groups ?x"
  let ?f = "last ?gs"
  obtain gs: "?gs \<noteq> []" and c: "c = takeWhile ?not x" and k: "k = filter (\<lambda>a. \<not> sublist (format_mark ?f) a) ?f"
    and "g \<in> set (kept_formats ?gs)"
    using assms unfolding sdp_parts_def Let_def by (auto split: if_splits list.splits)
  then have g: "g \<in> set (butlast ?gs) \<and> \<not> format_dropped g \<or> g = filter (sublist (format_mark ?f)) ?f \<and> list_ex names_h264 g"
    unfolding kept_formats_def Let_def by (simp split: if_splits) blast
  have "?x = [] \<or> is_rtpmap (hd ?x)" using hd_dropWhile by blast
  note heads = rtp_groups_heads [OF this]
  have x: "mset x = mset c + mset (concat ?gs)"
    by (metis c mset_append rtp_groups_concat takeWhile_dropWhile_id)
  have none: "filter is_rtpmap c = []" unfolding c by (auto simp: filter_empty_conv dest: set_takeWhileD)
  from g show ?thesis
  proof
    assume g1: "g \<in> set (butlast ?gs) \<and> \<not> format_dropped g"
    then have "g \<in> set ?gs" by (simp add: in_set_butlastD)
    from heads [OF this] obtain l ls where "g = l # ls" "\<forall>m\<in>set ls. \<not> is_rtpmap m" by auto
    then have "length (filter is_rtpmap g) \<le> 1" by (rule one_head)
    moreover have "mset g + mset k \<subseteq># mset (concat ?gs)"
      using mset_of_group [of g ?gs] g1 gs unfolding k
      by (metis mset_filter multiset_filter_subset subset_mset.add_left_mono subset_mset.order_trans)
    ultimately show ?thesis using g1 kept_format_names_h264 none x by simp
  next
    assume g2: "g = filter (sublist (format_mark ?f)) ?f \<and> list_ex names_h264 g"
    from heads [OF last_in_set [OF gs]] obtain l ls where f: "?f = l # ls" "\<forall>m\<in>set ls. \<not> is_rtpmap m" by auto
    have "length (filter is_rtpmap g) \<le> 1" using one_head(2) [OF f] g2 by simp
    moreover have "mset g + mset k = mset ?f" using g2 k mset_halves by metis
    moreover have "mset ?f \<subseteq># mset (concat ?gs)"
      using gs by (metis append_butlast_last_id concat.simps concat_append mset_append append_Nil2 mset_subset_eq_add_right)
    ultimately have "length (filter is_rtpmap g) \<le> 1 \<and> mset g + mset k \<subseteq># mset (concat ?gs)" by simp
    moreover have "list_ex names_h264 g" using g2 by blast
    ultimately show ?thesis using none x by simp
  qed
qed

definition vp8_and_h264 :: "string list" where
  "vp8_and_h264 = [''m=video 9'', ''a=rtpmap:96 VP8/90000'', ''a=rtpmap:102 H264/90000'', ''a=fmtp:102 x'', ''a=end'']"

lemma vp8_and_h264_lines:
  "\<not> is_rtpmap ''m=video 9''" "is_rtpmap ''a=rtpmap:96 VP8/90000''" "is_rtpmap ''a=rtpmap:102 H264/90000''"
  "\<not> is_rtpmap ''a=fmtp:102 x''" "\<not> is_rtpmap ''a=end''" "\<not> names_h264 ''a=rtpmap:96 VP8/90000''"
  "names_h264 ''a=rtpmap:102 H264/90000''"
  by (simp_all add: is_rtpmap_def names_h264_def sublist_code)

lemma vp8_and_h264_types:
  "format_number ''a=rtpmap:96 VP8/90000'' = Some 96" "format_number ''a=rtpmap:102 H264/90000'' = Some 102"
  "show_num (Some 102) = ''102''"
  by code_simp+

theorem the_offer_has_one_h264_format_witness:
  "sdp_parts vp8_and_h264 = Some ([''m=video 9''], [''a=rtpmap:102 H264/90000'', ''a=fmtp:102 x''], [''a=end''])
   \<and> list_ex names_h264 [''a=rtpmap:102 H264/90000'', ''a=fmtp:102 x'']"
proof -
  have "sdp_parts vp8_and_h264 = Some ([''m=video 9''], [''a=rtpmap:102 H264/90000'', ''a=fmtp:102 x''], [''a=end''])"
    by (simp add: sdp_parts_def vp8_and_h264_def vp8_and_h264_lines vp8_and_h264_types kept_formats_def format_mark_def
        not_dynamic_def sublist_code)
  with the_offer_has_one_h264_format [OF this] show ?thesis by blast
qed

section \<open>A camera that is wanted\<close>

definition keeps_trying :: "camera \<Rightarrow> bool" where
  "keeps_trying f = (cm_here f \<and> cm_webrtc f \<longrightarrow> cm_peer f \<noteq> None \<or> (\<exists>k. cm_timer f = Some k \<and> k \<in> set (cm_timers f)))"

definition alive :: "camera \<Rightarrow> bool" where
  "alive f = (cm_peer f \<noteq> None \<or> (\<exists>k. cm_timer f = Some k \<and> k \<in> set (cm_timers f)))"

named_theorems camera_ops
declare retry_later_def [camera_ops] reconnecting_def [camera_ops] clear_stats_def [camera_ops] drop_peer_def [camera_ops]

lemma connect_alive: "alive (connect_camera s f)"
  by (simp add: connect_camera_def alive_def camera_ops Let_def split: option.split)

lemma connect_same [simp]:
  "cm_here (connect_camera s f) = cm_here f" "cm_webrtc (connect_camera s f) = cm_webrtc f"
  "cm_refreshes (connect_camera s f) = cm_refreshes f"
  by (simp_all add: connect_camera_def camera_ops Let_def split: option.split)

lemma retry_alive [simp]: "alive (retry_later f)" "alive (reconnecting f)"
  by (simp_all add: alive_def camera_ops)

lemma keeps_trying_alive: "keeps_trying f = (cm_here f \<and> cm_webrtc f \<longrightarrow> alive f)"
  by (simp add: keeps_trying_def alive_def)

lemma report_keeps_trying: "alive f \<Longrightarrow> alive (one_report k s r f) \<and> cm_webrtc (one_report k s r f) = cm_webrtc f"
proof (cases r)
  case (fields got lost jitter)
  assume "alive f"
  then show ?thesis
    unfolding fields one_report_def Let_def prod.case
    by (simp add: connect_alive clear_stats_def) (simp add: alive_def)
qed

lemma reports_keep_trying: "alive f \<Longrightarrow> alive (fold (one_report k s) rs f)"
  by (induction rs arbitrary: f) (simp_all add: report_keeps_trying)

lemma camera_second_same: "camera_second f = f\<lparr>cm_refreshTime := cm_refreshTime f - cm_refreshes f\<rparr>"
proof -
  have "(refresh_tick ^^ n) f = f\<lparr>cm_refreshTime := cm_refreshTime f - n\<rparr>" for n
    by (induction n) (simp_all add: refresh_tick_def)
  then show ?thesis by (simp add: camera_second_def)
qed

lemma keeps_trying_quiet [simp]:
  "keeps_trying (camera_second f) = keeps_trying f" "keeps_trying (offer_given v f) = keeps_trying f"
  "keeps_trying (picture_tried b f) = keeps_trying f"
  by (simp_all add: camera_second_same offer_given_def picture_tried_def keeps_trying_def)

lemma keeps_trying_connect [simp]: "keeps_trying (connect_camera s f)" "keeps_trying (reconnecting f)"
  by (simp_all add: keeps_trying_alive connect_alive)

lemma keeps_trying_reopened [simp]:
  "cm_webrtc f \<Longrightarrow> keeps_trying ((connect_camera s f)\<lparr>cm_refreshTime := t, cm_refreshes := n\<rparr>)"
  using keeps_trying_connect(1) [of s f] by (simp add: keeps_trying_def)

lemma keeps_trying_events:
  assumes "keeps_trying f"
  shows "keeps_trying (reopenVideo s f)" "keeps_trying (closeAllVideo f)" "keeps_trying (refresh_camera s f)"
    "keeps_trying (camera_timer k s f)" "keeps_trying (ice_changed st f)" "keeps_trying (offer_answered v f)"
    "keeps_trying (track_arrived f)" "keeps_trying (stats_tick k rs s f)"
proof -
  show "keeps_trying (reopenVideo s f)" "keeps_trying (camera_timer k s f)" "keeps_trying (ice_changed st f)"
    "keeps_trying (offer_answered v f)"
    using assms by (auto simp: reopenVideo_def camera_timer_def ice_changed_def offer_answered_def Let_def split: option.split)
      (auto simp: keeps_trying_def)
  show "keeps_trying (closeAllVideo f)" by (simp add: closeAllVideo_def keeps_trying_def camera_ops)
  show "keeps_trying (refresh_camera s f)"
    using assms by (cases "cm_webrtc f") (simp_all add: refresh_camera_def, simp add: keeps_trying_def)
  show "keeps_trying (track_arrived f)"
    using assms by (auto simp: track_arrived_def keeps_trying_def)
  show "keeps_trying (stats_tick k rs s f)"
  proof (cases "cm_peer f = None")
    case False
    then have "alive f" by (simp add: alive_def)
    with assms reports_keep_trying [of f k s rs] show ?thesis by (simp add: stats_tick_def keeps_trying_alive)
  qed (use assms in \<open>simp add: stats_tick_def\<close>)
qed

text \<open>C31: A camera over WebRTC that is wanted never gives up: it has a connection, or a timer that
  will try again runs and can still be cleared.\<close>

theorem wanted_camera_keeps_trying:
  assumes "camera_reach a w f"
  shows "keeps_trying f"
  using assms
proof induction
  case camera_new
  show ?case by (simp add: keeps_trying_def new_camera_def)
next
  case (camera_moved f s e)
  then show ?case by (cases e) (simp_all add: keeps_trying_events)
qed

theorem wanted_camera_keeps_trying_witness:
  "keeps_trying (camera_step demo_board (IceState ''failed'') (camera_step demo_board Reopen (new_camera ''b'' True)))"
  by (rule wanted_camera_keeps_trying [of "''b''" True]) (intro camera_reach.intros)

lemma ice_lost:
  "cm_peer f \<noteq> None \<Longrightarrow> ice_changed ''disconnected'' f = reconnecting f"
  "cm_peer f \<noteq> None \<Longrightarrow> ice_changed ''failed'' f = reconnecting f"
  by (auto simp: ice_changed_def)

lemma reconnecting_peer [simp]: "cm_peer (reconnecting f) = cm_peer f"
  by (simp add: camera_ops)

text \<open>C39: A connection that is lost sets a timer each time it says so, and leaving the page clears
  only the last: a camera that was disconnected and then failed comes back by itself.\<close>

theorem camera_returns_after_leaving:
  assumes "cm_peer f \<noteq> None" and "getPrinter (cm_address f) s = Some n" and "online (printers s n)"
    and "g = closeAllVideo (ice_changed ''failed'' (ice_changed ''disconnected'' f))"
  shows "\<not> cm_here g \<and> cm_peer g = None \<and> (\<exists>k. cm_peer (camera_timer k s g) \<noteq> None)"
proof -
  have "cm_next f \<in> set (cm_timers g)" and g: "\<not> cm_here g" "cm_peer g = None" "cm_address g = cm_address f"
    unfolding assms(4) ice_lost(1) [OF assms(1)]
    using ice_lost(2) [of "reconnecting f"] assms(1) by (simp_all add: closeAllVideo_def camera_ops)
  then have "cm_peer (camera_timer (cm_next f) s g) \<noteq> None"
    using assms(2,3) by (simp add: camera_timer_def connect_camera_def camera_ops Let_def)
  with g show ?thesis by blast
qed

theorem camera_returns_after_leaving_witness:
  "\<exists>k. cm_peer (camera_timer k demo_board (closeAllVideo (ice_changed ''failed'' (ice_changed ''disconnected''
     ((new_camera ''b'' True)\<lparr>cm_peer := Some 7\<rparr>))))) \<noteq> None"
  using camera_returns_after_leaving [of "(new_camera ''b'' True)\<lparr>cm_peer := Some 7\<rparr>" demo_board 1, OF _ _ _ refl]
  by (simp add: new_camera_def getPrinter_def getPrinter_in_def)

text \<open>Every refresh by hand leaves an interval behind, so the wait of three seconds after the
  next one shrinks: after two refreshes it is over within a second.\<close>

theorem refreshing_shortens_the_wait:
  assumes "cm_refreshTime f = 0"
  shows "cm_refreshTime (camera_second (refresh_camera s f)) = 2 - cm_refreshes f
    \<and> cm_refreshes (camera_second (refresh_camera s f)) = Suc (cm_refreshes f)"
  using assms by (simp add: camera_second_same refresh_camera_def)

theorem refreshing_shortens_the_wait_witness:
  "cm_refreshTime (camera_second (refresh_camera demo_board ((new_camera ''b'' True)\<lparr>cm_refreshes := 2\<rparr>))) = 0"
  using refreshing_shortens_the_wait [of "(new_camera ''b'' True)\<lparr>cm_refreshes := 2\<rparr>" demo_board]
  by (simp add: new_camera_def)

section \<open>Excluding objects\<close>

definition exclude_confirmed :: "json \<Rightarrow> object_panel \<times> dashboard \<Rightarrow> object_panel \<times> dashboard" where
  "exclude_confirmed o1 b = (let (f, s) = b in exclude_answered True (ask_exclude o1 s f) s)"

definition object_names :: "printer \<Rightarrow> json list" where
  "object_names p = map (\<lambda>c. jget c ''name'') (elements (objects (part p)))"

lemma exclude_confirmed_sent:
  assumes "2 \<le> length (object_names p)" and "elements (excluded_objects (part p)) = []" and "current_object (part p) \<noteq> o1"
    and "printers s (op_printer f) = p" and "socket p = Some k" and "sock (dms s k) = Some OPEN"
  shows "exclude_confirmed o1 (f, s)
    = (f\<lparr>op_question := None, op_said := op_said f @ [''Exclusion succeeded!'']\<rparr>,
       s\<lparr>calls := calls s @ [DmCall k (WsSend (set_params [(''excludeObjects'', JArr [o1])]))]\<rparr>)"
  using assms
  by (simp add: exclude_confirmed_def ask_exclude_def exclude_answered_def excluded_one_def object_names_def Let_def
      dm_send_def dm_sendMsg_def)

text \<open>The rule that one object stays counts the objects the printer has reported as excluded:
  exclusions that are confirmed before it reports are all sent, also of every object.\<close>

theorem every_object_may_be_excluded:
  assumes "printers s (op_printer f) = p" and "names = object_names p" and "2 \<le> length names"
    and "elements (excluded_objects (part p)) = []" and "current_object (part p) \<notin> set names"
    and "socket p = Some k" and "sock (dms s k) = Some OPEN"
  shows "calls (snd (fold exclude_confirmed names (f, s)))
    = calls s @ map (\<lambda>n. DmCall k (WsSend (set_params [(''excludeObjects'', JArr [n])]))) names"
proof -
  have "calls (snd (fold exclude_confirmed ns (f, s)))
      = calls s @ map (\<lambda>n. DmCall k (WsSend (set_params [(''excludeObjects'', JArr [n])]))) ns"
    if "set ns \<subseteq> set names" "printers s (op_printer f) = p" "sock (dms s k) = Some OPEN" for ns f s
    using that
  proof (induction ns arbitrary: f s)
    case (Cons n ns)
    then have "current_object (part p) \<noteq> n" using assms(5) by auto
    with Cons.prems assms have "exclude_confirmed n (f, s)
      = (f\<lparr>op_question := None, op_said := op_said f @ [''Exclusion succeeded!'']\<rparr>,
         s\<lparr>calls := calls s @ [DmCall k (WsSend (set_params [(''excludeObjects'', JArr [n])]))]\<rparr>)"
      by (intro exclude_confirmed_sent) auto
    with Cons show ?case by simp
  qed simp
  with assms show ?thesis by blast
qed

definition two_objects :: dashboard where
  "two_objects = (upd 1 (\<lambda>p. p\<lparr>part := \<lparr>current_object = JStr [], excluded_objects = JArr [],
     objects = JArr [JObj [(''name'', JStr ''x'')], JObj [(''name'', JStr ''y'')]]\<rparr>\<rparr>) demo_board)
     \<lparr>dms := (\<lambda>_. demo_dm\<lparr>sock := Some OPEN\<rparr>)\<rparr>"

theorem every_object_may_be_excluded_witness:
  "calls (snd (fold exclude_confirmed [JStr ''x'', JStr ''y''] (\<lparr>op_printer = 1, op_question = None, op_said = []\<rparr>, two_objects)))
   = calls two_objects @ [DmCall 0 (WsSend (set_params [(''excludeObjects'', JArr [JStr ''x''])])),
                          DmCall 0 (WsSend (set_params [(''excludeObjects'', JArr [JStr ''y''])]))]"
  using every_object_may_be_excluded [of two_objects "\<lparr>op_printer = 1, op_question = None, op_said = []\<rparr>"
      "printers two_objects 1" "[JStr ''x'', JStr ''y'']" 0]
  by (simp add: two_objects_def object_names_def elements_def)

end
