(* ===== verification/DetailPage.thy ===== *)
theory DetailPage
  imports CameraPage BatchProps AppProps
begin

text \<open>
  The page of a printer and the list of tasks (components \<open>DeviceDetial\<close>, the dialog of batch
  uploads and \<open>DeviceListHeader\<close> of \<open>CeX73yR3.js\<close>): which panels a page has, the video that is
  closed while the window shows its own page, and the rows of the tasks.
\<close>

section \<open>The page\<close>

datatype detail_panel =
  Frame json | InfoPanel | CtrlPanel | FilePanel | ObjectsPanel | CameraPanel | FilamentPanel | TemperaturePanel

text \<open>\<open>bGe\<close>, whether the model can exclude objects.\<close>

definition bGe :: "json \<Rightarrow> bool" where
  "bGe m = True"

definition detail_panels :: "printer \<Rightarrow> detail_panel list" where
  "detail_panels p =
     (if truthy (KlipperUrl p) then [Frame (KlipperUrl p)] else [])
     @ (if deviceType p = 1001 then [Frame (JStr (address p))] else [])
     @ (if (deviceType p = 0 \<or> deviceType p = 1) \<and> \<not> truthy (KlipperUrl p)
        then [InfoPanel, CtrlPanel, FilePanel] @ (if deviceType p = 0 \<and> bGe (JStr (model p)) then [ObjectsPanel] else [])
             @ [CameraPanel] @ (if truthy (IsMultiColorDevice p) then [FilamentPanel] else []) @ [TemperaturePanel]
        else [])"

definition detail_mounted :: "nat \<Rightarrow> dashboard \<Rightarrow> dashboard" where
  "detail_mounted n s =
     (if oldPrinter (printers s n)
      then post [(''command'', JStr ''get_file_List_from_lan_device''), (''url'', JStr (address (printers s n)))] s
      else s)"

definition closeDetailVideo :: "camera option \<Rightarrow> camera option" where
  "closeDetailVideo c = map_option closeAllVideo c"

definition reopenDetailVideo :: "dashboard \<Rightarrow> camera option \<Rightarrow> camera option" where
  "reopenDetailVideo s c = map_option (reopenVideo s) c"

text \<open>The window's messages about the video; the first argument is whether the page is shown.\<close>

definition req_close_detail_page_video :: "bool \<Rightarrow> camera option \<Rightarrow> camera option" where
  "req_close_detail_page_video visible_page c = (if visible_page then closeDetailVideo c else c)"

definition req_reopen_detail_page_video :: "bool \<Rightarrow> dashboard \<Rightarrow> camera option \<Rightarrow> camera option" where
  "req_reopen_detail_page_video visible_page s c = (if visible_page then reopenDetailVideo s c else c)"

section \<open>The tasks\<close>

text \<open>\<open>uploadState\<close> is only ever set to numbers.\<close>

definition task_rank :: "printer \<Rightarrow> rat" where
  "task_rank p = (case uploadState p of JNum q \<Rightarrow> q | _ \<Rightarrow> 0)"

text \<open>Done once, when the dialog is opened.\<close>

definition task_rows :: "uploads \<Rightarrow> nat list" where
  "task_rows w =
     sort_key (\<lambda>n. task_rank (printers (uploads.board w) n)) (List.map_filter (\<lambda>a. getPrinter_in a False 0 (uploads.board w)) (batchIps w))"

datatype task_cell = SendingAt json json | Sent | WaitingTask | FailedWith json | CanceledTask | NoTask

definition task_cell_of :: "printer \<Rightarrow> task_cell" where
  "task_cell_of p =
     (let q = uploadState p in
      if q = JNum 2 then SendingAt (uploadSpeed p) (uploadFileProgress p) else if q = JNum 1 then Sent
      else if q = JNum 5 then WaitingTask else if q = JNum 3 then FailedWith (uploadError p)
      else if q = JNum 4 then CanceledTask else NoTask)"

definition cancleUpload :: "string \<Rightarrow> uploads \<Rightarrow> uploads" where
  "cancleUpload a w = on_board (post [(''command'', JStr ''cancel_upload''), (''ipAddress'', JStr a)]) w"

definition close_tasks :: "uploads \<Rightarrow> uploads" where
  "close_tasks w = w\<lparr>showDialog := False\<rparr>"

definition view_tasks :: "uploads \<Rightarrow> uploads" where
  "view_tasks w = w\<lparr>showDialog := True\<rparr>"

text \<open>The layout of the list, remembered by the browser.\<close>

definition layout_mounted :: "string option \<Rightarrow> string" where
  "layout_mounted stored = (case stored of None \<Rightarrow> ''card'' | Some t \<Rightarrow> if t = [] then ''card'' else t)"


text \<open>
  What holds of the page of a printer and of the tasks: a video that is closed for the
  window's page and opened again is connected when the printer is online; and the tasks are
  the uploads, each once.
\<close>

text \<open>Closing and reopening the video of a page that is shown leaves a camera that is
  connected exactly when its printer is online, and otherwise tries again; a page that is not
  shown keeps its camera as it is.\<close>

theorem video_comes_back_after_sending:
  assumes "getPrinter (cm_address f) s = Some n" and "deviceType (printers s n) = 0" and "cm_webrtc f"
    and "req_reopen_detail_page_video visible_page s (req_close_detail_page_video visible_page (Some f)) = Some g"
  shows "if visible_page then (cm_peer g \<noteq> None) = online (printers s n) \<and> (\<not> online (printers s n) \<longrightarrow> cm_timers g \<noteq> [])
    else g = f"
  using assms
  by (auto simp: req_reopen_detail_page_video_def req_close_detail_page_video_def closeDetailVideo_def reopenDetailVideo_def
      closeAllVideo_def reopenVideo_def connect_camera_def drop_peer_def clear_stats_def retry_later_def Let_def
      split: if_splits)

theorem video_comes_back_after_sending_witness:
  "\<exists>g. req_reopen_detail_page_video True demo_board (req_close_detail_page_video True (Some (new_camera ''b'' True))) = Some g
    \<and> cm_peer g \<noteq> None"
proof -
  have "getPrinter (cm_address (new_camera ''b'' True)) demo_board = Some 1"
    by (simp add: new_camera_def getPrinter_def getPrinter_in_def)
  from video_comes_back_after_sending [OF this, of True]
  show ?thesis
    by (simp add: new_camera_def req_reopen_detail_page_video_def req_close_detail_page_video_def closeDetailVideo_def
        reopenDetailVideo_def)
qed

section \<open>The tasks\<close>

lemma setBatchIps_distinct: "distinct (batchIps w) \<Longrightarrow> distinct (batchIps (setBatchIps e w))"
proof -
  have "distinct xs \<Longrightarrow> distinct (fold (\<lambda>r xs. if r \<in> set xs then xs else xs @ [r]) e xs)" for xs
    by (induction e arbitrary: xs) auto
  then show "distinct (batchIps w) \<Longrightarrow> distinct (batchIps (setBatchIps e w))" by (simp add: setBatchIps_def)
qed

lemma found_address: "getPrinter_in a False k s = Some n \<Longrightarrow> address (printers s n) = a"
  by (auto simp: getPrinter_in_def find_Some_iff)

lemma distinct_map_filter:
  "\<lbrakk>distinct xs; \<And>x y n. f x = Some n \<Longrightarrow> f y = Some n \<Longrightarrow> x = y\<rbrakk> \<Longrightarrow> distinct (List.map_filter f xs)"
  by (induction xs) (force simp: List.map_filter_def split: option.split)+

lemma set_map_filter: "set (List.map_filter f xs) = {n. \<exists>x\<in>set xs. f x = Some n}"
  by (force simp: List.map_filter_def)

text \<open>Whatever uploads were added to the list, the dialog shows each printer that is listed and
  that one of them went to, once, and those that send before those that failed, were cancelled
  or wait.\<close>

theorem tasks_are_listed_once_in_order:
  assumes "batchIps (w :: uploads) = []" and "v = fold setBatchIps es w"
  shows "distinct (task_rows v) \<and> sorted (map (\<lambda>n. task_rank (printers (uploads.board v) n)) (task_rows v))
    \<and> set (task_rows v) = {n. \<exists>e\<in>set es. \<exists>a\<in>set e. getPrinter_in a False 0 (uploads.board w) = Some n}"
proof -
  have fields: "distinct (batchIps (fold setBatchIps es u)) \<and> uploads.board (fold setBatchIps es u) = uploads.board u
      \<and> set (batchIps (fold setBatchIps es u)) = set (batchIps u) \<union> \<Union> (set ` set es)"
    if "distinct (batchIps u)" for u
    using that
  proof (induction es arbitrary: u)
    case (Cons e es)
    have "set (fold (\<lambda>r xs. if r \<in> set xs then xs else xs @ [r]) e xs) = set xs \<union> set e" for xs
      by (induction e arbitrary: xs) auto
    with Cons.IH [of "setBatchIps e u"] setBatchIps_distinct [OF Cons.prems, of e] show ?case
      by (auto simp: setBatchIps_def)
  qed simp
  have v: "distinct (batchIps v)" "uploads.board v = uploads.board w" "set (batchIps v) = \<Union> (set ` set es)"
    using fields [of w] assms by simp_all
  have "distinct (List.map_filter (\<lambda>a. getPrinter_in a False 0 (uploads.board v)) (batchIps v))"
    using v(1) by (rule distinct_map_filter) (metis found_address)
  with v show ?thesis by (auto simp: task_rows_def set_map_filter)
qed

theorem tasks_are_listed_once_in_order_witness:
  "distinct (task_rows (fold setBatchIps [[''a'', ''b''], [''b'', ''x'']] demo_uploads))
   \<and> set (task_rows (fold setBatchIps [[''a'', ''b''], [''b'', ''x'']] demo_uploads)) = {0, 1}"
proof -
  have "batchIps demo_uploads = []" "uploads.board demo_uploads = demo_board" by (simp_all add: demo_uploads_def)
  moreover have "{n. \<exists>e\<in>set [[''a'', ''b''], [''b'', ''x'']]. \<exists>a\<in>set e. getPrinter_in a False 0 demo_board = Some n} = {0, 1}"
    by (auto simp: getPrinter_in_def)
  ultimately show ?thesis
    using tasks_are_listed_once_in_order [of demo_uploads _ "[[''a'', ''b''], [''b'', ''x'']]", OF _ refl] by simp
qed


text \<open>
  How the window's messages reach the page (\<open>ln.registerHandler\<close>, \<open>ln.HandleStudio\<close>) and the
  one that sends the page to a printer or hands it a file for many printers
  (\<open>_n.HandleSwitchPrinterDetailPage\<close>), where the page and the queue of uploads meet.
\<close>

section \<open>Handlers\<close>

text \<open>The table \<open>ln.map\<close>; a handler is named by whatever stands for its function.\<close>

definition registerHandler :: "string \<Rightarrow> 'h \<Rightarrow> (string, 'h) jsmap \<Rightarrow> (string, 'h) jsmap" where
  "registerHandler t r m = jm_set t r m"

definition own_data :: "json \<Rightarrow> json" where
  "own_data r =
     (case r of
        JObj ms \<Rightarrow> (case map_of ms ''data'' of None \<Rightarrow> r | Some d \<Rightarrow> d)
      | _ \<Rightarrow> r)"

text \<open>The handler that is called and its argument; \<open>None\<close> when none is, also when the text cannot
  be read.  \<open>parse\<close> is \<open>JSON.parse\<close> after \<open>decodeURIComponent\<close>.\<close>

definition HandleStudio :: "(string \<Rightarrow> json option) \<Rightarrow> (string, 'h) jsmap \<Rightarrow> json \<Rightarrow> ('h \<times> json) option" where
  "HandleStudio parse m t =
     (case (case t of
              JStr x \<Rightarrow> parse (map (\<lambda>c. if c = CHR ''+'' then CHR '' '' else c) x)
            | JObj ms \<Rightarrow> Some t
            | JArr xs \<Rightarrow> Some t
            | _ \<Rightarrow> None) of
        None \<Rightarrow> None
      | Some r \<Rightarrow>
          (case jget r ''command'' of
             JStr c \<Rightarrow> if c = ''track'' then None else map_option (\<lambda>h. (h, own_data r)) (jm_get m c)
           | _ \<Rightarrow> None))"

section \<open>Going to a printer, or sending to many\<close>

text \<open>The store of printers is one: the page and the uploads see each other's changes.\<close>

type_synonym window = "shell \<times> uploads"

definition one_store :: "window \<Rightarrow> bool" where
  "one_store w = (shell.board (fst w) = uploads.board (snd w))"

record switch_message =
  sm_ip :: string            \<comment> \<open>empty when there is none\<close>
  sm_name :: string
  sm_data :: "batch_request option"

text \<open>\<open>None\<close> is a loop that does not end.  What throws is caught.\<close>

definition HandleSwitchPrinterDetailPage :: "switch_message \<Rightarrow> window \<Rightarrow> window option" where
  "HandleSwitchPrinterDetailPage t w =
     (let (s, u) = w in
      if sm_ip t \<noteq> [] then Some (AppShell.or_same (viewDetialEvent (sm_name t) (sm_ip t)) s, u)
      else
        let s1 = viewDeviceList s in
        (case sm_data t of
           None \<Rightarrow> Some (s1, u)
         | Some e \<Rightarrow> map_option (\<lambda>u1. (s1\<lparr>shell.board := uploads.board u1\<rparr>, u1)) (JKe e u)))"

section \<open>Properties\<close>

text \<open>A message of the window reaches the handler that was registered last for its command,
  whoever registered one before, and no other; it makes no difference whether it comes as an
  object or as its text.\<close>

theorem message_reaches_the_last_handler:
  assumes "c \<noteq> ''track''" and "jget (JObj ms) ''command'' = JStr c" and "parse x = Some (JObj ms)" and "CHR ''+'' \<notin> set x"
  shows "HandleStudio parse (fold (\<lambda>(k, h). registerHandler k h) hs []) (JObj ms)
      = map_option (\<lambda>h. (h, own_data (JObj ms))) (map_of (rev hs) c)
    \<and> HandleStudio parse (fold (\<lambda>(k, h). registerHandler k h) hs []) (JStr x)
      = map_option (\<lambda>h. (h, own_data (JObj ms))) (map_of (rev hs) c)"
proof -
  have get: "jm_get (fold (\<lambda>(k, h). registerHandler k h) hs []) c = map_of (rev hs) c"
    by (induction hs rule: rev_induct) (auto simp: registerHandler_def js_simps split: prod.split)
  have "map (\<lambda>c. if c = CHR ''+'' then CHR '' '' else c) x = x"
    using assms(4) by (intro map_idI) auto
  with assms(1-3) get show ?thesis by (simp add: HandleStudio_def)
qed

definition offer_note :: json where
  "offer_note = JObj [(''command'', JStr ''get_webrtc_local_param''), (''data'', JStr ''sdp'')]"

theorem message_reaches_the_last_handler_witness:
  "HandleStudio (\<lambda>_. Some offer_note) (fold (\<lambda>(k, h). registerHandler k h)
      [(''get_webrtc_local_param'', 1::nat), (''get_lang'', 2), (''get_webrtc_local_param'', 3)] []) offer_note
    = Some (3, JStr ''sdp'')"
  using message_reaches_the_last_handler [of "''get_webrtc_local_param''"
      "[(''command'', JStr ''get_webrtc_local_param''), (''data'', JStr ''sdp'')]" "\<lambda>_. Some offer_note" "[]"
      "[(''get_webrtc_local_param'', 1::nat), (''get_lang'', 2), (''get_webrtc_local_param'', 3)]"]
  by (simp add: offer_note_def own_data_def)

text \<open>A file that is handed to many printers while the page of one is shown closes that page
  and opens the list of tasks; every printer asked for is sent the file or waits for it, after
  those that waited before; and the page and the uploads still see one store.\<close>

theorem handed_file_closes_the_page:
  assumes "sm_ip t = []" and "sm_data t = Some e" and "0 < r_printNum e"
    and "all_local (r_deviceIps e) (uploads.board u)" and "all_local (waiting u) (uploads.board u)"
    and "one_store (s, u)"
  shows "\<exists>s' u'. HandleSwitchPrinterDetailPage t (s, u) = Some (s', u') \<and> one_store (s', u')
    \<and> \<not> detail_visable s' \<and> tabs s' = tabs s \<and> showDialog u'
    \<and> sent (uploads.board u') @ waiting u' = sent (uploads.board u) @ waiting u @ r_deviceIps e"
proof -
  from JKe_moves [OF assms(3-5)] obtain u' where u': "JKe e u = Some u'" "moves (r_deviceIps e) u u'" "showDialog u'" by blast
  with u' assms(1,2) show ?thesis
    by (simp add: HandleSwitchPrinterDetailPage_def viewDeviceList_def one_store_def moves_def)
qed

theorem handed_file_closes_the_page_witness:
  "\<exists>s' u'. HandleSwitchPrinterDetailPage \<lparr>sm_ip = [], sm_name = [], sm_data = Some (demo_request [''a'', ''b''])\<rparr>
      (demo_shell\<lparr>shell.board := demo_board, detail_visable := True\<rparr>, demo_uploads) = Some (s', u')
    \<and> \<not> detail_visable s' \<and> showDialog u' \<and> sent (uploads.board u') @ waiting u' = [''a'', ''b'']"
  using handed_file_closes_the_page [of "\<lparr>sm_ip = [], sm_name = [], sm_data = Some (demo_request [''a'', ''b''])\<rparr>"
      "demo_request [''a'', ''b'']" demo_uploads "demo_shell\<lparr>shell.board := demo_board, detail_visable := True\<rparr>"]
  by (simp add: demo_request_def demo_uploads_def all_local_def waiting_def one_store_def getPrinter_in_def sent_def) blast

end
