(* ===== verification/Dates.thy ===== *)
theory Dates
  imports Formats
begin

text \<open>
  Sizes and dates as text (\<open>Dce\<close>, \<open>wu\<close> and \<open>L1\<close> of \<open>CeX73yR3.js\<close>).  The parts of a local date
  are given: what \<open>Date\<close> makes of a number of seconds depends on the place.
\<close>

section \<open>Sizes\<close>

text \<open>\<open>toFixed(2)\<close> of a number that is not negative.\<close>

definition two_decimals :: "rat \<Rightarrow> string" where
  "two_decimals q =
     (let n = nat \<lfloor>100 * q + 1 / 2\<rfloor> in show_nat (n div 100) @ CHR ''.'' # pad2 (show_nat (n mod 100)))"

definition Dce :: "rat \<Rightarrow> string" where
  "Dce e =
     (let (v, u) = (if e < 1 / 10 * 1024 then (e, ''B'')
                    else if e < 1 / 10 * 1024 * 1024 then (e / 1024, ''KB'')
                    else if e < 1 / 10 * 1024 * 1024 * 1024 then (e / (1024 * 1024), ''MB'')
                    else (e / (1024 * 1024 * 1024), ''GB''));
          r = two_decimals v @ u; i = takeWhile (\<lambda>c. c \<noteq> CHR ''.'') r; d = drop (Suc (length i)) r
      in if take 2 d = ''00'' then i @ take 2 (drop 2 d) else r)"

section \<open>Dates\<close>

record date_parts =
  dt_year :: nat
  dt_month :: nat    \<comment> \<open>\<open>getMonth() + 1\<close>\<close>
  dt_day :: nat
  dt_hour :: nat
  dt_minute :: nat
  dt_second :: nat

definition two_digits :: "nat \<Rightarrow> string" where
  "two_digits a = (if a < 10 then ''0'' else []) @ show_nat a"

text \<open>\<open>t.replace(/yyyy|MM|dd|HH|mm|ss/g, ..)\<close>.\<close>

function L1 :: "date_parts \<Rightarrow> string \<Rightarrow> string" where
  "L1 r [] = []"
| "L1 r (c # cs) =
     (if prefix ''yyyy'' (c # cs) then two_digits (dt_year r) @ L1 r (drop 3 cs)
      else if prefix ''MM'' (c # cs) then two_digits (dt_month r) @ L1 r (drop 1 cs)
      else if prefix ''dd'' (c # cs) then two_digits (dt_day r) @ L1 r (drop 1 cs)
      else if prefix ''HH'' (c # cs) then two_digits (dt_hour r) @ L1 r (drop 1 cs)
      else if prefix ''mm'' (c # cs) then two_digits (dt_minute r) @ L1 r (drop 1 cs)
      else if prefix ''ss'' (c # cs) then two_digits (dt_second r) @ L1 r (drop 1 cs)
      else c # L1 r cs)"
  by pat_completeness auto
termination
  by (relation "measure (\<lambda>(r, t). length t)") auto

text \<open>\<open>wu\<close>, of the date the minutes before now; the second argument is \<open>t\<close>.\<close>

definition wu :: "date_parts \<Rightarrow> bool \<Rightarrow> string" where
  "wu r t =
     (if t then two_digits (dt_month r) @ ''/'' @ two_digits (dt_day r) @ '' '' @ two_digits (dt_hour r) @ '':'' @ two_digits (dt_minute r)
      else two_digits (dt_hour r) @ '':'' @ two_digits (dt_minute r) @ '':'' @ two_digits (dt_second r))"

section \<open>Properties\<close>

text \<open>What reads a date in the usual form.\<close>

definition read_date :: "string \<Rightarrow> date_parts option" where
  "read_date t =
     (case expect ''-'' (read_digits 0 t) of None \<Rightarrow> None | Some (y, t1) \<Rightarrow>
      (case expect ''-'' (read_digits 0 t1) of None \<Rightarrow> None | Some (m, t2) \<Rightarrow>
      (case expect '' '' (read_digits 0 t2) of None \<Rightarrow> None | Some (d, t3) \<Rightarrow>
      (case expect '':'' (read_digits 0 t3) of None \<Rightarrow> None | Some (h, t4) \<Rightarrow>
      (case expect '':'' (read_digits 0 t4) of None \<Rightarrow> None | Some (n, t5) \<Rightarrow>
      (case read_digits 0 t5 of (s, t6) \<Rightarrow>
         if t6 = [] then Some \<lparr>dt_year = y, dt_month = m, dt_day = d, dt_hour = h, dt_minute = n, dt_second = s\<rparr>
         else None))))))"

lemma read_two_digits:
  "rest = [] \<or> char_digit (hd rest) = None \<Longrightarrow> read_digits 0 (two_digits n @ rest) = (n, rest)"
  using read_digits_show_nat read_zeros [of 1] by (simp add: two_digits_def)

text \<open>A date written as year, month, day, hour, minute and second is read back as it was: no
  part is taken for another, months and minutes apart, and no digit is lost.\<close>

theorem dates_are_read_back:
  "read_date (L1 r ''yyyy-MM-dd HH:mm:ss'') = Some r"
proof -
  have "L1 r ''yyyy-MM-dd HH:mm:ss'' = two_digits (dt_year r) @ ''-'' @ two_digits (dt_month r) @ ''-'' @ two_digits (dt_day r)
      @ '' '' @ two_digits (dt_hour r) @ '':'' @ two_digits (dt_minute r) @ '':'' @ two_digits (dt_second r) @ []"
    by simp
  then show ?thesis
    by (simp only: read_date_def) (simp add: read_two_digits expect_def char_digit_def del: L1.simps append_Nil2)
qed

lemma show_zero: "show_nat 0 = ''0''"
  by code_simp

lemma two_decimals_nat: "two_decimals (of_nat n) = show_nat n @ ''.00''"
proof -
  have f: "\<lfloor>100 * of_nat n + 1 / 2 :: rat\<rfloor> = int (100 * n)" by (intro floor_unique) simp_all
  show ?thesis unfolding two_decimals_def f nat_int Let_def by (simp add: pad2_def show_zero)
qed

definition size_unit :: "nat \<Rightarrow> string" where
  "size_unit k = [''B'', ''KB'', ''MB'', ''GB''] ! k"

text \<open>A whole number of bytes, kilobytes, megabytes or gigabytes up to a hundred and two is
  written as that number with its unit and no decimals.\<close>

theorem whole_sizes_are_written_whole:
  assumes "k < 4" and "0 < n" and "n \<le> 102"
  shows "Dce (of_nat n * 1024 ^ k) = show_nat n @ size_unit k"
proof -
  have dot: "takeWhile (\<lambda>c. c \<noteq> CHR ''.'') (show_nat n @ ''.00'' @ u) = show_nat n" for u
  proof -
    have "\<forall>c\<in>set (show_nat n). c \<noteq> CHR ''.''"
      using all_digits_show_nat [of n] by (auto simp: all_digits_def list_all_iff char_digit_def)
    then show ?thesis by (simp add: takeWhile_append2)
  qed
  have n: "1 \<le> (of_nat n :: rat)" "(of_nat n :: rat) \<le> 102" using assms(2,3) by simp_all
  have "k = 0 \<or> k = 1 \<or> k = 2 \<or> k = 3" using assms(1) by linarith
  then show ?thesis
    using n dot by (elim disjE) (simp_all add: Dce_def two_decimals_nat size_unit_def Let_def eval_nat_numeral)
qed

theorem whole_sizes_are_written_whole_witness:
  "Dce (of_nat 5 * 1024 ^ 2) = show_nat 5 @ size_unit 2"
  using whole_sizes_are_written_whole [of 2 5] by simp

end
