(* ===== verification/Spec2Isabelle.thy ===== *)
theory Spec2Isabelle
  imports ClientProps ClientApi ErrorProps PlateProps DataProps KlipperProps OldPollingProps
    CloudProps WindowProps BatchProps CloudApi ChangeTypes DeviceServer RequestLimit GroupProps FileProps Diagnosis FilamentProps
    FilePrintProps TabBar ListProps InfoPages CameraPage DetailPage Dates
begin

text \<open>
  This development verifies the JavaScript and TypeScript of Connect3Dp: the client library
  \<open>src/Connect3Dp.JS\<close> that talks to a Connect3Dp server, and the printer dashboard
  \<open>src/Research/Creality/CeX73yR3.js\<close>, the bundle of a slicer's device page from which the
  project learned Creality's protocols.  Line numbers below are of the bundle.

  \<^bold>\<open>The client\<close> (\<open>client.ts\<close>, \<open>types/*.ts\<close>).  \<open>MachineTypes\<close>, \<open>Wire\<close> and \<open>ChangeTypes\<close> hold the
  interfaces as records and as types of JSON values; \<open>ClientTypes\<close> the payloads' types.
  \<open>ClientState\<close> is the state of \<open>Connect3DpClient\<close>: promises, timers, sockets, the table of
  pending requests, the subscriptions and the reconnect loops, with the private methods as
  operations; an \<open>async\<close> method is cut at each \<open>await\<close>, and what comes after is a continuation
  in the state.  \<open>Client\<close> has the public methods and the step relation over calls of the user,
  events of the sockets, timers and continuations.  \<open>ClientInv\<close> and \<open>ClientSteps\<close> prove its
  invariant, \<open>ClientTrace\<close> ties the state to what was sent, \<open>ClientProps\<close>,
  \<open>ClientReconnect\<close> and \<open>ClientApi\<close> hold the properties, \<open>ClientDemo\<close> a run that witnesses use.

  \<^bold>\<open>Printers and their sockets\<close>.  \<open>DeviceSocket\<close> is class \<open>Dm\<close>, a WebSocket that reconnects;
  \<open>PrinterTypes\<close> the printer object and the main store \<open>Ut\<close>; \<open>PrinterStore\<close> and \<open>PrinterService\<close>
  the printer manager \<open>M4\<close>: groups, marks, sockets, heartbeat, saved printers.  Printers are
  objects shared by reference in the code; here they are a store from numbers to records, and a
  group lists numbers.  \<open>PrinterLemmas\<close>, \<open>PrinterListing\<close>, \<open>PrinterProps\<close> and \<open>PrinterView\<close> prove
  what the operations keep.  \<open>AddressBook\<close> is the abstract specification of the groups, lists of
  addresses, and shows by the simulation of \<open>Simulation\<close> that the manager implements it;
  \<open>ListedOnce\<close> proves of it that no address is listed twice.
  \<open>DeviceCommands\<close> (class \<open>Ht\<close>) sends commands over a socket, \<open>OldPrinter\<close> (class \<open>pl\<close>) over HTTP,
  \<open>CloudApi\<close> (class \<open>rr\<close>) by requests to the cloud; \<open>CommandProps\<close> has their common contract.
  \<open>PrinterData\<close>, \<open>OldPolling\<close>, \<open>FileList\<close>, \<open>Klipper\<close> and \<open>CloudData\<close> read what printers of the
  four kinds answer into the printer object; \<open>DataProps\<close>, \<open>OldPollingProps\<close>, \<open>KlipperProps\<close> and
  \<open>CloudProps\<close> say what the object then shows.

  \<^bold>\<open>Printing\<close>.  \<open>ColorDistance\<close> is CIEDE2000 over the reals, \<open>ColorMatch\<close> the greedy matching of
  extruders with slots, \<open>PlatePrint\<close> the store of plates and the print command, \<open>BatchUpload\<close> the
  queue that uploads one file to many printers (\<open>JKe\<close>); \<open>RequestLimit\<close> the limiter of concurrent
  requests (\<open>VZe\<close>) with the microtasks it schedules; \<open>Formats\<close> and \<open>Dates\<close> write durations,
  sizes and dates.  \<open>ErrorTable\<close> and \<open>ErrorTip\<close> are the tables
  of errors and the dialog that offers what to do.  \<open>ColorProps\<close>, \<open>PlateProps\<close>, \<open>BatchProps\<close> and
  \<open>ErrorProps\<close> hold the properties.

  \<^bold>\<open>The window and the pages\<close>.  \<open>WindowMessages\<close> (class \<open>_n\<close>) and \<open>DeviceServer\<close> (class \<open>G4\<close>)
  answer the window around the page; \<open>AppShell\<close> is the component \<open>App\<close>, which holds the session,
  the intervals and the account's printers; \<open>Diagnosis\<close> its test of a connection; \<open>AddDevice\<close> and
  \<open>GroupDialogs\<close> the dialogs that add, name and arrange printers.  \<open>TabBar\<close> is the row of tabs and
  what holds of it; \<open>DeviceList\<close> the table and the cards of printers with their menus, and the
  dialog that links the colours of a project with spools.  \<open>WindowProps\<close>, \<open>AppProps\<close>, \<open>AddProps\<close>,
  \<open>GroupProps\<close> and \<open>ListProps\<close> hold the properties.

  \<^bold>\<open>The page of a printer\<close>.  \<open>DetailPage\<close> is \<open>DeviceDetial\<close>, which chooses the panels, the dialog
  of the tasks, the table of the window's handlers and the message that changes the page or
  hands a file to many printers.  The panels: \<open>InfoPages\<close> the print (\<open>DeviceInfo\<close>) and the
  temperatures (\<open>DeviceTemperature\<close>); \<open>CtrolPage\<close> the controls; \<open>FilePage\<close> the files, and
  \<open>FilePrint\<close> the dialog before one of them is printed; \<open>CameraPage\<close> the camera (\<open>DeviceCamera\<close>)
  and the objects of a print (\<open>ExcludeObject\<close>).  \<open>Filament\<close>, \<open>DefaultFilaments\<close>, \<open>FilamentPage\<close> and
  \<open>FilamentActs\<close> are the boxes of spools, the form of a spool (\<open>DeviceFilament\<close>) and the panel of
  the small box.  \<open>DetailPage\<close>, \<open>InfoPages\<close> and \<open>CameraPage\<close> hold their properties themselves, the
  others are in \<open>FileProps\<close>, \<open>CtrolProps\<close>, \<open>FilePrintProps\<close> and \<open>FilamentProps\<close>.

  \<^bold>\<open>How the code is modelled\<close>.  A JSON value is the type \<open>json\<close> of \<open>Prelude\<close>, with \<open>undefined\<close>;
  numbers are rationals, and \<open>NaN\<close> is \<open>None\<close> of an option.  A method that throws returns \<open>None\<close>
  where the exception leaves it, and \<open>or_same\<close> stands for the caller that drops the exception.
  What the platform does for the client, that a promise settles once and that a WebSocket's
  states come in their order with one close event, is built into \<open>settle\<close> and \<open>can_happen\<close> and not
  claimed of the code.  A callback is an operation of its own whose argument is the answer, so every interleaving of
  answers, timers and clicks is a list of steps; what the callback closed over is an argument or
  part of the state.  Messages to printers, the cloud and the window are a list of outputs in
  the state.  Identifiers, clocks, random numbers and the texts of translations and local dates
  are arguments.  Loops over lists are folds; a loop that deletes from the list it walks is
  written by index.  Reconnect loops, resends, polls and waiting intervals are steps whose
  number is bounded by theorems; the only fuel is the number of digits \<open>show_number\<close> writes of a
  fraction, twenty, more than a JavaScript number has.

  \<^bold>\<open>Groups of lemmas\<close>.  Invariants: \<open>client_inv\<close> (no request is lost, timers are their
  requests'), \<open>listed_once\<close> and \<open>distinct_addresses\<close> of the manager, the
  queue of the batch, the counts of the limiter, the history of temperatures, the tabs, a camera that is wanted.  Refinement: the address book.  Types:
  what the client sends and what its listeners get.  Round trips: durations, times, listings.
  Termination and liveness: loops, polls, resends, waiting, and where the code never stops.
  Several theorems state behaviour that is not what the code means to do; the manifest lists
  them as findings.

  Interfaces are locales: the laws of the keyed store that JavaScript's \<open>Map\<close> is for the client
  (\<open>JsMap\<close>), of the methods that mark a printer, of the commands to a printer and of a simulation
  are assumed where they are used and discharged by interpretations on the definitions of the
  code.

  \<^bold>\<open>Not modelled\<close>.  Vue's rendering and reactivity (a watcher is an operation that is called when
  its source changes), the bundled libraries (Vue, Pinia, Element Plus, axios, lodash, JSZip,
  date-fns), translations, drawing on canvases and charts, animations, hot keys (hotkeys.js), carousels (Swiper),
  the debug dialogs, floating-point rounding (distances and
  temperatures are exact), the aliasing of a received message with the printer's data, and the
  C# parts of the project.  What is left of the application's own script is rendering: the
  functions that build the elements of a page, the pictures and the styles.
\<close>

end
